(* ===== verification/Prelude.thy ===== *)
theory Prelude
  imports Main "HOL-Library.Char_ord" "HOL-Library.List_Lexorder" "HOL-Library.Sublist"
begin

text \<open>
  Shared vocabulary of the development: the Go types the model uses throughout (byte
  strings, 64-bit integers, instants), the result type of fallible code, ordered association
  lists, and the lemmas on byte order and prefixes that the component theories need.

  Go strings and byte slices are both sequences of bytes, so both are \<open>char list\<close>; the order
  of \<^verbatim>\<open>bytes.Compare\<close> is the lexicographic order of \<^verbatim>\<open>List_Lexorder\<close> over \<^verbatim>\<open>Char_ord\<close>.
\<close>

type_synonym bytes = "char list"

text \<open>An instant is the number of nanoseconds since Go's zero \<^verbatim>\<open>time.Time\<close>.\<close>

type_synonym time = int

text \<open>
  A Go \<^verbatim>\<open>int64\<close> is an \<^typ>\<open>int\<close> kept in range by \<open>wrap64\<close>, which every addition
  of the source that can leave the range goes through.
\<close>

type_synonym int64 = int

definition wrap64 :: "int \<Rightarrow> int64" where
  "wrap64 i = (i + 2 ^ 63) mod 2 ^ 64 - 2 ^ 63"

text \<open>A conversion to \<^verbatim>\<open>int32\<close>.\<close>

definition wrap32 :: "int \<Rightarrow> int" where
  "wrap32 i = (i + 2 ^ 31) mod 2 ^ 32 - 2 ^ 31"

definition in_int64 :: "int \<Rightarrow> bool" where
  "in_int64 i \<longleftrightarrow> - (2 ^ 63) \<le> i \<and> i < 2 ^ 63"

text \<open>The result of fallible code: \<open>Inl\<close> carries the error, \<open>Inr\<close> the value.\<close>

abbreviation Err :: "'e \<Rightarrow> 'e + 'a" where
  "Err \<equiv> Inl"

abbreviation Ok :: "'a \<Rightarrow> 'e + 'a" where
  "Ok \<equiv> Inr"

named_theorems key_simps \<open>byte order, prefixes and the key encodings\<close>
named_theorems bolt_simps \<open>reading and writing buckets\<close>
named_theorems repo_simps \<open>unfolding the repository operations\<close>

definition is_ok :: "'e + 'a \<Rightarrow> bool" where
  "is_ok r = (case r of Inl _ \<Rightarrow> False | Inr _ \<Rightarrow> True)"

lemma is_ok_simps [simp]: "is_ok (Inl e) = False" "is_ok (Inr x) = True"
  by (simp_all add: is_ok_def)

section \<open>64-bit integers\<close>

lemma wrap64_id [simp]: "in_int64 i \<Longrightarrow> wrap64 i = i"
  by (auto simp: wrap64_def in_int64_def)

lemma in_int64_wrap64 [simp]: "in_int64 (wrap64 i)"
proof -
  have "0 \<le> (i + 2 ^ 63) mod 2 ^ 64" "(i + 2 ^ 63) mod 2 ^ 64 < 2 ^ 64"
    by simp_all
  then show ?thesis by (simp add: wrap64_def in_int64_def)
qed

lemma wrap64_mod: "wrap64 (i mod 2 ^ 64) = wrap64 i"
  by (simp add: wrap64_def mod_add_left_eq)

section \<open>Byte order and prefixes\<close>

lemma less_append_same [key_simps]: "(xs @ ys < xs @ zs) \<longleftrightarrow> (ys < (zs :: 'a::linorder list))"
  by (induction xs) auto

lemma le_append_same [key_simps]: "(xs @ ys \<le> xs @ zs) \<longleftrightarrow> (ys \<le> (zs :: 'a::linorder list))"
  by (induction xs) auto

lemma le_prefix: "xs \<le> (xs @ ys :: 'a::linorder list)"
  by (induction xs) auto

lemma prefix_le: "prefix xs ys \<Longrightarrow> xs \<le> (ys :: 'a::linorder list)"
  by (auto simp: prefix_def le_prefix)

text \<open>The keys with a given prefix form an interval of the byte order.\<close>

lemma prefix_interval:
  fixes p k l :: "'a::linorder list"
  assumes "prefix p l" and "p \<le> k" and "k \<le> l"
  shows "prefix p k"
  using assms
proof (induction p arbitrary: k l)
  case Nil
  then show ?case by simp
next
  case (Cons a p)
  then obtain l' where l: "l = a # l'" "prefix p l'" by (cases l) auto
  with Cons.prems obtain b k' where k: "k = b # k'" by (cases k) auto
  with Cons.prems l have "b = a" by auto
  with Cons.prems k l have "p \<le> k'" "k' \<le> l'" by auto
  with Cons.IH l have "prefix p k'" by blast
  with k \<open>b = a\<close> show ?case by simp
qed

section \<open>Ordered association lists\<close>

text \<open>
  A finite map in key order: strictly ascending keys, so lookup by \<open>map_of\<close> is exact and two
  lists with the same lookup are equal.
\<close>

abbreviation ascending :: "('k::linorder \<times> 'v) list \<Rightarrow> bool" where
  "ascending xs \<equiv> sorted_wrt (<) (map fst xs)"

fun al_put :: "'k::linorder \<Rightarrow> 'v \<Rightarrow> ('k \<times> 'v) list \<Rightarrow> ('k \<times> 'v) list" where
  "al_put k v [] = [(k, v)]"
| "al_put k v ((k', v') # rest) =
     (if k' < k then (k', v') # al_put k v rest
      else if k' = k then (k, v) # rest
      else (k, v) # (k', v') # rest)"

definition al_del :: "'k \<Rightarrow> ('k \<times> 'v) list \<Rightarrow> ('k \<times> 'v) list" where
  "al_del k xs = filter (\<lambda>e. fst e \<noteq> k) xs"

lemma map_of_al_put: "map_of (al_put k v xs) = (map_of xs)(k \<mapsto> v)"
  by (induction k v xs rule: al_put.induct) (auto simp: fun_eq_iff)

lemma map_of_al_del: "map_of (al_del k xs) = (map_of xs)(k := None)"
  by (induction xs) (auto simp: al_del_def fun_eq_iff)

lemma set_al_put: "fst ` set (al_put k v xs) = insert k (fst ` set xs)"
  by (induction k v xs rule: al_put.induct) auto

lemma ascending_al_put: "ascending xs \<Longrightarrow> ascending (al_put k v xs)"
proof (induction k v xs rule: al_put.induct)
  case (2 k v k' v' rest)
  have "\<forall>y \<in> fst ` set (al_put k v rest). k' < y" if "k' < k"
    using that 2(2) by (auto simp: set_al_put)
  with 2 show ?case by (auto dest: less_trans)
qed simp

lemma ascending_filter: "ascending xs \<Longrightarrow> ascending (filter P xs)"
  by (induction xs) auto

lemma ascending_al_del: "ascending xs \<Longrightarrow> ascending (al_del k xs)"
  by (simp add: al_del_def ascending_filter)

lemma ascending_distinct: "ascending xs \<Longrightarrow> distinct (map fst xs)"
  by (simp add: strict_sorted_iff)

lemma ascending_map_of: "ascending xs \<Longrightarrow> (map_of xs k = Some v) \<longleftrightarrow> (k, v) \<in> set xs"
  by (simp add: ascending_distinct)

text \<open>A scan from a lower bound that stops at the first failing key, over an interval.\<close>

lemma dropWhile_ascending:
  "ascending xs \<Longrightarrow> dropWhile (\<lambda>e. fst e < s) xs = filter (\<lambda>e. s \<le> fst e) xs"
proof (induction xs)
  case (Cons x xs)
  show ?case
  proof (cases "fst x < s")
    case False
    with Cons.prems have "\<forall>e \<in> set xs. s \<le> fst e" by force
    with False show ?thesis by (auto simp: not_less)
  qed (use Cons in auto)
qed simp

lemma takeWhile_ascending:
  "ascending xs \<Longrightarrow> takeWhile (\<lambda>e. fst e < s) xs = filter (\<lambda>e. fst e < s) xs"
proof (induction xs)
  case (Cons x xs)
  show ?case
  proof (cases "fst x < s")
    case False
    with Cons.prems have "\<forall>e \<in> set xs. \<not> fst e < s" by force
    with False show ?thesis by auto
  qed (use Cons in auto)
qed simp

lemma takeWhile_downward:
  assumes "sorted_wrt R xs" and "\<And>x y. R x y \<Longrightarrow> P y \<Longrightarrow> P x"
  shows "takeWhile P xs = filter P xs"
  using assms(1)
proof (induction xs)
  case (Cons x xs)
  show ?case
  proof (cases "P x")
    case False
    with Cons.prems assms(2) have "\<forall>y \<in> set xs. \<not> P y" by auto
    with False show ?thesis by simp
  qed (use Cons in auto)
qed simp

end
