(* ===== verification/Domain.thy ===== *)
theory Domain
  imports Prelude
begin

text \<open>
  The entities and pure rules of \<^verbatim>\<open>src/internal/domain\<close>: configs and their formats, watch
  events and history entries, key-value pairs, canonical names, namespaces, the error
  vocabulary of the domain, storage and bbolt layers, and the permission algebra of
  \<^verbatim>\<open>rbac.go\<close>. An error is represented by the sentinel at the end of its \<^verbatim>\<open>%w\<close> chain together
  with the payload of its constructor; the text that the wrapping layers prepend is dropped,
  and \<^verbatim>\<open>errors.Is\<close> is a predicate on that sentinel.
\<close>

section \<open>String primitives of the Go library\<close>

definition hasPrefix :: "string \<Rightarrow> string \<Rightarrow> bool" where
  "hasPrefix s p = prefix p s"

definition hasSuffix :: "string \<Rightarrow> string \<Rightarrow> bool" where
  "hasSuffix s p = prefix (rev p) (rev s)"

fun containsStr :: "string \<Rightarrow> string \<Rightarrow> bool" where
  "containsStr [] sub = prefix sub []"
| "containsStr (c # s) sub = (prefix sub (c # s) \<or> containsStr s sub)"

definition trimPrefix :: "string \<Rightarrow> string \<Rightarrow> string" where
  "trimPrefix s p = (if hasPrefix s p then drop (length p) s else s)"

text \<open>The verbs \<^verbatim>\<open>%d\<close>, and \<^verbatim>\<open>%q\<close> of a string that needs no escapes.\<close>

fun natDigits :: "nat \<Rightarrow> string" where
  "natDigits n = (if n < 10 then [char_of (48 + n)] else natDigits (n div 10) @ [char_of (48 + n mod 10)])"

definition itoa :: "int \<Rightarrow> string" where
  "itoa i = (if i < 0 then CHR ''-'' # natDigits (nat (- i)) else natDigits (nat i))"

definition quoted :: "string \<Rightarrow> string" where
  "quoted s = [CHR 0x22] @ s @ [CHR 0x22]"

declare natDigits.simps [simp del]

lemma hasSuffix_iff: "hasSuffix s p \<longleftrightarrow> suffix p s"
  by (simp add: hasSuffix_def suffix_to_prefix)

lemma containsStr_iff: "containsStr s sub \<longleftrightarrow> sublist sub s"
  by (induction s) (auto simp: sublist_Cons_right)

section \<open>Errors\<close>

text \<open>
  \<open>ErrBoltIO\<close> stands for the failures the bbolt engine itself may return (limits on key
  and value size, disk errors); \<open>ErrExternal\<close> for the errors of parsers and other libraries; \<open>ErrDecode\<close> for a value that does not decode as JSON of the
  expected shape; \<open>Panic\<close> for a run-time panic, which unwinds like an error.
\<close>

text \<open>\<^verbatim>\<open>SchemaViolation\<close>: path, message and keyword.\<close>

type_synonym SchemaViolation = "string \<times> string \<times> string"

datatype err =
    ErrNotFound string string
  | ErrAlreadyExists string string
  | ErrVersionConflict int64 int64
  | ErrSystemImmutable
  | ErrInvalidFormat string
  | ErrInvalidContent string
  | ErrLocked string
  | ErrNamespaceLocked string
  | ErrForbidden
  | ErrUnauthorized
  | ErrPermissionEscalation
  | ErrSessionNotFound
  | ErrSessionExpired
  | ErrSessionRevoked
  | ErrUserDeactivated
  | ErrIdentityTaken
  | ErrInvalidIdentityProvider
  | ErrEmailTaken
  | ErrIdentityNotProvisioned
  | ErrPasswordChangeRequired
  | ErrValidation string string
  | ErrSchemaValidation "SchemaViolation list"
  | ErrResourceNotFound string
  | ErrResourceAlreadyExists string
  | ErrBboltNotFound
  | ErrBucketNotFound string
  | ErrTxNotWritable
  | ErrDecode
  | ErrBoltIO nat
  | ErrExternal string
  | Panic string

text \<open>\<^verbatim>\<open>errors.Is(err, domain.ErrLocked)\<close>: \<^verbatim>\<open>ErrNamespaceLocked\<close> wraps \<^verbatim>\<open>ErrLocked\<close>.\<close>

definition isErrLocked :: "err \<Rightarrow> bool" where
  "isErrLocked e = (case e of ErrLocked _ \<Rightarrow> True | ErrNamespaceLocked _ \<Rightarrow> True | _ \<Rightarrow> False)"

definition isErrNamespaceLocked :: "err \<Rightarrow> bool" where
  "isErrNamespaceLocked e = (case e of ErrNamespaceLocked _ \<Rightarrow> True | _ \<Rightarrow> False)"

definition isSchemaValidationError :: "err \<Rightarrow> bool" where
  "isSchemaValidationError e = (case e of ErrSchemaValidation _ \<Rightarrow> True | _ \<Rightarrow> False)"

definition isValidationError :: "err \<Rightarrow> bool" where
  "isValidationError e = (case e of ErrValidation _ _ \<Rightarrow> True | _ \<Rightarrow> False)"

definition NewLockedError :: "string \<Rightarrow> err" where
  "NewLockedError path = ErrLocked path"

definition NewConflictError :: "int64 \<Rightarrow> int64 \<Rightarrow> err" where
  "NewConflictError expected actual = ErrVersionConflict expected actual"

definition NewNotFoundError :: "string \<Rightarrow> string \<Rightarrow> err" where
  "NewNotFoundError resource identifier = ErrNotFound resource identifier"

definition NewAlreadyExistsError :: "string \<Rightarrow> string \<Rightarrow> err" where
  "NewAlreadyExistsError resource identifier = ErrAlreadyExists resource identifier"

definition CheckVersion :: "int64 option \<Rightarrow> int64 \<Rightarrow> err + unit" where
  "CheckVersion expected current =
     (case expected of
        None \<Rightarrow> Ok ()
      | Some v \<Rightarrow> if v \<noteq> current then Err (ErrVersionConflict v current) else Ok ())"

section \<open>Formats and paths\<close>

type_synonym Format = string

definition FormatJSON :: Format where "FormatJSON = ''json''"
definition FormatYAML :: Format where "FormatYAML = ''yaml''"
definition FormatOther :: Format where "FormatOther = ''other''"

lemmas format_defs = FormatJSON_def FormatYAML_def FormatOther_def

definition ParseFormat :: "string \<Rightarrow> err + Format" where
  "ParseFormat s =
     (if s = ''json'' then Ok FormatJSON
      else if s = ''yaml'' \<or> s = ''yml'' then Ok FormatYAML
      else if s = ''other'' then Ok FormatOther
      else Err (ErrInvalidFormat s))"

definition DetectFormatFromPath :: "string \<Rightarrow> Format" where
  "DetectFormatFromPath path =
     (if hasSuffix path ''.json'' then FormatJSON
      else if hasSuffix path ''.yaml'' \<or> hasSuffix path ''.yml'' then FormatYAML
      else FormatOther)"

definition ValidatePath :: "string \<Rightarrow> err + unit" where
  "ValidatePath path =
     (if path = [] then Err (ErrValidation ''path'' ''path is required'')
      else if \<not> hasPrefix path ''/'' then Err (ErrValidation ''path'' ''path must start with /'')
      else if containsStr path ''//'' then Err (ErrValidation ''path'' ''path must not contain //'')
      else if hasSuffix path ''/'' then Err (ErrValidation ''path'' ''path must not end with /'')
      else Ok ())"

section \<open>Configs\<close>

text \<open>
  A Go \<^verbatim>\<open>map[string]string\<close> that is only stored and copied is an optional association list;
  \<open>None\<close> is the nil map.
\<close>

type_synonym metadata = "(string \<times> string) list option"

record Config =
  cfg_Path :: string
  cfg_Content :: bytes
  cfg_ContentHash :: string
  cfg_Format :: Format
  cfg_Version :: int64
  cfg_Revision :: int64
  cfg_CreateRevision :: int64
  cfg_Namespace :: string
  cfg_Metadata :: metadata
  cfg_Locked :: bool
  cfg_NamespaceLocked :: bool
  cfg_CreatedAt :: time
  cfg_UpdatedAt :: time

record ConfigSummary =
  sum_Path :: string
  sum_ContentHash :: string
  sum_Format :: Format
  sum_Version :: int64
  sum_Revision :: int64
  sum_Namespace :: string
  sum_Metadata :: metadata
  sum_Locked :: bool
  sum_NamespaceLocked :: bool
  sum_CreatedAt :: time
  sum_UpdatedAt :: time

text \<open>\<^verbatim>\<open>SHA-256\<close> in hexadecimal is the parameter \<open>sha\<close> of every definition that hashes.\<close>

definition GenerateHash :: "(bytes \<Rightarrow> string) \<Rightarrow> Config \<Rightarrow> Config" where
  "GenerateHash sha c = c\<lparr>cfg_ContentHash := sha (cfg_Content c)\<rparr>"

definition SetDefaults :: "Config \<Rightarrow> Config" where
  "SetDefaults c =
     (case cfg_Metadata c of None \<Rightarrow> c\<lparr>cfg_Metadata := Some []\<rparr> | Some _ \<Rightarrow> c)"

record KVPair =
  kv_Namespace :: string
  kv_Path :: string
  kv_Value :: bytes
  kv_CreateRevision :: int64
  kv_ModRevision :: int64
  kv_Version :: int64

section \<open>Watch events and history\<close>

type_synonym EventType = int

definition EventTypeCreated :: EventType where "EventTypeCreated = 1"
definition EventTypeUpdated :: EventType where "EventTypeUpdated = 2"
definition EventTypeDeleted :: EventType where "EventTypeDeleted = 3"
definition EventTypeLocked :: EventType where "EventTypeLocked = 4"
definition EventTypeUnlocked :: EventType where "EventTypeUnlocked = 5"
definition EventTypeNamespaceLocked :: EventType where "EventTypeNamespaceLocked = 6"
definition EventTypeNamespaceUnlocked :: EventType where "EventTypeNamespaceUnlocked = 7"

lemmas event_type_defs =
  EventTypeCreated_def EventTypeUpdated_def EventTypeDeleted_def EventTypeLocked_def
  EventTypeUnlocked_def EventTypeNamespaceLocked_def EventTypeNamespaceUnlocked_def

record WatchEvent =
  we_Type :: EventType
  we_Path :: string
  we_Namespace :: string
  we_Revision :: int64
  we_Config :: "Config option"
  we_Timestamp :: time

record ChangelogEntry =
  cl_Revision :: int64
  cl_Type :: EventType
  cl_Path :: string
  cl_Namespace :: string
  cl_Version :: int64
  cl_Timestamp :: time

record HistoryEntry =
  he_Revision :: int64
  he_Content :: bytes
  he_ContentHash :: string
  he_EventType :: EventType
  he_Timestamp :: time

section \<open>Names and namespaces\<close>

record Namespace =
  ns_Name :: string
  ns_DisplayName :: string
  ns_Description :: string
  ns_ConfigCount :: int
  ns_Locked :: bool
  ns_CreatedAt :: time
  ns_UpdatedAt :: time
  ns_CanRead :: bool
  ns_CanWrite :: bool

definition lower_alnum :: "char \<Rightarrow> bool" where
  "lower_alnum c \<longleftrightarrow> (CHR ''a'' \<le> c \<and> c \<le> CHR ''z'') \<or> (CHR ''0'' \<le> c \<and> c \<le> CHR ''9'')"

text \<open>\<^verbatim>\<open>^[a-z0-9]([a-z0-9-]*[a-z0-9])?$\<close>\<close>

fun canonicalNameRegex :: "string \<Rightarrow> bool" where
  "canonicalNameRegex [] = False"
| "canonicalNameRegex (c # cs) =
     (lower_alnum c \<and>
      (cs = [] \<or>
       list_all (\<lambda>d. lower_alnum d \<or> d = CHR ''-'') (butlast cs) \<and> lower_alnum (last cs)))"

definition maxCanonicalNameLen :: nat where "maxCanonicalNameLen = 63"
definition maxDisplayNameLen :: nat where "maxDisplayNameLen = 128"

definition ValidateCanonicalName :: "string \<Rightarrow> string \<Rightarrow> err + unit" where
  "ValidateCanonicalName field value =
     (if value = [] then Err (ErrValidation field (field @ '' is required''))
      else if length value > maxCanonicalNameLen
        then Err (ErrValidation field (field @ '' must be at most 63 characters''))
      else if \<not> canonicalNameRegex value
        then Err (ErrValidation field (field @ '' must be a valid DNS-1123 label (lowercase alphanumeric and hyphens, starting/ending with alphanumeric)''))
      else Ok ())"

definition Namespace_Validate :: "Namespace \<Rightarrow> err + unit" where
  "Namespace_Validate n =
     (case ValidateCanonicalName ''name'' (ns_Name n) of
        Inl e \<Rightarrow> Err e
      | Inr _ \<Rightarrow>
          if length (ns_DisplayName n) > maxDisplayNameLen
          then Err (ErrValidation ''displayName'' ''display name must be at most 128 characters'')
          else Ok ())"

section \<open>Permissions\<close>

type_synonym Object = string
type_synonym Action = string
type_synonym Role = string

definition ObjectAll :: Object where "ObjectAll = ''*''"
definition ActionAll :: Action where "ActionAll = ''*''"
definition ActionRead :: Action where "ActionRead = ''read''"
definition ActionWrite :: Action where "ActionWrite = ''write''"
definition RoleAdmin :: Role where "RoleAdmin = ''admin''"
definition RoleWriter :: Role where "RoleWriter = ''writer''"
definition RoleReader :: Role where "RoleReader = ''reader''"
definition DomainAll :: string where "DomainAll = ''*''"

lemmas rbac_defs =
  ObjectAll_def ActionAll_def ActionRead_def ActionWrite_def RoleAdmin_def RoleWriter_def
  RoleReader_def DomainAll_def

definition ObjectGrants :: "Object \<Rightarrow> Object \<Rightarrow> bool" where
  "ObjectGrants granted required \<longleftrightarrow> granted = ObjectAll \<or> granted = required"

definition ActionGrants :: "Action \<Rightarrow> Action \<Rightarrow> bool" where
  "ActionGrants granted required \<longleftrightarrow>
     (if granted = ActionAll \<or> granted = required then True
      else if granted = ActionWrite \<and> required = ActionRead then True
      else False)"

definition NamespaceResourcePrefix :: string where "NamespaceResourcePrefix = ''namespace:''"
definition GroupResourcePrefix :: string where "GroupResourcePrefix = ''group:''"

definition GroupResource :: "string \<Rightarrow> string" where
  "GroupResource name = (if name = DomainAll then DomainAll else GroupResourcePrefix @ name)"

definition NamespaceResource :: "string \<Rightarrow> string" where
  "NamespaceResource name = (if name = DomainAll then DomainAll else NamespaceResourcePrefix @ name)"

definition IsGroupSubject :: "string \<Rightarrow> bool" where
  "IsGroupSubject subject = hasPrefix subject GroupResourcePrefix"

definition GroupNameFromSubject :: "string \<Rightarrow> string" where
  "GroupNameFromSubject subject = trimPrefix subject GroupResourcePrefix"

definition IsUserSubject :: "string \<Rightarrow> bool" where
  "IsUserSubject subject \<longleftrightarrow> \<not> hasPrefix subject GroupResourcePrefix"

section \<open>Facts about the pure rules\<close>

lemma canonical_chars:
  "canonicalNameRegex s \<Longrightarrow> c \<in> set s \<Longrightarrow> lower_alnum c \<or> c = CHR ''-''"
proof (cases s)
  case (Cons a t)
  assume r: "canonicalNameRegex s" and c: "c \<in> set s"
  show ?thesis
  proof (cases "t = []")
    case False
    then have "set t = insert (last t) (set (butlast t))"
      by (metis append_butlast_last_id list.set(1) list.simps(15) rotate1.simps(2) set_rotate1)
    with r c Cons False show ?thesis by (auto simp: list_all_iff)
  qed (use r c Cons in auto)
qed simp

lemma canonical_NUL_free:
  "ValidateCanonicalName f s = Ok () \<Longrightarrow> CHR 0x00 \<notin> set s"
  by (auto simp: ValidateCanonicalName_def lower_alnum_def less_eq_char_def
      split: if_splits dest!: canonical_chars)

lemma canonical_slash_free:
  "ValidateCanonicalName f s = Ok () \<Longrightarrow> CHR ''/'' \<notin> set s"
  by (auto simp: ValidateCanonicalName_def lower_alnum_def less_eq_char_def
      split: if_splits dest!: canonical_chars)

lemma ParseFormat_canonical:
  "f \<in> {FormatJSON, FormatYAML, FormatOther} \<Longrightarrow> ParseFormat f = Ok f"
  by (auto simp: ParseFormat_def format_defs)

lemma DetectFormat_parses: "ParseFormat (DetectFormatFromPath p) = Ok (DetectFormatFromPath p)"
  by (rule ParseFormat_canonical) (simp add: DetectFormatFromPath_def)

end
