(* ===== verification/AuthDomain.thy ===== *)
theory AuthDomain
  imports Domain
begin

text \<open>
  The entities of \<^verbatim>\<open>src/internal/domain\<close> that carry access: sessions and their audit events, tokens of
  the etcd API, groups and permissions, users and their identities, and webhooks, with the rules the entities themselves enforce.
\<close>

section \<open>Sessions\<close>

type_synonym ClientType = string

definition ClientTypeWeb :: ClientType where "ClientTypeWeb = ''web''"
definition ClientTypeCLI :: ClientType where "ClientTypeCLI = ''cli''"

record Session =
  ses_ID :: string
  ses_UserID :: string
  ses_ClientType :: ClientType
  ses_IP :: string
  ses_UserAgent :: string
  ses_CreatedAt :: time
  ses_LastSeenAt :: time
  ses_ExpiresAt :: time
  ses_RevokedAt :: "time option"
  ses_RevokedBy :: string

definition Session_IsActive :: "Session \<Rightarrow> bool" where
  "Session_IsActive s \<longleftrightarrow> ses_RevokedAt s = None"

definition Session_IsExpired :: "Session \<Rightarrow> time \<Rightarrow> bool" where
  "Session_IsExpired s now \<longleftrightarrow> ses_ExpiresAt s < now"

definition EnsureActive :: "Session \<Rightarrow> time \<Rightarrow> err + unit" where
  "EnsureActive s now =
     (if \<not> Session_IsActive s then Err ErrSessionRevoked
      else if Session_IsExpired s now then Err ErrSessionExpired
      else Ok ())"

type_synonym SessionEventType = string

definition SessionEventCreated :: SessionEventType where "SessionEventCreated = ''created''"
definition SessionEventRefreshed :: SessionEventType where "SessionEventRefreshed = ''refreshed''"
definition SessionEventRevokedByUser :: SessionEventType where "SessionEventRevokedByUser = ''revoked_by_user''"
definition SessionEventRevokedByAdmin :: SessionEventType where "SessionEventRevokedByAdmin = ''revoked_by_admin''"
definition SessionEventRevokedCascade :: SessionEventType where "SessionEventRevokedCascade = ''revoked_cascade''"

record SessionEvent =
  sev_ID :: string
  sev_SessionID :: string
  sev_UserID :: string
  sev_Type :: SessionEventType
  sev_Reason :: string
  sev_IP :: string
  sev_UserAgent :: string
  sev_Timestamp :: time

text \<open>The zero \<^verbatim>\<open>time.Time\<close> is the instant 0.\<close>

definition SessionEvent_Validate :: "SessionEvent \<Rightarrow> err + unit" where
  "SessionEvent_Validate e =
     (if sev_Type e = [] then Err (ErrValidation ''type'' ''type is required'')
      else if sev_SessionID e = [] then Err (ErrValidation ''sessionId'' ''session_id is required'')
      else if sev_UserID e = [] then Err (ErrValidation ''userId'' ''user_id is required'')
      else if sev_Timestamp e = 0 then Err (ErrValidation ''timestamp'' ''timestamp is required'')
      else Ok ())"

section \<open>Tokens\<close>

record Token =
  tok_ID :: string
  tok_IssuedBy :: string
  tok_Name :: string
  tok_TokenHash :: string
  tok_Namespaces :: "string list"
  tok_Role :: Role
  tok_ExpiresAt :: "time option"
  tok_LastUsedAt :: "time option"
  tok_LastUsedIP :: string
  tok_CreatedAt :: time

definition maxTokenNameLen :: nat where "maxTokenNameLen = 128"

definition Token_Validate :: "Token \<Rightarrow> err + unit" where
  "Token_Validate t =
     (if tok_ID t = [] then Err (ErrValidation ''id'' ''id is required'')
      else if tok_IssuedBy t = [] then Err (ErrValidation ''issuedBy'' ''issued_by is required'')
      else if \<not> containsStr (tok_IssuedBy t) ''@''
        then Err (ErrValidation ''issuedBy'' ''issued_by must be a valid email address'')
      else if tok_Name t = [] then Err (ErrValidation ''name'' ''name is required'')
      else if length (tok_Name t) > maxTokenNameLen
        then Err (ErrValidation ''name'' ''name must be at most 128 characters'')
      else if tok_TokenHash t = [] then Err (ErrValidation ''tokenHash'' ''token hash is required'')
      else if tok_Role t \<noteq> RoleWriter \<and> tok_Role t \<noteq> RoleReader
        then Err (ErrValidation ''role'' ''role must be writer or reader'')
      else if tok_Namespaces t = []
        then Err (ErrValidation ''namespaces'' ''at least one namespace is required'')
      else Ok ())"

definition Token_IsExpired :: "Token \<Rightarrow> time \<Rightarrow> bool" where
  "Token_IsExpired t now = (case tok_ExpiresAt t of None \<Rightarrow> False | Some at \<Rightarrow> at < now)"

definition Token_NamespaceAllowed :: "Token \<Rightarrow> string \<Rightarrow> bool" where
  "Token_NamespaceAllowed t namespace = List.member (tok_Namespaces t) namespace"

definition Token_ActionAllowed :: "Token \<Rightarrow> Action \<Rightarrow> bool" where
  "Token_ActionAllowed t action =
     (if tok_Role t = RoleWriter then action = ActionRead \<or> action = ActionWrite
      else if tok_Role t = RoleReader then action = ActionRead
      else False)"

record TokenFilter =
  tf_NamespaceScopes :: "string set"
  tf_AnyNamespace :: bool
  tf_IssuedBy :: "string list"
  tf_Namespaces :: "string list"
  tf_QueryParams :: "string list"

section \<open>Permissions and groups\<close>

record Permission =
  per_Object :: Object
  per_Action :: Action
  per_Domain :: string

definition MembershipDomain :: string where "MembershipDomain = ''*''"
definition ObjectNamespace :: Object where "ObjectNamespace = ''namespace''"
definition ObjectToken :: Object where "ObjectToken = ''token''"
definition ObjectUser :: Object where "ObjectUser = ''user''"
definition ObjectGroup :: Object where "ObjectGroup = ''group''"
definition ObjectClient :: Object where "ObjectClient = ''client''"
definition ObjectWebhook :: Object where "ObjectWebhook = ''webhook''"
definition ActionCreate :: Action where "ActionCreate = ''create''"
definition ActionDelete :: Action where "ActionDelete = ''delete''"

record Group =
  grp_Name :: string
  grp_DisplayName :: string
  grp_Description :: string
  grp_System :: bool
  grp_MetadataVersion :: int64
  grp_MembersVersion :: int64
  grp_PermissionsVersion :: int64
  grp_CreatedAt :: time
  grp_UpdatedAt :: time

definition maxDescriptionLen :: nat where "maxDescriptionLen = 1024"

definition Group_EnsureMutable :: "Group \<Rightarrow> err + unit" where
  "Group_EnsureMutable g = (if grp_System g then Err ErrSystemImmutable else Ok ())"

definition Group_Validate :: "Group \<Rightarrow> err + unit" where
  "Group_Validate g =
     (case ValidateCanonicalName ''name'' (grp_Name g) of
        Inl e \<Rightarrow> Err e
      | Inr _ \<Rightarrow>
          if length (grp_DisplayName g) > maxDisplayNameLen
          then Err (ErrValidation ''displayName'' ''display name must be at most 128 characters'')
          else if length (grp_Description g) > maxDescriptionLen
          then Err (ErrValidation ''description'' ''group description must be at most 1024 characters'')
          else Ok ())"

record GroupFilter =
  gf_Names :: "string set"
  gf_Wildcard :: bool
  gf_Search :: string

record AuthInfo =
  ai_UserID :: string
  ai_Email :: string
  ai_Name :: string
  ai_Namespaces :: "string list"
  ai_Role :: string

section \<open>Users\<close>

text \<open>
  Users and their identities: the types of \<^verbatim>\<open>src/internal/domain/user.go\<close>, \<^verbatim>\<open>user_status.go\<close> and
  \<^verbatim>\<open>identity.go\<close>. A UUID is its canonical text.
\<close>

type_synonym uuid = string

definition uuidNil :: uuid where "uuidNil = ''00000000-0000-0000-0000-000000000000''"

type_synonym UserStatus = string

definition UserStatusActive :: UserStatus where "UserStatusActive = ''active''"
definition UserStatusDeactivated :: UserStatus where "UserStatusDeactivated = ''deactivated''"

definition UserStatus_Valid :: "UserStatus \<Rightarrow> bool" where
  "UserStatus_Valid s \<longleftrightarrow> s = UserStatusActive \<or> s = UserStatusDeactivated"

type_synonym IdentityProvider = string

record Identity =
  idn_Provider :: IdentityProvider
  idn_Subject :: string

definition ProviderBasic :: IdentityProvider where "ProviderBasic = ''basic''"
definition ProviderOIDC :: IdentityProvider where "ProviderOIDC = ''oidc''"
definition oidcMultiIssuerPrefix :: string where "oidcMultiIssuerPrefix = ''oidc:''"

definition OIDCProvider :: "string \<Rightarrow> IdentityProvider" where
  "OIDCProvider issuerID = oidcMultiIssuerPrefix @ issuerID"

record User =
  usr_ID :: uuid
  usr_Email :: string
  usr_DisplayName :: string
  usr_Picture :: string
  usr_Status :: UserStatus
  usr_Identities :: "Identity list"
  usr_System :: bool
  usr_CreatedAt :: time
  usr_LastLoginAt :: time
  usr_PasswordHash :: string
  usr_PasswordChangeRequired :: bool
  usr_MembershipVersion :: int64

record UserFilter =
  uf_UserIDs :: "string set"
  uf_AnyUser :: bool
  uf_Search :: string

definition User_EnsureMutable :: "User \<Rightarrow> err + unit" where
  "User_EnsureMutable u = (if usr_System u then Err ErrSystemImmutable else Ok ())"

definition User_Validate :: "User \<Rightarrow> err + unit" where
  "User_Validate u =
     (if usr_ID u = uuidNil then Err (ErrValidation ''id'' ''user id is required'')
      else if usr_Email u = [] then Err (ErrValidation ''email'' ''email is required'')
      else if length (usr_DisplayName u) > maxDisplayNameLen
      then Err (ErrValidation ''displayName'' (''display name must be at most '' @ ''128'' @ '' characters''))
      else if \<not> UserStatus_Valid (usr_Status u) then Err (ErrValidation ''status'' ''invalid user status'')
      else Ok ())"

definition User_Deactivate :: "User \<Rightarrow> err + User" where
  "User_Deactivate u =
     (case User_EnsureMutable u of
        Inl e \<Rightarrow> Err e
      | Inr _ \<Rightarrow>
          if usr_Status u = UserStatusDeactivated
          then Err (ErrValidation ''status'' ''user is already deactivated'')
          else Ok (u\<lparr>usr_Status := UserStatusDeactivated\<rparr>))"

definition User_Reactivate :: "User \<Rightarrow> err + User" where
  "User_Reactivate u =
     (case User_EnsureMutable u of
        Inl e \<Rightarrow> Err e
      | Inr _ \<Rightarrow>
          if usr_Status u = UserStatusActive
          then Err (ErrValidation ''status'' ''user is already active'')
          else Ok (u\<lparr>usr_Status := UserStatusActive\<rparr>))"

section \<open>Webhooks\<close>

text \<open>
  Webhooks: the types and functions of \<^verbatim>\<open>src/internal/domain/webhook.go\<close>. The parser of request URIs is a
  parameter that answers the scheme and the host.
\<close>

type_synonym WebhookEventType = string

definition WebhookEventCreated :: WebhookEventType where "WebhookEventCreated = ''created''"
definition WebhookEventUpdated :: WebhookEventType where "WebhookEventUpdated = ''updated''"
definition WebhookEventDeleted :: WebhookEventType where "WebhookEventDeleted = ''deleted''"

record Webhook =
  wh_ID :: string
  wh_URL :: string
  wh_NamespaceFilter :: string
  wh_PathPrefix :: string
  wh_Events :: "WebhookEventType list"
  wh_Secret :: string
  wh_Enabled :: bool
  wh_CreatedAt :: time
  wh_UpdatedAt :: time

record DeliveryAttempt =
  da_AttemptNumber :: int
  da_StatusCode :: int
  da_LatencyMS :: int64
  da_Error :: string
  da_Success :: bool
  da_Timestamp :: time

type_synonym uriParser = "string \<Rightarrow> (string \<times> string) option"

definition validateURL :: "uriParser \<Rightarrow> Webhook \<Rightarrow> err + unit" where
  "validateURL P w =
     (if wh_URL w = [] then Err (ErrValidation ''url'' ''url is required'')
      else
        let bad = ErrValidation ''url'' (''url must be a valid http or https URL, got '' @ quoted (wh_URL w)) in
        case P (wh_URL w) of
          None \<Rightarrow> Err bad
        | Some (scheme, host) \<Rightarrow>
            if scheme \<noteq> ''http'' \<and> scheme \<noteq> ''https'' \<or> host = [] then Err bad else Ok ())"

fun validateEvents :: "WebhookEventType list \<Rightarrow> err + unit" where
  "validateEvents [] = Ok ()"
| "validateEvents (e # es) =
     (if e \<noteq> WebhookEventCreated \<and> e \<noteq> WebhookEventUpdated \<and> e \<noteq> WebhookEventDeleted
      then Err (ErrValidation ''events'' (''unknown event type '' @ quoted e))
      else validateEvents es)"

definition Webhook_Validate :: "uriParser \<Rightarrow> Webhook \<Rightarrow> err + unit" where
  "Webhook_Validate P w =
     (case validateURL P w of
        Inl e \<Rightarrow> Err e
      | Inr _ \<Rightarrow>
          if wh_Events w = [] then Err (ErrValidation ''events'' ''at least one event is required'')
          else validateEvents (wh_Events w))"

definition webhookEventFromWatchEvent :: "WatchEvent \<Rightarrow> WebhookEventType option" where
  "webhookEventFromWatchEvent ev =
     (if we_Type ev = EventTypeCreated then Some WebhookEventCreated
      else if we_Type ev = EventTypeUpdated then Some WebhookEventUpdated
      else if we_Type ev = EventTypeDeleted then Some WebhookEventDeleted
      else None)"

definition Webhook_MatchesEvent :: "Webhook \<Rightarrow> WatchEvent \<Rightarrow> bool" where
  "Webhook_MatchesEvent w ev =
     (if \<not> wh_Enabled w then False
      else case webhookEventFromWatchEvent ev of
             None \<Rightarrow> False
           | Some ty \<Rightarrow>
               if \<not> List.member (wh_Events w) ty then False
               else if wh_NamespaceFilter w \<noteq> [] \<and> we_Namespace ev \<noteq> wh_NamespaceFilter w then False
               else if wh_PathPrefix w \<noteq> [] then
                 (if \<not> hasPrefix (we_Path ev) (wh_PathPrefix w) then False
                  else
                    let rest = drop (length (wh_PathPrefix w)) (we_Path ev) in
                    \<not> (rest \<noteq> [] \<and> \<not> hasPrefix rest ''/''))
               else True)"

section \<open>What a webhook sees\<close>

text \<open>
  A webhook with a path prefix receives the events of that very path and of the paths below it, and no
  sibling whose name only begins the same.
\<close>

lemma MatchesEvent_path:
  assumes "Webhook_MatchesEvent w ev" "wh_PathPrefix w \<noteq> []"
  shows "we_Path ev = wh_PathPrefix w \<or> (\<exists>rest. we_Path ev = wh_PathPrefix w @ ''/'' @ rest)"
proof -
  have pre: "hasPrefix (we_Path ev) (wh_PathPrefix w)"
    and rest: "drop (length (wh_PathPrefix w)) (we_Path ev) = [] \<or> hasPrefix (drop (length (wh_PathPrefix w)) (we_Path ev)) ''/''"
    using assms by (auto simp: Webhook_MatchesEvent_def Let_def split: if_splits option.splits)
  from pre obtain r where r: "we_Path ev = wh_PathPrefix w @ r" by (auto simp: hasPrefix_def prefix_def)
  with rest show ?thesis by (auto simp: hasPrefix_def prefix_def)
qed

text \<open>With a prefix that ends in a slash nothing below it matches, unless a name is empty.\<close>

lemma MatchesEvent_trailing_slash:
  assumes "Webhook_MatchesEvent w ev" "wh_PathPrefix w = p @ ''/''" "we_Path ev = p @ ''/'' @ name"
  shows "name = [] \<or> hd name = CHR ''/''"
  using MatchesEvent_path [OF assms(1)] assms(2,3) by auto

end
