(* ===== verification/Records.thy ===== *)
theory Records
  imports AuthDomain
begin

text \<open>
  The on-disk records of \<^verbatim>\<open>src/internal/storage/internal\<close> and their conversions to domain
  entities. A stored value is the record it was marshalled from: \<open>val\<close> has one constructor per
  record type that the repositories write and \<open>Raw\<close> for values written as plain bytes, so
  unmarshalling at the wrong type, or a value that is not JSON at all, is a decode error.
\<close>

record ConfigMeta =
  m_ContentHash :: string
  m_Format :: string
  m_Version :: int64
  m_Revision :: int64
  m_CreateRevision :: int64
  m_Metadata :: metadata
  m_Locked :: bool
  m_CreatedAt :: time
  m_UpdatedAt :: time

record LockHistoryEntry =
  lh_Type :: int
  lh_Timestamp :: time

text \<open>The stored changelog row; its revision is the bucket key.\<close>

record ChangelogRow =
  row_Type :: int
  row_Path :: string
  row_Namespace :: string
  row_Version :: int64
  row_Timestamp :: time

record NamespaceMeta =
  nm_Description :: string
  nm_Locked :: bool
  nm_CreatedAt :: time
  nm_UpdatedAt :: time

record SchemaMeta =
  sm_ID :: string
  sm_JSONSchema :: string
  sm_CreatedAt :: time

record SessionMeta =
  smt_ID :: string
  smt_UserID :: string
  smt_ClientType :: string
  smt_IP :: string
  smt_UserAgent :: string
  smt_CreatedAt :: time
  smt_LastSeenAt :: time
  smt_ExpiresAt :: time
  smt_RevokedAt :: "time option"
  smt_RevokedBy :: string

record SessionEventMeta =
  emt_ID :: string
  emt_SessionID :: string
  emt_UserID :: string
  emt_Type :: string
  emt_Reason :: string
  emt_IP :: string
  emt_UserAgent :: string
  emt_Timestamp :: time

record TokenMeta =
  tmt_ID :: string
  tmt_IssuedBy :: string
  tmt_Name :: string
  tmt_TokenHash :: string
  tmt_Namespaces :: "string list"
  tmt_Role :: string
  tmt_ExpiresAt :: "time option"
  tmt_LastUsedAt :: "time option"
  tmt_LastUsedIP :: string
  tmt_CreatedAt :: time

record GroupMeta =
  gmt_Name :: string
  gmt_DisplayName :: string
  gmt_Description :: string
  gmt_System :: bool
  gmt_MetadataVersion :: int64
  gmt_MembersVersion :: int64
  gmt_PermissionsVersion :: int64
  gmt_CreatedAt :: time
  gmt_UpdatedAt :: time

record WebhookMeta =
  wmt_URL :: string
  wmt_NamespaceFilter :: string
  wmt_PathPrefix :: string
  wmt_Events :: "string list"
  wmt_Secret :: string
  wmt_Enabled :: bool
  wmt_CreatedAt :: time
  wmt_UpdatedAt :: time

record AuthUserMeta =
  umt_ID :: string
  umt_Email :: string
  umt_DisplayName :: string
  umt_Picture :: string
  umt_Status :: UserStatus
  umt_Identities :: "Identity list"
  umt_System :: bool
  umt_CreatedAt :: time
  umt_LastLoginAt :: time
  umt_PasswordHash :: string
  umt_PasswordChangeRequired :: bool
  umt_MembershipVersion :: int64

record ClientHistoryRow =
  chr_ID :: string
  chr_PeerAddress :: string
  chr_UserAgent :: string
  chr_ClientName :: string
  chr_ClientVersion :: string
  chr_K8sNamespace :: string
  chr_K8sPod :: string
  chr_K8sNode :: string
  chr_InstanceID :: string
  chr_ConnectedAt :: time
  chr_DisconnectedAt :: time
  chr_LastActivityAt :: time
  chr_ActiveWatches :: int
  chr_RequestCounts :: "(string \<times> int64) list"
  chr_ErrorCount :: int64

datatype val =
    Raw bytes
  | JConfigMeta ConfigMeta
  | JChangelog ChangelogRow
  | JLockHistory LockHistoryEntry
  | JNamespace NamespaceMeta
  | JSchema SchemaMeta
  | JSession SessionMeta
  | JSessionEvent SessionEventMeta
  | JToken TokenMeta
  | JGroup GroupMeta
  | JWebhook WebhookMeta
  | JUser AuthUserMeta
  | JClientHistory ClientHistoryRow

section \<open>JSON codecs\<close>

record 'a codec =
  Marshal :: "'a \<Rightarrow> val"
  Unmarshal :: "val \<Rightarrow> 'a option"

text \<open>
  \<^verbatim>\<open>ConfigMeta.Metadata\<close> is tagged \<^verbatim>\<open>omitempty\<close>: an empty map is not written and decodes as nil.
\<close>

definition omitEmpty :: "metadata \<Rightarrow> metadata" where
  "omitEmpty md = (if md = Some [] then None else md)"

definition configMetaCodec :: "ConfigMeta codec" where
  "configMetaCodec =
     \<lparr>Marshal = (\<lambda>m. JConfigMeta (m\<lparr>m_Metadata := omitEmpty (m_Metadata m)\<rparr>)),
      Unmarshal = (\<lambda>v. case v of JConfigMeta m \<Rightarrow> Some m | _ \<Rightarrow> None)\<rparr>"

definition changelogCodec :: "ChangelogRow codec" where
  "changelogCodec =
     \<lparr>Marshal = JChangelog, Unmarshal = (\<lambda>v. case v of JChangelog r \<Rightarrow> Some r | _ \<Rightarrow> None)\<rparr>"

definition lockHistoryCodec :: "LockHistoryEntry codec" where
  "lockHistoryCodec =
     \<lparr>Marshal = JLockHistory, Unmarshal = (\<lambda>v. case v of JLockHistory r \<Rightarrow> Some r | _ \<Rightarrow> None)\<rparr>"

definition namespaceCodec :: "NamespaceMeta codec" where
  "namespaceCodec =
     \<lparr>Marshal = JNamespace, Unmarshal = (\<lambda>v. case v of JNamespace r \<Rightarrow> Some r | _ \<Rightarrow> None)\<rparr>"

definition schemaCodec :: "SchemaMeta codec" where
  "schemaCodec =
     \<lparr>Marshal = JSchema, Unmarshal = (\<lambda>v. case v of JSchema r \<Rightarrow> Some r | _ \<Rightarrow> None)\<rparr>"

definition sessionCodec :: "SessionMeta codec" where
  "sessionCodec =
     \<lparr>Marshal = JSession, Unmarshal = (\<lambda>v. case v of JSession r \<Rightarrow> Some r | _ \<Rightarrow> None)\<rparr>"

definition sessionEventCodec :: "SessionEventMeta codec" where
  "sessionEventCodec =
     \<lparr>Marshal = JSessionEvent, Unmarshal = (\<lambda>v. case v of JSessionEvent r \<Rightarrow> Some r | _ \<Rightarrow> None)\<rparr>"

definition tokenCodec :: "TokenMeta codec" where
  "tokenCodec =
     \<lparr>Marshal = JToken, Unmarshal = (\<lambda>v. case v of JToken r \<Rightarrow> Some r | _ \<Rightarrow> None)\<rparr>"

definition groupCodec :: "GroupMeta codec" where
  "groupCodec =
     \<lparr>Marshal = JGroup, Unmarshal = (\<lambda>v. case v of JGroup r \<Rightarrow> Some r | _ \<Rightarrow> None)\<rparr>"

definition webhookCodec :: "WebhookMeta codec" where
  "webhookCodec =
     \<lparr>Marshal = JWebhook, Unmarshal = (\<lambda>v. case v of JWebhook r \<Rightarrow> Some r | _ \<Rightarrow> None)\<rparr>"

definition userCodec :: "AuthUserMeta codec" where
  "userCodec =
     \<lparr>Marshal = JUser, Unmarshal = (\<lambda>v. case v of JUser r \<Rightarrow> Some r | _ \<Rightarrow> None)\<rparr>"

definition clientHistoryCodec :: "ClientHistoryRow codec" where
  "clientHistoryCodec =
     \<lparr>Marshal = JClientHistory, Unmarshal = (\<lambda>v. case v of JClientHistory r \<Rightarrow> Some r | _ \<Rightarrow> None)\<rparr>"

text \<open>The bytes of a value read from a bucket whose values are plain bytes.\<close>

definition rawBytes :: "val option \<Rightarrow> bytes" where
  "rawBytes v = (case v of Some (Raw b) \<Rightarrow> b | _ \<Rightarrow> [])"

section \<open>Conversions\<close>

definition DomainToConfigMeta :: "Config \<Rightarrow> ConfigMeta" where
  "DomainToConfigMeta cfg =
     \<lparr>m_ContentHash = cfg_ContentHash cfg,
      m_Format = cfg_Format cfg,
      m_Version = cfg_Version cfg,
      m_Revision = cfg_Revision cfg,
      m_CreateRevision = cfg_CreateRevision cfg,
      m_Metadata = cfg_Metadata cfg,
      m_Locked = cfg_Locked cfg,
      m_CreatedAt = cfg_CreatedAt cfg,
      m_UpdatedAt = cfg_UpdatedAt cfg\<rparr>"

definition storedFormat :: "string \<Rightarrow> Format" where
  "storedFormat s = (case ParseFormat s of Inl _ \<Rightarrow> FormatOther | Inr f \<Rightarrow> f)"

definition nonNilMetadata :: "metadata \<Rightarrow> metadata" where
  "nonNilMetadata md = (case md of None \<Rightarrow> Some [] | Some x \<Rightarrow> Some x)"

definition ConfigMetaToDomain :: "ConfigMeta \<Rightarrow> bytes \<Rightarrow> string \<Rightarrow> string \<Rightarrow> Config" where
  "ConfigMetaToDomain m content path namespace =
     \<lparr>cfg_Path = path,
      cfg_Content = content,
      cfg_ContentHash = m_ContentHash m,
      cfg_Format = storedFormat (m_Format m),
      cfg_Version = m_Version m,
      cfg_Revision = m_Revision m,
      cfg_CreateRevision = m_CreateRevision m,
      cfg_Namespace = namespace,
      cfg_Metadata = nonNilMetadata (m_Metadata m),
      cfg_Locked = m_Locked m,
      cfg_NamespaceLocked = False,
      cfg_CreatedAt = m_CreatedAt m,
      cfg_UpdatedAt = m_UpdatedAt m\<rparr>"

definition ConfigMetaToSummary :: "ConfigMeta \<Rightarrow> string \<Rightarrow> string \<Rightarrow> ConfigSummary" where
  "ConfigMetaToSummary m path namespace =
     \<lparr>sum_Path = path,
      sum_ContentHash = m_ContentHash m,
      sum_Format = storedFormat (m_Format m),
      sum_Version = m_Version m,
      sum_Revision = m_Revision m,
      sum_Namespace = namespace,
      sum_Metadata = nonNilMetadata (m_Metadata m),
      sum_Locked = m_Locked m,
      sum_NamespaceLocked = False,
      sum_CreatedAt = m_CreatedAt m,
      sum_UpdatedAt = m_UpdatedAt m\<rparr>"

definition ChangelogEntryToDomain :: "ChangelogRow \<Rightarrow> int64 \<Rightarrow> ChangelogEntry" where
  "ChangelogEntryToDomain e revision =
     \<lparr>cl_Revision = revision,
      cl_Type = row_Type e,
      cl_Path = row_Path e,
      cl_Namespace = row_Namespace e,
      cl_Version = row_Version e,
      cl_Timestamp = row_Timestamp e\<rparr>"

definition DomainToNamespaceMeta :: "Namespace \<Rightarrow> NamespaceMeta" where
  "DomainToNamespaceMeta ns =
     \<lparr>nm_Description = ns_Description ns,
      nm_Locked = ns_Locked ns,
      nm_CreatedAt = ns_CreatedAt ns,
      nm_UpdatedAt = ns_UpdatedAt ns\<rparr>"

definition NamespaceMetaToDomain :: "NamespaceMeta \<Rightarrow> string \<Rightarrow> Namespace" where
  "NamespaceMetaToDomain m name =
     \<lparr>ns_Name = name,
      ns_DisplayName = [],
      ns_Description = nm_Description m,
      ns_ConfigCount = 0,
      ns_Locked = nm_Locked m,
      ns_CreatedAt = nm_CreatedAt m,
      ns_UpdatedAt = nm_UpdatedAt m,
      ns_CanRead = False,
      ns_CanWrite = False\<rparr>"

record SchemaAttachment =
  sa_ID :: string
  sa_Namespace :: string
  sa_PathPattern :: string
  sa_JSONSchema :: string
  sa_CreatedAt :: time

definition DomainToSchemaMeta :: "SchemaAttachment \<Rightarrow> SchemaMeta" where
  "DomainToSchemaMeta s =
     \<lparr>sm_ID = sa_ID s, sm_JSONSchema = sa_JSONSchema s, sm_CreatedAt = sa_CreatedAt s\<rparr>"

definition SchemaMetaToDomain :: "SchemaMeta \<Rightarrow> string \<Rightarrow> string \<Rightarrow> SchemaAttachment" where
  "SchemaMetaToDomain m namespace pathPattern =
     \<lparr>sa_ID = sm_ID m, sa_Namespace = namespace, sa_PathPattern = pathPattern,
      sa_JSONSchema = sm_JSONSchema m, sa_CreatedAt = sm_CreatedAt m\<rparr>"

definition DomainToSessionMeta :: "Session \<Rightarrow> SessionMeta" where
  "DomainToSessionMeta s =
     \<lparr>smt_ID = ses_ID s,
      smt_UserID = ses_UserID s,
      smt_ClientType = ses_ClientType s,
      smt_IP = ses_IP s,
      smt_UserAgent = ses_UserAgent s,
      smt_CreatedAt = ses_CreatedAt s,
      smt_LastSeenAt = ses_LastSeenAt s,
      smt_ExpiresAt = ses_ExpiresAt s,
      smt_RevokedAt = ses_RevokedAt s,
      smt_RevokedBy = ses_RevokedBy s\<rparr>"

definition SessionMetaToDomain :: "SessionMeta \<Rightarrow> Session" where
  "SessionMetaToDomain m =
     \<lparr>ses_ID = smt_ID m,
      ses_UserID = smt_UserID m,
      ses_ClientType = smt_ClientType m,
      ses_IP = smt_IP m,
      ses_UserAgent = smt_UserAgent m,
      ses_CreatedAt = smt_CreatedAt m,
      ses_LastSeenAt = smt_LastSeenAt m,
      ses_ExpiresAt = smt_ExpiresAt m,
      ses_RevokedAt = smt_RevokedAt m,
      ses_RevokedBy = smt_RevokedBy m\<rparr>"

definition DomainToSessionEventMeta :: "SessionEvent \<Rightarrow> SessionEventMeta" where
  "DomainToSessionEventMeta e =
     \<lparr>emt_ID = sev_ID e,
      emt_SessionID = sev_SessionID e,
      emt_UserID = sev_UserID e,
      emt_Type = sev_Type e,
      emt_Reason = sev_Reason e,
      emt_IP = sev_IP e,
      emt_UserAgent = sev_UserAgent e,
      emt_Timestamp = sev_Timestamp e\<rparr>"

definition SessionEventMetaToDomain :: "SessionEventMeta \<Rightarrow> SessionEvent" where
  "SessionEventMetaToDomain m =
     \<lparr>sev_ID = emt_ID m,
      sev_SessionID = emt_SessionID m,
      sev_UserID = emt_UserID m,
      sev_Type = emt_Type m,
      sev_Reason = emt_Reason m,
      sev_IP = emt_IP m,
      sev_UserAgent = emt_UserAgent m,
      sev_Timestamp = emt_Timestamp m\<rparr>"

definition DomainToTokenMeta :: "Token \<Rightarrow> TokenMeta" where
  "DomainToTokenMeta t =
     \<lparr>tmt_ID = tok_ID t,
      tmt_IssuedBy = tok_IssuedBy t,
      tmt_Name = tok_Name t,
      tmt_TokenHash = tok_TokenHash t,
      tmt_Namespaces = tok_Namespaces t,
      tmt_Role = tok_Role t,
      tmt_ExpiresAt = tok_ExpiresAt t,
      tmt_LastUsedAt = tok_LastUsedAt t,
      tmt_LastUsedIP = tok_LastUsedIP t,
      tmt_CreatedAt = tok_CreatedAt t\<rparr>"

definition TokenMetaToDomain :: "TokenMeta \<Rightarrow> Token" where
  "TokenMetaToDomain m =
     \<lparr>tok_ID = tmt_ID m,
      tok_IssuedBy = tmt_IssuedBy m,
      tok_Name = tmt_Name m,
      tok_TokenHash = tmt_TokenHash m,
      tok_Namespaces = tmt_Namespaces m,
      tok_Role = tmt_Role m,
      tok_ExpiresAt = tmt_ExpiresAt m,
      tok_LastUsedAt = tmt_LastUsedAt m,
      tok_LastUsedIP = tmt_LastUsedIP m,
      tok_CreatedAt = tmt_CreatedAt m\<rparr>"

definition DomainToWebhookMeta :: "Webhook \<Rightarrow> WebhookMeta" where
  "DomainToWebhookMeta w =
     \<lparr>wmt_URL = wh_URL w,
      wmt_NamespaceFilter = wh_NamespaceFilter w,
      wmt_PathPrefix = wh_PathPrefix w,
      wmt_Events = wh_Events w,
      wmt_Secret = wh_Secret w,
      wmt_Enabled = wh_Enabled w,
      wmt_CreatedAt = wh_CreatedAt w,
      wmt_UpdatedAt = wh_UpdatedAt w\<rparr>"

definition DomainToAuthUserMeta :: "User \<Rightarrow> AuthUserMeta" where
  "DomainToAuthUserMeta u =
     \<lparr>umt_ID = usr_ID u,
      umt_Email = usr_Email u,
      umt_DisplayName = usr_DisplayName u,
      umt_Picture = usr_Picture u,
      umt_Status = usr_Status u,
      umt_Identities = usr_Identities u,
      umt_System = usr_System u,
      umt_CreatedAt = usr_CreatedAt u,
      umt_LastLoginAt = usr_LastLoginAt u,
      umt_PasswordHash = usr_PasswordHash u,
      umt_PasswordChangeRequired = usr_PasswordChangeRequired u,
      umt_MembershipVersion = usr_MembershipVersion u\<rparr>"

text \<open>\<^verbatim>\<open>uuid.Parse\<close> is a parameter; its zero value is \<^verbatim>\<open>uuid.Nil\<close>.\<close>

definition AuthUserMetaToDomain :: "(string \<Rightarrow> uuid option) \<Rightarrow> AuthUserMeta \<Rightarrow> User" where
  "AuthUserMetaToDomain parse m =
     \<lparr>usr_ID = (case parse (umt_ID m) of Some i \<Rightarrow> i | None \<Rightarrow> uuidNil),
      usr_Email = umt_Email m,
      usr_DisplayName = umt_DisplayName m,
      usr_Picture = umt_Picture m,
      usr_Status = umt_Status m,
      usr_Identities = umt_Identities m,
      usr_System = umt_System m,
      usr_CreatedAt = umt_CreatedAt m,
      usr_LastLoginAt = umt_LastLoginAt m,
      usr_PasswordHash = umt_PasswordHash m,
      usr_PasswordChangeRequired = umt_PasswordChangeRequired m,
      usr_MembershipVersion = umt_MembershipVersion m\<rparr>"

definition WebhookMetaToDomain :: "WebhookMeta \<Rightarrow> string \<Rightarrow> Webhook" where
  "WebhookMetaToDomain m wid =
     \<lparr>wh_ID = wid,
      wh_URL = wmt_URL m,
      wh_NamespaceFilter = wmt_NamespaceFilter m,
      wh_PathPrefix = wmt_PathPrefix m,
      wh_Events = wmt_Events m,
      wh_Secret = wmt_Secret m,
      wh_Enabled = wmt_Enabled m,
      wh_CreatedAt = wmt_CreatedAt m,
      wh_UpdatedAt = wmt_UpdatedAt m\<rparr>"

definition DomainToGroupMeta :: "Group \<Rightarrow> GroupMeta" where
  "DomainToGroupMeta g =
     \<lparr>gmt_Name = grp_Name g,
      gmt_DisplayName = grp_DisplayName g,
      gmt_Description = grp_Description g,
      gmt_System = grp_System g,
      gmt_MetadataVersion = grp_MetadataVersion g,
      gmt_MembersVersion = grp_MembersVersion g,
      gmt_PermissionsVersion = grp_PermissionsVersion g,
      gmt_CreatedAt = grp_CreatedAt g,
      gmt_UpdatedAt = grp_UpdatedAt g\<rparr>"

definition GroupMetaToDomain :: "GroupMeta \<Rightarrow> Group" where
  "GroupMetaToDomain m =
     \<lparr>grp_Name = gmt_Name m,
      grp_DisplayName = gmt_DisplayName m,
      grp_Description = gmt_Description m,
      grp_System = gmt_System m,
      grp_MetadataVersion = gmt_MetadataVersion m,
      grp_MembersVersion = gmt_MembersVersion m,
      grp_PermissionsVersion = gmt_PermissionsVersion m,
      grp_CreatedAt = gmt_CreatedAt m,
      grp_UpdatedAt = gmt_UpdatedAt m\<rparr>"

section \<open>Round trips\<close>

locale json_codec =
  fixes cdc :: "'a codec" and norm :: "'a \<Rightarrow> 'a"
  assumes decode_encode: "Unmarshal cdc (Marshal cdc x) = Some (norm x)"
    and norm_idem: "norm (norm x) = norm x"
begin

lemma reencode: "Unmarshal cdc (Marshal cdc (norm x)) = Unmarshal cdc (Marshal cdc x)"
  by (simp add: decode_encode norm_idem)

end

definition normMeta :: "ConfigMeta \<Rightarrow> ConfigMeta" where
  "normMeta m = m\<lparr>m_Metadata := omitEmpty (m_Metadata m)\<rparr>"

interpretation meta_json: json_codec configMetaCodec normMeta
  by unfold_locales (simp_all add: configMetaCodec_def normMeta_def omitEmpty_def)

interpretation changelog_json: json_codec changelogCodec "\<lambda>r. r"
  by unfold_locales (simp_all add: changelogCodec_def)

interpretation lock_json: json_codec lockHistoryCodec "\<lambda>r. r"
  by unfold_locales (simp_all add: lockHistoryCodec_def)

interpretation namespace_json: json_codec namespaceCodec "\<lambda>r. r"
  by unfold_locales (simp_all add: namespaceCodec_def)

interpretation schema_json: json_codec schemaCodec "\<lambda>r. r"
  by unfold_locales (simp_all add: schemaCodec_def)

interpretation session_json: json_codec sessionCodec "\<lambda>r. r"
  by unfold_locales (simp_all add: sessionCodec_def)

interpretation sessionEvent_json: json_codec sessionEventCodec "\<lambda>r. r"
  by unfold_locales (simp_all add: sessionEventCodec_def)

interpretation token_json: json_codec tokenCodec "\<lambda>r. r"
  by unfold_locales (simp_all add: tokenCodec_def)

interpretation group_json: json_codec groupCodec "\<lambda>r. r"
  by unfold_locales (simp_all add: groupCodec_def)

interpretation webhook_json: json_codec webhookCodec "\<lambda>r. r"
  by unfold_locales (simp_all add: webhookCodec_def)

interpretation user_json: json_codec userCodec "\<lambda>r. r"
  by unfold_locales (simp_all add: userCodec_def)

interpretation clientHistory_json: json_codec clientHistoryCodec "\<lambda>r. r"
  by unfold_locales (simp_all add: clientHistoryCodec_def)

lemmas json_decode [bolt_simps] =
  meta_json.decode_encode changelog_json.decode_encode lock_json.decode_encode
  namespace_json.decode_encode schema_json.decode_encode session_json.decode_encode
  sessionEvent_json.decode_encode token_json.decode_encode group_json.decode_encode
  webhook_json.decode_encode user_json.decode_encode clientHistory_json.decode_encode

lemma normMeta_simps [simp]:
  "m_ContentHash (normMeta m) = m_ContentHash m"
  "m_Format (normMeta m) = m_Format m"
  "m_Version (normMeta m) = m_Version m"
  "m_Revision (normMeta m) = m_Revision m"
  "m_CreateRevision (normMeta m) = m_CreateRevision m"
  "m_Locked (normMeta m) = m_Locked m"
  "m_CreatedAt (normMeta m) = m_CreatedAt m"
  "m_UpdatedAt (normMeta m) = m_UpdatedAt m"
  by (simp_all add: normMeta_def)

lemma nonNil_omitEmpty [simp]: "nonNilMetadata (omitEmpty md) = nonNilMetadata md"
  by (auto simp: nonNilMetadata_def omitEmpty_def split: option.splits)

text \<open>
  A config written to the meta bucket and read back is the config itself, up to the map that
  is nil or empty and the namespace lock flag, which is not stored.
\<close>

lemma ConfigMeta_roundtrip:
  assumes "cfg_Format c \<in> {FormatJSON, FormatYAML, FormatOther}"
  shows "ConfigMetaToDomain (normMeta (DomainToConfigMeta c)) (cfg_Content c) (cfg_Path c) (cfg_Namespace c)
    = c\<lparr>cfg_Metadata := nonNilMetadata (cfg_Metadata c), cfg_NamespaceLocked := False\<rparr>"
  using ParseFormat_canonical [OF assms]
  by (simp add: ConfigMetaToDomain_def DomainToConfigMeta_def normMeta_def storedFormat_def)

lemma auth_roundtrips [simp]:
  "SessionMetaToDomain (DomainToSessionMeta s) = s"
  "SessionEventMetaToDomain (DomainToSessionEventMeta e) = e"
  "TokenMetaToDomain (DomainToTokenMeta t) = t"
  "GroupMetaToDomain (DomainToGroupMeta g) = g"
  "WebhookMetaToDomain (DomainToWebhookMeta wh) (wh_ID wh) = wh"
  by (simp_all add: SessionMetaToDomain_def DomainToSessionMeta_def SessionEventMetaToDomain_def
      DomainToSessionEventMeta_def TokenMetaToDomain_def DomainToTokenMeta_def GroupMetaToDomain_def
      DomainToGroupMeta_def DomainToWebhookMeta_def WebhookMetaToDomain_def)

lemma AuthUserMeta_roundtrip:
  "AuthUserMetaToDomain parse (DomainToAuthUserMeta u) =
     u\<lparr>usr_ID := (case parse (usr_ID u) of Some i \<Rightarrow> i | None \<Rightarrow> uuidNil)\<rparr>"
  by (simp add: AuthUserMetaToDomain_def DomainToAuthUserMeta_def)

end
