(* ===== verification/Bolt.thy ===== *)
theory Bolt
  imports Records
begin

text \<open>
  The transaction layer \<^verbatim>\<open>src/pkg/bbolt\<close>: buckets and cursors with the contract its \<^verbatim>\<open>Bucket\<close>
  and \<^verbatim>\<open>Cursor\<close> interfaces state (a finite map from byte keys to values, visited in key order),
  the queriers that give access to them inside and outside a transaction, the generic
  executors, and the manager with its flattening \<^verbatim>\<open>WithTx\<close> and \<^verbatim>\<open>WithReadTx\<close>.

  What the bbolt engine may do beyond that contract is a parameter: the record \<open>env\<close> says which
  calls it fails. The same record holds the clock, which answers the n-th call of \<^verbatim>\<open>time.Now\<close>,
  the SHA-256 function, the Unicode lower-casing of \<^verbatim>\<open>strings.ToLower\<close> and the order in which
  \<^verbatim>\<open>sort.Slice\<close>, which is not stable, leaves a slice: the positions of the sorted elements,
  given the length and the comparison of positions.
\<close>

type_synonym bucket = "(bytes \<times> val) list"

type_synonym database = "string \<rightharpoonup> bucket"

record env =
  clock :: "nat \<Rightarrow> time"
  sha256hex :: "bytes \<Rightarrow> string"
  toLower :: "string \<Rightarrow> string"
  sortSlice :: "nat \<Rightarrow> (nat \<Rightarrow> nat \<Rightarrow> bool) \<Rightarrow> nat list"
  bolt_begin_err :: "bool \<Rightarrow> err option"
  bolt_put_err :: "string \<Rightarrow> bytes \<Rightarrow> err option"
  bolt_delete_err :: "string \<Rightarrow> bytes \<Rightarrow> err option"
  bolt_commit_err :: "database \<Rightarrow> err option"
  bolt_create_err :: "string \<Rightarrow> err option"

text \<open>The named hypothesis that the engine fails no call.\<close>

definition bolt_reliable :: "env \<Rightarrow> bool" where
  "bolt_reliable E \<longleftrightarrow>
     bolt_begin_err E = (\<lambda>_. None) \<and> bolt_put_err E = (\<lambda>_ _. None) \<and>
     bolt_delete_err E = (\<lambda>_ _. None) \<and> bolt_commit_err E = (\<lambda>_. None) \<and>
     bolt_create_err E = (\<lambda>_. None)"

text \<open>What the documentation of \<^verbatim>\<open>sort.Slice\<close> promises of that order.\<close>

definition strict_weak :: "nat \<Rightarrow> (nat \<Rightarrow> nat \<Rightarrow> bool) \<Rightarrow> bool" where
  "strict_weak n lt \<longleftrightarrow>
     (\<forall>i<n. \<not> lt i i) \<and> (\<forall>i<n. \<forall>j<n. \<forall>k<n. lt i j \<and> lt j k \<longrightarrow> lt i k) \<and>
     (\<forall>i<n. \<forall>j<n. \<forall>k<n. \<not> lt i j \<and> \<not> lt j k \<longrightarrow> \<not> lt i k)"

definition sort_documented :: "env \<Rightarrow> bool" where
  "sort_documented E \<longleftrightarrow>
     (\<forall>n lt. distinct (sortSlice E n lt) \<and> set (sortSlice E n lt) = {..<n} \<and>
        (strict_weak n lt \<longrightarrow> sorted_wrt (\<lambda>i j. \<not> lt j i) (sortSlice E n lt)))"

text \<open>\<^verbatim>\<open>sort.Slice\<close> with \<^verbatim>\<open>After\<close> on the timestamps of the rows.\<close>

definition sortNewestFirst :: "env \<Rightarrow> time list \<Rightarrow> nat list" where
  "sortNewestFirst E ts = sortSlice E (length ts) (\<lambda>i j. ts ! j < ts ! i)"

lemma bolt_reliable_simps [simp]:
  assumes "bolt_reliable E"
  shows "bolt_begin_err E b = None" "bolt_put_err E n k = None"
    "bolt_delete_err E n k = None" "bolt_commit_err E d = None" "bolt_create_err E n = None"
  using assms by (simp_all add: bolt_reliable_def)

text \<open>
  The state a storage operation reads and writes: the committed or in-transaction contents of
  the database, and the number of \<^verbatim>\<open>time.Now\<close> calls made so far.
\<close>

record world =
  buckets :: database
  ticks :: nat

text \<open>An operation maps a state to its result and the state it leaves, also when it fails.\<close>

type_synonym ('a, 'w) op = "'w \<Rightarrow> (err + 'a) \<times> 'w"

definition returnT :: "'a \<Rightarrow> ('a, 'w) op" where
  "returnT x w = (Ok x, w)"

definition failT :: "err \<Rightarrow> ('a, 'w) op" where
  "failT e w = (Err e, w)"

definition readT :: "('w \<Rightarrow> err + 'a) \<Rightarrow> ('a, 'w) op" where
  "readT f w = (f w, w)"

definition bindT :: "('a, 'w) op \<Rightarrow> ('a \<Rightarrow> ('b, 'w) op) \<Rightarrow> ('b, 'w) op" where
  "bindT m f w = (case m w of (Inl e, w') \<Rightarrow> (Inl e, w') | (Inr x, w') \<Rightarrow> f x w')"

text \<open>\<^verbatim>\<open>_ = f()\<close>: the error is dropped, the effects stay.\<close>

definition ignoreT :: "('a, 'w) op \<Rightarrow> (unit, 'w) op" where
  "ignoreT m w = (Ok (), snd (m w))"

definition whenErr :: "(err + unit) \<Rightarrow> (unit, 'w) op" where
  "whenErr r w = (r, w)"

definition timeNow :: "env \<Rightarrow> (time, 'z world_scheme) op" where
  "timeNow E w = (Ok (clock E (ticks w)), w\<lparr>ticks := Suc (ticks w)\<rparr>)"

section \<open>Queriers and buckets\<close>

text \<open>
  \<open>TxQuerier wr\<close> is \<^verbatim>\<open>txQuerier\<close> over a transaction that is writable when \<open>wr\<close> holds;
  \<open>AutoQuerier\<close> is \<^verbatim>\<open>autoQuerier\<close>, which opens a transaction per call.
\<close>

datatype querier = TxQuerier bool | AutoQuerier

definition bucket_Get :: "string \<Rightarrow> bytes \<Rightarrow> 'z world_scheme \<Rightarrow> val option" where
  "bucket_Get name key w =
     (case buckets w name of None \<Rightarrow> None | Some b \<Rightarrow> map_of b key)"

definition setBucket :: "string \<Rightarrow> bucket \<Rightarrow> 'z world_scheme \<Rightarrow> 'z world_scheme" where
  "setBucket name b w = w\<lparr>buckets := (buckets w)(name \<mapsto> b)\<rparr>"

text \<open>One write to a named bucket: missing bucket, read-only transaction and engine errors first.\<close>

definition bucketWrite ::
  "env \<Rightarrow> querier \<Rightarrow> string \<Rightarrow> err option \<Rightarrow> (bucket \<Rightarrow> bucket) \<Rightarrow> (unit, 'z world_scheme) op" where
  "bucketWrite E q name engineErr f w =
     (case q of
        TxQuerier wr \<Rightarrow>
          (case buckets w name of
             None \<Rightarrow> (Err (ErrBucketNotFound name), w)
           | Some b \<Rightarrow>
               if \<not> wr then (Err ErrTxNotWritable, w)
               else (case engineErr of
                       Some e \<Rightarrow> (Err e, w)
                     | None \<Rightarrow> (Ok (), setBucket name (f b) w)))
      | AutoQuerier \<Rightarrow>
          (case bolt_begin_err E True of
             Some e \<Rightarrow> (Err e, w)
           | None \<Rightarrow>
               (case buckets w name of
                  None \<Rightarrow> (Err (ErrBucketNotFound name), w)
                | Some b \<Rightarrow>
                    (case engineErr of
                       Some e \<Rightarrow> (Err e, w)
                     | None \<Rightarrow>
                         (case bolt_commit_err E (buckets (setBucket name (f b) w)) of
                            Some e \<Rightarrow> (Err e, w)
                          | None \<Rightarrow> (Ok (), setBucket name (f b) w))))))"

definition bucket_Put ::
  "env \<Rightarrow> querier \<Rightarrow> string \<Rightarrow> bytes \<Rightarrow> val \<Rightarrow> (unit, 'z world_scheme) op" where
  "bucket_Put E q name key v = bucketWrite E q name (bolt_put_err E name key) (al_put key v)"

definition bucket_Delete ::
  "env \<Rightarrow> querier \<Rightarrow> string \<Rightarrow> bytes \<Rightarrow> (unit, 'z world_scheme) op" where
  "bucket_Delete E q name key = bucketWrite E q name (bolt_delete_err E name key) (al_del key)"

text \<open>The pairs \<^verbatim>\<open>ForEach\<close> visits, in key order.\<close>

definition bucket_ForEach ::
  "env \<Rightarrow> querier \<Rightarrow> string \<Rightarrow> 'z world_scheme \<Rightarrow> err + bucket" where
  "bucket_ForEach E q name w =
     (if q = AutoQuerier \<and> bolt_begin_err E False \<noteq> None then Err (the (bolt_begin_err E False))
      else case buckets w name of None \<Rightarrow> Err (ErrBucketNotFound name) | Some b \<Rightarrow> Ok b)"

text \<open>
  The pairs a cursor can reach: none for a missing bucket, and none outside a transaction,
  where \<^verbatim>\<open>autoBucket.Cursor\<close> returns \<^verbatim>\<open>emptyCursor\<close>.
\<close>

definition bucket_Cursor :: "querier \<Rightarrow> string \<Rightarrow> 'z world_scheme \<Rightarrow> bucket" where
  "bucket_Cursor q name w =
     (case q of
        AutoQuerier \<Rightarrow> []
      | TxQuerier _ \<Rightarrow> (case buckets w name of None \<Rightarrow> [] | Some b \<Rightarrow> b))"

text \<open>
  Cursor movement over those pairs. \<open>seekFrom\<close> lists what \<^verbatim>\<open>Seek\<close> followed by \<^verbatim>\<open>Next\<close> calls
  visits; \<open>seekPrev\<close> is the pair \<^verbatim>\<open>Prev\<close> reaches right after that \<^verbatim>\<open>Seek\<close>.
\<close>

definition seekFrom :: "bytes \<Rightarrow> bucket \<Rightarrow> bucket" where
  "seekFrom s b = dropWhile (\<lambda>e. fst e < s) b"

definition seekAt :: "bytes \<Rightarrow> bucket \<Rightarrow> (bytes \<times> val) option" where
  "seekAt s b = (case seekFrom s b of [] \<Rightarrow> None | e # _ \<Rightarrow> Some e)"

definition seekPrev :: "bytes \<Rightarrow> bucket \<Rightarrow> (bytes \<times> val) option" where
  "seekPrev s b =
     (case rev (takeWhile (\<lambda>e. fst e < s) b) of [] \<Rightarrow> None | e # _ \<Rightarrow> Some e)"

section \<open>Executors\<close>

definition boltGet ::
  "'a codec \<Rightarrow> string \<Rightarrow> bytes \<Rightarrow> 'z world_scheme \<Rightarrow> err + 'a" where
  "boltGet cdc name key w =
     (case bucket_Get name key w of
        None \<Rightarrow> Err ErrBboltNotFound
      | Some data \<Rightarrow> (case Unmarshal cdc data of None \<Rightarrow> Err ErrDecode | Some x \<Rightarrow> Ok x))"

definition boltPut ::
  "env \<Rightarrow> 'a codec \<Rightarrow> querier \<Rightarrow> string \<Rightarrow> bytes \<Rightarrow> 'a \<Rightarrow> (unit, 'z world_scheme) op" where
  "boltPut E cdc q name key x = bucket_Put E q name key (Marshal cdc x)"

definition boltDelete ::
  "env \<Rightarrow> querier \<Rightarrow> string \<Rightarrow> bytes \<Rightarrow> (unit, 'z world_scheme) op" where
  "boltDelete E q name key = bucket_Delete E q name key"

definition boltExists :: "string \<Rightarrow> bytes \<Rightarrow> 'z world_scheme \<Rightarrow> bool" where
  "boltExists name key w \<longleftrightarrow> bucket_Get name key w \<noteq> None"

fun decodeAll :: "'a codec \<Rightarrow> bucket \<Rightarrow> err + 'a list" where
  "decodeAll cdc [] = Ok []"
| "decodeAll cdc ((k, v) # rest) =
     (case Unmarshal cdc v of
        None \<Rightarrow> Err ErrDecode
      | Some x \<Rightarrow> (case decodeAll cdc rest of Inl e \<Rightarrow> Err e | Inr xs \<Rightarrow> Ok (x # xs)))"

definition boltList ::
  "env \<Rightarrow> 'a codec \<Rightarrow> querier \<Rightarrow> string \<Rightarrow> 'z world_scheme \<Rightarrow> err + 'a list" where
  "boltList E cdc q name w =
     (case bucket_ForEach E q name w of Inl e \<Rightarrow> Err e | Inr b \<Rightarrow> decodeAll cdc b)"

text \<open>\<^verbatim>\<open>for k, v := c.Seek(prefix); k != nil && hasPrefix(k, prefix); k, v = c.Next()\<close>\<close>

definition prefixScan :: "bytes \<Rightarrow> bucket \<Rightarrow> bucket" where
  "prefixScan p b = takeWhile (\<lambda>e. prefix p (fst e)) (seekFrom p b)"

definition boltScan ::
  "'a codec \<Rightarrow> querier \<Rightarrow> string \<Rightarrow> bytes \<Rightarrow> 'z world_scheme \<Rightarrow> err + 'a list" where
  "boltScan cdc q name p w = decodeAll cdc (prefixScan p (bucket_Cursor q name w))"

section \<open>The transaction manager\<close>

text \<open>The part of \<^verbatim>\<open>context.Context\<close> the manager uses: the active transaction, if any, and its mode.\<close>

record ctx =
  ctx_tx :: "bool option"

definition GetQuerier :: "'c ctx_scheme \<Rightarrow> querier" where
  "GetQuerier c = (case ctx_tx c of Some wr \<Rightarrow> TxQuerier wr | None \<Rightarrow> AutoQuerier)"

definition runTx ::
  "env \<Rightarrow> 'c ctx_scheme \<Rightarrow> bool \<Rightarrow> ('c ctx_scheme \<Rightarrow> ('a, 'z world_scheme) op)
     \<Rightarrow> ('a, 'z world_scheme) op" where
  "runTx E c writable callback w =
     (case callback (c\<lparr>ctx_tx := Some writable\<rparr>) w of
        (Inl e, w') \<Rightarrow> (Err e, w'\<lparr>buckets := buckets w\<rparr>)
      | (Inr x, w') \<Rightarrow>
          if writable then
            (case bolt_commit_err E (buckets w') of
               Some e \<Rightarrow> (Err e, w'\<lparr>buckets := buckets w\<rparr>)
             | None \<Rightarrow> (Ok x, w'))
          else (Ok x, w'\<lparr>buckets := buckets w\<rparr>))"

definition WithTx ::
  "env \<Rightarrow> 'c ctx_scheme \<Rightarrow> ('c ctx_scheme \<Rightarrow> ('a, 'z world_scheme) op)
     \<Rightarrow> ('a, 'z world_scheme) op" where
  "WithTx E c callback w =
     (if ctx_tx c = Some True then callback c w
      else case bolt_begin_err E True of
             Some e \<Rightarrow> (Err e, w)
           | None \<Rightarrow> runTx E c True callback w)"

definition WithReadTx ::
  "env \<Rightarrow> 'c ctx_scheme \<Rightarrow> ('c ctx_scheme \<Rightarrow> ('a, 'z world_scheme) op)
     \<Rightarrow> ('a, 'z world_scheme) op" where
  "WithReadTx E c callback w =
     (if ctx_tx c \<noteq> None then callback c w
      else case bolt_begin_err E False of
             Some e \<Rightarrow> (Err e, w)
           | None \<Rightarrow> runTx E c False callback w)"

section \<open>The contract of a bucket\<close>

text \<open>
  What \<^verbatim>\<open>Bucket\<close> promises its clients, as a locale: lookups see exactly the last write to a
  key, and iteration visits exactly the stored pairs in ascending key order. The facts about
  seeks and prefix scans that the repositories rely on follow from these laws alone.
\<close>

locale ordered_bucket =
  fixes get :: "'b \<Rightarrow> bytes \<Rightarrow> val option"
    and put :: "bytes \<Rightarrow> val \<Rightarrow> 'b \<Rightarrow> 'b"
    and del :: "bytes \<Rightarrow> 'b \<Rightarrow> 'b"
    and items :: "'b \<Rightarrow> bucket"
    and inv :: "'b \<Rightarrow> bool"
  assumes items_ascending: "inv b \<Longrightarrow> ascending (items b)"
    and items_get: "inv b \<Longrightarrow> (k, v) \<in> set (items b) \<longleftrightarrow> get b k = Some v"
    and get_put: "inv b \<Longrightarrow> get (put k v b) = (get b)(k \<mapsto> v)"
    and get_del: "inv b \<Longrightarrow> get (del k b) = (get b)(k := None)"
    and inv_put: "inv b \<Longrightarrow> inv (put k v b)"
    and inv_del: "inv b \<Longrightarrow> inv (del k b)"
begin

lemma seek_items:
  "inv b \<Longrightarrow> (k, v) \<in> set (seekFrom s (items b)) \<longleftrightarrow> get b k = Some v \<and> s \<le> k"
  by (auto simp: seekFrom_def dropWhile_ascending items_ascending items_get [symmetric])

lemma seek_sorted: "inv b \<Longrightarrow> ascending (seekFrom s (items b))"
  by (simp add: seekFrom_def dropWhile_ascending items_ascending ascending_filter)

lemma prefix_scan_filter:
  assumes "inv b"
  shows "prefixScan p (items b) = filter (\<lambda>e. prefix p (fst e)) (items b)"
proof -
  let ?seek = "filter (\<lambda>e. p \<le> fst e) (items b)"
  have seek: "seekFrom p (items b) = ?seek"
    using assms by (simp add: seekFrom_def dropWhile_ascending items_ascending)
  have "sorted_wrt (\<lambda>x y. fst x < fst y) (filter (\<lambda>e. p \<le> fst e) (items b))"
    using seek_sorted [OF assms, of p] by (simp add: seek sorted_wrt_map)
  then have "sorted_wrt (\<lambda>x y. fst x < fst y \<and> p \<le> fst x) ?seek"
    by (rule sorted_wrt_mono_rel [rotated]) auto
  then have "takeWhile (\<lambda>e. prefix p (fst e)) ?seek = filter (\<lambda>e. prefix p (fst e)) ?seek"
    by (rule takeWhile_downward) (auto intro: prefix_interval less_imp_le)
  moreover have "filter (\<lambda>e. prefix p (fst e)) ?seek = filter (\<lambda>e. prefix p (fst e)) (items b)"
    by (auto simp: filter_filter intro!: filter_cong dest: prefix_le)
  ultimately show ?thesis by (simp add: prefixScan_def seek)
qed

lemma prefix_scan_items:
  "inv b \<Longrightarrow> (k, v) \<in> set (prefixScan p (items b)) \<longleftrightarrow> get b k = Some v \<and> prefix p k"
  by (auto simp: prefix_scan_filter items_get [symmetric])

lemma get_after_put: "inv b \<Longrightarrow> get (put k v b) k' = (if k' = k then Some v else get b k')"
  by (simp add: get_put)

lemma seek_prev_None:
  assumes "inv b"
  shows "seekPrev s (items b) = None \<longleftrightarrow> (\<forall>k < s. get b k = None)"
proof -
  have "seekPrev s (items b) = None \<longleftrightarrow> filter (\<lambda>e. fst e < s) (items b) = []"
    using assms by (simp add: seekPrev_def takeWhile_ascending items_ascending split: list.splits)
  also have "\<dots> \<longleftrightarrow> (\<forall>k v. (k, v) \<in> set (items b) \<longrightarrow> \<not> k < s)"
    by (simp add: filter_empty_conv Ball_def split_paired_All)
  also have "\<dots> \<longleftrightarrow> (\<forall>k < s. get b k = None)"
    by (simp add: items_get [OF assms]) (metis not_None_eq)
  finally show ?thesis .
qed

lemma seek_prev_Some:
  assumes "inv b" and "seekPrev s (items b) = Some (k, v)"
  shows "get b k = Some v" "k < s" "\<forall>k'. k' < s \<longrightarrow> get b k' \<noteq> None \<longrightarrow> k' \<le> k"
proof -
  let ?low = "filter (\<lambda>e. fst e < s) (items b)"
  from assms obtain rest where low: "?low = rev rest @ [(k, v)]"
    by (auto simp: seekPrev_def takeWhile_ascending items_ascending split: list.splits)
  have mem: "(k, v) \<in> set ?low" by (simp add: low)
  with assms(1) show "get b k = Some v" "k < s" by (auto simp: items_get)
  have asc: "ascending ?low" using assms(1) by (simp add: items_ascending ascending_filter)
  show "\<forall>k'. k' < s \<longrightarrow> get b k' \<noteq> None \<longrightarrow> k' \<le> k"
  proof (intro allI impI)
    fix k' assume "k' < s" "get b k' \<noteq> None"
    with assms(1) obtain v' where "(k', v') \<in> set ?low" by (auto simp: items_get)
    with asc show "k' \<le> k" by (auto simp: low sorted_wrt_append)
  qed
qed

end

interpretation alb: ordered_bucket map_of al_put al_del "\<lambda>b. b" ascending
  by unfold_locales
    (simp_all add: ascending_map_of map_of_al_put map_of_al_del ascending_al_put ascending_al_del)

section \<open>Facts about operations and transactions\<close>

lemma bindT_simps [simp]:
  "bindT (returnT x) f = f x"
  "bindT (failT e) f = failT e"
  "bindT (\<lambda>w. (Inr x, g w)) f w = f x (g w)"
  by (simp_all add: bindT_def returnT_def failT_def fun_eq_iff)

lemma bindT_Ok: "m w = (Inr x, w') \<Longrightarrow> bindT m f w = f x w'"
  by (simp add: bindT_def)

lemma bindT_Err: "m w = (Inl e, w') \<Longrightarrow> bindT m f w = (Inl e, w')"
  by (simp add: bindT_def)

lemma bindT_eq_Inr:
  "bindT m f w = (Inr y, w'') \<longleftrightarrow> (\<exists>x w'. m w = (Inr x, w') \<and> f x w' = (Inr y, w''))"
  by (auto simp: bindT_def split: prod.splits sum.splits)

lemma bindT_eq_Inl:
  "bindT m f w = (Inl e, w'') \<longleftrightarrow>
     m w = (Inl e, w'') \<or> (\<exists>x w'. m w = (Inr x, w') \<and> f x w' = (Inl e, w''))"
  by (auto simp: bindT_def split: prod.splits sum.splits)

lemma basic_op_simps [simp]:
  "returnT x w = (Inr y, w') \<longleftrightarrow> x = y \<and> w' = w"
  "returnT x w \<noteq> (Inl e, w')"
  "failT e s = (Inl e', s') \<longleftrightarrow> e = e' \<and> s' = s"
  "failT e s \<noteq> (Inr z, s')"
  "readT f p = (r, p') \<longleftrightarrow> f p = r \<and> p' = p"
  "whenErr u o1 = (u', o2) \<longleftrightarrow> u = u' \<and> o2 = o1"
  "timeNow E v = (Inr t, v') \<longleftrightarrow> t = clock E (ticks v) \<and> v' = v\<lparr>ticks := Suc (ticks v)\<rparr>"
  "timeNow E v \<noteq> (Inl e, v')"
  by (auto simp: returnT_def failT_def readT_def whenErr_def timeNow_def)

lemmas bind_inversion = bindT_eq_Inr bindT_eq_Inl

lemma buckets_setBucket [simp]: "buckets (setBucket n b w) = (buckets w)(n \<mapsto> b)"
  by (simp add: setBucket_def)

lemma ticks_setBucket [simp]: "ticks (setBucket n b w) = ticks w"
  by (simp add: setBucket_def)

text \<open>Every successful write replaces one existing bucket; a failing write changes nothing.\<close>

lemma bucketWrite_Inr:
  "bucketWrite E q n er f w = (Inr u, w') \<Longrightarrow>
     \<exists>b. buckets w n = Some b \<and> w' = setBucket n (f b) w"
  by (auto simp: bucketWrite_def split: querier.splits option.splits if_splits)

lemma bucketWrite_Inl: "bucketWrite E q n er f w = (Inl e, w') \<Longrightarrow> w' = w"
  by (auto simp: bucketWrite_def split: querier.splits option.splits if_splits)

lemma bucket_Put_Inr:
  "bucket_Put E q n k v w = (Inr u, w') \<Longrightarrow>
     \<exists>b. buckets w n = Some b \<and> w' = setBucket n (al_put k v b) w"
  unfolding bucket_Put_def by (rule bucketWrite_Inr)

lemma bucket_Delete_Inr:
  "bucket_Delete E q n k w = (Inr u, w') \<Longrightarrow>
     \<exists>b. buckets w n = Some b \<and> w' = setBucket n (al_del k b) w"
  unfolding bucket_Delete_def by (rule bucketWrite_Inr)

lemma bucket_Put_reliable [bolt_simps]:
  "bolt_reliable E \<Longrightarrow> buckets w n = Some b \<Longrightarrow>
     bucket_Put E (TxQuerier True) n k v w = (Inr (), setBucket n (al_put k v b) w)"
  by (simp add: bucket_Put_def bucketWrite_def)

lemma bucket_Delete_reliable [bolt_simps]:
  "bolt_reliable E \<Longrightarrow> buckets w n = Some b \<Longrightarrow>
     bucket_Delete E (TxQuerier True) n k w = (Inr (), setBucket n (al_del k b) w)"
  by (simp add: bucket_Delete_def bucketWrite_def)

lemma bucket_Get_setBucket [bolt_simps]:
  "bucket_Get n k (setBucket n' b w) = (if n = n' then map_of b k else bucket_Get n k w)"
  by (simp add: bucket_Get_def)

lemma bucket_Get_ticks [simp]: "bucket_Get n k (w\<lparr>ticks := t\<rparr>) = bucket_Get n k w"
  by (simp add: bucket_Get_def)

lemma bucket_Get_Some: "buckets w n = Some b \<Longrightarrow> bucket_Get n k w = map_of b k"
  by (simp add: bucket_Get_def)

lemma GetQuerier_tx [simp]: "ctx_tx c = Some wr \<Longrightarrow> GetQuerier c = TxQuerier wr"
  by (simp add: GetQuerier_def)

lemma WithTx_nested [simp]: "ctx_tx c = Some True \<Longrightarrow> WithTx E c f w = f c w"
  by (simp add: WithTx_def)

lemma WithReadTx_nested [simp]: "ctx_tx c = Some wr \<Longrightarrow> WithReadTx E c f w = f c w"
  by (simp add: WithReadTx_def)

lemma WithTx_Inl_buckets:
  "ctx_tx c \<noteq> Some True \<Longrightarrow> WithTx E c f w = (Inl e, w') \<Longrightarrow> buckets w' = buckets w"
  by (auto simp: WithTx_def runTx_def split: option.splits prod.splits sum.splits if_splits)

lemma WithTx_Inr:
  "ctx_tx c \<noteq> Some True \<Longrightarrow> WithTx E c f w = (Inr x, w') \<Longrightarrow>
     f (c\<lparr>ctx_tx := Some True\<rparr>) w = (Inr x, w')"
  by (auto simp: WithTx_def runTx_def split: option.splits prod.splits sum.splits if_splits)

lemma WithTx_reliable_Inr:
  "bolt_reliable E \<Longrightarrow> ctx_tx c \<noteq> Some True \<Longrightarrow>
     f (c\<lparr>ctx_tx := Some True\<rparr>) w = (Inr x, w') \<Longrightarrow> WithTx E c f w = (Inr x, w')"
  by (simp add: WithTx_def runTx_def)

lemma WithTx_reliable_Inl:
  "bolt_reliable E \<Longrightarrow> ctx_tx c \<noteq> Some True \<Longrightarrow>
     f (c\<lparr>ctx_tx := Some True\<rparr>) w = (Inl e, w') \<Longrightarrow>
     WithTx E c f w = (Inl e, w'\<lparr>buckets := buckets w\<rparr>)"
  by (simp add: WithTx_def runTx_def)

lemma WithReadTx_buckets:
  "ctx_tx c = None \<Longrightarrow> buckets (snd (WithReadTx E c f w)) = buckets w"
  by (auto simp: WithReadTx_def runTx_def split: option.splits prod.splits sum.splits)

text \<open>A read transaction around a pure read is that read, unless the engine refuses to begin.\<close>

lemma WithReadTx_readT:
  "WithReadTx E c (\<lambda>c. readT (f (GetQuerier c))) w =
     (case ctx_tx c of
        Some wr \<Rightarrow> (f (TxQuerier wr) w, w)
      | None \<Rightarrow> (case bolt_begin_err E False of
                   Some e \<Rightarrow> (Inl e, w) | None \<Rightarrow> (f (TxQuerier False) w, w)))"
  by (auto simp: WithReadTx_def runTx_def readT_def GetQuerier_def split: option.splits sum.splits)

end
