(* ===== verification/Keys.thy ===== *)
theory Keys
  imports Prelude
begin

text \<open>
  The key encodings of \<^verbatim>\<open>src/internal/storage/bbolt/config/keys.go\<close>: configs under
  \<^verbatim>\<open><ns>\x00<path>\<close>, history rows under that key followed by a separator and the revision as
  eight big-endian bytes, changelog rows under the revision alone. The lemmas show what the
  repositories use: the encodings are injective and prefix-free on names without the
  separator byte, and the byte order of revisions is their numeric order.
\<close>

definition keySep :: char where
  "keySep = CHR 0x00"

definition revisionSize :: nat where
  "revisionSize = 8"

definition configKey :: "string \<Rightarrow> string \<Rightarrow> bytes" where
  "configKey namespace path = namespace @ [keySep] @ path"

definition parseConfigKey :: "bytes \<Rightarrow> string \<times> string" where
  "parseConfigKey key =
     (case dropWhile (\<lambda>c. c \<noteq> keySep) key of
        [] \<Rightarrow> ([], key)
      | _ # after \<Rightarrow> (takeWhile (\<lambda>c. c \<noteq> keySep) key, after))"

definition configKeyPrefix :: "string \<Rightarrow> string \<Rightarrow> bytes option" where
  "configKeyPrefix namespace pathPrefix =
     (if namespace = [] then None else Some (namespace @ [keySep] @ pathPrefix))"

definition historyPrefix :: "string \<Rightarrow> string \<Rightarrow> bytes" where
  "historyPrefix namespace path = namespace @ [keySep] @ path @ [keySep]"

text \<open>\<^verbatim>\<open>binary.BigEndian.PutUint64\<close> and \<^verbatim>\<open>Uint64\<close>.\<close>

fun bigEndian :: "nat \<Rightarrow> nat \<Rightarrow> bytes" where
  "bigEndian 0 n = []"
| "bigEndian (Suc k) n = char_of (n div 256 ^ k) # bigEndian k n"

definition fromBigEndian :: "bytes \<Rightarrow> nat" where
  "fromBigEndian bs = foldl (\<lambda>acc c. acc * 256 + of_char c) 0 bs"

definition uint64 :: "int64 \<Rightarrow> nat" where
  "uint64 i = nat (i mod 2 ^ 64)"

definition revisionBytes :: "int64 \<Rightarrow> bytes" where
  "revisionBytes revision = bigEndian revisionSize (uint64 revision)"

definition parseRevision :: "bytes \<Rightarrow> int64" where
  "parseRevision b =
     (if length b < revisionSize then 0 else wrap64 (int (fromBigEndian (take revisionSize b))))"

definition historyKey :: "string \<Rightarrow> string \<Rightarrow> int64 \<Rightarrow> bytes" where
  "historyKey namespace path revision = historyPrefix namespace path @ revisionBytes revision"

definition nulFree :: "string \<Rightarrow> bool" where
  "nulFree s \<longleftrightarrow> keySep \<notin> set s"

section \<open>Config keys\<close>

lemma takeWhile_nulFree: "nulFree s \<Longrightarrow> takeWhile (\<lambda>c. c \<noteq> keySep) (s @ keySep # t) = s"
  by (induction s) (auto simp: nulFree_def)

lemma dropWhile_nulFree: "nulFree s \<Longrightarrow> dropWhile (\<lambda>c. c \<noteq> keySep) (s @ keySep # t) = keySep # t"
  by (induction s) (auto simp: nulFree_def)

lemma parse_configKey [key_simps]:
  "nulFree ns \<Longrightarrow> parseConfigKey (configKey ns path) = (ns, path)"
  by (simp add: parseConfigKey_def configKey_def takeWhile_nulFree dropWhile_nulFree)

lemma configKey_inj:
  "nulFree ns \<Longrightarrow> nulFree ns' \<Longrightarrow> configKey ns p = configKey ns' p' \<longleftrightarrow> ns = ns' \<and> p = p'"
  by (metis parse_configKey prod.inject)

lemma split_at_sep:
  assumes "nulFree a" and "nulFree b" and "prefix (a @ keySep # s) (b @ keySep # t)"
  shows "a = b \<and> prefix s t"
proof -
  from assms(3) obtain r where r: "b @ keySep # t = a @ keySep # (s @ r)"
    by (auto simp: prefix_def)
  have "b = a"
    using takeWhile_nulFree [OF assms(1), of "s @ r"] takeWhile_nulFree [OF assms(2), of t] r
    by simp
  with r show ?thesis by (auto simp: prefix_def)
qed

lemma configKeyPrefix_scan:
  assumes "nulFree ns" and "nulFree ns'"
  shows "prefix (ns @ [keySep] @ pp) (configKey ns' p) \<longleftrightarrow> ns = ns' \<and> prefix pp p"
  using split_at_sep [OF assms, of pp p] by (auto simp: configKey_def)

section \<open>Revisions\<close>

lemma bigEndian_length [simp]: "length (bigEndian k n) = k"
  by (induction k) auto

lemma bigEndian_add: "bigEndian k (n + 256 ^ k * q) = bigEndian k n"
proof (induction k arbitrary: q)
  case (Suc k)
  have "(n + 256 ^ k * (256 * q)) div 256 ^ k = n div 256 ^ k + 256 * q"
    by simp
  then have "char_of ((n + 256 ^ k * (256 * q)) div 256 ^ k) = (char_of (n div 256 ^ k) :: char)"
    by (metis char_of_mod_256 mod_mult_self2)
  with Suc [of "256 * q"] show ?case by (simp add: mult.assoc mult.left_commute)
qed simp

lemma bigEndian_mod: "bigEndian k (n mod 256 ^ k) = bigEndian k n"
  using bigEndian_add [of k "n mod 256 ^ k" "n div 256 ^ k"] by simp

lemma fromBigEndian_Cons:
  "fromBigEndian (c # cs) = of_char c * 256 ^ length cs + fromBigEndian cs"
proof -
  have "foldl (\<lambda>acc c. acc * 256 + of_char c) a cs = a * 256 ^ length cs + fromBigEndian cs" for a :: nat
  proof (induction cs arbitrary: a)
    case (Cons d ds)
    show ?case
      using Cons [of "a * 256 + of_char d"] Cons [of "of_char d"]
      by (simp add: fromBigEndian_def algebra_simps)
  qed (simp add: fromBigEndian_def)
  from this [of "of_char c"] show ?thesis by (simp add: fromBigEndian_def)
qed

lemma fromBigEndian_bigEndian: "fromBigEndian (bigEndian k n) = n mod 256 ^ k"
proof (induction k)
  case (Suc k)
  have "n mod (256 ^ k * 256) = 256 ^ k * (n div 256 ^ k mod 256) + n mod 256 ^ k"
    by (rule mod_mult2_eq)
  with Suc show ?case by (simp add: fromBigEndian_Cons mult.commute)
qed (simp add: fromBigEndian_def)

lemma less_div_mod:
  "(m::nat) < n \<longleftrightarrow> m div d < n div d \<or> m div d = n div d \<and> m mod d < n mod d"
proof (cases "m div d = n div d")
  case True
  have "m = d * (n div d) + m mod d" "n = d * (n div d) + n mod d"
    using True mult_div_mod_eq [of d m] mult_div_mod_eq [of d n] by simp_all
  then have "m < n \<longleftrightarrow> m mod d < n mod d" by linarith
  with True show ?thesis by simp
next
  case False
  have "m < n \<longleftrightarrow> m div d < n div d"
  proof
    assume "m < n"
    then have "m div d \<le> n div d" by (simp add: div_le_mono)
    with False show "m div d < n div d" by simp
  next
    assume "m div d < n div d"
    then show "m < n" by (metis div_le_mono not_le)
  qed
  with False show ?thesis by simp
qed

text \<open>The bytes of equally long encodings compare as the numbers do.\<close>

lemma bigEndian_less:
  "m < 256 ^ k \<Longrightarrow> n < 256 ^ k \<Longrightarrow> bigEndian k m < bigEndian k n \<longleftrightarrow> m < n"
proof (induction k arbitrary: m n)
  case (Suc k)
  have b: "m div 256 ^ k < 256" "n div 256 ^ k < 256"
    using Suc.prems by (simp_all add: less_mult_imp_div_less mult.commute)
  have c: "char_of (m div 256 ^ k) < (char_of (n div 256 ^ k) :: char) \<longleftrightarrow> m div 256 ^ k < n div 256 ^ k"
    "char_of (m div 256 ^ k) = (char_of (n div 256 ^ k) :: char) \<longleftrightarrow> m div 256 ^ k = n div 256 ^ k"
    using b by (simp_all add: less_char_def char_of_eq_iff take_bit_eq_mod)
  have t: "bigEndian k m < bigEndian k n \<longleftrightarrow> m mod 256 ^ k < n mod 256 ^ k"
    using Suc.IH [of "m mod 256 ^ k" "n mod 256 ^ k"] by (simp add: bigEndian_mod)
  have "m < n \<longleftrightarrow> m div 256 ^ k < n div 256 ^ k \<or>
      m div 256 ^ k = n div 256 ^ k \<and> m mod 256 ^ k < n mod 256 ^ k"
    by (rule less_div_mod)
  with c t show ?case by simp
qed simp

lemma length_revisionBytes [simp]: "length (revisionBytes r) = revisionSize"
  by (simp add: revisionBytes_def)

lemma uint64_less: "uint64 i < 256 ^ revisionSize"
  by (simp add: uint64_def revisionSize_def nat_less_iff)

lemma uint64_nonneg: "0 \<le> i \<Longrightarrow> in_int64 i \<Longrightarrow> uint64 i = nat i"
  by (simp add: uint64_def in_int64_def)

lemma parse_revisionBytes [key_simps]: "in_int64 r \<Longrightarrow> parseRevision (revisionBytes r) = r"
proof -
  assume r: "in_int64 r"
  have "int (fromBigEndian (revisionBytes r)) = r mod 2 ^ 64"
    using uint64_less [of r] by (simp add: revisionBytes_def fromBigEndian_bigEndian uint64_def)
  moreover have "wrap64 (r mod 2 ^ 64) = r"
    using r by (simp only: wrap64_mod wrap64_id)
  ultimately show ?thesis
    by (simp add: parseRevision_def)
qed

lemma revisionBytes_less [key_simps]:
  assumes "0 \<le> a" "0 \<le> b" "in_int64 a" "in_int64 b"
  shows "revisionBytes a < revisionBytes b \<longleftrightarrow> a < b"
proof -
  have "revisionBytes a < revisionBytes b \<longleftrightarrow> uint64 a < uint64 b"
    unfolding revisionBytes_def by (rule bigEndian_less) (rule uint64_less)+
  with assms show ?thesis by (auto simp: uint64_nonneg)
qed

lemma revisionBytes_inj: "in_int64 a \<Longrightarrow> in_int64 b \<Longrightarrow> revisionBytes a = revisionBytes b \<longleftrightarrow> a = b"
  by (metis parse_revisionBytes)

lemma revisionBytes_le:
  "0 \<le> a \<Longrightarrow> 0 \<le> b \<Longrightarrow> in_int64 a \<Longrightarrow> in_int64 b \<Longrightarrow>
     revisionBytes a \<le> revisionBytes b \<longleftrightarrow> a \<le> b"
  using revisionBytes_less [of b a] by (auto simp: not_less [symmetric])

section \<open>History keys\<close>

lemma historyKey_prefix:
  assumes "nulFree ns" "nulFree ns'" "nulFree p" "nulFree p'"
  shows "prefix (historyPrefix ns p) (historyKey ns' p' r) \<longleftrightarrow> ns = ns' \<and> p = p'"
proof
  assume "prefix (historyPrefix ns p) (historyKey ns' p' r)"
  then have "prefix (ns @ keySep # (p @ keySep # [])) (ns' @ keySep # (p' @ keySep # revisionBytes r))"
    by (simp add: historyPrefix_def historyKey_def)
  with assms(1,2) have "ns = ns'" "prefix (p @ keySep # []) (p' @ keySep # revisionBytes r)"
    by (auto dest: split_at_sep)
  with assms(3,4) show "ns = ns' \<and> p = p'"
    by (auto dest: split_at_sep)
qed (simp add: historyKey_def)

lemma historyKey_inj:
  assumes "nulFree ns" "nulFree ns'" "nulFree p" "nulFree p'" "in_int64 r" "in_int64 r'"
  shows "historyKey ns p r = historyKey ns' p' r' \<longleftrightarrow> ns = ns' \<and> p = p' \<and> r = r'"
proof
  assume eq: "historyKey ns p r = historyKey ns' p' r'"
  have "prefix (historyPrefix ns p) (historyKey ns' p' r')"
    unfolding eq [symmetric] by (simp add: historyKey_def)
  then have "ns = ns' \<and> p = p'" using assms by (simp add: historyKey_prefix)
  with eq assms show "ns = ns' \<and> p = p' \<and> r = r'"
    by (simp add: historyKey_def revisionBytes_inj)
qed simp

lemma historyKey_le:
  assumes "0 \<le> r" "0 \<le> r'" "in_int64 r" "in_int64 r'"
  shows "historyKey ns p r \<le> historyKey ns p r' \<longleftrightarrow> r \<le> r'"
  using assms by (simp add: historyKey_def le_append_same revisionBytes_le)

lemma parse_historyKey [key_simps]:
  "in_int64 r \<Longrightarrow> parseRevision (drop (length (historyPrefix ns p)) (historyKey ns p r)) = r"
  by (simp add: historyKey_def parse_revisionBytes)

end
