(* ===== verification/ConfigRepo.thy ===== *)
theory ConfigRepo
  imports Bolt Keys
begin

text \<open>
  The config repository, \<^verbatim>\<open>src/internal/storage/bbolt/config/repository.go\<close>: create, update,
  delete, lock and unlock of configs, each one write transaction over the content, meta,
  history and changelog buckets, and the read side (get, lists, pages, search, history,
  point-in-time reads, changelog). An operation that Go runs on a transaction's querier takes
  that querier \<open>q\<close>; a body of a read transaction is a function of \<open>q\<close> and the state, named
  with the suffix \<open>_tx\<close>. Where the Go code mutates the config it was given, the model returns
  the mutated config.
\<close>

section \<open>Buckets and system keys\<close>

definition bucketContent :: string where "bucketContent = ''content''"
definition bucketMeta :: string where "bucketMeta = ''meta''"
definition bucketNamespaces :: string where "bucketNamespaces = ''namespaces''"
definition bucketChangelog :: string where "bucketChangelog = ''changelog''"
definition bucketHistory :: string where "bucketHistory = ''history''"
definition bucketSys :: string where "bucketSys = ''sys''"
definition bucketLockHistory :: string where "bucketLockHistory = ''lock_history''"
definition bucketLockChangelog :: string where "bucketLockChangelog = ''lock_changelog''"

lemmas bucket_name_defs =
  bucketContent_def bucketMeta_def bucketNamespaces_def bucketChangelog_def bucketHistory_def
  bucketSys_def bucketLockHistory_def bucketLockChangelog_def

lemma bucket_names_distinct [simp]:
  "bucketContent \<noteq> bucketMeta"
  "bucketContent \<noteq> bucketNamespaces"
  "bucketContent \<noteq> bucketChangelog"
  "bucketContent \<noteq> bucketHistory"
  "bucketContent \<noteq> bucketSys"
  "bucketContent \<noteq> bucketLockHistory"
  "bucketContent \<noteq> bucketLockChangelog"
  "bucketMeta \<noteq> bucketContent"
  "bucketMeta \<noteq> bucketNamespaces"
  "bucketMeta \<noteq> bucketChangelog"
  "bucketMeta \<noteq> bucketHistory"
  "bucketMeta \<noteq> bucketSys"
  "bucketMeta \<noteq> bucketLockHistory"
  "bucketMeta \<noteq> bucketLockChangelog"
  "bucketNamespaces \<noteq> bucketContent"
  "bucketNamespaces \<noteq> bucketMeta"
  "bucketNamespaces \<noteq> bucketChangelog"
  "bucketNamespaces \<noteq> bucketHistory"
  "bucketNamespaces \<noteq> bucketSys"
  "bucketNamespaces \<noteq> bucketLockHistory"
  "bucketNamespaces \<noteq> bucketLockChangelog"
  "bucketChangelog \<noteq> bucketContent"
  "bucketChangelog \<noteq> bucketMeta"
  "bucketChangelog \<noteq> bucketNamespaces"
  "bucketChangelog \<noteq> bucketHistory"
  "bucketChangelog \<noteq> bucketSys"
  "bucketChangelog \<noteq> bucketLockHistory"
  "bucketChangelog \<noteq> bucketLockChangelog"
  "bucketHistory \<noteq> bucketContent"
  "bucketHistory \<noteq> bucketMeta"
  "bucketHistory \<noteq> bucketNamespaces"
  "bucketHistory \<noteq> bucketChangelog"
  "bucketHistory \<noteq> bucketSys"
  "bucketHistory \<noteq> bucketLockHistory"
  "bucketHistory \<noteq> bucketLockChangelog"
  "bucketSys \<noteq> bucketContent"
  "bucketSys \<noteq> bucketMeta"
  "bucketSys \<noteq> bucketNamespaces"
  "bucketSys \<noteq> bucketChangelog"
  "bucketSys \<noteq> bucketHistory"
  "bucketSys \<noteq> bucketLockHistory"
  "bucketSys \<noteq> bucketLockChangelog"
  "bucketLockHistory \<noteq> bucketContent"
  "bucketLockHistory \<noteq> bucketMeta"
  "bucketLockHistory \<noteq> bucketNamespaces"
  "bucketLockHistory \<noteq> bucketChangelog"
  "bucketLockHistory \<noteq> bucketHistory"
  "bucketLockHistory \<noteq> bucketSys"
  "bucketLockHistory \<noteq> bucketLockChangelog"
  "bucketLockChangelog \<noteq> bucketContent"
  "bucketLockChangelog \<noteq> bucketMeta"
  "bucketLockChangelog \<noteq> bucketNamespaces"
  "bucketLockChangelog \<noteq> bucketChangelog"
  "bucketLockChangelog \<noteq> bucketHistory"
  "bucketLockChangelog \<noteq> bucketSys"
  "bucketLockChangelog \<noteq> bucketLockHistory"
  by (simp_all add: bucket_name_defs)

definition sysRevisionKeyName :: bytes where "sysRevisionKeyName = ''revision''"
definition sysLockSeqKeyName :: bytes where "sysLockSeqKeyName = ''lock_event_seq''"

lemma sys_keys_distinct [simp]:
  "sysRevisionKeyName \<noteq> sysLockSeqKeyName" "sysLockSeqKeyName \<noteq> sysRevisionKeyName"
  by (simp_all add: sysRevisionKeyName_def sysLockSeqKeyName_def)

section \<open>Counters, namespace locks and row writers\<close>

definition nextRevision :: "env \<Rightarrow> querier \<Rightarrow> (int64, 'z world_scheme) op" where
  "nextRevision E q w =
     (let current = parseRevision (rawBytes (bucket_Get bucketSys sysRevisionKeyName w));
          next = wrap64 (current + 1)
      in bindT (bucket_Put E q bucketSys sysRevisionKeyName (Raw (revisionBytes next)))
           (\<lambda>_. returnT next) w)"

definition nextLockSeq :: "env \<Rightarrow> querier \<Rightarrow> (int64, 'z world_scheme) op" where
  "nextLockSeq E q w =
     (let current = parseRevision (rawBytes (bucket_Get bucketSys sysLockSeqKeyName w));
          next = wrap64 (current + 1)
      in bindT (bucket_Put E q bucketSys sysLockSeqKeyName (Raw (revisionBytes next)))
           (\<lambda>_. returnT next) w)"

definition isNamespaceLocked :: "string \<Rightarrow> 'z world_scheme \<Rightarrow> err + bool" where
  "isNamespaceLocked namespace w =
     (case bucket_Get bucketNamespaces namespace w of
        None \<Rightarrow> Ok False
      | Some data \<Rightarrow>
          (case Unmarshal namespaceCodec data of
             None \<Rightarrow> Err ErrDecode
           | Some m \<Rightarrow> Ok (nm_Locked m)))"

definition validateNamespaceUnlocked :: "string \<Rightarrow> 'z world_scheme \<Rightarrow> err + unit" where
  "validateNamespaceUnlocked namespace w =
     (case isNamespaceLocked namespace w of
        Inl e \<Rightarrow> Err e
      | Inr locked \<Rightarrow> if locked then Err (ErrNamespaceLocked namespace) else Ok ())"

definition writeHistory ::
  "env \<Rightarrow> querier \<Rightarrow> string \<Rightarrow> string \<Rightarrow> int64 \<Rightarrow> bytes \<Rightarrow> (unit, 'z world_scheme) op" where
  "writeHistory E q namespace path revision content =
     bucket_Put E q bucketHistory (historyKey namespace path revision) (Raw content)"

definition writeChangelog ::
  "env \<Rightarrow> querier \<Rightarrow> int64 \<Rightarrow> EventType \<Rightarrow> string \<Rightarrow> string \<Rightarrow> int64
     \<Rightarrow> (unit, 'z world_scheme) op" where
  "writeChangelog E q revision eventType path namespace version =
     bindT (timeNow E) (\<lambda>now.
       boltPut E changelogCodec q bucketChangelog (revisionBytes revision)
         \<lparr>row_Type = eventType, row_Path = path, row_Namespace = namespace,
          row_Version = version, row_Timestamp = now\<rparr>)"

definition writeConfigEntry ::
  "env \<Rightarrow> querier \<Rightarrow> bytes \<Rightarrow> Config \<Rightarrow> int64 \<Rightarrow> EventType \<Rightarrow> (unit, 'z world_scheme) op" where
  "writeConfigEntry E q key cfg revision eventType =
     bindT (bucket_Put E q bucketContent key (Raw (cfg_Content cfg))) (\<lambda>_.
     bindT (boltPut E configMetaCodec q bucketMeta key (DomainToConfigMeta cfg)) (\<lambda>_.
     bindT (writeHistory E q (cfg_Namespace cfg) (cfg_Path cfg) revision (cfg_Content cfg)) (\<lambda>_.
     writeChangelog E q revision eventType (cfg_Path cfg) (cfg_Namespace cfg) (cfg_Version cfg))))"

definition writeLockHistory ::
  "env \<Rightarrow> querier \<Rightarrow> string \<Rightarrow> string \<Rightarrow> EventType \<Rightarrow> (unit, 'z world_scheme) op" where
  "writeLockHistory E q namespace path eventType =
     bindT (nextLockSeq E q) (\<lambda>seq.
     bindT (timeNow E) (\<lambda>now.
     bindT (boltPut E lockHistoryCodec q bucketLockHistory
              (historyPrefix namespace path @ revisionBytes seq)
              \<lparr>lh_Type = eventType, lh_Timestamp = now\<rparr>) (\<lambda>_.
     boltPut E changelogCodec q bucketLockChangelog (revisionBytes seq)
       \<lparr>row_Type = eventType, row_Path = path, row_Namespace = namespace,
        row_Version = 0, row_Timestamp = now\<rparr>)))"

section \<open>Writes\<close>

text \<open>\<^verbatim>\<open>bbolt.Get[ConfigMeta]\<close> with the repository's translation of \<^verbatim>\<open>bbolt.ErrNotFound\<close>.\<close>

definition getMeta :: "string \<Rightarrow> bytes \<Rightarrow> 'z world_scheme \<Rightarrow> err + ConfigMeta" where
  "getMeta path key w =
     (case boltGet configMetaCodec bucketMeta key w of
        Inl e \<Rightarrow> if e = ErrBboltNotFound then Err (ErrResourceNotFound path) else Err e
      | Inr m \<Rightarrow> Ok m)"

definition createConfigTx :: "env \<Rightarrow> querier \<Rightarrow> Config \<Rightarrow> (Config, 'z world_scheme) op" where
  "createConfigTx E q cfg =
     bindT (readT (validateNamespaceUnlocked (cfg_Namespace cfg))) (\<lambda>_.
     let key = configKey (cfg_Namespace cfg) (cfg_Path cfg) in
     bindT (readT (\<lambda>w. if boltExists bucketMeta key w
                        then Err (ErrResourceAlreadyExists (cfg_Path cfg)) else Ok ())) (\<lambda>_.
     let cfg = SetDefaults (GenerateHash (sha256hex E) cfg) in
     bindT (timeNow E) (\<lambda>now.
     let cfg = cfg\<lparr>cfg_Version := 1, cfg_CreatedAt := now, cfg_UpdatedAt := now\<rparr> in
     bindT (nextRevision E q) (\<lambda>revision.
     let cfg = cfg\<lparr>cfg_Revision := revision, cfg_CreateRevision := revision\<rparr> in
     bindT (writeConfigEntry E q key cfg revision EventTypeCreated) (\<lambda>_.
     returnT cfg)))))"

definition Create :: "env \<Rightarrow> 'c ctx_scheme \<Rightarrow> Config \<Rightarrow> (Config, 'z world_scheme) op" where
  "Create E c cfg = WithTx E c (\<lambda>c. createConfigTx E (GetQuerier c) cfg)"

definition validateUpdatePreconditions :: "ConfigMeta \<Rightarrow> Config \<Rightarrow> err + unit" where
  "validateUpdatePreconditions existing cfg =
     (if m_Locked existing then Err (NewLockedError (cfg_Path cfg))
      else if m_Version existing \<noteq> cfg_Version cfg
        then Err (NewConflictError (cfg_Version cfg) (m_Version existing))
      else Ok ())"

definition updateConfigTx :: "env \<Rightarrow> querier \<Rightarrow> Config \<Rightarrow> (Config, 'z world_scheme) op" where
  "updateConfigTx E q cfg =
     bindT (readT (validateNamespaceUnlocked (cfg_Namespace cfg))) (\<lambda>_.
     let key = configKey (cfg_Namespace cfg) (cfg_Path cfg) in
     bindT (readT (getMeta (cfg_Path cfg) key)) (\<lambda>existing.
     bindT (whenErr (validateUpdatePreconditions existing cfg)) (\<lambda>_.
     let cfg = GenerateHash (sha256hex E) cfg in
     bindT (timeNow E) (\<lambda>now.
     let cfg = cfg\<lparr>cfg_Version := wrap64 (m_Version existing + 1),
                   cfg_CreatedAt := m_CreatedAt existing,
                   cfg_UpdatedAt := now,
                   cfg_CreateRevision := m_CreateRevision existing\<rparr> in
     bindT (nextRevision E q) (\<lambda>revision.
     let cfg = cfg\<lparr>cfg_Revision := revision\<rparr> in
     bindT (writeConfigEntry E q key cfg revision EventTypeUpdated) (\<lambda>_.
     returnT cfg))))))"

definition Update :: "env \<Rightarrow> 'c ctx_scheme \<Rightarrow> Config \<Rightarrow> (Config, 'z world_scheme) op" where
  "Update E c cfg = WithTx E c (\<lambda>c. updateConfigTx E (GetQuerier c) cfg)"

definition deleteConfigTx ::
  "env \<Rightarrow> querier \<Rightarrow> string \<Rightarrow> string \<Rightarrow> (int64, 'z world_scheme) op" where
  "deleteConfigTx E q path namespace =
     bindT (readT (validateNamespaceUnlocked namespace)) (\<lambda>_.
     let key = configKey namespace path in
     bindT (readT (getMeta path key)) (\<lambda>existing.
     bindT (whenErr (if m_Locked existing then Err (ErrLocked path) else Ok ())) (\<lambda>_.
     bindT (nextRevision E q) (\<lambda>revision.
     bindT (boltDelete E q bucketContent key) (\<lambda>_.
     bindT (boltDelete E q bucketMeta key) (\<lambda>_.
     bindT (writeChangelog E q revision EventTypeDeleted path namespace 0) (\<lambda>_.
     returnT revision)))))))"

definition Delete ::
  "env \<Rightarrow> 'c ctx_scheme \<Rightarrow> string \<Rightarrow> string \<Rightarrow> (int64, 'z world_scheme) op" where
  "Delete E c path namespace = WithTx E c (\<lambda>c. deleteConfigTx E (GetQuerier c) path namespace)"

definition toggleConfigLockTx ::
  "env \<Rightarrow> querier \<Rightarrow> string \<Rightarrow> string \<Rightarrow> bool \<Rightarrow> (unit, 'z world_scheme) op" where
  "toggleConfigLockTx E q namespace path locked =
     bindT (readT (validateNamespaceUnlocked namespace)) (\<lambda>_.
     let key = configKey namespace path in
     bindT (readT (getMeta path key)) (\<lambda>m.
     if m_Locked m = locked then returnT ()
     else
       bindT (boltPut E configMetaCodec q bucketMeta key (m\<lparr>m_Locked := locked\<rparr>)) (\<lambda>_.
       writeLockHistory E q namespace path
         (if locked then EventTypeLocked else EventTypeUnlocked))))"

definition toggleConfigLock ::
  "env \<Rightarrow> 'c ctx_scheme \<Rightarrow> string \<Rightarrow> string \<Rightarrow> bool \<Rightarrow> (unit, 'z world_scheme) op" where
  "toggleConfigLock E c namespace path locked =
     WithTx E c (\<lambda>c. toggleConfigLockTx E (GetQuerier c) namespace path locked)"

definition LockConfig ::
  "env \<Rightarrow> 'c ctx_scheme \<Rightarrow> string \<Rightarrow> string \<Rightarrow> (unit, 'z world_scheme) op" where
  "LockConfig E c namespace path = toggleConfigLock E c namespace path True"

definition UnlockConfig ::
  "env \<Rightarrow> 'c ctx_scheme \<Rightarrow> string \<Rightarrow> string \<Rightarrow> (unit, 'z world_scheme) op" where
  "UnlockConfig E c namespace path = toggleConfigLock E c namespace path False"

section \<open>Reads of one config\<close>

definition Get_tx :: "string \<Rightarrow> string \<Rightarrow> querier \<Rightarrow> 'z world_scheme \<Rightarrow> err + Config" where
  "Get_tx path namespace q w =
     (let key = configKey namespace path in
      case getMeta path key w of
        Inl e \<Rightarrow> Err e
      | Inr m \<Rightarrow>
          (let content = rawBytes (bucket_Get bucketContent key w);
               cfg = ConfigMetaToDomain m content path namespace in
           case isNamespaceLocked namespace w of
             Inl e \<Rightarrow> Err e
           | Inr nsLocked \<Rightarrow> Ok (cfg\<lparr>cfg_NamespaceLocked := nsLocked\<rparr>)))"

definition Get ::
  "env \<Rightarrow> 'c ctx_scheme \<Rightarrow> string \<Rightarrow> string \<Rightarrow> (Config, 'z world_scheme) op" where
  "Get E c path namespace = WithReadTx E c (\<lambda>c. readT (Get_tx path namespace (GetQuerier c)))"

definition CurrentRevision_tx :: "querier \<Rightarrow> 'z world_scheme \<Rightarrow> err + int64" where
  "CurrentRevision_tx q w =
     (case bucket_Get bucketSys sysRevisionKeyName w of
        None \<Rightarrow> Ok 0
      | Some b \<Rightarrow> Ok (parseRevision (rawBytes (Some b))))"

definition CurrentRevision :: "env \<Rightarrow> 'c ctx_scheme \<Rightarrow> (int64, 'z world_scheme) op" where
  "CurrentRevision E c = WithReadTx E c (\<lambda>c. readT (CurrentRevision_tx (GetQuerier c)))"

end
