(* ===== verification/ConfigReads.thy ===== *)
theory ConfigReads
  imports ConfigRepo
begin

text \<open>
  The read side of \<^verbatim>\<open>src/internal/storage/bbolt/config/repository.go\<close> that scans buckets: lists
  and pages of configs and summaries, search by path, the merged history of a config, reads
  at a revision and the changelog. A Go closure that fills captured variables during a scan is
  a fold over the scanned rows with those variables as its accumulator.
\<close>

section \<open>Scanning the meta bucket\<close>

definition shouldSkipByPath :: "bytes \<Rightarrow> string \<Rightarrow> string \<Rightarrow> bool" where
  "shouldSkipByPath k namespace pathPrefix =
     (if namespace \<noteq> [] \<or> pathPrefix = [] \<or> pathPrefix = ''/'' then False
      else \<not> hasPrefix (snd (parseConfigKey k)) pathPrefix)"

fun scanMetaLoop ::
  "bytes option \<Rightarrow> string \<Rightarrow> string \<Rightarrow> (bytes \<Rightarrow> ConfigMeta \<Rightarrow> 'a \<Rightarrow> err + 'a) \<Rightarrow> bucket \<Rightarrow> 'a
     \<Rightarrow> err + 'a" where
  "scanMetaLoop pre namespace pathPrefix fn [] acc = Ok acc"
| "scanMetaLoop pre namespace pathPrefix fn ((k, v) # rest) acc =
     (if pre \<noteq> None \<and> \<not> prefix (the pre) k then Ok acc
      else if shouldSkipByPath k namespace pathPrefix
        then scanMetaLoop pre namespace pathPrefix fn rest acc
      else case Unmarshal configMetaCodec v of
             None \<Rightarrow> Err ErrDecode
           | Some m \<Rightarrow>
               (case fn k m acc of
                  Inl e \<Rightarrow> Err e
                | Inr acc' \<Rightarrow> scanMetaLoop pre namespace pathPrefix fn rest acc'))"

definition scanMeta ::
  "string \<Rightarrow> string \<Rightarrow> (bytes \<Rightarrow> ConfigMeta \<Rightarrow> 'a \<Rightarrow> err + 'a) \<Rightarrow> 'a \<Rightarrow> querier
     \<Rightarrow> 'z world_scheme \<Rightarrow> err + 'a" where
  "scanMeta namespace pathPrefix fn acc q w =
     (let meta = bucket_Cursor q bucketMeta w;
          pre = configKeyPrefix namespace pathPrefix
      in scanMetaLoop pre namespace pathPrefix fn
           (case pre of Some p \<Rightarrow> seekFrom p meta | None \<Rightarrow> meta) acc)"

type_synonym nsLockCache = "string \<rightharpoonup> bool"

definition nsLockCache_get ::
  "nsLockCache \<Rightarrow> string \<Rightarrow> 'z world_scheme \<Rightarrow> err + (bool \<times> nsLockCache)" where
  "nsLockCache_get cache namespace w =
     (case cache namespace of
        Some v \<Rightarrow> Ok (v, cache)
      | None \<Rightarrow>
          (case isNamespaceLocked namespace w of
             Inl e \<Rightarrow> Err e
           | Inr v \<Rightarrow> Ok (v, cache(namespace \<mapsto> v))))"

text \<open>The full config and the summary a scanned row stands for, with the cached namespace lock.\<close>

definition rowConfig ::
  "'z world_scheme \<Rightarrow> bytes \<Rightarrow> ConfigMeta \<Rightarrow> nsLockCache \<Rightarrow> err + (Config \<times> nsLockCache)" where
  "rowConfig w key m cache =
     (case parseConfigKey key of (ns, path) \<Rightarrow>
        let cfg = ConfigMetaToDomain m (rawBytes (bucket_Get bucketContent key w)) path ns in
        case nsLockCache_get cache ns w of
          Inl e \<Rightarrow> Err e
        | Inr (nsLocked, cache') \<Rightarrow> Ok (cfg\<lparr>cfg_NamespaceLocked := nsLocked\<rparr>, cache'))"

definition rowSummary ::
  "'z world_scheme \<Rightarrow> bytes \<Rightarrow> ConfigMeta \<Rightarrow> nsLockCache \<Rightarrow> err + (ConfigSummary \<times> nsLockCache)" where
  "rowSummary w key m cache =
     (case parseConfigKey key of (ns, path) \<Rightarrow>
        case nsLockCache_get cache ns w of
          Inl e \<Rightarrow> Err e
        | Inr (nsLocked, cache') \<Rightarrow>
            Ok ((ConfigMetaToSummary m path ns)\<lparr>sum_NamespaceLocked := nsLocked\<rparr>, cache'))"

definition collectRow ::
  "(bytes \<Rightarrow> ConfigMeta \<Rightarrow> nsLockCache \<Rightarrow> err + ('r \<times> nsLockCache)) \<Rightarrow> bytes \<Rightarrow> ConfigMeta
     \<Rightarrow> 'r list \<times> nsLockCache \<Rightarrow> err + ('r list \<times> nsLockCache)" where
  "collectRow row key m acc =
     (case row key m (snd acc) of
        Inl e \<Rightarrow> Err e
      | Inr (r, cache') \<Rightarrow> Ok (fst acc @ [r], cache'))"

definition listRows ::
  "(bytes \<Rightarrow> ConfigMeta \<Rightarrow> nsLockCache \<Rightarrow> err + ('r \<times> nsLockCache)) \<Rightarrow> string \<Rightarrow> string \<Rightarrow> querier
     \<Rightarrow> 'z world_scheme \<Rightarrow> err + 'r list" where
  "listRows row pathPrefix namespace q w =
     (case scanMeta namespace pathPrefix (collectRow row) ([], Map.empty) q w of
        Inl e \<Rightarrow> Err e
      | Inr (rows, _) \<Rightarrow> Ok rows)"

definition ListByPrefix_tx ::
  "string \<Rightarrow> string \<Rightarrow> querier \<Rightarrow> 'z world_scheme \<Rightarrow> err + Config list" where
  "ListByPrefix_tx pathPrefix namespace q w = listRows (rowConfig w) pathPrefix namespace q w"

definition ListByPrefix ::
  "env \<Rightarrow> 'c ctx_scheme \<Rightarrow> string \<Rightarrow> string \<Rightarrow> (Config list, 'z world_scheme) op" where
  "ListByPrefix E c pathPrefix namespace =
     WithReadTx E c (\<lambda>c. readT (ListByPrefix_tx pathPrefix namespace (GetQuerier c)))"

definition ListAllByNamespace ::
  "env \<Rightarrow> 'c ctx_scheme \<Rightarrow> string \<Rightarrow> (Config list, 'z world_scheme) op" where
  "ListAllByNamespace E c namespace = ListByPrefix E c [] namespace"

definition ListSummariesByPrefix_tx ::
  "string \<Rightarrow> string \<Rightarrow> querier \<Rightarrow> 'z world_scheme \<Rightarrow> err + ConfigSummary list" where
  "ListSummariesByPrefix_tx pathPrefix namespace q w =
     listRows (rowSummary w) pathPrefix namespace q w"

definition ListSummariesByPrefix ::
  "env \<Rightarrow> 'c ctx_scheme \<Rightarrow> string \<Rightarrow> string \<Rightarrow> (ConfigSummary list, 'z world_scheme) op" where
  "ListSummariesByPrefix E c pathPrefix namespace =
     WithReadTx E c (\<lambda>c. readT (ListSummariesByPrefix_tx pathPrefix namespace (GetQuerier c)))"

section \<open>Pages\<close>

text \<open>
  The accumulator of a page scan: the rows kept so far, the lock cache and the number of rows
  seen, which is also the total.
\<close>

definition pageRow ::
  "(bytes \<Rightarrow> ConfigMeta \<Rightarrow> nsLockCache \<Rightarrow> err + ('r \<times> nsLockCache)) \<Rightarrow> int \<Rightarrow> int \<Rightarrow> bytes \<Rightarrow> ConfigMeta
     \<Rightarrow> 'r list \<times> nsLockCache \<times> int \<Rightarrow> err + ('r list \<times> nsLockCache \<times> int)" where
  "pageRow row limit offset key m acc =
     (case acc of (rows, cache, idx) \<Rightarrow>
        if idx \<ge> offset \<and> int (length rows) < limit then
          (case row key m cache of
             Inl e \<Rightarrow> Err e
           | Inr (r, cache') \<Rightarrow> Ok (rows @ [r], cache', idx + 1))
        else Ok (rows, cache, idx + 1))"

definition pageRows ::
  "(bytes \<Rightarrow> ConfigMeta \<Rightarrow> nsLockCache \<Rightarrow> err + ('r \<times> nsLockCache)) \<Rightarrow> string \<Rightarrow> string \<Rightarrow> int \<Rightarrow> int
     \<Rightarrow> querier \<Rightarrow> 'z world_scheme \<Rightarrow> err + ('r list \<times> int)" where
  "pageRows row pathPrefix namespace limit offset q w =
     (case scanMeta namespace pathPrefix (pageRow row limit offset) ([], Map.empty, 0) q w of
        Inl e \<Rightarrow> Err e
      | Inr (rows, _, seen) \<Rightarrow> Ok (rows, seen))"

definition ListSummaryPage_tx ::
  "string \<Rightarrow> string \<Rightarrow> int \<Rightarrow> int \<Rightarrow> querier \<Rightarrow> 'z world_scheme \<Rightarrow> err + (ConfigSummary list \<times> int)" where
  "ListSummaryPage_tx pathPrefix namespace limit offset q w =
     pageRows (rowSummary w) pathPrefix namespace limit offset q w"

definition ListSummaryPage ::
  "env \<Rightarrow> 'c ctx_scheme \<Rightarrow> string \<Rightarrow> string \<Rightarrow> int \<Rightarrow> int
     \<Rightarrow> (ConfigSummary list \<times> int, 'z world_scheme) op" where
  "ListSummaryPage E c pathPrefix namespace limit offset =
     WithReadTx E c (\<lambda>c. readT (ListSummaryPage_tx pathPrefix namespace limit offset (GetQuerier c)))"

definition ListConfigPage_tx ::
  "string \<Rightarrow> string \<Rightarrow> int \<Rightarrow> int \<Rightarrow> querier \<Rightarrow> 'z world_scheme \<Rightarrow> err + (Config list \<times> int)" where
  "ListConfigPage_tx pathPrefix namespace limit offset q w =
     pageRows (rowConfig w) pathPrefix namespace limit offset q w"

definition ListConfigPage ::
  "env \<Rightarrow> 'c ctx_scheme \<Rightarrow> string \<Rightarrow> string \<Rightarrow> int \<Rightarrow> int
     \<Rightarrow> (Config list \<times> int, 'z world_scheme) op" where
  "ListConfigPage E c pathPrefix namespace limit offset =
     WithReadTx E c (\<lambda>c. readT (ListConfigPage_tx pathPrefix namespace limit offset (GetQuerier c)))"

definition CountByNamespace_tx :: "string \<Rightarrow> querier \<Rightarrow> 'z world_scheme \<Rightarrow> err + int" where
  "CountByNamespace_tx namespace q w =
     scanMeta namespace ''/'' (\<lambda>_ _ count. Ok (count + 1)) 0 q w"

definition CountByNamespace ::
  "env \<Rightarrow> 'c ctx_scheme \<Rightarrow> string \<Rightarrow> (int, 'z world_scheme) op" where
  "CountByNamespace E c namespace =
     WithReadTx E c (\<lambda>c. readT (CountByNamespace_tx namespace (GetQuerier c)))"

section \<open>Search\<close>

fun searchLoop ::
  "env \<Rightarrow> bytes option \<Rightarrow> string \<Rightarrow> bucket \<Rightarrow> err + ConfigSummary list" where
  "searchLoop E pre queryLower [] = Ok []"
| "searchLoop E pre queryLower ((k, v) # rest) =
     (if pre \<noteq> None \<and> \<not> prefix (the pre) k then Ok []
      else case parseConfigKey k of (ns, path) \<Rightarrow>
        if \<not> containsStr (toLower E path) queryLower then searchLoop E pre queryLower rest
        else case Unmarshal configMetaCodec v of
               None \<Rightarrow> Err ErrDecode
             | Some m \<Rightarrow>
                 (case searchLoop E pre queryLower rest of
                    Inl e \<Rightarrow> Err e
                  | Inr results \<Rightarrow> Ok (ConfigMetaToSummary m path ns # results)))"

definition SearchByPath_tx ::
  "env \<Rightarrow> string \<Rightarrow> string \<Rightarrow> querier \<Rightarrow> 'z world_scheme \<Rightarrow> err + ConfigSummary list" where
  "SearchByPath_tx E query namespace q w =
     (let meta = bucket_Cursor q bucketMeta w;
          pre = (if namespace \<noteq> [] then configKeyPrefix namespace [] else None)
      in searchLoop E pre (toLower E query)
           (case pre of Some p \<Rightarrow> seekFrom p meta | None \<Rightarrow> meta))"

definition SearchByPath ::
  "env \<Rightarrow> 'c ctx_scheme \<Rightarrow> string \<Rightarrow> string \<Rightarrow> (ConfigSummary list, 'z world_scheme) op" where
  "SearchByPath E c query namespace =
     WithReadTx E c (\<lambda>c. readT (SearchByPath_tx E query namespace (GetQuerier c)))"

section \<open>History\<close>

text \<open>The changelog row of a revision, if it decodes: its event type and timestamp.\<close>

definition changelogInfo :: "int64 \<Rightarrow> 'z world_scheme \<Rightarrow> EventType \<times> time" where
  "changelogInfo revision w =
     (case bucket_Get bucketChangelog (revisionBytes revision) w of
        None \<Rightarrow> (0, 0)
      | Some clData \<Rightarrow>
          (case Unmarshal changelogCodec clData of
             None \<Rightarrow> (0, 0)
           | Some cl \<Rightarrow> (row_Type cl, row_Timestamp cl)))"

definition historyEntry :: "env \<Rightarrow> int64 \<Rightarrow> bytes \<Rightarrow> 'z world_scheme \<Rightarrow> HistoryEntry" where
  "historyEntry E revision content w =
     \<lparr>he_Revision = revision, he_Content = content, he_ContentHash = sha256hex E content,
      he_EventType = fst (changelogInfo revision w), he_Timestamp = snd (changelogInfo revision w)\<rparr>"

definition collectContentHistory ::
  "env \<Rightarrow> bytes \<Rightarrow> querier \<Rightarrow> 'z world_scheme \<Rightarrow> HistoryEntry list" where
  "collectContentHistory E pre q w =
     map (\<lambda>(k, v). historyEntry E (parseRevision (drop (length pre) k)) (rawBytes (Some v)) w)
       (prefixScan pre (bucket_Cursor q bucketHistory w))"

definition lockEntry :: "LockHistoryEntry \<Rightarrow> HistoryEntry" where
  "lockEntry lhe =
     \<lparr>he_Revision = 0, he_Content = [], he_ContentHash = [],
      he_EventType = lh_Type lhe, he_Timestamp = lh_Timestamp lhe\<rparr>"

definition collectConfigLockHistory ::
  "bytes \<Rightarrow> querier \<Rightarrow> 'z world_scheme \<Rightarrow> HistoryEntry list" where
  "collectConfigLockHistory pre q w =
     map lockEntry
       (List.map_filter (\<lambda>(k, v). Unmarshal lockHistoryCodec v)
         (prefixScan pre (bucket_Cursor q bucketLockHistory w)))"

definition collectNamespaceLockHistory ::
  "string \<Rightarrow> querier \<Rightarrow> 'z world_scheme \<Rightarrow> HistoryEntry list" where
  "collectNamespaceLockHistory namespace q w =
     (let nsPrefix = historyPrefix namespace [] in
      map lockEntry
        (List.map_filter
          (\<lambda>(k, v). if length k - length nsPrefix \<noteq> revisionSize then None
                     else Unmarshal lockHistoryCodec v)
          (prefixScan nsPrefix (bucket_Cursor q bucketLockHistory w))))"

text \<open>Rows sorted newest first and cut to \<open>limit\<close>; Go panics on a negative bound.\<close>

definition newestFirst :: "env \<Rightarrow> ('r \<Rightarrow> time) \<Rightarrow> int \<Rightarrow> 'r list \<Rightarrow> err + 'r list" where
  "newestFirst E stamp limit rows =
     (let merged = map (\<lambda>i. rows ! i) (sortNewestFirst E (map stamp rows)) in
      if int (length merged) > limit
      then (if limit < 0 then Err (Panic ''slice bounds out of range'')
            else Ok (take (nat limit) merged))
      else Ok merged)"

definition mergeHistoryEntries ::
  "env \<Rightarrow> HistoryEntry list \<Rightarrow> HistoryEntry list \<Rightarrow> int \<Rightarrow> err + HistoryEntry list" where
  "mergeHistoryEntries E content lock limit = newestFirst E he_Timestamp limit (content @ lock)"

definition GetConfigHistory_tx ::
  "env \<Rightarrow> string \<Rightarrow> string \<Rightarrow> int \<Rightarrow> querier \<Rightarrow> 'z world_scheme \<Rightarrow> err + HistoryEntry list" where
  "GetConfigHistory_tx E path namespace limit q w =
     (let pre = historyPrefix namespace path;
          contentEntries = collectContentHistory E pre q w;
          lockEntries = collectConfigLockHistory pre q w @ collectNamespaceLockHistory namespace q w
      in mergeHistoryEntries E contentEntries lockEntries limit)"

definition GetConfigHistory ::
  "env \<Rightarrow> 'c ctx_scheme \<Rightarrow> string \<Rightarrow> string \<Rightarrow> int \<Rightarrow> (HistoryEntry list, 'z world_scheme) op" where
  "GetConfigHistory E c path namespace limit =
     WithReadTx E c (\<lambda>c. readT (GetConfigHistory_tx E path namespace limit (GetQuerier c)))"

text \<open>
  The cursor moves shared by \<^verbatim>\<open>GetAtRevision\<close> and \<^verbatim>\<open>lookupHistoryAtRevision\<close>: seek the exact
  revision, step back when it is not there, and accept only a row of the same config.
\<close>

definition seekRevision :: "bytes \<Rightarrow> bytes \<Rightarrow> bucket \<Rightarrow> (bytes \<times> val) option" where
  "seekRevision seekKey pre history =
     (let kv = (case seekAt seekKey history of
                  None \<Rightarrow> seekPrev seekKey history
                | Some (k, v) \<Rightarrow>
                    if \<not> prefix pre k then seekPrev seekKey history
                    else if k \<noteq> seekKey then seekPrev seekKey history
                    else Some (k, v))
      in case kv of
           None \<Rightarrow> None
         | Some (k, v) \<Rightarrow> if \<not> prefix pre k then None else Some (k, v))"

definition GetAtRevision_tx ::
  "env \<Rightarrow> string \<Rightarrow> string \<Rightarrow> int64 \<Rightarrow> querier \<Rightarrow> 'z world_scheme \<Rightarrow> err + HistoryEntry" where
  "GetAtRevision_tx E path namespace revision q w =
     (let pre = historyPrefix namespace path in
      case seekRevision (historyKey namespace path revision) pre (bucket_Cursor q bucketHistory w) of
        None \<Rightarrow> Err (ErrResourceNotFound path)
      | Some (k, v) \<Rightarrow>
          Ok (historyEntry E (parseRevision (drop (length pre) k)) (rawBytes (Some v)) w))"

definition GetAtRevision ::
  "env \<Rightarrow> 'c ctx_scheme \<Rightarrow> string \<Rightarrow> string \<Rightarrow> int64 \<Rightarrow> (HistoryEntry, 'z world_scheme) op" where
  "GetAtRevision E c path namespace revision =
     WithReadTx E c (\<lambda>c. readT (GetAtRevision_tx E path namespace revision (GetQuerier c)))"

section \<open>Changelog\<close>

fun listChangesLoop :: "int \<Rightarrow> bucket \<Rightarrow> ChangelogEntry list \<Rightarrow> err + ChangelogEntry list" where
  "listChangesLoop limit [] entries = Ok entries"
| "listChangesLoop limit ((k, v) # rest) entries =
     (if \<not> int (length entries) < limit then Ok entries
      else case Unmarshal changelogCodec v of
             None \<Rightarrow> Err ErrDecode
           | Some e \<Rightarrow>
               listChangesLoop limit rest (entries @ [ChangelogEntryToDomain e (parseRevision k)]))"

definition ListChanges_tx ::
  "int64 \<Rightarrow> int \<Rightarrow> querier \<Rightarrow> 'z world_scheme \<Rightarrow> err + ChangelogEntry list" where
  "ListChanges_tx sinceRevision limit q w =
     listChangesLoop limit
       (seekFrom (revisionBytes (wrap64 (sinceRevision + 1))) (bucket_Cursor q bucketChangelog w)) []"

definition ListChanges ::
  "env \<Rightarrow> 'c ctx_scheme \<Rightarrow> int64 \<Rightarrow> int \<Rightarrow> (ChangelogEntry list, 'z world_scheme) op" where
  "ListChanges E c sinceRevision limit =
     WithReadTx E c (\<lambda>c. readT (ListChanges_tx sinceRevision limit (GetQuerier c)))"

text \<open>From the last row backwards, skipping rows that do not decode.\<close>

fun recentLoop :: "int \<Rightarrow> bucket \<Rightarrow> ChangelogEntry list \<Rightarrow> ChangelogEntry list" where
  "recentLoop limit [] entries = entries"
| "recentLoop limit ((k, v) # older) entries =
     (if \<not> int (length entries) < limit then entries
      else case Unmarshal changelogCodec v of
             None \<Rightarrow> recentLoop limit older entries
           | Some e \<Rightarrow>
               recentLoop limit older (entries @ [ChangelogEntryToDomain e (parseRevision k)]))"

definition collectRecentChangelog :: "bucket \<Rightarrow> int \<Rightarrow> ChangelogEntry list" where
  "collectRecentChangelog bkt limit = recentLoop limit (rev bkt) []"

definition ListRecentChanges_tx ::
  "env \<Rightarrow> int \<Rightarrow> querier \<Rightarrow> 'z world_scheme \<Rightarrow> err + ChangelogEntry list" where
  "ListRecentChanges_tx E limit q w =
     newestFirst E cl_Timestamp limit
       (collectRecentChangelog (bucket_Cursor q bucketChangelog w) limit @
        collectRecentChangelog (bucket_Cursor q bucketLockChangelog w) limit)"

definition ListRecentChanges ::
  "env \<Rightarrow> 'c ctx_scheme \<Rightarrow> int \<Rightarrow> (ChangelogEntry list, 'z world_scheme) op" where
  "ListRecentChanges E c limit =
     (let limit = (if limit \<le> 0 then 50 else limit) in
      WithReadTx E c (\<lambda>c. readT (ListRecentChanges_tx E limit (GetQuerier c))))"

end
