(* ===== verification/ConfigKV.thy ===== *)
theory ConfigKV
  imports ConfigReads
begin

text \<open>
  The etcd-shaped side of the config repository,
  \<^verbatim>\<open>src/internal/storage/bbolt/config/etcd.go\<close>: range reads with limits and point-in-time
  lookup, the unconditional upsert behind etcd's Put, and deletion of a key range. \<open>None\<close>
  stands for Go's nil slice or nil pointer where the code distinguishes it from an empty one.
\<close>

section \<open>Ranges\<close>

record rangeParams =
  rp_startKey :: bytes
  rp_endKey :: bytes
  rp_singleKey :: bool
  rp_scanAll :: bool

definition buildRangeParams :: "string \<Rightarrow> string \<Rightarrow> string \<Rightarrow> string \<Rightarrow> rangeParams" where
  "buildRangeParams startNS startPath endNS endPath =
     (let singleKey = (endNS = [] \<and> endPath = []);
          scanAll = (endNS = [CHR 0x00])
      in \<lparr>rp_startKey = configKey startNS startPath,
          rp_endKey = (if \<not> singleKey \<and> \<not> scanAll then configKey endNS endPath else []),
          rp_singleKey = singleKey,
          rp_scanAll = scanAll\<rparr>)"

definition shouldBreakRange :: "bytes \<Rightarrow> rangeParams \<Rightarrow> bool" where
  "shouldBreakRange k rp =
     (if rp_singleKey rp then k \<noteq> rp_startKey rp
      else if \<not> rp_scanAll rp \<and> length (rp_endKey rp) > 0 then rp_endKey rp \<le> k
      else False)"

definition lookupHistoryAtRevision ::
  "string \<Rightarrow> string \<Rightarrow> int64 \<Rightarrow> querier \<Rightarrow> 'z world_scheme \<Rightarrow> bytes option" where
  "lookupHistoryAtRevision namespace path revision q w =
     map_option (\<lambda>kv. rawBytes (Some (snd kv)))
       (seekRevision (historyKey namespace path revision) (historyPrefix namespace path)
         (bucket_Cursor q bucketHistory w))"

definition GetKVAtRevision ::
  "env \<Rightarrow> 'c ctx_scheme \<Rightarrow> string \<Rightarrow> string \<Rightarrow> int64 \<Rightarrow> (bytes option, 'z world_scheme) op" where
  "GetKVAtRevision E c namespace path revision =
     WithReadTx E c (\<lambda>c. readT (\<lambda>w.
       Ok (lookupHistoryAtRevision namespace path revision (GetQuerier c) w)))"

definition CurrentRevisionValue :: "env \<Rightarrow> 'c ctx_scheme \<Rightarrow> (int64, 'z world_scheme) op" where
  "CurrentRevisionValue E c = CurrentRevision E c"

definition readKVValue ::
  "bytes \<Rightarrow> string \<Rightarrow> string \<Rightarrow> ConfigMeta \<Rightarrow> int64 \<Rightarrow> bool \<Rightarrow> querier \<Rightarrow> 'z world_scheme
     \<Rightarrow> (bytes \<times> int64) option" where
  "readKVValue k ns path m revision keysOnly q w =
     (if keysOnly then Some ([], m_Revision m)
      else if revision > 0 \<and> revision < m_Revision m then
        (case lookupHistoryAtRevision ns path revision q w of
           None \<Rightarrow> None
         | Some histVal \<Rightarrow> Some (histVal, revision))
      else Some (rawBytes (bucket_Get bucketContent k w), m_Revision m))"

fun rangeLoop ::
  "rangeParams \<Rightarrow> int64 \<Rightarrow> int64 \<Rightarrow> bool \<Rightarrow> querier \<Rightarrow> 'z world_scheme \<Rightarrow> bucket \<Rightarrow> KVPair list
     \<Rightarrow> err + (KVPair list \<times> bool)" where
  "rangeLoop rp limit revision keysOnly q w [] results = Ok (results, False)"
| "rangeLoop rp limit revision keysOnly q w ((k, v) # rest) results =
     (if shouldBreakRange k rp then Ok (results, False)
      else case Unmarshal configMetaCodec v of
        None \<Rightarrow> Err ErrDecode
      | Some m \<Rightarrow>
         (case parseConfigKey k of (ns, path) \<Rightarrow>
          case readKVValue k ns path m revision keysOnly q w of
            None \<Rightarrow> rangeLoop rp limit revision keysOnly q w rest results
          | Some (val, modRev) \<Rightarrow>
             (let results' = results @
                [\<lparr>kv_Namespace = ns, kv_Path = path, kv_Value = val,
                  kv_CreateRevision = m_CreateRevision m, kv_ModRevision = modRev,
                  kv_Version = m_Version m\<rparr>]
              in if limit > 0 \<and> int (length results') \<ge> limit then Ok (results', rest \<noteq> [])
                 else rangeLoop rp limit revision keysOnly q w rest results')))"

definition RangeQuery_tx ::
  "string \<Rightarrow> string \<Rightarrow> string \<Rightarrow> string \<Rightarrow> int64 \<Rightarrow> int64 \<Rightarrow> bool \<Rightarrow> querier \<Rightarrow> 'z world_scheme
     \<Rightarrow> err + (KVPair list \<times> bool)" where
  "RangeQuery_tx startNS startPath endNS endPath limit revision keysOnly q w =
     (let rp = buildRangeParams startNS startPath endNS endPath in
      rangeLoop rp limit revision keysOnly q w
        (seekFrom (rp_startKey rp) (bucket_Cursor q bucketMeta w)) [])"

definition RangeQuery ::
  "env \<Rightarrow> 'c ctx_scheme \<Rightarrow> string \<Rightarrow> string \<Rightarrow> string \<Rightarrow> string \<Rightarrow> int64 \<Rightarrow> int64 \<Rightarrow> bool
     \<Rightarrow> (KVPair list \<times> bool, 'z world_scheme) op" where
  "RangeQuery E c startNS startPath endNS endPath limit revision keysOnly =
     WithReadTx E c (\<lambda>c. readT
       (RangeQuery_tx startNS startPath endNS endPath limit revision keysOnly (GetQuerier c)))"

section \<open>Put\<close>

text \<open>
  \<^verbatim>\<open>existingKeyInfo\<close> together with its \<^verbatim>\<open>found\<close> flag: \<open>None\<close> when the key is absent.
\<close>

type_synonym existingKeyInfo = "ConfigMeta \<times> bytes"

definition resolveExistingKey ::
  "bytes \<Rightarrow> 'z world_scheme \<Rightarrow> err + existingKeyInfo option" where
  "resolveExistingKey key w =
     (case boltGet configMetaCodec bucketMeta key w of
        Inl e \<Rightarrow> if e = ErrBboltNotFound then Ok None else Err e
      | Inr m \<Rightarrow> Ok (Some (m, rawBytes (bucket_Get bucketContent key w))))"

definition buildPutMeta ::
  "env \<Rightarrow> string \<Rightarrow> bytes \<Rightarrow> int64 \<Rightarrow> existingKeyInfo option
     \<Rightarrow> (ConfigMeta \<times> EventType, 'z world_scheme) op" where
  "buildPutMeta E path value revision existing =
     bindT (timeNow E) (\<lambda>now.
       let fresh = \<lparr>m_ContentHash = sha256hex E value,
                    m_Format = DetectFormatFromPath path,
                    m_Version = 0,
                    m_Revision = revision,
                    m_CreateRevision = 0,
                    m_Metadata = None,
                    m_Locked = False,
                    m_CreatedAt = 0,
                    m_UpdatedAt = now\<rparr> in
       case existing of
         Some (meta, _) \<Rightarrow>
           returnT (fresh\<lparr>m_Version := wrap64 (m_Version meta + 1),
                          m_CreateRevision := m_CreateRevision meta,
                          m_CreatedAt := m_CreatedAt meta,
                          m_Metadata := m_Metadata meta,
                          m_Locked := m_Locked meta\<rparr>, EventTypeUpdated)
       | None \<Rightarrow>
           returnT (fresh\<lparr>m_Version := 1, m_CreateRevision := revision, m_CreatedAt := now\<rparr>,
                    EventTypeCreated))"

definition buildPrevKV :: "existingKeyInfo option \<Rightarrow> string \<Rightarrow> string \<Rightarrow> KVPair option" where
  "buildPrevKV existing namespace path =
     (case existing of
        None \<Rightarrow> None
      | Some (meta, prevValue) \<Rightarrow>
          Some \<lparr>kv_Namespace = namespace, kv_Path = path, kv_Value = prevValue,
                kv_CreateRevision = m_CreateRevision meta, kv_ModRevision = m_Revision meta,
                kv_Version = m_Version meta\<rparr>)"

definition checkPutAllowed :: "existingKeyInfo option \<Rightarrow> string \<Rightarrow> err + unit" where
  "checkPutAllowed existing path =
     (case existing of
        Some (meta, _) \<Rightarrow> if m_Locked meta then Err (NewLockedError path) else Ok ()
      | None \<Rightarrow> Ok ())"

definition putKeyTx ::
  "env \<Rightarrow> querier \<Rightarrow> string \<Rightarrow> string \<Rightarrow> bytes \<Rightarrow> (KVPair option \<times> int64, 'z world_scheme) op" where
  "putKeyTx E q namespace path value =
     (let key = configKey namespace path in
      bindT (readT (resolveExistingKey key)) (\<lambda>existing.
      bindT (readT (validateNamespaceUnlocked namespace)) (\<lambda>_.
      bindT (whenErr (checkPutAllowed existing path)) (\<lambda>_.
      bindT (nextRevision E q) (\<lambda>revision.
      bindT (buildPutMeta E path value revision existing) (\<lambda>(newMeta, eventType).
      let prev = buildPrevKV existing namespace path in
      bindT (bucket_Put E q bucketContent key (Raw value)) (\<lambda>_.
      bindT (boltPut E configMetaCodec q bucketMeta key newMeta) (\<lambda>_.
      bindT (writeHistory E q namespace path revision value) (\<lambda>_.
      bindT (writeChangelog E q revision eventType path namespace (m_Version newMeta)) (\<lambda>_.
      returnT (prev, revision)))))))))))"

definition PutKey ::
  "env \<Rightarrow> 'c ctx_scheme \<Rightarrow> string \<Rightarrow> string \<Rightarrow> bytes \<Rightarrow> (KVPair option \<times> int64, 'z world_scheme) op" where
  "PutKey E c namespace path value =
     WithTx E c (\<lambda>c. putKeyTx E (GetQuerier c) namespace path value)"

section \<open>Delete range\<close>

record deleteTarget =
  dt_key :: bytes
  dt_kv :: KVPair

fun collectDeleteTargetsLoop ::
  "rangeParams \<Rightarrow> bool \<Rightarrow> 'z world_scheme \<Rightarrow> bucket \<Rightarrow> err + deleteTarget list" where
  "collectDeleteTargetsLoop rp returnPrev w [] = Ok []"
| "collectDeleteTargetsLoop rp returnPrev w ((k, v) # rest) =
     (if shouldBreakRange k rp then Ok []
      else case parseConfigKey k of (ns, path) \<Rightarrow>
        (case Unmarshal configMetaCodec v of
           None \<Rightarrow> Err ErrDecode
         | Some m \<Rightarrow>
             if m_Locked m then Err (NewLockedError path)
             else
               (let kv0 = \<lparr>kv_Namespace = ns, kv_Path = path, kv_Value = [], kv_CreateRevision = 0,
                           kv_ModRevision = 0, kv_Version = 0\<rparr>;
                    kv = (if returnPrev
                          then kv0\<lparr>kv_CreateRevision := m_CreateRevision m,
                                   kv_ModRevision := m_Revision m,
                                   kv_Version := m_Version m,
                                   kv_Value := rawBytes (bucket_Get bucketContent k w)\<rparr>
                          else kv0)
                in case collectDeleteTargetsLoop rp returnPrev w rest of
                     Inl e \<Rightarrow> Err e
                   | Inr targets \<Rightarrow> Ok (\<lparr>dt_key = k, dt_kv = kv\<rparr> # targets))))"

definition collectDeleteTargets ::
  "rangeParams \<Rightarrow> bool \<Rightarrow> querier \<Rightarrow> 'z world_scheme \<Rightarrow> err + deleteTarget list" where
  "collectDeleteTargets rp returnPrev q w =
     collectDeleteTargetsLoop rp returnPrev w
       (seekFrom (rp_startKey rp) (bucket_Cursor q bucketMeta w))"

fun deleteTargetsLoop ::
  "env \<Rightarrow> querier \<Rightarrow> int64 \<Rightarrow> deleteTarget list \<Rightarrow> (KVPair list, 'z world_scheme) op" where
  "deleteTargetsLoop E q revision [] = returnT []"
| "deleteTargetsLoop E q revision (t # ts) =
     bindT (bucket_Delete E q bucketContent (dt_key t)) (\<lambda>_.
     bindT (bucket_Delete E q bucketMeta (dt_key t)) (\<lambda>_.
     bindT (writeChangelog E q revision EventTypeDeleted (kv_Path (dt_kv t))
              (kv_Namespace (dt_kv t)) 0) (\<lambda>_.
     bindT (deleteTargetsLoop E q revision ts) (\<lambda>kvs.
     returnT (dt_kv t # kvs)))))"

definition deleteRangeKeysTx ::
  "env \<Rightarrow> querier \<Rightarrow> rangeParams \<Rightarrow> string \<Rightarrow> bool \<Rightarrow> (KVPair list \<times> int64, 'z world_scheme) op" where
  "deleteRangeKeysTx E q rp startNS returnPrev =
     bindT (readT (validateNamespaceUnlocked startNS)) (\<lambda>_.
     bindT (readT (collectDeleteTargets rp returnPrev q)) (\<lambda>targets.
     if targets = [] then returnT ([], 0)
     else
       bindT (nextRevision E q) (\<lambda>revision.
       bindT (deleteTargetsLoop E q revision targets) (\<lambda>kvs.
       returnT (kvs, revision)))))"

definition DeleteRangeKeys ::
  "env \<Rightarrow> 'c ctx_scheme \<Rightarrow> string \<Rightarrow> string \<Rightarrow> string \<Rightarrow> string \<Rightarrow> bool
     \<Rightarrow> (KVPair list \<times> int64, 'z world_scheme) op" where
  "DeleteRangeKeys E c startNS startPath endNS endPath returnPrev =
     (let rp = buildRangeParams startNS startPath endNS endPath in
      WithTx E c (\<lambda>c. deleteRangeKeysTx E (GetQuerier c) rp startNS returnPrev))"

end
