(* ===== verification/Schemas.thy ===== *)
theory Schemas
  imports ConfigKV
begin

text \<open>
  Content and schemas: the content pipeline \<^verbatim>\<open>src/internal/service/content/validator.go\<close>, the
  schema repository \<^verbatim>\<open>src/internal/storage/bbolt/schema\<close> and the schema validator
  \<^verbatim>\<open>src/internal/service/schemavalidator\<close> with its two caches.

  The parsers and the libraries these call are the record \<open>ext\<close>: \<^verbatim>\<open>encoding/json\<close>, \<^verbatim>\<open>yaml.v3\<close>,
  \<^verbatim>\<open>gobwas/glob\<close> and \<^verbatim>\<open>jsonschema/v6\<close> (unmarshal, add and compile a schema in one function,
  which returns the compiled schema's validation function). A decoded value is a \<open>json\<close>.
\<close>

datatype json =
    JNull
  | JBool bool
  | JNumber string
  | JString string
  | JArray "json list"
  | JObject "(string \<times> json) list"

text \<open>
  \<^verbatim>\<open>jsonschema.ValidationError\<close>: instance location, keyword path, localized message and causes;
  \<open>VOther\<close> is any other error of \<^verbatim>\<open>Schema.Validate\<close>.
\<close>

datatype vnode = VNode "string list" "string list" string "vnode list"

datatype verr = VTree vnode | VOther string

type_synonym compiledSchema = "json \<Rightarrow> verr option"

record ext =
  jsonUnmarshal :: "string \<Rightarrow> string + json"
  jsonMarshal :: "json \<Rightarrow> string + string"
  jsonMarshalIndent :: "json \<Rightarrow> string + string"
  yamlUnmarshal :: "string \<Rightarrow> string + json"
  yamlMarshal :: "json \<Rightarrow> string + string"
  trimSpace :: "string \<Rightarrow> string"
  globCompile :: "string \<Rightarrow> (string \<Rightarrow> bool) option"
  schemaCompile :: "string \<Rightarrow> string + compiledSchema"

section \<open>Content\<close>

definition validateJSON :: "ext \<Rightarrow> string \<Rightarrow> err + unit" where
  "validateJSON X content =
     (case jsonUnmarshal X content of Inl m \<Rightarrow> Err (ErrExternal m) | Inr _ \<Rightarrow> Ok ())"

definition validateYAML :: "ext \<Rightarrow> string \<Rightarrow> err + unit" where
  "validateYAML X content =
     (case yamlUnmarshal X content of Inl m \<Rightarrow> Err (ErrExternal m) | Inr _ \<Rightarrow> Ok ())"

definition Content_Validate :: "ext \<Rightarrow> string \<Rightarrow> Format \<Rightarrow> err + unit" where
  "Content_Validate X content format =
     (if format = FormatJSON then validateJSON X content
      else if format = FormatYAML then validateYAML X content
      else if format = FormatOther then Ok ()
      else Err (ErrInvalidFormat format))"

definition DetectFormat :: "ext \<Rightarrow> string \<Rightarrow> err + Format" where
  "DetectFormat X content0 =
     (let content = trimSpace X content0 in
      if content = [] then Err (ErrValidation ''content'' ''empty content'')
      else if validateJSON X content = Ok () then Ok FormatJSON
      else if validateYAML X content = Ok () then Ok FormatYAML
      else Err (ErrValidation ''content'' ''content is neither valid JSON nor YAML''))"

definition normalizeJSON :: "ext \<Rightarrow> string \<Rightarrow> err + string" where
  "normalizeJSON X content =
     (case jsonUnmarshal X content of
        Inl m \<Rightarrow> Err (ErrInvalidContent m)
      | Inr js \<Rightarrow>
          (case jsonMarshalIndent X js of Inl m \<Rightarrow> Err (ErrExternal m) | Inr s \<Rightarrow> Ok s))"

definition normalizeYAML :: "ext \<Rightarrow> string \<Rightarrow> err + string" where
  "normalizeYAML X content =
     (case yamlUnmarshal X content of
        Inl m \<Rightarrow> Err (ErrInvalidContent m)
      | Inr ys \<Rightarrow>
          (case yamlMarshal X ys of Inl m \<Rightarrow> Err (ErrExternal m) | Inr s \<Rightarrow> Ok s))"

definition Content_Normalize :: "ext \<Rightarrow> string \<Rightarrow> Format \<Rightarrow> err + string" where
  "Content_Normalize X content format =
     (if format = FormatJSON then normalizeJSON X content
      else if format = FormatYAML then normalizeYAML X content
      else Ok content)"

text \<open>The result's errors are kept as values; the Go code stores their texts.\<close>

record ValidationResult =
  vr_Valid :: bool
  vr_DetectedFormat :: Format
  vr_NormalizedContent :: string
  vr_Errors :: "err list"

definition ValidateAndNormalize :: "ext \<Rightarrow> string \<Rightarrow> Format \<Rightarrow> ValidationResult" where
  "ValidateAndNormalize X content format =
     (let res = \<lparr>vr_Valid = False, vr_DetectedFormat = [], vr_NormalizedContent = [], vr_Errors = []\<rparr> in
      case (if format = [] then DetectFormat X content else Ok format) of
        Inl e \<Rightarrow> res\<lparr>vr_Errors := [e]\<rparr>
      | Inr actualFormat \<Rightarrow>
          (let res = res\<lparr>vr_DetectedFormat := actualFormat\<rparr> in
           case Content_Validate X content actualFormat of
             Inl e \<Rightarrow> res\<lparr>vr_Errors := [e]\<rparr>
           | Inr _ \<Rightarrow>
               (case Content_Normalize X content actualFormat of
                  Inl e \<Rightarrow> res\<lparr>vr_Errors := [e]\<rparr>
                | Inr normalized \<Rightarrow> res\<lparr>vr_Valid := True, vr_NormalizedContent := normalized\<rparr>)))"

section \<open>Schema repository\<close>

definition bucketSchemas :: string where "bucketSchemas = ''schemas''"

definition schemaKey :: "string \<Rightarrow> string \<Rightarrow> bytes" where
  "schemaKey namespace pathPattern = namespace @ [keySep] @ pathPattern"

definition schemaKeyPrefix :: "string \<Rightarrow> bytes" where
  "schemaKeyPrefix namespace = namespace @ [keySep]"

definition Schema_Attach ::
  "env \<Rightarrow> 'c ctx_scheme \<Rightarrow> SchemaAttachment \<Rightarrow> (SchemaAttachment, 'z world_scheme) op" where
  "Schema_Attach E c s =
     WithTx E c (\<lambda>c.
       let key = schemaKey (sa_Namespace s) (sa_PathPattern s) in
       bindT (\<lambda>w. case boltGet schemaCodec bucketSchemas key w of
           Inr existing \<Rightarrow> returnT (s\<lparr>sa_CreatedAt := sm_CreatedAt existing\<rparr>) w
         | Inl e \<Rightarrow>
             if e = ErrBboltNotFound then
               (if sa_CreatedAt s = 0 then bindT (timeNow E) (\<lambda>now. returnT (s\<lparr>sa_CreatedAt := now\<rparr>)) w
                else returnT s w)
             else failT e w) (\<lambda>s.
       bindT (boltPut E schemaCodec (GetQuerier c) bucketSchemas key (DomainToSchemaMeta s)) (\<lambda>_.
       returnT s)))"

definition Schema_Detach ::
  "env \<Rightarrow> 'c ctx_scheme \<Rightarrow> string \<Rightarrow> string \<Rightarrow> (unit, 'z world_scheme) op" where
  "Schema_Detach E c namespace pathPattern =
     (let key = schemaKey namespace pathPattern in
      bindT (readT (\<lambda>w. if \<not> boltExists bucketSchemas key w
                         then Err (ErrResourceNotFound pathPattern) else Ok ())) (\<lambda>_.
      boltDelete E (GetQuerier c) bucketSchemas key))"

definition Schema_Get :: "string \<Rightarrow> string \<Rightarrow> 'z world_scheme \<Rightarrow> err + SchemaAttachment" where
  "Schema_Get namespace pathPattern w =
     (case boltGet schemaCodec bucketSchemas (schemaKey namespace pathPattern) w of
        Inl e \<Rightarrow> if e = ErrBboltNotFound then Err (ErrResourceNotFound pathPattern) else Err e
      | Inr m \<Rightarrow> Ok (SchemaMetaToDomain m namespace pathPattern))"

text \<open>\<^verbatim>\<open>bytes.Cut(k, keySep)\<close>: what follows the first separator, nothing when there is none.\<close>

definition cutAfter :: "bytes \<Rightarrow> bytes" where
  "cutAfter k = drop 1 (dropWhile (\<lambda>c. c \<noteq> keySep) k)"

fun schemaListLoop :: "string \<Rightarrow> bucket \<Rightarrow> err + SchemaAttachment list" where
  "schemaListLoop namespace [] = Ok []"
| "schemaListLoop namespace ((k, v) # rest) =
     (case Unmarshal schemaCodec v of
        None \<Rightarrow> Err ErrDecode
      | Some m \<Rightarrow>
          (case schemaListLoop namespace rest of
             Inl e \<Rightarrow> Err e
           | Inr xs \<Rightarrow> Ok (SchemaMetaToDomain m namespace (cutAfter k) # xs)))"

definition Schema_List ::
  "env \<Rightarrow> 'c ctx_scheme \<Rightarrow> string \<Rightarrow> (SchemaAttachment list, 'z world_scheme) op" where
  "Schema_List E c namespace =
     WithReadTx E c (\<lambda>c. readT (\<lambda>w. schemaListLoop namespace
       (prefixScan (schemaKeyPrefix namespace) (bucket_Cursor (GetQuerier c) bucketSchemas w))))"

section \<open>The schema validator\<close>

record compiledPattern =
  cp_glob :: "(string \<Rightarrow> bool) option"
  cp_specificity :: int

record validatorCache =
  vc_patterns :: "string \<rightharpoonup> compiledPattern"
  vc_schemas :: "string \<times> string \<times> string \<rightharpoonup> compiledSchema"

definition specificity :: "string \<Rightarrow> int" where
  "specificity pattern =
     - int (length (filter (\<lambda>ch. ch = CHR ''*'') pattern) + length (filter (\<lambda>ch. ch = CHR ''?'') pattern)
            + length (filter (\<lambda>ch. ch = CHR ''['') pattern))"

definition freshPattern :: "ext \<Rightarrow> string \<Rightarrow> compiledPattern" where
  "freshPattern X pattern = \<lparr>cp_glob = globCompile X pattern, cp_specificity = specificity pattern\<rparr>"

definition compilePattern :: "ext \<Rightarrow> string \<Rightarrow> validatorCache \<Rightarrow> compiledPattern \<times> validatorCache" where
  "compilePattern X pattern vc =
     (case vc_patterns vc pattern of
        Some entry \<Rightarrow> (entry, vc)
      | None \<Rightarrow>
          (let entry = freshPattern X pattern
           in (entry, vc\<lparr>vc_patterns := (vc_patterns vc)(pattern \<mapsto> entry)\<rparr>)))"

text \<open>One round of the loop: the attachment replaces the best one so far when it matches and is better.\<close>

definition betterMatch ::
  "string \<Rightarrow> compiledPattern \<Rightarrow> SchemaAttachment \<Rightarrow> (SchemaAttachment \<times> int) option
     \<Rightarrow> (SchemaAttachment \<times> int) option" where
  "betterMatch configPath pat sa best =
     (case cp_glob pat of
        None \<Rightarrow> best
      | Some glob \<Rightarrow>
          if \<not> glob configPath then best
          else case best of
            None \<Rightarrow> Some (sa, cp_specificity pat)
          | Some (b, bestScore) \<Rightarrow>
              if cp_specificity pat > bestScore \<or>
                 cp_specificity pat = bestScore \<and> sa_CreatedAt sa < sa_CreatedAt b
              then Some (sa, cp_specificity pat) else best)"

fun findBestMatchLoop ::
  "ext \<Rightarrow> string \<Rightarrow> SchemaAttachment list \<Rightarrow> (SchemaAttachment \<times> int) option \<Rightarrow> validatorCache
     \<Rightarrow> (SchemaAttachment \<times> int) option \<times> validatorCache" where
  "findBestMatchLoop X configPath [] best vc = (best, vc)"
| "findBestMatchLoop X configPath (sa # sas) best vc =
     (case compilePattern X (sa_PathPattern sa) vc of
        (pat, vc') \<Rightarrow> findBestMatchLoop X configPath sas (betterMatch configPath pat sa best) vc')"

definition findBestMatch ::
  "ext \<Rightarrow> SchemaAttachment list \<Rightarrow> string \<Rightarrow> validatorCache \<Rightarrow> SchemaAttachment option \<times> validatorCache" where
  "findBestMatch X schemas configPath vc =
     (case findBestMatchLoop X configPath schemas None vc of
        (best, vc') \<Rightarrow> (map_option fst best, vc'))"

definition compileSchema ::
  "ext \<Rightarrow> (bytes \<Rightarrow> string) \<Rightarrow> SchemaAttachment \<Rightarrow> validatorCache \<Rightarrow> (err + compiledSchema) \<times> validatorCache" where
  "compileSchema X sha sa vc =
     (let k = (sa_Namespace sa, sa_PathPattern sa, sha (sa_JSONSchema sa)) in
      case vc_schemas vc k of
        Some compiled \<Rightarrow> (Ok compiled, vc)
      | None \<Rightarrow>
          (case schemaCompile X (sa_JSONSchema sa) of
             Inl m \<Rightarrow> (Err (ErrExternal m), vc)
           | Inr compiled \<Rightarrow> (Ok compiled, vc\<lparr>vc_schemas := (vc_schemas vc)(k \<mapsto> compiled)\<rparr>)))"

definition toJSONValue :: "ext \<Rightarrow> string \<Rightarrow> Format \<Rightarrow> err + json" where
  "toJSONValue X content format =
     (if format = FormatJSON then
        (case jsonUnmarshal X content of Inl m \<Rightarrow> Err (ErrExternal m) | Inr v \<Rightarrow> Ok v)
      else if format = FormatYAML then
        (case yamlUnmarshal X content of
           Inl m \<Rightarrow> Err (ErrExternal m)
         | Inr v \<Rightarrow>
             (case jsonMarshal X v of
                Inl m \<Rightarrow> Err (ErrExternal m)
              | Inr raw \<Rightarrow>
                  (case jsonUnmarshal X raw of Inl m \<Rightarrow> Err (ErrExternal m) | Inr jv \<Rightarrow> Ok jv)))
      else Ok JNull)"

fun joinSlash :: "string list \<Rightarrow> string" where
  "joinSlash [] = []"
| "joinSlash [x] = x"
| "joinSlash (x # y # xs) = x @ ''/'' @ joinSlash (y # xs)"

fun walkViolations :: "vnode \<Rightarrow> SchemaViolation list \<Rightarrow> SchemaViolation list"
  and walkCauses :: "vnode list \<Rightarrow> SchemaViolation list \<Rightarrow> SchemaViolation list" where
  "walkViolations (VNode loc keywords msg causes) acc =
     (if causes = [] then acc @ [(''/'' @ joinSlash loc, msg, joinSlash keywords)]
      else walkCauses causes acc)"
| "walkCauses [] acc = acc"
| "walkCauses (cause # causes) acc = walkCauses causes (walkViolations cause acc)"

definition collectViolations :: "verr \<Rightarrow> err" where
  "collectViolations ve =
     (let violations = (case ve of VTree t \<Rightarrow> walkViolations t [] | VOther _ \<Rightarrow> []);
          text = (case ve of VTree (VNode _ _ m _) \<Rightarrow> m | VOther m \<Rightarrow> m)
      in ErrSchemaValidation (if violations = [] then [([], text, [])] else violations))"

definition validateWith ::
  "ext \<Rightarrow> (bytes \<Rightarrow> string) \<Rightarrow> SchemaAttachment list \<Rightarrow> string \<Rightarrow> string \<Rightarrow> Format \<Rightarrow> validatorCache
     \<Rightarrow> (err + unit) \<times> validatorCache" where
  "validateWith X sha schemas configPath content format vc =
     (case findBestMatch X schemas configPath vc of
        (None, vc1) \<Rightarrow> (Ok (), vc1)
      | (Some best, vc1) \<Rightarrow>
          (case toJSONValue X content format of
             Inl e \<Rightarrow> (Err e, vc1)
           | Inr jsonValue \<Rightarrow>
               (case compileSchema X sha best vc1 of
                  (Inl e, vc2) \<Rightarrow> (Err e, vc2)
                | (Inr compiled, vc2) \<Rightarrow>
                    (case compiled jsonValue of
                       Some ve \<Rightarrow> (Err (collectViolations ve), vc2)
                     | None \<Rightarrow> (Ok (), vc2)))))"

end
