(* ===== verification/WatchHub.thy ===== *)
theory WatchHub
  imports Schemas "HOL-Library.AList"
begin

text \<open>
  The in-process watch publisher, \<^verbatim>\<open>src/internal/transport/watch/publisher.go\<close>: subscriptions
  filtered by namespace and path prefix, each with a bounded channel into which \<^verbatim>\<open>notify\<close> puts
  every matching event without blocking, dropping it when the channel is full. A channel is the
  list of the events it buffers, oldest first; a subscription that was cleaned up leaves the map
  and its closed channel keeps what the reader has not yet received.

  The state of the services extends the storage state with the publisher and with the collector
  of deferred notifications of \<^verbatim>\<open>usecase/config/kv_events.go\<close> (the notifications buffered by
  the write transaction in progress) and with the schema validator's caches.
\<close>

definition defaultBufferSize :: nat where "defaultBufferSize = 100"

record subscription =
  sub_pathPrefix :: string
  sub_namespace :: string
  sub_events :: "WatchEvent list"

record Publisher =
  pub_subscriptions :: "(int \<times> subscription) list"
  pub_closed :: "(int \<times> subscription) list"
  pub_nextID :: int

datatype notification =
    NotifyCreated Config
  | NotifyUpdated Config
  | NotifyDeleted string string int64
  | NotifyConfigLocked Config
  | NotifyConfigUnlocked Config
  | NotifyNamespaceLocked string
  | NotifyNamespaceUnlocked string

record sworld = world +
  hub :: Publisher
  pending :: "notification list"
  vcache :: validatorCache

definition NewPublisher :: Publisher where
  "NewPublisher = \<lparr>pub_subscriptions = [], pub_closed = [], pub_nextID = 0\<rparr>"

definition Subscribe :: "string \<Rightarrow> string \<Rightarrow> Publisher \<Rightarrow> int \<times> Publisher" where
  "Subscribe pathPrefix namespace p =
     (let sid = wrap64 (pub_nextID p + 1);
          sub = \<lparr>sub_pathPrefix = pathPrefix, sub_namespace = namespace, sub_events = []\<rparr>
      in (sid, p\<lparr>pub_nextID := sid, pub_subscriptions := AList.update sid sub (pub_subscriptions p)\<rparr>))"

definition cleanup :: "int \<Rightarrow> Publisher \<Rightarrow> Publisher" where
  "cleanup sid p =
     (case map_of (pub_subscriptions p) sid of
        None \<Rightarrow> p
      | Some s \<Rightarrow> p\<lparr>pub_subscriptions := AList.delete sid (pub_subscriptions p),
                    pub_closed := AList.update sid s (pub_closed p)\<rparr>)"

definition matches :: "subscription \<Rightarrow> WatchEvent \<Rightarrow> bool" where
  "matches sub event =
     (if sub_namespace sub \<noteq> [] \<and> sub_namespace sub \<noteq> we_Namespace event then False
      else if we_Path event = [] then True
      else if sub_pathPrefix sub \<noteq> [] \<and> \<not> hasPrefix (we_Path event) (sub_pathPrefix sub) then False
      else True)"

text \<open>The non-blocking send of one event to one subscription.\<close>

definition trySend :: "WatchEvent \<Rightarrow> subscription \<Rightarrow> subscription" where
  "trySend event sub =
     (if \<not> matches sub event then sub
      else if length (sub_events sub) < defaultBufferSize
        then sub\<lparr>sub_events := sub_events sub @ [event]\<rparr>
      else sub)"

definition notify :: "WatchEvent \<Rightarrow> Publisher \<Rightarrow> Publisher" where
  "notify event p =
     p\<lparr>pub_subscriptions := map (\<lambda>(sid, sub). (sid, trySend event sub)) (pub_subscriptions p)\<rparr>"

definition Shutdown :: "Publisher \<Rightarrow> Publisher" where
  "Shutdown p =
     p\<lparr>pub_subscriptions := [],
       pub_closed := fold (\<lambda>(sid, s). AList.update sid s) (pub_subscriptions p) (pub_closed p)\<rparr>"

text \<open>A receive on the channel of subscription \<open>sid\<close>: the oldest event, if one is buffered.\<close>

definition receive :: "int \<Rightarrow> Publisher \<Rightarrow> WatchEvent option \<times> Publisher" where
  "receive sid p =
     (case map_of (pub_subscriptions p) sid of
        None \<Rightarrow> (None, p)
      | Some s \<Rightarrow>
          (case sub_events s of
             [] \<Rightarrow> (None, p)
           | e # es \<Rightarrow>
               (Some e, p\<lparr>pub_subscriptions :=
                  AList.update sid (s\<lparr>sub_events := es\<rparr>) (pub_subscriptions p)\<rparr>)))"

text \<open>The event a notification publishes at an instant.\<close>

definition configEvent :: "EventType \<Rightarrow> Config \<Rightarrow> time \<Rightarrow> WatchEvent" where
  "configEvent et cfg now =
     \<lparr>we_Type = et, we_Path = cfg_Path cfg, we_Namespace = cfg_Namespace cfg,
      we_Revision = cfg_Revision cfg, we_Config = Some cfg, we_Timestamp = now\<rparr>"

definition namespaceEvent :: "EventType \<Rightarrow> string \<Rightarrow> time \<Rightarrow> WatchEvent" where
  "namespaceEvent et ns now =
     \<lparr>we_Type = et, we_Path = [], we_Namespace = ns, we_Revision = 0, we_Config = None,
      we_Timestamp = now\<rparr>"

definition noteEvent :: "notification \<Rightarrow> time \<Rightarrow> WatchEvent" where
  "noteEvent n now =
     (case n of
        NotifyCreated cfg \<Rightarrow> configEvent EventTypeCreated cfg now
      | NotifyUpdated cfg \<Rightarrow> configEvent EventTypeUpdated cfg now
      | NotifyDeleted path ns revision \<Rightarrow>
          \<lparr>we_Type = EventTypeDeleted, we_Path = path, we_Namespace = ns, we_Revision = revision,
           we_Config = None, we_Timestamp = now\<rparr>
      | NotifyConfigLocked cfg \<Rightarrow> configEvent EventTypeLocked cfg now
      | NotifyConfigUnlocked cfg \<Rightarrow> configEvent EventTypeUnlocked cfg now
      | NotifyNamespaceLocked ns \<Rightarrow> namespaceEvent EventTypeNamespaceLocked ns now
      | NotifyNamespaceUnlocked ns \<Rightarrow> namespaceEvent EventTypeNamespaceUnlocked ns now)"

definition runNote :: "env \<Rightarrow> notification \<Rightarrow> 'z sworld_scheme \<Rightarrow> 'z sworld_scheme" where
  "runNote E n w =
     w\<lparr>ticks := Suc (ticks w), hub := notify (noteEvent n (clock E (ticks w))) (hub w)\<rparr>"

section \<open>Facts about the publisher\<close>

text \<open>The channel of a live subscription.\<close>

definition channel :: "int \<Rightarrow> Publisher \<Rightarrow> WatchEvent list option" where
  "channel sid p = map_option sub_events (map_of (pub_subscriptions p) sid)"

lemma map_of_notify:
  "map_of (pub_subscriptions (notify e p)) sid = map_option (trySend e) (map_of (pub_subscriptions p) sid)"
  by (simp add: notify_def map_of_map)

lemma trySend_filters [simp]:
  "sub_pathPrefix (trySend e s) = sub_pathPrefix s" "sub_namespace (trySend e s) = sub_namespace s"
  by (simp_all add: trySend_def)

lemma matches_trySend [simp]: "matches (trySend e s) = matches s"
  by (simp add: fun_eq_iff matches_def)

definition hub_inv :: "Publisher \<Rightarrow> bool" where
  "hub_inv p \<longleftrightarrow> distinct (map fst (pub_subscriptions p)) \<and>
     (\<forall>(sid, s) \<in> set (pub_subscriptions p). length (sub_events s) \<le> defaultBufferSize)"

lemma hub_inv_New: "hub_inv NewPublisher"
  by (simp add: hub_inv_def NewPublisher_def)

lemma hub_inv_notify: "hub_inv p \<Longrightarrow> hub_inv (notify e p)"
  by (auto simp: hub_inv_def notify_def trySend_def comp_def case_prod_unfold)

lemma update_mem: "(k', v') \<in> set (AList.update k v xs) \<Longrightarrow> k' = k \<and> v' = v \<or> (k', v') \<in> set xs"
  by (induction xs) (auto split: if_splits)

lemma hub_inv_Subscribe: "hub_inv p \<Longrightarrow> hub_inv (snd (Subscribe pp ns p))"
  by (fastforce simp: hub_inv_def Subscribe_def Let_def AList.distinct_update dest!: update_mem)

lemma hub_inv_cleanup: "hub_inv p \<Longrightarrow> hub_inv (cleanup sid p)"
  by (auto simp: hub_inv_def cleanup_def AList.delete_eq intro: distinct_map_filter split: option.split)

lemma hub_inv_receive:
  assumes "hub_inv p"
  shows "hub_inv (snd (receive sid p))"
proof (cases "map_of (pub_subscriptions p) sid")
  case (Some s)
  then have mem: "(sid, s) \<in> set (pub_subscriptions p)" by (rule map_of_SomeD)
  with assms have len: "length (sub_events s) \<le> defaultBufferSize" by (auto simp: hub_inv_def)
  show ?thesis
  proof (cases "sub_events s")
    case (Cons e es)
    with assms Some len show ?thesis
      by (fastforce simp: hub_inv_def receive_def AList.distinct_update dest!: update_mem)
  qed (use assms Some in \<open>simp add: receive_def\<close>)
qed (use assms in \<open>simp add: receive_def\<close>)

lemma hub_inv_Shutdown: "hub_inv p \<Longrightarrow> hub_inv (Shutdown p)"
  by (simp add: hub_inv_def Shutdown_def)

text \<open>The events of a sequence of notifications, one clock reading each.\<close>

fun noteEvents :: "env \<Rightarrow> nat \<Rightarrow> notification list \<Rightarrow> WatchEvent list" where
  "noteEvents E t [] = []"
| "noteEvents E t (n # ns) = noteEvent n (clock E t) # noteEvents E (Suc t) ns"

lemma runNotes_hub:
  "hub (fold (runNote E) ns w) = fold notify (noteEvents E (ticks w) ns) (hub w)"
  "ticks (fold (runNote E) ns w) = ticks w + length ns"
  "buckets (fold (runNote E) ns w) = buckets w"
  "pending (fold (runNote E) ns w) = pending w"
  by (induction ns arbitrary: w) (simp_all add: runNote_def)

text \<open>
  What a channel holds after a sequence of events: the matching ones, in order, as long as the
  buffer has room for them.
\<close>

lemma channel_notify_all:
  assumes "map_of (pub_subscriptions p) sid = Some s"
    and "length (sub_events s) + length (filter (matches s) es) \<le> defaultBufferSize"
  shows "channel sid (fold notify es p) = Some (sub_events s @ filter (matches s) es)"
  using assms
proof (induction es arbitrary: p s)
  case (Cons e es)
  have s': "map_of (pub_subscriptions (notify e p)) sid = Some (trySend e s)"
    by (simp add: map_of_notify Cons.prems(1))
  have f: "filter (matches (trySend e s)) es = filter (matches s) es" by simp
  have ev: "sub_events (trySend e s) = sub_events s @ (if matches s e then [e] else [])"
    using Cons.prems(2) by (auto simp: trySend_def)
  from Cons.IH [OF s'] Cons.prems(2) show ?case unfolding f ev by (simp split: if_splits)
qed (simp add: channel_def)

end
