(* ===== verification/Listing.thy ===== *)
theory Listing
  imports Bolt
begin

text \<open>
  Sorting and pagination as the list operations of the repositories share them: each repository has
  its own copy of the pagination function, with the same text. The random source of the identity services.
\<close>

section \<open>Drawing\<close>

text \<open>
  The random source answers the n-th read of a given number of bytes; the state counts the reads, and
  every other value drawn from outside (a UUID, a salted hash) counts with them.
\<close>

type_synonym randomness = "nat \<Rightarrow> nat \<Rightarrow> err + bytes"

record rworld = world +
  draws :: nat

section \<open>Lists\<close>

record SortParams =
  sort_Field :: string
  sort_Desc :: bool

text \<open>\<^verbatim>\<open>out[offset:end]\<close> panics when the wrapped \<^verbatim>\<open>offset+limit\<close> lies before \<^verbatim>\<open>offset\<close>.\<close>

definition paginate :: "'a list \<Rightarrow> int64 \<Rightarrow> int64 \<Rightarrow> err + 'a list" where
  "paginate out offset0 limit =
     (let offset = (if offset0 < 0 then 0 else offset0) in
      if offset \<ge> int (length out) then Ok []
      else
        (let end0 = int (length out);
             e = (if limit > 0 \<and> wrap64 (offset + limit) < end0 then wrap64 (offset + limit) else end0)
         in if e < offset then Err (Panic ''slice bounds out of range'')
            else Ok (take (nat (e - offset)) (drop (nat offset) out))))"

text \<open>\<^verbatim>\<open>sort.Slice(xs, func(i, j int) bool { return less(xs[i], xs[j]) })\<close>\<close>

definition sortSliceBy :: "env \<Rightarrow> ('a \<Rightarrow> 'a \<Rightarrow> bool) \<Rightarrow> 'a list \<Rightarrow> 'a list" where
  "sortSliceBy E lt xs = map (\<lambda>i. xs ! i) (sortSlice E (length xs) (\<lambda>i j. lt (xs ! i) (xs ! j)))"

end
