(* ===== verification/NamespaceRepo.thy ===== *)
theory NamespaceRepo
  imports ConfigKV WatchHub Listing
begin

text \<open>
  The namespace repository, \<^verbatim>\<open>src/internal/storage/bbolt/namespace\<close>, and the namespace use case,
  \<^verbatim>\<open>src/internal/usecase/namespace\<close>, without the permission annotations of its list. The
  repository's own copies of the key helpers are those of the config repository.
\<close>

section \<open>Repository\<close>

definition Namespace_Create :: "env \<Rightarrow> querier \<Rightarrow> Namespace \<Rightarrow> (unit, 'z world_scheme) op" where
  "Namespace_Create E q ns =
     bindT (readT (\<lambda>w. if boltExists bucketNamespaces (ns_Name ns) w
                        then Err (ErrResourceAlreadyExists (ns_Name ns)) else Ok ())) (\<lambda>_.
     boltPut E namespaceCodec q bucketNamespaces (ns_Name ns) (DomainToNamespaceMeta ns))"

definition Namespace_getMeta :: "string \<Rightarrow> 'z world_scheme \<Rightarrow> err + NamespaceMeta" where
  "Namespace_getMeta name w =
     (case boltGet namespaceCodec bucketNamespaces name w of
        Inl e \<Rightarrow> if e = ErrBboltNotFound then Err (ErrResourceNotFound name) else Err e
      | Inr m \<Rightarrow> Ok m)"

definition Namespace_Get :: "string \<Rightarrow> 'z world_scheme \<Rightarrow> err + Namespace" where
  "Namespace_Get name w =
     (case Namespace_getMeta name w of
        Inl e \<Rightarrow> Err e
      | Inr m \<Rightarrow> Ok (NamespaceMetaToDomain m name))"

definition Namespace_Update :: "env \<Rightarrow> querier \<Rightarrow> Namespace \<Rightarrow> (unit, 'z world_scheme) op" where
  "Namespace_Update E q ns =
     bindT (readT (\<lambda>w. if \<not> boltExists bucketNamespaces (ns_Name ns) w
                        then Err (ErrResourceNotFound (ns_Name ns)) else Ok ())) (\<lambda>_.
     boltPut E namespaceCodec q bucketNamespaces (ns_Name ns) (DomainToNamespaceMeta ns))"

definition Namespace_Delete :: "env \<Rightarrow> querier \<Rightarrow> string \<Rightarrow> (unit, 'z world_scheme) op" where
  "Namespace_Delete E q name =
     bindT (readT (\<lambda>w. if \<not> boltExists bucketNamespaces name w
                        then Err (ErrResourceNotFound name) else Ok ())) (\<lambda>_.
     boltDelete E q bucketNamespaces name)"

definition Namespace_UpdateTimestamp ::
  "env \<Rightarrow> 'c ctx_scheme \<Rightarrow> string \<Rightarrow> (unit, 'z world_scheme) op" where
  "Namespace_UpdateTimestamp E c name =
     WithTx E c (\<lambda>c.
       bindT (readT (Namespace_getMeta name)) (\<lambda>m.
       bindT (timeNow E) (\<lambda>now.
       boltPut E namespaceCodec (GetQuerier c) bucketNamespaces name (m\<lparr>nm_UpdatedAt := now\<rparr>))))"

definition writeLockEvent ::
  "env \<Rightarrow> querier \<Rightarrow> string \<Rightarrow> string \<Rightarrow> EventType \<Rightarrow> (unit, 'z world_scheme) op" where
  "writeLockEvent E q namespace path eventType =
     bindT (nextLockSeq E q) (\<lambda>seq.
     bindT (timeNow E) (\<lambda>now.
     bindT (boltPut E lockHistoryCodec q bucketLockHistory
              (historyPrefix namespace path @ revisionBytes seq)
              \<lparr>lh_Type = eventType, lh_Timestamp = now\<rparr>) (\<lambda>_.
     boltPut E changelogCodec q bucketLockChangelog (revisionBytes seq)
       \<lparr>row_Type = eventType, row_Path = path, row_Namespace = namespace,
        row_Version = 0, row_Timestamp = now\<rparr>)))"

definition toggleLock ::
  "env \<Rightarrow> querier \<Rightarrow> string \<Rightarrow> bool \<Rightarrow> EventType \<Rightarrow> (unit, 'z world_scheme) op" where
  "toggleLock E q name locked eventType =
     bindT (readT (Namespace_getMeta name)) (\<lambda>m.
     if nm_Locked m = locked then returnT ()
     else
       bindT (boltPut E namespaceCodec q bucketNamespaces name (m\<lparr>nm_Locked := locked\<rparr>)) (\<lambda>_.
       writeLockEvent E q name [] eventType))"

definition LockNamespace :: "env \<Rightarrow> querier \<Rightarrow> string \<Rightarrow> (unit, 'z world_scheme) op" where
  "LockNamespace E q name = toggleLock E q name True EventTypeNamespaceLocked"

definition UnlockNamespace :: "env \<Rightarrow> querier \<Rightarrow> string \<Rightarrow> (unit, 'z world_scheme) op" where
  "UnlockNamespace E q name = toggleLock E q name False EventTypeNamespaceUnlocked"

section \<open>Listing\<close>

text \<open>
  The set of names is the list in which the range over the Go map yields them; the sort makes
  the answer independent of it.
\<close>

record NamespaceFilter =
  nf_Names :: "string list"
  nf_Wildcard :: bool
  nf_Search :: string

definition matchesSearch :: "env \<Rightarrow> string \<Rightarrow> string \<Rightarrow> bool" where
  "matchesSearch E name search =
     (if search = [] then True else containsStr (toLower E name) (toLower E search))"

fun listAllLoop :: "env \<Rightarrow> string \<Rightarrow> bucket \<Rightarrow> err + Namespace list" where
  "listAllLoop E search [] = Ok []"
| "listAllLoop E search ((k, v) # rest) =
     (case Unmarshal namespaceCodec v of
        None \<Rightarrow> Err ErrDecode
      | Some m \<Rightarrow>
          (case listAllLoop E search rest of
             Inl e \<Rightarrow> Err e
           | Inr nss \<Rightarrow>
               (let ns = NamespaceMetaToDomain m k in
                Ok (if matchesSearch E (ns_Name ns) search then ns # nss else nss))))"

fun listNamesLoop :: "env \<Rightarrow> string \<Rightarrow> string list \<Rightarrow> 'z world_scheme \<Rightarrow> err + Namespace list" where
  "listNamesLoop E search [] w = Ok []"
| "listNamesLoop E search (name # names) w =
     (case bucket_Get bucketNamespaces name w of
        None \<Rightarrow> listNamesLoop E search names w
      | Some v \<Rightarrow>
          (case Unmarshal namespaceCodec v of
             None \<Rightarrow> Err ErrDecode
           | Some m \<Rightarrow>
               (case listNamesLoop E search names w of
                  Inl e \<Rightarrow> Err e
                | Inr nss \<Rightarrow>
                    (let ns = NamespaceMetaToDomain m name in
                     Ok (if matchesSearch E (ns_Name ns) search then ns # nss else nss)))))"

definition namespaceLess :: "SortParams \<Rightarrow> Namespace \<Rightarrow> Namespace \<Rightarrow> bool" where
  "namespaceLess params a b =
     (let l = (if sort_Field params = ''modified'' then ns_UpdatedAt a < ns_UpdatedAt b
               else ns_Name a < ns_Name b)
      in if sort_Desc params then \<not> l else l)"

definition sortNamespaces :: "env \<Rightarrow> SortParams \<Rightarrow> Namespace list \<Rightarrow> Namespace list" where
  "sortNamespaces E params out =
     sortSliceBy E (namespaceLess params) out"

definition Namespace_List ::
  "env \<Rightarrow> 'c ctx_scheme \<Rightarrow> NamespaceFilter \<Rightarrow> int64 \<Rightarrow> int64 \<Rightarrow> SortParams
     \<Rightarrow> (Namespace list \<times> int, 'z world_scheme) op" where
  "Namespace_List E c flt offset limit sortBy =
     bindT (WithReadTx E c (\<lambda>c. readT (\<lambda>w.
        if nf_Wildcard flt
        then (case bucket_ForEach E (GetQuerier c) bucketNamespaces w of
                Inl e \<Rightarrow> Err e | Inr b \<Rightarrow> listAllLoop E (nf_Search flt) b)
        else listNamesLoop E (nf_Search flt) (nf_Names flt) w))) (\<lambda>found.
     (let out = sortNamespaces E sortBy found in
      readT (\<lambda>_. case paginate out offset limit of
         Inl e \<Rightarrow> Err e | Inr page \<Rightarrow> Ok (page, int (length out)))))"

section \<open>Use case\<close>

text \<open>The storage sentinel becomes the domain's; other errors pass.\<close>

definition mapNamespaceErr :: "err \<Rightarrow> err" where
  "mapNamespaceErr e = (case e of ErrResourceNotFound n \<Rightarrow> ErrNotFound ''namespace'' n | _ \<Rightarrow> e)"

definition mapErrT :: "(err \<Rightarrow> err) \<Rightarrow> ('a, 'w) op \<Rightarrow> ('a, 'w) op" where
  "mapErrT f m w = (case m w of (Inl e, w') \<Rightarrow> (Inl (f e), w') | (Inr x, w') \<Rightarrow> (Inr x, w'))"

definition populateConfigCount ::
  "env \<Rightarrow> 'c ctx_scheme \<Rightarrow> Namespace \<Rightarrow> (Namespace, 'z world_scheme) op" where
  "populateConfigCount E c ns =
     WithTx E c (\<lambda>c.
       bindT (CountByNamespace E c (ns_Name ns)) (\<lambda>count.
       returnT (ns\<lparr>ns_ConfigCount := count\<rparr>)))"

definition NamespaceService_Create ::
  "env \<Rightarrow> 'c ctx_scheme \<Rightarrow> Namespace \<Rightarrow> (Namespace, 'z world_scheme) op" where
  "NamespaceService_Create E c ns =
     bindT (whenErr (Namespace_Validate ns)) (\<lambda>_.
     bindT (timeNow E) (\<lambda>now.
     let ns = ns\<lparr>ns_CreatedAt := now, ns_UpdatedAt := now\<rparr> in
     WithTx E c (\<lambda>c.
       bindT (mapErrT (\<lambda>e. case e of ErrResourceAlreadyExists n \<Rightarrow> ErrAlreadyExists ''namespace'' n | _ \<Rightarrow> e)
                (Namespace_Create E (GetQuerier c) ns)) (\<lambda>_.
       readT (Namespace_Get (ns_Name ns))))))"

definition NamespaceService_Get ::
  "env \<Rightarrow> 'c ctx_scheme \<Rightarrow> string \<Rightarrow> (Namespace, 'z world_scheme) op" where
  "NamespaceService_Get E c name =
     bindT (mapErrT mapNamespaceErr (readT (Namespace_Get name))) (\<lambda>ns.
     populateConfigCount E c ns)"

definition NamespaceService_Update ::
  "env \<Rightarrow> 'c ctx_scheme \<Rightarrow> string \<Rightarrow> string \<Rightarrow> (Namespace, 'z world_scheme) op" where
  "NamespaceService_Update E c name description =
     WithTx E c (\<lambda>c.
       bindT (mapErrT mapNamespaceErr (readT (Namespace_Get name))) (\<lambda>existing.
       bindT (whenErr (if ns_Locked existing then Err (ErrNamespaceLocked name) else Ok ())) (\<lambda>_.
       bindT (timeNow E) (\<lambda>now.
       let existing = existing\<lparr>ns_Description := description, ns_UpdatedAt := now\<rparr> in
       bindT (Namespace_Update E (GetQuerier c) existing) (\<lambda>_.
       populateConfigCount E c existing)))))"

definition NamespaceService_Delete ::
  "env \<Rightarrow> 'c ctx_scheme \<Rightarrow> string \<Rightarrow> (unit, 'z world_scheme) op" where
  "NamespaceService_Delete E c name =
     WithTx E c (\<lambda>c.
       bindT (mapErrT mapNamespaceErr (readT (Namespace_Get name))) (\<lambda>existing.
       bindT (whenErr (if ns_Locked existing then Err (ErrNamespaceLocked name) else Ok ())) (\<lambda>_.
       bindT (CountByNamespace E c name) (\<lambda>count.
       bindT (whenErr (if count > 0 then Err (ErrValidation ''name''
            (''namespace '' @ quoted name @ '' contains '' @ itoa count @ '' config(s)'')) else Ok ()))
         (\<lambda>_.
       Namespace_Delete E (GetQuerier c) name)))))"

definition NamespaceService_Lock ::
  "env \<Rightarrow> 'c ctx_scheme \<Rightarrow> string \<Rightarrow> (unit, 'z sworld_scheme) op" where
  "NamespaceService_Lock E c name =
     bindT (mapErrT mapNamespaceErr (WithTx E c (\<lambda>c. LockNamespace E (GetQuerier c) name))) (\<lambda>_ w.
     (Ok (), runNote E (NotifyNamespaceLocked name) w))"

definition NamespaceService_Unlock ::
  "env \<Rightarrow> 'c ctx_scheme \<Rightarrow> string \<Rightarrow> (unit, 'z sworld_scheme) op" where
  "NamespaceService_Unlock E c name =
     bindT (mapErrT mapNamespaceErr (WithTx E c (\<lambda>c. UnlockNamespace E (GetQuerier c) name))) (\<lambda>_ w.
     (Ok (), runNote E (NotifyNamespaceUnlocked name) w))"

end
