(* ===== verification/ConfigService.thy ===== *)
theory ConfigService
  imports NamespaceRepo
begin

text \<open>
  The config use case, \<^verbatim>\<open>src/internal/usecase/config\<close>: the etcd-shaped operations of
  \<^verbatim>\<open>service_kv.go\<close>, the transactions of \<^verbatim>\<open>service_txn.go\<close>, the deferred notifications of
  \<^verbatim>\<open>kv_events.go\<close>, and create, update, delete, lock, copy, get, history, validate and watch.

  The collector that Go carries in the context is the field \<open>pending\<close> of the state, and the
  context says whether one is installed: \<open>withPendingEvents\<close> installs an empty one unless one is
  there. An operation name that the storage layer already uses carries the prefix \<open>Service_\<close>.
\<close>

record sctx = ctx +
  ctx_pending :: bool

section \<open>Deferred notifications\<close>

definition withPendingEvents ::
  "'c sctx_scheme \<Rightarrow> 'z sworld_scheme \<Rightarrow> ('c sctx_scheme \<times> bool) \<times> 'z sworld_scheme" where
  "withPendingEvents c w =
     (if ctx_pending c then ((c, False), w)
      else ((c\<lparr>ctx_pending := True\<rparr>, True), w\<lparr>pending := []\<rparr>))"

definition addPending :: "notification \<Rightarrow> (unit, 'z sworld_scheme) op" where
  "addPending n w = (Ok (), w\<lparr>pending := pending w @ [n]\<rparr>)"

definition flush :: "env \<Rightarrow> 'z sworld_scheme \<Rightarrow> 'z sworld_scheme" where
  "flush E w = (fold (runNote E) (pending w) w)\<lparr>pending := []\<rparr>"

text \<open>
  The frame that every deferring operation of the Go code repeats: install the collector, run the
  body in a transaction, and let the installer publish once that has committed.
\<close>

definition deferring ::
  "env \<Rightarrow> 'c sctx_scheme \<Rightarrow> ('c sctx_scheme \<Rightarrow> ('a, 'z sworld_scheme) op) \<Rightarrow> ('a, 'z sworld_scheme) op" where
  "deferring E c body w =
     (case withPendingEvents c w of
        ((outer, owner), w1) \<Rightarrow>
          (case WithTx E outer body w1 of
             (Inl e, w2) \<Rightarrow> (Err e, w2)
           | (Inr x, w2) \<Rightarrow> (Ok x, if owner then flush E w2 else w2)))"

text \<open>A call of the watcher outside the collector.\<close>

definition notifyNow :: "env \<Rightarrow> notification \<Rightarrow> (unit, 'z sworld_scheme) op" where
  "notifyNow E n w = (Ok (), runNote E n w)"

section \<open>Errors and schema validation\<close>

definition mapStorageErr :: "string \<Rightarrow> err \<Rightarrow> err" where
  "mapStorageErr path e =
     (case e of
        ErrResourceNotFound _ \<Rightarrow> NewNotFoundError ''config'' path
      | ErrResourceAlreadyExists _ \<Rightarrow> NewAlreadyExistsError ''config'' path
      | _ \<Rightarrow> e)"

definition Validator_Validate ::
  "env \<Rightarrow> ext \<Rightarrow> 'c ctx_scheme \<Rightarrow> string \<Rightarrow> string \<Rightarrow> string \<Rightarrow> Format \<Rightarrow> (unit, 'z sworld_scheme) op" where
  "Validator_Validate E X c namespace configPath content format =
     (if format = FormatOther then returnT ()
      else
        bindT (Schema_List E c namespace) (\<lambda>schemas w.
          case validateWith X (sha256hex E) schemas configPath content format (vcache w) of
            (r, vc) \<Rightarrow> (r, w\<lparr>vcache := vc\<rparr>)))"

section \<open>The etcd-shaped operations\<close>

record KVRangeOpts =
  opt_Limit :: int64
  opt_Revision :: int64
  opt_KeysOnly :: bool

definition noOpts :: KVRangeOpts where
  "noOpts = \<lparr>opt_Limit = 0, opt_Revision = 0, opt_KeysOnly = False\<rparr>"

definition Service_CurrentRevisionValue :: "env \<Rightarrow> 'c ctx_scheme \<Rightarrow> (int64, 'z world_scheme) op" where
  "Service_CurrentRevisionValue E c = CurrentRevisionValue E c"

definition RangeKVs ::
  "env \<Rightarrow> 'c ctx_scheme \<Rightarrow> string \<Rightarrow> string \<Rightarrow> string \<Rightarrow> string \<Rightarrow> KVRangeOpts
     \<Rightarrow> (KVPair list \<times> bool, 'z world_scheme) op" where
  "RangeKVs E c startNS startPath endNS endPath opts =
     RangeQuery E c startNS startPath endNS endPath (opt_Limit opts) (opt_Revision opts) (opt_KeysOnly opts)"

definition Service_RangeQuery ::
  "env \<Rightarrow> 'c ctx_scheme \<Rightarrow> string \<Rightarrow> string \<Rightarrow> string \<Rightarrow> string \<Rightarrow> KVRangeOpts
     \<Rightarrow> (KVPair list \<times> int64 \<times> bool, 'z world_scheme) op" where
  "Service_RangeQuery E c startNS startPath endNS endPath opts =
     bindT (RangeKVs E c startNS startPath endNS endPath opts) (\<lambda>(kvs, more).
     bindT (CurrentRevisionValue E c) (\<lambda>rev. returnT (kvs, rev, more)))"

definition kvPutConfig ::
  "env \<Rightarrow> string \<Rightarrow> string \<Rightarrow> bytes \<Rightarrow> Format \<Rightarrow> KVPair option \<Rightarrow> int64 \<Rightarrow> (Config, 'z world_scheme) op" where
  "kvPutConfig E namespace path value format prev newRev =
     bindT (timeNow E) (\<lambda>now.
       let cfg = \<lparr>cfg_Path = path, cfg_Content = value, cfg_ContentHash = [], cfg_Format = format,
                  cfg_Version = 0, cfg_Revision = newRev, cfg_CreateRevision = 0,
                  cfg_Namespace = namespace, cfg_Metadata = None, cfg_Locked = False,
                  cfg_NamespaceLocked = False, cfg_CreatedAt = 0, cfg_UpdatedAt = now\<rparr> in
       case prev of
         Some p \<Rightarrow> returnT (cfg\<lparr>cfg_Version := wrap64 (kv_Version p + 1),
                                cfg_CreateRevision := kv_CreateRevision p\<rparr>)
       | None \<Rightarrow> returnT (cfg\<lparr>cfg_Version := 1, cfg_CreateRevision := newRev, cfg_CreatedAt := now\<rparr>))"

definition Service_PutKey ::
  "env \<Rightarrow> ext \<Rightarrow> 'c sctx_scheme \<Rightarrow> string \<Rightarrow> string \<Rightarrow> bytes
     \<Rightarrow> (KVPair option \<times> int64, 'z sworld_scheme) op" where
  "Service_PutKey E X c namespace path value =
     (let format = DetectFormatFromPath path in
      bindT (Validator_Validate E X c namespace path value format) (\<lambda>_.
      deferring E c (\<lambda>c.
        bindT (PutKey E c namespace path value) (\<lambda>(p, rev).
        bindT (kvPutConfig E namespace path value format p rev) (\<lambda>cfg.
        bindT (addPending (if p \<noteq> None then NotifyUpdated cfg else NotifyCreated cfg)) (\<lambda>_.
        returnT (p, rev)))))))"

definition Service_DeleteRangeKeys ::
  "env \<Rightarrow> 'c sctx_scheme \<Rightarrow> string \<Rightarrow> string \<Rightarrow> string \<Rightarrow> string \<Rightarrow> bool
     \<Rightarrow> (KVPair list \<times> int64, 'z sworld_scheme) op" where
  "Service_DeleteRangeKeys E c startNS startPath endNS endPath returnPrev =
     deferring E c (\<lambda>c.
       bindT (DeleteRangeKeys E c startNS startPath endNS endPath returnPrev) (\<lambda>(d, rev) w.
         (Ok (d, rev),
          w\<lparr>pending := pending w @ map (\<lambda>kv. NotifyDeleted (kv_Path kv) (kv_Namespace kv) rev) d\<rparr>)))"

section \<open>Transactions\<close>

type_synonym KVCompareTarget = int
type_synonym KVCompareResult = int

definition KVCompareVersion :: KVCompareTarget where "KVCompareVersion = 1"
definition KVCompareCreateRevision :: KVCompareTarget where "KVCompareCreateRevision = 2"
definition KVCompareModRevision :: KVCompareTarget where "KVCompareModRevision = 3"
definition KVCompareValue :: KVCompareTarget where "KVCompareValue = 4"

definition KVCompareEqual :: KVCompareResult where "KVCompareEqual = 1"
definition KVCompareNotEqual :: KVCompareResult where "KVCompareNotEqual = 2"
definition KVCompareGreater :: KVCompareResult where "KVCompareGreater = 3"
definition KVCompareLess :: KVCompareResult where "KVCompareLess = 4"

lemmas compare_defs =
  KVCompareVersion_def KVCompareCreateRevision_def KVCompareModRevision_def KVCompareValue_def
  KVCompareEqual_def KVCompareNotEqual_def KVCompareGreater_def KVCompareLess_def

record KVCompare =
  cmp_StartNS :: string
  cmp_StartPath :: string
  cmp_EndNS :: string
  cmp_EndPath :: string
  cmp_Target :: KVCompareTarget
  cmp_Result :: KVCompareResult
  cmp_WantRevision :: int64
  cmp_WantValue :: bytes

record KVRangeOp =
  ro_StartNS :: string
  ro_StartPath :: string
  ro_EndNS :: string
  ro_EndPath :: string
  ro_Opts :: KVRangeOpts

record KVPutOp =
  po_Namespace :: string
  po_Path :: string
  po_Value :: bytes

record KVDeleteRangeOp =
  do_StartNS :: string
  do_StartPath :: string
  do_EndNS :: string
  do_EndPath :: string
  do_ReturnPrev :: bool

text \<open>
  \<^verbatim>\<open>KVOp\<close> with its kind and the one pointer that the kind selects; a nested transaction's pointer
  may be nil, and \<open>KVOpUnknown\<close> is every other kind.
\<close>

datatype KVOp =
    KVOpRange KVRangeOp
  | KVOpPut KVPutOp
  | KVOpDeleteRange KVDeleteRangeOp
  | KVOpTxn "KVTxnInput option"
  | KVOpUnknown
and KVTxnInput = KVTxnInput "KVCompare list" "KVOp list" "KVOp list"

record KVRangeResult =
  rr_KVs :: "KVPair list"
  rr_Revision :: int64
  rr_More :: bool

record KVPutResult =
  pr_Prev :: "KVPair option"
  pr_Revision :: int64

record KVDeleteRangeResult =
  dr_Deleted :: "KVPair list"
  dr_Revision :: int64

datatype KVOpResult =
    RRange KVRangeResult
  | RPut KVPutResult
  | RDeleteRange KVDeleteRangeResult
  | RTxn KVTxnResult
and KVTxnResult = KVTxnResult (tr_Responses: "KVOpResult list") (tr_Revision: int64) (tr_Succeeded: bool)

definition compareInt64 :: "KVCompareResult \<Rightarrow> int64 \<Rightarrow> int64 \<Rightarrow> bool" where
  "compareInt64 op got want =
     (if op = KVCompareEqual then got = want
      else if op = KVCompareNotEqual then got \<noteq> want
      else if op = KVCompareGreater then got > want
      else if op = KVCompareLess then got < want
      else False)"

definition compareBytes :: "KVCompareResult \<Rightarrow> bytes \<Rightarrow> bytes \<Rightarrow> bool" where
  "compareBytes op got want =
     (if op = KVCompareEqual then got = want
      else if op = KVCompareNotEqual then got \<noteq> want
      else if op = KVCompareGreater then want < got
      else if op = KVCompareLess then got < want
      else False)"

definition compareKV :: "KVCompare \<Rightarrow> KVPair option \<Rightarrow> bool" where
  "compareKV cmp kv =
     (let version = (case kv of Some p \<Rightarrow> kv_Version p | None \<Rightarrow> 0);
          createRev = (case kv of Some p \<Rightarrow> kv_CreateRevision p | None \<Rightarrow> 0);
          modRev = (case kv of Some p \<Rightarrow> kv_ModRevision p | None \<Rightarrow> 0);
          val = (case kv of Some p \<Rightarrow> kv_Value p | None \<Rightarrow> [])
      in if cmp_Target cmp = KVCompareVersion then compareInt64 (cmp_Result cmp) version (cmp_WantRevision cmp)
         else if cmp_Target cmp = KVCompareCreateRevision
           then compareInt64 (cmp_Result cmp) createRev (cmp_WantRevision cmp)
         else if cmp_Target cmp = KVCompareModRevision
           then compareInt64 (cmp_Result cmp) modRev (cmp_WantRevision cmp)
         else if cmp_Target cmp = KVCompareValue then compareBytes (cmp_Result cmp) val (cmp_WantValue cmp)
         else False)"

definition evalCompare :: "env \<Rightarrow> 'c ctx_scheme \<Rightarrow> KVCompare \<Rightarrow> (bool, 'z world_scheme) op" where
  "evalCompare E c cmp =
     bindT (RangeKVs E c (cmp_StartNS cmp) (cmp_StartPath cmp) (cmp_EndNS cmp) (cmp_EndPath cmp) noOpts)
       (\<lambda>(kvs, _).
         if kvs = [] then returnT (compareKV cmp None)
         else returnT (list_all (\<lambda>kv. compareKV cmp (Some kv)) kvs))"

fun evalCompares :: "env \<Rightarrow> 'c ctx_scheme \<Rightarrow> KVCompare list \<Rightarrow> (bool, 'z world_scheme) op" where
  "evalCompares E c [] = returnT True"
| "evalCompares E c (cmp # cmps) =
     bindT (evalCompare E c cmp) (\<lambda>ok. if \<not> ok then returnT False else evalCompares E c cmps)"

fun opsWrite :: "KVOp list \<Rightarrow> bool" and opWrites :: "KVOp \<Rightarrow> bool" and hasWrites :: "KVTxnInput \<Rightarrow> bool" where
  "opsWrite [] = False"
| "opsWrite (op # ops) = (if opWrites op then True else opsWrite ops)"
| "opWrites (KVOpPut _) = True"
| "opWrites (KVOpDeleteRange _) = True"
| "opWrites (KVOpTxn (Some inp)) = hasWrites inp"
| "opWrites (KVOpTxn None) = False"
| "opWrites (KVOpRange _) = False"
| "opWrites KVOpUnknown = False"
| "hasWrites (KVTxnInput cmps success failure) = (opsWrite success \<or> opsWrite failure)"

fun revisionFromResponses :: "KVOpResult list \<Rightarrow> int64" where
  "revisionFromResponses [] = 0"
| "revisionFromResponses (RRange r # rest) =
     (if rr_Revision r > 0 then rr_Revision r else revisionFromResponses rest)"
| "revisionFromResponses (RTxn r # rest) =
     (if tr_Revision r > 0 then tr_Revision r else revisionFromResponses rest)"
| "revisionFromResponses (_ # rest) = revisionFromResponses rest"

text \<open>\<^verbatim>\<open>Txn\<close> around the run of the transaction: a boundary only when some branch writes.\<close>

definition txnBoundary ::
  "env \<Rightarrow> 'c sctx_scheme \<Rightarrow> bool \<Rightarrow> ('c sctx_scheme \<Rightarrow> (KVTxnResult, 'z sworld_scheme) op)
     \<Rightarrow> (KVTxnResult, 'z sworld_scheme) op" where
  "txnBoundary E c writes run = (if \<not> writes then run c else deferring E c run)"

definition runRangeOp :: "env \<Rightarrow> 'c ctx_scheme \<Rightarrow> KVRangeOp \<Rightarrow> (KVOpResult \<times> int64, 'z world_scheme) op" where
  "runRangeOp E c op =
     bindT (Service_RangeQuery E c (ro_StartNS op) (ro_StartPath op) (ro_EndNS op) (ro_EndPath op) (ro_Opts op))
       (\<lambda>(kvs, rev, more). returnT (RRange \<lparr>rr_KVs = kvs, rr_Revision = rev, rr_More = more\<rparr>, 0))"

definition runPutOp ::
  "env \<Rightarrow> ext \<Rightarrow> 'c sctx_scheme \<Rightarrow> KVPutOp \<Rightarrow> (KVOpResult \<times> int64, 'z sworld_scheme) op" where
  "runPutOp E X c op =
     bindT (Service_PutKey E X c (po_Namespace op) (po_Path op) (po_Value op))
       (\<lambda>(prev, rev). returnT (RPut \<lparr>pr_Prev = prev, pr_Revision = rev\<rparr>, rev))"

definition runDeleteRangeOp ::
  "env \<Rightarrow> 'c sctx_scheme \<Rightarrow> KVDeleteRangeOp \<Rightarrow> (KVOpResult \<times> int64, 'z sworld_scheme) op" where
  "runDeleteRangeOp E c op =
     bindT (Service_DeleteRangeKeys E c (do_StartNS op) (do_StartPath op) (do_EndNS op) (do_EndPath op)
              (do_ReturnPrev op))
       (\<lambda>(deleted, rev). returnT (RDeleteRange \<lparr>dr_Deleted = deleted, dr_Revision = rev\<rparr>, rev))"

text \<open>The end of \<^verbatim>\<open>runTxn\<close>: the revision of the response header.\<close>

definition finishTxn ::
  "env \<Rightarrow> 'c ctx_scheme \<Rightarrow> bool \<Rightarrow> KVOpResult list \<Rightarrow> int64 \<Rightarrow> (KVTxnResult, 'z world_scheme) op" where
  "finishTxn E c succeeded responses lastRev0 =
     (let lastRev = (if lastRev0 = 0 then revisionFromResponses responses else lastRev0) in
      if lastRev = 0
      then bindT (CurrentRevisionValue E c) (\<lambda>rev. returnT (KVTxnResult responses rev succeeded))
      else returnT (KVTxnResult responses lastRev succeeded))"

fun runTxn ::
    "env \<Rightarrow> ext \<Rightarrow> 'c sctx_scheme \<Rightarrow> KVTxnInput \<Rightarrow> (KVTxnResult, 'z sworld_scheme) op"
  and runOps ::
    "env \<Rightarrow> ext \<Rightarrow> 'c sctx_scheme \<Rightarrow> KVOp list \<Rightarrow> KVOpResult list \<Rightarrow> int64
       \<Rightarrow> (KVOpResult list \<times> int64, 'z sworld_scheme) op"
  and runTxnOp ::
    "env \<Rightarrow> ext \<Rightarrow> 'c sctx_scheme \<Rightarrow> KVOp \<Rightarrow> (KVOpResult \<times> int64, 'z sworld_scheme) op" where
  "runTxn E X c (KVTxnInput cmps success failure) =
     bindT (evalCompares E c cmps) (\<lambda>succeeded.
     bindT (if succeeded then runOps E X c success [] 0 else runOps E X c failure [] 0)
       (\<lambda>(responses, lastRev). finishTxn E c succeeded responses lastRev))"
| "runOps E X c [] results lastRev = returnT (results, lastRev)"
| "runOps E X c (op # ops) results lastRev =
     bindT (runTxnOp E X c op) (\<lambda>(res, rev).
     runOps E X c ops (results @ [res]) (if rev > lastRev then rev else lastRev))"
| "runTxnOp E X c (KVOpRange op) = runRangeOp E c op"
| "runTxnOp E X c (KVOpPut op) = runPutOp E X c op"
| "runTxnOp E X c (KVOpDeleteRange op) = runDeleteRangeOp E c op"
| "runTxnOp E X c (KVOpTxn None) = failT (ErrValidation ''txn'' ''nested transaction is empty'')"
| "runTxnOp E X c (KVOpTxn (Some inp)) =
     bindT (txnBoundary E c (hasWrites inp) (\<lambda>c. runTxn E X c inp)) (\<lambda>res. returnT (RTxn res, tr_Revision res))"
| "runTxnOp E X c KVOpUnknown = failT (ErrValidation ''op'' ''unknown transaction operation'')"

definition Txn ::
  "env \<Rightarrow> ext \<Rightarrow> 'c sctx_scheme \<Rightarrow> KVTxnInput \<Rightarrow> (KVTxnResult, 'z sworld_scheme) op" where
  "Txn E X c inp = txnBoundary E c (hasWrites inp) (\<lambda>c. runTxn E X c inp)"

end
