(* ===== verification/EtcdKeys.thy ===== *)
theory EtcdKeys
  imports ConfigService
begin

text \<open>
  The wire side of the etcd API, \<^verbatim>\<open>src/internal/handler/etcdv3\<close>: the key encoding of
  \<^verbatim>\<open>keyencoding.go\<close>, the service-token scoping of \<^verbatim>\<open>access.go\<close>, and the statuses the servers
  return. A gRPC status is a constructor per message of the source, with the values the message
  shows; \<open>status_code\<close> is its status code. \<open>StatusPlain\<close> is an error returned as it is, and
  \<open>NilDereference\<close> a run-time panic.
\<close>

section \<open>Keys\<close>

definition SplitKey :: "bytes \<Rightarrow> (string \<times> string) option" where
  "SplitKey etcdKey =
     (if etcdKey = [] \<or> hd etcdKey \<noteq> CHR ''/'' then None
      else
        let rest = tl etcdKey;
            namespace = takeWhile (\<lambda>c. c \<noteq> CHR ''/'') rest;
            path = dropWhile (\<lambda>c. c \<noteq> CHR ''/'') rest
        in if CHR ''/'' \<notin> set rest
           then (if rest = [] then None else Some (rest, ''/''))
           else (if namespace = [] then None else Some (namespace, path)))"

definition JoinKey :: "string \<Rightarrow> string \<Rightarrow> bytes" where
  "JoinKey namespace path =
     (let path = (if path = [] \<or> \<not> hasPrefix path ''/'' then ''/'' @ path else path)
      in ''/'' @ namespace @ path)"

definition scanAllEnd :: string where "scanAllEnd = [CHR 0x00]"

definition SplitRange :: "bytes \<Rightarrow> bytes \<Rightarrow> (string \<times> string \<times> string \<times> string) option" where
  "SplitRange k rangeEnd =
     (case SplitKey k of
        None \<Rightarrow> None
      | Some (startNS, startPath) \<Rightarrow>
          if rangeEnd = [] then Some (startNS, startPath, [], [])
          else if rangeEnd = [CHR 0x00] then Some (startNS, startPath, scanAllEnd, [])
          else (case SplitKey rangeEnd of
                  None \<Rightarrow> None
                | Some (eNS, ePath) \<Rightarrow> Some (startNS, startPath, eNS, ePath)))"

section \<open>Statuses\<close>

datatype code = InvalidArgument | PermissionDenied | Unimplemented | FailedPrecondition | Internal

datatype status =
    InvalidKeyEncoding bytes
  | InvalidCompareKey bytes
  | InvalidWatchKey bytes
  | NamespaceDenied string
  | ScanAllDenied
  | IgnoreValueUnsupported
  | NestedTxnEmpty
  | UnknownTxnOp
  | StatusLocked string string
  | StatusSchema string err
  | StatusInternal string err
  | ResponseMismatch nat nat
  | StatusPlain err
  | NilDereference

fun status_code :: "status \<Rightarrow> code option" where
  "status_code (InvalidKeyEncoding _) = Some InvalidArgument"
| "status_code (InvalidCompareKey _) = Some InvalidArgument"
| "status_code (InvalidWatchKey _) = Some InvalidArgument"
| "status_code (NamespaceDenied _) = Some PermissionDenied"
| "status_code ScanAllDenied = Some PermissionDenied"
| "status_code IgnoreValueUnsupported = Some Unimplemented"
| "status_code NestedTxnEmpty = Some InvalidArgument"
| "status_code UnknownTxnOp = Some InvalidArgument"
| "status_code (StatusLocked _ _) = Some FailedPrecondition"
| "status_code (StatusSchema _ _) = Some InvalidArgument"
| "status_code (StatusInternal _ _) = Some Internal"
| "status_code (ResponseMismatch _ _) = Some Internal"
| "status_code (StatusPlain _) = None"
| "status_code NilDereference = None"

definition toKVStatus :: "err \<Rightarrow> string \<Rightarrow> string \<Rightarrow> status" where
  "toKVStatus e opName path =
     (if isErrLocked e then StatusLocked opName path
      else if isSchemaValidationError e then StatusSchema opName e
      else StatusInternal opName e)"

section \<open>Access\<close>

record Claims =
  clm_Email :: string
  clm_Name :: string
  clm_Namespaces :: "string list"
  clm_Role :: string

text \<open>The context of a request: the storage context, the collector and the token's claims.\<close>

record hctx = sctx +
  ctx_claims :: "Claims option"

definition namespaceAllowed :: "Claims option \<Rightarrow> string \<Rightarrow> Action \<Rightarrow> bool" where
  "namespaceAllowed claims namespace action =
     (case claims of
        None \<Rightarrow> True
      | Some cl \<Rightarrow>
          if \<not> list_ex (\<lambda>ns. ns = namespace \<or> ns = ''*'') (clm_Namespaces cl) then False
          else if action = ActionWrite \<and> clm_Role cl \<noteq> RoleWriter then False
          else True)"

definition namespaceAllScoped :: "Claims option \<Rightarrow> bool" where
  "namespaceAllScoped claims =
     (case claims of None \<Rightarrow> True | Some cl \<Rightarrow> List.member (clm_Namespaces cl) ''*'')"

definition checkWatchAccess :: "Claims option \<Rightarrow> bool \<Rightarrow> string \<Rightarrow> string \<Rightarrow> status + unit" where
  "checkWatchAccess claims scanAll startNS endNS =
     (if scanAll then (if \<not> namespaceAllScoped claims then Inl ScanAllDenied else Inr ())
      else if \<not> namespaceAllowed claims startNS ActionRead then Inl (NamespaceDenied startNS)
      else if endNS \<noteq> [] \<and> endNS \<noteq> startNS then
        (if \<not> namespaceAllowed claims endNS ActionRead then Inl (NamespaceDenied endNS) else Inr ())
      else Inr ())"

definition checkAccess :: "'c hctx_scheme \<Rightarrow> string \<Rightarrow> Action \<Rightarrow> status + unit" where
  "checkAccess c namespace action =
     (if \<not> namespaceAllowed (ctx_claims c) namespace action then Inl (NamespaceDenied namespace) else Inr ())"

definition checkRangeAccess :: "'c hctx_scheme \<Rightarrow> string \<Rightarrow> string \<Rightarrow> Action \<Rightarrow> status + unit" where
  "checkRangeAccess c startNS endNS action =
     (case checkAccess c startNS action of
        Inl e \<Rightarrow> Inl e
      | Inr _ \<Rightarrow>
          if endNS \<noteq> [] \<and> endNS \<noteq> scanAllEnd then checkAccess c endNS action else Inr ())"

section \<open>Facts about keys\<close>

definition slashFree :: "string \<Rightarrow> bool" where
  "slashFree s \<longleftrightarrow> CHR ''/'' \<notin> set s"

text \<open>The names the wire format can carry: a namespace without a slash and an absolute path.\<close>

definition wireName :: "string \<Rightarrow> string \<Rightarrow> bool" where
  "wireName ns p \<longleftrightarrow> slashFree ns \<and> ns \<noteq> [] \<and> hasPrefix p ''/''"

lemma hasPrefix_slash: "hasPrefix p ''/'' \<longleftrightarrow> (\<exists>q. p = CHR ''/'' # q)"
  by (auto simp: hasPrefix_def prefix_def)

lemma JoinKey_wire: "hasPrefix p ''/'' \<Longrightarrow> JoinKey ns p = CHR ''/'' # ns @ p"
  by (auto simp: JoinKey_def hasPrefix_slash)

lemma takeWhile_slash:
  "slashFree ns \<Longrightarrow> takeWhile (\<lambda>c. c \<noteq> CHR ''/'') (ns @ CHR ''/'' # q) = ns"
  "slashFree ns \<Longrightarrow> dropWhile (\<lambda>c. c \<noteq> CHR ''/'') (ns @ CHR ''/'' # q) = CHR ''/'' # q"
  by (induction ns) (auto simp: slashFree_def)

lemma Split_Join: "wireName ns p \<Longrightarrow> SplitKey (JoinKey ns p) = Some (ns, p)"
  by (auto simp: wireName_def JoinKey_wire hasPrefix_slash SplitKey_def takeWhile_slash)

lemma SplitKey_wire:
  assumes "SplitKey k = Some (ns, p)"
  shows "wireName ns p" "k = JoinKey ns p \<or> p = ''/'' \<and> k = CHR ''/'' # ns"
proof -
  from assms obtain rest where k: "k = CHR ''/'' # rest"
    by (cases k) (auto simp: SplitKey_def split: if_splits)
  have "wireName ns p \<and> (k = JoinKey ns p \<or> p = ''/'' \<and> k = CHR ''/'' # ns)"
  proof (cases "CHR ''/'' \<in> set rest")
    case True
    then obtain a b where rest: "rest = a @ CHR ''/'' # b" and a: "slashFree a"
      unfolding slashFree_def by (metis split_list_first)
    with assms k have "ns = a" "p = CHR ''/'' # b" "a \<noteq> []"
      by (auto simp: SplitKey_def takeWhile_slash split: if_splits)
    with a k rest show ?thesis by (auto simp: wireName_def JoinKey_wire hasPrefix_slash)
  next
    case False
    with assms k show ?thesis
      by (auto simp: SplitKey_def wireName_def slashFree_def hasPrefix_slash Let_def split: if_splits)
  qed
  then show "wireName ns p" "k = JoinKey ns p \<or> p = ''/'' \<and> k = CHR ''/'' # ns" by simp_all
qed

lemma JoinKey_inj:
  "wireName ns p \<Longrightarrow> wireName ns' p' \<Longrightarrow> JoinKey ns p = JoinKey ns' p' \<longleftrightarrow> ns = ns' \<and> p = p'"
  by (metis Split_Join option.inject prod.inject)

end
