(* ===== verification/EtcdKV.thy ===== *)
theory EtcdKV
  imports EtcdKeys
begin

text \<open>
  The KV service of the etcd API, \<^verbatim>\<open>kv_server.go\<close> and \<^verbatim>\<open>kv_txn.go\<close> of
  \<^verbatim>\<open>src/internal/handler/etcdv3\<close>: Range, Put, DeleteRange, Compact and Txn, each from the wire
  request to the wire response. The wire messages are records of the fields the servers read
  and set; the state of a server extends the services' state with the counter of rejected writes.
\<close>

section \<open>Wire messages\<close>

datatype SortOrder = SortNone | SortAscend | SortDescend | SortOrderOther
datatype SortTarget = SortKey | SortVersion | SortCreate | SortMod | SortValue | SortTargetOther
datatype CompareTarget = CompareVersion | CompareCreate | CompareMod | CompareValue | CompareLease | CompareTargetOther
datatype CompareResult = CompareEqual | CompareGreater | CompareLess | CompareNotEqual | CompareResultOther

record RangeRequest =
  rq_Key :: bytes
  rq_RangeEnd :: bytes
  rq_Limit :: int64
  rq_Revision :: int64
  rq_SortOrder :: SortOrder
  rq_SortTarget :: SortTarget
  rq_KeysOnly :: bool
  rq_CountOnly :: bool

record PutRequest =
  pq_Key :: bytes
  pq_Value :: bytes
  pq_PrevKv :: bool
  pq_IgnoreValue :: bool

record DeleteRangeRequest =
  dq_Key :: bytes
  dq_RangeEnd :: bytes
  dq_PrevKv :: bool

record Compare =
  cq_Key :: bytes
  cq_RangeEnd :: bytes
  cq_Target :: CompareTarget
  cq_Result :: CompareResult
  cq_Version :: int64
  cq_CreateRevision :: int64
  cq_ModRevision :: int64
  cq_Value :: bytes

datatype RequestOp =
    RequestRange RangeRequest
  | RequestPut PutRequest
  | RequestDeleteRange DeleteRangeRequest
  | RequestTxn TxnRequest
  | RequestUnknown
and TxnRequest = TxnRequest "Compare list" "RequestOp list" "RequestOp list"

record KeyValue =
  pb_Key :: bytes
  pb_Value :: bytes
  pb_CreateRevision :: int64
  pb_ModRevision :: int64
  pb_Version :: int64

record ResponseHeader =
  hd_ClusterId :: nat
  hd_MemberId :: nat
  hd_Revision :: int64
  hd_RaftTerm :: nat

record RangeResponse =
  rs_Header :: ResponseHeader
  rs_Kvs :: "KeyValue list"
  rs_More :: bool
  rs_Count :: int64

record PutResponse =
  ps_Header :: ResponseHeader
  ps_PrevKv :: "KeyValue option"

record DeleteRangeResponse =
  ds_Header :: ResponseHeader
  ds_Deleted :: int64
  ds_PrevKvs :: "KeyValue list"

datatype ResponseOp =
    ResponseRange RangeResponse
  | ResponsePut PutResponse
  | ResponseDeleteRange DeleteRangeResponse
  | ResponseTxn TxnResponse
and TxnResponse = TxnResponse (ts_Header: ResponseHeader) (ts_Succeeded: bool) (ts_Responses: "ResponseOp list")

section \<open>Responses\<close>

definition clusterID :: nat where "clusterID = 0xe16172610001"
definition memberID :: nat where "memberID = 0xe16172610002"
definition raftTerm :: nat where "raftTerm = 1"

definition newHeader :: "int64 \<Rightarrow> ResponseHeader" where
  "newHeader r = \<lparr>hd_ClusterId = clusterID, hd_MemberId = memberID, hd_Revision = r, hd_RaftTerm = raftTerm\<rparr>"

definition kvPairToProto :: "KVPair \<Rightarrow> KeyValue" where
  "kvPairToProto kv =
     \<lparr>pb_Key = JoinKey (kv_Namespace kv) (kv_Path kv), pb_Value = kv_Value kv,
      pb_CreateRevision = kv_CreateRevision kv, pb_ModRevision = kv_ModRevision kv, pb_Version = kv_Version kv\<rparr>"

text \<open>
  \<^verbatim>\<open>sort.SliceStable\<close>, which leaves the stable arrangement of a strict weak order, by insertion.
\<close>

fun insertStable :: "('a \<Rightarrow> 'a \<Rightarrow> bool) \<Rightarrow> 'a \<Rightarrow> 'a list \<Rightarrow> 'a list" where
  "insertStable lt x [] = [x]"
| "insertStable lt x (y # ys) = (if lt y x then y # insertStable lt x ys else x # y # ys)"

definition SliceStable :: "('a \<Rightarrow> 'a \<Rightarrow> bool) \<Rightarrow> 'a list \<Rightarrow> 'a list" where
  "SliceStable lt xs = foldr (insertStable lt) xs []"

definition kvLess :: "SortTarget \<Rightarrow> KeyValue \<Rightarrow> KeyValue \<Rightarrow> bool" where
  "kvLess target a b =
     (case target of
        SortVersion \<Rightarrow> pb_Version a < pb_Version b
      | SortCreate \<Rightarrow> pb_CreateRevision a < pb_CreateRevision b
      | SortMod \<Rightarrow> pb_ModRevision a < pb_ModRevision b
      | SortValue \<Rightarrow> pb_Value a < pb_Value b
      | _ \<Rightarrow> pb_Key a < pb_Key b)"

definition sortKVs :: "KeyValue list \<Rightarrow> SortOrder \<Rightarrow> SortTarget \<Rightarrow> KeyValue list" where
  "sortKVs kvs order target =
     (if order = SortNone then kvs
      else if order = SortDescend then SliceStable (\<lambda>a b. kvLess target b a) kvs
      else SliceStable (kvLess target) kvs)"

definition buildRangeResponse :: "RangeRequest \<Rightarrow> KVPair list \<Rightarrow> int64 \<Rightarrow> bool \<Rightarrow> RangeResponse" where
  "buildRangeResponse req kvs revision hasMore =
     (let protoKVs = sortKVs (map kvPairToProto kvs) (rq_SortOrder req) (rq_SortTarget req);
          count = int (length protoKVs)
      in \<lparr>rs_Header = newHeader revision, rs_Kvs = (if rq_CountOnly req then [] else protoKVs),
          rs_More = hasMore, rs_Count = count\<rparr>)"

definition buildDeleteRangeResponse :: "int64 \<Rightarrow> KVPair list \<Rightarrow> bool \<Rightarrow> DeleteRangeResponse" where
  "buildDeleteRangeResponse newRev deleted prevKv =
     \<lparr>ds_Header = newHeader newRev, ds_Deleted = int (length deleted),
      ds_PrevKvs = (if prevKv then map kvPairToProto deleted else [])\<rparr>"

section \<open>Rejected writes\<close>

text \<open>The instrument, None when it could not be registered: the labels of its increments.\<close>

record hworld = sworld +
  writesRejected :: "(string \<times> string \<times> string) list option"

definition recordRejectedWrite :: "string \<Rightarrow> string \<Rightarrow> err \<Rightarrow> 'z hworld_scheme \<Rightarrow> 'z hworld_scheme" where
  "recordRejectedWrite opName namespace e w =
     (case writesRejected w of
        None \<Rightarrow> w
      | Some log \<Rightarrow>
          if \<not> isErrLocked e then w
          else w\<lparr>writesRejected := Some (log @
            [(opName, if isErrNamespaceLocked e then ''namespace_locked'' else ''config_locked'', namespace)])\<rparr>)"

section \<open>The single operations\<close>

type_synonym ('a, 'w) hop = "'w \<Rightarrow> (status + 'a) \<times> 'w"

definition KV_Range :: "env \<Rightarrow> 'c hctx_scheme \<Rightarrow> RangeRequest \<Rightarrow> (RangeResponse, 'z hworld_scheme) hop" where
  "KV_Range E c req w =
     (case SplitRange (rq_Key req) (rq_RangeEnd req) of
        None \<Rightarrow> (Inl (InvalidKeyEncoding (rq_Key req)), w)
      | Some (startNS, startPath, endNS, endPath) \<Rightarrow>
          (case checkRangeAccess c startNS endNS ActionRead of
             Inl e \<Rightarrow> (Inl e, w)
           | Inr _ \<Rightarrow>
               (case Service_RangeQuery E c startNS startPath endNS endPath
                       \<lparr>opt_Limit = rq_Limit req, opt_Revision = rq_Revision req, opt_KeysOnly = rq_KeysOnly req\<rparr> w of
                  (Inl e, w1) \<Rightarrow> (Inl (StatusInternal ''range query'' e), w1)
                | (Inr (kvs, currentRev, hasMore), w1) \<Rightarrow> (Inr (buildRangeResponse req kvs currentRev hasMore), w1))))"

definition KV_Put :: "env \<Rightarrow> ext \<Rightarrow> 'c hctx_scheme \<Rightarrow> PutRequest \<Rightarrow> (PutResponse, 'z hworld_scheme) hop" where
  "KV_Put E X c req w =
     (case SplitKey (pq_Key req) of
        None \<Rightarrow> (Inl (InvalidKeyEncoding (pq_Key req)), w)
      | Some (namespace, path) \<Rightarrow>
          (case checkAccess c namespace ActionWrite of
             Inl e \<Rightarrow> (Inl e, w)
           | Inr _ \<Rightarrow>
               if pq_IgnoreValue req then (Inl IgnoreValueUnsupported, w)
               else
                 (case Service_PutKey E X c namespace path (pq_Value req) w of
                    (Inl e, w1) \<Rightarrow> (Inl (toKVStatus e ''put'' path), recordRejectedWrite ''put'' namespace e w1)
                  | (Inr (prev, newRev), w1) \<Rightarrow>
                      (Inr \<lparr>ps_Header = newHeader newRev,
                            ps_PrevKv = (if pq_PrevKv req then map_option kvPairToProto prev else None)\<rparr>, w1))))"

definition KV_DeleteRange ::
  "env \<Rightarrow> 'c hctx_scheme \<Rightarrow> DeleteRangeRequest \<Rightarrow> (DeleteRangeResponse, 'z hworld_scheme) hop" where
  "KV_DeleteRange E c req w =
     (case SplitRange (dq_Key req) (dq_RangeEnd req) of
        None \<Rightarrow> (Inl (InvalidKeyEncoding (dq_Key req)), w)
      | Some (startNS, startPath, endNS, endPath) \<Rightarrow>
          (case checkRangeAccess c startNS endNS ActionWrite of
             Inl e \<Rightarrow> (Inl e, w)
           | Inr _ \<Rightarrow>
               (case Service_DeleteRangeKeys E c startNS startPath endNS endPath (dq_PrevKv req) w of
                  (Inl e, w1) \<Rightarrow>
                    (Inl (toKVStatus e ''delete range'' startPath), recordRejectedWrite ''delete'' startNS e w1)
                | (Inr (deleted, newRev), w1) \<Rightarrow>
                    if newRev = 0 then
                      (case Service_CurrentRevisionValue E c w1 of
                         (Inl e, w2) \<Rightarrow> (Inl (StatusInternal ''get revision'' e), w2)
                       | (Inr rev', w2) \<Rightarrow> (Inr (buildDeleteRangeResponse rev' deleted (dq_PrevKv req)), w2))
                    else (Inr (buildDeleteRangeResponse newRev deleted (dq_PrevKv req)), w1))))"

definition KV_Compact :: "env \<Rightarrow> 'c hctx_scheme \<Rightarrow> (ResponseHeader, 'z hworld_scheme) hop" where
  "KV_Compact E c w =
     (case Service_CurrentRevisionValue E c w of
        (Inl e, w1) \<Rightarrow> (Inl (StatusInternal ''get revision'' e), w1)
      | (Inr r, w1) \<Rightarrow> (Inr (newHeader r), w1))"

section \<open>Transactions: from the wire\<close>

fun compareTarget :: "CompareTarget \<Rightarrow> KVCompareTarget" where
  "compareTarget CompareVersion = KVCompareVersion"
| "compareTarget CompareCreate = KVCompareCreateRevision"
| "compareTarget CompareMod = KVCompareModRevision"
| "compareTarget CompareValue = KVCompareValue"
| "compareTarget CompareLease = 0"
| "compareTarget CompareTargetOther = 0"

fun compareResult :: "CompareResult \<Rightarrow> KVCompareResult" where
  "compareResult CompareEqual = KVCompareEqual"
| "compareResult CompareNotEqual = KVCompareNotEqual"
| "compareResult CompareGreater = KVCompareGreater"
| "compareResult CompareLess = KVCompareLess"
| "compareResult CompareResultOther = 0"

definition txnCompare :: "Compare \<Rightarrow> status + KVCompare" where
  "txnCompare cmp =
     (case SplitRange (cq_Key cmp) (cq_RangeEnd cmp) of
        None \<Rightarrow> Inl (InvalidCompareKey (cq_Key cmp))
      | Some (startNS, startPath, endNS, endPath) \<Rightarrow>
          Inr \<lparr>cmp_StartNS = startNS, cmp_StartPath = startPath, cmp_EndNS = endNS, cmp_EndPath = endPath,
               cmp_Target = compareTarget (cq_Target cmp), cmp_Result = compareResult (cq_Result cmp),
               cmp_WantRevision =
                 (case cq_Target cmp of
                    CompareVersion \<Rightarrow> cq_Version cmp | CompareCreate \<Rightarrow> cq_CreateRevision cmp
                  | CompareMod \<Rightarrow> cq_ModRevision cmp | _ \<Rightarrow> 0),
               cmp_WantValue = (if cq_Target cmp = CompareValue then cq_Value cmp else [])\<rparr>)"

fun txnCompares :: "Compare list \<Rightarrow> status + KVCompare list" where
  "txnCompares [] = Inr []"
| "txnCompares (cmp # cmps) =
     (case txnCompare cmp of
        Inl e \<Rightarrow> Inl e
      | Inr x \<Rightarrow> (case txnCompares cmps of Inl e \<Rightarrow> Inl e | Inr xs \<Rightarrow> Inr (x # xs)))"

definition txnRangeOp :: "RangeRequest \<Rightarrow> status + KVOp" where
  "txnRangeOp req =
     (case SplitRange (rq_Key req) (rq_RangeEnd req) of
        None \<Rightarrow> Inl (InvalidKeyEncoding (rq_Key req))
      | Some (startNS, startPath, endNS, endPath) \<Rightarrow>
          Inr (KVOpRange \<lparr>ro_StartNS = startNS, ro_StartPath = startPath, ro_EndNS = endNS, ro_EndPath = endPath,
            ro_Opts = \<lparr>opt_Limit = rq_Limit req, opt_Revision = rq_Revision req, opt_KeysOnly = rq_KeysOnly req\<rparr>\<rparr>))"

definition txnPutOp :: "PutRequest \<Rightarrow> status + KVOp" where
  "txnPutOp req =
     (case SplitKey (pq_Key req) of
        None \<Rightarrow> Inl (InvalidKeyEncoding (pq_Key req))
      | Some (namespace, path) \<Rightarrow>
          if pq_IgnoreValue req then Inl IgnoreValueUnsupported
          else Inr (KVOpPut \<lparr>po_Namespace = namespace, po_Path = path, po_Value = pq_Value req\<rparr>))"

definition txnDeleteRangeOp :: "DeleteRangeRequest \<Rightarrow> status + KVOp" where
  "txnDeleteRangeOp req =
     (case SplitRange (dq_Key req) (dq_RangeEnd req) of
        None \<Rightarrow> Inl (InvalidKeyEncoding (dq_Key req))
      | Some (startNS, startPath, endNS, endPath) \<Rightarrow>
          Inr (KVOpDeleteRange \<lparr>do_StartNS = startNS, do_StartPath = startPath, do_EndNS = endNS,
            do_EndPath = endPath, do_ReturnPrev = dq_PrevKv req\<rparr>))"

fun txnInput :: "TxnRequest \<Rightarrow> status + KVTxnInput"
  and txnOps :: "RequestOp list \<Rightarrow> status + KVOp list"
  and txnOp :: "RequestOp \<Rightarrow> status + KVOp" where
  "txnInput (TxnRequest cmps success failure) =
     (case txnCompares cmps of
        Inl e \<Rightarrow> Inl e
      | Inr compares \<Rightarrow>
          (case txnOps success of
             Inl e \<Rightarrow> Inl e
           | Inr s \<Rightarrow> (case txnOps failure of Inl e \<Rightarrow> Inl e | Inr f \<Rightarrow> Inr (KVTxnInput compares s f))))"
| "txnOps [] = Inr []"
| "txnOps (op # ops) =
     (case txnOp op of
        Inl e \<Rightarrow> Inl e
      | Inr x \<Rightarrow> (case txnOps ops of Inl e \<Rightarrow> Inl e | Inr xs \<Rightarrow> Inr (x # xs)))"
| "txnOp (RequestRange req) = txnRangeOp req"
| "txnOp (RequestPut req) = txnPutOp req"
| "txnOp (RequestDeleteRange req) = txnDeleteRangeOp req"
| "txnOp (RequestTxn req) = (case txnInput req of Inl e \<Rightarrow> Inl e | Inr nested \<Rightarrow> Inr (KVOpTxn (Some nested)))"
| "txnOp RequestUnknown = Inl UnknownTxnOp"

section \<open>Transactions: access, response and handler\<close>

fun checkComparesAccess :: "'c hctx_scheme \<Rightarrow> KVCompare list \<Rightarrow> status + unit" where
  "checkComparesAccess c [] = Inr ()"
| "checkComparesAccess c (cmp # cmps) =
     (case checkRangeAccess c (cmp_StartNS cmp) (cmp_EndNS cmp) ActionRead of
        Inl e \<Rightarrow> Inl e | Inr _ \<Rightarrow> checkComparesAccess c cmps)"

fun checkTxnAccess :: "'c hctx_scheme \<Rightarrow> KVTxnInput \<Rightarrow> status + unit"
  and checkOpsAccess :: "'c hctx_scheme \<Rightarrow> KVOp list \<Rightarrow> status + unit"
  and checkOpAccess :: "'c hctx_scheme \<Rightarrow> KVOp \<Rightarrow> status + unit" where
  "checkTxnAccess c (KVTxnInput cmps success failure) =
     (case checkComparesAccess c cmps of
        Inl e \<Rightarrow> Inl e
      | Inr _ \<Rightarrow> (case checkOpsAccess c success of Inl e \<Rightarrow> Inl e | Inr _ \<Rightarrow> checkOpsAccess c failure))"
| "checkOpsAccess c [] = Inr ()"
| "checkOpsAccess c (op # ops) =
     (case checkOpAccess c op of Inl e \<Rightarrow> Inl e | Inr _ \<Rightarrow> checkOpsAccess c ops)"
| "checkOpAccess c (KVOpRange op) = checkRangeAccess c (ro_StartNS op) (ro_EndNS op) ActionRead"
| "checkOpAccess c (KVOpPut op) = checkAccess c (po_Namespace op) ActionWrite"
| "checkOpAccess c (KVOpDeleteRange op) = checkRangeAccess c (do_StartNS op) (do_EndNS op) ActionWrite"
| "checkOpAccess c (KVOpTxn None) = Inl NestedTxnEmpty"
| "checkOpAccess c (KVOpTxn (Some inp)) = checkTxnAccess c inp"
| "checkOpAccess c KVOpUnknown = Inl UnknownTxnOp"

fun firstWriteOps :: "KVOp list \<Rightarrow> string option"
  and firstWriteOp :: "KVOp \<Rightarrow> string option"
  and firstWriteNamespace :: "KVTxnInput \<Rightarrow> string option" where
  "firstWriteOps [] = None"
| "firstWriteOps (op # ops) = (case firstWriteOp op of Some ns \<Rightarrow> Some ns | None \<Rightarrow> firstWriteOps ops)"
| "firstWriteOp (KVOpPut op) = Some (po_Namespace op)"
| "firstWriteOp (KVOpDeleteRange op) = Some (do_StartNS op)"
| "firstWriteOp (KVOpTxn (Some inp)) = firstWriteNamespace inp"
| "firstWriteOp (KVOpTxn None) = None"
| "firstWriteOp (KVOpRange _) = None"
| "firstWriteOp KVOpUnknown = None"
| "firstWriteNamespace (KVTxnInput cmps success failure) =
     (case firstWriteOps success of Some ns \<Rightarrow> Some ns | None \<Rightarrow> firstWriteOps failure)"

text \<open>
  The response zips the requests of the executed branch with the results. A result of another
  kind than its request would be a nil dereference, the last equations of \<open>txnOpResponse\<close>.
\<close>

fun txnResponse :: "TxnRequest \<Rightarrow> KVTxnResult \<Rightarrow> status + TxnResponse"
  and txnResponses :: "RequestOp list \<Rightarrow> KVOpResult list \<Rightarrow> status + ResponseOp list"
  and txnOpResponse :: "RequestOp \<Rightarrow> KVOpResult \<Rightarrow> status + ResponseOp" where
  "txnResponse (TxnRequest cmps success failure) res =
     (let ops = (if tr_Succeeded res then success else failure) in
      if length ops \<noteq> length (tr_Responses res)
      then Inl (ResponseMismatch (length ops) (length (tr_Responses res)))
      else (case (if tr_Succeeded res then txnResponses success (tr_Responses res)
                  else txnResponses failure (tr_Responses res)) of
              Inl e \<Rightarrow> Inl e
            | Inr rs \<Rightarrow> Inr (TxnResponse (newHeader (tr_Revision res)) (tr_Succeeded res) rs)))"
| "txnResponses (op # ops) (r # rs) =
     (case txnOpResponse op r of
        Inl e \<Rightarrow> Inl e
      | Inr x \<Rightarrow> (case txnResponses ops rs of Inl e \<Rightarrow> Inl e | Inr xs \<Rightarrow> Inr (x # xs)))"
| "txnResponses ops rs = Inr []"
| "txnOpResponse (RequestRange req) (RRange r) =
     Inr (ResponseRange (buildRangeResponse req (rr_KVs r) (rr_Revision r) (rr_More r)))"
| "txnOpResponse (RequestPut req) (RPut r) =
     Inr (ResponsePut \<lparr>ps_Header = newHeader (pr_Revision r),
       ps_PrevKv = (if pq_PrevKv req then map_option kvPairToProto (pr_Prev r) else None)\<rparr>)"
| "txnOpResponse (RequestDeleteRange req) (RDeleteRange r) =
     Inr (ResponseDeleteRange (buildDeleteRangeResponse (dr_Revision r) (dr_Deleted r) (dq_PrevKv req)))"
| "txnOpResponse (RequestTxn req) (RTxn r) =
     (case txnResponse req r of Inl e \<Rightarrow> Inl e | Inr resp \<Rightarrow> Inr (ResponseTxn resp))"
| "txnOpResponse RequestUnknown r = Inl UnknownTxnOp"
| "txnOpResponse _ _ = Inl NilDereference"

definition KV_Txn :: "env \<Rightarrow> ext \<Rightarrow> 'c hctx_scheme \<Rightarrow> TxnRequest \<Rightarrow> (TxnResponse, 'z hworld_scheme) hop" where
  "KV_Txn E X c req w =
     (case txnInput req of
        Inl e \<Rightarrow> (Inl e, w)
      | Inr inp \<Rightarrow>
          (case checkTxnAccess c inp of
             Inl e \<Rightarrow> (Inl e, w)
           | Inr _ \<Rightarrow>
               (case Txn E X c inp w of
                  (Inl e, w1) \<Rightarrow>
                    (Inl (toKVStatus e ''txn'' []),
                     (case firstWriteNamespace inp of
                        Some ns \<Rightarrow> recordRejectedWrite ''txn'' ns e w1
                      | None \<Rightarrow> w1))
                | (Inr res, w1) \<Rightarrow> (txnResponse req res, w1))))"

section \<open>Cluster and maintenance\<close>

text \<open>
  The cluster and maintenance services of the etcd API, \<^verbatim>\<open>src/internal/handler/etcdv3/cluster_server.go\<close> and
  \<^verbatim>\<open>maintenance_server.go\<close>: they always answer, with the current revision or zero when it cannot be read.
\<close>

definition headRevision :: "env \<Rightarrow> 'c ctx_scheme \<Rightarrow> 'z world_scheme \<Rightarrow> int64 \<times> 'z world_scheme" where
  "headRevision E c w = (case Service_CurrentRevisionValue E c w of (Inl _, w') \<Rightarrow> (0, w') | (Inr r, w') \<Rightarrow> (r, w'))"

record Member =
  mem_ID :: nat
  mem_Name :: string
  mem_PeerURLs :: "string list"
  mem_ClientURLs :: "string list"

definition MemberList ::
  "env \<Rightarrow> 'c ctx_scheme \<Rightarrow> 'z world_scheme \<Rightarrow> (ResponseHeader \<times> Member list) \<times> 'z world_scheme" where
  "MemberList E c w =
     (case headRevision E c w of (r, w') \<Rightarrow>
        ((newHeader r, [\<lparr>mem_ID = memberID, mem_Name = ''elara'', mem_PeerURLs = [],
                         mem_ClientURLs = [''http://localhost:2379'']\<rparr>]), w'))"

record StatusResponse =
  st_Header :: ResponseHeader
  st_Version :: string
  st_DbSize :: int64
  st_Leader :: nat
  st_RaftIndex :: nat
  st_RaftTerm :: nat

definition etcdVersion :: string where "etcdVersion = ''3.5.0''"

definition Status :: "env \<Rightarrow> 'c ctx_scheme \<Rightarrow> 'z world_scheme \<Rightarrow> StatusResponse \<times> 'z world_scheme" where
  "Status E c w =
     (case headRevision E c w of (r, w') \<Rightarrow>
        (\<lparr>st_Header = newHeader r, st_Version = etcdVersion, st_DbSize = 0, st_Leader = memberID, st_RaftIndex = uint64 r,
          st_RaftTerm = raftTerm\<rparr>, w'))"

definition Alarm :: "env \<Rightarrow> 'c ctx_scheme \<Rightarrow> 'z world_scheme \<Rightarrow> ResponseHeader \<times> 'z world_scheme" where
  "Alarm E c w = (case headRevision E c w of (r, w') \<Rightarrow> (newHeader r, w'))"

end
