(* ===== verification/EtcdWatch.thy ===== *)
theory EtcdWatch
  imports EtcdKV
begin

text \<open>
  The Watch service of the etcd API, \<^verbatim>\<open>watch_server.go\<close> of \<^verbatim>\<open>src/internal/handler/etcdv3\<close>, and
  the part of \<^verbatim>\<open>src/internal/service/monitor/registry.go\<close> that it calls. The state of a stream is
  the services' state with the responses sent so far and the registry of connections; the
  watchers of a stream and its id counter are the locals of \<^verbatim>\<open>Watch\<close>. \<^verbatim>\<open>stream.Send\<close> is a parameter
  that says from the responses sent so far whether the next send fails.

  A watcher's goroutine works on its subscription's channel, which it names by the subscription's
  id; the realtime loop is a function of the events it receives from that channel.
\<close>

section \<open>Messages and state\<close>

datatype eventKind = PUT | DELETE

record Event =
  evt_Type :: eventKind
  evt_Kv :: KeyValue

record WatchResponse =
  wr_Header :: ResponseHeader
  wr_WatchId :: int64
  wr_Created :: bool
  wr_Canceled :: bool
  wr_Events :: "Event list"

record WatchCreateRequest =
  wq_Key :: bytes
  wq_RangeEnd :: bytes
  wq_StartRevision :: int64
  wq_PrevKv :: bool
  wq_ProgressNotify :: bool

datatype WatchRequest =
    CreateRequest WatchCreateRequest
  | CancelRequest int64
  | ProgressRequest
  | OtherRequest

record ActiveWatch =
  aw_WatchID :: int64
  aw_StartKey :: string
  aw_EndKey :: string
  aw_StartRevision :: int64
  aw_CreatedAt :: time
  aw_PrevKv :: bool
  aw_ProgressNotify :: bool

record clientEntry =
  ce_watches :: "(int64 \<times> ActiveWatch) list"
  ce_activeWatches :: int

record wworld = sworld +
  sent :: "WatchResponse list"
  registry :: "string \<rightharpoonup> clientEntry"

record watcher =
  wt_id :: int64
  wt_start :: bytes
  wt_end :: bytes
  wt_namespace :: string
  wt_pathPrefix :: string
  wt_scanAll :: bool
  wt_singleKey :: bool
  wt_exactPath :: string
  wt_prevKv :: bool
  wt_progress :: bool
  wt_subscription :: int
  wt_claims :: "Claims option"
  wt_tracked :: string

text \<open>
  The server as the stream sees it: whether a tracker is set, the connection id that the
  extractor, if there is one, takes from the stream's context, and the sends that fail.
\<close>

record WatchServer =
  ws_tracker :: bool
  ws_connID :: "string option"
  ws_sendErr :: "WatchResponse list \<Rightarrow> err option"

definition response :: "int64 \<Rightarrow> int64 \<Rightarrow> WatchResponse" where
  "response r watchId =
     \<lparr>wr_Header = newHeader r, wr_WatchId = watchId, wr_Created = False, wr_Canceled = False, wr_Events = []\<rparr>"

definition send :: "WatchServer \<Rightarrow> WatchResponse \<Rightarrow> (unit, 'z wworld_scheme) op" where
  "send S resp w =
     (case ws_sendErr S (sent w) of
        Some e \<Rightarrow> (Err e, w)
      | None \<Rightarrow> (Ok (), w\<lparr>sent := sent w @ [resp]\<rparr>))"

section \<open>Matching\<close>

fun commonPathPrefix :: "string \<Rightarrow> string \<Rightarrow> string" where
  "commonPathPrefix (a # as) (b # bs) = (if a \<noteq> b then [] else a # commonPathPrefix as bs)"
| "commonPathPrefix _ _ = []"

definition subscribeFilter ::
  "bool \<Rightarrow> bool \<Rightarrow> string \<Rightarrow> string \<Rightarrow> string \<Rightarrow> string \<Rightarrow> string \<times> string" where
  "subscribeFilter scanAll singleKey startNS startPath endNS endPath =
     (if scanAll then ([], [])
      else if singleKey then (startNS, startPath)
      else if startNS = endNS then (startNS, commonPathPrefix startPath endPath)
      else ([], []))"

definition matchesKey :: "watcher \<Rightarrow> string \<Rightarrow> string \<Rightarrow> bool" where
  "matchesKey w namespace path =
     (if \<not> namespaceAllowed (wt_claims w) namespace ActionRead then False
      else if wt_scanAll w then True
      else if wt_singleKey w then namespace = wt_namespace w \<and> path = wt_exactPath w
      else
        let encoded = JoinKey namespace path in
        if encoded < wt_start w then False
        else if wt_end w \<noteq> [] \<and> encoded \<ge> wt_end w then False
        else True)"

definition matchesEvent :: "watcher \<Rightarrow> WatchEvent \<Rightarrow> bool" where
  "matchesEvent w ev = matchesKey w (we_Namespace ev) (we_Path ev)"

definition matchesChangelog :: "watcher \<Rightarrow> ChangelogEntry \<Rightarrow> bool" where
  "matchesChangelog w e = matchesKey w (cl_Namespace e) (cl_Path e)"

section \<open>Events on the wire\<close>

definition emptyKV :: "bytes \<Rightarrow> KeyValue" where
  "emptyKV k = \<lparr>pb_Key = k, pb_Value = [], pb_CreateRevision = 0, pb_ModRevision = 0, pb_Version = 0\<rparr>"

definition eventToProto :: "WatchEvent \<Rightarrow> Event" where
  "eventToProto ev =
     (let kv = (emptyKV (JoinKey (we_Namespace ev) (we_Path ev)))\<lparr>pb_ModRevision := we_Revision ev\<rparr> in
      if we_Type ev = EventTypeDeleted then \<lparr>evt_Type = DELETE, evt_Kv = kv\<rparr>
      else \<lparr>evt_Type = PUT, evt_Kv =
        (case we_Config ev of
           None \<Rightarrow> kv
         | Some cfg \<Rightarrow> kv\<lparr>pb_Value := cfg_Content cfg, pb_CreateRevision := cfg_CreateRevision cfg,
                         pb_ModRevision := cfg_Revision cfg, pb_Version := cfg_Version cfg\<rparr>)\<rparr>)"

definition changelogToEvent :: "ChangelogEntry \<Rightarrow> bytes \<Rightarrow> Event" where
  "changelogToEvent e content =
     (let kv = (emptyKV (JoinKey (cl_Namespace e) (cl_Path e)))\<lparr>pb_ModRevision := cl_Revision e,
                  pb_Version := cl_Version e, pb_Value := content\<rparr> in
      if cl_Type e = EventTypeDeleted
      then \<lparr>evt_Type = DELETE, evt_Kv = kv\<lparr>pb_Value := [], pb_Version := 0\<rparr>\<rparr>
      else \<lparr>evt_Type = PUT, evt_Kv = kv\<rparr>)"

definition revisionOfEvent :: "WatchEvent \<Rightarrow> int64" where
  "revisionOfEvent ev =
     (if we_Revision ev > 0 then we_Revision ev
      else case we_Config ev of Some cfg \<Rightarrow> cfg_Revision cfg | None \<Rightarrow> 0)"

section \<open>Delivery\<close>

definition forwardEvent ::
  "WatchServer \<Rightarrow> watcher \<Rightarrow> WatchEvent \<Rightarrow> int64 \<Rightarrow> (int64, 'z wworld_scheme) op" where
  "forwardEvent S wt ev lastSent =
     (if \<not> matchesEvent wt ev then returnT lastSent
      else
        let r = revisionOfEvent ev in
        if r > 0 \<and> r \<le> lastSent then returnT lastSent
        else bindT (send S ((response r (wt_id wt))\<lparr>wr_Events := [eventToProto ev]\<rparr>)) (\<lambda>_.
             returnT (if r > lastSent then r else lastSent)))"

definition replayEntry ::
  "env \<Rightarrow> WatchServer \<Rightarrow> 'c ctx_scheme \<Rightarrow> watcher \<Rightarrow> ChangelogEntry \<Rightarrow> int64 \<Rightarrow> (int64, 'z wworld_scheme) op" where
  "replayEntry E S c wt e lastSent w =
     (if \<not> matchesChangelog wt e then (Ok lastSent, w)
      else
        let content = (if cl_Type e \<noteq> EventTypeDeleted
                       then (case fst (GetKVAtRevision E c (cl_Namespace e) (cl_Path e) (cl_Revision e) w) of
                               Inr (Some v) \<Rightarrow> v
                             | _ \<Rightarrow> [])
                       else [])
        in case send S ((response (cl_Revision e) (wt_id wt))\<lparr>wr_Events := [changelogToEvent e content]\<rparr>) w of
             (Inl err, w1) \<Rightarrow> (Err err, w1)
           | (Inr _, w1) \<Rightarrow> (Ok (if cl_Revision e > lastSent then cl_Revision e else lastSent), w1))"

fun replayEntries ::
  "env \<Rightarrow> WatchServer \<Rightarrow> 'c ctx_scheme \<Rightarrow> watcher \<Rightarrow> ChangelogEntry list \<Rightarrow> int64 \<Rightarrow> (int64, 'z wworld_scheme) op" where
  "replayEntries E S c wt [] lastSent = returnT lastSent"
| "replayEntries E S c wt (e # es) lastSent =
     bindT (replayEntry E S c wt e lastSent) (\<lambda>lastSent'. replayEntries E S c wt es lastSent')"

definition batchSize :: nat where "batchSize = 256"

text \<open>
  The replay loop, one batch per unit of fuel: None when the fuel does not suffice. The stream's
  context is alive throughout; its cancellation cuts the run short between two entries.
\<close>

fun replayLoop ::
  "nat \<Rightarrow> env \<Rightarrow> WatchServer \<Rightarrow> 'c ctx_scheme \<Rightarrow> watcher \<Rightarrow> int64 \<Rightarrow> int64
     \<Rightarrow> 'z wworld_scheme \<Rightarrow> ((err + int64) \<times> 'z wworld_scheme) option" where
  "replayLoop 0 E S c wt since lastSent w = None"
| "replayLoop (Suc n) E S c wt since lastSent w =
     (case ListChanges E c since (int batchSize) w of
        (Inl e, w1) \<Rightarrow> Some (Err e, w1)
      | (Inr entries, w1) \<Rightarrow>
          if entries = [] then Some (Ok lastSent, w1)
          else (case replayEntries E S c wt entries lastSent w1 of
                  (Inl e, w2) \<Rightarrow> Some (Err e, w2)
                | (Inr lastSent', w2) \<Rightarrow>
                    if length entries < batchSize then Some (Ok lastSent', w2)
                    else replayLoop n E S c wt (cl_Revision (last entries)) lastSent' w2))"

definition replayHistory ::
  "nat \<Rightarrow> env \<Rightarrow> WatchServer \<Rightarrow> 'c ctx_scheme \<Rightarrow> watcher \<Rightarrow> int64
     \<Rightarrow> 'z wworld_scheme \<Rightarrow> ((err + int64) \<times> 'z wworld_scheme) option" where
  "replayHistory fuel E S c wt startRevision = replayLoop fuel E S c wt (wrap64 (startRevision - 1)) 0"

text \<open>The realtime loop over the events the watcher receives, until a send fails.\<close>

fun realtime ::
  "WatchServer \<Rightarrow> watcher \<Rightarrow> int64 \<Rightarrow> WatchEvent list \<Rightarrow> 'z wworld_scheme \<Rightarrow> 'z wworld_scheme" where
  "realtime S wt lastSent [] w = w"
| "realtime S wt lastSent (ev # evs) w =
     (case forwardEvent S wt ev lastSent w of
        (Inl e, w1) \<Rightarrow> w1
      | (Inr lastSent', w1) \<Rightarrow> realtime S wt lastSent' evs w1)"

definition runWatcher ::
  "nat \<Rightarrow> env \<Rightarrow> WatchServer \<Rightarrow> 'c ctx_scheme \<Rightarrow> watcher \<Rightarrow> int64 \<Rightarrow> int64 \<Rightarrow> WatchEvent list
     \<Rightarrow> 'z wworld_scheme \<Rightarrow> 'z wworld_scheme option" where
  "runWatcher fuel E S c wt startRevision currentRev events w =
     (if startRevision > 0 \<and> startRevision \<le> currentRev then
        (case replayHistory fuel E S c wt startRevision w of
           None \<Rightarrow> None
         | Some (Inl e, w1) \<Rightarrow> Some w1
         | Some (Inr lastRev, w1) \<Rightarrow> Some (realtime S wt lastRev events w1))
      else Some (realtime S wt 0 events w))"

section \<open>The registry of connections\<close>

definition RegisterWatch ::
  "string \<Rightarrow> ActiveWatch \<Rightarrow> (string \<rightharpoonup> 'z clientEntry_scheme) \<Rightarrow> (string \<rightharpoonup> 'z clientEntry_scheme)" where
  "RegisterWatch connID aw reg =
     (case reg connID of
        None \<Rightarrow> reg
      | Some e \<Rightarrow>
          (let ws = AList.update (aw_WatchID aw) aw (ce_watches e)
           in reg(connID \<mapsto> e\<lparr>ce_watches := ws, ce_activeWatches := int (length ws)\<rparr>)))"

definition UnregisterWatch ::
  "string \<Rightarrow> int64 \<Rightarrow> (string \<rightharpoonup> 'z clientEntry_scheme) \<Rightarrow> (string \<rightharpoonup> 'z clientEntry_scheme)" where
  "UnregisterWatch connID watchID reg =
     (case reg connID of
        None \<Rightarrow> reg
      | Some e \<Rightarrow>
          (let ws = AList.delete watchID (ce_watches e)
           in reg(connID \<mapsto> e\<lparr>ce_watches := ws, ce_activeWatches := int (length ws)\<rparr>)))"

section \<open>Watchers\<close>

definition trackWatcher ::
  "env \<Rightarrow> WatchServer \<Rightarrow> watcher \<Rightarrow> WatchCreateRequest \<Rightarrow> 'z wworld_scheme \<Rightarrow> watcher \<times> 'z wworld_scheme" where
  "trackWatcher E S wt req w =
     (if \<not> ws_tracker S then (wt, w)
      else case ws_connID S of
        None \<Rightarrow> (wt, w)
      | Some cid \<Rightarrow>
          if cid = [] then (wt, w)
          else (wt\<lparr>wt_tracked := cid\<rparr>,
                w\<lparr>ticks := Suc (ticks w),
                  registry := RegisterWatch cid
                    \<lparr>aw_WatchID = wt_id wt, aw_StartKey = wq_Key req, aw_EndKey = wq_RangeEnd req,
                     aw_StartRevision = wq_StartRevision req, aw_CreatedAt = clock E (ticks w),
                     aw_PrevKv = wq_PrevKv req, aw_ProgressNotify = wq_ProgressNotify req\<rparr> (registry w)\<rparr>))"

definition createWatcher ::
  "env \<Rightarrow> WatchServer \<Rightarrow> 'c hctx_scheme \<Rightarrow> WatchCreateRequest \<Rightarrow> int64 \<Rightarrow> (watcher, 'z wworld_scheme) hop" where
  "createWatcher E S c req wid w =
     (case SplitRange (wq_Key req) (wq_RangeEnd req) of
        None \<Rightarrow> (Inl (InvalidWatchKey (wq_Key req)), w)
      | Some (startNS, startPath, endNS, endPath) \<Rightarrow>
          (let scanAll = (endNS = scanAllEnd); singleKey = (endNS = [] \<and> endPath = []) in
           case checkWatchAccess (ctx_claims c) scanAll startNS endNS of
             Inl e \<Rightarrow> (Inl e, w)
           | Inr _ \<Rightarrow>
               (case subscribeFilter scanAll singleKey startNS startPath endNS endPath of
                  (subNamespace, subPrefix) \<Rightarrow>
                    (case CurrentRevisionValue E c w of
                       (Inl e, w1) \<Rightarrow> (Inl (StatusInternal ''get revision'' e), w1)
                     | (Inr currentRev, w1) \<Rightarrow>
                         (case send S ((response currentRev wid)\<lparr>wr_Created := True\<rparr>) w1 of
                            (Inl e, w2) \<Rightarrow> (Inl (StatusPlain e), w2)
                          | (Inr _, w2) \<Rightarrow>
                              (case Subscribe subPrefix subNamespace (hub w2) of
                                 (sid, p) \<Rightarrow>
                                   (let wt = \<lparr>wt_id = wid, wt_start = wq_Key req, wt_end = wq_RangeEnd req,
                                              wt_namespace = (if singleKey then startNS else subNamespace),
                                              wt_pathPrefix = subPrefix, wt_scanAll = scanAll,
                                              wt_singleKey = singleKey,
                                              wt_exactPath = (if singleKey then startPath else []),
                                              wt_prevKv = wq_PrevKv req, wt_progress = wq_ProgressNotify req,
                                              wt_subscription = sid, wt_claims = ctx_claims c, wt_tracked = []\<rparr>
                                    in case trackWatcher E S wt req (w2\<lparr>hub := p\<rparr>) of
                                         (wt', w3) \<Rightarrow> (Inr wt', w3))))))))"

definition releaseWatcher :: "WatchServer \<Rightarrow> watcher \<Rightarrow> 'z wworld_scheme \<Rightarrow> 'z wworld_scheme" where
  "releaseWatcher S wt w =
     (let w1 = w\<lparr>hub := cleanup (wt_subscription wt) (hub w)\<rparr> in
      if wt_tracked wt \<noteq> [] \<and> ws_tracker S
      then w1\<lparr>registry := UnregisterWatch (wt_tracked wt) (wt_id wt) (registry w1)\<rparr>
      else w1)"

definition releaseWatchers :: "WatchServer \<Rightarrow> watcher list \<Rightarrow> 'z wworld_scheme \<Rightarrow> 'z wworld_scheme" where
  "releaseWatchers S ws w = fold (releaseWatcher S) ws w"

section \<open>The stream\<close>

record watchStream =
  str_watchers :: "(int64 \<times> watcher) list"
  str_nextID :: int64

text \<open>The revision read whose error the handler drops.\<close>

definition headerRevision :: "env \<Rightarrow> 'c ctx_scheme \<Rightarrow> 'z world_scheme \<Rightarrow> int64" where
  "headerRevision E c w = (case fst (CurrentRevisionValue E c w) of Inl _ \<Rightarrow> 0 | Inr r \<Rightarrow> r)"

definition handleWatchRequest ::
  "env \<Rightarrow> WatchServer \<Rightarrow> 'c hctx_scheme \<Rightarrow> WatchRequest \<Rightarrow> watchStream
     \<Rightarrow> (watchStream, 'z wworld_scheme) hop" where
  "handleWatchRequest E S c req st w =
     (case req of
        CreateRequest r \<Rightarrow>
          (let wid = wrap64 (str_nextID st + 1) in
           case createWatcher E S c r wid w of
             (Inl e, w1) \<Rightarrow> (Inl e, w1)
           | (Inr wt, w1) \<Rightarrow>
               (Inr \<lparr>str_watchers = AList.update (wt_id wt) wt (str_watchers st), str_nextID = wid\<rparr>, w1))
      | CancelRequest wid \<Rightarrow>
          (let w1 = (case map_of (str_watchers st) wid of Some wt \<Rightarrow> releaseWatcher S wt w | None \<Rightarrow> w);
               st1 = st\<lparr>str_watchers := AList.delete wid (str_watchers st)\<rparr>
           in case send S ((response (headerRevision E c w1) wid)\<lparr>wr_Canceled := True\<rparr>) w1 of
                (Inl e, w2) \<Rightarrow> (Inl (StatusPlain e), w2)
              | (Inr _, w2) \<Rightarrow> (Inr st1, w2))
      | ProgressRequest \<Rightarrow>
          (case send S (response (headerRevision E c w) (-1)) w of
             (Inl e, w1) \<Rightarrow> (Inl (StatusPlain e), w1)
           | (Inr _, w1) \<Rightarrow> (Inr st, w1))
      | OtherRequest \<Rightarrow> (Inr st, w))"

text \<open>
  The request loop over the requests the client sends before it closes the stream, and the
  teardown that runs however the loop ends. On an error the watchers are those of the stream as
  the failing request left it: the cancelled watcher is gone from the map.
\<close>

fun watchLoop ::
  "env \<Rightarrow> WatchServer \<Rightarrow> 'c hctx_scheme \<Rightarrow> WatchRequest list \<Rightarrow> watchStream \<Rightarrow> 'z wworld_scheme
     \<Rightarrow> (status + unit) \<times> watchStream \<times> 'z wworld_scheme" where
  "watchLoop E S c [] st w = (Inr (), st, w)"
| "watchLoop E S c (req # reqs) st w =
     (case handleWatchRequest E S c req st w of
        (Inr st', w') \<Rightarrow> watchLoop E S c reqs st' w'
      | (Inl e, w') \<Rightarrow>
          (Inl e, (case req of CancelRequest wid \<Rightarrow> st\<lparr>str_watchers := AList.delete wid (str_watchers st)\<rparr>
                   | _ \<Rightarrow> st), w'))"

definition Watch ::
  "env \<Rightarrow> WatchServer \<Rightarrow> 'c hctx_scheme \<Rightarrow> WatchRequest list \<Rightarrow> (unit, 'z wworld_scheme) hop" where
  "Watch E S c reqs w =
     (case watchLoop E S c reqs \<lparr>str_watchers = [], str_nextID = 0\<rparr> w of
        (r, st, w1) \<Rightarrow> (r, releaseWatchers S (map snd (str_watchers st)) w1))"

end
