(* ===== verification/ConfigCrud.thy ===== *)
theory ConfigCrud
  imports ConfigService
begin

text \<open>
  The structured side of the config use case: \<^verbatim>\<open>service_create.go\<close>, \<^verbatim>\<open>service_update.go\<close> (with
  lock and unlock), \<^verbatim>\<open>service_delete.go\<close>, \<^verbatim>\<open>service_get.go\<close>, \<^verbatim>\<open>service_copy.go\<close>,
  \<^verbatim>\<open>service_history.go\<close>, \<^verbatim>\<open>service_validate.go\<close> and \<^verbatim>\<open>service_watch.go\<close>. These notify their watchers
  as soon as their own transaction has returned.
\<close>

text \<open>
  \<^verbatim>\<open>errors.Is(err, domain.ErrNotFound)\<close> on an error of the namespace provider. The storage
  sentinel is not the domain's.
\<close>

definition isErrNotFound :: "err \<Rightarrow> bool" where
  "isErrNotFound e = (case e of ErrNotFound _ _ \<Rightarrow> True | _ \<Rightarrow> False)"

definition namespaceMissing :: "string \<Rightarrow> string \<Rightarrow> err" where
  "namespaceMissing field name = ErrValidation field (''namespace '' @ quoted name @ '' does not exist'')"

definition checkNamespace :: "string \<Rightarrow> string \<Rightarrow> (Namespace, 'z world_scheme) op" where
  "checkNamespace field name =
     mapErrT (\<lambda>e. if isErrNotFound e then namespaceMissing field name else e) (readT (Namespace_Get name))"

definition Service_Create ::
  "env \<Rightarrow> ext \<Rightarrow> 'c ctx_scheme \<Rightarrow> Config \<Rightarrow> (Config, 'z sworld_scheme) op" where
  "Service_Create E X c cfg =
     bindT (whenErr (ValidatePath (cfg_Path cfg))) (\<lambda>_.
     let cfg = SetDefaults cfg in
     bindT (checkNamespace ''namespace'' (cfg_Namespace cfg)) (\<lambda>_.
     let cfg = (if cfg_Format cfg = [] then cfg\<lparr>cfg_Format := DetectFormatFromPath (cfg_Path cfg)\<rparr> else cfg) in
     bindT (whenErr (Content_Validate X (cfg_Content cfg) (cfg_Format cfg))) (\<lambda>_.
     bindT (readT (\<lambda>_. Content_Normalize X (cfg_Content cfg) (cfg_Format cfg))) (\<lambda>normalized.
     let cfg = (GenerateHash (sha256hex E) (cfg\<lparr>cfg_Content := normalized\<rparr>))\<lparr>cfg_Version := 1\<rparr> in
     bindT (Validator_Validate E X c (cfg_Namespace cfg) (cfg_Path cfg) (cfg_Content cfg) (cfg_Format cfg)) (\<lambda>_.
     bindT (WithTx E c (\<lambda>c.
        bindT (mapErrT (mapStorageErr (cfg_Path cfg)) (Create E c cfg)) (\<lambda>cfg.
        bindT (ignoreT (Namespace_UpdateTimestamp E c (cfg_Namespace cfg))) (\<lambda>_.
        returnT cfg)))) (\<lambda>cfg.
     bindT (notifyNow E (NotifyCreated cfg)) (\<lambda>_.
     returnT cfg)))))))"

definition Service_Update ::
  "env \<Rightarrow> ext \<Rightarrow> 'c ctx_scheme \<Rightarrow> Config \<Rightarrow> (Config, 'z sworld_scheme) op" where
  "Service_Update E X c cfg =
     bindT (whenErr (ValidatePath (cfg_Path cfg))) (\<lambda>_.
     bindT (mapErrT (mapStorageErr (cfg_Path cfg)) (Get E c (cfg_Path cfg) (cfg_Namespace cfg))) (\<lambda>existing.
     let cfg = cfg\<lparr>cfg_Format := cfg_Format existing\<rparr> in
     bindT (whenErr (Content_Validate X (cfg_Content cfg) (cfg_Format cfg))) (\<lambda>_.
     bindT (readT (\<lambda>_. Content_Normalize X (cfg_Content cfg) (cfg_Format cfg))) (\<lambda>normalized.
     let cfg = GenerateHash (sha256hex E) (cfg\<lparr>cfg_Content := normalized\<rparr>) in
     bindT (Validator_Validate E X c (cfg_Namespace cfg) (cfg_Path cfg) (cfg_Content cfg) (cfg_Format cfg)) (\<lambda>_.
     bindT (WithTx E c (\<lambda>c.
        bindT (mapErrT (mapStorageErr (cfg_Path cfg)) (Update E c cfg)) (\<lambda>cfg.
        bindT (ignoreT (Namespace_UpdateTimestamp E c (cfg_Namespace cfg))) (\<lambda>_.
        returnT cfg)))) (\<lambda>cfg.
     bindT (notifyNow E (NotifyUpdated cfg)) (\<lambda>_.
     returnT cfg)))))))"

definition Service_Lock ::
  "env \<Rightarrow> 'c ctx_scheme \<Rightarrow> string \<Rightarrow> string \<Rightarrow> (unit, 'z sworld_scheme) op" where
  "Service_Lock E c namespace path =
     bindT (WithTx E c (\<lambda>c.
        bindT (mapErrT (mapStorageErr path) (LockConfig E c namespace path)) (\<lambda>_.
        mapErrT (mapStorageErr path) (Get E c path namespace)))) (\<lambda>cfg.
     notifyNow E (NotifyConfigLocked cfg))"

definition Service_Unlock ::
  "env \<Rightarrow> 'c ctx_scheme \<Rightarrow> string \<Rightarrow> string \<Rightarrow> (unit, 'z sworld_scheme) op" where
  "Service_Unlock E c namespace path =
     bindT (WithTx E c (\<lambda>c.
        bindT (mapErrT (mapStorageErr path) (UnlockConfig E c namespace path)) (\<lambda>_.
        mapErrT (mapStorageErr path) (Get E c path namespace)))) (\<lambda>cfg.
     notifyNow E (NotifyConfigUnlocked cfg))"

definition Service_Delete ::
  "env \<Rightarrow> 'c ctx_scheme \<Rightarrow> string \<Rightarrow> string \<Rightarrow> (unit, 'z sworld_scheme) op" where
  "Service_Delete E c namespace path =
     bindT (mapErrT (mapStorageErr path) (Delete E c path namespace)) (\<lambda>revision.
     notifyNow E (NotifyDeleted path namespace revision))"

definition Service_Get ::
  "env \<Rightarrow> 'c ctx_scheme \<Rightarrow> string \<Rightarrow> string \<Rightarrow> (Config, 'z world_scheme) op" where
  "Service_Get E c namespace path =
     (if namespace = [] then failT (ErrValidation ''namespace'' ''namespace is required'')
      else mapErrT (mapStorageErr path) (Get E c path namespace))"

definition Service_GetAtRevision ::
  "env \<Rightarrow> 'c ctx_scheme \<Rightarrow> string \<Rightarrow> string \<Rightarrow> int64 \<Rightarrow> (HistoryEntry, 'z world_scheme) op" where
  "Service_GetAtRevision E c namespace path revision =
     (if namespace = [] then failT (ErrValidation ''namespace'' ''namespace is required'')
      else mapErrT (mapStorageErr path) (GetAtRevision E c path namespace revision))"

definition defaultHistoryLimit :: int where "defaultHistoryLimit = 20"

definition Service_History ::
  "env \<Rightarrow> 'c ctx_scheme \<Rightarrow> string \<Rightarrow> string \<Rightarrow> int \<Rightarrow> (HistoryEntry list, 'z world_scheme) op" where
  "Service_History E c namespace path limit0 =
     (if namespace = [] then failT (ErrValidation ''namespace'' ''namespace is required'')
      else GetConfigHistory E c path namespace (if limit0 \<le> 0 then defaultHistoryLimit else limit0))"

record CopyInput =
  ci_SourcePath :: string
  ci_SourceNamespace :: string
  ci_DestPath :: string
  ci_DestNamespace :: string

definition copyOf :: "env \<Rightarrow> CopyInput \<Rightarrow> Config \<Rightarrow> Config" where
  "copyOf E inp source =
     (GenerateHash (sha256hex E)
        \<lparr>cfg_Path = ci_DestPath inp, cfg_Content = cfg_Content source, cfg_ContentHash = [],
         cfg_Format = cfg_Format source, cfg_Version = 0, cfg_Revision = 0, cfg_CreateRevision = 0,
         cfg_Namespace = ci_DestNamespace inp, cfg_Metadata = nonNilMetadata (cfg_Metadata source), cfg_Locked = False,
         cfg_NamespaceLocked = False, cfg_CreatedAt = 0, cfg_UpdatedAt = 0\<rparr>)\<lparr>cfg_Version := 1\<rparr>"

definition Service_Copy ::
  "env \<Rightarrow> 'c ctx_scheme \<Rightarrow> CopyInput \<Rightarrow> (Config, 'z sworld_scheme) op" where
  "Service_Copy E c inp =
     bindT (whenErr (ValidatePath (ci_DestPath inp))) (\<lambda>_.
     if ci_SourceNamespace inp = [] then failT (ErrValidation ''source_namespace'' ''namespace is required'')
     else if ci_DestNamespace inp = [] then failT (ErrValidation ''destination_namespace'' ''namespace is required'')
     else
       bindT (mapErrT (mapStorageErr (ci_SourcePath inp)) (Get E c (ci_SourcePath inp) (ci_SourceNamespace inp))) (\<lambda>source.
       bindT (checkNamespace ''destination_namespace'' (ci_DestNamespace inp)) (\<lambda>dstNs.
       bindT (whenErr (if ns_Locked dstNs then Err (ErrLocked (ci_DestNamespace inp)) else Ok ())) (\<lambda>_.
       bindT (mapErrT (mapStorageErr (ci_DestPath inp)) (Create E c (copyOf E inp source))) (\<lambda>dest.
       bindT (ignoreT (Namespace_UpdateTimestamp E c (ci_DestNamespace inp))) (\<lambda>_.
       bindT (notifyNow E (NotifyCreated dest)) (\<lambda>_.
       returnT dest)))))))"

text \<open>The validation answer: the content's result, and the schema's violations when it has any.\<close>

definition Service_Validate ::
  "env \<Rightarrow> ext \<Rightarrow> 'c ctx_scheme \<Rightarrow> string \<Rightarrow> Format \<Rightarrow> string \<Rightarrow> string
     \<Rightarrow> (ValidationResult \<times> SchemaViolation list, 'z sworld_scheme) op" where
  "Service_Validate E X c content format namespace path w =
     (let result = ValidateAndNormalize X content format in
      if \<not> vr_Valid result \<or> namespace = [] \<or> path = [] then (Ok (result, []), w)
      else
        (case Validator_Validate E X c namespace path (vr_NormalizedContent result) (vr_DetectedFormat result) w of
           (Inr _, w') \<Rightarrow> (Ok (result, []), w')
         | (Inl e, w') \<Rightarrow>
             (case e of
                ErrSchemaValidation violations \<Rightarrow> (Ok (result\<lparr>vr_Valid := False\<rparr>, violations), w')
              | _ \<Rightarrow> (Err e, w'))))"

definition Service_Watch :: "string \<Rightarrow> string \<Rightarrow> (int, 'z sworld_scheme) op" where
  "Service_Watch namespace pathPrefix w =
     (case Subscribe (if pathPrefix = [] then ''/'' else pathPrefix) namespace (hub w) of
        (sid, p) \<Rightarrow> (Ok sid, w\<lparr>hub := p\<rparr>))"

end
