(* ===== verification/ServiceFrame.thy ===== *)
theory ServiceFrame
  imports ConfigCrud
begin

text \<open>
  What storage operations leave alone. The storage layer is written over the buckets and the
  clock; anything else a caller adds to the state is invisible to it. The locale states this
  interface for an observation of the state, shows that every storage operation and every
  transaction around such operations keeps the observation, and is interpreted for each field that
  the services add: the publisher, the collector and the validator's caches.
\<close>

definition keeps :: "('w \<Rightarrow> 'x) \<Rightarrow> ('a, 'w) op \<Rightarrow> bool" where
  "keeps obs m \<longleftrightarrow> (\<forall>w. obs (snd (m w)) = obs w)"

lemma keepsD: "keeps obs m \<Longrightarrow> m w = (r, w') \<Longrightarrow> obs w' = obs w"
  by (metis keeps_def snd_conv)

lemma keeps_bind: "keeps obs m \<Longrightarrow> (\<And>x. keeps obs (f x)) \<Longrightarrow> keeps obs (bindT m f)"
  by (auto simp: keeps_def bindT_def split: prod.splits sum.splits) (metis snd_conv)+

lemma keeps_basic:
  "keeps obs (returnT x)" "keeps obs (failT e)" "keeps obs (readT f)" "keeps obs (whenErr r)"
  by (simp_all add: keeps_def returnT_def failT_def readT_def whenErr_def)

lemma keeps_ignore: "keeps obs m \<Longrightarrow> keeps obs (ignoreT m)"
  by (simp add: keeps_def ignoreT_def)

lemma mapErrT_Inr: "mapErrT f m w = (Inr x, w') \<longleftrightarrow> m w = (Inr x, w')"
  by (auto simp: mapErrT_def split: prod.splits sum.splits)

lemma keeps_mapErr: "keeps obs m \<Longrightarrow> keeps obs (mapErrT f m)"
  by (auto simp: keeps_def mapErrT_def split: prod.splits sum.splits) (metis snd_conv)+

lemma keeps_if: "(b \<Longrightarrow> keeps obs m) \<Longrightarrow> (\<not> b \<Longrightarrow> keeps obs n) \<Longrightarrow> keeps obs (if b then m else n)"
  by simp

lemmas keeps_intros = keeps_bind keeps_basic keeps_ignore keeps_mapErr keeps_if

locale frame =
  fixes obs :: "'z world_scheme \<Rightarrow> 'x"
  assumes obs_buckets: "obs (w\<lparr>buckets := d\<rparr>) = obs w"
    and obs_ticks: "obs (w\<lparr>ticks := t\<rparr>) = obs w"
begin

lemma keeps_timeNow: "keeps obs (timeNow E)"
  by (simp add: keeps_def timeNow_def obs_ticks)

lemma keeps_bucketWrite: "keeps obs (bucketWrite E q n er f)"
  by (auto simp: keeps_def bucketWrite_def setBucket_def obs_buckets
      split: querier.splits option.splits if_splits)

lemma keeps_writes:
  "keeps obs (bucket_Put E q n k v)" "keeps obs (bucket_Delete E q n k)"
  "keeps obs (boltPut E cdc q n k x)" "keeps obs (boltDelete E q n k)"
  by (simp_all add: bucket_Put_def bucket_Delete_def boltPut_def boltDelete_def keeps_bucketWrite)

lemma keeps_counters: "keeps obs (nextRevision E q)" "keeps obs (nextLockSeq E q)"
proof -
  have "keeps obs (bindT (bucket_Put E q bucketSys k v) (\<lambda>_. returnT x))" for k v and x :: int64
    by (intro keeps_bind keeps_writes keeps_basic)
  then have "obs (snd (bindT (bucket_Put E q bucketSys k v) (\<lambda>_. returnT x) w)) = obs w" for k v w and x :: int64
    by (simp add: keeps_def)
  then show "keeps obs (nextRevision E q)" "keeps obs (nextLockSeq E q)"
    by (simp_all add: keeps_def nextRevision_def nextLockSeq_def Let_def)
qed

lemmas keeps_storage = keeps_timeNow keeps_writes keeps_counters

lemma keeps_writers:
  "keeps obs (writeHistory E q ns p r v)" "keeps obs (writeChangelog E q r et p ns ver)"
  "keeps obs (writeConfigEntry E q k cfg r et)" "keeps obs (writeLockHistory E q ns p et)"
  unfolding writeHistory_def writeChangelog_def writeConfigEntry_def writeLockHistory_def
  by (intro keeps_intros keeps_storage)+

lemma keeps_WithTx_ctx:
  assumes "keeps obs (callback c)" "\<And>wr. keeps obs (callback (c\<lparr>ctx_tx := Some wr\<rparr>))"
  shows "keeps obs (WithTx E c callback)" "keeps obs (WithReadTx E c callback)"
proof -
  have "obs (snd (runTx E c wr callback w)) = obs w" for wr w
    using assms(2) [of wr]
    by (auto simp: keeps_def runTx_def obs_buckets split: prod.splits sum.splits option.splits) (metis snd_conv)+
  then show "keeps obs (WithTx E c callback)" "keeps obs (WithReadTx E c callback)"
    using assms(1) by (auto simp: keeps_def WithTx_def WithReadTx_def split: option.splits)
qed

lemma keeps_WithTx:
  assumes "\<And>c. keeps obs (callback c)"
  shows "keeps obs (WithTx E c callback)" "keeps obs (WithReadTx E c callback)"
  using assms by (simp_all add: keeps_WithTx_ctx)

lemma keeps_repository:
  "keeps obs (createConfigTx E q cfg)" "keeps obs (updateConfigTx E q cfg)"
  "keeps obs (deleteConfigTx E q p ns)" "keeps obs (toggleConfigLockTx E q ns p locked)"
  unfolding createConfigTx_def updateConfigTx_def deleteConfigTx_def toggleConfigLockTx_def Let_def
  by (intro keeps_intros keeps_storage keeps_writers)+

lemma keeps_putKeyTx: "keeps obs (putKeyTx E q ns p v)"
proof -
  have "keeps obs (buildPutMeta E p v r ex)" for r ex
    unfolding buildPutMeta_def Let_def
    by (intro keeps_intros keeps_storage) (auto split: option.split prod.split intro: keeps_basic)
  then show ?thesis
    unfolding putKeyTx_def Let_def
    by (intro keeps_intros keeps_storage keeps_writers) (auto split: prod.split
        intro!: keeps_intros keeps_storage keeps_writers)
qed

lemma keeps_deleteTargetsLoop: "keeps obs (deleteTargetsLoop E q r ts)"
  by (induction ts) (auto intro!: keeps_intros keeps_storage keeps_writers)

lemma keeps_deleteRangeKeysTx: "keeps obs (deleteRangeKeysTx E q rp ns prev)"
  unfolding deleteRangeKeysTx_def by (intro keeps_intros keeps_storage keeps_deleteTargetsLoop)

lemma keeps_operations:
  "keeps obs (Create E c cfg)" "keeps obs (Update E c cfg)" "keeps obs (Delete E c p ns)"
  "keeps obs (LockConfig E c ns p)" "keeps obs (UnlockConfig E c ns p)" "keeps obs (PutKey E c ns p v)"
  "keeps obs (DeleteRangeKeys E c ns p eNS eP prev)" "keeps obs (Get E c p ns)"
  "keeps obs (RangeQuery E c ns p eNS eP limit rv ko)" "keeps obs (CurrentRevision E c)"
  "keeps obs (Schema_List E c ns)"
  unfolding Create_def Update_def Delete_def LockConfig_def UnlockConfig_def toggleConfigLock_def
    PutKey_def DeleteRangeKeys_def Get_def RangeQuery_def CurrentRevision_def Schema_List_def Let_def
  by (intro keeps_WithTx keeps_repository keeps_putKeyTx keeps_deleteRangeKeysTx keeps_basic)+

lemma keeps_UpdateTimestamp: "keeps obs (Namespace_UpdateTimestamp E c ns)"
  unfolding Namespace_UpdateTimestamp_def by (intro keeps_WithTx keeps_intros keeps_storage)

lemma keeps_service_reads:
  "keeps obs (RangeKVs E c ns p eNS eP opts)" "keeps obs (Service_RangeQuery E c ns p eNS eP opts)"
  "keeps obs (CurrentRevisionValue E c)" "keeps obs (evalCompare E c cmp)"
  "keeps obs (evalCompares E c cmps)" "keeps obs (runRangeOp E c op)"
  "keeps obs (finishTxn E c ok rs r)" "keeps obs (kvPutConfig E ns p v f prev r)"
proof -
  show kvs: "keeps obs (RangeKVs E c ns p eNS eP opts)" for ns p eNS eP opts
    unfolding RangeKVs_def by (rule keeps_operations)
  show rev: "keeps obs (CurrentRevisionValue E c)"
    unfolding CurrentRevisionValue_def by (rule keeps_operations)
  show rq: "keeps obs (Service_RangeQuery E c ns p eNS eP opts)" for ns p eNS eP opts
    unfolding Service_RangeQuery_def
    by (intro keeps_bind kvs) (auto split: prod.split intro!: keeps_intros rev)
  show cmp: "keeps obs (evalCompare E c cmp)" for cmp
    unfolding evalCompare_def by (intro keeps_bind kvs) (auto split: prod.split intro: keeps_basic)
  show "keeps obs (evalCompares E c cmps)"
    by (induction cmps) (auto intro!: keeps_intros cmp)
  show "keeps obs (runRangeOp E c op)"
    unfolding runRangeOp_def by (intro keeps_bind rq) (auto split: prod.split intro: keeps_basic)
  show "keeps obs (finishTxn E c ok rs r)"
    unfolding finishTxn_def Let_def by (intro keeps_intros rev)
  show "keeps obs (kvPutConfig E ns p v f prev r)"
    unfolding kvPutConfig_def Let_def
    by (intro keeps_bind keeps_timeNow) (auto split: option.split intro: keeps_basic)
qed

end

interpretation hub_frame: frame hub
  by unfold_locales simp_all

interpretation pending_frame: frame pending
  by unfold_locales simp_all

interpretation vcache_frame: frame vcache
  by unfold_locales simp_all

end
