(* ===== verification/RepoInv.thy ===== *)
theory RepoInv
  imports ConfigKV
begin

text \<open>
  The well-formedness invariant of the config database and its preservation. Every successful
  write of a config (create, update, etcd put) has the same effect on the database, \<open>entryWritten\<close>,
  and every deletion the effect \<open>entriesDeleted\<close>; the inversion lemmas show that the operations
  of the repository end in one of these effects, whatever the engine does, and the invariant
  is proved once for each effect.
\<close>

section \<open>The database as lookups\<close>

definition bkt :: "database \<Rightarrow> string \<Rightarrow> bucket" where
  "bkt d n = (case d n of None \<Rightarrow> [] | Some b \<Rightarrow> b)"

definition dget :: "database \<Rightarrow> string \<Rightarrow> bytes \<Rightarrow> val option" where
  "dget d n k = map_of (bkt d n) k"

definition dbput :: "string \<Rightarrow> bytes \<Rightarrow> val \<Rightarrow> database \<Rightarrow> database" where
  "dbput n k v d = d(n \<mapsto> al_put k v (bkt d n))"

definition dbdel :: "string \<Rightarrow> bytes \<Rightarrow> database \<Rightarrow> database" where
  "dbdel n k d = d(n \<mapsto> al_del k (bkt d n))"

lemma bkt_dbput [simp]: "bkt (dbput n k v d) n' = (if n' = n then al_put k v (bkt d n) else bkt d n')"
  by (simp add: bkt_def dbput_def)

lemma bkt_dbdel [simp]: "bkt (dbdel n k d) n' = (if n' = n then al_del k (bkt d n) else bkt d n')"
  by (simp add: bkt_def dbdel_def)

lemma dget_dbput [simp]:
  "dget (dbput n k v d) n' k' = (if n' = n \<and> k' = k then Some v else dget d n' k')"
  by (simp add: dget_def map_of_al_put)

lemma dget_dbdel [simp]:
  "dget (dbdel n k d) n' k' = (if n' = n \<and> k' = k then None else dget d n' k')"
  by (simp add: dget_def map_of_al_del)

lemma bucket_Get_dget: "bucket_Get n k w = dget (buckets w) n k"
  by (simp add: bucket_Get_def dget_def bkt_def split: option.splits)

lemma bucket_Cursor_bkt [simp]: "bucket_Cursor (TxQuerier wr) n w = bkt (buckets w) n"
  by (simp add: bucket_Cursor_def bkt_def)

lemma setBucket_dbput:
  "buckets w n = Some b \<Longrightarrow> setBucket n (al_put k v b) w = w\<lparr>buckets := dbput n k v (buckets w)\<rparr>"
  by (simp add: setBucket_def dbput_def bkt_def)

lemma setBucket_dbdel:
  "buckets w n = Some b \<Longrightarrow> setBucket n (al_del k b) w = w\<lparr>buckets := dbdel n k (buckets w)\<rparr>"
  by (simp add: setBucket_def dbdel_def bkt_def)

lemma Put_Inr: "bucket_Put E q n k v w = (Inr u, w') \<Longrightarrow> w' = w\<lparr>buckets := dbput n k v (buckets w)\<rparr>"
  by (auto dest!: bucket_Put_Inr simp: setBucket_dbput)

lemma Delete_Inr: "bucket_Delete E q n k w = (Inr u, w') \<Longrightarrow> w' = w\<lparr>buckets := dbdel n k (buckets w)\<rparr>"
  by (auto dest!: bucket_Delete_Inr simp: setBucket_dbdel)

section \<open>The invariant\<close>

definition configBuckets :: "string set" where
  "configBuckets = {bucketContent, bucketMeta, bucketNamespaces, bucketChangelog, bucketHistory,
     bucketSys, bucketLockHistory, bucketLockChangelog}"

definition present :: "database \<Rightarrow> bool" where
  "present d \<longleftrightarrow> (\<forall>n \<in> configBuckets. d n \<noteq> None \<and> ascending (bkt d n))"

definition revOf :: "database \<Rightarrow> int64" where
  "revOf d = parseRevision (rawBytes (dget d bucketSys sysRevisionKeyName))"

definition counter_ok :: "database \<Rightarrow> bool" where
  "counter_ok d \<longleftrightarrow> (\<exists>r. dget d bucketSys sysRevisionKeyName = Some (Raw (revisionBytes r)) \<and>
     0 \<le> r \<and> r < 2 ^ 63)"

text \<open>
  A stored meta row: it sits under the key of a namespace and path without separator bytes,
  its revisions lie between 1 and the counter, its version does not exceed its revision, and its
  content is both the current content and the newest history row of the config.
\<close>

definition meta_row_ok :: "database \<Rightarrow> bytes \<Rightarrow> val \<Rightarrow> bool" where
  "meta_row_ok d k v \<longleftrightarrow>
     (\<exists>ns p m c. nulFree ns \<and> nulFree p \<and> k = configKey ns p \<and> v = JConfigMeta m \<and>
        1 \<le> m_CreateRevision m \<and> m_CreateRevision m \<le> m_Revision m \<and> m_Revision m \<le> revOf d \<and>
        dget d bucketContent k = Some (Raw c) \<and>
        dget d bucketHistory (historyKey ns p (m_Revision m)) = Some (Raw c) \<and>
        (\<forall>r. m_Revision m < r \<and> r \<le> revOf d \<longrightarrow> dget d bucketHistory (historyKey ns p r) = None) \<and>
        1 \<le> m_Version m \<and> m_Version m \<le> m_Revision m)"

definition history_row_ok :: "database \<Rightarrow> bytes \<Rightarrow> val \<Rightarrow> bool" where
  "history_row_ok d k v \<longleftrightarrow>
     (\<exists>ns p r c. nulFree ns \<and> nulFree p \<and> k = historyKey ns p r \<and> 1 \<le> r \<and> r \<le> revOf d \<and> v = Raw c)"

definition changelog_row_ok :: "database \<Rightarrow> bytes \<Rightarrow> val \<Rightarrow> bool" where
  "changelog_row_ok d k v \<longleftrightarrow>
     (\<exists>r row. k = revisionBytes r \<and> 1 \<le> r \<and> r \<le> revOf d \<and> v = JChangelog row)"

definition rows_ok :: "(database \<Rightarrow> bytes \<Rightarrow> val \<Rightarrow> bool) \<Rightarrow> string \<Rightarrow> database \<Rightarrow> bool" where
  "rows_ok P n d \<longleftrightarrow> (\<forall>k v. dget d n k = Some v \<longrightarrow> P d k v)"

definition content_ok :: "database \<Rightarrow> bool" where
  "content_ok d \<longleftrightarrow> (\<forall>k. dget d bucketContent k \<noteq> None \<longleftrightarrow> dget d bucketMeta k \<noteq> None)"

definition changelog_complete :: "database \<Rightarrow> bool" where
  "changelog_complete d \<longleftrightarrow>
     (\<forall>r. 1 \<le> r \<and> r \<le> revOf d \<longrightarrow> dget d bucketChangelog (revisionBytes r) \<noteq> None)"

definition namespaces_ok :: "database \<Rightarrow> bool" where
  "namespaces_ok d \<longleftrightarrow> (\<forall>k v. dget d bucketNamespaces k = Some v \<longrightarrow> (\<exists>m. v = JNamespace m))"

definition repo_inv :: "database \<Rightarrow> bool" where
  "repo_inv d \<longleftrightarrow>
     present d \<and> counter_ok d \<and> rows_ok meta_row_ok bucketMeta d \<and> content_ok d \<and>
     rows_ok history_row_ok bucketHistory d \<and> rows_ok changelog_row_ok bucketChangelog d \<and>
     changelog_complete d \<and> namespaces_ok d"

lemma meta_row_okI:
  assumes "nulFree ns" "nulFree p" "1 \<le> m_CreateRevision m" "m_CreateRevision m \<le> m_Revision m"
    "m_Revision m \<le> revOf d" "dget d bucketContent (configKey ns p) = Some (Raw c)"
    "dget d bucketHistory (historyKey ns p (m_Revision m)) = Some (Raw c)"
    "\<And>r. m_Revision m < r \<Longrightarrow> r \<le> revOf d \<Longrightarrow> dget d bucketHistory (historyKey ns p r) = None"
    "1 \<le> m_Version m" "m_Version m \<le> m_Revision m"
  shows "meta_row_ok d (configKey ns p) (JConfigMeta m)"
  using assms unfolding meta_row_ok_def by blast

lemma meta_row_okE:
  assumes "meta_row_ok d k v"
  obtains ns p m c where "nulFree ns" "nulFree p" "k = configKey ns p" "v = JConfigMeta m"
    "1 \<le> m_CreateRevision m" "m_CreateRevision m \<le> m_Revision m" "m_Revision m \<le> revOf d"
    "dget d bucketContent (configKey ns p) = Some (Raw c)"
    "dget d bucketHistory (historyKey ns p (m_Revision m)) = Some (Raw c)"
    "\<And>r. m_Revision m < r \<Longrightarrow> r \<le> revOf d \<Longrightarrow> dget d bucketHistory (historyKey ns p r) = None"
    "1 \<le> m_Version m" "m_Version m \<le> m_Revision m"
  using assms unfolding meta_row_ok_def by blast

lemma history_row_okI:
  "nulFree ns \<Longrightarrow> nulFree p \<Longrightarrow> 1 \<le> r \<Longrightarrow> r \<le> revOf d \<Longrightarrow> history_row_ok d (historyKey ns p r) (Raw c)"
  unfolding history_row_ok_def by blast

lemma changelog_row_okI:
  "1 \<le> r \<Longrightarrow> r \<le> revOf d \<Longrightarrow> changelog_row_ok d (revisionBytes r) (JChangelog row)"
  unfolding changelog_row_ok_def by blast

lemma repo_invD:
  assumes "repo_inv d"
  shows "present d" "counter_ok d" "rows_ok meta_row_ok bucketMeta d" "content_ok d"
    "rows_ok history_row_ok bucketHistory d" "rows_ok changelog_row_ok bucketChangelog d"
    "changelog_complete d" "namespaces_ok d"
  using assms by (simp_all add: repo_inv_def)

lemma present_bucket: "present d \<Longrightarrow> n \<in> configBuckets \<Longrightarrow> d n = Some (bkt d n)"
  by (auto simp: present_def bkt_def split: option.splits)

lemma present_ascending: "present d \<Longrightarrow> n \<in> configBuckets \<Longrightarrow> ascending (bkt d n)"
  by (simp add: present_def)

lemma configBuckets_mem [simp]:
  "bucketContent \<in> configBuckets" "bucketMeta \<in> configBuckets" "bucketNamespaces \<in> configBuckets"
  "bucketChangelog \<in> configBuckets" "bucketHistory \<in> configBuckets" "bucketSys \<in> configBuckets"
  "bucketLockHistory \<in> configBuckets" "bucketLockChangelog \<in> configBuckets"
  by (simp_all add: configBuckets_def)

lemma present_dbput [simp]: "present d \<Longrightarrow> present (dbput n k v d)"
  by (auto simp: present_def ascending_al_put) (simp add: dbput_def split: if_splits)+

lemma present_dbdel [simp]: "present d \<Longrightarrow> present (dbdel n k d)"
  by (auto simp: present_def ascending_al_del) (simp add: dbdel_def split: if_splits)+

lemma counter_revOf:
  assumes "counter_ok d"
  shows "dget d bucketSys sysRevisionKeyName = Some (Raw (revisionBytes (revOf d)))"
    "0 \<le> revOf d" "revOf d < 2 ^ 63" "in_int64 (revOf d)"
  using assms by (auto simp: counter_ok_def revOf_def rawBytes_def parse_revisionBytes in_int64_def)

lemma dget_meta:
  "repo_inv d \<Longrightarrow> dget d bucketMeta k = Some v \<Longrightarrow> meta_row_ok d k v"
  by (simp add: repo_inv_def rows_ok_def)

lemma dget_history:
  "repo_inv d \<Longrightarrow> dget d bucketHistory k = Some v \<Longrightarrow> history_row_ok d k v"
  by (simp add: repo_inv_def rows_ok_def)

lemma dget_meta_JConfigMeta:
  "repo_inv d \<Longrightarrow> dget d bucketMeta k = Some v \<Longrightarrow> \<exists>m. v = JConfigMeta m"
  by (auto dest!: dget_meta simp: meta_row_ok_def)

section \<open>Effects\<close>

text \<open>The database after a config is written at a new revision.\<close>

definition entryWritten ::
  "string \<Rightarrow> string \<Rightarrow> ConfigMeta \<Rightarrow> bytes \<Rightarrow> ChangelogRow \<Rightarrow> database \<Rightarrow> database" where
  "entryWritten ns p m c row d =
     dbput bucketChangelog (revisionBytes (m_Revision m)) (JChangelog row)
      (dbput bucketHistory (historyKey ns p (m_Revision m)) (Raw c)
       (dbput bucketMeta (configKey ns p) (JConfigMeta m)
        (dbput bucketContent (configKey ns p) (Raw c)
         (dbput bucketSys sysRevisionKeyName (Raw (revisionBytes (m_Revision m))) d))))"

text \<open>The database after one key is removed and its changelog row is written at a revision.\<close>

definition entryDeleted :: "bytes \<Rightarrow> int64 \<Rightarrow> ChangelogRow \<Rightarrow> database \<Rightarrow> database" where
  "entryDeleted k r row d =
     dbput bucketChangelog (revisionBytes r) (JChangelog row)
      (dbdel bucketMeta k (dbdel bucketContent k d))"

definition counterAdvanced :: "int64 \<Rightarrow> database \<Rightarrow> database" where
  "counterAdvanced r d = dbput bucketSys sysRevisionKeyName (Raw (revisionBytes r)) d"

definition entriesDeleted :: "(bytes \<times> ChangelogRow) list \<Rightarrow> int64 \<Rightarrow> database \<Rightarrow> database" where
  "entriesDeleted ts r d = fold (\<lambda>(k, row). entryDeleted k r row) ts (counterAdvanced r d)"

definition room :: "database \<Rightarrow> bool" where
  "room d \<longleftrightarrow> revOf d + 1 < 2 ^ 63"

lemma revOf_written:
  "in_int64 (m_Revision m) \<Longrightarrow> revOf (entryWritten ns p m c row d) = m_Revision m"
  by (simp add: revOf_def entryWritten_def rawBytes_def parse_revisionBytes)

lemma dget_written:
  "dget (entryWritten ns p m c row d) n k =
     (if n = bucketChangelog \<and> k = revisionBytes (m_Revision m) then Some (JChangelog row)
      else if n = bucketHistory \<and> k = historyKey ns p (m_Revision m) then Some (Raw c)
      else if n = bucketMeta \<and> k = configKey ns p then Some (JConfigMeta m)
      else if n = bucketContent \<and> k = configKey ns p then Some (Raw c)
      else if n = bucketSys \<and> k = sysRevisionKeyName then Some (Raw (revisionBytes (m_Revision m)))
      else dget d n k)"
  by (auto simp: entryWritten_def)

lemma in_int64_le: "in_int64 b \<Longrightarrow> 0 \<le> a \<Longrightarrow> a \<le> b \<Longrightarrow> in_int64 a"
  by (simp add: in_int64_def)

text \<open>No history row exists beyond the counter.\<close>

lemma history_None_beyond:
  assumes "repo_inv d" "nulFree ns" "nulFree p" "revOf d < r" "in_int64 r"
  shows "dget d bucketHistory (historyKey ns p r) = None"
proof (rule ccontr)
  assume "dget d bucketHistory (historyKey ns p r) \<noteq> None"
  then obtain v where "dget d bucketHistory (historyKey ns p r) = Some v" by blast
  then have "history_row_ok d (historyKey ns p r) v" by (rule dget_history [OF assms(1)])
  then obtain ns' p' r' where *: "nulFree ns'" "nulFree p'" "historyKey ns p r = historyKey ns' p' r'"
      "1 \<le> r'" "r' \<le> revOf d"
    by (auto simp: history_row_ok_def)
  have "in_int64 r'"
    using counter_revOf(4) [OF repo_invD(2) [OF assms(1)]] * by (auto intro: in_int64_le)
  with * assms have "r = r'" by (simp add: historyKey_inj)
  with * assms(4) show False by simp
qed

section \<open>A write at the next revision keeps the invariant\<close>

lemma room_next:
  assumes "repo_inv d" "room d"
  shows "in_int64 (revOf d + 1)" "0 \<le> revOf d + 1"
  using counter_revOf(2) [OF repo_invD(2) [OF assms(1)]] assms(2)
  by (simp_all add: room_def in_int64_def)

lemma written_meta_rows:
  assumes inv: "repo_inv d" and room: "room d" and names: "nulFree ns" "nulFree p"
    and rev: "m_Revision m = revOf d + 1"
    and create: "1 \<le> m_CreateRevision m" "m_CreateRevision m \<le> revOf d + 1"
    and version: "1 \<le> m_Version m" "m_Version m \<le> revOf d + 1"
  shows "rows_ok meta_row_ok bucketMeta (entryWritten ns p m c row d)"
  unfolding rows_ok_def
proof (intro allI impI)
  fix k v
  let ?d = "entryWritten ns p m c row d"
  assume kv: "dget ?d bucketMeta k = Some v"
  note next_ok = room_next [OF inv room]
  have rev': "revOf ?d = revOf d + 1" using next_ok rev by (simp add: revOf_written)
  show "meta_row_ok ?d k v"
  proof (cases "k = configKey ns p")
    case True
    with kv have "v = JConfigMeta m" by (simp add: dget_written)
    moreover have "meta_row_ok ?d (configKey ns p) (JConfigMeta m)"
      using names create version rev rev' by (intro meta_row_okI) (simp_all add: dget_written)
    ultimately show ?thesis using True by simp
  next
    case False
    with kv have "dget d bucketMeta k = Some v" by (simp add: dget_written)
    then have "meta_row_ok d k v" by (rule dget_meta [OF inv])
    then obtain ns0 p0 m0 c0 where row: "nulFree ns0" "nulFree p0" "k = configKey ns0 p0"
        "v = JConfigMeta m0" "1 \<le> m_CreateRevision m0" "m_CreateRevision m0 \<le> m_Revision m0"
        "m_Revision m0 \<le> revOf d" "dget d bucketContent (configKey ns0 p0) = Some (Raw c0)"
        "dget d bucketHistory (historyKey ns0 p0 (m_Revision m0)) = Some (Raw c0)"
        "\<And>r. m_Revision m0 < r \<Longrightarrow> r \<le> revOf d \<Longrightarrow> dget d bucketHistory (historyKey ns0 p0 r) = None"
        "1 \<le> m_Version m0" "m_Version m0 \<le> m_Revision m0"
      by (rule meta_row_okE) blast
    have other: "historyKey ns0 p0 r \<noteq> historyKey ns p (revOf d + 1)"
      if "1 \<le> r" "r \<le> revOf d + 1" for r
    proof -
      have "in_int64 r" using that next_ok by (auto intro: in_int64_le)
      with False row(1-3) names next_ok show ?thesis by (auto simp: historyKey_inj)
    qed
    have none: "dget d bucketHistory (historyKey ns0 p0 r) = None"
      if "m_Revision m0 < r" "r \<le> revOf d + 1" for r
      using row(10) [of r] that history_None_beyond [OF inv row(1,2), of "revOf d + 1"] next_ok
      by (cases "r = revOf d + 1") simp_all
    have "meta_row_ok ?d (configKey ns0 p0) (JConfigMeta m0)"
    proof (rule meta_row_okI [where c = c0])
      show "dget ?d bucketContent (configKey ns0 p0) = Some (Raw c0)"
        using False row(3,8) by (simp add: dget_written)
      show "dget ?d bucketHistory (historyKey ns0 p0 (m_Revision m0)) = Some (Raw c0)"
        using other [of "m_Revision m0"] row rev by (simp add: dget_written)
      show "dget ?d bucketHistory (historyKey ns0 p0 r) = None"
        if "m_Revision m0 < r" "r \<le> revOf ?d" for r
        using that other [of r] none [of r] row rev rev' by (simp add: dget_written)
    qed (use row rev' in simp_all)
    with row(3,4) show ?thesis by simp
  qed
qed

lemma rows_ok_lift:
  assumes "rows_ok P n d"
    and "\<And>k v. P d k v \<Longrightarrow> P d' k v"
    and "\<And>k v. dget d' n k = Some v \<Longrightarrow> dget d n k = Some v \<or> P d' k v"
  shows "rows_ok P n d'"
  using assms unfolding rows_ok_def by blast

lemma history_row_mono: "revOf d \<le> revOf d' \<Longrightarrow> history_row_ok d k v \<Longrightarrow> history_row_ok d' k v"
  by (fastforce simp: history_row_ok_def)

lemma changelog_row_mono: "revOf d \<le> revOf d' \<Longrightarrow> changelog_row_ok d k v \<Longrightarrow> changelog_row_ok d' k v"
  by (fastforce simp: changelog_row_ok_def)

lemma changelog_complete_next:
  assumes "changelog_complete d" "revOf d' = revOf d + 1"
    and "dget d' bucketChangelog (revisionBytes (revOf d + 1)) \<noteq> None"
    and "\<And>k. k \<noteq> revisionBytes (revOf d + 1) \<Longrightarrow> dget d' bucketChangelog k = dget d bucketChangelog k"
  shows "changelog_complete d'"
  unfolding changelog_complete_def
proof (intro allI impI)
  fix r assume r: "1 \<le> r \<and> r \<le> revOf d'"
  show "dget d' bucketChangelog (revisionBytes r) \<noteq> None"
  proof (cases "revisionBytes r = revisionBytes (revOf d + 1)")
    case True
    with assms(3) show ?thesis by simp
  next
    case False
    then have "r \<noteq> revOf d + 1" by auto
    with r assms(2) have "r \<le> revOf d" by simp
    with r assms(1) have "dget d bucketChangelog (revisionBytes r) \<noteq> None"
      unfolding changelog_complete_def by blast
    with assms(4) [OF False] show ?thesis by simp
  qed
qed

lemma entryWritten_inv:
  assumes inv: "repo_inv d" and room: "room d" and names: "nulFree ns" "nulFree p"
    and rev: "m_Revision m = revOf d + 1"
    and create: "1 \<le> m_CreateRevision m" "m_CreateRevision m \<le> revOf d + 1"
    and version: "1 \<le> m_Version m" "m_Version m \<le> revOf d + 1"
  shows "repo_inv (entryWritten ns p m c row d)"
proof -
  let ?d = "entryWritten ns p m c row d"
  note next_ok = room_next [OF inv room] and D = repo_invD [OF inv]
  have rev': "revOf ?d = revOf d + 1" using next_ok rev by (simp add: revOf_written)
  have pos: "1 \<le> revOf d + 1" using counter_revOf(2) [OF D(2)] by simp
  have "present ?d" using D(1) by (simp add: entryWritten_def)
  moreover have "counter_ok ?d"
    using next_ok rev unfolding counter_ok_def
    by (intro exI [of _ "revOf d + 1"]) (simp add: dget_written in_int64_def)
  moreover have "rows_ok meta_row_ok bucketMeta ?d"
    by (rule written_meta_rows [OF assms])
  moreover have "content_ok ?d"
    using D(4) by (simp add: content_ok_def dget_written)
  moreover have "rows_ok history_row_ok bucketHistory ?d"
  proof (rule rows_ok_lift [OF D(5)])
    show "history_row_ok d k v \<Longrightarrow> history_row_ok ?d k v" for k v
      by (rule history_row_mono [of d]) (use rev' in linarith)+
    show "dget ?d bucketHistory k = Some v \<Longrightarrow> dget d bucketHistory k = Some v \<or> history_row_ok ?d k v"
      for k v
      using history_row_okI [of ns p "revOf d + 1" ?d c] names rev rev' pos
      by (simp add: dget_written split: if_splits)
  qed
  moreover have "rows_ok changelog_row_ok bucketChangelog ?d"
  proof (rule rows_ok_lift [OF D(6)])
    show "changelog_row_ok d k v \<Longrightarrow> changelog_row_ok ?d k v" for k v
      by (rule changelog_row_mono [of d]) (use rev' in linarith)+
    show "dget ?d bucketChangelog k = Some v \<Longrightarrow>
        dget d bucketChangelog k = Some v \<or> changelog_row_ok ?d k v" for k v
      using changelog_row_okI [of "revOf d + 1" ?d row] rev rev' pos
      by (simp add: dget_written split: if_splits)
  qed
  moreover have "changelog_complete ?d"
    by (rule changelog_complete_next [OF D(7) rev']) (simp_all add: dget_written rev)
  moreover have "namespaces_ok ?d"
    using D(8) by (simp add: namespaces_ok_def dget_written)
  ultimately show ?thesis by (simp add: repo_inv_def)
qed

section \<open>A deletion at the next revision keeps the invariant\<close>

lemma entriesDeleted_snoc:
  "entriesDeleted (ts @ [(k, row)]) r d = entryDeleted k r row (entriesDeleted ts r d)"
  by (simp add: entriesDeleted_def)

lemma dget_entriesDeleted:
  "dget (entriesDeleted ts r d) n k =
     (if (n = bucketMeta \<or> n = bucketContent) \<and> k \<in> fst ` set ts then None
      else if n = bucketChangelog \<and> k = revisionBytes r \<and> ts \<noteq> [] then Some (JChangelog (snd (last ts)))
      else if n = bucketSys \<and> k = sysRevisionKeyName then Some (Raw (revisionBytes r))
      else dget d n k)"
proof (induction ts rule: rev_induct)
  case Nil
  show ?case by (simp add: entriesDeleted_def counterAdvanced_def)
next
  case (snoc t ts)
  then show ?case by (cases t) (auto simp: entriesDeleted_snoc entryDeleted_def)
qed

lemma present_entriesDeleted: "present d \<Longrightarrow> present (entriesDeleted ts r d)"
proof (induction ts rule: rev_induct)
  case (snoc t ts)
  then show ?case by (cases t) (simp add: entriesDeleted_snoc entryDeleted_def)
qed (simp add: entriesDeleted_def counterAdvanced_def)

lemma revOf_entriesDeleted: "in_int64 r \<Longrightarrow> revOf (entriesDeleted ts r d) = r"
  by (simp add: revOf_def dget_entriesDeleted rawBytes_def parse_revisionBytes)

lemma deleted_meta_rows:
  assumes inv: "repo_inv d" and room: "room d"
  shows "rows_ok meta_row_ok bucketMeta (entriesDeleted ts (revOf d + 1) d)"
  unfolding rows_ok_def
proof (intro allI impI)
  fix k v
  let ?d = "entriesDeleted ts (revOf d + 1) d"
  note next_ok = room_next [OF inv room]
  have rev': "revOf ?d = revOf d + 1" using next_ok by (simp add: revOf_entriesDeleted)
  assume "dget ?d bucketMeta k = Some v"
  then have kv: "dget d bucketMeta k = Some v" "k \<notin> fst ` set ts"
    by (simp_all add: dget_entriesDeleted split: if_splits)
  from kv(1) have "meta_row_ok d k v" by (rule dget_meta [OF inv])
  then obtain ns p m c where row: "nulFree ns" "nulFree p" "k = configKey ns p"
      "v = JConfigMeta m" "1 \<le> m_CreateRevision m" "m_CreateRevision m \<le> m_Revision m"
      "m_Revision m \<le> revOf d" "dget d bucketContent (configKey ns p) = Some (Raw c)"
      "dget d bucketHistory (historyKey ns p (m_Revision m)) = Some (Raw c)"
      "\<And>r. m_Revision m < r \<Longrightarrow> r \<le> revOf d \<Longrightarrow> dget d bucketHistory (historyKey ns p r) = None"
      "1 \<le> m_Version m" "m_Version m \<le> m_Revision m"
    by (rule meta_row_okE) blast
  have "meta_row_ok ?d (configKey ns p) (JConfigMeta m)"
  proof (rule meta_row_okI [where c = c])
    show "dget ?d bucketHistory (historyKey ns p r) = None" if "m_Revision m < r" "r \<le> revOf ?d" for r
      using row(10) [of r] history_None_beyond [OF inv row(1,2), of "revOf d + 1"] next_ok that rev'
      by (cases "r = revOf d + 1") (simp_all add: dget_entriesDeleted)
  qed (use row kv rev' in \<open>simp_all add: dget_entriesDeleted\<close>)
  with row(3,4) show "meta_row_ok ?d k v" by simp
qed

lemma entriesDeleted_inv:
  assumes inv: "repo_inv d" and room: "room d" and some: "ts \<noteq> []"
  shows "repo_inv (entriesDeleted ts (revOf d + 1) d)"
proof -
  let ?d = "entriesDeleted ts (revOf d + 1) d"
  note next_ok = room_next [OF inv room] and D = repo_invD [OF inv]
  have rev': "revOf ?d = revOf d + 1" using next_ok by (simp add: revOf_entriesDeleted)
  have pos: "1 \<le> revOf d + 1" using counter_revOf(2) [OF D(2)] by simp
  have "present ?d" using D(1) by (rule present_entriesDeleted)
  moreover have "counter_ok ?d"
    using next_ok unfolding counter_ok_def
    by (intro exI [of _ "revOf d + 1"]) (simp add: dget_entriesDeleted in_int64_def)
  moreover have "rows_ok meta_row_ok bucketMeta ?d"
    by (rule deleted_meta_rows [OF inv room])
  moreover have "content_ok ?d"
    using D(4) by (simp add: content_ok_def dget_entriesDeleted)
  moreover have "rows_ok history_row_ok bucketHistory ?d"
  proof (rule rows_ok_lift [OF D(5)])
    show "history_row_ok d k v \<Longrightarrow> history_row_ok ?d k v" for k v
      by (rule history_row_mono [of d]) (use rev' in linarith)+
  qed (simp add: dget_entriesDeleted)
  moreover have "rows_ok changelog_row_ok bucketChangelog ?d"
  proof (rule rows_ok_lift [OF D(6)])
    show "changelog_row_ok d k v \<Longrightarrow> changelog_row_ok ?d k v" for k v
      by (rule changelog_row_mono [of d]) (use rev' in linarith)+
    show "dget ?d bucketChangelog k = Some v \<Longrightarrow>
        dget d bucketChangelog k = Some v \<or> changelog_row_ok ?d k v" for k v
      using changelog_row_okI [of "revOf d + 1" ?d "snd (last ts)"] rev' pos some
      by (simp add: dget_entriesDeleted split: if_splits)
  qed
  moreover have "changelog_complete ?d"
    by (rule changelog_complete_next [OF D(7) rev']) (simp_all add: dget_entriesDeleted some)
  moreover have "namespaces_ok ?d"
    using D(8) by (simp add: namespaces_ok_def dget_entriesDeleted)
  ultimately show ?thesis by (simp add: repo_inv_def)
qed

section \<open>What the operations do when they succeed\<close>

lemma nextRevision_Inr:
  assumes "nextRevision E q w = (Inr r, w')"
  shows "r = wrap64 (revOf (buckets w) + 1)" "w' = w\<lparr>buckets := counterAdvanced r (buckets w)\<rparr>"
  using assms
  by (auto simp: nextRevision_def Let_def bind_inversion revOf_def bucket_Get_dget
      counterAdvanced_def dest!: Put_Inr)

lemma writeChangelog_Inr:
  "writeChangelog E q r et p ns v w = (Inr u, w') \<Longrightarrow>
     w' = w\<lparr>ticks := Suc (ticks w), buckets := dbput bucketChangelog (revisionBytes r)
       (JChangelog \<lparr>row_Type = et, row_Path = p, row_Namespace = ns, row_Version = v,
          row_Timestamp = clock E (ticks w)\<rparr>) (buckets w)\<rparr>"
  by (auto simp: writeChangelog_def bind_inversion boltPut_def changelogCodec_def dest!: Put_Inr)

lemma writeConfigEntry_Inr:
  "writeConfigEntry E q (configKey (cfg_Namespace cfg) (cfg_Path cfg)) cfg (cfg_Revision cfg) et w = (Inr u, w') \<Longrightarrow>
     \<exists>row. w' = w\<lparr>ticks := Suc (ticks w), buckets :=
       dbput bucketChangelog (revisionBytes (cfg_Revision cfg)) (JChangelog row)
        (dbput bucketHistory (historyKey (cfg_Namespace cfg) (cfg_Path cfg) (cfg_Revision cfg)) (Raw (cfg_Content cfg))
         (dbput bucketMeta (configKey (cfg_Namespace cfg) (cfg_Path cfg)) (JConfigMeta (normMeta (DomainToConfigMeta cfg)))
          (dbput bucketContent (configKey (cfg_Namespace cfg) (cfg_Path cfg)) (Raw (cfg_Content cfg)) (buckets w))))\<rparr>
       \<and> row_Type row = et \<and> row_Path row = cfg_Path cfg \<and> row_Namespace row = cfg_Namespace cfg
       \<and> row_Version row = cfg_Version cfg"
  by (auto simp: writeConfigEntry_def bind_inversion boltPut_def configMetaCodec_def writeHistory_def
      normMeta_def dest!: Put_Inr writeChangelog_Inr)

text \<open>Reads of a well-formed database.\<close>

definition metaAt :: "database \<Rightarrow> string \<Rightarrow> string \<Rightarrow> ConfigMeta option" where
  "metaAt d ns p =
     (case dget d bucketMeta (configKey ns p) of Some (JConfigMeta m) \<Rightarrow> Some m | _ \<Rightarrow> None)"

definition contentAt :: "database \<Rightarrow> string \<Rightarrow> string \<Rightarrow> bytes" where
  "contentAt d ns p = rawBytes (dget d bucketContent (configKey ns p))"

definition nsLocked :: "database \<Rightarrow> string \<Rightarrow> bool" where
  "nsLocked d ns =
     (case dget d bucketNamespaces ns of Some (JNamespace m) \<Rightarrow> nm_Locked m | _ \<Rightarrow> False)"

lemma dget_metaAt:
  "repo_inv d \<Longrightarrow> dget d bucketMeta (configKey ns p) = map_option JConfigMeta (metaAt d ns p)"
  using dget_meta_JConfigMeta [of d "configKey ns p"]
  by (cases "dget d bucketMeta (configKey ns p)") (auto simp: metaAt_def)

lemma getMeta_eq:
  "repo_inv (buckets w) \<Longrightarrow> getMeta path (configKey ns p) w =
     (case metaAt (buckets w) ns p of None \<Rightarrow> Inl (ErrResourceNotFound path) | Some m \<Rightarrow> Inr m)"
  by (simp add: getMeta_def boltGet_def bucket_Get_dget dget_metaAt configMetaCodec_def
      split: option.splits)

lemma resolveExistingKey_eq:
  "repo_inv (buckets w) \<Longrightarrow> resolveExistingKey (configKey ns p) w =
     Inr (map_option (\<lambda>m. (m, contentAt (buckets w) ns p)) (metaAt (buckets w) ns p))"
  by (simp add: resolveExistingKey_def boltGet_def bucket_Get_dget dget_metaAt configMetaCodec_def
      contentAt_def split: option.splits)

lemma namespace_row: "dget d bucketNamespaces k = Some v \<Longrightarrow> repo_inv d \<Longrightarrow> \<exists>m. v = JNamespace m"
  using repo_invD(8) [of d] by (auto simp: namespaces_ok_def)

lemma isNamespaceLocked_eq:
  "repo_inv (buckets w) \<Longrightarrow> isNamespaceLocked ns w = Inr (nsLocked (buckets w) ns)"
  by (cases "dget (buckets w) bucketNamespaces ns")
     (auto simp: isNamespaceLocked_def bucket_Get_dget nsLocked_def namespaceCodec_def
       dest!: namespace_row)

lemma validateNamespaceUnlocked_eq:
  "repo_inv (buckets w) \<Longrightarrow> validateNamespaceUnlocked ns w =
     (if nsLocked (buckets w) ns then Inl (ErrNamespaceLocked ns) else Inr ())"
  by (simp add: validateNamespaceUnlocked_def isNamespaceLocked_eq)

lemma boltExists_metaAt:
  "repo_inv (buckets w) \<Longrightarrow>
     boltExists bucketMeta (configKey ns p) w \<longleftrightarrow> metaAt (buckets w) ns p \<noteq> None"
  by (simp add: boltExists_def bucket_Get_dget dget_metaAt)

lemmas read_eqs [repo_simps] =
  getMeta_eq resolveExistingKey_eq isNamespaceLocked_eq validateNamespaceUnlocked_eq boltExists_metaAt

lemma metaAt_bounds:
  assumes "repo_inv d" "metaAt d ns p = Some m"
  shows "1 \<le> m_CreateRevision m" "m_CreateRevision m \<le> m_Revision m" "m_Revision m \<le> revOf d"
    "1 \<le> m_Version m" "m_Version m \<le> m_Revision m"
proof -
  have "dget d bucketMeta (configKey ns p) = Some (JConfigMeta m)"
    using assms by (simp add: dget_metaAt)
  then have "meta_row_ok d (configKey ns p) (JConfigMeta m)" by (rule dget_meta [OF assms(1)])
  then show "1 \<le> m_CreateRevision m" "m_CreateRevision m \<le> m_Revision m" "m_Revision m \<le> revOf d"
    "1 \<le> m_Version m" "m_Version m \<le> m_Revision m"
    by (auto elim!: meta_row_okE)
qed

lemma next_version_in_range:
  assumes "repo_inv d" "room d" "metaAt d ns p = Some m"
  shows "wrap64 (m_Version m + 1) = m_Version m + 1"
  using metaAt_bounds [OF assms(1,3)] assms(2) by (intro wrap64_id) (simp add: in_int64_def room_def)

lemma next_revision_in_range:
  "repo_inv d \<Longrightarrow> room d \<Longrightarrow> wrap64 (revOf d + 1) = revOf d + 1"
  by (simp add: room_next)

end
