(* ===== verification/RepoOps.thy ===== *)
theory RepoOps
  imports RepoInv
begin

text \<open>
  The functional behaviour of the repository's write transactions: from a well-formed
  database, what each returns and which database it leaves, on success and on every guard.
  From these follow the preservation of the invariant by each operation and the abstract
  specification \<open>mvcc\<close>: a revision counter and a map from namespace and path to value, create
  revision, modification revision and version, as etcd's clients see the store.
\<close>

section \<open>The abstract store\<close>

record mvcc_entry =
  e_value :: bytes
  e_create :: int
  e_mod :: int
  e_version :: int

record mvcc =
  mv_rev :: int
  mv_kvs :: "string \<times> string \<rightharpoonup> mvcc_entry"

definition mvcc_put :: "string \<times> string \<Rightarrow> bytes \<Rightarrow> mvcc \<Rightarrow> mvcc" where
  "mvcc_put k v S =
     (let r = mv_rev S + 1 in
      \<lparr>mv_rev = r,
       mv_kvs = (mv_kvs S)(k \<mapsto>
         (case mv_kvs S k of
            None \<Rightarrow> \<lparr>e_value = v, e_create = r, e_mod = r, e_version = 1\<rparr>
          | Some e \<Rightarrow> \<lparr>e_value = v, e_create = e_create e, e_mod = r, e_version = e_version e + 1\<rparr>))\<rparr>)"

definition mvcc_delete :: "(string \<times> string) set \<Rightarrow> mvcc \<Rightarrow> mvcc" where
  "mvcc_delete K S =
     \<lparr>mv_rev = mv_rev S + 1, mv_kvs = (\<lambda>k. if k \<in> K then None else mv_kvs S k)\<rparr>"

definition metaEntry :: "bytes \<Rightarrow> ConfigMeta \<Rightarrow> mvcc_entry" where
  "metaEntry v m =
     \<lparr>e_value = v, e_create = m_CreateRevision m, e_mod = m_Revision m, e_version = m_Version m\<rparr>"

definition absOf :: "database \<Rightarrow> mvcc" where
  "absOf d =
     \<lparr>mv_rev = revOf d,
      mv_kvs = (\<lambda>(ns, p).
        if nulFree ns \<and> nulFree p
        then map_option (metaEntry (contentAt d ns p)) (metaAt d ns p) else None)\<rparr>"

lemma metaAt_written:
  assumes "nulFree ns" "nulFree ns'"
  shows "metaAt (entryWritten ns p m c row d) ns' p' = (if ns' = ns \<and> p' = p then Some m else metaAt d ns' p')"
    "contentAt (entryWritten ns p m c row d) ns' p' = (if ns' = ns \<and> p' = p then c else contentAt d ns' p')"
  using assms
  by (auto simp: metaAt_def contentAt_def dget_written configKey_inj rawBytes_def)

lemma absOf_written:
  assumes "nulFree ns" "nulFree p" "in_int64 (m_Revision m)"
  shows "absOf (entryWritten ns p m c row d) =
     \<lparr>mv_rev = m_Revision m, mv_kvs = (mv_kvs (absOf d))((ns, p) \<mapsto> metaEntry c m)\<rparr>"
  using assms by (auto simp: absOf_def revOf_written metaAt_written fun_eq_iff)

lemma absOf_entriesDeleted:
  assumes keys: "fst ` set ts = (\<lambda>(ns, p). configKey ns p) ` K"
    and names: "\<And>ns p. (ns, p) \<in> K \<Longrightarrow> nulFree ns" and r: "r = revOf d + 1" "in_int64 r"
  shows "absOf (entriesDeleted ts r d) = mvcc_delete K (absOf d)"
proof -
  have mem: "configKey ns p \<in> fst ` set ts \<longleftrightarrow> (ns, p) \<in> K" if "nulFree ns" for ns p
    using names that unfolding keys by (auto simp: configKey_inj)
  then show ?thesis
    using r by (auto simp: absOf_def mvcc_delete_def revOf_entriesDeleted metaAt_def contentAt_def
        dget_entriesDeleted fun_eq_iff)
qed

section \<open>Create\<close>

text \<open>The config that a successful create stores and returns.\<close>

definition createdConfig :: "env \<Rightarrow> time \<Rightarrow> int64 \<Rightarrow> Config \<Rightarrow> Config" where
  "createdConfig E now r cfg =
     (SetDefaults (GenerateHash (sha256hex E) cfg))\<lparr>cfg_Version := 1, cfg_CreatedAt := now,
        cfg_UpdatedAt := now, cfg_Revision := r, cfg_CreateRevision := r\<rparr>"

lemma createdConfig_simps [simp]:
  "cfg_Path (createdConfig E now r cfg) = cfg_Path cfg"
  "cfg_Namespace (createdConfig E now r cfg) = cfg_Namespace cfg"
  "cfg_Content (createdConfig E now r cfg) = cfg_Content cfg"
  "cfg_Revision (createdConfig E now r cfg) = r"
  "cfg_CreateRevision (createdConfig E now r cfg) = r"
  "cfg_Version (createdConfig E now r cfg) = 1"
  by (simp_all add: createdConfig_def SetDefaults_def GenerateHash_def split: option.splits)

lemma createConfigTx_Inr:
  assumes "createConfigTx E q cfg w = (Inr cfg', w')" and inv: "repo_inv (buckets w)" and "room (buckets w)"
  shows "\<exists>row. cfg' = createdConfig E (clock E (ticks w)) (revOf (buckets w) + 1) cfg \<and>
      \<not> nsLocked (buckets w) (cfg_Namespace cfg) \<and>
      metaAt (buckets w) (cfg_Namespace cfg) (cfg_Path cfg) = None \<and>
      buckets w' = entryWritten (cfg_Namespace cfg) (cfg_Path cfg) (normMeta (DomainToConfigMeta cfg'))
        (cfg_Content cfg) row (buckets w) \<and>
      row_Type row = EventTypeCreated \<and> row_Path row = cfg_Path cfg \<and>
      row_Namespace row = cfg_Namespace cfg \<and> row_Version row = 1"
proof -
  note eqs = read_eqs [OF inv] next_revision_in_range [OF inv assms(3)]
  let ?c = "\<lambda>r. createdConfig E (clock E (ticks w)) r cfg"
  from assms(1) obtain r w1 u where
    guards: "\<not> nsLocked (buckets w) (cfg_Namespace cfg)"
      "metaAt (buckets w) (cfg_Namespace cfg) (cfg_Path cfg) = None" "cfg' = ?c r" and
    w1: "nextRevision E q (w\<lparr>ticks := Suc (ticks w)\<rparr>) = (Inr r, w1)" and
    wr: "writeConfigEntry E q (configKey (cfg_Namespace (?c r)) (cfg_Path (?c r))) (?c r)
       (cfg_Revision (?c r)) EventTypeCreated w1 = (Inr u, w')"
    by (auto simp: createConfigTx_def bind_inversion Let_def eqs createdConfig_def [symmetric]
        split: if_splits)
  from nextRevision_Inr [OF w1] writeConfigEntry_Inr [OF wr] guards eqs show ?thesis
    by (auto simp: entryWritten_def counterAdvanced_def DomainToConfigMeta_def)
qed

lemma createConfigTx_guards:
  assumes "repo_inv (buckets w)"
  shows "nsLocked (buckets w) (cfg_Namespace cfg) \<Longrightarrow>
      createConfigTx E q cfg w = (Inl (ErrNamespaceLocked (cfg_Namespace cfg)), w)"
    "\<not> nsLocked (buckets w) (cfg_Namespace cfg) \<Longrightarrow>
      metaAt (buckets w) (cfg_Namespace cfg) (cfg_Path cfg) \<noteq> None \<Longrightarrow>
      createConfigTx E q cfg w = (Inl (ErrResourceAlreadyExists (cfg_Path cfg)), w)"
  using assms by (simp_all add: createConfigTx_def bindT_def readT_def repo_simps Let_def)

section \<open>Update\<close>

definition updatedConfig :: "env \<Rightarrow> time \<Rightarrow> int64 \<Rightarrow> ConfigMeta \<Rightarrow> Config \<Rightarrow> Config" where
  "updatedConfig E now r existing cfg =
     (GenerateHash (sha256hex E) cfg)\<lparr>cfg_Version := wrap64 (m_Version existing + 1),
        cfg_CreatedAt := m_CreatedAt existing, cfg_UpdatedAt := now,
        cfg_CreateRevision := m_CreateRevision existing, cfg_Revision := r\<rparr>"

lemma updatedConfig_simps [simp]:
  "cfg_Path (updatedConfig E now r m cfg) = cfg_Path cfg"
  "cfg_Namespace (updatedConfig E now r m cfg) = cfg_Namespace cfg"
  "cfg_Content (updatedConfig E now r m cfg) = cfg_Content cfg"
  "cfg_Revision (updatedConfig E now r m cfg) = r"
  "cfg_CreateRevision (updatedConfig E now r m cfg) = m_CreateRevision m"
  "cfg_Version (updatedConfig E now r m cfg) = wrap64 (m_Version m + 1)"
  by (simp_all add: updatedConfig_def GenerateHash_def)

lemma updateConfigTx_Inr:
  assumes "updateConfigTx E q cfg w = (Inr cfg', w')" and inv: "repo_inv (buckets w)" and "room (buckets w)"
  shows "\<exists>m row. metaAt (buckets w) (cfg_Namespace cfg) (cfg_Path cfg) = Some m \<and>
      cfg' = updatedConfig E (clock E (ticks w)) (revOf (buckets w) + 1) m cfg \<and>
      \<not> nsLocked (buckets w) (cfg_Namespace cfg) \<and> \<not> m_Locked m \<and> m_Version m = cfg_Version cfg \<and>
      buckets w' = entryWritten (cfg_Namespace cfg) (cfg_Path cfg) (normMeta (DomainToConfigMeta cfg'))
        (cfg_Content cfg) row (buckets w) \<and>
      row_Type row = EventTypeUpdated \<and> row_Path row = cfg_Path cfg \<and>
      row_Namespace row = cfg_Namespace cfg \<and> row_Version row = cfg_Version cfg'"
proof -
  note eqs = read_eqs [OF inv] next_revision_in_range [OF inv assms(3)]
  let ?c = "\<lambda>r m. updatedConfig E (clock E (ticks w)) r m cfg"
  from assms(1) obtain m r w1 u where
    guards: "\<not> nsLocked (buckets w) (cfg_Namespace cfg)"
      "metaAt (buckets w) (cfg_Namespace cfg) (cfg_Path cfg) = Some m" "cfg' = ?c r m"
      "validateUpdatePreconditions m cfg = Inr ()" and
    w1: "nextRevision E q (w\<lparr>ticks := Suc (ticks w)\<rparr>) = (Inr r, w1)" and
    wr: "writeConfigEntry E q (configKey (cfg_Namespace (?c r m)) (cfg_Path (?c r m))) (?c r m)
       (cfg_Revision (?c r m)) EventTypeUpdated w1 = (Inr u, w')"
    by (auto simp: updateConfigTx_def bind_inversion Let_def eqs updatedConfig_def [symmetric]
        split: if_splits option.splits)
  from nextRevision_Inr [OF w1] writeConfigEntry_Inr [OF wr] guards eqs show ?thesis
    by (auto simp: entryWritten_def counterAdvanced_def DomainToConfigMeta_def
        validateUpdatePreconditions_def split: if_splits)
qed

lemma updateConfigTx_guards:
  assumes "repo_inv (buckets w)"
  shows "nsLocked (buckets w) (cfg_Namespace cfg) \<Longrightarrow>
      updateConfigTx E q cfg w = (Inl (ErrNamespaceLocked (cfg_Namespace cfg)), w)"
    "\<not> nsLocked (buckets w) (cfg_Namespace cfg) \<Longrightarrow>
      metaAt (buckets w) (cfg_Namespace cfg) (cfg_Path cfg) = None \<Longrightarrow>
      updateConfigTx E q cfg w = (Inl (ErrResourceNotFound (cfg_Path cfg)), w)"
    "\<not> nsLocked (buckets w) (cfg_Namespace cfg) \<Longrightarrow>
      metaAt (buckets w) (cfg_Namespace cfg) (cfg_Path cfg) = Some m \<Longrightarrow>
      validateUpdatePreconditions m cfg = Inl e \<Longrightarrow>
      updateConfigTx E q cfg w = (Inl e, w)"
  using assms
  by (simp_all add: updateConfigTx_def bindT_def readT_def whenErr_def repo_simps Let_def)

section \<open>Delete\<close>

lemma boltDelete_Inr:
  "boltDelete E q n k w = (Inr u, w') \<Longrightarrow> w' = w\<lparr>buckets := dbdel n k (buckets w)\<rparr>"
  unfolding boltDelete_def by (rule Delete_Inr)

lemma deleteConfigTx_Inr:
  assumes "deleteConfigTx E q p ns w = (Inr r, w')" and inv: "repo_inv (buckets w)" and "room (buckets w)"
  shows "\<exists>m row. metaAt (buckets w) ns p = Some m \<and> \<not> nsLocked (buckets w) ns \<and> \<not> m_Locked m \<and>
      r = revOf (buckets w) + 1 \<and>
      buckets w' = entriesDeleted [(configKey ns p, row)] r (buckets w) \<and>
      row_Type row = EventTypeDeleted \<and> row_Path row = p \<and> row_Namespace row = ns"
proof -
  note eqs = read_eqs [OF inv] next_revision_in_range [OF inv assms(3)]
  from assms(1) obtain m w1 w2 w3 u1 u2 u3 where
    guards: "\<not> nsLocked (buckets w) ns" "metaAt (buckets w) ns p = Some m" "\<not> m_Locked m" and
    w1: "nextRevision E q w = (Inr r, w1)" and
    w2: "boltDelete E q bucketContent (configKey ns p) w1 = (Inr u1, w2)" and
    w3: "boltDelete E q bucketMeta (configKey ns p) w2 = (Inr u2, w3)" and
    w4: "writeChangelog E q r EventTypeDeleted p ns 0 w3 = (Inr u3, w')"
    by (auto simp: deleteConfigTx_def bind_inversion Let_def eqs split: if_splits option.splits)
  from nextRevision_Inr [OF w1] boltDelete_Inr [OF w2] boltDelete_Inr [OF w3]
    writeChangelog_Inr [OF w4] guards eqs
  show ?thesis
    by (auto simp: entriesDeleted_def entryDeleted_def counterAdvanced_def)
qed

lemma deleteConfigTx_guards:
  assumes "repo_inv (buckets w)"
  shows "nsLocked (buckets w) ns \<Longrightarrow> deleteConfigTx E q p ns w = (Inl (ErrNamespaceLocked ns), w)"
    "\<not> nsLocked (buckets w) ns \<Longrightarrow> metaAt (buckets w) ns p = None \<Longrightarrow>
      deleteConfigTx E q p ns w = (Inl (ErrResourceNotFound p), w)"
    "\<not> nsLocked (buckets w) ns \<Longrightarrow> metaAt (buckets w) ns p = Some m \<Longrightarrow> m_Locked m \<Longrightarrow>
      deleteConfigTx E q p ns w = (Inl (ErrLocked p), w)"
  using assms
  by (simp_all add: deleteConfigTx_def bindT_def readT_def whenErr_def repo_simps Let_def)

section \<open>Etcd put\<close>

definition putMeta ::
  "env \<Rightarrow> time \<Rightarrow> string \<Rightarrow> bytes \<Rightarrow> int64 \<Rightarrow> ConfigMeta option \<Rightarrow> ConfigMeta" where
  "putMeta E now path value r existing =
     (case existing of
        Some m \<Rightarrow>
          \<lparr>m_ContentHash = sha256hex E value, m_Format = DetectFormatFromPath path,
           m_Version = wrap64 (m_Version m + 1), m_Revision = r,
           m_CreateRevision = m_CreateRevision m, m_Metadata = m_Metadata m,
           m_Locked = m_Locked m, m_CreatedAt = m_CreatedAt m, m_UpdatedAt = now\<rparr>
      | None \<Rightarrow>
          \<lparr>m_ContentHash = sha256hex E value, m_Format = DetectFormatFromPath path,
           m_Version = 1, m_Revision = r, m_CreateRevision = r, m_Metadata = None,
           m_Locked = False, m_CreatedAt = now, m_UpdatedAt = now\<rparr>)"

lemma buildPutMeta_eq:
  "buildPutMeta E path value r (map_option (\<lambda>m. (m, c)) existing) w =
     (Inr (putMeta E (clock E (ticks w)) path value r existing,
           if existing = None then EventTypeCreated else EventTypeUpdated),
      w\<lparr>ticks := Suc (ticks w)\<rparr>)"
  by (simp add: buildPutMeta_def bindT_def timeNow_def returnT_def putMeta_def Let_def split: option.splits)

definition prevKV :: "database \<Rightarrow> string \<Rightarrow> string \<Rightarrow> KVPair option" where
  "prevKV d ns p =
     map_option (\<lambda>m. \<lparr>kv_Namespace = ns, kv_Path = p, kv_Value = contentAt d ns p,
        kv_CreateRevision = m_CreateRevision m, kv_ModRevision = m_Revision m,
        kv_Version = m_Version m\<rparr>) (metaAt d ns p)"

lemma buildPrevKV_eq:
  "buildPrevKV (map_option (\<lambda>m. (m, contentAt d ns p)) (metaAt d ns p)) ns p = prevKV d ns p"
  by (simp add: buildPrevKV_def prevKV_def split: option.splits)

definition putAllowed :: "database \<Rightarrow> string \<Rightarrow> string \<Rightarrow> bool" where
  "putAllowed d ns p \<longleftrightarrow> \<not> nsLocked d ns \<and> (\<forall>m. metaAt d ns p = Some m \<longrightarrow> \<not> m_Locked m)"

lemma checkPutAllowed_eq:
  "checkPutAllowed (map_option (\<lambda>m. (m, c)) existing) path =
     (case existing of None \<Rightarrow> Inr () | Some m \<Rightarrow> if m_Locked m then Inl (ErrLocked path) else Inr ())"
  by (simp add: checkPutAllowed_def NewLockedError_def split: option.splits)

lemma boltPut_Inr:
  "boltPut E cdc q n k x w = (Inr u, w') \<Longrightarrow>
     w' = w\<lparr>buckets := dbput n k (Marshal cdc x) (buckets w)\<rparr>"
  unfolding boltPut_def by (rule Put_Inr)

lemma writeHistory_Inr:
  "writeHistory E q ns p r c w = (Inr u, w') \<Longrightarrow>
     w' = w\<lparr>buckets := dbput bucketHistory (historyKey ns p r) (Raw c) (buckets w)\<rparr>"
  unfolding writeHistory_def by (rule Put_Inr)

lemma putKeyTx_Inr:
  assumes "putKeyTx E q ns p value w = (Inr (prev, r), w')" and inv: "repo_inv (buckets w)"
    and "room (buckets w)"
  shows "\<exists>row. putAllowed (buckets w) ns p \<and> r = revOf (buckets w) + 1 \<and> prev = prevKV (buckets w) ns p \<and>
      buckets w' = entryWritten ns p
        (normMeta (putMeta E (clock E (ticks w)) p value r (metaAt (buckets w) ns p))) value row (buckets w) \<and>
      row_Type row = (if metaAt (buckets w) ns p = None then EventTypeCreated else EventTypeUpdated) \<and>
      row_Path row = p \<and> row_Namespace row = ns"
proof -
  note eqs = read_eqs [OF inv] next_revision_in_range [OF inv assms(3)]
  let ?m = "putMeta E (clock E (ticks w)) p value r (metaAt (buckets w) ns p)"
  let ?et = "if metaAt (buckets w) ns p = None then EventTypeCreated else EventTypeUpdated"
  from assms(1) obtain w1 w2 w3 w4 u2 u3 u4 u5 where
    guards: "\<not> nsLocked (buckets w) ns"
      "checkPutAllowed (map_option (\<lambda>m. (m, contentAt (buckets w) ns p)) (metaAt (buckets w) ns p)) p = Inr ()"
      "prev = prevKV (buckets w) ns p" and
    w1: "nextRevision E q w = (Inr r, w1)" and
    w2: "bucket_Put E q bucketContent (configKey ns p) (Raw value)
        (w1\<lparr>ticks := Suc (ticks w1)\<rparr>) = (Inr u2, w2)" and
    w3: "boltPut E configMetaCodec q bucketMeta (configKey ns p)
        (putMeta E (clock E (ticks w1)) p value r (metaAt (buckets w) ns p)) w2 = (Inr u3, w3)" and
    w4: "writeHistory E q ns p r value w3 = (Inr u4, w4)" and
    w5: "writeChangelog E q r ?et p ns
        (m_Version (putMeta E (clock E (ticks w1)) p value r (metaAt (buckets w) ns p))) w4 = (Inr u5, w')"
    by (auto simp: putKeyTx_def bind_inversion Let_def eqs buildPutMeta_eq buildPrevKV_eq
        split: if_splits)
  have t: "ticks w1 = ticks w" using nextRevision_Inr(2) [OF w1] by simp
  have rev: "m_Revision ?m = r" by (simp add: putMeta_def split: option.splits)
  have "putAllowed (buckets w) ns p"
    using guards(1,2) by (auto simp: putAllowed_def checkPutAllowed_eq split: option.splits if_splits)
  with guards(3) t rev nextRevision_Inr [OF w1] Put_Inr [OF w2] boltPut_Inr [OF w3]
    writeHistory_Inr [OF w4] writeChangelog_Inr [OF w5] eqs
  show ?thesis
    by (auto simp: entryWritten_def counterAdvanced_def configMetaCodec_def normMeta_def)
qed

lemma putKeyTx_guards:
  assumes "repo_inv (buckets w)"
  shows "nsLocked (buckets w) ns \<Longrightarrow> putKeyTx E q ns p value w = (Inl (ErrNamespaceLocked ns), w)"
    "\<not> nsLocked (buckets w) ns \<Longrightarrow> metaAt (buckets w) ns p = Some m \<Longrightarrow> m_Locked m \<Longrightarrow>
      putKeyTx E q ns p value w = (Inl (ErrLocked p), w)"
  using assms
  by (simp_all add: putKeyTx_def bindT_def readT_def whenErr_def repo_simps Let_def checkPutAllowed_def
      NewLockedError_def)

section \<open>The invariant is preserved\<close>

lemma written_createdConfig_inv:
  assumes "repo_inv d" "room d" "nulFree (cfg_Namespace cfg)" "nulFree (cfg_Path cfg)"
  shows "repo_inv (entryWritten (cfg_Namespace cfg) (cfg_Path cfg)
     (normMeta (DomainToConfigMeta (createdConfig E now (revOf d + 1) cfg))) c row d)"
  using assms counter_revOf(2) [OF repo_invD(2) [OF assms(1)]]
  by (intro entryWritten_inv) (simp_all add: DomainToConfigMeta_def)

lemma written_updatedConfig_inv:
  assumes "repo_inv d" "room d" "nulFree (cfg_Namespace cfg)" "nulFree (cfg_Path cfg)"
    "metaAt d (cfg_Namespace cfg) (cfg_Path cfg) = Some m"
  shows "repo_inv (entryWritten (cfg_Namespace cfg) (cfg_Path cfg)
     (normMeta (DomainToConfigMeta (updatedConfig E now (revOf d + 1) m cfg))) c row d)"
  using assms metaAt_bounds [OF assms(1,5)] next_version_in_range [OF assms(1,2,5)]
  by (intro entryWritten_inv) (simp_all add: DomainToConfigMeta_def)

lemma written_putMeta_inv:
  assumes "repo_inv d" "room d" "nulFree ns" "nulFree p"
  shows "repo_inv (entryWritten ns p (normMeta (putMeta E now p' v (revOf d + 1) (metaAt d ns p))) c row d)"
proof (cases "metaAt d ns p")
  case None
  with assms counter_revOf(2) [OF repo_invD(2) [OF assms(1)]] show ?thesis
    by (intro entryWritten_inv) (simp_all add: putMeta_def)
next
  case (Some m)
  with assms metaAt_bounds [OF assms(1) Some] next_version_in_range [OF assms(1,2) Some] show ?thesis
    by (intro entryWritten_inv) (simp_all add: putMeta_def)
qed

end
