(* ===== verification/RepoRange.thy ===== *)
theory RepoRange
  imports RepoOps
begin

text \<open>
  Ranges over the meta bucket: which rows a range read or a range deletion visits, what the
  two return, and the effect of a range deletion and of the lock toggle on the database.
\<close>

section \<open>The rows of a range\<close>

definition inRange :: "rangeParams \<Rightarrow> bytes \<Rightarrow> bool" where
  "inRange rp k \<longleftrightarrow> rp_startKey rp \<le> k \<and> \<not> shouldBreakRange k rp"

definition rangeRows :: "rangeParams \<Rightarrow> bucket \<Rightarrow> bucket" where
  "rangeRows rp b = takeWhile (\<lambda>e. \<not> shouldBreakRange (fst e) rp) (seekFrom (rp_startKey rp) b)"

lemma rangeRows_filter:
  assumes "ascending b"
  shows "rangeRows rp b = filter (\<lambda>e. inRange rp (fst e)) b"
proof -
  let ?seek = "filter (\<lambda>e. rp_startKey rp \<le> fst e) b"
  have seek: "seekFrom (rp_startKey rp) b = ?seek"
    using assms by (simp add: seekFrom_def dropWhile_ascending)
  have "sorted_wrt (\<lambda>x y. fst x < fst y) ?seek"
    using ascending_filter [OF assms, of "\<lambda>e. rp_startKey rp \<le> fst e"] by (simp add: sorted_wrt_map)
  then have "sorted_wrt (\<lambda>x y. fst x < fst y \<and> rp_startKey rp \<le> fst x) ?seek"
    by (rule sorted_wrt_mono_rel [rotated]) auto
  then have "takeWhile (\<lambda>e. \<not> shouldBreakRange (fst e) rp) ?seek =
      filter (\<lambda>e. \<not> shouldBreakRange (fst e) rp) ?seek"
    by (rule takeWhile_downward) (auto simp: shouldBreakRange_def split: if_splits)
  then show ?thesis
    by (simp add: rangeRows_def seek inRange_def filter_filter conj_commute)
qed

lemma rangeRows_meta:
  assumes inv: "repo_inv d" and mem: "(k, v) \<in> set (rangeRows rp (bkt d bucketMeta))"
  shows "dget d bucketMeta k = Some v" "inRange rp k" "\<exists>ns p m. k = configKey ns p \<and>
    nulFree ns \<and> nulFree p \<and> v = JConfigMeta m \<and> metaAt d ns p = Some m"
proof -
  have asc: "ascending (bkt d bucketMeta)" using repo_invD(1) [OF inv] by (simp add: present_ascending)
  with mem show kv: "dget d bucketMeta k = Some v" and "inRange rp k"
    by (auto simp: rangeRows_filter dget_def ascending_map_of)
  from dget_meta [OF inv kv] obtain ns p m where
    row: "k = configKey ns p" "nulFree ns" "nulFree p" "v = JConfigMeta m"
    by (rule meta_row_okE)
  with kv have "metaAt d ns p = Some m" by (simp add: metaAt_def)
  with row show "\<exists>ns p m. k = configKey ns p \<and>
      nulFree ns \<and> nulFree p \<and> v = JConfigMeta m \<and> metaAt d ns p = Some m"
    by blast
qed

section \<open>Range deletion\<close>

definition targetOf :: "database \<Rightarrow> bool \<Rightarrow> bytes \<times> val \<Rightarrow> deleteTarget" where
  "targetOf d returnPrev e =
     (case parseConfigKey (fst e) of (ns, p) \<Rightarrow>
        \<lparr>dt_key = fst e,
         dt_kv = (if returnPrev then the (prevKV d ns p)
                  else \<lparr>kv_Namespace = ns, kv_Path = p, kv_Value = [], kv_CreateRevision = 0,
                        kv_ModRevision = 0, kv_Version = 0\<rparr>)\<rparr>)"

definition lockedRow :: "bytes \<times> val \<Rightarrow> bool" where
  "lockedRow e = (case snd e of JConfigMeta m \<Rightarrow> m_Locked m | _ \<Rightarrow> False)"

lemma lockedRow_meta [simp]: "lockedRow (k, JConfigMeta m) = m_Locked m"
  by (simp add: lockedRow_def)

definition wellTyped :: "database \<Rightarrow> bytes \<times> val \<Rightarrow> bool" where
  "wellTyped d e \<longleftrightarrow> (\<exists>ns p m. fst e = configKey ns p \<and> nulFree ns \<and> nulFree p \<and>
     snd e = JConfigMeta m \<and> metaAt d ns p = Some m)"

lemma collectDeleteTargetsLoop_eq:
  assumes "\<And>e. e \<in> set (takeWhile (\<lambda>e. \<not> shouldBreakRange (fst e) rp) xs) \<Longrightarrow> wellTyped (buckets w) e"
  shows "collectDeleteTargetsLoop rp prev w xs =
     (let rows = takeWhile (\<lambda>e. \<not> shouldBreakRange (fst e) rp) xs in
      case find lockedRow rows of
        Some e \<Rightarrow> Inl (ErrLocked (snd (parseConfigKey (fst e))))
      | None \<Rightarrow> Inr (map (targetOf (buckets w) prev) rows))"
  using assms
proof (induction xs)
  case (Cons e xs)
  obtain k v where e: "e = (k, v)" by (cases e)
  show ?case
  proof (cases "shouldBreakRange k rp")
    case False
    with Cons.prems [of e] e obtain ns p m where kv: "k = configKey ns p" "nulFree ns" "v = JConfigMeta m"
        "metaAt (buckets w) ns p = Some m"
      by (auto simp: wellTyped_def)
    have IH: "collectDeleteTargetsLoop rp prev w xs =
       (let rows = takeWhile (\<lambda>e. \<not> shouldBreakRange (fst e) rp) xs in
        case find lockedRow rows of
          Some e \<Rightarrow> Inl (ErrLocked (snd (parseConfigKey (fst e))))
        | None \<Rightarrow> Inr (map (targetOf (buckets w) prev) rows))"
      using Cons.prems False e by (intro Cons.IH) simp
    from kv(2) have parse: "parseConfigKey (configKey ns p) = (ns, p)" by (rule parse_configKey)
    show ?thesis
    proof (cases "m_Locked m")
      case True
      with False e kv parse show ?thesis
        by (simp add: configMetaCodec_def NewLockedError_def)
    next
      case unlocked: False
      with False e kv parse show ?thesis
        by (simp add: IH Let_def configMetaCodec_def targetOf_def prevKV_def
            bucket_Get_dget contentAt_def split: option.split)
    qed
  qed (simp add: e)
qed simp

lemma collectDeleteTargets_eq:
  assumes "repo_inv (buckets w)"
  shows "collectDeleteTargets rp prev (TxQuerier wr) w =
     (let rows = rangeRows rp (bkt (buckets w) bucketMeta) in
      case find lockedRow rows of
        Some e \<Rightarrow> Inl (ErrLocked (snd (parseConfigKey (fst e))))
      | None \<Rightarrow> Inr (map (targetOf (buckets w) prev) rows))"
  unfolding collectDeleteTargets_def rangeRows_def bucket_Cursor_bkt
proof (rule collectDeleteTargetsLoop_eq)
  fix e
  assume "e \<in> set (takeWhile (\<lambda>e. \<not> shouldBreakRange (fst e) rp)
     (seekFrom (rp_startKey rp) (bkt (buckets w) bucketMeta)))"
  then have "(fst e, snd e) \<in> set (rangeRows rp (bkt (buckets w) bucketMeta))"
    by (simp add: rangeRows_def)
  from rangeRows_meta(3) [OF assms this] show "wellTyped (buckets w) e"
    by (simp add: wellTyped_def)
qed

text \<open>The changelog rows that a range deletion writes, one after the other, under one revision.\<close>

definition deleteRow :: "time \<Rightarrow> deleteTarget \<Rightarrow> ChangelogRow" where
  "deleteRow t tgt = \<lparr>row_Type = EventTypeDeleted, row_Path = kv_Path (dt_kv tgt),
     row_Namespace = kv_Namespace (dt_kv tgt), row_Version = 0, row_Timestamp = t\<rparr>"

fun deleteRows :: "env \<Rightarrow> nat \<Rightarrow> deleteTarget list \<Rightarrow> (bytes \<times> ChangelogRow) list" where
  "deleteRows E t [] = []"
| "deleteRows E t (x # xs) = (dt_key x, deleteRow (clock E t) x) # deleteRows E (Suc t) xs"

lemma deleteRows_keys [simp]: "map fst (deleteRows E t xs) = map dt_key xs"
  by (induction xs arbitrary: t) auto

lemma deleteRows_Nil [simp]: "deleteRows E t xs = [] \<longleftrightarrow> xs = []"
  by (cases xs) auto

lemma deleteRows_last:
  "xs \<noteq> [] \<Longrightarrow> \<exists>t'. snd (last (deleteRows E t xs)) = deleteRow t' (last xs)"
  by (induction xs arbitrary: t) auto

lemma deleteTargetsLoop_Inr:
  "deleteTargetsLoop E q r ts w = (Inr kvs, w') \<Longrightarrow>
     kvs = map dt_kv ts \<and>
     buckets w' = fold (\<lambda>(k, row). entryDeleted k r row) (deleteRows E (ticks w) ts) (buckets w)"
proof (induction ts arbitrary: w kvs)
  case (Cons t ts)
  from Cons.prems obtain w1 w2 w3 u1 u2 u3 kvs' where
    w1: "bucket_Delete E q bucketContent (dt_key t) w = (Inr u1, w1)" and
    w2: "bucket_Delete E q bucketMeta (dt_key t) w1 = (Inr u2, w2)" and
    w3: "writeChangelog E q r EventTypeDeleted (kv_Path (dt_kv t)) (kv_Namespace (dt_kv t)) 0 w2 = (Inr u3, w3)" and
    w4: "deleteTargetsLoop E q r ts w3 = (Inr kvs', w')" and kvs: "kvs = dt_kv t # kvs'"
    by (auto simp: bind_inversion)
  from Delete_Inr [OF w1] Delete_Inr [OF w2] writeChangelog_Inr [OF w3]
  have "buckets w3 = entryDeleted (dt_key t) r (deleteRow (clock E (ticks w)) t) (buckets w)"
    "ticks w3 = Suc (ticks w)"
    by (simp_all add: entryDeleted_def deleteRow_def)
  with Cons.IH [OF w4] kvs show ?case by simp
qed simp

lemma deleteRangeKeysTx_Inr:
  assumes ok: "deleteRangeKeysTx E (TxQuerier wr) rp startNS prev w = (Inr (kvs, r), w')"
    and inv: "repo_inv (buckets w)" and "room (buckets w)"
  defines "rows \<equiv> rangeRows rp (bkt (buckets w) bucketMeta)"
  shows "\<not> nsLocked (buckets w) startNS" "\<forall>e \<in> set rows. \<not> lockedRow e"
    "kvs = map (dt_kv \<circ> targetOf (buckets w) prev) rows"
    "rows = [] \<Longrightarrow> r = 0 \<and> w' = w"
    "rows \<noteq> [] \<Longrightarrow> r = revOf (buckets w) + 1 \<and> buckets w' =
       entriesDeleted (deleteRows E (ticks w) (map (targetOf (buckets w) prev) rows)) r (buckets w)"
proof -
  note eqs = read_eqs [OF inv] next_revision_in_range [OF inv assms(3)] collectDeleteTargets_eq [OF inv]
  from ok have body: "\<not> nsLocked (buckets w) startNS" "find lockedRow rows = None"
    "(if map (targetOf (buckets w) prev) rows = [] then returnT ([], 0)
      else bindT (nextRevision E (TxQuerier wr)) (\<lambda>revision.
        bindT (deleteTargetsLoop E (TxQuerier wr) revision (map (targetOf (buckets w) prev) rows))
          (\<lambda>kvs. returnT (kvs, revision)))) w = (Inr (kvs, r), w')"
    by (auto simp: deleteRangeKeysTx_def bind_inversion eqs Let_def rows_def split: if_splits option.splits)
  show "\<not> nsLocked (buckets w) startNS" "\<forall>e \<in> set rows. \<not> lockedRow e"
    using body(1,2) by (auto simp: find_None_iff)
  show "rows = [] \<Longrightarrow> r = 0 \<and> w' = w" using body(3) by simp
  have some: "r = revOf (buckets w) + 1 \<and> kvs = map dt_kv (map (targetOf (buckets w) prev) rows) \<and>
      buckets w' = entriesDeleted (deleteRows E (ticks w) (map (targetOf (buckets w) prev) rows)) r (buckets w)"
    if "rows \<noteq> []"
  proof -
    from that body(3) obtain w1 where
      w1: "nextRevision E (TxQuerier wr) w = (Inr r, w1)" and
      w2: "deleteTargetsLoop E (TxQuerier wr) r (map (targetOf (buckets w) prev) rows) w1 = (Inr kvs, w')"
      by (auto simp: bind_inversion)
    from nextRevision_Inr [OF w1] deleteTargetsLoop_Inr [OF w2] eqs show ?thesis
      by (simp add: entriesDeleted_def)
  qed
  then show "kvs = map (dt_kv \<circ> targetOf (buckets w) prev) rows"
    using body(3) by (cases "rows = []") auto
  from some show "rows \<noteq> [] \<Longrightarrow> r = revOf (buckets w) + 1 \<and> buckets w' =
       entriesDeleted (deleteRows E (ticks w) (map (targetOf (buckets w) prev) rows)) r (buckets w)"
    by blast
qed

end
