(* ===== verification/RepoReads.thy ===== *)
theory RepoReads
  imports RepoRange
begin

text \<open>
  What the reads return from a well-formed database: a range read returns exactly the live
  keys of the range in key order, cut to the limit; a lookup at a revision returns the content
  written by the newest revision not after it.
\<close>

section \<open>Range reads\<close>

definition rowKV :: "int64 \<Rightarrow> bool \<Rightarrow> querier \<Rightarrow> 'z world_scheme \<Rightarrow> bytes \<times> val \<Rightarrow> KVPair option" where
  "rowKV revision keysOnly q w e =
     (case parseConfigKey (fst e) of (ns, p) \<Rightarrow>
      case Unmarshal configMetaCodec (snd e) of
        None \<Rightarrow> None
      | Some m \<Rightarrow>
          map_option (\<lambda>(val, modRev).
            \<lparr>kv_Namespace = ns, kv_Path = p, kv_Value = val, kv_CreateRevision = m_CreateRevision m,
             kv_ModRevision = modRev, kv_Version = m_Version m\<rparr>)
            (readKVValue (fst e) ns p m revision keysOnly q w))"

definition rangeKVs :: "int64 \<Rightarrow> bool \<Rightarrow> querier \<Rightarrow> 'z world_scheme \<Rightarrow> bucket \<Rightarrow> KVPair list" where
  "rangeKVs revision keysOnly q w rows = List.map_filter (rowKV revision keysOnly q w) rows"

lemma rangeKVs_simps [simp]:
  "rangeKVs revision keysOnly q w [] = []"
  "rangeKVs revision keysOnly q w (e # es) =
     (case rowKV revision keysOnly q w e of
        None \<Rightarrow> rangeKVs revision keysOnly q w es
      | Some kv \<Rightarrow> kv # rangeKVs revision keysOnly q w es)"
  by (simp_all add: rangeKVs_def List.map_filter_def split: option.splits)

lemma take_within:
  "limit \<le> 0 \<or> int (length xs) < limit \<Longrightarrow> (if limit > 0 then take (nat limit) xs else xs) = xs"
  by auto

lemma rangeLoop_spec:
  assumes "\<And>e. e \<in> set (takeWhile (\<lambda>e. \<not> shouldBreakRange (fst e) rp) xs) \<Longrightarrow> \<exists>m. snd e = JConfigMeta m"
    and "limit \<le> 0 \<or> int (length res) < limit"
  shows "\<exists>more. rangeLoop rp limit revision keysOnly q w xs res =
      Inr (let ys = res @ rangeKVs revision keysOnly q w (takeWhile (\<lambda>e. \<not> shouldBreakRange (fst e) rp) xs)
           in if limit > 0 then take (nat limit) ys else ys, more) \<and>
      (\<not> more \<longrightarrow> limit \<le> 0 \<or>
        int (length (res @ rangeKVs revision keysOnly q w
          (takeWhile (\<lambda>e. \<not> shouldBreakRange (fst e) rp) xs))) \<le> limit)"
  using assms
proof (induction xs arbitrary: res)
  case Nil
  from Nil.prems(2) show ?case
    by (intro exI [of _ False]) (simp add: take_within Let_def, linarith)
next
  case (Cons e xs)
  obtain k v where e: "e = (k, v)" by (cases e)
  show ?case
  proof (cases "shouldBreakRange k rp")
    case True
    with Cons.prems(2) show ?thesis
      by (intro exI [of _ False]) (simp add: e take_within Let_def, linarith)
  next
    case False
    with Cons.prems(1) [of e] obtain m where v: "v = JConfigMeta m" by (auto simp: e)
    obtain ns p where parse: "parseConfigKey k = (ns, p)" by fastforce
    note IH = Cons.IH [OF Cons.prems(1)]
    show ?thesis
    proof (cases "readKVValue k ns p m revision keysOnly q w")
      case None
      with False v parse IH [of res] Cons.prems(2) show ?thesis
        by (simp add: e rowKV_def configMetaCodec_def Let_def)
    next
      case (Some vm)
      obtain val mr where vm: "vm = (val, mr)" by (cases vm)
      let ?kv = "\<lparr>kv_Namespace = ns, kv_Path = p, kv_Value = val, kv_CreateRevision = m_CreateRevision m,
             kv_ModRevision = mr, kv_Version = m_Version m\<rparr>"
      show ?thesis
      proof (cases "limit > 0 \<and> int (length (res @ [?kv])) \<ge> limit")
        case True
        with Cons.prems(2) have lim: "limit = int (length res) + 1" by auto
        then have n: "nat limit = Suc (length res)" by simp
        have loop: "rangeLoop rp limit revision keysOnly q w (e # xs) res = Inr (res @ [?kv], xs \<noteq> [])"
          using True False v parse Some vm by (simp add: e configMetaCodec_def)
        have kvs: "rangeKVs revision keysOnly q w (takeWhile (\<lambda>e. \<not> shouldBreakRange (fst e) rp) (e # xs))
            = ?kv # rangeKVs revision keysOnly q w (takeWhile (\<lambda>e. \<not> shouldBreakRange (fst e) rp) xs)"
          using False v parse Some vm by (simp add: e rowKV_def configMetaCodec_def)
        have "take (nat limit) (res @ ?kv # zs) = res @ [?kv]" for zs by (simp add: n)
        then show ?thesis
          unfolding loop kvs Let_def using lim by (intro exI [of _ "xs \<noteq> []"]) simp
      next
        case more: False
        then have "limit \<le> 0 \<or> int (length (res @ [?kv])) < limit" by auto
        with more False v parse Some vm IH [of "res @ [?kv]"] show ?thesis
          by (auto simp: e rowKV_def configMetaCodec_def Let_def)
      qed
    qed
  qed
qed

lemma RangeQuery_tx_spec:
  assumes "repo_inv (buckets w)"
  shows "\<exists>more. RangeQuery_tx sNS sP eNS eP limit revision keysOnly (TxQuerier wr) w =
      Inr (let ys = rangeKVs revision keysOnly (TxQuerier wr) w
             (rangeRows (buildRangeParams sNS sP eNS eP) (bkt (buckets w) bucketMeta))
           in if limit > 0 then take (nat limit) ys else ys, more) \<and>
      (\<not> more \<longrightarrow> limit \<le> 0 \<or> int (length (rangeKVs revision keysOnly (TxQuerier wr) w
             (rangeRows (buildRangeParams sNS sP eNS eP) (bkt (buckets w) bucketMeta)))) \<le> limit)"
proof -
  let ?rp = "buildRangeParams sNS sP eNS eP"
  have "\<exists>m. snd e = JConfigMeta m" if "e \<in> set (takeWhile (\<lambda>e. \<not> shouldBreakRange (fst e) ?rp)
      (seekFrom (rp_startKey ?rp) (bkt (buckets w) bucketMeta)))" for e
    using that rangeRows_meta(3) [OF assms(1), of "fst e" "snd e" ?rp] by (auto simp: rangeRows_def)
  from rangeLoop_spec [OF this, where res = "[]" and w = w and limit = limit and revision = revision
      and keysOnly = keysOnly and q = "TxQuerier wr"]
  show ?thesis
    by (auto simp: RangeQuery_tx_def Let_def rangeRows_def)
qed

section \<open>Reads at a revision\<close>

lemma seekAt_exact:
  assumes "ascending b"
  shows "map_of b s = Some v \<Longrightarrow> seekAt s b = Some (s, v)"
    "map_of b s = None \<Longrightarrow> seekAt s b \<noteq> Some (s, v)"
proof -
  have seek: "seekFrom s b = filter (\<lambda>e. s \<le> fst e) b"
    using assms by (simp add: seekFrom_def dropWhile_ascending)
  have asc: "ascending (seekFrom s b)" by (simp add: seek ascending_filter assms)
  show "seekAt s b = Some (s, v)" if "map_of b s = Some v"
  proof -
    from that assms have mem: "(s, v) \<in> set (seekFrom s b)" by (simp add: seek ascending_map_of)
    obtain e es where l: "seekFrom s b = e # es" using mem by (cases "seekFrom s b") auto
    have "e \<in> set (filter (\<lambda>e. s \<le> fst e) b)" using l by (simp add: seek [symmetric])
    then have "s \<le> fst e" by simp
    moreover have "e = (s, v) \<or> fst e < s" using mem asc l by force
    ultimately show ?thesis by (auto simp: seekAt_def l)
  qed
  show "seekAt s b \<noteq> Some (s, v)" if "map_of b s = None"
  proof
    assume "seekAt s b = Some (s, v)"
    then have "(s, v) \<in> set (seekFrom s b)" by (auto simp: seekAt_def split: list.splits)
    then have "(s, v) \<in> set b" by (simp add: seek)
    with that show False by (metis domIff domI assms ascending_map_of)
  qed
qed

lemma seekRevision_eq:
  assumes "ascending b" "prefix pre s"
  shows "seekRevision s pre b =
     (case map_of b s of
        Some v \<Rightarrow> Some (s, v)
      | None \<Rightarrow> (case seekPrev s b of
                   Some (k, v) \<Rightarrow> if prefix pre k then Some (k, v) else None
                 | None \<Rightarrow> None))"
proof (cases "map_of b s")
  case None
  have "(case seekAt s b of None \<Rightarrow> seekPrev s b
     | Some (k, v) \<Rightarrow> if \<not> prefix pre k then seekPrev s b
                      else if k \<noteq> s then seekPrev s b else Some (k, v)) = seekPrev s b"
    using seekAt_exact(2) [OF assms(1) None] by (auto split: option.split)
  with None show ?thesis by (simp add: seekRevision_def split: option.splits)
next
  case (Some v)
  with seekAt_exact(1) [OF assms(1) Some] assms(2) show ?thesis by (simp add: seekRevision_def)
qed

definition historyAt :: "database \<Rightarrow> string \<Rightarrow> string \<Rightarrow> int64 \<Rightarrow> bytes option" where
  "historyAt d ns p r =
     (if 1 \<le> r \<and> r \<le> revOf d
      then map_option (\<lambda>v. rawBytes (Some v)) (dget d bucketHistory (historyKey ns p r)) else None)"

lemma seekRevision_Some:
  assumes asc: "ascending b" and "prefix pre s" and some: "seekRevision s pre b = Some (k, v)"
  shows "map_of b k = Some v" "k \<le> s" "prefix pre k"
    "\<And>k'. k' \<le> s \<Longrightarrow> map_of b k' \<noteq> None \<Longrightarrow> k' \<le> k"
proof -
  show "map_of b k = Some v" "k \<le> s" "prefix pre k"
    using some assms(2)
    by (auto simp: seekRevision_eq [OF assms(1,2)] split: option.splits if_splits
        dest: alb.seek_prev_Some(1,2) [OF asc] intro: less_imp_le)
  show "k' \<le> k" if k': "k' \<le> s" "map_of b k' \<noteq> None" for k'
  proof (cases "map_of b s")
    case None
    with k' have "k' < s" by (cases "k' = s") auto
    moreover from None some have "seekPrev s b = Some (k, v)"
      by (auto simp: seekRevision_eq [OF assms(1,2)] split: option.splits if_splits)
    ultimately show ?thesis using alb.seek_prev_Some(3) [OF asc] k'(2) by blast
  next
    case (Some v')
    with some k' show ?thesis by (simp add: seekRevision_eq [OF assms(1,2)])
  qed
qed

lemma seekRevision_None:
  assumes asc: "ascending b" and pre: "prefix pre s" and none: "seekRevision s pre b = None"
    and k: "prefix pre k" "k \<le> s"
  shows "map_of b k = None"
proof (rule ccontr)
  assume some: "map_of b k \<noteq> None"
  from none have s: "map_of b s = None" by (auto simp: seekRevision_eq [OF asc pre] split: option.splits)
  with some k have "k < s" by (cases "k = s") auto
  with some obtain k' v' where k': "seekPrev s b = Some (k', v')"
    using alb.seek_prev_None [OF asc, of s] by (cases "seekPrev s b") auto
  with none s have "\<not> prefix pre k'"
    by (auto simp: seekRevision_eq [OF asc pre] split: option.splits if_splits)
  moreover have "k \<le> k'" "k' \<le> s"
    using alb.seek_prev_Some [OF asc k'] \<open>k < s\<close> some by auto
  then have "prefix pre k'" using prefix_interval [OF pre] prefix_le [OF k(1)] by auto
  ultimately show False by blast
qed

lemma history_key_of_prefix:
  assumes "repo_inv d" "nulFree ns" "nulFree p" "dget d bucketHistory k = Some v"
    "prefix (historyPrefix ns p) k"
  obtains r c where "k = historyKey ns p r" "1 \<le> r" "r \<le> revOf d" "in_int64 r" "v = Raw c"
proof -
  from dget_history [OF assms(1,4)] obtain ns' p' r c where *: "nulFree ns'" "nulFree p'"
      "k = historyKey ns' p' r" "1 \<le> r" "r \<le> revOf d" "v = Raw c"
    by (auto simp: history_row_ok_def)
  with assms have "ns' = ns" "p' = p" by (auto simp: historyKey_prefix)
  moreover have "in_int64 r"
    using counter_revOf(4) [OF repo_invD(2) [OF assms(1)]] * by (auto intro: in_int64_le)
  ultimately show ?thesis using * that by blast
qed

lemma lookupHistory_spec:
  assumes inv: "repo_inv (buckets w)" and names: "nulFree ns" "nulFree p"
    and r: "0 \<le> revision" "in_int64 revision"
  shows "lookupHistoryAtRevision ns p revision (TxQuerier wr) w = Some c \<longleftrightarrow>
    (\<exists>r \<le> revision. historyAt (buckets w) ns p r = Some c \<and>
       (\<forall>r'. r < r' \<and> r' \<le> revision \<longrightarrow> historyAt (buckets w) ns p r' = None))"
    (is "?lookup = Some c \<longleftrightarrow> ?newest c")
proof -
  let ?d = "buckets w" and ?s = "historyKey ns p revision" and ?pre = "historyPrefix ns p"
  let ?b = "bkt ?d bucketHistory"
  have asc: "ascending ?b" using repo_invD(1) [OF inv] by (simp add: present_ascending)
  have pre: "prefix ?pre ?s" by (simp add: historyKey_def)
  have le: "historyKey ns p r \<le> ?s \<longleftrightarrow> r \<le> revision" if "1 \<le> r" "in_int64 r" for r
    using that assms by (simp add: historyKey_le)
  show ?thesis
  proof (cases "seekRevision ?s ?pre ?b")
    case None
    have "historyAt ?d ns p r = None" if "r \<le> revision" for r
    proof (cases "1 \<le> r \<and> r \<le> revOf ?d")
      case True
      then have "in_int64 r"
        using counter_revOf(4) [OF repo_invD(2) [OF inv]] by (auto intro: in_int64_le)
      with True that le have "historyKey ns p r \<le> ?s" by simp
      then have "map_of ?b (historyKey ns p r) = None"
        by (intro seekRevision_None [OF asc pre None]) (simp_all add: historyKey_def)
      then show ?thesis by (simp add: historyAt_def dget_def)
    qed (auto simp: historyAt_def)
    with None show ?thesis by (auto simp: lookupHistoryAtRevision_def)
  next
    case (Some kv)
    obtain k v where kv: "kv = (k, v)" by (cases kv)
    note S = seekRevision_Some [OF asc pre Some [unfolded kv]]
    then obtain r0 c0 where k: "k = historyKey ns p r0" "1 \<le> r0" "r0 \<le> revOf ?d" "in_int64 r0" "v = Raw c0"
      using history_key_of_prefix [OF inv names, of k v] by (auto simp: dget_def)
    have newest: "historyAt ?d ns p r0 = Some c0" "r0 \<le> revision"
      using S k le [of r0] by (simp_all add: historyAt_def dget_def rawBytes_def)
    have none: "historyAt ?d ns p r' = None" if "r0 < r'" "r' \<le> revision" for r'
    proof (rule ccontr)
      assume "historyAt ?d ns p r' \<noteq> None"
      then have r': "1 \<le> r'" "r' \<le> revOf ?d" "map_of ?b (historyKey ns p r') \<noteq> None"
        by (auto simp: historyAt_def dget_def split: if_splits)
      then have "in_int64 r'"
        using counter_revOf(4) [OF repo_invD(2) [OF inv]] by (auto intro: in_int64_le)
      with r' that le have "historyKey ns p r' \<le> k" by (intro S(4)) simp_all
      with k r' that \<open>in_int64 r'\<close> show False by (simp add: historyKey_le)
    qed
    have "?newest c \<longleftrightarrow> c = c0"
    proof
      assume "?newest c"
      then obtain r where r: "r \<le> revision" "historyAt ?d ns p r = Some c"
        "\<And>r'. r < r' \<Longrightarrow> r' \<le> revision \<Longrightarrow> historyAt ?d ns p r' = None" by blast
      have "r = r0"
        using none [of r] r newest by (cases r r0 rule: linorder_cases) auto
      with r newest show "c = c0" by simp
    qed (use newest none in blast)
    with Some kv k show ?thesis by (auto simp: lookupHistoryAtRevision_def rawBytes_def)
  qed
qed

end
