(* ===== verification/RepoLocks.thy ===== *)
theory RepoLocks
  imports RepoReads
begin

text \<open>
  The lock toggle: its effect on the database, that it keeps the invariant, and what the lock
  does and does not change; and the progress lemmas, which show that the write transactions
  reach their end when the engine fails no call.
\<close>

section \<open>Writes outside the invariant's view\<close>

lemma repo_inv_cong:
  assumes "repo_inv d" "present d'"
    and sys: "dget d' bucketSys sysRevisionKeyName = dget d bucketSys sysRevisionKeyName"
    and same: "\<And>n k. n \<in> {bucketMeta, bucketContent, bucketHistory, bucketChangelog, bucketNamespaces} \<Longrightarrow>
      dget d' n k = dget d n k"
  shows "repo_inv d'"
proof -
  have rev: "revOf d' = revOf d" by (simp add: revOf_def sys)
  have "meta_row_ok d' = meta_row_ok d" "history_row_ok d' = history_row_ok d"
    "changelog_row_ok d' = changelog_row_ok d"
    by (simp_all add: fun_eq_iff meta_row_ok_def history_row_ok_def changelog_row_ok_def rev same)
  with assms show ?thesis
    by (simp add: repo_inv_def counter_ok_def rows_ok_def content_ok_def changelog_complete_def
        namespaces_ok_def rev)
qed

lemma repo_inv_lock_rows:
  assumes "repo_inv d"
  shows "repo_inv (dbput bucketLockHistory k v d)" "repo_inv (dbput bucketLockChangelog k v d)"
    "repo_inv (dbput bucketSys sysLockSeqKeyName v d)"
  by (rule repo_inv_cong [OF assms], use repo_invD(1) [OF assms] in auto)+

lemma repo_inv_relock:
  assumes inv: "repo_inv d" and m: "metaAt d ns p = Some m" and names: "nulFree ns" "nulFree p"
    and same: "m_Revision m' = m_Revision m" "m_CreateRevision m' = m_CreateRevision m"
      "m_Version m' = m_Version m"
  shows "repo_inv (dbput bucketMeta (configKey ns p) (JConfigMeta m') d)" (is "repo_inv ?d")
proof -
  note D = repo_invD [OF inv]
  have rev: "revOf ?d = revOf d" by (simp add: revOf_def)
  have key: "dget d bucketMeta (configKey ns p) = Some (JConfigMeta m)"
    using inv m by (simp add: dget_metaAt)
  have "rows_ok meta_row_ok bucketMeta ?d"
    unfolding rows_ok_def
  proof (intro allI impI)
    fix k v assume kv: "dget ?d bucketMeta k = Some v"
    show "meta_row_ok ?d k v"
    proof (cases "k = configKey ns p")
      case True
      from dget_meta [OF inv key] obtain ns0 p0 c where row: "nulFree ns0" "nulFree p0"
          "configKey ns p = configKey ns0 p0"
          "1 \<le> m_CreateRevision m" "m_CreateRevision m \<le> m_Revision m"
          "m_Revision m \<le> revOf d" "dget d bucketContent (configKey ns0 p0) = Some (Raw c)"
          "dget d bucketHistory (historyKey ns0 p0 (m_Revision m)) = Some (Raw c)"
          "\<And>r. m_Revision m < r \<Longrightarrow> r \<le> revOf d \<Longrightarrow> dget d bucketHistory (historyKey ns0 p0 r) = None"
          "1 \<le> m_Version m" "m_Version m \<le> m_Revision m"
        by (rule meta_row_okE) (blast dest: val.inject(2) [THEN iffD1])
      have "ns0 = ns" "p0 = p" using row(1,3) names(1) by (simp_all add: configKey_inj)
      with row names same rev have "meta_row_ok ?d (configKey ns p) (JConfigMeta m')"
        by (intro meta_row_okI [where c = c]) simp_all
      with True kv show ?thesis by simp
    next
      case False
      with kv D(3) have "meta_row_ok d k v" by (simp add: rows_ok_def)
      then show ?thesis by (simp add: meta_row_ok_def rev)
    qed
  qed
  moreover have "content_ok ?d" using D(4) key by (auto simp: content_ok_def)
  ultimately show ?thesis
    using D by (simp add: repo_inv_def counter_ok_def rows_ok_def history_row_ok_def changelog_row_ok_def
        changelog_complete_def namespaces_ok_def rev)
qed

section \<open>The lock toggle\<close>

lemma nextLockSeq_Inr:
  "nextLockSeq E q w = (Inr s, w') \<Longrightarrow>
     w' = w\<lparr>buckets := dbput bucketSys sysLockSeqKeyName (Raw (revisionBytes s)) (buckets w)\<rparr>"
  by (auto simp: nextLockSeq_def Let_def bind_inversion dest!: Put_Inr)

definition lockEvent :: "bool \<Rightarrow> EventType" where
  "lockEvent locked = (if locked then EventTypeLocked else EventTypeUnlocked)"

text \<open>The database after a lock changed: the flag, the sequence counter and the two lock logs.\<close>

definition lockToggled ::
  "string \<Rightarrow> string \<Rightarrow> ConfigMeta \<Rightarrow> bool \<Rightarrow> int64 \<Rightarrow> time \<Rightarrow> database \<Rightarrow> database" where
  "lockToggled ns p m locked s t d =
     dbput bucketLockChangelog (revisionBytes s)
       (JChangelog \<lparr>row_Type = lockEvent locked, row_Path = p, row_Namespace = ns, row_Version = 0,
          row_Timestamp = t\<rparr>)
      (dbput bucketLockHistory (historyPrefix ns p @ revisionBytes s)
        (JLockHistory \<lparr>lh_Type = lockEvent locked, lh_Timestamp = t\<rparr>)
       (dbput bucketSys sysLockSeqKeyName (Raw (revisionBytes s))
        (dbput bucketMeta (configKey ns p) (JConfigMeta (normMeta (m\<lparr>m_Locked := locked\<rparr>))) d)))"

lemma toggleConfigLockTx_Inr:
  assumes "toggleConfigLockTx E q ns p locked w = (Inr u, w')" and inv: "repo_inv (buckets w)"
  shows "\<exists>m. metaAt (buckets w) ns p = Some m \<and> \<not> nsLocked (buckets w) ns \<and>
     (if m_Locked m = locked then w' = w
      else \<exists>s t. buckets w' = lockToggled ns p m locked s t (buckets w))"
proof -
  note eqs = read_eqs [OF inv]
  from assms(1) obtain m where
    m: "metaAt (buckets w) ns p = Some m" "\<not> nsLocked (buckets w) ns" and
    body: "(if m_Locked m = locked then returnT ()
       else bindT (boltPut E configMetaCodec q bucketMeta (configKey ns p) (m\<lparr>m_Locked := locked\<rparr>))
         (\<lambda>_. writeLockHistory E q ns p (lockEvent locked))) w = (Inr u, w')"
    by (auto simp: toggleConfigLockTx_def bind_inversion Let_def eqs lockEvent_def split: if_splits option.splits)
  show ?thesis
  proof (cases "m_Locked m = locked")
    case True
    with m body show ?thesis by simp
  next
    case False
    with body obtain w1 w2 w3 s u1 u3 where
      w1: "boltPut E configMetaCodec q bucketMeta (configKey ns p) (m\<lparr>m_Locked := locked\<rparr>) w = (Inr u1, w1)" and
      w2: "nextLockSeq E q w1 = (Inr s, w2)" and
      w3: "boltPut E lockHistoryCodec q bucketLockHistory (historyPrefix ns p @ revisionBytes s)
         \<lparr>lh_Type = lockEvent locked, lh_Timestamp = clock E (ticks w2)\<rparr> (w2\<lparr>ticks := Suc (ticks w2)\<rparr>) = (Inr u3, w3)" and
      w4: "boltPut E changelogCodec q bucketLockChangelog (revisionBytes s)
         \<lparr>row_Type = lockEvent locked, row_Path = p, row_Namespace = ns, row_Version = 0,
          row_Timestamp = clock E (ticks w2)\<rparr> w3 = (Inr u, w')"
      by (auto simp: writeLockHistory_def bind_inversion)
    from boltPut_Inr [OF w1] nextLockSeq_Inr [OF w2] boltPut_Inr [OF w3] boltPut_Inr [OF w4]
    have "buckets w' = lockToggled ns p m locked s (clock E (ticks w2)) (buckets w)"
      by (simp add: lockToggled_def configMetaCodec_def lockHistoryCodec_def changelogCodec_def normMeta_def)
    with False m show ?thesis by auto
  qed
qed

lemma lockToggled_inv:
  assumes "repo_inv d" "metaAt d ns p = Some m" "nulFree ns" "nulFree p"
  shows "repo_inv (lockToggled ns p m locked s t d)"
  unfolding lockToggled_def using assms by (intro repo_inv_lock_rows repo_inv_relock) simp_all

lemma lockToggled_metaAt:
  assumes "nulFree ns" "nulFree ns'"
  shows "metaAt (lockToggled ns p m locked s t d) ns' p' =
      (if ns' = ns \<and> p' = p then Some (normMeta (m\<lparr>m_Locked := locked\<rparr>)) else metaAt d ns' p')"
    "contentAt (lockToggled ns p m locked s t d) ns' p' = contentAt d ns' p'"
    "revOf (lockToggled ns p m locked s t d) = revOf d"
  using assms by (auto simp: lockToggled_def metaAt_def contentAt_def revOf_def configKey_inj)

lemma lockToggled_abs:
  assumes "nulFree ns" "metaAt d ns p = Some m"
  shows "absOf (lockToggled ns p m locked s t d) = absOf d"
  using assms by (auto simp: absOf_def lockToggled_metaAt fun_eq_iff metaEntry_def)

section \<open>Progress\<close>

definition returns :: "('a, 'z world_scheme) op \<Rightarrow> 'z world_scheme \<Rightarrow> bool" where
  "returns m w \<longleftrightarrow> (\<exists>x w'. m w = (Inr x, w') \<and> present (buckets w'))"

lemma returns_bind:
  "returns m w \<Longrightarrow> (\<And>x w'. m w = (Inr x, w') \<Longrightarrow> present (buckets w') \<Longrightarrow> returns (f x) w') \<Longrightarrow>
     returns (bindT m f) w"
  by (fastforce simp: returns_def bindT_def)

lemma returns_basic:
  "present (buckets w) \<Longrightarrow> returns (returnT x) w"
  "present (buckets w) \<Longrightarrow> returns (timeNow E) w"
  "present (buckets w) \<Longrightarrow> f w = Inr y \<Longrightarrow> returns (readT f) w"
  "present (buckets w) \<Longrightarrow> r = Inr () \<Longrightarrow> returns (whenErr r) w"
  by (simp_all add: returns_def returnT_def timeNow_def readT_def whenErr_def)

lemma returns_Put:
  "bolt_reliable E \<Longrightarrow> present (buckets w) \<Longrightarrow> n \<in> configBuckets \<Longrightarrow>
     returns (bucket_Put E (TxQuerier True) n k v) w"
  by (simp add: returns_def bucket_Put_reliable [OF _ present_bucket [where d = "buckets w" and n = n]] setBucket_dbput [OF present_bucket [where d = "buckets w" and n = n]])

lemma returns_Delete:
  "bolt_reliable E \<Longrightarrow> present (buckets w) \<Longrightarrow> n \<in> configBuckets \<Longrightarrow>
     returns (bucket_Delete E (TxQuerier True) n k) w"
  by (simp add: returns_def bucket_Delete_reliable [OF _ present_bucket [where d = "buckets w" and n = n]] setBucket_dbdel [OF present_bucket [where d = "buckets w" and n = n]])

lemma returns_writers:
  assumes "bolt_reliable E" "present (buckets w)"
  shows "returns (nextRevision E (TxQuerier True)) w"
    "returns (nextLockSeq E (TxQuerier True)) w"
    "returns (writeHistory E (TxQuerier True) ns p r c) w"
    "returns (writeChangelog E (TxQuerier True) r et p ns ver) w"
    "n \<in> configBuckets \<Longrightarrow> returns (boltPut E cdc (TxQuerier True) n k x) w"
    "n \<in> configBuckets \<Longrightarrow> returns (boltDelete E (TxQuerier True) n k) w"
proof -
  have counter: "returns (bindT (bucket_Put E (TxQuerier True) bucketSys k v) (\<lambda>_. returnT x)) w" for k v x
    using assms by (intro returns_bind returns_Put returns_basic) simp_all
  show "returns (nextRevision E (TxQuerier True)) w"
    using counter by (simp add: returns_def nextRevision_def Let_def)
  show "returns (nextLockSeq E (TxQuerier True)) w"
    using counter by (simp add: returns_def nextLockSeq_def Let_def)
  show "returns (writeHistory E (TxQuerier True) ns p r c) w"
    using assms by (simp add: writeHistory_def returns_Put)
  show "returns (writeChangelog E (TxQuerier True) r et p ns ver) w"
    using assms by (auto simp: writeChangelog_def boltPut_def intro!: returns_bind returns_basic returns_Put)
  show "n \<in> configBuckets \<Longrightarrow> returns (boltPut E cdc (TxQuerier True) n k x) w"
    using assms by (simp add: boltPut_def returns_Put)
  show "n \<in> configBuckets \<Longrightarrow> returns (boltDelete E (TxQuerier True) n k) w"
    using assms by (simp add: boltDelete_def returns_Delete)
qed

lemmas returns_intros = returns_bind returns_basic returns_Put returns_Delete returns_writers

lemma returns_writeConfigEntry:
  "bolt_reliable E \<Longrightarrow> present (buckets w) \<Longrightarrow> returns (writeConfigEntry E (TxQuerier True) k cfg r et) w"
  unfolding writeConfigEntry_def by (intro returns_intros) simp_all

lemma returns_deleteTargetsLoop:
  "bolt_reliable E \<Longrightarrow> present (buckets w) \<Longrightarrow> returns (deleteTargetsLoop E (TxQuerier True) r ts) w"
proof (induction ts arbitrary: w)
  case (Cons t ts)
  then show ?case by (auto intro!: returns_bind returns_basic returns_Delete returns_writers)
qed (simp add: returns_basic)

lemma returns_guard:
  "f w = Inr x \<Longrightarrow> returns (g x) w \<Longrightarrow> returns (bindT (readT f) g) w"
  "r = Inr () \<Longrightarrow> returns (h ()) w \<Longrightarrow> returns (bindT (whenErr r) h) w"
  by (simp_all add: returns_def bindT_def readT_def whenErr_def)

lemma returns_createConfigTx:
  assumes "bolt_reliable E" and inv: "repo_inv (buckets w)"
    and "\<not> nsLocked (buckets w) (cfg_Namespace cfg)"
    and "metaAt (buckets w) (cfg_Namespace cfg) (cfg_Path cfg) = None"
  shows "returns (createConfigTx E (TxQuerier True) cfg) w"
  unfolding createConfigTx_def Let_def using assms repo_invD(1) [OF inv]
  by (intro returns_guard returns_intros returns_writeConfigEntry) (simp_all add: repo_simps)

lemma returns_updateConfigTx:
  assumes "bolt_reliable E" and inv: "repo_inv (buckets w)"
    and "\<not> nsLocked (buckets w) (cfg_Namespace cfg)"
    and "metaAt (buckets w) (cfg_Namespace cfg) (cfg_Path cfg) = Some m"
    and "validateUpdatePreconditions m cfg = Inr ()"
  shows "returns (updateConfigTx E (TxQuerier True) cfg) w"
  unfolding updateConfigTx_def Let_def using assms repo_invD(1) [OF inv]
  by (intro returns_guard returns_intros returns_writeConfigEntry) (simp_all add: repo_simps)

lemma returns_deleteConfigTx:
  assumes "bolt_reliable E" and inv: "repo_inv (buckets w)" and "\<not> nsLocked (buckets w) ns"
    and "metaAt (buckets w) ns p = Some m" and "\<not> m_Locked m"
  shows "returns (deleteConfigTx E (TxQuerier True) p ns) w"
  unfolding deleteConfigTx_def Let_def using assms repo_invD(1) [OF inv]
  by (intro returns_guard returns_intros) (simp_all add: repo_simps)

lemma returns_writeLockHistory:
  "bolt_reliable E \<Longrightarrow> present (buckets w) \<Longrightarrow> returns (writeLockHistory E (TxQuerier True) ns p et) w"
  unfolding writeLockHistory_def by (intro returns_intros) simp_all

lemma returns_toggleConfigLockTx:
  assumes "bolt_reliable E" and inv: "repo_inv (buckets w)" and "\<not> nsLocked (buckets w) ns"
    and "metaAt (buckets w) ns p = Some m"
  shows "returns (toggleConfigLockTx E (TxQuerier True) ns p locked) w"
proof -
  have "returns (if m_Locked m = locked then returnT ()
      else bindT (boltPut E configMetaCodec (TxQuerier True) bucketMeta (configKey ns p) (m\<lparr>m_Locked := locked\<rparr>))
        (\<lambda>_. writeLockHistory E (TxQuerier True) ns p (if locked then EventTypeLocked else EventTypeUnlocked))) w"
    using assms(1) repo_invD(1) [OF inv]
    by (auto intro!: returns_basic returns_bind returns_writers returns_writeLockHistory)
  then show ?thesis
    unfolding toggleConfigLockTx_def Let_def using assms
    by (intro returns_guard) (simp_all add: repo_simps)
qed

lemma returns_putKeyTx:
  assumes "bolt_reliable E" and inv: "repo_inv (buckets w)" and "putAllowed (buckets w) ns p"
  shows "returns (putKeyTx E (TxQuerier True) ns p value) w"
proof -
  have build: "returns (buildPutMeta E p value r ex) w'" if "present (buckets w')" for r ex and w' :: "'a world_scheme"
    using that by (auto simp: returns_def buildPutMeta_def bindT_def timeNow_def returnT_def Let_def
        split: option.splits)
  show ?thesis
    unfolding putKeyTx_def Let_def using assms repo_invD(1) [OF inv]
    by (intro returns_guard returns_bind [OF build] returns_intros)
      (auto simp: repo_simps putAllowed_def checkPutAllowed_eq split: option.splits
        intro!: returns_intros)
qed

lemma returns_deleteRangeKeysTx:
  assumes "bolt_reliable E" and inv: "repo_inv (buckets w)" and "\<not> nsLocked (buckets w) startNS"
    and "\<forall>e \<in> set (rangeRows rp (bkt (buckets w) bucketMeta)). \<not> lockedRow e"
  shows "returns (deleteRangeKeysTx E (TxQuerier True) rp startNS prev) w"
proof -
  have none: "find lockedRow (rangeRows rp (bkt (buckets w) bucketMeta)) = None"
    using assms(4) by (simp add: find_None_iff)
  have "returns (if ts = [] then returnT ([], 0)
       else bindT (nextRevision E (TxQuerier True)) (\<lambda>r. bindT (deleteTargetsLoop E (TxQuerier True) r ts)
         (\<lambda>kvs. returnT (kvs, r)))) w" for ts
    using assms(1) repo_invD(1) [OF inv]
    by (cases "ts = []") (auto intro!: returns_bind returns_basic returns_writers returns_deleteTargetsLoop)
  then show ?thesis
    unfolding deleteRangeKeysTx_def using assms none
    by (intro returns_guard) (simp_all add: repo_simps collectDeleteTargets_eq)
qed

end
