(* ===== verification/Store.thy ===== *)
theory Store
  imports RepoLocks
begin

text \<open>
  Opening the store, \<^verbatim>\<open>src/internal/storage/bbolt/store.go\<close>: the bucket list and
  \<^verbatim>\<open>initBuckets\<close>, which creates the missing buckets and the revision counter in one
  transaction. It establishes the invariant on a fresh file and changes nothing the invariant
  or the abstract store sees when the server restarts on an existing one. The directory and
  file handling of \<^verbatim>\<open>Open\<close> is not modelled.
\<close>

definition storeBuckets :: "string list" where
  "storeBuckets =
     [''content'', ''meta'', ''namespaces'', ''changelog'', ''history'', ''client_history'', ''sys'',
      ''lock_history'', ''lock_changelog'', ''schemas'', ''webhooks'', ''auth_users'',
      ''users_by_identity'', ''users_by_email'', ''auth_groups'', ''auth_tokens'', ''auth_token_by_id'',
      ''auth_policy'', ''sessions'', ''sessions_by_user'', ''session_events'',
      ''session_events_by_session'', ''session_events_by_user'']"

definition sysSchemaKey :: bytes where "sysSchemaKey = ''schema''"

definition schemaVersion :: int64 where "schemaVersion = 1"

definition CreateBucketIfNotExists :: "env \<Rightarrow> string \<Rightarrow> (unit, 'z world_scheme) op" where
  "CreateBucketIfNotExists E name w =
     (case bolt_create_err E name of
        Some e \<Rightarrow> (Err e, w)
      | None \<Rightarrow> (Ok (), case buckets w name of None \<Rightarrow> setBucket name [] w | Some _ \<Rightarrow> w))"

fun createBuckets :: "env \<Rightarrow> string list \<Rightarrow> (unit, 'z world_scheme) op" where
  "createBuckets E [] = returnT ()"
| "createBuckets E (n # ns) = bindT (CreateBucketIfNotExists E n) (\<lambda>_. createBuckets E ns)"

definition putIfMissing :: "env \<Rightarrow> bytes \<Rightarrow> int64 \<Rightarrow> (unit, 'z world_scheme) op" where
  "putIfMissing E key r w =
     (if bucket_Get bucketSys key w = None
      then bucket_Put E (TxQuerier True) bucketSys key (Raw (revisionBytes r)) w
      else returnT () w)"

definition initBuckets :: "env \<Rightarrow> (unit, 'z world_scheme) op" where
  "initBuckets E =
     WithTx E \<lparr>ctx_tx = None\<rparr> (\<lambda>_.
       bindT (createBuckets E storeBuckets) (\<lambda>_.
       bindT (putIfMissing E sysRevisionKeyName 0) (\<lambda>_.
       putIfMissing E sysSchemaKey schemaVersion)))"

section \<open>What initialisation does\<close>

definition withBuckets :: "string list \<Rightarrow> database \<Rightarrow> database" where
  "withBuckets ns d = (\<lambda>n. if n \<in> set ns \<and> d n = None then Some [] else d n)"

lemma createBuckets_reliable:
  "bolt_reliable E \<Longrightarrow> createBuckets E ns w = (Inr (), w\<lparr>buckets := withBuckets ns (buckets w)\<rparr>)"
proof (induction ns arbitrary: w)
  case Nil
  show ?case by (simp add: returnT_def withBuckets_def)
next
  case (Cons n ns)
  have step: "CreateBucketIfNotExists E n w = (Inr (), w\<lparr>buckets := withBuckets [n] (buckets w)\<rparr>)"
  proof (cases "buckets w n")
    case None
    with Cons.prems show ?thesis
      by (auto simp: CreateBucketIfNotExists_def withBuckets_def setBucket_def fun_eq_iff
          intro!: arg_cong2 [where f = "\<lambda>w d. w\<lparr>buckets := d\<rparr>"])
  next
    case (Some b)
    then have "withBuckets [n] (buckets w) = buckets w" by (auto simp: withBuckets_def fun_eq_iff)
    with Some Cons.prems show ?thesis by (simp add: CreateBucketIfNotExists_def)
  qed
  have "withBuckets ns (withBuckets [n] d) = withBuckets (n # ns) d" for d
    by (auto simp: withBuckets_def fun_eq_iff)
  with step Cons show ?case by (simp add: bindT_def)
qed

lemma bkt_withBuckets [simp]: "bkt (withBuckets ns d) n = bkt d n"
  by (simp add: bkt_def withBuckets_def split: option.splits)

lemma dget_withBuckets [simp]: "dget (withBuckets ns d) n k = dget d n k"
  by (simp add: dget_def)

lemma configBuckets_store: "n \<in> configBuckets \<Longrightarrow> n \<in> set storeBuckets"
  by (auto simp: configBuckets_def storeBuckets_def bucket_name_defs)

lemma present_withBuckets:
  "(\<And>n. n \<in> configBuckets \<Longrightarrow> ascending (bkt d n)) \<Longrightarrow> present (withBuckets storeBuckets d)"
  using configBuckets_store by (fastforce simp: present_def withBuckets_def bkt_def)

definition sysInit :: "bytes \<Rightarrow> int64 \<Rightarrow> database \<Rightarrow> database" where
  "sysInit key r d =
     (if dget d bucketSys key = None then dbput bucketSys key (Raw (revisionBytes r)) d else d)"

lemma putIfMissing_reliable:
  assumes "bolt_reliable E" "present (buckets w)"
  shows "putIfMissing E key r w = (Inr (), w\<lparr>buckets := sysInit key r (buckets w)\<rparr>)"
proof -
  have b: "buckets w bucketSys = Some (bkt (buckets w) bucketSys)"
    using assms(2) by (rule present_bucket) simp
  show ?thesis
    using assms(1) b
    by (simp add: putIfMissing_def sysInit_def bucket_Get_dget bucket_Put_reliable setBucket_dbput returnT_def)
qed

definition initialised :: "database \<Rightarrow> database" where
  "initialised d =
     sysInit sysSchemaKey schemaVersion (sysInit sysRevisionKeyName 0 (withBuckets storeBuckets d))"

lemma present_sysInit [simp]: "present d \<Longrightarrow> present (sysInit key r d)"
  by (simp add: sysInit_def)

lemma initBuckets_reliable:
  assumes "bolt_reliable E" "\<And>n. n \<in> configBuckets \<Longrightarrow> ascending (bkt (buckets w) n)"
  shows "initBuckets E w = (Inr (), w\<lparr>buckets := initialised (buckets w)\<rparr>)"
proof -
  have "present (withBuckets storeBuckets (buckets w))" using assms(2) by (rule present_withBuckets)
  with assms(1) show ?thesis
    unfolding initBuckets_def
    by (intro WithTx_reliable_Inr)
      (simp_all add: bindT_def createBuckets_reliable putIfMissing_reliable initialised_def)
qed

lemma dget_initialised:
  "dget (initialised d) n k =
     (case dget d n k of
        Some v \<Rightarrow> Some v
      | None \<Rightarrow>
          if n = bucketSys \<and> k = sysRevisionKeyName then Some (Raw (revisionBytes 0))
          else if n = bucketSys \<and> k = sysSchemaKey then Some (Raw (revisionBytes schemaVersion))
          else None)"
  by (auto simp: initialised_def sysInit_def sysSchemaKey_def sysRevisionKeyName_def split: option.splits)

lemma present_initialised:
  "(\<And>n. n \<in> configBuckets \<Longrightarrow> ascending (bkt d n)) \<Longrightarrow> present (initialised d)"
  by (simp add: initialised_def present_withBuckets)

lemma initialised_empty_inv: "repo_inv (initialised Map.empty)"
proof -
  let ?d = "initialised Map.empty"
  have d: "dget Map.empty n k = None" for n k by (simp add: dget_def bkt_def)
  have "present ?d" by (rule present_initialised) (simp add: bkt_def)
  moreover have "revOf ?d = 0" by (simp add: revOf_def dget_initialised d rawBytes_def parse_revisionBytes in_int64_def)
  moreover have "counter_ok ?d"
    unfolding counter_ok_def by (rule exI [of _ 0]) (simp add: dget_initialised d)
  moreover have "dget ?d n k = None" if "n \<noteq> bucketSys" for n k
    using that by (simp add: dget_initialised d)
  ultimately show ?thesis
    by (simp add: repo_inv_def rows_ok_def content_ok_def changelog_complete_def namespaces_ok_def)
qed

lemma initialised_keeps:
  assumes "repo_inv d"
  shows "repo_inv (initialised d)" "absOf (initialised d) = absOf d"
proof -
  have sys: "dget d bucketSys sysRevisionKeyName \<noteq> None"
    using counter_revOf(1) [OF repo_invD(2) [OF assms]] by simp
  have same: "dget (initialised d) n k = dget d n k" if "n \<noteq> bucketSys \<or> k = sysRevisionKeyName" for n k
    by (cases "dget d n k") (use that sys in \<open>simp_all add: dget_initialised, metis\<close>)
  have "present (initialised d)"
    using repo_invD(1) [OF assms] by (intro present_initialised) (rule present_ascending)
  then show "repo_inv (initialised d)"
    by (rule repo_inv_cong [OF assms]) (auto simp: same)
  have "metaAt (initialised d) = metaAt d" "contentAt (initialised d) = contentAt d"
    by (simp_all add: fun_eq_iff metaAt_def contentAt_def same)
  then show "absOf (initialised d) = absOf d"
    by (auto simp: absOf_def revOf_def same fun_eq_iff)
qed

end
