(* ===== verification/RepoSpecs.thy ===== *)
theory RepoSpecs
  imports Store
begin

text \<open>
  The contracts of the write transactions in full: from a well-formed database and with an
  engine that fails no call, each either returns the error of the first guard that does not
  hold and changes nothing, or succeeds, keeps the invariant and takes the step of the abstract
  store. The services build on these facts.
\<close>

lemma returnsE:
  assumes "returns m w" obtains x w' where "m w = (Inr x, w')"
  using assms by (auto simp: returns_def)

text \<open>\<^verbatim>\<open>WithTx\<close> outside a write transaction, over a body that uses its querier.\<close>

definition committed :: "'z world_scheme \<Rightarrow> (err + 'a) \<times> 'z world_scheme \<Rightarrow> (err + 'a) \<times> 'z world_scheme" where
  "committed w r =
     (case r of (Inl e, w') \<Rightarrow> (Inl e, w'\<lparr>buckets := buckets w\<rparr>) | (Inr x, w') \<Rightarrow> (Inr x, w'))"

lemma committed_simps [simp]:
  "committed w (Inl e, w') = (Inl e, w'\<lparr>buckets := buckets w\<rparr>)"
  "committed w (Inr x, w') = (Inr x, w')"
  by (simp_all add: committed_def)

lemma WithTx_body:
  assumes "bolt_reliable E" "ctx_tx c = None"
  shows "WithTx E c (\<lambda>c. f (GetQuerier c)) w = committed w (f (TxQuerier True) w)"
proof (cases "f (TxQuerier True) w")
  case (Pair r w')
  with assms show ?thesis
    by (cases r) (simp_all add: WithTx_reliable_Inl WithTx_reliable_Inr)
qed

lemma tx_eqs:
  assumes "bolt_reliable E" "ctx_tx c = None"
  shows "Create E c cfg w = committed w (createConfigTx E (TxQuerier True) cfg w)"
    "Update E c cfg w = committed w (updateConfigTx E (TxQuerier True) cfg w)"
    "Delete E c p ns w = committed w (deleteConfigTx E (TxQuerier True) p ns w)"
    "PutKey E c ns p v w = committed w (putKeyTx E (TxQuerier True) ns p v w)"
    "toggleConfigLock E c ns p locked w = committed w (toggleConfigLockTx E (TxQuerier True) ns p locked w)"
    "DeleteRangeKeys E c ns p eNS eP prev w =
       committed w (deleteRangeKeysTx E (TxQuerier True) (buildRangeParams ns p eNS eP) ns prev w)"
  unfolding Create_def Update_def Delete_def PutKey_def toggleConfigLock_def DeleteRangeKeys_def Let_def
  using assms
  by (simp_all add: WithTx_body [where f = "\<lambda>q. createConfigTx E q cfg"]
      WithTx_body [where f = "\<lambda>q. updateConfigTx E q cfg"]
      WithTx_body [where f = "\<lambda>q. deleteConfigTx E q p ns"]
      WithTx_body [where f = "\<lambda>q. putKeyTx E q ns p v"]
      WithTx_body [where f = "\<lambda>q. toggleConfigLockTx E q ns p locked"]
      WithTx_body [where f = "\<lambda>q. deleteRangeKeysTx E q (buildRangeParams ns p eNS eP) ns prev"])

lemma mvcc_put_entry:
  assumes "repo_inv d" "room d" "nulFree ns" "nulFree p" "m_Revision m' = revOf d + 1"
    "case metaAt d ns p of
       None \<Rightarrow> m_CreateRevision m' = revOf d + 1 \<and> m_Version m' = 1
     | Some m \<Rightarrow> m_CreateRevision m' = m_CreateRevision m \<and> m_Version m' = m_Version m + 1"
  shows "absOf (entryWritten ns p m' c row d) = mvcc_put (ns, p) c (absOf d)"
  using assms room_next [OF assms(1,2)]
  by (cases "metaAt d ns p")
    (simp_all add: absOf_written, simp_all add: absOf_def mvcc_put_def metaEntry_def Let_def)

lemma createConfigTx_ok:
  assumes E: "bolt_reliable E" and inv: "repo_inv (buckets w)" "room (buckets w)"
    and names: "nulFree (cfg_Namespace cfg)" "nulFree (cfg_Path cfg)"
    and guards: "\<not> nsLocked (buckets w) (cfg_Namespace cfg)"
      "metaAt (buckets w) (cfg_Namespace cfg) (cfg_Path cfg) = None"
  obtains w' where
    "createConfigTx E (TxQuerier True) cfg w =
       (Inr (createdConfig E (clock E (ticks w)) (revOf (buckets w) + 1) cfg), w')"
    "repo_inv (buckets w')"
    "absOf (buckets w') = mvcc_put (cfg_Namespace cfg, cfg_Path cfg) (cfg_Content cfg) (absOf (buckets w))"
    "metaAt (buckets w') (cfg_Namespace cfg) (cfg_Path cfg) = Some (normMeta (DomainToConfigMeta
       (createdConfig E (clock E (ticks w)) (revOf (buckets w) + 1) cfg)))"
    "contentAt (buckets w') (cfg_Namespace cfg) (cfg_Path cfg) = cfg_Content cfg"
proof -
  from returns_createConfigTx [OF E inv(1) guards] obtain cfg' w' where
    tx: "createConfigTx E (TxQuerier True) cfg w = (Inr cfg', w')"
    by (rule returnsE)
  from createConfigTx_Inr [OF tx inv] obtain row where
    cfg': "cfg' = createdConfig E (clock E (ticks w)) (revOf (buckets w) + 1) cfg" and
    d: "buckets w' = entryWritten (cfg_Namespace cfg) (cfg_Path cfg) (normMeta (DomainToConfigMeta cfg'))
        (cfg_Content cfg) row (buckets w)"
    by blast
  show ?thesis
  proof (rule that)
    show "repo_inv (buckets w')" unfolding d cfg' using inv names by (rule written_createdConfig_inv)
    show "absOf (buckets w') = mvcc_put (cfg_Namespace cfg, cfg_Path cfg) (cfg_Content cfg) (absOf (buckets w))"
      unfolding d using inv names guards(2)
      by (intro mvcc_put_entry) (simp_all add: cfg' DomainToConfigMeta_def)
  qed (use tx cfg' d names in \<open>simp_all add: metaAt_written\<close>)
qed

lemma updateConfigTx_ok:
  assumes E: "bolt_reliable E" and inv: "repo_inv (buckets w)" "room (buckets w)"
    and names: "nulFree (cfg_Namespace cfg)" "nulFree (cfg_Path cfg)"
    and guards: "\<not> nsLocked (buckets w) (cfg_Namespace cfg)"
      "metaAt (buckets w) (cfg_Namespace cfg) (cfg_Path cfg) = Some m" "\<not> m_Locked m"
      "m_Version m = cfg_Version cfg"
  obtains w' where
    "updateConfigTx E (TxQuerier True) cfg w =
       (Inr (updatedConfig E (clock E (ticks w)) (revOf (buckets w) + 1) m cfg), w')"
    "repo_inv (buckets w')"
    "absOf (buckets w') = mvcc_put (cfg_Namespace cfg, cfg_Path cfg) (cfg_Content cfg) (absOf (buckets w))"
    "metaAt (buckets w') (cfg_Namespace cfg) (cfg_Path cfg) = Some (normMeta (DomainToConfigMeta
       (updatedConfig E (clock E (ticks w)) (revOf (buckets w) + 1) m cfg)))"
    "contentAt (buckets w') (cfg_Namespace cfg) (cfg_Path cfg) = cfg_Content cfg"
proof -
  have "validateUpdatePreconditions m cfg = Inr ()"
    using guards(3,4) by (simp add: validateUpdatePreconditions_def)
  from returns_updateConfigTx [OF E inv(1) guards(1,2) this] obtain cfg' w' where
    tx: "updateConfigTx E (TxQuerier True) cfg w = (Inr cfg', w')"
    by (rule returnsE)
  from updateConfigTx_Inr [OF tx inv] guards(2) obtain row where
    cfg': "cfg' = updatedConfig E (clock E (ticks w)) (revOf (buckets w) + 1) m cfg" and
    d: "buckets w' = entryWritten (cfg_Namespace cfg) (cfg_Path cfg) (normMeta (DomainToConfigMeta cfg'))
        (cfg_Content cfg) row (buckets w)"
    by auto
  show ?thesis
  proof (rule that)
    show "repo_inv (buckets w')"
      unfolding d cfg' using inv names guards(2) by (rule written_updatedConfig_inv)
    show "absOf (buckets w') = mvcc_put (cfg_Namespace cfg, cfg_Path cfg) (cfg_Content cfg) (absOf (buckets w))"
      unfolding d using inv names guards(2) next_version_in_range [OF inv guards(2)]
      by (intro mvcc_put_entry) (simp_all add: cfg' DomainToConfigMeta_def)
  qed (use tx cfg' d names in \<open>simp_all add: metaAt_written\<close>)
qed

lemma deleteConfigTx_ok:
  assumes E: "bolt_reliable E" and inv: "repo_inv (buckets w)" "room (buckets w)"
    and names: "nulFree ns" "nulFree p"
    and guards: "\<not> nsLocked (buckets w) ns" "metaAt (buckets w) ns p = Some m" "\<not> m_Locked m"
  obtains w' where
    "deleteConfigTx E (TxQuerier True) p ns w = (Inr (revOf (buckets w) + 1), w')"
    "repo_inv (buckets w')" "absOf (buckets w') = mvcc_delete {(ns, p)} (absOf (buckets w))"
proof -
  from returns_deleteConfigTx [OF E inv(1) guards] obtain r w' where
    tx: "deleteConfigTx E (TxQuerier True) p ns w = (Inr r, w')" by (rule returnsE)
  from deleteConfigTx_Inr [OF tx inv] obtain row where
    r: "r = revOf (buckets w) + 1" and d: "buckets w' = entriesDeleted [(configKey ns p, row)] r (buckets w)"
    by blast
  note nxt = room_next [OF inv]
  show ?thesis
  proof (rule that)
    show "repo_inv (buckets w')"
      unfolding d r using inv by (rule entriesDeleted_inv) simp
    show "absOf (buckets w') = mvcc_delete {(ns, p)} (absOf (buckets w))"
      unfolding d by (rule absOf_entriesDeleted) (use names r nxt in auto)
  qed (use tx r in simp)
qed

lemma putKeyTx_step:
  assumes tx: "putKeyTx E q ns p v w = (Inr (prev, r), w')"
    and inv: "repo_inv (buckets w)" "room (buckets w)" and names: "nulFree ns" "nulFree p"
  shows "r = revOf (buckets w) + 1" "prev = prevKV (buckets w) ns p" "repo_inv (buckets w')"
    "absOf (buckets w') = mvcc_put (ns, p) v (absOf (buckets w))"
    "metaAt (buckets w') ns p = Some (normMeta (putMeta E (clock E (ticks w)) p v
        (revOf (buckets w) + 1) (metaAt (buckets w) ns p)))"
proof -
  from putKeyTx_Inr [OF tx inv] obtain row where
    r: "r = revOf (buckets w) + 1" "prev = prevKV (buckets w) ns p" and
    d: "buckets w' = entryWritten ns p
        (normMeta (putMeta E (clock E (ticks w)) p v r (metaAt (buckets w) ns p))) v row (buckets w)"
    by blast
  show "r = revOf (buckets w) + 1" "prev = prevKV (buckets w) ns p" by (fact r)+
  show "repo_inv (buckets w')" unfolding d r using inv names by (rule written_putMeta_inv)
  show "absOf (buckets w') = mvcc_put (ns, p) v (absOf (buckets w))"
    unfolding d r using inv names next_version_in_range [OF inv]
    by (intro mvcc_put_entry) (auto simp: putMeta_def split: option.splits)
qed (use putKeyTx_Inr [OF tx inv] names in \<open>auto simp: metaAt_written\<close>)

lemma putKeyTx_ok:
  assumes E: "bolt_reliable E" and inv: "repo_inv (buckets w)" "room (buckets w)"
    and names: "nulFree ns" "nulFree p" and guards: "putAllowed (buckets w) ns p"
  obtains w' where
    "putKeyTx E (TxQuerier True) ns p v w = (Inr (prevKV (buckets w) ns p, revOf (buckets w) + 1), w')"
    "repo_inv (buckets w')" "absOf (buckets w') = mvcc_put (ns, p) v (absOf (buckets w))"
proof -
  from returns_putKeyTx [OF E inv(1) guards] obtain pr w' where
    "putKeyTx E (TxQuerier True) ns p v w = (Inr pr, w')" by (rule returnsE)
  then have tx: "putKeyTx E (TxQuerier True) ns p v w = (Inr (fst pr, snd pr), w')" by simp
  note S = putKeyTx_step [OF tx inv names]
  from S tx show ?thesis by (intro that [of w']) simp_all
qed

text \<open>The keys a range covers, as the abstract store names them.\<close>

definition keysInRange :: "rangeParams \<Rightarrow> database \<Rightarrow> (string \<times> string) set" where
  "keysInRange rp d = {(ns, p). nulFree ns \<and> nulFree p \<and> metaAt d ns p \<noteq> None \<and> inRange rp (configKey ns p)}"

lemma rangeRows_keys:
  assumes "repo_inv d"
  shows "fst ` set (rangeRows rp (bkt d bucketMeta)) = (\<lambda>(ns, p). configKey ns p) ` keysInRange rp d"
proof (intro equalityI subsetI)
  fix k assume "k \<in> fst ` set (rangeRows rp (bkt d bucketMeta))"
  then obtain v where kv: "(k, v) \<in> set (rangeRows rp (bkt d bucketMeta))" by auto
  from rangeRows_meta(2,3) [OF assms kv] obtain ns p where
    "k = configKey ns p" "(ns, p) \<in> keysInRange rp d"
    by (auto simp: keysInRange_def)
  then show "k \<in> (\<lambda>(ns, p). configKey ns p) ` keysInRange rp d" by force
next
  fix k assume "k \<in> (\<lambda>(ns, p). configKey ns p) ` keysInRange rp d"
  then obtain ns p m where k: "k = configKey ns p" "metaAt d ns p = Some m" "inRange rp k"
    by (auto simp: keysInRange_def)
  have asc: "ascending (bkt d bucketMeta)" using repo_invD(1) [OF assms] by (simp add: present_ascending)
  from k have "(k, JConfigMeta m) \<in> set (bkt d bucketMeta)"
    using dget_metaAt [OF assms, of ns p] by (simp add: dget_def ascending_map_of [OF asc])
  with k(3) asc show "k \<in> fst ` set (rangeRows rp (bkt d bucketMeta))"
    by (force simp: rangeRows_filter)
qed

lemma deleteRows_rangeKeys:
  "fst ` set (deleteRows E t (map (targetOf d prev) rows)) = fst ` set rows"
proof -
  have "map fst (deleteRows E t (map (targetOf d prev) rows)) = map fst rows"
    by (simp add: targetOf_def split_beta)
  then have "set (map fst (deleteRows E t (map (targetOf d prev) rows))) = set (map fst rows)"
    by (rule arg_cong)
  then show ?thesis by (simp only: set_map)
qed

lemma deleteRangeKeysTx_step:
  assumes tx: "deleteRangeKeysTx E (TxQuerier wr) rp startNS prev w = (Inr (kvs, r), w')"
    and inv: "repo_inv (buckets w)" "room (buckets w)"
  shows "kvs = map (dt_kv \<circ> targetOf (buckets w) prev) (rangeRows rp (bkt (buckets w) bucketMeta))"
    "rangeRows rp (bkt (buckets w) bucketMeta) = [] \<Longrightarrow> r = 0 \<and> w' = w"
    "rangeRows rp (bkt (buckets w) bucketMeta) \<noteq> [] \<Longrightarrow> r = revOf (buckets w) + 1 \<and> repo_inv (buckets w') \<and>
       absOf (buckets w') = mvcc_delete (keysInRange rp (buckets w)) (absOf (buckets w))"
proof -
  let ?rows = "rangeRows rp (bkt (buckets w) bucketMeta)"
  note S = deleteRangeKeysTx_Inr [OF tx inv]
  show "kvs = map (dt_kv \<circ> targetOf (buckets w) prev) ?rows" "?rows = [] \<Longrightarrow> r = 0 \<and> w' = w"
    by (fact S)+
  assume some: "?rows \<noteq> []"
  let ?ts = "deleteRows E (ticks w) (map (targetOf (buckets w) prev) ?rows)"
  from S(5) [OF some] have r: "r = revOf (buckets w) + 1"
    and d: "buckets w' = entriesDeleted ?ts r (buckets w)" by simp_all
  have "repo_inv (buckets w')" unfolding d r using inv by (rule entriesDeleted_inv) (simp add: some)
  moreover have "absOf (buckets w') = mvcc_delete (keysInRange rp (buckets w)) (absOf (buckets w))"
    unfolding d by (rule absOf_entriesDeleted) (use r room_next [OF inv] in
        \<open>simp_all add: deleteRows_rangeKeys rangeRows_keys [OF inv(1)], simp add: keysInRange_def\<close>)
  ultimately show "r = revOf (buckets w) + 1 \<and> repo_inv (buckets w') \<and>
       absOf (buckets w') = mvcc_delete (keysInRange rp (buckets w)) (absOf (buckets w))"
    using r by simp
qed

lemma deleteRangeKeysTx_ok:
  fixes w :: "'z world_scheme"
  assumes E: "bolt_reliable E" and inv: "repo_inv (buckets w)" "room (buckets w)"
    and guards: "\<not> nsLocked (buckets w) startNS"
      "\<forall>e \<in> set (rangeRows rp (bkt (buckets w) bucketMeta)). \<not> lockedRow e"
  obtains (none) "rangeRows rp (bkt (buckets w) bucketMeta) = []"
      "deleteRangeKeysTx E (TxQuerier True) rp startNS prev w = (Inr ([], 0), w)"
  | (some) w' :: "'z world_scheme" where "rangeRows rp (bkt (buckets w) bucketMeta) \<noteq> []"
      "deleteRangeKeysTx E (TxQuerier True) rp startNS prev w =
         (Inr (map (dt_kv \<circ> targetOf (buckets w) prev) (rangeRows rp (bkt (buckets w) bucketMeta)),
               revOf (buckets w) + 1), w')"
      "repo_inv (buckets w')" "absOf (buckets w') = mvcc_delete (keysInRange rp (buckets w)) (absOf (buckets w))"
proof -
  from returns_deleteRangeKeysTx [OF E inv(1) guards] obtain x w' where
    "deleteRangeKeysTx E (TxQuerier True) rp startNS prev w = (Inr x, w')" by (rule returnsE)
  then have tx: "deleteRangeKeysTx E (TxQuerier True) rp startNS prev w = (Inr (fst x, snd x), w')" by simp
  note S = deleteRangeKeysTx_step [OF tx inv]
  show ?thesis
  proof (cases "rangeRows rp (bkt (buckets w) bucketMeta) = []")
    case True
    with S tx show ?thesis by (intro none) simp_all
  next
    case False
    then have step: "snd x = revOf (buckets w) + 1" "repo_inv (buckets w')"
      "absOf (buckets w') = mvcc_delete (keysInRange rp (buckets w)) (absOf (buckets w))"
      using S(3) by blast+
    show ?thesis by (rule some [OF False _ step(2,3)]) (use tx S(1) step(1) in simp)
  qed
qed

lemma deleteRangeKeysTx_guards:
  assumes "repo_inv (buckets w)"
  shows "nsLocked (buckets w) startNS \<Longrightarrow>
      deleteRangeKeysTx E q rp startNS prev w = (Inl (ErrNamespaceLocked startNS), w)"
    "\<not> nsLocked (buckets w) startNS \<Longrightarrow>
      find lockedRow (rangeRows rp (bkt (buckets w) bucketMeta)) = Some e \<Longrightarrow>
      deleteRangeKeysTx E (TxQuerier wr) rp startNS prev w =
        (Inl (ErrLocked (snd (parseConfigKey (fst e)))), w)"
  using assms
  by (simp_all add: deleteRangeKeysTx_def bindT_def readT_def repo_simps collectDeleteTargets_eq)

lemma toggleConfigLockTx_guards:
  assumes "repo_inv (buckets w)"
  shows "nsLocked (buckets w) ns \<Longrightarrow>
      toggleConfigLockTx E q ns p locked w = (Inl (ErrNamespaceLocked ns), w)"
    "\<not> nsLocked (buckets w) ns \<Longrightarrow> metaAt (buckets w) ns p = None \<Longrightarrow>
      toggleConfigLockTx E q ns p locked w = (Inl (ErrResourceNotFound p), w)"
  using assms by (simp_all add: toggleConfigLockTx_def bindT_def readT_def repo_simps Let_def)

lemma toggleConfigLockTx_ok:
  assumes E: "bolt_reliable E" and inv: "repo_inv (buckets w)" and names: "nulFree ns" "nulFree p"
    and guards: "\<not> nsLocked (buckets w) ns" "metaAt (buckets w) ns p = Some m"
  obtains w' where "toggleConfigLockTx E (TxQuerier True) ns p locked w = (Inr (), w')"
    "repo_inv (buckets w')" "absOf (buckets w') = absOf (buckets w)"
    "\<And>ns' p'. nulFree ns' \<Longrightarrow> map_option m_Locked (metaAt (buckets w') ns' p') =
       (if ns' = ns \<and> p' = p then Some locked else map_option m_Locked (metaAt (buckets w) ns' p'))"
proof -
  from returns_toggleConfigLockTx [OF E inv guards, of locked] obtain w' where
    tx: "toggleConfigLockTx E (TxQuerier True) ns p locked w = (Inr (), w')"
    by (auto simp: returns_def)
  from toggleConfigLockTx_Inr [OF tx inv] guards(2)
  have cases: "if m_Locked m = locked then w' = w
     else \<exists>s t. buckets w' = lockToggled ns p m locked s t (buckets w)"
    by auto
  show ?thesis
  proof (cases "m_Locked m = locked")
    case True
    with cases tx inv guards(2) show ?thesis by (intro that) auto
  next
    case False
    with cases obtain s t where d: "buckets w' = lockToggled ns p m locked s t (buckets w)" by auto
    show ?thesis
      by (rule that [OF tx]) (use inv guards(2) names in
          \<open>simp_all add: d lockToggled_inv lockToggled_abs lockToggled_metaAt\<close>)
  qed
qed

end
