(* ===== verification/RepoSteps.thy ===== *)
theory RepoSteps
  imports RepoSpecs
begin

text \<open>
  Runs of the repository: any sequence of its write operations, each in a transaction of its
  own, on an engine that may fail any call. One lemma, \<open>repo_step_effect\<close>, says which effect a
  step can have; the invariant, the monotonicity of revisions, the immutability of history and
  the protection of locked configs follow from it.
\<close>

datatype repo_op =
  OpCreate Config
| OpUpdate Config
| OpDelete string string
| OpLock string string
| OpUnlock string string
| OpPut string string bytes
| OpDeleteRange string string string string bool

text \<open>The state an operation leaves, whether it succeeds or not.\<close>

definition runOp :: "env \<Rightarrow> ctx \<Rightarrow> repo_op \<Rightarrow> world \<Rightarrow> world" where
  "runOp E c op w =
     (case op of
        OpCreate cfg \<Rightarrow> snd (Create E c cfg w)
      | OpUpdate cfg \<Rightarrow> snd (Update E c cfg w)
      | OpDelete path ns \<Rightarrow> snd (Delete E c path ns w)
      | OpLock ns path \<Rightarrow> snd (LockConfig E c ns path w)
      | OpUnlock ns path \<Rightarrow> snd (UnlockConfig E c ns path w)
      | OpPut ns path v \<Rightarrow> snd (PutKey E c ns path v w)
      | OpDeleteRange sNS sP eNS eP prev \<Rightarrow> snd (DeleteRangeKeys E c sNS sP eNS eP prev w))"

text \<open>The names an operation writes under carry no separator byte.\<close>

definition opNamesOk :: "repo_op \<Rightarrow> bool" where
  "opNamesOk op =
     (case op of
        OpCreate cfg \<Rightarrow> nulFree (cfg_Namespace cfg) \<and> nulFree (cfg_Path cfg)
      | OpUpdate cfg \<Rightarrow> nulFree (cfg_Namespace cfg) \<and> nulFree (cfg_Path cfg)
      | OpLock ns path \<Rightarrow> nulFree ns \<and> nulFree path
      | OpUnlock ns path \<Rightarrow> nulFree ns \<and> nulFree path
      | OpPut ns path v \<Rightarrow> nulFree ns \<and> nulFree path
      | _ \<Rightarrow> True)"

inductive repo_step :: "repo_op \<Rightarrow> database \<Rightarrow> database \<Rightarrow> bool" where
  "opNamesOk op \<Longrightarrow> room (buckets w) \<Longrightarrow> ctx_tx c = None \<Longrightarrow>
     repo_step op (buckets w) (buckets (runOp E c op w))"

inductive repo_reachable :: "database \<Rightarrow> bool" where
  reach_init: "repo_reachable (initialised Map.empty)"
| reach_step: "repo_reachable d \<Longrightarrow> repo_step op d d' \<Longrightarrow> repo_reachable d'"

section \<open>Effects of a step\<close>

inductive effect :: "repo_op \<Rightarrow> database \<Rightarrow> database \<Rightarrow> bool" where
  same: "effect op d d"
| written: "op = OpCreate cfg \<and> ns = cfg_Namespace cfg \<and> p = cfg_Path cfg \<or>
     op = OpUpdate cfg \<and> ns = cfg_Namespace cfg \<and> p = cfg_Path cfg \<or> op = OpPut ns p c \<Longrightarrow>
   nulFree ns \<Longrightarrow> nulFree p \<Longrightarrow> putAllowed d ns p \<Longrightarrow> m_Revision m = revOf d + 1 \<Longrightarrow>
   repo_inv (entryWritten ns p m c row d) \<Longrightarrow> effect op d (entryWritten ns p m c row d)"
| deleted: "ts \<noteq> [] \<Longrightarrow> (\<And>k. k \<in> fst ` set ts \<Longrightarrow> \<exists>m. dget d bucketMeta k = Some (JConfigMeta m) \<and> \<not> m_Locked m) \<Longrightarrow>
   repo_inv (entriesDeleted ts (revOf d + 1) d) \<Longrightarrow> effect op d (entriesDeleted ts (revOf d + 1) d)"
| toggled: "op = (if locked then OpLock ns p else OpUnlock ns p) \<Longrightarrow> nulFree ns \<Longrightarrow> nulFree p \<Longrightarrow>
   metaAt d ns p = Some m \<Longrightarrow> m_Locked m \<noteq> locked \<Longrightarrow> repo_inv (lockToggled ns p m locked s t d) \<Longrightarrow>
   effect op d (lockToggled ns p m locked s t d)"

inductive_cases effectE: "effect op d d'"

text \<open>Outside a transaction, an operation that fails, or whose commit fails, leaves the database as it was.\<close>

lemma WithTx_effect:
  assumes "ctx_tx c = None"
    and "\<And>x w'. f (TxQuerier True) w = (Inr x, w') \<Longrightarrow> P (buckets w')" "P (buckets w)"
  shows "P (buckets (snd (WithTx E c (\<lambda>c. f (GetQuerier c)) w)))"
proof (cases "WithTx E c (\<lambda>c. f (GetQuerier c)) w")
  case (Pair r w')
  show ?thesis
  proof (cases r)
    case (Inl e)
    with Pair have "WithTx E c (\<lambda>c. f (GetQuerier c)) w = (Inl e, w')" by simp
    from WithTx_Inl_buckets [OF _ this] assms(1) have "buckets w' = buckets w" by simp
    with Pair assms(3) show ?thesis by simp
  next
    case (Inr x)
    with Pair have "WithTx E c (\<lambda>c. f (GetQuerier c)) w = (Inr x, w')" by simp
    from WithTx_Inr [OF _ this] assms(1) have "f (TxQuerier True) w = (Inr x, w')" by simp
    with Pair assms(2) show ?thesis by simp
  qed
qed

lemma create_effect:
  assumes "repo_inv (buckets w)" "room (buckets w)" "ctx_tx c = None" "opNamesOk (OpCreate cfg)"
  shows "effect (OpCreate cfg) (buckets w) (buckets (snd (Create E c cfg w)))"
  unfolding Create_def
proof (rule WithTx_effect [OF assms(3)])
  fix cfg' w' assume "createConfigTx E (TxQuerier True) cfg w = (Inr cfg', w')"
  from createConfigTx_Inr [OF this assms(1,2)] obtain row where
    cfg': "cfg' = createdConfig E (clock E (ticks w)) (revOf (buckets w) + 1) cfg"
      "\<not> nsLocked (buckets w) (cfg_Namespace cfg)"
      "metaAt (buckets w) (cfg_Namespace cfg) (cfg_Path cfg) = None" and
    d: "buckets w' = entryWritten (cfg_Namespace cfg) (cfg_Path cfg) (normMeta (DomainToConfigMeta cfg'))
        (cfg_Content cfg) row (buckets w)"
    by blast
  show "effect (OpCreate cfg) (buckets w) (buckets w')"
    unfolding d using assms cfg' written_createdConfig_inv [OF assms(1,2)]
    by (intro effect.written) (auto simp: opNamesOk_def putAllowed_def DomainToConfigMeta_def)
qed (rule effect.same)

lemma update_effect:
  assumes "repo_inv (buckets w)" "room (buckets w)" "ctx_tx c = None" "opNamesOk (OpUpdate cfg)"
  shows "effect (OpUpdate cfg) (buckets w) (buckets (snd (Update E c cfg w)))"
  unfolding Update_def
proof (rule WithTx_effect [OF assms(3)])
  fix cfg' w' assume "updateConfigTx E (TxQuerier True) cfg w = (Inr cfg', w')"
  from updateConfigTx_Inr [OF this assms(1,2)] obtain m row where
    cfg': "cfg' = updatedConfig E (clock E (ticks w)) (revOf (buckets w) + 1) m cfg"
      "\<not> nsLocked (buckets w) (cfg_Namespace cfg)" "\<not> m_Locked m"
      "metaAt (buckets w) (cfg_Namespace cfg) (cfg_Path cfg) = Some m" and
    d: "buckets w' = entryWritten (cfg_Namespace cfg) (cfg_Path cfg) (normMeta (DomainToConfigMeta cfg'))
        (cfg_Content cfg) row (buckets w)"
    by blast
  show "effect (OpUpdate cfg) (buckets w) (buckets w')"
    unfolding d using assms cfg' written_updatedConfig_inv [OF assms(1,2)]
    by (intro effect.written) (auto simp: opNamesOk_def putAllowed_def DomainToConfigMeta_def)
qed (rule effect.same)

lemma put_effect:
  assumes "repo_inv (buckets w)" "room (buckets w)" "ctx_tx c = None" "opNamesOk (OpPut ns p v)"
  shows "effect (OpPut ns p v) (buckets w) (buckets (snd (PutKey E c ns p v w)))"
  unfolding PutKey_def
proof (rule WithTx_effect [OF assms(3)])
  fix x w' assume "putKeyTx E (TxQuerier True) ns p v w = (Inr x, w')"
  then have "putKeyTx E (TxQuerier True) ns p v w = (Inr (fst x, snd x), w')" by simp
  from putKeyTx_Inr [OF this assms(1,2)] obtain row where
    ok: "putAllowed (buckets w) ns p" "snd x = revOf (buckets w) + 1" and
    d: "buckets w' = entryWritten ns p
        (normMeta (putMeta E (clock E (ticks w)) p v (snd x) (metaAt (buckets w) ns p))) v row (buckets w)"
    by blast
  show "effect (OpPut ns p v) (buckets w) (buckets w')"
    unfolding d ok using assms ok written_putMeta_inv [OF assms(1,2)]
    by (intro effect.written) (auto simp: opNamesOk_def putMeta_def split: option.splits)
qed (rule effect.same)

lemma delete_effect:
  assumes "repo_inv (buckets w)" "room (buckets w)" "ctx_tx c = None"
  shows "effect (OpDelete p ns) (buckets w) (buckets (snd (Delete E c p ns w)))"
  unfolding Delete_def
proof (rule WithTx_effect [OF assms(3)])
  fix r w' assume "deleteConfigTx E (TxQuerier True) p ns w = (Inr r, w')"
  from deleteConfigTx_Inr [OF this assms(1,2)] obtain m row where
    ok: "metaAt (buckets w) ns p = Some m" "\<not> m_Locked m" and
    d: "buckets w' = entriesDeleted [(configKey ns p, row)] (revOf (buckets w) + 1) (buckets w)"
    by blast
  have "dget (buckets w) bucketMeta (configKey ns p) = Some (JConfigMeta m)"
    using ok dget_metaAt [OF assms(1)] by simp
  with ok show "effect (OpDelete p ns) (buckets w) (buckets w')"
    unfolding d using assms by (intro effect.deleted) (auto intro: entriesDeleted_inv)
qed (rule effect.same)

lemma toggle_effect:
  assumes "repo_inv (buckets w)" "ctx_tx c = None" "nulFree ns" "nulFree p"
  shows "effect (if locked then OpLock ns p else OpUnlock ns p) (buckets w)
     (buckets (snd (toggleConfigLock E c ns p locked w)))"
  unfolding toggleConfigLock_def
proof (rule WithTx_effect [OF assms(2)])
  fix u w' assume "toggleConfigLockTx E (TxQuerier True) ns p locked w = (Inr u, w')"
  from toggleConfigLockTx_Inr [OF this assms(1)] obtain m where
    m: "metaAt (buckets w) ns p = Some m" and
    d: "if m_Locked m = locked then w' = w
      else \<exists>s t. buckets w' = lockToggled ns p m locked s t (buckets w)" by blast
  show "effect (if locked then OpLock ns p else OpUnlock ns p) (buckets w) (buckets w')"
  proof (cases "m_Locked m = locked")
    case True
    with d show ?thesis by (simp add: effect.same)
  next
    case False
    with d obtain s t where d': "buckets w' = lockToggled ns p m locked s t (buckets w)" by auto
    show ?thesis
      unfolding d' using assms m False by (intro effect.toggled) (auto intro: lockToggled_inv)
  qed
qed (rule effect.same)

lemma deleteRange_effect:
  assumes "repo_inv (buckets w)" "room (buckets w)" "ctx_tx c = None"
  shows "effect op (buckets w) (buckets (snd (DeleteRangeKeys E c sNS sP eNS eP prev w)))"
  unfolding DeleteRangeKeys_def Let_def
proof (rule WithTx_effect [OF assms(3)])
  let ?rp = "buildRangeParams sNS sP eNS eP"
  let ?rows = "rangeRows ?rp (bkt (buckets w) bucketMeta)"
  fix x w' assume "deleteRangeKeysTx E (TxQuerier True) ?rp sNS prev w = (Inr x, w')"
  then have "deleteRangeKeysTx E (TxQuerier True) ?rp sNS prev w = (Inr (fst x, snd x), w')" by simp
  note S = deleteRangeKeysTx_Inr [OF this assms(1,2)]
  show "effect op (buckets w) (buckets w')"
  proof (cases "?rows = []")
    case True
    with S(4) show ?thesis by (simp add: effect.same)
  next
    case False
    let ?ts = "deleteRows E (ticks w) (map (targetOf (buckets w) prev) ?rows)"
    have "set (map fst ?ts) = fst ` set ?rows"
      unfolding deleteRows_keys by (simp add: targetOf_def split_beta image_image)
    then have keys: "fst ` set ?ts = fst ` set ?rows" by (simp only: set_map)
    have "\<exists>m. dget (buckets w) bucketMeta k = Some (JConfigMeta m) \<and> \<not> m_Locked m"
      if "k \<in> fst ` set ?ts" for k
    proof -
      from that obtain v where kv: "(k, v) \<in> set ?rows" unfolding keys by auto
      from rangeRows_meta(1,3) [OF assms(1) kv] S(2) kv show ?thesis by fastforce
    qed
    with S(5) [OF False] False entriesDeleted_inv [OF assms(1,2), of ?ts] show ?thesis
      by (auto intro!: effect.deleted)
  qed
qed (rule effect.same)

lemma repo_step_effect:
  assumes "repo_step op d d'" "repo_inv d"
  shows "effect op d d'"
  using assms
proof (induction rule: repo_step.induct)
  case (1 op w c E)
  then show ?case
    using toggle_effect [of w c _ _ True E] toggle_effect [of w c _ _ False E]
    by (cases op) (auto simp: runOp_def opNamesOk_def LockConfig_def UnlockConfig_def
        create_effect update_effect delete_effect put_effect deleteRange_effect)
qed

section \<open>Invariants of runs\<close>

lemma effect_inv: "effect op d d' \<Longrightarrow> repo_inv d \<Longrightarrow> repo_inv d'"
  by (auto elim!: effectE)

lemma reachable_inv: "repo_reachable d \<Longrightarrow> repo_inv d"
proof (induction rule: repo_reachable.induct)
  case reach_init
  show ?case by (rule initialised_empty_inv)
next
  case (reach_step d op d')
  then show ?case using effect_inv repo_step_effect by blast
qed

lemma history_written:
  assumes "repo_inv d" "room d" "nulFree ns" "nulFree p" "nulFree ns'" "nulFree p'"
    "m_Revision m = revOf d + 1"
  shows "historyAt (entryWritten ns p m c row d) ns' p' r =
     (if r = revOf d + 1 then (if ns' = ns \<and> p' = p then Some c else None) else historyAt d ns' p' r)"
proof -
  let ?d = "entryWritten ns p m c row d"
  note nxt = room_next [OF assms(1,2)]
  have rev: "revOf ?d = revOf d + 1" using nxt assms(7) by (simp add: revOf_written)
  have beyond: "dget d bucketHistory (historyKey ns' p' (revOf d + 1)) = None"
    using assms nxt by (intro history_None_beyond) simp_all
  show ?thesis
  proof (cases "1 \<le> r \<and> r \<le> revOf d + 1")
    case True
    then have "in_int64 r" using nxt(1) by (auto intro: in_int64_le)
    with True assms nxt beyond show ?thesis
      by (auto simp: historyAt_def rev dget_written historyKey_inj rawBytes_def)
  next
    case False
    with nxt counter_revOf(2) [OF repo_invD(2) [OF assms(1)]] show ?thesis
      by (auto simp: historyAt_def rev)
  qed
qed

lemma room_of_step: "repo_step op d d' \<Longrightarrow> room d"
  by (auto elim: repo_step.cases)

lemma entriesDeleted_history: "dget (entriesDeleted ts r d) bucketHistory k = dget d bucketHistory k"
  by (simp add: dget_entriesDeleted)

text \<open>A history row is never changed or removed, and the counter only grows, by one per write.\<close>

lemma step_history:
  assumes step: "repo_step op d d'" and inv: "repo_inv d" and names: "nulFree ns" "nulFree p"
    and "r \<le> revOf d"
  shows "historyAt d' ns p r = historyAt d ns p r"
  using repo_step_effect [OF step inv]
proof cases
  case (written cfg ns' p' c m row)
  with assms room_of_step [OF step] show ?thesis by (simp add: history_written)
next
  case (deleted ts)
  with assms room_next [OF inv room_of_step [OF step]] show ?thesis
    by (simp add: historyAt_def entriesDeleted_history revOf_entriesDeleted)
next
  case (toggled locked ns' p' m s t)
  then show ?thesis
    by (simp add: historyAt_def lockToggled_metaAt) (simp add: lockToggled_def)
qed simp

lemma step_revision:
  assumes step: "repo_step op d d'" and inv: "repo_inv d"
  shows "revOf d' = revOf d \<and> absOf d' = absOf d \<or> revOf d' = revOf d + 1"
  using repo_step_effect [OF step inv]
proof cases
  case (written cfg ns' p' c m row)
  with room_next [OF inv room_of_step [OF step]] show ?thesis by (simp add: revOf_written)
next
  case (deleted ts)
  with room_next [OF inv room_of_step [OF step]] show ?thesis by (simp add: revOf_entriesDeleted)
next
  case (toggled locked ns' p' m s t)
  then show ?thesis by (simp add: lockToggled_abs lockToggled_metaAt)
qed simp

lemma step_locked:
  assumes step: "repo_step op d d'" and inv: "repo_inv d" and names: "nulFree ns" "nulFree p"
    and m: "metaAt d ns p = Some m" "m_Locked m" and "op \<noteq> OpUnlock ns p"
  shows "metaAt d' ns p = Some m \<and> contentAt d' ns p = contentAt d ns p"
  using repo_step_effect [OF step inv]
proof cases
  case same
  with m show ?thesis by simp
next
  case (written cfg ns' p' c m' row)
  with m have "\<not> (ns = ns' \<and> p = p')" by (auto simp: putAllowed_def)
  with written names m show ?thesis by (auto simp: metaAt_written)
next
  case (deleted ts)
  have "dget d bucketMeta (configKey ns p) = Some (JConfigMeta m)"
    using inv m by (simp add: dget_metaAt)
  with deleted(3) m have "configKey ns p \<notin> fst ` set ts" by fastforce
  with deleted m show ?thesis by (simp add: metaAt_def contentAt_def dget_entriesDeleted)
next
  case (toggled locked ns' p' m' s t)
  with m assms(7) have "\<not> (ns = ns' \<and> p = p')" by (auto split: if_splits)
  with toggled names m show ?thesis by (auto simp: lockToggled_metaAt)
qed

end
