(* ===== verification/RepoViews.thy ===== *)
theory RepoViews
  imports RepoSteps
begin

text \<open>
  The rows of a range as the pairs a client sees: the pairs that range reads and range deletions
  return, in terms of the abstract store and of the history.
\<close>

text \<open>The name of a row and of a pair.\<close>

definition rowName :: "bytes \<times> val \<Rightarrow> string \<times> string" where
  "rowName e = parseConfigKey (fst e)"

definition kvName :: "KVPair \<Rightarrow> string \<times> string" where
  "kvName kv = (kv_Namespace kv, kv_Path kv)"

definition kvOf :: "string \<times> string \<Rightarrow> mvcc_entry \<Rightarrow> KVPair" where
  "kvOf k e = \<lparr>kv_Namespace = fst k, kv_Path = snd k, kv_Value = e_value e,
     kv_CreateRevision = e_create e, kv_ModRevision = e_mod e, kv_Version = e_version e\<rparr>"

lemma kvName_kvOf [simp]: "kvName (kvOf k e) = k"
  by (simp add: kvName_def kvOf_def)

lemma rowName_keys:
  assumes "repo_inv d"
  shows "rowName ` set (rangeRows rp (bkt d bucketMeta)) = keysInRange rp d"
proof -
  have "rowName ` set (rangeRows rp (bkt d bucketMeta)) =
      parseConfigKey ` (fst ` set (rangeRows rp (bkt d bucketMeta)))"
    by (simp add: rowName_def image_image)
  also have "\<dots> = (\<lambda>k. k) ` keysInRange rp d"
    unfolding rangeRows_keys [OF assms] image_image
    by (rule image_cong) (auto simp: keysInRange_def parse_configKey)
  finally show ?thesis by simp
qed

lemma keysInRange_empty:
  "repo_inv d \<Longrightarrow> rangeRows rp (bkt d bucketMeta) = [] \<longleftrightarrow> keysInRange rp d = {}"
  using rowName_keys [of d rp] by auto

text \<open>The rows of a range come in the order of their config keys.\<close>

lemma rangeRows_sorted:
  assumes "repo_inv d"
  shows "sorted_wrt (<) (map fst (rangeRows rp (bkt d bucketMeta)))"
proof -
  have asc: "ascending (bkt d bucketMeta)"
    using repo_invD(1) [OF assms] by (simp add: present_ascending)
  show ?thesis
    using ascending_filter [OF asc, of "\<lambda>e. inRange rp (fst e)"] by (simp add: rangeRows_filter [OF asc])
qed

lemma rangeRows_configKey:
  assumes "repo_inv d" "e \<in> set (rangeRows rp (bkt d bucketMeta))"
  shows "\<exists>ns p m. e = (configKey ns p, JConfigMeta m) \<and> rowName e = (ns, p) \<and> metaAt d ns p = Some m \<and>
     nulFree ns \<and> nulFree p"
proof -
  have "(fst e, snd e) \<in> set (rangeRows rp (bkt d bucketMeta))" using assms(2) by simp
  from rangeRows_meta(3) [OF assms(1) this] obtain ns p m where
    "fst e = configKey ns p" "nulFree ns" "nulFree p" "snd e = JConfigMeta m" "metaAt d ns p = Some m" by blast
  then show ?thesis by (cases e) (auto simp: rowName_def parse_configKey)
qed

lemma names_sorted:
  assumes "repo_inv d" and "\<And>e. e \<in> set (rangeRows rp (bkt d bucketMeta)) \<Longrightarrow> kvName (f e) = rowName e"
  shows "sorted_wrt (<) (map (\<lambda>kv. configKey (kv_Namespace kv) (kv_Path kv))
     (map f (rangeRows rp (bkt d bucketMeta))))"
proof -
  have "configKey (kv_Namespace (f e)) (kv_Path (f e)) = fst e"
    if "e \<in> set (rangeRows rp (bkt d bucketMeta))" for e
    using rangeRows_configKey [OF assms(1) that] assms(2) [OF that] by (auto simp: kvName_def)
  then have "map (\<lambda>kv. configKey (kv_Namespace kv) (kv_Path kv)) (map f (rangeRows rp (bkt d bucketMeta)))
      = map fst (rangeRows rp (bkt d bucketMeta))"
    by simp
  with rangeRows_sorted [OF assms(1)] show ?thesis by (simp only:)
qed

text \<open>The current pair of a row.\<close>

lemma prevKV_abs:
  "nulFree ns \<Longrightarrow> nulFree p \<Longrightarrow> prevKV d ns p = map_option (kvOf (ns, p)) (mv_kvs (absOf d) (ns, p))"
  by (cases "metaAt d ns p") (simp_all add: prevKV_def absOf_def kvOf_def metaEntry_def)

lemma target_prev:
  assumes "repo_inv d" "e \<in> set (rangeRows rp (bkt d bucketMeta))"
  shows "mv_kvs (absOf d) (rowName e) \<noteq> None"
    "dt_kv (targetOf d True e) = kvOf (rowName e) (the (mv_kvs (absOf d) (rowName e)))"
    "kvName (dt_kv (targetOf d prev e)) = rowName e"
proof -
  from rangeRows_configKey [OF assms] obtain ns p m where
    e: "e = (configKey ns p, JConfigMeta m)" "rowName e = (ns, p)" "metaAt d ns p = Some m"
      "nulFree ns" "nulFree p" by blast
  then show "mv_kvs (absOf d) (rowName e) \<noteq> None" by (simp add: absOf_def)
  have parse: "parseConfigKey (fst e) = (ns, p)" using e by (simp add: rowName_def)
  with e show "dt_kv (targetOf d True e) = kvOf (rowName e) (the (mv_kvs (absOf d) (rowName e)))"
    by (simp add: targetOf_def prevKV_abs) (simp add: absOf_def)
  from parse e show "kvName (dt_kv (targetOf d prev e)) = rowName e"
    by (simp add: targetOf_def kvName_def prevKV_def)
qed

lemma rowKV_current:
  assumes "repo_inv (buckets w)" "e \<in> set (rangeRows rp (bkt (buckets w) bucketMeta))"
  shows "rowKV 0 False q w e = Some (dt_kv (targetOf (buckets w) True e))"
proof -
  from rangeRows_configKey [OF assms] obtain ns p m where
    e: "e = (configKey ns p, JConfigMeta m)" "metaAt (buckets w) ns p = Some m" "nulFree ns" by blast
  then show ?thesis
    by (simp add: rowKV_def readKVValue_def targetOf_def parse_configKey prevKV_def configMetaCodec_def
        bucket_Get_dget contentAt_def)
qed

lemma rangeKVs_total:
  assumes "\<And>e. e \<in> set rows \<Longrightarrow> rowKV r ko q w e = Some (f e)"
  shows "rangeKVs r ko q w rows = map f rows"
  using assms by (induction rows) (simp_all add: rangeKVs_def List.map_filter_def)

text \<open>The pairs of a range, in key order, as the abstract store has them.\<close>

definition livePairs :: "rangeParams \<Rightarrow> database \<Rightarrow> KVPair list" where
  "livePairs rp d = map (dt_kv \<circ> targetOf d True) (rangeRows rp (bkt d bucketMeta))"

lemma livePairs_spec:
  assumes "repo_inv d"
  shows "sorted_wrt (<) (map (\<lambda>kv. configKey (kv_Namespace kv) (kv_Path kv)) (livePairs rp d))"
    "set (livePairs rp d) = {kvOf k e | k e. mv_kvs (absOf d) k = Some e \<and> inRange rp (configKey (fst k) (snd k))}"
proof -
  show "sorted_wrt (<) (map (\<lambda>kv. configKey (kv_Namespace kv) (kv_Path kv)) (livePairs rp d))"
    unfolding livePairs_def using assms
    by (rule names_sorted) (simp add: target_prev(3) [OF assms])
  have "set (livePairs rp d) = (\<lambda>k. kvOf k (the (mv_kvs (absOf d) k))) ` (rowName ` set (rangeRows rp (bkt d bucketMeta)))"
    by (auto simp: livePairs_def target_prev(2) [OF assms] image_image)
  also have "\<dots> = {kvOf k e | k e. mv_kvs (absOf d) k = Some e \<and> inRange rp (configKey (fst k) (snd k))}"
    unfolding rowName_keys [OF assms] by (force simp: keysInRange_def absOf_def split: if_splits)
  finally show "set (livePairs rp d) =
      {kvOf k e | k e. mv_kvs (absOf d) k = Some e \<and> inRange rp (configKey (fst k) (snd k))}" .
qed

lemma targets_of_range:
  assumes "repo_inv d"
  shows "kvName ` (\<lambda>x. dt_kv (targetOf d prev x)) ` set (rangeRows rp (bkt d bucketMeta)) = keysInRange rp d"
    "sorted_wrt (<) (map (\<lambda>kv. configKey (kv_Namespace kv) (kv_Path kv))
       (map (dt_kv \<circ> targetOf d prev) (rangeRows rp (bkt d bucketMeta))))"
    "prev \<Longrightarrow> map (dt_kv \<circ> targetOf d prev) (rangeRows rp (bkt d bucketMeta)) = livePairs rp d"
proof -
  show "kvName ` (\<lambda>x. dt_kv (targetOf d prev x)) ` set (rangeRows rp (bkt d bucketMeta)) = keysInRange rp d"
    using target_prev(3) [OF assms, of _ rp prev] by (simp add: rowName_keys [OF assms, symmetric] image_image)
  show "sorted_wrt (<) (map (\<lambda>kv. configKey (kv_Namespace kv) (kv_Path kv))
       (map (dt_kv \<circ> targetOf d prev) (rangeRows rp (bkt d bucketMeta))))"
    using assms by (rule names_sorted) (simp add: target_prev(3) [OF assms])
qed (simp add: livePairs_def)

lemma locked_row:
  assumes "repo_inv d" "find lockedRow (rangeRows rp (bkt d bucketMeta)) = Some e"
  shows "\<exists>ns p m. (ns, p) \<in> keysInRange rp d \<and> metaAt d ns p = Some m \<and> m_Locked m \<and>
     p = snd (parseConfigKey (fst e))"
proof -
  from assms(2) have mem: "e \<in> set (rangeRows rp (bkt d bucketMeta))" "lockedRow e"
    by (auto simp: find_Some_iff)
  from rangeRows_configKey [OF assms(1) mem(1)] mem(2) obtain ns p m where
    row: "rowName e = (ns, p)" "metaAt d ns p = Some m" "m_Locked m" by auto
  moreover have "(ns, p) \<in> keysInRange rp d"
    using row(1) mem(1) by (simp add: rowName_keys [OF assms(1), symmetric] rev_image_eqI)
  ultimately show ?thesis by (auto simp: rowName_def)
qed

lemma unlocked_range:
  assumes "repo_inv d" "find lockedRow (rangeRows rp (bkt d bucketMeta)) = None"
  shows "\<forall>e \<in> set (rangeRows rp (bkt d bucketMeta)). \<not> lockedRow e"
    "\<forall>ns p m. (ns, p) \<in> keysInRange rp d \<and> metaAt d ns p = Some m \<longrightarrow> \<not> m_Locked m"
proof -
  show un: "\<forall>e \<in> set (rangeRows rp (bkt d bucketMeta)). \<not> lockedRow e"
    using assms(2) by (auto simp: find_None_iff)
  show "\<forall>ns p m. (ns, p) \<in> keysInRange rp d \<and> metaAt d ns p = Some m \<longrightarrow> \<not> m_Locked m"
  proof (intro allI impI, elim conjE)
    fix ns p m assume "(ns, p) \<in> keysInRange rp d" and m: "metaAt d ns p = Some m"
    then obtain e where e: "e \<in> set (rangeRows rp (bkt d bucketMeta))" "rowName e = (ns, p)"
      by (auto simp: rowName_keys [OF assms(1), symmetric])
    with rangeRows_configKey [OF assms(1) e(1)] un m show "\<not> m_Locked m" by auto
  qed
qed

lemma RangeQuery_current:
  assumes "repo_inv (buckets w)"
  shows "\<exists>more. RangeQuery_tx sNS sP eNS eP limit 0 False (TxQuerier wr) w =
      Inr (let ys = livePairs (buildRangeParams sNS sP eNS eP) (buckets w)
           in if limit > 0 then take (nat limit) ys else ys, more) \<and>
      (\<not> more \<longrightarrow> limit \<le> 0 \<or> int (length (livePairs (buildRangeParams sNS sP eNS eP) (buckets w))) \<le> limit)"
proof -
  have "rangeKVs 0 False (TxQuerier wr) w (rangeRows rp (bkt (buckets w) bucketMeta)) = livePairs rp (buckets w)" for rp
    unfolding livePairs_def using rowKV_current [OF assms]
    by (intro rangeKVs_total) simp
  with RangeQuery_tx_spec [OF assms, of sNS sP eNS eP limit 0 False wr] show ?thesis by simp
qed

section \<open>Reads at a revision\<close>

definition newestAt :: "database \<Rightarrow> string \<Rightarrow> string \<Rightarrow> int64 \<Rightarrow> bytes \<Rightarrow> bool" where
  "newestAt d ns p revision c \<longleftrightarrow>
     (\<exists>r \<le> revision. historyAt d ns p r = Some c \<and>
        (\<forall>r'. r < r' \<and> r' \<le> revision \<longrightarrow> historyAt d ns p r' = None))"

lemma historyAt_range: "historyAt d ns p r = Some c \<Longrightarrow> 1 \<le> r \<and> r \<le> revOf d"
  by (auto simp: historyAt_def split: if_splits)

lemma newestAt_unique: "newestAt d ns p r c \<Longrightarrow> newestAt d ns p r c' \<Longrightarrow> c = c'"
  unfolding newestAt_def by (metis linorder_neqE_linordered_idom option.distinct(1) option.inject)

text \<open>The current content of a live config is its newest content at every revision since its last write.\<close>

lemma newestAt_live:
  assumes inv: "repo_inv d" and m: "metaAt d ns p = Some m" and "nulFree ns"
    and r: "m_Revision m \<le> r"
  shows "newestAt d ns p r (contentAt d ns p)"
proof -
  have "dget d bucketMeta (configKey ns p) = Some (JConfigMeta m)" using inv m by (simp add: dget_metaAt)
  from dget_meta [OF inv this] obtain ns0 p0 c where row: "nulFree ns0"
      "configKey ns p = configKey ns0 p0" "m_Revision m \<le> revOf d" "1 \<le> m_CreateRevision m"
      "m_CreateRevision m \<le> m_Revision m"
      "dget d bucketContent (configKey ns0 p0) = Some (Raw c)"
      "dget d bucketHistory (historyKey ns0 p0 (m_Revision m)) = Some (Raw c)"
      "\<And>r. m_Revision m < r \<Longrightarrow> r \<le> revOf d \<Longrightarrow> dget d bucketHistory (historyKey ns0 p0 r) = None"
    by (rule meta_row_okE) (blast dest: val.inject(2) [THEN iffD1])
  then have "ns0 = ns" "p0 = p" using \<open>nulFree ns\<close> by (simp_all add: configKey_inj)
  with row have "historyAt d ns p (m_Revision m) = Some (contentAt d ns p)"
    by (simp add: historyAt_def contentAt_def rawBytes_def)
  moreover have "historyAt d ns p r' = None" if "m_Revision m < r'" for r'
    using that row(8) [of r'] \<open>ns0 = ns\<close> \<open>p0 = p\<close> by (auto simp: historyAt_def)
  ultimately show ?thesis using r unfolding newestAt_def by blast
qed

lemma lookupHistory_newest:
  assumes "repo_inv (buckets w)" "nulFree ns" "nulFree p" "0 \<le> revision" "in_int64 revision"
  shows "lookupHistoryAtRevision ns p revision (TxQuerier wr) w = Some c \<longleftrightarrow> newestAt (buckets w) ns p revision c"
  unfolding newestAt_def using assms by (rule lookupHistory_spec)

lemma rowKV_revision:
  assumes inv: "repo_inv (buckets w)" and e: "e \<in> set (rangeRows rp (bkt (buckets w) bucketMeta))"
    and r: "0 < revision" "in_int64 revision"
  shows "(\<exists>kv. rowKV revision False (TxQuerier wr) w e = Some kv \<and> kvName kv = k \<and> kv_Value kv = c) \<longleftrightarrow>
     rowName e = k \<and> newestAt (buckets w) (fst k) (snd k) revision c"
proof -
  from rangeRows_configKey [OF inv e] obtain ns p m where
    row: "e = (configKey ns p, JConfigMeta m)" "rowName e = (ns, p)" "metaAt (buckets w) ns p = Some m"
      "nulFree ns" "nulFree p" by blast
  note look = lookupHistory_newest [OF inv row(4,5), of revision wr]
  have kv: "rowKV revision False (TxQuerier wr) w e =
      map_option (\<lambda>(val, modRev). \<lparr>kv_Namespace = ns, kv_Path = p, kv_Value = val,
         kv_CreateRevision = m_CreateRevision m, kv_ModRevision = modRev, kv_Version = m_Version m\<rparr>)
        (readKVValue (configKey ns p) ns p m revision False (TxQuerier wr) w)"
    using row by (simp add: rowKV_def parse_configKey configMetaCodec_def)
  show ?thesis
  proof (cases "revision < m_Revision m")
    case True
    then have read: "readKVValue (configKey ns p) ns p m revision False (TxQuerier wr) w =
        map_option (\<lambda>v. (v, revision)) (lookupHistoryAtRevision ns p revision (TxQuerier wr) w)"
      using r by (simp add: readKVValue_def split: option.split)
    show ?thesis
      unfolding kv read using look r row(2)
      by (cases "lookupHistoryAtRevision ns p revision (TxQuerier wr) w")
        (auto simp: kvName_def dest: newestAt_unique)
  next
    case False
    then have read: "readKVValue (configKey ns p) ns p m revision False (TxQuerier wr) w =
        Some (contentAt (buckets w) ns p, m_Revision m)"
      by (simp add: readKVValue_def bucket_Get_dget contentAt_def)
    have "newestAt (buckets w) ns p revision (contentAt (buckets w) ns p)"
      using newestAt_live [OF inv row(3,4)] False by simp
    then show ?thesis unfolding kv read using row(2) by (auto simp: kvName_def dest: newestAt_unique)
  qed
qed

lemma rangeKVs_mem: "kv \<in> set (rangeKVs r ko q w rows) \<longleftrightarrow> (\<exists>e \<in> set rows. rowKV r ko q w e = Some kv)"
  by (force simp: rangeKVs_def List.map_filter_def)

lemma RangeQuery_revision:
  assumes inv: "repo_inv (buckets w)" and r: "0 < revision" "in_int64 revision"
  shows "\<exists>kvs more. RangeQuery_tx sNS sP eNS eP 0 revision False (TxQuerier wr) w = Inr (kvs, more) \<and>
     (\<forall>k c. (\<exists>kv \<in> set kvs. kvName kv = k \<and> kv_Value kv = c) \<longleftrightarrow>
        k \<in> keysInRange (buildRangeParams sNS sP eNS eP) (buckets w) \<and>
        newestAt (buckets w) (fst k) (snd k) revision c)"
proof -
  let ?rp = "buildRangeParams sNS sP eNS eP"
  let ?rows = "rangeRows ?rp (bkt (buckets w) bucketMeta)"
  let ?kvs = "rangeKVs revision False (TxQuerier wr) w ?rows"
  from RangeQuery_tx_spec [OF inv, of sNS sP eNS eP 0 revision False wr] obtain more where
    run: "RangeQuery_tx sNS sP eNS eP 0 revision False (TxQuerier wr) w = Inr (?kvs, more)" by auto
  have "(\<exists>kv \<in> set ?kvs. kvName kv = k \<and> kv_Value kv = c) \<longleftrightarrow>
      k \<in> keysInRange ?rp (buckets w) \<and> newestAt (buckets w) (fst k) (snd k) revision c" for k c
  proof -
    have "(\<exists>kv \<in> set ?kvs. kvName kv = k \<and> kv_Value kv = c) \<longleftrightarrow>
        (\<exists>e \<in> set ?rows. \<exists>kv. rowKV revision False (TxQuerier wr) w e = Some kv \<and> kvName kv = k \<and> kv_Value kv = c)"
      by (auto simp: Bex_def rangeKVs_mem)
    also have "\<dots> \<longleftrightarrow> (\<exists>e \<in> set ?rows. rowName e = k \<and> newestAt (buckets w) (fst k) (snd k) revision c)"
      using rowKV_revision [OF inv _ r] by (intro bex_cong refl)
    also have "\<dots> \<longleftrightarrow> k \<in> rowName ` set ?rows \<and> newestAt (buckets w) (fst k) (snd k) revision c"
      by blast
    finally show ?thesis unfolding rowName_keys [OF inv] .
  qed
  with run show ?thesis by blast
qed

end
