(* ===== verification/TxnSpec.thy ===== *)
theory TxnSpec
  imports ServiceFrame RepoViews
begin

text \<open>
  Transactions of the config use case: nothing is published before the commit, a failed
  transaction leaves no trace, and a read-only one changes nothing. Then the abstract meaning of a transaction on the
  multi-version store, and the proof that \<^verbatim>\<open>Service.Txn\<close> implements it: compares are evaluated on the state the
  transaction starts from, the operations of one branch run in order, nested transactions included, and the
  collector holds exactly one notification per put and per deleted key, in the order of execution.
\<close>

section \<open>Nothing is published inside a transaction\<close>

lemma keeps_addPending: "keeps hub (addPending n)"
  by (simp add: keeps_def addPending_def)

lemma keeps_deferring_nested:
  assumes "ctx_pending c" "keeps hub (body c)" "\<And>wr. keeps hub (body (c\<lparr>ctx_tx := Some wr\<rparr>))"
  shows "keeps hub (deferring E c body)"
  using hub_frame.keeps_WithTx_ctx(1) [of body c E] assms
  by (auto simp: keeps_def deferring_def withPendingEvents_def split: prod.splits sum.splits) (metis snd_conv)+

lemma keeps_Validator: "keeps hub (Validator_Validate E X c ns p v f)"
  unfolding Validator_Validate_def
  by (intro keeps_intros hub_frame.keeps_operations) (simp add: keeps_def split: prod.split)

lemma keeps_Service_PutKey: "ctx_pending c \<Longrightarrow> keeps hub (Service_PutKey E X c ns p v)"
  unfolding Service_PutKey_def Let_def
  by (intro keeps_bind keeps_Validator keeps_deferring_nested)
    (auto split: prod.split intro!: keeps_intros hub_frame.keeps_operations hub_frame.keeps_service_reads
      keeps_addPending)

lemma keeps_Service_DeleteRangeKeys:
  "ctx_pending c \<Longrightarrow> keeps hub (Service_DeleteRangeKeys E c ns p eNS eP prev)"
  unfolding Service_DeleteRangeKeys_def
  by (intro keeps_deferring_nested keeps_bind hub_frame.keeps_operations)
    (auto simp: keeps_def split: prod.split)

lemma keeps_runTxn:
  "ctx_pending c \<Longrightarrow> keeps (hub :: 'z sworld_scheme \<Rightarrow> _) (runTxn E X c inp)"
  "ctx_pending c \<Longrightarrow> keeps (hub :: 'z sworld_scheme \<Rightarrow> _) (runOps E X c ops results r)"
  "ctx_pending c \<Longrightarrow> keeps (hub :: 'z sworld_scheme \<Rightarrow> _) (runTxnOp E X c op)"
proof (induction E X c inp and E X c ops results r and E X c op rule: runTxn_runOps_runTxnOp.induct)
  case (1 E X c cmps success failure)
  have "keeps (hub :: 'z sworld_scheme \<Rightarrow> _) (runOps E X c success [] 0)"
    "keeps (hub :: 'z sworld_scheme \<Rightarrow> _) (runOps E X c failure [] 0)"
    using 1(1) [of True] 1(2) [of False] 1(3) by simp_all
  then show ?case
    by (auto split: prod.split intro!: keeps_intros hub_frame.keeps_service_reads)
next
  case (3 E X c op ops results lastRev)
  then show ?case by (auto split: prod.split intro!: keeps_bind)
next
  case (5 E X c op)
  then show ?case
    by (auto simp: runPutOp_def split: prod.split intro!: keeps_intros keeps_Service_PutKey)
next
  case (6 E X c op)
  then show ?case
    by (auto simp: runDeleteRangeOp_def split: prod.split intro!: keeps_intros keeps_Service_DeleteRangeKeys)
next
  case (8 E X c inp)
  then show ?case
    by (auto simp: txnBoundary_def intro!: keeps_intros keeps_deferring_nested)
qed (auto intro!: keeps_basic hub_frame.keeps_service_reads)

text \<open>A failed transaction, whatever failed, is invisible: same buckets, same publisher.\<close>

lemma deferring_Inl:
  assumes "deferring E c body w = (Inl e, w')" "ctx_tx c \<noteq> Some True" "\<not> ctx_pending c"
    and "\<And>c. ctx_pending c \<Longrightarrow> keeps hub (body c)"
  shows "buckets w' = buckets w" "hub w' = hub w"
proof -
  let ?c = "c\<lparr>ctx_pending := True\<rparr>" and ?w = "w\<lparr>pending := []\<rparr>"
  from assms(1,3) have tx: "WithTx E ?c body ?w = (Inl e, w')"
    by (auto simp: deferring_def withPendingEvents_def split: prod.splits sum.splits)
  from WithTx_Inl_buckets [OF _ tx] assms(2) show "buckets w' = buckets w" by simp
  have "keeps hub (WithTx E ?c body)" by (intro hub_frame.keeps_WithTx_ctx assms(4)) simp_all
  from keepsD [OF this tx] show "hub w' = hub w" by simp
qed

section \<open>Read-only transactions\<close>

definition pureRead :: "('a, 'w) op \<Rightarrow> bool" where
  "pureRead m \<longleftrightarrow> (\<forall>w. snd (m w) = w)"

lemma pureRead_keeps: "pureRead m \<longleftrightarrow> keeps (\<lambda>w. w) m"
  by (simp add: pureRead_def keeps_def)

lemma pureRead_bind: "pureRead m \<Longrightarrow> (\<And>x. pureRead (f x)) \<Longrightarrow> pureRead (bindT m f)"
  unfolding pureRead_keeps by (rule keeps_bind)

lemma pureRead_basic:
  "pureRead (returnT x)" "pureRead (failT e)" "pureRead (readT f)"
  unfolding pureRead_keeps by (rule keeps_basic)+

lemma pureRead_WithReadTx: "pureRead (WithReadTx E c (\<lambda>c. readT (f c)))"
  by (auto simp: pureRead_def WithReadTx_def runTx_def readT_def split: option.splits sum.splits)

lemma pureRead_operations:
  "pureRead (RangeKVs E c ns p eNS eP opts)" "pureRead (CurrentRevisionValue E c)"
  unfolding RangeKVs_def RangeQuery_def CurrentRevisionValue_def CurrentRevision_def
  by (rule pureRead_WithReadTx)+

lemma pureRead_RangeQuery: "pureRead (Service_RangeQuery E c ns p eNS eP opts)"
  unfolding Service_RangeQuery_def
  by (intro pureRead_bind pureRead_operations) (auto split: prod.split
      intro!: pureRead_bind pureRead_operations pureRead_basic)

lemma pureRead_compares: "pureRead (evalCompare E c cmp)" "pureRead (evalCompares E c cmps)"
proof -
  show one: "pureRead (evalCompare E c cmp)" for cmp
    unfolding evalCompare_def by (intro pureRead_bind pureRead_operations)
      (auto split: prod.split intro: pureRead_basic)
  show "pureRead (evalCompares E c cmps)"
    by (induction cmps) (auto intro!: pureRead_bind pureRead_basic one)
qed

lemma pureRead_txn_parts: "pureRead (runRangeOp E c op)" "pureRead (finishTxn E c ok rs r)"
  unfolding runRangeOp_def finishTxn_def Let_def
  by (auto split: prod.split intro!: pureRead_bind pureRead_basic pureRead_RangeQuery pureRead_operations)

lemma pureRead_runTxn:
  "\<not> hasWrites inp \<Longrightarrow> pureRead (runTxn E X c inp :: (_, 'z sworld_scheme) op)"
  "\<not> opsWrite ops \<Longrightarrow> pureRead (runOps E X c ops results r :: (_, 'z sworld_scheme) op)"
  "\<not> opWrites op \<Longrightarrow> pureRead (runTxnOp E X c op :: (_, 'z sworld_scheme) op)"
proof (induction E X c inp and E X c ops results r and E X c op rule: runTxn_runOps_runTxnOp.induct)
  case (1 E X c cmps success failure)
  have "pureRead (runOps E X c success [] 0 :: (_, 'z sworld_scheme) op)"
    "pureRead (runOps E X c failure [] 0 :: (_, 'z sworld_scheme) op)"
    using 1(1) [of True] 1(2) [of False] 1(3) by simp_all
  then show ?case
    by (auto split: prod.split intro!: pureRead_bind pureRead_compares pureRead_txn_parts)
next
  case (3 E X c op ops results lastRev)
  then show ?case by (auto split: prod.split if_splits intro!: pureRead_bind)
next
  case (8 E X c inp)
  then show ?case by (auto simp: txnBoundary_def intro!: pureRead_bind pureRead_basic)
qed (auto intro!: pureRead_basic pureRead_txn_parts)

section \<open>Abstract transactions\<close>

definition absRange :: "string \<Rightarrow> string \<Rightarrow> string \<Rightarrow> string \<Rightarrow> mvcc \<Rightarrow> (string \<times> string) set" where
  "absRange sNS sP eNS eP S =
     {k. mv_kvs S k \<noteq> None \<and> inRange (buildRangeParams sNS sP eNS eP) (configKey (fst k) (snd k))}"

definition cmpHolds :: "KVCompare \<Rightarrow> mvcc \<Rightarrow> bool" where
  "cmpHolds cmp S =
     (let K = absRange (cmp_StartNS cmp) (cmp_StartPath cmp) (cmp_EndNS cmp) (cmp_EndPath cmp) S in
      if K = {} then compareKV cmp None
      else \<forall>k \<in> K. compareKV cmp (Some (kvOf k (the (mv_kvs S k)))))"

fun absOps :: "KVOp list \<Rightarrow> mvcc \<Rightarrow> mvcc" and absOp :: "KVOp \<Rightarrow> mvcc \<Rightarrow> mvcc"
  and absTxn :: "KVTxnInput \<Rightarrow> mvcc \<Rightarrow> mvcc" where
  "absOps [] S = S"
| "absOps (op # ops) S = absOps ops (absOp op S)"
| "absOp (KVOpPut op) S = mvcc_put (po_Namespace op, po_Path op) (po_Value op) S"
| "absOp (KVOpDeleteRange op) S =
     (let K = absRange (do_StartNS op) (do_StartPath op) (do_EndNS op) (do_EndPath op) S in
      if K = {} then S else mvcc_delete K S)"
| "absOp (KVOpTxn (Some inp)) S = absTxn inp S"
| "absOp (KVOpTxn None) S = S"
| "absOp (KVOpRange _) S = S"
| "absOp KVOpUnknown S = S"
| "absTxn (KVTxnInput cmps success failure) S =
     (if \<forall>cmp \<in> set cmps. cmpHolds cmp S then absOps success S else absOps failure S)"

text \<open>An upper bound on the revisions a transaction consumes.\<close>

fun opsSize :: "KVOp list \<Rightarrow> nat" and opSize :: "KVOp \<Rightarrow> nat" and txnSize :: "KVTxnInput \<Rightarrow> nat" where
  "opsSize [] = 0"
| "opsSize (op # ops) = opSize op + opsSize ops"
| "opSize (KVOpPut _) = 1"
| "opSize (KVOpDeleteRange _) = 1"
| "opSize (KVOpTxn (Some inp)) = txnSize inp"
| "opSize (KVOpTxn None) = 0"
| "opSize (KVOpRange _) = 0"
| "opSize KVOpUnknown = 0"
| "txnSize (KVTxnInput _ success failure) = opsSize success + opsSize failure"

definition roomFor :: "nat \<Rightarrow> database \<Rightarrow> bool" where
  "roomFor n d \<longleftrightarrow> revOf d + int n < 2 ^ 63"

text \<open>The keys a transaction puts carry no separator byte.\<close>

fun opsNames :: "KVOp list \<Rightarrow> bool" and opNames :: "KVOp \<Rightarrow> bool" and txnNames :: "KVTxnInput \<Rightarrow> bool" where
  "opsNames [] = True"
| "opsNames (op # ops) = (opNames op \<and> opsNames ops)"
| "opNames (KVOpPut op) = (nulFree (po_Namespace op) \<and> nulFree (po_Path op))"
| "opNames (KVOpTxn (Some inp)) = txnNames inp"
| "opNames _ = True"
| "txnNames (KVTxnInput _ success failure) = (opsNames success \<and> opsNames failure)"

section \<open>Expected notifications\<close>

type_synonym noteKey = "EventType \<times> string \<times> string \<times> int64"

definition noteKey :: "notification \<Rightarrow> noteKey" where
  "noteKey n = (let e = noteEvent n 0 in (we_Type e, we_Path e, we_Namespace e, we_Revision e))"

fun opsKeys :: "KVOp list \<Rightarrow> KVOpResult list \<Rightarrow> noteKey list"
  and opKeys :: "KVOp \<Rightarrow> KVOpResult \<Rightarrow> noteKey list"
  and txnKeys :: "KVTxnInput \<Rightarrow> KVTxnResult \<Rightarrow> noteKey list" where
  "opsKeys (op # ops) (r # rs) = opKeys op r @ opsKeys ops rs"
| "opsKeys [] rs = []"
| "opsKeys ops [] = []"
| "opKeys (KVOpPut op) (RPut r) =
     [(if pr_Prev r \<noteq> None then EventTypeUpdated else EventTypeCreated, po_Path op, po_Namespace op, pr_Revision r)]"
| "opKeys (KVOpDeleteRange op) (RDeleteRange r) =
     map (\<lambda>kv. (EventTypeDeleted, kv_Path kv, kv_Namespace kv, dr_Revision r)) (dr_Deleted r)"
| "opKeys (KVOpTxn (Some inp)) (RTxn res) = txnKeys inp res"
| "opKeys _ _ = []"
| "txnKeys (KVTxnInput cmps success failure) (KVTxnResult rs hdr ok) =
     (if ok then opsKeys success rs else opsKeys failure rs)"

section \<open>Compares\<close>

lemma absRange_keys:
  "absRange sNS sP eNS eP (absOf d) = keysInRange (buildRangeParams sNS sP eNS eP) d"
  by (auto simp: absRange_def keysInRange_def absOf_def split: if_splits)

lemma RangeKVs_Inr:
  assumes "RangeKVs E c sNS sP eNS eP noOpts w = (Inr (kvs, mr), w')" "repo_inv (buckets w)"
  shows "w' = w" "kvs = livePairs (buildRangeParams sNS sP eNS eP) (buckets w)"
proof -
  show "w' = w" using assms(1) pureRead_operations(1) by (metis pureRead_def snd_conv)
  have "\<exists>wr. RangeQuery_tx sNS sP eNS eP 0 0 False (TxQuerier wr) w = Inr (kvs, mr)"
    using assms(1) unfolding RangeKVs_def RangeQuery_def WithReadTx_readT noOpts_def
    by (auto split: option.splits)
  then obtain wr where "RangeQuery_tx sNS sP eNS eP 0 0 False (TxQuerier wr) w = Inr (kvs, mr)" by blast
  with RangeQuery_current [OF assms(2), of sNS sP eNS eP 0 wr]
  show "kvs = livePairs (buildRangeParams sNS sP eNS eP) (buckets w)" by (auto simp: Let_def)
qed

lemma livePairs_all:
  assumes "repo_inv d"
  shows "list_all P (livePairs rp d) \<longleftrightarrow> (\<forall>k \<in> keysInRange rp d. P (kvOf k (the (mv_kvs (absOf d) k))))"
    "livePairs rp d = [] \<longleftrightarrow> keysInRange rp d = {}"
proof -
  have "set (livePairs rp d) = (\<lambda>k. kvOf k (the (mv_kvs (absOf d) k))) ` keysInRange rp d"
    unfolding livePairs_spec(2) [OF assms] by (force simp: keysInRange_def absOf_def split: if_splits)
  then show "list_all P (livePairs rp d) \<longleftrightarrow> (\<forall>k \<in> keysInRange rp d. P (kvOf k (the (mv_kvs (absOf d) k))))"
    "livePairs rp d = [] \<longleftrightarrow> keysInRange rp d = {}"
    by (simp_all add: list_all_iff flip: set_empty)
qed

lemma evalCompare_Inr:
  assumes "evalCompare E c cmp w = (Inr ok, w')" "repo_inv (buckets w)"
  shows "w' = w" "ok = cmpHolds cmp (absOf (buckets w))"
proof -
  show "w' = w" using assms(1) pureRead_compares(1) by (metis pureRead_def snd_conv)
  from assms(1) obtain kvs mr w1 where
    r: "RangeKVs E c (cmp_StartNS cmp) (cmp_StartPath cmp) (cmp_EndNS cmp) (cmp_EndPath cmp) noOpts w =
      (Inr (kvs, mr), w1)" and
    ok: "ok = (if kvs = [] then compareKV cmp None else list_all (\<lambda>kv. compareKV cmp (Some kv)) kvs)"
    by (auto simp: evalCompare_def bind_inversion split: if_splits)
  show "ok = cmpHolds cmp (absOf (buckets w))"
    unfolding ok RangeKVs_Inr(2) [OF r assms(2)]
    by (simp add: cmpHolds_def absRange_keys livePairs_all [OF assms(2)] Let_def)
qed

lemma evalCompares_Inr:
  assumes "evalCompares E c cmps w = (Inr ok, w')" "repo_inv (buckets w)"
  shows "w' = w \<and> ok = (\<forall>cmp \<in> set cmps. cmpHolds cmp (absOf (buckets w)))"
  using assms
proof (induction cmps arbitrary: ok)
  case (Cons cmp cmps)
  from Cons.prems(1) obtain ok1 w1 where
    1: "evalCompare E c cmp w = (Inr ok1, w1)" and
    2: "(if \<not> ok1 then returnT False else evalCompares E c cmps) w1 = (Inr ok, w')"
    by (auto simp: bind_inversion)
  note S = evalCompare_Inr [OF 1 Cons.prems(2)]
  show ?case
  proof (cases ok1)
    case True
    with 2 S have "evalCompares E c cmps w = (Inr ok, w')" by simp
    from Cons.IH [OF this Cons.prems(2)] True S show ?thesis by simp
  next
    case False
    with 2 S show ?thesis by auto
  qed
qed simp

section \<open>Operations inside the transaction\<close>

text \<open>
  A step of a transaction in progress: the invariant holds after it, the abstract store is the
  given one, at most \<open>n\<close> revisions were consumed, and the notifications with the given keys were
  appended to the collector.
\<close>

definition stepOk :: "nat \<Rightarrow> noteKey list \<Rightarrow> mvcc \<Rightarrow> 'z sworld_scheme \<Rightarrow> 'z sworld_scheme \<Rightarrow> bool" where
  "stepOk n keys S' w w' \<longleftrightarrow>
     repo_inv (buckets w') \<and> absOf (buckets w') = S' \<and> revOf (buckets w') \<le> revOf (buckets w) + int n \<and>
     (\<exists>notes. pending w' = pending w @ notes \<and> map noteKey notes = keys)"

lemma stepOk_refl: "repo_inv (buckets w) \<Longrightarrow> stepOk n [] (absOf (buckets w)) w w"
  by (simp add: stepOk_def)

lemma stepOk_trans:
  "stepOk n k S w w1 \<Longrightarrow> stepOk n' k' S' w1 w2 \<Longrightarrow> stepOk (n + n') (k @ k') S' w w2"
  unfolding stepOk_def by auto

lemma stepOk_room: "stepOk n k S w w1 \<Longrightarrow> roomFor (n + m) (buckets w) \<Longrightarrow> roomFor m (buckets w1)"
  by (simp add: stepOk_def roomFor_def)

lemma stepOk_mono: "stepOk n k S w w1 \<Longrightarrow> n \<le> m \<Longrightarrow> stepOk m k S w w1"
  by (auto simp: stepOk_def)

lemma roomFor_room: "roomFor n d \<Longrightarrow> 0 < n \<Longrightarrow> room d"
  by (simp add: roomFor_def room_def)

lemma deferring_nested_Inr:
  assumes "deferring E c body w = (Inr x, w')" "ctx_tx c = Some True" "ctx_pending c"
  shows "body c w = (Inr x, w')"
  using assms by (auto simp: deferring_def withPendingEvents_def split: prod.splits sum.splits)

lemma Validator_Inr:
  assumes "Validator_Validate E X c ns p v f w = (Inr u, w')"
  shows "buckets w' = buckets w" "pending w' = pending w"
proof -
  have "pureRead (Schema_List E c ns)" unfolding Schema_List_def by (rule pureRead_WithReadTx)
  then have read: "Schema_List E c ns w = (r, w1) \<Longrightarrow> w1 = w" for r w1
    by (metis pureRead_def snd_conv)
  with assms show "buckets w' = buckets w" "pending w' = pending w"
    by (auto simp: Validator_Validate_def bind_inversion case_prod_beta split: if_splits dest!: read)
qed

lemma kvPutConfig_Inr:
  assumes "kvPutConfig E ns p v f prev r w = (Inr cfg, w')"
  shows "buckets w' = buckets w" "cfg_Path cfg = p" "cfg_Namespace cfg = ns" "cfg_Revision cfg = r"
  using assms by (auto simp: kvPutConfig_def bind_inversion Let_def split: option.splits)

lemma Service_PutKey_step:
  assumes run: "Service_PutKey E X c ns p v w = (Inr (prev, r), w')" and c: "ctx_tx c = Some True" "ctx_pending c"
    and inv: "repo_inv (buckets w)" "roomFor 1 (buckets w)" and names: "nulFree ns" "nulFree p"
  shows "stepOk 1 [(if prev \<noteq> None then EventTypeUpdated else EventTypeCreated, p, ns, r)]
    (mvcc_put (ns, p) v (absOf (buckets w))) w w'"
proof -
  let ?f = "DetectFormatFromPath p"
  from run obtain w1 u where
    val: "Validator_Validate E X c ns p v ?f w = (Inr u, w1)" and
    body: "deferring E c (\<lambda>c.
        bindT (PutKey E c ns p v) (\<lambda>(p', rev).
        bindT (kvPutConfig E ns p v ?f p' rev) (\<lambda>cfg.
        bindT (addPending (if p' \<noteq> None then NotifyUpdated cfg else NotifyCreated cfg)) (\<lambda>_.
        returnT (p', rev))))) w1 = (Inr (prev, r), w')"
    by (auto simp: Service_PutKey_def Let_def bind_inversion)
  from deferring_nested_Inr [OF body c] obtain w2 w3 cfg where
    put: "putKeyTx E (TxQuerier True) ns p v w1 = (Inr (prev, r), w2)" and
    cfg: "kvPutConfig E ns p v ?f prev r w2 = (Inr cfg, w3)" and
    w': "w' = w3\<lparr>pending := pending w3 @ [if prev \<noteq> None then NotifyUpdated cfg else NotifyCreated cfg]\<rparr>"
    using c by (auto simp: bind_inversion PutKey_def addPending_def)
  note V = Validator_Inr [OF val] and K = kvPutConfig_Inr [OF cfg]
  have room: "room (buckets w1)" using inv(2) V(1) by (simp add: roomFor_room [of 1])
  note S = putKeyTx_step [OF put, unfolded V(1), OF inv(1) room [unfolded V(1)] names]
  have "pending w3 = pending w2" using keepsD [OF pending_frame.keeps_service_reads(8) cfg] .
  also have "pending w2 = pending w" using keepsD [OF pending_frame.keeps_putKeyTx put] V(2) by simp
  finally have pend: "pending w3 = pending w" .
  have "revOf (buckets w2) = revOf (buckets w) + 1"
    using arg_cong [OF S(4), of mv_rev] by (simp add: absOf_def mvcc_put_def Let_def)
  with S K pend show ?thesis
    by (auto simp: stepOk_def w' noteKey_def noteEvent_def configEvent_def Let_def)
qed

lemma Service_DeleteRangeKeys_step:
  assumes run: "Service_DeleteRangeKeys E c sNS sP eNS eP prev w = (Inr (kvs, r), w')"
    and c: "ctx_tx c = Some True" "ctx_pending c"
    and inv: "repo_inv (buckets w)" "roomFor 1 (buckets w)"
  shows "stepOk 1 (map (\<lambda>kv. (EventTypeDeleted, kv_Path kv, kv_Namespace kv, r)) kvs)
    (let K = absRange sNS sP eNS eP (absOf (buckets w)) in
      if K = {} then absOf (buckets w) else mvcc_delete K (absOf (buckets w))) w w'"
proof -
  let ?rp = "buildRangeParams sNS sP eNS eP"
  from deferring_nested_Inr [OF run [unfolded Service_DeleteRangeKeys_def] c] obtain w1 where
    tx: "deleteRangeKeysTx E (TxQuerier True) ?rp sNS prev w = (Inr (kvs, r), w1)" and
    w': "w' = w1\<lparr>pending := pending w1 @ map (\<lambda>kv. NotifyDeleted (kv_Path kv) (kv_Namespace kv) r) kvs\<rparr>"
    using c by (auto simp: bind_inversion DeleteRangeKeys_def Let_def)
  have pend: "pending w1 = pending w" using keepsD [OF pending_frame.keeps_deleteRangeKeysTx tx] .
  have room: "room (buckets w)" using inv(2) by (simp add: roomFor_room [of 1])
  note S = deleteRangeKeysTx_step [OF tx inv(1) room]
  have keys: "map noteKey (map (\<lambda>kv. NotifyDeleted (kv_Path kv) (kv_Namespace kv) r) kvs) =
      map (\<lambda>kv. (EventTypeDeleted, kv_Path kv, kv_Namespace kv, r)) kvs"
    by (simp add: noteKey_def noteEvent_def Let_def)
  show ?thesis
  proof (cases "rangeRows ?rp (bkt (buckets w) bucketMeta) = []")
    case True
    with S(1) have "kvs = []" by simp
    with True S(2) inv(1) show ?thesis
      by (simp add: stepOk_def w' absRange_keys keysInRange_empty [OF inv(1)])
  next
    case False
    from S(3) [OF this] have abs: "repo_inv (buckets w1)"
      "absOf (buckets w1) = mvcc_delete (keysInRange ?rp (buckets w)) (absOf (buckets w))" by simp_all
    then have "revOf (buckets w1) = revOf (buckets w) + 1"
      using arg_cong [OF abs(2), of mv_rev] by (simp add: absOf_def mvcc_delete_def)
    with abs False pend keys show ?thesis
      by (simp add: stepOk_def w' absRange_keys keysInRange_empty [OF inv(1)] Let_def)
  qed
qed

section \<open>The run of a transaction\<close>

lemma pureRead_Inr: "pureRead m \<Longrightarrow> m w = (r, w') \<Longrightarrow> w' = w"
  by (metis pureRead_def snd_conv)

lemma finishTxn_Inr:
  assumes "finishTxn E c ok rs r w = (Inr res, w')"
  shows "w' = w" "tr_Responses res = rs" "tr_Succeeded res = ok"
  using assms pureRead_Inr [OF pureRead_txn_parts(2) assms]
  by (auto simp: finishTxn_def bind_inversion Let_def split: if_splits)

lemma runTxnOp_Inr:
  fixes w :: "'z sworld_scheme"
  assumes "runTxnOp E X c op w = (Inr (res, r), w')" "ctx_tx c = Some True" "ctx_pending c"
    and "repo_inv (buckets w)" "roomFor (opSize op) (buckets w)" "opNames op"
    and nested: "\<And>inp res (v :: 'z sworld_scheme) v'. op = KVOpTxn (Some inp) \<Longrightarrow> runTxn E X c inp v = (Inr res, v') \<Longrightarrow>
      repo_inv (buckets v) \<Longrightarrow> roomFor (txnSize inp) (buckets v) \<Longrightarrow> txnNames inp \<Longrightarrow>
      stepOk (txnSize inp) (txnKeys inp res) (absTxn inp (absOf (buckets v))) v v'"
  shows "stepOk (opSize op) (opKeys op res) (absOp op (absOf (buckets w))) w w'"
proof (cases op)
  case (KVOpRange rop)
  with assms have "runRangeOp E c rop w = (Inr (res, r), w')" by simp
  from pureRead_Inr [OF pureRead_txn_parts(1) this] KVOpRange assms(4) show ?thesis
    by (simp add: stepOk_refl)
next
  case (KVOpPut pop)
  with assms(1) obtain prev where
    "Service_PutKey E X c (po_Namespace pop) (po_Path pop) (po_Value pop) w = (Inr (prev, r), w')"
    "res = RPut \<lparr>pr_Prev = prev, pr_Revision = r\<rparr>"
    by (auto simp: runPutOp_def bind_inversion)
  with Service_PutKey_step [of E X c _ _ _ w prev r w'] assms KVOpPut show ?thesis by simp
next
  case (KVOpDeleteRange dop)
  with assms(1) obtain kvs where
    run: "Service_DeleteRangeKeys E c (do_StartNS dop) (do_StartPath dop) (do_EndNS dop) (do_EndPath dop)
      (do_ReturnPrev dop) w = (Inr (kvs, r), w')" and
    "res = RDeleteRange \<lparr>dr_Deleted = kvs, dr_Revision = r\<rparr>"
    by (auto simp: runDeleteRangeOp_def bind_inversion)
  with Service_DeleteRangeKeys_step [OF run assms(2,3)] assms KVOpDeleteRange show ?thesis by simp
next
  case (KVOpTxn t)
  with assms(1) obtain inp where t: "t = Some inp" by (cases t) auto
  with KVOpTxn assms(1) obtain res' where
    run: "txnBoundary E c (hasWrites inp) (\<lambda>c. runTxn E X c inp) w = (Inr res', w')" "res = RTxn res'"
    by (auto simp: bind_inversion)
  then have "runTxn E X c inp w = (Inr res', w')"
    using deferring_nested_Inr [OF _ assms(2,3)] by (auto simp: txnBoundary_def split: if_splits)
  with nested [OF _ this] KVOpTxn t run(2) assms show ?thesis by simp
qed (use assms in simp)

lemma runTxn_step:
  fixes w :: "'z sworld_scheme"
  shows "runTxn E X c inp w = (Inr res, w') \<Longrightarrow> ctx_tx c = Some True \<Longrightarrow> ctx_pending c \<Longrightarrow>
      repo_inv (buckets w) \<Longrightarrow> roomFor (txnSize inp) (buckets w) \<Longrightarrow> txnNames inp \<Longrightarrow>
      stepOk (txnSize inp) (txnKeys inp res) (absTxn inp (absOf (buckets w))) w w' \<and>
      tr_Succeeded res = (case inp of KVTxnInput cmps _ _ \<Rightarrow> \<forall>cmp \<in> set cmps. cmpHolds cmp (absOf (buckets w)))"
    and "runOps E X c ops results r w = (Inr (rs, r'), w') \<Longrightarrow> ctx_tx c = Some True \<Longrightarrow> ctx_pending c \<Longrightarrow>
      repo_inv (buckets w) \<Longrightarrow> roomFor (opsSize ops) (buckets w) \<Longrightarrow> opsNames ops \<Longrightarrow>
      \<exists>rs'. rs = results @ rs' \<and> stepOk (opsSize ops) (opsKeys ops rs') (absOps ops (absOf (buckets w))) w w'"
    and "runTxnOp E X c op w = (Inr (ores, r'), w') \<Longrightarrow> ctx_tx c = Some True \<Longrightarrow> ctx_pending c \<Longrightarrow>
      repo_inv (buckets w) \<Longrightarrow> roomFor (opSize op) (buckets w) \<Longrightarrow> opNames op \<Longrightarrow>
      stepOk (opSize op) (opKeys op ores) (absOp op (absOf (buckets w))) w w'"
proof (induction E X c inp and E X c ops results r and E X c op arbitrary: w w' res and w w' rs r' and w w' ores r'
    rule: runTxn_runOps_runTxnOp.induct)
  case (1 E X c cmps success failure)
  let ?ok = "\<forall>cmp \<in> set cmps. cmpHolds cmp (absOf (buckets w))"
  from "1.prems"(1) obtain ok w1 rs r2 w2 where
    cmps: "evalCompares E c cmps w = (Inr ok, w1)" and
    ops: "(if ok then runOps E X c success [] 0 else runOps E X c failure [] 0) w1 = (Inr (rs, r2), w2)" and
    fin: "finishTxn E c ok rs r2 w2 = (Inr res, w')"
    by (auto simp: bind_inversion)
  from evalCompares_Inr [OF cmps "1.prems"(4)] have w1: "w1 = w" and ok: "ok = ?ok" by simp_all
  note F = finishTxn_Inr [OF fin]
  have room: "roomFor (opsSize success) (buckets w)" "roomFor (opsSize failure) (buckets w)"
    using "1.prems"(5) by (simp_all add: roomFor_def)
  show ?case
  proof (cases ok)
    case True
    with "1.IH"(1) [of True w rs r2 w2] ops w1 "1.prems" room
    have "stepOk (opsSize success) (opsKeys success rs) (absOps success (absOf (buckets w))) w w2" by simp
    with True ok F show ?thesis
      by (cases res) (auto intro: stepOk_mono)
  next
    case False
    with "1.IH"(2) [of False w rs r2 w2] ops w1 "1.prems" room
    have "stepOk (opsSize failure) (opsKeys failure rs) (absOps failure (absOf (buckets w))) w w2" by simp
    with False ok F show ?thesis
      by (cases res) (auto intro: stepOk_mono)
  qed
next
  case (2 E X c results lastRev)
  then show ?case by (simp add: stepOk_refl)
next
  case (3 E X c op ops results lastRev)
  from "3.prems"(1) obtain ores rv w1 where
    one: "runTxnOp E X c op w = (Inr (ores, rv), w1)" and
    rest: "runOps E X c ops (results @ [ores]) (if rv > lastRev then rv else lastRev) w1 = (Inr (rs, r'), w')"
    by (auto simp: bind_inversion)
  have s1: "stepOk (opSize op) (opKeys op ores) (absOp op (absOf (buckets w))) w w1"
    using "3.IH"(1) [OF one] "3.prems" by (simp add: roomFor_def)
  then have inv1: "repo_inv (buckets w1)" "absOf (buckets w1) = absOp op (absOf (buckets w))"
    by (simp_all add: stepOk_def)
  have room1: "roomFor (opsSize ops) (buckets w1)"
    using stepOk_room [OF s1] "3.prems"(5) by simp
  from "3.IH"(2) [OF rest] "3.prems" inv1 room1 obtain rs' where
    "rs = (results @ [ores]) @ rs'"
    "stepOk (opsSize ops) (opsKeys ops rs') (absOps ops (absOp op (absOf (buckets w)))) w1 w'"
    by auto
  with stepOk_trans [OF s1] show ?case by (intro exI [of _ "ores # rs'"]) simp
next
  case (4 E X c op)
  then show ?case by (intro runTxnOp_Inr) auto
next
  case (5 E X c op)
  then show ?case by (intro runTxnOp_Inr) auto
next
  case (6 E X c op)
  then show ?case by (intro runTxnOp_Inr) auto
next
  case (8 E X c inp)
  then show ?case by (intro runTxnOp_Inr) auto
qed simp_all

text \<open>A transaction without writes is the identity on the abstract store and expects no notification.\<close>

lemma absTxn_reads:
  "\<not> opsWrite ops \<Longrightarrow> absOps ops S = S"
  "\<not> opWrites op \<Longrightarrow> absOp op S = S"
  "\<not> hasWrites inp \<Longrightarrow> absTxn inp S = S"
  by (induction ops S and op S and inp S rule: absOps_absOp_absTxn.induct) (auto split: if_splits)

lemma runTxn_reads:
  assumes "runTxn E X c inp w = (Inr res, w')" "\<not> hasWrites inp" "repo_inv (buckets w)"
  shows "w' = w" "tr_Succeeded res = (case inp of KVTxnInput cmps _ _ \<Rightarrow> \<forall>cmp \<in> set cmps. cmpHolds cmp (absOf (buckets w)))"
proof -
  show "w' = w" by (rule pureRead_Inr [OF pureRead_runTxn(1) [OF assms(2)] assms(1)])
  obtain cmps s f where inp: "inp = KVTxnInput cmps s f" by (cases inp)
  from assms(1) obtain ok w1 rs r2 w2 where
    cmps: "evalCompares E c cmps w = (Inr ok, w1)" and fin: "finishTxn E c ok rs r2 w2 = (Inr res, w')"
    by (auto simp: inp bind_inversion)
  from evalCompares_Inr [OF cmps assms(3)] finishTxn_Inr [OF fin] inp
  show "tr_Succeeded res = (case inp of KVTxnInput cmps _ _ \<Rightarrow> \<forall>cmp \<in> set cmps. cmpHolds cmp (absOf (buckets w)))"
    by simp
qed

lemma txnKeys_reads:
  "\<not> opsWrite ops \<Longrightarrow> opsKeys ops rs = []"
  "\<not> opWrites op \<Longrightarrow> opKeys op r = []"
  "\<not> hasWrites inp \<Longrightarrow> txnKeys inp res = []"
  by (induction ops rs and op r and inp res rule: opsKeys_opKeys_txnKeys.induct) (auto split: if_splits)

lemma deferring_owner_Inr:
  assumes "deferring E c body w = (Inr x, w')" "ctx_tx c \<noteq> Some True" "\<not> ctx_pending c"
  obtains w1 where "body (c\<lparr>ctx_pending := True, ctx_tx := Some True\<rparr>) (w\<lparr>pending := []\<rparr>) = (Inr x, w1)"
    "w' = flush E w1"
proof -
  let ?c = "c\<lparr>ctx_pending := True\<rparr>" and ?w = "w\<lparr>pending := []\<rparr>"
  from assms(1,3) obtain w1 where tx: "WithTx E ?c body ?w = (Inr x, w1)" and w': "w' = flush E w1"
    by (auto simp: deferring_def withPendingEvents_def split: prod.splits sum.splits)
  from WithTx_Inr [OF _ tx] assms(2) have "body (c\<lparr>ctx_pending := True, ctx_tx := Some True\<rparr>) ?w = (Inr x, w1)"
    by simp
  with w' that show ?thesis by blast
qed

lemma flush_simps:
  "buckets (flush E w) = buckets w"
  "hub (flush E w) = fold notify (noteEvents E (ticks w) (pending w)) (hub w)"
  by (simp_all add: flush_def runNotes_hub)

end
