(* ===== verification/TxnCas.thy ===== *)
theory TxnCas
  imports TxnSpec
begin

text \<open>
  The committed run of \<^verbatim>\<open>Service.Txn\<close> as one step of the abstract store with the events it
  publishes, and the transaction that etcd's clients build locks and leader election from: put a
  key if its modification revision is the expected one.
\<close>

section \<open>Committed transactions\<close>

definition eventKey :: "WatchEvent \<Rightarrow> noteKey" where
  "eventKey e = (we_Type e, we_Path e, we_Namespace e, we_Revision e)"

lemma eventKey_noteEvents: "map eventKey (noteEvents E t ns) = map noteKey ns"
  by (induction ns arbitrary: t)
    (auto simp: eventKey_def noteKey_def noteEvent_def configEvent_def namespaceEvent_def Let_def
      split: notification.split)

lemma Txn_Inr:
  assumes run: "Txn E X c inp w = (Inr res, w')" and c: "ctx_tx c \<noteq> Some True" "\<not> ctx_pending c"
    and inv: "repo_inv (buckets w)" "roomFor (txnSize inp) (buckets w)" "txnNames inp"
  shows "repo_inv (buckets w') \<and> absOf (buckets w') = absTxn inp (absOf (buckets w)) \<and>
    tr_Succeeded res = (case inp of KVTxnInput cmps _ _ \<Rightarrow> \<forall>cmp \<in> set cmps. cmpHolds cmp (absOf (buckets w))) \<and>
    (\<exists>es. hub w' = fold notify es (hub w) \<and> map eventKey es = txnKeys inp res)"
proof (cases "hasWrites inp")
  case True
  with run have "deferring E c (\<lambda>c. runTxn E X c inp) w = (Inr res, w')"
    by (simp add: Txn_def txnBoundary_def)
  then obtain w1 where
    r: "runTxn E X (c\<lparr>ctx_pending := True, ctx_tx := Some True\<rparr>) inp (w\<lparr>pending := []\<rparr>) = (Inr res, w1)"
    and w': "w' = flush E w1" using c by (rule deferring_owner_Inr)
  have hub: "hub w1 = hub w" using keepsD [OF keeps_runTxn(1) r] by simp
  from runTxn_step(1) [OF r] inv show ?thesis
    unfolding w' flush_simps hub
    by (cases inp) (auto simp: stepOk_def eventKey_noteEvents
        intro!: exI [of _ "noteEvents E (ticks w1) (pending w1)"])
next
  case False
  with run have r: "runTxn E X c inp w = (Inr res, w')" by (simp add: Txn_def txnBoundary_def)
  from runTxn_reads [OF r False inv(1)] inv(1) absTxn_reads(3) [OF False] txnKeys_reads(3) [OF False]
  show ?thesis by (auto intro!: exI [of _ "[]"])
qed


section \<open>Compare and swap\<close>

text \<open>\<^verbatim>\<open>Compare(ModRevision(ns, path), "=", r)\<close> and \<^verbatim>\<open>Put(ns, path, v)\<close>.\<close>

definition modIs :: "string \<Rightarrow> string \<Rightarrow> int64 \<Rightarrow> KVCompare" where
  "modIs ns path r = \<lparr>cmp_StartNS = ns, cmp_StartPath = path, cmp_EndNS = [], cmp_EndPath = [],
     cmp_Target = KVCompareModRevision, cmp_Result = KVCompareEqual, cmp_WantRevision = r, cmp_WantValue = []\<rparr>"

definition casTxn :: "string \<Rightarrow> string \<Rightarrow> int64 \<Rightarrow> bytes \<Rightarrow> KVTxnInput" where
  "casTxn ns path r v = KVTxnInput [modIs ns path r]
     [KVOpPut \<lparr>po_Namespace = ns, po_Path = path, po_Value = v\<rparr>] []"

lemma casTxn_simps [simp]:
  "hasWrites (casTxn ns p r v)" "txnSize (casTxn ns p r v) = 1"
  "txnNames (casTxn ns p r v) \<longleftrightarrow> nulFree ns \<and> nulFree p"
  by (simp_all add: casTxn_def)


text \<open>The modification revision of a key, 0 when it is absent, as etcd's compares see it.\<close>

definition modRev :: "mvcc \<Rightarrow> string \<times> string \<Rightarrow> int" where
  "modRev S k = (case mv_kvs S k of None \<Rightarrow> 0 | Some e \<Rightarrow> e_mod e)"

lemma single_range:
  assumes "nulFree ns" "nulFree ns'"
  shows "inRange (buildRangeParams ns p [] []) (configKey ns' p') \<longleftrightarrow> ns' = ns \<and> p' = p"
  using configKey_inj [OF assms(2,1), of p' p]
  by (auto simp: inRange_def buildRangeParams_def shouldBreakRange_def)

lemma cmpHolds_modIs:
  assumes "nulFree ns" "nulFree p"
  shows "cmpHolds (modIs ns p r) (absOf d) \<longleftrightarrow> modRev (absOf d) (ns, p) = r"
proof -
  have "absRange ns p [] [] (absOf d) = (if mv_kvs (absOf d) (ns, p) = None then {} else {(ns, p)})"
    using assms by (auto simp: absRange_def absOf_def single_range split: if_splits)
  then show ?thesis
    by (auto simp: cmpHolds_def modIs_def modRev_def compareKV_def compareInt64_def compare_defs kvOf_def
        split: option.splits)
qed

lemma absTxn_cas:
  assumes "nulFree ns" "nulFree p"
  shows "absTxn (casTxn ns p r v) (absOf d) =
    (if modRev (absOf d) (ns, p) = r then mvcc_put (ns, p) v (absOf d) else absOf d)"
  by (simp add: casTxn_def cmpHolds_modIs [OF assms])

lemma modRev_bounds:
  assumes "repo_inv d"
  shows "0 \<le> modRev (absOf d) k" "modRev (absOf d) k \<le> mv_rev (absOf d)"
proof -
  obtain ns p where k: "k = (ns, p)" by (cases k)
  have "0 \<le> revOf d" using counter_revOf(2) repo_invD(2) [OF assms] .
  moreover have "1 \<le> m_Revision m \<and> m_Revision m \<le> revOf d" if "metaAt d ns p = Some m" "nulFree ns" for m
    using metaAt_bounds [OF assms that(1)] by simp
  ultimately show "0 \<le> modRev (absOf d) k" "modRev (absOf d) k \<le> mv_rev (absOf d)"
    by (force simp: k modRev_def absOf_def metaEntry_def split: option.splits)+
qed

lemma modRev_put: "modRev (mvcc_put k v S) k = mv_rev S + 1"
  by (simp add: modRev_def mvcc_put_def Let_def split: option.split)

section \<open>The run of a compare and swap\<close>

text \<open>Under a reliable engine and inside the transaction, the reads return.\<close>

lemma evalCompare_run:
  assumes "repo_inv (buckets w)" "ctx_tx c = Some wr"
  shows "evalCompare E c cmp w = (Inr (cmpHolds cmp (absOf (buckets w))), w)"
proof -
  obtain more where "RangeKVs E c (cmp_StartNS cmp) (cmp_StartPath cmp) (cmp_EndNS cmp) (cmp_EndPath cmp) noOpts w =
      (Inr (livePairs (buildRangeParams (cmp_StartNS cmp) (cmp_StartPath cmp) (cmp_EndNS cmp) (cmp_EndPath cmp))
        (buckets w), more), w)"
    using RangeQuery_current [OF assms(1), of "cmp_StartNS cmp" "cmp_StartPath cmp" "cmp_EndNS cmp" "cmp_EndPath cmp" 0 wr]
      assms(2) by (auto simp: RangeKVs_def RangeQuery_def WithReadTx_readT noOpts_def Let_def)
  then have "\<exists>ok. evalCompare E c cmp w = (Inr ok, w)" by (simp add: evalCompare_def bindT_def returnT_def)
  with evalCompare_Inr(2) [OF _ assms(1)] show ?thesis by blast
qed

lemma finishTxn_run:
  assumes "ctx_tx c = Some wr"
  shows "\<exists>res. finishTxn E c ok rs r w = (Inr res, w) \<and> tr_Succeeded res = ok"
  using assms by (auto simp: finishTxn_def Let_def CurrentRevisionValue_def CurrentRevision_def
      CurrentRevision_tx_def bindT_def returnT_def readT_def WithReadTx_def split: option.split)

lemma Service_PutKey_run:
  assumes E: "bolt_reliable E" and c: "ctx_tx c = Some True" "ctx_pending c"
    and inv: "repo_inv (buckets w)" "room (buckets w)" and names: "nulFree ns" "nulFree p"
    and guard: "putAllowed (buckets w) ns p"
    and valid: "fst (Validator_Validate E X c ns p v (DetectFormatFromPath p) w) = Inr ()"
  shows "\<exists>r w'. Service_PutKey E X c ns p v w = (Inr r, w')"
proof -
  obtain w1 where v1: "Validator_Validate E X c ns p v (DetectFormatFromPath p) w = (Inr (), w1)"
    using valid by (metis prod.collapse)
  then have b: "buckets w1 = buckets w" by (rule Validator_Inr)
  obtain w2 where "putKeyTx E (TxQuerier True) ns p v w1 = (Inr (prevKV (buckets w1) ns p, revOf (buckets w1) + 1), w2)"
    using putKeyTx_ok [OF E _ _ names, of w1 v] inv guard b by auto
  then have "PutKey E c ns p v w1 = (Inr (prevKV (buckets w1) ns p, revOf (buckets w1) + 1), w2)"
    using c by (simp add: PutKey_def)
  then show ?thesis
    using v1 c by (auto simp: Service_PutKey_def Let_def bindT_def deferring_def withPendingEvents_def
        kvPutConfig_def timeNow_def addPending_def returnT_def split: option.splits)
qed

lemma casTxn_run:
  assumes E: "bolt_reliable E" and c: "ctx_tx c = None" "\<not> ctx_pending c"
    and inv: "repo_inv (buckets w)" "room (buckets w)" and names: "nulFree ns" "nulFree p"
    and guard: "modRev (absOf (buckets w)) (ns, p) = r \<Longrightarrow> putAllowed (buckets w) ns p \<and>
      fst (Validator_Validate E X (c\<lparr>ctx_pending := True, ctx_tx := Some True\<rparr>) ns p v (DetectFormatFromPath p)
        (w\<lparr>pending := []\<rparr>)) = Inr ()"
  shows "\<exists>res w'. Txn E X c (casTxn ns p r v) w = (Inr res, w')"
proof -
  let ?c = "c\<lparr>ctx_pending := True, ctx_tx := Some True\<rparr>" and ?w = "w\<lparr>pending := []\<rparr>"
  let ?ok = "modRev (absOf (buckets w)) (ns, p) = r"
  have cmp: "evalCompares E ?c [modIs ns p r] ?w = (Inr ?ok, ?w)"
    using evalCompare_run [of ?w ?c True E] inv names by (simp add: bindT_def returnT_def cmpHolds_modIs)
  have "\<exists>res w'. runTxn E X ?c (casTxn ns p r v) ?w = (Inr res, w')"
  proof (cases ?ok)
    case True
    with Service_PutKey_run [OF E _ _ _ _ names, of ?c ?w X v] guard inv obtain pr w1 where
      put: "Service_PutKey E X ?c ns p v ?w = (Inr pr, w1)" by auto
    obtain prev r1 where pr: "pr = (prev, r1)" by (cases pr)
    from put finishTxn_run [of ?c True E True "[RPut \<lparr>pr_Prev = prev, pr_Revision = r1\<rparr>]" "if r1 > 0 then r1 else 0" w1]
    show ?thesis using True cmp
      by (auto simp: casTxn_def pr runPutOp_def bindT_def returnT_def simp del: evalCompares.simps)
  next
    case False
    with finishTxn_run [of ?c True E False "[]" 0 ?w] cmp show ?thesis
      by (auto simp: casTxn_def bindT_def returnT_def simp del: evalCompares.simps)
  qed
  then obtain res w1 where "runTxn E X ?c (casTxn ns p r v) ?w = (Inr res, w1)" by blast
  then have "WithTx E (c\<lparr>ctx_pending := True\<rparr>) (\<lambda>c. runTxn E X c (casTxn ns p r v)) ?w = (Inr res, w1)"
    using c by (intro WithTx_reliable_Inr [OF E]) simp_all
  then show ?thesis
    using c by (simp add: Txn_def txnBoundary_def deferring_def withPendingEvents_def)
qed

end
