(* ===== verification/Samples.thy ===== *)
theory Samples
  imports RepoViews
begin

text \<open>
  A concrete environment and concrete databases, on which the properties are shown to apply: an
  engine that fails no call with a counting clock, a freshly initialised store, and a store
  that holds one config.
\<close>

text \<open>Insertion sort of positions, as one order that \<^verbatim>\<open>sort.Slice\<close> may leave.\<close>

fun insertPos :: "(nat \<Rightarrow> nat \<Rightarrow> bool) \<Rightarrow> nat \<Rightarrow> nat list \<Rightarrow> nat list" where
  "insertPos lt x [] = [x]"
| "insertPos lt x (y # ys) = (if lt y x then y # insertPos lt x ys else x # y # ys)"

definition insertionOrder :: "nat \<Rightarrow> (nat \<Rightarrow> nat \<Rightarrow> bool) \<Rightarrow> nat list" where
  "insertionOrder n lt = foldr (insertPos lt) [0..<n] []"

definition sampleEnv :: env where
  "sampleEnv = \<lparr>clock = int, sha256hex = (\<lambda>b. CHR ''h'' # b), toLower = (\<lambda>s. s),
     sortSlice = insertionOrder,
     bolt_begin_err = (\<lambda>_. None), bolt_put_err = (\<lambda>_ _. None), bolt_delete_err = (\<lambda>_ _. None),
     bolt_commit_err = (\<lambda>_. None), bolt_create_err = (\<lambda>_. None)\<rparr>"

definition noTx :: ctx where "noTx = \<lparr>ctx_tx = None\<rparr>"

lemma noTx_simps [simp]: "ctx_tx noTx = None" by (simp add: noTx_def)

lemma sampleEnv_reliable [simp]: "bolt_reliable sampleEnv"
  by (simp add: bolt_reliable_def sampleEnv_def)

lemma sampleEnv_simps [simp]:
  "sha256hex sampleEnv b = CHR ''h'' # b" "clock sampleEnv n = int n" "toLower sampleEnv s = s"
  by (simp_all add: sampleEnv_def)

definition freshDB :: database where "freshDB = initialised Map.empty"

definition freshWorld :: world where "freshWorld = \<lparr>buckets = freshDB, ticks = 0\<rparr>"

lemma freshWorld_simps [simp]: "buckets freshWorld = freshDB" "ticks freshWorld = 0"
  by (simp_all add: freshWorld_def)

lemma dget_fresh:
  "dget freshDB n k =
     (if n = bucketSys \<and> k = sysRevisionKeyName then Some (Raw (revisionBytes 0))
      else if n = bucketSys \<and> k = sysSchemaKey then Some (Raw (revisionBytes schemaVersion)) else None)"
proof -
  have "dget Map.empty n k = None" by (simp add: dget_def bkt_def)
  then show ?thesis by (simp add: freshDB_def dget_initialised)
qed

lemma freshDB_facts [simp]:
  "repo_inv freshDB" "revOf freshDB = 0" "room freshDB" "metaAt freshDB ns p = None"
  "nsLocked freshDB ns = False" "putAllowed freshDB ns p"
proof -
  show "repo_inv freshDB" by (simp add: freshDB_def initialised_empty_inv)
  show rev: "revOf freshDB = 0"
    by (simp add: revOf_def dget_fresh rawBytes_def parse_revisionBytes in_int64_def)
  then show "room freshDB" by (simp add: room_def)
  show m: "metaAt freshDB ns p = None" "nsLocked freshDB ns = False"
    by (simp_all add: metaAt_def nsLocked_def dget_fresh)
  then show "putAllowed freshDB ns p" by (simp add: putAllowed_def)
qed

definition sampleMeta :: "bool \<Rightarrow> ConfigMeta" where
  "sampleMeta locked = \<lparr>m_ContentHash = ''hv'', m_Format = ''json'', m_Version = 1, m_Revision = 1,
     m_CreateRevision = 1, m_Metadata = None, m_Locked = locked, m_CreatedAt = 0, m_UpdatedAt = 0\<rparr>"

definition sampleDB :: "bool \<Rightarrow> database" where
  "sampleDB locked = entryWritten ''prod'' ''/a.json'' (sampleMeta locked) ''v''
     \<lparr>row_Type = EventTypeCreated, row_Path = ''/a.json'', row_Namespace = ''prod'', row_Version = 1,
      row_Timestamp = 0\<rparr> freshDB"

definition sampleWorld :: "bool \<Rightarrow> world" where
  "sampleWorld locked = \<lparr>buckets = sampleDB locked, ticks = 0\<rparr>"

lemma sample_names [simp]: "nulFree ''prod''" "nulFree ''/a.json''" "nulFree ''/b.json''"
  by (simp_all add: nulFree_def keySep_def)

lemma sampleMeta_simps [simp]:
  "m_Version (sampleMeta l) = 1" "m_Revision (sampleMeta l) = 1" "m_CreateRevision (sampleMeta l) = 1"
  "m_Locked (sampleMeta l) = l"
  by (simp_all add: sampleMeta_def)

lemma sampleWorld_simps [simp]: "buckets (sampleWorld l) = sampleDB l" "ticks (sampleWorld l) = 0"
  by (simp_all add: sampleWorld_def)

lemma sampleDB_facts [simp]:
  "repo_inv (sampleDB l)" "revOf (sampleDB l) = 1" "room (sampleDB l)" "nsLocked (sampleDB l) ns = False"
  "nulFree ns \<Longrightarrow> metaAt (sampleDB l) ns p =
     (if ns = ''prod'' \<and> p = ''/a.json'' then Some (sampleMeta l) else None)"
  "nulFree ns \<Longrightarrow> ns = ''prod'' \<Longrightarrow> p = ''/a.json'' \<Longrightarrow> contentAt (sampleDB l) ns p = ''v''"
proof -
  show "repo_inv (sampleDB l)" unfolding sampleDB_def by (rule entryWritten_inv) simp_all
  show rev: "revOf (sampleDB l) = 1" by (simp add: sampleDB_def revOf_written in_int64_def)
  then show "room (sampleDB l)" by (simp add: room_def)
  show "nsLocked (sampleDB l) ns = False"
    by (simp add: nsLocked_def sampleDB_def dget_written dget_fresh)
qed (simp_all add: sampleDB_def metaAt_written)

definition sampleConfig :: "string \<Rightarrow> int64 \<Rightarrow> Config" where
  "sampleConfig path version = \<lparr>cfg_Path = path, cfg_Content = ''w'', cfg_ContentHash = [],
     cfg_Format = ''json'', cfg_Version = version, cfg_Revision = 0, cfg_CreateRevision = 0,
     cfg_Namespace = ''prod'', cfg_Metadata = None, cfg_Locked = False, cfg_NamespaceLocked = False,
     cfg_CreatedAt = 0, cfg_UpdatedAt = 0\<rparr>"

lemma sampleConfig_simps [simp]:
  "cfg_Path (sampleConfig p v) = p" "cfg_Namespace (sampleConfig p v) = ''prod''"
  "cfg_Content (sampleConfig p v) = ''w''" "cfg_Version (sampleConfig p v) = v"
  by (simp_all add: sampleConfig_def)

text \<open>The range of the single key of the sample store.\<close>

lemma sample_range:
  "keysInRange (buildRangeParams ''prod'' ''/a.json'' [] []) (sampleDB l) = {(''prod'', ''/a.json'')}"
proof -
  have "inRange (buildRangeParams ''prod'' ''/a.json'' [] []) (configKey ns p) \<longleftrightarrow> ns = ''prod'' \<and> p = ''/a.json''"
    if "nulFree ns" for ns p
    using that configKey_inj [of ns "''prod''" p "''/a.json''"]
    by (auto simp: inRange_def buildRangeParams_def shouldBreakRange_def)
  then show ?thesis by (auto simp: keysInRange_def)
qed

end
