(* ===== verification/RepoProps.thy ===== *)
theory RepoProps
  imports Samples
begin

text \<open>
  The properties of the storage layer: the transaction manager, the store's initialisation, and
  the config repository's operations against the abstract store.
\<close>

section \<open>Transactions\<close>


text \<open>
  \<^verbatim>\<open>initBuckets\<close> on a new file creates every bucket the repositories use and a counter at
  zero: the resulting database satisfies the invariant and stands for the empty store.
\<close>

theorem initBuckets_fresh:
  assumes "bolt_reliable E"
  shows "\<exists>w'. initBuckets E \<lparr>buckets = Map.empty, ticks = t\<rparr> = (Inr (), w') \<and>
     (\<forall>n \<in> set storeBuckets. buckets w' n \<noteq> None) \<and> repo_inv (buckets w') \<and>
     absOf (buckets w') = \<lparr>mv_rev = 0, mv_kvs = Map.empty\<rparr>"
proof -
  let ?w = "\<lparr>buckets = Map.empty, ticks = t\<rparr>"
  have run: "initBuckets E ?w = (Inr (), ?w\<lparr>buckets := initialised Map.empty\<rparr>)"
    using initBuckets_reliable [OF assms, of ?w] by (simp add: bkt_def)
  have "absOf freshDB = \<lparr>mv_rev = 0, mv_kvs = Map.empty\<rparr>" by (auto simp: absOf_def fun_eq_iff)
  moreover have "initialised Map.empty n \<noteq> None" if "n \<in> set storeBuckets" for n
    using that by (auto simp: initialised_def sysInit_def dbput_def withBuckets_def)
  ultimately show ?thesis using run by (simp add: initialised_empty_inv freshDB_def)
qed

theorem initBuckets_fresh_witness:
  "bolt_reliable sampleEnv \<and>
   (\<exists>w'. initBuckets sampleEnv \<lparr>buckets = Map.empty, ticks = 5\<rparr> = (Inr (), w') \<and>
     (\<forall>n \<in> set storeBuckets. buckets w' n \<noteq> None) \<and> repo_inv (buckets w') \<and>
     absOf (buckets w') = \<lparr>mv_rev = 0, mv_kvs = Map.empty\<rparr>)"
  using initBuckets_fresh [OF sampleEnv_reliable, of 5] by simp

text \<open>
  \<^verbatim>\<open>initBuckets\<close> on an existing well-formed database, as at every restart, succeeds, keeps
  the invariant and loses nothing: every row is still there and the abstract store, its
  revision included, is the same.
\<close>

theorem initBuckets_restart:
  assumes "bolt_reliable E" "repo_inv (buckets w)"
  shows "\<exists>w'. initBuckets E w = (Inr (), w') \<and> repo_inv (buckets w') \<and>
     absOf (buckets w') = absOf (buckets w) \<and>
     (\<forall>n k v. dget (buckets w) n k = Some v \<longrightarrow> dget (buckets w') n k = Some v)"
  using initBuckets_reliable [OF assms(1) present_ascending [OF repo_invD(1) [OF assms(2)]]]
    initialised_keeps [OF assms(2)]
  by (simp add: dget_initialised)

theorem initBuckets_restart_witness:
  "repo_inv (sampleDB False) \<and>
   (\<exists>w'. initBuckets sampleEnv (sampleWorld False) = (Inr (), w') \<and> repo_inv (buckets w') \<and>
     absOf (buckets w') = absOf (sampleDB False))"
  using initBuckets_restart [of sampleEnv "sampleWorld False"] by auto

section \<open>Writes\<close>

text \<open>
  C4. \<^verbatim>\<open>Create\<close>: it fails exactly when the namespace is locked or the config exists, with that
  error and an unchanged database; otherwise it returns the config with version 1, the hash of
  its content and the next revision as both its revisions, and the database is the one where the
  abstract store put the new key at that revision.
\<close>

theorem Create_correct:
  assumes "bolt_reliable E" "repo_inv (buckets w)" "room (buckets w)" "ctx_tx c = None"
    and "nulFree (cfg_Namespace cfg)" "nulFree (cfg_Path cfg)"
  shows "case Create E c cfg w of
      (Inl e, w') \<Rightarrow> buckets w' = buckets w \<and>
        (if nsLocked (buckets w) (cfg_Namespace cfg) then e = ErrNamespaceLocked (cfg_Namespace cfg)
         else metaAt (buckets w) (cfg_Namespace cfg) (cfg_Path cfg) \<noteq> None \<and>
              e = ErrResourceAlreadyExists (cfg_Path cfg))
    | (Inr cfg', w') \<Rightarrow>
        \<not> nsLocked (buckets w) (cfg_Namespace cfg) \<and>
        metaAt (buckets w) (cfg_Namespace cfg) (cfg_Path cfg) = None \<and>
        cfg_Version cfg' = 1 \<and> cfg_Content cfg' = cfg_Content cfg \<and>
        cfg_ContentHash cfg' = sha256hex E (cfg_Content cfg) \<and>
        cfg_Revision cfg' = revOf (buckets w) + 1 \<and> cfg_CreateRevision cfg' = revOf (buckets w) + 1 \<and>
        repo_inv (buckets w') \<and>
        absOf (buckets w') =
          mvcc_put (cfg_Namespace cfg, cfg_Path cfg) (cfg_Content cfg) (absOf (buckets w))"
proof (cases "nsLocked (buckets w) (cfg_Namespace cfg) \<or>
    metaAt (buckets w) (cfg_Namespace cfg) (cfg_Path cfg) \<noteq> None")
  case True
  with createConfigTx_guards [OF assms(2), of cfg E "TxQuerier True"] assms(1,4) show ?thesis
    by (cases "nsLocked (buckets w) (cfg_Namespace cfg)") (simp_all add: tx_eqs)
next
  case False
  with createConfigTx_ok [OF assms(1-3,5,6)] obtain w' where
    "createConfigTx E (TxQuerier True) cfg w =
       (Inr (createdConfig E (clock E (ticks w)) (revOf (buckets w) + 1) cfg), w')"
    "repo_inv (buckets w')"
    "absOf (buckets w') = mvcc_put (cfg_Namespace cfg, cfg_Path cfg) (cfg_Content cfg) (absOf (buckets w))"
    by metis
  with False assms(1,4) show ?thesis
    by (simp add: tx_eqs)
      (simp add: createdConfig_def SetDefaults_def GenerateHash_def split: option.splits)
qed

theorem Create_correct_witness:
  "\<not> nsLocked freshDB ''prod'' \<and> (\<exists>cfg' w'. Create sampleEnv noTx (sampleConfig ''/b.json'' 0) freshWorld = (Inr cfg', w') \<and>
     cfg_Version cfg' = 1 \<and> cfg_ContentHash cfg' = ''hw'' \<and> cfg_Revision cfg' = 1 \<and>
     repo_inv (buckets w') \<and> absOf (buckets w') = mvcc_put (''prod'', ''/b.json'') ''w'' (absOf freshDB))"
  using Create_correct [of sampleEnv freshWorld noTx "sampleConfig ''/b.json'' 0"]
  by (auto split: prod.splits sum.splits)

text \<open>
  C5. \<^verbatim>\<open>Update\<close> is a compare-and-swap on the version: it fails, with an unchanged database, exactly
  when the namespace is locked, the config is missing, the config is locked, or the caller's
  version is not the stored one, reporting the first of these that holds; otherwise the version
  grows by one, the creation revision stays, and the abstract store put the key.
\<close>

theorem Update_correct:
  assumes "bolt_reliable E" "repo_inv (buckets w)" "room (buckets w)" "ctx_tx c = None"
    and "nulFree (cfg_Namespace cfg)" "nulFree (cfg_Path cfg)"
  shows "case Update E c cfg w of
      (Inl e, w') \<Rightarrow> buckets w' = buckets w \<and>
        (if nsLocked (buckets w) (cfg_Namespace cfg) then e = ErrNamespaceLocked (cfg_Namespace cfg)
         else case metaAt (buckets w) (cfg_Namespace cfg) (cfg_Path cfg) of
             None \<Rightarrow> e = ErrResourceNotFound (cfg_Path cfg)
           | Some m \<Rightarrow> if m_Locked m then e = ErrLocked (cfg_Path cfg)
                       else m_Version m \<noteq> cfg_Version cfg \<and>
                            e = NewConflictError (cfg_Version cfg) (m_Version m))
    | (Inr cfg', w') \<Rightarrow>
        (\<exists>m. metaAt (buckets w) (cfg_Namespace cfg) (cfg_Path cfg) = Some m \<and>
          \<not> nsLocked (buckets w) (cfg_Namespace cfg) \<and> \<not> m_Locked m \<and> m_Version m = cfg_Version cfg \<and>
          cfg_Version cfg' = m_Version m + 1 \<and> cfg_CreateRevision cfg' = m_CreateRevision m \<and>
          cfg_CreatedAt cfg' = m_CreatedAt m \<and> cfg_ContentHash cfg' = sha256hex E (cfg_Content cfg) \<and>
          cfg_Revision cfg' = revOf (buckets w) + 1 \<and> repo_inv (buckets w') \<and>
          absOf (buckets w') =
            mvcc_put (cfg_Namespace cfg, cfg_Path cfg) (cfg_Content cfg) (absOf (buckets w)))"
proof (cases "nsLocked (buckets w) (cfg_Namespace cfg) \<or>
    metaAt (buckets w) (cfg_Namespace cfg) (cfg_Path cfg) = None")
  case True
  with updateConfigTx_guards(1,2) [OF assms(2), of cfg E "TxQuerier True"] assms(1,4) show ?thesis
    by (cases "nsLocked (buckets w) (cfg_Namespace cfg)") (simp_all add: tx_eqs)
next
  case False
  then obtain m where m: "\<not> nsLocked (buckets w) (cfg_Namespace cfg)"
    "metaAt (buckets w) (cfg_Namespace cfg) (cfg_Path cfg) = Some m" by auto
  show ?thesis
  proof (cases "m_Locked m \<or> m_Version m \<noteq> cfg_Version cfg")
    case True
    with updateConfigTx_guards(3) [OF assms(2) m, of _ E "TxQuerier True"] m assms(1,4) show ?thesis
      by (cases "m_Locked m") (simp_all add: tx_eqs validateUpdatePreconditions_def NewLockedError_def)
  next
    case False
    with updateConfigTx_ok [OF assms(1-3,5,6) m] obtain w' where
      "updateConfigTx E (TxQuerier True) cfg w =
         (Inr (updatedConfig E (clock E (ticks w)) (revOf (buckets w) + 1) m cfg), w')"
      "repo_inv (buckets w')"
      "absOf (buckets w') = mvcc_put (cfg_Namespace cfg, cfg_Path cfg) (cfg_Content cfg) (absOf (buckets w))"
      by metis
    with False m assms(1,4) next_version_in_range [OF assms(2,3) m(2)] show ?thesis
      by (simp add: tx_eqs) (simp add: updatedConfig_def GenerateHash_def)
  qed
qed

theorem Update_correct_witness:
  "(\<exists>cfg' w'. Update sampleEnv noTx (sampleConfig ''/a.json'' 1) (sampleWorld False) = (Inr cfg', w') \<and>
     cfg_Version cfg' = 2 \<and> cfg_Revision cfg' = 2 \<and> cfg_CreateRevision cfg' = 1) \<and>
   (\<exists>w'. Update sampleEnv noTx (sampleConfig ''/a.json'' 7) (sampleWorld False) = (Inl (NewConflictError 7 1), w'))"
  using Update_correct [of sampleEnv "sampleWorld False" noTx "sampleConfig ''/a.json'' 1"]
    Update_correct [of sampleEnv "sampleWorld False" noTx "sampleConfig ''/a.json'' 7"]
  by (auto split: prod.splits sum.splits)

text \<open>
  \<^verbatim>\<open>Delete\<close> fails, with an unchanged database, exactly when the namespace is locked, the config
  is missing or the config is locked; otherwise it returns the next revision and the abstract
  store deleted that key alone.
\<close>

theorem Delete_correct:
  assumes "bolt_reliable E" "repo_inv (buckets w)" "room (buckets w)" "ctx_tx c = None"
    and "nulFree ns" "nulFree path"
  shows "case Delete E c path ns w of
      (Inl e, w') \<Rightarrow> buckets w' = buckets w \<and>
        (if nsLocked (buckets w) ns then e = ErrNamespaceLocked ns
         else case metaAt (buckets w) ns path of
             None \<Rightarrow> e = ErrResourceNotFound path
           | Some m \<Rightarrow> m_Locked m \<and> e = ErrLocked path)
    | (Inr r, w') \<Rightarrow>
        \<not> nsLocked (buckets w) ns \<and> (\<exists>m. metaAt (buckets w) ns path = Some m \<and> \<not> m_Locked m) \<and>
        r = revOf (buckets w) + 1 \<and> repo_inv (buckets w') \<and>
        absOf (buckets w') = mvcc_delete {(ns, path)} (absOf (buckets w))"
proof (cases "nsLocked (buckets w) ns \<or> metaAt (buckets w) ns path = None")
  case True
  with deleteConfigTx_guards(1,2) [OF assms(2), where ns = ns and p = path and E = E and q = "TxQuerier True"] assms(1,4) show ?thesis
    by (cases "nsLocked (buckets w) ns") (simp_all add: tx_eqs)
next
  case False
  then obtain m where m: "\<not> nsLocked (buckets w) ns" "metaAt (buckets w) ns path = Some m" by auto
  show ?thesis
  proof (cases "m_Locked m")
    case True
    with deleteConfigTx_guards(3) [OF assms(2) m True, of E "TxQuerier True"] m assms(1,4) show ?thesis
      by (simp add: tx_eqs)
  next
    case False
    from deleteConfigTx_ok [OF assms(1-3,5,6) m False] obtain w' where
      "deleteConfigTx E (TxQuerier True) path ns w = (Inr (revOf (buckets w) + 1), w')"
      "repo_inv (buckets w')" "absOf (buckets w') = mvcc_delete {(ns, path)} (absOf (buckets w))"
      by metis
    with False m assms(1,4) show ?thesis by (simp add: tx_eqs)
  qed
qed

theorem Delete_correct_witness:
  "(\<exists>w'. Delete sampleEnv noTx ''/a.json'' ''prod'' (sampleWorld False) = (Inr 2, w') \<and>
      absOf (buckets w') = mvcc_delete {(''prod'', ''/a.json'')} (absOf (sampleDB False))) \<and>
   (\<exists>w'. Delete sampleEnv noTx ''/a.json'' ''prod'' (sampleWorld True) = (Inl (ErrLocked ''/a.json''), w'))"
  using Delete_correct [of sampleEnv "sampleWorld False" noTx "''prod''" "''/a.json''"]
    Delete_correct [of sampleEnv "sampleWorld True" noTx "''prod''" "''/a.json''"]
  by (auto split: prod.splits sum.splits)

text \<open>
  C7. \<^verbatim>\<open>PutKey\<close>, etcd's Put: it refuses exactly the writes into a locked namespace or onto a locked
  config, with an unchanged database; otherwise it answers the previous pair, if there was one,
  and the next revision, and the abstract store put the key, whether the key existed or not.
\<close>

theorem PutKey_correct:
  assumes "bolt_reliable E" "repo_inv (buckets w)" "room (buckets w)" "ctx_tx c = None"
    and "nulFree ns" "nulFree path"
  shows "case PutKey E c ns path value w of
      (Inl e, w') \<Rightarrow> buckets w' = buckets w \<and>
        (if nsLocked (buckets w) ns then e = ErrNamespaceLocked ns
         else (\<exists>m. metaAt (buckets w) ns path = Some m \<and> m_Locked m) \<and> e = ErrLocked path)
    | (Inr (prev, r), w') \<Rightarrow>
        putAllowed (buckets w) ns path \<and> r = revOf (buckets w) + 1 \<and> prev = prevKV (buckets w) ns path \<and>
        repo_inv (buckets w') \<and> absOf (buckets w') = mvcc_put (ns, path) value (absOf (buckets w))"
proof (cases "putAllowed (buckets w) ns path")
  case True
  from putKeyTx_ok [OF assms(1-3,5,6) this] obtain w' where
    "putKeyTx E (TxQuerier True) ns path value w =
       (Inr (prevKV (buckets w) ns path, revOf (buckets w) + 1), w')"
    "repo_inv (buckets w')" "absOf (buckets w') = mvcc_put (ns, path) value (absOf (buckets w))"
    by metis
  with True assms(1,4) show ?thesis by (simp add: tx_eqs)
next
  case False
  with putKeyTx_guards(1) [OF assms(2), where ns = ns and p = path and E = E and q = "TxQuerier True"]
    putKeyTx_guards(2) [OF assms(2), where ns = ns and p = path and E = E and q = "TxQuerier True"] assms(1,4) show ?thesis
    by (cases "nsLocked (buckets w) ns") (auto simp: tx_eqs putAllowed_def)
qed

theorem PutKey_correct_witness:
  "(\<exists>kv w'. PutKey sampleEnv noTx ''prod'' ''/a.json'' ''x'' (sampleWorld False) = (Inr (Some kv, 2), w') \<and>
      kv_Value kv = ''v'' \<and> absOf (buckets w') = mvcc_put (''prod'', ''/a.json'') ''x'' (absOf (sampleDB False))) \<and>
   (\<exists>w'. PutKey sampleEnv noTx ''prod'' ''/a.json'' ''x'' (sampleWorld True) = (Inl (ErrLocked ''/a.json''), w'))"
  using PutKey_correct [of sampleEnv "sampleWorld False" noTx "''prod''" "''/a.json''" "''x''"]
    PutKey_correct [of sampleEnv "sampleWorld True" noTx "''prod''" "''/a.json''" "''x''"]
  by (auto simp: prevKV_def putAllowed_def split: prod.splits sum.splits)





text \<open>
  A range read at a past revision answers, for every live key of the range, the content written
  by the newest write of that key not after the revision, and omits exactly the keys that had no
  write by then: the shortcut for keys unchanged since the revision agrees with the history.
\<close>

theorem RangeQuery_at_revision:
  assumes "bolt_reliable E" "repo_inv (buckets w)" "0 < revision" "in_int64 revision"
  shows "\<exists>kvs more. RangeQuery E c sNS sP eNS eP 0 revision False w = (Inr (kvs, more), w) \<and>
     (\<forall>k v. (\<exists>kv \<in> set kvs. kvName kv = k \<and> kv_Value kv = v) \<longleftrightarrow>
        k \<in> keysInRange (buildRangeParams sNS sP eNS eP) (buckets w) \<and>
        newestAt (buckets w) (fst k) (snd k) revision v)"
proof -
  have "\<exists>wr. RangeQuery E c sNS sP eNS eP 0 revision False w =
      (RangeQuery_tx sNS sP eNS eP 0 revision False (TxQuerier wr) w, w)"
    unfolding RangeQuery_def WithReadTx_readT using assms(1) by (auto split: option.splits)
  then obtain wr where run: "RangeQuery E c sNS sP eNS eP 0 revision False w =
      (RangeQuery_tx sNS sP eNS eP 0 revision False (TxQuerier wr) w, w)" by blast
  show ?thesis unfolding run using RangeQuery_revision [OF assms(2-4), of sNS sP eNS eP wr] by auto
qed

theorem RangeQuery_at_revision_witness:
  "\<exists>kvs more. RangeQuery sampleEnv noTx ''prod'' ''/a.json'' [] [] 0 1 False (sampleWorld False) =
      (Inr (kvs, more), sampleWorld False) \<and>
     (\<exists>kv \<in> set kvs. kvName kv = (''prod'', ''/a.json'') \<and> kv_Value kv = ''v'')"
proof -
  have "newestAt (sampleDB False) ''prod'' ''/a.json'' 1 ''v''"
    using newestAt_live [of "sampleDB False" "''prod''" "''/a.json''" "sampleMeta False" 1] by simp
  then show ?thesis
    using RangeQuery_at_revision [of sampleEnv "sampleWorld False" 1 noTx "''prod''" "''/a.json''" "[]" "[]"]
    by (fastforce simp: sample_range in_int64_def)
qed

section \<open>Runs of the repository\<close>

text \<open>
  C11. Every database the repository can reach from a fresh store, through any sequence of its write
  operations and on an engine that may fail any of their calls, satisfies the invariant.
\<close>

theorem repository_safe:
  assumes "repo_reachable d"
  shows "repo_inv d"
  using assms by (rule reachable_inv)

theorem repository_safe_witness:
  "repo_reachable (buckets (runOp sampleEnv noTx (OpPut ''prod'' ''/a.json'' ''v'') freshWorld)) \<and>
   repo_inv (buckets (runOp sampleEnv noTx (OpPut ''prod'' ''/a.json'' ''v'') freshWorld))"
proof -
  have "repo_step (OpPut ''prod'' ''/a.json'' ''v'') freshDB
      (buckets (runOp sampleEnv noTx (OpPut ''prod'' ''/a.json'' ''v'') freshWorld))"
    using repo_step.intros [of "OpPut ''prod'' ''/a.json'' ''v''" freshWorld noTx sampleEnv]
    by (simp add: opNamesOk_def)
  then have "repo_reachable (buckets (runOp sampleEnv noTx (OpPut ''prod'' ''/a.json'' ''v'') freshWorld))"
    unfolding freshDB_def by (rule reach_step [OF reach_init])
  with repository_safe show ?thesis by blast
qed



text \<open>
  Revisions are the version of the store: a step either leaves the revision and everything the
  abstract store holds unchanged, or advances the revision by exactly one.
\<close>

theorem revision_advances:
  assumes "repo_step op d d'" "repo_inv d"
  shows "mv_rev (absOf d') = mv_rev (absOf d) \<and> mv_kvs (absOf d') = mv_kvs (absOf d) \<or>
     mv_rev (absOf d') = mv_rev (absOf d) + 1"
  using step_revision [OF assms] by (auto simp: absOf_def)

theorem revision_advances_witness:
  "repo_step (OpDelete ''/zz'' ''prod'') (sampleDB True)
      (buckets (runOp sampleEnv noTx (OpDelete ''/zz'' ''prod'') (sampleWorld True))) \<and>
   (let d' = buckets (runOp sampleEnv noTx (OpDelete ''/zz'' ''prod'') (sampleWorld True)) in
    mv_rev (absOf d') = 1 \<and> mv_kvs (absOf d') = mv_kvs (absOf (sampleDB True)) \<or> mv_rev (absOf d') = 2)"
proof -
  have rev: "mv_rev (absOf (sampleDB True)) = 1" by (simp add: absOf_def)
  have "repo_step (OpDelete ''/zz'' ''prod'') (sampleDB True)
      (buckets (runOp sampleEnv noTx (OpDelete ''/zz'' ''prod'') (sampleWorld True)))"
    using repo_step.intros [of "OpDelete ''/zz'' ''prod''" "sampleWorld True" noTx sampleEnv]
    by (simp add: opNamesOk_def)
  with revision_advances [OF this] rev show ?thesis by (simp add: Let_def)
qed

text \<open>
  C14. A locked config is frozen: no operation of the repository other than the unlock of that very
  config changes its metadata or its content, whatever else it does and whatever the engine fails.
\<close>

theorem locked_config_frozen:
  assumes "repo_step op d d'" "repo_inv d" "nulFree ns" "nulFree path"
    and "metaAt d ns path = Some m" "m_Locked m" "op \<noteq> OpUnlock ns path"
  shows "metaAt d' ns path = Some m \<and> contentAt d' ns path = contentAt d ns path"
  using assms by (rule step_locked)

theorem locked_config_frozen_witness:
  "metaAt (buckets (runOp sampleEnv noTx (OpPut ''prod'' ''/a.json'' ''x'') (sampleWorld True))) ''prod'' ''/a.json'' =
     Some (sampleMeta True) \<and>
   contentAt (buckets (runOp sampleEnv noTx (OpPut ''prod'' ''/a.json'' ''x'') (sampleWorld True))) ''prod'' ''/a.json'' = ''v''"
proof -
  have "repo_step (OpPut ''prod'' ''/a.json'' ''x'') (sampleDB True)
      (buckets (runOp sampleEnv noTx (OpPut ''prod'' ''/a.json'' ''x'') (sampleWorld True)))"
    using repo_step.intros [of "OpPut ''prod'' ''/a.json'' ''x''" "sampleWorld True" noTx sampleEnv]
    by (simp add: opNamesOk_def)
  from locked_config_frozen [OF this, of "''prod''" "''/a.json''" "sampleMeta True"] show ?thesis by simp
qed

section \<open>Locks and round trips\<close>

text \<open>
  \<^verbatim>\<open>LockConfig\<close> and \<^verbatim>\<open>UnlockConfig\<close>: they fail, with an unchanged database, exactly when the namespace
  is locked or the config is missing; otherwise the config carries the wanted flag, every other
  config keeps its own, and nothing an etcd client sees, revisions included, changed.
\<close>

theorem toggleConfigLock_correct:
  assumes "bolt_reliable E" "repo_inv (buckets w)" "ctx_tx c = None" "nulFree ns" "nulFree path"
  shows "case toggleConfigLock E c ns path locked w of
      (Inl e, w') \<Rightarrow> buckets w' = buckets w \<and>
        (if nsLocked (buckets w) ns then e = ErrNamespaceLocked ns
         else metaAt (buckets w) ns path = None \<and> e = ErrResourceNotFound path)
    | (Inr _, w') \<Rightarrow>
        \<not> nsLocked (buckets w) ns \<and> metaAt (buckets w) ns path \<noteq> None \<and>
        repo_inv (buckets w') \<and> absOf (buckets w') = absOf (buckets w) \<and>
        (\<forall>ns' p'. nulFree ns' \<longrightarrow> map_option m_Locked (metaAt (buckets w') ns' p') =
           (if ns' = ns \<and> p' = path then Some locked else map_option m_Locked (metaAt (buckets w) ns' p')))"
proof (cases "nsLocked (buckets w) ns \<or> metaAt (buckets w) ns path = None")
  case True
  with toggleConfigLockTx_guards(1) [OF assms(2), where ns = ns and p = path and E = E and q = "TxQuerier True"]
    toggleConfigLockTx_guards(2) [OF assms(2), where ns = ns and p = path and E = E and q = "TxQuerier True"]
    assms(1,3) show ?thesis
    by (cases "nsLocked (buckets w) ns") (simp_all add: tx_eqs)
next
  case False
  then obtain m where m: "\<not> nsLocked (buckets w) ns" "metaAt (buckets w) ns path = Some m" by auto
  from assms(1,2,4,5) m show ?thesis
  proof (rule toggleConfigLockTx_ok [where locked = locked])
    fix w' assume "toggleConfigLockTx E (TxQuerier True) ns path locked w = (Inr (), w')"
      "repo_inv (buckets w')" "absOf (buckets w') = absOf (buckets w)"
      "\<And>ns' p'. nulFree ns' \<Longrightarrow> map_option m_Locked (metaAt (buckets w') ns' p') =
        (if ns' = ns \<and> p' = path then Some locked else map_option m_Locked (metaAt (buckets w) ns' p'))"
    with assms(1,3) m show ?thesis by (simp add: tx_eqs)
  qed
qed

theorem toggleConfigLock_correct_witness:
  "\<exists>w'. LockConfig sampleEnv noTx ''prod'' ''/a.json'' (sampleWorld False) = (Inr (), w') \<and>
     map_option m_Locked (metaAt (buckets w') ''prod'' ''/a.json'') = Some True \<and>
     absOf (buckets w') = absOf (sampleDB False)"
  using toggleConfigLock_correct [of sampleEnv "sampleWorld False" noTx "''prod''" "''/a.json''" True]
  by (auto simp: LockConfig_def simp del: map_option_eq_Some split: prod.splits sum.splits)

text \<open>
  Read your writes: after a successful create, \<^verbatim>\<open>Get\<close> returns the very config that create
  returned, hash, format, timestamps, version and revisions included.
\<close>

theorem Create_Get:
  assumes "bolt_reliable E" "repo_inv (buckets w)" "room (buckets w)" "ctx_tx c = None"
    and "nulFree (cfg_Namespace cfg)" "nulFree (cfg_Path cfg)"
    and "cfg_Format cfg \<in> {FormatJSON, FormatYAML, FormatOther}"
    and "Create E c cfg w = (Inr cfg', w')"
  shows "Get E c (cfg_Path cfg) (cfg_Namespace cfg) w' =
    (Inr (cfg'\<lparr>cfg_Metadata := nonNilMetadata (cfg_Metadata cfg'), cfg_NamespaceLocked := False\<rparr>), w')"
proof -
  have tx: "createConfigTx E (TxQuerier True) cfg w = (Inr cfg', w')"
    using assms(1,4,8) by (cases "createConfigTx E (TxQuerier True) cfg w")
      (auto simp: tx_eqs committed_def split: sum.splits)
  from createConfigTx_Inr [OF tx assms(2,3)] obtain row where
    cfg': "cfg' = createdConfig E (clock E (ticks w)) (revOf (buckets w) + 1) cfg"
      "\<not> nsLocked (buckets w) (cfg_Namespace cfg)" and
    d: "buckets w' = entryWritten (cfg_Namespace cfg) (cfg_Path cfg) (normMeta (DomainToConfigMeta cfg'))
        (cfg_Content cfg) row (buckets w)" by blast
  have inv': "repo_inv (buckets w')" unfolding d cfg' using assms(2,3,5,6) by (rule written_createdConfig_inv)
  have fmt: "cfg_Format cfg' \<in> {FormatJSON, FormatYAML, FormatOther}"
    using assms(7) by (simp add: cfg' createdConfig_def SetDefaults_def GenerateHash_def split: option.splits)
  have unlocked: "\<not> nsLocked (buckets w') (cfg_Namespace cfg)"
    using cfg'(2) by (simp add: nsLocked_def d dget_written)
  have stored: "metaAt (buckets w') (cfg_Namespace cfg) (cfg_Path cfg) = Some (normMeta (DomainToConfigMeta cfg'))"
    "contentAt (buckets w') (cfg_Namespace cfg) (cfg_Path cfg) = cfg_Content cfg"
    using assms(5) by (simp_all add: d metaAt_written)
  have "Get_tx (cfg_Path cfg) (cfg_Namespace cfg) (TxQuerier False) w' =
      Inr ((ConfigMetaToDomain (normMeta (DomainToConfigMeta cfg')) (cfg_Content cfg')
        (cfg_Path cfg') (cfg_Namespace cfg'))\<lparr>cfg_NamespaceLocked := False\<rparr>)"
    using stored unlocked cfg'(1)
    by (simp add: Get_tx_def read_eqs [OF inv'] bucket_Get_dget contentAt_def [symmetric] Let_def)
  then show ?thesis
    unfolding ConfigMeta_roundtrip [OF fmt] Get_def WithReadTx_readT using assms(1,4) by simp
qed

theorem Create_Get_witness:
  "\<exists>cfg' w'. Create sampleEnv noTx (sampleConfig ''/b.json'' 0) freshWorld = (Inr cfg', w') \<and>
     Get sampleEnv noTx ''/b.json'' ''prod'' w' =
       (Inr (cfg'\<lparr>cfg_Metadata := nonNilMetadata (cfg_Metadata cfg'), cfg_NamespaceLocked := False\<rparr>), w')"
proof -
  from createConfigTx_ok [of sampleEnv freshWorld "sampleConfig ''/b.json'' 0"] obtain w' where
    "createConfigTx sampleEnv (TxQuerier True) (sampleConfig ''/b.json'' 0) freshWorld =
      (Inr (createdConfig sampleEnv 0 1 (sampleConfig ''/b.json'' 0)), w')" by auto
  then have run: "Create sampleEnv noTx (sampleConfig ''/b.json'' 0) freshWorld =
      (Inr (createdConfig sampleEnv 0 1 (sampleConfig ''/b.json'' 0)), w')" by (simp add: tx_eqs)
  moreover have "cfg_Format (sampleConfig ''/b.json'' 0) \<in> {FormatJSON, FormatYAML, FormatOther}"
    by (simp add: sampleConfig_def FormatJSON_def)
  ultimately show ?thesis using Create_Get [OF _ _ _ _ _ _ _ run] by auto
qed

end
