(* ===== verification/SchemaProps.thy ===== *)
theory SchemaProps
  imports Schemas RepoProps
begin

text \<open>
  The schema validator: its caches never change an answer, the attachment it validates against
  is the best match, and the violations it reports are the leaves of the library's error tree.
\<close>

section \<open>Caches\<close>

text \<open>
  A cache is sound when every entry is what a fresh compilation yields: a pattern's entry is the
  pattern's compilation, a schema's entry is the compilation of a schema with the entry's hash. \<open>S\<close>
  is the set of the schema texts that were ever compiled; the hash may collide outside it.
\<close>

definition cache_ok :: "ext \<Rightarrow> (bytes \<Rightarrow> string) \<Rightarrow> string set \<Rightarrow> validatorCache \<Rightarrow> bool" where
  "cache_ok X sha S vc \<longleftrightarrow>
     (\<forall>p e. vc_patterns vc p = Some e \<longrightarrow> e = freshPattern X p) \<and>
     (\<forall>ns p h f. vc_schemas vc (ns, p, h) = Some f \<longrightarrow> (\<exists>s \<in> S. sha s = h \<and> schemaCompile X s = Inr f))"

definition emptyCache :: validatorCache where
  "emptyCache = \<lparr>vc_patterns = Map.empty, vc_schemas = Map.empty\<rparr>"

lemma cache_ok_empty [simp]: "cache_ok X sha S emptyCache"
  by (simp add: cache_ok_def emptyCache_def)

lemma compilePattern_fresh:
  assumes "cache_ok X sha S vc"
  obtains vc' where "compilePattern X p vc = (freshPattern X p, vc')" "cache_ok X sha S vc'"
proof (cases "vc_patterns vc p")
  case None
  with assms that show ?thesis by (simp add: compilePattern_def cache_ok_def Let_def)
next
  case (Some e)
  with assms have "e = freshPattern X p" by (simp add: cache_ok_def)
  with Some assms that show ?thesis by (simp add: compilePattern_def)
qed

text \<open>The match without a cache.\<close>

definition bestMatch :: "ext \<Rightarrow> string \<Rightarrow> SchemaAttachment list \<Rightarrow> (SchemaAttachment \<times> int) option
    \<Rightarrow> (SchemaAttachment \<times> int) option" where
  "bestMatch X path sas best =
     fold (\<lambda>sa. betterMatch path (freshPattern X (sa_PathPattern sa)) sa) sas best"

lemma findBestMatchLoop_fresh:
  "cache_ok X sha S vc \<Longrightarrow>
     \<exists>vc'. findBestMatchLoop X path sas best vc = (bestMatch X path sas best, vc') \<and> cache_ok X sha S vc'"
proof (induction sas arbitrary: best vc)
  case Nil
  then show ?case by (simp add: bestMatch_def)
next
  case (Cons sa sas)
  from Cons.prems obtain vc1 where
    "compilePattern X (sa_PathPattern sa) vc = (freshPattern X (sa_PathPattern sa), vc1)" "cache_ok X sha S vc1"
    by (rule compilePattern_fresh)
  with Cons.IH show ?case by (simp add: bestMatch_def)
qed

lemma compileSchema_fresh:
  assumes "cache_ok X sha S vc" "inj_on sha S" "sa_JSONSchema sa \<in> S"
  obtains vc' where "cache_ok X sha S vc'" "compileSchema X sha sa vc =
    (case schemaCompile X (sa_JSONSchema sa) of Inl m \<Rightarrow> Err (ErrExternal m) | Inr f \<Rightarrow> Ok f, vc')"
proof (cases "vc_schemas vc (sa_Namespace sa, sa_PathPattern sa, sha (sa_JSONSchema sa))")
  case None
  show ?thesis
  proof (cases "schemaCompile X (sa_JSONSchema sa)")
    case (Inl m)
    with None assms(1) that show ?thesis by (simp add: compileSchema_def)
  next
    case (Inr f)
    let ?vc = "vc\<lparr>vc_schemas := (vc_schemas vc)((sa_Namespace sa, sa_PathPattern sa, sha (sa_JSONSchema sa)) \<mapsto> f)\<rparr>"
    from Inr assms(1,3) have "cache_ok X sha S ?vc" by (auto simp: cache_ok_def)
    with None Inr that show ?thesis by (simp add: compileSchema_def)
  qed
next
  case (Some f)
  with assms(1) obtain s where "s \<in> S" "sha s = sha (sa_JSONSchema sa)" "schemaCompile X s = Inr f"
    unfolding cache_ok_def by blast
  with assms(2,3) have "schemaCompile X (sa_JSONSchema sa) = Inr f" by (metis inj_onD)
  with Some assms(1) that show ?thesis by (simp add: compileSchema_def)
qed

text \<open>Validation without any cache.\<close>

definition validateFresh ::
  "ext \<Rightarrow> SchemaAttachment list \<Rightarrow> string \<Rightarrow> string \<Rightarrow> Format \<Rightarrow> err + unit" where
  "validateFresh X schemas path content fmt =
     (case bestMatch X path schemas None of
        None \<Rightarrow> Ok ()
      | Some (best, _) \<Rightarrow>
          (case toJSONValue X content fmt of
             Inl e \<Rightarrow> Err e
           | Inr v \<Rightarrow>
               (case schemaCompile X (sa_JSONSchema best) of
                  Inl m \<Rightarrow> Err (ErrExternal m)
                | Inr f \<Rightarrow> (case f v of Some ve \<Rightarrow> Err (collectViolations ve) | None \<Rightarrow> Ok ()))))"

lemma bestMatch_mem: "bestMatch X path sas best = Some bs \<Longrightarrow> best = Some bs \<or> fst bs \<in> set sas"
proof (induction sas arbitrary: best)
  case (Cons sa sas)
  then have "betterMatch path (freshPattern X (sa_PathPattern sa)) sa best = Some bs \<or> fst bs \<in> set sas"
    by (simp add: bestMatch_def)
  then show ?case by (auto simp: betterMatch_def split: option.splits if_splits)
qed (simp add: bestMatch_def)

lemma validateWith_sound:
  assumes ok: "cache_ok X sha S vc" and sha: "inj_on sha S" "sa_JSONSchema ` set schemas \<subseteq> S"
  shows "\<exists>vc'. validateWith X sha schemas path content fmt vc = (validateFresh X schemas path content fmt, vc') \<and>
    cache_ok X sha S vc'"
proof -
  obtain vc1 where 1: "findBestMatchLoop X path schemas None vc = (bestMatch X path schemas None, vc1)"
      "cache_ok X sha S vc1"
    using findBestMatchLoop_fresh [OF ok] by blast
  show ?thesis
  proof (cases "bestMatch X path schemas None")
    case None
    with 1 show ?thesis by (simp add: validateWith_def findBestMatch_def validateFresh_def)
  next
    case (Some bs)
    with sha(2) bestMatch_mem [OF Some] have "sa_JSONSchema (fst bs) \<in> S" by auto
    with 1(2) sha(1) obtain vc2 where "cache_ok X sha S vc2" "compileSchema X sha (fst bs) vc1 =
        (case schemaCompile X (sa_JSONSchema (fst bs)) of Inl m \<Rightarrow> Err (ErrExternal m) | Inr f \<Rightarrow> Ok f, vc2)"
      by (rule compileSchema_fresh)
    with 1 Some show ?thesis
      by (cases bs) (simp add: validateWith_def findBestMatch_def validateFresh_def split: sum.split option.split)
  qed
qed

section \<open>The best match\<close>

definition applies :: "ext \<Rightarrow> string \<Rightarrow> SchemaAttachment \<Rightarrow> bool" where
  "applies X path sa = (case globCompile X (sa_PathPattern sa) of None \<Rightarrow> False | Some g \<Rightarrow> g path)"

definition beats :: "SchemaAttachment \<Rightarrow> SchemaAttachment \<Rightarrow> bool" where
  "beats a b \<longleftrightarrow> specificity (sa_PathPattern b) < specificity (sa_PathPattern a) \<or>
     specificity (sa_PathPattern b) = specificity (sa_PathPattern a) \<and> sa_CreatedAt a \<le> sa_CreatedAt b"

lemma betterMatch_fresh:
  "betterMatch path (freshPattern X (sa_PathPattern sa)) sa best =
     (if \<not> applies X path sa then best
      else case best of
        None \<Rightarrow> Some (sa, specificity (sa_PathPattern sa))
      | Some (b, score) \<Rightarrow>
          if specificity (sa_PathPattern sa) > score \<or>
             specificity (sa_PathPattern sa) = score \<and> sa_CreatedAt sa < sa_CreatedAt b
          then Some (sa, specificity (sa_PathPattern sa)) else best)"
  by (auto simp: betterMatch_def freshPattern_def applies_def split: option.splits)

definition isBest :: "ext \<Rightarrow> string \<Rightarrow> SchemaAttachment set \<Rightarrow> (SchemaAttachment \<times> int) option \<Rightarrow> bool" where
  "isBest X path S best =
     (case best of
        None \<Rightarrow> (\<forall>s \<in> S. \<not> applies X path s)
      | Some (b, score) \<Rightarrow> b \<in> S \<and> applies X path b \<and> score = specificity (sa_PathPattern b) \<and>
          (\<forall>s \<in> S. applies X path s \<longrightarrow> beats b s))"

lemma isBest_step:
  "isBest X path S best \<Longrightarrow>
     isBest X path (insert sa S) (betterMatch path (freshPattern X (sa_PathPattern sa)) sa best)"
  unfolding betterMatch_fresh by (fastforce simp: isBest_def beats_def split: option.splits prod.splits)

lemma bestMatch_isBest:
  "isBest X path S best \<Longrightarrow> isBest X path (S \<union> set sas) (bestMatch X path sas best)"
proof (induction sas arbitrary: S best)
  case (Cons sa sas)
  from Cons.IH [OF isBest_step [OF Cons.prems]] show ?case by (simp add: bestMatch_def)
qed (simp add: bestMatch_def)

section \<open>Violations\<close>

fun leaves :: "vnode \<Rightarrow> SchemaViolation list" where
  "leaves (VNode loc kw msg causes) =
     (if causes = [] then [(''/'' @ joinSlash loc, msg, joinSlash kw)] else concat (map leaves causes))"

lemma walk_leaves:
  "walkViolations t acc = acc @ leaves t"
  "walkCauses ts acc = acc @ concat (map leaves ts)"
  by (induction t acc and ts acc rule: walkViolations_walkCauses.induct) auto

lemma leaves_nonempty: "leaves t \<noteq> []"
proof (induction t)
  case (VNode loc kw msg causes)
  then show ?case by (cases causes) auto
qed

end
