(* ===== verification/ServiceProps.thy ===== *)
theory ServiceProps
  imports TxnCas SchemaProps
begin

text \<open>
  The properties of the config use case's transactions and notifications, of the schema validator
  and of the publisher.
\<close>

section \<open>Samples\<close>

definition sampleExt :: ext where
  "sampleExt = \<lparr>jsonUnmarshal = (\<lambda>s. Inr (JString s)), jsonMarshal = (\<lambda>_. Inr []),
     jsonMarshalIndent = (\<lambda>_. Inr []), yamlUnmarshal = (\<lambda>s. Inr (JString s)), yamlMarshal = (\<lambda>_. Inr []),
     trimSpace = (\<lambda>s. s), globCompile = (\<lambda>p. Some (\<lambda>s. s = p)), schemaCompile = (\<lambda>s. Inr (\<lambda>_. None))\<rparr>"

definition sampleSub :: subscription where
  "sampleSub = \<lparr>sub_pathPrefix = ''/'', sub_namespace = ''prod'', sub_events = []\<rparr>"

definition sampleHub :: Publisher where
  "sampleHub = \<lparr>pub_subscriptions = [(1, sampleSub)], pub_closed = [], pub_nextID = 1\<rparr>"

definition svcWorld :: "database \<Rightarrow> sworld" where
  "svcWorld d = \<lparr>buckets = d, ticks = 0, hub = sampleHub, pending = [], vcache = emptyCache\<rparr>"

definition svcCtx :: sctx where "svcCtx = \<lparr>ctx_tx = None, ctx_pending = False\<rparr>"

lemma svc_simps [simp]:
  "buckets (svcWorld d) = d" "hub (svcWorld d) = sampleHub" "pending (svcWorld d) = []"
  "ctx_tx svcCtx = None" "ctx_pending svcCtx = False"
  by (simp_all add: svcWorld_def svcCtx_def)

section \<open>Transactions\<close>

text \<open>
  C17. A failed \<^verbatim>\<open>Txn\<close> leaves no trace: whatever failed, a compare's read, an operation, a nested
  transaction, begin or commit, the database is unchanged and no watcher was told anything, not
  even of the operations that had succeeded before the failure.
\<close>

theorem Txn_atomic:
  assumes "Txn E X c inp w = (Inl e, w')" "ctx_tx c \<noteq> Some True" "\<not> ctx_pending c"
  shows "buckets w' = buckets w \<and> hub w' = hub w"
proof (cases "hasWrites inp")
  case True
  with assms(1) have "deferring E c (\<lambda>c. runTxn E X c inp) w = (Inl e, w')"
    by (simp add: Txn_def txnBoundary_def)
  from deferring_Inl [OF this assms(2,3)] keeps_runTxn(1) show ?thesis by blast
next
  case False
  with assms(1) have "runTxn E X c inp w = (Inl e, w')" by (simp add: Txn_def txnBoundary_def)
  from pureRead_Inr [OF pureRead_runTxn(1) [OF False] this] show ?thesis by simp
qed

text \<open>A put, then an operation the service refuses.\<close>

definition doomedTxn :: KVTxnInput where
  "doomedTxn = KVTxnInput [] [KVOpPut \<lparr>po_Namespace = ''prod'', po_Path = ''/b'', po_Value = ''x''\<rparr>, KVOpUnknown] []"

lemma runTxn_doomed: "runTxn E X c doomedTxn w \<noteq> (Inr x, w')"
  by (auto simp: doomedTxn_def bind_inversion)

theorem Txn_atomic_witness:
  "\<exists>e w'. Txn sampleEnv sampleExt svcCtx doomedTxn (svcWorld (sampleDB False)) = (Inl e, w') \<and>
     buckets w' = sampleDB False \<and> hub w' = sampleHub"
proof -
  let ?w = "svcWorld (sampleDB False)"
  have "Txn sampleEnv sampleExt svcCtx doomedTxn ?w \<noteq> (Inr x, w')" for x w'
  proof
    assume "Txn sampleEnv sampleExt svcCtx doomedTxn ?w = (Inr x, w')"
    then have "deferring sampleEnv svcCtx (\<lambda>c. runTxn sampleEnv sampleExt c doomedTxn) ?w = (Inr x, w')"
      by (simp add: Txn_def txnBoundary_def doomedTxn_def)
    then show False by (rule deferring_owner_Inr) (simp_all add: runTxn_doomed)
  qed
  then obtain e w' where r: "Txn sampleEnv sampleExt svcCtx doomedTxn ?w = (Inl e, w')"
    by (metis prod.exhaust sum.exhaust)
  from Txn_atomic [OF r] r show ?thesis by simp
qed

text \<open>
  C18. A committed \<^verbatim>\<open>Txn\<close> is the atomic execution of one branch: the invariant of the store holds
  after it, the multi-version store is the abstract one's, in which all compares are judged on the
  state the transaction starts from and the operations of the chosen branch, nested transactions
  included, run in order; \<^verbatim>\<open>Succeeded\<close> says which branch ran; and the publisher received exactly
  one event per key put and per key deleted, in the order of the operations.
\<close>

theorem Txn_refines:
  assumes run: "Txn E X c inp w = (Inr res, w')" and c: "ctx_tx c \<noteq> Some True" "\<not> ctx_pending c"
    and inv: "repo_inv (buckets w)" "roomFor (txnSize inp) (buckets w)" "txnNames inp"
  shows "repo_inv (buckets w') \<and> absOf (buckets w') = absTxn inp (absOf (buckets w)) \<and>
    tr_Succeeded res = (case inp of KVTxnInput cmps _ _ \<Rightarrow> \<forall>cmp \<in> set cmps. cmpHolds cmp (absOf (buckets w))) \<and>
    (\<exists>es. hub w' = fold notify es (hub w) \<and> map eventKey es = txnKeys inp res)"
  using assms by (rule Txn_Inr)

lemma sample_valid: "fst (Validator_Validate E X c ''prod'' ''/a'' v (DetectFormatFromPath ''/a'') w) = Inr ()"
proof -
  have "DetectFormatFromPath ''/a'' = FormatOther" by code_simp
  then show ?thesis by (simp add: Validator_Validate_def returnT_def)
qed

lemma sample_cas:
  "nulFree ''/a''" "n \<le> 2 \<Longrightarrow> roomFor n (sampleDB l)" "putAllowed (sampleDB l) ''prod'' ''/a''"
  "modRev (absOf (sampleDB l)) (''prod'', ''/a'') = 0"
  by (simp_all add: nulFree_def keySep_def roomFor_def putAllowed_def modRev_def absOf_def)

lemma sample_cas_run:
  "\<exists>res w'. Txn sampleEnv sampleExt svcCtx (casTxn ''prod'' ''/a'' r ''x'') (svcWorld (sampleDB l)) = (Inr res, w')"
  by (rule casTxn_run) (simp_all add: sample_cas sample_valid)

theorem Txn_refines_witness:
  "\<exists>res w' es. Txn sampleEnv sampleExt svcCtx (casTxn ''prod'' ''/a'' 0 ''x'') (svcWorld (sampleDB False)) = (Inr res, w') \<and>
     repo_inv (buckets w') \<and> tr_Succeeded res \<and>
     absOf (buckets w') = mvcc_put (''prod'', ''/a'') ''x'' (absOf (sampleDB False)) \<and>
     hub w' = fold notify es sampleHub"
proof -
  obtain res w' where r: "Txn sampleEnv sampleExt svcCtx (casTxn ''prod'' ''/a'' 0 ''x'') (svcWorld (sampleDB False))
      = (Inr res, w')" using sample_cas_run by blast
  from Txn_refines [OF r] r show ?thesis
    by (simp add: sample_cas absTxn_cas) (auto simp: casTxn_def cmpHolds_modIs sample_cas)
qed

text \<open>
  C19. Compare and swap: the transaction that puts a key when its modification revision is \<open>r\<close>
  returns, and puts the key if that is its revision (0 standing for an absent key) and leaves the
  store as it is otherwise; the response says which.
\<close>

theorem Txn_compare_and_swap:
  assumes "bolt_reliable E" "ctx_tx c = None" "\<not> ctx_pending c" "repo_inv (buckets w)" "room (buckets w)"
    "nulFree ns" "nulFree p"
    and "modRev (absOf (buckets w)) (ns, p) = r \<Longrightarrow> putAllowed (buckets w) ns p \<and>
      fst (Validator_Validate E X (c\<lparr>ctx_pending := True, ctx_tx := Some True\<rparr>) ns p v (DetectFormatFromPath p)
        (w\<lparr>pending := []\<rparr>)) = Inr ()"
  shows "\<exists>res w'. Txn E X c (casTxn ns p r v) w = (Inr res, w') \<and>
    tr_Succeeded res = (modRev (absOf (buckets w)) (ns, p) = r) \<and>
    absOf (buckets w') = (if modRev (absOf (buckets w)) (ns, p) = r
      then mvcc_put (ns, p) v (absOf (buckets w)) else absOf (buckets w))"
proof -
  obtain res w' where r: "Txn E X c (casTxn ns p r v) w = (Inr res, w')"
    using casTxn_run [OF assms] by blast
  have "roomFor (txnSize (casTxn ns p r v)) (buckets w)" using assms(5) by (simp add: roomFor_def room_def)
  with Txn_Inr [OF r] r assms show ?thesis
    by (simp add: absTxn_cas) (simp add: casTxn_def cmpHolds_modIs)
qed

theorem Txn_compare_and_swap_witness:
  "\<exists>res w'. Txn sampleEnv sampleExt svcCtx (casTxn ''prod'' ''/a'' 0 ''x'') (svcWorld (sampleDB False)) = (Inr res, w') \<and>
     tr_Succeeded res \<and> absOf (buckets w') = mvcc_put (''prod'', ''/a'') ''x'' (absOf (sampleDB False))"
  using Txn_compare_and_swap [of sampleEnv svcCtx "svcWorld (sampleDB False)" "''prod''" "''/a''" 0 sampleExt "''x''"]
  by (simp add: sample_cas sample_valid)

text \<open>
  Of two compare-and-swaps on the same key with the same expected revision, at most one
  succeeds: after the first has, the second reports failure and changes nothing. This is what
  locks and elections of etcd's clients rely on.
\<close>

theorem Txn_cas_exclusive:
  assumes first: "Txn E X c (casTxn ns p r v1) w = (Inr res1, w1)" "tr_Succeeded res1"
    and second: "Txn E X c (casTxn ns p r v2) w1 = (Inr res2, w2)"
    and c: "ctx_tx c \<noteq> Some True" "\<not> ctx_pending c"
    and inv: "repo_inv (buckets w)" "roomFor 2 (buckets w)" "nulFree ns" "nulFree p"
  shows "\<not> tr_Succeeded res2 \<and> absOf (buckets w2) = absOf (buckets w1)"
proof -
  let ?S = "absOf (buckets w)"
  have room: "roomFor (txnSize (casTxn ns p r v1)) (buckets w)" using inv(2) by (simp add: roomFor_def)
  have S1: "repo_inv (buckets w1)" "absOf (buckets w1) = mvcc_put (ns, p) v1 ?S" "modRev ?S (ns, p) = r"
    using Txn_Inr [OF first(1) c inv(1) room] first(2) inv(3,4)
    by (auto simp: absTxn_cas) (auto simp: casTxn_def cmpHolds_modIs)
  have "mv_rev (absOf (buckets w1)) = mv_rev ?S + 1" by (simp add: S1(2) mvcc_put_def Let_def)
  then have room1: "roomFor (txnSize (casTxn ns p r v2)) (buckets w1)"
    using inv(2) by (simp add: roomFor_def absOf_def)
  have "modRev (absOf (buckets w1)) (ns, p) \<noteq> r"
    using modRev_bounds(2) [OF inv(1), of "(ns, p)"] S1 by (simp add: modRev_put)
  then show ?thesis
    using Txn_Inr [OF second c S1(1) room1] inv(3,4)
    by (simp add: absTxn_cas) (simp add: casTxn_def cmpHolds_modIs)
qed

theorem Txn_cas_exclusive_witness:
  "\<exists>res1 w1 res2 w2.
     Txn sampleEnv sampleExt svcCtx (casTxn ''prod'' ''/a'' 0 ''x'') (svcWorld (sampleDB False)) = (Inr res1, w1) \<and>
     Txn sampleEnv sampleExt svcCtx (casTxn ''prod'' ''/a'' 0 ''y'') w1 = (Inr res2, w2) \<and> \<not> tr_Succeeded res2"
proof -
  let ?w = "svcWorld (sampleDB False)"
  obtain res1 w1 where 1: "Txn sampleEnv sampleExt svcCtx (casTxn ''prod'' ''/a'' 0 ''x'') ?w = (Inr res1, w1)"
    using sample_cas_run by blast
  have S1: "tr_Succeeded res1" "repo_inv (buckets w1)" "absOf (buckets w1) = mvcc_put (''prod'', ''/a'') ''x'' (absOf (sampleDB False))"
    using Txn_Inr [OF 1] by (auto simp: sample_cas absTxn_cas casTxn_def cmpHolds_modIs)
  have "modRev (absOf (buckets w1)) (''prod'', ''/a'') = 2" unfolding S1(3) modRev_put by (simp add: absOf_def)
  moreover have "room (buckets w1)"
    using arg_cong [OF S1(3), of mv_rev] by (simp add: room_def absOf_def mvcc_put_def Let_def)
  ultimately obtain res2 w2 where 2: "Txn sampleEnv sampleExt svcCtx (casTxn ''prod'' ''/a'' 0 ''y'') w1 = (Inr res2, w2)"
    using casTxn_run [of sampleEnv svcCtx w1 "''prod''" "''/a''" 0 sampleExt "''y''"] S1(2)
    by (auto simp: sample_cas)
  have "roomFor 2 (buckets ?w)" by (simp add: roomFor_def)
  with Txn_cas_exclusive [OF 1 S1(1) 2] 1 2 show ?thesis by (auto simp: sample_cas)
qed

section \<open>Schema validation\<close>

text \<open>
  C21. The validator's caches are transparent: whatever was compiled before, validating a config
  gives what compiling every pattern and the chosen schema afresh would give, and leaves sound
  caches behind. The only assumption on the hash is that it does not collide on the schema texts
  in play.
\<close>

theorem Validator_Validate_correct:
  assumes "Schema_List E c ns w = (Inr schemas, w)" "fmt \<noteq> FormatOther"
    and "cache_ok X (sha256hex E) S (vcache w)" "inj_on (sha256hex E) S" "sa_JSONSchema ` set schemas \<subseteq> S"
  shows "\<exists>vc'. Validator_Validate E X c ns path content fmt w =
      (validateFresh X schemas path content fmt, w\<lparr>vcache := vc'\<rparr>) \<and> cache_ok X (sha256hex E) S vc'"
proof -
  from validateWith_sound [OF assms(3-5)] obtain vc' where
    "validateWith X (sha256hex E) schemas path content fmt (vcache w) =
      (validateFresh X schemas path content fmt, vc')" "cache_ok X (sha256hex E) S vc'" by blast
  with assms(1,2) show ?thesis by (intro exI [of _ vc']) (simp add: Validator_Validate_def bindT_def)
qed

text \<open>A store with a schema for every path that is the pattern's own text.\<close>

definition schemaDB :: database where
  "schemaDB = (sampleDB False)(bucketSchemas \<mapsto> [(schemaKey ''prod'' ''/a.json'',
     JSchema \<lparr>sm_ID = ''s1'', sm_JSONSchema = ''{}'', sm_CreatedAt = 0\<rparr>)])"

definition sampleAttachment :: SchemaAttachment where
  "sampleAttachment = \<lparr>sa_ID = ''s1'', sa_Namespace = ''prod'', sa_PathPattern = ''/a.json'',
     sa_JSONSchema = ''{}'', sa_CreatedAt = 0\<rparr>"

lemma sample_schemas:
  "Schema_List sampleEnv svcCtx ''prod'' (svcWorld schemaDB) = (Inr [sampleAttachment], svcWorld schemaDB)"
proof -
  have "bucket_Cursor (TxQuerier False) bucketSchemas (svcWorld schemaDB) =
      [(schemaKey ''prod'' ''/a.json'', JSchema \<lparr>sm_ID = ''s1'', sm_JSONSchema = ''{}'', sm_CreatedAt = 0\<rparr>)]"
    by (simp add: bkt_def schemaDB_def)
  moreover have "schemaListLoop ''prod'' (prefixScan (schemaKeyPrefix ''prod'')
      [(schemaKey ''prod'' ''/a.json'', JSchema \<lparr>sm_ID = ''s1'', sm_JSONSchema = ''{}'', sm_CreatedAt = 0\<rparr>)]) =
      Inr [sampleAttachment]"
    by code_simp
  ultimately show ?thesis
    using sampleEnv_reliable
    by (simp add: Schema_List_def bolt_reliable_def
        WithReadTx_readT [where f = "\<lambda>q w. schemaListLoop ns (prefixScan pre (bucket_Cursor q n w))" for ns pre n])
qed

lemma svc_cache: "vcache (svcWorld d) = emptyCache"
  by (simp add: svcWorld_def)

lemma formats: "FormatJSON \<noteq> FormatOther"
  by code_simp

theorem Validator_Validate_correct_witness:
  "\<exists>vc'. Validator_Validate sampleEnv sampleExt svcCtx ''prod'' ''/a.json'' ''v'' FormatJSON (svcWorld schemaDB) =
     (Inr (), (svcWorld schemaDB)\<lparr>vcache := vc'\<rparr>)"
proof -
  have "validateFresh sampleExt [sampleAttachment] ''/a.json'' ''v'' FormatJSON = Inr ()"
    by (simp add: validateFresh_def bestMatch_def betterMatch_def freshPattern_def sampleExt_def
        sampleAttachment_def toJSONValue_def)
  with Validator_Validate_correct [OF sample_schemas, where X = sampleExt and S = "{''{}''}" and path = "''/a.json''"
      and content = "''v''" and fmt = FormatJSON]
  have "\<exists>vc'. Validator_Validate sampleEnv sampleExt svcCtx ''prod'' ''/a.json'' ''v'' FormatJSON (svcWorld schemaDB) =
      (Inr (), (svcWorld schemaDB)\<lparr>vcache := vc'\<rparr>) \<and> cache_ok sampleExt (sha256hex sampleEnv) {''{}''} vc'"
    by (simp add: svc_cache formats sampleAttachment_def)
  then show ?thesis by blast
qed

text \<open>
  The attachment a config is validated against: none applies, or the chosen one matches the
  path and beats every other attachment that matches, by fewer wildcards, or as many and an
  earlier creation.
\<close>

theorem findBestMatch_best:
  assumes "cache_ok X sha S vc"
  shows "case fst (findBestMatch X schemas path vc) of
      None \<Rightarrow> \<forall>s \<in> set schemas. \<not> applies X path s
    | Some b \<Rightarrow> b \<in> set schemas \<and> applies X path b \<and> (\<forall>s \<in> set schemas. applies X path s \<longrightarrow> beats b s)"
proof -
  from findBestMatchLoop_fresh [OF assms] obtain vc' where
    "findBestMatchLoop X path schemas None vc = (bestMatch X path schemas None, vc')" by blast
  moreover have "isBest X path {} None" by (simp add: isBest_def)
  from bestMatch_isBest [OF this] have "isBest X path (set schemas) (bestMatch X path schemas None)" by simp
  ultimately show ?thesis
    by (auto simp: findBestMatch_def isBest_def split: option.splits)
qed

theorem findBestMatch_best_witness:
  "fst (findBestMatch sampleExt [sampleAttachment] ''/a.json'' emptyCache) = Some sampleAttachment"
  using findBestMatch_best [OF cache_ok_empty, of "[sampleAttachment]" sampleExt "''/a.json''"]
  by (simp add: applies_def sampleExt_def split: option.splits) (simp add: sampleAttachment_def)

text \<open>
  A failed validation reports every leaf of the validation library's error tree, in order, and
  nothing else; there is always at least one.
\<close>

theorem collectViolations_leaves:
  "collectViolations (VTree t) = ErrSchemaValidation (leaves t) \<and> leaves t \<noteq> []"
  using leaves_nonempty [of t] by (simp add: collectViolations_def walk_leaves Let_def)

end
