(* ===== verification/EtcdProofs.thy ===== *)
theory EtcdProofs
  imports EtcdWatch ServiceProps
begin

text \<open>
  Facts about the etcd servers: a token's role and scope, the shape of transaction responses, the
  sort of range responses.
\<close>

section \<open>Tokens\<close>

text \<open>A token that may not write.\<close>

definition readOnly :: "'c hctx_scheme \<Rightarrow> bool" where
  "readOnly c \<longleftrightarrow> (\<exists>cl. ctx_claims c = Some cl \<and> clm_Role cl \<noteq> RoleWriter)"

lemma readOnly_denied:
  assumes "readOnly c"
  shows "checkAccess c ns ActionWrite = Inl (NamespaceDenied ns)"
    "checkRangeAccess c ns eNS ActionWrite = Inl (NamespaceDenied ns)"
  using assms by (auto simp: readOnly_def checkAccess_def checkRangeAccess_def namespaceAllowed_def)

lemma readOnly_txn:
  assumes "readOnly c"
  shows "checkTxnAccess c inp = Inr u \<Longrightarrow> \<not> hasWrites inp"
    "checkOpsAccess c ops = Inr u \<Longrightarrow> \<not> opsWrite ops"
    "checkOpAccess c op = Inr u \<Longrightarrow> \<not> opWrites op"
  using assms
  by (induction c inp and c ops and c op rule: checkTxnAccess_checkOpsAccess_checkOpAccess.induct)
    (auto simp: readOnly_denied split: sum.splits)

text \<open>The namespaces a transaction names, and the action it needs on each.\<close>

fun rangeNeeds :: "string \<Rightarrow> string \<Rightarrow> Action \<Rightarrow> (string \<times> Action) set" where
  "rangeNeeds sNS eNS a = {(sNS, a)} \<union> (if eNS \<noteq> [] \<and> eNS \<noteq> scanAllEnd then {(eNS, a)} else {})"

fun opsNeeds :: "KVOp list \<Rightarrow> (string \<times> Action) set" and opNeeds :: "KVOp \<Rightarrow> (string \<times> Action) set"
  and txnNeeds :: "KVTxnInput \<Rightarrow> (string \<times> Action) set" where
  "opsNeeds [] = {}"
| "opsNeeds (op # ops) = opNeeds op \<union> opsNeeds ops"
| "opNeeds (KVOpRange op) = rangeNeeds (ro_StartNS op) (ro_EndNS op) ActionRead"
| "opNeeds (KVOpPut op) = {(po_Namespace op, ActionWrite)}"
| "opNeeds (KVOpDeleteRange op) = rangeNeeds (do_StartNS op) (do_EndNS op) ActionWrite"
| "opNeeds (KVOpTxn (Some inp)) = txnNeeds inp"
| "opNeeds (KVOpTxn None) = {}"
| "opNeeds KVOpUnknown = {}"
| "txnNeeds (KVTxnInput cmps success failure) =
     (\<Union>cmp \<in> set cmps. rangeNeeds (cmp_StartNS cmp) (cmp_EndNS cmp) ActionRead) \<union>
     opsNeeds success \<union> opsNeeds failure"

lemma checkRangeAccess_needs:
  "checkRangeAccess c sNS eNS a = Inr u \<longleftrightarrow>
     (\<forall>(ns, b) \<in> rangeNeeds sNS eNS a. namespaceAllowed (ctx_claims c) ns b)"
  by (auto simp: checkRangeAccess_def checkAccess_def)

lemma checkComparesAccess_needs:
  "checkComparesAccess c cmps = Inr u \<longleftrightarrow>
     (\<forall>cmp \<in> set cmps. \<forall>(ns, b) \<in> rangeNeeds (cmp_StartNS cmp) (cmp_EndNS cmp) ActionRead.
        namespaceAllowed (ctx_claims c) ns b)"
proof (induction cmps)
  case (Cons cmp cmps)
  show ?case
  proof (cases "checkRangeAccess c (cmp_StartNS cmp) (cmp_EndNS cmp) ActionRead")
    case (Inl e)
    with checkRangeAccess_needs [of c "cmp_StartNS cmp" "cmp_EndNS cmp" ActionRead "()"] show ?thesis by auto
  next
    case (Inr u)
    with checkRangeAccess_needs [of c "cmp_StartNS cmp" "cmp_EndNS cmp" ActionRead u] Cons.IH show ?thesis by auto
  qed
qed simp

text \<open>A transaction passes the check exactly when the token allows everything it names.\<close>

fun txnComplete :: "KVTxnInput \<Rightarrow> bool" and opsComplete :: "KVOp list \<Rightarrow> bool" and opComplete :: "KVOp \<Rightarrow> bool" where
  "txnComplete (KVTxnInput cmps success failure) = (opsComplete success \<and> opsComplete failure)"
| "opsComplete [] = True"
| "opsComplete (op # ops) = (opComplete op \<and> opsComplete ops)"
| "opComplete (KVOpTxn (Some inp)) = txnComplete inp"
| "opComplete (KVOpTxn None) = False"
| "opComplete KVOpUnknown = False"
| "opComplete _ = True"

lemma checkTxnAccess_needs:
  "checkTxnAccess c inp = Inr () \<longleftrightarrow> txnComplete inp \<and> (\<forall>(ns, b) \<in> txnNeeds inp. namespaceAllowed (ctx_claims c) ns b)"
  "checkOpsAccess c ops = Inr () \<longleftrightarrow> opsComplete ops \<and> (\<forall>(ns, b) \<in> opsNeeds ops. namespaceAllowed (ctx_claims c) ns b)"
  "checkOpAccess c op = Inr () \<longleftrightarrow> opComplete op \<and> (\<forall>(ns, b) \<in> opNeeds op. namespaceAllowed (ctx_claims c) ns b)"
proof (induction c inp and c ops and c op rule: checkTxnAccess_checkOpsAccess_checkOpAccess.induct)
  case (1 c cmps success failure)
  show ?case
  proof (cases "checkComparesAccess c cmps = Inr ()")
    case True
    then show ?thesis
    proof (cases "checkOpsAccess c success = Inr ()")
      case t: True
      with True 1 checkComparesAccess_needs [of c cmps "()"] show ?thesis by (simp add: ball_Un)
    next
      case f: False
      then obtain e where "checkOpsAccess c success = Inl e" by (cases "checkOpsAccess c success") auto
      with True 1(1) f show ?thesis by auto
    qed
  next
    case False
    then obtain e where "checkComparesAccess c cmps = Inl e" by (cases "checkComparesAccess c cmps") auto
    with False checkComparesAccess_needs [of c cmps "()"] show ?thesis by (auto simp: ball_Un)
  qed
next
  case (3 c op ops)
  show ?case
  proof (cases "checkOpAccess c op = Inr ()")
    case True
    with 3 show ?thesis by (simp add: ball_Un)
  next
    case False
    then obtain e where "checkOpAccess c op = Inl e" by (cases "checkOpAccess c op") auto
    with False 3(1) show ?thesis by auto
  qed
next
  case (4 c op)
  then show ?case by (simp only: checkOpAccess.simps checkRangeAccess_needs opComplete.simps opNeeds.simps) simp
next
  case (6 c op)
  then show ?case by (simp only: checkOpAccess.simps checkRangeAccess_needs opComplete.simps opNeeds.simps) simp
qed (auto simp: checkAccess_def)

section \<open>Responses of transactions\<close>

lemma deferring_body:
  assumes "deferring E c body w = (Inr x, w')"
  shows "\<exists>c' v v'. body c' v = (Inr x, v')"
  using assms
  by (auto simp: deferring_def withPendingEvents_def WithTx_def runTx_def
      split: prod.splits sum.splits if_splits option.splits)

lemma boundary_body:
  "txnBoundary E c wr body w = (Inr x, w') \<Longrightarrow> \<exists>c' v v'. body c' v = (Inr x, v')"
  using deferring_body [of E c body w x w'] by (auto simp: txnBoundary_def split: if_splits)

text \<open>Every result has the kind of its request, so that the response can be built.\<close>

lemma response_shape:
  "txnInput req = Inr inp \<Longrightarrow> runTxn E X (c :: 'c sctx_scheme) inp (w :: 'z sworld_scheme) = (Inr res, w') \<Longrightarrow>
     \<exists>resp. txnResponse req res = Inr resp"
  "txnOps rops = Inr ops \<Longrightarrow> runOps E X (c :: 'c sctx_scheme) ops results r (w :: 'z sworld_scheme) = (Inr (rs, r'), w') \<Longrightarrow>
     \<exists>rs' xs. rs = results @ rs' \<and> length rs' = length rops \<and> txnResponses rops rs' = Inr xs"
  "txnOp rop = Inr op \<Longrightarrow> runTxnOp E X (c :: 'c sctx_scheme) op (w :: 'z sworld_scheme) = (Inr (ores, r'), w') \<Longrightarrow>
     \<exists>x. txnOpResponse rop ores = Inr x"
proof (induction req and rops and rop arbitrary: inp c w res w' and ops c w results r rs r' w' and op c w ores r' w'
    rule: txnInput_txnOps_txnOp.induct)
  case (1 cmps success failure)
  from "1.prems"(1) obtain cs s f where inp: "inp = KVTxnInput cs s f" "txnCompares cmps = Inr cs"
    "txnOps success = Inr s" "txnOps failure = Inr f"
    by (auto split: sum.splits)
  from "1.prems"(2) inp(1) obtain ok w1 rs r2 w2 where
    ops: "(if ok then runOps E X c s [] 0 else runOps E X c f [] 0) w1 = (Inr (rs, r2), w2)" and
    fin: "finishTxn E c ok rs r2 w2 = (Inr res, w')"
    by (auto simp: bind_inversion)
  note F = finishTxn_Inr [OF fin]
  show ?case
  proof (cases ok)
    case True
    with "1.IH"(1) [OF inp(2,3)] ops obtain xs where "length rs = length success" "txnResponses success rs = Inr xs"
      by fastforce
    with True F show ?thesis by simp
  next
    case False
    with "1.IH"(2) [OF inp(2,3,4)] ops obtain xs where "length rs = length failure" "txnResponses failure rs = Inr xs"
      by fastforce
    with False F show ?thesis by simp
  qed
next
  case (3 rop rops)
  from "3.prems"(1) obtain op ops' where ops: "ops = op # ops'" "txnOp rop = Inr op" "txnOps rops = Inr ops'"
    by (auto split: sum.splits)
  from "3.prems"(2) ops(1) obtain ores rv w1 where
    one: "runTxnOp E X c op w = (Inr (ores, rv), w1)" and
    rest: "runOps E X c ops' (results @ [ores]) (if rv > r then rv else r) w1 = (Inr (rs, r'), w')"
    by (auto simp: bind_inversion)
  from "3.IH"(1) [OF ops(2) one] obtain x where "txnOpResponse rop ores = Inr x" by blast
  moreover from "3.IH"(2) [OF ops(2,3) rest] obtain rs' xs where
    "rs = (results @ [ores]) @ rs'" "length rs' = length rops" "txnResponses rops rs' = Inr xs" by blast
  ultimately show ?case by (intro exI [of _ "ores # rs'"]) simp
next
  case (4 req)
  then show ?case
    by (auto simp: txnRangeOp_def runRangeOp_def bind_inversion split: option.splits)
next
  case (5 req)
  then show ?case
    by (auto simp: txnPutOp_def runPutOp_def bind_inversion split: option.splits if_splits)
next
  case (6 req)
  then show ?case
    by (auto simp: txnDeleteRangeOp_def runDeleteRangeOp_def bind_inversion split: option.splits)
next
  case (7 req)
  from "7.prems"(1) obtain inp where inp: "op = KVOpTxn (Some inp)" "txnInput req = Inr inp"
    by (auto split: sum.splits)
  with "7.prems"(2) obtain res where
    run: "txnBoundary E c (hasWrites inp) (\<lambda>c. runTxn E X c inp) w = (Inr res, w')" and "ores = RTxn res"
    by (auto simp: bind_inversion)
  moreover from boundary_body [OF run] obtain c' :: "'c sctx_scheme" and v v' :: "'z sworld_scheme" where
    "runTxn E X c' inp v = (Inr res, v')" by blast
  from "7.IH" [OF inp(2) this] obtain resp where "txnResponse req res = Inr resp" by blast
  ultimately show ?case by simp
qed auto

text \<open>The outcome of a handler's transaction once it has been accepted.\<close>

lemma Txn_response:
  assumes "txnInput req = Inr inp" "Txn E X c inp w = (Inr res, w')"
  shows "\<exists>resp. txnResponse req res = Inr resp"
  using boundary_body [OF assms(2) [unfolded Txn_def]] response_shape(1) [OF assms(1)] by blast

lemma txnInput_errors:
  "txnInput req = Inl e \<Longrightarrow> e \<noteq> NilDereference \<and> (\<forall>a b. e \<noteq> ResponseMismatch a b)"
  "txnOps rops = Inl e \<Longrightarrow> e \<noteq> NilDereference \<and> (\<forall>a b. e \<noteq> ResponseMismatch a b)"
  "txnOp rop = Inl e \<Longrightarrow> e \<noteq> NilDereference \<and> (\<forall>a b. e \<noteq> ResponseMismatch a b)"
proof (induction req and rops and rop rule: txnInput_txnOps_txnOp.induct)
  case (1 cmps success failure)
  have "txnCompares cmps = Inl e \<Longrightarrow> e \<noteq> NilDereference \<and> (\<forall>a b. e \<noteq> ResponseMismatch a b)"
    by (induction cmps) (auto simp: txnCompare_def split: sum.splits option.splits)
  with 1 show ?case by (auto split: sum.splits)
qed (auto simp: txnRangeOp_def txnPutOp_def txnDeleteRangeOp_def split: sum.splits option.splits if_splits)

lemma checkAccess_errors:
  "checkAccess c ns a = Inl e \<Longrightarrow> \<exists>ns. e = NamespaceDenied ns"
  "checkRangeAccess c ns eNS a = Inl e \<Longrightarrow> \<exists>ns. e = NamespaceDenied ns"
  by (auto simp: checkRangeAccess_def checkAccess_def split: if_splits sum.splits)

lemma checkTxnAccess_errors:
  "checkTxnAccess c inp = Inl e \<Longrightarrow> e \<noteq> NilDereference \<and> (\<forall>a b. e \<noteq> ResponseMismatch a b)"
  "checkOpsAccess c ops = Inl e \<Longrightarrow> e \<noteq> NilDereference \<and> (\<forall>a b. e \<noteq> ResponseMismatch a b)"
  "checkOpAccess c op = Inl e \<Longrightarrow> e \<noteq> NilDereference \<and> (\<forall>a b. e \<noteq> ResponseMismatch a b)"
proof (induction c inp and c ops and c op rule: checkTxnAccess_checkOpsAccess_checkOpAccess.induct)
  case (1 c cmps success failure)
  have "checkComparesAccess c cmps = Inl e \<Longrightarrow> e \<noteq> NilDereference \<and> (\<forall>a b. e \<noteq> ResponseMismatch a b)"
    by (induction cmps) (auto split: sum.splits dest: checkAccess_errors)
  with 1 show ?case by (auto split: sum.splits)
qed (auto split: sum.splits dest: checkAccess_errors)

end
