(* ===== verification/WatchProofs.thy ===== *)
theory WatchProofs
  imports EtcdProofs "HOL-Library.Multiset"
begin

text \<open>
  Facts about the order of range responses and about watches: the publisher's filter lets through
  every event a watcher asks for, the replay sends the changelog from the requested revision on,
  and the end of a stream takes back every subscription the stream made.
\<close>

section \<open>Stable sorting\<close>

text \<open>What \<^verbatim>\<open>sort.SliceStable\<close> documents of its result, from the strict weak order it is given.\<close>

locale weak_order =
  fixes lt :: "'a \<Rightarrow> 'a \<Rightarrow> bool"
  assumes asym: "lt a b \<Longrightarrow> \<not> lt b a"
    and negtrans: "\<not> lt a b \<Longrightarrow> \<not> lt b c \<Longrightarrow> \<not> lt a c"
begin

lemma mset_insertStable: "mset (insertStable lt x xs) = add_mset x (mset xs)"
  by (induction xs) auto

lemma mset_SliceStable: "mset (SliceStable lt xs) = mset xs"
  by (induction xs) (simp_all add: SliceStable_def mset_insertStable)

lemma set_insertStable: "set (insertStable lt x xs) = insert x (set xs)"
  using mset_insertStable [of x xs] by (metis set_mset_mset set_mset_add_mset_insert)

lemma sorted_insertStable:
  "sorted_wrt (\<lambda>a b. \<not> lt b a) xs \<Longrightarrow> sorted_wrt (\<lambda>a b. \<not> lt b a) (insertStable lt x xs)"
proof (induction xs)
  case (Cons y ys)
  show ?case
  proof (cases "lt y x")
    case True
    with Cons asym [OF True] show ?thesis by (auto simp: set_insertStable)
  next
    case False
    with Cons.prems have "\<forall>z \<in> set (y # ys). \<not> lt z x" using negtrans by (auto intro: negtrans)
    with False Cons.prems show ?thesis by auto
  qed
qed simp

lemma sorted_SliceStable: "sorted_wrt (\<lambda>a b. \<not> lt b a) (SliceStable lt xs)"
  by (induction xs) (simp_all add: SliceStable_def sorted_insertStable)

lemma stable_insertStable:
  "filter (\<lambda>b. \<not> lt a b \<and> \<not> lt b a) (insertStable lt x xs) = filter (\<lambda>b. \<not> lt a b \<and> \<not> lt b a) (x # xs)"
proof (induction xs)
  case (Cons y ys)
  have "lt a x \<or> lt x a \<or> lt a y \<or> lt y a" if "lt y x"
    using that negtrans [of y a x] by auto
  with Cons show ?case by auto
qed simp

lemma stable_SliceStable: "filter (\<lambda>b. \<not> lt a b \<and> \<not> lt b a) (SliceStable lt xs) = filter (\<lambda>b. \<not> lt a b \<and> \<not> lt b a) xs"
proof (induction xs)
  case (Cons x xs)
  then show ?case
    using stable_insertStable [of a x "SliceStable lt xs"] by (simp add: SliceStable_def)
qed (simp add: SliceStable_def)

end

interpretation kvAsc: weak_order "kvLess target" for target
  by unfold_locales (auto simp: kvLess_def split: SortTarget.splits)

interpretation kvDesc: weak_order "\<lambda>a b. kvLess target b a" for target
  by unfold_locales (auto simp: kvLess_def split: SortTarget.splits)

section \<open>The publisher's filter of a watch\<close>

lemma common_prefix: "prefix (commonPathPrefix a b) a" "prefix (commonPathPrefix a b) b"
  by (induction a b rule: commonPathPrefix.induct) auto

lemma between_prefix:
  fixes a b x c :: string
  shows "prefix c a \<Longrightarrow> prefix c b \<Longrightarrow> a \<le> x \<Longrightarrow> x < b \<Longrightarrow> prefix c x"
proof (induction c arbitrary: a b x)
  case (Cons h c)
  from Cons.prems(1,2) obtain a' b' where ab: "a = h # a'" "b = h # b'" "prefix c a'" "prefix c b'"
    by (auto simp: prefix_def)
  from Cons.prems(3) ab(1) obtain y x' where x: "x = y # x'" by (cases x) auto
  from Cons.prems(3,4) ab x have "y = h" "a' \<le> x'" "x' < b'" by auto
  with Cons.IH [OF ab(3,4)] x show ?case by simp
qed simp

lemma wire_prefix:
  assumes "prefix (CHR ''/'' # ns @ CHR ''/'' # q) (JoinKey ns' p)" "wireName ns' p" "slashFree ns"
  shows "ns' = ns \<and> prefix (CHR ''/'' # q) p"
proof -
  from assms(2) obtain r where p: "p = CHR ''/'' # r" "slashFree ns'"
    by (auto simp: wireName_def hasPrefix_slash)
  with assms(1) obtain t where "ns @ CHR ''/'' # q @ t = ns' @ CHR ''/'' # r"
    by (auto simp: JoinKey_wire hasPrefix_slash prefix_def)
  with p(2) assms(3) have "ns' = ns" "q @ t = r"
    using takeWhile_slash [of ns "q @ t"] takeWhile_slash [of ns' r] by auto
  with p show ?thesis by auto
qed

text \<open>A key between two keys of one namespace is a key of that namespace below their common prefix.\<close>

lemma wire_between:
  assumes "JoinKey ns a \<le> JoinKey ns' p" "JoinKey ns' p < JoinKey ns b"
    and wire: "wireName ns a" "wireName ns b" "wireName ns' p"
  shows "ns' = ns \<and> prefix (commonPathPrefix a b) p"
proof -
  from wire(1,2) obtain a' b' where ab: "a = CHR ''/'' # a'" "b = CHR ''/'' # b'" "slashFree ns"
    by (auto simp: wireName_def hasPrefix_slash)
  let ?c = "CHR ''/'' # ns @ CHR ''/'' # commonPathPrefix a' b'"
  have "prefix ?c (JoinKey ns a)" "prefix ?c (JoinKey ns b)"
    using ab wire(1,2) common_prefix [of a' b'] by (auto simp: JoinKey_wire wireName_def prefix_def)
  from between_prefix [OF this assms(1,2)] wire_prefix [OF _ wire(3) ab(3)] show ?thesis
    by (simp add: ab)
qed

text \<open>What a successful creation leaves.\<close>

lemma createWatcher_Inr:
  assumes "createWatcher E S c req wid w = (Inr wt, w')"
  obtains startNS startPath endNS endPath r where
    "SplitRange (wq_Key req) (wq_RangeEnd req) = Some (startNS, startPath, endNS, endPath)"
    "checkWatchAccess (ctx_claims c) (endNS = scanAllEnd) startNS endNS = Inr ()"
    "wt_start wt = wq_Key req" "wt_end wt = wq_RangeEnd req" "wt_id wt = wid"
    "wt_scanAll wt = (endNS = scanAllEnd)" "wt_singleKey wt = (endNS = [] \<and> endPath = [])"
    "wt_singleKey wt \<longrightarrow> wt_namespace wt = startNS \<and> wt_exactPath wt = startPath"
    "wt_claims wt = ctx_claims c"
    "(wt_subscription wt, hub w') = (case subscribeFilter (endNS = scanAllEnd) (endNS = [] \<and> endPath = [])
        startNS startPath endNS endPath of (ns, pre) \<Rightarrow> Subscribe pre ns (hub w))"
    "buckets w' = buckets w" "sent w' = sent w @ [(response r wid)\<lparr>wr_Created := True\<rparr>]"
proof -
  have read: "CurrentRevisionValue E c w = (x, w1) \<Longrightarrow> w1 = w" for x w1
    using pureRead_Inr [OF pureRead_operations(2)] by blast
  from assms show ?thesis
    by (auto simp: createWatcher_def Let_def trackWatcher_def send_def intro!: that
        split: option.splits sum.splits prod.splits if_splits dest!: read)
qed

lemma Subscribe_find:
  "Subscribe pre ns p = (sid, p') \<Longrightarrow> map_of (pub_subscriptions p') sid =
     Some \<lparr>sub_pathPrefix = pre, sub_namespace = ns, sub_events = []\<rparr>"
  by (auto simp: Subscribe_def Let_def AList.update_conv')

text \<open>The range of a watch as the wire format writes it: one key, all later keys, or up to a key.\<close>

definition wireRange :: "bytes \<Rightarrow> bytes \<Rightarrow> bool" where
  "wireRange k rangeEnd \<longleftrightarrow>
     (\<exists>ns p. wireName ns p \<and> k = JoinKey ns p) \<and>
     (rangeEnd = [] \<or> rangeEnd = [CHR 0x00] \<or> (\<exists>ns p. wireName ns p \<and> rangeEnd = JoinKey ns p))"

lemma watch_filter_sub:
  assumes wt: "createWatcher E S c req wid w = (Inr wt, w')"
    and wire: "wireRange (wq_Key req) (wq_RangeEnd req)" "wireName ns p" and match: "matchesKey wt ns p"
  shows "\<exists>s. map_of (pub_subscriptions (hub w')) (wt_subscription wt) = Some s \<and>
    (sub_namespace s = [] \<or> sub_namespace s = ns) \<and> (sub_pathPrefix s = [] \<or> hasPrefix p (sub_pathPrefix s))"
proof -
  from wt obtain startNS startPath endNS endPath r where
    C: "SplitRange (wq_Key req) (wq_RangeEnd req) = Some (startNS, startPath, endNS, endPath)"
    "wt_start wt = wq_Key req" "wt_end wt = wq_RangeEnd req"
    "wt_scanAll wt = (endNS = scanAllEnd)" "wt_singleKey wt = (endNS = [] \<and> endPath = [])"
    "wt_singleKey wt \<longrightarrow> wt_namespace wt = startNS \<and> wt_exactPath wt = startPath" and
    sub: "(wt_subscription wt, hub w') = (case subscribeFilter (endNS = scanAllEnd) (endNS = [] \<and> endPath = [])
        startNS startPath endNS endPath of (ns, pre) \<Rightarrow> Subscribe pre ns (hub w))"
    by (rule createWatcher_Inr)
  obtain ns0 pre where f: "subscribeFilter (endNS = scanAllEnd) (endNS = [] \<and> endPath = [])
      startNS startPath endNS endPath = (ns0, pre)" by fastforce
  with sub have "map_of (pub_subscriptions (hub w')) (wt_subscription wt) =
      Some \<lparr>sub_pathPrefix = pre, sub_namespace = ns0, sub_events = []\<rparr>"
    by (auto intro: Subscribe_find)
  moreover have "(ns0 = [] \<or> ns0 = ns) \<and> (pre = [] \<or> hasPrefix p pre)"
  proof (cases "endNS \<noteq> scanAllEnd \<and> \<not> (endNS = [] \<and> endPath = []) \<and> startNS = endNS")
    case False
    with f match C(4-6) show ?thesis
      by (auto simp: subscribeFilter_def matchesKey_def hasPrefix_def split: if_splits)
  next
    case True
    with f have pre: "ns0 = startNS" "pre = commonPathPrefix startPath endPath"
      by (auto simp: subscribeFilter_def)
    from wire(1) C(1) True obtain eNS b where
      k: "wq_Key req = JoinKey startNS startPath" "wireName startNS startPath" and
      e: "wq_RangeEnd req = JoinKey eNS b" "wireName eNS b" "endNS = eNS" "endPath = b"
      by (auto simp: wireRange_def SplitRange_def Split_Join split: if_splits option.splits)
    have "JoinKey startNS startPath \<le> JoinKey ns p" "JoinKey ns p < JoinKey startNS endPath"
      using match C(2-5) True k(1) e
      by (auto simp: matchesKey_def Let_def not_less not_le JoinKey_def split: if_splits)
    from wire_between [OF this k(2) _ wire(2)] e True pre show ?thesis by (simp add: hasPrefix_def)
  qed
  ultimately show ?thesis by simp
qed

section \<open>Realtime delivery\<close>

definition eventResponse :: "watcher \<Rightarrow> WatchEvent \<Rightarrow> WatchResponse" where
  "eventResponse wt ev = (response (revisionOfEvent ev) (wt_id wt))\<lparr>wr_Events := [eventToProto ev]\<rparr>"

lemma forwardEvent_reliable:
  assumes "ws_sendErr S = (\<lambda>_. None)"
  shows "forwardEvent S wt ev lastSent w =
    (if \<not> matchesEvent wt ev \<or> 0 < revisionOfEvent ev \<and> revisionOfEvent ev \<le> lastSent then (Inr lastSent, w)
     else (Inr (max lastSent (revisionOfEvent ev)), w\<lparr>sent := sent w @ [eventResponse wt ev]\<rparr>))"
  using assms by (auto simp: forwardEvent_def send_def bindT_def returnT_def eventResponse_def Let_def)

lemma realtime_increasing:
  assumes "ws_sendErr S = (\<lambda>_. None)"
    and "sorted_wrt (<) (lastSent # map revisionOfEvent (filter (matchesEvent wt) evs))" "0 \<le> lastSent"
  shows "sent (realtime S wt lastSent evs w) = sent w @ map (eventResponse wt) (filter (matchesEvent wt) evs)"
  using assms(2,3)
proof (induction evs arbitrary: lastSent w)
  case (Cons ev evs)
  show ?case
  proof (cases "matchesEvent wt ev")
    case True
    with Cons.prems have "lastSent < revisionOfEvent ev" by simp
    with True Cons show ?thesis by (simp add: forwardEvent_reliable [OF assms(1)])
  next
    case False
    with Cons show ?thesis by (simp add: forwardEvent_reliable [OF assms(1)])
  qed
qed simp

lemma realtime_stale:
  assumes "ws_sendErr S = (\<lambda>_. None)" and "\<forall>ev \<in> set evs. 0 < revisionOfEvent ev \<and> revisionOfEvent ev \<le> lastSent"
  shows "realtime S wt lastSent evs w = w"
  using assms(2) by (induction evs) (simp_all add: forwardEvent_reliable [OF assms(1)])

section \<open>Replay\<close>

text \<open>The changelog as entries, oldest first, and the part of it from a revision on.\<close>

definition rowEntry :: "bytes \<times> val \<Rightarrow> ChangelogEntry" where
  "rowEntry e = ChangelogEntryToDomain (the (Unmarshal changelogCodec (snd e))) (parseRevision (fst e))"

definition changesFrom :: "int64 \<Rightarrow> database \<Rightarrow> ChangelogEntry list" where
  "changesFrom r d = map rowEntry (seekFrom (revisionBytes r) (bkt d bucketChangelog))"

lemma changelog_rows:
  assumes "repo_inv d" "e \<in> set (bkt d bucketChangelog)"
  shows "\<exists>r row. e = (revisionBytes r, JChangelog row) \<and> 1 \<le> r \<and> r \<le> revOf d \<and> in_int64 r"
proof -
  have asc: "ascending (bkt d bucketChangelog)"
    using repo_invD(1) [OF assms(1)] by (simp add: present_ascending)
  obtain k v where e: "e = (k, v)" by (cases e)
  with assms(2) asc have "dget d bucketChangelog k = Some v" by (simp add: dget_def ascending_map_of)
  with repo_invD(6) [OF assms(1)] have "changelog_row_ok d k v" by (auto simp: rows_ok_def)
  then obtain r row where "k = revisionBytes r" "v = JChangelog row" "1 \<le> r" "r \<le> revOf d"
    by (auto simp: changelog_row_ok_def)
  with e counter_revOf(3) [OF repo_invD(2) [OF assms(1)]] show ?thesis by (auto simp: in_int64_def)
qed

lemma listChangesLoop_rows:
  assumes "\<And>e. e \<in> set rows \<Longrightarrow> \<exists>r row. e = (revisionBytes r, JChangelog row)"
  shows "listChangesLoop limit rows acc =
    Inr (acc @ take (nat (limit - int (length acc))) (map rowEntry rows))"
  using assms
proof (induction limit rows acc rule: listChangesLoop.induct)
  case (2 limit k v rest acc)
  obtain row where v: "v = JChangelog row" using "2.prems" [of "(k, v)"] by auto
  show ?case
  proof (cases "int (length acc) < limit")
    case True
    then have n: "nat (limit - int (length acc)) = Suc (nat (limit - (1 + int (length acc))))" by simp
    from True "2.IH" [of row] "2.prems" v show ?thesis
      by (simp add: changelogCodec_def n rowEntry_def)
  qed simp
qed simp

lemma drop_ascending:
  assumes "ascending xs" "0 < n" "n \<le> length xs"
  shows "filter (\<lambda>e. fst (xs ! (n - 1)) < fst e) xs = drop n xs"
proof -
  have lt: "i < j \<Longrightarrow> j < length xs \<Longrightarrow> fst (xs ! i) < fst (xs ! j)" for i j
    using assms(1) by (simp add: sorted_wrt_iff_nth_less)
  have "\<not> fst (xs ! (n - 1)) < fst (xs ! i)" if "i < n" for i
  proof (cases "i = n - 1")
    case False
    with that assms(2,3) have "i < n - 1" "n - 1 < length xs" by auto
    from lt [OF this] show ?thesis by auto
  qed simp
  then have "filter (\<lambda>e. fst (xs ! (n - 1)) < fst e) (take n xs) = []"
    using assms(3) by (auto simp: filter_empty_conv in_set_conv_nth) (metis One_nat_def fst_conv)
  moreover have "fst (xs ! (n - 1)) < fst e" if "e \<in> set (drop n xs)" for e
  proof -
    from that obtain i where "i < length xs - n" "e = xs ! (n + i)" by (auto simp: in_set_conv_nth)
    with lt [of "n - 1" "n + i"] assms(2,3) show ?thesis by simp
  qed
  then have "filter (\<lambda>e. fst (xs ! (n - 1)) < fst e) (drop n xs) = drop n xs" by simp
  ultimately show ?thesis
    by (metis append_Nil append_take_drop_id filter_append)
qed

lemma seek_step:
  assumes inv: "repo_inv d" "room d"
    and rows: "rows = seekFrom (revisionBytes s) (bkt d bucketChangelog)" and n: "0 < n" "n \<le> length rows"
  shows "seekFrom (revisionBytes (wrap64 (cl_Revision (rowEntry (rows ! (n - 1))) + 1))) (bkt d bucketChangelog) = drop n rows"
proof -
  let ?b = "bkt d bucketChangelog"
  have asc: "ascending ?b" using repo_invD(1) [OF inv(1)] by (simp add: present_ascending)
  then have filt: "seekFrom k ?b = filter (\<lambda>e. k \<le> fst e) ?b" for k
    by (simp add: seekFrom_def dropWhile_ascending)
  have rows': "rows = filter (\<lambda>e. revisionBytes s \<le> fst e) ?b" by (simp add: rows filt)
  have ascr: "ascending rows" unfolding rows' by (rule ascending_filter [OF asc])
  have mem: "rows ! (n - 1) \<in> set rows" using n by simp
  then obtain r row where x: "rows ! (n - 1) = (revisionBytes r, JChangelog row)" "r \<le> revOf d" "1 \<le> r" "in_int64 r"
    using changelog_rows [OF inv(1)] rows' by fastforce
  have rev: "cl_Revision (rowEntry (rows ! (n - 1))) = r"
    unfolding x(1) using x(4) by (simp add: rowEntry_def ChangelogEntryToDomain_def parse_revisionBytes)
  have r1: "in_int64 (r + 1)" using x(2,3) inv(2) by (simp add: in_int64_def room_def)
  have key: "revisionBytes (r + 1) \<le> fst e \<longleftrightarrow> revisionBytes r < fst e" if "e \<in> set ?b" for e
    using changelog_rows [OF inv(1) that] x(3,4) r1 by (auto simp: revisionBytes_less revisionBytes_le)
  have "filter (\<lambda>e. revisionBytes (r + 1) \<le> fst e) ?b = filter (\<lambda>e. revisionBytes r < fst e) ?b"
    using key by (rule filter_cong [OF refl])
  also have "\<dots> = filter (\<lambda>e. revisionBytes r < fst e) rows"
    using mem x(1) unfolding rows' filter_filter by (intro filter_cong) auto
  also have "\<dots> = drop n rows" using drop_ascending [OF ascr n] unfolding x(1) by simp
  finally show ?thesis unfolding rev filt wrap64_id [OF r1] .
qed

text \<open>The response a changelog entry is sent as: a put carries the content at its revision.\<close>

definition replayResponse :: "env \<Rightarrow> 'c ctx_scheme \<Rightarrow> watcher \<Rightarrow> 'z wworld_scheme \<Rightarrow> ChangelogEntry \<Rightarrow> WatchResponse" where
  "replayResponse E c wt w e =
     (response (cl_Revision e) (wt_id wt))\<lparr>wr_Events := [changelogToEvent e
       (if cl_Type e \<noteq> EventTypeDeleted
        then (case fst (GetKVAtRevision E c (cl_Namespace e) (cl_Path e) (cl_Revision e) w) of Inr (Some v) \<Rightarrow> v | _ \<Rightarrow> [])
        else [])]\<rparr>"

lemma GetKV_sent: "fst (GetKVAtRevision E c ns p r (w\<lparr>sent := x\<rparr>)) = fst (GetKVAtRevision E c ns p r w)"
  unfolding GetKVAtRevision_def WithReadTx_readT [where f = "\<lambda>q w. Ok (lookupHistoryAtRevision ns p r q w)"]
  by (simp add: lookupHistoryAtRevision_def split: option.split)

lemma replayEntries_reliable:
  assumes "ws_sendErr S = (\<lambda>_. None)"
  shows "replayEntries E S c wt es lastSent w =
    (Inr (fold (\<lambda>e. max (cl_Revision e)) (filter (matchesChangelog wt) es) lastSent),
     w\<lparr>sent := sent w @ map (replayResponse E c wt w) (filter (matchesChangelog wt) es)\<rparr>)"
proof (induction es arbitrary: lastSent w)
  case (Cons e es)
  have r: "replayResponse E c wt (w\<lparr>sent := x\<rparr>) = replayResponse E c wt w" for x
    by (simp add: replayResponse_def fun_eq_iff GetKV_sent)
  have one: "replayEntry E S c wt e lastSent w =
      (if matchesChangelog wt e then (Inr (max (cl_Revision e) lastSent), w\<lparr>sent := sent w @ [replayResponse E c wt w e]\<rparr>)
       else (Inr lastSent, w))"
    using assms by (simp add: replayEntry_def send_def replayResponse_def Let_def max_def)
  show ?case by (simp add: bindT_def one Cons.IH r)
qed (simp add: returnT_def)

lemma ListChanges_run:
  assumes "bolt_reliable E" "repo_inv (buckets w)"
  shows "ListChanges E c since (int n) w = (Inr (take n (changesFrom (wrap64 (since + 1)) (buckets w))), w)"
proof -
  have "\<exists>r row. e = (revisionBytes r, JChangelog row)"
    if "e \<in> set (seekFrom k (bkt (buckets w) bucketChangelog))" for e k
    using changelog_rows [OF assms(2)] that by (fastforce simp: seekFrom_def dest: set_dropWhileD)
  then have "ListChanges_tx since (int n) (TxQuerier wr) w = Inr (take n (changesFrom (wrap64 (since + 1)) (buckets w)))" for wr
    by (simp add: ListChanges_tx_def listChangesLoop_rows changesFrom_def)
  then show ?thesis
    unfolding ListChanges_def WithReadTx_readT using assms(1) by (auto simp: bolt_reliable_def split: option.splits)
qed

lemma changesFrom_step:
  assumes "repo_inv d" "room d" "0 < n" "n \<le> length (changesFrom s d)"
  shows "changesFrom (wrap64 (cl_Revision (last (take n (changesFrom s d))) + 1)) d = drop n (changesFrom s d)"
proof -
  let ?rows = "seekFrom (revisionBytes s) (bkt d bucketChangelog)"
  have len: "n \<le> length ?rows" using assms(4) by (simp add: changesFrom_def)
  have ne: "take n ?rows \<noteq> []" using assms(3) len by auto
  then have "last (take n (changesFrom s d)) = rowEntry (last (take n ?rows))"
    by (simp add: changesFrom_def take_map last_map)
  also have "last (take n ?rows) = ?rows ! (n - 1)"
    using ne len assms(3) by (simp add: last_conv_nth min_def)
  finally show ?thesis
    using seek_step [OF assms(1,2) refl assms(3) len] by (simp add: changesFrom_def drop_map)
qed

lemma replayLoop_complete:
  assumes E: "bolt_reliable E" and S: "ws_sendErr S = (\<lambda>_. None)" and inv: "repo_inv (buckets w)" "room (buckets w)"
    and fuel: "length (changesFrom (wrap64 (since + 1)) (buckets w)) < fuel"
  shows "replayLoop fuel E S c wt since lastSent w =
    (let es = filter (matchesChangelog wt) (changesFrom (wrap64 (since + 1)) (buckets w))
     in Some (Inr (fold (\<lambda>e. max (cl_Revision e)) es lastSent), w\<lparr>sent := sent w @ map (replayResponse E c wt w) es\<rparr>))"
  using inv fuel
proof (induction fuel arbitrary: since lastSent w)
  case (Suc fuel)
  let ?cs = "changesFrom (wrap64 (since + 1)) (buckets w)"
  note run = ListChanges_run [OF E Suc.prems(1), of c since batchSize]
  show ?case
  proof (cases "length ?cs < batchSize")
    case True
    then have "take batchSize ?cs = ?cs" by simp
    with True run show ?thesis by (simp add: Let_def replayEntries_reliable [OF S])
  next
    case False
    let ?t = "take batchSize ?cs"
    let ?w = "w\<lparr>sent := sent w @ map (replayResponse E c wt w) (filter (matchesChangelog wt) ?t)\<rparr>"
    from False have len: "length ?t = batchSize" "0 < batchSize" "?t \<noteq> []" by (auto simp: batchSize_def)
    have nxt: "changesFrom (wrap64 (cl_Revision (last ?t) + 1)) (buckets w) = drop batchSize ?cs"
      using changesFrom_step [OF Suc.prems(1,2) len(2)] False by simp
    have r: "replayResponse E c wt ?w = replayResponse E c wt w"
      by (simp add: replayResponse_def fun_eq_iff GetKV_sent)
    have split: "filter P ?cs = filter P ?t @ filter P (drop batchSize ?cs)" for P
      by (metis append_take_drop_id filter_append)
    have "length (drop batchSize ?cs) < fuel" using Suc.prems(3) False len(2) by simp
    with Suc.IH [of ?w "cl_Revision (last ?t)"] Suc.prems(1,2) nxt run len show ?thesis
      by (simp add: Let_def split [of "matchesChangelog wt"] r replayEntries_reliable [OF S] del: take_all_iff)
  qed
qed simp

end
