(* ===== verification/WatchStream.thy ===== *)
theory WatchStream
  imports WatchProofs
begin

text \<open>
  The life of a watch stream: whatever the client sends and however the stream ends, the
  publisher is left with the subscriptions it had before the stream.
\<close>

section \<open>Subscriptions of a stream\<close>

definition streamSubs :: "watchStream \<Rightarrow> int set" where
  "streamSubs st = wt_subscription ` snd ` set (str_watchers st)"

text \<open>
  The publisher's subscriptions are those from before the stream, whose ids are at most \<open>n0\<close>, and
  at most one per watcher of the stream, with later ids.
\<close>

definition streamInv :: "(int \<times> subscription) list \<Rightarrow> int \<Rightarrow> watchStream \<Rightarrow> Publisher \<Rightarrow> bool" where
  "streamInv base n0 st p \<longleftrightarrow>
     (\<exists>extra. pub_subscriptions p = base @ extra \<and> fst ` set extra \<subseteq> streamSubs st) \<and>
     (\<forall>s \<in> streamSubs st. n0 < s \<and> s \<le> pub_nextID p) \<and> (\<forall>s \<in> fst ` set base. s \<le> n0) \<and> n0 \<le> pub_nextID p \<and>
     (\<forall>k \<in> fst ` set (str_watchers st). k \<le> str_nextID st) \<and> distinct (map fst (str_watchers st)) \<and>
     0 \<le> n0 \<and> 0 \<le> str_nextID st"

lemma update_fresh: "k \<notin> fst ` set xs \<Longrightarrow> AList.update k v xs = xs @ [(k, v)]"
  by (induction xs) auto

lemma cleanup_subs: "pub_subscriptions (cleanup sid p) = AList.delete sid (pub_subscriptions p)"
  "pub_nextID (cleanup sid p) = pub_nextID p"
  by (auto simp: cleanup_def AList.delete_idem map_of_eq_None_iff split: option.split)

lemma hub_releaseWatcher: "hub (releaseWatcher S wt w) = cleanup (wt_subscription wt) (hub w)"
  by (simp add: releaseWatcher_def Let_def)

lemma delete_appended:
  "sid \<notin> fst ` set base \<Longrightarrow> AList.delete sid (base @ extra) = base @ AList.delete sid extra"
  by (induction base) auto

text \<open>Creating a watcher adds its subscription.\<close>

lemma streamInv_subscribe:
  assumes inv: "streamInv base n0 st p" and room: "pub_nextID p + 1 < 2 ^ 63" "str_nextID st + 1 < 2 ^ 63"
    and sub: "(wt_subscription wt, p') = Subscribe pre ns p" and wid: "wid = wrap64 (str_nextID st + 1)" "wt_id wt = wid"
  shows "streamInv base n0 \<lparr>str_watchers = AList.update (wt_id wt) wt (str_watchers st), str_nextID = wid\<rparr> p'"
proof -
  from inv room have ids: "wrap64 (pub_nextID p + 1) = pub_nextID p + 1" "wid = str_nextID st + 1"
    by (auto simp: wid(1) streamInv_def in_int64_def intro!: wrap64_id)
  from inv obtain extra where e: "pub_subscriptions p = base @ extra" "fst ` set extra \<subseteq> streamSubs st"
    by (auto simp: streamInv_def)
  have fresh: "pub_nextID p + 1 \<notin> fst ` set (pub_subscriptions p)"
    using inv e by (fastforce simp: streamInv_def)
  from sub have p': "wt_subscription wt = pub_nextID p + 1" "pub_nextID p' = pub_nextID p + 1"
    "pub_subscriptions p' = base @ (extra @ [(pub_nextID p + 1, \<lparr>sub_pathPrefix = pre, sub_namespace = ns, sub_events = []\<rparr>)])"
    by (simp_all add: Subscribe_def Let_def ids(1) update_fresh [OF fresh [unfolded e(1)]] e(1))
  have new: "wt_id wt \<notin> fst ` set (str_watchers st)" using inv by (force simp: wid(2) ids(2) streamInv_def)
  then have st: "AList.update (wt_id wt) wt (str_watchers st) = str_watchers st @ [(wt_id wt, wt)]"
    by (rule update_fresh)
  show ?thesis
    unfolding streamInv_def st p'
  proof (intro conjI exI)
    show "base @ (extra @ [(pub_nextID p + 1, \<lparr>sub_pathPrefix = pre, sub_namespace = ns, sub_events = []\<rparr>)]) =
      base @ (extra @ [(pub_nextID p + 1, \<lparr>sub_pathPrefix = pre, sub_namespace = ns, sub_events = []\<rparr>)])" by (rule refl)
  qed (use inv e(2) p'(1) ids(2) wid(2) new in \<open>auto simp: streamInv_def streamSubs_def\<close>)
qed

text \<open>Releasing a watcher of the stream takes its subscription back.\<close>

lemma streamInv_release:
  assumes inv: "streamInv base n0 st p" and wt: "map_of (str_watchers st) wid = Some wt"
  shows "streamInv base n0 (st\<lparr>str_watchers := AList.delete wid (str_watchers st)\<rparr>) (cleanup (wt_subscription wt) p)"
proof -
  from inv obtain extra where e: "pub_subscriptions p = base @ extra" "fst ` set extra \<subseteq> streamSubs st"
    by (auto simp: streamInv_def)
  have mem: "(wid, wt) \<in> set (str_watchers st)" using wt by (rule map_of_SomeD)
  then have "wt_subscription wt \<in> streamSubs st" by (force simp: streamSubs_def)
  with inv have "wt_subscription wt \<notin> fst ` set base" by (force simp: streamInv_def)
  then have subs: "pub_subscriptions (cleanup (wt_subscription wt) p) = base @ AList.delete (wt_subscription wt) extra"
    by (simp add: cleanup_subs e(1) delete_appended)
  have rest: "streamSubs st - {wt_subscription wt} \<subseteq> streamSubs (st\<lparr>str_watchers := AList.delete wid (str_watchers st)\<rparr>)"
  proof
    fix s assume "s \<in> streamSubs st - {wt_subscription wt}"
    then obtain k wt' where m: "(k, wt') \<in> set (str_watchers st)" "s = wt_subscription wt'"
        "wt_subscription wt' \<noteq> wt_subscription wt"
      by (auto simp: streamSubs_def)
    have "k \<noteq> wid"
    proof
      assume "k = wid"
      with m(1) mem inv have "wt' = wt" by (auto simp: streamInv_def dest: eq_key_imp_eq_value)
      with m(3) show False by simp
    qed
    with m show "s \<in> streamSubs (st\<lparr>str_watchers := AList.delete wid (str_watchers st)\<rparr>)"
      by (force simp: streamSubs_def AList.delete_eq)
  qed
  have "fst ` set (AList.delete (wt_subscription wt) extra) \<subseteq> streamSubs st - {wt_subscription wt}"
    using e(2) by (auto simp: AList.delete_eq)
  with rest have sub: "fst ` set (AList.delete (wt_subscription wt) extra) \<subseteq>
      streamSubs (st\<lparr>str_watchers := AList.delete wid (str_watchers st)\<rparr>)" by blast
  have fewer: "streamSubs (st\<lparr>str_watchers := AList.delete wid (str_watchers st)\<rparr>) \<subseteq> streamSubs st"
    "set (AList.delete wid (str_watchers st)) \<subseteq> set (str_watchers st)"
    "distinct (map fst (str_watchers st)) \<Longrightarrow> distinct (map fst (AList.delete wid (str_watchers st)))"
    by (auto simp: streamSubs_def AList.delete_eq distinct_map_filter)
  show ?thesis
    unfolding streamInv_def subs cleanup_subs(2)
  proof (intro conjI exI)
    show "base @ AList.delete (wt_subscription wt) extra = base @ AList.delete (wt_subscription wt) extra" by (rule refl)
  qed (use inv fewer sub in \<open>auto simp: streamInv_def\<close>)
qed

section \<open>Requests\<close>

lemma createWatcher_Inl:
  assumes "createWatcher E S c req wid w = (Inl e, w')"
  shows "hub w' = hub w"
proof -
  have read: "CurrentRevisionValue E c w = (x, w1) \<Longrightarrow> w1 = w" for x w1
    using pureRead_Inr [OF pureRead_operations(2)] by blast
  from assms show ?thesis
    by (auto simp: createWatcher_def Let_def send_def
        split: option.splits sum.splits prod.splits if_splits dest!: read)
qed

lemma createWatcher_sub:
  assumes "createWatcher E S c req wid w = (Inr wt, w')"
  shows "\<exists>pre ns. (wt_subscription wt, hub w') = Subscribe pre ns (hub w) \<and> wt_id wt = wid"
  using assms by (rule createWatcher_Inr) (auto split: prod.splits)

lemma Subscribe_nextID: "Subscribe pre ns p = (sid, p') \<Longrightarrow> pub_nextID p + 1 < 2 ^ 63 \<Longrightarrow> 0 \<le> pub_nextID p \<Longrightarrow>
   pub_nextID p' = pub_nextID p + 1"
  by (auto simp: Subscribe_def Let_def in_int64_def intro!: wrap64_id)

lemma send_hub: "send S resp w = (r, w') \<Longrightarrow> hub w' = hub w"
  by (auto simp: send_def split: option.splits)

text \<open>One request moves both id counters by at most one and keeps the invariant, also when it fails.\<close>

lemma streamInv_handle:
  assumes run: "handleWatchRequest E S c req st w = (r, w')" and inv: "streamInv base n0 st (hub w)"
    and room: "pub_nextID (hub w) + 1 < 2 ^ 63" "str_nextID st + 1 < 2 ^ 63"
  defines "st' \<equiv> (case r of Inr st' \<Rightarrow> st'
    | Inl _ \<Rightarrow> (case req of CancelRequest wid \<Rightarrow> st\<lparr>str_watchers := AList.delete wid (str_watchers st)\<rparr> | _ \<Rightarrow> st))"
  shows "streamInv base n0 st' (hub w') \<and> pub_nextID (hub w') \<le> pub_nextID (hub w) + 1 \<and>
    str_nextID st' \<le> str_nextID st + 1"
proof (cases req)
  case (CreateRequest q)
  let ?wid = "wrap64 (str_nextID st + 1)"
  have pos: "0 \<le> pub_nextID (hub w)" using inv by (auto simp: streamInv_def)
  have wid: "?wid = str_nextID st + 1" using inv room(2) by (auto simp: streamInv_def in_int64_def intro!: wrap64_id)
  show ?thesis
  proof (cases "createWatcher E S c q ?wid w")
    case (Pair res w1)
    show ?thesis
    proof (cases res)
      case (Inl e)
      with Pair run CreateRequest createWatcher_Inl have "hub w' = hub w" "r = Inl e"
        by (fastforce simp: handleWatchRequest_def Let_def)+
      with inv CreateRequest show ?thesis by (simp add: st'_def)
    next
      case (Inr wt)
      with Pair obtain pre ns where sub: "(wt_subscription wt, hub w1) = Subscribe pre ns (hub w)" "wt_id wt = ?wid"
        using createWatcher_sub by blast
      from Inr Pair run CreateRequest have r: "w' = w1"
        "r = Inr \<lparr>str_watchers = AList.update (wt_id wt) wt (str_watchers st), str_nextID = ?wid\<rparr>"
        by (simp_all add: handleWatchRequest_def Let_def)
      from streamInv_subscribe [OF inv room sub(1) refl sub(2)] Subscribe_nextID [OF sub(1) [symmetric] room(1) pos]
      show ?thesis by (simp add: st'_def r wid)
    qed
  qed
next
  case (CancelRequest wid)
  let ?w = "case map_of (str_watchers st) wid of Some wt \<Rightarrow> releaseWatcher S wt w | None \<Rightarrow> w"
  let ?st = "st\<lparr>str_watchers := AList.delete wid (str_watchers st)\<rparr>"
  have hub: "hub w' = hub ?w"
    using run CancelRequest by (auto simp: handleWatchRequest_def Let_def split: prod.splits sum.splits dest!: send_hub)
  have st: "st' = ?st"
    using run CancelRequest by (auto simp: st'_def handleWatchRequest_def Let_def split: prod.splits sum.splits)
  have "streamInv base n0 ?st (hub ?w) \<and> pub_nextID (hub ?w) = pub_nextID (hub w)"
  proof (cases "map_of (str_watchers st) wid")
    case None
    then have "AList.delete wid (str_watchers st) = str_watchers st"
      by (simp add: AList.delete_idem map_of_eq_None_iff)
    with None inv show ?thesis by simp
  next
    case (Some wt)
    with streamInv_release [OF inv Some] show ?thesis by (simp add: hub_releaseWatcher cleanup_subs(2))
  qed
  with hub st show ?thesis by simp
next
  case ProgressRequest
  with run inv show ?thesis
    by (auto simp: st'_def handleWatchRequest_def split: prod.splits sum.splits dest!: send_hub)
next
  case OtherRequest
  with run inv show ?thesis by (auto simp: st'_def handleWatchRequest_def)
qed

lemma streamInv_loop:
  assumes "watchLoop E S c reqs st w = (r, st', w')" "streamInv base n0 st (hub w)"
    "pub_nextID (hub w) + int (length reqs) < 2 ^ 63" "str_nextID st + int (length reqs) < 2 ^ 63"
  shows "streamInv base n0 st' (hub w')"
  using assms
proof (induction reqs arbitrary: st w)
  case (Cons req reqs)
  obtain r1 w1 where run: "handleWatchRequest E S c req st w = (r1, w1)" by fastforce
  have "pub_nextID (hub w) + 1 < 2 ^ 63" "str_nextID st + 1 < 2 ^ 63" using Cons.prems(3,4) by simp_all
  note step = streamInv_handle [OF run Cons.prems(2) this]
  show ?case
  proof (cases r1)
    case (Inl e)
    with run Cons.prems(1) step show ?thesis by auto
  next
    case (Inr st1)
    with run Cons.prems(1) have "watchLoop E S c reqs st1 w1 = (r, st', w')" by simp
    with Inr step Cons.prems(3,4) show ?thesis by (intro Cons.IH) auto
  qed
qed simp

section \<open>Teardown\<close>

lemma releaseWatchers_subs:
  "pub_subscriptions (hub (releaseWatchers S ws w)) =
     filter (\<lambda>e. fst e \<notin> wt_subscription ` set ws) (pub_subscriptions (hub w))"
proof (induction ws arbitrary: w)
  case (Cons wt ws)
  then show ?case
    by (simp add: releaseWatchers_def hub_releaseWatcher cleanup_subs AList.delete_eq)
      (rule filter_cong, auto)
qed (simp add: releaseWatchers_def)

lemma Watch_subscriptions:
  assumes run: "Watch E S c reqs w = (r, w')" and ids: "\<forall>s \<in> fst ` set (pub_subscriptions (hub w)). s \<le> pub_nextID (hub w)"
    and room: "0 \<le> pub_nextID (hub w)" "pub_nextID (hub w) + int (length reqs) < 2 ^ 63"
  shows "pub_subscriptions (hub w') = pub_subscriptions (hub w)"
proof -
  let ?st = "\<lparr>str_watchers = [], str_nextID = 0\<rparr>"
  obtain r1 st1 w1 where loop: "watchLoop E S c reqs ?st w = (r1, st1, w1)" by (metis prod.exhaust)
  from run loop have w': "w' = releaseWatchers S (map snd (str_watchers st1)) w1" by (simp add: Watch_def)
  have "streamInv (pub_subscriptions (hub w)) (pub_nextID (hub w)) ?st (hub w)"
    using ids room by (simp add: streamInv_def streamSubs_def)
  from streamInv_loop [OF loop this room(2)] room obtain extra where
    e: "pub_subscriptions (hub w1) = pub_subscriptions (hub w) @ extra" "fst ` set extra \<subseteq> streamSubs st1" and
    later: "\<forall>s \<in> streamSubs st1. pub_nextID (hub w) < s"
    by (auto simp: streamInv_def)
  have subs: "wt_subscription ` set (map snd (str_watchers st1)) = streamSubs st1" by (simp add: streamSubs_def)
  have "filter (\<lambda>e. fst e \<notin> streamSubs st1) (pub_subscriptions (hub w)) = pub_subscriptions (hub w)"
    using ids later by (fastforce simp: filter_id_conv)
  moreover have "filter (\<lambda>e. fst e \<notin> streamSubs st1) extra = []"
    using e(2) by (auto simp: filter_empty_conv)
  ultimately show ?thesis unfolding w' releaseWatchers_subs subs e(1) by simp
qed

end
