(* ===== verification/EtcdProps.thy ===== *)
theory EtcdProps
  imports WatchStream
begin

text \<open>
  The properties of the etcd API: keys, tokens, transactions on the wire, sort order and watches.
\<close>

section \<open>Samples\<close>

definition wireCtx :: "string list \<Rightarrow> string \<Rightarrow> hctx" where
  "wireCtx nss role = \<lparr>ctx_tx = None, ctx_pending = False,
     ctx_claims = Some \<lparr>clm_Email = [], clm_Name = [], clm_Namespaces = nss, clm_Role = role\<rparr>\<rparr>"

definition wireWorld :: "bool \<Rightarrow> hworld" where
  "wireWorld locked = \<lparr>buckets = sampleDB locked, ticks = 0, hub = sampleHub, pending = [], vcache = emptyCache,
     writesRejected = Some []\<rparr>"

definition samplePut :: PutRequest where
  "samplePut = \<lparr>pq_Key = ''/prod/a.json'', pq_Value = ''x'', pq_PrevKv = False, pq_IgnoreValue = False\<rparr>"

lemma wire_simps [simp]:
  "ctx_tx (wireCtx n r) = None" "\<not> ctx_pending (wireCtx n r)" "buckets (wireWorld l) = sampleDB l"
  "hub (wireWorld l) = sampleHub" "ctx_claims (wireCtx n r) =
     Some \<lparr>clm_Email = [], clm_Name = [], clm_Namespaces = n, clm_Role = r\<rparr>"
  by (simp_all add: wireCtx_def wireWorld_def)

section \<open>Keys\<close>

text \<open>
  C24. The key encoding of the wire: a namespace without a slash and an absolute path survive the
  trip through an etcd key; and every key the server accepts names such a pair, and is the key of
  that pair, except that the bare key of a namespace stands for its root path.
\<close>

theorem SplitKey_JoinKey:
  "(wireName ns p \<longrightarrow> SplitKey (JoinKey ns p) = Some (ns, p)) \<and>
   (SplitKey k = Some (ns, p) \<longrightarrow> wireName ns p \<and> (k = JoinKey ns p \<or> p = ''/'' \<and> k = ''/'' @ ns))"
  using Split_Join [of ns p] SplitKey_wire [of k ns p] by auto

theorem SplitKey_JoinKey_witness:
  "SplitKey (JoinKey ''prod'' ''/a.json'') = Some (''prod'', ''/a.json'') \<and> wireName ''prod'' ''/a.json''"
proof -
  have w: "wireName ''prod'' ''/a.json''" by (simp add: wireName_def slashFree_def hasPrefix_slash)
  with SplitKey_JoinKey [of "''prod''" "''/a.json''" "[]"] show ?thesis by simp
qed

section \<open>Tokens\<close>

text \<open>
  C25. A token whose role is not writer changes nothing through the etcd API: whatever it sends to
  Put, DeleteRange, Txn, Range or Compact, and whatever the engine does, the database and the
  publisher stay as they are.
\<close>

lemma recordRejected_keeps [simp]:
  "buckets (recordRejectedWrite opName ns e w) = buckets w" "hub (recordRejectedWrite opName ns e w) = hub w"
  by (simp_all add: recordRejectedWrite_def split: option.split)

lemma pureRead_snd: "pureRead m \<Longrightarrow> snd (m w) = w"
  by (simp add: pureRead_def)

lemma KV_reads: "snd (KV_Range E c req w) = w" "snd (KV_Compact E c w) = w"
proof -
  have rq: "Service_RangeQuery E c sNS sP eNS eP opts w = (r, w') \<Longrightarrow> w' = w" for sNS sP eNS eP opts r w'
    by (rule pureRead_Inr [OF pureRead_RangeQuery])
  have rev: "CurrentRevisionValue E c w = (r, w') \<Longrightarrow> w' = w" for r w'
    by (rule pureRead_Inr [OF pureRead_operations(2)])
  show "snd (KV_Range E c req w) = w"
    by (auto simp: KV_Range_def split: option.split prod.split sum.split dest!: rq)
  show "snd (KV_Compact E c w) = w"
    by (auto simp: KV_Compact_def Service_CurrentRevisionValue_def split: prod.split sum.split dest!: rev)
qed

lemma readOnly_Txn:
  assumes "readOnly c"
  shows "buckets (snd (KV_Txn E X c req w)) = buckets w \<and> hub (snd (KV_Txn E X c req w)) = hub w"
proof (cases "txnInput req")
  case (Inr inp)
  show ?thesis
  proof (cases "checkTxnAccess c inp")
    case acc: (Inr u)
    with readOnly_txn(1) [OF assms] have "\<not> hasWrites inp" by blast
    then have "pureRead (Txn E X c inp)" by (simp add: Txn_def txnBoundary_def pureRead_runTxn)
    from pureRead_snd [OF this, of w] Inr acc show ?thesis
      by (cases "Txn E X c inp w") (auto simp: KV_Txn_def split: sum.split option.split)
  qed (simp add: KV_Txn_def Inr)
qed (simp add: KV_Txn_def)

theorem readonly_token_safe:
  assumes "readOnly c"
  shows "buckets (snd (KV_Put E X c put w)) = buckets w \<and> hub (snd (KV_Put E X c put w)) = hub w \<and>
    buckets (snd (KV_DeleteRange E c del w)) = buckets w \<and> hub (snd (KV_DeleteRange E c del w)) = hub w \<and>
    buckets (snd (KV_Txn E X c txn w)) = buckets w \<and> hub (snd (KV_Txn E X c txn w)) = hub w \<and>
    snd (KV_Range E c rng w) = w \<and> snd (KV_Compact E c w) = w"
  using readOnly_Txn [OF assms, of E X txn w] KV_reads(1) [of E c rng w] KV_reads(2) [of E c w]
  by (auto simp: KV_Put_def KV_DeleteRange_def readOnly_denied [OF assms] split: option.split)

theorem readonly_token_safe_witness:
  "buckets (snd (KV_Put sampleEnv sampleExt (wireCtx [''prod''] RoleReader) samplePut (wireWorld False))) = sampleDB False"
proof -
  have "readOnly (wireCtx [''prod''] RoleReader)" by (simp add: readOnly_def rbac_defs)
  from readonly_token_safe [OF this, of sampleEnv sampleExt samplePut "wireWorld False"] show ?thesis by simp
qed

text \<open>
  C26. A transaction is authorised exactly when the token allows every namespace that it names, for
  reading in its compares and ranges and for writing in its puts and deletions, on both branches
  and in nested transactions, and no operation is empty or unknown.
\<close>

theorem checkTxnAccess_exact:
  "checkTxnAccess c inp = Inr () \<longleftrightarrow>
     txnComplete inp \<and> (\<forall>need \<in> txnNeeds inp. namespaceAllowed (ctx_claims c) (fst need) (snd need))"
  using checkTxnAccess_needs(1) [of c inp] by (simp add: case_prod_unfold)

theorem checkTxnAccess_exact_witness:
  "checkTxnAccess (wireCtx [''prod''] RoleWriter) (casTxn ''prod'' ''/a'' 0 ''x'') = Inr ()"
  using checkTxnAccess_exact [of "wireCtx [''prod''] RoleWriter" "casTxn ''prod'' ''/a'' 0 ''x''"]
  by (simp add: casTxn_def modIs_def namespaceAllowed_def)

section \<open>Transactions on the wire\<close>

text \<open>
  The response of a transaction is always built: every result has the kind of its request, so
  that Txn neither reports a mismatch of operations and results nor dereferences a nil result.
\<close>

theorem KV_Txn_total:
  "fst (KV_Txn E X c req w) \<noteq> Inl NilDereference \<and> fst (KV_Txn E X c req w) \<noteq> Inl (ResponseMismatch a b)"
proof (cases "txnInput req")
  case (Inl e)
  with txnInput_errors(1) [OF Inl] show ?thesis by (simp add: KV_Txn_def)
next
  case inp: (Inr inp)
  show ?thesis
  proof (cases "checkTxnAccess c inp")
    case (Inl e)
    with inp checkTxnAccess_errors(1) [OF Inl] show ?thesis by (simp add: KV_Txn_def)
  next
    case acc: (Inr u)
    show ?thesis
    proof (cases "Txn E X c inp w")
      case (Pair r w1)
      with Txn_response [OF inp, of E X c w _ w1] inp acc show ?thesis
        by (cases r) (auto simp: KV_Txn_def toKVStatus_def)
    qed
  qed
qed

text \<open>
  A range response holds the pairs it is given, each once, arranged by the requested target in
  the requested direction, and equal ones stay in key order as they came; without an order they
  are not moved. The count is the number of the pairs, also when only the count is asked for.
\<close>

theorem buildRangeResponse_sorted:
  fixes kvs :: "KVPair list" and req :: RangeRequest and r :: int64 and hasMore :: bool
  defines "resp \<equiv> buildRangeResponse (req\<lparr>rq_CountOnly := False\<rparr>) kvs r hasMore"
  defines "before \<equiv> (\<lambda>a b. if rq_SortOrder req = SortDescend then kvLess (rq_SortTarget req) b a
     else kvLess (rq_SortTarget req) a b)"
  shows "mset (rs_Kvs resp) = mset (map kvPairToProto kvs) \<and>
    (if rq_SortOrder req = SortNone then rs_Kvs resp = map kvPairToProto kvs
     else sorted_wrt (\<lambda>a b. \<not> before b a) (rs_Kvs resp) \<and>
          filter (\<lambda>b. \<not> before a b \<and> \<not> before b a) (rs_Kvs resp) =
          filter (\<lambda>b. \<not> before a b \<and> \<not> before b a) (map kvPairToProto kvs)) \<and>
    rs_Count (buildRangeResponse req kvs r hasMore) = int (length kvs)"
proof -
  let ?t = "rq_SortTarget req"
  have len: "length (sortKVs xs order ?t) = length xs" for xs order
    using kvAsc.mset_SliceStable [of ?t xs] kvDesc.mset_SliceStable [of ?t xs]
    by (auto simp: sortKVs_def dest: mset_eq_length)
  have count: "rs_Count (buildRangeResponse req kvs r hasMore) = int (length kvs)"
    by (simp add: buildRangeResponse_def Let_def len)
  have kvs: "rs_Kvs resp = sortKVs (map kvPairToProto kvs) (rq_SortOrder req) ?t"
    by (simp add: resp_def buildRangeResponse_def Let_def)
  show ?thesis
    using kvAsc.mset_SliceStable [of ?t "map kvPairToProto kvs"] kvDesc.mset_SliceStable [of ?t "map kvPairToProto kvs"]
      kvAsc.sorted_SliceStable [of ?t "map kvPairToProto kvs"] kvDesc.sorted_SliceStable [of ?t "map kvPairToProto kvs"]
      kvAsc.stable_SliceStable [of ?t a "map kvPairToProto kvs"] kvDesc.stable_SliceStable [of ?t a "map kvPairToProto kvs"]
    unfolding count kvs by (simp add: before_def sortKVs_def)
qed

end
