(* ===== verification/WatchProps.thy ===== *)
theory WatchProps
  imports EtcdProps
begin

text \<open>
  The properties of watches on the wire, and of range deletions as they reach tokens and watchers.
\<close>

section \<open>Samples\<close>

definition sampleServer :: WatchServer where
  "sampleServer = \<lparr>ws_tracker = False, ws_connID = None, ws_sendErr = (\<lambda>_. None)\<rparr>"

definition watchWorld :: "bool \<Rightarrow> wworld" where
  "watchWorld locked = \<lparr>buckets = sampleDB locked, ticks = 0, hub = sampleHub, pending = [], vcache = emptyCache,
     sent = [], registry = Map.empty\<rparr>"

text \<open>A watch of all keys of namespace \<^verbatim>\<open>prod\<close> below \<^verbatim>\<open>/a\<close>, from the first revision on.\<close>

definition sampleWatch :: WatchCreateRequest where
  "sampleWatch = \<lparr>wq_Key = ''/prod/a'', wq_RangeEnd = ''/prod/b'', wq_StartRevision = 1, wq_PrevKv = False,
     wq_ProgressNotify = False\<rparr>"

definition sampleWatcher :: watcher where
  "sampleWatcher = \<lparr>wt_id = 1, wt_start = ''/prod/a'', wt_end = ''/prod/b'', wt_namespace = ''prod'',
     wt_pathPrefix = ''/'', wt_scanAll = False, wt_singleKey = False, wt_exactPath = [], wt_prevKv = False,
     wt_progress = False, wt_subscription = 2, wt_claims = None, wt_tracked = []\<rparr>"

definition openCtx :: hctx where
  "openCtx = \<lparr>ctx_tx = None, ctx_pending = False, ctx_claims = None\<rparr>"

definition delEvent :: "string \<Rightarrow> WatchEvent" where
  "delEvent p = \<lparr>we_Type = EventTypeDeleted, we_Path = p, we_Namespace = ''prod'', we_Revision = 7,
     we_Config = None, we_Timestamp = 0\<rparr>"

lemma sampleServer_send [simp]: "ws_sendErr sampleServer = (\<lambda>_. None)"
  by (simp add: sampleServer_def)

lemma watchWorld_simps [simp]:
  "buckets (watchWorld l) = sampleDB l" "hub (watchWorld l) = sampleHub" "sent (watchWorld l) = []"
  by (simp_all add: watchWorld_def)

lemma sample_wire: "wireName ''prod'' ''/a''" "wireName ''prod'' ''/b''" "wireName ''prod'' ''/a.json''"
  by (simp_all add: wireName_def slashFree_def hasPrefix_slash)

lemma sample_keys: "JoinKey ''prod'' ''/a'' = ''/prod/a''" "JoinKey ''prod'' ''/b'' = ''/prod/b''"
  "JoinKey ''prod'' ''/a.json'' = ''/prod/a.json''"
  by (simp_all add: JoinKey_def hasPrefix_slash)

section \<open>Subscriptions\<close>

text \<open>
  The publisher's cheap filter loses nothing: for a watch of one key, of all later keys or up to
  another key, every event whose key the watcher's own test accepts is let through by the filter
  of the subscription that was made for it.
\<close>

theorem watch_filter_complete:
  assumes "createWatcher E S c req wid w = (Inr wt, w')" "wireRange (wq_Key req) (wq_RangeEnd req)"
    and "wireName (we_Namespace ev) (we_Path ev)" "matchesEvent wt ev"
  shows "\<exists>s. map_of (pub_subscriptions (hub w')) (wt_subscription wt) = Some s \<and> matches s ev"
  using watch_filter_sub [OF assms(1-3)] assms(4) by (auto simp: matchesEvent_def matches_def)

lemma sample_create:
  "\<exists>wt w'. createWatcher sampleEnv sampleServer openCtx sampleWatch 1 (watchWorld False) = (Inr wt, w') \<and>
     wt_start wt = ''/prod/a'' \<and> wt_end wt = ''/prod/b'' \<and> wt_claims wt = None \<and> \<not> wt_scanAll wt \<and> \<not> wt_singleKey wt"
proof -
  have split: "SplitRange ''/prod/a'' ''/prod/b'' = Some (''prod'', ''/a'', ''prod'', ''/b'')"
    using Split_Join [OF sample_wire(1)] Split_Join [OF sample_wire(2)]
    by (simp add: SplitRange_def sample_keys)
  have rev: "\<exists>r. CurrentRevisionValue sampleEnv openCtx (watchWorld False) = (Inr r, watchWorld False)"
    unfolding CurrentRevisionValue_def CurrentRevision_def WithReadTx_readT
    using sampleEnv_reliable by (auto simp: openCtx_def bolt_reliable_def CurrentRevision_tx_def split: option.split)
  then show ?thesis
    by (auto simp: createWatcher_def sampleWatch_def split checkWatchAccess_def namespaceAllowed_def openCtx_def
        scanAllEnd_def subscribeFilter_def send_def trackWatcher_def sampleServer_def Let_def split: prod.split)
qed

theorem watch_filter_complete_witness:
  "\<exists>wt w' s. createWatcher sampleEnv sampleServer openCtx sampleWatch 1 (watchWorld False) = (Inr wt, w') \<and>
     map_of (pub_subscriptions (hub w')) (wt_subscription wt) = Some s \<and> matches s (delEvent ''/a.json'')"
proof -
  obtain wt w' where c: "createWatcher sampleEnv sampleServer openCtx sampleWatch 1 (watchWorld False) = (Inr wt, w')"
    and wt: "wt_start wt = ''/prod/a''" "wt_end wt = ''/prod/b''" "wt_claims wt = None" "\<not> wt_scanAll wt" "\<not> wt_singleKey wt"
    using sample_create by blast
  have "wireRange (wq_Key sampleWatch) (wq_RangeEnd sampleWatch)"
    unfolding wireRange_def sampleWatch_def using sample_wire(1,2) sample_keys(1,2)
    by (metis WatchCreateRequest.select_convs(1,2))
  moreover have "wireName (we_Namespace (delEvent ''/a.json'')) (we_Path (delEvent ''/a.json''))"
    using sample_wire by (simp add: delEvent_def)
  moreover have "matchesEvent wt (delEvent ''/a.json'')"
    using wt by (simp add: matchesEvent_def matchesKey_def delEvent_def namespaceAllowed_def sample_keys Let_def)
  ultimately show ?thesis using watch_filter_complete [OF c] c by blast
qed

text \<open>
  C30. A stream leaves no subscription behind: whatever the client sends, whichever sends fail and
  however the stream ends, the publisher has the subscriptions it had before the stream. (The ids
  of the publisher have not wrapped around.)
\<close>

theorem Watch_no_leak:
  assumes "Watch E S c reqs w = (r, w')" "\<forall>s \<in> fst ` set (pub_subscriptions (hub w)). s \<le> pub_nextID (hub w)"
    and "0 \<le> pub_nextID (hub w)" "pub_nextID (hub w) + int (length reqs) < 2 ^ 63"
  shows "pub_subscriptions (hub w') = pub_subscriptions (hub w)"
  using assms by (rule Watch_subscriptions)

theorem Watch_no_leak_witness:
  "\<exists>r w'. Watch sampleEnv sampleServer openCtx [CreateRequest sampleWatch, ProgressRequest] (watchWorld False) = (r, w') \<and>
     pub_subscriptions (hub w') = [(1, sampleSub)]"
proof -
  obtain r w' where run: "Watch sampleEnv sampleServer openCtx [CreateRequest sampleWatch, ProgressRequest] (watchWorld False) = (r, w')"
    by fastforce
  from Watch_no_leak [OF run] run show ?thesis by (auto simp: sampleHub_def)
qed

section \<open>Replay\<close>

text \<open>
  C31. The replay of a watch ends and is complete: with more fuel than the changelog has entries from
  the requested revision on, it sends exactly those of them that match the watcher, in the order
  of their revisions, a put with the content at its revision, and returns the last revision sent.
\<close>

theorem replayHistory_complete:
  fixes wt :: watcher and start :: int64 and w :: "'z wworld_scheme"
  assumes "bolt_reliable E" "ws_sendErr S = (\<lambda>_. None)" "repo_inv (buckets w)" "room (buckets w)" "1 \<le> start"
    "start < 2 ^ 63" "length (changesFrom start (buckets w)) < fuel"
  defines "es \<equiv> filter (matchesChangelog wt) (changesFrom start (buckets w))"
  shows "replayHistory fuel E S c wt start w =
    Some (Inr (fold (\<lambda>e. max (cl_Revision e)) es 0), w\<lparr>sent := sent w @ map (replayResponse E c wt w) es\<rparr>)"
proof -
  have "wrap64 (start - 1) = start - 1" "wrap64 start = start"
    using assms(5,6) by (auto simp: in_int64_def intro!: wrap64_id)
  with replayLoop_complete [OF assms(1-4), of "start - 1" fuel c wt 0] assms(7) show ?thesis
    by (simp add: replayHistory_def es_def Let_def)
qed

lemma sample_changes:
  "changesFrom 1 (sampleDB False) = [\<lparr>cl_Revision = 1, cl_Type = EventTypeCreated, cl_Path = ''/a.json'',
     cl_Namespace = ''prod'', cl_Version = 1, cl_Timestamp = 0\<rparr>]"
proof -
  have "map_of (bkt freshDB bucketChangelog) = Map.empty"
    using dget_fresh [of bucketChangelog] by (simp add: dget_def fun_eq_iff)
  then have fresh: "bkt freshDB bucketChangelog = []" by simp
  have "bkt (sampleDB False) bucketChangelog = [(revisionBytes 1, JChangelog \<lparr>row_Type = EventTypeCreated,
      row_Path = ''/a.json'', row_Namespace = ''prod'', row_Version = 1, row_Timestamp = 0\<rparr>)]"
    by (simp add: sampleDB_def entryWritten_def fresh)
  then show ?thesis
    by (simp add: changesFrom_def rowEntry_def seekFrom_def changelogCodec_def ChangelogEntryToDomain_def
        parse_revisionBytes in_int64_def)
qed

theorem replayHistory_complete_witness:
  "replayHistory 2 sampleEnv sampleServer openCtx sampleWatcher 1 (watchWorld False) =
     Some (Inr 1, (watchWorld False)\<lparr>sent := [replayResponse sampleEnv openCtx sampleWatcher (watchWorld False)
       \<lparr>cl_Revision = 1, cl_Type = EventTypeCreated, cl_Path = ''/a.json'', cl_Namespace = ''prod'',
        cl_Version = 1, cl_Timestamp = 0\<rparr>]\<rparr>)"
proof -
  have "matchesKey sampleWatcher ''prod'' ''/a.json''"
    by (simp add: sampleWatcher_def matchesKey_def namespaceAllowed_def sample_keys Let_def)
  with replayHistory_complete [of sampleEnv sampleServer "watchWorld False" 1 2 openCtx sampleWatcher] show ?thesis
    by (simp add: sample_changes matchesChangelog_def)
qed

section \<open>Realtime delivery\<close>



text \<open>
  C33. One deletion of a range gives all its events one revision, and a watcher receives only the
  first of them: the test against duplicates of the replay drops the others.
\<close>

theorem same_revision_events_dropped:
  fixes w :: "'z wworld_scheme"
  assumes "ws_sendErr S = (\<lambda>_. None)" "matchesEvent wt ev" "lastSent < revisionOfEvent ev" "0 < revisionOfEvent ev"
    and "\<forall>e \<in> set evs. revisionOfEvent e = revisionOfEvent ev"
  shows "sent (realtime S wt lastSent (ev # evs) w) = sent w @ [eventResponse wt ev]"
proof -
  let ?w = "w\<lparr>sent := sent w @ [eventResponse wt ev]\<rparr>"
  have "realtime S wt (revisionOfEvent ev) evs ?w = ?w"
    using assms(4,5) by (intro realtime_stale [OF assms(1)]) simp
  then show ?thesis using assms(2-4) by (simp add: forwardEvent_reliable [OF assms(1)])
qed

theorem same_revision_events_dropped_witness:
  "matchesEvent sampleWatcher (delEvent ''/a'') \<and>
   sent (realtime sampleServer sampleWatcher 0 [delEvent ''/a.json'', delEvent ''/a''] (watchWorld False)) =
     [eventResponse sampleWatcher (delEvent ''/a.json'')]"
proof -
  have m: "matchesEvent sampleWatcher (delEvent ''/a.json'')" "matchesEvent sampleWatcher (delEvent ''/a'')"
    by (simp_all add: sampleWatcher_def matchesEvent_def matchesKey_def delEvent_def namespaceAllowed_def sample_keys Let_def)
  with same_revision_events_dropped [of sampleServer sampleWatcher "delEvent ''/a.json''" 0 "[delEvent ''/a'']" "watchWorld False"]
  show ?thesis by (simp add: revisionOfEvent_def delEvent_def)
qed

section \<open>Deletions beyond the scope of a token\<close>

lemma Service_DeleteRangeKeys_run:
  fixes w :: "'z sworld_scheme"
  assumes E: "bolt_reliable E" and c: "ctx_tx c = None" "\<not> ctx_pending c"
    and inv: "repo_inv (buckets w)" "room (buckets w)" and unlocked: "\<not> nsLocked (buckets w) sNS"
      "\<forall>ns p m. (ns, p) \<in> keysInRange rp (buckets w) \<and> metaAt (buckets w) ns p = Some m \<longrightarrow> \<not> m_Locked m"
    and rp: "rp = buildRangeParams sNS sP eNS eP" and some: "keysInRange rp (buckets w) \<noteq> {}"
  shows "\<exists>kvs w'. Service_DeleteRangeKeys E c sNS sP eNS eP prev w = (Inr (kvs, revOf (buckets w) + 1), w') \<and>
    set (map kvName kvs) = keysInRange rp (buckets w) \<and>
    absOf (buckets w') = mvcc_delete (keysInRange rp (buckets w)) (absOf (buckets w))"
proof -
  let ?c = "c\<lparr>ctx_pending := True\<rparr>" and ?w = "w\<lparr>pending := []\<rparr>"
  let ?rows = "rangeRows rp (bkt (buckets w) bucketMeta)"
  have "find lockedRow ?rows = None"
    using locked_row [OF inv(1), of rp] unlocked(2) by (cases "find lockedRow ?rows") blast+
  note free = unlocked_range(1) [OF inv(1) this]
  have rows: "?rows \<noteq> []" using some keysInRange_empty [OF inv(1)] by simp
  obtain w1 where del: "deleteRangeKeysTx E (TxQuerier True) rp sNS prev ?w =
      (Inr (map (dt_kv \<circ> targetOf (buckets w) prev) ?rows, revOf (buckets w) + 1), w1)"
    and abs: "absOf (buckets w1) = mvcc_delete (keysInRange rp (buckets w)) (absOf (buckets w))"
    using deleteRangeKeysTx_ok [OF E, of ?w sNS rp prev] inv unlocked(1) free rows by auto
  then have "DeleteRangeKeys E (?c\<lparr>ctx_tx := Some True\<rparr>) sNS sP eNS eP prev ?w =
      (Inr (map (dt_kv \<circ> targetOf (buckets w) prev) ?rows, revOf (buckets w) + 1), w1)"
    by (simp add: DeleteRangeKeys_def rp)
  then show ?thesis
    using c abs targets_of_range(1) [OF inv(1), of prev rp] E
    by (auto simp: Service_DeleteRangeKeys_def deferring_def withPendingEvents_def bindT_def WithTx_def runTx_def
        image_image flush_simps)
qed

text \<open>
  C34. A deletion from a key on with the end that stands for all later keys is authorised by the
  namespace of its first key alone: it deletes every config from there on, those of the
  namespaces the token is not scoped to included.
\<close>

theorem DeleteRange_all_ignores_scope:
  fixes w :: "'z hworld_scheme"
  assumes "bolt_reliable E" "ctx_tx c = None" "\<not> ctx_pending c" "repo_inv (buckets w)" "room (buckets w)"
    and "SplitKey (dq_Key req) = Some (ns, p)" "dq_RangeEnd req = [CHR 0x00]"
    and "namespaceAllowed (ctx_claims c) ns ActionWrite" "\<not> nsLocked (buckets w) ns"
    and "K = keysInRange (buildRangeParams ns p scanAllEnd []) (buckets w)" "K \<noteq> {}"
    and "\<forall>ns p m. (ns, p) \<in> K \<and> metaAt (buckets w) ns p = Some m \<longrightarrow> \<not> m_Locked m"
  shows "\<exists>resp w'. KV_DeleteRange E c req w = (Inr resp, w') \<and> absOf (buckets w') = mvcc_delete K (absOf (buckets w))"
proof -
  have acc: "checkRangeAccess c ns scanAllEnd ActionWrite = Inr ()"
    using assms(8) by (simp add: checkRangeAccess_def checkAccess_def)
  have pos: "revOf (buckets w) + 1 \<noteq> 0" using counter_revOf(2) [OF repo_invD(2) [OF assms(4)]] by simp
  from Service_DeleteRangeKeys_run [OF assms(1-5,9) _ refl, of p scanAllEnd "[]" "dq_PrevKv req"] assms(10-12) obtain kvs w' where
    "Service_DeleteRangeKeys E c ns p scanAllEnd [] (dq_PrevKv req) w = (Inr (kvs, revOf (buckets w) + 1), w')"
    "absOf (buckets w') = mvcc_delete K (absOf (buckets w))" by auto
  then show ?thesis using acc pos assms(6,7) by (auto simp: KV_DeleteRange_def SplitRange_def)
qed

theorem DeleteRange_all_ignores_scope_witness:
  "\<not> namespaceAllowed (ctx_claims (wireCtx [''dev''] RoleWriter)) ''prod'' ActionRead \<and>
   (\<exists>resp w'. KV_DeleteRange sampleEnv (wireCtx [''dev''] RoleWriter)
      \<lparr>dq_Key = ''/dev/x'', dq_RangeEnd = [CHR 0x00], dq_PrevKv = False\<rparr> (wireWorld False) = (Inr resp, w') \<and>
      absOf (buckets w') = mvcc_delete {(''prod'', ''/a.json'')} (absOf (sampleDB False)))"
proof -
  let ?K = "keysInRange (buildRangeParams ''dev'' ''/x'' scanAllEnd []) (sampleDB False)"
  have "configKey ''dev'' ''/x'' \<le> configKey ''prod'' ''/a.json''"
    by (simp add: configKey_def)
  then have K: "?K = {(''prod'', ''/a.json'')}"
    by (auto simp: keysInRange_def inRange_def buildRangeParams_def shouldBreakRange_def scanAllEnd_def split: if_splits)
  have s: "SplitKey ''/dev/x'' = Some (''dev'', ''/x'')"
    using Split_Join [of "''dev''" "''/x''"] by (simp add: wireName_def slashFree_def hasPrefix_slash JoinKey_def)
  from DeleteRange_all_ignores_scope [of sampleEnv "wireCtx [''dev''] RoleWriter" "wireWorld False" _ "''dev''" "''/x''" ?K]
    K s show ?thesis by (simp add: namespaceAllowed_def rbac_defs)
qed

end
