(* ===== verification/GroupRepo.thy ===== *)
theory GroupRepo
  imports Listing
begin

text \<open>
  The group repository \<^verbatim>\<open>src/internal/storage/bbolt/group\<close> and the set helpers of
  \<^verbatim>\<open>src/internal/util/sliceutil\<close>.
\<close>

section \<open>Slices as sets\<close>

definition ToSet :: "'a list \<Rightarrow> 'a set" where
  "ToSet s = set s"

definition NotIn :: "'a list \<Rightarrow> 'a set \<Rightarrow> 'a list" where
  "NotIn s X = filter (\<lambda>v. v \<notin> X) s"

definition In :: "'a list \<Rightarrow> 'a set \<Rightarrow> 'a list" where
  "In s X = filter (\<lambda>v. v \<in> X) s"

definition FirstOverlap :: "'a list \<Rightarrow> 'a list \<Rightarrow> 'a option" where
  "FirstOverlap a b = (if a = [] \<or> b = [] then None else find (\<lambda>v. v \<in> ToSet a) b)"

definition ComposePost :: "'a list \<Rightarrow> 'a list \<Rightarrow> 'a list \<Rightarrow> 'a list" where
  "ComposePost current added removed = filter (\<lambda>v. v \<notin> ToSet removed) current @ added"

section \<open>Repository\<close>

definition bucketGroups :: string where "bucketGroups = ''auth_groups''"

text \<open>\<^verbatim>\<open>Create\<close> and \<^verbatim>\<open>Update\<close> fill in fields of the group they are given; the model returns it.\<close>

definition Group_Create :: "env \<Rightarrow> querier \<Rightarrow> Group \<Rightarrow> (Group, 'z world_scheme) op" where
  "Group_Create E q grp =
     bindT (readT (\<lambda>w. if boltExists bucketGroups (grp_Name grp) w
                        then Err (ErrResourceAlreadyExists (grp_Name grp)) else Ok ())) (\<lambda>_.
     bindT (timeNow E) (\<lambda>now.
     let grp = grp\<lparr>grp_CreatedAt := now, grp_UpdatedAt := now,
                       grp_MetadataVersion :=
                         (if grp_MetadataVersion grp = 0 then 1 else grp_MetadataVersion grp)\<rparr>
     in bindT (boltPut E groupCodec q bucketGroups (grp_Name grp) (DomainToGroupMeta grp)) (\<lambda>_.
        returnT grp)))"

definition Group_Get :: "string \<Rightarrow> 'z world_scheme \<Rightarrow> err + Group" where
  "Group_Get name w =
     (case boltGet groupCodec bucketGroups name w of
        Inl e \<Rightarrow> if e = ErrBboltNotFound then Err (ErrResourceNotFound name) else Err e
      | Inr m \<Rightarrow> Ok (GroupMetaToDomain m))"

definition Group_Update :: "env \<Rightarrow> querier \<Rightarrow> Group \<Rightarrow> (Group, 'z world_scheme) op" where
  "Group_Update E q grp =
     bindT (readT (\<lambda>w. case boltGet groupCodec bucketGroups (grp_Name grp) w of
         Inl e \<Rightarrow> if e = ErrBboltNotFound then Err (ErrResourceNotFound (grp_Name grp)) else Err e
       | Inr m \<Rightarrow> Ok m)) (\<lambda>existing.
     bindT (timeNow E) (\<lambda>now.
     let existing = existing\<lparr>gmt_DisplayName := grp_DisplayName grp,
                             gmt_Description := grp_Description grp,
                             gmt_MetadataVersion := grp_MetadataVersion grp,
                             gmt_MembersVersion := grp_MembersVersion grp,
                             gmt_PermissionsVersion := grp_PermissionsVersion grp,
                             gmt_UpdatedAt := now\<rparr>;
         grp = grp\<lparr>grp_CreatedAt := gmt_CreatedAt existing, grp_UpdatedAt := gmt_UpdatedAt existing,
                       grp_System := gmt_System existing\<rparr>
     in bindT (boltPut E groupCodec q bucketGroups (grp_Name grp) existing) (\<lambda>_.
        returnT grp)))"

definition Group_Delete :: "env \<Rightarrow> querier \<Rightarrow> string \<Rightarrow> (unit, 'z world_scheme) op" where
  "Group_Delete E q name =
     bindT (readT (\<lambda>w. if \<not> boltExists bucketGroups name w
                        then Err (ErrResourceNotFound name) else Ok ())) (\<lambda>_.
     boltDelete E q bucketGroups name)"

definition matchesGroupSearch :: "env \<Rightarrow> string \<Rightarrow> string \<Rightarrow> bool" where
  "matchesGroupSearch E name search =
     (if search = [] then True else containsStr (toLower E name) (toLower E search))"

fun listGroupsLoop :: "env \<Rightarrow> GroupFilter \<Rightarrow> bucket \<Rightarrow> err + Group list" where
  "listGroupsLoop E flt [] = Ok []"
| "listGroupsLoop E flt ((k, v) # rest) =
     (case Unmarshal groupCodec v of
        None \<Rightarrow> Err ErrDecode
      | Some m \<Rightarrow>
          (case listGroupsLoop E flt rest of
             Inl e \<Rightarrow> Err e
           | Inr gs \<Rightarrow>
               (let g = GroupMetaToDomain m in
                Ok (if (gf_Wildcard flt \<or> grp_Name g \<in> gf_Names flt) \<and>
                       matchesGroupSearch E (grp_Name g) (gf_Search flt)
                    then g # gs else gs))))"

definition groupLess :: "SortParams \<Rightarrow> Group \<Rightarrow> Group \<Rightarrow> bool" where
  "groupLess params a b =
     (let l = (if sort_Field params = ''modified'' then grp_UpdatedAt a < grp_UpdatedAt b
               else grp_Name a < grp_Name b)
      in if sort_Desc params then \<not> l else l)"

definition sortGroups :: "env \<Rightarrow> SortParams \<Rightarrow> Group list \<Rightarrow> Group list" where
  "sortGroups E params groups = sortSliceBy E (groupLess params) groups"

definition Group_List ::
  "env \<Rightarrow> querier \<Rightarrow> GroupFilter \<Rightarrow> int64 \<Rightarrow> int64 \<Rightarrow> SortParams \<Rightarrow> 'z world_scheme
     \<Rightarrow> err + (Group list \<times> int)" where
  "Group_List E q flt limit offset sortBy w =
     (case bucket_ForEach E q bucketGroups w of
        Inl e \<Rightarrow> Err e
      | Inr b \<Rightarrow>
          (case listGroupsLoop E flt b of
             Inl e \<Rightarrow> Err e
           | Inr found \<Rightarrow>
               (let out = sortGroups E sortBy found in
                case paginate out offset limit of
                  Inl e \<Rightarrow> Err e | Inr page \<Rightarrow> Ok (page, int (length out)))))"

definition Group_ListAll :: "env \<Rightarrow> querier \<Rightarrow> 'z world_scheme \<Rightarrow> err + Group list" where
  "Group_ListAll E q w =
     (case Group_List E q \<lparr>gf_Names = {}, gf_Wildcard = True, gf_Search = []\<rparr> 0 0
        \<lparr>sort_Field = [], sort_Desc = False\<rparr> w of
        Inl e \<Rightarrow> Err e | Inr (groups, _) \<Rightarrow> Ok groups)"

end
