(* ===== verification/Policies.thy ===== *)
theory Policies
  imports GroupRepo
begin

text \<open>
  Authorisation policy: the rule store \<^verbatim>\<open>src/internal/storage/bbolt/policy\<close>, the enforcer with its
  in-memory rules and the transactional view of it, \<^verbatim>\<open>src/internal/service/auth/casbin\<close>, and the decision
  and administration points of \<^verbatim>\<open>src/internal/service/authz\<close>.

  The casbin library is a parameter: a record of the calls the program makes on the model \<open>'m\<close> it keeps
  in memory. So is the JSON text of a list of strings, under which a rule is stored.
\<close>

record 'm casbin =
  cb_NewModel :: 'm
  cb_LoadPolicyArray :: "string list \<Rightarrow> 'm \<Rightarrow> err + 'm"
  cb_Loaded :: "'m \<Rightarrow> err + 'm"
  cb_Rules :: "'m \<Rightarrow> (string \<times> string \<times> string list) list"
  cb_AddPolicy :: "string list \<Rightarrow> 'm \<Rightarrow> err + 'm"
  cb_RemovePolicy :: "string list \<Rightarrow> 'm \<Rightarrow> err + 'm"
  cb_AddGroupingPolicy :: "string list \<Rightarrow> 'm \<Rightarrow> err + 'm"
  cb_RemoveGroupingPolicy :: "string list \<Rightarrow> 'm \<Rightarrow> err + 'm"
  cb_DeleteUser :: "string \<Rightarrow> 'm \<Rightarrow> err + 'm"
  cb_RemoveFilteredGroupingPolicy :: "nat \<Rightarrow> string \<Rightarrow> 'm \<Rightarrow> err + 'm"
  cb_GetPolicy :: "'m \<Rightarrow> string list list"
  cb_GetGroupingPolicy :: "'m \<Rightarrow> string list list"
  cb_GetImplicitPermissionsForUser :: "'m \<Rightarrow> string \<Rightarrow> err + string list list"
  cb_GetRolesForUser :: "'m \<Rightarrow> string \<Rightarrow> string \<Rightarrow> err + string list"
  cb_Enforce :: "'m \<Rightarrow> string \<Rightarrow> string \<Rightarrow> string \<Rightarrow> string \<Rightarrow> err + bool"

record jsonStrings =
  js_Marshal :: "string list \<Rightarrow> bytes"
  js_Unmarshal :: "bytes \<Rightarrow> string list option"

section \<open>The rule store\<close>

definition bucketPolicy :: string where "bucketPolicy = ''auth_policy''"

definition minPartsLen :: nat where "minPartsLen = 3"

definition ruleKey :: "jsonStrings \<Rightarrow> string \<Rightarrow> string \<Rightarrow> string list \<Rightarrow> bytes" where
  "ruleKey J sec ptype rule = js_Marshal J (sec # ptype # rule)"

text \<open>The parts of a stored key, None for a malformed or too short one, which every scan skips.\<close>

definition keyParts :: "jsonStrings \<Rightarrow> bytes \<Rightarrow> string list option" where
  "keyParts J k =
     (case js_Unmarshal J k of
        None \<Rightarrow> None
      | Some parts \<Rightarrow> if length parts < minPartsLen then None else Some parts)"

fun matchesFilterFrom :: "string list \<Rightarrow> nat \<Rightarrow> string list \<Rightarrow> bool" where
  "matchesFilterFrom fs idx [] = True"
| "matchesFilterFrom fs idx (val # vals) =
     (if val = [] then matchesFilterFrom fs (Suc idx) vals
      else if idx \<ge> length fs then False
      else if fs ! idx \<noteq> val then False
      else matchesFilterFrom fs (Suc idx) vals)"

definition matchesFilter :: "string list \<Rightarrow> nat \<Rightarrow> string list \<Rightarrow> bool" where
  "matchesFilter fs fieldIndex fieldValues =
     (if fieldValues = [] then True else matchesFilterFrom fs fieldIndex fieldValues)"

text \<open>A rule the model refuses is logged and skipped.\<close>

fun loadRules :: "'m casbin \<Rightarrow> jsonStrings \<Rightarrow> bucket \<Rightarrow> 'm \<Rightarrow> 'm" where
  "loadRules cb J [] m = m"
| "loadRules cb J ((k, v) # rest) m =
     (case keyParts J k of
        None \<Rightarrow> loadRules cb J rest m
      | Some parts \<Rightarrow>
          (case cb_LoadPolicyArray cb (parts ! 1 # drop 2 parts) m of
             Inl _ \<Rightarrow> loadRules cb J rest m
           | Inr m' \<Rightarrow> loadRules cb J rest m'))"

definition LoadPolicyCtx ::
  "env \<Rightarrow> 'm casbin \<Rightarrow> jsonStrings \<Rightarrow> querier \<Rightarrow> 'm \<Rightarrow> 'z world_scheme \<Rightarrow> err + 'm" where
  "LoadPolicyCtx E cb J q m w =
     (case bucket_ForEach E q bucketPolicy w of Inl e \<Rightarrow> Err e | Inr b \<Rightarrow> Ok (loadRules cb J b m))"

fun deleteKeys :: "env \<Rightarrow> querier \<Rightarrow> bytes list \<Rightarrow> (unit, 'z world_scheme) op" where
  "deleteKeys E q [] = returnT ()"
| "deleteKeys E q (k # ks) = bindT (bucket_Delete E q bucketPolicy k) (\<lambda>_. deleteKeys E q ks)"

fun putRules ::
  "env \<Rightarrow> jsonStrings \<Rightarrow> querier \<Rightarrow> (string \<times> string \<times> string list) list \<Rightarrow> (unit, 'z world_scheme) op" where
  "putRules E J q [] = returnT ()"
| "putRules E J q ((sec, ptype, rule) # rules) =
     bindT (bucket_Put E q bucketPolicy (ruleKey J sec ptype rule) (Raw [])) (\<lambda>_. putRules E J q rules)"

definition SavePolicyCtx ::
  "env \<Rightarrow> 'm casbin \<Rightarrow> jsonStrings \<Rightarrow> querier \<Rightarrow> 'm \<Rightarrow> (unit, 'z world_scheme) op" where
  "SavePolicyCtx E cb J q m =
     bindT (readT (bucket_ForEach E q bucketPolicy)) (\<lambda>existing.
     bindT (deleteKeys E q (map fst existing)) (\<lambda>_.
     putRules E J q (cb_Rules cb m)))"

definition AddPolicyCtx ::
  "env \<Rightarrow> jsonStrings \<Rightarrow> querier \<Rightarrow> string \<Rightarrow> string \<Rightarrow> string list \<Rightarrow> (unit, 'z world_scheme) op" where
  "AddPolicyCtx E J q sec ptype rule = bucket_Put E q bucketPolicy (ruleKey J sec ptype rule) (Raw [])"

definition RemovePolicyCtx ::
  "env \<Rightarrow> jsonStrings \<Rightarrow> querier \<Rightarrow> string \<Rightarrow> string \<Rightarrow> string list \<Rightarrow> (unit, 'z world_scheme) op" where
  "RemovePolicyCtx E J q sec ptype rule = bucket_Delete E q bucketPolicy (ruleKey J sec ptype rule)"

definition filteredKey ::
  "jsonStrings \<Rightarrow> string \<Rightarrow> string \<Rightarrow> nat \<Rightarrow> string list \<Rightarrow> bytes \<Rightarrow> bool" where
  "filteredKey J sec ptype fieldIndex fieldValues k =
     (case keyParts J k of
        None \<Rightarrow> False
      | Some parts \<Rightarrow>
          parts ! 0 = sec \<and> parts ! 1 = ptype \<and> matchesFilter (drop 2 parts) fieldIndex fieldValues)"

definition RemoveFilteredPolicyCtx ::
  "env \<Rightarrow> jsonStrings \<Rightarrow> querier \<Rightarrow> string \<Rightarrow> string \<Rightarrow> nat \<Rightarrow> string list \<Rightarrow> (unit, 'z world_scheme) op" where
  "RemoveFilteredPolicyCtx E J q sec ptype fieldIndex fieldValues =
     bindT (readT (bucket_ForEach E q bucketPolicy)) (\<lambda>b.
     deleteKeys E q (filter (filteredKey J sec ptype fieldIndex fieldValues) (map fst b)))"

definition subjectRule :: "jsonStrings \<Rightarrow> string \<Rightarrow> bytes \<Rightarrow> string list option" where
  "subjectRule J subject k =
     (case keyParts J k of
        None \<Rightarrow> None
      | Some parts \<Rightarrow>
          if parts ! 0 \<noteq> ''p'' \<or> parts ! 1 \<noteq> ''p'' then None
          else if parts ! 2 = subject then Some (drop 2 parts) else None)"

definition ListPermissionsForSubject ::
  "env \<Rightarrow> jsonStrings \<Rightarrow> querier \<Rightarrow> string \<Rightarrow> 'z world_scheme \<Rightarrow> err + string list list" where
  "ListPermissionsForSubject E J q subject w =
     (case bucket_ForEach E q bucketPolicy w of
        Inl e \<Rightarrow> Err e | Inr b \<Rightarrow> Ok (List.map_filter (subjectRule J subject \<circ> fst) b))"

section \<open>The enforcer inside a transaction\<close>

datatype polop =
    opAddP "string list"
  | opRemoveP "string list"
  | opAddG "string list"
  | opRemoveG "string list"
  | opDeleteUser string

text \<open>The state: the rules in memory, and the operations that the current transaction has recorded.\<close>

record 'm pworld = rworld +
  cache :: 'm
  txOps :: "polop list"

definition recordOp :: "polop \<Rightarrow> (unit, ('m, 'z) pworld_scheme) op" where
  "recordOp op w = (Ok (), w\<lparr>txOps := txOps w @ [op]\<rparr>)"

definition Tx_AddPolicy ::
  "env \<Rightarrow> jsonStrings \<Rightarrow> 'c ctx_scheme \<Rightarrow> string \<Rightarrow> string \<Rightarrow> string \<Rightarrow> string
     \<Rightarrow> (unit, ('m, 'z) pworld_scheme) op" where
  "Tx_AddPolicy E J c sub dm obj act =
     bindT (AddPolicyCtx E J (GetQuerier c) ''p'' ''p'' [sub, dm, obj, act]) (\<lambda>_.
     recordOp (opAddP [sub, dm, obj, act]))"

definition Tx_RemovePolicy ::
  "env \<Rightarrow> jsonStrings \<Rightarrow> 'c ctx_scheme \<Rightarrow> string \<Rightarrow> string \<Rightarrow> string \<Rightarrow> string
     \<Rightarrow> (unit, ('m, 'z) pworld_scheme) op" where
  "Tx_RemovePolicy E J c sub dm obj act =
     bindT (RemovePolicyCtx E J (GetQuerier c) ''p'' ''p'' [sub, dm, obj, act]) (\<lambda>_.
     recordOp (opRemoveP [sub, dm, obj, act]))"

definition Tx_AddRoleForUser ::
  "env \<Rightarrow> jsonStrings \<Rightarrow> 'c ctx_scheme \<Rightarrow> string \<Rightarrow> string \<Rightarrow> string \<Rightarrow> (unit, ('m, 'z) pworld_scheme) op" where
  "Tx_AddRoleForUser E J c user role dm =
     bindT (AddPolicyCtx E J (GetQuerier c) ''g'' ''g'' [user, role, dm]) (\<lambda>_.
     recordOp (opAddG [user, role, dm]))"

definition Tx_RemoveRoleForUser ::
  "env \<Rightarrow> jsonStrings \<Rightarrow> 'c ctx_scheme \<Rightarrow> string \<Rightarrow> string \<Rightarrow> string \<Rightarrow> (unit, ('m, 'z) pworld_scheme) op" where
  "Tx_RemoveRoleForUser E J c user role dm =
     bindT (RemovePolicyCtx E J (GetQuerier c) ''g'' ''g'' [user, role, dm]) (\<lambda>_.
     recordOp (opRemoveG [user, role, dm]))"

definition Tx_DeleteUser ::
  "env \<Rightarrow> jsonStrings \<Rightarrow> 'c ctx_scheme \<Rightarrow> string \<Rightarrow> (unit, ('m, 'z) pworld_scheme) op" where
  "Tx_DeleteUser E J c userID =
     bindT (RemoveFilteredPolicyCtx E J (GetQuerier c) ''g'' ''g'' 0 [userID]) (\<lambda>_.
     bindT (RemoveFilteredPolicyCtx E J (GetQuerier c) ''g'' ''g'' 1 [userID]) (\<lambda>_.
     recordOp (opDeleteUser userID)))"

definition Tx_GetPermissionsForSubject ::
  "env \<Rightarrow> jsonStrings \<Rightarrow> 'c ctx_scheme \<Rightarrow> string \<Rightarrow> (string list list, 'z world_scheme) op" where
  "Tx_GetPermissionsForSubject E J c subject =
     readT (ListPermissionsForSubject E J (GetQuerier c) subject)"

section \<open>The enforcer\<close>

definition applyOp :: "'m casbin \<Rightarrow> polop \<Rightarrow> 'm \<Rightarrow> err + 'm" where
  "applyOp cb op m =
     (case op of
        opAddP r \<Rightarrow> cb_AddPolicy cb r m
      | opRemoveP r \<Rightarrow> cb_RemovePolicy cb r m
      | opAddG r \<Rightarrow> cb_AddGroupingPolicy cb r m
      | opRemoveG r \<Rightarrow> cb_RemoveGroupingPolicy cb r m
      | opDeleteUser u \<Rightarrow>
          (case cb_DeleteUser cb u m of
             Inl e \<Rightarrow> Err e | Inr m' \<Rightarrow> cb_RemoveFilteredGroupingPolicy cb 1 u m'))"

text \<open>The rules already replayed stay in memory when a later one fails.\<close>

fun applyOpsToCache :: "'m casbin \<Rightarrow> polop list \<Rightarrow> (unit, ('m, 'z) pworld_scheme) op" where
  "applyOpsToCache cb [] w = (Ok (), w)"
| "applyOpsToCache cb (op # ops) w =
     (case applyOp cb op (cache w) of
        Inl e \<Rightarrow> (Err e, w)
      | Inr m \<Rightarrow> applyOpsToCache cb ops (w\<lparr>cache := m\<rparr>))"

text \<open>\<^verbatim>\<open>LoadPolicy\<close> reads through an auto-committing querier into an empty model.\<close>

definition Enforcer_LoadPolicy :: "env \<Rightarrow> 'm casbin \<Rightarrow> jsonStrings \<Rightarrow> (unit, ('m, 'z) pworld_scheme) op" where
  "Enforcer_LoadPolicy E cb J w =
     (case LoadPolicyCtx E cb J AutoQuerier (cb_NewModel cb) w of
        Inl e \<Rightarrow> (Err e, w)
      | Inr m \<Rightarrow> (case cb_Loaded cb m of Inl e \<Rightarrow> (Err e, w) | Inr m' \<Rightarrow> (Ok (), w\<lparr>cache := m'\<rparr>)))"

definition Enforcer_WriteTx ::
  "env \<Rightarrow> 'm casbin \<Rightarrow> jsonStrings \<Rightarrow> 'c ctx_scheme \<Rightarrow> ('c ctx_scheme \<Rightarrow> ('a, ('m, 'z) pworld_scheme) op)
     \<Rightarrow> ('a, ('m, 'z) pworld_scheme) op" where
  "Enforcer_WriteTx E cb J c fn w =
     (case WithTx E c (\<lambda>c w. fn c (w\<lparr>txOps := []\<rparr>)) w of
        (Inl e, w1) \<Rightarrow> (Err e, w1)
      | (Inr x, w1) \<Rightarrow>
          (case applyOpsToCache cb (txOps w1) w1 of
             (Inr _, w2) \<Rightarrow> (Ok x, w2)
           | (Inl e, w2) \<Rightarrow>
               (case Enforcer_LoadPolicy E cb J w2 of
                  (Inl e', w3) \<Rightarrow> (Err (Panic ''casbin: cache desync after commit and LoadPolicy failed''), w3)
                | (Inr _, w3) \<Rightarrow> (Err e, w3))))"

definition gRuleNativeLen :: nat where "gRuleNativeLen = 3"

definition GetMembersOfGroup :: "'m casbin \<Rightarrow> 'm \<Rightarrow> string \<Rightarrow> string list" where
  "GetMembersOfGroup cb m groupSubject =
     map (\<lambda>rule. rule ! 0)
       (filter (\<lambda>rule. length rule = gRuleNativeLen \<and> rule ! 1 = groupSubject) (cb_GetGroupingPolicy cb m))"

definition GetRulesForSubject :: "'m casbin \<Rightarrow> 'm \<Rightarrow> string \<Rightarrow> string list list" where
  "GetRulesForSubject cb m subject =
     filter (\<lambda>rule. length rule = gRuleNativeLen \<and> rule ! 0 = subject) (cb_GetGroupingPolicy cb m)"

fun rolesLoop :: "string \<Rightarrow> string list list \<Rightarrow> string list \<Rightarrow> string list" where
  "rolesLoop domainStr [] roles = roles"
| "rolesLoop domainStr (rule # rules) roles =
     (if length rule < gRuleNativeLen then rolesLoop domainStr rules roles
      else if (rule ! 2 = domainStr \<or> domainStr = DomainAll) \<and> rule ! 1 \<notin> set roles
        then rolesLoop domainStr rules (roles @ [rule ! 1])
      else rolesLoop domainStr rules roles)"

definition GetAllRoles :: "'m casbin \<Rightarrow> 'm \<Rightarrow> string \<Rightarrow> string list" where
  "GetAllRoles cb m domainStr = rolesLoop domainStr (cb_GetGroupingPolicy cb m) []"

section \<open>Domain sets\<close>

record DomainSet =
  ds_Wildcard :: bool
  ds_Explicit :: "string set"

definition NewDomainSet :: "string list \<Rightarrow> DomainSet" where
  "NewDomainSet ds = \<lparr>ds_Wildcard = List.member ds ''*'', ds_Explicit = set (filter (\<lambda>d. d \<noteq> ''*'') ds)\<rparr>"

definition DomainSet_Contains :: "DomainSet \<Rightarrow> string \<Rightarrow> bool" where
  "DomainSet_Contains ds d = (if ds_Wildcard ds then True else d \<in> ds_Explicit ds)"

definition DomainSet_IsEmpty :: "DomainSet \<Rightarrow> bool" where
  "DomainSet_IsEmpty ds \<longleftrightarrow> \<not> ds_Wildcard ds \<and> ds_Explicit ds = {}"

section \<open>The decision point\<close>

text \<open>The decision point: the library and whether permissions are skipped.\<close>

record 'm pdp =
  pdp_lib :: "'m casbin"
  pdp_skip :: bool

definition pRuleLen :: nat where "pRuleLen = 4"

definition EffectiveDomains :: "'m pdp \<Rightarrow> 'm \<Rightarrow> string \<Rightarrow> Object \<Rightarrow> Action \<Rightarrow> DomainSet" where
  "EffectiveDomains p m subject object action =
     (if pdp_skip p then \<lparr>ds_Wildcard = True, ds_Explicit = {}\<rparr>
      else case cb_GetImplicitPermissionsForUser (pdp_lib p) m subject of
             Inl _ \<Rightarrow> NewDomainSet []
           | Inr rules \<Rightarrow>
               NewDomainSet (map (\<lambda>rule. rule ! 1)
                 (filter (\<lambda>rule. length rule \<ge> pRuleLen \<and> ObjectGrants (rule ! 2) object \<and>
                                 ActionGrants (rule ! 3) action) rules)))"

definition Has :: "'m pdp \<Rightarrow> 'm \<Rightarrow> string \<Rightarrow> Permission \<Rightarrow> bool" where
  "Has p m subject perm =
     (if pdp_skip p then True
      else case cb_Enforce (pdp_lib p) m subject (per_Domain perm) (per_Object perm) (per_Action perm) of
             Inl _ \<Rightarrow> False | Inr ok \<Rightarrow> ok)"

definition HasGroup :: "'m pdp \<Rightarrow> 'm \<Rightarrow> string \<Rightarrow> string \<Rightarrow> Action \<Rightarrow> bool" where
  "HasGroup p m actor groupID action =
     Has p m actor \<lparr>per_Object = ObjectGroup, per_Action = action, per_Domain = GroupResource groupID\<rparr>"

definition HasNamespace :: "'m pdp \<Rightarrow> 'm \<Rightarrow> string \<Rightarrow> string \<Rightarrow> Action \<Rightarrow> bool" where
  "HasNamespace p m actor name action =
     Has p m actor \<lparr>per_Object = ObjectNamespace, per_Action = action, per_Domain = NamespaceResource name\<rparr>"

definition EffectiveNamespaces :: "'m pdp \<Rightarrow> 'm \<Rightarrow> string \<Rightarrow> Action \<Rightarrow> DomainSet" where
  "EffectiveNamespaces p m actor action =
     (let raw = EffectiveDomains p m actor ObjectNamespace action in
      if ds_Wildcard raw then \<lparr>ds_Wildcard = True, ds_Explicit = {}\<rparr>
      else \<lparr>ds_Wildcard = False, ds_Explicit = (\<lambda>d. trimPrefix d NamespaceResourcePrefix) ` ds_Explicit raw\<rparr>)"

definition HasGlobal :: "'m pdp \<Rightarrow> 'm \<Rightarrow> string \<Rightarrow> Object \<Rightarrow> Action \<Rightarrow> bool" where
  "HasGlobal p m actor object action =
     Has p m actor \<lparr>per_Object = object, per_Action = action, per_Domain = DomainAll\<rparr>"

definition HasForGroup :: "'m pdp \<Rightarrow> 'm \<Rightarrow> string \<Rightarrow> Permission \<Rightarrow> bool" where
  "HasForGroup p m groupName perm = Has p m (GroupResource groupName) perm"

fun dedupPermissions :: "string list list \<Rightarrow> Permission list \<Rightarrow> Permission list" where
  "dedupPermissions [] out = out"
| "dedupPermissions (rule # rules) out =
     (if length rule < pRuleLen then dedupPermissions rules out
      else
        let perm = \<lparr>per_Object = rule ! 2, per_Action = rule ! 3, per_Domain = rule ! 1\<rparr> in
        if perm \<in> set out then dedupPermissions rules out else dedupPermissions rules (out @ [perm]))"

definition permissionLess :: "Permission \<Rightarrow> Permission \<Rightarrow> bool" where
  "permissionLess a b =
     (if per_Object a \<noteq> per_Object b then per_Object a < per_Object b
      else if per_Action a \<noteq> per_Action b then per_Action a < per_Action b
      else per_Domain a < per_Domain b)"

definition ListPermissions :: "env \<Rightarrow> 'm pdp \<Rightarrow> 'm \<Rightarrow> string \<Rightarrow> err + Permission list" where
  "ListPermissions E p m subject =
     (if pdp_skip p then Ok [\<lparr>per_Object = ObjectAll, per_Action = ActionAll, per_Domain = DomainAll\<rparr>]
      else case cb_GetImplicitPermissionsForUser (pdp_lib p) m subject of
             Inl e \<Rightarrow> Err e
           | Inr rules \<Rightarrow> Ok (sortSliceBy E permissionLess (dedupPermissions rules [])))"

section \<open>The administration point\<close>

definition permOfRule :: "string list \<Rightarrow> Permission" where
  "permOfRule r = \<lparr>per_Object = r ! 2, per_Action = r ! 3, per_Domain = r ! 1\<rparr>"

definition PAP_Write ::
  "env \<Rightarrow> 'm casbin \<Rightarrow> jsonStrings \<Rightarrow> 'c ctx_scheme \<Rightarrow> ('c ctx_scheme \<Rightarrow> ('a, ('m, 'z) pworld_scheme) op)
     \<Rightarrow> ('a, ('m, 'z) pworld_scheme) op" where
  "PAP_Write E cb J c fn = Enforcer_WriteTx E cb J c fn"

definition GroupNamesFromScope :: "DomainSet \<Rightarrow> string set" where
  "GroupNamesFromScope scope = GroupNameFromSubject ` Set.filter IsGroupSubject (ds_Explicit scope)"

definition MembersOfScope :: "'m casbin \<Rightarrow> 'm \<Rightarrow> DomainSet \<Rightarrow> string set" where
  "MembersOfScope cb m scope =
     (\<Union>d \<in> Set.filter IsGroupSubject (ds_Explicit scope).
        set (filter (\<lambda>u. \<not> IsGroupSubject u) (GetMembersOfGroup cb m d)))"

definition PAP_GroupPermissions :: "'m casbin \<Rightarrow> 'm \<Rightarrow> string \<Rightarrow> Permission list" where
  "PAP_GroupPermissions cb m name =
     map permOfRule (filter (\<lambda>r. length r \<ge> pRuleLen \<and> r ! 0 = GroupResource name) (cb_GetPolicy cb m))"

definition GroupMembers :: "'m casbin \<Rightarrow> 'm \<Rightarrow> string \<Rightarrow> string list" where
  "GroupMembers cb m name = filter (\<lambda>u. \<not> IsGroupSubject u) (GetMembersOfGroup cb m (GroupResource name))"

definition UserGroupNames :: "'m casbin \<Rightarrow> 'm \<Rightarrow> string \<Rightarrow> err + string list" where
  "UserGroupNames cb m userID =
     (case cb_GetRolesForUser cb m userID MembershipDomain of
        Inl e \<Rightarrow> Err e
      | Inr subjects \<Rightarrow> Ok (map GroupNameFromSubject (filter IsGroupSubject subjects)))"

text \<open>The in-transaction view: a rule shorter than four columns would be an index out of range.\<close>

definition PAPTx_GroupPermissions ::
  "env \<Rightarrow> jsonStrings \<Rightarrow> 'c ctx_scheme \<Rightarrow> string \<Rightarrow> (Permission list, 'z world_scheme) op" where
  "PAPTx_GroupPermissions E J c name =
     bindT (Tx_GetPermissionsForSubject E J c (GroupResource name)) (\<lambda>rules.
     if list_all (\<lambda>r. length r \<ge> pRuleLen) rules then returnT (map permOfRule rules)
     else failT (Panic ''index out of range''))"

fun removePolicies ::
  "env \<Rightarrow> jsonStrings \<Rightarrow> 'c ctx_scheme \<Rightarrow> string \<Rightarrow> Permission list \<Rightarrow> (unit, ('m, 'z) pworld_scheme) op" where
  "removePolicies E J c subject [] = returnT ()"
| "removePolicies E J c subject (p # ps) =
     bindT (Tx_RemovePolicy E J c subject (per_Domain p) (per_Object p) (per_Action p)) (\<lambda>_.
     removePolicies E J c subject ps)"

fun addPolicies ::
  "env \<Rightarrow> jsonStrings \<Rightarrow> 'c ctx_scheme \<Rightarrow> string \<Rightarrow> Permission list \<Rightarrow> (unit, ('m, 'z) pworld_scheme) op" where
  "addPolicies E J c subject [] = returnT ()"
| "addPolicies E J c subject (p # ps) =
     bindT (Tx_AddPolicy E J c subject (per_Domain p) (per_Object p) (per_Action p)) (\<lambda>_.
     addPolicies E J c subject ps)"

definition ApplyPermissionDeltas ::
  "env \<Rightarrow> jsonStrings \<Rightarrow> 'c ctx_scheme \<Rightarrow> string \<Rightarrow> Permission list \<Rightarrow> Permission list
     \<Rightarrow> (unit, ('m, 'z) pworld_scheme) op" where
  "ApplyPermissionDeltas E J c name added removed =
     bindT (removePolicies E J c (GroupResource name) removed) (\<lambda>_.
     addPolicies E J c (GroupResource name) added)"

fun removeMembers ::
  "env \<Rightarrow> jsonStrings \<Rightarrow> 'c ctx_scheme \<Rightarrow> string \<Rightarrow> string list \<Rightarrow> (unit, ('m, 'z) pworld_scheme) op" where
  "removeMembers E J c subject [] = returnT ()"
| "removeMembers E J c subject (u # us) =
     bindT (Tx_RemoveRoleForUser E J c u subject MembershipDomain) (\<lambda>_. removeMembers E J c subject us)"

fun addMembers ::
  "env \<Rightarrow> jsonStrings \<Rightarrow> 'c ctx_scheme \<Rightarrow> string \<Rightarrow> string list \<Rightarrow> (unit, ('m, 'z) pworld_scheme) op" where
  "addMembers E J c subject [] = returnT ()"
| "addMembers E J c subject (u # us) =
     bindT (Tx_AddRoleForUser E J c u subject MembershipDomain) (\<lambda>_. addMembers E J c subject us)"

definition ApplyMemberDeltas ::
  "env \<Rightarrow> jsonStrings \<Rightarrow> 'c ctx_scheme \<Rightarrow> string \<Rightarrow> string list \<Rightarrow> string list
     \<Rightarrow> (unit, ('m, 'z) pworld_scheme) op" where
  "ApplyMemberDeltas E J c name added removed =
     bindT (removeMembers E J c (GroupResource name) removed) (\<lambda>_.
     addMembers E J c (GroupResource name) added)"

fun removeMemberships ::
  "env \<Rightarrow> jsonStrings \<Rightarrow> 'c ctx_scheme \<Rightarrow> string \<Rightarrow> string list \<Rightarrow> (unit, ('m, 'z) pworld_scheme) op" where
  "removeMemberships E J c userID [] = returnT ()"
| "removeMemberships E J c userID (name # names) =
     bindT (Tx_RemoveRoleForUser E J c userID (GroupResource name) MembershipDomain) (\<lambda>_.
     removeMemberships E J c userID names)"

fun addMemberships ::
  "env \<Rightarrow> jsonStrings \<Rightarrow> 'c ctx_scheme \<Rightarrow> string \<Rightarrow> string list \<Rightarrow> (unit, ('m, 'z) pworld_scheme) op" where
  "addMemberships E J c userID [] = returnT ()"
| "addMemberships E J c userID (name # names) =
     bindT (Tx_AddRoleForUser E J c userID (GroupResource name) MembershipDomain) (\<lambda>_.
     addMemberships E J c userID names)"

definition ApplyUserMembershipDeltas ::
  "env \<Rightarrow> jsonStrings \<Rightarrow> 'c ctx_scheme \<Rightarrow> string \<Rightarrow> string list \<Rightarrow> string list
     \<Rightarrow> (unit, ('m, 'z) pworld_scheme) op" where
  "ApplyUserMembershipDeltas E J c userID added removed =
     bindT (removeMemberships E J c userID removed) (\<lambda>_. addMemberships E J c userID added)"

definition PAPTx_DeleteGroup ::
  "env \<Rightarrow> jsonStrings \<Rightarrow> 'c ctx_scheme \<Rightarrow> string \<Rightarrow> (unit, ('m, 'z) pworld_scheme) op" where
  "PAPTx_DeleteGroup E J c name = Tx_DeleteUser E J c (GroupResource name)"

definition PAPTx_DeleteUser ::
  "env \<Rightarrow> jsonStrings \<Rightarrow> 'c ctx_scheme \<Rightarrow> string \<Rightarrow> (unit, ('m, 'z) pworld_scheme) op" where
  "PAPTx_DeleteUser E J c userID = Tx_DeleteUser E J c userID"

section \<open>Scope\<close>

fun resolveGroups :: "string list \<Rightarrow> 'z world_scheme \<Rightarrow> err + Group list" where
  "resolveGroups [] w = Ok []"
| "resolveGroups (name # names) w =
     (case Group_Get name w of
        Inl e \<Rightarrow> Err e
      | Inr g \<Rightarrow> (case resolveGroups names w of Inl e \<Rightarrow> Err e | Inr gs \<Rightarrow> Ok (g # gs)))"

definition resolveTargetGroups :: "'m pdp \<Rightarrow> string \<Rightarrow> ('m, 'z) pworld_scheme \<Rightarrow> err + Group list" where
  "resolveTargetGroups p target w =
     (case UserGroupNames (pdp_lib p) (cache w) target of
        Inl e \<Rightarrow> Err e | Inr names \<Rightarrow> resolveGroups names w)"

definition targetInGroupScope ::
  "'m pdp \<Rightarrow> string \<Rightarrow> string \<Rightarrow> Action \<Rightarrow> ('m, 'z) pworld_scheme \<Rightarrow> err + bool" where
  "targetInGroupScope p actor target action w =
     (case resolveTargetGroups p target w of
        Inl e \<Rightarrow> Err e
      | Inr groups \<Rightarrow> Ok (list_ex (\<lambda>g. HasGroup p (cache w) actor (grp_Name g) action) groups))"

definition CanReadUser :: "'m pdp \<Rightarrow> string \<Rightarrow> string \<Rightarrow> ('m, 'z) pworld_scheme \<Rightarrow> bool" where
  "CanReadUser p actor target w =
     (if HasGlobal p (cache w) actor ObjectUser ActionRead then True
      else case targetInGroupScope p actor target ActionRead w of Inl _ \<Rightarrow> False | Inr ok \<Rightarrow> ok)"

definition FilterVisibleUsers ::
  "'m pdp \<Rightarrow> string \<Rightarrow> string list \<Rightarrow> ('m, 'z) pworld_scheme \<Rightarrow> string list" where
  "FilterVisibleUsers p actor candidates w =
     (if candidates = [] then candidates
      else if HasGlobal p (cache w) actor ObjectUser ActionRead then candidates
      else filter (\<lambda>u. case targetInGroupScope p actor u ActionRead w of Inl _ \<Rightarrow> False | Inr ok \<Rightarrow> ok) candidates)"

definition VisibleUserGroupNames ::
  "'m pdp \<Rightarrow> string \<Rightarrow> string \<Rightarrow> ('m, 'z) pworld_scheme \<Rightarrow> err + string list" where
  "VisibleUserGroupNames p actor target w =
     (case resolveTargetGroups p target w of
        Inl e \<Rightarrow> Err e
      | Inr groups \<Rightarrow>
          Ok (map grp_Name (filter (\<lambda>g. HasGroup p (cache w) actor (grp_Name g) ActionRead) groups)))"

definition RequireMembershipGrant :: "'m pdp \<Rightarrow> string \<Rightarrow> string \<Rightarrow> ('m, 'z) pworld_scheme \<Rightarrow> err + unit" where
  "RequireMembershipGrant p actor groupName w =
     (if list_all (Has p (cache w) actor) (PAP_GroupPermissions (pdp_lib p) (cache w) groupName)
      then Ok () else Err ErrPermissionEscalation)"

definition RequireWriteUser :: "'m pdp \<Rightarrow> string \<Rightarrow> string \<Rightarrow> ('m, 'z) pworld_scheme \<Rightarrow> err + unit" where
  "RequireWriteUser p actor target w =
     (if HasGlobal p (cache w) actor ObjectUser ActionWrite then Ok ()
      else case targetInGroupScope p actor target ActionWrite w of
             Inl e \<Rightarrow> Err e | Inr ok \<Rightarrow> if ok then Ok () else Err ErrForbidden)"

section \<open>Handler gates\<close>

text \<open>\<^verbatim>\<open>Authz\<close>: the information of the request's context, if it is authenticated.\<close>

definition Authz_Require ::
  "'m pdp \<Rightarrow> 'm \<Rightarrow> AuthInfo option \<Rightarrow> Object \<Rightarrow> Action \<Rightarrow> string \<Rightarrow> err + unit" where
  "Authz_Require p m info object action domainStr =
     (case info of
        None \<Rightarrow> Err ErrUnauthorized
      | Some i \<Rightarrow>
          if \<not> Has p m (ai_UserID i) \<lparr>per_Object = object, per_Action = action, per_Domain = domainStr\<rparr>
          then Err ErrForbidden else Ok ())"

definition Authz_RequireUser ::
  "'m pdp \<Rightarrow> 'm \<Rightarrow> AuthInfo \<Rightarrow> Object \<Rightarrow> Action \<Rightarrow> string \<Rightarrow> err + unit" where
  "Authz_RequireUser p m user object action domainStr =
     (if \<not> Has p m (ai_UserID user) \<lparr>per_Object = object, per_Action = action, per_Domain = domainStr\<rparr>
      then Err ErrForbidden else Ok ())"

definition Authz_RequireNamespace ::
  "'m pdp \<Rightarrow> 'm \<Rightarrow> AuthInfo option \<Rightarrow> Action \<Rightarrow> string \<Rightarrow> err + unit" where
  "Authz_RequireNamespace p m info action name =
     Authz_Require p m info ObjectNamespace action (NamespaceResource name)"

definition Authz_RequireGroup ::
  "'m pdp \<Rightarrow> 'm \<Rightarrow> AuthInfo option \<Rightarrow> Action \<Rightarrow> string \<Rightarrow> err + unit" where
  "Authz_RequireGroup p m info action gid = Authz_Require p m info ObjectGroup action (GroupResource gid)"

definition Authz_RequireAuthenticated :: "AuthInfo option \<Rightarrow> err + unit" where
  "Authz_RequireAuthenticated info = (case info of None \<Rightarrow> Err ErrUnauthorized | Some _ \<Rightarrow> Ok ())"

end
