(* ===== verification/Sessions.thy ===== *)
theory Sessions
  imports Listing
begin

text \<open>
  User sessions: the repository and the audit log of \<^verbatim>\<open>src/internal/storage/bbolt/session\<close> and the
  service \<^verbatim>\<open>src/internal/service/auth/sessions\<close>. The service's clock is the production one, \<^verbatim>\<open>time.Now\<close>.
\<close>

section \<open>Random identifiers\<close>

definition b64urlAlphabet :: string where
  "b64urlAlphabet = ''ABCDEFGHIJKLMNOPQRSTUVWXYZabcdefghijklmnopqrstuvwxyz0123456789-_''"

definition b64char :: "nat \<Rightarrow> char" where
  "b64char n = b64urlAlphabet ! (n mod 64)"

text \<open>\<^verbatim>\<open>base64.URLEncoding.EncodeToString\<close>, with padding.\<close>

fun base64URL :: "bytes \<Rightarrow> string" where
  "base64URL [] = []"
| "base64URL [a] =
     [b64char (of_char a div 4), b64char (of_char a mod 4 * 16), CHR ''='', CHR ''='']"
| "base64URL [a, b] =
     [b64char (of_char a div 4), b64char (of_char a mod 4 * 16 + of_char b div 16),
      b64char (of_char b mod 16 * 4), CHR ''='']"
| "base64URL (a # b # c # rest) =
     [b64char (of_char a div 4), b64char (of_char a mod 4 * 16 + of_char b div 16),
      b64char (of_char b mod 16 * 4 + of_char c div 64), b64char (of_char c mod 64)] @ base64URL rest"

definition randRead :: "randomness \<Rightarrow> nat \<Rightarrow> (bytes, 'z rworld_scheme) op" where
  "randRead R n w = (R (draws w) n, w\<lparr>draws := Suc (draws w)\<rparr>)"

definition sessionIDBytes :: nat where "sessionIDBytes = 32"
definition eventIDBytes :: nat where "eventIDBytes = 16"

definition NewSessionID :: "randomness \<Rightarrow> (string, 'z rworld_scheme) op" where
  "NewSessionID R = bindT (randRead R sessionIDBytes) (\<lambda>b. returnT (base64URL b))"

definition NewEventID :: "randomness \<Rightarrow> (string, 'z rworld_scheme) op" where
  "NewEventID R = bindT (randRead R eventIDBytes) (\<lambda>b. returnT (base64URL b))"

section \<open>Keys\<close>

definition bucketSessions :: string where "bucketSessions = ''sessions''"
definition bucketSessionsByUser :: string where "bucketSessionsByUser = ''sessions_by_user''"
definition bucketSessionEvents :: string where "bucketSessionEvents = ''session_events''"
definition bucketSessionEventsBySession :: string where
  "bucketSessionEventsBySession = ''session_events_by_session''"
definition bucketSessionEventsByUser :: string where "bucketSessionEventsByUser = ''session_events_by_user''"

lemmas session_buckets =
  bucketSessions_def bucketSessionsByUser_def bucketSessionEvents_def bucketSessionEventsBySession_def
  bucketSessionEventsByUser_def

definition sessionByUserPrefix :: "string \<Rightarrow> bytes" where
  "sessionByUserPrefix userID = userID @ [CHR 0x00]"

definition sessionByUserKey :: "string \<Rightarrow> string \<Rightarrow> bytes" where
  "sessionByUserKey userID sessionID = sessionByUserPrefix userID @ sessionID"

definition sessionEventBySessionPrefix :: "string \<Rightarrow> bytes" where
  "sessionEventBySessionPrefix sessionID = sessionID @ [CHR 0x00]"

definition sessionEventBySessionKey :: "string \<Rightarrow> string \<Rightarrow> bytes" where
  "sessionEventBySessionKey sessionID eventID = sessionEventBySessionPrefix sessionID @ eventID"

definition sessionEventByUserPrefix :: "string \<Rightarrow> bytes" where
  "sessionEventByUserPrefix userID = userID @ [CHR 0x00]"

definition sessionEventByUserKey :: "string \<Rightarrow> string \<Rightarrow> bytes" where
  "sessionEventByUserKey userID eventID = sessionEventByUserPrefix userID @ eventID"

text \<open>The ids that an index lists under a prefix: \<^verbatim>\<open>len(k) > len(prefix) && hasPrefix(k, prefix)\<close>.\<close>

definition indexIDs :: "bytes \<Rightarrow> bucket \<Rightarrow> string list" where
  "indexIDs p b = map (\<lambda>e. drop (length p) (fst e)) (filter (\<lambda>e. length p < length (fst e) \<and> prefix p (fst e)) b)"

section \<open>Session repository\<close>

definition Session_Get :: "string \<Rightarrow> 'z world_scheme \<Rightarrow> err + Session" where
  "Session_Get sid w =
     (case boltGet sessionCodec bucketSessions sid w of
        Inl e \<Rightarrow> if e = ErrBboltNotFound then Err (ErrResourceNotFound sid) else Err e
      | Inr m \<Rightarrow> Ok (SessionMetaToDomain m))"

text \<open>\<^verbatim>\<open>Put(key, nil)\<close> stores the empty value.\<close>

definition Session_Create :: "env \<Rightarrow> querier \<Rightarrow> Session \<Rightarrow> (unit, 'z world_scheme) op" where
  "Session_Create E q s =
     bindT (boltPut E sessionCodec q bucketSessions (ses_ID s) (DomainToSessionMeta s)) (\<lambda>_.
     bucket_Put E q bucketSessionsByUser (sessionByUserKey (ses_UserID s) (ses_ID s)) (Raw []))"

definition Session_Update :: "env \<Rightarrow> querier \<Rightarrow> Session \<Rightarrow> (unit, 'z world_scheme) op" where
  "Session_Update E q s =
     bindT (readT (\<lambda>w. if \<not> boltExists bucketSessions (ses_ID s) w
                        then Err (ErrResourceNotFound (ses_ID s)) else Ok ())) (\<lambda>_.
     boltPut E sessionCodec q bucketSessions (ses_ID s) (DomainToSessionMeta s))"

fun loadSessions :: "bool \<Rightarrow> string list \<Rightarrow> 'z world_scheme \<Rightarrow> err + Session list" where
  "loadSessions activeOnly [] w = Ok []"
| "loadSessions activeOnly (sid # sids) w =
     (case boltGet sessionCodec bucketSessions sid w of
        Inl e \<Rightarrow> if e = ErrBboltNotFound then loadSessions activeOnly sids w else Err e
      | Inr m \<Rightarrow>
          (case loadSessions activeOnly sids w of
             Inl e \<Rightarrow> Err e
           | Inr ss \<Rightarrow>
               if activeOnly \<and> smt_RevokedAt m \<noteq> None then Ok ss else Ok (SessionMetaToDomain m # ss)))"

definition listByUserPrefix ::
  "env \<Rightarrow> querier \<Rightarrow> string \<Rightarrow> bool \<Rightarrow> 'z world_scheme \<Rightarrow> err + Session list" where
  "listByUserPrefix E q userID activeOnly w =
     (case bucket_ForEach E q bucketSessionsByUser w of
        Inl e \<Rightarrow> Err e
      | Inr b \<Rightarrow> loadSessions activeOnly (indexIDs (sessionByUserPrefix userID) b) w)"

definition Session_ListByUser ::
  "env \<Rightarrow> querier \<Rightarrow> string \<Rightarrow> 'z world_scheme \<Rightarrow> err + Session list" where
  "Session_ListByUser E q userID = listByUserPrefix E q userID False"

definition Session_ListActiveByUser ::
  "env \<Rightarrow> querier \<Rightarrow> string \<Rightarrow> 'z world_scheme \<Rightarrow> err + Session list" where
  "Session_ListActiveByUser E q userID = listByUserPrefix E q userID True"

definition collectSessionIDsForUser ::
  "env \<Rightarrow> querier \<Rightarrow> bytes \<Rightarrow> 'z world_scheme \<Rightarrow> err + string list" where
  "collectSessionIDsForUser E q p w =
     (case bucket_ForEach E q bucketSessionsByUser w of Inl e \<Rightarrow> Err e | Inr b \<Rightarrow> Ok (indexIDs p b))"

definition revokeSessionIfActive ::
  "env \<Rightarrow> querier \<Rightarrow> string \<Rightarrow> string \<Rightarrow> time \<Rightarrow> (bool, 'z world_scheme) op" where
  "revokeSessionIfActive E q sid revokedBy now w =
     (case boltGet sessionCodec bucketSessions sid w of
        Inl e \<Rightarrow> if e = ErrBboltNotFound then (Ok False, w) else (Err e, w)
      | Inr m \<Rightarrow>
          if smt_RevokedAt m \<noteq> None then (Ok False, w)
          else
            bindT (boltPut E sessionCodec q bucketSessions sid
                     (m\<lparr>smt_RevokedAt := Some now, smt_RevokedBy := revokedBy\<rparr>)) (\<lambda>_. returnT True) w)"

fun revokeLoop ::
  "env \<Rightarrow> querier \<Rightarrow> string list \<Rightarrow> string \<Rightarrow> time \<Rightarrow> int \<Rightarrow> (int, 'z world_scheme) op" where
  "revokeLoop E q [] revokedBy now count = returnT count"
| "revokeLoop E q (sid # sids) revokedBy now count =
     bindT (revokeSessionIfActive E q sid revokedBy now) (\<lambda>revoked.
     revokeLoop E q sids revokedBy now (if revoked then count + 1 else count))"

definition Session_RevokeAllForUser ::
  "env \<Rightarrow> querier \<Rightarrow> string \<Rightarrow> string \<Rightarrow> (int, 'z world_scheme) op" where
  "Session_RevokeAllForUser E q userID revokedBy =
     bindT (timeNow E) (\<lambda>now.
     bindT (readT (collectSessionIDsForUser E q (sessionByUserPrefix userID))) (\<lambda>ids.
     revokeLoop E q ids revokedBy now 0))"

section \<open>Event repository\<close>

definition SessionEvent_Append :: "env \<Rightarrow> querier \<Rightarrow> SessionEvent \<Rightarrow> (unit, 'z world_scheme) op" where
  "SessionEvent_Append E q e =
     bindT (whenErr (SessionEvent_Validate e)) (\<lambda>_.
     bindT (boltPut E sessionEventCodec q bucketSessionEvents (sev_ID e) (DomainToSessionEventMeta e)) (\<lambda>_.
     bindT (bucket_Put E q bucketSessionEventsBySession
              (sessionEventBySessionKey (sev_SessionID e) (sev_ID e)) (Raw [])) (\<lambda>_.
     bucket_Put E q bucketSessionEventsByUser (sessionEventByUserKey (sev_UserID e) (sev_ID e)) (Raw []))))"

fun loadEvents :: "string list \<Rightarrow> 'z world_scheme \<Rightarrow> err + SessionEvent list" where
  "loadEvents [] w = Ok []"
| "loadEvents (eid # eids) w =
     (case boltGet sessionEventCodec bucketSessionEvents eid w of
        Inl e \<Rightarrow> if e = ErrBboltNotFound then loadEvents eids w else Err e
      | Inr m \<Rightarrow>
          (case loadEvents eids w of
             Inl e \<Rightarrow> Err e
           | Inr es \<Rightarrow> Ok (SessionEventMetaToDomain m # es)))"

definition SessionEvent_listByPrefix ::
  "env \<Rightarrow> querier \<Rightarrow> string \<Rightarrow> bytes \<Rightarrow> 'z world_scheme \<Rightarrow> err + SessionEvent list" where
  "SessionEvent_listByPrefix E q indexBucket p w =
     (case bucket_ForEach E q indexBucket w of
        Inl e \<Rightarrow> Err e | Inr b \<Rightarrow> loadEvents (indexIDs p b) w)"

definition SessionEvent_ListBySession ::
  "env \<Rightarrow> querier \<Rightarrow> string \<Rightarrow> 'z world_scheme \<Rightarrow> err + SessionEvent list" where
  "SessionEvent_ListBySession E q sessionID =
     SessionEvent_listByPrefix E q bucketSessionEventsBySession (sessionEventBySessionPrefix sessionID)"

definition SessionEvent_ListByUser ::
  "env \<Rightarrow> querier \<Rightarrow> string \<Rightarrow> int64 \<Rightarrow> int64 \<Rightarrow> 'z world_scheme \<Rightarrow> err + SessionEvent list" where
  "SessionEvent_ListByUser E q userID limit offset w =
     (case SessionEvent_listByPrefix E q bucketSessionEventsByUser (sessionEventByUserPrefix userID) w of
        Inl e \<Rightarrow> Err e
      | Inr evs \<Rightarrow> paginate evs offset limit)"

section \<open>The session service\<close>

definition second :: int where "second = 1000000000"

definition defaultWebTTL :: int where "defaultWebTTL = 8 * 3600 * second"
definition defaultCLITTL :: int where "defaultCLITTL = 30 * 24 * 3600 * second"
definition maxWebSlidingTTL :: int where "maxWebSlidingTTL = 30 * 24 * 3600 * second"
definition refreshThrottle :: int where "refreshThrottle = 60 * second"
definition refreshMinDelta :: int where "refreshMinDelta = 5 * 60 * second"

text \<open>\<^verbatim>\<open>t.Sub(u)\<close>, which saturates.\<close>

definition timeSub :: "time \<Rightarrow> time \<Rightarrow> int64" where
  "timeSub t u = max (- (2 ^ 63)) (min (2 ^ 63 - 1) (t - u))"

record CreateParams =
  cp_UserID :: string
  cp_ClientType :: string
  cp_IP :: string
  cp_UserAgent :: string

definition Sessions_Create ::
  "env \<Rightarrow> randomness \<Rightarrow> 'c ctx_scheme \<Rightarrow> CreateParams \<Rightarrow> (Session, 'z rworld_scheme) op" where
  "Sessions_Create E R c params =
     bindT (NewSessionID R) (\<lambda>sid.
     bindT (NewEventID R) (\<lambda>eventID.
     bindT (timeNow E) (\<lambda>now.
     let ttl = (if cp_ClientType params = ClientTypeCLI then defaultCLITTL else defaultWebTTL);
         sess = \<lparr>ses_ID = sid, ses_UserID = cp_UserID params, ses_ClientType = cp_ClientType params,
                 ses_IP = cp_IP params, ses_UserAgent = cp_UserAgent params, ses_CreatedAt = now,
                 ses_LastSeenAt = now, ses_ExpiresAt = now + ttl, ses_RevokedAt = None, ses_RevokedBy = []\<rparr>;
         event = \<lparr>sev_ID = eventID, sev_SessionID = sid, sev_UserID = cp_UserID params,
                  sev_Type = SessionEventCreated, sev_Reason = [], sev_IP = cp_IP params,
                  sev_UserAgent = cp_UserAgent params, sev_Timestamp = now\<rparr>
     in bindT (Session_Create E (GetQuerier c) sess) (\<lambda>_.
        bindT (SessionEvent_Append E (GetQuerier c) event) (\<lambda>_.
        returnT sess)))))"

definition Sessions_Validate :: "env \<Rightarrow> string \<Rightarrow> (Session, 'z world_scheme) op" where
  "Sessions_Validate E sid =
     bindT (readT (Session_Get sid)) (\<lambda>sess.
     bindT (timeNow E) (\<lambda>now.
     bindT (whenErr (EnsureActive sess now)) (\<lambda>_.
     returnT sess)))"

text \<open>The session after \<^verbatim>\<open>applySliding\<close>, and whether its expiry moved.\<close>

definition applySliding :: "Session \<Rightarrow> time \<Rightarrow> Session \<times> bool" where
  "applySliding sess now =
     (if ses_ClientType sess \<noteq> ClientTypeWeb then (sess, False)
      else
        let hardCap = ses_CreatedAt sess + maxWebSlidingTTL;
            newExpires = (if hardCap < now + defaultWebTTL then hardCap else now + defaultWebTTL)
        in if timeSub newExpires (ses_ExpiresAt sess) \<le> refreshMinDelta then (sess, False)
           else (sess\<lparr>ses_ExpiresAt := newExpires\<rparr>, True))"

definition persistRefresh ::
  "env \<Rightarrow> randomness \<Rightarrow> 'c ctx_scheme \<Rightarrow> Session \<Rightarrow> time \<Rightarrow> bool \<Rightarrow> (unit, 'z rworld_scheme) op" where
  "persistRefresh E R c sess now appendEvent =
     bindT (Session_Update E (GetQuerier c) sess) (\<lambda>_.
     if \<not> appendEvent then returnT ()
     else
       bindT (NewEventID R) (\<lambda>eventID.
       SessionEvent_Append E (GetQuerier c)
         \<lparr>sev_ID = eventID, sev_SessionID = ses_ID sess, sev_UserID = ses_UserID sess,
          sev_Type = SessionEventRefreshed, sev_Reason = [], sev_IP = [], sev_UserAgent = [],
          sev_Timestamp = now\<rparr>))"

definition Sessions_Refresh ::
  "env \<Rightarrow> randomness \<Rightarrow> 'c ctx_scheme \<Rightarrow> string \<Rightarrow> (unit, 'z rworld_scheme) op" where
  "Sessions_Refresh E R c sid =
     bindT (readT (Session_Get sid)) (\<lambda>sess.
     bindT (timeNow E) (\<lambda>now.
     if EnsureActive sess now \<noteq> Ok () then returnT ()
     else if timeSub now (ses_LastSeenAt sess) < refreshThrottle then returnT ()
     else
       (case applySliding sess now of
          (sess', appendEvent) \<Rightarrow>
            persistRefresh E R c (sess'\<lparr>ses_LastSeenAt := now\<rparr>) now appendEvent)))"

definition Sessions_Revoke ::
  "env \<Rightarrow> randomness \<Rightarrow> 'c ctx_scheme \<Rightarrow> string \<Rightarrow> string \<Rightarrow> string \<Rightarrow> SessionEventType
     \<Rightarrow> (unit, 'z rworld_scheme) op" where
  "Sessions_Revoke E R c sid revokedBy reason eventType =
     bindT (readT (Session_Get sid)) (\<lambda>sess.
     bindT (timeNow E) (\<lambda>now.
     let sess = sess\<lparr>ses_RevokedAt := Some now, ses_RevokedBy := revokedBy\<rparr> in
     bindT (NewEventID R) (\<lambda>eventID.
     bindT (Session_Update E (GetQuerier c) sess) (\<lambda>_.
     SessionEvent_Append E (GetQuerier c)
       \<lparr>sev_ID = eventID, sev_SessionID = ses_ID sess, sev_UserID = ses_UserID sess,
        sev_Type = eventType, sev_Reason = reason, sev_IP = [], sev_UserAgent = [],
        sev_Timestamp = now\<rparr>))))"

fun appendCascade ::
  "env \<Rightarrow> randomness \<Rightarrow> 'c ctx_scheme \<Rightarrow> Session list \<Rightarrow> string \<Rightarrow> time \<Rightarrow> (unit, 'z rworld_scheme) op" where
  "appendCascade E R c [] reason now = returnT ()"
| "appendCascade E R c (sess # rest) reason now =
     bindT (NewEventID R) (\<lambda>eventID.
     bindT (SessionEvent_Append E (GetQuerier c)
       \<lparr>sev_ID = eventID, sev_SessionID = ses_ID sess, sev_UserID = ses_UserID sess,
        sev_Type = SessionEventRevokedCascade, sev_Reason = reason, sev_IP = [], sev_UserAgent = [],
        sev_Timestamp = now\<rparr>) (\<lambda>_.
     appendCascade E R c rest reason now))"

definition Sessions_RevokeAllForUser ::
  "env \<Rightarrow> randomness \<Rightarrow> 'c ctx_scheme \<Rightarrow> string \<Rightarrow> string \<Rightarrow> string \<Rightarrow> (unit, 'z rworld_scheme) op" where
  "Sessions_RevokeAllForUser E R c userID revokedBy reason =
     bindT (timeNow E) (\<lambda>now.
     bindT (readT (Session_ListActiveByUser E (GetQuerier c) userID)) (\<lambda>active.
     bindT (Session_RevokeAllForUser E (GetQuerier c) userID revokedBy) (\<lambda>_.
     appendCascade E R c active reason now)))"

definition Sessions_ListMine ::
  "env \<Rightarrow> 'c ctx_scheme \<Rightarrow> string \<Rightarrow> (Session list, 'z world_scheme) op" where
  "Sessions_ListMine E c userID = readT (Session_ListActiveByUser E (GetQuerier c) userID)"

definition Sessions_ListByUser ::
  "env \<Rightarrow> 'c ctx_scheme \<Rightarrow> string \<Rightarrow> (Session list, 'z world_scheme) op" where
  "Sessions_ListByUser E c targetID = readT (Session_ListByUser E (GetQuerier c) targetID)"

definition Sessions_ListEvents ::
  "env \<Rightarrow> 'c ctx_scheme \<Rightarrow> string \<Rightarrow> int64 \<Rightarrow> int64 \<Rightarrow> (SessionEvent list, 'z world_scheme) op" where
  "Sessions_ListEvents E c userID limit offset =
     readT (SessionEvent_ListByUser E (GetQuerier c) userID limit offset)"

end
