(* ===== verification/Tokens.thy ===== *)
theory Tokens
  imports Policies Sessions EtcdKeys
begin

text \<open>
  Service tokens: the repository \<^verbatim>\<open>src/internal/storage/bbolt/token\<close> and the use case
  \<^verbatim>\<open>src/internal/usecase/token\<close>. The identifiers of \<^verbatim>\<open>google/uuid\<close> are a parameter: the n-th one drawn.
\<close>

section \<open>Repository\<close>

definition bucketTokens :: string where "bucketTokens = ''auth_tokens''"
definition bucketTokensByID :: string where "bucketTokensByID = ''auth_token_by_id''"

definition Token_Create :: "env \<Rightarrow> querier \<Rightarrow> Token \<Rightarrow> (unit, 'z world_scheme) op" where
  "Token_Create E q token =
     bindT (readT (\<lambda>w. if boltExists bucketTokens (tok_TokenHash token) w
                        then Err (ErrResourceAlreadyExists (tok_ID token)) else Ok ())) (\<lambda>_.
     bindT (boltPut E tokenCodec q bucketTokens (tok_TokenHash token) (DomainToTokenMeta token)) (\<lambda>_.
     bucket_Put E q bucketTokensByID (tok_ID token) (Raw (tok_TokenHash token))))"

definition Token_GetByHash :: "string \<Rightarrow> 'z world_scheme \<Rightarrow> err + Token" where
  "Token_GetByHash tokenHash w =
     (case boltGet tokenCodec bucketTokens tokenHash w of
        Inl e \<Rightarrow> if e = ErrBboltNotFound then Err (ErrResourceNotFound tokenHash) else Err e
      | Inr m \<Rightarrow> Ok (TokenMetaToDomain m))"

definition Token_GetByID :: "string \<Rightarrow> 'z world_scheme \<Rightarrow> err + Token" where
  "Token_GetByID tid w =
     (case bucket_Get bucketTokensByID tid w of
        None \<Rightarrow> Err (ErrResourceNotFound tid)
      | Some hashBytes \<Rightarrow>
          (case boltGet tokenCodec bucketTokens (rawBytes (Some hashBytes)) w of
             Inl e \<Rightarrow> if e = ErrBboltNotFound then Err (ErrResourceNotFound tid) else Err e
           | Inr m \<Rightarrow> Ok (TokenMetaToDomain m)))"

definition Token_Delete :: "env \<Rightarrow> querier \<Rightarrow> string \<Rightarrow> (unit, 'z world_scheme) op" where
  "Token_Delete E q tid =
     bindT (readT (\<lambda>w. case bucket_Get bucketTokensByID tid w of
         None \<Rightarrow> Err (ErrResourceNotFound tid) | Some h \<Rightarrow> Ok (rawBytes (Some h)))) (\<lambda>tokenHash.
     bindT (bucket_Delete E q bucketTokensByID tid) (\<lambda>_.
     boltDelete E q bucketTokens tokenHash))"

text \<open>
  Outside a transaction the read and the write of \<^verbatim>\<open>UpdateLastUsed\<close> are two transactions of the engine;
  they are two definitions, so that other operations can come between them.
\<close>

definition lastUsedRead :: "string \<Rightarrow> 'z world_scheme \<Rightarrow> err + TokenMeta" where
  "lastUsedRead tokenHash w =
     (case boltGet tokenCodec bucketTokens tokenHash w of
        Inl e \<Rightarrow> if e = ErrBboltNotFound then Err (ErrResourceNotFound tokenHash) else Err e
      | Inr m \<Rightarrow> Ok m)"

definition lastUsedWrite ::
  "env \<Rightarrow> querier \<Rightarrow> string \<Rightarrow> string \<Rightarrow> time \<Rightarrow> TokenMeta \<Rightarrow> (unit, 'z world_scheme) op" where
  "lastUsedWrite E q tokenHash ip at m =
     boltPut E tokenCodec q bucketTokens tokenHash (m\<lparr>tmt_LastUsedAt := Some at, tmt_LastUsedIP := ip\<rparr>)"

definition Token_UpdateLastUsed ::
  "env \<Rightarrow> querier \<Rightarrow> string \<Rightarrow> string \<Rightarrow> time \<Rightarrow> (unit, 'z world_scheme) op" where
  "Token_UpdateLastUsed E q tokenHash ip at =
     bindT (readT (lastUsedRead tokenHash)) (lastUsedWrite E q tokenHash ip at)"

definition namespaceMatches :: "Token \<Rightarrow> TokenFilter \<Rightarrow> bool" where
  "namespaceMatches t flt =
     (if tf_AnyNamespace flt then True
      else list_ex (\<lambda>ns. ns \<in> tf_NamespaceScopes flt) (tok_Namespaces t))"

definition explicitNamespaceMatches :: "Token \<Rightarrow> string list \<Rightarrow> bool" where
  "explicitNamespaceMatches t namespaces =
     (if namespaces = [] then True else list_ex (\<lambda>ns. List.member namespaces ns) (tok_Namespaces t))"

definition queryMatches :: "env \<Rightarrow> string \<Rightarrow> string list \<Rightarrow> bool" where
  "queryMatches E name queries =
     (if queries = [] then True
      else list_ex (\<lambda>q. q \<noteq> [] \<and> containsStr (toLower E name) (toLower E q)) queries)"

definition tokenSelected :: "env \<Rightarrow> TokenFilter \<Rightarrow> TokenMeta \<Rightarrow> bool" where
  "tokenSelected E flt m =
     (if tf_IssuedBy flt \<noteq> [] \<and> \<not> List.member (tf_IssuedBy flt) (tmt_IssuedBy m) then False
      else
        let tok = TokenMetaToDomain m in
        namespaceMatches tok flt \<and> explicitNamespaceMatches tok (tf_Namespaces flt) \<and>
        queryMatches E (tok_Name tok) (tf_QueryParams flt))"

fun listTokensLoop :: "env \<Rightarrow> TokenFilter \<Rightarrow> bucket \<Rightarrow> err + Token list" where
  "listTokensLoop E flt [] = Ok []"
| "listTokensLoop E flt ((k, v) # rest) =
     (case Unmarshal tokenCodec v of
        None \<Rightarrow> Err ErrDecode
      | Some m \<Rightarrow>
          (case listTokensLoop E flt rest of
             Inl e \<Rightarrow> Err e
           | Inr ts \<Rightarrow> Ok (if tokenSelected E flt m then TokenMetaToDomain m # ts else ts)))"

definition lastUsedBefore :: "Token \<Rightarrow> Token \<Rightarrow> bool" where
  "lastUsedBefore a b =
     (case (tok_LastUsedAt a, tok_LastUsedAt b) of
        (None, None) \<Rightarrow> tok_CreatedAt a < tok_CreatedAt b
      | (None, Some _) \<Rightarrow> True
      | (Some _, None) \<Rightarrow> False
      | (Some x, Some y) \<Rightarrow> x < y)"

definition tokenLess :: "SortParams \<Rightarrow> Token \<Rightarrow> Token \<Rightarrow> bool" where
  "tokenLess params a b =
     (let l = (if sort_Field params = ''name'' then tok_Name a < tok_Name b
               else if sort_Field params = ''last_used'' then lastUsedBefore a b
               else tok_CreatedAt a > tok_CreatedAt b)
      in if sort_Desc params then \<not> l else l)"

definition sortTokens :: "env \<Rightarrow> SortParams \<Rightarrow> Token list \<Rightarrow> Token list" where
  "sortTokens E params tokens = sortSliceBy E (tokenLess params) tokens"

definition Token_List ::
  "env \<Rightarrow> querier \<Rightarrow> TokenFilter \<Rightarrow> int64 \<Rightarrow> int64 \<Rightarrow> SortParams \<Rightarrow> 'z world_scheme
     \<Rightarrow> err + (Token list \<times> int)" where
  "Token_List E q flt limit offset sortBy w =
     (case bucket_ForEach E q bucketTokens w of
        Inl e \<Rightarrow> Err e
      | Inr b \<Rightarrow>
          (case listTokensLoop E flt b of
             Inl e \<Rightarrow> Err e
           | Inr found \<Rightarrow>
               (let out = sortTokens E sortBy found in
                case paginate out offset limit of
                  Inl e \<Rightarrow> Err e | Inr page \<Rightarrow> Ok (page, int (length out)))))"

definition Token_ListAll :: "env \<Rightarrow> querier \<Rightarrow> 'z world_scheme \<Rightarrow> err + Token list" where
  "Token_ListAll E q w =
     (case Token_List E q \<lparr>tf_NamespaceScopes = {}, tf_AnyNamespace = True, tf_IssuedBy = [], tf_Namespaces = [],
             tf_QueryParams = []\<rparr> 0 0 \<lparr>sort_Field = [], sort_Desc = False\<rparr> w of
        Inl e \<Rightarrow> Err e | Inr (tokens, _) \<Rightarrow> Ok tokens)"

section \<open>Use case\<close>

definition tokenPrefix :: string where "tokenPrefix = ''elara_''"
definition tokenRandBytes :: nat where "tokenRandBytes = 32"

text \<open>\<^verbatim>\<open>base64.RawURLEncoding\<close>: the padding is left out.\<close>

definition base64RawURL :: "bytes \<Rightarrow> string" where
  "base64RawURL b = takeWhile (\<lambda>c. c \<noteq> CHR ''='') (base64URL b)"

definition generateRawToken :: "env \<Rightarrow> randomness \<Rightarrow> (string \<times> string, 'z rworld_scheme) op" where
  "generateRawToken E R =
     bindT (randRead R tokenRandBytes) (\<lambda>b.
     let raw = tokenPrefix @ base64RawURL b in returnT (raw, sha256hex E raw))"

type_synonym uuids = "nat \<Rightarrow> string"

definition uuidNew :: "uuids \<Rightarrow> (string, 'z rworld_scheme) op" where
  "uuidNew U w = (Ok (U (draws w)), w\<lparr>draws := Suc (draws w)\<rparr>)"

record CreateInput =
  ci_Name :: string
  ci_Namespaces :: "string list"
  ci_Role :: Role
  ci_ExpiresAt :: "time option"

definition configActionForRole :: "Role \<Rightarrow> err + Action" where
  "configActionForRole role =
     (if role = RoleReader then Ok ActionRead
      else if role = RoleWriter then Ok ActionWrite
      else Err (ErrValidation ''role'' ''must be reader or writer''))"

definition TokenService_Create ::
  "env \<Rightarrow> randomness \<Rightarrow> uuids \<Rightarrow> 'm pdp \<Rightarrow> 'm \<Rightarrow> 'c ctx_scheme \<Rightarrow> AuthInfo \<Rightarrow> CreateInput
     \<Rightarrow> (Token \<times> string, 'z rworld_scheme) op" where
  "TokenService_Create E R U p m c user inp =
     (if ci_Namespaces inp = []
      then failT (ErrValidation ''namespaces'' ''at least one namespace is required'')
      else
        case configActionForRole (ci_Role inp) of
          Inl e \<Rightarrow> failT e
        | Inr action \<Rightarrow>
            if \<not> list_all (\<lambda>ns. HasNamespace p m (ai_UserID user) ns action) (ci_Namespaces inp)
            then failT ErrPermissionEscalation
            else
              bindT (generateRawToken E R) (\<lambda>(rawToken, tokenHash).
              bindT (uuidNew U) (\<lambda>tid.
              bindT (timeNow E) (\<lambda>now.
              let token = \<lparr>tok_ID = tid, tok_IssuedBy = ai_Email user, tok_Name = ci_Name inp,
                           tok_TokenHash = tokenHash, tok_Namespaces = ci_Namespaces inp, tok_Role = ci_Role inp,
                           tok_ExpiresAt = ci_ExpiresAt inp, tok_LastUsedAt = None, tok_LastUsedIP = [],
                           tok_CreatedAt = now\<rparr>
              in
              bindT (whenErr (Token_Validate token)) (\<lambda>_.
              bindT (Token_Create E (GetQuerier c) token) (\<lambda>_.
              returnT (token, rawToken)))))))"

definition mapTokenErr :: "string \<Rightarrow> err \<Rightarrow> err" where
  "mapTokenErr tid e = (case e of ErrResourceNotFound _ \<Rightarrow> NewNotFoundError ''token'' tid | _ \<Rightarrow> e)"

definition tokenPermitted :: "'m pdp \<Rightarrow> 'm \<Rightarrow> string \<Rightarrow> Action \<Rightarrow> Token \<Rightarrow> bool" where
  "tokenPermitted p m user action t =
     list_ex (\<lambda>ns. Has p m user \<lparr>per_Object = ObjectToken, per_Action = action, per_Domain = ns\<rparr>) (tok_Namespaces t)"

definition TokenService_Get ::
  "'m pdp \<Rightarrow> 'm \<Rightarrow> AuthInfo \<Rightarrow> string \<Rightarrow> 'z world_scheme \<Rightarrow> err + Token" where
  "TokenService_Get p m user tid w =
     (case Token_GetByID tid w of
        Inl e \<Rightarrow> Err (mapTokenErr tid e)
      | Inr t \<Rightarrow> if tokenPermitted p m (ai_UserID user) ActionRead t then Ok t else Err ErrForbidden)"

record TokenListParams =
  tlp_Limit :: int64
  tlp_Offset :: int64
  tlp_Sort :: SortParams
  tlp_QueryParams :: "string list"
  tlp_IssuedBy :: "string list"
  tlp_Namespaces :: "string list"

definition tokenListLimit :: int64 where "tokenListLimit = 20"

definition TokenService_List ::
  "env \<Rightarrow> 'm pdp \<Rightarrow> 'm \<Rightarrow> 'c ctx_scheme \<Rightarrow> AuthInfo \<Rightarrow> TokenListParams \<Rightarrow> 'z world_scheme
     \<Rightarrow> err + (Token list \<times> int \<times> int64 \<times> int64)" where
  "TokenService_List E p m c user params w =
     (let limit = (if tlp_Limit params \<le> 0 then tokenListLimit else tlp_Limit params);
          scope = EffectiveDomains p m (ai_UserID user) ObjectToken ActionRead
      in if DomainSet_IsEmpty scope then Ok ([], 0, limit, tlp_Offset params)
         else
           (case Token_List E (GetQuerier c)
                   \<lparr>tf_NamespaceScopes = ds_Explicit scope, tf_AnyNamespace = ds_Wildcard scope,
                    tf_IssuedBy = tlp_IssuedBy params, tf_Namespaces = tlp_Namespaces params,
                    tf_QueryParams = tlp_QueryParams params\<rparr>
                   limit (tlp_Offset params) (tlp_Sort params) w of
              Inl e \<Rightarrow> Err e
            | Inr (tokens, n) \<Rightarrow> Ok (tokens, n, limit, tlp_Offset params)))"

definition TokenService_Revoke ::
  "env \<Rightarrow> 'm pdp \<Rightarrow> 'm \<Rightarrow> 'c ctx_scheme \<Rightarrow> AuthInfo \<Rightarrow> string \<Rightarrow> (unit, 'z world_scheme) op" where
  "TokenService_Revoke E p m c user tid =
     bindT (readT (\<lambda>w. case Token_GetByID tid w of Inl e \<Rightarrow> Err (mapTokenErr tid e) | Inr t \<Rightarrow> Ok t)) (\<lambda>t.
     if \<not> tokenPermitted p m (ai_UserID user) ActionWrite t then failT ErrForbidden
     else Token_Delete E (GetQuerier c) tid)"

section \<open>The interceptor\<close>

text \<open>
  The interceptor of the etcd API, \<^verbatim>\<open>src/internal/handler/etcdv3/interceptor/auth.go\<close>, which turns the bearer
  token of a request into the claims that the servers check. The values of the authorization header are an
  argument, None when the request carries no metadata; the peer address too. The answer has, beside the
  claims, the hash and the address for the update of the last use, which runs in a goroutine of its own.
\<close>

datatype unauthenticated = Unauthenticated string

definition bearerPrefix :: string where "bearerPrefix = ''Bearer ''"
definition interceptorTokenPrefix :: string where "interceptorTokenPrefix = ''elara_''"

definition extractBearerToken :: "string list option \<Rightarrow> unauthenticated + string" where
  "extractBearerToken md =
     (case md of
        None \<Rightarrow> Inl (Unauthenticated ''missing authorization header'')
      | Some [] \<Rightarrow> Inl (Unauthenticated ''missing authorization header'')
      | Some (authHeader # _) \<Rightarrow>
          if \<not> hasPrefix authHeader bearerPrefix
          then Inl (Unauthenticated ''invalid authorization header format'')
          else
            let rawToken = trimPrefix authHeader bearerPrefix in
            if \<not> hasPrefix rawToken interceptorTokenPrefix
            then Inl (Unauthenticated ''invalid token format'')
            else Inr rawToken)"

definition bypassClaims :: Claims where
  "bypassClaims = \<lparr>clm_Email = ''local-admin@elara.internal'', clm_Name = ''Local Admin'',
     clm_Namespaces = [''*''], clm_Role = ''admin''\<rparr>"

definition rejectOrBypass :: "bool \<Rightarrow> string \<Rightarrow> unauthenticated + Claims \<times> (string \<times> string) option" where
  "rejectOrBypass skipPermissions msg =
     (if skipPermissions then Inr (bypassClaims, None) else Inl (Unauthenticated msg))"

definition tokenClaims :: "Token \<Rightarrow> Claims" where
  "tokenClaims t = \<lparr>clm_Email = tok_IssuedBy t, clm_Name = tok_Name t, clm_Namespaces = tok_Namespaces t,
     clm_Role = tok_Role t\<rparr>"

definition authenticate ::
  "env \<Rightarrow> bool \<Rightarrow> string list option \<Rightarrow> string \<Rightarrow> 'z world_scheme
     \<Rightarrow> unauthenticated + Claims \<times> (string \<times> string) option" where
  "authenticate E skipPermissions md peerIP w =
     (case extractBearerToken md of
        Inl (Unauthenticated msg) \<Rightarrow> rejectOrBypass skipPermissions msg
      | Inr rawToken \<Rightarrow>
          (let hash = sha256hex E rawToken in
           case Token_GetByHash hash w of
             Inl _ \<Rightarrow> rejectOrBypass skipPermissions ''invalid token''
           | Inr token \<Rightarrow>
               if Token_IsExpired token (clock E (ticks w))
               then rejectOrBypass skipPermissions ''token expired''
               else Inr (tokenClaims token, Some (hash, peerIP))))"

definition touchToken :: "env \<Rightarrow> string \<times> string \<Rightarrow> (unit, 'z world_scheme) op" where
  "touchToken E hi =
     bindT (timeNow E) (\<lambda>now. Token_UpdateLastUsed E AutoQuerier (fst hi) (snd hi) now)"

end
