(* ===== verification/SessionProofs.thy ===== *)
theory SessionProofs
  imports Sessions RepoSteps ServiceFrame
begin

text \<open>
  The life of sessions: the invariant of the session buckets, what every operation of the service may
  do to them, whatever the engine fails, and the runs of the service.
\<close>

section \<open>The buckets as sessions\<close>

definition sessionRow :: "database \<Rightarrow> string \<Rightarrow> SessionMeta option" where
  "sessionRow d sid = (case dget d bucketSessions sid of Some (JSession m) \<Rightarrow> Some m | _ \<Rightarrow> None)"

text \<open>
  Every row is a session under its own id, of a user id without NUL, indexed by its user, and
  expires at most 30 days after its creation.
\<close>

definition session_ok :: "database \<Rightarrow> bytes \<Rightarrow> val \<Rightarrow> bool" where
  "session_ok d k v \<longleftrightarrow>
     (\<exists>m. v = JSession m \<and> smt_ID m = k \<and> k \<noteq> [] \<and> nulFree (smt_UserID m) \<and>
        dget d bucketSessionsByUser (sessionByUserKey (smt_UserID m) k) \<noteq> None \<and>
        smt_ExpiresAt m \<le> smt_CreatedAt m + maxWebSlidingTTL)"

definition session_inv :: "database \<Rightarrow> bool" where
  "session_inv d \<longleftrightarrow> (\<forall>k v. dget d bucketSessions k = Some v \<longrightarrow> session_ok d k v)"

text \<open>How a stored session may change: never back from revoked, never towards an earlier expiry.\<close>

definition evolves :: "SessionMeta \<Rightarrow> SessionMeta \<Rightarrow> bool" where
  "evolves m m' \<longleftrightarrow>
     smt_ID m' = smt_ID m \<and> smt_UserID m' = smt_UserID m \<and> smt_ClientType m' = smt_ClientType m \<and>
     smt_CreatedAt m' = smt_CreatedAt m \<and>
     (smt_RevokedAt m \<noteq> None \<longrightarrow> smt_RevokedAt m' \<noteq> None \<and> smt_ExpiresAt m' = smt_ExpiresAt m) \<and>
     smt_ExpiresAt m \<le> smt_ExpiresAt m' \<and>
     smt_ExpiresAt m' \<le> max (smt_ExpiresAt m) (smt_CreatedAt m + maxWebSlidingTTL)"

definition sess_effect :: "database \<Rightarrow> database \<Rightarrow> bool" where
  "sess_effect d d' \<longleftrightarrow>
     (\<forall>k. dget d bucketSessionsByUser k \<noteq> None \<longrightarrow> dget d' bucketSessionsByUser k \<noteq> None) \<and>
     (\<forall>k m. sessionRow d k = Some m \<longrightarrow> (\<exists>m'. sessionRow d' k = Some m' \<and> evolves m m')) \<and>
     (\<forall>k v. dget d' bucketSessions k = Some v \<and> dget d bucketSessions k = None \<longrightarrow> session_ok d' k v)"

lemma evolves_refl [simp]: "evolves m m"
  by (simp add: evolves_def)

lemma evolves_trans: "evolves m m' \<Longrightarrow> evolves m' m'' \<Longrightarrow> evolves m m''"
  by (auto simp: evolves_def)

lemma session_inv_row:
  assumes "session_inv d"
  shows "dget d bucketSessions k = map_option JSession (sessionRow d k)"
  using assms by (fastforce simp: session_inv_def session_ok_def sessionRow_def split: option.splits)

lemma session_ok_evolves:
  assumes "session_ok d k (JSession m)" "evolves m m'"
    and "\<And>k. dget d bucketSessionsByUser k \<noteq> None \<Longrightarrow> dget d' bucketSessionsByUser k \<noteq> None"
  shows "session_ok d' k (JSession m')"
  using assms by (auto simp: session_ok_def evolves_def)

lemma effect_keeps_inv:
  assumes "session_inv d" "sess_effect d d'"
  shows "session_inv d'"
  unfolding session_inv_def
proof (intro allI impI)
  fix k v assume v: "dget d' bucketSessions k = Some v"
  show "session_ok d' k v"
  proof (cases "sessionRow d k")
    case None
    with v assms session_inv_row [OF assms(1), of k] show ?thesis by (simp add: sess_effect_def)
  next
    case (Some m)
    with assms(2) obtain m' where m': "sessionRow d' k = Some m'" "evolves m m'"
      unfolding sess_effect_def by blast
    with v have "v = JSession m'" by (simp add: sessionRow_def split: val.splits)
    moreover have "session_ok d k (JSession m)"
      using assms(1) session_inv_row [OF assms(1), of k] Some by (simp add: session_inv_def)
    ultimately show ?thesis using m'(2) assms(2) by (auto simp: sess_effect_def intro: session_ok_evolves)
  qed
qed

lemma sess_effect_refl [simp]: "sess_effect d d"
  by (auto simp: sess_effect_def)

lemma sess_effect_trans:
  assumes "session_inv d" "sess_effect d d'" "sess_effect d' d''"
  shows "sess_effect d d''"
  unfolding sess_effect_def
proof (intro conjI allI impI)
  fix k assume "dget d bucketSessionsByUser k \<noteq> None"
  then show "dget d'' bucketSessionsByUser k \<noteq> None" using assms(2,3) by (auto simp: sess_effect_def)
next
  fix k m assume "sessionRow d k = Some m"
  with assms(2,3) show "\<exists>m''. sessionRow d'' k = Some m'' \<and> evolves m m''"
    unfolding sess_effect_def by (meson evolves_trans)
next
  fix k v assume v: "dget d'' bucketSessions k = Some v \<and> dget d bucketSessions k = None"
  have inv: "session_inv d''" using assms effect_keeps_inv by blast
  with v show "session_ok d'' k v" by (simp add: session_inv_def)
qed

lemma sess_effect_cong:
  assumes "\<And>k. dget d' bucketSessions k = dget d bucketSessions k"
    and "\<And>k. dget d' bucketSessionsByUser k = dget d bucketSessionsByUser k"
  shows "sess_effect d d'"
  by (auto simp: sess_effect_def sessionRow_def assms)

text \<open>One row replaced by a session it may become.\<close>

lemma sess_effect_put:
  assumes "sessionRow d k = Some m" "evolves m m'"
  shows "sess_effect d (dbput bucketSessions k (JSession m') d)"
proof -
  have ne: "bucketSessionsByUser \<noteq> bucketSessions" by (simp add: session_buckets)
  from assms show ?thesis by (auto simp: sess_effect_def sessionRow_def ne split: option.splits)
qed

section \<open>Operations that only extend and revoke\<close>

definition sessStep :: "('a, 'z world_scheme) op \<Rightarrow> bool" where
  "sessStep m \<longleftrightarrow> (\<forall>w r w'. m w = (r, w') \<longrightarrow> session_inv (buckets w) \<longrightarrow> sess_effect (buckets w) (buckets w'))"

lemma sessStepD: "sessStep m \<Longrightarrow> m w = (r, w') \<Longrightarrow> session_inv (buckets w) \<Longrightarrow> sess_effect (buckets w) (buckets w')"
  by (auto simp: sessStep_def)

text \<open>A step whose first part is known, and whose rest is any such operation.\<close>

lemma sessStep_then:
  assumes "m w = (r1, w1)" "sess_effect (buckets w) (buckets w1)" "\<And>x. sessStep (f x)"
    and "session_inv (buckets w)" "bindT m f w = (r, w')"
  shows "sess_effect (buckets w) (buckets w')"
proof (cases r1)
  case (Inl e)
  with assms show ?thesis by (simp add: bindT_def)
next
  case (Inr x)
  with assms(1,5) have "f x w1 = (r, w')" by (simp add: bindT_def)
  then have "sess_effect (buckets w1) (buckets w')"
    using assms(2-4) effect_keeps_inv by (blast intro: sessStepD)
  with assms(2,4) show ?thesis by (blast intro: sess_effect_trans)
qed

lemma sessStep_bind: "sessStep m \<Longrightarrow> (\<And>x. sessStep (f x)) \<Longrightarrow> sessStep (bindT m f)"
proof -
  assume m: "sessStep m" and f: "\<And>x. sessStep (f x)"
  have "sess_effect (buckets w) (buckets w')" if "bindT m f w = (r, w')" "session_inv (buckets w)" for w r w'
  proof -
    obtain r1 w1 where "m w = (r1, w1)" by fastforce
    with sessStepD [OF m this that(2)] f that show ?thesis by (blast intro: sessStep_then)
  qed
  then show "sessStep (bindT m f)" by (simp add: sessStep_def)
qed

lemma sessStep_basic:
  "sessStep (returnT x)" "sessStep (readT g)" "sessStep (whenErr u)" "sessStep (timeNow E)"
  by (auto simp: sessStep_def returnT_def readT_def whenErr_def timeNow_def)

lemma sessStep_NewEventID: "sessStep (NewEventID R)"
  unfolding NewEventID_def
  by (rule sessStep_bind) (auto simp: sessStep_def randRead_def returnT_def)

lemma Put_cases:
  assumes "bucket_Put E q n k v w = (r, w')"
  shows "w' = w \<or> w' = w\<lparr>buckets := dbput n k v (buckets w)\<rparr>"
proof (cases r)
  case (Inl e)
  with assms show ?thesis unfolding bucket_Put_def by (auto dest: bucketWrite_Inl)
next
  case (Inr u)
  with assms show ?thesis by (auto dest: Put_Inr)
qed

lemma sessStep_Put:
  "n \<noteq> bucketSessions \<Longrightarrow> n \<noteq> bucketSessionsByUser \<Longrightarrow> sessStep (bucket_Put E q n k v)"
  by (auto simp: sessStep_def dest!: Put_cases intro!: sess_effect_cong)

lemma sessStep_Append: "sessStep (SessionEvent_Append E q e)"
  unfolding SessionEvent_Append_def boltPut_def
  by (intro sessStep_bind sessStep_basic sessStep_Put) (simp_all add: session_buckets)

lemma sessStep_appendCascade: "sessStep (appendCascade E R c ss reason now)"
  by (induction ss) (auto intro!: sessStep_bind sessStep_NewEventID sessStep_Append sessStep_basic)

section \<open>Reading and rewriting one session\<close>

lemma boltGet_session:
  assumes "boltGet sessionCodec bucketSessions sid w = Inr m"
  shows "sessionRow (buckets w) sid = Some m"
  using assms by (auto simp: boltGet_def bucket_Get_dget sessionCodec_def sessionRow_def split: option.splits val.splits)

lemma Session_Get_Inr:
  assumes "Session_Get sid w = Inr sess"
  obtains m where "sessionRow (buckets w) sid = Some m" "sess = SessionMetaToDomain m"
  using assms boltGet_session by (fastforce simp: Session_Get_def split: sum.splits if_splits)

lemma session_row_ok:
  assumes "session_inv d" "sessionRow d sid = Some m"
  shows "smt_ID m = sid" "nulFree (smt_UserID m)"
    "dget d bucketSessionsByUser (sessionByUserKey (smt_UserID m) sid) \<noteq> None" "sid \<noteq> []"
    "smt_ExpiresAt m \<le> smt_CreatedAt m + maxWebSlidingTTL"
  using assms session_inv_row [OF assms(1), of sid] by (auto simp: session_inv_def session_ok_def)

lemma Session_Update_effect:
  assumes "sessionRow (buckets w) (ses_ID s) = Some m" "evolves m (DomainToSessionMeta s)"
    and "Session_Update E q s w = (r, w')"
  shows "sess_effect (buckets w) (buckets w')"
proof -
  have "w' = w \<or> w' = w\<lparr>buckets := dbput bucketSessions (ses_ID s) (JSession (DomainToSessionMeta s)) (buckets w)\<rparr>"
    using assms(3) by (auto simp: Session_Update_def bindT_def readT_def boltPut_def sessionCodec_def
        dest!: Put_cases split: if_splits)
  with sess_effect_put [OF assms(1,2)] show ?thesis by auto
qed

lemma evolves_revoked:
  "evolves m (m\<lparr>smt_RevokedAt := Some now, smt_RevokedBy := by\<rparr>)"
  by (simp add: evolves_def)

lemma revoked_meta:
  "DomainToSessionMeta ((SessionMetaToDomain m)\<lparr>ses_RevokedAt := Some now, ses_RevokedBy := by\<rparr>) =
     m\<lparr>smt_RevokedAt := Some now, smt_RevokedBy := by\<rparr>"
  by (simp add: DomainToSessionMeta_def SessionMetaToDomain_def)

lemma sessStep_revokeSessionIfActive: "sessStep (revokeSessionIfActive E q sid by now)"
  unfolding sessStep_def
proof (intro allI impI)
  fix w r w' assume run: "revokeSessionIfActive E q sid by now w = (r, w')"
  show "sess_effect (buckets w) (buckets w')"
  proof (cases "boltGet sessionCodec bucketSessions sid w")
    case (Inr m)
    from boltGet_session [OF this] have row: "sessionRow (buckets w) sid = Some m" .
    from run Inr have "w' = w \<or> w' = w\<lparr>buckets := dbput bucketSessions sid
        (JSession (m\<lparr>smt_RevokedAt := Some now, smt_RevokedBy := by\<rparr>)) (buckets w)\<rparr>"
      by (auto simp: revokeSessionIfActive_def bindT_def returnT_def boltPut_def sessionCodec_def
          split: if_splits prod.splits sum.splits dest!: Put_cases)
    with sess_effect_put [OF row evolves_revoked] show ?thesis by auto
  qed (use run in \<open>auto simp: revokeSessionIfActive_def split: if_splits\<close>)
qed

lemma sessStep_revokeLoop: "sessStep (revokeLoop E q sids by now n)"
  by (induction sids arbitrary: n) (auto intro!: sessStep_bind sessStep_basic sessStep_revokeSessionIfActive)

lemma sessStep_RevokeAllForUser: "sessStep (Sessions_RevokeAllForUser E R c user by reason)"
  unfolding Sessions_RevokeAllForUser_def Session_RevokeAllForUser_def
  by (intro sessStep_bind sessStep_basic sessStep_revokeLoop sessStep_appendCascade)

section \<open>Refreshing and revoking\<close>

lemma timeSub_pos: "0 \<le> d \<Longrightarrow> \<not> timeSub t u \<le> d \<Longrightarrow> u < t"
  by (auto simp: timeSub_def)

lemma evolves_refresh:
  assumes "applySliding (SessionMetaToDomain m) now = (sess', app)" "smt_RevokedAt m = None"
  shows "evolves m (DomainToSessionMeta (sess'\<lparr>ses_LastSeenAt := t\<rparr>))" "ses_ID sess' = smt_ID m"
proof -
  have "0 \<le> refreshMinDelta" by (simp add: refreshMinDelta_def second_def)
  note pos = timeSub_pos [OF this]
  from assms show "evolves m (DomainToSessionMeta (sess'\<lparr>ses_LastSeenAt := t\<rparr>))"
    by (auto simp: applySliding_def evolves_def DomainToSessionMeta_def SessionMetaToDomain_def Let_def
        split: if_splits dest!: pos)
  from assms(1) show "ses_ID sess' = smt_ID m"
    by (auto simp: applySliding_def SessionMetaToDomain_def Let_def split: if_splits)
qed

lemma sessStep_Refresh: "sessStep (Sessions_Refresh E R c sid)"
  unfolding sessStep_def
proof (intro allI impI)
  fix w r w' assume run: "Sessions_Refresh E R c sid w = (r, w')" and inv: "session_inv (buckets w)"
  let ?now = "clock E (ticks w)" and ?w = "w\<lparr>ticks := Suc (ticks w)\<rparr>"
  show "sess_effect (buckets w) (buckets w')"
  proof (cases "Session_Get sid w")
    case (Inl e)
    with run show ?thesis by (simp add: Sessions_Refresh_def bindT_def readT_def)
  next
    case (Inr sess)
    then obtain m where m: "sessionRow (buckets w) sid = Some m" "sess = SessionMetaToDomain m"
      by (rule Session_Get_Inr)
    show ?thesis
    proof (cases "EnsureActive sess ?now = Inr () \<and> \<not> timeSub ?now (ses_LastSeenAt sess) < refreshThrottle")
      case False
      with run Inr show ?thesis
        by (auto simp: Sessions_Refresh_def bindT_def readT_def timeNow_def returnT_def split: if_splits)
    next
      case True
      obtain sess' app where sl: "applySliding sess ?now = (sess', app)" by fastforce
      let ?s = "sess'\<lparr>ses_LastSeenAt := ?now\<rparr>"
      from run Inr True sl have run': "persistRefresh E R c ?s ?now app ?w = (r, w')"
        by (auto simp: Sessions_Refresh_def bindT_def readT_def timeNow_def)
      have act: "smt_RevokedAt m = None"
        using True m(2) by (auto simp: EnsureActive_def Session_IsActive_def SessionMetaToDomain_def split: if_splits)
      note ev = evolves_refresh(1) [OF sl [unfolded m(2)] act, of ?now] evolves_refresh(2) [OF sl [unfolded m(2)] act]
      obtain r1 w1 where up: "Session_Update E (GetQuerier c) ?s ?w = (r1, w1)" by fastforce
      have "sess_effect (buckets ?w) (buckets w1)"
        using m(1) ev session_row_ok(1) [OF inv m(1)] by (intro Session_Update_effect [OF _ _ up]) simp_all
      from sessStep_then [OF up this _ _ run' [unfolded persistRefresh_def]] inv show ?thesis
        by (simp add: sessStep_bind sessStep_basic sessStep_NewEventID sessStep_Append)
    qed
  qed
qed

lemma sessStep_Revoke: "sessStep (Sessions_Revoke E R c sid by reason ty)"
  unfolding sessStep_def
proof (intro allI impI)
  fix w r w' assume run: "Sessions_Revoke E R c sid by reason ty w = (r, w')" and inv: "session_inv (buckets w)"
  let ?now = "clock E (ticks w)"
  show "sess_effect (buckets w) (buckets w')"
  proof (cases "Session_Get sid w")
    case (Inl e)
    with run show ?thesis by (simp add: Sessions_Revoke_def bindT_def readT_def)
  next
    case (Inr sess)
    then obtain m where m: "sessionRow (buckets w) sid = Some m" "sess = SessionMetaToDomain m"
      by (rule Session_Get_Inr)
    let ?s = "sess\<lparr>ses_RevokedAt := Some ?now, ses_RevokedBy := by\<rparr>"
    have ev: "evolves m (DomainToSessionMeta ?s)" by (simp add: m(2) revoked_meta evolves_revoked)
    have id: "ses_ID ?s = sid" using session_row_ok(1) [OF inv m(1)] by (simp add: m(2) SessionMetaToDomain_def)
    obtain r0 w0 where new: "NewEventID R (w\<lparr>ticks := Suc (ticks w)\<rparr>) = (r0, w0)" by fastforce
    then have b: "buckets w0 = buckets w" by (auto simp: NewEventID_def bindT_def randRead_def returnT_def split: sum.splits)
    show ?thesis
    proof (cases r0)
      case (Inl e)
      with run Inr new b show ?thesis by (simp add: Sessions_Revoke_def bindT_def readT_def timeNow_def Let_def)
    next
      case r0: (Inr eid)
      from run Inr new r0 obtain ev where
        run': "bindT (Session_Update E (GetQuerier c) ?s) (\<lambda>_. SessionEvent_Append E (GetQuerier c) ev) w0 = (r, w')"
        by (auto simp: Sessions_Revoke_def bindT_def readT_def timeNow_def Let_def)
      obtain r1 w1 where up: "Session_Update E (GetQuerier c) ?s w0 = (r1, w1)" by fastforce
      have "sess_effect (buckets w0) (buckets w1)"
        using m(1) ev id b by (intro Session_Update_effect [OF _ _ up]) simp_all
      from sessStep_then [OF up this sessStep_Append _ run'] inv b show ?thesis by simp
    qed
  qed
qed

section \<open>Creating\<close>

lemma Sessions_Create_Inr:
  assumes "Sessions_Create E R c params w = (Inr s, w')" "session_inv (buckets w)" "nulFree (cp_UserID params)"
    and fresh: "\<And>sid. fst (NewSessionID R w) = Inr sid \<Longrightarrow> sid \<noteq> [] \<and> dget (buckets w) bucketSessions sid = None"
  shows "sess_effect (buckets w) (buckets w')" "sessionRow (buckets w') (ses_ID s) = Some (DomainToSessionMeta s)"
    "ses_UserID s = cp_UserID params"
proof -
  from assms(1) obtain sid w1 eid w2 ev w4 where
    sid: "NewSessionID R w = (Inr sid, w1)" and eid: "NewEventID R w1 = (Inr eid, w2)" and
    cr: "Session_Create E (GetQuerier c) s (w2\<lparr>ticks := Suc (ticks w2)\<rparr>) = (Inr (), w4)" and
    ap: "SessionEvent_Append E (GetQuerier c) ev w4 = (Inr (), w')" and
    s: "ses_ID s = sid" "ses_UserID s = cp_UserID params"
       "ses_ExpiresAt s \<le> ses_CreatedAt s + maxWebSlidingTTL"
    by (auto simp: Sessions_Create_def bind_inversion Let_def defaultWebTTL_def defaultCLITTL_def
        maxWebSlidingTTL_def second_def)
  have "buckets w2 = buckets w"
    using sid eid by (auto simp: NewSessionID_def NewEventID_def bind_inversion randRead_def)
  moreover have "buckets w4 = dbput bucketSessionsByUser (sessionByUserKey (cp_UserID params) sid) (Raw [])
      (dbput bucketSessions sid (JSession (DomainToSessionMeta s)) (buckets w2))"
    using cr s by (auto simp: Session_Create_def bind_inversion boltPut_def sessionCodec_def dest!: Put_Inr)
  ultimately have w4: "buckets w4 = dbput bucketSessionsByUser (sessionByUserKey (cp_UserID params) sid) (Raw [])
      (dbput bucketSessions sid (JSession (DomainToSessionMeta s)) (buckets w))" by simp
  have ne: "bucketSessionsByUser \<noteq> bucketSessions" by (simp add: session_buckets)
  have f: "sid \<noteq> []" "dget (buckets w) bucketSessions sid = None" using fresh sid by simp_all
  then have "session_ok (buckets w4) sid (JSession (DomainToSessionMeta s))"
    using s assms(3) by (simp add: session_ok_def DomainToSessionMeta_def w4)
  then have e4: "sess_effect (buckets w) (buckets w4)"
    using f ne unfolding sess_effect_def by (auto simp: w4 sessionRow_def split: option.splits if_splits)
  have r4: "sessionRow (buckets w4) sid = Some (DomainToSessionMeta s)" using ne by (simp add: w4 sessionRow_def)
  have keep: "dget (buckets w') bucketSessions k = dget (buckets w4) bucketSessions k" for k
    using ap by (auto simp: SessionEvent_Append_def bind_inversion boltPut_def session_buckets dest!: Put_Inr)
  show "sess_effect (buckets w) (buckets w')"
    using sessStepD [OF sessStep_Append ap] e4 assms(2) by (blast intro: sess_effect_trans effect_keeps_inv)
  show "sessionRow (buckets w') (ses_ID s) = Some (DomainToSessionMeta s)"
    using r4 s(1) by (simp add: sessionRow_def keep)
  show "ses_UserID s = cp_UserID params" by (fact s(2))
qed

section \<open>Revoking every session of a user\<close>

lemma revokeSessionIfActive_row:
  assumes "revokeSessionIfActive E q sid by now w = (Inr b, w')" "sessionRow (buckets w) sid = Some m"
  shows "\<exists>m'. sessionRow (buckets w') sid = Some m' \<and> smt_RevokedAt m' \<noteq> None"
proof -
  have "boltGet sessionCodec bucketSessions sid w = Inr m"
    using assms(2) by (auto simp: boltGet_def bucket_Get_dget sessionCodec_def sessionRow_def split: option.splits val.splits)
  with assms show ?thesis
    by (auto simp: revokeSessionIfActive_def bind_inversion boltPut_def sessionCodec_def sessionRow_def
        split: if_splits dest!: Put_Inr)
qed

lemma revokeLoop_complete:
  assumes "revokeLoop E q sids by now n w = (Inr k, w')" "session_inv (buckets w)"
    and "sid \<in> set sids" "sessionRow (buckets w) sid = Some m"
  shows "\<exists>m'. sessionRow (buckets w') sid = Some m' \<and> smt_RevokedAt m' \<noteq> None"
  using assms
proof (induction sids arbitrary: n w m)
  case (Cons i sids)
  from Cons.prems(1) obtain b w1 where i: "revokeSessionIfActive E q i by now w = (Inr b, w1)"
    and rest: "revokeLoop E q sids by now (if b then n + 1 else n) w1 = (Inr k, w')"
    by (auto simp: bind_inversion)
  have e: "sess_effect (buckets w) (buckets w1)"
    using i Cons.prems(2) by (rule sessStepD [OF sessStep_revokeSessionIfActive])
  then have inv: "session_inv (buckets w1)" using Cons.prems(2) by (blast intro: effect_keeps_inv)
  show ?case
  proof (cases "sid = i")
    case True
    with revokeSessionIfActive_row [OF i] Cons.prems(4) obtain m1 where
      m1: "sessionRow (buckets w1) sid = Some m1" "smt_RevokedAt m1 \<noteq> None" by blast
    have "sess_effect (buckets w1) (buckets w')" using rest inv by (rule sessStepD [OF sessStep_revokeLoop])
    with m1 show ?thesis unfolding sess_effect_def evolves_def by blast
  next
    case False
    with Cons.prems(3) have "sid \<in> set sids" by simp
    moreover from e Cons.prems(4) obtain m1 where "sessionRow (buckets w1) sid = Some m1"
      unfolding sess_effect_def by blast
    ultimately show ?thesis using Cons.IH [OF rest inv] by blast
  qed
qed simp

lemma indexed_ids:
  assumes "dget d bucketSessionsByUser (sessionByUserKey u sid) \<noteq> None" "sid \<noteq> []"
  shows "sid \<in> set (indexIDs (sessionByUserPrefix u) (bkt d bucketSessionsByUser))"
proof -
  from assms(1) obtain v where "(sessionByUserKey u sid, v) \<in> set (bkt d bucketSessionsByUser)"
    by (auto simp: dget_def dest: map_of_SomeD)
  with assms(2) show ?thesis
    by (force simp: indexIDs_def sessionByUserKey_def image_iff)
qed

lemma RevokeAllForUser_rows:
  assumes run: "Sessions_RevokeAllForUser E R c u by reason w = (Inr (), w')" and inv: "session_inv (buckets w)"
    and row: "sessionRow (buckets w) sid = Some m" "smt_UserID m = u"
  shows "\<exists>m'. sessionRow (buckets w') sid = Some m' \<and> smt_RevokedAt m' \<noteq> None"
proof -
  let ?w = "w\<lparr>ticks := Suc (Suc (ticks w))\<rparr>"
  from run obtain active ids k w1 where
    ids: "collectSessionIDsForUser E (GetQuerier c) (sessionByUserPrefix u) (w\<lparr>ticks := Suc (Suc (ticks w))\<rparr>) = Inr ids" and
    loop: "revokeLoop E (GetQuerier c) ids by (clock E (Suc (ticks w))) 0 ?w = (Inr k, w1)" and
    app: "appendCascade E R c active reason (clock E (ticks w)) w1 = (Inr (), w')"
    by (auto simp: Sessions_RevokeAllForUser_def Session_RevokeAllForUser_def bind_inversion)
  have "ids = indexIDs (sessionByUserPrefix u) (bkt (buckets w) bucketSessionsByUser)"
    using ids by (auto simp: collectSessionIDsForUser_def bucket_ForEach_def bkt_def split: if_splits option.splits)
  moreover have "sid \<in> set (indexIDs (sessionByUserPrefix u) (bkt (buckets w) bucketSessionsByUser))"
    using session_row_ok(3,4) [OF inv row(1)] row(2) by (intro indexed_ids) simp_all
  ultimately obtain m1 where m1: "sessionRow (buckets w1) sid = Some m1" "smt_RevokedAt m1 \<noteq> None"
    using revokeLoop_complete [OF loop _ _ , of sid m] inv row(1) by auto
  have "session_inv (buckets w1)"
    using sessStepD [OF sessStep_revokeLoop loop] inv by (auto intro: effect_keeps_inv)
  with app have "sess_effect (buckets w1) (buckets w')" by (rule sessStepD [OF sessStep_appendCascade])
  with m1 show ?thesis unfolding sess_effect_def evolves_def by blast
qed

section \<open>Runs of the service\<close>

text \<open>
  The calls of the server: logins, logouts and mass revocations run in a transaction of their use case,
  the refresh of the interceptor runs outside one. The engine may fail any call; a random session id is
  not one in use.
\<close>

inductive session_step :: "rworld \<Rightarrow> rworld \<Rightarrow> bool" where
  create: "ctx_tx (c :: ctx) = None \<Longrightarrow> nulFree (cp_UserID params) \<Longrightarrow>
     (\<And>sid. fst (NewSessionID R (w :: rworld)) = Inr sid \<Longrightarrow> sid \<noteq> [] \<and> dget (buckets w) bucketSessions sid = None) \<Longrightarrow>
     WithTx E c (\<lambda>c. Sessions_Create E R c params) w = (r, w') \<Longrightarrow> session_step w w'"
| refresh: "ctx_tx (c :: ctx) = None \<Longrightarrow> Sessions_Refresh E R c sid w = (r, w') \<Longrightarrow> session_step w w'"
| revoke: "ctx_tx (c :: ctx) = None \<Longrightarrow>
     WithTx E c (\<lambda>c. Sessions_Revoke E R c sid by reason ty) w = (r, w') \<Longrightarrow> session_step w w'"
| revokeAll: "ctx_tx (c :: ctx) = None \<Longrightarrow>
     WithTx E c (\<lambda>c. Sessions_RevokeAllForUser E R c u by reason) w = (r, w') \<Longrightarrow> session_step w w'"

lemma WithTx_outcome:
  assumes "ctx_tx c = None" "WithTx E c f w = (r, w')"
    and "\<And>x w1. f (c\<lparr>ctx_tx := Some True\<rparr>) w = (Inr x, w1) \<Longrightarrow> P (buckets w1)" "P (buckets w)"
  shows "P (buckets w')"
  using assms by (auto simp: WithTx_def runTx_def split: option.splits prod.splits sum.splits if_splits)

lemma session_step_effect:
  assumes "session_step w w'" "session_inv (buckets w)"
  shows "sess_effect (buckets w) (buckets w')"
  using assms
proof (cases rule: session_step.cases)
  case (create c params R E r)
  show ?thesis
    using create(1,4)
  proof (rule WithTx_outcome)
    fix s w1 assume "Sessions_Create E R (c\<lparr>ctx_tx := Some True\<rparr>) params w = (Inr s, w1)"
    then show "sess_effect (buckets w) (buckets w1)"
      using assms(2) create(2,3) by (rule Sessions_Create_Inr(1))
  qed simp
next
  case (refresh c E R sid r)
  with assms(2) show ?thesis by (blast intro: sessStepD [OF sessStep_Refresh])
next
  case (revoke c E R sid who reason ty r)
  show ?thesis
    using revoke by (rule WithTx_outcome) (use assms(2) in \<open>auto intro: sessStepD [OF sessStep_Revoke]\<close>)
next
  case (revokeAll c E R u who reason r)
  show ?thesis
    using revokeAll by (rule WithTx_outcome) (use assms(2) in \<open>auto intro: sessStepD [OF sessStep_RevokeAllForUser]\<close>)
qed

lemma session_run_effect:
  assumes "session_step\<^sup>*\<^sup>* w w'" "session_inv (buckets w)"
  shows "session_inv (buckets w') \<and> sess_effect (buckets w) (buckets w')"
  using assms
proof (induction rule: rtranclp_induct)
  case (step w1 w2)
  then show ?case using session_step_effect effect_keeps_inv sess_effect_trans by blast
qed simp

lemma Sessions_Validate_row:
  assumes "sessionRow (buckets w) sid = Some m"
  shows "fst (Sessions_Validate E sid w) =
    (case EnsureActive (SessionMetaToDomain m) (clock E (ticks w)) of
       Inl e \<Rightarrow> Inl e | Inr _ \<Rightarrow> Inr (SessionMetaToDomain m))"
proof -
  have "Session_Get sid w = Inr (SessionMetaToDomain m)"
    using assms by (auto simp: Session_Get_def boltGet_def bucket_Get_dget sessionCodec_def sessionRow_def
        split: option.splits val.splits)
  then show ?thesis
    by (auto simp: Sessions_Validate_def bindT_def readT_def timeNow_def whenErr_def returnT_def split: sum.splits)
qed

end
