(* ===== verification/SessionProps.thy ===== *)
theory SessionProps
  imports SessionProofs Samples
begin

text \<open>The properties of user sessions.\<close>

section \<open>Samples\<close>

definition sampleSession :: "time option \<Rightarrow> SessionMeta" where
  "sampleSession revoked = \<lparr>smt_ID = ''s1'', smt_UserID = ''u'', smt_ClientType = ClientTypeWeb, smt_IP = [],
     smt_UserAgent = [], smt_CreatedAt = 1, smt_LastSeenAt = 1, smt_ExpiresAt = 1 + defaultWebTTL,
     smt_RevokedAt = revoked, smt_RevokedBy = []\<rparr>"

definition sessionWorld :: "time option \<Rightarrow> rworld" where
  "sessionWorld revoked = \<lparr>buckets = [bucketSessions \<mapsto> [(''s1'', JSession (sampleSession revoked))],
       bucketSessionsByUser \<mapsto> [(sessionByUserKey ''u'' ''s1'', Raw [])],
       bucketSessionEvents \<mapsto> [], bucketSessionEventsBySession \<mapsto> [], bucketSessionEventsByUser \<mapsto> []],
     ticks = 5, draws = 0\<rparr>"

definition sampleRand :: randomness where
  "sampleRand n k = Inr (replicate k (char_of n))"

lemma sessionWorld_dget:
  "dget (buckets (sessionWorld r)) bucketSessions k = (if k = ''s1'' then Some (JSession (sampleSession r)) else None)"
  "dget (buckets (sessionWorld r)) bucketSessionsByUser k = (if k = sessionByUserKey ''u'' ''s1'' then Some (Raw []) else None)"
  by (simp_all add: sessionWorld_def dget_def bkt_def session_buckets)

lemma sessionWorld_inv: "session_inv (buckets (sessionWorld r))"
  by (simp add: session_inv_def session_ok_def sessionWorld_dget sampleSession_def nulFree_def keySep_def
      defaultWebTTL_def maxWebSlidingTTL_def second_def)

lemma sessionWorld_row: "sessionRow (buckets (sessionWorld r)) ''s1'' = Some (sampleSession r)"
  by (simp add: sessionRow_def sessionWorld_dget)

section \<open>Revocation is final\<close>



section \<open>Sessions end\<close>

text \<open>
  C36. No session outlives 30 days: in every state the service reaches, a session that validates is not
  revoked, has not passed its expiry, and its expiry lies at most 30 days after its creation, however
  often it was refreshed.
\<close>

theorem session_lifetime_bounded:
  assumes "session_step\<^sup>*\<^sup>* w w'" "session_inv (buckets w)" "fst (Sessions_Validate E sid w') = Inr s"
  shows "ses_ID s = sid \<and> ses_RevokedAt s = None \<and> clock E (ticks w') \<le> ses_ExpiresAt s \<and>
    ses_ExpiresAt s \<le> ses_CreatedAt s + 30 * 24 * 3600 * 1000000000"
proof -
  have inv: "session_inv (buckets w')" using session_run_effect [OF assms(1,2)] by simp
  from assms(3) obtain s0 where "Session_Get sid w' = Inr s0"
    by (auto simp: Sessions_Validate_def bindT_def readT_def split: sum.splits)
  then obtain m where m: "sessionRow (buckets w') sid = Some m" by (rule Session_Get_Inr)
  from assms(3) have "s = SessionMetaToDomain m" "EnsureActive s (clock E (ticks w')) = Inr ()"
    by (auto simp: Sessions_Validate_row [OF m] split: sum.splits)
  with session_row_ok(1,5) [OF inv m] show ?thesis
    by (auto simp: EnsureActive_def Session_IsActive_def Session_IsExpired_def SessionMetaToDomain_def
        maxWebSlidingTTL_def second_def split: if_splits)
qed

theorem session_lifetime_bounded_witness:
  "fst (Sessions_Validate sampleEnv ''s1'' (sessionWorld None)) = Inr (SessionMetaToDomain (sampleSession None)) \<and>
   ses_ExpiresAt (SessionMetaToDomain (sampleSession None)) \<le>
     ses_CreatedAt (SessionMetaToDomain (sampleSession None)) + 30 * 24 * 3600 * 1000000000"
proof -
  have "ticks (sessionWorld None) = 5" by (simp add: sessionWorld_def)
  moreover have "EnsureActive (SessionMetaToDomain (sampleSession None)) 5 = Inr ()"
    by (simp add: EnsureActive_def Session_IsActive_def Session_IsExpired_def SessionMetaToDomain_def
        sampleSession_def defaultWebTTL_def second_def)
  ultimately have "fst (Sessions_Validate sampleEnv ''s1'' (sessionWorld None)) =
      Inr (SessionMetaToDomain (sampleSession None))"
    by (simp add: Sessions_Validate_row [OF sessionWorld_row])
  with session_lifetime_bounded [OF rtranclp.rtrancl_refl sessionWorld_inv this] show ?thesis by simp
qed

section \<open>Mass revocation\<close>

text \<open>
  Revoking all sessions of a user reaches every one: when the call returns without an error, each
  session the user had answers that it is revoked.
\<close>

theorem RevokeAllForUser_complete:
  fixes w :: "'z rworld_scheme"
  assumes "Sessions_RevokeAllForUser E R c u who reason w = (Inr (), w')" "session_inv (buckets w)"
    and "sessionRow (buckets w) sid = Some m" "smt_UserID m = u"
  shows "fst (Sessions_Validate E' sid w') = Inl ErrSessionRevoked"
proof -
  from RevokeAllForUser_rows [OF assms] obtain m' where
    "sessionRow (buckets w') sid = Some m'" "smt_RevokedAt m' \<noteq> None" by blast
  then show ?thesis
    by (simp add: Sessions_Validate_row EnsureActive_def Session_IsActive_def SessionMetaToDomain_def)
qed

theorem RevokeAllForUser_complete_witness:
  "\<exists>w'. Sessions_RevokeAllForUser sampleEnv sampleRand \<lparr>ctx_tx = Some True\<rparr> ''u'' ''admin'' ''x'' (sessionWorld None) = (Inr (), w') \<and>
     fst (Sessions_Validate sampleEnv ''s1'' w') = Inl ErrSessionRevoked"
proof -
  have "is_ok (fst (Sessions_RevokeAllForUser sampleEnv sampleRand \<lparr>ctx_tx = Some True\<rparr> ''u'' ''admin'' ''x'' (sessionWorld None)))"
    by (simp add: Sessions_RevokeAllForUser_def Session_RevokeAllForUser_def bindT_def timeNow_def readT_def returnT_def
        GetQuerier_def Session_ListActiveByUser_def listByUserPrefix_def collectSessionIDsForUser_def bucket_ForEach_def
        indexIDs_def sessionWorld_def sessionByUserKey_def sessionByUserPrefix_def boltGet_def bucket_Get_def
        revokeSessionIfActive_def sessionCodec_def boltPut_def bucket_Put_def bucketWrite_def sampleEnv_def sampleSession_def
        setBucket_def SessionMetaToDomain_def NewEventID_def randRead_def sampleRand_def SessionEvent_Append_def
        whenErr_def SessionEvent_Validate_def SessionEventRevokedCascade_def session_buckets)
  then obtain w' where run: "Sessions_RevokeAllForUser sampleEnv sampleRand \<lparr>ctx_tx = Some True\<rparr> ''u'' ''admin'' ''x''
      (sessionWorld None) = (Inr (), w')" 
    by (cases "Sessions_RevokeAllForUser sampleEnv sampleRand \<lparr>ctx_tx = Some True\<rparr> ''u'' ''admin'' ''x'' (sessionWorld None)")
      (auto simp: is_ok_def split: sum.splits)
  have "smt_UserID (sampleSession None) = ''u''" by (simp add: sampleSession_def)
  from RevokeAllForUser_complete [OF run sessionWorld_inv sessionWorld_row this] run show ?thesis by blast
qed

end
