(* ===== verification/GroupService.thy ===== *)
theory GroupService
  imports Policies
begin

text \<open>
  The group use case, \<^verbatim>\<open>src/internal/usecase/group\<close>, with the permission catalogue of
  \<^verbatim>\<open>src/internal/usecase/filter/service_catalog.go\<close> that validates assignments. Every operation that
  writes runs in one \<^verbatim>\<open>PAP.Write\<close>.
\<close>

section \<open>The catalogue\<close>

datatype ObjectScope = ScopeUnspecified | ScopeGlobal | ScopeNamespace | ScopeGroup

record CatalogEntry =
  cat_Object :: Object
  cat_Scope :: ObjectScope
  cat_Actions :: "Action list"

definition buildCatalog :: "CatalogEntry list" where
  "buildCatalog =
     [\<lparr>cat_Object = ObjectNamespace, cat_Scope = ScopeNamespace,
       cat_Actions = [ActionRead, ActionWrite, ActionCreate, ActionDelete, ActionAll]\<rparr>,
      \<lparr>cat_Object = ObjectGroup, cat_Scope = ScopeGroup,
       cat_Actions = [ActionRead, ActionWrite, ActionCreate, ActionDelete, ActionAll]\<rparr>,
      \<lparr>cat_Object = ObjectUser, cat_Scope = ScopeGlobal,
       cat_Actions = [ActionRead, ActionWrite, ActionCreate, ActionAll]\<rparr>,
      \<lparr>cat_Object = ObjectToken, cat_Scope = ScopeGlobal,
       cat_Actions = [ActionRead, ActionWrite, ActionCreate, ActionDelete, ActionAll]\<rparr>,
      \<lparr>cat_Object = ObjectWebhook, cat_Scope = ScopeGlobal,
       cat_Actions = [ActionRead, ActionWrite, ActionCreate, ActionDelete, ActionAll]\<rparr>,
      \<lparr>cat_Object = ObjectClient, cat_Scope = ScopeGlobal, cat_Actions = [ActionRead]\<rparr>]"

definition LookupCatalogEntry :: "Object \<Rightarrow> CatalogEntry option" where
  "LookupCatalogEntry obj = find (\<lambda>e. cat_Object e = obj) buildCatalog"

definition validateAssignmentAction :: "CatalogEntry \<Rightarrow> Action \<Rightarrow> err + unit" where
  "validateAssignmentAction entry action =
     (if List.member (cat_Actions entry) action then Ok ()
      else Err (ErrValidation ''permissions''
             (''action '' @ quoted action @ '' is not allowed for object '' @ quoted (cat_Object entry))))"

definition validateGlobalDomain :: "Object \<Rightarrow> string \<Rightarrow> err + unit" where
  "validateGlobalDomain obj dm =
     (if dm = DomainAll then Ok ()
      else Err (ErrValidation ''permissions''
             (''object '' @ quoted obj @ '' is global; domain must be '' @ quoted DomainAll @ '', got '' @ quoted dm)))"

definition validatePrefixedDomain :: "Object \<Rightarrow> string \<Rightarrow> string \<Rightarrow> string \<Rightarrow> err + unit" where
  "validatePrefixedDomain obj dm pre idPlaceholder =
     (if dm = [] then
        Err (ErrValidation ''permissions''
          (''object '' @ quoted obj @ '' requires a '' @
           (if hasSuffix pre '':'' then butlast pre else pre) @ '' domain (use '' @ quoted DomainAll @ '' for wildcard)''))
      else if dm = DomainAll \<or> hasPrefix dm pre then Ok ()
      else Err (ErrValidation ''permissions''
             (''object '' @ quoted obj @ '' domain must be '' @ quoted DomainAll @ '' or '' @
              quoted (pre @ idPlaceholder) @ '', got '' @ quoted dm)))"

definition validateAssignmentDomain :: "ObjectScope \<Rightarrow> Object \<Rightarrow> string \<Rightarrow> err + unit" where
  "validateAssignmentDomain scope obj dm =
     (case scope of
        ScopeGlobal \<Rightarrow> validateGlobalDomain obj dm
      | ScopeNamespace \<Rightarrow> validatePrefixedDomain obj dm NamespaceResourcePrefix ''<name>''
      | ScopeGroup \<Rightarrow> validatePrefixedDomain obj dm GroupResourcePrefix ''<name>''
      | ScopeUnspecified \<Rightarrow>
          Err (ErrValidation ''permissions'' (''object '' @ quoted obj @ '' has an unspecified scope'')))"

definition validatePermissionAssignment :: "Permission \<Rightarrow> err + unit" where
  "validatePermissionAssignment p =
     (case LookupCatalogEntry (per_Object p) of
        None \<Rightarrow> Err (ErrValidation ''permissions'' (''object '' @ quoted (per_Object p) @ '' is not assignable''))
      | Some entry \<Rightarrow>
          (case validateAssignmentAction entry (per_Action p) of
             Inl e \<Rightarrow> Err e
           | Inr _ \<Rightarrow> validateAssignmentDomain (cat_Scope entry) (per_Object p) (per_Domain p)))"

fun validateAssignments :: "Permission list \<Rightarrow> err + unit" where
  "validateAssignments [] = Ok ()"
| "validateAssignments (p # ps) =
     (case validatePermissionAssignment p of Inl e \<Rightarrow> Err e | Inr _ \<Rightarrow> validateAssignments ps)"

definition validatePermissionDeltas :: "Permission list \<Rightarrow> Permission list \<Rightarrow> err + unit" where
  "validatePermissionDeltas adds removes =
     (case FirstOverlap adds removes of
        Some p \<Rightarrow>
          Err (ErrValidation ''permissions''
            (per_Object p @ '':'' @ per_Action p @ '' on '' @ per_Domain p @ '' appears in both add and remove''))
      | None \<Rightarrow> validateAssignments adds)"

section \<open>Loading\<close>

definition mapGroupErr :: "string \<Rightarrow> err \<Rightarrow> err" where
  "mapGroupErr name e = (case e of ErrResourceNotFound _ \<Rightarrow> NewNotFoundError ''group'' name | _ \<Rightarrow> e)"

definition loadMutableGroup :: "string \<Rightarrow> 'z world_scheme \<Rightarrow> err + Group" where
  "loadMutableGroup name w =
     (case Group_Get name w of
        Inl e \<Rightarrow> Err (mapGroupErr name e)
      | Inr existing \<Rightarrow>
          (case Group_EnsureMutable existing of Inl e \<Rightarrow> Err e | Inr _ \<Rightarrow> Ok existing))"

section \<open>Create\<close>

record CreateData =
  cd_Name :: string
  cd_Description :: string
  cd_InitialMembers :: "string list"
  cd_InitialPermissions :: "Permission list"
  cd_InitialManagerGroupNames :: "string list"

record CreateResult =
  cr_Group :: Group
  cr_VisibleMembers :: "string list"
  cr_Permissions :: "Permission list"

fun authorizeManagers ::
  "'m pdp \<Rightarrow> string \<Rightarrow> Permission list \<Rightarrow> string list \<Rightarrow> ('m, 'z) pworld_scheme \<Rightarrow> err + Group list" where
  "authorizeManagers p actor perms [] w = Ok []"
| "authorizeManagers p actor perms (name # names) w =
     (if \<not> HasGroup p (cache w) actor name ActionWrite then Err ErrForbidden
      else
        (case Group_Get name w of
           Inl e \<Rightarrow> Err (mapGroupErr name e)
         | Inr mg \<Rightarrow>
             if \<not> list_all (HasForGroup p (cache w) (grp_Name mg)) perms then Err ErrPermissionEscalation
             else (case authorizeManagers p actor perms names w of
                     Inl e \<Rightarrow> Err e | Inr mgs \<Rightarrow> Ok (mg # mgs))))"

definition authorizeCreate ::
  "'m pdp \<Rightarrow> AuthInfo \<Rightarrow> CreateData \<Rightarrow> ('m, 'z) pworld_scheme \<Rightarrow> err + Group list" where
  "authorizeCreate p actor data w =
     (if \<not> list_all (Has p (cache w) (ai_UserID actor)) (cd_InitialPermissions data)
      then Err ErrPermissionEscalation
      else authorizeManagers p (ai_UserID actor) (cd_InitialPermissions data) (cd_InitialManagerGroupNames data) w)"

definition persistEntity ::
  "env \<Rightarrow> 'c ctx_scheme \<Rightarrow> CreateData \<Rightarrow> (Group, 'z world_scheme) op" where
  "persistEntity E c data =
     bindT (readT (\<lambda>w. case Group_Get (cd_Name data) w of
         Inr _ \<Rightarrow> Err (NewAlreadyExistsError ''group'' (cd_Name data))
       | Inl e \<Rightarrow> (case e of ErrResourceNotFound _ \<Rightarrow> Ok () | _ \<Rightarrow> Err e))) (\<lambda>_.
     bindT (timeNow E) (\<lambda>now.
     let grp = \<lparr>grp_Name = cd_Name data, grp_DisplayName = [], grp_Description = cd_Description data,
                grp_System = False, grp_MetadataVersion = 1, grp_MembersVersion = 0,
                grp_PermissionsVersion = 0, grp_CreatedAt = now, grp_UpdatedAt = now\<rparr>
     in bindT (whenErr (Group_Validate grp)) (\<lambda>_. \<lambda>w.
        (case Group_Create E (GetQuerier c) grp w of
           (Inl e, w1) \<Rightarrow>
             (Err (case e of ErrResourceAlreadyExists _ \<Rightarrow> NewAlreadyExistsError ''group'' (cd_Name data) | _ \<Rightarrow> e), w1)
         | (Inr g, w1) \<Rightarrow> (Ok g, w1)))))"

definition applyInitialPermissions ::
  "env \<Rightarrow> jsonStrings \<Rightarrow> 'c ctx_scheme \<Rightarrow> Group \<Rightarrow> Permission list \<Rightarrow> (Group, ('m, 'z) pworld_scheme) op" where
  "applyInitialPermissions E J c grp perms =
     (if perms = [] then returnT grp
      else bindT (ApplyPermissionDeltas E J c (grp_Name grp) perms []) (\<lambda>_.
           returnT (grp\<lparr>grp_PermissionsVersion := 1\<rparr>)))"

definition applyInitialMembers ::
  "env \<Rightarrow> jsonStrings \<Rightarrow> 'c ctx_scheme \<Rightarrow> Group \<Rightarrow> string list \<Rightarrow> (Group, ('m, 'z) pworld_scheme) op" where
  "applyInitialMembers E J c grp members =
     (if members = [] then returnT grp
      else bindT (ApplyMemberDeltas E J c (grp_Name grp) members []) (\<lambda>_.
           returnT (grp\<lparr>grp_MembersVersion := 1\<rparr>)))"

fun wireInitialManagers ::
  "env \<Rightarrow> jsonStrings \<Rightarrow> 'c ctx_scheme \<Rightarrow> Group \<Rightarrow> Group list \<Rightarrow> (unit, ('m, 'z) pworld_scheme) op" where
  "wireInitialManagers E J c grp [] = returnT ()"
| "wireInitialManagers E J c grp (mg # mgs) =
     bindT (ApplyPermissionDeltas E J c (grp_Name mg)
              [\<lparr>per_Object = ObjectGroup, per_Action = ActionWrite, per_Domain = GroupResource (grp_Name grp)\<rparr>] []) (\<lambda>_.
     wireInitialManagers E J c grp mgs)"

definition GroupService_Create ::
  "env \<Rightarrow> 'm pdp \<Rightarrow> jsonStrings \<Rightarrow> 'c ctx_scheme \<Rightarrow> AuthInfo \<Rightarrow> CreateData
     \<Rightarrow> (CreateResult, ('m, 'z) pworld_scheme) op" where
  "GroupService_Create E p J c actor data =
     PAP_Write E (pdp_lib p) J c (\<lambda>c.
       bindT (readT (authorizeCreate p actor data)) (\<lambda>managerGroups.
       bindT (persistEntity E c data) (\<lambda>grp.
       bindT (applyInitialPermissions E J c grp (cd_InitialPermissions data)) (\<lambda>grp.
       bindT (applyInitialMembers E J c grp (cd_InitialMembers data)) (\<lambda>grp.
       bindT (wireInitialManagers E J c grp managerGroups) (\<lambda>_.
       bindT (if grp_PermissionsVersion grp > 0 \<or> grp_MembersVersion grp > 0
              then Group_Update E (GetQuerier c) grp else returnT grp) (\<lambda>grp.
       readT (\<lambda>w. Ok \<lparr>cr_Group = grp,
         cr_VisibleMembers = FilterVisibleUsers p (ai_UserID actor) (cd_InitialMembers data) w,
         cr_Permissions = cd_InitialPermissions data\<rparr>))))))))"

section \<open>Update\<close>

record UpdateData =
  ud_Name :: string
  ud_DisplayName :: string
  ud_Description :: string
  ud_ExpectedMetadataVersion :: "int64 option"

definition GroupService_Update ::
  "env \<Rightarrow> 'm pdp \<Rightarrow> jsonStrings \<Rightarrow> 'c ctx_scheme \<Rightarrow> UpdateData \<Rightarrow> (Group, ('m, 'z) pworld_scheme) op" where
  "GroupService_Update E p J c data =
     PAP_Write E (pdp_lib p) J c (\<lambda>c.
       bindT (readT (loadMutableGroup (ud_Name data))) (\<lambda>existing.
       bindT (whenErr (CheckVersion (ud_ExpectedMetadataVersion data) (grp_MetadataVersion existing))) (\<lambda>_.
       bindT (timeNow E) (\<lambda>now.
       Group_Update E (GetQuerier c)
         (existing\<lparr>grp_DisplayName := ud_DisplayName data, grp_Description := ud_Description data,
                   grp_MetadataVersion := wrap64 (grp_MetadataVersion existing + 1), grp_UpdatedAt := now\<rparr>)))))"

section \<open>Members\<close>

record UpdateMembersData =
  md_GroupName :: string
  md_AddEmails :: "string list"
  md_RemoveEmails :: "string list"
  md_ExpectedMembersVersion :: "int64 option"

definition commitMemberDelta ::
  "env \<Rightarrow> jsonStrings \<Rightarrow> 'c ctx_scheme \<Rightarrow> Group \<Rightarrow> string list \<Rightarrow> string list \<Rightarrow> (Group, ('m, 'z) pworld_scheme) op" where
  "commitMemberDelta E J c existing added removed =
     bindT (ApplyMemberDeltas E J c (grp_Name existing) added removed) (\<lambda>_.
     bindT (timeNow E) (\<lambda>now.
     Group_Update E (GetQuerier c)
       (existing\<lparr>grp_MembersVersion := wrap64 (grp_MembersVersion existing + 1), grp_UpdatedAt := now\<rparr>)))"

definition GroupService_UpdateMembers ::
  "env \<Rightarrow> 'm pdp \<Rightarrow> jsonStrings \<Rightarrow> 'c ctx_scheme \<Rightarrow> AuthInfo \<Rightarrow> UpdateMembersData
     \<Rightarrow> (Group \<times> string list, ('m, 'z) pworld_scheme) op" where
  "GroupService_UpdateMembers E p J c actor data =
     (case FirstOverlap (md_AddEmails data) (md_RemoveEmails data) of
        Some v \<Rightarrow> failT (ErrValidation ''email'' (quoted v @ '' appears in both add and remove''))
      | None \<Rightarrow>
          PAP_Write E (pdp_lib p) J c (\<lambda>c.
            bindT (readT (loadMutableGroup (md_GroupName data))) (\<lambda>existing.
            bindT (whenErr (CheckVersion (md_ExpectedMembersVersion data) (grp_MembersVersion existing))) (\<lambda>_.
            bindT (readT (\<lambda>w. Ok (GroupMembers (pdp_lib p) (cache w) (grp_Name existing)))) (\<lambda>current.
            let added = NotIn (md_AddEmails data) (ToSet current);
                removed = In (md_RemoveEmails data) (ToSet current)
            in
            bindT (if added \<noteq> [] then readT (RequireMembershipGrant p (ai_UserID actor) (grp_Name existing))
                   else returnT ()) (\<lambda>_.
            if added = [] \<and> removed = []
            then readT (\<lambda>w. Ok (existing, FilterVisibleUsers p (ai_UserID actor) current w))
            else
              bindT (commitMemberDelta E J c existing added removed) (\<lambda>updated.
              readT (\<lambda>w. Ok (updated,
                FilterVisibleUsers p (ai_UserID actor) (ComposePost current added removed) w)))))))))"

section \<open>Permissions\<close>

record UpdatePermissionsData =
  pd_GroupName :: string
  pd_Add :: "Permission list"
  pd_Remove :: "Permission list"
  pd_ExpectedPermissionsVersion :: "int64 option"

definition boundaryCheckPerms :: "'m pdp \<Rightarrow> AuthInfo \<Rightarrow> Permission list \<Rightarrow> ('m, 'z) pworld_scheme \<Rightarrow> err + unit" where
  "boundaryCheckPerms p actor added w =
     (if list_all (Has p (cache w) (ai_UserID actor)) added then Ok () else Err ErrPermissionEscalation)"

definition cascadeCheckPerms ::
  "'m pdp \<Rightarrow> AuthInfo \<Rightarrow> string \<Rightarrow> Permission list \<Rightarrow> ('m, 'z) pworld_scheme \<Rightarrow> err + unit" where
  "cascadeCheckPerms p actor groupName post w =
     (if GroupMembers (pdp_lib p) (cache w) groupName = [] then Ok ()
      else if list_all (Has p (cache w) (ai_UserID actor)) post then Ok () else Err ErrPermissionEscalation)"

definition commitPermissionDelta ::
  "env \<Rightarrow> jsonStrings \<Rightarrow> 'c ctx_scheme \<Rightarrow> Group \<Rightarrow> Permission list \<Rightarrow> Permission list
     \<Rightarrow> (Group, ('m, 'z) pworld_scheme) op" where
  "commitPermissionDelta E J c existing added removed =
     bindT (ApplyPermissionDeltas E J c (grp_Name existing) added removed) (\<lambda>_.
     bindT (timeNow E) (\<lambda>now.
     Group_Update E (GetQuerier c)
       (existing\<lparr>grp_PermissionsVersion := wrap64 (grp_PermissionsVersion existing + 1), grp_UpdatedAt := now\<rparr>)))"

definition GroupService_UpdatePermissions ::
  "env \<Rightarrow> 'm pdp \<Rightarrow> jsonStrings \<Rightarrow> 'c ctx_scheme \<Rightarrow> AuthInfo \<Rightarrow> UpdatePermissionsData
     \<Rightarrow> (Group \<times> Permission list, ('m, 'z) pworld_scheme) op" where
  "GroupService_UpdatePermissions E p J c actor data =
     bindT (whenErr (validatePermissionDeltas (pd_Add data) (pd_Remove data))) (\<lambda>_.
     PAP_Write E (pdp_lib p) J c (\<lambda>c.
       bindT (readT (loadMutableGroup (pd_GroupName data))) (\<lambda>existing.
       bindT (whenErr (CheckVersion (pd_ExpectedPermissionsVersion data) (grp_PermissionsVersion existing))) (\<lambda>_.
       bindT (PAPTx_GroupPermissions E J c (grp_Name existing)) (\<lambda>current.
       let added = NotIn (pd_Add data) (ToSet current);
           removed = In (pd_Remove data) (ToSet current);
           post = ComposePost current added removed
       in
       bindT (readT (boundaryCheckPerms p actor added)) (\<lambda>_.
       if length added + length removed = 0 then returnT (existing, current)
       else
         bindT (readT (cascadeCheckPerms p actor (grp_Name existing) post)) (\<lambda>_.
         bindT (commitPermissionDelta E J c existing added removed) (\<lambda>updated.
         returnT (updated, post)))))))))"

section \<open>Delete, Get and List\<close>

definition GroupService_Delete ::
  "env \<Rightarrow> 'm pdp \<Rightarrow> jsonStrings \<Rightarrow> 'c ctx_scheme \<Rightarrow> string \<Rightarrow> (unit, ('m, 'z) pworld_scheme) op" where
  "GroupService_Delete E p J c name =
     PAP_Write E (pdp_lib p) J c (\<lambda>c.
       bindT (readT (loadMutableGroup name)) (\<lambda>grp.
       bindT (PAPTx_DeleteGroup E J c (grp_Name grp)) (\<lambda>_.
       Group_Delete E (GetQuerier c) name)))"

definition GroupService_Get ::
  "'m pdp \<Rightarrow> AuthInfo \<Rightarrow> string \<Rightarrow> ('m, 'z) pworld_scheme \<Rightarrow> err + (Group \<times> string list \<times> Permission list)" where
  "GroupService_Get p actor name w =
     (case Group_Get name w of
        Inl e \<Rightarrow> Err (mapGroupErr name e)
      | Inr grp \<Rightarrow>
          Ok (grp,
              FilterVisibleUsers p (ai_UserID actor) (GroupMembers (pdp_lib p) (cache w) (grp_Name grp)) w,
              PAP_GroupPermissions (pdp_lib p) (cache w) (grp_Name grp)))"

definition defaultListLimit :: int where "defaultListLimit = 20"

definition GroupService_List ::
  "env \<Rightarrow> 'm pdp \<Rightarrow> 'c ctx_scheme \<Rightarrow> AuthInfo \<Rightarrow> int64 \<Rightarrow> int64 \<Rightarrow> SortParams \<Rightarrow> string
     \<Rightarrow> ('m, 'z) pworld_scheme \<Rightarrow> err + (Group list \<times> int \<times> int64 \<times> int64)" where
  "GroupService_List E p c user limit0 offset sortBy qry w =
     (let limit = (if limit0 \<le> 0 then defaultListLimit else limit0);
          scope = EffectiveDomains p (cache w) (ai_UserID user) ObjectGroup ActionRead
      in if DomainSet_IsEmpty scope then Ok ([], 0, limit, offset)
         else
           (case Group_List E (GetQuerier c)
                   \<lparr>gf_Names = GroupNamesFromScope scope, gf_Wildcard = ds_Wildcard scope, gf_Search = qry\<rparr>
                   limit offset sortBy w of
              Inl e \<Rightarrow> Err e
            | Inr (groups, tot) \<Rightarrow> Ok (groups, tot, limit, offset)))"

end
