(* ===== verification/PolicyProofs.thy ===== *)
theory PolicyProofs
  imports GroupService SessionProofs
begin

text \<open>
  The persisted policy and the rules in memory: what the administration operations do to the stored
  rules, that they record every change they make, and that replaying the record keeps the rules in memory
  equal to the stored ones.
\<close>

section \<open>What the program relies on\<close>

text \<open>\<^verbatim>\<open>json.Marshal\<close> of a list of strings can be read back.\<close>

definition json_ok :: "jsonStrings \<Rightarrow> bool" where
  "json_ok J \<longleftrightarrow> (\<forall>xs. js_Unmarshal J (js_Marshal J xs) = Some xs)"

text \<open>
  The documented effect of casbin's calls on the two lists of rules: adding and removing a rule,
  \<^verbatim>\<open>DeleteUser\<close>, which removes the rules of a subject, and the removal by a column.
\<close>

definition hasColumn :: "nat \<Rightarrow> string \<Rightarrow> string list \<Rightarrow> bool" where
  "hasColumn i u r \<longleftrightarrow> i < length r \<and> r ! i = u"

definition cacheRules :: "'m casbin \<Rightarrow> 'm \<Rightarrow> string list set \<times> string list set" where
  "cacheRules cb m = (set (cb_GetPolicy cb m), set (cb_GetGroupingPolicy cb m))"

fun inCache :: "polop \<Rightarrow> string list set \<times> string list set \<Rightarrow> string list set \<times> string list set" where
  "inCache (opAddP r) (P, G) = (insert r P, G)"
| "inCache (opRemoveP r) (P, G) = (P - {r}, G)"
| "inCache (opAddG r) (P, G) = (P, insert r G)"
| "inCache (opRemoveG r) (P, G) = (P, G - {r})"
| "inCache (opDeleteUser u) (P, G) =
     ({r \<in> P. \<not> hasColumn 0 u r}, {r \<in> G. \<not> hasColumn 0 u r \<and> \<not> hasColumn 1 u r})"

fun opShape :: "polop \<Rightarrow> bool" where
  "opShape (opAddP r) = (length r = pRuleLen)"
| "opShape (opRemoveP r) = (length r = pRuleLen)"
| "opShape (opAddG r) = (length r = gRuleNativeLen)"
| "opShape (opRemoveG r) = (length r = gRuleNativeLen)"
| "opShape (opDeleteUser u) = (u \<noteq> [])"

definition casbin_documented :: "'m casbin \<Rightarrow> bool" where
  "casbin_documented cb \<longleftrightarrow>
     (\<forall>r m. length r = pRuleLen \<longrightarrow> (\<exists>m'. cb_AddPolicy cb r m = Inr m' \<and>
        cacheRules cb m' = (insert r (fst (cacheRules cb m)), snd (cacheRules cb m)))) \<and>
     (\<forall>r m. length r = pRuleLen \<longrightarrow> (\<exists>m'. cb_RemovePolicy cb r m = Inr m' \<and>
        cacheRules cb m' = (fst (cacheRules cb m) - {r}, snd (cacheRules cb m)))) \<and>
     (\<forall>r m. length r = gRuleNativeLen \<longrightarrow> (\<exists>m'. cb_AddGroupingPolicy cb r m = Inr m' \<and>
        cacheRules cb m' = (fst (cacheRules cb m), insert r (snd (cacheRules cb m))))) \<and>
     (\<forall>r m. length r = gRuleNativeLen \<longrightarrow> (\<exists>m'. cb_RemoveGroupingPolicy cb r m = Inr m' \<and>
        cacheRules cb m' = (fst (cacheRules cb m), snd (cacheRules cb m) - {r}))) \<and>
     (\<forall>u m. u \<noteq> [] \<longrightarrow> (\<exists>m'. cb_DeleteUser cb u m = Inr m' \<and>
        cacheRules cb m' = ({r \<in> fst (cacheRules cb m). \<not> hasColumn 0 u r},
                            {r \<in> snd (cacheRules cb m). \<not> hasColumn 0 u r}))) \<and>
     (\<forall>i u m. u \<noteq> [] \<longrightarrow> (\<exists>m'. cb_RemoveFilteredGroupingPolicy cb i u m = Inr m' \<and>
        cacheRules cb m' = (fst (cacheRules cb m), {r \<in> snd (cacheRules cb m). \<not> hasColumn i u r})))"

lemmas casbin_documentedD =
  casbin_documented_def [THEN iffD1, THEN conjunct1, rule_format]
  casbin_documented_def [THEN iffD1, THEN conjunct2, THEN conjunct1, rule_format]
  casbin_documented_def [THEN iffD1, THEN conjunct2, THEN conjunct2, THEN conjunct1, rule_format]
  casbin_documented_def [THEN iffD1, THEN conjunct2, THEN conjunct2, THEN conjunct2, THEN conjunct1, rule_format]
  casbin_documented_def [THEN iffD1, THEN conjunct2, THEN conjunct2, THEN conjunct2, THEN conjunct2, THEN conjunct1, rule_format]
  casbin_documented_def [THEN iffD1, THEN conjunct2, THEN conjunct2, THEN conjunct2, THEN conjunct2, THEN conjunct2, rule_format]

lemma applyOp_documented:
  assumes cb: "casbin_documented cb" and "opShape op"
  shows "\<exists>m'. applyOp cb op m = Inr m' \<and> cacheRules cb m' = inCache op (cacheRules cb m)"
proof -
  note D = casbin_documentedD [OF cb]
  obtain P G where PG: "cacheRules cb m = (P, G)" by fastforce
  show ?thesis
  proof (cases op)
    case (opDeleteUser u)
    with assms(2) D(5) [of u m] obtain m1 where m1: "cb_DeleteUser cb u m = Inr m1"
      "cacheRules cb m1 = ({r \<in> P. \<not> hasColumn 0 u r}, {r \<in> G. \<not> hasColumn 0 u r})" by (auto simp: PG)
    from assms(2) opDeleteUser D(6) [of u 1 m1] obtain m2 where
      "cb_RemoveFilteredGroupingPolicy cb 1 u m1 = Inr m2"
      "cacheRules cb m2 = ({r \<in> P. \<not> hasColumn 0 u r}, {r \<in> {r \<in> G. \<not> hasColumn 0 u r}. \<not> hasColumn 1 u r})"
      by (auto simp: m1(2))
    with m1 opDeleteUser show ?thesis by (auto simp: applyOp_def PG)
  qed (use assms(2) D(1-4) [of _ m] in \<open>auto simp: applyOp_def PG\<close>)
qed

lemma applyOpsToCache_documented:
  assumes "casbin_documented cb" "list_all opShape ops"
  shows "\<exists>m'. applyOpsToCache cb ops w = (Inr (), w\<lparr>cache := m'\<rparr>) \<and>
    cacheRules cb m' = fold inCache ops (cacheRules cb (cache w))"
  using assms(2)
proof (induction ops arbitrary: w)
  case Nil
  then show ?case by (auto intro: exI [of _ "cache w"])
next
  case (Cons op ops)
  then obtain m1 where m1: "applyOp cb op (cache w) = Inr m1" "cacheRules cb m1 = inCache op (cacheRules cb (cache w))"
    using applyOp_documented [OF assms(1)] by fastforce
  from Cons.prems Cons.IH [of "w\<lparr>cache := m1\<rparr>"] m1 show ?case by auto
qed

section \<open>The stored rules\<close>

definition pDisk :: "jsonStrings \<Rightarrow> database \<Rightarrow> string list set" where
  "pDisk J d = {r. dget d bucketPolicy (ruleKey J ''p'' ''p'' r) \<noteq> None}"

definition gDisk :: "jsonStrings \<Rightarrow> database \<Rightarrow> string list set" where
  "gDisk J d = {r. dget d bucketPolicy (ruleKey J ''g'' ''g'' r) \<noteq> None}"

definition diskRules :: "jsonStrings \<Rightarrow> database \<Rightarrow> string list set \<times> string list set" where
  "diskRules J d = (pDisk J d, gDisk J d)"

text \<open>What the recorded operations do to the store: deleting a subject leaves its permissions.\<close>

fun onDisk :: "polop \<Rightarrow> string list set \<times> string list set \<Rightarrow> string list set \<times> string list set" where
  "onDisk (opAddP r) (P, G) = (insert r P, G)"
| "onDisk (opRemoveP r) (P, G) = (P - {r}, G)"
| "onDisk (opAddG r) (P, G) = (P, insert r G)"
| "onDisk (opRemoveG r) (P, G) = (P, G - {r})"
| "onDisk (opDeleteUser u) (P, G) = (P, {r \<in> G. \<not> hasColumn 0 u r \<and> \<not> hasColumn 1 u r})"

definition agree :: "jsonStrings \<Rightarrow> 'm casbin \<Rightarrow> ('m, 'z) pworld_scheme \<Rightarrow> bool" where
  "agree J cb w \<longleftrightarrow> cacheRules cb (cache w) = diskRules J (buckets w)"

lemma Marshal_inj: "json_ok J \<Longrightarrow> js_Marshal J xs = js_Marshal J ys \<longleftrightarrow> xs = ys"
  unfolding json_ok_def by (metis option.inject)

lemma ruleKey_eq:
  assumes "json_ok J"
  shows "ruleKey J s t r = ruleKey J s' t' r' \<longleftrightarrow> s = s' \<and> t = t' \<and> r = r'"
  by (simp add: ruleKey_def Marshal_inj [OF assms])

lemma diskRules_put:
  assumes "json_ok J"
  shows "diskRules J (dbput bucketPolicy (ruleKey J ''p'' ''p'' r) v d) = onDisk (opAddP r) (diskRules J d)"
    "diskRules J (dbput bucketPolicy (ruleKey J ''g'' ''g'' r) v d) = onDisk (opAddG r) (diskRules J d)"
  by (auto simp: diskRules_def pDisk_def gDisk_def ruleKey_eq [OF assms])

lemma diskRules_del:
  assumes "json_ok J"
  shows "diskRules J (dbdel bucketPolicy (ruleKey J ''p'' ''p'' r) d) = onDisk (opRemoveP r) (diskRules J d)"
    "diskRules J (dbdel bucketPolicy (ruleKey J ''g'' ''g'' r) d) = onDisk (opRemoveG r) (diskRules J d)"
  by (auto simp: diskRules_def pDisk_def gDisk_def ruleKey_eq [OF assms])

lemma diskRules_other:
  assumes "\<And>k. dget d' bucketPolicy k = dget d bucketPolicy k"
  shows "diskRules J d' = diskRules J d"
  by (simp add: diskRules_def pDisk_def gDisk_def assms)

section \<open>Removal by a column\<close>

lemma deleteKeys_Inr:
  assumes "deleteKeys E q ks w = (Inr u, w')"
  shows "dget (buckets w') bucketPolicy k = (if k \<in> set ks then None else dget (buckets w) bucketPolicy k) \<and>
    w' = w\<lparr>buckets := buckets w'\<rparr>"
  using assms
proof (induction ks arbitrary: w)
  case (Cons k1 ks)
  from Cons.prems obtain w1 where d: "bucket_Delete E q bucketPolicy k1 w = (Inr (), w1)"
    and rest: "deleteKeys E q ks w1 = (Inr u, w')" by (auto simp: bind_inversion)
  have w1: "w1 = w\<lparr>buckets := dbdel bucketPolicy k1 (buckets w)\<rparr>" using Delete_Inr [OF d] .
  from Cons.IH [OF rest] show ?case by (auto simp: w1)
qed simp

lemma filteredKey_rule:
  assumes "json_ok J" "u \<noteq> []" "i < 2"
  shows "filteredKey J ''g'' ''g'' i [u] (ruleKey J s t r) \<longleftrightarrow> s = ''g'' \<and> t = ''g'' \<and> hasColumn i u r"
  using assms(2,3) assms(1) [unfolded json_ok_def]
  by (cases r) (auto simp: filteredKey_def keyParts_def ruleKey_def minPartsLen_def matchesFilter_def hasColumn_def)

lemma RemoveFiltered_Inr:
  assumes J: "json_ok J" "u \<noteq> []" "i < 2"
    and run: "RemoveFilteredPolicyCtx E J q ''g'' ''g'' i [u] w = (Inr x, w')"
  shows "diskRules J (buckets w') = (pDisk J (buckets w), {r \<in> gDisk J (buckets w). \<not> hasColumn i u r})"
    "w' = w\<lparr>buckets := buckets w'\<rparr>"
proof -
  from run obtain b where b: "bucket_ForEach E q bucketPolicy w = Inr b"
    and del: "deleteKeys E q (filter (filteredKey J ''g'' ''g'' i [u]) (map fst b)) w = (Inr x, w')"
    by (auto simp: RemoveFilteredPolicyCtx_def bind_inversion)
  have keys: "k \<in> set (map fst b) \<longleftrightarrow> dget (buckets w) bucketPolicy k \<noteq> None" for k
    using b by (auto simp: bucket_ForEach_def dget_def bkt_def map_of_eq_None_iff split: if_splits option.splits)
  note D = deleteKeys_Inr [OF del]
  from D show "w' = w\<lparr>buckets := buckets w'\<rparr>" by blast
  have g: "dget (buckets w') bucketPolicy (ruleKey J s t r) =
      (if s = ''g'' \<and> t = ''g'' \<and> hasColumn i u r then None else dget (buckets w) bucketPolicy (ruleKey J s t r))" for s t r
    using D [of "ruleKey J s t r"] keys [of "ruleKey J s t r"] filteredKey_rule [OF J, of s t r] by auto
  show "diskRules J (buckets w') = (pDisk J (buckets w), {r \<in> gDisk J (buckets w). \<not> hasColumn i u r})"
    by (auto simp: diskRules_def pDisk_def gDisk_def g)
qed

section \<open>Operations that record what they store\<close>

text \<open>
  An operation is logged, while the rules in memory are \<open>mc\<close>, when it leaves them alone and, when it
  succeeds, has changed the stored rules exactly by the operations it has recorded.
\<close>

definition logged_at :: "jsonStrings \<Rightarrow> (polop \<Rightarrow> bool) \<Rightarrow> ('a, ('m, 'z) pworld_scheme) op \<Rightarrow> ('m, 'z) pworld_scheme \<Rightarrow> bool" where
  "logged_at J Q m w \<longleftrightarrow> (\<forall>r w'. m w = (r, w') \<longrightarrow> cache w' = cache w \<and>
     (\<forall>x. r = Inr x \<longrightarrow> (\<exists>ops. txOps w' = txOps w @ ops \<and> list_all Q ops \<and>
        diskRules J (buckets w') = fold onDisk ops (diskRules J (buckets w)))))"

definition logged :: "jsonStrings \<Rightarrow> 'm \<Rightarrow> (polop \<Rightarrow> bool) \<Rightarrow> ('a, ('m, 'z) pworld_scheme) op \<Rightarrow> bool" where
  "logged J mc Q m \<longleftrightarrow> (\<forall>w. cache w = mc \<longrightarrow> logged_at J Q m w)"

lemma loggedI:
  assumes "\<And>w r w'. cache w = mc \<Longrightarrow> m w = (r, w') \<Longrightarrow> cache w' = mc"
    and "\<And>w x w'. cache w = mc \<Longrightarrow> m w = (Inr x, w') \<Longrightarrow> \<exists>ops. txOps w' = txOps w @ ops \<and> list_all Q ops \<and>
        diskRules J (buckets w') = fold onDisk ops (diskRules J (buckets w))"
  shows "logged J mc Q m"
  using assms unfolding logged_def logged_at_def by blast

lemma logged_cache: "logged J mc Q m \<Longrightarrow> cache w = mc \<Longrightarrow> m w = (r, w') \<Longrightarrow> cache w' = mc"
  unfolding logged_def logged_at_def by blast

lemma logged_ops:
  assumes "logged J mc Q m" "cache w = mc" "m w = (Inr x, w')"
  obtains ops where "txOps w' = txOps w @ ops" "list_all Q ops"
    "diskRules J (buckets w') = fold onDisk ops (diskRules J (buckets w))"
  using assms unfolding logged_def logged_at_def by blast

lemma logged_atD:
  assumes "logged_at J Q m w"
  shows "m w = (r, w') \<Longrightarrow> cache w' = cache w"
    "m w = (Inr x, w') \<Longrightarrow> \<exists>ops. txOps w' = txOps w @ ops \<and> list_all Q ops \<and>
        diskRules J (buckets w') = fold onDisk ops (diskRules J (buckets w))"
  using assms unfolding logged_at_def by blast+

lemma logged_at: "logged J (cache w) Q m \<Longrightarrow> logged_at J Q m w"
  unfolding logged_def by blast

lemma logged_mono:
  assumes m: "logged J mc Q m" and Q: "\<And>op. Q op \<Longrightarrow> Q' op"
  shows "logged J mc Q' m"
proof (rule loggedI)
  fix w x w' assume "cache w = mc" "m w = (Inr x, w')"
  from logged_ops [OF m this] obtain ops where "txOps w' = txOps w @ ops" "list_all Q ops"
    "diskRules J (buckets w') = fold onDisk ops (diskRules J (buckets w))" .
  then show "\<exists>ops. txOps w' = txOps w @ ops \<and> list_all Q' ops \<and>
      diskRules J (buckets w') = fold onDisk ops (diskRules J (buckets w))"
    using Q by (auto simp: list_all_iff)
qed (rule logged_cache [OF m])

lemma logged_bind:
  assumes m: "logged J mc Q m" and f: "\<And>x. logged J mc Q (f x)"
  shows "logged J mc Q (bindT m f)"
proof (rule loggedI)
  fix w r w' assume c: "cache w = mc" and b: "bindT m f w = (r, w')"
  obtain r1 w1 where 1: "m w = (r1, w1)" by fastforce
  note c1 = logged_cache [OF m c 1]
  show "cache w' = mc"
  proof (cases r1)
    case (Inr x)
    with b 1 have "f x w1 = (r, w')" by (simp add: bindT_def)
    then show ?thesis by (rule logged_cache [OF f c1])
  qed (use b 1 c1 in \<open>auto simp: bindT_def\<close>)
next
  fix w x w' assume c: "cache w = mc" and "bindT m f w = (Inr x, w')"
  then obtain y w1 where 1: "m w = (Inr y, w1)" and 2: "f y w1 = (Inr x, w')" by (auto simp: bind_inversion)
  from logged_ops [OF m c 1] obtain ops1 where o1: "txOps w1 = txOps w @ ops1" "list_all Q ops1"
    "diskRules J (buckets w1) = fold onDisk ops1 (diskRules J (buckets w))" .
  from logged_ops [OF f logged_cache [OF m c 1] 2] obtain ops2 where o2: "txOps w' = txOps w1 @ ops2" "list_all Q ops2"
    "diskRules J (buckets w') = fold onDisk ops2 (diskRules J (buckets w1))" .
  from o1 o2 show "\<exists>ops. txOps w' = txOps w @ ops \<and> list_all Q ops \<and>
      diskRules J (buckets w') = fold onDisk ops (diskRules J (buckets w))"
    by (intro exI [of _ "ops1 @ ops2"]) simp
qed

lemma logged_basic:
  "logged J mc Q (returnT x)" "logged J mc Q (failT e)" "logged J mc Q (readT g)" "logged J mc Q (whenErr u)" "logged J mc Q (timeNow E)"
  by (rule loggedI; simp add: returnT_def failT_def readT_def whenErr_def timeNow_def; auto)+

lemma logged_Put_other: "n \<noteq> bucketPolicy \<Longrightarrow> logged J mc Q (bucket_Put E q n k v :: (unit, ('m, 'z) pworld_scheme) op)"
proof (rule loggedI)
  fix w :: "('m, 'z) pworld_scheme" and r w' assume "cache w = mc" "bucket_Put E q n k v w = (r, w')"
  then show "cache w' = mc" by (auto dest: Put_cases)
next
  fix w :: "('m, 'z) pworld_scheme" and x w' assume n: "n \<noteq> bucketPolicy" and "bucket_Put E q n k v w = (Inr x, w')"
  then have w': "w' = w\<lparr>buckets := dbput n k v (buckets w)\<rparr>" by (simp add: Put_Inr)
  have "diskRules J (dbput n k v (buckets w)) = diskRules J (buckets w)"
    using n by (intro diskRules_other) auto
  then show "\<exists>ops. txOps w' = txOps w @ ops \<and> list_all Q ops \<and>
      diskRules J (buckets w') = fold onDisk ops (diskRules J (buckets w))"
    by (intro exI [of _ "[]"]) (simp add: w')
qed

lemma Delete_cases:
  assumes "bucket_Delete E q n k w = (r, w')"
  shows "w' = w \<or> w' = w\<lparr>buckets := dbdel n k (buckets w)\<rparr>"
proof (cases r)
  case (Inl e)
  with assms show ?thesis unfolding bucket_Delete_def by (auto dest: bucketWrite_Inl)
next
  case (Inr u)
  with assms show ?thesis by (auto dest: Delete_Inr)
qed

text \<open>A stored rule followed by its record.\<close>

lemma logged_record:
  assumes keeps: "\<And>w r w'. m w = (r, w') \<Longrightarrow> cache w' = cache w \<and> txOps w' = txOps w"
    and disk: "\<And>w x w'. m w = (Inr x, w') \<Longrightarrow> diskRules J (buckets w') = onDisk op (diskRules J (buckets w))"
    and "Q op"
  shows "logged J mc Q (bindT m (\<lambda>_. recordOp op))"
proof (rule loggedI)
  fix w r w' assume "cache w = mc" "bindT m (\<lambda>_. recordOp op) w = (r, w')"
  then show "cache w' = mc"
    using keeps by (fastforce simp: bindT_def recordOp_def split: prod.splits sum.splits)
next
  fix w x w' assume "bindT m (\<lambda>_. recordOp op) w = (Inr x, w')"
  then obtain y w1 where 1: "m w = (Inr y, w1)" and w': "w' = w1\<lparr>txOps := txOps w1 @ [op]\<rparr>"
    by (auto simp: bind_inversion recordOp_def)
  from keeps [OF 1] disk [OF 1] assms(3) show "\<exists>ops. txOps w' = txOps w @ ops \<and> list_all Q ops \<and>
      diskRules J (buckets w') = fold onDisk ops (diskRules J (buckets w))"
    by (intro exI [of _ "[op]"]) (simp add: w')
qed

lemma put_keeps: "bucket_Put E q n k v w = (r, w') \<Longrightarrow> cache w' = cache w \<and> txOps w' = txOps w"
  using Put_cases by fastforce

lemma delete_keeps: "bucket_Delete E q n k w = (r, w') \<Longrightarrow> cache w' = cache w \<and> txOps w' = txOps w"
  using Delete_cases by fastforce

lemma logged_rules:
  assumes "json_ok J"
  shows "Q (opAddP [s, d, ob, a]) \<Longrightarrow> logged J mc Q (Tx_AddPolicy E J c s d ob a)"
    "Q (opRemoveP [s, d, ob, a]) \<Longrightarrow> logged J mc Q (Tx_RemovePolicy E J c s d ob a)"
    "Q (opAddG [s, d, a]) \<Longrightarrow> logged J mc Q (Tx_AddRoleForUser E J c s d a)"
    "Q (opRemoveG [s, d, a]) \<Longrightarrow> logged J mc Q (Tx_RemoveRoleForUser E J c s d a)"
  unfolding Tx_AddPolicy_def Tx_RemovePolicy_def Tx_AddRoleForUser_def Tx_RemoveRoleForUser_def
    AddPolicyCtx_def RemovePolicyCtx_def
  by (rule logged_record; auto dest: put_keeps delete_keeps Put_Inr Delete_Inr
      simp: diskRules_put [OF assms] diskRules_del [OF assms])+

lemma logged_deltas:
  assumes J: "json_ok J"
    and addP: "\<And>p. p \<in> set ps \<Longrightarrow> Q (opAddP [s, per_Domain p, per_Object p, per_Action p])"
    and remP: "\<And>p. p \<in> set ps' \<Longrightarrow> Q (opRemoveP [s, per_Domain p, per_Object p, per_Action p])"
  shows "logged J mc Q (addPolicies E J c s ps)" "logged J mc Q (removePolicies E J c s ps')"
  using addP remP by (induction ps) (induction ps', auto intro!: logged_bind logged_basic logged_rules [OF J])+

lemma logged_members:
  assumes J: "json_ok J"
    and addG: "\<And>u. u \<in> set us \<Longrightarrow> Q (opAddG [u, s, MembershipDomain])"
    and remG: "\<And>u. u \<in> set us' \<Longrightarrow> Q (opRemoveG [u, s, MembershipDomain])"
  shows "logged J mc Q (addMembers E J c s us)" "logged J mc Q (removeMembers E J c s us')"
  using addG remG by (induction us) (induction us', auto intro!: logged_bind logged_basic logged_rules [OF J])+

lemma logged_ApplyPermissionDeltas:
  assumes "json_ok J"
    and "\<And>p. p \<in> set added \<Longrightarrow> Q (opAddP [GroupResource name, per_Domain p, per_Object p, per_Action p])"
    and "\<And>p. p \<in> set removed \<Longrightarrow> Q (opRemoveP [GroupResource name, per_Domain p, per_Object p, per_Action p])"
  shows "logged J mc Q (ApplyPermissionDeltas E J c name added removed)"
  unfolding ApplyPermissionDeltas_def using assms by (intro logged_bind logged_deltas)

lemma logged_ApplyMemberDeltas:
  assumes "json_ok J"
    and "\<And>u. u \<in> set added \<Longrightarrow> Q (opAddG [u, GroupResource name, MembershipDomain])"
    and "\<And>u. u \<in> set removed \<Longrightarrow> Q (opRemoveG [u, GroupResource name, MembershipDomain])"
  shows "logged J mc Q (ApplyMemberDeltas E J c name added removed)"
  unfolding ApplyMemberDeltas_def using assms by (intro logged_bind logged_members)

section \<open>The group records are no rules\<close>

lemma bucketGroups_policy [simp]: "bucketGroups \<noteq> bucketPolicy"
  by (simp add: bucketGroups_def bucketPolicy_def)

lemma logged_Delete_other: "n \<noteq> bucketPolicy \<Longrightarrow> logged J mc Q (bucket_Delete E q n k :: (unit, ('m, 'z) pworld_scheme) op)"
proof (rule loggedI)
  fix w :: "('m, 'z) pworld_scheme" and x w' assume n: "n \<noteq> bucketPolicy" and "bucket_Delete E q n k w = (Inr x, w')"
  then have w': "w' = w\<lparr>buckets := dbdel n k (buckets w)\<rparr>" by (simp add: Delete_Inr)
  have "diskRules J (dbdel n k (buckets w)) = diskRules J (buckets w)"
    using n by (intro diskRules_other) auto
  then show "\<exists>ops. txOps w' = txOps w @ ops \<and> list_all Q ops \<and>
      diskRules J (buckets w') = fold onDisk ops (diskRules J (buckets w))"
    by (intro exI [of _ "[]"]) (simp add: w')
qed (auto dest: delete_keeps)

lemma logged_groups:
  "logged J mc Q (Group_Create E q g)" "logged J mc Q (Group_Update E q g)" "logged J mc Q (Group_Delete E q name)"
  unfolding Group_Create_def Group_Update_def Group_Delete_def boltPut_def boltDelete_def Let_def
  by (intro logged_bind logged_basic logged_Put_other logged_Delete_other bucketGroups_policy)+

section \<open>Committing the record\<close>

text \<open>
  A write that is no part of an outer transaction either leaves the store and the rules in memory as they
  were, or commits and replays on the rules in memory what it has recorded.
\<close>

definition replayed ::
  "jsonStrings \<Rightarrow> 'm casbin \<Rightarrow> polop list \<Rightarrow> ('m, 'z) pworld_scheme \<Rightarrow> ('m, 'z) pworld_scheme \<Rightarrow> bool" where
  "replayed J cb ops w w' \<longleftrightarrow>
     diskRules J (buckets w') = fold onDisk ops (diskRules J (buckets w)) \<and>
     cacheRules cb (cache w') = fold inCache ops (cacheRules cb (cache w))"

lemma WithTx_top:
  assumes "ctx_tx c = None" "WithTx E c f w = (r, w')"
  shows "(\<exists>e. r = Inl e \<and> (w' = w \<or> w' = (snd (f (c\<lparr>ctx_tx := Some True\<rparr>) w))\<lparr>buckets := buckets w\<rparr>)) \<or>
    (\<exists>x. r = Inr x \<and> f (c\<lparr>ctx_tx := Some True\<rparr>) w = (Inr x, w'))"
  using assms by (auto simp: WithTx_def runTx_def split: option.splits prod.splits sum.splits if_splits)

lemma WriteTx_outcome:
  assumes top: "ctx_tx c = None" and run: "Enforcer_WriteTx E cb J c fn w = (r, w')"
    and cb: "casbin_documented cb"
    and lg: "logged_at J Q (fn (c\<lparr>ctx_tx := Some True\<rparr>)) (w\<lparr>txOps := []\<rparr>)" and Q: "\<And>op. Q op \<Longrightarrow> opShape op"
  obtains (reverted) e where "r = Inl e" "buckets w' = buckets w" "cache w' = cache w"
  | (committed) x w1 where "r = Inr x" "fn (c\<lparr>ctx_tx := Some True\<rparr>) (w\<lparr>txOps := []\<rparr>) = (Inr x, w1)"
      "buckets w' = buckets w1" "list_all Q (txOps w1)" "replayed J cb (txOps w1) w w'"
proof -
  obtain r1 w1 where tx: "WithTx E c (\<lambda>c w. fn c (w\<lparr>txOps := []\<rparr>)) w = (r1, w1)" by fastforce
  show thesis
  proof (cases r1)
    case (Inl e)
    obtain r2 w2 where f: "fn (c\<lparr>ctx_tx := Some True\<rparr>) (w\<lparr>txOps := []\<rparr>) = (r2, w2)" by fastforce
    have "cache w2 = cache w" using logged_atD(1) [OF lg f] by simp
    with WithTx_top [OF top tx] Inl f have "buckets w1 = buckets w" "cache w1 = cache w" by auto
    with Inl tx run show thesis by (intro reverted) (auto simp: Enforcer_WriteTx_def)
  next
    case (Inr x)
    with WithTx_top [OF top tx] have f: "fn (c\<lparr>ctx_tx := Some True\<rparr>) (w\<lparr>txOps := []\<rparr>) = (Inr x, w1)" by auto
    from logged_atD(2) [OF lg f] have o: "list_all Q (txOps w1)"
      "diskRules J (buckets w1) = fold onDisk (txOps w1) (diskRules J (buckets w))" by auto
    have "list_all opShape (txOps w1)" using o(1) Q by (auto simp: list_all_iff)
    from applyOpsToCache_documented [OF cb this, of w1] obtain m where
      m: "applyOpsToCache cb (txOps w1) w1 = (Inr (), w1\<lparr>cache := m\<rparr>)"
        "cacheRules cb m = fold inCache (txOps w1) (cacheRules cb (cache w1))" by blast
    have "cache w1 = cache w" using logged_atD(1) [OF lg f] by simp
    with m o have "replayed J cb (txOps w1) w (w1\<lparr>cache := m\<rparr>)" by (simp add: replayed_def)
    with run tx Inr m f o(1) show thesis by (intro committed) (auto simp: Enforcer_WriteTx_def)
  qed
qed

text \<open>Without the deletion of a subject the replay does to the rules in memory what was done to the store.\<close>

fun sameOp :: "polop \<Rightarrow> bool" where
  "sameOp (opDeleteUser u) = False"
| "sameOp op = opShape op"

lemma sameOp_shape: "sameOp op \<Longrightarrow> opShape op"
  by (cases op) auto

lemma sameOp_fold: "list_all sameOp ops \<Longrightarrow> fold onDisk ops X = fold inCache ops X"
proof (induction ops arbitrary: X)
  case (Cons op ops)
  then have "onDisk op X = inCache op X" by (cases op; cases X) auto
  with Cons show ?case by simp
qed simp

lemma WriteTx_agrees:
  assumes "ctx_tx c = None" "Enforcer_WriteTx E cb J c fn w = (r, w')" "casbin_documented cb"
    and "logged_at J sameOp (fn (c\<lparr>ctx_tx := Some True\<rparr>)) (w\<lparr>txOps := []\<rparr>)" "agree J cb w"
  shows "agree J cb w'"
  using assms(1-4) sameOp_shape
proof (rule WriteTx_outcome)
  fix x w1 assume "list_all sameOp (txOps w1)" "replayed J cb (txOps w1) w w'"
  with assms(5) show "agree J cb w'" by (auto simp: agree_def replayed_def sameOp_fold)
qed (use assms(5) in \<open>auto simp: agree_def\<close>)

section \<open>What an operation may grant\<close>

text \<open>The recorded operations whose new permissions satisfy \<open>K\<close> and whose new memberships satisfy \<open>L\<close>.\<close>

fun within :: "(string list \<Rightarrow> bool) \<Rightarrow> (string list \<Rightarrow> bool) \<Rightarrow> polop \<Rightarrow> bool" where
  "within K L (opAddP r) \<longleftrightarrow> length r = pRuleLen \<and> K r"
| "within K L (opAddG r) \<longleftrightarrow> length r = gRuleNativeLen \<and> L r"
| "within K L op \<longleftrightarrow> sameOp op"

lemma within_same: "within K L op \<Longrightarrow> sameOp op"
  by (cases op) auto

lemma within_fold:
  assumes "list_all (within K L) ops" "fold onDisk ops (P, G) = (P', G')"
  shows "P' - P \<subseteq> {r. K r} \<and> G' - G \<subseteq> {r. L r}"
  using assms
proof (induction ops arbitrary: P G)
  case (Cons op ops)
  obtain P1 G1 where 1: "onDisk op (P, G) = (P1, G1)" by fastforce
  with Cons.prems have "P1 - P \<subseteq> {r. K r} \<and> G1 - G \<subseteq> {r. L r}" by (cases op) auto
  with Cons.IH [of P1 G1] Cons.prems 1 show ?case by auto
qed simp

lemma WriteTx_grants:
  assumes "ctx_tx c = None" "Enforcer_WriteTx E cb J c fn w = (r, w')" "casbin_documented cb"
    and "logged_at J (within K L) (fn (c\<lparr>ctx_tx := Some True\<rparr>)) (w\<lparr>txOps := []\<rparr>)"
  shows "(agree J cb w \<longrightarrow> agree J cb w') \<and>
    pDisk J (buckets w') - pDisk J (buckets w) \<subseteq> {r. K r} \<and> gDisk J (buckets w') - gDisk J (buckets w) \<subseteq> {r. L r}"
proof (rule WriteTx_outcome [OF assms sameOp_shape [OF within_same]])
  fix x w1 assume ops: "list_all (within K L) (txOps w1)" and rep: "replayed J cb (txOps w1) w w'"
  have "list_all sameOp (txOps w1)" using ops within_same by (auto simp: list_all_iff)
  then have "agree J cb w \<longrightarrow> agree J cb w'" using rep by (auto simp: replayed_def agree_def sameOp_fold)
  moreover have "fold onDisk (txOps w1) (pDisk J (buckets w), gDisk J (buckets w)) = (pDisk J (buckets w'), gDisk J (buckets w'))"
    using rep by (simp add: replayed_def diskRules_def)
  ultimately show ?thesis using within_fold [OF ops] by blast
qed (auto simp: agree_def)

section \<open>The checks of an operation\<close>

lemma logged_at_bind:
  assumes m: "logged_at J Q m w" and f: "\<And>x w1. m w = (Inr x, w1) \<Longrightarrow> logged J (cache w) Q (f x)"
  shows "logged_at J Q (bindT m f) w"
  unfolding logged_at_def
proof (intro allI impI conjI)
  fix r w' assume b: "bindT m f w = (r, w')"
  obtain r1 w1 where 1: "m w = (r1, w1)" by fastforce
  note c1 = logged_atD(1) [OF m 1]
  show "cache w' = cache w"
  proof (cases r1)
    case (Inr x)
    with b 1 have "f x w1 = (r, w')" by (simp add: bindT_def)
    from logged_cache [OF f [OF 1 [unfolded Inr]] c1 this] show ?thesis .
  qed (use b 1 c1 in \<open>auto simp: bindT_def\<close>)
  fix x assume "r = Inr x"
  with b obtain y w2 where 2: "m w = (Inr y, w2)" "f y w2 = (Inr x, w')" by (auto simp: bind_inversion)
  from logged_atD(2) [OF m 2(1)] obtain ops1 where o1: "txOps w2 = txOps w @ ops1" "list_all Q ops1"
    "diskRules J (buckets w2) = fold onDisk ops1 (diskRules J (buckets w))" by blast
  from logged_ops [OF f [OF 2(1)] logged_atD(1) [OF m 2(1)] 2(2)] obtain ops2 where
    o2: "txOps w' = txOps w2 @ ops2" "list_all Q ops2"
    "diskRules J (buckets w') = fold onDisk ops2 (diskRules J (buckets w2))" .
  from o1 o2 show "\<exists>ops. txOps w' = txOps w @ ops \<and> list_all Q ops \<and>
      diskRules J (buckets w') = fold onDisk ops (diskRules J (buckets w))"
    by (intro exI [of _ "ops1 @ ops2"]) simp
qed

lemma logged_bindD:
  fixes m :: "('a, ('m, 'z) pworld_scheme) op"
  assumes "logged J mc Q m" "\<And>w x w'. m w = (Inr x, w') \<Longrightarrow> logged J mc Q (f x)"
  shows "logged J mc Q (bindT m f)"
  unfolding logged_def
proof (intro allI impI)
  fix w :: "('m, 'z) pworld_scheme" assume "cache w = mc"
  with assms show "logged_at J Q (bindT m f) w" by (intro logged_at_bind) (auto simp: logged_def)
qed

lemma logged_at_read:
  assumes "\<And>y. g w = Inr y \<Longrightarrow> logged_at J Q (f y) w"
  shows "logged_at J Q (bindT (readT g) f) w"
  using assms by (auto simp: logged_at_def bindT_def readT_def split: sum.splits)

lemma logged_read:
  assumes "\<And>w y. cache w = mc \<Longrightarrow> g w = Inr y \<Longrightarrow> logged J mc Q (f y)"
  shows "logged J mc Q (bindT (readT g) f)"
  unfolding logged_def
proof (intro allI impI logged_at_read logged_at)
  fix w y assume "cache w = mc" "g w = Inr y"
  then show "logged J (cache w) Q (f y)" using assms by blast
qed

section \<open>The operations on groups\<close>

text \<open>A write by \<open>actor\<close>, outside any other transaction, that succeeds or fails.\<close>

inductive group_write :: "env \<Rightarrow> 'm pdp \<Rightarrow> jsonStrings \<Rightarrow> AuthInfo \<Rightarrow> ('m, 'z) pworld_scheme \<Rightarrow> ('m, 'z) pworld_scheme \<Rightarrow> bool"
  for E :: env and p :: "'m pdp" and J :: jsonStrings and actor :: AuthInfo where
  create: "ctx_tx (c :: ctx) = None \<Longrightarrow> GroupService_Create E p J c actor cdata w = (r, w') \<Longrightarrow> group_write E p J actor w w'"
| update: "ctx_tx (c :: ctx) = None \<Longrightarrow> GroupService_Update E p J c udata w = (ru, w') \<Longrightarrow> group_write E p J actor w w'"
| members: "ctx_tx (c :: ctx) = None \<Longrightarrow> GroupService_UpdateMembers E p J c actor mdata w = (rm, w') \<Longrightarrow> group_write E p J actor w w'"
| permissions: "ctx_tx (c :: ctx) = None \<Longrightarrow> GroupService_UpdatePermissions E p J c actor pdata w = (rp, w') \<Longrightarrow> group_write E p J actor w w'"

text \<open>
  What the actor may grant: a permission the actor holds; to the managers of a group that did not exist,
  when the actor may write the manager group, the right to write it; and membership in a group all of
  whose permissions the actor holds, or that did not exist.
\<close>

definition managerGrant :: "'m pdp \<Rightarrow> string \<Rightarrow> ('m, 'z) pworld_scheme \<Rightarrow> string list \<Rightarrow> bool" where
  "managerGrant p actor w rule \<longleftrightarrow> (\<exists>mname mg n. rule = [GroupResource (grp_Name mg), GroupResource n, ObjectGroup, ActionWrite] \<and>
     HasGroup p (cache w) actor mname ActionWrite \<and> Group_Get mname w = Inr mg \<and>
     Group_Get n w = Inl (ErrResourceNotFound n))"

definition mayGrant :: "'m pdp \<Rightarrow> string \<Rightarrow> ('m, 'z) pworld_scheme \<Rightarrow> string list \<Rightarrow> bool" where
  "mayGrant p actor w rule \<longleftrightarrow> Has p (cache w) actor (permOfRule rule) \<or> managerGrant p actor w rule"

definition mayJoin :: "'m pdp \<Rightarrow> string \<Rightarrow> ('m, 'z) pworld_scheme \<Rightarrow> string list \<Rightarrow> bool" where
  "mayJoin p actor w rule \<longleftrightarrow> (\<exists>u n. rule = [u, GroupResource n, MembershipDomain] \<and>
     (list_all (Has p (cache w) actor) (PAP_GroupPermissions (pdp_lib p) (cache w) n) \<or>
      Group_Get n w = Inl (ErrResourceNotFound n)))"

abbreviation allowed :: "'m pdp \<Rightarrow> string \<Rightarrow> ('m, 'z) pworld_scheme \<Rightarrow> polop \<Rightarrow> bool" where
  "allowed p actor w \<equiv> within (mayGrant p actor w) (mayJoin p actor w)"

lemma cache_only [simp]:
  "Group_Get n (w\<lparr>txOps := ops\<rparr>) = Group_Get n w" "loadMutableGroup n (w\<lparr>txOps := ops\<rparr>) = loadMutableGroup n w"
  by (simp_all add: Group_Get_def loadMutableGroup_def boltGet_def bucket_Get_def)

lemma permOfRule_columns [simp]:
  "permOfRule [s, per_Domain q, per_Object q, per_Action q] = q"
  by (simp add: permOfRule_def)

lemma allowed_permissions:
  assumes J: "json_ok J" and "list_all (Has p (cache w) actor) added"
  shows "logged J mc (allowed p actor w) (ApplyPermissionDeltas E J c name added removed)"
  using assms by (intro logged_ApplyPermissionDeltas) (auto simp: mayGrant_def list_all_iff pRuleLen_def)

lemma allowed_members:
  assumes J: "json_ok J" and "\<And>u. u \<in> set added \<Longrightarrow>
      list_all (Has p (cache w) actor) (PAP_GroupPermissions (pdp_lib p) (cache w) name) \<or>
      Group_Get name w = Inl (ErrResourceNotFound name)"
  shows "logged J mc (allowed p actor w) (ApplyMemberDeltas E J c name added removed)"
  using assms by (intro logged_ApplyMemberDeltas) (auto simp: mayJoin_def gRuleNativeLen_def)

lemma Update_allowed:
  "logged_at J (allowed p actor w)
     (bindT (readT (loadMutableGroup n)) (\<lambda>g. bindT (whenErr (chk g)) (\<lambda>_. bindT (timeNow E) (\<lambda>now. Group_Update E q (upd g now))))) w0"
  by (intro logged_at_read logged_at logged_bind logged_basic logged_groups)

lemma UpdateMembers_allowed:
  fixes w w0 :: "('m, 'z) pworld_scheme"
  assumes J: "json_ok J"
    and w: "cache w0 = cache w"
  shows "logged_at J (allowed p actor w)
    (bindT (whenErr chk) (\<lambda>_.
     bindT (readT (\<lambda>w. Ok (GroupMembers (pdp_lib p) (cache w) (grp_Name existing)))) (\<lambda>current.
     let added = NotIn adds (ToSet current); removed = In removes (ToSet current) in
     bindT (if added \<noteq> [] then readT (RequireMembershipGrant p actor (grp_Name existing)) else returnT ()) (\<lambda>_.
     if added = [] \<and> removed = [] then readT (r1 current)
     else bindT (commitMemberDelta E J c existing added removed) (\<lambda>updated. readT (r2 current added removed updated)))))) w0"
proof -
  have member: "logged J (cache w) (allowed p actor w)
      (bindT (if added \<noteq> [] then readT (RequireMembershipGrant p actor (grp_Name existing)) else returnT ()) (\<lambda>_.
       if added = [] \<and> removed = [] then readT (r1 current)
       else bindT (commitMemberDelta E J c existing added removed) (\<lambda>updated. readT (r2 current added removed updated))))"
    for added removed current
  proof (cases "added = []")
    case True
    then show ?thesis
      by (auto simp: commitMemberDelta_def intro!: logged_bind logged_basic logged_groups allowed_members [OF J])
  next
    case False
    show ?thesis
      unfolding if_P [OF False]
    proof (rule logged_read)
      fix w1 :: "('m, 'z) pworld_scheme" and u
      assume "cache w1 = cache w" "RequireMembershipGrant p actor (grp_Name existing) w1 = Inr u"
      then have "list_all (Has p (cache w) actor) (PAP_GroupPermissions (pdp_lib p) (cache w) (grp_Name existing))"
        by (auto simp: RequireMembershipGrant_def split: if_splits)
      then show "logged J (cache w) (allowed p actor w)
          (if added = [] \<and> removed = [] then readT (r1 current)
           else bindT (commitMemberDelta E J c existing added removed) (\<lambda>updated. readT (r2 current added removed updated)))"
        by (auto simp: commitMemberDelta_def intro!: logged_bind logged_basic logged_groups allowed_members [OF J])
    qed
  qed
  show ?thesis
    unfolding Let_def
    by (rule logged_at, unfold w, rule logged_bind [OF logged_basic(4)], rule logged_bind [OF logged_basic(3)], rule member)
qed

lemma UpdatePermissions_allowed:
  fixes w w0 :: "('m, 'z) pworld_scheme"
  assumes J: "json_ok J" and w: "cache w0 = cache w"
  shows "logged_at J (allowed p (ai_UserID actor) w)
    (bindT (whenErr chk) (\<lambda>_.
     bindT (PAPTx_GroupPermissions E J c (grp_Name existing)) (\<lambda>current.
     let added = NotIn adds (ToSet current); removed = In removes (ToSet current); post = ComposePost current added removed in
     bindT (readT (boundaryCheckPerms p actor added)) (\<lambda>_.
     if length added + length removed = 0 then returnT (existing, current)
     else bindT (readT (cascadeCheckPerms p actor (grp_Name existing) post)) (\<lambda>_.
          bindT (commitPermissionDelta E J c existing added removed) (\<lambda>updated. returnT (updated, post))))))) w0"
proof -
  have perm: "logged J (cache w) (allowed p (ai_UserID actor) w)
      (bindT (readT (boundaryCheckPerms p actor added) :: (unit, ('m, 'z) pworld_scheme) op) (\<lambda>_.
       if length added + length removed = 0 then returnT (existing, current)
       else bindT (readT (cascadeCheckPerms p actor (grp_Name existing) post)) (\<lambda>_.
            bindT (commitPermissionDelta E J c existing added removed) (\<lambda>updated. returnT (updated, post)))))"
    for added removed current post
  proof (rule logged_read)
    fix w1 :: "('m, 'z) pworld_scheme" and u
    assume "cache w1 = cache w" "boundaryCheckPerms p actor added w1 = Inr u"
    then have "list_all (Has p (cache w) (ai_UserID actor)) added"
      by (auto simp: boundaryCheckPerms_def split: if_splits)
    then show "logged J (cache w) (allowed p (ai_UserID actor) w)
       (if length added + length removed = 0 then returnT (existing, current)
       else bindT (readT (cascadeCheckPerms p actor (grp_Name existing) post)) (\<lambda>_.
            bindT (commitPermissionDelta E J c existing added removed) (\<lambda>updated. returnT (updated, post))))"
      by (auto simp: commitPermissionDelta_def intro!: logged_bind logged_basic logged_groups allowed_permissions [OF J])
  qed
  have perms: "logged J (cache w) Q (PAPTx_GroupPermissions E J c n :: (Permission list, ('m, 'z) pworld_scheme) op)" for Q n
    by (auto simp: PAPTx_GroupPermissions_def Tx_GetPermissionsForSubject_def intro!: logged_bind logged_basic)
  show ?thesis
    unfolding Let_def
    by (rule logged_at, unfold w, rule logged_bind [OF logged_basic(4)], rule logged_bind [OF perms], rule perm)
qed

lemma persistEntity_Inr:
  assumes "persistEntity E c data w = (Inr g, w')"
  shows "grp_Name g = cd_Name data" "\<exists>n. Group_Get (cd_Name data) w = Inl (ErrResourceNotFound n)"
  using assms by (auto simp: persistEntity_def Group_Create_def Let_def bind_inversion readT_def returnT_def
      split: sum.splits err.splits prod.splits if_splits)

lemma logged_mapErr:
  assumes "logged J mc Q m"
  shows "logged J mc Q (\<lambda>w. case m w of (Inl e, w1) \<Rightarrow> (Err (h e), w1) | (Inr g, w1) \<Rightarrow> (Ok g, w1))"
proof (rule loggedI)
  fix w r w' assume c: "cache w = mc" and "(case m w of (Inl e, w1) \<Rightarrow> (Err (h e), w1) | (Inr g, w1) \<Rightarrow> (Ok g, w1)) = (r, w')"
  then have "m w = (fst (m w), w')" by (auto split: prod.splits sum.splits)
  then show "cache w' = mc" by (rule logged_cache [OF assms c])
next
  fix w x w' assume c: "cache w = mc" and "(case m w of (Inl e, w1) \<Rightarrow> (Err (h e), w1) | (Inr g, w1) \<Rightarrow> (Ok g, w1)) = (Inr x, w')"
  then have "m w = (Inr x, w')" by (auto split: prod.splits sum.splits)
  from logged_ops [OF assms c this] show "\<exists>ops. txOps w' = txOps w @ ops \<and> list_all Q ops \<and>
      diskRules J (buckets w') = fold onDisk ops (diskRules J (buckets w))" by blast
qed

lemma logged_persistEntity: "logged J mc Q (persistEntity E c data)"
  unfolding persistEntity_def Let_def by (intro logged_bind logged_basic logged_mapErr logged_groups)

lemma authorizeManagers_Inr:
  assumes "authorizeManagers p actor perms names w = Inr mgs" "mg \<in> set mgs"
  shows "\<exists>n. HasGroup p (cache w) actor n ActionWrite \<and> Group_Get n w = Inr mg"
  using assms by (induction names arbitrary: mgs) (auto split: if_splits sum.splits)

lemma wireInitialManagers_allowed:
  assumes J: "json_ok J"
    and "\<And>mg. mg \<in> set mgs \<Longrightarrow> \<exists>n. HasGroup p (cache w) actor n ActionWrite \<and> Group_Get n w = Inr mg"
    and "Group_Get (grp_Name grp) w = Inl (ErrResourceNotFound (grp_Name grp))"
  shows "logged J mc (allowed p actor w) (wireInitialManagers E J c grp mgs)"
  using assms(2)
proof (induction mgs)
  case (Cons mg mgs)
  then obtain n where "HasGroup p (cache w) actor n ActionWrite" "Group_Get n w = Inr mg" by auto
  with assms(3) have "managerGrant p actor w [GroupResource (grp_Name mg), GroupResource (grp_Name grp), ObjectGroup, ActionWrite]"
    unfolding managerGrant_def by blast
  then have "logged J mc (allowed p actor w) (ApplyPermissionDeltas E J c (grp_Name mg)
      [\<lparr>per_Object = ObjectGroup, per_Action = ActionWrite, per_Domain = GroupResource (grp_Name grp)\<rparr>] [])"
    by (intro logged_ApplyPermissionDeltas J) (auto simp: mayGrant_def pRuleLen_def)
  with Cons show ?case by (auto intro!: logged_bind)
qed (auto intro: logged_basic)

lemma Group_Get_NotFound: "Group_Get n w = Inl (ErrResourceNotFound k) \<Longrightarrow> k = n"
  by (auto simp: Group_Get_def boltGet_def split: sum.splits if_splits option.splits)

lemma initial_names:
  "applyInitialPermissions E J c grp perms w = (Inr g, w') \<Longrightarrow> grp_Name g = grp_Name grp"
  "applyInitialMembers E J c grp us w = (Inr g, w') \<Longrightarrow> grp_Name g = grp_Name grp"
  by (auto simp: applyInitialPermissions_def applyInitialMembers_def bind_inversion returnT_def split: if_splits)

lemma Create_allowed:
  fixes w w0 :: "('m, 'z) pworld_scheme"
  assumes J: "json_ok J" and w: "w0 = w\<lparr>txOps := []\<rparr>"
    and upd: "\<And>g. logged J (cache w) (allowed p (ai_UserID actor) w) (upd g)"
  shows "logged_at J (allowed p (ai_UserID actor) w)
    (bindT (readT (authorizeCreate p actor data)) (\<lambda>mgs.
     bindT (persistEntity E c data) (\<lambda>grp.
     bindT (applyInitialPermissions E J c grp (cd_InitialPermissions data)) (\<lambda>grp.
     bindT (applyInitialMembers E J c grp (cd_InitialMembers data)) (\<lambda>grp.
     bindT (wireInitialManagers E J c grp mgs) (\<lambda>_.
     bindT (upd grp) (\<lambda>grp. readT (fin grp)))))))) w0"
proof (intro logged_at_read logged_at_bind)
  fix mgs assume auth: "authorizeCreate p actor data w0 = Inr mgs"
  show "logged_at J (allowed p (ai_UserID actor) w) (persistEntity E c data) w0"
    by (intro logged_at logged_persistEntity)
  fix grp w1 assume "persistEntity E c data w0 = (Inr grp, w1)"
  note per = persistEntity_Inr [OF this]
  then have new: "Group_Get (grp_Name grp) w = Inl (ErrResourceNotFound (grp_Name grp))"
    by (auto simp: w dest: Group_Get_NotFound)
  from auth have has: "list_all (Has p (cache w) (ai_UserID actor)) (cd_InitialPermissions data)"
    by (auto simp: authorizeCreate_def w split: if_splits)
  from auth have man: "\<exists>n. HasGroup p (cache w) (ai_UserID actor) n ActionWrite \<and> Group_Get n w = Inr mg"
    if "mg \<in> set mgs" for mg
    using authorizeManagers_Inr [OF _ that, of p _ _ _ w0] by (auto simp: authorizeCreate_def w split: if_splits)
  show "logged J (cache w0) (allowed p (ai_UserID actor) w)
    (bindT (applyInitialPermissions E J c grp (cd_InitialPermissions data)) (\<lambda>grp.
     bindT (applyInitialMembers E J c grp (cd_InitialMembers data)) (\<lambda>grp.
     bindT (wireInitialManagers E J c grp mgs) (\<lambda>_. bindT (upd grp) (\<lambda>grp. readT (fin grp))))))"
  proof (intro logged_bindD)
    show "logged J (cache w0) (allowed p (ai_UserID actor) w) (applyInitialPermissions E J c grp (cd_InitialPermissions data))"
      using has by (auto simp: applyInitialPermissions_def intro!: logged_bind logged_basic allowed_permissions [OF J])
  next
    fix wa ga wb assume "applyInitialPermissions E J c grp (cd_InitialPermissions data) wa = (Inr ga, wb)"
    note ga = initial_names(1) [OF this]
    show "logged J (cache w0) (allowed p (ai_UserID actor) w) (applyInitialMembers E J c ga (cd_InitialMembers data))"
      using new by (auto simp: ga applyInitialMembers_def intro!: logged_bind logged_basic allowed_members [OF J])
    fix wc gb wd assume "applyInitialMembers E J c ga (cd_InitialMembers data) wc = (Inr gb, wd)"
    note gb = initial_names(2) [OF this]
    show "logged J (cache w0) (allowed p (ai_UserID actor) w) (wireInitialManagers E J c gb mgs)"
      using new man by (intro wireInitialManagers_allowed [OF J]) (auto simp: ga gb)
  qed (use upd in \<open>auto simp: w intro: logged_basic\<close>)
qed

lemma group_write_effect:
  assumes J: "json_ok J" and cb: "casbin_documented (pdp_lib p)" and "group_write E p J actor w w'"
  shows "(agree J (pdp_lib p) w \<longrightarrow> agree J (pdp_lib p) w') \<and>
    pDisk J (buckets w') - pDisk J (buckets w) \<subseteq> {r. mayGrant p (ai_UserID actor) w r} \<and>
    gDisk J (buckets w') - gDisk J (buckets w) \<subseteq> {r. mayJoin p (ai_UserID actor) w r}"
  using assms(3)
proof (cases rule: group_write.cases)
  case (create c cdata r)
  from create(2) show ?thesis
    unfolding GroupService_Create_def PAP_Write_def
    by (rule WriteTx_grants [OF create(1) _ cb])
      (auto intro!: Create_allowed [OF J] logged_groups logged_basic)
next
  case (update c udata r)
  from update(2) show ?thesis
    unfolding GroupService_Update_def PAP_Write_def
    by (rule WriteTx_grants [OF update(1) _ cb]) (rule Update_allowed)
next
  case (members c mdata r)
  show ?thesis
  proof (cases "FirstOverlap (md_AddEmails mdata) (md_RemoveEmails mdata)")
    case None
    with members(2) show ?thesis
      unfolding GroupService_UpdateMembers_def PAP_Write_def option.case
      by (intro WriteTx_grants [OF members(1) _ cb])
        (auto intro!: logged_at_read UpdateMembers_allowed [OF J])
  next
    case (Some v)
    with members(2) show ?thesis by (simp add: GroupService_UpdateMembers_def failT_def)
  qed
next
  case (permissions c pdata r)
  show ?thesis
  proof (cases "validatePermissionDeltas (pd_Add pdata) (pd_Remove pdata)")
    case (Inl e)
    with permissions(2) show ?thesis
      by (simp add: GroupService_UpdatePermissions_def bindT_def whenErr_def)
  next
    case (Inr u)
    with permissions(2) have "Enforcer_WriteTx E (pdp_lib p) J c (\<lambda>c.
       bindT (readT (loadMutableGroup (pd_GroupName pdata))) (\<lambda>existing.
       bindT (whenErr (CheckVersion (pd_ExpectedPermissionsVersion pdata) (grp_PermissionsVersion existing))) (\<lambda>_.
       bindT (PAPTx_GroupPermissions E J c (grp_Name existing)) (\<lambda>current.
       let added = NotIn (pd_Add pdata) (ToSet current);
           removed = In (pd_Remove pdata) (ToSet current);
           post = ComposePost current added removed
       in
       bindT (readT (boundaryCheckPerms p actor added)) (\<lambda>_.
       if length added + length removed = 0 then returnT (existing, current)
       else
         bindT (readT (cascadeCheckPerms p actor (grp_Name existing) post)) (\<lambda>_.
         bindT (commitPermissionDelta E J c existing added removed) (\<lambda>updated.
         returnT (updated, post)))))))) w = (r, w')"
      by (simp add: GroupService_UpdatePermissions_def PAP_Write_def bindT_def whenErr_def)
    then show ?thesis
      by (rule WriteTx_grants [OF permissions(1) _ cb]) (intro logged_at_read UpdatePermissions_allowed [OF J], simp)
  qed
qed

section \<open>Deleting a group\<close>

lemma deleteKeys_keeps: "deleteKeys E q ks w = (r, w') \<Longrightarrow> cache w' = cache w \<and> txOps w' = txOps w"
proof (induction ks arbitrary: w)
  case (Cons k ks)
  obtain r1 w1 where 1: "bucket_Delete E q bucketPolicy k w = (r1, w1)" by fastforce
  from Cons 1 delete_keeps [OF 1] show ?case by (cases r1) (auto simp: bindT_def)
qed (simp add: returnT_def)

lemma RemoveFiltered_keeps:
  "RemoveFilteredPolicyCtx E J q s t i vs w = (r, w') \<Longrightarrow> cache w' = cache w \<and> txOps w' = txOps w"
  by (auto simp: RemoveFilteredPolicyCtx_def bindT_def readT_def dest: deleteKeys_keeps split: sum.splits)

lemma GroupResource_nonempty: "GroupResource name \<noteq> []"
  by (simp add: GroupResource_def GroupResourcePrefix_def DomainAll_def)

lemma logged_DeleteGroup:
  assumes J: "json_ok J" and Q: "Q (opDeleteUser (GroupResource name))"
  shows "logged J mc Q (PAPTx_DeleteGroup E J c name)"
proof (rule loggedI)
  fix w r w' assume "cache w = mc" "PAPTx_DeleteGroup E J c name w = (r, w')"
  then show "cache w' = mc"
    by (auto simp: PAPTx_DeleteGroup_def Tx_DeleteUser_def bindT_def recordOp_def dest!: RemoveFiltered_keeps
        split: prod.splits sum.splits)
next
  fix w x w' assume "PAPTx_DeleteGroup E J c name w = (Inr x, w')"
  then obtain w1 w2 where 1: "RemoveFilteredPolicyCtx E J (GetQuerier c) ''g'' ''g'' 0 [GroupResource name] w = (Inr (), w1)"
    and 2: "RemoveFilteredPolicyCtx E J (GetQuerier c) ''g'' ''g'' 1 [GroupResource name] w1 = (Inr (), w2)"
    and w': "w' = w2\<lparr>txOps := txOps w2 @ [opDeleteUser (GroupResource name)]\<rparr>"
    by (auto simp: PAPTx_DeleteGroup_def Tx_DeleteUser_def bind_inversion recordOp_def)
  have "diskRules J (buckets w2) = onDisk (opDeleteUser (GroupResource name)) (diskRules J (buckets w))"
    using RemoveFiltered_Inr(1) [OF J GroupResource_nonempty _ 1] RemoveFiltered_Inr(1) [OF J GroupResource_nonempty _ 2]
    by (auto simp: diskRules_def)
  moreover have "txOps w2 = txOps w" using RemoveFiltered_keeps [OF 1] RemoveFiltered_keeps [OF 2] by simp
  ultimately show "\<exists>ops. txOps w' = txOps w @ ops \<and> list_all Q ops \<and>
      diskRules J (buckets w') = fold onDisk ops (diskRules J (buckets w))"
    using Q by (intro exI [of _ "[opDeleteUser (GroupResource name)]"]) (simp add: w')
qed

lemma DeleteGroup_ops:
  "PAPTx_DeleteGroup E J c name w = (Inr x, w') \<Longrightarrow> txOps w' = txOps w @ [opDeleteUser (GroupResource name)]"
  by (auto simp: PAPTx_DeleteGroup_def Tx_DeleteUser_def bind_inversion recordOp_def dest!: RemoveFiltered_keeps)

lemma Group_Delete_ops: "Group_Delete E q name w = (Inr x, w') \<Longrightarrow> txOps w' = txOps w"
  by (auto simp: Group_Delete_def boltDelete_def bind_inversion dest!: delete_keeps)

end
