(* ===== verification/PolicyProps.thy ===== *)
theory PolicyProps
  imports PolicyProofs Samples
begin

text \<open>The properties of the authorisation policy and of the groups that carry it.\<close>

section \<open>Samples\<close>

text \<open>
  An enforcer that keeps two lists of rules, grants a request by a rule of the subject or of a group it is
  in, and knows the wildcard; and a text for lists of strings: every character is quoted, every string ends
  with a stop.
\<close>

definition ruleGrants :: "string list \<Rightarrow> string \<Rightarrow> string \<Rightarrow> string \<Rightarrow> bool" where
  "ruleGrants r d ob a \<longleftrightarrow> (r ! 1 = ''*'' \<or> r ! 1 = d) \<and> (r ! 2 = ''*'' \<or> r ! 2 = ob) \<and> (r ! 3 = ''*'' \<or> r ! 3 = a)"

definition sampleCasbin :: "(string list list \<times> string list list) casbin" where
  "sampleCasbin = \<lparr>
     cb_NewModel = ([], []),
     cb_LoadPolicyArray = (\<lambda>r (P, G). case r of [] \<Rightarrow> Inl ErrDecode
        | t # cols \<Rightarrow> Inr (if t = ''p'' then (P @ [cols], G) else (P, G @ [cols]))),
     cb_Loaded = Inr,
     cb_Rules = (\<lambda>(P, G). map (\<lambda>r. (''p'', ''p'', r)) P @ map (\<lambda>r. (''g'', ''g'', r)) G),
     cb_AddPolicy = (\<lambda>r (P, G). Inr (if r \<in> set P then P else P @ [r], G)),
     cb_RemovePolicy = (\<lambda>r (P, G). Inr (removeAll r P, G)),
     cb_AddGroupingPolicy = (\<lambda>r (P, G). Inr (P, if r \<in> set G then G else G @ [r])),
     cb_RemoveGroupingPolicy = (\<lambda>r (P, G). Inr (P, removeAll r G)),
     cb_DeleteUser = (\<lambda>u (P, G). Inr (filter (\<lambda>r. \<not> hasColumn 0 u r) P, filter (\<lambda>r. \<not> hasColumn 0 u r) G)),
     cb_RemoveFilteredGroupingPolicy = (\<lambda>i u (P, G). Inr (P, filter (\<lambda>r. \<not> hasColumn i u r) G)),
     cb_GetPolicy = fst,
     cb_GetGroupingPolicy = snd,
     cb_GetImplicitPermissionsForUser = (\<lambda>(P, G) u. Inr (filter (\<lambda>r. r ! 0 = u \<or> [u, r ! 0, MembershipDomain] \<in> set G) P)),
     cb_GetRolesForUser = (\<lambda>(P, G) u d. Inr (map (\<lambda>r. r ! 1) (filter (\<lambda>r. r ! 0 = u \<and> r ! 2 = d) G))),
     cb_Enforce = (\<lambda>(P, G) s d ob a. Inr (list_ex (\<lambda>r. (r ! 0 = s \<or> [s, r ! 0, MembershipDomain] \<in> set G) \<and> ruleGrants r d ob a) P))\<rparr>"

lemma sampleCasbin_documented: "casbin_documented sampleCasbin"
  unfolding casbin_documented_def by (auto simp: sampleCasbin_def cacheRules_def)

fun quoteAll :: "string list \<Rightarrow> bytes" where
  "quoteAll [] = []"
| "quoteAll (s # ss) = concat (map (\<lambda>c. [CHR ''q'', c]) s) @ CHR ''.'' # quoteAll ss"

fun unquote :: "bytes \<Rightarrow> string \<Rightarrow> string list option" where
  "unquote [] cur = (if cur = [] then Some [] else None)"
| "unquote (c # cs) cur =
     (if c = CHR ''.'' then map_option (Cons (rev cur)) (unquote cs [])
      else case cs of [] \<Rightarrow> None | d # ds \<Rightarrow> unquote ds (d # cur))"

definition sampleJson :: jsonStrings where
  "sampleJson = \<lparr>js_Marshal = quoteAll, js_Unmarshal = (\<lambda>b. unquote b [])\<rparr>"

lemma unquote_string: "unquote (concat (map (\<lambda>c. [CHR ''q'', c]) s) @ b) cur = unquote b (rev s @ cur)"
  by (induction s arbitrary: cur) simp_all

lemma unquote_quoteAll: "unquote (quoteAll ss) [] = Some ss"
  by (induction ss) (simp_all add: unquote_string)

lemma sampleJson_ok: "json_ok sampleJson"
  by (simp add: json_ok_def sampleJson_def unquote_quoteAll)

definition samplePDP :: "(string list list \<times> string list list) pdp" where
  "samplePDP = \<lparr>pdp_lib = sampleCasbin, pdp_skip = False\<rparr>"

definition root :: AuthInfo where
  "root = \<lparr>ai_UserID = ''root'', ai_Email = [], ai_Name = [], ai_Namespaces = [], ai_Role = []\<rparr>"

definition sampleGroup :: GroupMeta where
  "sampleGroup = \<lparr>gmt_Name = ''dev'', gmt_DisplayName = [], gmt_Description = [], gmt_System = False,
     gmt_MetadataVersion = 1, gmt_MembersVersion = 0, gmt_PermissionsVersion = 1, gmt_CreatedAt = 1, gmt_UpdatedAt = 1\<rparr>"

definition rootRule :: "string list" where "rootRule = [''root'', ''*'', ''*'', ''*'']"

definition devRule :: "string list" where "devRule = [''group:dev'', ''namespace:a'', ObjectNamespace, ActionRead]"

definition devMember :: "string list" where "devMember = [''ann'', ''group:dev'', MembershipDomain]"

definition polWorld :: "(string list list \<times> string list list) pworld" where
  "polWorld = \<lparr>buckets = [bucketGroups \<mapsto> [(''dev'', JGroup sampleGroup)],
       bucketPolicy \<mapsto> [(ruleKey sampleJson ''g'' ''g'' devMember, Raw []),
         (ruleKey sampleJson ''p'' ''p'' devRule, Raw []), (ruleKey sampleJson ''p'' ''p'' rootRule, Raw [])]],
     ticks = 5, draws = 0, cache = ([rootRule, devRule], [devMember]), txOps = []\<rparr>"

lemma polWorld_disk: "diskRules sampleJson (buckets polWorld) = ({rootRule, devRule}, {devMember})"
  by (auto simp: diskRules_def pDisk_def gDisk_def polWorld_def dget_def bkt_def ruleKey_eq [OF sampleJson_ok]
      bucketGroups_def bucketPolicy_def)

lemma polWorld_agree: "agree sampleJson (pdp_lib samplePDP) polWorld"
  by (simp add: agree_def polWorld_disk) (auto simp: samplePDP_def sampleCasbin_def cacheRules_def polWorld_def)

lemma samplePDP_documented: "casbin_documented (pdp_lib samplePDP)"
  by (simp add: samplePDP_def sampleCasbin_documented)

text \<open>Runs on the sample state: granting one more permission to the group, and deleting it.\<close>

definition readB :: Permission where
  "readB = \<lparr>per_Object = ObjectNamespace, per_Action = ActionRead, per_Domain = ''namespace:b''\<rparr>"

definition grantB :: UpdatePermissionsData where
  "grantB = \<lparr>pd_GroupName = ''dev'', pd_Add = [readB], pd_Remove = [], pd_ExpectedPermissionsVersion = Some 1\<rparr>"

lemma polWorld_fresh [simp]: "polWorld\<lparr>txOps := []\<rparr> = polWorld"
  by (simp add: polWorld_def)

lemma sample_group: "loadMutableGroup ''dev'' polWorld = Inr (GroupMetaToDomain sampleGroup)"
  by (simp add: loadMutableGroup_def Group_Get_def boltGet_def bucket_Get_def polWorld_def groupCodec_def
      Group_EnsureMutable_def GroupMetaToDomain_def sampleGroup_def bucketGroups_def bucketPolicy_def)

lemma sampleJson_key [simp]: "r \<noteq> [] \<Longrightarrow> keyParts sampleJson (ruleKey sampleJson s t r) = Some (s # t # r)"
  by (cases r) (simp_all add: keyParts_def ruleKey_def sampleJson_def unquote_quoteAll minPartsLen_def del: quoteAll.simps)

lemma sample_permissions:
  "PAPTx_GroupPermissions sampleEnv sampleJson \<lparr>ctx_tx = Some True\<rparr> ''dev'' polWorld =
     (Inr [permOfRule devRule], polWorld)"
  by (simp add: PAPTx_GroupPermissions_def Tx_GetPermissionsForSubject_def bindT_def readT_def ListPermissionsForSubject_def
      bucket_ForEach_def GetQuerier_def polWorld_def List.map_filter_def subjectRule_def
      devRule_def rootRule_def devMember_def GroupResource_def GroupResourcePrefix_def DomainAll_def
      pRuleLen_def permOfRule_def returnT_def bucketGroups_def bucketPolicy_def)

lemma sample_checks:
  "validatePermissionDeltas [readB] [] = Inr ()"
  "boundaryCheckPerms samplePDP root [readB] polWorld = Inr ()"
  "cascadeCheckPerms samplePDP root ''dev'' [permOfRule devRule, readB] polWorld = Inr ()"
  "NotIn [readB] (ToSet [permOfRule devRule]) = [readB]"
  by (simp_all add: validatePermissionDeltas_def FirstOverlap_def validatePermissionAssignment_def LookupCatalogEntry_def
      buildCatalog_def validateAssignmentAction_def validateAssignmentDomain_def validatePrefixedDomain_def readB_def
      ObjectNamespace_def ActionRead_def NamespaceResourcePrefix_def hasPrefix_def
      boundaryCheckPerms_def cascadeCheckPerms_def Has_def samplePDP_def sampleCasbin_def polWorld_def rootRule_def root_def
      ruleGrants_def devRule_def permOfRule_def NotIn_def ToSet_def)

definition ruleB :: "string list" where
  "ruleB = [''group:dev'', ''namespace:b'', ObjectNamespace, ActionRead]"

lemma sample_commit:
  "\<exists>g w'. commitPermissionDelta sampleEnv sampleJson \<lparr>ctx_tx = Some True\<rparr> (GroupMetaToDomain sampleGroup) [readB] [] polWorld = (Inr g, w') \<and>
     dget (buckets w') bucketPolicy (ruleKey sampleJson ''p'' ''p'' ruleB) \<noteq> None \<and> txOps w' = [opAddP ruleB]"
  by (simp add: commitPermissionDelta_def ApplyPermissionDeltas_def bindT_def returnT_def Tx_AddPolicy_def AddPolicyCtx_def
      GetQuerier_def bucket_Put_def bucketWrite_def sampleEnv_def polWorld_def setBucket_def recordOp_def timeNow_def Group_Update_def
      readT_def boltGet_def bucket_Get_def boltPut_def groupCodec_def Let_def GroupMetaToDomain_def sampleGroup_def readB_def
      bucketGroups_def bucketPolicy_def GroupResource_def GroupResourcePrefix_def DomainAll_def ruleB_def
      dget_def bkt_def map_of_al_put)

lemma sample_grant:
  "\<exists>x w'. GroupService_UpdatePermissions sampleEnv samplePDP sampleJson noTx root grantB polWorld = (Inr x, w') \<and>
     ruleB \<in> pDisk sampleJson (buckets w')"
proof -
  have name: "grp_Name (GroupMetaToDomain sampleGroup) = ''dev''" "CheckVersion (Some 1) (grp_PermissionsVersion (GroupMetaToDomain sampleGroup)) = Inr ()"
    by (simp_all add: GroupMetaToDomain_def sampleGroup_def CheckVersion_def)
  from sample_commit obtain g w' where c: "commitPermissionDelta sampleEnv sampleJson \<lparr>ctx_tx = Some True\<rparr> (GroupMetaToDomain sampleGroup) [readB] [] polWorld = (Inr g, w')"
    and d: "dget (buckets w') bucketPolicy (ruleKey sampleJson ''p'' ''p'' ruleB) \<noteq> None" and ops: "txOps w' = [opAddP ruleB]" by blast
  have new: "NotIn [readB] {permOfRule devRule} = [readB]" using sample_checks(4) by (simp add: ToSet_def)
  have replay: "applyOp (pdp_lib samplePDP) (opAddP ruleB) m = Inr (if ruleB \<in> set (fst m) then fst m else fst m @ [ruleB], snd m)" for m
    by (cases m) (simp add: applyOp_def samplePDP_def sampleCasbin_def)
  from d show ?thesis
    by (simp add: GroupService_UpdatePermissions_def grantB_def sample_checks bindT_def whenErr_def PAP_Write_def Enforcer_WriteTx_def
      WithTx_def runTx_def noTx_def readT_def sample_group name sample_permissions Let_def In_def ComposePost_def returnT_def
      new ToSet_def c ops pDisk_def replay)
qed

lemma sample_delete:
  "is_ok (fst (GroupService_Delete sampleEnv samplePDP sampleJson noTx ''dev'' polWorld))"
proof -
  have name: "grp_Name (GroupMetaToDomain sampleGroup) = ''dev''"
    by (simp add: GroupMetaToDomain_def sampleGroup_def)
  have "\<exists>w'. PAPTx_DeleteGroup sampleEnv sampleJson \<lparr>ctx_tx = Some True\<rparr> ''dev'' polWorld = (Inr (), w') \<and>
     boltExists bucketGroups ''dev'' w' \<and> buckets w' bucketGroups \<noteq> None \<and> txOps w' = [opDeleteUser ''group:dev'']"
    by (simp add: PAPTx_DeleteGroup_def Tx_DeleteUser_def RemoveFilteredPolicyCtx_def bindT_def readT_def bucket_ForEach_def
        GetQuerier_def polWorld_def filteredKey_def devRule_def rootRule_def devMember_def GroupResource_def GroupResourcePrefix_def
        DomainAll_def bucket_Delete_def bucketWrite_def sampleEnv_def setBucket_def returnT_def recordOp_def matchesFilter_def
        boltExists_def bucket_Get_def bucketGroups_def bucketPolicy_def ruleKey_eq [OF sampleJson_ok])
  then obtain w' where 1: "PAPTx_DeleteGroup sampleEnv sampleJson \<lparr>ctx_tx = Some True\<rparr> ''dev'' polWorld = (Inr (), w')"
    "boltExists bucketGroups ''dev'' w'" "buckets w' bucketGroups \<noteq> None" "txOps w' = [opDeleteUser ''group:dev'']" by blast
  then show ?thesis
    by (auto simp: GroupService_Delete_def PAP_Write_def Enforcer_WriteTx_def WithTx_def runTx_def noTx_def bindT_def readT_def
        sample_group name Group_Delete_def boltDelete_def GetQuerier_def bucket_Delete_reliable setBucket_def applyOp_def
        samplePDP_def sampleCasbin_def is_ok_def split: prod.splits)
qed

section \<open>The rules in memory are the stored ones\<close>



section \<open>No escalation\<close>

text \<open>
  C39. Administration of groups grants no more than the actor has: after a create, update, change of members
  or change of permissions every permission that is newly stored is one the actor holds, or the right to
  write a group that did not exist, given to a manager group the actor may write; every new membership is in
  a group all of whose permissions the actor holds, or that did not exist.
\<close>

theorem group_write_no_escalation:
  assumes "json_ok J" "casbin_documented (pdp_lib p)" "group_write E p J actor w w'"
  shows "(\<forall>rule \<in> pDisk J (buckets w') - pDisk J (buckets w). mayGrant p (ai_UserID actor) w rule) \<and>
    (\<forall>rule \<in> gDisk J (buckets w') - gDisk J (buckets w). mayJoin p (ai_UserID actor) w rule)"
  using group_write_effect [OF assms] by blast

theorem group_write_no_escalation_witness:
  "\<exists>w'. group_write sampleEnv samplePDP sampleJson root polWorld w' \<and>
     ruleB \<in> pDisk sampleJson (buckets w') - pDisk sampleJson (buckets polWorld) \<and> mayGrant samplePDP ''root'' polWorld ruleB"
proof -
  from sample_grant obtain x w' where
    "GroupService_UpdatePermissions sampleEnv samplePDP sampleJson noTx root grantB polWorld = (Inr x, w')"
    and new: "ruleB \<in> pDisk sampleJson (buckets w')" by blast
  then have step: "group_write sampleEnv samplePDP sampleJson root polWorld w'"
    by (auto intro: group_write.permissions [OF noTx_simps])
  have "ruleB \<notin> pDisk sampleJson (buckets polWorld)"
    using polWorld_disk by (auto simp: diskRules_def ruleB_def devRule_def rootRule_def)
  with new group_write_no_escalation [OF sampleJson_ok samplePDP_documented step] step show ?thesis
    by (auto simp: root_def)
qed

section \<open>Deleting a group\<close>

text \<open>
  C40. Deleting a group leaves its permissions behind: the memberships of the group are gone from the store
  and from memory, and its permissions are gone from memory, but every stored permission stays in the store.
  The next load of the policy brings them back, for the members of any later group of that name.
\<close>

theorem group_delete_leaves_permissions:
  assumes J: "json_ok J" and cb: "casbin_documented (pdp_lib p)" and c: "ctx_tx c = None" and w: "agree J (pdp_lib p) w"
    and run: "GroupService_Delete E p J c name w = (Inr (), w')" and g: "loadMutableGroup name w = Inr g"
  shows "pDisk J (buckets w') = pDisk J (buckets w) \<and>
    set (cb_GetPolicy (pdp_lib p) (cache w')) = {r \<in> pDisk J (buckets w). \<not> hasColumn 0 (GroupResource (grp_Name g)) r} \<and>
    gDisk J (buckets w') = set (cb_GetGroupingPolicy (pdp_lib p) (cache w')) \<and>
    (\<forall>r \<in> gDisk J (buckets w'). \<not> hasColumn 0 (GroupResource (grp_Name g)) r \<and> \<not> hasColumn 1 (GroupResource (grp_Name g)) r)"
proof (rule WriteTx_outcome [OF c run [unfolded GroupService_Delete_def PAP_Write_def] cb])
  show "logged_at J (\<lambda>op. op = opDeleteUser (GroupResource (grp_Name g)))
     (bindT (readT (loadMutableGroup name)) (\<lambda>grp.
      bindT (PAPTx_DeleteGroup E J (c\<lparr>ctx_tx := Some True\<rparr>) (grp_Name grp)) (\<lambda>_.
      Group_Delete E (GetQuerier (c\<lparr>ctx_tx := Some True\<rparr>)) name))) (w\<lparr>txOps := []\<rparr>)"
    using g by (intro logged_at_read logged_at logged_bind logged_DeleteGroup [OF J] logged_groups) auto
next
  fix x w1 assume body: "bindT (readT (loadMutableGroup name)) (\<lambda>grp.
      bindT (PAPTx_DeleteGroup E J (c\<lparr>ctx_tx := Some True\<rparr>) (grp_Name grp)) (\<lambda>_.
      Group_Delete E (GetQuerier (c\<lparr>ctx_tx := Some True\<rparr>)) name)) (w\<lparr>txOps := []\<rparr>) = (Inr x, w1)"
    and rep: "replayed J (pdp_lib p) (txOps w1) w w'"
  from body g have "txOps w1 = [opDeleteUser (GroupResource (grp_Name g))]"
    by (auto simp: bind_inversion readT_def dest!: DeleteGroup_ops Group_Delete_ops)
  with rep w show ?thesis by (auto simp: replayed_def agree_def diskRules_def cacheRules_def)
qed (auto simp: GroupResource_nonempty)

theorem group_delete_leaves_permissions_witness:
  "\<exists>w'. GroupService_Delete sampleEnv samplePDP sampleJson noTx ''dev'' polWorld = (Inr (), w') \<and>
     devRule \<in> pDisk sampleJson (buckets w') \<and> devRule \<notin> set (cb_GetPolicy (pdp_lib samplePDP) (cache w'))"
proof -
  from sample_delete obtain w' where run: "GroupService_Delete sampleEnv samplePDP sampleJson noTx ''dev'' polWorld = (Inr (), w')"
    by (cases "GroupService_Delete sampleEnv samplePDP sampleJson noTx ''dev'' polWorld") (auto simp: is_ok_def split: sum.splits)
  from group_delete_leaves_permissions [OF sampleJson_ok samplePDP_documented noTx_simps polWorld_agree run sample_group]
    polWorld_disk run show ?thesis
    by (auto simp: diskRules_def hasColumn_def devRule_def GroupMetaToDomain_def sampleGroup_def GroupResource_def
        GroupResourcePrefix_def DomainAll_def)
qed

end
