(* ===== verification/TokenProps.thy ===== *)
theory TokenProps
  imports Tokens SessionProps PolicyProps
begin

text \<open>
  Service tokens, from their issue to the check of an etcd request. The two buckets of tokens: every token is
  reached by its hash and by its identifier, every operation keeps the two in step, a revoked token is gone from both, and a
  token carries no namespace that its issuer does not hold. Then the properties.
\<close>

section \<open>The two buckets\<close>

definition token_inv :: "database \<Rightarrow> bool" where
  "token_inv d \<longleftrightarrow>
     (\<forall>tid v. dget d bucketTokensByID tid = Some v \<longrightarrow>
        (\<exists>m. v = Raw (tmt_TokenHash m) \<and> tmt_ID m = tid \<and> dget d bucketTokens (tmt_TokenHash m) = Some (JToken m))) \<and>
     (\<forall>h v. dget d bucketTokens h = Some v \<longrightarrow>
        (\<exists>m. v = JToken m \<and> tmt_TokenHash m = h \<and> dget d bucketTokensByID (tmt_ID m) = Some (Raw h)))"

lemma token_buckets [simp]: "bucketTokens \<noteq> bucketTokensByID" "bucketTokensByID \<noteq> bucketTokens"
  by (simp_all add: bucketTokens_def bucketTokensByID_def)

lemmas token_invD =
  token_inv_def [THEN iffD1, THEN conjunct1, rule_format]
  token_inv_def [THEN iffD1, THEN conjunct2, rule_format]

lemma tokenPut_Inr:
  "boltPut E tokenCodec q n k m w = (Inr u, w') \<Longrightarrow> w' = w\<lparr>buckets := dbput n k (JToken m) (buckets w)\<rparr>"
  by (auto simp: boltPut_def tokenCodec_def dest: Put_Inr)

section \<open>Effects\<close>

lemma Token_Create_Inr:
  assumes "Token_Create E q t w = (Inr u, w')"
  shows "dget (buckets w) bucketTokens (tok_TokenHash t) = None"
    "w' = w\<lparr>buckets := dbput bucketTokensByID (tok_ID t) (Raw (tok_TokenHash t))
        (dbput bucketTokens (tok_TokenHash t) (JToken (DomainToTokenMeta t)) (buckets w))\<rparr>"
  using assms
  by (auto simp: Token_Create_def bind_inversion readT_def boltExists_def bucket_Get_dget dest!: tokenPut_Inr Put_Inr
      split: if_splits)

lemma Token_Delete_Inr:
  assumes "Token_Delete E q tid w = (Inr u, w')"
  obtains v where "dget (buckets w) bucketTokensByID tid = Some v"
    "w' = w\<lparr>buckets := dbdel bucketTokens (rawBytes (Some v)) (dbdel bucketTokensByID tid (buckets w))\<rparr>"
  using assms
  by (auto simp: Token_Delete_def bind_inversion readT_def bucket_Get_dget boltDelete_def dest!: Delete_Inr
      split: option.splits)

section \<open>The invariant\<close>

text \<open>A fresh identifier, as \<^verbatim>\<open>uuid.New\<close> gives one, keeps the buckets in step.\<close>

lemma Token_Create_inv:
  assumes "Token_Create E q t w = (Inr u, w')" "token_inv (buckets w)"
    and new: "dget (buckets w) bucketTokensByID (tok_ID t) = None"
  shows "token_inv (buckets w')"
proof -
  note C = Token_Create_Inr [OF assms(1)]
  have id: "tmt_ID (DomainToTokenMeta t) = tok_ID t" "tmt_TokenHash (DomainToTokenMeta t) = tok_TokenHash t"
    by (simp_all add: DomainToTokenMeta_def)
  show ?thesis
    unfolding token_inv_def
  proof (intro conjI allI impI)
    fix tid v assume v: "dget (buckets w') bucketTokensByID tid = Some v"
    show "\<exists>m. v = Raw (tmt_TokenHash m) \<and> tmt_ID m = tid \<and> dget (buckets w') bucketTokens (tmt_TokenHash m) = Some (JToken m)"
    proof (cases "tid = tok_ID t")
      case True
      with v show ?thesis by (intro exI [of _ "DomainToTokenMeta t"]) (simp add: C(2) id)
    next
      case False
      with v token_invD(1) [OF assms(2), of tid v] C(1) show ?thesis by (fastforce simp: C(2))
    qed
  next
    fix h v assume v: "dget (buckets w') bucketTokens h = Some v"
    show "\<exists>m. v = JToken m \<and> tmt_TokenHash m = h \<and> dget (buckets w') bucketTokensByID (tmt_ID m) = Some (Raw h)"
    proof (cases "h = tok_TokenHash t")
      case True
      with v show ?thesis by (intro exI [of _ "DomainToTokenMeta t"]) (simp add: C(2) id)
    next
      case False
      with v token_invD(2) [OF assms(2), of h v] new show ?thesis by (fastforce simp: C(2))
    qed
  qed
qed

lemma Token_Delete_inv:
  assumes "Token_Delete E q tid w = (Inr u, w')" "token_inv (buckets w)"
  shows "token_inv (buckets w')"
proof -
  from assms(1) obtain v where v: "dget (buckets w) bucketTokensByID tid = Some v"
    and w': "w' = w\<lparr>buckets := dbdel bucketTokens (rawBytes (Some v)) (dbdel bucketTokensByID tid (buckets w))\<rparr>"
    by (rule Token_Delete_Inr)
  from token_invD(1) [OF assms(2) v] obtain m where m: "v = Raw (tmt_TokenHash m)" "tmt_ID m = tid"
    "dget (buckets w) bucketTokens (tmt_TokenHash m) = Some (JToken m)" by blast
  show ?thesis
    unfolding token_inv_def
  proof (intro conjI allI impI)
    fix tid' v' assume "dget (buckets w') bucketTokensByID tid' = Some v'"
    then have "tid' \<noteq> tid" "dget (buckets w) bucketTokensByID tid' = Some v'" by (auto simp: w' split: if_splits)
    with token_invD(1) [OF assms(2), of tid' v'] m
    show "\<exists>m. v' = Raw (tmt_TokenHash m) \<and> tmt_ID m = tid' \<and> dget (buckets w') bucketTokens (tmt_TokenHash m) = Some (JToken m)"
      by (fastforce simp: w' rawBytes_def)
  next
    fix h v' assume "dget (buckets w') bucketTokens h = Some v'"
    then have "h \<noteq> tmt_TokenHash m" "dget (buckets w) bucketTokens h = Some v'" by (auto simp: w' m rawBytes_def split: if_splits)
    with token_invD(2) [OF assms(2), of h v'] v m
    show "\<exists>m. v' = JToken m \<and> tmt_TokenHash m = h \<and> dget (buckets w') bucketTokensByID (tmt_ID m) = Some (Raw h)"
      by (fastforce simp: w')
  qed
qed

lemma Token_UpdateLastUsed_inv:
  assumes "Token_UpdateLastUsed E q h ip at w = (Inr u, w')" "token_inv (buckets w)"
  shows "token_inv (buckets w')"
proof -
  from assms(1) obtain m where m: "dget (buckets w) bucketTokens h = Some (JToken m)"
    and w': "w' = w\<lparr>buckets := dbput bucketTokens h (JToken (m\<lparr>tmt_LastUsedAt := Some at, tmt_LastUsedIP := ip\<rparr>)) (buckets w)\<rparr>"
    by (auto simp: Token_UpdateLastUsed_def lastUsedRead_def lastUsedWrite_def bind_inversion readT_def boltGet_def bucket_Get_dget tokenCodec_def
        dest!: tokenPut_Inr [unfolded tokenCodec_def] split: sum.splits if_splits option.splits val.splits)
  from token_invD(2) [OF assms(2) m] have h: "tmt_TokenHash m = h" "dget (buckets w) bucketTokensByID (tmt_ID m) = Some (Raw h)" by auto
  show ?thesis
    unfolding token_inv_def
  proof (intro conjI allI impI)
    fix tid v assume "dget (buckets w') bucketTokensByID tid = Some v"
    with token_invD(1) [OF assms(2), of tid v] obtain m1 where m1: "v = Raw (tmt_TokenHash m1)" "tmt_ID m1 = tid"
      "dget (buckets w) bucketTokens (tmt_TokenHash m1) = Some (JToken m1)" by (auto simp: w')
    show "\<exists>m. v = Raw (tmt_TokenHash m) \<and> tmt_ID m = tid \<and> dget (buckets w') bucketTokens (tmt_TokenHash m) = Some (JToken m)"
    proof (cases "tmt_TokenHash m1 = h")
      case True
      with m m1 have "m1 = m" by simp
      with m1 h show ?thesis
        by (intro exI [of _ "m\<lparr>tmt_LastUsedAt := Some at, tmt_LastUsedIP := ip\<rparr>"]) (simp add: w')
    qed (use m1 in \<open>auto simp: w'\<close>)
  next
    fix h' v assume "dget (buckets w') bucketTokens h' = Some v"
    with token_invD(2) [OF assms(2), of h' v] h
    show "\<exists>m. v = JToken m \<and> tmt_TokenHash m = h' \<and> dget (buckets w') bucketTokensByID (tmt_ID m) = Some (Raw h')"
      by (auto simp: w' split: if_splits)
  qed
qed

section \<open>Samples\<close>

definition issuer :: AuthInfo where
  "issuer = \<lparr>ai_UserID = ''root'', ai_Email = ''r@x'', ai_Name = [], ai_Namespaces = [], ai_Role = []\<rparr>"

definition readA :: CreateInput where
  "readA = \<lparr>ci_Name = ''t'', ci_Namespaces = [''a''], ci_Role = RoleReader, ci_ExpiresAt = None\<rparr>"

definition tokenWorld0 :: rworld where
  "tokenWorld0 = \<lparr>buckets = [bucketTokens \<mapsto> [], bucketTokensByID \<mapsto> []], ticks = 0, draws = 0\<rparr>"

lemma sample_token:
  "is_ok (fst (TokenService_Create sampleEnv sampleRand (\<lambda>_. ''id'') samplePDP (cache polWorld) noTx issuer readA tokenWorld0))"
  by (simp add: TokenService_Create_def readA_def issuer_def configActionForRole_def HasNamespace_def Has_def samplePDP_def sampleCasbin_def
      polWorld_def rootRule_def ruleGrants_def generateRawToken_def bindT_def randRead_def sampleRand_def Let_def returnT_def uuidNew_def
      timeNow_def whenErr_def Token_Validate_def maxTokenNameLen_def RoleReader_def RoleWriter_def
      Token_Create_def readT_def boltExists_def bucket_Get_def tokenWorld0_def boltPut_def bucket_Put_def bucketWrite_def
      GetQuerier_def noTx_def sampleEnv_def setBucket_def bucketTokens_def bucketTokensByID_def is_ok_def)

definition sampleTokenRow :: TokenMeta where
  "sampleTokenRow = \<lparr>tmt_ID = ''id'', tmt_IssuedBy = ''r@x'', tmt_Name = ''t'', tmt_TokenHash = ''helara_x'', tmt_Namespaces = [''a''],
     tmt_Role = RoleWriter, tmt_ExpiresAt = None, tmt_LastUsedAt = None, tmt_LastUsedIP = [], tmt_CreatedAt = 1\<rparr>"

definition tokenWorld :: rworld where
  "tokenWorld = \<lparr>buckets = [bucketTokens \<mapsto> [(''helara_x'', JToken sampleTokenRow)], bucketTokensByID \<mapsto> [(''id'', Raw ''helara_x'')]],
     ticks = 0, draws = 0\<rparr>"

lemma tokenWorld_dget:
  "dget (buckets tokenWorld) bucketTokens h = (if h = ''helara_x'' then Some (JToken sampleTokenRow) else None)"
  "dget (buckets tokenWorld) bucketTokensByID tid = (if tid = ''id'' then Some (Raw ''helara_x'') else None)"
  by (simp_all add: tokenWorld_def dget_def bkt_def bucketTokens_def bucketTokensByID_def)

lemma tokenWorld_inv: "token_inv (buckets tokenWorld)"
proof -
  have "tmt_TokenHash sampleTokenRow = ''helara_x''" "tmt_ID sampleTokenRow = ''id''" by (simp_all add: sampleTokenRow_def)
  then show ?thesis
    unfolding token_inv_def tokenWorld_dget by (auto intro!: exI [of _ sampleTokenRow])
qed

section \<open>Lookups\<close>

lemma Token_GetByHash_row:
  "dget (buckets w) bucketTokens h = Some (JToken m) \<Longrightarrow> Token_GetByHash h w = Inr (TokenMetaToDomain m)"
  "dget (buckets w) bucketTokens h = None \<Longrightarrow> Token_GetByHash h w = Inl (ErrResourceNotFound h)"
  by (simp_all add: Token_GetByHash_def boltGet_def bucket_Get_dget tokenCodec_def)

lemma lastUsedRead_row:
  "lastUsedRead h w = Inr m \<Longrightarrow> dget (buckets w) bucketTokens h = Some (JToken m)"
  by (auto simp: lastUsedRead_def boltGet_def bucket_Get_dget tokenCodec_def split: sum.splits if_splits option.splits val.splits)

lemma TokenService_Create_Inr:
  assumes "TokenService_Create E R U p pm c user inp w = (Inr (t, raw), w')"
  obtains b tid now action where "raw = tokenPrefix @ base64RawURL b"
    "t = \<lparr>tok_ID = tid, tok_IssuedBy = ai_Email user, tok_Name = ci_Name inp, tok_TokenHash = sha256hex E raw,
        tok_Namespaces = ci_Namespaces inp, tok_Role = ci_Role inp, tok_ExpiresAt = ci_ExpiresAt inp,
        tok_LastUsedAt = None, tok_LastUsedIP = [], tok_CreatedAt = now\<rparr>"
    "configActionForRole (ci_Role inp) = Inr action"
    "list_all (\<lambda>ns. HasNamespace p pm (ai_UserID user) ns action) (ci_Namespaces inp)"
    "dget (buckets w') bucketTokens (sha256hex E raw) = Some (JToken (DomainToTokenMeta t))"
  using assms
  by (auto simp: TokenService_Create_def generateRawToken_def Let_def bind_inversion returnT_def failT_def
      split: if_splits sum.splits dest!: Token_Create_Inr(2))

lemma trimPrefix_append [simp]: "trimPrefix (p @ s) p = s" "hasPrefix (p @ s) p"
  by (simp_all add: trimPrefix_def hasPrefix_def)

text \<open>
  C23. From issue to access: the secret that a successful creation returns authenticates until it expires,
  and its claims allow exactly the namespaces and the role that were asked for; every namespace it may write
  is one that the issuer may write, and what a reader token reads the issuer may read, by name or by the
  wildcard.
\<close>

theorem issued_token_end_to_end:
  fixes w :: "'z rworld_scheme"
  assumes "TokenService_Create E R U p pm c user inp w = (Inr (t, raw), w')"
    and "\<not> Token_IsExpired t (clock E (ticks w'))"
  shows "\<exists>cl. authenticate E False (Some [''Bearer '' @ raw]) ip w' = Inr (cl, Some (sha256hex E raw, ip)) \<and>
    (\<forall>ns act. namespaceAllowed (Some cl) ns act \<longleftrightarrow>
       (ns \<in> set (ci_Namespaces inp) \<or> ''*'' \<in> set (ci_Namespaces inp)) \<and> (act = ActionWrite \<longrightarrow> ci_Role inp = RoleWriter)) \<and>
    (\<forall>ns. namespaceAllowed (Some cl) ns ActionWrite \<longrightarrow>
       HasNamespace p pm (ai_UserID user) ns ActionWrite \<or> HasNamespace p pm (ai_UserID user) ''*'' ActionWrite) \<and>
    (\<forall>ns. ci_Role inp = RoleReader \<and> namespaceAllowed (Some cl) ns ActionRead \<longrightarrow>
       HasNamespace p pm (ai_UserID user) ns ActionRead \<or> HasNamespace p pm (ai_UserID user) ''*'' ActionRead)"
proof -
  from assms(1) obtain b tid now action where raw: "raw = tokenPrefix @ base64RawURL b"
    and t: "t = \<lparr>tok_ID = tid, tok_IssuedBy = ai_Email user, tok_Name = ci_Name inp, tok_TokenHash = sha256hex E raw,
        tok_Namespaces = ci_Namespaces inp, tok_Role = ci_Role inp, tok_ExpiresAt = ci_ExpiresAt inp,
        tok_LastUsedAt = None, tok_LastUsedIP = [], tok_CreatedAt = now\<rparr>"
    and act: "configActionForRole (ci_Role inp) = Inr action"
    and has: "list_all (\<lambda>ns. HasNamespace p pm (ai_UserID user) ns action) (ci_Namespaces inp)"
    and row: "dget (buckets w') bucketTokens (sha256hex E raw) = Some (JToken (DomainToTokenMeta t))"
    by (rule TokenService_Create_Inr)
  have "Token_GetByHash (sha256hex E raw) w' = Inr t"
    using Token_GetByHash_row(1) [OF row] by (simp add: auth_roundtrips)
  moreover have "extractBearerToken (Some [''Bearer '' @ raw]) = Inr raw"
    using trimPrefix_append [of bearerPrefix raw] trimPrefix_append(2) [of tokenPrefix "base64RawURL b"]
    by (simp add: extractBearerToken_def bearerPrefix_def interceptorTokenPrefix_def tokenPrefix_def raw)
  ultimately have auth: "authenticate E False (Some [''Bearer '' @ raw]) ip w' = Inr (tokenClaims t, Some (sha256hex E raw, ip))"
    using assms(2) by (simp add: authenticate_def)
  have allowed: "namespaceAllowed (Some (tokenClaims t)) ns a \<longleftrightarrow>
      (ns \<in> set (ci_Namespaces inp) \<or> ''*'' \<in> set (ci_Namespaces inp)) \<and> (a = ActionWrite \<longrightarrow> ci_Role inp = RoleWriter)" for ns a
    by (auto simp: namespaceAllowed_def tokenClaims_def t list_ex_iff)
  have "RoleWriter \<noteq> RoleReader" "ActionRead \<noteq> ActionWrite"
    by (simp_all add: RoleWriter_def RoleReader_def ActionRead_def ActionWrite_def)
  with auth allowed act has show ?thesis
    by (auto simp: configActionForRole_def list_all_iff split: if_splits)
qed

theorem issued_token_end_to_end_witness:
  "\<exists>t raw w'. TokenService_Create sampleEnv sampleRand (\<lambda>_. ''id'') samplePDP (cache polWorld) noTx issuer readA tokenWorld0 = (Inr (t, raw), w') \<and>
     (\<exists>cl x. authenticate sampleEnv False (Some [''Bearer '' @ raw]) ''ip'' w' = Inr (cl, x) \<and> namespaceAllowed (Some cl) ''a'' ActionRead \<and>
        \<not> namespaceAllowed (Some cl) ''b'' ActionRead)"
proof -
  from sample_token obtain t raw w' where
    run: "TokenService_Create sampleEnv sampleRand (\<lambda>_. ''id'') samplePDP (cache polWorld) noTx issuer readA tokenWorld0 = (Inr (t, raw), w')"
    by (cases "TokenService_Create sampleEnv sampleRand (\<lambda>_. ''id'') samplePDP (cache polWorld) noTx issuer readA tokenWorld0")
      (auto simp: is_ok_def split: sum.splits)
  then have "tok_ExpiresAt t = None" by (rule TokenService_Create_Inr) (simp add: readA_def)
  then have "\<not> Token_IsExpired t (clock sampleEnv (ticks w'))" by (simp add: Token_IsExpired_def)
  from issued_token_end_to_end [OF run this, of "''ip''"] run show ?thesis
    by (auto simp: readA_def ActionRead_def ActionWrite_def)
qed

section \<open>Revocation\<close>

text \<open>
  C3. A revoked token can come back for good: when a request has read the token to record its use and the
  token is revoked before that request writes, the token is gone for a moment and then stored again under its
  hash. Its secret authenticates as before, and it can not be revoked any more, because its identifier is
  gone from the index.
\<close>

theorem revoked_token_resurrected:
  assumes inv: "token_inv (buckets w)" and rd: "lastUsedRead h w = Inr m"
    and rev: "TokenService_Revoke E p pm c user (tmt_ID m) w = (Inr (), w1)"
    and wr: "lastUsedWrite E AutoQuerier h ip at m w1 = (Inr (), w2)"
    and sec: "h = sha256hex E' (''elara_'' @ s)" "\<not> Token_IsExpired (TokenMetaToDomain m) (clock E' (ticks w2))"
  shows "Token_GetByHash h w1 = Inl (ErrResourceNotFound h) \<and>
    (\<exists>touch. authenticate E' False (Some [''Bearer elara_'' @ s]) ip' w2 = Inr (tokenClaims (TokenMetaToDomain m), touch)) \<and>
    TokenService_Revoke E'' p' pm' c' user' (tmt_ID m) w2 = (Inl (NewNotFoundError ''token'' (tmt_ID m)), w2)"
proof -
  note row = lastUsedRead_row [OF rd]
  from token_invD(2) [OF inv row] have h: "tmt_TokenHash m = h" and idx: "dget (buckets w) bucketTokensByID (tmt_ID m) = Some (Raw h)" by auto
  from rev have "Token_Delete E (GetQuerier c) (tmt_ID m) w = (Inr (), w1)"
    by (auto simp: TokenService_Revoke_def bind_inversion failT_def split: if_splits)
  then have w1: "w1 = w\<lparr>buckets := dbdel bucketTokens h (dbdel bucketTokensByID (tmt_ID m) (buckets w))\<rparr>"
    by (rule Token_Delete_Inr) (simp add: idx rawBytes_def)
  let ?m = "m\<lparr>tmt_LastUsedAt := Some at, tmt_LastUsedIP := ip\<rparr>"
  from wr have w2: "w2 = w1\<lparr>buckets := dbput bucketTokens h (JToken ?m) (buckets w1)\<rparr>"
    by (auto simp: lastUsedWrite_def dest: tokenPut_Inr)
  have gone: "Token_GetByHash h w1 = Inl (ErrResourceNotFound h)" by (rule Token_GetByHash_row) (simp add: w1)
  have again: "Token_GetByHash h w2 = Inr (TokenMetaToDomain ?m)" by (rule Token_GetByHash_row) (simp add: w2)
  have "extractBearerToken (Some [''Bearer elara_'' @ s]) = Inr (''elara_'' @ s)"
    using trimPrefix_append [of bearerPrefix "''elara_'' @ s"] trimPrefix_append(2) [of "''elara_''" s]
    by (simp add: extractBearerToken_def bearerPrefix_def interceptorTokenPrefix_def)
  with again sec have "\<exists>touch. authenticate E' False (Some [''Bearer elara_'' @ s]) ip' w2 = Inr (tokenClaims (TokenMetaToDomain m), touch)"
    by (auto simp: authenticate_def TokenMetaToDomain_def Token_IsExpired_def tokenClaims_def)
  moreover have "TokenService_Revoke E'' p' pm' c' user' (tmt_ID m) w2 = (Inl (NewNotFoundError ''token'' (tmt_ID m)), w2)"
    by (simp add: TokenService_Revoke_def bindT_def readT_def Token_GetByID_def bucket_Get_dget w2 w1 mapTokenErr_def)
  ultimately show ?thesis using gone by blast
qed

theorem revoked_token_resurrected_witness:
  "\<exists>w1 w2. TokenService_Revoke sampleEnv samplePDP (cache polWorld) noTx issuer ''id'' tokenWorld = (Inr (), w1) \<and>
     lastUsedWrite sampleEnv AutoQuerier ''helara_x'' ''ip'' 5 sampleTokenRow w1 = (Inr (), w2) \<and>
     (\<exists>x. authenticate sampleEnv False (Some [''Bearer elara_x'']) ''ip'' w2 = Inr x) \<and>
     TokenService_Revoke sampleEnv samplePDP (cache polWorld) noTx issuer ''id'' w2 = (Inl (NewNotFoundError ''token'' ''id''), w2)"
proof -
  have tid: "tmt_ID sampleTokenRow = ''id''" by (simp add: sampleTokenRow_def)
  have rd: "lastUsedRead ''helara_x'' tokenWorld = Inr sampleTokenRow"
    by (simp add: lastUsedRead_def boltGet_def bucket_Get_dget tokenWorld_dget tokenCodec_def)
  define w1 where "w1 = snd (TokenService_Revoke sampleEnv samplePDP (cache polWorld) noTx issuer ''id'' tokenWorld)"
  define w2 where "w2 = snd (lastUsedWrite sampleEnv AutoQuerier ''helara_x'' ''ip'' 5 sampleTokenRow w1)"
  have get: "Token_GetByID ''id'' tokenWorld = Inr (TokenMetaToDomain sampleTokenRow)"
    by (simp add: Token_GetByID_def boltGet_def bucket_Get_dget tokenWorld_dget tokenCodec_def rawBytes_def)
  have may: "tokenPermitted samplePDP (cache polWorld) ''root'' ActionWrite (TokenMetaToDomain sampleTokenRow)"
    by (simp add: tokenPermitted_def TokenMetaToDomain_def sampleTokenRow_def Has_def samplePDP_def sampleCasbin_def polWorld_def
        rootRule_def ruleGrants_def)
  have del: "\<exists>w1. Token_Delete sampleEnv AutoQuerier ''id'' tokenWorld = (Inr (), w1) \<and> buckets w1 bucketTokens \<noteq> None"
    by (simp add: Token_Delete_def bindT_def readT_def bucket_Get_def rawBytes_def bucket_Delete_def boltDelete_def bucketWrite_def sampleEnv_def
        tokenWorld_def setBucket_def bucketTokens_def bucketTokensByID_def)
  have "TokenService_Revoke sampleEnv samplePDP (cache polWorld) noTx issuer ''id'' tokenWorld = Token_Delete sampleEnv AutoQuerier ''id'' tokenWorld"
    using may by (simp add: TokenService_Revoke_def bindT_def readT_def get issuer_def GetQuerier_def)
  with del have rev: "TokenService_Revoke sampleEnv samplePDP (cache polWorld) noTx issuer ''id'' tokenWorld = (Inr (), w1)"
    and b: "buckets w1 bucketTokens \<noteq> None" by (auto simp: w1_def)
  have wr: "lastUsedWrite sampleEnv AutoQuerier ''helara_x'' ''ip'' 5 sampleTokenRow w1 = (Inr (), w2)"
    unfolding w2_def using b
    by (auto simp: lastUsedWrite_def boltPut_def bucket_Put_def bucketWrite_def sampleEnv_def)
  have "\<not> Token_IsExpired (TokenMetaToDomain sampleTokenRow) (clock sampleEnv (ticks w2))"
    by (simp add: Token_IsExpired_def TokenMetaToDomain_def sampleTokenRow_def)
  with revoked_token_resurrected [OF tokenWorld_inv rd rev [folded tid] wr, of sampleEnv "''x''" "''ip''" sampleEnv samplePDP "cache polWorld" noTx issuer]
    rev wr show ?thesis by (auto simp: tid)
qed

section \<open>The bypass\<close>

text \<open>
  The claims that stand for the local administrator when permissions are skipped read every namespace and
  write none.
\<close>

lemma bypass_reads_only:
  "authenticate E True None ip w = Inr (bypassClaims, None)"
  "namespaceAllowed (Some bypassClaims) ns ActionRead" "\<not> namespaceAllowed (Some bypassClaims) ns ActionWrite"
  by (simp_all add: authenticate_def extractBearerToken_def rejectOrBypass_def bypassClaims_def namespaceAllowed_def
      ActionRead_def ActionWrite_def RoleWriter_def)

end
