(* ===== verification/Emails.thy ===== *)
theory Emails
  imports Listing
begin

text \<open>
  Canonical emails and the construction of identities, \<^verbatim>\<open>src/internal/domain/email.go\<close> and \<^verbatim>\<open>identity.go\<close>.
  What the identity services take from outside the repository is the record \<open>authlib\<close>: the normalisation
  form NFKC of \<^verbatim>\<open>golang.org/x/text\<close>, the UUIDs of \<^verbatim>\<open>google/uuid\<close>, the salted hash of \<^verbatim>\<open>bcrypt\<close>, and the
  order in which Go ranges over a map with the given keys.
\<close>

record authlib =
  nfkc :: "string \<Rightarrow> string"
  uuidAt :: "nat \<Rightarrow> uuid"
  uuidParse :: "string \<Rightarrow> uuid option"
  bcryptHash :: "nat \<Rightarrow> string \<Rightarrow> err + string"
  bcryptMatches :: "string \<Rightarrow> string \<Rightarrow> bool"
  mapRange :: "string set \<Rightarrow> string list"

text \<open>
  What is documented of them: a UUID parses as itself and is not the nil one, a hash matches its password, the empty text
  is no hash, and a range visits every key once.
\<close>

definition authlib_documented :: "authlib \<Rightarrow> bool" where
  "authlib_documented L \<longleftrightarrow>
     (\<forall>n. uuidParse L (uuidAt L n) = Some (uuidAt L n) \<and> uuidAt L n \<noteq> uuidNil) \<and>
     (\<forall>n p h. bcryptHash L n p = Ok h \<longrightarrow> bcryptMatches L h p) \<and>
     (\<forall>p. \<not> bcryptMatches L [] p) \<and>
     (\<forall>X. finite X \<longrightarrow> set (mapRange L X) = X \<and> distinct (mapRange L X))"

section \<open>Text\<close>

text \<open>
  \<^verbatim>\<open>strings.TrimSpace\<close>: the white space of Unicode, each as its bytes in UTF-8.
\<close>

definition bytesOf :: "nat list \<Rightarrow> bytes" where
  "bytesOf = map char_of"

definition spaceRunes :: "bytes list" where
  "spaceRunes =
     map (\<lambda>n. bytesOf [n]) [9, 10, 11, 12, 13, 32] @
     [bytesOf [0xC2, 0x85], bytesOf [0xC2, 0xA0], bytesOf [0xE1, 0x9A, 0x80]] @
     map (\<lambda>n. bytesOf [0xE2, 0x80, n]) ([0x80..<0x8B] @ [0xA8, 0xA9, 0xAF]) @
     [bytesOf [0xE2, 0x81, 0x9F], bytesOf [0xE3, 0x80, 0x80]]"

lemma spaceRunes_nonempty: "r \<in> set spaceRunes \<Longrightarrow> r \<noteq> []"
  by (auto simp: spaceRunes_def bytesOf_def)

lemma find_space: "find P spaceRunes = Some r \<Longrightarrow> r \<noteq> [] \<and> P r"
  by (metis find_Some_iff nth_mem spaceRunes_nonempty)

function trimLeftSpace :: "string \<Rightarrow> string" where
  "trimLeftSpace s =
     (case find (\<lambda>r. hasPrefix s r) spaceRunes of
        None \<Rightarrow> s
      | Some r \<Rightarrow> trimLeftSpace (drop (length r) s))"
  by auto
termination
proof (relation "measure length")
  fix s r assume "find (\<lambda>r. hasPrefix s r) spaceRunes = Some r"
  then have "r \<noteq> []" "hasPrefix s r" using find_space by blast+
  then show "(drop (length r) s, s) \<in> measure length" by (cases s) (auto simp: hasPrefix_def)
qed simp

function trimRightSpace :: "string \<Rightarrow> string" where
  "trimRightSpace s =
     (case find (\<lambda>r. hasSuffix s r) spaceRunes of
        None \<Rightarrow> s
      | Some r \<Rightarrow> trimRightSpace (take (length s - length r) s))"
  by auto
termination
proof (relation "measure length")
  fix s r assume "find (\<lambda>r. hasSuffix s r) spaceRunes = Some r"
  then have "r \<noteq> []" "hasSuffix s r" using find_space by blast+
  then show "(take (length s - length r) s, s) \<in> measure length"
    by (cases s) (auto simp: hasSuffix_def suffix_def)
qed simp

definition trimSpace :: "string \<Rightarrow> string" where
  "trimSpace s = trimRightSpace (trimLeftSpace s)"

text \<open>\<^verbatim>\<open>strings.IndexByte\<close>; None stands for -1.\<close>

fun indexByte :: "string \<Rightarrow> char \<Rightarrow> nat option" where
  "indexByte [] c = None"
| "indexByte (x # xs) c = (if x = c then Some 0 else map_option Suc (indexByte xs c))"

lemma indexByte_None [simp]: "indexByte s c = None \<longleftrightarrow> c \<notin> set s"
  by (induction s) auto

lemma indexByte_Some: "indexByte s c = Some i \<Longrightarrow> i < length s \<and> s ! i = c \<and> c \<notin> set (take i s)"
  by (induction s arbitrary: i) (auto split: if_splits)

section \<open>Emails and identities\<close>

definition maxEmailLen :: nat where "maxEmailLen = 254"

definition NormalizeEmail :: "env \<Rightarrow> authlib \<Rightarrow> string \<Rightarrow> err + string" where
  "NormalizeEmail E L s =
     (let trimmed = trimSpace s in
      if trimmed = [] then Err (ErrValidation ''email'' ''email is required'')
      else
        let normalized = toLower E (nfkc L trimmed);
            bad = ErrValidation ''email''
                    ''email must contain exactly one @ with non-empty local and domain parts''
        in
        if length normalized > maxEmailLen then Err (ErrValidation ''email'' ''email exceeds maximum length'')
        else
          case indexByte normalized (CHR ''@'') of
            None \<Rightarrow> Err bad
          | Some at \<Rightarrow>
              if at \<le> 0 \<or> at = length normalized - 1 \<or> indexByte (drop (at + 1) normalized) (CHR ''@'') \<noteq> None
              then Err bad
              else Ok normalized)"

definition NewIdentity :: "env \<Rightarrow> authlib \<Rightarrow> IdentityProvider \<Rightarrow> string \<Rightarrow> err + Identity" where
  "NewIdentity E L provider rawSubject =
     (if rawSubject = [] then Err (ErrValidation ''subject'' ''identity subject is required'')
      else if provider = ProviderBasic then
        (case NormalizeEmail E L rawSubject of
           Inl e \<Rightarrow> Err e
         | Inr normalized \<Rightarrow> Ok \<lparr>idn_Provider = provider, idn_Subject = normalized\<rparr>)
      else if provider = ProviderOIDC \<or> hasPrefix provider oidcMultiIssuerPrefix
      then Ok \<lparr>idn_Provider = provider, idn_Subject = rawSubject\<rparr>
      else Err ErrInvalidIdentityProvider)"

text \<open>An accepted email is one local part and one domain, neither empty, of at most 254 bytes.\<close>

lemma NormalizeEmail_shape:
  assumes "NormalizeEmail E L s = Ok t"
  shows "\<exists>loc dm. t = loc @ ''@'' @ dm \<and> loc \<noteq> [] \<and> dm \<noteq> [] \<and> CHR ''@'' \<notin> set loc \<and> CHR ''@'' \<notin> set dm \<and>
    length t \<le> 254"
proof -
  from assms obtain i where i: "indexByte t (CHR ''@'') = Some i" "0 < i" "i \<noteq> length t - 1"
    "CHR ''@'' \<notin> set (drop (i + 1) t)" "length t \<le> 254"
    by (auto simp: NormalizeEmail_def Let_def maxEmailLen_def split: if_splits option.splits)
  note at = indexByte_Some [OF i(1)]
  have "t = take i t @ ''@'' @ drop (i + 1) t" using at by (metis id_take_nth_drop append_Cons append_Nil Suc_eq_plus1)
  then show ?thesis using at i(2-5) by (intro exI [of _ "take i t"] exI [of _ "drop (i + 1) t"]) auto
qed

end
