(* ===== verification/UserRepo.thy ===== *)
theory UserRepo
  imports Emails
begin

text \<open>
  The user repository \<^verbatim>\<open>src/internal/storage/bbolt/user\<close>: the users by id and two indexes, by identity and by
  email, kept in step inside one transaction.
\<close>

section \<open>Keys\<close>

definition bucketUsers :: string where "bucketUsers = ''auth_users''"
definition bucketIdentities :: string where "bucketIdentities = ''users_by_identity''"
definition bucketEmails :: string where "bucketEmails = ''users_by_email''"

lemmas user_buckets = bucketUsers_def bucketIdentities_def bucketEmails_def

definition identitySep :: string where "identitySep = [CHR 0x00]"

definition identityKey :: "Identity \<Rightarrow> bytes" where
  "identityKey i = idn_Provider i @ identitySep @ idn_Subject i"

definition identityKeySet :: "Identity list \<Rightarrow> bytes set" where
  "identityKeySet identities = set (map identityKey identities)"

section \<open>Index maintenance\<close>

definition ensureEmailFree :: "string \<Rightarrow> bytes \<Rightarrow> 'z world_scheme \<Rightarrow> err + unit" where
  "ensureEmailFree email ownerKey w =
     (if email = [] then Ok ()
      else case bucket_Get bucketEmails email w of
             None \<Rightarrow> Ok ()
           | Some owner \<Rightarrow> if rawBytes (Some owner) \<noteq> ownerKey then Err ErrEmailTaken else Ok ())"

fun ensureIdentitiesFree :: "Identity list \<Rightarrow> bytes \<Rightarrow> 'z world_scheme \<Rightarrow> err + unit" where
  "ensureIdentitiesFree [] ownerKey w = Ok ()"
| "ensureIdentitiesFree (ident # rest) ownerKey w =
     (case bucket_Get bucketIdentities (identityKey ident) w of
        None \<Rightarrow> ensureIdentitiesFree rest ownerKey w
      | Some owner \<Rightarrow>
          if rawBytes (Some owner) \<noteq> ownerKey then Err ErrIdentityTaken else ensureIdentitiesFree rest ownerKey w)"

fun writeIdentityIndex :: "env \<Rightarrow> querier \<Rightarrow> Identity list \<Rightarrow> bytes \<Rightarrow> (unit, 'z world_scheme) op" where
  "writeIdentityIndex E q [] ownerKey = returnT ()"
| "writeIdentityIndex E q (ident # rest) ownerKey =
     bindT (bucket_Put E q bucketIdentities (identityKey ident) (Raw ownerKey)) (\<lambda>_.
     writeIdentityIndex E q rest ownerKey)"

definition writeEmailIndex :: "env \<Rightarrow> querier \<Rightarrow> string \<Rightarrow> bytes \<Rightarrow> (unit, 'z world_scheme) op" where
  "writeEmailIndex E q email ownerKey =
     (if email = [] then returnT () else bucket_Put E q bucketEmails email (Raw ownerKey))"

fun dropStale :: "env \<Rightarrow> querier \<Rightarrow> bytes set \<Rightarrow> bytes list \<Rightarrow> (unit, 'z world_scheme) op" where
  "dropStale E q newKeys [] = returnT ()"
| "dropStale E q newKeys (k # ks) =
     (if k \<in> newKeys then dropStale E q newKeys ks
      else bindT (bucket_Delete E q bucketIdentities k) (\<lambda>_. dropStale E q newKeys ks))"

fun addFresh :: "env \<Rightarrow> querier \<Rightarrow> bytes set \<Rightarrow> bytes \<Rightarrow> bytes list \<Rightarrow> (unit, 'z world_scheme) op" where
  "addFresh E q oldKeys ownerKey [] = returnT ()"
| "addFresh E q oldKeys ownerKey (k # ks) =
     (if k \<in> oldKeys then addFresh E q oldKeys ownerKey ks
      else
        bindT (readT (\<lambda>w. case bucket_Get bucketIdentities k w of
            None \<Rightarrow> Ok ()
          | Some owner \<Rightarrow> if rawBytes (Some owner) \<noteq> ownerKey then Err ErrIdentityTaken else Ok ())) (\<lambda>_.
        bindT (bucket_Put E q bucketIdentities k (Raw ownerKey)) (\<lambda>_.
        addFresh E q oldKeys ownerKey ks)))"

definition reconcileIdentityIndex ::
  "env \<Rightarrow> authlib \<Rightarrow> querier \<Rightarrow> Identity list \<Rightarrow> Identity list \<Rightarrow> bytes \<Rightarrow> (unit, 'z world_scheme) op" where
  "reconcileIdentityIndex E L q prev next ownerKey =
     (let oldKeys = identityKeySet prev; newKeys = identityKeySet next in
      bindT (dropStale E q newKeys (mapRange L oldKeys)) (\<lambda>_.
      addFresh E q oldKeys ownerKey (mapRange L newKeys)))"

definition reconcileEmailIndex ::
  "env \<Rightarrow> querier \<Rightarrow> string \<Rightarrow> string \<Rightarrow> bytes \<Rightarrow> (unit, 'z world_scheme) op" where
  "reconcileEmailIndex E q prev next ownerKey =
     (if prev = next then returnT ()
      else
        bindT (if prev \<noteq> [] then bucket_Delete E q bucketEmails prev else returnT ()) (\<lambda>_.
        if next = [] then returnT ()
        else
          bindT (readT (ensureEmailFree next ownerKey)) (\<lambda>_.
          writeEmailIndex E q next ownerKey)))"

section \<open>Writes\<close>

definition loadUserRow :: "uuid \<Rightarrow> 'z world_scheme \<Rightarrow> err + AuthUserMeta" where
  "loadUserRow uid w =
     (case boltGet userCodec bucketUsers uid w of
        Inl e \<Rightarrow> if e = ErrBboltNotFound then Err (ErrResourceNotFound uid) else Err e
      | Inr m \<Rightarrow> Ok m)"

text \<open>\<^verbatim>\<open>Create\<close> fills in the creation time of the user it is given; the model returns it.\<close>

definition User_Create :: "env \<Rightarrow> 'c ctx_scheme \<Rightarrow> User \<Rightarrow> (User, 'z world_scheme) op" where
  "User_Create E c user =
     WithTx E c (\<lambda>c.
       let q = GetQuerier c; key = usr_ID user in
       bindT (readT (\<lambda>w. if boltExists bucketUsers key w then Err (ErrResourceAlreadyExists key) else Ok ())) (\<lambda>_.
       bindT (readT (ensureEmailFree (usr_Email user) key)) (\<lambda>_.
       bindT (readT (ensureIdentitiesFree (usr_Identities user) key)) (\<lambda>_.
       bindT (if usr_CreatedAt user = 0 then timeNow E else returnT (usr_CreatedAt user)) (\<lambda>created.
       let user = user\<lparr>usr_CreatedAt := created\<rparr> in
       bindT (boltPut E userCodec q bucketUsers key (DomainToAuthUserMeta user)) (\<lambda>_.
       bindT (writeIdentityIndex E q (usr_Identities user) key) (\<lambda>_.
       bindT (writeEmailIndex E q (usr_Email user) key) (\<lambda>_. returnT user))))))))"

definition User_Update :: "env \<Rightarrow> authlib \<Rightarrow> 'c ctx_scheme \<Rightarrow> User \<Rightarrow> (unit, 'z world_scheme) op" where
  "User_Update E L c user =
     WithTx E c (\<lambda>c.
       let q = GetQuerier c; key = usr_ID user in
       bindT (readT (loadUserRow key)) (\<lambda>prev.
       bindT (reconcileIdentityIndex E L q (umt_Identities prev) (usr_Identities user) key) (\<lambda>_.
       bindT (reconcileEmailIndex E q (umt_Email prev) (usr_Email user) key) (\<lambda>_.
       boltPut E userCodec q bucketUsers key (DomainToAuthUserMeta user)))))"

definition SetMembershipVersion :: "env \<Rightarrow> 'c ctx_scheme \<Rightarrow> uuid \<Rightarrow> int64 \<Rightarrow> (unit, 'z world_scheme) op" where
  "SetMembershipVersion E c userID version =
     WithTx E c (\<lambda>c.
       bindT (readT (loadUserRow userID)) (\<lambda>m.
       boltPut E userCodec (GetQuerier c) bucketUsers userID (m\<lparr>umt_MembershipVersion := version\<rparr>)))"

definition SetPassword :: "env \<Rightarrow> 'c ctx_scheme \<Rightarrow> uuid \<Rightarrow> string \<Rightarrow> bool \<Rightarrow> (unit, 'z world_scheme) op" where
  "SetPassword E c userID hash changeRequired =
     WithTx E c (\<lambda>c.
       bindT (readT (loadUserRow userID)) (\<lambda>m.
       boltPut E userCodec (GetQuerier c) bucketUsers userID
         (m\<lparr>umt_PasswordHash := hash, umt_PasswordChangeRequired := changeRequired\<rparr>)))"

fun deleteIdentities :: "env \<Rightarrow> querier \<Rightarrow> Identity list \<Rightarrow> (unit, 'z world_scheme) op" where
  "deleteIdentities E q [] = returnT ()"
| "deleteIdentities E q (ident # rest) =
     bindT (bucket_Delete E q bucketIdentities (identityKey ident)) (\<lambda>_. deleteIdentities E q rest)"

definition User_Delete :: "env \<Rightarrow> 'c ctx_scheme \<Rightarrow> uuid \<Rightarrow> (unit, 'z world_scheme) op" where
  "User_Delete E c uid =
     WithTx E c (\<lambda>c.
       let q = GetQuerier c in
       bindT (readT (loadUserRow uid)) (\<lambda>m.
       bindT (boltDelete E q bucketUsers uid) (\<lambda>_.
       bindT (deleteIdentities E q (umt_Identities m)) (\<lambda>_.
       if umt_Email m \<noteq> [] then bucket_Delete E q bucketEmails (umt_Email m) else returnT ()))))"

section \<open>Reads\<close>

definition User_GetByID :: "authlib \<Rightarrow> uuid \<Rightarrow> 'z world_scheme \<Rightarrow> err + User" where
  "User_GetByID L uid w =
     (case loadUserRow uid w of Inl e \<Rightarrow> Err e | Inr m \<Rightarrow> Ok (AuthUserMetaToDomain (uuidParse L) m))"

text \<open>A lookup through an index: the id stored there, then the row under it.\<close>

definition userByIndex :: "authlib \<Rightarrow> string \<Rightarrow> bytes \<Rightarrow> 'z world_scheme \<Rightarrow> err + User" where
  "userByIndex L name key w =
     (case bucket_Get name key w of
        None \<Rightarrow> Err (ErrResourceNotFound key)
      | Some userID \<Rightarrow> User_GetByID L (rawBytes (Some userID)) w)"

definition User_GetByIdentity ::
  "env \<Rightarrow> authlib \<Rightarrow> 'c ctx_scheme \<Rightarrow> string \<Rightarrow> string \<Rightarrow> (User, 'z world_scheme) op" where
  "User_GetByIdentity E L c provider subject =
     WithReadTx E c (\<lambda>_. readT (userByIndex L bucketIdentities (provider @ identitySep @ subject)))"

definition User_GetByEmail :: "env \<Rightarrow> authlib \<Rightarrow> 'c ctx_scheme \<Rightarrow> string \<Rightarrow> (User, 'z world_scheme) op" where
  "User_GetByEmail E L c email = WithReadTx E c (\<lambda>_. readT (userByIndex L bucketEmails email))"

fun systemUserLoop :: "authlib \<Rightarrow> bucket \<Rightarrow> err + User option" where
  "systemUserLoop L [] = Ok None"
| "systemUserLoop L ((k, v) # rest) =
     (case Unmarshal userCodec v of
        None \<Rightarrow> Err ErrDecode
      | Some m \<Rightarrow>
          if umt_System m then Ok (Some (AuthUserMetaToDomain (uuidParse L) m)) else systemUserLoop L rest)"

definition GetSystemUser :: "env \<Rightarrow> authlib \<Rightarrow> 'c ctx_scheme \<Rightarrow> (User, 'z world_scheme) op" where
  "GetSystemUser E L c =
     bindT (WithReadTx E c (\<lambda>c. readT (\<lambda>w.
       case bucket_ForEach E (GetQuerier c) bucketUsers w of Inl e \<Rightarrow> Err e | Inr b \<Rightarrow> systemUserLoop L b))) (\<lambda>found.
     case found of None \<Rightarrow> failT (ErrResourceNotFound ''system user'') | Some u \<Rightarrow> returnT u)"

section \<open>Listing\<close>

definition matchesUserSearch :: "env \<Rightarrow> User \<Rightarrow> string \<Rightarrow> bool" where
  "matchesUserSearch E u search =
     (if search = [] then True
      else
        let needle = toLower E search in
        containsStr (toLower E (usr_Email u)) needle \<or> containsStr (toLower E (usr_DisplayName u)) needle)"

fun listUsersLoop :: "env \<Rightarrow> authlib \<Rightarrow> UserFilter \<Rightarrow> bucket \<Rightarrow> err + User list" where
  "listUsersLoop E L flt [] = Ok []"
| "listUsersLoop E L flt ((k, v) # rest) =
     (case Unmarshal userCodec v of
        None \<Rightarrow> Err ErrDecode
      | Some m \<Rightarrow>
          (let u = AuthUserMetaToDomain (uuidParse L) m in
           case listUsersLoop E L flt rest of
             Inl e \<Rightarrow> Err e
           | Inr us \<Rightarrow>
               Ok (if (uf_AnyUser flt \<or> usr_ID u \<in> uf_UserIDs flt) \<and> matchesUserSearch E u (uf_Search flt)
                   then u # us else us)))"

definition userLess :: "SortParams \<Rightarrow> User \<Rightarrow> User \<Rightarrow> bool" where
  "userLess params a b =
     (let l = (if sort_Field params = ''name'' then usr_DisplayName a < usr_DisplayName b
               else if sort_Field params = ''last_login'' then usr_LastLoginAt a < usr_LastLoginAt b
               else usr_Email a < usr_Email b)
      in if sort_Desc params then \<not> l else l)"

definition sortUsers :: "env \<Rightarrow> SortParams \<Rightarrow> User list \<Rightarrow> User list" where
  "sortUsers E params users = sortSliceBy E (userLess params) users"

definition User_List ::
  "env \<Rightarrow> authlib \<Rightarrow> 'c ctx_scheme \<Rightarrow> UserFilter \<Rightarrow> int64 \<Rightarrow> int64 \<Rightarrow> SortParams
     \<Rightarrow> (User list \<times> int, 'z world_scheme) op" where
  "User_List E L c flt limit offset sortBy =
     bindT (WithReadTx E c (\<lambda>c. readT (\<lambda>w.
       case bucket_ForEach E (GetQuerier c) bucketUsers w of Inl e \<Rightarrow> Err e | Inr b \<Rightarrow> listUsersLoop E L flt b))) (\<lambda>found.
     let out = sortUsers E sortBy found in
     case paginate out offset limit of
       Inl e \<Rightarrow> failT e | Inr page \<Rightarrow> returnT (page, int (length out)))"

definition User_ListAll :: "env \<Rightarrow> authlib \<Rightarrow> 'c ctx_scheme \<Rightarrow> (User list, 'z world_scheme) op" where
  "User_ListAll E L c =
     bindT (User_List E L c \<lparr>uf_UserIDs = {}, uf_AnyUser = True, uf_Search = []\<rparr> 0 0
              \<lparr>sort_Field = [], sort_Desc = False\<rparr>) (\<lambda>(users, _). returnT users)"

end
