(* ===== verification/Login.thy ===== *)
theory Login
  imports UserRepo Tokens NamespaceRepo
begin

text \<open>
  The user service \<^verbatim>\<open>src/internal/service/auth/users.go\<close> with the password functions of \<^verbatim>\<open>password.go\<close>: it
  normalises emails, keeps immutable what the API may not change, and maps the errors of storage. Then logging in and the
  caller's own profile: the use cases \<^verbatim>\<open>src/internal/usecase/auth\<close> and \<^verbatim>\<open>src/internal/usecase/profile\<close>, and the
  client of the identity provider, \<^verbatim>\<open>oidc.go\<close>, over its two libraries.
\<close>

section \<open>Passwords\<close>

definition HashPassword :: "authlib \<Rightarrow> string \<Rightarrow> (string, 'z rworld_scheme) op" where
  "HashPassword L plain w = (bcryptHash L (draws w) plain, w\<lparr>draws := Suc (draws w)\<rparr>)"

definition VerifyPassword :: "authlib \<Rightarrow> string \<Rightarrow> string \<Rightarrow> err + unit" where
  "VerifyPassword L hash plain = (if bcryptMatches L hash plain then Ok () else Err (ErrExternal ''verify password''))"

section \<open>Reads\<close>

definition mapUserStorageErr :: "string \<Rightarrow> string \<Rightarrow> err \<Rightarrow> err" where
  "mapUserStorageErr resource identifier e =
     (case e of
        ErrResourceNotFound _ \<Rightarrow> NewNotFoundError resource identifier
      | ErrResourceAlreadyExists _ \<Rightarrow> NewAlreadyExistsError resource identifier
      | _ \<Rightarrow> e)"

definition UserService_GetByID :: "authlib \<Rightarrow> uuid \<Rightarrow> (User, 'z world_scheme) op" where
  "UserService_GetByID L uid = mapErrT (mapUserStorageErr ''user'' uid) (readT (User_GetByID L uid))"

definition UserService_GetByIdentity ::
  "env \<Rightarrow> authlib \<Rightarrow> 'c ctx_scheme \<Rightarrow> string \<Rightarrow> string \<Rightarrow> (User, 'z world_scheme) op" where
  "UserService_GetByIdentity E L c provider subject =
     mapErrT (mapUserStorageErr ''user identity'' (provider @ '':'' @ subject)) (User_GetByIdentity E L c provider subject)"

definition UserService_GetByEmail ::
  "env \<Rightarrow> authlib \<Rightarrow> 'c ctx_scheme \<Rightarrow> string \<Rightarrow> (User, 'z world_scheme) op" where
  "UserService_GetByEmail E L c email =
     (case NormalizeEmail E L email of
        Inl e \<Rightarrow> failT e
      | Inr normalized \<Rightarrow> mapErrT (mapUserStorageErr ''user'' normalized) (User_GetByEmail E L c normalized))"

definition UserService_GetSystemUser :: "env \<Rightarrow> authlib \<Rightarrow> 'c ctx_scheme \<Rightarrow> (User, 'z world_scheme) op" where
  "UserService_GetSystemUser E L c = mapErrT (mapUserStorageErr ''system user'' []) (GetSystemUser E L c)"

section \<open>Writes\<close>

text \<open>\<^verbatim>\<open>Create\<close> fills in the user it is given; the model returns it.\<close>

definition UserService_Create :: "env \<Rightarrow> authlib \<Rightarrow> 'c ctx_scheme \<Rightarrow> User \<Rightarrow> (User, 'z rworld_scheme) op" where
  "UserService_Create E L c user =
     bindT (if usr_ID user = uuidNil then uuidNew (uuidAt L) else returnT (usr_ID user)) (\<lambda>uid.
     let user = user\<lparr>usr_ID := uid,
                     usr_Status := (if usr_Status user = [] then UserStatusActive else usr_Status user)\<rparr>
     in
     bindT (if usr_Email user \<noteq> [] then readT (\<lambda>_. NormalizeEmail E L (usr_Email user))
            else returnT (usr_Email user)) (\<lambda>email.
     mapErrT (mapUserStorageErr ''user'' uid) (User_Create E c (user\<lparr>usr_Email := email\<rparr>))))"

definition LinkIdentity ::
  "env \<Rightarrow> authlib \<Rightarrow> 'c ctx_scheme \<Rightarrow> uuid \<Rightarrow> Identity \<Rightarrow> (User, 'z world_scheme) op" where
  "LinkIdentity E L c userID ident =
     bindT (UserService_GetByID L userID) (\<lambda>user.
     if usr_System user \<and> usr_Identities user \<noteq> [] then failT ErrSystemImmutable
     else if List.member (usr_Identities user) ident then returnT user
     else
       let user = user\<lparr>usr_Identities := usr_Identities user @ [ident]\<rparr> in
       bindT (User_Update E L c user) (\<lambda>_. returnT user))"

definition RecordLogin :: "env \<Rightarrow> authlib \<Rightarrow> 'c ctx_scheme \<Rightarrow> uuid \<Rightarrow> (User, 'z world_scheme) op" where
  "RecordLogin E L c userID =
     bindT (UserService_GetByID L userID) (\<lambda>user.
     bindT (timeNow E) (\<lambda>now.
     let user = user\<lparr>usr_LastLoginAt := now\<rparr> in
     bindT (User_Update E L c user) (\<lambda>_. returnT user)))"

definition BootstrapSync :: "env \<Rightarrow> authlib \<Rightarrow> 'c ctx_scheme \<Rightarrow> User \<Rightarrow> (unit, 'z world_scheme) op" where
  "BootstrapSync E L c user =
     bindT (UserService_GetByID L (usr_ID user)) (\<lambda>prev.
     if \<not> usr_System prev then failT ErrSystemImmutable
     else User_Update E L c user)"

definition UserService_Delete :: "env \<Rightarrow> 'c ctx_scheme \<Rightarrow> uuid \<Rightarrow> (unit, 'z world_scheme) op" where
  "UserService_Delete E c userID = mapErrT (mapUserStorageErr ''user'' userID) (User_Delete E c userID)"

definition UserService_transitionStatus ::
  "env \<Rightarrow> authlib \<Rightarrow> 'c ctx_scheme \<Rightarrow> uuid \<Rightarrow> (User \<Rightarrow> err + User) \<Rightarrow> (User, 'z world_scheme) op" where
  "UserService_transitionStatus E L c userID transition =
     bindT (UserService_GetByID L userID) (\<lambda>user.
     bindT (readT (\<lambda>_. transition user)) (\<lambda>user.
     bindT (User_Update E L c user) (\<lambda>_. returnT user)))"

definition UserService_Deactivate :: "env \<Rightarrow> authlib \<Rightarrow> 'c ctx_scheme \<Rightarrow> uuid \<Rightarrow> (User, 'z world_scheme) op" where
  "UserService_Deactivate E L c userID = UserService_transitionStatus E L c userID User_Deactivate"

definition UserService_Reactivate :: "env \<Rightarrow> authlib \<Rightarrow> 'c ctx_scheme \<Rightarrow> uuid \<Rightarrow> (User, 'z world_scheme) op" where
  "UserService_Reactivate E L c userID = UserService_transitionStatus E L c userID User_Reactivate"

section \<open>Logging in with a password\<close>

record LoginParams =
  lp_Email :: string
  lp_Password :: string
  lp_IP :: string
  lp_UserAgent :: string

definition webSession :: "uuid \<Rightarrow> string \<Rightarrow> string \<Rightarrow> CreateParams" where
  "webSession uid ip agent =
     \<lparr>cp_UserID = uid, cp_ClientType = ClientTypeWeb, cp_IP = ip, cp_UserAgent = agent\<rparr>"

definition BasicLogin ::
  "env \<Rightarrow> authlib \<Rightarrow> randomness \<Rightarrow> 'c ctx_scheme \<Rightarrow> LoginParams \<Rightarrow> (User \<times> Session, 'z rworld_scheme) op" where
  "BasicLogin E L R c params =
     bindT (mapErrT (\<lambda>_. ErrUnauthorized) (readT (\<lambda>_. NormalizeEmail E L (lp_Email params)))) (\<lambda>email.
     bindT (mapErrT (\<lambda>_. ErrUnauthorized) (UserService_GetByIdentity E L c ProviderBasic email)) (\<lambda>user.
     if usr_Status user \<noteq> UserStatusActive then failT ErrUserDeactivated
     else
       bindT (mapErrT (\<lambda>_. ErrUnauthorized) (whenErr (VerifyPassword L (usr_PasswordHash user) (lp_Password params)))) (\<lambda>_.
       bindT (WithTx E c (\<lambda>c.
         Sessions_Create E R c (webSession (usr_ID user) (lp_IP params) (lp_UserAgent params)))) (\<lambda>sess.
       returnT (user, sess)))))"

section \<open>OIDC\<close>

definition tokenBytes :: nat where "tokenBytes = 16"

definition randomToken :: "randomness \<Rightarrow> (string, 'z rworld_scheme) op" where
  "randomToken R = bindT (randRead R tokenBytes) (\<lambda>b. returnT (base64RawURL b))"

definition Auth_Login ::
  "randomness \<Rightarrow> (string \<Rightarrow> string \<Rightarrow> string) \<Rightarrow> (string \<times> string \<times> string, 'z rworld_scheme) op" where
  "Auth_Login R authURL =
     bindT (randomToken R) (\<lambda>state.
     bindT (randomToken R) (\<lambda>nonce.
     returnT (authURL state nonce, state, nonce)))"

record ProviderIdentity =
  pi_Subject :: string
  pi_Email :: string
  pi_EmailVerified :: bool
  pi_Name :: string
  pi_Picture :: string
  pi_Groups :: "string list"

text \<open>
  The client of the identity provider. Its libraries are parameters: the discovery of the provider's endpoint, the
  exchange of a code, whose response may lack the token, the verification of a token, and the claims in it.
\<close>

record oidcClaims =
  oc_Email :: string
  oc_EmailVerified :: bool
  oc_Name :: string
  oc_Picture :: string
  oc_Groups :: "string list option"

record idToken =
  idt_Subject :: string
  idt_Nonce :: string
  idt_Claims :: "err + oidcClaims"

record OIDCConfig =
  oidc_IssuerURL :: string
  oidc_ClientID :: string
  oidc_ClientSecret :: string
  oidc_RedirectURL :: string
  oidc_Scopes :: "string list"

record oauth2Config =
  oa_ClientID :: string
  oa_ClientSecret :: string
  oa_RedirectURL :: string
  oa_Endpoint :: string
  oa_Scopes :: "string list"

record oidcLib =
  ol_Discover :: "string \<Rightarrow> err + string"
  ol_AuthCodeURL :: "oauth2Config \<Rightarrow> string \<Rightarrow> string \<Rightarrow> string"
  ol_Exchange :: "oauth2Config \<Rightarrow> string \<Rightarrow> err + string option"
  ol_Verify :: "string \<Rightarrow> string \<Rightarrow> err + idToken"

record oidcProvider =
  op_name :: string
  op_verifier :: string
  op_oauth2 :: oauth2Config

definition errIDTokenMissing :: err where "errIDTokenMissing = ErrExternal ''id_token missing from response''"
definition errNonceMismatch :: err where "errNonceMismatch = ErrExternal ''nonce mismatch''"

definition NewOIDCProvider :: "oidcLib \<Rightarrow> OIDCConfig \<Rightarrow> err + oidcProvider" where
  "NewOIDCProvider lib cfg =
     (case ol_Discover lib (oidc_IssuerURL cfg) of
        Inl e \<Rightarrow> Err e
      | Inr endpoint \<Rightarrow>
          (let scopes = (if oidc_Scopes cfg = [] then [''openid'', ''email'', ''profile''] else oidc_Scopes cfg) in
           Ok \<lparr>op_name = ProviderOIDC, op_verifier = oidc_ClientID cfg,
               op_oauth2 = \<lparr>oa_ClientID = oidc_ClientID cfg, oa_ClientSecret = oidc_ClientSecret cfg,
                            oa_RedirectURL = oidc_RedirectURL cfg, oa_Endpoint = endpoint, oa_Scopes = scopes\<rparr>\<rparr>))"

definition OIDC_Name :: "oidcProvider \<Rightarrow> string" where
  "OIDC_Name p = op_name p"

definition OIDC_AuthURL :: "oidcLib \<Rightarrow> oidcProvider \<Rightarrow> string \<Rightarrow> string \<Rightarrow> string" where
  "OIDC_AuthURL lib p state nonce = ol_AuthCodeURL lib (op_oauth2 p) state nonce"

definition OIDC_Exchange :: "oidcLib \<Rightarrow> oidcProvider \<Rightarrow> string \<Rightarrow> string \<Rightarrow> err + ProviderIdentity" where
  "OIDC_Exchange lib p code nonce =
     (case ol_Exchange lib (op_oauth2 p) code of
        Inl e \<Rightarrow> Err e
      | Inr None \<Rightarrow> Err errIDTokenMissing
      | Inr (Some rawIDToken) \<Rightarrow>
          (case ol_Verify lib (op_verifier p) rawIDToken of
             Inl e \<Rightarrow> Err e
           | Inr tok \<Rightarrow>
               if idt_Nonce tok \<noteq> nonce then Err errNonceMismatch
               else
                 (case idt_Claims tok of
                    Inl e \<Rightarrow> Err e
                  | Inr claims \<Rightarrow>
                      Ok \<lparr>pi_Subject = idt_Subject tok, pi_Email = oc_Email claims, pi_EmailVerified = oc_EmailVerified claims,
                          pi_Name = oc_Name claims, pi_Picture = oc_Picture claims,
                          pi_Groups = (case oc_Groups claims of None \<Rightarrow> [] | Some gs \<Rightarrow> gs)\<rparr>)))"

record CallbackParams =
  cbp_Code :: string
  cbp_Nonce :: string
  cbp_IP :: string
  cbp_UserAgent :: string

definition linkOIDCByEmail ::
  "env \<Rightarrow> authlib \<Rightarrow> 'c ctx_scheme \<Rightarrow> string \<Rightarrow> ProviderIdentity \<Rightarrow> (User, 'z world_scheme) op" where
  "linkOIDCByEmail E L c provider ident =
     (if \<not> pi_EmailVerified ident \<or> pi_Email ident = [] then failT ErrIdentityNotProvisioned
      else
        case NormalizeEmail E L (pi_Email ident) of
          Inl _ \<Rightarrow> failT ErrIdentityNotProvisioned
        | Inr normalized \<Rightarrow>
            bindT (mapErrT (\<lambda>e. case e of ErrNotFound _ _ \<Rightarrow> ErrIdentityNotProvisioned | _ \<Rightarrow> e)
                     (UserService_GetByEmail E L c normalized)) (\<lambda>candidate.
            if list_ex (\<lambda>i. idn_Provider i = provider) (usr_Identities candidate)
            then failT ErrIdentityNotProvisioned
            else
              bindT (readT (\<lambda>_. NewIdentity E L provider (pi_Subject ident))) (\<lambda>oidcIdentity.
              LinkIdentity E L c (usr_ID candidate) oidcIdentity)))"

definition resolveOIDCUser ::
  "env \<Rightarrow> authlib \<Rightarrow> 'c ctx_scheme \<Rightarrow> ProviderIdentity \<Rightarrow> (User, 'z world_scheme) op" where
  "resolveOIDCUser E L c ident w =
     (case UserService_GetByIdentity E L c ProviderOIDC (pi_Subject ident) w of
        (Inr user, w1) \<Rightarrow> (Ok user, w1)
      | (Inl e, w1) \<Rightarrow>
          (case e of
             ErrNotFound _ _ \<Rightarrow> linkOIDCByEmail E L c ProviderOIDC ident w1
           | _ \<Rightarrow> (Err e, w1)))"

definition Callback ::
  "env \<Rightarrow> authlib \<Rightarrow> randomness \<Rightarrow> (string \<Rightarrow> string \<Rightarrow> err + ProviderIdentity) \<Rightarrow> 'c ctx_scheme \<Rightarrow> CallbackParams
     \<Rightarrow> (User \<times> Session, 'z rworld_scheme) op" where
  "Callback E L R exchange c params =
     bindT (readT (\<lambda>_. exchange (cbp_Code params) (cbp_Nonce params))) (\<lambda>ident.
     WithTx E c (\<lambda>c.
       bindT (resolveOIDCUser E L c ident) (\<lambda>resolved.
       if usr_Status resolved \<noteq> UserStatusActive then failT ErrUserDeactivated
       else
         bindT (RecordLogin E L c (usr_ID resolved)) (\<lambda>stamped.
         bindT (Sessions_Create E R c (webSession (usr_ID stamped) (cbp_IP params) (cbp_UserAgent params))) (\<lambda>sess.
         returnT (stamped, sess))))))"

section \<open>Profile\<close>

definition Logout :: "env \<Rightarrow> randomness \<Rightarrow> 'c ctx_scheme \<Rightarrow> string \<Rightarrow> string \<Rightarrow> (unit, 'z rworld_scheme) op" where
  "Logout E R c sessionID revokedBy =
     WithTx E c (\<lambda>c. Sessions_Revoke E R c sessionID revokedBy ''user logout'' SessionEventRevokedByUser)"

record MeResult =
  me_Email :: string
  me_Name :: string
  me_Permissions :: "Permission list"

text \<open>The user of the request's context, if its session was authenticated.\<close>

definition Me :: "env \<Rightarrow> 'm pdp \<Rightarrow> 'm \<Rightarrow> User option \<Rightarrow> err + MeResult" where
  "Me E p m ctxUser =
     (case ctxUser of
        None \<Rightarrow> Err ErrUnauthorized
      | Some user \<Rightarrow>
          (case ListPermissions E p m (usr_ID user) of
             Inl e \<Rightarrow> Err e
           | Inr perms \<Rightarrow> Ok \<lparr>me_Email = usr_Email user, me_Name = usr_DisplayName user, me_Permissions = perms\<rparr>))"

record ChangePasswordParams =
  cpw_CurrentPassword :: string
  cpw_NewPassword :: string
  cpw_IP :: string
  cpw_UserAgent :: string

definition ChangePassword ::
  "env \<Rightarrow> authlib \<Rightarrow> randomness \<Rightarrow> 'c ctx_scheme \<Rightarrow> User option \<Rightarrow> ChangePasswordParams
     \<Rightarrow> (Session, 'z rworld_scheme) op" where
  "ChangePassword E L R c ctxUser params =
     (case ctxUser of
        None \<Rightarrow> failT ErrUnauthorized
      | Some cu \<Rightarrow>
          WithTx E c (\<lambda>c.
            bindT (User_GetByIdentity E L c ProviderBasic (usr_Email cu)) (\<lambda>user.
            bindT (if \<not> usr_PasswordChangeRequired cu
                   then mapErrT (\<lambda>_. ErrUnauthorized)
                          (whenErr (VerifyPassword L (usr_PasswordHash user) (cpw_CurrentPassword params)))
                   else returnT ()) (\<lambda>_.
            bindT (HashPassword L (cpw_NewPassword params)) (\<lambda>newHash.
            bindT (Sessions_RevokeAllForUser E R c (usr_ID user) (usr_ID user) ''password changed'') (\<lambda>_.
            bindT (SetPassword E c (usr_ID user) newHash False) (\<lambda>_.
            Sessions_Create E R c (webSession (usr_ID user) (cpw_IP params) (cpw_UserAgent params)))))))))"

section \<open>Codes and nonces\<close>

text \<open>
  A login by the identity provider rests on a token that verifies for this client and carries the nonce of this login; the
  subject and the email are the token's.
\<close>

lemma OIDC_Exchange_Inr:
  assumes "OIDC_Exchange lib p code nonce = Inr ident"
  obtains raw tok claims where "ol_Exchange lib (op_oauth2 p) code = Inr (Some raw)" "ol_Verify lib (op_verifier p) raw = Inr tok"
    "idt_Nonce tok = nonce" "idt_Claims tok = Inr claims" "pi_Subject ident = idt_Subject tok" "pi_Email ident = oc_Email claims"
    "pi_EmailVerified ident = oc_EmailVerified claims"
  using assms by (auto simp: OIDC_Exchange_def split: sum.splits option.splits if_splits)

theorem oidc_login_bound_to_nonce:
  assumes "Callback E L R (OIDC_Exchange lib p) c params w = (Inr (u, s), w')"
  shows "\<exists>raw tok. ol_Exchange lib (op_oauth2 p) (cbp_Code params) = Inr (Some raw) \<and>
    ol_Verify lib (op_verifier p) raw = Inr tok \<and> idt_Nonce tok = cbp_Nonce params"
proof -
  from assms obtain ident where "OIDC_Exchange lib p (cbp_Code params) (cbp_Nonce params) = Inr ident"
    by (auto simp: Callback_def bind_inversion readT_def)
  then show ?thesis by (rule OIDC_Exchange_Inr) blast
qed

end
