(* ===== verification/Bootstrap.thy ===== *)
theory Bootstrap
  imports Login
begin

text \<open>
  The bootstrap of the administrator, \<^verbatim>\<open>src/internal/service/auth/bootstrap.go\<close>: at every start, in one
  transaction, the superadmin group, its wildcard rule, the system user of the mode of authentication and
  its membership.
\<close>

definition SystemGroupSuperAdmin :: string where "SystemGroupSuperAdmin = ''superadmin''"

definition PassthroughEmail :: string where "PassthroughEmail = ''local-admin@elara.internal''"

definition emptyUser :: User where
  "emptyUser =
     \<lparr>usr_ID = uuidNil, usr_Email = [], usr_DisplayName = [], usr_Picture = [], usr_Status = [],
      usr_Identities = [], usr_System = False, usr_CreatedAt = 0, usr_LastLoginAt = 0, usr_PasswordHash = [],
      usr_PasswordChangeRequired = False, usr_MembershipVersion = 0\<rparr>"

definition ensureSuperAdminGroup :: "env \<Rightarrow> 'c ctx_scheme \<Rightarrow> (unit, 'z world_scheme) op" where
  "ensureSuperAdminGroup E c w =
     (case Group_Get SystemGroupSuperAdmin w of
        Inr grp \<Rightarrow>
          if \<not> grp_System grp
          then bindT (Group_Update E (GetQuerier c) (grp\<lparr>grp_System := True\<rparr>)) (\<lambda>_. returnT ()) w
          else (Ok (), w)
      | Inl e \<Rightarrow>
          (case e of
             ErrResourceNotFound _ \<Rightarrow>
               bindT (timeNow E) (\<lambda>now.
               bindT (Group_Create E (GetQuerier c)
                 \<lparr>grp_Name = SystemGroupSuperAdmin, grp_DisplayName = [], grp_Description = [], grp_System = True,
                  grp_MetadataVersion = 0, grp_MembersVersion = 0, grp_PermissionsVersion = 0,
                  grp_CreatedAt = now, grp_UpdatedAt = now\<rparr>) (\<lambda>_. returnT ())) w
           | _ \<Rightarrow> (Err e, w)))"

definition superAdminRule :: "string list" where
  "superAdminRule = [GroupResource SystemGroupSuperAdmin, DomainAll, ObjectAll, ActionAll]"

definition ensureSuperAdminPolicy :: "env \<Rightarrow> jsonStrings \<Rightarrow> 'c ctx_scheme \<Rightarrow> (unit, 'z world_scheme) op" where
  "ensureSuperAdminPolicy E J c = AddPolicyCtx E J (GetQuerier c) ''p'' ''p'' superAdminRule"

definition ensureMembership :: "env \<Rightarrow> jsonStrings \<Rightarrow> 'c ctx_scheme \<Rightarrow> string \<Rightarrow> (unit, 'z world_scheme) op" where
  "ensureMembership E J c userID =
     bindT (readT (Group_Get SystemGroupSuperAdmin)) (\<lambda>_.
     AddPolicyCtx E J (GetQuerier c) ''g'' ''g'' [userID, GroupResource SystemGroupSuperAdmin, MembershipDomain])"

definition createAdminUser ::
  "env \<Rightarrow> authlib \<Rightarrow> 'c ctx_scheme \<Rightarrow> Identity \<Rightarrow> string \<Rightarrow> (User, 'z rworld_scheme) op" where
  "createAdminUser E L c ident password =
     bindT (HashPassword L password) (\<lambda>hash.
     bindT (timeNow E) (\<lambda>now.
     bindT (uuidNew (uuidAt L)) (\<lambda>uid.
     UserService_Create E L c
       (emptyUser\<lparr>usr_ID := uid, usr_Email := idn_Subject ident, usr_DisplayName := ''Super Admin'',
                  usr_Status := UserStatusActive, usr_Identities := [ident], usr_PasswordHash := hash,
                  usr_PasswordChangeRequired := True, usr_System := True, usr_CreatedAt := now\<rparr>))))"

text \<open>The identities with the basic one synchronised, and whether they changed.\<close>

fun syncBasicIdentities :: "Identity \<Rightarrow> Identity list \<Rightarrow> Identity list \<times> bool" where
  "syncBasicIdentities ident [] = ([ident], True)"
| "syncBasicIdentities ident (i # is) =
     (if idn_Provider i = ProviderBasic then
        (if idn_Subject i = idn_Subject ident then (i # is, False)
         else (i\<lparr>idn_Subject := idn_Subject ident\<rparr> # is, True))
      else (case syncBasicIdentities ident is of (is', changed) \<Rightarrow> (i # is', changed)))"

definition syncBasicIdentity :: "User \<Rightarrow> Identity \<Rightarrow> User \<times> bool" where
  "syncBasicIdentity user ident =
     (case syncBasicIdentities ident (usr_Identities user) of
        (is, changed) \<Rightarrow> (user\<lparr>usr_Identities := is\<rparr>, changed))"

text \<open>A lookup that may miss: None when the user does not exist.\<close>

definition findUser :: "(User, 'w) op \<Rightarrow> (User option, 'w) op" where
  "findUser m w =
     (case m w of
        (Inr u, w1) \<Rightarrow> (Ok (Some u), w1)
      | (Inl e, w1) \<Rightarrow> (case e of ErrNotFound _ _ \<Rightarrow> (Ok None, w1) | _ \<Rightarrow> (Err e, w1)))"

definition ensureBasicAdminUser ::
  "env \<Rightarrow> authlib \<Rightarrow> jsonStrings \<Rightarrow> 'c ctx_scheme \<Rightarrow> string \<Rightarrow> string \<Rightarrow> (unit, 'z rworld_scheme) op" where
  "ensureBasicAdminUser E L J c username password =
     bindT (readT (\<lambda>_. NewIdentity E L ProviderBasic username)) (\<lambda>basicIdentity.
     bindT (findUser (UserService_GetSystemUser E L c)) (\<lambda>found.
     case found of
       None \<Rightarrow>
         bindT (createAdminUser E L c basicIdentity password) (\<lambda>created.
         ensureMembership E J c (usr_ID created))
     | Some user0 \<Rightarrow>
         let (user, synced) = syncBasicIdentity user0 basicIdentity;
             changed = (synced \<or> usr_Email user \<noteq> idn_Subject basicIdentity);
             user = user\<lparr>usr_Email := idn_Subject basicIdentity\<rparr>
         in
         bindT (if changed then BootstrapSync E L c user else returnT ()) (\<lambda>_.
         ensureMembership E J c (usr_ID user))))"

definition ensureOIDCAdminUser ::
  "env \<Rightarrow> authlib \<Rightarrow> jsonStrings \<Rightarrow> 'c ctx_scheme \<Rightarrow> string \<Rightarrow> (unit, 'z rworld_scheme) op" where
  "ensureOIDCAdminUser E L J c adminEmail =
     bindT (readT (\<lambda>_. NormalizeEmail E L adminEmail)) (\<lambda>email.
     bindT (findUser (UserService_GetSystemUser E L c)) (\<lambda>found.
     case found of
       None \<Rightarrow>
         bindT (timeNow E) (\<lambda>now.
         bindT (uuidNew (uuidAt L)) (\<lambda>uid.
         bindT (UserService_Create E L c
           (emptyUser\<lparr>usr_ID := uid, usr_Email := email, usr_DisplayName := ''Super Admin'',
                      usr_Status := UserStatusActive, usr_System := True, usr_CreatedAt := now\<rparr>)) (\<lambda>created.
         ensureMembership E J c (usr_ID created))))
     | Some user \<Rightarrow>
         bindT (if usr_Email user \<noteq> email then BootstrapSync E L c (user\<lparr>usr_Email := email\<rparr>) else returnT ()) (\<lambda>_.
         ensureMembership E J c (usr_ID user))))"

definition ensurePassthroughUser ::
  "env \<Rightarrow> authlib \<Rightarrow> jsonStrings \<Rightarrow> 'c ctx_scheme \<Rightarrow> (unit, 'z rworld_scheme) op" where
  "ensurePassthroughUser E L J c =
     bindT (readT (\<lambda>_. NewIdentity E L ProviderBasic PassthroughEmail)) (\<lambda>ident.
     bindT (findUser (UserService_GetByIdentity E L c (idn_Provider ident) (idn_Subject ident))) (\<lambda>found.
     bindT (case found of
              Some user \<Rightarrow> returnT user
            | None \<Rightarrow>
                bindT (timeNow E) (\<lambda>now.
                bindT (uuidNew (uuidAt L)) (\<lambda>uid.
                UserService_Create E L c
                  (emptyUser\<lparr>usr_ID := uid, usr_Email := idn_Subject ident, usr_DisplayName := ''Local Admin'',
                             usr_Status := UserStatusActive, usr_Identities := [ident], usr_System := True,
                             usr_CreatedAt := now\<rparr>)))) (\<lambda>user.
     ensureMembership E J c (usr_ID user))))"

section \<open>The three modes\<close>

definition seedSystem ::
  "env \<Rightarrow> jsonStrings \<Rightarrow> 'c ctx_scheme \<Rightarrow> ('c ctx_scheme \<Rightarrow> (unit, 'z rworld_scheme) op) \<Rightarrow> (unit, 'z rworld_scheme) op" where
  "seedSystem E J c admin =
     WithTx E c (\<lambda>c.
       bindT (ensureSuperAdminGroup E c) (\<lambda>_.
       bindT (ensureSuperAdminPolicy E J c) (\<lambda>_. admin c)))"

definition BootstrapBasic ::
  "env \<Rightarrow> authlib \<Rightarrow> jsonStrings \<Rightarrow> 'c ctx_scheme \<Rightarrow> string \<Rightarrow> string \<Rightarrow> (unit, 'z rworld_scheme) op" where
  "BootstrapBasic E L J c username password =
     seedSystem E J c (\<lambda>c. ensureBasicAdminUser E L J c username password)"

definition BootstrapOIDC ::
  "env \<Rightarrow> authlib \<Rightarrow> jsonStrings \<Rightarrow> 'c ctx_scheme \<Rightarrow> string \<Rightarrow> (unit, 'z rworld_scheme) op" where
  "BootstrapOIDC E L J c adminEmail = seedSystem E J c (\<lambda>c. ensureOIDCAdminUser E L J c adminEmail)"

definition BootstrapPassthrough ::
  "env \<Rightarrow> authlib \<Rightarrow> jsonStrings \<Rightarrow> 'c ctx_scheme \<Rightarrow> (unit, 'z rworld_scheme) op" where
  "BootstrapPassthrough E L J c = seedSystem E J c (\<lambda>c. ensurePassthroughUser E L J c)"

definition EnsureMember :: "env \<Rightarrow> jsonStrings \<Rightarrow> 'c ctx_scheme \<Rightarrow> string \<Rightarrow> (unit, 'z world_scheme) op" where
  "EnsureMember E J c userID = WithTx E c (\<lambda>c. ensureMembership E J c userID)"

end
