(* ===== verification/UserAdmin.thy ===== *)
theory UserAdmin
  imports Bootstrap
begin

text \<open>
  User administration, \<^verbatim>\<open>src/internal/usecase/user\<close>: creation with initial groups, deletion, password reset,
  deactivation and reactivation, group membership, and the reads, each with its authorisation.
\<close>

section \<open>Authorisation\<close>

definition mapUserErr :: "err \<Rightarrow> err" where
  "mapUserErr e = (case e of ErrResourceNotFound n \<Rightarrow> ErrNotFound ''user'' n | _ \<Rightarrow> e)"

definition loadTarget :: "authlib \<Rightarrow> uuid \<Rightarrow> (User, 'z world_scheme) op" where
  "loadTarget L userID = mapErrT mapUserErr (readT (User_GetByID L userID))"

definition checkAntiEscalation ::
  "env \<Rightarrow> 'm pdp \<Rightarrow> AuthInfo \<Rightarrow> string \<Rightarrow> ('m, 'z) pworld_scheme \<Rightarrow> err + unit" where
  "checkAntiEscalation E p actor targetID w =
     (case ListPermissions E p (cache w) targetID of
        Inl e \<Rightarrow> Err e
      | Inr perms \<Rightarrow>
          if list_all (Has p (cache w) (ai_UserID actor)) perms then Ok () else Err ErrPermissionEscalation)"

definition authorizeUserWrite ::
  "env \<Rightarrow> 'm pdp \<Rightarrow> AuthInfo \<Rightarrow> string \<Rightarrow> ('m, 'z) pworld_scheme \<Rightarrow> err + unit" where
  "authorizeUserWrite E p actor targetID w =
     (case RequireWriteUser p (ai_UserID actor) targetID w of
        Inl e \<Rightarrow> Err e
      | Inr _ \<Rightarrow> checkAntiEscalation E p actor targetID w)"

definition validateLastAdmin :: "'m pdp \<Rightarrow> string \<Rightarrow> ('m, 'z) pworld_scheme \<Rightarrow> err + unit" where
  "validateLastAdmin p targetID w =
     (let members = GroupMembers (pdp_lib p) (cache w) SystemGroupSuperAdmin in
      if length members = 1 \<and> members ! 0 = targetID
      then Err (ErrValidation ''id'' ''cannot delete the last admin'') else Ok ())"

section \<open>Status\<close>

definition UserAdmin_transitionStatus ::
  "env \<Rightarrow> authlib \<Rightarrow> 'm pdp \<Rightarrow> 'c ctx_scheme \<Rightarrow> AuthInfo \<Rightarrow> uuid \<Rightarrow> string
     \<Rightarrow> (string \<Rightarrow> ('m, 'z) pworld_scheme \<Rightarrow> err + unit)
     \<Rightarrow> ('c ctx_scheme \<Rightarrow> uuid \<Rightarrow> (User, ('m, 'z) pworld_scheme) op)
     \<Rightarrow> ('c ctx_scheme \<Rightarrow> User \<Rightarrow> (unit, ('m, 'z) pworld_scheme) op) \<Rightarrow> (User, ('m, 'z) pworld_scheme) op" where
  "UserAdmin_transitionStatus E L p c actor userID selfErrMsg preCheck transition sideEffect =
     WithTx E c (\<lambda>c.
       bindT (loadTarget L userID) (\<lambda>user.
       if ai_UserID actor = usr_ID user then failT (ErrValidation ''user_id'' selfErrMsg)
       else
         bindT (readT (authorizeUserWrite E p actor (usr_ID user))) (\<lambda>_.
         bindT (readT (preCheck (usr_ID user))) (\<lambda>_.
         bindT (transition c (usr_ID user)) (\<lambda>updated.
         bindT (sideEffect c updated) (\<lambda>_. returnT updated))))))"

definition UserAdmin_Deactivate ::
  "env \<Rightarrow> authlib \<Rightarrow> randomness \<Rightarrow> 'm pdp \<Rightarrow> 'c ctx_scheme \<Rightarrow> AuthInfo \<Rightarrow> uuid \<Rightarrow> (User, ('m, 'z) pworld_scheme) op" where
  "UserAdmin_Deactivate E L R p c actor userID =
     UserAdmin_transitionStatus E L p c actor userID ''cannot deactivate your own account'' (validateLastAdmin p)
       (UserService_Deactivate E L)
       (\<lambda>c user. Sessions_RevokeAllForUser E R c (usr_ID user) (ai_UserID actor) ''account deactivated'')"

definition UserAdmin_Reactivate ::
  "env \<Rightarrow> authlib \<Rightarrow> 'm pdp \<Rightarrow> 'c ctx_scheme \<Rightarrow> AuthInfo \<Rightarrow> uuid \<Rightarrow> (User, ('m, 'z) pworld_scheme) op" where
  "UserAdmin_Reactivate E L p c actor userID =
     UserAdmin_transitionStatus E L p c actor userID ''cannot reactivate your own account'' (\<lambda>_ _. Ok ())
       (UserService_Reactivate E L) (\<lambda>_ _. returnT ())"

section \<open>Passwords\<close>

definition ResetPassword ::
  "env \<Rightarrow> authlib \<Rightarrow> randomness \<Rightarrow> 'm pdp \<Rightarrow> jsonStrings \<Rightarrow> 'c ctx_scheme \<Rightarrow> AuthInfo \<Rightarrow> uuid \<Rightarrow> string
     \<Rightarrow> (unit, ('m, 'z) pworld_scheme) op" where
  "ResetPassword E L R p J c actor userID newPassword =
     bindT (HashPassword L newPassword) (\<lambda>newHash.
     PAP_Write E (pdp_lib p) J c (\<lambda>c.
       bindT (loadTarget L userID) (\<lambda>user.
       bindT (readT (authorizeUserWrite E p actor (usr_ID user))) (\<lambda>_.
       bindT (Sessions_RevokeAllForUser E R c (usr_ID user) (ai_UserID actor) ''password reset by admin'') (\<lambda>_.
       SetPassword E c (usr_ID user) newHash True)))))"

section \<open>Groups\<close>

fun loadGroupsByNames :: "string list \<Rightarrow> 'z world_scheme \<Rightarrow> err + (string \<rightharpoonup> Group)" where
  "loadGroupsByNames [] w = Ok Map.empty"
| "loadGroupsByNames (name # names) w =
     (case Group_Get name w of
        Inl e \<Rightarrow> Err e
      | Inr g \<Rightarrow>
          (case Group_EnsureMutable g of
             Inl e \<Rightarrow> Err e
           | Inr _ \<Rightarrow> (case loadGroupsByNames names w of Inl e \<Rightarrow> Err e | Inr out \<Rightarrow> Ok (out(name \<mapsto> g)))))"

fun resolveNames :: "string list \<Rightarrow> 'z world_scheme \<Rightarrow> err + unit" where
  "resolveNames [] w = Ok ()"
| "resolveNames (name # names) w =
     (case Group_Get name w of Inl e \<Rightarrow> Err e | Inr _ \<Rightarrow> resolveNames names w)"

definition currentUserGroupNames :: "'m pdp \<Rightarrow> string \<Rightarrow> ('m, 'z) pworld_scheme \<Rightarrow> err + string list" where
  "currentUserGroupNames p userID w =
     (case UserGroupNames (pdp_lib p) (cache w) userID of
        Inl e \<Rightarrow> Err e
      | Inr names \<Rightarrow> (case resolveNames names w of Inl e \<Rightarrow> Err e | Inr _ \<Rightarrow> Ok names))"

definition filterVisibleGroupIDs :: "'m pdp \<Rightarrow> 'm \<Rightarrow> string \<Rightarrow> string list \<Rightarrow> string list" where
  "filterVisibleGroupIDs p m actor ids = filter (\<lambda>i. HasGroup p m actor i ActionRead) ids"

definition authorizeInitialGroups :: "'m pdp \<Rightarrow> AuthInfo \<Rightarrow> string list \<Rightarrow> ('m, 'z) pworld_scheme \<Rightarrow> err + unit" where
  "authorizeInitialGroups p actor ids w =
     (if list_all (\<lambda>i. HasGroup p (cache w) (ai_UserID actor) i ActionWrite) ids then Ok () else Err ErrForbidden)"

definition authorizeGroupDeltas ::
  "'m pdp \<Rightarrow> AuthInfo \<Rightarrow> string list \<Rightarrow> string list \<Rightarrow> ('m, 'z) pworld_scheme \<Rightarrow> err + unit" where
  "authorizeGroupDeltas p actor added removed w =
     (if list_all (\<lambda>i. HasGroup p (cache w) (ai_UserID actor) i ActionWrite) (added @ removed)
      then Ok () else Err ErrForbidden)"

fun requireGrants ::
  "'m pdp \<Rightarrow> string \<Rightarrow> string list \<Rightarrow> ('m, 'z) pworld_scheme \<Rightarrow> err + unit" where
  "requireGrants p actor [] w = Ok ()"
| "requireGrants p actor (name # names) w =
     (case RequireMembershipGrant p actor name w of Inl e \<Rightarrow> Err e | Inr _ \<Rightarrow> requireGrants p actor names w)"

record groupDelta =
  gd_addedNames :: "string list"
  gd_removedNames :: "string list"
  gd_postIDs :: "string list"

record UpdateGroupsData =
  ugd_UserID :: uuid
  ugd_AddGroupIDs :: "string list"
  ugd_RemoveGroupIDs :: "string list"
  ugd_ExpectedMembershipVersion :: "int64 option"

record UpdateGroupsResult =
  ugr_User :: User
  ugr_VisibleGroupIDs :: "string list"
  ugr_MembershipVersion :: int64

definition computeGroupDelta ::
  "'m pdp \<Rightarrow> AuthInfo \<Rightarrow> string \<Rightarrow> UpdateGroupsData \<Rightarrow> ('m, 'z) pworld_scheme \<Rightarrow> err + groupDelta" where
  "computeGroupDelta p actor userID data w =
     (case currentUserGroupNames p userID w of
        Inl e \<Rightarrow> Err e
      | Inr currentNames \<Rightarrow>
          (case authorizeGroupDeltas p actor (ugd_AddGroupIDs data) (ugd_RemoveGroupIDs data) w of
             Inl e \<Rightarrow> Err e
           | Inr _ \<Rightarrow>
               (let currentSet = ToSet currentNames;
                    effectiveAdd = NotIn (ugd_AddGroupIDs data) currentSet;
                    effectiveRemove = In (ugd_RemoveGroupIDs data) currentSet
                in
                case loadGroupsByNames effectiveAdd w of
                  Inl e \<Rightarrow> Err e
                | Inr addedGroups \<Rightarrow>
                    (case loadGroupsByNames effectiveRemove w of
                       Inl e \<Rightarrow> Err e
                     | Inr _ \<Rightarrow>
                         (let addedNames = map (\<lambda>n. grp_Name (the (addedGroups n))) effectiveAdd in
                          case requireGrants p (ai_UserID actor) addedNames w of
                            Inl e \<Rightarrow> Err e
                          | Inr _ \<Rightarrow>
                              Ok \<lparr>gd_addedNames = addedNames, gd_removedNames = effectiveRemove,
                                  gd_postIDs = ComposePost currentNames effectiveAdd effectiveRemove\<rparr>)))))"

definition applyMembershipDelta ::
  "env \<Rightarrow> jsonStrings \<Rightarrow> 'c ctx_scheme \<Rightarrow> User \<Rightarrow> string list \<Rightarrow> string list \<Rightarrow> (User, ('m, 'z) pworld_scheme) op" where
  "applyMembershipDelta E J c user added removed =
     bindT (ApplyUserMembershipDeltas E J c (usr_ID user) added removed) (\<lambda>_.
     let user = user\<lparr>usr_MembershipVersion := wrap64 (usr_MembershipVersion user + 1)\<rparr> in
     bindT (SetMembershipVersion E c (usr_ID user) (usr_MembershipVersion user)) (\<lambda>_. returnT user))"

definition UpdateGroups ::
  "env \<Rightarrow> authlib \<Rightarrow> 'm pdp \<Rightarrow> jsonStrings \<Rightarrow> 'c ctx_scheme \<Rightarrow> AuthInfo \<Rightarrow> UpdateGroupsData
     \<Rightarrow> (UpdateGroupsResult, ('m, 'z) pworld_scheme) op" where
  "UpdateGroups E L p J c actor data =
     (case FirstOverlap (ugd_AddGroupIDs data) (ugd_RemoveGroupIDs data) of
        Some i \<Rightarrow> failT (ErrValidation ''group_id'' (quoted i @ '' appears in both add and remove''))
      | None \<Rightarrow>
          PAP_Write E (pdp_lib p) J c (\<lambda>c.
            bindT (loadTarget L (ugd_UserID data)) (\<lambda>user.
            bindT (whenErr (User_EnsureMutable user)) (\<lambda>_.
            bindT (whenErr (CheckVersion (ugd_ExpectedMembershipVersion data) (usr_MembershipVersion user))) (\<lambda>_.
            bindT (readT (computeGroupDelta p actor (usr_ID user) data)) (\<lambda>delta.
            bindT (readT (\<lambda>w. Ok (filterVisibleGroupIDs p (cache w) (ai_UserID actor) (gd_postIDs delta)))) (\<lambda>visible.
            if length (gd_addedNames delta) + length (gd_removedNames delta) = 0
            then returnT \<lparr>ugr_User = user, ugr_VisibleGroupIDs = visible, ugr_MembershipVersion = usr_MembershipVersion user\<rparr>
            else
              bindT (applyMembershipDelta E J c user (gd_addedNames delta) (gd_removedNames delta)) (\<lambda>user.
              returnT \<lparr>ugr_User = user, ugr_VisibleGroupIDs = visible,
                       ugr_MembershipVersion = usr_MembershipVersion user\<rparr>))))))))"

section \<open>Create\<close>

record UserCreateData =
  ucd_Email :: string
  ucd_DisplayName :: string
  ucd_InitialPassword :: string
  ucd_InitialGroupIDs :: "string list"

record UserCreateResult =
  ucr_User :: User
  ucr_GroupIDs :: "string list"
  ucr_MembershipVersion :: int64

definition newUserFromCreateData ::
  "env \<Rightarrow> authlib \<Rightarrow> UserCreateData \<Rightarrow> (User, 'z rworld_scheme) op" where
  "newUserFromCreateData E L data =
     bindT (readT (\<lambda>_. NormalizeEmail E L (ucd_Email data))) (\<lambda>email.
     bindT (uuidNew (uuidAt L)) (\<lambda>uid.
     let user = emptyUser\<lparr>usr_ID := uid, usr_Email := email, usr_DisplayName := ucd_DisplayName data,
                          usr_Status := UserStatusActive\<rparr>
     in
     bindT (if ucd_InitialPassword data = [] then returnT []
            else bindT (readT (\<lambda>_. NewIdentity E L ProviderBasic email)) (\<lambda>ident. returnT [ident])) (\<lambda>idents.
     let user = user\<lparr>usr_Identities := idents\<rparr> in
     bindT (whenErr (User_Validate user)) (\<lambda>_. returnT user))))"

definition preauthorize :: "'m pdp \<Rightarrow> AuthInfo \<Rightarrow> string list \<Rightarrow> ('m, 'z) pworld_scheme \<Rightarrow> err + unit" where
  "preauthorize p actor ids w =
     (if HasGlobal p (cache w) (ai_UserID actor) ObjectUser ActionCreate then Ok ()
      else if ids = [] then Err ErrForbidden
      else authorizeInitialGroups p actor ids w)"

definition persistUser ::
  "env \<Rightarrow> authlib \<Rightarrow> 'c ctx_scheme \<Rightarrow> User \<Rightarrow> string \<Rightarrow> (User, 'z rworld_scheme) op" where
  "persistUser E L c user initialPassword =
     bindT (UserService_Create E L c user) (\<lambda>user.
     if initialPassword = [] then returnT user
     else
       bindT (HashPassword L initialPassword) (\<lambda>hash.
       bindT (SetPassword E c (usr_ID user) hash True) (\<lambda>_. returnT user)))"

definition applyInitialGroups ::
  "env \<Rightarrow> 'm pdp \<Rightarrow> jsonStrings \<Rightarrow> 'c ctx_scheme \<Rightarrow> AuthInfo \<Rightarrow> User \<Rightarrow> string list
     \<Rightarrow> (string list \<times> int64, ('m, 'z) pworld_scheme) op" where
  "applyInitialGroups E p J c actor user ids =
     bindT (SetMembershipVersion E c (usr_ID user) 1) (\<lambda>_.
     if ids = [] then returnT ([], 1)
     else
       bindT (readT (authorizeInitialGroups p actor ids)) (\<lambda>_.
       bindT (readT (loadGroupsByNames ids)) (\<lambda>desired.
       let names = map (\<lambda>i. grp_Name (the (desired i))) ids in
       bindT (readT (requireGrants p (ai_UserID actor) names)) (\<lambda>_.
       bindT (ApplyUserMembershipDeltas E J c (usr_ID user) names []) (\<lambda>_.
       returnT (ids, 1))))))"

definition UserAdmin_Create ::
  "env \<Rightarrow> authlib \<Rightarrow> 'm pdp \<Rightarrow> jsonStrings \<Rightarrow> 'c ctx_scheme \<Rightarrow> AuthInfo \<Rightarrow> UserCreateData
     \<Rightarrow> (UserCreateResult, ('m, 'z) pworld_scheme) op" where
  "UserAdmin_Create E L p J c actor data =
     bindT (newUserFromCreateData E L data) (\<lambda>user.
     bindT (readT (preauthorize p actor (ucd_InitialGroupIDs data))) (\<lambda>_.
     PAP_Write E (pdp_lib p) J c (\<lambda>c.
       bindT (persistUser E L c user (ucd_InitialPassword data)) (\<lambda>user.
       bindT (applyInitialGroups E p J c actor user (ucd_InitialGroupIDs data)) (\<lambda>(groupIDs, version).
       returnT \<lparr>ucr_User = user\<lparr>usr_MembershipVersion := version\<rparr>, ucr_GroupIDs = groupIDs,
                ucr_MembershipVersion = version\<rparr>)))))"

section \<open>Delete\<close>

definition UserAdmin_Delete ::
  "env \<Rightarrow> authlib \<Rightarrow> randomness \<Rightarrow> 'm pdp \<Rightarrow> jsonStrings \<Rightarrow> 'c ctx_scheme \<Rightarrow> AuthInfo \<Rightarrow> uuid
     \<Rightarrow> (unit, ('m, 'z) pworld_scheme) op" where
  "UserAdmin_Delete E L R p J c actor userID =
     PAP_Write E (pdp_lib p) J c (\<lambda>c.
       bindT (loadTarget L userID) (\<lambda>user.
       if ai_UserID actor = usr_ID user
       then failT (ErrValidation ''user_id'' ''cannot delete your own account'')
       else
         bindT (readT (authorizeUserWrite E p actor (usr_ID user))) (\<lambda>_.
         bindT (readT (validateLastAdmin p (usr_ID user))) (\<lambda>_.
         bindT (User_Delete E c (usr_ID user)) (\<lambda>_.
         bindT (PAPTx_DeleteUser E J c (usr_ID user)) (\<lambda>_.
         Sessions_RevokeAllForUser E R c (usr_ID user) (ai_UserID actor) ''user deleted''))))))"

section \<open>Get and List\<close>

record UserGetResult =
  ugt_User :: User
  ugt_VisibleGroupIDs :: "string list"
  ugt_MembershipVersion :: int64

definition UserAdmin_Get ::
  "authlib \<Rightarrow> 'm pdp \<Rightarrow> AuthInfo \<Rightarrow> uuid \<Rightarrow> (UserGetResult, ('m, 'z) pworld_scheme) op" where
  "UserAdmin_Get L p actor userID =
     bindT (loadTarget L userID) (\<lambda>user.
     readT (\<lambda>w.
       if \<not> CanReadUser p (ai_UserID actor) (usr_ID user) w then Err (NewNotFoundError ''user'' userID)
       else
         case VisibleUserGroupNames p (ai_UserID actor) (usr_ID user) w of
           Inl e \<Rightarrow> Err e
         | Inr visible \<Rightarrow>
             Ok \<lparr>ugt_User = user, ugt_VisibleGroupIDs = visible, ugt_MembershipVersion = usr_MembershipVersion user\<rparr>))"

record UserListResult =
  ulr_Users :: "User list"
  ulr_Total :: int
  ulr_Limit :: int64
  ulr_Offset :: int64

definition emptyList :: "int64 \<Rightarrow> int64 \<Rightarrow> UserListResult" where
  "emptyList limit offset = \<lparr>ulr_Users = [], ulr_Total = 0, ulr_Limit = limit, ulr_Offset = offset\<rparr>"

definition userListLimit :: int64 where "userListLimit = 20"

text \<open>The filter of the users visible to the caller; None when there are none.\<close>

definition userScope :: "'m pdp \<Rightarrow> AuthInfo \<Rightarrow> string \<Rightarrow> ('m, 'z) pworld_scheme \<Rightarrow> UserFilter option" where
  "userScope p actor qry w =
     (let flt = \<lparr>uf_UserIDs = {}, uf_AnyUser = False, uf_Search = qry\<rparr> in
      if HasGlobal p (cache w) (ai_UserID actor) ObjectUser ActionRead then Some (flt\<lparr>uf_AnyUser := True\<rparr>)
      else
        let scope = EffectiveDomains p (cache w) (ai_UserID actor) ObjectGroup ActionRead in
        if ds_Wildcard scope then Some (flt\<lparr>uf_AnyUser := True\<rparr>)
        else if DomainSet_IsEmpty scope then None
        else
          let userIDs = MembersOfScope (pdp_lib p) (cache w) scope in
          if userIDs = {} then None else Some (flt\<lparr>uf_UserIDs := userIDs\<rparr>))"

definition UserAdmin_List ::
  "env \<Rightarrow> authlib \<Rightarrow> 'm pdp \<Rightarrow> 'c ctx_scheme \<Rightarrow> AuthInfo \<Rightarrow> int64 \<Rightarrow> int64 \<Rightarrow> SortParams \<Rightarrow> string
     \<Rightarrow> (UserListResult, ('m, 'z) pworld_scheme) op" where
  "UserAdmin_List E L p c actor limit0 offset sortBy qry w =
     (let limit = (if limit0 \<le> 0 then userListLimit else limit0) in
      case userScope p actor qry w of
        None \<Rightarrow> (Ok (emptyList limit offset), w)
      | Some flt \<Rightarrow>
          bindT (User_List E L c flt limit offset sortBy) (\<lambda>(users, tot).
          returnT \<lparr>ulr_Users = users, ulr_Total = tot, ulr_Limit = limit, ulr_Offset = offset\<rparr>) w)"

end
