(* ===== verification/UserProofs.thy ===== *)
theory UserProofs
  imports UserAdmin SessionProofs
begin

text \<open>
  The user directory: the rows and the two indexes agree, every operation keeps them in agreement, and what the
  other operations write leaves them alone.
\<close>

section \<open>Views of the database\<close>

text \<open>What is stored in some of the buckets; an operation that writes none of them keeps it.\<close>

definition view :: "string set \<Rightarrow> 'z world_scheme \<Rightarrow> string \<Rightarrow> bytes \<Rightarrow> val option" where
  "view ns w = (\<lambda>n k. if n \<in> ns then dget (buckets w) n k else None)"

lemma view_eqD: "view ns w' = view ns w \<Longrightarrow> n \<in> ns \<Longrightarrow> dget (buckets w') n k = dget (buckets w) n k"
  by (simp add: view_def) metis

lemma view_cong: "(\<And>n k. n \<in> ns \<Longrightarrow> dget (buckets w') n k = dget (buckets w) n k) \<Longrightarrow> view ns w' = view ns w"
  by (auto simp: view_def fun_eq_iff)

lemma view_simps [simp]: "view ns (w\<lparr>ticks := t\<rparr>) = view ns w" "view ns (w1\<lparr>draws := n\<rparr>) = view ns w1"
  by (rule view_cong, simp)+

lemma bucket_Delete_cases:
  assumes "bucket_Delete E q n k w = (r, w')"
  shows "w' = w \<or> w' = w\<lparr>buckets := dbdel n k (buckets w)\<rparr>"
proof (cases r)
  case (Inl e)
  with assms show ?thesis unfolding bucket_Delete_def by (auto dest: bucketWrite_Inl)
next
  case (Inr u)
  with assms show ?thesis by (auto dest: Delete_Inr)
qed

lemma view_writes:
  assumes "n \<notin> ns"
  shows "keeps (view ns) (bucket_Put E q n k v)" "keeps (view ns) (bucket_Delete E q n k)"
    "keeps (view ns) (boltPut E cdc q n k x)" "keeps (view ns) (boltDelete E q n k)"
proof -
  show P: "keeps (view ns) (bucket_Put E q n k v)" for v
    unfolding keeps_def
  proof
    fix w show "view ns (snd (bucket_Put E q n k v w)) = view ns w"
      using Put_cases [of E q n k v w] assms
      by (cases "bucket_Put E q n k v w") (auto intro!: view_cong)
  qed
  show D: "keeps (view ns) (bucket_Delete E q n k)"
    unfolding keeps_def
  proof
    fix w show "view ns (snd (bucket_Delete E q n k w)) = view ns w"
      using bucket_Delete_cases [of E q n k w] assms
      by (cases "bucket_Delete E q n k w") (auto intro!: view_cong)
  qed
  show "keeps (view ns) (boltPut E cdc q n k x)" "keeps (view ns) (boltDelete E q n k)"
    using P D by (simp_all add: boltPut_def boltDelete_def)
qed

lemma view_time: "keeps (view ns) (timeNow E)" "keeps (view ns) (randRead R n)" "keeps (view ns) (uuidNew U)"
  "keeps (view ns) (HashPassword L p)"
  by (simp_all add: keeps_def timeNow_def randRead_def uuidNew_def HashPassword_def)

lemma view_WithTx:
  assumes "keeps (view ns) (f c)" "\<And>wr. keeps (view ns) (f (c\<lparr>ctx_tx := Some wr\<rparr>))"
  shows "keeps (view ns) (WithTx E c f)" "keeps (view ns) (WithReadTx E c f)"
proof -
  have tx: "view ns (snd (runTx E c wr f w)) = view ns w" for wr w
  proof -
    obtain r w1 where run: "f (c\<lparr>ctx_tx := Some wr\<rparr>) w = (r, w1)" by fastforce
    from keepsD [OF assms(2) run] have "view ns w1 = view ns w" .
    moreover have "view ns (w1\<lparr>buckets := buckets w\<rparr>) = view ns w" by (rule view_cong) simp
    ultimately show ?thesis by (simp add: runTx_def run split: sum.split option.split)
  qed
  show "keeps (view ns) (WithTx E c f)" "keeps (view ns) (WithReadTx E c f)"
    using assms(1) tx by (simp_all add: keeps_def WithTx_def WithReadTx_def split: option.split)
qed

lemma view_case:
  "(\<And>e. keeps obs (f e)) \<Longrightarrow> (\<And>x. keeps obs (g x)) \<Longrightarrow> keeps obs (case r of Inl e \<Rightarrow> f e | Inr x \<Rightarrow> g x)"
  "keeps obs h \<Longrightarrow> (\<And>x. keeps obs (g' x)) \<Longrightarrow> keeps obs (case o1 of None \<Rightarrow> h | Some x \<Rightarrow> g' x)"
  by (auto split: sum.splits option.splits)

lemmas view_intros = keeps_intros view_case view_writes view_time view_WithTx

text \<open>The buckets of sessions and of users.\<close>

abbreviation sessionNs :: "string set" where
  "sessionNs \<equiv> {bucketSessions, bucketSessionsByUser}"

abbreviation userNs :: "string set" where
  "userNs \<equiv> {bucketUsers, bucketIdentities, bucketEmails}"

lemmas ns_distinct = session_buckets user_buckets bucketPolicy_def bucketGroups_def

lemma view_eventID: "keeps (view ns) (NewEventID R)" "keeps (view ns) (NewSessionID R)"
  unfolding NewEventID_def NewSessionID_def by (intro view_intros)+

lemma view_Append: "keeps (view userNs) (SessionEvent_Append E q e)"
  unfolding SessionEvent_Append_def by (intro view_intros) (simp_all add: ns_distinct)

lemma view_appendCascade: "keeps (view userNs) (appendCascade E R c ss reason now)"
  by (induction ss) (auto intro!: keeps_intros view_eventID view_Append)

lemma view_putSession: "keeps (view userNs) (bindT (boltPut E sessionCodec q bucketSessions sid m) (\<lambda>_. returnT b))"
  by (intro view_intros) (simp add: ns_distinct)

lemma view_revokeIfActive: "keeps (view userNs) (revokeSessionIfActive E q sid by now)"
  by (simp add: keeps_def revokeSessionIfActive_def view_putSession [unfolded keeps_def, rule_format] split: sum.split)

lemma view_revokeLoop: "keeps (view userNs) (revokeLoop E q sids by now n)"
  by (induction sids arbitrary: n) (auto intro!: keeps_intros view_revokeIfActive)

lemma view_sessions:
  "keeps (view userNs) (Sessions_RevokeAllForUser E R c u by reason)"
  "keeps (view userNs) (Sessions_Create E R c params)"
  "keeps (view userNs) (Sessions_Revoke E R c sid by reason ty)"
  unfolding Sessions_RevokeAllForUser_def Session_RevokeAllForUser_def Sessions_Create_def Session_Create_def
    Sessions_Revoke_def Session_Update_def Let_def
  by (intro view_intros view_eventID view_Append view_revokeLoop view_appendCascade; simp add: ns_distinct)+

section \<open>Rows and indexes\<close>

definition userRow :: "database \<Rightarrow> uuid \<Rightarrow> AuthUserMeta option" where
  "userRow d k = (case dget d bucketUsers k of Some (JUser m) \<Rightarrow> Some m | _ \<Rightarrow> None)"

definition emailKeys :: "AuthUserMeta \<Rightarrow> bytes set" where
  "emailKeys m = {umt_Email m} - {[]}"

definition identKeys :: "AuthUserMeta \<Rightarrow> bytes set" where
  "identKeys m = identityKeySet (umt_Identities m)"

text \<open>An index holds exactly the keys of the stored users, each with the id of its user.\<close>

definition indexes :: "string \<Rightarrow> (AuthUserMeta \<Rightarrow> bytes set) \<Rightarrow> database \<Rightarrow> bool" where
  "indexes idx keysOf d \<longleftrightarrow>
     (\<forall>x v. dget d idx x = Some v \<longleftrightarrow> (\<exists>k m. userRow d k = Some m \<and> x \<in> keysOf m \<and> v = Raw k))"

definition user_inv :: "authlib \<Rightarrow> database \<Rightarrow> bool" where
  "user_inv L d \<longleftrightarrow>
     (\<forall>k v. dget d bucketUsers k = Some v \<longrightarrow> (\<exists>m. v = JUser m \<and> umt_ID m = k \<and> uuidParse L k = Some k)) \<and>
     indexes bucketEmails emailKeys d \<and> indexes bucketIdentities identKeys d"

lemma index_owner: "indexes idx keysOf d \<Longrightarrow> userRow d k = Some m \<Longrightarrow> x \<in> keysOf m \<Longrightarrow> dget d idx x = Some (Raw k)"
  by (auto simp: indexes_def)

lemma index_unique:
  "indexes idx keysOf d \<Longrightarrow> userRow d k = Some m \<Longrightarrow> userRow d k' = Some m' \<Longrightarrow> x \<in> keysOf m \<Longrightarrow> x \<in> keysOf m' \<Longrightarrow> k = k'"
  using index_owner [of idx keysOf d k m x] index_owner [of idx keysOf d k' m' x] by simp

lemma user_row:
  assumes "user_inv L d" "userRow d k = Some m"
  shows "dget d bucketUsers k = Some (JUser m)" "umt_ID m = k" "uuidParse L k = Some k"
  using assms by (auto simp: user_inv_def userRow_def split: option.splits val.splits)

lemma user_inv_indexes: "user_inv L d \<Longrightarrow> indexes bucketEmails emailKeys d \<and> indexes bucketIdentities identKeys d"
  by (simp add: user_inv_def)

lemma user_inv_cong:
  assumes "\<And>n k. n \<in> userNs \<Longrightarrow> dget d' n k = dget d n k"
  shows "user_inv L d' = user_inv L d" "userRow d' = userRow d"
  using assms by (simp_all add: user_inv_def indexes_def userRow_def fun_eq_iff)

text \<open>
  One user's keys in an index replaced: first the keys that are gone are deleted, then the new ones are added, if no other
  user has them.
\<close>

definition keysAt :: "(AuthUserMeta \<Rightarrow> bytes set) \<Rightarrow> AuthUserMeta option \<Rightarrow> bytes set" where
  "keysAt keysOf r = (case r of None \<Rightarrow> {} | Some m \<Rightarrow> keysOf m)"

lemma reindex:
  assumes ix: "indexes idx keysOf d" and new: "new = keysAt keysOf nm" and old: "old = keysAt keysOf (userRow d k)"
    and d1: "\<And>x. dget d1 idx x = (if x \<in> old \<and> x \<notin> new then None else dget d idx x)"
    and d2: "\<And>x. dget d2 idx x = (if x \<in> new \<and> x \<notin> old then Some (Raw k) else dget d1 idx x)"
    and free: "\<And>x v. x \<in> new \<Longrightarrow> x \<notin> old \<Longrightarrow> dget d1 idx x = Some v \<Longrightarrow> rawBytes (Some v) = k"
    and rows: "\<And>k'. userRow d2 k' = (if k' = k then nm else userRow d k')"
  shows "indexes idx keysOf d2"
  unfolding indexes_def
proof (intro allI)
  fix x v
  have own: "dget d idx x = Some (Raw k) \<longleftrightarrow> x \<in> old"
    using ix by (auto simp: indexes_def old keysAt_def split: option.splits)
  have raw: "\<exists>j. u = Raw j" if "dget d idx x = Some u" for u
    using ix that by (auto simp: indexes_def)
  have none: "dget d idx x = None" if "x \<in> new" "x \<notin> old"
  proof (rule ccontr)
    assume "dget d idx x \<noteq> None"
    then obtain u where u: "dget d idx x = Some u" by blast
    with that free [of x u] raw own show False by (auto simp: d1 rawBytes_def)
  qed
  have "dget d2 idx x = Some v \<longleftrightarrow> v = Raw k \<and> x \<in> new \<or> v \<noteq> Raw k \<and> dget d idx x = Some v"
    using own none by (auto simp: d1 d2)
  also have "\<dots> \<longleftrightarrow> (\<exists>k' m. userRow d2 k' = Some m \<and> x \<in> keysOf m \<and> v = Raw k')"
    using ix by (auto simp: indexes_def rows new keysAt_def split: option.splits if_splits)
  finally show "dget d2 idx x = Some v \<longleftrightarrow> (\<exists>k' m. userRow d2 k' = Some m \<and> x \<in> keysOf m \<and> v = Raw k')" .
qed

section \<open>Effects of the loops\<close>

lemma userPut_Inr:
  "boltPut E userCodec q n k m w = (Inr u, w') \<Longrightarrow> w' = w\<lparr>buckets := dbput n k (JUser m) (buckets w)\<rparr>"
  by (auto simp: boltPut_def userCodec_def dest: Put_Inr)

lemma writeIdentityIndex_Inr:
  "writeIdentityIndex E q ids key w = (Inr u, w') \<Longrightarrow>
     dget (buckets w') n x =
       (if n = bucketIdentities \<and> x \<in> identityKeySet ids then Some (Raw key) else dget (buckets w) n x)"
  by (induction ids arbitrary: w) (auto simp: identityKeySet_def bind_inversion dest!: Put_Inr split: if_splits)

lemma dropStale_Inr:
  "dropStale E q new ks w = (Inr u, w') \<Longrightarrow>
     dget (buckets w') n x =
       (if n = bucketIdentities \<and> x \<in> set ks \<and> x \<notin> new then None else dget (buckets w) n x)"
  by (induction ks arbitrary: w) (auto simp: bind_inversion dest!: Delete_Inr split: if_splits)

lemma addFresh_Inr:
  "addFresh E q old key ks w = (Inr u, w') \<Longrightarrow>
     dget (buckets w') n x =
       (if n = bucketIdentities \<and> x \<in> set ks \<and> x \<notin> old then Some (Raw key) else dget (buckets w) n x)"
  by (induction ks arbitrary: w) (auto simp: bind_inversion dest!: Put_Inr split: if_splits)

lemma addFresh_free:
  "addFresh E q old key ks w = (Inr u, w') \<Longrightarrow> x \<in> set ks \<Longrightarrow> x \<notin> old \<Longrightarrow>
     dget (buckets w) bucketIdentities x = Some v \<Longrightarrow> rawBytes (Some v) = key"
proof (induction ks arbitrary: w)
  case (Cons k ks)
  show ?case
  proof (cases "x = k")
    case True
    with Cons.prems show ?thesis by (auto simp: bind_inversion bucket_Get_dget split: if_splits)
  next
    case False
    with Cons.prems obtain w1 where w1: "addFresh E q old key ks w1 = (Inr u, w')"
      "dget (buckets w1) bucketIdentities x = dget (buckets w) bucketIdentities x"
      by (auto simp: bind_inversion dest!: Put_Inr split: if_splits)
    with Cons.IH [OF w1(1)] Cons.prems False show ?thesis by auto
  qed
qed simp

lemma deleteIdentities_Inr:
  "deleteIdentities E q ids w = (Inr u, w') \<Longrightarrow>
     dget (buckets w') n x = (if n = bucketIdentities \<and> x \<in> identityKeySet ids then None else dget (buckets w) n x)"
  by (induction ids arbitrary: w) (auto simp: identityKeySet_def bind_inversion dest!: Delete_Inr split: if_splits)

lemma ensureIdentitiesFree_Inr:
  "ensureIdentitiesFree ids key w = Inr u \<Longrightarrow> x \<in> identityKeySet ids \<Longrightarrow> dget (buckets w) bucketIdentities x = Some v \<Longrightarrow>
     rawBytes (Some v) = key"
  by (induction ids) (auto simp: identityKeySet_def bucket_Get_dget split: if_splits option.splits)

lemma ensureEmailFree_Inr:
  "ensureEmailFree e key w = Inr u \<Longrightarrow> e \<noteq> [] \<Longrightarrow> dget (buckets w) bucketEmails e = Some v \<Longrightarrow> rawBytes (Some v) = key"
  by (auto simp: ensureEmailFree_def bucket_Get_dget split: if_splits)

lemma loadUserRow_Inr: "loadUserRow k w = Inr m \<Longrightarrow> userRow (buckets w) k = Some m"
  by (auto simp: loadUserRow_def boltGet_def bucket_Get_dget userCodec_def userRow_def
      split: sum.splits option.splits val.splits if_splits)

lemma WithTx_success:
  assumes "WithTx E c f w = (Inr x, w')"
  obtains c' where "ctx_tx c' = Some True" "f c' w = (Inr x, w')"
proof (cases "ctx_tx c = Some True")
  case True
  with assms that show thesis by simp
next
  case False
  from WithTx_Inr [OF this assms] that [of "c\<lparr>ctx_tx := Some True\<rparr>"] show thesis by simp
qed

section \<open>Effects of the repository\<close>

text \<open>A write of one user: its row is replaced, no other row changes, and the invariant holds again.\<close>

definition rewritten :: "authlib \<Rightarrow> uuid \<Rightarrow> AuthUserMeta option \<Rightarrow> 'z world_scheme \<Rightarrow> 'z world_scheme \<Rightarrow> bool" where
  "rewritten L k nm w w' \<longleftrightarrow>
     user_inv L (buckets w') \<and> (\<forall>k'. userRow (buckets w') k' = (if k' = k then nm else userRow (buckets w) k')) \<and>
     (\<forall>n x. n \<notin> userNs \<longrightarrow> dget (buckets w') n x = dget (buckets w) n x)"

lemma rewrittenI:
  assumes inv: "user_inv L (buckets w)"
    and users: "\<And>x. dget (buckets w') bucketUsers x = (if x = k then map_option JUser nm else dget (buckets w) bucketUsers x)"
    and nm: "\<And>m. nm = Some m \<Longrightarrow> umt_ID m = k \<and> uuidParse L k = Some k"
    and idx: "indexes bucketEmails emailKeys (buckets w')" "indexes bucketIdentities identKeys (buckets w')"
    and frame: "\<And>n x. n \<notin> userNs \<Longrightarrow> dget (buckets w') n x = dget (buckets w) n x"
  shows "rewritten L k nm w w'"
  using inv nm idx frame
  by (auto simp: rewritten_def user_inv_def users userRow_def split: if_splits option.splits)

lemma user_bucket_neq [simp]:
  "bucketUsers \<noteq> bucketIdentities" "bucketIdentities \<noteq> bucketUsers" "bucketUsers \<noteq> bucketEmails"
  "bucketEmails \<noteq> bucketUsers" "bucketIdentities \<noteq> bucketEmails" "bucketEmails \<noteq> bucketIdentities"
  by (simp_all add: user_buckets)

lemma emailKeys_DomainTo [simp]:
  "emailKeys (DomainToAuthUserMeta u) = {usr_Email u} - {[]}" "identKeys (DomainToAuthUserMeta u) = identityKeySet (usr_Identities u)"
  "umt_ID (DomainToAuthUserMeta u) = usr_ID u"
  by (simp_all add: emailKeys_def identKeys_def DomainToAuthUserMeta_def)

lemma keysAt_simps [simp]: "keysAt f None = {}" "keysAt f (Some m) = f m"
  by (simp_all add: keysAt_def)

lemma User_Create_Inr:
  fixes w :: "'a world_scheme"
  assumes run: "User_Create E c user w = (Inr u, w')" and inv: "user_inv L (buckets w)"
    and canon: "uuidParse L (usr_ID user) = Some (usr_ID user)"
  shows "rewritten L (usr_ID user) (Some (DomainToAuthUserMeta u)) w w'" "userRow (buckets w) (usr_ID user) = None"
    "\<exists>t. u = user\<lparr>usr_CreatedAt := t\<rparr>"
proof -
  let ?k = "usr_ID user"
  define stamp :: "(time, 'a world_scheme) op" where
    "stamp = (if usr_CreatedAt user = 0 then timeNow E else returnT (usr_CreatedAt user))"
  from run [unfolded User_Create_def, folded stamp_def] obtain q t w1 w2 w3 where new: "dget (buckets w) bucketUsers ?k = None"
    and free: "ensureEmailFree (usr_Email user) ?k w = Inr ()" "ensureIdentitiesFree (usr_Identities user) ?k w = Inr ()"
    and st: "stamp w = (Inr t, w1)"
    and put: "boltPut E userCodec q bucketUsers ?k (DomainToAuthUserMeta (user\<lparr>usr_CreatedAt := t\<rparr>)) w1 = (Inr (), w2)"
    and ids: "writeIdentityIndex E q (usr_Identities user) ?k w2 = (Inr (), w3)"
    and em: "writeEmailIndex E q (usr_Email user) ?k w3 = (Inr (), w')"
    and u: "u = user\<lparr>usr_CreatedAt := t\<rparr>"
    by (rule WithTx_success) (auto simp: Let_def bind_inversion boltExists_def bucket_Get_dget split: if_splits)
  have w1: "buckets w1 = buckets w" using st by (auto simp: stamp_def split: if_splits)
  from em have em': "dget (buckets w') n x = (if n = bucketEmails \<and> x \<in> {usr_Email user} - {[]} then Some (Raw ?k)
      else dget (buckets w3) n x)" for n x
    by (auto simp: writeEmailIndex_def dest!: Put_Inr split: if_splits)
  have d: "dget (buckets w') n x =
      (if n = bucketUsers \<and> x = ?k then Some (JUser (DomainToAuthUserMeta u))
       else if n = bucketEmails \<and> x \<in> {usr_Email user} - {[]} then Some (Raw ?k)
       else if n = bucketIdentities \<and> x \<in> identityKeySet (usr_Identities user) then Some (Raw ?k)
       else dget (buckets w) n x)" for n x
    by (simp add: em' writeIdentityIndex_Inr [OF ids] userPut_Inr [OF put] w1 u)
  show row: "userRow (buckets w) ?k = None" using new by (simp add: userRow_def)
  have keys: "keysAt emailKeys (Some (DomainToAuthUserMeta u)) = {usr_Email user} - {[]}"
    "keysAt identKeys (Some (DomainToAuthUserMeta u)) = identityKeySet (usr_Identities user)"
    by (simp_all add: u)
  have rows: "userRow (buckets w') k' = (if k' = ?k then Some (DomainToAuthUserMeta u) else userRow (buckets w) k')" for k'
    by (simp add: userRow_def d)
  show "rewritten L ?k (Some (DomainToAuthUserMeta u)) w w'"
  proof (rule rewrittenI [OF inv])
    show "indexes bucketEmails emailKeys (buckets w')"
      by (rule reindex [OF user_inv_indexes [OF inv, THEN conjunct1] keys(1) [symmetric] refl, of "buckets w" ?k])
        (use row rows d ensureEmailFree_Inr [OF free(1)] in \<open>auto split: if_splits\<close>)
    show "indexes bucketIdentities identKeys (buckets w')"
      by (rule reindex [OF user_inv_indexes [OF inv, THEN conjunct2] keys(2) [symmetric] refl, of "buckets w" ?k])
        (use row rows d ensureIdentitiesFree_Inr [OF free(2)] in \<open>auto split: if_splits\<close>)
  qed (use canon in \<open>auto simp: d u split: if_splits\<close>)
  show "\<exists>t. u = user\<lparr>usr_CreatedAt := t\<rparr>" using u by blast
qed

lemma reconcileIdentityIndex_Inr:
  fixes w :: "'a world_scheme"
  assumes "reconcileIdentityIndex E L q prev next key w = (Inr u, w')" "authlib_documented L"
  obtains w1 :: "'a world_scheme" where
    "\<And>n x. dget (buckets w1) n x =
       (if n = bucketIdentities \<and> x \<in> identityKeySet prev \<and> x \<notin> identityKeySet next then None else dget (buckets w) n x)"
    "\<And>n x. dget (buckets w') n x =
       (if n = bucketIdentities \<and> x \<in> identityKeySet next \<and> x \<notin> identityKeySet prev then Some (Raw key) else dget (buckets w1) n x)"
    "\<And>x v. x \<in> identityKeySet next \<Longrightarrow> x \<notin> identityKeySet prev \<Longrightarrow> dget (buckets w1) bucketIdentities x = Some v \<Longrightarrow>
       rawBytes (Some v) = key"
proof -
  have fin: "finite (identityKeySet is)" for "is" by (simp add: identityKeySet_def)
  from assms(2) fin have range: "set (mapRange L (identityKeySet is)) = identityKeySet is" for "is"
    by (simp add: authlib_documented_def)
  from assms(1) obtain w1 where
    d: "dropStale E q (identityKeySet next) (mapRange L (identityKeySet prev)) w = (Inr (), w1)"
    and a: "addFresh E q (identityKeySet prev) key (mapRange L (identityKeySet next)) w1 = (Inr (), w')"
    by (auto simp: reconcileIdentityIndex_def Let_def bind_inversion)
  from that [of w1] dropStale_Inr [OF d] addFresh_Inr [OF a] addFresh_free [OF a] show thesis
    by (simp add: range)
qed

lemma reconcileEmailIndex_Inr:
  fixes w :: "'a world_scheme"
  assumes "reconcileEmailIndex E q prev next key w = (Inr u, w')"
  obtains w1 :: "'a world_scheme" where
    "\<And>n x. dget (buckets w1) n x =
       (if n = bucketEmails \<and> x \<in> {prev} - {[]} \<and> x \<notin> {next} - {[]} then None else dget (buckets w) n x)"
    "\<And>n x. dget (buckets w') n x =
       (if n = bucketEmails \<and> x \<in> {next} - {[]} \<and> x \<notin> {prev} - {[]} then Some (Raw key) else dget (buckets w1) n x)"
    "\<And>x v. x \<in> {next} - {[]} \<Longrightarrow> x \<notin> {prev} - {[]} \<Longrightarrow> dget (buckets w1) bucketEmails x = Some v \<Longrightarrow> rawBytes (Some v) = key"
proof (cases "prev = next")
  case True
  with assms have "w' = w" by (simp add: reconcileEmailIndex_def)
  with True show thesis by (intro that [of w]) auto
next
  case False
  from assms False obtain y w1 where
    del: "(if prev \<noteq> [] then bucket_Delete E q bucketEmails prev else returnT ()) w = (Inr y, w1)"
    and rest: "(if next = [] then returnT ()
        else bindT (readT (ensureEmailFree next key)) (\<lambda>_. writeEmailIndex E q next key)) w1 = (Inr u, w')"
    unfolding reconcileEmailIndex_def by (simp only: if_False bindT_eq_Inr) blast
  from del False have d: "dget (buckets w1) n x =
      (if n = bucketEmails \<and> x \<in> {prev} - {[]} \<and> x \<notin> {next} - {[]} then None else dget (buckets w) n x)" for n x
    by (auto dest!: Delete_Inr split: if_splits)
  show thesis
  proof (cases "next = []")
    case True
    with rest d that [of w1] show thesis by simp
  next
    case ne: False
    with rest have free: "ensureEmailFree next key w1 = Inr ()" and put: "writeEmailIndex E q next key w1 = (Inr (), w')"
      by (auto simp: bind_inversion)
    from put ne have "dget (buckets w') n x =
        (if n = bucketEmails \<and> x = next then Some (Raw key) else dget (buckets w1) n x)" for n x
      by (auto simp: writeEmailIndex_def dest!: Put_Inr)
    with ne False d ensureEmailFree_Inr [OF free ne] show thesis by (intro that [of w1]) auto
  qed
qed

lemma User_Update_Inr:
  fixes w :: "'a world_scheme"
  assumes run: "User_Update E L c user w = (Inr u, w')" and L: "authlib_documented L" and inv: "user_inv L (buckets w)"
  obtains prev where "userRow (buckets w) (usr_ID user) = Some prev"
    "rewritten L (usr_ID user) (Some (DomainToAuthUserMeta user)) w w'"
proof -
  let ?k = "usr_ID user" and ?m = "DomainToAuthUserMeta user"
  from run [unfolded User_Update_def] obtain q prev w1 w2 where
    row: "userRow (buckets w) ?k = Some prev"
    and ids: "reconcileIdentityIndex E L q (umt_Identities prev) (usr_Identities user) ?k w = (Inr (), w1)"
    and em: "reconcileEmailIndex E q (umt_Email prev) (usr_Email user) ?k w1 = (Inr (), w2)"
    and put: "boltPut E userCodec q bucketUsers ?k ?m w2 = (Inr (), w')"
    by (rule WithTx_success) (auto simp: Let_def bind_inversion dest: loadUserRow_Inr)
  obtain i1 :: "'a world_scheme" where I:
    "\<And>n x. dget (buckets i1) n x = (if n = bucketIdentities \<and> x \<in> identityKeySet (umt_Identities prev) \<and>
        x \<notin> identityKeySet (usr_Identities user) then None else dget (buckets w) n x)"
    "\<And>n x. dget (buckets w1) n x = (if n = bucketIdentities \<and> x \<in> identityKeySet (usr_Identities user) \<and>
        x \<notin> identityKeySet (umt_Identities prev) then Some (Raw ?k) else dget (buckets i1) n x)"
    "\<And>x v. x \<in> identityKeySet (usr_Identities user) \<Longrightarrow> x \<notin> identityKeySet (umt_Identities prev) \<Longrightarrow>
        dget (buckets i1) bucketIdentities x = Some v \<Longrightarrow> rawBytes (Some v) = ?k"
    by (rule reconcileIdentityIndex_Inr [OF ids L], rule that)
  obtain e1 :: "'a world_scheme" where M:
    "\<And>n x. dget (buckets e1) n x = (if n = bucketEmails \<and> x \<in> {umt_Email prev} - {[]} \<and> x \<notin> {usr_Email user} - {[]}
        then None else dget (buckets w1) n x)"
    "\<And>n x. dget (buckets w2) n x = (if n = bucketEmails \<and> x \<in> {usr_Email user} - {[]} \<and> x \<notin> {umt_Email prev} - {[]}
        then Some (Raw ?k) else dget (buckets e1) n x)"
    "\<And>x v. x \<in> {usr_Email user} - {[]} \<Longrightarrow> x \<notin> {umt_Email prev} - {[]} \<Longrightarrow> dget (buckets e1) bucketEmails x = Some v \<Longrightarrow>
        rawBytes (Some v) = ?k"
    by (rule reconcileEmailIndex_Inr [OF em], rule that)
  have w': "dget (buckets w') n x = (if n = bucketUsers \<and> x = ?k then Some (JUser ?m) else dget (buckets w2) n x)" for n x
    by (simp add: userPut_Inr [OF put])
  have rows: "userRow (buckets w') k' = (if k' = ?k then Some ?m else userRow (buckets w) k')" for k'
    by (simp add: userRow_def w' M(1,2) I(1,2))
  have keys: "keysAt emailKeys (userRow (buckets w) ?k) = {umt_Email prev} - {[]}"
    "keysAt identKeys (userRow (buckets w) ?k) = identityKeySet (umt_Identities prev)"
    "keysAt emailKeys (Some ?m) = {usr_Email user} - {[]}" "keysAt identKeys (Some ?m) = identityKeySet (usr_Identities user)"
    by (simp_all only: row keysAt_simps emailKeys_DomainTo) (simp_all add: emailKeys_def identKeys_def)
  have "indexes bucketEmails emailKeys (buckets w')"
    by (rule reindex [OF user_inv_indexes [OF inv, THEN conjunct1] keys(3) [symmetric] keys(1) [symmetric], of "buckets e1"])
      (use rows M(3) in \<open>auto simp: w' M(1,2) I(1,2) split: if_splits\<close>)
  moreover have "indexes bucketIdentities identKeys (buckets w')"
    by (rule reindex [OF user_inv_indexes [OF inv, THEN conjunct2] keys(4) [symmetric] keys(2) [symmetric], of "buckets i1"])
      (use rows I(3) in \<open>simp_all add: w' M(1,2) I(1,2)\<close>)
  ultimately have "rewritten L ?k (Some ?m) w w'"
    using user_row(2,3) [OF inv row] by (intro rewrittenI [OF inv]) (auto simp: w' M(1,2) I(1,2))
  with row that show thesis by blast
qed

lemma User_Delete_Inr:
  fixes w :: "'a world_scheme"
  assumes run: "User_Delete E c k w = (Inr u, w')" and inv: "user_inv L (buckets w)"
  shows "userRow (buckets w) k \<noteq> None" "rewritten L k None w w'"
proof -
  from run [unfolded User_Delete_def] obtain q m w1 w2 where row: "userRow (buckets w) k = Some m"
    and del: "boltDelete E q bucketUsers k w = (Inr (), w1)"
    and ids: "deleteIdentities E q (umt_Identities m) w1 = (Inr (), w2)"
    and em: "(if umt_Email m \<noteq> [] then bucket_Delete E q bucketEmails (umt_Email m) else returnT ()) w2 = (Inr u, w')"
    by (rule WithTx_success) (auto simp: Let_def bind_inversion dest: loadUserRow_Inr)
  from em have em': "dget (buckets w') n x = (if n = bucketEmails \<and> x \<in> emailKeys m then None else dget (buckets w2) n x)" for n x
    by (auto simp: emailKeys_def dest!: Delete_Inr split: if_splits)
  have d: "dget (buckets w') n x =
      (if n = bucketUsers \<and> x = k \<or> n = bucketEmails \<and> x \<in> emailKeys m \<or> n = bucketIdentities \<and> x \<in> identKeys m
       then None else dget (buckets w) n x)" for n x
    using del by (auto simp: em' deleteIdentities_Inr [OF ids] identKeys_def boltDelete_def dest!: Delete_Inr)
  have rows: "userRow (buckets w') k' = (if k' = k then None else userRow (buckets w) k')" for k'
    by (simp add: userRow_def d)
  have ix: "indexes bucketEmails emailKeys (buckets w')" "indexes bucketIdentities identKeys (buckets w')"
    by (rule reindex [where nm = None and ?d1.0 = "buckets w'" and k = k, OF user_inv_indexes [OF inv, THEN conjunct1] refl refl],
        simp_all add: rows d row)
      (rule reindex [where nm = None and ?d1.0 = "buckets w'" and k = k, OF user_inv_indexes [OF inv, THEN conjunct2] refl refl],
        simp_all add: rows d row)
  show "rewritten L k None w w'" by (rule rewrittenI [OF inv _ _ ix]) (auto simp: d)
  show "userRow (buckets w) k \<noteq> None" by (simp add: row)
qed

text \<open>The two setters rewrite the row and no key of it.\<close>

lemma userRow_put:
  assumes inv: "user_inv L (buckets w)" and row: "userRow (buckets w) k = Some m"
    and same: "umt_ID m' = umt_ID m" "umt_Email m' = umt_Email m" "umt_Identities m' = umt_Identities m"
    and w': "w' = w\<lparr>buckets := dbput bucketUsers k (JUser m') (buckets w)\<rparr>"
  shows "rewritten L k (Some m') w w'"
proof (rule rewrittenI [OF inv])
  have rows: "userRow (buckets w') k' = (if k' = k then Some m' else userRow (buckets w) k')" for k'
    by (simp add: userRow_def w')
  have d: "dget (buckets w') n x = (if n = bucketUsers \<and> x = k then Some (JUser m') else dget (buckets w) n x)" for n x
    by (simp add: w')
  have keys: "emailKeys m' = emailKeys m" "identKeys m' = identKeys m"
    by (simp_all add: emailKeys_def identKeys_def same)
  show "indexes bucketEmails emailKeys (buckets w')" "indexes bucketIdentities identKeys (buckets w')"
    by (rule reindex [where nm = "Some m'" and ?d1.0 = "buckets w'" and k = k, OF user_inv_indexes [OF inv, THEN conjunct1] refl refl],
        simp_all add: rows row keys d)
      (rule reindex [where nm = "Some m'" and ?d1.0 = "buckets w'" and k = k, OF user_inv_indexes [OF inv, THEN conjunct2] refl refl],
        simp_all add: rows row keys d)
qed (use user_row [OF inv row] in \<open>auto simp: w' same\<close>)

lemma SetMembershipVersion_Inr:
  fixes w :: "'a world_scheme"
  assumes run: "SetMembershipVersion E c k n w = (Inr u, w')" and inv: "user_inv L (buckets w)"
  obtains m where "userRow (buckets w) k = Some m" "rewritten L k (Some (m\<lparr>umt_MembershipVersion := n\<rparr>)) w w'"
proof -
  from run [unfolded SetMembershipVersion_def] obtain m where row: "userRow (buckets w) k = Some m"
    and w': "w' = w\<lparr>buckets := dbput bucketUsers k (JUser (m\<lparr>umt_MembershipVersion := n\<rparr>)) (buckets w)\<rparr>"
    by (rule WithTx_success) (auto simp: bind_inversion dest!: loadUserRow_Inr userPut_Inr)
  from that [OF row] userRow_put [OF inv row _ _ _ w'] show thesis by simp
qed

lemma SetPassword_Inr:
  fixes w :: "'a world_scheme"
  assumes run: "SetPassword E c k h b w = (Inr u, w')" and inv: "user_inv L (buckets w)"
  obtains m where "userRow (buckets w) k = Some m"
    "rewritten L k (Some (m\<lparr>umt_PasswordHash := h, umt_PasswordChangeRequired := b\<rparr>)) w w'"
proof -
  from run [unfolded SetPassword_def] obtain m where row: "userRow (buckets w) k = Some m"
    and w': "w' = w\<lparr>buckets := dbput bucketUsers k (JUser (m\<lparr>umt_PasswordHash := h, umt_PasswordChangeRequired := b\<rparr>)) (buckets w)\<rparr>"
    by (rule WithTx_success) (auto simp: bind_inversion dest!: loadUserRow_Inr userPut_Inr)
  from that [OF row] userRow_put [OF inv row _ _ _ w'] show thesis by simp
qed

section \<open>Lookups\<close>

lemma AuthUserMetaToDomain_row:
  "user_inv L d \<Longrightarrow> userRow d k = Some m \<Longrightarrow> DomainToAuthUserMeta (AuthUserMetaToDomain (uuidParse L) m) = m \<and>
     usr_ID (AuthUserMetaToDomain (uuidParse L) m) = k"
  using user_row(2,3) [of L d k m] by (simp add: DomainToAuthUserMeta_def AuthUserMetaToDomain_def)

lemma User_GetByID_row:
  "user_inv L (buckets w) \<Longrightarrow> User_GetByID L k w =
     (case userRow (buckets w) k of None \<Rightarrow> Inl (ErrResourceNotFound k) | Some m \<Rightarrow> Inr (AuthUserMetaToDomain (uuidParse L) m))"
  by (fastforce simp: User_GetByID_def loadUserRow_def boltGet_def bucket_Get_dget userRow_def userCodec_def user_inv_def
      split: option.splits)

lemma userByIndex_row:
  assumes "user_inv L (buckets w)" "indexes idx keysOf (buckets w)"
  shows "userByIndex L idx x w = Inr u \<longleftrightarrow>
      (\<exists>k m. userRow (buckets w) k = Some m \<and> x \<in> keysOf m \<and> u = AuthUserMetaToDomain (uuidParse L) m)"
    "userByIndex L idx x w = Inl e \<Longrightarrow> e = ErrResourceNotFound x \<and> (\<forall>k m. userRow (buckets w) k = Some m \<longrightarrow> x \<notin> keysOf m)"
proof -
  have some: "\<exists>k m. userRow (buckets w) k = Some m \<and> x \<in> keysOf m \<and> v = Raw k" if "dget (buckets w) idx x = Some v" for v
    using assms(2) that by (auto simp: indexes_def)
  have none: "userRow (buckets w) k = Some m \<Longrightarrow> x \<in> keysOf m \<Longrightarrow> dget (buckets w) idx x = Some (Raw k)" for k m
    using assms(2) by (rule index_owner)
  have get: "userByIndex L idx x w =
      (case dget (buckets w) idx x of None \<Rightarrow> Inl (ErrResourceNotFound x)
       | Some v \<Rightarrow> (case userRow (buckets w) (rawBytes (Some v)) of
           None \<Rightarrow> Inl (ErrResourceNotFound (rawBytes (Some v))) | Some m \<Rightarrow> Inr (AuthUserMetaToDomain (uuidParse L) m)))"
    by (simp add: userByIndex_def bucket_Get_dget User_GetByID_row [OF assms(1)] split: option.split)
  consider (absent) "dget (buckets w) idx x = None" "\<And>k m. userRow (buckets w) k = Some m \<Longrightarrow> x \<notin> keysOf m"
    | (found) k m where "dget (buckets w) idx x = Some (Raw k)" "userRow (buckets w) k = Some m" "x \<in> keysOf m"
    using some none by (metis option.exhaust option.distinct(1))
  note cases = this
  from cases show "userByIndex L idx x w = Inr u \<longleftrightarrow>
      (\<exists>k m. userRow (buckets w) k = Some m \<and> x \<in> keysOf m \<and> u = AuthUserMetaToDomain (uuidParse L) m)"
  proof cases
    case found
    have "k' = k" if "userRow (buckets w) k' = Some m'" "x \<in> keysOf m'" for k' m'
      using none [OF that] found(1) by simp
    then have "(\<exists>k' m'. userRow (buckets w) k' = Some m' \<and> x \<in> keysOf m' \<and> u = AuthUserMetaToDomain (uuidParse L) m') \<longleftrightarrow>
        u = AuthUserMetaToDomain (uuidParse L) m"
      using found(2,3) by (metis option.inject)
    then show ?thesis by (auto simp: get rawBytes_def found(1,2))
  qed (auto simp: get)
  assume e: "userByIndex L idx x w = Inl e"
  from cases show "e = ErrResourceNotFound x \<and> (\<forall>k m. userRow (buckets w) k = Some m \<longrightarrow> x \<notin> keysOf m)"
    by cases (use e in \<open>auto simp: get rawBytes_def\<close>)
qed

end
