(* ===== verification/UserSteps.thy ===== *)
theory UserSteps
  imports UserProofs
begin

text \<open>
  Runs of the operations on users. Inside a transaction an operation that succeeds keeps the directory
  consistent, and one that fails may leave it half written; the transaction around it then takes everything
  back, so that outside a transaction every outcome keeps the directory consistent.
\<close>

section \<open>Success keeps the directory\<close>

definition dirOk :: "authlib \<Rightarrow> ('a, 'z world_scheme) op \<Rightarrow> bool" where
  "dirOk L m \<longleftrightarrow> (\<forall>w x w'. m w = (Inr x, w') \<longrightarrow> user_inv L (buckets w) \<longrightarrow> user_inv L (buckets w'))"

definition dirTop :: "authlib \<Rightarrow> ('a, 'z world_scheme) op \<Rightarrow> bool" where
  "dirTop L m \<longleftrightarrow> (\<forall>w r w'. m w = (r, w') \<longrightarrow> user_inv L (buckets w) \<longrightarrow> user_inv L (buckets w'))"

definition post :: "('a, 'w) op \<Rightarrow> ('a \<Rightarrow> bool) \<Rightarrow> bool" where
  "post m P \<longleftrightarrow> (\<forall>w x w'. m w = (Inr x, w') \<longrightarrow> P x)"

lemma dirOkD: "dirOk L m \<Longrightarrow> m w = (Inr x, w') \<Longrightarrow> user_inv L (buckets w) \<Longrightarrow> user_inv L (buckets w')"
  by (auto simp: dirOk_def)

lemma dirTopD: "dirTop L m \<Longrightarrow> m w = (r, w') \<Longrightarrow> user_inv L (buckets w) \<Longrightarrow> user_inv L (buckets w')"
  by (auto simp: dirTop_def)

lemma dirOk_bind: "dirOk L m \<Longrightarrow> post m P \<Longrightarrow> (\<And>x. P x \<Longrightarrow> dirOk L (f x)) \<Longrightarrow> dirOk L (bindT m f)"
  unfolding dirOk_def post_def bindT_eq_Inr by blast

lemma dirTop_bind:
  assumes "dirTop L m" "post m P" "\<And>x. P x \<Longrightarrow> dirTop L (f x)"
  shows "dirTop L (bindT m f)"
  unfolding dirTop_def
proof (intro allI impI)
  fix w r w' assume run: "bindT m f w = (r, w')" and inv: "user_inv L (buckets w)"
  obtain r1 w1 where m: "m w = (r1, w1)" by fastforce
  from dirTopD [OF assms(1) m inv] have inv1: "user_inv L (buckets w1)" .
  show "user_inv L (buckets w')"
  proof (cases r1)
    case (Inl e)
    with run m inv1 show ?thesis by (simp add: bindT_def)
  next
    case (Inr x)
    with run m have "f x w1 = (r, w')" by (simp add: bindT_def)
    moreover have "P x" using assms(2) m Inr unfolding post_def by blast
    ultimately show ?thesis using assms(3) inv1 by (blast dest: dirTopD)
  qed
qed

lemma post_True: "post m (\<lambda>_. True)"
  by (simp add: post_def)

lemma dirOk_seq: "dirOk L m \<Longrightarrow> (\<And>x. dirOk L (f x)) \<Longrightarrow> dirOk L (bindT m f)"
  by (rule dirOk_bind [OF _ post_True])

lemma dirTop_seq: "dirTop L m \<Longrightarrow> (\<And>x. dirTop L (f x)) \<Longrightarrow> dirTop L (bindT m f)"
  by (rule dirTop_bind [OF _ post_True])

lemma keeps_user_inv: "keeps (view userNs) m \<Longrightarrow> m w = (r, w') \<Longrightarrow> user_inv L (buckets w') = user_inv L (buckets w)"
  by (rule user_inv_cong(1)) (metis keepsD view_eqD)

lemma keeps_userRow: "keeps (view userNs) m \<Longrightarrow> m w = (r, w') \<Longrightarrow> userRow (buckets w') = userRow (buckets w)"
  by (rule user_inv_cong(2)) (metis keepsD view_eqD)

lemma dirTop_keeps: "keeps (view userNs) m \<Longrightarrow> dirTop L m"
  by (simp add: dirTop_def keeps_user_inv)

lemma dirOk_keeps: "keeps (view userNs) m \<Longrightarrow> dirOk L m"
  by (simp add: dirOk_def keeps_user_inv)

lemma dirOk_basic: "dirOk L (returnT x)" "dirOk L (failT e)" "dirOk L (readT g)" "dirOk L (whenErr u)" "dirOk L (timeNow E)"
  by (auto simp: dirOk_def)

lemma dirOk_mapErr: "dirOk L m \<Longrightarrow> dirOk L (mapErrT f m)"
  unfolding dirOk_def mapErrT_def by (auto split: prod.splits sum.splits)

lemma dirOk_if: "(b \<Longrightarrow> dirOk L m) \<Longrightarrow> (\<not> b \<Longrightarrow> dirOk L n) \<Longrightarrow> dirOk L (if b then m else n)"
  by simp

lemma dirOk_WithTx: "(\<And>c. dirOk L (f c)) \<Longrightarrow> dirOk L (WithTx E c f)"
  unfolding dirOk_def by (metis WithTx_success)

lemma dirTop_WithTx:
  assumes "ctx_tx c = None" "\<And>c. dirOk L (f c)"
  shows "dirTop L (WithTx E c f)"
  unfolding dirTop_def
proof (intro allI impI)
  fix w r w' assume run: "WithTx E c f w = (r, w')" and inv: "user_inv L (buckets w)"
  show "user_inv L (buckets w')"
  proof (cases r)
    case (Inl e)
    with run have "WithTx E c f w = (Inl e, w')" by simp
    from WithTx_Inl_buckets [OF _ this] assms(1) inv show ?thesis by simp
  next
    case (Inr x)
    with run inv dirOk_WithTx [of L f, OF assms(2)] show ?thesis by (blast dest: dirOkD)
  qed
qed

text \<open>A write through the administration point: replaying the record and reloading touch only the memory.\<close>

lemma applyOpsToCache_buckets: "buckets (snd (applyOpsToCache cb ops w)) = buckets w"
  by (induction ops arbitrary: w) (auto split: sum.split)

lemma dirTop_PAP_Write:
  assumes "ctx_tx c = None" "\<And>c. dirOk L (f c)"
  shows "dirTop L (PAP_Write E cb J c f)"
  unfolding dirTop_def
proof (intro allI impI)
  fix w r w' assume run: "PAP_Write E cb J c f w = (r, w')" and inv: "user_inv L (buckets w)"
  obtain r1 w1 where tx: "WithTx E c (\<lambda>c w. f c (w\<lparr>txOps := []\<rparr>)) w = (r1, w1)" by fastforce
  have ok: "dirOk L (\<lambda>w. f c (w\<lparr>txOps := []\<rparr>))" for c
    using assms(2) [of c] by (fastforce simp: dirOk_def)
  from dirTopD [OF dirTop_WithTx [OF assms(1) ok] tx inv] have "user_inv L (buckets w1)" .
  moreover have "buckets w' = buckets w1"
    using run tx applyOpsToCache_buckets [of cb "txOps w1" w1]
    by (auto simp: PAP_Write_def Enforcer_WriteTx_def Enforcer_LoadPolicy_def split: sum.splits prod.splits)
  ultimately show "user_inv L (buckets w')" by simp
qed

section \<open>The operations\<close>

lemma dirOk_repository:
  assumes "authlib_documented L"
  shows "dirOk L (User_Update E L c user)" "dirOk L (User_Delete E c k)" "dirOk L (SetPassword E c k h b)"
    "dirOk L (SetMembershipVersion E c k n)"
proof -
  show "dirOk L (User_Update E L c user)"
    unfolding dirOk_def by (auto simp: rewritten_def elim!: User_Update_Inr [OF _ assms])
  show "dirOk L (User_Delete E c k)"
    unfolding dirOk_def using User_Delete_Inr(2) by (fastforce simp: rewritten_def)
  show "dirOk L (SetPassword E c k h b)" "dirOk L (SetMembershipVersion E c k n)"
    unfolding dirOk_def by (auto simp: rewritten_def elim!: SetPassword_Inr SetMembershipVersion_Inr)
qed

definition canonical :: "authlib \<Rightarrow> uuid \<Rightarrow> bool" where
  "canonical L i \<longleftrightarrow> uuidParse L i = Some i"

lemma uuidNew_canonical: "authlib_documented L \<Longrightarrow> post (uuidNew (uuidAt L)) (canonical L)"
  by (auto simp: post_def uuidNew_def canonical_def authlib_documented_def)

lemma dirOk_User_Create: "canonical L (usr_ID user) \<Longrightarrow> dirOk L (User_Create E c user)"
  unfolding dirOk_def canonical_def using User_Create_Inr(1) by (fastforce simp: rewritten_def)

lemma dirOk_UserService_Create:
  assumes L: "authlib_documented L" and id: "usr_ID user = uuidNil \<or> canonical L (usr_ID user)"
  shows "dirOk L (UserService_Create E L c user)"
  unfolding UserService_Create_def
proof (rule dirOk_bind [where P = "canonical L"])
  show "dirOk L (if usr_ID user = uuidNil then uuidNew (uuidAt L) else returnT (usr_ID user))"
    by (simp add: dirOk_basic dirOk_keeps view_time)
  show "post (if usr_ID user = uuidNil then uuidNew (uuidAt L) else returnT (usr_ID user)) (canonical L)"
    using id uuidNew_canonical [OF L] by (auto simp: post_def)
qed (auto simp: Let_def intro!: dirOk_seq dirOk_if dirOk_basic dirOk_mapErr dirOk_User_Create)

lemma dirOk_sessions:
  "dirOk L (Sessions_RevokeAllForUser E R c u by reason)" "dirOk L (Sessions_Create E R c params)"
  "dirOk L (Sessions_Revoke E R c sid by reason ty)"
  by (intro dirOk_keeps view_sessions)+

lemma view_recordOp: "keeps (view ns) (recordOp op)"
  unfolding keeps_def recordOp_def by (auto intro: view_cong)

lemma view_rules:
  assumes "bucketPolicy \<notin> ns"
  shows "keeps (view ns) (AddPolicyCtx E J q s t r)" "keeps (view ns) (RemovePolicyCtx E J q s t r)"
    "keeps (view ns) (RemoveFilteredPolicyCtx E J q s t i vs)"
proof -
  have "keeps (view ns) (deleteKeys E q ks)" for ks
    by (induction ks) (auto intro!: keeps_intros view_writes assms)
  then show "keeps (view ns) (RemoveFilteredPolicyCtx E J q s t i vs)"
    unfolding RemoveFilteredPolicyCtx_def by (intro keeps_intros)
  show "keeps (view ns) (AddPolicyCtx E J q s t r)" "keeps (view ns) (RemovePolicyCtx E J q s t r)"
    unfolding AddPolicyCtx_def RemovePolicyCtx_def by (intro view_writes assms)+
qed

lemma view_memberships:
  assumes "bucketPolicy \<notin> ns"
  shows "keeps (view ns) (ApplyUserMembershipDeltas E J c u added removed)" "keeps (view ns) (PAPTx_DeleteUser E J c u)"
proof -
  have "keeps (view ns) (addMemberships E J c u added)"
    by (induction added) (auto simp: Tx_AddRoleForUser_def intro!: keeps_intros view_rules assms view_recordOp)
  moreover have "keeps (view ns) (removeMemberships E J c u removed)"
    by (induction removed) (auto simp: Tx_RemoveRoleForUser_def intro!: keeps_intros view_rules assms view_recordOp)
  ultimately show "keeps (view ns) (ApplyUserMembershipDeltas E J c u added removed)"
    unfolding ApplyUserMembershipDeltas_def by (intro keeps_intros)
  show "keeps (view ns) (PAPTx_DeleteUser E J c u)"
    unfolding PAPTx_DeleteUser_def Tx_DeleteUser_def by (intro keeps_intros view_rules assms view_recordOp)
qed

lemma policy_not_user: "bucketPolicy \<notin> userNs" "bucketPolicy \<notin> sessionNs"
  by (simp_all add: ns_distinct)

lemmas dirOk_policies = dirOk_keeps [OF view_memberships(1) [OF policy_not_user(1)]]
  dirOk_keeps [OF view_memberships(2) [OF policy_not_user(1)]]

lemmas dirOk_draws = dirOk_keeps [OF view_time(2)] dirOk_keeps [OF view_time(3)] dirOk_keeps [OF view_time(4)]

lemmas dirOk_intros = dirOk_seq dirOk_basic dirOk_if dirOk_mapErr dirOk_sessions dirOk_policies dirOk_draws dirOk_WithTx

text \<open>Reads through a transaction of their own.\<close>

lemma view_lookups:
  "keeps (view ns) (User_GetByIdentity E L c pr sub)" "keeps (view ns) (User_GetByEmail E L c em)"
  "keeps (view ns) (GetSystemUser E L c)" "keeps (view ns) (UserService_GetByID L k)"
  "keeps (view ns) (UserService_GetByIdentity E L c pr sub)" "keeps (view ns) (UserService_GetByEmail E L c em)"
  "keeps (view ns) (UserService_GetSystemUser E L c)" "keeps (view ns) (loadTarget L k)"
proof -
  show I: "keeps (view ns) (User_GetByIdentity E L c pr sub)" and M: "keeps (view ns) (User_GetByEmail E L c em)" for em
    unfolding User_GetByIdentity_def User_GetByEmail_def by (intro view_intros)+
  show S: "keeps (view ns) (GetSystemUser E L c)"
    unfolding GetSystemUser_def by (intro view_intros)
  show "keeps (view ns) (UserService_GetByID L k)" "keeps (view ns) (UserService_GetByIdentity E L c pr sub)"
    "keeps (view ns) (UserService_GetByEmail E L c em)" "keeps (view ns) (UserService_GetSystemUser E L c)"
    "keeps (view ns) (loadTarget L k)"
    unfolding UserService_GetByID_def UserService_GetByIdentity_def UserService_GetByEmail_def
      UserService_GetSystemUser_def loadTarget_def
    by (intro view_intros I M S)+
qed

lemmas dirOk_lookups = view_lookups [THEN dirOk_keeps]

lemma dirOk_service:
  assumes L: "authlib_documented L"
  shows "dirOk L (LinkIdentity E L c k i)" "dirOk L (RecordLogin E L c k)" "dirOk L (BootstrapSync E L c user)"
    "dirOk L (UserService_transitionStatus E L c k tr)"
  unfolding LinkIdentity_def RecordLogin_def BootstrapSync_def UserService_transitionStatus_def Let_def
  by (intro dirOk_intros dirOk_lookups dirOk_repository [OF L])+

section \<open>Bootstrap and login\<close>

lemma keeps_findUser: "keeps obs m \<Longrightarrow> keeps obs (findUser m)"
  by (auto simp: keeps_def findUser_def split: prod.split sum.split err.split) (metis snd_conv)+

lemma view_groups:
  "keeps (view userNs) (Group_Create E q g)" "keeps (view userNs) (Group_Update E q g)"
  unfolding Group_Create_def Group_Update_def Let_def by (intro view_intros; simp add: ns_distinct)+

lemma view_seedGroup:
  "keeps (view userNs) (bindT (Group_Update E q g) (\<lambda>_. returnT ()))"
  "keeps (view userNs) (bindT (timeNow E) (\<lambda>now. bindT (Group_Create E q (mk now)) (\<lambda>_. returnT ())))"
  by (intro keeps_intros view_groups view_time)+

lemma view_ensureSuperAdminGroup: "keeps (view userNs) (ensureSuperAdminGroup E c)"
  by (simp add: keeps_def ensureSuperAdminGroup_def view_seedGroup [unfolded keeps_def, rule_format] split: sum.split err.split)

lemma view_ensureMembership: "keeps (view userNs) (ensureMembership E J c u)"
  unfolding ensureMembership_def by (intro keeps_intros view_rules policy_not_user)

lemma post_bind: "(\<And>x. post (f x) P) \<Longrightarrow> post (bindT m f) P"
  by (auto simp: post_def bindT_eq_Inr)

lemma dirOk_seedSystem:
  assumes "\<And>c. dirOk L (admin c)"
  shows "dirOk L (bindT (ensureSuperAdminGroup E c) (\<lambda>_. bindT (ensureSuperAdminPolicy E J c) (\<lambda>_. admin c)))"
  unfolding ensureSuperAdminPolicy_def
  by (intro dirOk_seq dirOk_keeps [OF view_ensureSuperAdminGroup] dirOk_keeps [OF view_rules(1)] policy_not_user assms)

lemma dirOk_newUser:
  assumes L: "authlib_documented L" "\<And>u. usr_ID (mk u) = u"
  shows "dirOk L (bindT (uuidNew (uuidAt L)) (\<lambda>uid. UserService_Create E L c (mk uid)))"
  by (rule dirOk_bind [OF dirOk_draws(2) uuidNew_canonical [OF L(1)]]) (simp add: dirOk_UserService_Create L)

lemma dirOk_admins:
  assumes L: "authlib_documented L"
  shows "dirOk L (ensureBasicAdminUser E L J c username password)" "dirOk L (ensureOIDCAdminUser E L J c email)"
    "dirOk L (ensurePassthroughUser E L J c)"
proof -
  note member = dirOk_keeps [OF view_ensureMembership]
  note find = dirOk_keeps [OF keeps_findUser [OF view_lookups(7)]] dirOk_keeps [OF keeps_findUser [OF view_lookups(5)]]
  have admin: "dirOk L (createAdminUser E L c i p)" for i p
    unfolding createAdminUser_def by (intro dirOk_intros dirOk_newUser [OF L]) simp
  show "dirOk L (ensureBasicAdminUser E L J c username password)"
    unfolding ensureBasicAdminUser_def
    by (intro dirOk_intros find)
      (auto simp: Let_def split: option.split prod.split intro!: dirOk_seq dirOk_if dirOk_basic admin member dirOk_service [OF L])
  have oidc: "dirOk L (bindT (uuidNew (uuidAt L)) (\<lambda>uid. bindT (UserService_Create E L c (mk uid)) (\<lambda>u. ensureMembership E J c (usr_ID u))))"
    if "\<And>u. usr_ID (mk u) = u" for mk
    by (rule dirOk_bind [OF dirOk_draws(2) uuidNew_canonical [OF L]])
      (intro dirOk_seq dirOk_UserService_Create member L, simp add: that)
  show "dirOk L (ensureOIDCAdminUser E L J c email)"
    unfolding ensureOIDCAdminUser_def
    by (intro dirOk_intros find)
      (auto split: option.split intro!: dirOk_seq dirOk_if dirOk_basic oidc member dirOk_service [OF L])
  show "dirOk L (ensurePassthroughUser E L J c)"
    unfolding ensurePassthroughUser_def
    by (intro dirOk_intros find member)
      (auto split: option.split intro!: dirOk_seq dirOk_basic dirOk_newUser [OF L])
qed

lemma dirTop_bootstrap:
  assumes "authlib_documented L" "ctx_tx c = None"
  shows "dirTop L (BootstrapBasic E L J c username password)" "dirTop L (BootstrapOIDC E L J c email)"
    "dirTop L (BootstrapPassthrough E L J c)"
  unfolding BootstrapBasic_def BootstrapOIDC_def BootstrapPassthrough_def seedSystem_def
  by (intro dirTop_WithTx dirOk_seedSystem dirOk_admins assms)+

lemma dirOk_link:
  assumes L: "authlib_documented L"
  shows "dirOk L (linkOIDCByEmail E L c pr ident)"
  unfolding linkOIDCByEmail_def
  by (auto split: sum.split intro!: dirOk_seq dirOk_if dirOk_basic dirOk_mapErr dirOk_lookups dirOk_service [OF L])

lemma dirOk_resolve:
  assumes L: "authlib_documented L"
  shows "dirOk L (resolveOIDCUser E L c ident)"
  unfolding dirOk_def
proof (intro allI impI)
  fix w x w' assume run: "resolveOIDCUser E L c ident w = (Inr x, w')" and inv: "user_inv L (buckets w)"
  obtain r1 w1 where get: "UserService_GetByIdentity E L c ProviderOIDC (pi_Subject ident) w = (r1, w1)" by fastforce
  from keeps_user_inv [OF view_lookups(5) get] inv have inv1: "user_inv L (buckets w1)" by blast
  have "w' = w1 \<or> linkOIDCByEmail E L c ProviderOIDC ident w1 = (Inr x, w')"
  proof (cases r1)
    case (Inl e)
    with run get show ?thesis by (cases e) (simp_all add: resolveOIDCUser_def)
  qed (use run get in \<open>simp add: resolveOIDCUser_def\<close>)
  then show "user_inv L (buckets w')"
  proof
    assume "linkOIDCByEmail E L c ProviderOIDC ident w1 = (Inr x, w')"
    from dirOkD [OF dirOk_link [OF L] this inv1] show ?thesis .
  qed (simp add: inv1)
qed

lemma dirTop_logins:
  assumes L: "authlib_documented L" and c: "ctx_tx c = None"
  shows "dirTop L (BasicLogin E L R c params)" "dirTop L (Callback E L R ex c cparams)"
    "dirTop L (ChangePassword E L R c cu pparams)" "dirTop L (Logout E R c sid by)"
proof -
  show "dirTop L (BasicLogin E L R c params)"
    unfolding BasicLogin_def
    by (intro dirTop_keeps view_intros view_lookups view_sessions)
  show "dirTop L (Callback E L R ex c cparams)"
    unfolding Callback_def
    by (intro dirTop_seq dirTop_keeps keeps_basic dirTop_WithTx c dirOk_intros dirOk_resolve dirOk_service L)
  show "dirTop L (ChangePassword E L R c cu pparams)"
    unfolding ChangePassword_def
    by (auto split: option.split
        intro!: dirTop_keeps [OF keeps_basic(2)] dirTop_WithTx c dirOk_intros dirOk_lookups dirOk_repository L)
  show "dirTop L (Logout E R c sid by)"
    unfolding Logout_def by (intro dirTop_keeps view_intros view_sessions)
qed

section \<open>Administration\<close>

lemma dirOk_applyInitialGroups:
  assumes L: "authlib_documented L"
  shows "dirOk L (applyInitialGroups E p J c actor user ids)"
  unfolding applyInitialGroups_def Let_def by (intro dirOk_intros dirOk_repository L)

lemma dirOk_persistUser:
  assumes L: "authlib_documented L" and id: "canonical L (usr_ID user)"
  shows "dirOk L (persistUser E L c user pw)"
  unfolding persistUser_def by (intro dirOk_intros dirOk_UserService_Create dirOk_repository L disjI2 id)

lemma dirOk_createUser:
  assumes L: "authlib_documented L" and id: "canonical L (usr_ID user)"
  shows "dirOk L (bindT (persistUser E L c user pw) (\<lambda>user.
       bindT (applyInitialGroups E p J c actor user ids) (\<lambda>(groupIDs, version).
       returnT \<lparr>ucr_User = user\<lparr>usr_MembershipVersion := version\<rparr>, ucr_GroupIDs = groupIDs, ucr_MembershipVersion = version\<rparr>)))"
  by (intro dirOk_seq dirOk_persistUser dirOk_applyInitialGroups L id) (auto split: prod.split intro: dirOk_basic)

lemma newUser_canonical:
  assumes "authlib_documented L"
  shows "post (newUserFromCreateData E L data) (\<lambda>user. canonical L (usr_ID user))"
  using assms
  by (auto simp: post_def newUserFromCreateData_def bind_inversion uuidNew_def Let_def canonical_def authlib_documented_def)

lemma view_newUser: "keeps (view ns) (newUserFromCreateData E L data)"
  unfolding newUserFromCreateData_def Let_def by (intro view_intros)

lemma dirTop_admin:
  assumes L: "authlib_documented L" and c: "ctx_tx c = None"
  shows "dirTop L (UserAdmin_Create E L p J c actor data)" "dirTop L (UserAdmin_Delete E L R p J c actor k)"
    "dirTop L (ResetPassword E L R p J c actor k pw)" "dirTop L (UpdateGroups E L p J c actor gdata)"
    "dirTop L (UserAdmin_Deactivate E L R p c actor k)" "dirTop L (UserAdmin_Reactivate E L p c actor k)"
proof -
  show "dirTop L (UserAdmin_Create E L p J c actor data)"
    unfolding UserAdmin_Create_def
    by (rule dirTop_bind [OF dirTop_keeps [OF view_newUser] newUser_canonical [OF L]])
      (intro dirTop_seq dirTop_keeps [OF keeps_basic(3)] dirTop_PAP_Write [OF c] dirOk_createUser L)
  show "dirTop L (UserAdmin_Delete E L R p J c actor k)"
    unfolding UserAdmin_Delete_def
    by (intro dirTop_PAP_Write [OF c] dirOk_intros dirOk_lookups dirOk_repository L)
  show "dirTop L (ResetPassword E L R p J c actor k pw)"
    unfolding ResetPassword_def
    by (intro dirTop_seq dirTop_keeps [OF view_time(4)] dirTop_PAP_Write [OF c] dirOk_intros dirOk_lookups dirOk_repository L)
  show "dirTop L (UpdateGroups E L p J c actor gdata)"
    unfolding UpdateGroups_def applyMembershipDelta_def Let_def
    by (auto split: option.split intro!: dirTop_keeps [OF keeps_basic(2)] dirTop_PAP_Write [OF c]
        dirOk_intros dirOk_lookups dirOk_repository L)
  show "dirTop L (UserAdmin_Deactivate E L R p c actor k)" "dirTop L (UserAdmin_Reactivate E L p c actor k)"
    unfolding UserAdmin_Deactivate_def UserAdmin_Reactivate_def UserAdmin_transitionStatus_def UserService_Deactivate_def
      UserService_Reactivate_def
    by (intro dirTop_WithTx [OF c] dirOk_intros dirOk_lookups dirOk_service L)+
qed

section \<open>Runs\<close>

text \<open>
  One call of an operation on users outside a transaction, with any engine failures, any random source, any exchange
  of codes and any rules of authorisation.
\<close>

inductive user_step :: "authlib \<Rightarrow> ('m, 'z) pworld_scheme \<Rightarrow> ('m, 'z) pworld_scheme \<Rightarrow> bool" for L where
  create: "ctx_tx (c :: ctx) = None \<Longrightarrow> UserAdmin_Create E L p J c actor data w = (r1, w') \<Longrightarrow> user_step L w w'"
| remove: "ctx_tx (c :: ctx) = None \<Longrightarrow> UserAdmin_Delete E L R p J c actor k w = (r2, w') \<Longrightarrow> user_step L w w'"
| reset: "ctx_tx (c :: ctx) = None \<Longrightarrow> ResetPassword E L R p J c actor k pw w = (r2, w') \<Longrightarrow> user_step L w w'"
| groups: "ctx_tx (c :: ctx) = None \<Longrightarrow> UpdateGroups E L p J c actor gdata w = (r3, w') \<Longrightarrow> user_step L w w'"
| deactivate: "ctx_tx (c :: ctx) = None \<Longrightarrow> UserAdmin_Deactivate E L R p c actor k w = (r4, w') \<Longrightarrow> user_step L w w'"
| reactivate: "ctx_tx (c :: ctx) = None \<Longrightarrow> UserAdmin_Reactivate E L p c actor k w = (r4, w') \<Longrightarrow> user_step L w w'"
| login: "ctx_tx (c :: ctx) = None \<Longrightarrow> BasicLogin E L R c params w = (r5, w') \<Longrightarrow> user_step L w w'"
| callback: "ctx_tx (c :: ctx) = None \<Longrightarrow> Callback E L R ex c cparams w = (r5, w') \<Longrightarrow> user_step L w w'"
| password: "ctx_tx (c :: ctx) = None \<Longrightarrow> ChangePassword E L R c cu pparams w = (r6, w') \<Longrightarrow> user_step L w w'"
| logout: "ctx_tx (c :: ctx) = None \<Longrightarrow> Logout E R c sid who w = (r2, w') \<Longrightarrow> user_step L w w'"
| basic: "ctx_tx (c :: ctx) = None \<Longrightarrow> BootstrapBasic E L J c username pw w = (r2, w') \<Longrightarrow> user_step L w w'"
| oidc: "ctx_tx (c :: ctx) = None \<Longrightarrow> BootstrapOIDC E L J c username w = (r2, w') \<Longrightarrow> user_step L w w'"
| passthrough: "ctx_tx (c :: ctx) = None \<Longrightarrow> BootstrapPassthrough E L J c w = (r2, w') \<Longrightarrow> user_step L w w'"

lemmas dirTop_users = dirTop_admin [THEN dirTopD] dirTop_logins [THEN dirTopD] dirTop_bootstrap [THEN dirTopD]

lemma user_step_inv:
  assumes "user_step L w w'" "authlib_documented L" "user_inv L (buckets w)"
  shows "user_inv L (buckets w')"
  using assms by (induction rule: user_step.induct) (rule dirTop_users; assumption)+

lemma user_run_inv:
  assumes "(user_step L)\<^sup>*\<^sup>* w w'" "authlib_documented L" "user_inv L (buckets w)"
  shows "user_inv L (buckets w')"
  using assms by (induction rule: rtranclp_induct) (auto intro: user_step_inv)

end
