(* ===== verification/LoginProofs.thy ===== *)
theory LoginProofs
  imports UserSteps
begin

text \<open>
  What the lookups, the status transitions and the two ways to log in do to the directory, from the rows of the users.
\<close>

section \<open>Lookups in the service\<close>

abbreviation userOf :: "authlib \<Rightarrow> AuthUserMeta \<Rightarrow> User" where
  "userOf L \<equiv> AuthUserMetaToDomain (uuidParse L)"

lemma WithReadTx_read_Inr:
  assumes "WithReadTx E c (\<lambda>_. readT g) w = (Inr x, w')"
  shows "g w = Inr x" "buckets w' = buckets w"
  using assms by (auto simp: WithReadTx_def runTx_def readT_def split: if_splits option.splits sum.splits prod.splits)

lemma GetByID_Inr:
  assumes "UserService_GetByID L k w = (Inr u, w')" "user_inv L (buckets w)"
  obtains m where "userRow (buckets w) k = Some m" "u = userOf L m" "w' = w"
proof -
  from assms(1) have "User_GetByID L k w = Inr u" "w' = w" by (auto simp: UserService_GetByID_def mapErrT_Inr readT_def)
  with that show thesis unfolding User_GetByID_row [OF assms(2)] by (cases "userRow (buckets w) k") simp_all
qed

lemma loadTarget_Inr: "loadTarget L k w = (Inr u, w') \<longleftrightarrow> UserService_GetByID L k w = (Inr u, w')"
  by (simp add: loadTarget_def UserService_GetByID_def mapErrT_Inr)

lemma GetByIdentity_Inr:
  assumes "UserService_GetByIdentity E L c pr sub w = (Inr u, w')" "user_inv L (buckets w)"
  obtains k m where "userRow (buckets w) k = Some m" "identityKey \<lparr>idn_Provider = pr, idn_Subject = sub\<rparr> \<in> identKeys m"
    "u = userOf L m" "buckets w' = buckets w"
proof -
  from assms(1) have "User_GetByIdentity E L c pr sub w = (Inr u, w')" by (simp add: UserService_GetByIdentity_def mapErrT_Inr)
  note r = WithReadTx_read_Inr [OF this [unfolded User_GetByIdentity_def]]
  have "indexes bucketIdentities identKeys (buckets w)" using user_inv_indexes [OF assms(2)] by simp
  with r userByIndex_row(1) [OF assms(2)] that show thesis by (auto simp: identityKey_def)
qed

lemma GetByEmail_Inr:
  assumes "UserService_GetByEmail E L c em w = (Inr u, w')" "user_inv L (buckets w)"
  obtains k m where "userRow (buckets w) k = Some m" "NormalizeEmail E L em = Inr (umt_Email m)" "u = userOf L m"
    "buckets w' = buckets w"
proof -
  from assms(1) obtain n where n: "NormalizeEmail E L em = Inr n" and g: "User_GetByEmail E L c n w = (Inr u, w')"
    by (auto simp: UserService_GetByEmail_def mapErrT_Inr split: sum.splits)
  note r = WithReadTx_read_Inr [OF g [unfolded User_GetByEmail_def]]
  have "indexes bucketEmails emailKeys (buckets w)" using user_inv_indexes [OF assms(2)] by simp
  with r userByIndex_row(1) [OF assms(2)] that n show thesis by (auto simp: emailKeys_def)
qed

lemma userOf_row:
  assumes "user_inv L d" "userRow d k = Some m"
  shows "usr_ID (userOf L m) = k" "usr_Status (userOf L m) = umt_Status m" "usr_System (userOf L m) = umt_System m"
    "usr_Identities (userOf L m) = umt_Identities m" "usr_Email (userOf L m) = umt_Email m"
    "usr_PasswordHash (userOf L m) = umt_PasswordHash m"
  using AuthUserMetaToDomain_row [OF assms] by (simp_all add: AuthUserMetaToDomain_def)

section \<open>Writes of the service\<close>

lemma Update_row:
  assumes "User_Update E L c user w = (Inr u, w')" "authlib_documented L" "user_inv L (buckets w)"
  shows "rewritten L (usr_ID user) (Some (DomainToAuthUserMeta user)) w w'"
  using User_Update_Inr [OF assms] by blast

lemma transitionStatus_Inr:
  assumes run: "UserService_transitionStatus E L c k tr w = (Inr u, w')" and L: "authlib_documented L"
    and inv: "user_inv L (buckets w)"
  obtains m where "userRow (buckets w) k = Some m" "tr (userOf L m) = Inr u"
    "rewritten L (usr_ID u) (Some (DomainToAuthUserMeta u)) w w'"
proof -
  from run obtain x w1 w2 where get: "UserService_GetByID L k w = (Inr x, w1)" and tr: "tr x = Inr u"
    and up: "User_Update E L c u w1 = (Inr (), w')"
    by (auto simp: UserService_transitionStatus_def bind_inversion readT_def)
  from get inv obtain m where m: "userRow (buckets w) k = Some m" "x = userOf L m" "w1 = w" by (rule GetByID_Inr)
  from Update_row [OF up [unfolded m(3)] L inv] m tr show thesis by (intro that [of m]) simp_all
qed

lemma RecordLogin_Inr:
  assumes run: "RecordLogin E L c k w = (Inr u, w')" and L: "authlib_documented L" and inv: "user_inv L (buckets w)"
  obtains m t where "userRow (buckets w) k = Some m" "u = (userOf L m)\<lparr>usr_LastLoginAt := t\<rparr>" "usr_ID u = k"
    "rewritten L k (Some (DomainToAuthUserMeta u)) w w'"
proof -
  from run obtain x w1 w2 t where get: "UserService_GetByID L k w = (Inr x, w1)" and now: "timeNow E w1 = (Inr t, w2)"
    and u: "u = x\<lparr>usr_LastLoginAt := t\<rparr>" and up: "User_Update E L c u w2 = (Inr (), w')"
    by (auto simp: RecordLogin_def bind_inversion Let_def)
  from get inv obtain m where m: "userRow (buckets w) k = Some m" "x = userOf L m" "w1 = w" by (rule GetByID_Inr)
  from now m have b: "buckets w2 = buckets w" by (auto simp: timeNow_def)
  with inv have inv2: "user_inv L (buckets w2)" by simp
  have k: "usr_ID u = k" using userOf_row(1) [OF inv m(1)] by (simp add: u m)
  from Update_row [OF up L inv2] have "rewritten L k (Some (DomainToAuthUserMeta u)) w w'"
    by (simp add: rewritten_def b k)
  with m(1) u k m(2) show thesis by (intro that [of m t]) simp_all
qed

lemma LinkIdentity_Inr:
  assumes run: "LinkIdentity E L c k i w = (Inr u, w')" and L: "authlib_documented L" and inv: "user_inv L (buckets w)"
  obtains m where "userRow (buckets w) k = Some m"
    "umt_System m \<longrightarrow> umt_Identities m = []"
    "i \<in> set (umt_Identities m) \<and> u = userOf L m \<and> w' = w \<or>
     u = (userOf L m)\<lparr>usr_Identities := umt_Identities m @ [i]\<rparr> \<and> rewritten L k (Some (DomainToAuthUserMeta u)) w w'"
proof -
  from run obtain x w1 where get: "UserService_GetByID L k w = (Inr x, w1)"
    and sys: "\<not> (usr_System x \<and> usr_Identities x \<noteq> [])"
    and rest: "(i \<in> set (usr_Identities x) \<and> u = x \<and> w' = w1) \<or>
      (u = x\<lparr>usr_Identities := usr_Identities x @ [i]\<rparr> \<and> User_Update E L c u w1 = (Inr (), w'))"
    by (auto simp: LinkIdentity_def bind_inversion Let_def split: if_splits)
  from get inv obtain m where m: "userRow (buckets w) k = Some m" "x = userOf L m" "w1 = w" by (rule GetByID_Inr)
  note row = userOf_row [OF inv m(1)]
  show thesis
  proof (rule that [OF m(1)])
    show "umt_System m \<longrightarrow> umt_Identities m = []" using sys by (simp add: m row)
    show "i \<in> set (umt_Identities m) \<and> u = userOf L m \<and> w' = w \<or>
      u = (userOf L m)\<lparr>usr_Identities := umt_Identities m @ [i]\<rparr> \<and> rewritten L k (Some (DomainToAuthUserMeta u)) w w'"
      using rest Update_row [of E L c u w _ w', OF _ L inv] row by (auto simp: m)
  qed
qed

section \<open>The user of an OIDC identity\<close>

text \<open>
  The user a login resolves to: the owner of the subject, or a user with the verified email and no identity of the
  provider, who then gets it.
\<close>

definition ownsSubject :: "AuthUserMeta \<Rightarrow> string \<Rightarrow> bool" where
  "ownsSubject m sub \<longleftrightarrow> identityKey \<lparr>idn_Provider = ProviderOIDC, idn_Subject = sub\<rparr> \<in> identKeys m"

definition linkable :: "env \<Rightarrow> authlib \<Rightarrow> ProviderIdentity \<Rightarrow> AuthUserMeta \<Rightarrow> bool" where
  "linkable E L ident m \<longleftrightarrow>
     pi_EmailVerified ident \<and>
     (\<exists>n. NormalizeEmail E L (pi_Email ident) = Inr n \<and> NormalizeEmail E L n = Inr (umt_Email m)) \<and>
     (\<forall>i \<in> set (umt_Identities m). idn_Provider i \<noteq> ProviderOIDC) \<and> (umt_System m \<longrightarrow> umt_Identities m = [])"

lemma linkOIDCByEmail_Inr:
  assumes run: "linkOIDCByEmail E L c ProviderOIDC ident w = (Inr u, w')" and L: "authlib_documented L"
    and inv: "user_inv L (buckets w)"
  obtains m where "userRow (buckets w) (usr_ID u) = Some m" "usr_Status u = umt_Status m" "linkable E L ident m"
    "usr_Identities u = umt_Identities m @ [\<lparr>idn_Provider = ProviderOIDC, idn_Subject = pi_Subject ident\<rparr>]"
    "rewritten L (usr_ID u) (Some (DomainToAuthUserMeta u)) w w'"
proof -
  from run obtain n x w1 i where norm: "pi_EmailVerified ident" "NormalizeEmail E L (pi_Email ident) = Inr n"
    and get: "UserService_GetByEmail E L c n w = (Inr x, w1)"
    and none: "\<not> list_ex (\<lambda>i. idn_Provider i = ProviderOIDC) (usr_Identities x)"
    and i: "NewIdentity E L ProviderOIDC (pi_Subject ident) = Inr i" and link: "LinkIdentity E L c (usr_ID x) i w1 = (Inr u, w')"
    by (auto simp: linkOIDCByEmail_def bind_inversion mapErrT_Inr readT_def split: if_splits sum.splits)
  from get inv obtain k m where m: "userRow (buckets w) k = Some m" "NormalizeEmail E L n = Inr (umt_Email m)" "x = userOf L m"
    "buckets w1 = buckets w" by (rule GetByEmail_Inr)
  note row = userOf_row [OF inv m(1)]
  from m(4) inv have inv1: "user_inv L (buckets w1)" by simp
  have i': "i = \<lparr>idn_Provider = ProviderOIDC, idn_Subject = pi_Subject ident\<rparr>"
    using i by (auto simp: NewIdentity_def ProviderBasic_def ProviderOIDC_def split: if_splits)
  have fresh: "\<forall>i \<in> set (umt_Identities m). idn_Provider i \<noteq> ProviderOIDC"
    using none by (auto simp: m(3) row list_ex_iff)
  from link L inv1 obtain m1 where "userRow (buckets w1) (usr_ID x) = Some m1" "umt_System m1 \<longrightarrow> umt_Identities m1 = []"
    and alt: "i \<in> set (umt_Identities m1) \<and> u = userOf L m1 \<and> w' = w1 \<or>
      u = (userOf L m1)\<lparr>usr_Identities := umt_Identities m1 @ [i]\<rparr> \<and> rewritten L (usr_ID x) (Some (DomainToAuthUserMeta u)) w1 w'"
    by (rule LinkIdentity_Inr)
  then have m1: "m1 = m" "umt_System m \<longrightarrow> umt_Identities m = []" using m row by simp_all
  with alt fresh i' have u: "u = (userOf L m)\<lparr>usr_Identities := umt_Identities m @ [i]\<rparr>"
    "rewritten L (usr_ID x) (Some (DomainToAuthUserMeta u)) w1 w'" by auto
  from u(1) row have k: "usr_ID u = k" by simp
  show thesis
    using u norm fresh m1(2) m(1,2) k row m(4) i'
    by (intro that [of m]) (simp_all add: linkable_def rewritten_def m(3))
qed

lemma resolveOIDCUser_Inr:
  assumes run: "resolveOIDCUser E L c ident w = (Inr u, w')" and L: "authlib_documented L"
    and inv: "user_inv L (buckets w)"
  obtains m where "userRow (buckets w) (usr_ID u) = Some m" "usr_Status u = umt_Status m"
    "ownsSubject m (pi_Subject ident) \<and> u = userOf L m \<and> buckets w' = buckets w \<or>
     linkable E L ident m \<and>
     usr_Identities u = umt_Identities m @ [\<lparr>idn_Provider = ProviderOIDC, idn_Subject = pi_Subject ident\<rparr>] \<and>
     rewritten L (usr_ID u) (Some (DomainToAuthUserMeta u)) w w'"
proof -
  obtain r w1 where get: "UserService_GetByIdentity E L c ProviderOIDC (pi_Subject ident) w = (r, w1)" by fastforce
  show thesis
  proof (cases r)
    case (Inr x)
    with run get have "UserService_GetByIdentity E L c ProviderOIDC (pi_Subject ident) w = (Inr u, w')"
      by (simp add: resolveOIDCUser_def)
    from this inv obtain k m where m: "userRow (buckets w) k = Some m"
      "identityKey \<lparr>idn_Provider = ProviderOIDC, idn_Subject = pi_Subject ident\<rparr> \<in> identKeys m"
      "u = userOf L m" "buckets w' = buckets w" by (rule GetByIdentity_Inr)
    with userOf_row [OF inv m(1)] show thesis by (intro that [of m]) (simp_all add: ownsSubject_def)
  next
    case (Inl e)
    with run get have link: "linkOIDCByEmail E L c ProviderOIDC ident w1 = (Inr u, w')"
      by (cases e) (simp_all add: resolveOIDCUser_def)
    have same: "dget (buckets w1) n x = dget (buckets w) n x" for n x
      using view_eqD [OF keepsD [OF view_lookups(5) [of UNIV] get]] by simp
    have rows: "user_inv L (buckets w1)" "userRow (buckets w1) = userRow (buckets w)"
      using inv user_inv_cong [of "buckets w1" "buckets w"] same by blast+
    from link L rows(1) obtain m where m: "userRow (buckets w1) (usr_ID u) = Some m" "usr_Status u = umt_Status m"
      "linkable E L ident m"
      "usr_Identities u = umt_Identities m @ [\<lparr>idn_Provider = ProviderOIDC, idn_Subject = pi_Subject ident\<rparr>]"
      "rewritten L (usr_ID u) (Some (DomainToAuthUserMeta u)) w1 w'"
      by (rule linkOIDCByEmail_Inr)
    from m(5) have "rewritten L (usr_ID u) (Some (DomainToAuthUserMeta u)) w w'" by (simp add: rewritten_def same rows)
    with m rows show thesis by (intro that [of m]) simp_all
  qed
qed

section \<open>Logging in\<close>

lemma Sessions_Create_user: "Sessions_Create E R c params w = (Inr s, w') \<Longrightarrow> ses_UserID s = cp_UserID params"
  by (auto simp: Sessions_Create_def bind_inversion Let_def)

lemma BasicLogin_Inr:
  assumes run: "BasicLogin E L R c params w = (Inr (u, s), w')" and inv: "user_inv L (buckets w)"
  obtains k m email where "NormalizeEmail E L (lp_Email params) = Inr email" "userRow (buckets w) k = Some m" "u = userOf L m"
    "identityKey \<lparr>idn_Provider = ProviderBasic, idn_Subject = email\<rparr> \<in> identKeys m"
    "umt_Status m = UserStatusActive" "bcryptMatches L (umt_PasswordHash m) (lp_Password params)"
proof -
  from run obtain email w1 where norm: "NormalizeEmail E L (lp_Email params) = Inr email"
    and get: "UserService_GetByIdentity E L c ProviderBasic email w = (Inr u, w1)"
    and act: "usr_Status u = UserStatusActive" "VerifyPassword L (usr_PasswordHash u) (lp_Password params) = Inr ()"
    by (auto simp: BasicLogin_def bind_inversion mapErrT_Inr readT_def whenErr_def split: if_splits)
  from get inv obtain k m where m: "userRow (buckets w) k = Some m"
    "identityKey \<lparr>idn_Provider = ProviderBasic, idn_Subject = email\<rparr> \<in> identKeys m" "u = userOf L m"
    by (rule GetByIdentity_Inr)
  from act userOf_row [OF inv m(1)] m norm show thesis
    by (intro that [of email k m]) (auto simp: VerifyPassword_def split: if_splits)
qed

lemma Callback_Inr:
  fixes w :: "'z rworld_scheme" and c :: "'c ctx_scheme"
  assumes run: "Callback E L R ex c params w = (Inr (u, s), w')" and L: "authlib_documented L" and inv: "user_inv L (buckets w)"
  obtains ident m m' where "ex (cbp_Code params) (cbp_Nonce params) = Inr ident"
    "userRow (buckets w) (usr_ID u) = Some m" "umt_Status m = UserStatusActive" "ses_UserID s = usr_ID u"
    "userRow (buckets w') = (userRow (buckets w))(usr_ID u \<mapsto> m')"
    "ownsSubject m (pi_Subject ident) \<and> umt_Identities m' = umt_Identities m \<or>
     linkable E L ident m \<and>
     umt_Identities m' = umt_Identities m @ [\<lparr>idn_Provider = ProviderOIDC, idn_Subject = pi_Subject ident\<rparr>]"
proof -
  from run obtain ident where ex: "ex (cbp_Code params) (cbp_Nonce params) = Inr ident"
    and tx: "WithTx E c (\<lambda>c. bindT (resolveOIDCUser E L c ident) (\<lambda>resolved.
       if usr_Status resolved \<noteq> UserStatusActive then failT ErrUserDeactivated
       else
         bindT (RecordLogin E L c (usr_ID resolved)) (\<lambda>stamped.
         bindT (Sessions_Create E R c (webSession (usr_ID stamped) (cbp_IP params) (cbp_UserAgent params))) (\<lambda>sess.
         returnT (stamped, sess))))) w = (Inr (u, s), w')"
    by (auto simp: Callback_def bind_inversion readT_def)
  from tx obtain c' :: "'c ctx_scheme" and x w1 w2 where res: "resolveOIDCUser E L c' ident w = (Inr x, w1)" and act: "usr_Status x = UserStatusActive"
    and rec: "RecordLogin E L c' (usr_ID x) w1 = (Inr u, w2)"
    and sess: "Sessions_Create E R c' (webSession (usr_ID u) (cbp_IP params) (cbp_UserAgent params)) w2 = (Inr s, w')"
    by (rule WithTx_success) (auto simp: bind_inversion split: if_splits)
  from res L inv obtain m where m: "userRow (buckets w) (usr_ID x) = Some m" "usr_Status x = umt_Status m"
    and alt: "ownsSubject m (pi_Subject ident) \<and> x = userOf L m \<and> buckets w1 = buckets w \<or>
     linkable E L ident m \<and>
     usr_Identities x = umt_Identities m @ [\<lparr>idn_Provider = ProviderOIDC, idn_Subject = pi_Subject ident\<rparr>] \<and>
     rewritten L (usr_ID x) (Some (DomainToAuthUserMeta x)) w w1"
    by (rule resolveOIDCUser_Inr)
  from alt inv have inv1: "user_inv L (buckets w1)" by (auto simp: rewritten_def)
  from rec L inv1 obtain m1 t where m1: "userRow (buckets w1) (usr_ID x) = Some m1" "u = (userOf L m1)\<lparr>usr_LastLoginAt := t\<rparr>"
    "usr_ID u = usr_ID x" "rewritten L (usr_ID x) (Some (DomainToAuthUserMeta u)) w1 w2"
    by (rule RecordLogin_Inr)
  have ids: "umt_Identities (DomainToAuthUserMeta u) = umt_Identities m1"
    using userOf_row [OF inv1 m1(1)] by (simp add: m1(2) DomainToAuthUserMeta_def)
  have alt1: "ownsSubject m (pi_Subject ident) \<and> umt_Identities m1 = umt_Identities m \<or>
     linkable E L ident m \<and>
     umt_Identities m1 = umt_Identities m @ [\<lparr>idn_Provider = ProviderOIDC, idn_Subject = pi_Subject ident\<rparr>]"
    using alt m1(1) m(1) by (auto simp: rewritten_def DomainToAuthUserMeta_def)
  have others: "userRow (buckets w1) k = userRow (buckets w) k" if "k \<noteq> usr_ID x" for k
    using alt that by (auto simp: rewritten_def)
  have rows: "userRow (buckets w') = (userRow (buckets w))(usr_ID u \<mapsto> DomainToAuthUserMeta u)"
    using keeps_userRow [OF view_sessions(2) sess] m1(3,4) others by (auto simp: rewritten_def)
  show thesis
    using ex m act alt1 ids rows Sessions_Create_user [OF sess] m1(3)
    by (intro that [of ident m "DomainToAuthUserMeta u"]) (simp_all add: webSession_def)
qed

section \<open>Deactivation\<close>

lemma UserAdmin_Deactivate_Inr:
  fixes w :: "('m, 'z) pworld_scheme" and c :: "'c ctx_scheme"
  assumes run: "UserAdmin_Deactivate E L R p c actor k w = (Inr u, w')" and L: "authlib_documented L"
    and inv: "user_inv L (buckets w)"
  obtains c' :: "'c ctx_scheme" and m and w1 :: "('m, 'z) pworld_scheme" where
    "ai_UserID actor \<noteq> k" "userRow (buckets w) k = Some m" "\<not> umt_System m"
    "u = (userOf L m)\<lparr>usr_Status := UserStatusDeactivated\<rparr>" "usr_ID u = k"
    "rewritten L k (Some (DomainToAuthUserMeta u)) w w1"
    "Sessions_RevokeAllForUser E R c' k (ai_UserID actor) ''account deactivated'' w1 = (Inr (), w')"
proof -
  from run obtain c' :: "'c ctx_scheme" and x w0 w1 where get: "UserService_GetByID L k w = (Inr x, w0)" and ne: "ai_UserID actor \<noteq> usr_ID x"
    and tr: "UserService_transitionStatus E L c' (usr_ID x) User_Deactivate w0 = (Inr u, w1)"
    and rev: "Sessions_RevokeAllForUser E R c' (usr_ID u) (ai_UserID actor) ''account deactivated'' w1 = (Inr (), w')"
    unfolding UserAdmin_Deactivate_def UserAdmin_transitionStatus_def UserService_Deactivate_def
    by (rule WithTx_success) (auto simp: bind_inversion loadTarget_Inr readT_def split: if_splits)
  from get inv obtain m where m: "userRow (buckets w) k = Some m" "x = userOf L m" "w0 = w" by (rule GetByID_Inr)
  note row = userOf_row [OF inv m(1)]
  from tr [unfolded m(2,3) row] L inv obtain m1 where m1: "userRow (buckets w) k = Some m1" "User_Deactivate (userOf L m1) = Inr u"
    "rewritten L (usr_ID u) (Some (DomainToAuthUserMeta u)) w w1" by (rule transitionStatus_Inr)
  with m have m1m: "m1 = m" by simp
  from m1(2) have u: "u = (userOf L m)\<lparr>usr_Status := UserStatusDeactivated\<rparr>" "\<not> umt_System m"
    using row by (auto simp: User_Deactivate_def User_EnsureMutable_def m1m split: if_splits)
  then have k: "usr_ID u = k" using row by simp
  from that [OF _ m(1) u(2,1) k] ne m1(3) rev row m(2) k show thesis by simp
qed

end
