(* ===== verification/Requests.thy ===== *)
theory Requests
  imports Login EtcdKeys
begin

text \<open>
  The edge of the structured API: the request context \<^verbatim>\<open>src/internal/authctx/context.go\<close>, the session interceptor
  \<^verbatim>\<open>src/internal/handler/v2/interceptor/auth.go\<close>, and what the handlers share, the mapping of errors to status codes and
  the checks of page parameters (\<^verbatim>\<open>src/internal/handler/v2\<close>, \<^verbatim>\<open>errors.go\<close>, \<^verbatim>\<open>pagination.go\<close>, \<^verbatim>\<open>sort.go\<close>).
\<close>

section \<open>The context\<close>

record uctx = hctx +
  ctx_session :: "Session option"
  ctx_user :: "User option"

definition WithClaims :: "'c hctx_scheme \<Rightarrow> Claims \<Rightarrow> 'c hctx_scheme" where
  "WithClaims c claims = c\<lparr>ctx_claims := Some claims\<rparr>"

definition ClaimsFromContext :: "'c hctx_scheme \<Rightarrow> Claims option" where
  "ClaimsFromContext c = ctx_claims c"

definition WithSession :: "'c uctx_scheme \<Rightarrow> Session \<Rightarrow> User \<Rightarrow> 'c uctx_scheme" where
  "WithSession c sess user = c\<lparr>ctx_session := Some sess, ctx_user := Some user\<rparr>"

definition SessionFromContext :: "'c uctx_scheme \<Rightarrow> Session option" where
  "SessionFromContext c = ctx_session c"

definition UserFromContext :: "'c uctx_scheme \<Rightarrow> User option" where
  "UserFromContext c = ctx_user c"

definition AuthInfoFromContext :: "'c uctx_scheme \<Rightarrow> err + AuthInfo" where
  "AuthInfoFromContext c =
     (case UserFromContext c of
        Some user \<Rightarrow>
          Ok \<lparr>ai_UserID = usr_ID user, ai_Email = usr_Email user, ai_Name = usr_DisplayName user,
              ai_Namespaces = [], ai_Role = []\<rparr>
      | None \<Rightarrow>
          (case ClaimsFromContext c of
             None \<Rightarrow> Err ErrUnauthorized
           | Some cl \<Rightarrow>
               Ok \<lparr>ai_UserID = [], ai_Email = clm_Email cl, ai_Name = clm_Name cl, ai_Namespaces = clm_Namespaces cl,
                   ai_Role = clm_Role cl\<rparr>))"

text \<open>The older checks of the claims, \<^verbatim>\<open>src/internal/service/auth/access.go\<close>, over the enforcer's decision.\<close>

definition CheckAccess :: "(string \<Rightarrow> string \<Rightarrow> string \<Rightarrow> string \<Rightarrow> err + bool) \<Rightarrow> 'c hctx_scheme \<Rightarrow> string \<Rightarrow> string \<Rightarrow> string \<Rightarrow> err + unit" where
  "CheckAccess enforce c ns obj act =
     (case ClaimsFromContext c of
        None \<Rightarrow> Err ErrUnauthorized
      | Some claims \<Rightarrow>
          (case enforce (clm_Email claims) ns obj act of
             Inl e \<Rightarrow> Err e
           | Inr allowed \<Rightarrow> if \<not> allowed then Err ErrForbidden else Ok ()))"

definition RequireAuthenticated :: "'c hctx_scheme \<Rightarrow> err + unit" where
  "RequireAuthenticated c = (case ClaimsFromContext c of None \<Rightarrow> Err ErrUnauthorized | Some _ \<Rightarrow> Ok ())"

section \<open>Status codes\<close>

datatype code =
    CodeNotFound
  | CodeAlreadyExists
  | CodePermissionDenied
  | CodeAborted
  | CodeFailedPrecondition
  | CodeInvalidArgument
  | CodeUnauthenticated
  | CodeUnimplemented
  | CodeInternal
  | CodeUnknown

record connectError =
  cer_Code :: code
  cer_Err :: err
  cer_Detail :: "SchemaViolation list option"

definition NewError :: "code \<Rightarrow> err \<Rightarrow> connectError" where
  "NewError code e = \<lparr>cer_Code = code, cer_Err = e, cer_Detail = None\<rparr>"

definition schemaValidationConnectError :: "err \<Rightarrow> connectError" where
  "schemaValidationConnectError e =
     (NewError CodeInvalidArgument e)\<lparr>cer_Detail := (case e of ErrSchemaValidation vs \<Rightarrow> Some vs | _ \<Rightarrow> None)\<rparr>"

definition ToConnectError :: "err \<Rightarrow> connectError" where
  "ToConnectError e =
     (case e of
        ErrNotFound _ _ \<Rightarrow> NewError CodeNotFound e
      | ErrAlreadyExists _ _ \<Rightarrow> NewError CodeAlreadyExists e
      | ErrIdentityNotProvisioned \<Rightarrow> NewError CodePermissionDenied e
      | ErrIdentityTaken \<Rightarrow> NewError CodeAlreadyExists e
      | ErrVersionConflict _ _ \<Rightarrow> NewError CodeAborted e
      | ErrLocked _ \<Rightarrow> NewError CodeFailedPrecondition e
      | ErrNamespaceLocked _ \<Rightarrow> NewError CodeFailedPrecondition e
      | ErrInvalidFormat _ \<Rightarrow> NewError CodeInvalidArgument e
      | ErrUnauthorized \<Rightarrow> NewError CodeUnauthenticated e
      | ErrForbidden \<Rightarrow> NewError CodePermissionDenied e
      | ErrPermissionEscalation \<Rightarrow> NewError CodePermissionDenied e
      | ErrSystemImmutable \<Rightarrow> NewError CodePermissionDenied e
      | ErrUserDeactivated \<Rightarrow> NewError CodePermissionDenied e
      | ErrSchemaValidation _ \<Rightarrow> schemaValidationConnectError e
      | ErrValidation _ _ \<Rightarrow> NewError CodeInvalidArgument e
      | _ \<Rightarrow> NewError CodeInternal e)"

section \<open>Page parameters\<close>

definition maxPaginationLimit :: int where "maxPaginationLimit = 10000"
definition maxPaginationOffset :: int where "maxPaginationOffset = 1000000"

definition NormalizeLimit :: "int \<Rightarrow> connectError + int64" where
  "NormalizeLimit limit =
     (if limit < 0 then Inl (NewError CodeInvalidArgument (ErrValidation ''limit'' ''must be non-negative''))
      else if limit > maxPaginationLimit
      then Inl (NewError CodeInvalidArgument (ErrValidation ''limit'' ''exceeds maximum allowed''))
      else Inr limit)"

definition NormalizeOffset :: "int \<Rightarrow> connectError + int64" where
  "NormalizeOffset offset =
     (if offset < 0 then Inl (NewError CodeInvalidArgument (ErrValidation ''offset'' ''must be non-negative''))
      else if offset > maxPaginationOffset
      then Inl (NewError CodeInvalidArgument (ErrValidation ''offset'' ''exceeds maximum allowed''))
      else Inr offset)"

datatype SortDirection = SORT_DIRECTION_UNSPECIFIED | SORT_DIRECTION_ASC | SORT_DIRECTION_DESC

record SortRequest =
  sq_Field :: string
  sq_Direction :: SortDirection

definition ProtoSortToDomain :: "SortRequest option \<Rightarrow> SortParams" where
  "ProtoSortToDomain s =
     (case s of
        None \<Rightarrow> \<lparr>sort_Field = [], sort_Desc = False\<rparr>
      | Some q \<Rightarrow> \<lparr>sort_Field = sq_Field q, sort_Desc = (sq_Direction q = SORT_DIRECTION_DESC)\<rparr>)"

section \<open>The session interceptor\<close>

text \<open>The headers of a request, with the cookies that \<^verbatim>\<open>net/http\<close> reads from them.\<close>

record header =
  hd_Authorization :: string
  hd_Cookies :: "(string \<times> string) list"

definition sessionCookieName :: string where "sessionCookieName = ''elara_session''"

definition passwordChangeAllowedProcedures :: "string list" where
  "passwordChangeAllowedProcedures =
     [''/elara.profile.v1.ProfileService/ChangePassword'', ''/elara.profile.v1.ProfileService/Logout'',
      ''/elara.profile.v1.ProfileService/Me'']"

record AuthInterceptor =
  ic_skipPermissions :: bool

definition extractSessionID :: "header \<Rightarrow> string" where
  "extractSessionID h =
     (if hasPrefix (hd_Authorization h) ''Bearer '' \<and> drop 7 (hd_Authorization h) \<noteq> []
      then drop 7 (hd_Authorization h)
      else case map_of (hd_Cookies h) sessionCookieName of None \<Rightarrow> [] | Some v \<Rightarrow> v)"

definition unauthenticatedError :: "err \<Rightarrow> connectError" where
  "unauthenticatedError e =
     NewError CodeUnauthenticated
       (case e of
          ErrSessionRevoked \<Rightarrow> ErrExternal ''session revoked''
        | ErrSessionExpired \<Rightarrow> ErrExternal ''session expired''
        | ErrSessionNotFound \<Rightarrow> ErrExternal ''session not found''
        | _ \<Rightarrow> ErrExternal ''unauthenticated'')"

definition bypassUser :: User where
  "bypassUser =
     \<lparr>usr_ID = uuidNil, usr_Email = ''local-admin@elara.internal'', usr_DisplayName = ''Local Admin'', usr_Picture = [],
      usr_Status = UserStatusActive, usr_Identities = [], usr_System = False, usr_CreatedAt = 0, usr_LastLoginAt = 0,
      usr_PasswordHash = [], usr_PasswordChangeRequired = False, usr_MembershipVersion = 0\<rparr>"

definition injectBypassUser ::
  "env \<Rightarrow> 'c uctx_scheme \<Rightarrow> 'z world_scheme \<Rightarrow> 'c uctx_scheme \<times> 'z world_scheme" where
  "injectBypassUser E c w =
     (let created = clock E (ticks w); now = clock E (Suc (ticks w)) in
      (WithSession c
         \<lparr>ses_ID = ''bypass-session'', ses_UserID = uuidNil, ses_ClientType = ClientTypeWeb, ses_IP = [], ses_UserAgent = [],
          ses_CreatedAt = created, ses_LastSeenAt = 0, ses_ExpiresAt = now + 3600 * second, ses_RevokedAt = None,
          ses_RevokedBy = []\<rparr> bypassUser,
       w\<lparr>ticks := Suc (Suc (ticks w))\<rparr>))"

definition sessionRejectOrBypass ::
  "env \<Rightarrow> AuthInterceptor \<Rightarrow> 'c uctx_scheme \<Rightarrow> connectError \<Rightarrow> 'z world_scheme
     \<Rightarrow> (connectError + 'c uctx_scheme) \<times> 'z world_scheme" where
  "sessionRejectOrBypass E i c e w =
     (if ic_skipPermissions i then (case injectBypassUser E c w of (c', w') \<Rightarrow> (Inr c', w')) else (Inl e, w))"

definition authenticateRequest ::
  "env \<Rightarrow> authlib \<Rightarrow> randomness \<Rightarrow> AuthInterceptor \<Rightarrow> 'c uctx_scheme \<Rightarrow> header \<Rightarrow> 'z rworld_scheme
     \<Rightarrow> (connectError + 'c uctx_scheme) \<times> 'z rworld_scheme" where
  "authenticateRequest E L R i c h w =
     (let sessionID = extractSessionID h; unauthorized = NewError CodeUnauthenticated ErrUnauthorized in
      if sessionID = [] then sessionRejectOrBypass E i c unauthorized w
      else
        case Sessions_Validate E sessionID w of
          (Inl e, w1) \<Rightarrow> sessionRejectOrBypass E i c (unauthenticatedError e) w1
        | (Inr sess, w1) \<Rightarrow>
            (case uuidParse L (ses_UserID sess) of
               None \<Rightarrow> sessionRejectOrBypass E i c unauthorized w1
             | Some uid \<Rightarrow>
                 (case User_GetByID L uid w1 of
                    Inl _ \<Rightarrow> sessionRejectOrBypass E i c unauthorized w1
                  | Inr user \<Rightarrow>
                      if usr_Status user \<noteq> UserStatusActive
                      then sessionRejectOrBypass E i c (NewError CodeUnauthenticated ErrUserDeactivated) w1
                      else
                        (case Sessions_Refresh E R c sessionID w1 of
                           (_, w2) \<Rightarrow> (Inr (WithSession c sess user), w2)))))"

definition checkPasswordChangeRequired :: "'c uctx_scheme \<Rightarrow> string \<Rightarrow> connectError + unit" where
  "checkPasswordChangeRequired c procedure =
     (case UserFromContext c of
        None \<Rightarrow> Inr ()
      | Some user \<Rightarrow>
          if usr_PasswordChangeRequired user \<and> \<not> List.member passwordChangeAllowedProcedures procedure
          then Inl (NewError CodePermissionDenied ErrPasswordChangeRequired) else Inr ())"

end
