(* ===== verification/UserProps.thy ===== *)
theory UserProps
  imports LoginProofs PolicyProps SessionProps Requests
begin

text \<open>The properties of the user directory, of logins and of the administration of users.\<close>

section \<open>Samples\<close>

text \<open>A library of identities: every text is its own normal form and UUID, a hash is its password with a mark.\<close>

definition sampleAuth :: authlib where
  "sampleAuth = \<lparr>nfkc = (\<lambda>s. s), uuidAt = (\<lambda>n. CHR ''u'' # replicate n CHR ''x''), uuidParse = Some,
     bcryptHash = (\<lambda>_ p. Inr (CHR ''h'' # p)), bcryptMatches = (\<lambda>h p. h = CHR ''h'' # p),
     mapRange = sorted_list_of_set\<rparr>"

lemma sampleAuth_documented: "authlib_documented sampleAuth"
  by (simp add: authlib_documented_def sampleAuth_def uuidNil_def)

definition sampleUser :: "bool \<Rightarrow> string \<Rightarrow> AuthUserMeta" where
  "sampleUser sys hash = \<lparr>umt_ID = ''u'', umt_Email = ''a@b'', umt_DisplayName = [], umt_Picture = [], umt_Status = UserStatusActive,
     umt_Identities = [\<lparr>idn_Provider = ProviderBasic, idn_Subject = ''a@b''\<rparr>], umt_System = sys, umt_CreatedAt = 1, umt_LastLoginAt = 0,
     umt_PasswordHash = hash, umt_PasswordChangeRequired = False, umt_MembershipVersion = 1\<rparr>"

definition basicKey :: bytes where "basicKey = identityKey \<lparr>idn_Provider = ProviderBasic, idn_Subject = ''a@b''\<rparr>"

definition userDB :: "bool \<Rightarrow> string \<Rightarrow> database" where
  "userDB sys hash = (buckets (sessionWorld None))(bucketUsers \<mapsto> [(''u'', JUser (sampleUser sys hash))],
     bucketIdentities \<mapsto> [(basicKey, Raw ''u'')], bucketEmails \<mapsto> [(''a@b'', Raw ''u'')],
     bucketGroups \<mapsto> [(''superadmin'', JGroup (sampleGroup\<lparr>gmt_Name := ''superadmin'', gmt_System := True\<rparr>))],
     bucketPolicy \<mapsto> [])"

definition userWorld :: "bool \<Rightarrow> string \<Rightarrow> (string list list \<times> string list list) pworld" where
  "userWorld sys hash = \<lparr>buckets = userDB sys hash, ticks = 5, draws = 0, cache = ([rootRule], []), txOps = []\<rparr>"

lemma userDB_dget:
  "dget (userDB sys hash) bucketUsers k = (if k = ''u'' then Some (JUser (sampleUser sys hash)) else None)"
  "dget (userDB sys hash) bucketIdentities k = (if k = basicKey then Some (Raw ''u'') else None)"
  "dget (userDB sys hash) bucketEmails k = (if k = ''a@b'' then Some (Raw ''u'') else None)"
  "dget (userDB sys hash) bucketSessions k = dget (buckets (sessionWorld None)) bucketSessions k"
  "dget (userDB sys hash) bucketSessionsByUser k = dget (buckets (sessionWorld None)) bucketSessionsByUser k"
  by (simp_all add: userDB_def dget_def bkt_def user_buckets bucketGroups_def bucketPolicy_def session_buckets)

lemma userDB_row: "userRow (userDB sys hash) k = (if k = ''u'' then Some (sampleUser sys hash) else None)"
  by (simp add: userRow_def userDB_dget)

lemma userDB_inv: "user_inv sampleAuth (userDB sys hash)"
  by (auto simp: user_inv_def indexes_def userDB_row userDB_dget emailKeys_def identKeys_def identityKeySet_def basicKey_def)
    (simp_all add: sampleUser_def sampleAuth_def)

lemma userDB_sessions: "session_inv (userDB sys hash)" "sessionRow (userDB sys hash) ''s1'' = Some (sampleSession None)"
proof -
  show "session_inv (userDB sys hash)"
    using sessionWorld_inv [of None] by (simp add: session_inv_def session_ok_def userDB_dget)
  show "sessionRow (userDB sys hash) ''s1'' = Some (sampleSession None)"
    using sessionWorld_row [of None] by (simp add: sessionRow_def userDB_dget)
qed

text \<open>Runs on the sample state: the user is deactivated, and the pass-through administrator is adopted.\<close>

definition offWorld :: "(string list list \<times> string list list) pworld" where
  "offWorld = (userWorld False ''hpw'')\<lparr>buckets := (userDB False ''hpw'')(bucketUsers \<mapsto>
     [(''u'', JUser ((sampleUser False ''hpw'')\<lparr>umt_Status := UserStatusDeactivated\<rparr>))])\<rparr>"

abbreviation inTx :: ctx where "inTx \<equiv> \<lparr>ctx_tx = Some True\<rparr>"

lemmas sample_store = userWorld_def userDB_def user_buckets bucketGroups_def bucketPolicy_def boltGet_def bucket_Get_def
  bindT_def readT_def returnT_def Let_def boltPut_def bucket_Put_def bucketWrite_def sampleEnv_def setBucket_def GetQuerier_def

lemma sample_email: "NormalizeEmail sampleEnv sampleAuth ''a@b'' = Inr ''a@b''"
  by code_simp

lemma sampleEnv_bolt: "bolt_begin_err sampleEnv wr = None" "bolt_commit_err sampleEnv d = None"
  by (simp_all add: sampleEnv_def)

lemma sample_update:
  "User_Update sampleEnv sampleAuth inTx ((userOf sampleAuth (sampleUser False ''hpw''))\<lparr>usr_Status := UserStatusDeactivated\<rparr>)
     (userWorld False ''hpw'') = (Inr (), offWorld)"
  by (simp add: User_Update_def loadUserRow_def sample_store userCodec_def offWorld_def reconcileIdentityIndex_def
     sampleUser_def AuthUserMetaToDomain_def sampleAuth_def identityKeySet_def reconcileEmailIndex_def DomainToAuthUserMeta_def)

lemma sample_revoke:
  "is_ok (fst (Sessions_RevokeAllForUser sampleEnv sampleRand inTx ''u'' ''root'' ''account deactivated'' offWorld))"
  by (simp add: Sessions_RevokeAllForUser_def Session_RevokeAllForUser_def timeNow_def Session_ListActiveByUser_def
      listByUserPrefix_def collectSessionIDsForUser_def bucket_ForEach_def indexIDs_def sessionWorld_def sessionByUserKey_def
      sessionByUserPrefix_def revokeSessionIfActive_def sessionCodec_def sampleSession_def SessionMetaToDomain_def NewEventID_def
      randRead_def sampleRand_def SessionEvent_Append_def whenErr_def SessionEvent_Validate_def SessionEventRevokedCascade_def
      session_buckets offWorld_def sample_store)

lemma sample_authorize:
  "authorizeUserWrite sampleEnv samplePDP root ''u'' (userWorld False ''hpw'') = Inr ()"
  "validateLastAdmin samplePDP ''u'' (userWorld False ''hpw'') = Inr ()"
  by (simp_all add: authorizeUserWrite_def RequireWriteUser_def HasGlobal_def Has_def samplePDP_def sampleCasbin_def userWorld_def
      rootRule_def root_def ruleGrants_def checkAntiEscalation_def ListPermissions_def sortSliceBy_def sampleEnv_def insertionOrder_def
      validateLastAdmin_def GroupMembers_def GetMembersOfGroup_def)

lemma sample_load: "UserService_GetByID sampleAuth ''u'' (userWorld sys hash) = (Inr (userOf sampleAuth (sampleUser sys hash)), userWorld sys hash)"
  by (simp add: UserService_GetByID_def mapErrT_Inr readT_def User_GetByID_def loadUserRow_def sample_store userCodec_def)

lemma sample_deactivate:
  obtains w' where "UserAdmin_Deactivate sampleEnv sampleAuth sampleRand samplePDP noTx root ''u'' (userWorld False ''hpw'') =
    (Inr ((userOf sampleAuth (sampleUser False ''hpw''))\<lparr>usr_Status := UserStatusDeactivated\<rparr>), w')"
proof -
  let ?u = "userOf sampleAuth (sampleUser False ''hpw'')"
  obtain w' where rev: "Sessions_RevokeAllForUser sampleEnv sampleRand inTx ''u'' ''root'' ''account deactivated'' offWorld = (Inr (), w')"
    using sample_revoke by (cases "Sessions_RevokeAllForUser sampleEnv sampleRand inTx ''u'' ''root'' ''account deactivated'' offWorld")
      (auto simp: is_ok_def split: sum.splits)
  have u: "usr_ID ?u = ''u''" "\<not> usr_System ?u" "usr_Status ?u \<noteq> UserStatusDeactivated" "ai_UserID root = ''root''"
    by (simp_all add: AuthUserMetaToDomain_def sampleUser_def sampleAuth_def UserStatusActive_def UserStatusDeactivated_def root_def)
  have load: "loadTarget sampleAuth ''u'' (userWorld False ''hpw'') = (Inr ?u, userWorld False ''hpw'')"
    by (simp add: loadTarget_Inr sample_load)
  have tr: "UserService_Deactivate sampleEnv sampleAuth inTx ''u'' (userWorld False ''hpw'') =
      (Inr (?u\<lparr>usr_Status := UserStatusDeactivated\<rparr>), offWorld)"
    by (simp add: UserService_Deactivate_def UserService_transitionStatus_def bindT_def sample_load readT_def User_Deactivate_def
        User_EnsureMutable_def u sample_update returnT_def)
  have "UserAdmin_Deactivate sampleEnv sampleAuth sampleRand samplePDP noTx root ''u'' (userWorld False ''hpw'') =
    (Inr (?u\<lparr>usr_Status := UserStatusDeactivated\<rparr>), w')"
    unfolding UserAdmin_Deactivate_def UserAdmin_transitionStatus_def
    by (simp add: WithTx_def runTx_def noTx_def sampleEnv_bolt bindT_def load u readT_def sample_authorize tr rev returnT_def)
  then show thesis by (rule that)
qed

section \<open>The directory\<close>

text \<open>
  C16. The user directory stays consistent: after any sequence of creations, deletions, status changes, password
  changes, membership changes, logins and bootstraps, with whatever engine failures and refusals, no two users share
  an email or an identity, and the lookups by id, by email and by identity return exactly the user that has it.
\<close>

theorem user_directory_consistent:
  assumes "(user_step L)\<^sup>*\<^sup>* w w'" "authlib_documented L" "user_inv L (buckets w)" "ctx_tx c = Some wr"
  shows "user_inv L (buckets w')
    \<and> (\<forall>k k' m m'. userRow (buckets w') k = Some m \<and> userRow (buckets w') k' = Some m'
          \<and> (umt_Email m \<noteq> [] \<and> umt_Email m' = umt_Email m \<or> set (umt_Identities m) \<inter> set (umt_Identities m') \<noteq> {}) \<longrightarrow> k = k')
    \<and> (\<forall>k m. userRow (buckets w') k = Some m \<longrightarrow>
          User_GetByID L k w' = Inr (AuthUserMetaToDomain (uuidParse L) m) \<and> usr_ID (AuthUserMetaToDomain (uuidParse L) m) = k
          \<and> (umt_Email m \<noteq> [] \<longrightarrow> fst (User_GetByEmail E L c (umt_Email m) w') = Inr (AuthUserMetaToDomain (uuidParse L) m))
          \<and> (\<forall>i \<in> set (umt_Identities m).
               fst (User_GetByIdentity E L c (idn_Provider i) (idn_Subject i) w') = Inr (AuthUserMetaToDomain (uuidParse L) m)))"
proof -
  have inv: "user_inv L (buckets w')" using assms(1-3) by (rule user_run_inv)
  note ix = user_inv_indexes [OF inv, THEN conjunct1] user_inv_indexes [OF inv, THEN conjunct2]
  have unique: "k = k'" if "userRow (buckets w') k = Some m" "userRow (buckets w') k' = Some m'"
    "umt_Email m \<noteq> [] \<and> umt_Email m' = umt_Email m \<or> set (umt_Identities m) \<inter> set (umt_Identities m') \<noteq> {}" for k k' m m'
    using that(3)
  proof
    assume "umt_Email m \<noteq> [] \<and> umt_Email m' = umt_Email m"
    then show ?thesis by (intro index_unique [OF ix(1) that(1,2), of "umt_Email m"]) (simp_all add: emailKeys_def)
  next
    assume "set (umt_Identities m) \<inter> set (umt_Identities m') \<noteq> {}"
    then obtain i where "i \<in> set (umt_Identities m)" "i \<in> set (umt_Identities m')" by blast
    then show ?thesis
      by (intro index_unique [OF ix(2) that(1,2), of "identityKey i"]) (simp_all add: identKeys_def identityKeySet_def)
  qed
  have email: "fst (User_GetByEmail E L c (umt_Email m) w') = Inr (userOf L m)"
    if "userRow (buckets w') k = Some m" "umt_Email m \<noteq> []" for k m
    using that assms(4) userByIndex_row(1) [OF inv ix(1), of "umt_Email m" "userOf L m"]
    by (auto simp: User_GetByEmail_def readT_def emailKeys_def)
  have ident: "fst (User_GetByIdentity E L c (idn_Provider i) (idn_Subject i) w') = Inr (userOf L m)"
    if "userRow (buckets w') k = Some m" "i \<in> set (umt_Identities m)" for k m i
    using that assms(4) userByIndex_row(1) [OF inv ix(2), of "identityKey i" "userOf L m"]
    by (auto simp: User_GetByIdentity_def readT_def identKeys_def identityKeySet_def identityKey_def)
  have byID: "User_GetByID L k w' = Inr (userOf L m) \<and> usr_ID (userOf L m) = k" if "userRow (buckets w') k = Some m" for k m
    using that AuthUserMetaToDomain_row [OF inv that] by (simp add: User_GetByID_row [OF inv])
  show ?thesis using inv unique email ident byID by blast
qed

theorem user_directory_consistent_witness:
  "\<exists>w'. user_step sampleAuth (userWorld False ''hpw'') w' \<and> user_inv sampleAuth (buckets w') \<and>
     fst (User_GetByEmail sampleEnv sampleAuth \<lparr>ctx_tx = Some True\<rparr> ''a@b'' (userWorld False ''hpw'')) =
       Inr (AuthUserMetaToDomain (uuidParse sampleAuth) (sampleUser False ''hpw''))"
proof -
  let ?w = "userWorld False ''hpw''" and ?c = "\<lparr>ctx_tx = Some True\<rparr>"
  obtain r w' where "UserAdmin_Deactivate sampleEnv sampleAuth sampleRand samplePDP noTx root ''u'' ?w = (r, w')" by fastforce
  then have step: "user_step sampleAuth ?w w'" by (rule user_step.deactivate [OF noTx_simps])
  have inv: "user_inv sampleAuth (buckets ?w)" by (simp add: userWorld_def userDB_inv)
  have c: "ctx_tx ?c = Some True" by simp
  have row: "userRow (buckets ?w) ''u'' = Some (sampleUser False ''hpw'')" by (simp add: userWorld_def userDB_row)
  have em: "umt_Email (sampleUser False ''hpw'') = ''a@b''" by (simp add: sampleUser_def)
  have "fst (User_GetByEmail sampleEnv sampleAuth ?c ''a@b'' ?w) =
      Inr (AuthUserMetaToDomain (uuidParse sampleAuth) (sampleUser False ''hpw''))"
    using user_directory_consistent [OF rtranclp.rtrancl_refl sampleAuth_documented inv c, of sampleEnv,
        THEN conjunct2, THEN conjunct2, rule_format, OF row, THEN conjunct2, THEN conjunct2, THEN conjunct1]
    unfolding em by simp
  moreover have "user_inv sampleAuth (buckets w')"
    using user_directory_consistent [OF r_into_rtranclp [of "user_step sampleAuth", OF step] sampleAuth_documented inv c] by blast
  ultimately show ?thesis using step by blast
qed

section \<open>Deactivation\<close>

text \<open>A request that the interceptor lets through carries an active user of the store and one of its live sessions.\<close>

lemma authenticateRequest_user:
  fixes w :: "'z rworld_scheme"
  assumes run: "authenticateRequest E L R i c h w = (Inr c1, w')" and enforced: "\<not> ic_skipPermissions i" and inv: "user_inv L (buckets w)"
  obtains k m s where "userRow (buckets w) k = Some m" "umt_Status m = UserStatusActive" "c1 = WithSession c s (userOf L m)"
    "fst (Sessions_Validate E (extractSessionID h) w) = Inr s" "uuidParse L (ses_UserID s) = Some k"
proof -
  from run enforced obtain s w1 k v where s: "Sessions_Validate E (extractSessionID h) w = (Inr s, w1)" "uuidParse L (ses_UserID s) = Some k"
    "User_GetByID L k w1 = Inr v" "usr_Status v = UserStatusActive" "c1 = WithSession c s v"
    by (auto simp: authenticateRequest_def sessionRejectOrBypass_def Let_def split: if_splits prod.splits sum.splits option.splits)
  have b: "buckets w1 = buckets w" using s(1) by (auto simp: Sessions_Validate_def timeNow_def Let_def bindT_def readT_def split: sum.splits prod.splits)
  obtain m where m: "userRow (buckets w) k = Some m" "v = userOf L m"
    using s(3) inv by (auto simp: User_GetByID_row b split: option.splits)
  show thesis by (rule that [OF m(1)]) (use s m userOf_row(2) [OF inv m(1)] in simp_all)
qed

text \<open>
  C37. Deactivating a user ends its access: when the call succeeds, the actor is someone else, the user is not the
  system user, every session the user had answers that it is revoked, no login, by password or by the identity
  provider, gives this user a session, and no request passes the session interceptor as this user.
\<close>

theorem deactivation_ends_access:
  fixes w :: "('m, 'z) pworld_scheme" and c :: "'c ctx_scheme"
  assumes "UserAdmin_Deactivate E L R p c actor k w = (Inr u, w')" "authlib_documented L" "user_inv L (buckets w)"
    and "session_inv (buckets w)"
  shows "ai_UserID actor \<noteq> k \<and> usr_ID u = k \<and> \<not> usr_System u \<and> usr_Status u = UserStatusDeactivated
    \<and> (\<forall>sid m. sessionRow (buckets w) sid = Some m \<and> smt_UserID m = k \<longrightarrow> fst (Sessions_Validate E' sid w') = Inl ErrSessionRevoked)
    \<and> (\<forall>params v s w''. BasicLogin E' L R' c' params w' = (Inr (v, s), w'') \<longrightarrow> usr_ID v \<noteq> k)
    \<and> (\<forall>params v s w''. Callback E' L R' ex c' params w' = (Inr (v, s), w'') \<longrightarrow> usr_ID v \<noteq> k)
    \<and> (\<forall>i h c1 w''. \<not> ic_skipPermissions i \<and> authenticateRequest E' L R' i c0 h w' = (Inr c1, w'') \<longrightarrow>
          (\<exists>v. UserFromContext c1 = Some v \<and> usr_ID v \<noteq> k))"
proof -
  from assms(1-3) obtain c1 :: "'c ctx_scheme" and m and w1 :: "('m, 'z) pworld_scheme" where D:
    "ai_UserID actor \<noteq> k" "userRow (buckets w) k = Some m" "\<not> umt_System m"
    "u = (userOf L m)\<lparr>usr_Status := UserStatusDeactivated\<rparr>" "usr_ID u = k"
    "rewritten L k (Some (DomainToAuthUserMeta u)) w w1"
    "Sessions_RevokeAllForUser E R c1 k (ai_UserID actor) ''account deactivated'' w1 = (Inr (), w')" by (rule UserAdmin_Deactivate_Inr)
  have inv': "user_inv L (buckets w')" and rows: "userRow (buckets w') = userRow (buckets w1)"
    using D(6) keeps_user_inv [OF view_sessions(1) D(7)] keeps_userRow [OF view_sessions(1) D(7)] by (simp_all add: rewritten_def)
  have off: "umt_Status m' = UserStatusDeactivated" if "userRow (buckets w') k = Some m'" for m'
    using that D(4,6) by (auto simp: rewritten_def rows DomainToAuthUserMeta_def)
  have same: "dget (buckets w1) n x = dget (buckets w) n x" if "n \<in> sessionNs" for n x
  proof -
    have "n \<notin> userNs" using that by (auto simp: ns_distinct)
    with D(6) show ?thesis unfolding rewritten_def by blast
  qed
  have eff: "sess_effect (buckets w) (buckets w1)" by (rule sess_effect_cong) (simp_all add: same)
  have sess: "fst (Sessions_Validate E' sid w') = Inl ErrSessionRevoked"
    if "sessionRow (buckets w) sid = Some ms" "smt_UserID ms = k" for sid ms
  proof -
    have "sessionRow (buckets w1) sid = Some ms" using that(1) by (simp add: sessionRow_def same)
    from RevokeAllForUser_rows [OF D(7) effect_keeps_inv [OF assms(4) eff] this that(2)] obtain m' where
      "sessionRow (buckets w') sid = Some m'" "smt_RevokedAt m' \<noteq> None" by blast
    then show ?thesis
      by (simp add: Sessions_Validate_row EnsureActive_def Session_IsActive_def SessionMetaToDomain_def)
  qed
  have basic: "usr_ID v \<noteq> k" if "BasicLogin E' L R' c' params w' = (Inr (v, s), w'')" for params v s w''
    using that inv'
  proof (rule BasicLogin_Inr)
    fix k1 m1 assume m1: "userRow (buckets w') k1 = Some m1" "v = userOf L m1" "umt_Status m1 = UserStatusActive"
    with userOf_row(1) [OF inv' m1(1)] off show "usr_ID v \<noteq> k"
      by (auto simp: UserStatusActive_def UserStatusDeactivated_def)
  qed
  have oidc: "usr_ID v \<noteq> k" if "Callback E' L R' ex c' params w' = (Inr (v, s), w'')" for params v s w''
    using that assms(2) inv'
    by (rule Callback_Inr) (use off in \<open>force simp: UserStatusActive_def UserStatusDeactivated_def\<close>)
  have request: "\<exists>v. UserFromContext c2 = Some v \<and> usr_ID v \<noteq> k"
    if "authenticateRequest E' L R' i c0 h w' = (Inr c2, w'')" "\<not> ic_skipPermissions i" for i h c2 w''
    using that inv' by (rule authenticateRequest_user)
      (use off userOf_row(1) [OF inv'] in \<open>auto simp: UserFromContext_def WithSession_def UserStatusActive_def UserStatusDeactivated_def\<close>)
  have "\<not> usr_System u" "usr_Status u = UserStatusDeactivated"
    using userOf_row [OF assms(3) D(2)] D(3) by (simp_all add: D(4))
  with D(1,5) sess basic oidc request show ?thesis by blast
qed

theorem deactivation_ends_access_witness:
  "\<exists>u w'. UserAdmin_Deactivate sampleEnv sampleAuth sampleRand samplePDP noTx root ''u'' (userWorld False ''hpw'') = (Inr u, w') \<and>
     fst (Sessions_Validate sampleEnv ''s1'' w') = Inl ErrSessionRevoked"
proof -
  obtain w' where run: "UserAdmin_Deactivate sampleEnv sampleAuth sampleRand samplePDP noTx root ''u'' (userWorld False ''hpw'') =
    (Inr ((userOf sampleAuth (sampleUser False ''hpw''))\<lparr>usr_Status := UserStatusDeactivated\<rparr>), w')" by (rule sample_deactivate)
  have b: "buckets (userWorld False ''hpw'') = userDB False ''hpw''" by (simp add: userWorld_def)
  have inv: "user_inv sampleAuth (buckets (userWorld False ''hpw''))" "session_inv (buckets (userWorld False ''hpw''))"
    by (simp_all add: b userDB_inv userDB_sessions)
  have row: "sessionRow (buckets (userWorld False ''hpw'')) ''s1'' = Some (sampleSession None) \<and> smt_UserID (sampleSession None) = ''u''"
    by (simp add: b userDB_sessions sampleSession_def)
  have "fst (Sessions_Validate sampleEnv ''s1'' w') = Inl ErrSessionRevoked"
    by (rule deactivation_ends_access [OF run sampleAuth_documented inv, THEN conjunct2, THEN conjunct2, THEN conjunct2,
          THEN conjunct2, THEN conjunct1, rule_format, OF row])
  with run show ?thesis by blast
qed

section \<open>Logins by the identity provider\<close>

text \<open>
  C20. A login by the identity provider cannot take over an account: when it succeeds the user is active and the
  session is the user's; either the user already owned the subject and keeps its identities, or it had no identity of the
  provider at all, the provider vouches for its email, and exactly this subject is added (the system user only if
  it had no identity). No other user changes.
\<close>

theorem callback_no_takeover:
  fixes w :: "'z rworld_scheme"
  assumes "Callback E L R ex c params w = (Inr (u, s), w')" "authlib_documented L" "user_inv L (buckets w)"
  shows "\<exists>ident m m'. ex (cbp_Code params) (cbp_Nonce params) = Inr ident
    \<and> userRow (buckets w) (usr_ID u) = Some m \<and> umt_Status m = UserStatusActive \<and> ses_UserID s = usr_ID u
    \<and> userRow (buckets w') = (userRow (buckets w))(usr_ID u \<mapsto> m')
    \<and> (identityKey \<lparr>idn_Provider = ProviderOIDC, idn_Subject = pi_Subject ident\<rparr> \<in> identityKeySet (umt_Identities m)
          \<and> umt_Identities m' = umt_Identities m
       \<or> pi_EmailVerified ident \<and> (\<exists>n. NormalizeEmail E L (pi_Email ident) = Inr n \<and> NormalizeEmail E L n = Inr (umt_Email m))
          \<and> (\<forall>i \<in> set (umt_Identities m). idn_Provider i \<noteq> ProviderOIDC) \<and> (umt_System m \<longrightarrow> umt_Identities m = [])
          \<and> umt_Identities m' = umt_Identities m @ [\<lparr>idn_Provider = ProviderOIDC, idn_Subject = pi_Subject ident\<rparr>])"
  using assms by (rule Callback_Inr) (unfold ownsSubject_def linkable_def identKeys_def, blast)

definition ssoAnn :: ProviderIdentity where
  "ssoAnn = \<lparr>pi_Subject = ''s'', pi_Email = ''a@b'', pi_EmailVerified = True, pi_Name = [], pi_Picture = [], pi_Groups = []\<rparr>"

definition ssoParams :: CallbackParams where
  "ssoParams = \<lparr>cbp_Code = ''c'', cbp_Nonce = ''n'', cbp_IP = [], cbp_UserAgent = []\<rparr>"

definition linkedUser :: AuthUserMeta where
  "linkedUser = (sampleUser False ''hpw'')\<lparr>umt_Identities := [\<lparr>idn_Provider = ProviderBasic, idn_Subject = ''a@b''\<rparr>,
     \<lparr>idn_Provider = ProviderOIDC, idn_Subject = ''s''\<rparr>]\<rparr>"

definition ssoKey :: bytes where "ssoKey = identityKey \<lparr>idn_Provider = ProviderOIDC, idn_Subject = ''s''\<rparr>"

definition linkedWorld :: "(string list list \<times> string list list) pworld" where
  "linkedWorld = (userWorld False ''hpw'')\<lparr>buckets := (userDB False ''hpw'')(bucketIdentities \<mapsto> [(basicKey, Raw ''u''), (ssoKey, Raw ''u'')],
     bucketUsers \<mapsto> [(''u'', JUser linkedUser)])\<rparr>"

lemma keys_sorted: "sorted_list_of_set {basicKey} = [basicKey]" "sorted_list_of_set {basicKey, ssoKey} = [basicKey, ssoKey]"
  by (simp_all add: basicKey_def ssoKey_def identityKey_def ProviderBasic_def ProviderOIDC_def)

lemma key_set: "identityKeySet [\<lparr>idn_Provider = ProviderBasic, idn_Subject = ''a@b''\<rparr>] = {basicKey}"
  "identityKeySet [\<lparr>idn_Provider = ProviderBasic, idn_Subject = ''a@b''\<rparr>, \<lparr>idn_Provider = ProviderOIDC, idn_Subject = ''s''\<rparr>] = {basicKey, ssoKey}"
  "basicKey \<noteq> ssoKey" "basicKey < ssoKey"
  by (simp_all add: identityKeySet_def basicKey_def ssoKey_def identityKey_def ProviderBasic_def ProviderOIDC_def)

lemma link_update: "User_Update sampleEnv sampleAuth inTx (userOf sampleAuth linkedUser) (userWorld False ''hpw'') = (Inr (), linkedWorld)"
  using key_set(3,4) key_set(3) [symmetric]
  by (simp add: User_Update_def loadUserRow_def sample_store userCodec_def linkedWorld_def reconcileIdentityIndex_def
     sampleUser_def linkedUser_def AuthUserMetaToDomain_def sampleAuth_def key_set keys_sorted reconcileEmailIndex_def DomainToAuthUserMeta_def)


definition seenWorld :: "(string list list \<times> string list list) pworld" where
  "seenWorld = linkedWorld\<lparr>ticks := 6, buckets := (buckets linkedWorld)(bucketUsers \<mapsto> [(''u'', JUser (linkedUser\<lparr>umt_LastLoginAt := 5\<rparr>))])\<rparr>"

lemma record_login: "RecordLogin sampleEnv sampleAuth inTx ''u'' linkedWorld =
    (Inr ((userOf sampleAuth linkedUser)\<lparr>usr_LastLoginAt := 5\<rparr>), seenWorld)"
  using key_set(3,4) key_set(3) [symmetric]
  by (simp add: RecordLogin_def UserService_GetByID_def mapErrT_def User_GetByID_def timeNow_def User_Update_def loadUserRow_def sample_store userCodec_def linkedWorld_def reconcileIdentityIndex_def
     sampleUser_def linkedUser_def AuthUserMetaToDomain_def sampleAuth_def key_set keys_sorted reconcileEmailIndex_def DomainToAuthUserMeta_def seenWorld_def)

lemma base64URL_nonempty: "b \<noteq> [] \<Longrightarrow> base64URL b \<noteq> []"
  by (cases b rule: base64URL.cases) simp_all

lemma login_session: "is_ok (fst (Sessions_Create sampleEnv sampleRand inTx (webSession ''u'' [] []) seenWorld))"
  by (simp add: Sessions_Create_def webSession_def NewSessionID_def NewEventID_def randRead_def sampleRand_def sample_store timeNow_def
     Session_Create_def whenErr_def SessionEvent_Append_def SessionEvent_Validate_def SessionEventCreated_def sessionWorld_def session_buckets seenWorld_def linkedWorld_def
     sessionCodec_def base64URL_nonempty sessionIDBytes_def)

lemma resolve: "resolveOIDCUser sampleEnv sampleAuth inTx ssoAnn (userWorld False ''hpw'') = (Inr (userOf sampleAuth linkedUser), linkedWorld)"
proof -
  let ?u = "userOf sampleAuth (sampleUser False ''hpw'')"
  have no: "UserService_GetByIdentity sampleEnv sampleAuth inTx ProviderOIDC ''s'' (userWorld False ''hpw'') =
    (Inl (ErrNotFound ''user identity'' ''oidc:s''), userWorld False ''hpw'')"
  proof -
    have "''oidc'' @ identitySep @ ''s'' \<noteq> basicKey" using key_set(3) by (simp add: ssoKey_def identityKey_def ProviderOIDC_def)
    then show ?thesis
      by (simp add: UserService_GetByIdentity_def mapErrT_def User_GetByIdentity_def userByIndex_def sample_store
          mapUserStorageErr_def NewNotFoundError_def ProviderOIDC_def)
  qed
  have em: "UserService_GetByEmail sampleEnv sampleAuth inTx ''a@b'' (userWorld False ''hpw'') = (Inr ?u, userWorld False ''hpw'')"
    unfolding UserService_GetByEmail_def sample_email sum.case
    by (simp add: mapErrT_Inr User_GetByEmail_def userByIndex_def sample_store User_GetByID_def loadUserRow_def userCodec_def
        rawBytes_def)
  have u: "usr_ID ?u = ''u''" "\<not> usr_System ?u" "usr_Identities ?u = [\<lparr>idn_Provider = ProviderBasic, idn_Subject = ''a@b''\<rparr>]"
     "?u\<lparr>usr_Identities := [\<lparr>idn_Provider = ProviderBasic, idn_Subject = ''a@b''\<rparr>, \<lparr>idn_Provider = ProviderOIDC, idn_Subject = ''s''\<rparr>]\<rparr> = userOf sampleAuth linkedUser"
    by (simp_all add: AuthUserMetaToDomain_def sampleUser_def sampleAuth_def linkedUser_def)
  have prov: "ProviderBasic \<noteq> ProviderOIDC" "ProviderOIDC \<noteq> ProviderBasic" by (simp_all add: ProviderBasic_def ProviderOIDC_def)
  show ?thesis
    by (simp add: resolveOIDCUser_def ssoAnn_def no linkOIDCByEmail_def sample_email bindT_def mapErrT_def em u prov Let_def
        NewIdentity_def LinkIdentity_def sample_load readT_def link_update returnT_def)
qed

lemma sample_callback:
  "is_ok (fst (Callback sampleEnv sampleAuth sampleRand (\<lambda>_ _. Inr ssoAnn) inTx ssoParams (userWorld False ''hpw'')))"
proof -
  have u: "usr_ID (userOf sampleAuth linkedUser) = ''u''" "usr_Status (userOf sampleAuth linkedUser) = UserStatusActive"
    by (simp_all add: AuthUserMetaToDomain_def linkedUser_def sampleUser_def sampleAuth_def)
  show ?thesis
    using login_session
    by (simp add: Callback_def ssoParams_def bindT_def readT_def resolve u record_login returnT_def is_ok_def split: sum.splits prod.splits)
      (metis fst_conv sum.distinct(1))
qed

theorem callback_no_takeover_witness:
  "\<exists>u s w'. Callback sampleEnv sampleAuth sampleRand (\<lambda>_ _. Inr ssoAnn) inTx ssoParams (userWorld False ''hpw'') = (Inr (u, s), w') \<and>
     ses_UserID s = usr_ID u"
proof -
  obtain u s w' where run: "Callback sampleEnv sampleAuth sampleRand (\<lambda>_ _. Inr ssoAnn) inTx ssoParams (userWorld False ''hpw'') = (Inr (u, s), w')"
    using sample_callback by (cases "Callback sampleEnv sampleAuth sampleRand (\<lambda>_ _. Inr ssoAnn) inTx ssoParams (userWorld False ''hpw'')")
      (auto simp: is_ok_def split: sum.splits)
  have inv: "user_inv sampleAuth (buckets (userWorld False ''hpw''))" by (simp add: userWorld_def userDB_inv)
  from callback_no_takeover [OF run sampleAuth_documented inv] run show ?thesis by blast
qed

section \<open>Bootstrap\<close>

lemma syncBasicIdentities_synced:
  "syncBasicIdentities i ids = (ids', changed) \<Longrightarrow> idn_Provider i = ProviderBasic \<Longrightarrow>
     \<exists>j \<in> set ids'. identityKey j = identityKey i"
  "syncBasicIdentities i ids = (ids', False) \<Longrightarrow> ids' = ids"
  by (induction ids arbitrary: ids') (auto simp: identityKey_def split: if_splits prod.splits)

lemma basic_admin_row:
  fixes w :: "'z rworld_scheme"
  assumes run: "ensureBasicAdminUser E L J c username pw w = (Inr (), w')" and sys: "UserService_GetSystemUser E L c w = (Inr u, w1)"
    and L: "authlib_documented L" and inv: "user_inv L (buckets w)" and row: "userRow (buckets w) (usr_ID u) = Some m" "u = userOf L m"
  obtains email m' where "NormalizeEmail E L username = Inr email" "user_inv L (buckets w')"
    "userRow (buckets w') (usr_ID u) = Some m'" "umt_PasswordHash m' = umt_PasswordHash m"
    "identityKey \<lparr>idn_Provider = ProviderBasic, idn_Subject = email\<rparr> \<in> identKeys m'"
proof -
  from run sys obtain i where i: "NewIdentity E L ProviderBasic username = Inr i"
    and go: "(case syncBasicIdentity u i of (user, synced) \<Rightarrow>
        bindT (if synced \<or> usr_Email user \<noteq> idn_Subject i then BootstrapSync E L c (user\<lparr>usr_Email := idn_Subject i\<rparr>)
        else returnT ()) (\<lambda>_. ensureMembership E J c (usr_ID user))) w1 = (Inr (), w')"
    by (auto simp: ensureBasicAdminUser_def bind_inversion readT_def findUser_def Let_def case_prod_unfold)
  obtain ids synced where sync: "syncBasicIdentities i (usr_Identities u) = (ids, synced)" by fastforce
  from go [unfolded syncBasicIdentity_def sync, simplified] obtain w2 where
    up: "(if synced \<or> usr_Email u \<noteq> idn_Subject i then BootstrapSync E L c (u\<lparr>usr_Identities := ids, usr_Email := idn_Subject i\<rparr>)
        else returnT ()) w1 = (Inr (), w2)" and mem: "ensureMembership E J c (usr_ID u) w2 = (Inr (), w')"
    by (auto simp: bind_inversion)
  have inv1: "user_inv L (buckets w1)" and row1: "userRow (buckets w1) (usr_ID u) = Some m"
    using inv row keeps_user_inv [OF view_lookups(7) sys] keeps_userRow [OF view_lookups(7) sys] by simp_all
  note r = userOf_row [OF inv row(1), folded row(2)]
  have norm: "NormalizeEmail E L username = Inr (idn_Subject i)" "i = \<lparr>idn_Provider = ProviderBasic, idn_Subject = idn_Subject i\<rparr>"
    using i by (auto simp: NewIdentity_def split: if_splits sum.splits)
  then have prov: "idn_Provider i = ProviderBasic" by (metis Identity.select_convs(1))
  have key: "identityKey i \<in> identityKeySet ids"
    using syncBasicIdentities_synced(1) [OF sync prov] unfolding identityKeySet_def by (metis image_eqI list.set_map)
  have "user_inv L (buckets w2) \<and> (\<exists>m'. userRow (buckets w2) (usr_ID u) = Some m' \<and> umt_PasswordHash m' = umt_PasswordHash m \<and>
      umt_Identities m' = ids)"
  proof (cases "synced \<or> usr_Email u \<noteq> idn_Subject i")
    case True
    with up obtain x wx where "UserService_GetByID L (usr_ID u) w1 = (Inr x, wx)"
      and wx: "User_Update E L c (u\<lparr>usr_Identities := ids, usr_Email := idn_Subject i\<rparr>) wx = (Inr (), w2)"
      by (auto simp: BootstrapSync_def bind_inversion split: if_splits)
    then have "wx = w1" using inv1 by (auto elim: GetByID_Inr)
    from Update_row [OF wx [unfolded this] L inv1] r show ?thesis by (simp add: rewritten_def DomainToAuthUserMeta_def)
  next
    case False
    with up sync have "w2 = w1" "ids = umt_Identities m" using syncBasicIdentities_synced(2) [of i "usr_Identities u" ids] r by auto
    with inv1 row1 show ?thesis by simp
  qed
  then obtain m' where m': "user_inv L (buckets w2)" "userRow (buckets w2) (usr_ID u) = Some m'"
    "umt_PasswordHash m' = umt_PasswordHash m" "umt_Identities m' = ids" by blast
  note frame = keeps_user_inv [OF view_ensureMembership mem] keeps_userRow [OF view_ensureMembership mem]
  show thesis
    using norm m' key by (intro that [of "idn_Subject i" m']) (simp_all add: frame identKeys_def)
qed

text \<open>
  C27. Switching an installation to password logins can lock the administrator out: when the system user was created
  without a password, by the bootstrap of the identity provider or of the pass-through mode, the bootstrap for passwords
  succeeds and gives it the configured name, but not the configured password, and no password whatever logs this name in.
\<close>

theorem basic_bootstrap_locks_out:
  fixes w :: "'z rworld_scheme"
  assumes run: "ensureBasicAdminUser E L J c username pw w = (Inr (), w')" and sys: "UserService_GetSystemUser E L c w = (Inr u, w1)"
    and L: "authlib_documented L" and inv: "user_inv L (buckets w)"
    and row: "userRow (buckets w) (usr_ID u) = Some m" "u = AuthUserMetaToDomain (uuidParse L) m" "umt_PasswordHash m = []"
    and name: "NormalizeEmail E' L (lp_Email params) = NormalizeEmail E L username"
  shows "\<nexists>v s. fst (BasicLogin E' L R c' params w') = Inr (v, s)"
proof -
  from run sys L inv row(1,2) obtain email m' where b: "NormalizeEmail E L username = Inr email" "user_inv L (buckets w')"
    "userRow (buckets w') (usr_ID u) = Some m'" "umt_PasswordHash m' = umt_PasswordHash m"
    "identityKey \<lparr>idn_Provider = ProviderBasic, idn_Subject = email\<rparr> \<in> identKeys m'" by (rule basic_admin_row)
  have no: False if "BasicLogin E' L R c' params w' = (Inr (v, s), w'')" for v s w''
    using that b(2)
  proof (rule BasicLogin_Inr)
    fix k1 m1 email1 assume "NormalizeEmail E' L (lp_Email params) = Inr email1" and m1: "userRow (buckets w') k1 = Some m1"
      "identityKey \<lparr>idn_Provider = ProviderBasic, idn_Subject = email1\<rparr> \<in> identKeys m1" "bcryptMatches L (umt_PasswordHash m1) (lp_Password params)"
    with name b(1) have e: "email1 = email" by simp
    have "k1 = usr_ID u"
      using index_unique [OF user_inv_indexes [OF b(2), THEN conjunct2] m1(1) b(3) m1(2) [unfolded e] b(5)] .
    with m1 b row(3) L show False by (simp add: authlib_documented_def)
  qed
  show ?thesis using no by (metis prod.collapse)
qed

lemma sample_system:
  "UserService_GetSystemUser sampleEnv sampleAuth inTx (userWorld True []) =
     (Inr (userOf sampleAuth (sampleUser True [])), userWorld True [])"
  by (simp add: UserService_GetSystemUser_def mapErrT_Inr GetSystemUser_def sample_store bucket_ForEach_def
     userCodec_def sampleUser_def)

lemma sample_bootstrap: "is_ok (fst (ensureBasicAdminUser sampleEnv sampleAuth sampleJson inTx ''a@b'' ''pw'' (userWorld True [])))"
proof -
  let ?u = "userOf sampleAuth (sampleUser True [])"
  have ident: "NewIdentity sampleEnv sampleAuth ProviderBasic ''a@b'' = Inr \<lparr>idn_Provider = ProviderBasic, idn_Subject = ''a@b''\<rparr>"
    by (simp add: NewIdentity_def sample_email)
  have sync: "syncBasicIdentity ?u \<lparr>idn_Provider = ProviderBasic, idn_Subject = ''a@b''\<rparr> = (?u, False)" "usr_Email ?u = ''a@b''"
    by (simp_all add: syncBasicIdentity_def AuthUserMetaToDomain_def sampleUser_def)
  have mem: "is_ok (fst (ensureMembership sampleEnv sampleJson inTx (usr_ID ?u) (userWorld True [])))"
    by (simp add: ensureMembership_def AddPolicyCtx_def Group_Get_def groupCodec_def sample_store SystemGroupSuperAdmin_def)
  show ?thesis
    using mem by (simp add: ensureBasicAdminUser_def bindT_def readT_def ident findUser_def sample_system sync returnT_def)
qed

theorem basic_bootstrap_locks_out_witness:
  "\<exists>w'. ensureBasicAdminUser sampleEnv sampleAuth sampleJson inTx ''a@b'' ''pw'' (userWorld True []) = (Inr (), w') \<and>
     (\<nexists>v s. fst (BasicLogin sampleEnv sampleAuth sampleRand noTx
       \<lparr>lp_Email = ''a@b'', lp_Password = ''pw'', lp_IP = [], lp_UserAgent = []\<rparr> w') = Inr (v, s))"
proof -
  let ?p = "\<lparr>lp_Email = ''a@b'', lp_Password = ''pw'', lp_IP = [], lp_UserAgent = []\<rparr>"
  let ?u = "userOf sampleAuth (sampleUser True [])"
  obtain w' where run: "ensureBasicAdminUser sampleEnv sampleAuth sampleJson inTx ''a@b'' ''pw'' (userWorld True []) = (Inr (), w')"
    using sample_bootstrap by (cases "ensureBasicAdminUser sampleEnv sampleAuth sampleJson inTx ''a@b'' ''pw'' (userWorld True [])")
      (auto simp: is_ok_def split: sum.splits)
  have b: "buckets (userWorld True []) = userDB True []" by (simp add: userWorld_def)
  have inv: "user_inv sampleAuth (buckets (userWorld True []))" by (simp add: b userDB_inv)
  have row: "userRow (buckets (userWorld True [])) (usr_ID ?u) = Some (sampleUser True [])" "umt_PasswordHash (sampleUser True []) = []"
    by (simp_all add: b userDB_row) (simp_all add: AuthUserMetaToDomain_def sampleUser_def sampleAuth_def)
  have name: "NormalizeEmail sampleEnv sampleAuth (lp_Email ?p) = NormalizeEmail sampleEnv sampleAuth ''a@b''" by simp
  from basic_bootstrap_locks_out [OF run sample_system sampleAuth_documented inv row(1) refl row(2) name] run show ?thesis by blast
qed

end
