(* ===== verification/ConfigListing.thy ===== *)
theory ConfigListing
  imports ConfigCrud Policies "HOL-Library.Multiset"
begin

text \<open>
  Reads of the config use case for the structured API: the directory listing \<^verbatim>\<open>service_list.go\<close>, the search
  \<^verbatim>\<open>service_search.go\<close> and the comparison of two revisions \<^verbatim>\<open>service_diff.go\<close>, with the helpers
  \<^verbatim>\<open>pathutil.Normalize\<close> and \<^verbatim>\<open>sliceutil.Paginate\<close>. The order in which Go iterates over a map is a parameter
  of the listing, and the unified diff of the difflib package one of the comparison. The listing of namespaces,
  \<^verbatim>\<open>src/internal/usecase/namespace/service_list.go\<close>, is here too, because it shares the caller's scope.
\<close>

section \<open>Helpers\<close>

definition pathNormalize :: "string \<Rightarrow> string" where
  "pathNormalize path =
     (if path = [] then ''/''
      else
        let path = (if \<not> hasPrefix path ''/'' then ''/'' @ path else path) in
        if hasSuffix path ''/'' then butlast path else path)"

text \<open>\<^verbatim>\<open>items[offset:end]\<close> panics when \<^verbatim>\<open>offset\<close> is negative or the wrapped end lies before it.\<close>

definition Paginate :: "'a list \<Rightarrow> int64 \<Rightarrow> int64 \<Rightarrow> err + 'a list" where
  "Paginate items offset limit =
     (let total = int (length items) in
      if offset \<ge> total then Ok []
      else
        let e = min (wrap64 (offset + limit)) total in
        if offset < 0 \<or> e < offset then Err (Panic ''slice bounds out of range'')
        else Ok (take (nat (e - offset)) (drop (nat offset) items)))"

section \<open>Directory listing\<close>

record ListParams =
  lp_Namespace :: string
  lp_Path :: string
  lp_Limit :: int64
  lp_Offset :: int64
  lp_Sort :: SortParams
  lp_Query :: string

record DirectoryEntry =
  de_Name :: string
  de_FullPath :: string
  de_IsFile :: bool
  de_Format :: Format
  de_Version :: int64
  de_Revision :: int64
  de_UpdatedAt :: time
  de_ChildCount :: int
  de_Locked :: bool
  de_NamespaceLocked :: bool

record folderInfo =
  fi_childCount :: int
  fi_latestTime :: time

text \<open>The zero value of \<^verbatim>\<open>time.Time\<close>, from which the model counts time.\<close>

definition zeroTime :: time where "zeroTime = 0"

definition emptyFolder :: folderInfo where
  "emptyFolder = \<lparr>fi_childCount = 0, fi_latestTime = zeroTime\<rparr>"

text \<open>The part before the first slash, and whether there is one: \<^verbatim>\<open>strings.SplitN(relative, "/", 2)\<close>.\<close>

definition firstPart :: "string \<Rightarrow> string \<times> bool" where
  "firstPart relative = (takeWhile (\<lambda>c. c \<noteq> CHR ''/'') relative, CHR ''/'' \<in> set relative)"

definition entryPath :: "string \<Rightarrow> string \<Rightarrow> string" where
  "entryPath pre name = (let full = pre @ name in if \<not> hasPrefix full ''/'' then ''/'' @ full else full)"

definition addChild :: "time \<Rightarrow> folderInfo \<Rightarrow> folderInfo" where
  "addChild at fi = \<lparr>fi_childCount = fi_childCount fi + 1,
     fi_latestTime = (if at > fi_latestTime fi then at else fi_latestTime fi)\<rparr>"

definition fileEntry :: "string \<Rightarrow> string \<Rightarrow> ConfigSummary \<Rightarrow> DirectoryEntry" where
  "fileEntry pre name s =
     \<lparr>de_Name = name, de_FullPath = entryPath pre name, de_IsFile = True, de_Format = sum_Format s,
      de_Version = sum_Version s, de_Revision = sum_Revision s, de_UpdatedAt = sum_UpdatedAt s,
      de_ChildCount = 0, de_Locked = sum_Locked s, de_NamespaceLocked = sum_NamespaceLocked s\<rparr>"

fun splitSummariesIntoFoldersAndFiles ::
  "ConfigSummary list \<Rightarrow> string \<Rightarrow> (string \<rightharpoonup> folderInfo) \<Rightarrow> string list \<Rightarrow> DirectoryEntry list
     \<Rightarrow> (string \<rightharpoonup> folderInfo) \<times> string list \<times> DirectoryEntry list" where
  "splitSummariesIntoFoldersAndFiles [] pre folders names files = (folders, names, files)"
| "splitSummariesIntoFoldersAndFiles (s # ss) pre folders names files =
     (let relative = trimPrefix (sum_Path s) pre in
      if relative = [] then splitSummariesIntoFoldersAndFiles ss pre folders names files
      else
        let (name, deeper) = firstPart relative in
        if deeper then
          (let fi = (case folders name of Some fi \<Rightarrow> fi | None \<Rightarrow> emptyFolder) in
           splitSummariesIntoFoldersAndFiles ss pre (folders(name \<mapsto> addChild (sum_UpdatedAt s) fi))
             (if folders name = None then names @ [name] else names) files)
        else splitSummariesIntoFoldersAndFiles ss pre folders names (files @ [fileEntry pre name s]))"

definition folderEntry :: "string \<Rightarrow> bool \<Rightarrow> string \<Rightarrow> folderInfo \<Rightarrow> DirectoryEntry" where
  "folderEntry pre nsLocked name fi =
     \<lparr>de_Name = name, de_FullPath = entryPath pre name, de_IsFile = False, de_Format = [], de_Version = 0,
      de_Revision = 0, de_UpdatedAt = fi_latestTime fi, de_ChildCount = fi_childCount fi, de_Locked = False,
      de_NamespaceLocked = nsLocked\<rparr>"

definition buildFolderEntries ::
  "(string list \<Rightarrow> string list) \<Rightarrow> (string \<rightharpoonup> folderInfo) \<Rightarrow> string list \<Rightarrow> string \<Rightarrow> bool \<Rightarrow> DirectoryEntry list" where
  "buildFolderEntries iter folders names pre nsLocked =
     List.map_filter (\<lambda>name. map_option (folderEntry pre nsLocked name) (folders name)) (iter names)"

definition entryLess :: "SortParams \<Rightarrow> DirectoryEntry \<Rightarrow> DirectoryEntry \<Rightarrow> bool" where
  "entryLess params a b =
     (if de_IsFile a \<noteq> de_IsFile b then \<not> de_IsFile a
      else
        let l = (if sort_Field params = ''modified'' then de_UpdatedAt a < de_UpdatedAt b else de_Name a < de_Name b)
        in if sort_Desc params then \<not> l else l)"

definition sortEntries :: "env \<Rightarrow> SortParams \<Rightarrow> DirectoryEntry list \<Rightarrow> DirectoryEntry list" where
  "sortEntries E params entries = sortSliceBy E (entryLess params) entries"

definition buildDirectoryEntries ::
  "env \<Rightarrow> (string list \<Rightarrow> string list) \<Rightarrow> ConfigSummary list \<Rightarrow> string \<Rightarrow> SortParams \<Rightarrow> DirectoryEntry list" where
  "buildDirectoryEntries E iter summaries pre sortParams =
     (case splitSummariesIntoFoldersAndFiles summaries pre Map.empty [] [] of
        (folders, names, files) \<Rightarrow>
          (let nsLocked = (case summaries of [] \<Rightarrow> False | s # _ \<Rightarrow> sum_NamespaceLocked s) in
           sortEntries E sortParams (buildFolderEntries iter folders names pre nsLocked @ files)))"

definition configListLimit :: int64 where "configListLimit = 20"

definition Service_List ::
  "env \<Rightarrow> (string list \<Rightarrow> string list) \<Rightarrow> 'c ctx_scheme \<Rightarrow> ListParams
     \<Rightarrow> (DirectoryEntry list \<times> int \<times> int64 \<times> int64, 'z world_scheme) op" where
  "Service_List E iter c params =
     (let path = pathNormalize (lp_Path params);
          pre = (if \<not> hasSuffix path ''/'' then path @ ''/'' else path)
      in
      bindT (ListSummariesByPrefix E c pre (lp_Namespace params)) (\<lambda>summaries.
      let entries = buildDirectoryEntries E iter summaries pre (lp_Sort params);
          entries = (if lp_Query params \<noteq> []
                     then filter (\<lambda>e. containsStr (toLower E (de_Name e)) (toLower E (lp_Query params))) entries
                     else entries);
          limit = (if lp_Limit params \<le> 0 then configListLimit else lp_Limit params)
      in
      bindT (readT (\<lambda>_. Paginate entries (lp_Offset params) limit)) (\<lambda>page.
      returnT (page, int (length entries), limit, lp_Offset params))))"

section \<open>Search\<close>

record SearchParams =
  sp_Query :: string
  sp_Namespace :: string
  sp_Limit :: int64
  sp_Offset :: int64
  sp_Sort :: SortParams

definition defaultSearchLimit :: int64 where "defaultSearchLimit = 20"

definition summaryLess :: "SortParams \<Rightarrow> ConfigSummary \<Rightarrow> ConfigSummary \<Rightarrow> bool" where
  "summaryLess params a b =
     (let l = (if sort_Field params = ''modified'' then sum_UpdatedAt a < sum_UpdatedAt b else sum_Path a < sum_Path b)
      in if sort_Desc params then \<not> l else l)"

definition sortSummaries :: "env \<Rightarrow> SortParams \<Rightarrow> ConfigSummary list \<Rightarrow> ConfigSummary list" where
  "sortSummaries E params summaries = sortSliceBy E (summaryLess params) summaries"

text \<open>The caller's identity is an argument, None when the context has none.\<close>

definition Service_Search ::
  "env \<Rightarrow> 'm pdp \<Rightarrow> 'm \<Rightarrow> AuthInfo option \<Rightarrow> 'c ctx_scheme \<Rightarrow> SearchParams
     \<Rightarrow> (ConfigSummary list \<times> int \<times> int64 \<times> int64, 'z world_scheme) op" where
  "Service_Search E p m info c params =
     (case info of
        None \<Rightarrow> failT ErrUnauthorized
      | Some i \<Rightarrow>
          (let limit = (if sp_Limit params \<le> 0 then defaultSearchLimit else sp_Limit params);
               scope = EffectiveNamespaces p m (ai_UserID i) ActionRead
           in if DomainSet_IsEmpty scope then returnT ([], 0, limit, sp_Offset params)
              else
                bindT (SearchByPath E c (sp_Query params) (sp_Namespace params)) (\<lambda>results.
                let results = sortSummaries E (sp_Sort params)
                      (filter (\<lambda>r. DomainSet_Contains scope (sum_Namespace r)) results)
                in
                bindT (readT (\<lambda>_. Paginate results (sp_Offset params) limit)) (\<lambda>page.
                returnT (page, int (length results), limit, sp_Offset params)))))"

section \<open>Namespaces\<close>

record NamespaceListInput =
  nli_Limit :: int64
  nli_Offset :: int64
  nli_Sort :: SortParams
  nli_Query :: string

definition namespaceListLimit :: int64 where "namespaceListLimit = 20"

fun populateConfigCounts :: "env \<Rightarrow> 'c ctx_scheme \<Rightarrow> Namespace list \<Rightarrow> (Namespace list, 'z world_scheme) op" where
  "populateConfigCounts E c [] = returnT []"
| "populateConfigCounts E c (ns # nss) =
     bindT (populateConfigCount E c ns) (\<lambda>ns.
     bindT (populateConfigCounts E c nss) (\<lambda>nss. returnT (ns # nss)))"

definition annotatePermissions :: "'m pdp \<Rightarrow> 'm \<Rightarrow> string \<Rightarrow> Namespace list \<Rightarrow> Namespace list" where
  "annotatePermissions p m callerID namespaces =
     map (\<lambda>ns. ns\<lparr>ns_CanRead := True, ns_CanWrite := HasNamespace p m callerID (ns_Name ns) ActionWrite\<rparr>) namespaces"

definition NamespaceService_List ::
  "env \<Rightarrow> 'm pdp \<Rightarrow> 'm \<Rightarrow> (string set \<Rightarrow> string list) \<Rightarrow> AuthInfo option \<Rightarrow> 'c ctx_scheme \<Rightarrow> NamespaceListInput
     \<Rightarrow> (Namespace list \<times> int \<times> int64 \<times> int64, 'z world_scheme) op" where
  "NamespaceService_List E p m iter info c params =
     (case info of
        None \<Rightarrow> failT ErrUnauthorized
      | Some i \<Rightarrow>
          (let limit = (if nli_Limit params \<le> 0 then namespaceListLimit else nli_Limit params);
               scope = EffectiveNamespaces p m (ai_UserID i) ActionRead
           in if DomainSet_IsEmpty scope then returnT ([], 0, limit, nli_Offset params)
              else
                bindT (Namespace_List E c
                        \<lparr>nf_Names = iter (ds_Explicit scope), nf_Wildcard = ds_Wildcard scope, nf_Search = nli_Query params\<rparr>
                        (nli_Offset params) limit (nli_Sort params)) (\<lambda>(namespaces, n).
                bindT (populateConfigCounts E c namespaces) (\<lambda>namespaces.
                returnT (annotatePermissions p m (ai_UserID i) namespaces, n, limit, nli_Offset params)))))"

section \<open>Comparison\<close>

record DiffInput =
  di_Namespace :: string
  di_Path :: string
  di_V1 :: int64
  di_V2 :: int64

record ConfigDiff =
  cdf_FromRevision :: int64
  cdf_ToRevision :: int64
  cdf_FromContent :: string
  cdf_ToContent :: string
  cdf_Diff :: string

definition validateDiff :: "string \<Rightarrow> string \<Rightarrow> int64 \<Rightarrow> int64 \<Rightarrow> err + unit" where
  "validateDiff path namespace fromRevision toRevision =
     (if path = [] then Err (ErrValidation ''path'' ''required'')
      else if namespace = [] then Err (ErrValidation ''namespace'' ''required'')
      else if toRevision = 0 then Err (ErrValidation ''to_revision'' ''must be greater than 0'')
      else if fromRevision > toRevision
        then Err (ErrValidation ''from_revision'' ''must not be greater than to_revision'')
      else Ok ())"

definition normalizeDiffContent :: "ext \<Rightarrow> string \<Rightarrow> string \<Rightarrow> err + string" where
  "normalizeDiffContent X path body =
     (if body = [] then Ok []
      else case Content_Normalize X body (DetectFormatFromPath path) of
             Inl e \<Rightarrow> (case e of ErrInvalidContent _ \<Rightarrow> Ok body | _ \<Rightarrow> Err e)
           | Inr normalized \<Rightarrow> Ok normalized)"

definition trimRightNewlines :: "string \<Rightarrow> string" where
  "trimRightNewlines s = rev (dropWhile (\<lambda>c. c = CHR 0x0A) (rev s))"

text \<open>The difflib package: the texts of both sides, their names and the number of context lines.\<close>

type_synonym unifiedDiff = "string \<Rightarrow> string \<Rightarrow> string \<Rightarrow> string \<Rightarrow> int \<Rightarrow> err + string"

definition diffContextLines :: int where "diffContextLines = 3"

definition Service_Diff ::
  "env \<Rightarrow> ext \<Rightarrow> unifiedDiff \<Rightarrow> 'c ctx_scheme \<Rightarrow> DiffInput \<Rightarrow> (ConfigDiff, 'z world_scheme) op" where
  "Service_Diff E X D c inp =
     bindT (whenErr (validateDiff (di_Path inp) (di_Namespace inp) (di_V1 inp) (di_V2 inp))) (\<lambda>_.
     bindT (mapErrT (mapStorageErr (di_Path inp)) (GetAtRevision E c (di_Path inp) (di_Namespace inp) (di_V2 inp))) (\<lambda>toEntry.
     bindT (if di_V1 inp > 0 then
              bindT (mapErrT (mapStorageErr (di_Path inp))
                       (GetAtRevision E c (di_Path inp) (di_Namespace inp) (di_V1 inp))) (\<lambda>fromEntry.
              bindT (readT (\<lambda>_. normalizeDiffContent X (di_Path inp) (he_Content fromEntry))) (\<lambda>body.
              returnT (body, he_Revision fromEntry)))
            else returnT ([], 0)) (\<lambda>(fromContent, fromRevision).
     bindT (readT (\<lambda>_. normalizeDiffContent X (di_Path inp) (he_Content toEntry))) (\<lambda>toContent.
     bindT (readT (\<lambda>_. D fromContent toContent (''revision '' @ itoa fromRevision)
                         (''revision '' @ itoa (he_Revision toEntry)) diffContextLines)) (\<lambda>unified.
     returnT \<lparr>cdf_FromRevision = fromRevision, cdf_ToRevision = he_Revision toEntry,
              cdf_FromContent = trimRightNewlines fromContent, cdf_ToContent = trimRightNewlines toContent,
              cdf_Diff = unified\<rparr>)))))"

section \<open>What the reads return\<close>

lemma sortSliceBy_mset:
  assumes "sort_documented E"
  shows "mset (sortSliceBy E lt xs) = mset xs"
proof -
  let ?is = "sortSlice E (length xs) (\<lambda>i j. lt (xs ! i) (xs ! j))"
  have "distinct ?is" "set ?is = {..<length xs}" using assms by (auto simp: sort_documented_def)
  then have "mset ?is = mset [0..<length xs]" by (metis atLeast_upt distinct_upt set_eq_iff_mset_eq_distinct)
  then have "mset (map ((!) xs) ?is) = mset (map ((!) xs) [0..<length xs])" by (metis mset_map)
  then show ?thesis by (simp add: sortSliceBy_def map_nth)
qed

lemma Paginate_subset: "Paginate items offset limit = Inr page \<Longrightarrow> set page \<subseteq> set items"
  by (auto simp: Paginate_def Let_def split: if_splits dest: in_set_takeD in_set_dropD)

text \<open>A search returns nothing from a namespace that the caller may not read.\<close>

lemma Service_Search_scoped:
  assumes "sort_documented E" "Service_Search E p m (Some i) c params w = (Inr (page, n, l, ofs), w')" "r \<in> set page"
  shows "DomainSet_Contains (EffectiveNamespaces p m (ai_UserID i) ActionRead) (sum_Namespace r)"
proof -
  let ?scope = "EffectiveNamespaces p m (ai_UserID i) ActionRead"
  have "\<exists>results. set page \<subseteq> set (sortSummaries E (sp_Sort params) (filter (\<lambda>r. DomainSet_Contains ?scope (sum_Namespace r)) results))"
    using assms(2) by (auto simp: Service_Search_def Let_def bind_inversion readT_def returnT_def split: if_splits dest!: Paginate_subset)
  then obtain results where "r \<in> set (sortSummaries E (sp_Sort params) (filter (\<lambda>r. DomainSet_Contains ?scope (sum_Namespace r)) results))"
    using assms(3) by blast
  then have "r \<in> set (filter (\<lambda>r. DomainSet_Contains ?scope (sum_Namespace r)) results)"
    unfolding sortSummaries_def mset_eq_setD [OF sortSliceBy_mset [OF assms(1)]] .
  then show ?thesis by simp
qed

text \<open>
  A directory listing accounts for every config below the path: the files are entries of their own, and the
  others are counted by the folder they are in.
\<close>

definition childSum :: "(string \<rightharpoonup> folderInfo) \<Rightarrow> string list \<Rightarrow> int" where
  "childSum folders names = sum_list (map (\<lambda>n. fi_childCount (the (folders n))) names)"

lemma childSum_update:
  "distinct names \<Longrightarrow> n \<in> set names \<Longrightarrow>
     childSum (folders(n \<mapsto> fi)) names = childSum folders names - fi_childCount (the (folders n)) + fi_childCount fi"
  "n \<notin> set names \<Longrightarrow> childSum (folders(n \<mapsto> fi)) names = childSum folders names"
proof -
  show other: "n \<notin> set names \<Longrightarrow> childSum (folders(n \<mapsto> fi)) names = childSum folders names" for names
    by (induction names) (auto simp: childSum_def)
  show "distinct names \<Longrightarrow> n \<in> set names \<Longrightarrow>
     childSum (folders(n \<mapsto> fi)) names = childSum folders names - fi_childCount (the (folders n)) + fi_childCount fi"
    using other by (induction names) (auto simp: childSum_def)
qed

lemma childSum_append: "childSum folders (names @ [n]) = childSum folders names + fi_childCount (the (folders n))"
  by (simp add: childSum_def)

lemma split_accounts:
  assumes "splitSummariesIntoFoldersAndFiles ss pre folders names files = (folders', names', files')"
    and "distinct names" "dom folders = set names"
  shows "distinct names' \<and> dom folders' = set names' \<and>
    childSum folders' names' + int (length files') =
    childSum folders names + int (length files) + int (length (filter (\<lambda>s. trimPrefix (sum_Path s) pre \<noteq> []) ss))"
  using assms
proof (induction ss arbitrary: folders names files)
  case (Cons s ss)
  let ?rel = "trimPrefix (sum_Path s) pre"
  obtain name deeper where part: "firstPart ?rel = (name, deeper)" by fastforce
  show ?case
  proof (cases "?rel \<noteq> [] \<and> deeper")
    case True
    let ?fi = "case folders name of Some fi \<Rightarrow> fi | None \<Rightarrow> emptyFolder"
    let ?folders = "folders(name \<mapsto> addChild (sum_UpdatedAt s) ?fi)"
    let ?names = "if folders name = None then names @ [name] else names"
    have run: "splitSummariesIntoFoldersAndFiles ss pre ?folders ?names files = (folders', names', files')"
      using Cons.prems(1) True part by (simp add: Let_def)
    have inv: "distinct ?names" "dom ?folders = set ?names" using Cons.prems(2,3) by auto
    have plus: "childSum ?folders ?names = childSum folders names + 1"
    proof (cases "folders name")
      case None
      then have "name \<notin> set names" using Cons.prems(3) by blast
      with None show ?thesis
        by (simp add: childSum_append childSum_update(2) addChild_def emptyFolder_def)
    next
      case (Some fi)
      then have "name \<in> set names" using Cons.prems(3) by blast
      with Some Cons.prems(2) show ?thesis by (simp add: childSum_update(1) addChild_def)
    qed
    show ?thesis using Cons.IH [OF run inv] True unfolding plus by simp
  next
    case False
    with Cons part show ?thesis by (auto simp: Let_def split: if_splits)
  qed
qed simp

end
