(* ===== verification/SchemaService.thy ===== *)
theory SchemaService
  imports SchemaProps NamespaceRepo Tokens
begin

text \<open>
  The schema use case, \<^verbatim>\<open>src/internal/usecase/schema\<close>: attaching and detaching JSON schemas, which a locked
  namespace refuses, and the lookups, with the use case's own choice of the best match.
\<close>

definition ensureNamespaceUnlocked :: "string \<Rightarrow> (unit, 'z world_scheme) op" where
  "ensureNamespaceUnlocked namespace =
     bindT (readT (Namespace_Get namespace)) (\<lambda>ns.
     whenErr (if ns_Locked ns then Err (ErrNamespaceLocked namespace) else Ok ()))"

text \<open>\<^verbatim>\<open>domain.ValidateJSONSchema\<close>; the text is the compiler's, without the step it came from.\<close>

definition ValidateJSONSchema :: "ext \<Rightarrow> string \<Rightarrow> err + unit" where
  "ValidateJSONSchema X schema =
     (case schemaCompile X schema of Inl msg \<Rightarrow> Err (ErrValidation ''json_schema'' msg) | Inr _ \<Rightarrow> Ok ())"

record AttachInput =
  ai_Namespace :: string
  ai_PathPattern :: string
  ai_JSONSchema :: string

definition SchemaService_Attach ::
  "env \<Rightarrow> ext \<Rightarrow> uuids \<Rightarrow> 'c ctx_scheme \<Rightarrow> AttachInput \<Rightarrow> (SchemaAttachment, 'z rworld_scheme) op" where
  "SchemaService_Attach E X U c inp =
     bindT (ensureNamespaceUnlocked (ai_Namespace inp)) (\<lambda>_.
     bindT (whenErr (ValidateJSONSchema X (ai_JSONSchema inp))) (\<lambda>_.
     bindT (uuidNew U) (\<lambda>aid.
     bindT (timeNow E) (\<lambda>now.
     Schema_Attach E c \<lparr>sa_ID = aid, sa_Namespace = ai_Namespace inp, sa_PathPattern = ai_PathPattern inp,
                        sa_JSONSchema = ai_JSONSchema inp, sa_CreatedAt = now\<rparr>))))"

definition mapSchemaErr :: "err \<Rightarrow> err" where
  "mapSchemaErr e = (case e of ErrResourceNotFound n \<Rightarrow> ErrNotFound ''schema'' n | _ \<Rightarrow> e)"

definition SchemaService_Detach ::
  "env \<Rightarrow> 'c ctx_scheme \<Rightarrow> string \<Rightarrow> string \<Rightarrow> (unit, 'z world_scheme) op" where
  "SchemaService_Detach E c namespace pathPattern =
     bindT (ensureNamespaceUnlocked namespace) (\<lambda>_.
     mapErrT mapSchemaErr (Schema_Detach E c namespace pathPattern))"

definition SchemaService_Get ::
  "string \<Rightarrow> string \<Rightarrow> (SchemaAttachment, 'z world_scheme) op" where
  "SchemaService_Get namespace pathPattern = mapErrT mapSchemaErr (readT (Schema_Get namespace pathPattern))"

fun effectiveLoop ::
  "ext \<Rightarrow> string \<Rightarrow> SchemaAttachment list \<Rightarrow> (SchemaAttachment \<times> int) option \<Rightarrow> (SchemaAttachment \<times> int) option" where
  "effectiveLoop X configPath [] best = best"
| "effectiveLoop X configPath (sa # sas) best =
     (case globCompile X (sa_PathPattern sa) of
        None \<Rightarrow> effectiveLoop X configPath sas best
      | Some g \<Rightarrow>
          if \<not> g configPath then effectiveLoop X configPath sas best
          else
            let score = specificity (sa_PathPattern sa) in
            effectiveLoop X configPath sas
              (case best of
                 None \<Rightarrow> Some (sa, score)
               | Some (b, bestScore) \<Rightarrow>
                   if score > bestScore \<or> score = bestScore \<and> sa_CreatedAt sa < sa_CreatedAt b
                   then Some (sa, score) else best))"

definition effectiveMatch :: "ext \<Rightarrow> SchemaAttachment list \<Rightarrow> string \<Rightarrow> SchemaAttachment option" where
  "effectiveMatch X schemas configPath = map_option fst (effectiveLoop X configPath schemas None)"

definition SchemaService_GetEffective ::
  "env \<Rightarrow> ext \<Rightarrow> 'c ctx_scheme \<Rightarrow> string \<Rightarrow> string \<Rightarrow> (SchemaAttachment option, 'z world_scheme) op" where
  "SchemaService_GetEffective E X c namespace path =
     bindT (Schema_List E c namespace) (\<lambda>schemas. returnT (effectiveMatch X schemas path))"

definition SchemaService_List ::
  "env \<Rightarrow> 'm pdp \<Rightarrow> 'm \<Rightarrow> AuthInfo option \<Rightarrow> 'c ctx_scheme \<Rightarrow> string \<Rightarrow> (SchemaAttachment list, 'z world_scheme) op" where
  "SchemaService_List E p m info c namespace =
     (case info of
        None \<Rightarrow> failT ErrUnauthorized
      | Some i \<Rightarrow>
          if \<not> HasNamespace p m (ai_UserID i) namespace ActionRead then returnT []
          else Schema_List E c namespace)"

section \<open>One choice of the schema\<close>

text \<open>
  The schema that the use case reports for a path is the one that the validator applies to it, although
  the validator goes through its caches.
\<close>

lemma effectiveLoop_bestMatch: "effectiveLoop X path sas best = bestMatch X path sas best"
  by (induction sas arbitrary: best)
    (auto simp: bestMatch_def betterMatch_def freshPattern_def Let_def split: option.splits)

lemma effectiveMatch_findBestMatch:
  assumes "cache_ok X sha S vc"
  shows "effectiveMatch X schemas path = fst (findBestMatch X schemas path vc)"
  using findBestMatchLoop_fresh [OF assms, of path schemas None]
  by (auto simp: effectiveMatch_def findBestMatch_def effectiveLoop_bestMatch)

lemma locked_namespace_refuses_schemas:
  assumes "Namespace_Get ns w = Inr n" "ns_Locked n"
  shows "SchemaService_Attach E X U c \<lparr>ai_Namespace = ns, ai_PathPattern = pat, ai_JSONSchema = js\<rparr> w = (Inl (ErrNamespaceLocked ns), w)"
    "SchemaService_Detach E c ns pat w = (Inl (ErrNamespaceLocked ns), w)"
  using assms
  by (simp_all add: SchemaService_Attach_def SchemaService_Detach_def ensureNamespaceUnlocked_def bindT_def readT_def whenErr_def)

end
