(* ===== verification/RingBuffer.thy ===== *)
theory RingBuffer
  imports Prelude
begin

text \<open>
  The bounded ring buffer \<^verbatim>\<open>src/internal/util/ringbuffer\<close> that the client monitor and the webhook dispatcher
  keep their histories in, and its contract: a buffer holds the newest entries, oldest first.
\<close>

section \<open>The buffer\<close>

record 'a Buffer =
  rb_capacity :: nat
  rb_items :: "'a list"
  rb_head :: nat
  rb_filled :: bool

text \<open>The array starts with the zero value \<open>z\<close> of its element type.\<close>

definition Buffer_New :: "'a \<Rightarrow> int \<Rightarrow> 'a Buffer" where
  "Buffer_New z capacity =
     (let n = nat (if capacity < 1 then 1 else capacity) in
      \<lparr>rb_capacity = n, rb_items = replicate n z, rb_head = 0, rb_filled = False\<rparr>)"

definition Buffer_Push :: "'a \<Rightarrow> 'a Buffer \<Rightarrow> 'a Buffer" where
  "Buffer_Push v r =
     (let h = (rb_head r + 1) mod rb_capacity r in
      r\<lparr>rb_items := (rb_items r)[rb_head r := v], rb_head := h, rb_filled := rb_filled r \<or> h = 0\<rparr>)"

definition Buffer_Snapshot :: "'a Buffer \<Rightarrow> 'a list" where
  "Buffer_Snapshot r =
     (if \<not> rb_filled r then take (rb_head r) (rb_items r)
      else drop (rb_head r) (rb_items r) @ take (rb_head r) (rb_items r))"

definition Buffer_Len :: "'a Buffer \<Rightarrow> nat" where
  "Buffer_Len r = (if rb_filled r then rb_capacity r else rb_head r)"

section \<open>The contract\<close>

definition newest :: "nat \<Rightarrow> 'a list \<Rightarrow> 'a list" where
  "newest n xs = drop (length xs - n) xs"

lemma newest_append: "newest n (newest n xs @ [v]) = newest n (xs @ [v])"
  by (cases "length xs \<le> n") (auto simp: newest_def Suc_diff_le)

text \<open>A log that keeps the newest \<open>size\<close> entries, as its clients see it.\<close>

locale recent_log =
  fixes inv :: "'b \<Rightarrow> bool" and size_of :: "'b \<Rightarrow> nat" and push :: "'a \<Rightarrow> 'b \<Rightarrow> 'b" and entries :: "'b \<Rightarrow> 'a list"
  assumes push_inv: "inv b \<Longrightarrow> inv (push v b)"
    and push_size: "inv b \<Longrightarrow> size_of (push v b) = size_of b"
    and push_entries: "inv b \<Longrightarrow> entries (push v b) = newest (size_of b) (entries b @ [v])"
begin

lemma run:
  assumes "inv b"
  shows "inv (fold push vs b) \<and> size_of (fold push vs b) = size_of b"
  using assms by (induction vs arbitrary: b) (auto simp: push_inv push_size)

lemma entries_run:
  assumes "inv b"
  shows "entries (fold push (vs @ [v]) b) = newest (size_of b) (entries (fold push vs b) @ [v])"
  using run [OF assms, of vs] by (simp add: push_entries)

lemma keeps_newest:
  assumes "inv b" "entries b = []"
  shows "entries (fold push vs b) = newest (size_of b) vs"
proof (induction vs rule: rev_induct)
  case Nil
  with assms show ?case by (simp add: newest_def)
next
  case (snoc v vs)
  then show ?case using entries_run [OF assms(1), of vs v] by (simp add: newest_append)
qed

end

section \<open>The buffer meets it\<close>

definition buffer_inv :: "'a Buffer \<Rightarrow> bool" where
  "buffer_inv r \<longleftrightarrow> rb_head r < rb_capacity r \<and> length (rb_items r) = rb_capacity r"

lemma Push_inv: "buffer_inv r \<Longrightarrow> buffer_inv (Buffer_Push v r)"
  by (simp add: buffer_inv_def Buffer_Push_def Let_def)

lemma Push_entries:
  assumes "buffer_inv r"
  shows "Buffer_Snapshot (Buffer_Push v r) = newest (rb_capacity r) (Buffer_Snapshot r @ [v])"
proof -
  let ?h = "rb_head r" and ?n = "rb_capacity r" and ?xs = "rb_items r"
  have h: "?h < ?n" "length ?xs = ?n" using assms by (simp_all add: buffer_inv_def)
  have put: "?xs[?h := v] = take ?h ?xs @ v # drop (Suc ?h) ?xs" using h by (simp add: upd_conv_take_nth_drop)
  show ?thesis
  proof (cases "Suc ?h = ?n")
    case True
    with h put show ?thesis
      by (auto simp: Buffer_Snapshot_def Buffer_Push_def Let_def newest_def)
  next
    case False
    with h have m: "Suc ?h mod ?n = Suc ?h" "Suc ?h < ?n" by auto
    have cut: "drop ?h ?xs = ?xs ! ?h # drop (Suc ?h) ?xs" using h by (simp add: Cons_nth_drop_Suc)
    have "length (drop ?h ?xs @ take ?h ?xs @ [v]) = Suc ?n" using h by simp
    then have "newest ?n (drop ?h ?xs @ take ?h ?xs @ [v]) = drop (Suc ?h) ?xs @ take ?h ?xs @ [v]"
      by (simp only: newest_def) (simp add: cut)
    then show ?thesis using h m
      by (auto simp: Buffer_Snapshot_def Buffer_Push_def Let_def put newest_def)
  qed
qed

interpretation ring: recent_log buffer_inv rb_capacity Buffer_Push Buffer_Snapshot
proof unfold_locales
  show "rb_capacity (Buffer_Push v r) = rb_capacity r" for v and r :: "'a Buffer"
    by (simp add: Buffer_Push_def Let_def)
qed (simp_all add: Push_inv Push_entries)

lemma Buffer_newest:
  "Buffer_Snapshot (fold Buffer_Push vs (Buffer_New z capacity)) = newest (nat (max 1 capacity)) vs"
proof -
  have "buffer_inv (Buffer_New z capacity)" "Buffer_Snapshot (Buffer_New z capacity) = []"
    "rb_capacity (Buffer_New z capacity) = nat (max 1 capacity)"
    by (auto simp: buffer_inv_def Buffer_New_def Buffer_Snapshot_def Let_def)
  then show ?thesis using ring.keeps_newest by metis
qed

lemma Buffer_Len_Snapshot: "buffer_inv r \<Longrightarrow> Buffer_Len r = length (Buffer_Snapshot r)"
  by (auto simp: buffer_inv_def Buffer_Len_def Buffer_Snapshot_def)

end
