(* ===== verification/ClientMonitor.thy ===== *)
theory ClientMonitor
  imports EtcdWatch RingBuffer Emails Sessions
begin

text \<open>
  The monitor of connected clients, \<^verbatim>\<open>src/internal/service/monitor\<close>: the publisher of changes, the registry of connections
  with their counters, recent events and open watches, and the gRPC statistics handler that drives it
  (\<^verbatim>\<open>src/internal/transport/grpc/stats_handler.go\<close>). The order in which Go ranges over a map is the parameter \<open>goRange\<close>.
\<close>

section \<open>Decimal numbers\<close>

text \<open>\<^verbatim>\<open>strconv.FormatInt(i, 10)\<close>.\<close>

fun showNat :: "nat \<Rightarrow> string" where
  "showNat n = (if n < 10 then [char_of (48 + n)] else showNat (n div 10) @ [char_of (48 + n mod 10)])"

definition FormatInt :: "int64 \<Rightarrow> string" where
  "FormatInt i = (if i < 0 then CHR ''-'' # showNat (nat (- i)) else showNat (nat i))"

section \<open>The domain\<close>

record ConnectionInfo =
  ci_PeerAddress :: string
  ci_UserAgent :: string
  ci_ClientName :: string
  ci_ClientVersion :: string
  ci_K8sNamespace :: string
  ci_K8sPod :: string
  ci_K8sNode :: string
  ci_InstanceID :: string

record Client =
  cln_ID :: string
  cln_PeerAddress :: string
  cln_UserAgent :: string
  cln_ClientName :: string
  cln_ClientVersion :: string
  cln_K8sNamespace :: string
  cln_K8sPod :: string
  cln_K8sNode :: string
  cln_InstanceID :: string
  cln_ConnectedAt :: time
  cln_DisconnectedAt :: "time option"
  cln_LastActivityAt :: time
  cln_ActiveWatches :: int
  cln_ActiveWatchList :: "ActiveWatch list"
  cln_RequestCounts :: "(string \<times> int64) list"
  cln_ErrorCount :: int64

definition Client_IsActive :: "Client \<Rightarrow> bool" where
  "Client_IsActive c \<longleftrightarrow> cln_DisconnectedAt c = None"

record ClientEvent =
  cev_Timestamp :: time
  cev_Method :: string
  cev_Key :: string
  cev_Revision :: int64
  cev_Duration :: int64
  cev_Error :: "err option"

datatype ClientChangeKind = ClientConnected | ClientDisconnected | ClientActivity | ClientRequestRecorded

record ClientChange =
  cch_Kind :: ClientChangeKind
  cch_Client :: Client
  cch_Event :: "ClientEvent option"

section \<open>The publisher\<close>

text \<open>
  A channel is the list of the changes it buffers. A subscription that was cleaned up, or closed by the shutdown, leaves the map;
  its closed channel keeps what was not yet received.
\<close>

record clientPublisher =
  cp_bufferSize :: nat
  cp_subs :: "(int \<times> ClientChange list) list"
  cp_closed :: "(int \<times> ClientChange list) list"
  cp_nextID :: int
  cp_stopped :: bool

definition newPublisher :: "int \<Rightarrow> clientPublisher" where
  "newPublisher bufferSize =
     \<lparr>cp_bufferSize = nat (if bufferSize < 1 then 1 else bufferSize), cp_subs = [], cp_closed = [], cp_nextID = 0,
      cp_stopped = False\<rparr>"

text \<open>The id of the new subscription; None for the closed channel of a stopped publisher.\<close>

definition publisher_subscribe :: "clientPublisher \<Rightarrow> int option \<times> clientPublisher" where
  "publisher_subscribe p =
     (if cp_stopped p then (None, p)
      else
        let sid = wrap64 (cp_nextID p + 1) in
        (Some sid, p\<lparr>cp_nextID := sid, cp_subs := AList.update sid [] (cp_subs p)\<rparr>))"

definition publisher_cleanup :: "int \<Rightarrow> clientPublisher \<Rightarrow> clientPublisher" where
  "publisher_cleanup sid p =
     (case map_of (cp_subs p) sid of
        None \<Rightarrow> p
      | Some ch \<Rightarrow> p\<lparr>cp_subs := AList.delete sid (cp_subs p), cp_closed := AList.update sid ch (cp_closed p)\<rparr>)"

definition publisher_publish :: "ClientChange \<Rightarrow> clientPublisher \<Rightarrow> clientPublisher" where
  "publisher_publish change p =
     p\<lparr>cp_subs := map (\<lambda>(sid, ch). (sid, if length ch < cp_bufferSize p then ch @ [change] else ch)) (cp_subs p)\<rparr>"

definition publisher_shutdown :: "clientPublisher \<Rightarrow> clientPublisher" where
  "publisher_shutdown p =
     p\<lparr>cp_stopped := True, cp_subs := [],
       cp_closed := fold (\<lambda>(sid, ch). AList.update sid ch) (cp_subs p) (cp_closed p)\<rparr>"

section \<open>The registry\<close>

definition defaultRecentEventsCapacity :: int where "defaultRecentEventsCapacity = 100"
definition defaultPublisherBuffer :: int where "defaultPublisherBuffer = 256"
definition defaultActivityThrottle :: int64 where "defaultActivityThrottle = 500 * 1000000"

record monitorConfig =
  mc_RecentEventsCapacity :: int
  mc_ActivityThrottle :: int64
  mc_DisableActivityEvents :: bool

definition monitor_withDefaults :: "monitorConfig \<Rightarrow> monitorConfig" where
  "monitor_withDefaults c =
     c\<lparr>mc_RecentEventsCapacity :=
         (if mc_RecentEventsCapacity c \<le> 0 then defaultRecentEventsCapacity else mc_RecentEventsCapacity c),
       mc_ActivityThrottle := (if mc_ActivityThrottle c \<le> 0 then defaultActivityThrottle else mc_ActivityThrottle c)\<rparr>"

text \<open>The entry of a connection: the watches of \<^typ>\<open>clientEntry\<close>, the identity, the counters and the events.\<close>

record monitorEntry = clientEntry +
  me_id :: string
  me_peer :: string
  me_connectedAt :: time
  me_ident :: ConnectionInfo
  me_identSet :: bool
  me_lastActivityNanos :: int64
  me_errorCount :: int64
  me_counters :: "(string \<times> int64) list"
  me_events :: "ClientEvent Buffer"
  me_lastActivityEventNanos :: int64
  me_pub :: "clientPublisher option"

text \<open>The registry, with the snapshots it has handed to the history sink.\<close>

record Registry =
  rg_cfg :: monitorConfig
  rg_clients :: "(string \<times> monitorEntry) list"
  rg_nextID :: int64
  rg_pub :: clientPublisher
  rg_history :: "Client list"

record goRange =
  gr_clients :: "string set \<Rightarrow> string list"
  gr_watches :: "int64 set \<Rightarrow> int64 list"

definition goRange_documented :: "goRange \<Rightarrow> bool" where
  "goRange_documented G \<longleftrightarrow>
     (\<forall>X. finite X \<longrightarrow> set (gr_clients G X) = X \<and> distinct (gr_clients G X)) \<and>
     (\<forall>X. finite X \<longrightarrow> set (gr_watches G X) = X \<and> distinct (gr_watches G X))"

definition NewRegistry :: "monitorConfig \<Rightarrow> Registry" where
  "NewRegistry cfg =
     \<lparr>rg_cfg = monitor_withDefaults cfg, rg_clients = [], rg_nextID = 0, rg_pub = newPublisher defaultPublisherBuffer,
      rg_history = []\<rparr>"

definition lookup :: "Registry \<Rightarrow> string \<Rightarrow> monitorEntry option" where
  "lookup r connID = map_of (rg_clients r) connID"

definition setEntry :: "string \<Rightarrow> monitorEntry \<Rightarrow> Registry \<Rightarrow> Registry" where
  "setEntry connID e r = r\<lparr>rg_clients := AList.update connID e (rg_clients r)\<rparr>"

definition hasIdentity :: "ConnectionInfo \<Rightarrow> bool" where
  "hasIdentity info \<longleftrightarrow>
     ci_UserAgent info \<noteq> [] \<or> ci_ClientName info \<noteq> [] \<or> ci_ClientVersion info \<noteq> [] \<or> ci_K8sNamespace info \<noteq> [] \<or>
     ci_K8sPod info \<noteq> [] \<or> ci_K8sNode info \<noteq> [] \<or> ci_InstanceID info \<noteq> []"

text \<open>The address of the peer is no part of the identity.\<close>

definition applyIdentity :: "ConnectionInfo \<Rightarrow> monitorEntry \<Rightarrow> monitorEntry" where
  "applyIdentity info e = e\<lparr>me_ident := info\<lparr>ci_PeerAddress := ci_PeerAddress (me_ident e)\<rparr>, me_identSet := True\<rparr>"

definition incCounter :: "string \<Rightarrow> monitorEntry \<Rightarrow> monitorEntry" where
  "incCounter method e =
     e\<lparr>me_counters := AList.update method
        (wrap64 ((case map_of (me_counters e) method of None \<Rightarrow> 0 | Some n \<Rightarrow> n) + 1)) (me_counters e)\<rparr>"

definition toDomain :: "goRange \<Rightarrow> monitorEntry \<Rightarrow> Client" where
  "toDomain G e =
     \<lparr>cln_ID = me_id e, cln_PeerAddress = me_peer e, cln_UserAgent = ci_UserAgent (me_ident e),
      cln_ClientName = ci_ClientName (me_ident e), cln_ClientVersion = ci_ClientVersion (me_ident e),
      cln_K8sNamespace = ci_K8sNamespace (me_ident e), cln_K8sPod = ci_K8sPod (me_ident e),
      cln_K8sNode = ci_K8sNode (me_ident e), cln_InstanceID = ci_InstanceID (me_ident e),
      cln_ConnectedAt = me_connectedAt e, cln_DisconnectedAt = None, cln_LastActivityAt = me_lastActivityNanos e,
      cln_ActiveWatches = ce_activeWatches e,
      cln_ActiveWatchList = map (the \<circ> map_of (ce_watches e)) (gr_watches G (set (map fst (ce_watches e)))),
      cln_RequestCounts = me_counters e, cln_ErrorCount = me_errorCount e\<rparr>"

definition emptyInfo :: ConnectionInfo where
  "emptyInfo =
     \<lparr>ci_PeerAddress = [], ci_UserAgent = [], ci_ClientName = [], ci_ClientVersion = [], ci_K8sNamespace = [], ci_K8sPod = [],
      ci_K8sNode = [], ci_InstanceID = []\<rparr>"

definition emptyEvent :: ClientEvent where
  "emptyEvent = \<lparr>cev_Timestamp = 0, cev_Method = [], cev_Key = [], cev_Revision = 0, cev_Duration = 0, cev_Error = None\<rparr>"

definition publishGlobal :: "ClientChangeKind \<Rightarrow> Client \<Rightarrow> Registry \<Rightarrow> Registry" where
  "publishGlobal kind c r =
     r\<lparr>rg_pub := publisher_publish \<lparr>cch_Kind = kind, cch_Client = c, cch_Event = None\<rparr> (rg_pub r)\<rparr>"

definition RegisterConnection ::
  "goRange \<Rightarrow> ConnectionInfo \<Rightarrow> time \<Rightarrow> Registry \<Rightarrow> string \<times> Registry" where
  "RegisterConnection G info now r =
     (let n = wrap64 (rg_nextID r + 1);
          connID = ''conn-'' @ FormatInt n;
          e0 = \<lparr>ce_watches = [], ce_activeWatches = 0, me_id = connID, me_peer = ci_PeerAddress info, me_connectedAt = now,
                me_ident = emptyInfo, me_identSet = False, me_lastActivityNanos = now, me_errorCount = 0,
                me_counters = [], me_events = Buffer_New emptyEvent (mc_RecentEventsCapacity (rg_cfg r)),
                me_lastActivityEventNanos = 0, me_pub = None\<rparr>;
          e = (if hasIdentity info then applyIdentity info e0 else e0)
      in (connID, publishGlobal ClientConnected (toDomain G e) (setEntry connID e (r\<lparr>rg_nextID := n\<rparr>))))"

definition UpdateIdentity :: "string \<Rightarrow> ConnectionInfo \<Rightarrow> Registry \<Rightarrow> Registry" where
  "UpdateIdentity connID info r =
     (case lookup r connID of
        None \<Rightarrow> r
      | Some e \<Rightarrow> if \<not> me_identSet e then setEntry connID (applyIdentity info e) r else r)"

text \<open>The closing of a connection: the entry is gone, and its publisher with it.\<close>

definition UnregisterConnection :: "goRange \<Rightarrow> string \<Rightarrow> time \<Rightarrow> Registry \<Rightarrow> clientPublisher option \<times> Registry" where
  "UnregisterConnection G connID now r =
     (case lookup r connID of
        None \<Rightarrow> (None, r)
      | Some e \<Rightarrow>
          (let snap = (toDomain G e)\<lparr>cln_DisconnectedAt := Some now\<rparr>;
               change = \<lparr>cch_Kind = ClientDisconnected, cch_Client = snap, cch_Event = None\<rparr>
           in (map_option (\<lambda>p. publisher_shutdown (publisher_publish change p)) (me_pub e),
               publishGlobal ClientDisconnected snap
                 (r\<lparr>rg_clients := AList.delete connID (rg_clients r), rg_history := rg_history r @ [snap]\<rparr>))))"

definition maybePublishActivity :: "goRange \<Rightarrow> string \<Rightarrow> time \<Rightarrow> Registry \<Rightarrow> Registry" where
  "maybePublishActivity G connID now r =
     (case lookup r connID of
        None \<Rightarrow> r
      | Some e \<Rightarrow>
          if mc_DisableActivityEvents (rg_cfg r) then r
          else if wrap64 (now - me_lastActivityEventNanos e) < mc_ActivityThrottle (rg_cfg r) then r
          else
            let e' = e\<lparr>me_lastActivityEventNanos := now\<rparr> in
            publishGlobal ClientActivity (toDomain G e') (setEntry connID e' r))"

definition RecordRequest ::
  "goRange \<Rightarrow> string \<Rightarrow> string \<Rightarrow> string \<Rightarrow> int64 \<Rightarrow> int64 \<Rightarrow> err option \<Rightarrow> time \<Rightarrow> Registry \<Rightarrow> Registry" where
  "RecordRequest G connID method key revision duration error now r =
     (case lookup r connID of
        None \<Rightarrow> r
      | Some e \<Rightarrow>
          (let ev = \<lparr>cev_Timestamp = now, cev_Method = method, cev_Key = key, cev_Revision = revision, cev_Duration = duration,
                     cev_Error = error\<rparr>;
               e1 = e\<lparr>me_lastActivityNanos := now,
                      me_errorCount := (if error \<noteq> None then wrap64 (me_errorCount e + 1) else me_errorCount e)\<rparr>;
               e2 = incCounter method e1;
               e3 = e2\<lparr>me_events := Buffer_Push ev (me_events e2)\<rparr>;
               r1 = maybePublishActivity G connID now (setEntry connID e3 r)
           in case lookup r1 connID of
                None \<Rightarrow> r1
              | Some e4 \<Rightarrow>
                  setEntry connID
                    (e4\<lparr>me_pub := map_option (publisher_publish
                       \<lparr>cch_Kind = ClientRequestRecorded, cch_Client = toDomain G e4, cch_Event = Some ev\<rparr>) (me_pub e4)\<rparr>) r1))"

text \<open>The watches of a connection, as \<^const>\<open>RegisterWatch\<close> and \<^const>\<open>UnregisterWatch\<close> keep them in its entry.\<close>

definition updateWatches ::
  "((string \<rightharpoonup> monitorEntry) \<Rightarrow> (string \<rightharpoonup> monitorEntry)) \<Rightarrow> string \<Rightarrow> Registry \<Rightarrow> Registry" where
  "updateWatches f connID r =
     (case f (map_of (rg_clients r)) connID of None \<Rightarrow> r | Some e \<Rightarrow> setEntry connID e r)"

definition Registry_RegisterWatch :: "string \<Rightarrow> ActiveWatch \<Rightarrow> Registry \<Rightarrow> Registry" where
  "Registry_RegisterWatch connID aw = updateWatches (RegisterWatch connID aw) connID"

definition Registry_UnregisterWatch :: "string \<Rightarrow> int64 \<Rightarrow> Registry \<Rightarrow> Registry" where
  "Registry_UnregisterWatch connID watchID = updateWatches (UnregisterWatch connID watchID) connID"

definition addActiveWatches :: "int \<Rightarrow> string \<Rightarrow> Registry \<Rightarrow> Registry" where
  "addActiveWatches d connID r =
     (case lookup r connID of
        None \<Rightarrow> r
      | Some e \<Rightarrow> setEntry connID (e\<lparr>ce_activeWatches := wrap32 (ce_activeWatches e + d)\<rparr>) r)"

definition IncActiveWatches :: "string \<Rightarrow> Registry \<Rightarrow> Registry" where
  "IncActiveWatches = addActiveWatches 1"

definition DecActiveWatches :: "string \<Rightarrow> Registry \<Rightarrow> Registry" where
  "DecActiveWatches = addActiveWatches (- 1)"

definition ActiveWatches :: "goRange \<Rightarrow> Registry \<Rightarrow> string \<Rightarrow> ActiveWatch list" where
  "ActiveWatches G r connID =
     (case lookup r connID of None \<Rightarrow> [] | Some e \<Rightarrow> cln_ActiveWatchList (toDomain G e))"

definition ListActive :: "goRange \<Rightarrow> Registry \<Rightarrow> Client list" where
  "ListActive G r = map (toDomain G \<circ> the \<circ> lookup r) (gr_clients G (set (map fst (rg_clients r))))"

definition Registry_Get :: "goRange \<Rightarrow> Registry \<Rightarrow> string \<Rightarrow> Client option" where
  "Registry_Get G r connID = map_option (toDomain G) (lookup r connID)"

definition RecentEvents :: "Registry \<Rightarrow> string \<Rightarrow> ClientEvent list" where
  "RecentEvents r connID = (case lookup r connID of None \<Rightarrow> [] | Some e \<Rightarrow> Buffer_Snapshot (me_events e))"

definition Registry_Subscribe :: "Registry \<Rightarrow> int option \<times> Registry" where
  "Registry_Subscribe r = (case publisher_subscribe (rg_pub r) of (sid, p) \<Rightarrow> (sid, r\<lparr>rg_pub := p\<rparr>))"

definition Registry_SubscribeClient :: "string \<Rightarrow> Registry \<Rightarrow> int option \<times> Registry" where
  "Registry_SubscribeClient connID r =
     (case lookup r connID of
        None \<Rightarrow> (None, r)
      | Some e \<Rightarrow>
          (case publisher_subscribe (case me_pub e of None \<Rightarrow> newPublisher defaultPublisherBuffer | Some p \<Rightarrow> p) of
             (sid, p) \<Rightarrow> (sid, setEntry connID (e\<lparr>me_pub := Some p\<rparr>) r)))"

definition Registry_Shutdown :: "Registry \<Rightarrow> Registry" where
  "Registry_Shutdown r =
     r\<lparr>rg_pub := publisher_shutdown (rg_pub r), rg_clients := map (\<lambda>(k, e). (k, e\<lparr>me_pub := None\<rparr>)) (rg_clients r)\<rparr>"

section \<open>The statistics handler\<close>

text \<open>The metadata of an RPC: the values of each header, if the context carries any.\<close>

type_synonym grpcMetadata = "string \<Rightarrow> string list"

definition identityFromMetadata :: "grpcMetadata option \<Rightarrow> ConnectionInfo" where
  "identityFromMetadata md =
     (case md of
        None \<Rightarrow> emptyInfo
      | Some get \<Rightarrow>
          (let first = (\<lambda>key. case get key of [] \<Rightarrow> [] | v # _ \<Rightarrow> Emails.trimSpace v) in
           \<lparr>ci_PeerAddress = [], ci_UserAgent = first ''user-agent'', ci_ClientName = first ''x-client-name'',
            ci_ClientVersion = first ''x-client-version'', ci_K8sNamespace = first ''x-client-k8s-namespace'',
            ci_K8sPod = first ''x-client-k8s-pod'', ci_K8sNode = first ''x-client-k8s-node'',
            ci_InstanceID = first ''x-client-instance-id''\<rparr>))"

record rpcContext =
  rc_connID :: string
  rc_method :: string
  rc_start :: "time option"

definition TagConn :: "goRange \<Rightarrow> string option \<Rightarrow> time \<Rightarrow> Registry \<Rightarrow> rpcContext \<times> Registry" where
  "TagConn G remoteAddr now r =
     (case RegisterConnection G (emptyInfo\<lparr>ci_PeerAddress := (case remoteAddr of None \<Rightarrow> [] | Some a \<Rightarrow> a)\<rparr>) now r of
        (connID, r') \<Rightarrow> (\<lparr>rc_connID = connID, rc_method = [], rc_start = None\<rparr>, r'))"

definition HandleConn :: "goRange \<Rightarrow> rpcContext \<Rightarrow> bool \<Rightarrow> time \<Rightarrow> Registry \<Rightarrow> Registry" where
  "HandleConn G c isEnd now r =
     (if \<not> isEnd \<or> rc_connID c = [] then r else snd (UnregisterConnection G (rc_connID c) now r))"

definition TagRPC :: "rpcContext \<Rightarrow> grpcMetadata option \<Rightarrow> string \<Rightarrow> time \<Rightarrow> Registry \<Rightarrow> rpcContext \<times> Registry" where
  "TagRPC c md fullMethod now r =
     (let ident = identityFromMetadata md in
      (c\<lparr>rc_method := fullMethod, rc_start := Some now\<rparr>,
       if rc_connID c \<noteq> [] \<and> hasIdentity ident then UpdateIdentity (rc_connID c) ident r else r))"

text \<open>The end of an RPC, with its end time and error; other statistics are ignored.\<close>

definition HandleRPC :: "goRange \<Rightarrow> rpcContext \<Rightarrow> (time \<times> err option) option \<Rightarrow> time \<Rightarrow> Registry \<Rightarrow> Registry" where
  "HandleRPC G c rpcEnd now r =
     (case rpcEnd of
        None \<Rightarrow> r
      | Some (endTime, error) \<Rightarrow>
          if rc_connID c = [] then r
          else
            RecordRequest G (rc_connID c) (rc_method c) [] 0
              (case rc_start c of None \<Rightarrow> 0 | Some start \<Rightarrow> timeSub endTime start) error now r)"

end
