(* ===== verification/ClientHistory.thy ===== *)
theory ClientHistory
  imports ClientMonitor
begin

text \<open>
  The history of disconnected clients: the repository \<^verbatim>\<open>src/internal/storage/bbolt/client_history\<close> and the store with its
  queue and retention, \<^verbatim>\<open>src/internal/service/monitor/history.go\<close>. The repository works on the querier of the context it is
  given, the store calls it with the context of the process.
\<close>

section \<open>Rows and keys\<close>

definition bucketClientHistory :: string where "bucketClientHistory = ''client_history''"

definition DomainToClientHistoryRow :: "Client \<Rightarrow> ClientHistoryRow" where
  "DomainToClientHistoryRow c =
     \<lparr>chr_ID = cln_ID c, chr_PeerAddress = cln_PeerAddress c, chr_UserAgent = cln_UserAgent c, chr_ClientName = cln_ClientName c,
      chr_ClientVersion = cln_ClientVersion c, chr_K8sNamespace = cln_K8sNamespace c, chr_K8sPod = cln_K8sPod c,
      chr_K8sNode = cln_K8sNode c, chr_InstanceID = cln_InstanceID c, chr_ConnectedAt = cln_ConnectedAt c,
      chr_DisconnectedAt = the (cln_DisconnectedAt c), chr_LastActivityAt = cln_LastActivityAt c,
      chr_ActiveWatches = cln_ActiveWatches c, chr_RequestCounts = cln_RequestCounts c, chr_ErrorCount = cln_ErrorCount c\<rparr>"

definition ClientHistoryRowToDomain :: "ClientHistoryRow \<Rightarrow> Client" where
  "ClientHistoryRowToDomain r =
     \<lparr>cln_ID = chr_ID r, cln_PeerAddress = chr_PeerAddress r, cln_UserAgent = chr_UserAgent r, cln_ClientName = chr_ClientName r,
      cln_ClientVersion = chr_ClientVersion r, cln_K8sNamespace = chr_K8sNamespace r, cln_K8sPod = chr_K8sPod r,
      cln_K8sNode = chr_K8sNode r, cln_InstanceID = chr_InstanceID r, cln_ConnectedAt = chr_ConnectedAt r,
      cln_DisconnectedAt = Some (chr_DisconnectedAt r), cln_LastActivityAt = chr_LastActivityAt r,
      cln_ActiveWatches = chr_ActiveWatches r, cln_ActiveWatchList = [], cln_RequestCounts = chr_RequestCounts r,
      cln_ErrorCount = chr_ErrorCount r\<rparr>"

definition timeKeySize :: nat where "timeKeySize = 8"

definition timeKey :: "time \<Rightarrow> bytes" where
  "timeKey t = bigEndian timeKeySize (uint64 t)"

definition bytesLess :: "bytes \<Rightarrow> bytes \<Rightarrow> bool" where
  "bytesLess a b = (if length a \<noteq> length b then length a < length b else a < b)"

section \<open>The repository\<close>

definition History_Save :: "env \<Rightarrow> querier \<Rightarrow> Client \<Rightarrow> (unit, 'z world_scheme) op" where
  "History_Save E q c =
     bindT (readT (\<lambda>w.
       let key = timeKey (the (cln_DisconnectedAt c)) in
       Ok (if bucket_Get bucketClientHistory key w \<noteq> None then key @ cln_ID c else key))) (\<lambda>key.
     bucket_Put E q bucketClientHistory key (Marshal clientHistoryCodec (DomainToClientHistoryRow c)))"

text \<open>
  The loop over the cursor from the last entry backwards: at most \<open>limit\<close> entries that satisfy \<open>keep\<close>, all if the limit is not
  positive.
\<close>

fun historyLoop ::
  "(ClientHistoryRow \<Rightarrow> bool) \<Rightarrow> int64 \<Rightarrow> bucket \<Rightarrow> Client list \<Rightarrow> err + Client list" where
  "historyLoop keep limit [] out = Ok out"
| "historyLoop keep limit ((k, v) # rest) out =
     (if limit > 0 \<and> int (length out) \<ge> limit then Ok out
      else
        case Unmarshal clientHistoryCodec v of
          None \<Rightarrow> Err ErrDecode
        | Some row \<Rightarrow> historyLoop keep limit rest (if keep row then out @ [ClientHistoryRowToDomain row] else out))"

definition History_List :: "querier \<Rightarrow> int64 \<Rightarrow> 'z world_scheme \<Rightarrow> err + Client list" where
  "History_List q limit w = historyLoop (\<lambda>_. True) limit (rev (bucket_Cursor q bucketClientHistory w)) []"

definition History_ListByClient :: "querier \<Rightarrow> string \<Rightarrow> string \<Rightarrow> int64 \<Rightarrow> 'z world_scheme \<Rightarrow> err + Client list" where
  "History_ListByClient q clientName k8sNamespace limit w =
     historyLoop (\<lambda>row. chr_ClientName row = clientName \<and> chr_K8sNamespace row = k8sNamespace) limit
       (rev (bucket_Cursor q bucketClientHistory w)) []"

definition History_Count :: "env \<Rightarrow> querier \<Rightarrow> 'z world_scheme \<Rightarrow> err + int" where
  "History_Count E q w =
     (case bucket_ForEach E q bucketClientHistory w of Inl e \<Rightarrow> Err e | Inr b \<Rightarrow> Ok (int (length b)))"

fun deleteKeysLoop :: "env \<Rightarrow> querier \<Rightarrow> bytes list \<Rightarrow> (unit, 'z world_scheme) op" where
  "deleteKeysLoop E q [] = returnT ()"
| "deleteKeysLoop E q (k # ks) = bindT (bucket_Delete E q bucketClientHistory k) (\<lambda>_. deleteKeysLoop E q ks)"

definition History_DeleteOldest :: "env \<Rightarrow> querier \<Rightarrow> int64 \<Rightarrow> (int, 'z world_scheme) op" where
  "History_DeleteOldest E q n w =
     (if n \<le> 0 then (Ok 0, w)
      else
        let toDelete = map fst (take (nat n) (bucket_Cursor q bucketClientHistory w)) in
        bindT (deleteKeysLoop E q toDelete) (\<lambda>_. returnT (int (length toDelete))) w)"

text \<open>The keys before the cutoff: shorter keys are skipped, and the first one at or past the cutoff ends the scan.\<close>

fun olderKeys :: "bytes \<Rightarrow> bucket \<Rightarrow> bytes list" where
  "olderKeys cutoffKey [] = []"
| "olderKeys cutoffKey ((k, v) # rest) =
     (if length k < timeKeySize then olderKeys cutoffKey rest
      else if \<not> bytesLess (take timeKeySize k) cutoffKey then []
      else k # olderKeys cutoffKey rest)"

definition History_DeleteOlderThan :: "env \<Rightarrow> querier \<Rightarrow> time \<Rightarrow> (int, 'z world_scheme) op" where
  "History_DeleteOlderThan E q cutoff w =
     (let toDelete = olderKeys (timeKey cutoff) (bucket_Cursor q bucketClientHistory w) in
      bindT (deleteKeysLoop E q toDelete) (\<lambda>_. returnT (int (length toDelete))) w)"

section \<open>The store\<close>

definition defaultHistoryBuffer :: int where "defaultHistoryBuffer = 256"
definition defaultHistoryRetainN :: int where "defaultHistoryRetainN = 1000"
definition defaultHistoryRetainAge :: int64 where "defaultHistoryRetainAge = 30 * 24 * 3600 * second"

record HistoryConfig =
  hc_MaxRecords :: int
  hc_MaxAge :: int64
  hc_BufferSize :: int

definition history_withDefaults :: "HistoryConfig \<Rightarrow> HistoryConfig" where
  "history_withDefaults c =
     c\<lparr>hc_MaxRecords := (if hc_MaxRecords c \<le> 0 then defaultHistoryRetainN else hc_MaxRecords c),
       hc_MaxAge := (if hc_MaxAge c = 0 then defaultHistoryRetainAge else hc_MaxAge c),
       hc_BufferSize := (if hc_BufferSize c \<le> 0 then defaultHistoryBuffer else hc_BufferSize c)\<rparr>"

record HistoryStore =
  hs_cfg :: HistoryConfig
  hs_in :: "Client list"
  hs_shutdown :: bool

definition NewHistoryStore :: "HistoryConfig \<Rightarrow> HistoryStore" where
  "NewHistoryStore cfg = \<lparr>hs_cfg = history_withDefaults cfg, hs_in = [], hs_shutdown = False\<rparr>"

definition HistoryStore_Record :: "Client \<Rightarrow> HistoryStore \<Rightarrow> HistoryStore" where
  "HistoryStore_Record c s =
     (if hs_shutdown s then s
      else if int (length (hs_in s)) < hc_BufferSize (hs_cfg s) then s\<lparr>hs_in := hs_in s @ [c]\<rparr>
      else s)"

definition HistoryStore_List :: "'c ctx_scheme \<Rightarrow> int64 \<Rightarrow> 'z world_scheme \<Rightarrow> err + Client list" where
  "HistoryStore_List c limit = History_List (GetQuerier c) limit"

definition HistoryStore_ListByClient ::
  "'c ctx_scheme \<Rightarrow> string \<Rightarrow> string \<Rightarrow> int64 \<Rightarrow> 'z world_scheme \<Rightarrow> err + Client list" where
  "HistoryStore_ListByClient c clientName k8sNamespace limit = History_ListByClient (GetQuerier c) clientName k8sNamespace limit"

text \<open>An error of the repository is logged and ignored.\<close>

definition ignoreErr :: "('a, 'w) op \<Rightarrow> (unit, 'w) op" where
  "ignoreErr m w = (case m w of (_, w') \<Rightarrow> (Ok (), w'))"

definition persist :: "env \<Rightarrow> 'c ctx_scheme \<Rightarrow> Client \<Rightarrow> (unit, 'z world_scheme) op" where
  "persist E c snap =
     (if cln_DisconnectedAt snap = None then returnT () else ignoreErr (History_Save E (GetQuerier c) snap))"

definition applyRetention :: "env \<Rightarrow> HistoryConfig \<Rightarrow> 'c ctx_scheme \<Rightarrow> (unit, 'z world_scheme) op" where
  "applyRetention E cfg c =
     bindT (if hc_MaxAge cfg > 0
            then bindT (timeNow E) (\<lambda>now. ignoreErr (History_DeleteOlderThan E (GetQuerier c) (now - hc_MaxAge cfg)))
            else returnT ()) (\<lambda>_.
     \<lambda>w. case History_Count E (GetQuerier c) w of
            Inl _ \<Rightarrow> (Ok (), w)
          | Inr count \<Rightarrow>
              if count \<le> hc_MaxRecords cfg then (Ok (), w)
              else ignoreErr (History_DeleteOldest E (GetQuerier c) (count - hc_MaxRecords cfg)) w)"

text \<open>The writer, over the snapshots it takes from the queue.\<close>

fun historyRun :: "env \<Rightarrow> HistoryConfig \<Rightarrow> 'c ctx_scheme \<Rightarrow> Client list \<Rightarrow> (unit, 'z world_scheme) op" where
  "historyRun E cfg c [] = returnT ()"
| "historyRun E cfg c (snap # rest) =
     bindT (persist E c snap) (\<lambda>_. bindT (applyRetention E cfg c) (\<lambda>_. historyRun E cfg c rest))"

end
