(* ===== verification/MonitorProps.thy ===== *)
theory MonitorProps
  imports ClientHistory Samples
begin

text \<open>
  The properties of the client monitor and of its history: the history outside a transaction, and the accounts of the registry.
\<close>

section \<open>The history outside a transaction\<close>

lemma cursor_auto: "ctx_tx c = None \<Longrightarrow> bucket_Cursor (GetQuerier c) n w = []"
  by (simp add: GetQuerier_def bucket_Cursor_def)

lemma DeleteOldest_auto: "ctx_tx c = None \<Longrightarrow> snd (History_DeleteOldest E (GetQuerier c) n w) = w"
  by (simp add: History_DeleteOldest_def cursor_auto Let_def bindT_def returnT_def)

lemma DeleteOlderThan_auto: "ctx_tx c = None \<Longrightarrow> snd (History_DeleteOlderThan E (GetQuerier c) t w) = w"
  by (simp add: History_DeleteOlderThan_def cursor_auto Let_def bindT_def returnT_def)

lemma snd_ignoreErr [simp]: "snd (ignoreErr m w) = snd (m w)" "fst (ignoreErr m w) = Inr ()"
  by (simp_all add: ignoreErr_def split: prod.splits)

lemma ignoreErr_eq: "ignoreErr m w = (Inr (), snd (m w))"
  by (simp add: ignoreErr_def split: prod.splits)

lemma applyRetention_auto:
  assumes "ctx_tx c = None"
  shows "\<exists>t. applyRetention E cfg c w = (Inr (), w\<lparr>ticks := t\<rparr>)"
proof -
  let ?count = "\<lambda>w. case History_Count E (GetQuerier c) w of
            Inl _ \<Rightarrow> (Ok (), w)
          | Inr count \<Rightarrow>
              if count \<le> hc_MaxRecords cfg then (Ok (), w)
              else ignoreErr (History_DeleteOldest E (GetQuerier c) (count - hc_MaxRecords cfg)) w"
  have rest: "?count v = (Inr (), v)" for v
    by (simp add: ignoreErr_eq DeleteOldest_auto [OF assms] split: sum.splits)
  show ?thesis
  proof (cases "hc_MaxAge cfg > 0")
    case True
    then show ?thesis unfolding applyRetention_def
      by (auto simp: bindT_def timeNow_def ignoreErr_eq DeleteOlderThan_auto [OF assms] rest returnT_def)
  next
    case False
    then show ?thesis unfolding applyRetention_def
      by (intro exI [of _ "ticks w"]) (simp add: bindT_def rest returnT_def)
  qed
qed

lemma length_al_put: "map_of xs k = None \<Longrightarrow> length (al_put k v xs) = Suc (length xs)"
  by (induction k v xs rule: al_put.induct) (auto split: if_splits)

lemma timeKey_inj: "in_int64 a \<Longrightarrow> in_int64 b \<Longrightarrow> timeKey a = timeKey b \<longleftrightarrow> a = b"
  using revisionBytes_inj [of a b] by (simp add: timeKey_def revisionBytes_def timeKeySize_def revisionSize_def)

lemma persist_auto:
  assumes "ctx_tx c = None" "bolt_reliable E" "buckets w bucketClientHistory = Some b" "cln_DisconnectedAt s = Some t"
    and "map_of b (timeKey t) = None"
  shows "persist E c s w = (Inr (), setBucket bucketClientHistory
    (al_put (timeKey t) (JClientHistory (DomainToClientHistoryRow s)) b) w)"
  using assms
  by (simp add: persist_def ignoreErr_eq History_Save_def bindT_def readT_def Let_def bucket_Get_def bucket_Put_def
      bucketWrite_def GetQuerier_def clientHistoryCodec_def)

text \<open>
  Every snapshot of the queue adds an entry, whatever the limits of the retention are.
\<close>

lemma historyRun_grows:
  assumes "ctx_tx c = None" "bolt_reliable E"
  shows "buckets w bucketClientHistory = Some b \<Longrightarrow>
    (\<forall>s \<in> set snaps. \<exists>t. cln_DisconnectedAt s = Some t \<and> in_int64 t \<and> map_of b (timeKey t) = None) \<Longrightarrow>
    distinct (map cln_DisconnectedAt snaps) \<Longrightarrow>
    \<exists>b'. buckets (snd (historyRun E cfg c snaps w)) bucketClientHistory = Some b' \<and> length b' = length b + length snaps"
proof (induction snaps arbitrary: w b)
  case (Cons s snaps)
  from Cons.prems(2) obtain t where t: "cln_DisconnectedAt s = Some t" "in_int64 t" "map_of b (timeKey t) = None" by auto
  let ?b = "al_put (timeKey t) (JClientHistory (DomainToClientHistoryRow s)) b"
  let ?w = "setBucket bucketClientHistory ?b w"
  obtain n where ret: "applyRetention E cfg c ?w = (Inr (), ?w\<lparr>ticks := n\<rparr>)" using applyRetention_auto [OF assms(1)] by metis
  have fresh: "\<forall>s' \<in> set snaps. \<exists>t'. cln_DisconnectedAt s' = Some t' \<and> in_int64 t' \<and> map_of ?b (timeKey t') = None"
  proof
    fix s' assume s': "s' \<in> set snaps"
    with Cons.prems(2) obtain t' where t': "cln_DisconnectedAt s' = Some t'" "in_int64 t'" "map_of b (timeKey t') = None" by auto
    moreover have "t' \<noteq> t" using Cons.prems(3) s' t t' by (metis distinct.simps(2) image_eqI list.set_map list.simps(9))
    ultimately show "\<exists>t'. cln_DisconnectedAt s' = Some t' \<and> in_int64 t' \<and> map_of ?b (timeKey t') = None"
      using timeKey_inj [OF t(2) t'(2)] by (auto simp: map_of_al_put)
  qed
  have "historyRun E cfg c (s # snaps) w = historyRun E cfg c snaps (?w\<lparr>ticks := n\<rparr>)"
    by (simp add: bindT_def persist_auto [OF assms Cons.prems(1) t(1,3)] ret)
  moreover obtain b' where "buckets (snd (historyRun E cfg c snaps (?w\<lparr>ticks := n\<rparr>))) bucketClientHistory = Some b'"
    "length b' = length ?b + length snaps"
    using Cons.IH [of "?w\<lparr>ticks := n\<rparr>" ?b] fresh Cons.prems(3) by (auto simp: setBucket_def)
  ultimately show ?case using length_al_put [OF t(3)] by simp
qed (simp add: returnT_def)

section \<open>The accounts of the registry\<close>

text \<open>The calls of the handlers on the registry.\<close>

datatype monitorOp =
    MConnect ConnectionInfo time
  | MIdentity string ConnectionInfo
  | MRequest string string string int64 int64 "err option" time
  | MWatch string ActiveWatch
  | MUnwatch string int64
  | MSubscribe
  | MSubscribeClient string
  | MDisconnect string time
  | MShutdown

fun monitorStep :: "goRange \<Rightarrow> monitorOp \<Rightarrow> Registry \<Rightarrow> Registry" where
  "monitorStep G (MConnect info now) r = snd (RegisterConnection G info now r)"
| "monitorStep G (MIdentity connID info) r = UpdateIdentity connID info r"
| "monitorStep G (MRequest connID method key revision duration error now) r =
     RecordRequest G connID method key revision duration error now r"
| "monitorStep G (MWatch connID aw) r = Registry_RegisterWatch connID aw r"
| "monitorStep G (MUnwatch connID watchID) r = Registry_UnregisterWatch connID watchID r"
| "monitorStep G MSubscribe r = snd (Registry_Subscribe r)"
| "monitorStep G (MSubscribeClient connID) r = snd (Registry_SubscribeClient connID r)"
| "monitorStep G (MDisconnect connID now) r = snd (UnregisterConnection G connID now r)"
| "monitorStep G MShutdown r = Registry_Shutdown r"

definition monitorRun :: "goRange \<Rightarrow> monitorConfig \<Rightarrow> monitorOp list \<Rightarrow> Registry" where
  "monitorRun G cfg ops = fold (monitorStep G) ops (NewRegistry cfg)"

text \<open>
  The specification: the number of connections so far, the requests of each open connection, and the connections that were closed
  with theirs, in order.
\<close>

record monitorSpec =
  ms_count :: nat
  ms_open :: "string \<rightharpoonup> ClientEvent list"
  ms_closed :: "(string \<times> ClientEvent list) list"

definition connName :: "nat \<Rightarrow> string" where
  "connName n = ''conn-'' @ FormatInt (int n)"

fun specStep :: "monitorOp \<Rightarrow> monitorSpec \<Rightarrow> monitorSpec" where
  "specStep (MConnect info now) s =
     s\<lparr>ms_count := Suc (ms_count s), ms_open := (ms_open s)(connName (Suc (ms_count s)) \<mapsto> [])\<rparr>"
| "specStep (MRequest connID method key revision duration error now) s =
     (case ms_open s connID of
        None \<Rightarrow> s
      | Some log \<Rightarrow>
          s\<lparr>ms_open := (ms_open s)(connID \<mapsto> log @
            [\<lparr>cev_Timestamp = now, cev_Method = method, cev_Key = key, cev_Revision = revision, cev_Duration = duration,
              cev_Error = error\<rparr>])\<rparr>)"
| "specStep (MDisconnect connID now) s =
     (case ms_open s connID of
        None \<Rightarrow> s
      | Some log \<Rightarrow> s\<lparr>ms_open := (ms_open s)(connID := None), ms_closed := ms_closed s @ [(connID, log)]\<rparr>)"
| "specStep _ s = s"

definition specRun :: "monitorOp list \<Rightarrow> monitorSpec" where
  "specRun ops = fold specStep ops \<lparr>ms_count = 0, ms_open = Map.empty, ms_closed = []\<rparr>"

text \<open>The counts a list of requests gives: an entry for each method that occurs, and the failures.\<close>

definition requests :: "string \<Rightarrow> ClientEvent list \<Rightarrow> int64 option" where
  "requests method log =
     (case length (filter (\<lambda>ev. cev_Method ev = method) log) of 0 \<Rightarrow> None | n \<Rightarrow> Some (wrap64 (int n)))"

definition failures :: "ClientEvent list \<Rightarrow> int64" where
  "failures log = wrap64 (int (length (filter (\<lambda>ev. cev_Error ev \<noteq> None) log)))"

text \<open>A client whose counts are those of \<open>log\<close>.\<close>

definition counted :: "string \<Rightarrow> ClientEvent list \<Rightarrow> Client \<Rightarrow> bool" where
  "counted connID log c \<longleftrightarrow>
     cln_ID c = connID \<and> map_of (cln_RequestCounts c) = (\<lambda>method. requests method log) \<and> cln_ErrorCount c = failures log"

lemma wrap64_wrap64_add [simp]: "wrap64 (wrap64 a + b) = wrap64 (a + b)"
proof -
  have "wrap64 a + b + 2 ^ 63 = (a + 2 ^ 63) mod 2 ^ 64 + b" by (simp add: wrap64_def)
  then have "(wrap64 a + b + 2 ^ 63) mod 2 ^ 64 = (a + 2 ^ 63 + b) mod 2 ^ 64" by (simp only: mod_add_left_eq)
  moreover have "a + 2 ^ 63 + b = a + b + 2 ^ 63" by simp
  ultimately show ?thesis by (simp only: wrap64_def)
qed

lemma wrap64_add_wrap64 [simp]: "wrap64 (b + wrap64 a) = wrap64 (b + a)"
  using wrap64_wrap64_add [of a b] by (simp add: add.commute)

lemma requests_snoc:
  "requests m (log @ [ev]) =
     (if cev_Method ev = m then Some (wrap64 ((case requests m log of None \<Rightarrow> 0 | Some n \<Rightarrow> n) + 1)) else requests m log)"
  by (auto simp: requests_def ac_simps split: nat.splits)

lemma failures_snoc:
  "failures (log @ [ev]) = (if cev_Error ev \<noteq> None then wrap64 (failures log + 1) else failures log)"
  by (auto simp: failures_def add.commute)

text \<open>Names of connections.\<close>

definition readNat :: "string \<Rightarrow> nat" where
  "readNat s = fold (\<lambda>c n. n * 10 + (of_char c - 48)) s 0"

lemma readNat_showNat: "readNat (showNat n) = n"
proof (induction n rule: showNat.induct)
  case (1 n)
  show ?case
  proof (cases "n < 10")
    case True
    then show ?thesis by (simp add: readNat_def)
  next
    case False
    then have "readNat (showNat (n div 10)) = n div 10" using 1 by simp
    then show ?thesis using False by (simp add: readNat_def)
  qed
qed

declare showNat.simps [simp del]

lemma connName_inj: "connName a = connName b \<longleftrightarrow> a = b"
  by (metis FormatInt_def connName_def nat_int of_nat_0_le_iff not_less readNat_showNat same_append_eq)

subsection \<open>The simulation\<close>

definition entry_ok :: "nat \<Rightarrow> string \<Rightarrow> monitorEntry \<Rightarrow> ClientEvent list \<Rightarrow> bool" where
  "entry_ok cap connID e log \<longleftrightarrow>
     me_id e = connID \<and> map_of (me_counters e) = (\<lambda>m. requests m log) \<and> me_errorCount e = failures log \<and>
     buffer_inv (me_events e) \<and> rb_capacity (me_events e) = cap \<and> Buffer_Snapshot (me_events e) = newest cap log"

definition capOf :: "Registry \<Rightarrow> nat" where
  "capOf r = nat (max 1 (mc_RecentEventsCapacity (rg_cfg r)))"

definition monitor_sim :: "Registry \<Rightarrow> monitorSpec \<Rightarrow> bool" where
  "monitor_sim r s \<longleftrightarrow>
     rg_nextID r = wrap64 (int (ms_count s)) \<and>
     (\<forall>connID. rel_option (entry_ok (capOf r) connID) (lookup r connID) (ms_open s connID)) \<and>
     list_all2 (\<lambda>c (connID, log). counted connID log c) (rg_history r) (ms_closed s)"

lemma lookup_setEntry [simp]:
  "lookup (setEntry connID e r) = (lookup r)(connID \<mapsto> e)"
  by (auto simp: lookup_def setEntry_def update_conv')

lemma setEntry_frame [simp]:
  "rg_cfg (setEntry connID e r) = rg_cfg r" "rg_nextID (setEntry connID e r) = rg_nextID r"
  "rg_history (setEntry connID e r) = rg_history r" "capOf (setEntry connID e r) = capOf r"
  by (simp_all add: setEntry_def capOf_def)

lemma publishGlobal_frame [simp]:
  "lookup (publishGlobal k c r) = lookup r" "rg_nextID (publishGlobal k c r) = rg_nextID r"
  "rg_history (publishGlobal k c r) = rg_history r" "rg_cfg (publishGlobal k c r) = rg_cfg r" "capOf (publishGlobal k c r) = capOf r"
  by (simp_all add: publishGlobal_def lookup_def capOf_def fun_eq_iff)

lemma sim_setEntry:
  assumes "monitor_sim r s" "lookup r connID = Some e"
    and "\<And>log. entry_ok (capOf r) connID e log \<Longrightarrow> entry_ok (capOf r) connID e' log"
  shows "monitor_sim (setEntry connID e' r) s"
  unfolding monitor_sim_def
proof (intro conjI allI)
  fix k
  have k: "rel_option (entry_ok (capOf r) k) (lookup r k) (ms_open s k)" using assms(1) by (simp add: monitor_sim_def)
  show "rel_option (entry_ok (capOf (setEntry connID e' r)) k) (lookup (setEntry connID e' r) k) (ms_open s k)"
  proof (cases "k = connID")
    case True
    with k assms(2,3) show ?thesis by (cases "ms_open s connID") auto
  next
    case False
    with k show ?thesis by simp
  qed
qed (use assms(1) in \<open>simp_all add: monitor_sim_def\<close>)

lemma sim_publishGlobal [simp]: "monitor_sim (publishGlobal k c r) s = monitor_sim r s"
  by (simp add: monitor_sim_def)

lemma sim_closed:
  assumes "monitor_sim r s"
  shows "(lookup r connID = None) = (ms_open s connID = None)"
  using assms by (auto simp: monitor_sim_def dest: spec [of _ connID] elim: option.rel_cases)

lemma sim_entry:
  assumes "monitor_sim r s" "lookup r connID = Some e"
  obtains log where "ms_open s connID = Some log" "entry_ok (capOf r) connID e log"
  using assms by (auto simp: monitor_sim_def dest!: spec [of _ connID] elim: option.rel_cases)

lemma entry_ok_fields [simp]:
  "entry_ok cap k (e\<lparr>me_ident := x1\<rparr>) log = entry_ok cap k e log"
  "entry_ok cap k (e\<lparr>me_identSet := x2\<rparr>) log = entry_ok cap k e log"
  "entry_ok cap k (e\<lparr>me_lastActivityEventNanos := x3\<rparr>) log = entry_ok cap k e log"
  "entry_ok cap k (e\<lparr>me_lastActivityNanos := x3\<rparr>) log = entry_ok cap k e log"
  "entry_ok cap k (e\<lparr>me_pub := x4\<rparr>) log = entry_ok cap k e log"
  "entry_ok cap k (e\<lparr>ce_watches := x5, ce_activeWatches := x6\<rparr>) log = entry_ok cap k e log"
  by (simp_all add: entry_ok_def)

lemma counted_entry: "entry_ok cap k e log \<Longrightarrow> counted k log (toDomain G e)"
  by (simp add: entry_ok_def counted_def toDomain_def)

lemma sim_UpdateIdentity: "monitor_sim r s \<Longrightarrow> monitor_sim (UpdateIdentity connID info r) s"
  by (auto simp: UpdateIdentity_def applyIdentity_def split: option.splits intro: sim_setEntry)

lemma sim_maybePublishActivity: "monitor_sim r s \<Longrightarrow> monitor_sim (maybePublishActivity G connID now r) s"
  by (auto simp: maybePublishActivity_def Let_def split: option.splits intro: sim_setEntry)

lemma sim_updateWatches:
  assumes "monitor_sim r s"
    and "\<And>e'. f (map_of (rg_clients r)) connID = Some e' \<Longrightarrow>
      \<exists>e ws n. lookup r connID = Some e \<and> e' = e\<lparr>ce_watches := ws, ce_activeWatches := n\<rparr>"
  shows "monitor_sim (updateWatches f connID r) s"
proof (cases "f (map_of (rg_clients r)) connID")
  case None
  with assms(1) show ?thesis by (simp add: updateWatches_def)
next
  case (Some e')
  with assms(2) obtain e ws n where "lookup r connID = Some e" "e' = e\<lparr>ce_watches := ws, ce_activeWatches := n\<rparr>" by blast
  with Some show ?thesis using sim_setEntry [OF assms(1)] by (simp add: updateWatches_def)
qed

lemma sim_watches:
  assumes "monitor_sim r s"
  shows "monitor_sim (Registry_RegisterWatch connID aw r) s" "monitor_sim (Registry_UnregisterWatch connID i r) s"
  unfolding Registry_RegisterWatch_def Registry_UnregisterWatch_def
  by (rule sim_updateWatches [OF assms];
      auto simp: RegisterWatch_def UnregisterWatch_def lookup_def Let_def split: option.splits)+

lemma sim_Subscribe: "monitor_sim r s \<Longrightarrow> monitor_sim (snd (Registry_Subscribe r)) s"
  by (simp add: Registry_Subscribe_def monitor_sim_def lookup_def capOf_def split: prod.splits)

lemma sim_SubscribeClient: "monitor_sim r s \<Longrightarrow> monitor_sim (snd (Registry_SubscribeClient connID r)) s"
  by (auto simp: Registry_SubscribeClient_def split: option.splits prod.splits intro: sim_setEntry)

lemma map_of_update_values: "map_of (map (\<lambda>(k, e). (k, f e)) xs) k = map_option f (map_of xs k)"
  by (induction xs) auto

lemma lookup_Shutdown [simp]:
  "lookup (Registry_Shutdown r) connID = map_option (\<lambda>e. e\<lparr>me_pub := None\<rparr>) (lookup r connID)"
  by (simp add: Registry_Shutdown_def lookup_def map_of_update_values)

lemma sim_Shutdown: "monitor_sim r s \<Longrightarrow> monitor_sim (Registry_Shutdown r) s"
proof -
  have frame: "rg_nextID (Registry_Shutdown r) = rg_nextID r" "rg_history (Registry_Shutdown r) = rg_history r"
    "capOf (Registry_Shutdown r) = capOf r"
    by (simp_all add: Registry_Shutdown_def capOf_def)
  have "rel_option (entry_ok cap k) (map_option (\<lambda>e. e\<lparr>me_pub := None\<rparr>) x) y = rel_option (entry_ok cap k) x y" for cap k x y
    by (cases x; cases y) auto
  then show "monitor_sim r s \<Longrightarrow> monitor_sim (Registry_Shutdown r) s" by (simp add: monitor_sim_def frame)
qed

lemma entry_ok_request:
  assumes "entry_ok cap k e log" "ev = \<lparr>cev_Timestamp = now, cev_Method = method, cev_Key = key, cev_Revision = revision,
      cev_Duration = duration, cev_Error = error\<rparr>"
  shows "entry_ok cap k ((incCounter method (e\<lparr>me_lastActivityNanos := now,
      me_errorCount := (if error \<noteq> None then wrap64 (me_errorCount e + 1) else me_errorCount e)\<rparr>))
      \<lparr>me_events := Buffer_Push ev (me_events e)\<rparr>) (log @ [ev])"
  using assms ring.push_inv [of "me_events e" ev] ring.push_size [of "me_events e" ev] ring.push_entries [of "me_events e" ev]
  by (auto simp: entry_ok_def incCounter_def update_conv' requests_snoc failures_snoc newest_append fun_eq_iff)

lemma sim_RecordRequest:
  assumes sim: "monitor_sim r s"
  shows "monitor_sim (RecordRequest G connID method key revision duration error now r)
    (specStep (MRequest connID method key revision duration error now) s)"
proof (cases "lookup r connID")
  case None
  then have "ms_open s connID = None" using sim_closed [OF sim] by blast
  with None sim show ?thesis by (simp add: RecordRequest_def)
next
  case (Some e)
  with sim obtain log where log: "ms_open s connID = Some log" "entry_ok (capOf r) connID e log" by (rule sim_entry)
  let ?ev = "\<lparr>cev_Timestamp = now, cev_Method = method, cev_Key = key, cev_Revision = revision, cev_Duration = duration,
    cev_Error = error\<rparr>"
  let ?e1 = "e\<lparr>me_lastActivityNanos := now,
    me_errorCount := (if error \<noteq> None then wrap64 (me_errorCount e + 1) else me_errorCount e)\<rparr>"
  let ?e = "(incCounter method ?e1)\<lparr>me_events := Buffer_Push ?ev (me_events e)\<rparr>"
  let ?s = "s\<lparr>ms_open := (ms_open s)(connID \<mapsto> log @ [?ev])\<rparr>"
  let ?r1 = "maybePublishActivity G connID now (setEntry connID ?e r)"
  have "monitor_sim (setEntry connID ?e r) ?s"
    using sim entry_ok_request [OF log(2) refl, of now "method" key revision duration error] by (auto simp: monitor_sim_def)
  then have r1: "monitor_sim ?r1 ?s" by (rule sim_maybePublishActivity)
  have ev: "me_events (incCounter method ?e1) = me_events e" by (simp add: incCounter_def)
  have "RecordRequest G connID method key revision duration error now r =
      (case lookup ?r1 connID of None \<Rightarrow> ?r1 | Some e4 \<Rightarrow> setEntry connID
        (e4\<lparr>me_pub := map_option (publisher_publish
           \<lparr>cch_Kind = ClientRequestRecorded, cch_Client = toDomain G e4, cch_Event = Some ?ev\<rparr>) (me_pub e4)\<rparr>) ?r1)"
    unfolding RecordRequest_def Let_def Some by (simp only: option.case ev)
  moreover have "monitor_sim \<dots> ?s" using r1 by (auto split: option.split intro: sim_setEntry)
  ultimately show ?thesis using log(1) by simp
qed

lemma sim_Unregister:
  assumes sim: "monitor_sim r s"
  shows "monitor_sim (snd (UnregisterConnection G connID now r)) (specStep (MDisconnect connID now) s)"
proof (cases "lookup r connID")
  case None
  then have "ms_open s connID = None" using sim_closed [OF sim] by blast
  with None sim show ?thesis by (simp add: UnregisterConnection_def)
next
  case (Some e)
  with sim obtain log where log: "ms_open s connID = Some log" "entry_ok (capOf r) connID e log" by (rule sim_entry)
  have counted: "counted connID log ((toDomain G e)\<lparr>cln_DisconnectedAt := Some now\<rparr>)"
    using counted_entry [OF log(2)] by (simp add: counted_def)
  have del: "lookup (r\<lparr>rg_clients := AList.delete connID (rg_clients r), rg_history := h\<rparr>) = (lookup r)(connID := None)" for h
    by (auto simp: lookup_def delete_conv')
  have cap: "capOf (r\<lparr>rg_clients := x, rg_history := h\<rparr>) = capOf r" for x h by (simp add: capOf_def)
  show ?thesis using sim Some log(1) counted
    by (auto simp: UnregisterConnection_def Let_def monitor_sim_def del cap list_all2_appendI)
qed

lemma sim_Register:
  assumes sim: "monitor_sim r s" and bound: "ms_count s < 2 ^ 63 - 1"
  shows "fst (RegisterConnection G info now r) = connName (Suc (ms_count s))"
    and "monitor_sim (snd (RegisterConnection G info now r)) (specStep (MConnect info now) s)"
proof -
  have n: "wrap64 (rg_nextID r + 1) = int (Suc (ms_count s))"
    using sim bound by (simp add: monitor_sim_def in_int64_def add.commute)
  then show "fst (RegisterConnection G info now r) = connName (Suc (ms_count s))"
    by (simp add: RegisterConnection_def Let_def connName_def)
  have buf: "buffer_inv (Buffer_New z x) \<and> rb_capacity (Buffer_New z x) = nat (max 1 x) \<and> Buffer_Snapshot (Buffer_New z x) = []"
    for z :: ClientEvent and x
    by (auto simp: buffer_inv_def Buffer_New_def Buffer_Snapshot_def Let_def)
  have lk: "lookup (r\<lparr>rg_nextID := x\<rparr>) = lookup r" "capOf (r\<lparr>rg_nextID := x\<rparr>) = capOf r" for x
    by (simp_all add: lookup_def capOf_def fun_eq_iff)
  obtain e where e: "entry_ok (capOf r) (connName (Suc (ms_count s))) e []" and run:
    "snd (RegisterConnection G info now r) = publishGlobal ClientConnected (toDomain G e)
       (setEntry (connName (Suc (ms_count s))) e (r\<lparr>rg_nextID := wrap64 (rg_nextID r + 1)\<rparr>))"
  proof
    let ?e = "\<lparr>ce_watches = [], ce_activeWatches = 0, me_id = connName (Suc (ms_count s)), me_peer = ci_PeerAddress info,
      me_connectedAt = now, me_ident = emptyInfo, me_identSet = False, me_lastActivityNanos = now, me_errorCount = 0,
      me_counters = [], me_events = Buffer_New emptyEvent (mc_RecentEventsCapacity (rg_cfg r)),
      me_lastActivityEventNanos = 0, me_pub = None\<rparr>"
    show "entry_ok (capOf r) (connName (Suc (ms_count s))) (if hasIdentity info then applyIdentity info ?e else ?e) []"
      using buf by (simp add: entry_ok_def applyIdentity_def requests_def failures_def newest_def capOf_def in_int64_def)
    show "snd (RegisterConnection G info now r) =
       publishGlobal ClientConnected (toDomain G (if hasIdentity info then applyIdentity info ?e else ?e))
       (setEntry (connName (Suc (ms_count s))) (if hasIdentity info then applyIdentity info ?e else ?e)
         (r\<lparr>rg_nextID := wrap64 (rg_nextID r + 1)\<rparr>))"
      unfolding RegisterConnection_def Let_def n by (simp only: connName_def snd_conv)
  qed
  have "in_int64 (1 + int (ms_count s))" using bound by (simp add: in_int64_def)
  then show "monitor_sim (snd (RegisterConnection G info now r)) (specStep (MConnect info now) s)"
    using sim e n by (simp add: run monitor_sim_def lk)
qed

lemma sim_step:
  assumes "monitor_sim r s" "ms_count (specStep op s) < 2 ^ 63"
  shows "monitor_sim (monitorStep G op r) (specStep op s)"
proof (cases op)
  case MConnect
  with assms show ?thesis using sim_Register(2) by simp
qed (use assms sim_UpdateIdentity sim_RecordRequest sim_watches sim_Subscribe sim_SubscribeClient sim_Unregister sim_Shutdown
  in \<open>simp_all del: specStep.simps(2,3)\<close>)

fun isConnect :: "monitorOp \<Rightarrow> bool" where
  "isConnect (MConnect _ _) = True"
| "isConnect _ = False"

lemma ms_count_step: "ms_count (specStep op s) = ms_count s + (if isConnect op then 1 else 0)"
  by (cases op) (auto split: option.splits)

definition connects :: "monitorOp list \<Rightarrow> nat" where
  "connects ops = length (filter isConnect ops)"

lemma specRun_snoc: "specRun (ops @ [op]) = specStep op (specRun ops)"
  by (simp add: specRun_def)

lemma ms_count_specRun: "ms_count (specRun ops) = connects ops"
  by (induction ops rule: rev_induct) (simp_all add: specRun_snoc ms_count_step connects_def, simp add: specRun_def)

lemma sim_run: "connects ops < 2 ^ 63 \<Longrightarrow> monitor_sim (monitorRun G cfg ops) (specRun ops)"
proof (induction ops rule: rev_induct)
  case Nil
  show ?case by (simp add: monitorRun_def specRun_def NewRegistry_def monitor_sim_def lookup_def in_int64_def)
next
  case (snoc op ops)
  then have "monitor_sim (monitorRun G cfg ops) (specRun ops)" by (simp add: connects_def)
  moreover have "ms_count (specStep op (specRun ops)) < 2 ^ 63"
    using snoc.prems by (simp flip: specRun_snoc add: ms_count_specRun)
  ultimately show ?case using sim_step by (simp add: monitorRun_def specRun_def)
qed

lemma open_names: "ms_open (specRun ops) connID = Some log \<Longrightarrow> \<exists>n. 0 < n \<and> n \<le> connects ops \<and> connID = connName n"
proof (induction ops arbitrary: log rule: rev_induct)
  case (snoc op ops)
  have "ms_open (specRun ops) connID \<noteq> None \<or> (\<exists>info now. op = MConnect info now) \<and> connID = connName (Suc (connects ops))"
    using snoc.prems by (cases op) (auto simp: specRun_snoc ms_count_specRun split: option.splits if_splits)
  then show ?case
  proof
    assume "ms_open (specRun ops) connID \<noteq> None"
    then show ?thesis using snoc.IH by (fastforce simp: connects_def)
  qed (auto simp: connects_def)
qed (simp add: specRun_def)

lemma cfg_step [simp]: "rg_cfg (monitorStep G op r) = rg_cfg r"
  by (cases op) (auto simp: RegisterConnection_def UpdateIdentity_def RecordRequest_def maybePublishActivity_def
      Registry_RegisterWatch_def Registry_UnregisterWatch_def updateWatches_def Registry_Subscribe_def Registry_SubscribeClient_def
      UnregisterConnection_def Registry_Shutdown_def Let_def split: option.splits prod.splits)

lemma capOf_run: "capOf (monitorRun G cfg ops) = nat (mc_RecentEventsCapacity (monitor_withDefaults cfg))"
proof -
  have "rg_cfg (fold (monitorStep G) ops r) = rg_cfg r" for r by (induction ops arbitrary: r) auto
  then have "rg_cfg (monitorRun G cfg ops) = monitor_withDefaults cfg" by (simp add: monitorRun_def NewRegistry_def)
  then show ?thesis by (auto simp: capOf_def monitor_withDefaults_def defaultRecentEventsCapacity_def)
qed

section \<open>The properties\<close>

text \<open>C2: What the registry reports of the connected clients is what they did. After any sequence of calls with
  fewer than \<open>2 ^ 63\<close> connections, the registry knows exactly the open connections; the snapshot of each has the number of
  requests per method and the number of failed ones since it connected (wrapped to 64 bits), and its recent events are the
  newest of them, up to the configured capacity. Each closed connection has handed one snapshot with its final counts to the history.
  A new connection gets a name that no open connection has.\<close>

theorem monitor_accounts:
  assumes "connects ops < 2 ^ 63 - 1"
  shows "(\<forall>connID. case ms_open (specRun ops) connID of
      None \<Rightarrow> Registry_Get G (monitorRun G cfg ops) connID = None
    | Some log \<Rightarrow> (\<exists>c. Registry_Get G (monitorRun G cfg ops) connID = Some c \<and> counted connID log c) \<and>
        RecentEvents (monitorRun G cfg ops) connID = newest (nat (mc_RecentEventsCapacity (monitor_withDefaults cfg))) log)
    \<and> list_all2 (\<lambda>c (connID, log). counted connID log c) (rg_history (monitorRun G cfg ops)) (ms_closed (specRun ops))
    \<and> (\<forall>info now. Registry_Get G (monitorRun G cfg ops) (fst (RegisterConnection G info now (monitorRun G cfg ops))) = None)"
proof (intro conjI allI)
  let ?r = "monitorRun G cfg ops" and ?s = "specRun ops"
  have sim: "monitor_sim ?r ?s" using assms by (intro sim_run) simp
  then show "list_all2 (\<lambda>c (connID, log). counted connID log c) (rg_history ?r) (ms_closed ?s)" by (simp add: monitor_sim_def)
  fix connID
  have "rel_option (entry_ok (capOf ?r) connID) (lookup ?r connID) (ms_open ?s connID)" using sim by (simp add: monitor_sim_def)
  then show "case ms_open ?s connID of
      None \<Rightarrow> Registry_Get G ?r connID = None
    | Some log \<Rightarrow> (\<exists>c. Registry_Get G ?r connID = Some c \<and> counted connID log c) \<and>
        RecentEvents ?r connID = newest (nat (mc_RecentEventsCapacity (monitor_withDefaults cfg))) log"
    by (cases rule: option.rel_cases)
      (auto simp: Registry_Get_def RecentEvents_def capOf_run entry_ok_def counted_def toDomain_def)
next
  fix info now
  let ?r = "monitorRun G cfg ops" and ?s = "specRun ops"
  have sim: "monitor_sim ?r ?s" using assms by (intro sim_run) simp
  have "fst (RegisterConnection G info now ?r) = connName (Suc (connects ops))"
    using sim_Register(1) [OF sim] assms by (simp add: ms_count_specRun)
  moreover have "ms_open ?s (connName (Suc (connects ops))) = None"
    using open_names [of ops "connName (Suc (connects ops))"] by (cases "ms_open ?s (connName (Suc (connects ops)))") (auto simp: connName_inj)
  ultimately show "Registry_Get G ?r (fst (RegisterConnection G info now ?r)) = None"
    using sim_closed [OF sim] by (auto simp: Registry_Get_def)
qed

definition sampleRange :: goRange where
  "sampleRange = \<lparr>gr_clients = sorted_list_of_set, gr_watches = sorted_list_of_set\<rparr>"

definition sampleMonitor :: monitorConfig where
  "sampleMonitor = \<lparr>mc_RecentEventsCapacity = 1, mc_ActivityThrottle = 0, mc_DisableActivityEvents = False\<rparr>"

definition sampleEvent :: "time \<Rightarrow> err option \<Rightarrow> ClientEvent" where
  "sampleEvent t e = \<lparr>cev_Timestamp = t, cev_Method = ''Put'', cev_Key = [], cev_Revision = 0, cev_Duration = 1, cev_Error = e\<rparr>"

definition sampleOps :: "monitorOp list" where
  "sampleOps = [MConnect emptyInfo 0, MRequest (connName 1) ''Put'' [] 0 1 None 5, MConnect emptyInfo 6,
     MRequest (connName 1) ''Put'' [] 0 1 (Some ErrForbidden) 7, MDisconnect (connName 2) 8]"

lemma sampleOps_spec:
  "ms_open (specRun sampleOps) (connName 1) = Some [sampleEvent 5 None, sampleEvent 7 (Some ErrForbidden)]"
  "ms_closed (specRun sampleOps) = [(connName 2, [])]"
  by (simp_all add: sampleOps_def specRun_def connName_inj sampleEvent_def numeral_2_eq_2 flip: numeral_2_eq_2)

theorem monitor_accounts_witness:
  "connects sampleOps < 2 ^ 63 - 1
   \<and> RecentEvents (monitorRun sampleRange sampleMonitor sampleOps) (connName 1) = [sampleEvent 7 (Some ErrForbidden)]
   \<and> length (rg_history (monitorRun sampleRange sampleMonitor sampleOps)) = 1"
proof -
  have c: "connects sampleOps < 2 ^ 63 - 1" by (simp add: sampleOps_def connects_def)
  have "RecentEvents (monitorRun sampleRange sampleMonitor sampleOps) (connName 1) =
      newest (nat (mc_RecentEventsCapacity (monitor_withDefaults sampleMonitor))) [sampleEvent 5 None, sampleEvent 7 (Some ErrForbidden)]"
    using monitor_accounts [OF c, of sampleRange sampleMonitor, THEN conjunct1, THEN spec, of "connName 1"]
    unfolding sampleOps_spec(1) option.case by (rule conjunct2)
  moreover have "length (rg_history (monitorRun sampleRange sampleMonitor sampleOps)) = length (ms_closed (specRun sampleOps))"
    using monitor_accounts [OF c, of sampleRange sampleMonitor, THEN conjunct2, THEN conjunct1] by (rule list_all2_lengthD)
  ultimately show ?thesis using c
    by (simp add: sampleOps_spec(2) newest_def sampleMonitor_def monitor_withDefaults_def)
qed

text \<open>C15: The history of clients is kept without bound and never shown. The history store calls its repository outside of a
  transaction, where the cursor of the bucket is empty: however small the limits are, the writer adds an entry for every snapshot
  and deletes none, and the two listings are empty whatever the bucket holds.\<close>

theorem client_history_unbounded:
  assumes "ctx_tx c = None" "bolt_reliable E" "buckets w bucketClientHistory = Some b"
    and "\<forall>s \<in> set snaps. \<exists>t. cln_DisconnectedAt s = Some t \<and> in_int64 t \<and> map_of b (timeKey t) = None"
    and "distinct (map cln_DisconnectedAt snaps)"
  shows "(\<exists>b'. buckets (snd (historyRun E cfg c snaps w)) bucketClientHistory = Some b' \<and> length b' = length b + length snaps)
    \<and> HistoryStore_List c limit (snd (historyRun E cfg c snaps w)) = Ok []
    \<and> HistoryStore_ListByClient c clientName k8sNamespace limit (snd (historyRun E cfg c snaps w)) = Ok []"
  using historyRun_grows [OF assms(1,2,3,4,5)] assms(1)
  by (simp add: HistoryStore_List_def HistoryStore_ListByClient_def History_List_def History_ListByClient_def cursor_auto)

definition sampleSnap :: "time \<Rightarrow> Client" where
  "sampleSnap t =
     \<lparr>cln_ID = ''conn-1'', cln_PeerAddress = [], cln_UserAgent = [], cln_ClientName = [], cln_ClientVersion = [],
      cln_K8sNamespace = [], cln_K8sPod = [], cln_K8sNode = [], cln_InstanceID = [], cln_ConnectedAt = 0,
      cln_DisconnectedAt = Some t, cln_LastActivityAt = 0, cln_ActiveWatches = 0, cln_ActiveWatchList = [],
      cln_RequestCounts = [], cln_ErrorCount = 0\<rparr>"

definition emptyHistory :: world where
  "emptyHistory = \<lparr>buckets = [bucketClientHistory \<mapsto> []], ticks = 0\<rparr>"

theorem client_history_unbounded_witness:
  "\<exists>b'. buckets (snd (historyRun sampleEnv \<lparr>hc_MaxRecords = 1, hc_MaxAge = 1, hc_BufferSize = 8\<rparr> noTx
     [sampleSnap 1, sampleSnap 2] emptyHistory)) bucketClientHistory = Some b' \<and> length b' = 2"
proof -
  let ?snaps = "[sampleSnap 1, sampleSnap 2]"
  have "buckets emptyHistory bucketClientHistory = Some []" by (simp add: emptyHistory_def)
  moreover have "\<forall>s \<in> set ?snaps. \<exists>t. cln_DisconnectedAt s = Some t \<and> in_int64 t \<and> map_of [] (timeKey t) = None"
    "distinct (map cln_DisconnectedAt ?snaps)"
    by (simp_all add: sampleSnap_def in_int64_def)
  ultimately show ?thesis
    using client_history_unbounded [of noTx sampleEnv emptyHistory "[]" ?snaps
        "\<lparr>hc_MaxRecords = 1, hc_MaxAge = 1, hc_BufferSize = 8\<rparr>" 0 "[]" "[]"]
    by (simp add: numeral_2_eq_2 del: historyRun.simps)
qed

end
