(* ===== verification/ConfigApi.thy ===== *)
theory ConfigApi
  imports Requests ConfigListing SchemaService
begin

text \<open>
  The handlers of configs and schemas in the structured API, \<^verbatim>\<open>src/internal/handler/v2/config\<close>: the gate of each call, the
  conversion of its message, the call of the use case and the answer. The rules in memory are the argument \<open>m\<close>. A time is
  the same value in a message.
\<close>

section \<open>Calls\<close>

text \<open>A handler answers or fails with a status, and leaves a state in either case.\<close>

type_synonym ('a, 'w) api = "'w \<Rightarrow> (connectError + 'a) \<times> 'w"

definition authInfo :: "'c uctx_scheme \<Rightarrow> AuthInfo option" where
  "authInfo c = (case AuthInfoFromContext c of Inl _ \<Rightarrow> None | Inr i \<Rightarrow> Some i)"

definition gated :: "err + unit \<Rightarrow> ('a, 'w) api \<Rightarrow> ('a, 'w) api" where
  "gated check h w = (case check of Inl e \<Rightarrow> (Inl (ToConnectError e), w) | Inr _ \<Rightarrow> h w)"

definition respond :: "('a \<Rightarrow> 'b) \<Rightarrow> ('a, 'w) op \<Rightarrow> ('b, 'w) api" where
  "respond f call w =
     (case call w of (Inl e, w') \<Rightarrow> (Inl (ToConnectError e), w') | (Inr x, w') \<Rightarrow> (Inr (f x), w'))"

text \<open>The checks of page parameters fail with a status of their own.\<close>

definition paged :: "connectError + 'a \<Rightarrow> ('a \<Rightarrow> ('b, 'w) api) \<Rightarrow> ('b, 'w) api" where
  "paged check h w = (case check of Inl e \<Rightarrow> (Inl e, w) | Inr x \<Rightarrow> h x w)"

record PaginationRequest =
  pq_Limit :: int
  pq_Offset :: int

record PaginationResponse =
  ps_Total :: int
  ps_Limit :: int
  ps_Offset :: int

definition pageParams :: "PaginationRequest option \<Rightarrow> connectError + (int64 \<times> int64)" where
  "pageParams p =
     (case p of
        None \<Rightarrow> Inr (0, 0)
      | Some q \<Rightarrow>
          (case NormalizeLimit (pq_Limit q) of
             Inl e \<Rightarrow> Inl e
           | Inr limit \<Rightarrow>
               (case NormalizeOffset (pq_Offset q) of Inl e \<Rightarrow> Inl e | Inr offset \<Rightarrow> Inr (limit, offset))))"

definition pageResponse :: "int \<Rightarrow> int64 \<Rightarrow> int64 \<Rightarrow> PaginationResponse" where
  "pageResponse n limit offset = \<lparr>ps_Total = wrap32 n, ps_Limit = wrap32 limit, ps_Offset = wrap32 offset\<rparr>"

section \<open>Messages\<close>

datatype pbFormat = FORMAT_UNSPECIFIED | FORMAT_JSON | FORMAT_YAML | FORMAT_OTHER | FORMAT_unknown int

datatype pbEventType =
    EVENT_TYPE_UNSPECIFIED
  | EVENT_TYPE_CREATED
  | EVENT_TYPE_UPDATED
  | EVENT_TYPE_DELETED
  | EVENT_TYPE_LOCKED
  | EVENT_TYPE_UNLOCKED
  | EVENT_TYPE_NAMESPACE_LOCKED
  | EVENT_TYPE_NAMESPACE_UNLOCKED

record pbConfig =
  pc_Path :: string
  pc_Content :: bytes
  pc_ContentHash :: string
  pc_Format :: pbFormat
  pc_Namespace :: string
  pc_Version :: int64
  pc_Revision :: int64
  pc_Metadata :: metadata
  pc_Locked :: bool
  pc_NamespaceLocked :: bool
  pc_CreatedAt :: time
  pc_UpdatedAt :: time

record pbConfigSummary =
  pcs_Path :: string
  pcs_ContentHash :: string
  pcs_Format :: pbFormat
  pcs_Namespace :: string
  pcs_Version :: int64
  pcs_Revision :: int64
  pcs_Metadata :: metadata
  pcs_Locked :: bool
  pcs_NamespaceLocked :: bool
  pcs_CreatedAt :: time
  pcs_UpdatedAt :: time

record pbDirectoryEntry =
  pd_Name :: string
  pd_FullPath :: string
  pd_IsFile :: bool
  pd_Format :: pbFormat
  pd_Version :: int64
  pd_Revision :: int64
  pd_UpdatedAt :: time
  pd_ChildCount :: int
  pd_Locked :: bool
  pd_NamespaceLocked :: bool

record pbHistoryEntry =
  phe_Revision :: int64
  phe_Content :: bytes
  phe_ContentHash :: string
  phe_EventType :: pbEventType
  phe_Timestamp :: time

record pbWatchEvent =
  pwe_Type :: pbEventType
  pwe_Path :: string
  pwe_Namespace :: string
  pwe_Config :: "pbConfig option"
  pwe_Timestamp :: time

record WriteConfigRequest =
  wcr_Path :: string
  wcr_Content :: bytes
  wcr_Format :: pbFormat
  wcr_Namespace :: string
  wcr_Version :: int64
  wcr_Metadata :: metadata

record ConfigPathRequest =
  cpr_Path :: string
  cpr_Namespace :: string

record ListConfigsRequest =
  lcr_Path :: string
  lcr_Namespace :: string
  lcr_Sort :: "SortRequest option"
  lcr_Query :: string
  lcr_Pagination :: "PaginationRequest option"

record SearchConfigsRequest =
  scr_Query :: string
  scr_Namespace :: string
  scr_Sort :: "SortRequest option"
  scr_Pagination :: "PaginationRequest option"

record ValidateConfigRequest =
  vcr_Content :: string
  vcr_Format :: pbFormat
  vcr_Namespace :: string
  vcr_Path :: string

record pbValidationResult =
  pvr_Valid :: bool
  pvr_Errors :: "err list"
  pvr_DetectedFormat :: pbFormat
  pvr_NormalizedContent :: string
  pvr_SchemaViolations :: "SchemaViolation list"

section \<open>Converters\<close>

definition domainFormatToProto :: "Format \<Rightarrow> pbFormat" where
  "domainFormatToProto f =
     (if f = FormatJSON then FORMAT_JSON
      else if f = FormatYAML then FORMAT_YAML
      else if f = FormatOther then FORMAT_OTHER
      else FORMAT_UNSPECIFIED)"

definition protoFormatToDomain :: "pbFormat \<Rightarrow> Format" where
  "protoFormatToDomain f =
     (case f of FORMAT_JSON \<Rightarrow> FormatJSON | FORMAT_YAML \<Rightarrow> FormatYAML | FORMAT_OTHER \<Rightarrow> FormatOther | _ \<Rightarrow> [])"

definition eventTypeToProto :: "EventType \<Rightarrow> pbEventType" where
  "eventTypeToProto t =
     (if t = EventTypeCreated then EVENT_TYPE_CREATED
      else if t = EventTypeUpdated then EVENT_TYPE_UPDATED
      else if t = EventTypeDeleted then EVENT_TYPE_DELETED
      else if t = EventTypeLocked then EVENT_TYPE_LOCKED
      else if t = EventTypeUnlocked then EVENT_TYPE_UNLOCKED
      else if t = EventTypeNamespaceLocked then EVENT_TYPE_NAMESPACE_LOCKED
      else if t = EventTypeNamespaceUnlocked then EVENT_TYPE_NAMESPACE_UNLOCKED
      else EVENT_TYPE_UNSPECIFIED)"

definition domainConfigToProto :: "Config \<Rightarrow> pbConfig" where
  "domainConfigToProto cfg =
     \<lparr>pc_Path = cfg_Path cfg, pc_Content = cfg_Content cfg, pc_ContentHash = cfg_ContentHash cfg,
      pc_Format = domainFormatToProto (cfg_Format cfg), pc_Namespace = cfg_Namespace cfg, pc_Version = cfg_Version cfg,
      pc_Revision = cfg_Revision cfg, pc_Metadata = cfg_Metadata cfg, pc_Locked = cfg_Locked cfg,
      pc_NamespaceLocked = cfg_NamespaceLocked cfg, pc_CreatedAt = cfg_CreatedAt cfg, pc_UpdatedAt = cfg_UpdatedAt cfg\<rparr>"

definition directoryEntryToProto :: "DirectoryEntry \<Rightarrow> pbDirectoryEntry" where
  "directoryEntryToProto e =
     (if de_IsFile e then
        \<lparr>pd_Name = de_Name e, pd_FullPath = de_FullPath e, pd_IsFile = True, pd_Format = domainFormatToProto (de_Format e),
         pd_Version = de_Version e, pd_Revision = de_Revision e, pd_UpdatedAt = de_UpdatedAt e, pd_ChildCount = 0,
         pd_Locked = de_Locked e, pd_NamespaceLocked = de_NamespaceLocked e\<rparr>
      else
        \<lparr>pd_Name = de_Name e, pd_FullPath = de_FullPath e, pd_IsFile = False, pd_Format = FORMAT_UNSPECIFIED,
         pd_Version = 0, pd_Revision = 0, pd_UpdatedAt = de_UpdatedAt e, pd_ChildCount = wrap32 (de_ChildCount e),
         pd_Locked = False, pd_NamespaceLocked = de_NamespaceLocked e\<rparr>)"

definition domainSummaryToProto :: "ConfigSummary \<Rightarrow> pbConfigSummary" where
  "domainSummaryToProto s =
     \<lparr>pcs_Path = sum_Path s, pcs_ContentHash = sum_ContentHash s, pcs_Format = domainFormatToProto (sum_Format s),
      pcs_Namespace = sum_Namespace s, pcs_Version = sum_Version s, pcs_Revision = sum_Revision s,
      pcs_Metadata = sum_Metadata s, pcs_Locked = sum_Locked s, pcs_NamespaceLocked = sum_NamespaceLocked s,
      pcs_CreatedAt = sum_CreatedAt s, pcs_UpdatedAt = sum_UpdatedAt s\<rparr>"

definition domainHistoryEntryToProto :: "HistoryEntry \<Rightarrow> pbHistoryEntry" where
  "domainHistoryEntryToProto e =
     \<lparr>phe_Revision = he_Revision e, phe_Content = he_Content e, phe_ContentHash = he_ContentHash e,
      phe_EventType = eventTypeToProto (he_EventType e), phe_Timestamp = he_Timestamp e\<rparr>"

definition domainWatchEventToProto :: "WatchEvent \<Rightarrow> pbWatchEvent" where
  "domainWatchEventToProto ev =
     \<lparr>pwe_Type = eventTypeToProto (we_Type ev), pwe_Path = we_Path ev, pwe_Namespace = we_Namespace ev,
      pwe_Config = map_option domainConfigToProto (we_Config ev), pwe_Timestamp = we_Timestamp ev\<rparr>"

section \<open>The config handler\<close>

definition requestConfig :: "WriteConfigRequest \<Rightarrow> Config" where
  "requestConfig req =
     \<lparr>cfg_Path = wcr_Path req, cfg_Content = wcr_Content req, cfg_ContentHash = [],
      cfg_Format = protoFormatToDomain (wcr_Format req), cfg_Version = wcr_Version req, cfg_Revision = 0, cfg_CreateRevision = 0,
      cfg_Namespace = wcr_Namespace req, cfg_Metadata = wcr_Metadata req, cfg_Locked = False, cfg_NamespaceLocked = False,
      cfg_CreatedAt = 0, cfg_UpdatedAt = 0\<rparr>"

text \<open>The message of a creation has no version.\<close>

definition CreateConfig ::
  "env \<Rightarrow> ext \<Rightarrow> 'm pdp \<Rightarrow> 'm \<Rightarrow> 'c uctx_scheme \<Rightarrow> WriteConfigRequest \<Rightarrow> (pbConfig, 'z sworld_scheme) api" where
  "CreateConfig E X p m c req =
     gated (Authz_RequireNamespace p m (authInfo c) ActionWrite (wcr_Namespace req))
       (respond domainConfigToProto (Service_Create E X c (requestConfig (req\<lparr>wcr_Version := 0\<rparr>))))"

definition GetConfig ::
  "env \<Rightarrow> 'm pdp \<Rightarrow> 'm \<Rightarrow> 'c uctx_scheme \<Rightarrow> ConfigPathRequest \<Rightarrow> (pbConfig, 'z world_scheme) api" where
  "GetConfig E p m c req =
     gated (Authz_RequireNamespace p m (authInfo c) ActionRead (cpr_Namespace req))
       (respond domainConfigToProto (Service_Get E c (cpr_Namespace req) (cpr_Path req)))"

definition UpdateConfig ::
  "env \<Rightarrow> ext \<Rightarrow> 'm pdp \<Rightarrow> 'm \<Rightarrow> 'c uctx_scheme \<Rightarrow> WriteConfigRequest \<Rightarrow> (pbConfig, 'z sworld_scheme) api" where
  "UpdateConfig E X p m c req =
     gated (Authz_RequireNamespace p m (authInfo c) ActionWrite (wcr_Namespace req))
       (respond domainConfigToProto (Service_Update E X c (requestConfig req)))"

definition DeleteConfig ::
  "env \<Rightarrow> 'm pdp \<Rightarrow> 'm \<Rightarrow> 'c uctx_scheme \<Rightarrow> ConfigPathRequest \<Rightarrow> (unit, 'z sworld_scheme) api" where
  "DeleteConfig E p m c req =
     gated (Authz_RequireNamespace p m (authInfo c) ActionWrite (cpr_Namespace req))
       (respond (\<lambda>_. ()) (Service_Delete E c (cpr_Namespace req) (cpr_Path req)))"

definition ListConfigs ::
  "env \<Rightarrow> (string list \<Rightarrow> string list) \<Rightarrow> 'm pdp \<Rightarrow> 'm \<Rightarrow> 'c uctx_scheme \<Rightarrow> ListConfigsRequest
     \<Rightarrow> (pbDirectoryEntry list \<times> PaginationResponse, 'z world_scheme) api" where
  "ListConfigs E iter p m c req =
     gated (Authz_RequireNamespace p m (authInfo c) ActionRead (lcr_Namespace req))
       (paged (pageParams (lcr_Pagination req)) (\<lambda>(limit, offset).
        respond (\<lambda>(entries, n, limit, offset). (map directoryEntryToProto entries, pageResponse n limit offset))
          (Service_List E iter c
             \<lparr>lp_Namespace = lcr_Namespace req, lp_Path = lcr_Path req, lp_Limit = limit, lp_Offset = offset,
              lp_Sort = ProtoSortToDomain (lcr_Sort req), lp_Query = lcr_Query req\<rparr>)))"

definition GetConfigHistory_api ::
  "env \<Rightarrow> 'm pdp \<Rightarrow> 'm \<Rightarrow> 'c uctx_scheme \<Rightarrow> ConfigPathRequest \<Rightarrow> int \<Rightarrow> (pbHistoryEntry list, 'z world_scheme) api" where
  "GetConfigHistory_api E p m c req limit =
     gated (Authz_RequireNamespace p m (authInfo c) ActionRead (cpr_Namespace req))
       (paged (NormalizeLimit limit) (\<lambda>limit.
        respond (map domainHistoryEntryToProto) (Service_History E c (cpr_Namespace req) (cpr_Path req) limit)))"

definition GetConfigAtRevision ::
  "env \<Rightarrow> 'm pdp \<Rightarrow> 'm \<Rightarrow> 'c uctx_scheme \<Rightarrow> ConfigPathRequest \<Rightarrow> int64 \<Rightarrow> (pbHistoryEntry, 'z world_scheme) api" where
  "GetConfigAtRevision E p m c req revision =
     gated (Authz_RequireNamespace p m (authInfo c) ActionRead (cpr_Namespace req))
       (respond domainHistoryEntryToProto (Service_GetAtRevision E c (cpr_Namespace req) (cpr_Path req) revision))"

text \<open>The search has no gate: the use case confines it to the namespaces the caller may read.\<close>

definition SearchConfigs ::
  "env \<Rightarrow> 'm pdp \<Rightarrow> 'm \<Rightarrow> 'c uctx_scheme \<Rightarrow> SearchConfigsRequest
     \<Rightarrow> (pbConfigSummary list \<times> PaginationResponse, 'z world_scheme) api" where
  "SearchConfigs E p m c req =
     paged (pageParams (scr_Pagination req)) (\<lambda>(limit, offset).
       respond (\<lambda>(results, n, limit, offset). (map domainSummaryToProto results, pageResponse n limit offset))
         (Service_Search E p m (authInfo c) c
            \<lparr>sp_Query = scr_Query req, sp_Namespace = scr_Namespace req, sp_Limit = limit, sp_Offset = offset,
             sp_Sort = ProtoSortToDomain (scr_Sort req)\<rparr>))"

definition CopyConfig ::
  "env \<Rightarrow> 'm pdp \<Rightarrow> 'm \<Rightarrow> 'c uctx_scheme \<Rightarrow> CopyInput \<Rightarrow> (pbConfig, 'z sworld_scheme) api" where
  "CopyConfig E p m c req =
     gated (Authz_RequireNamespace p m (authInfo c) ActionRead (ci_SourceNamespace req))
       (gated (Authz_RequireNamespace p m (authInfo c) ActionWrite (ci_DestNamespace req))
         (respond domainConfigToProto (Service_Copy E c req)))"

definition ValidateConfig ::
  "env \<Rightarrow> ext \<Rightarrow> 'm pdp \<Rightarrow> 'm \<Rightarrow> 'c uctx_scheme \<Rightarrow> ValidateConfigRequest \<Rightarrow> (pbValidationResult, 'z sworld_scheme) api" where
  "ValidateConfig E X p m c req =
     gated (Authz_RequireNamespace p m (authInfo c) ActionRead (vcr_Namespace req))
       (respond (\<lambda>(result, violations).
          \<lparr>pvr_Valid = vr_Valid result, pvr_Errors = vr_Errors result,
           pvr_DetectedFormat = domainFormatToProto (vr_DetectedFormat result),
           pvr_NormalizedContent = vr_NormalizedContent result, pvr_SchemaViolations = violations\<rparr>)
         (Service_Validate E X c (vcr_Content req) (protoFormatToDomain (vcr_Format req)) (vcr_Namespace req) (vcr_Path req)))"

definition GetConfigDiff ::
  "env \<Rightarrow> ext \<Rightarrow> unifiedDiff \<Rightarrow> 'm pdp \<Rightarrow> 'm \<Rightarrow> 'c uctx_scheme \<Rightarrow> DiffInput \<Rightarrow> (ConfigDiff, 'z world_scheme) api" where
  "GetConfigDiff E X D p m c req =
     gated (Authz_RequireNamespace p m (authInfo c) ActionRead (di_Namespace req))
       (respond (\<lambda>d. d) (Service_Diff E X D c req))"

text \<open>
  The stream of a watch, over what its select meets in order: an event of the subscription, its end, or the end of the request.
  A send may fail. The subscription is cancelled in every case.
\<close>

datatype watchInput = WatchInputEvent WatchEvent | WatchInputClosed | WatchInputDone

datatype watchOutcome = WatchOutcomeClosed | WatchOutcomeDone | WatchOutcomeSendFailed

fun watchConfigsLoop ::
  "(pbWatchEvent \<Rightarrow> bool) \<Rightarrow> watchInput list \<Rightarrow> pbWatchEvent list \<Rightarrow> pbWatchEvent list \<times> watchOutcome" where
  "watchConfigsLoop send [] sent = (sent, WatchOutcomeDone)"
| "watchConfigsLoop send (WatchInputDone # rest) sent = (sent, WatchOutcomeDone)"
| "watchConfigsLoop send (WatchInputClosed # rest) sent = (sent, WatchOutcomeClosed)"
| "watchConfigsLoop send (WatchInputEvent ev # rest) sent =
     (let resp = domainWatchEventToProto ev in
      if send resp then watchConfigsLoop send rest (sent @ [resp]) else (sent, WatchOutcomeSendFailed))"

definition WatchConfigs ::
  "'m pdp \<Rightarrow> 'm \<Rightarrow> 'c uctx_scheme \<Rightarrow> ConfigPathRequest \<Rightarrow> (pbWatchEvent \<Rightarrow> bool) \<Rightarrow> (int \<Rightarrow> watchInput list)
     \<Rightarrow> (pbWatchEvent list \<times> watchOutcome, 'z sworld_scheme) api" where
  "WatchConfigs p m c req send inputs =
     gated (Authz_RequireNamespace p m (authInfo c) ActionRead (cpr_Namespace req)) (\<lambda>w.
       case Service_Watch (cpr_Namespace req) (cpr_Path req) w of
         (Inl e, w1) \<Rightarrow> (Inl (NewError CodeUnknown e), w1)
       | (Inr sid, w1) \<Rightarrow> (Inr (watchConfigsLoop send (inputs sid) []), w1\<lparr>hub := cleanup sid (hub w1)\<rparr>))"

definition LockConfig_api ::
  "env \<Rightarrow> 'm pdp \<Rightarrow> 'm \<Rightarrow> 'c uctx_scheme \<Rightarrow> ConfigPathRequest \<Rightarrow> (unit, 'z sworld_scheme) api" where
  "LockConfig_api E p m c req =
     gated (Authz_RequireNamespace p m (authInfo c) ActionWrite (cpr_Namespace req))
       (respond (\<lambda>_. ()) (Service_Lock E c (cpr_Namespace req) (cpr_Path req)))"

definition UnlockConfig_api ::
  "env \<Rightarrow> 'm pdp \<Rightarrow> 'm \<Rightarrow> 'c uctx_scheme \<Rightarrow> ConfigPathRequest \<Rightarrow> (unit, 'z sworld_scheme) api" where
  "UnlockConfig_api E p m c req =
     gated (Authz_RequireNamespace p m (authInfo c) ActionWrite (cpr_Namespace req))
       (respond (\<lambda>_. ()) (Service_Unlock E c (cpr_Namespace req) (cpr_Path req)))"

section \<open>The schema handler\<close>

record pbSchemaAttachment =
  psa_Id :: string
  psa_Namespace :: string
  psa_PathPattern :: string
  psa_JsonSchema :: string
  psa_CreatedAt :: time

definition domainSchemaToProto :: "SchemaAttachment \<Rightarrow> pbSchemaAttachment" where
  "domainSchemaToProto s =
     \<lparr>psa_Id = sa_ID s, psa_Namespace = sa_Namespace s, psa_PathPattern = sa_PathPattern s, psa_JsonSchema = sa_JSONSchema s,
      psa_CreatedAt = sa_CreatedAt s\<rparr>"

definition AttachSchema ::
  "env \<Rightarrow> ext \<Rightarrow> uuids \<Rightarrow> 'm pdp \<Rightarrow> 'm \<Rightarrow> 'c uctx_scheme \<Rightarrow> AttachInput \<Rightarrow> (pbSchemaAttachment, 'z rworld_scheme) api" where
  "AttachSchema E X U p m c req =
     gated (Authz_RequireNamespace p m (authInfo c) ActionWrite (ai_Namespace req))
       (respond domainSchemaToProto (SchemaService_Attach E X U c req))"

definition DetachSchema ::
  "env \<Rightarrow> 'm pdp \<Rightarrow> 'm \<Rightarrow> 'c uctx_scheme \<Rightarrow> string \<Rightarrow> string \<Rightarrow> (unit, 'z world_scheme) api" where
  "DetachSchema E p m c namespace pathPattern =
     gated (Authz_RequireNamespace p m (authInfo c) ActionWrite namespace)
       (respond (\<lambda>_. ()) (SchemaService_Detach E c namespace pathPattern))"

definition GetSchema ::
  "'m pdp \<Rightarrow> 'm \<Rightarrow> 'c uctx_scheme \<Rightarrow> string \<Rightarrow> string \<Rightarrow> (pbSchemaAttachment, 'z world_scheme) api" where
  "GetSchema p m c namespace pathPattern =
     gated (Authz_RequireNamespace p m (authInfo c) ActionRead namespace)
       (respond domainSchemaToProto (SchemaService_Get namespace pathPattern))"

definition GetEffectiveSchema ::
  "env \<Rightarrow> ext \<Rightarrow> 'm pdp \<Rightarrow> 'm \<Rightarrow> 'c uctx_scheme \<Rightarrow> string \<Rightarrow> string
     \<Rightarrow> (pbSchemaAttachment option, 'z world_scheme) api" where
  "GetEffectiveSchema E X p m c namespace path =
     gated (Authz_RequireNamespace p m (authInfo c) ActionRead namespace)
       (respond (map_option domainSchemaToProto) (SchemaService_GetEffective E X c namespace path))"

definition ListSchemas ::
  "env \<Rightarrow> 'm pdp \<Rightarrow> 'm \<Rightarrow> 'c uctx_scheme \<Rightarrow> string \<Rightarrow> (pbSchemaAttachment list, 'z world_scheme) api" where
  "ListSchemas E p m c namespace =
     respond (map domainSchemaToProto) (SchemaService_List E p m (authInfo c) c namespace)"

section \<open>The config service\<close>

text \<open>
  A call of the service with its message, and its answer: the switch over the procedures that the generated
  \<^verbatim>\<open>NewConfigServiceHandler\<close> makes over the handler's methods.
\<close>

datatype ConfigCall =
    CallCreateConfig WriteConfigRequest
  | CallGetConfig ConfigPathRequest
  | CallUpdateConfig WriteConfigRequest
  | CallDeleteConfig ConfigPathRequest
  | CallListConfigs ListConfigsRequest
  | CallGetConfigHistory ConfigPathRequest int
  | CallGetConfigAtRevision ConfigPathRequest int64
  | CallSearchConfigs SearchConfigsRequest
  | CallCopyConfig CopyInput
  | CallValidateConfig ValidateConfigRequest
  | CallWatchConfigs ConfigPathRequest
  | CallGetConfigDiff DiffInput
  | CallLockConfig ConfigPathRequest
  | CallUnlockConfig ConfigPathRequest

datatype ConfigAnswer =
    AnswerConfig pbConfig
  | AnswerDone
  | AnswerEntries "pbDirectoryEntry list" PaginationResponse
  | AnswerHistory "pbHistoryEntry list"
  | AnswerSummaries "pbConfigSummary list" PaginationResponse
  | AnswerValidation pbValidationResult
  | AnswerWatch "pbWatchEvent list" watchOutcome
  | AnswerDiff ConfigDiff

definition answered :: "('a \<Rightarrow> 'b) \<Rightarrow> ('a, 'w) api \<Rightarrow> ('b, 'w) api" where
  "answered f h w = (case h w of (Inl e, w') \<Rightarrow> (Inl e, w') | (Inr x, w') \<Rightarrow> (Inr (f x), w'))"

text \<open>What a stream meets, and the order in which maps are ranged over, are arguments.\<close>

definition serveConfig ::
  "env \<Rightarrow> ext \<Rightarrow> unifiedDiff \<Rightarrow> (string list \<Rightarrow> string list) \<Rightarrow> (pbWatchEvent \<Rightarrow> bool) \<Rightarrow> (int \<Rightarrow> watchInput list)
     \<Rightarrow> 'm pdp \<Rightarrow> 'm \<Rightarrow> 'c uctx_scheme \<Rightarrow> ConfigCall \<Rightarrow> (ConfigAnswer, 'z sworld_scheme) api" where
  "serveConfig E X D iter send inputs p m c call =
     (case call of
        CallCreateConfig req \<Rightarrow> answered AnswerConfig (CreateConfig E X p m c req)
      | CallGetConfig req \<Rightarrow> answered AnswerConfig (GetConfig E p m c req)
      | CallUpdateConfig req \<Rightarrow> answered AnswerConfig (UpdateConfig E X p m c req)
      | CallDeleteConfig req \<Rightarrow> answered (\<lambda>_. AnswerDone) (DeleteConfig E p m c req)
      | CallListConfigs req \<Rightarrow> answered (\<lambda>(es, pg). AnswerEntries es pg) (ListConfigs E iter p m c req)
      | CallGetConfigHistory req limit \<Rightarrow> answered AnswerHistory (GetConfigHistory_api E p m c req limit)
      | CallGetConfigAtRevision req revision \<Rightarrow>
          answered (\<lambda>e. AnswerHistory [e]) (GetConfigAtRevision E p m c req revision)
      | CallSearchConfigs req \<Rightarrow> answered (\<lambda>(rs, pg). AnswerSummaries rs pg) (SearchConfigs E p m c req)
      | CallCopyConfig req \<Rightarrow> answered AnswerConfig (CopyConfig E p m c req)
      | CallValidateConfig req \<Rightarrow> answered AnswerValidation (ValidateConfig E X p m c req)
      | CallWatchConfigs req \<Rightarrow> answered (\<lambda>(evs, r). AnswerWatch evs r) (WatchConfigs p m c req send inputs)
      | CallGetConfigDiff req \<Rightarrow> answered AnswerDiff (GetConfigDiff E X D p m c req)
      | CallLockConfig req \<Rightarrow> answered (\<lambda>_. AnswerDone) (LockConfig_api E p m c req)
      | CallUnlockConfig req \<Rightarrow> answered (\<lambda>_. AnswerDone) (UnlockConfig_api E p m c req))"

end
