(* ===== verification/Bundles.thy ===== *)
theory Bundles
  imports Emails Policies NamespaceRepo ConfigReads
begin

text \<open>
  Export and import of bundles, \<^verbatim>\<open>src/internal/usecase/transfer\<close> with \<^verbatim>\<open>domain/bundle.go\<close> and \<^verbatim>\<open>util/archive/zip.go\<close>.
  Both work on the repositories directly. The texts of bundles and the zip format are a record of functions.
\<close>

section \<open>Bundles\<close>

record BundleConfig =
  bc_Path :: string
  bc_Content :: bytes
  bc_Format :: Format
  bc_Metadata :: metadata

record NamespaceBundle =
  nb_Namespace :: string
  nb_Description :: string
  nb_ExportedAt :: time
  nb_Configs :: "BundleConfig list"

record AllBundle =
  ab_ExportedAt :: time
  ab_Namespaces :: "NamespaceBundle list"

text \<open>The message of an error is a fixed text or the text of the error it reports.\<close>

record BundleImportError =
  bie_Path :: string
  bie_Namespace :: string
  bie_Message :: "string + err"

record ImportReport =
  rep_Created :: nat
  rep_Updated :: nat
  rep_Skipped :: nat
  rep_Failed :: nat
  rep_Errors :: "BundleImportError list"
  rep_DryRun :: bool

definition AddError :: "string \<Rightarrow> string \<Rightarrow> string + err \<Rightarrow> ImportReport \<Rightarrow> ImportReport" where
  "AddError path namespace message r =
     r\<lparr>rep_Failed := rep_Failed r + 1,
       rep_Errors := rep_Errors r @ [\<lparr>bie_Path = path, bie_Namespace = namespace, bie_Message = message\<rparr>]\<rparr>"

datatype BundleEncoding = BUNDLE_ENCODING_UNSPECIFIED | BUNDLE_ENCODING_JSON | BUNDLE_ENCODING_YAML

datatype ZipLayout = ZIP_LAYOUT_UNSPECIFIED | ZIP_LAYOUT_BUNDLE | ZIP_LAYOUT_PER_NAMESPACE

datatype ConflictResolution =
    CONFLICT_RESOLUTION_UNSPECIFIED
  | CONFLICT_RESOLUTION_SKIP
  | CONFLICT_RESOLUTION_OVERWRITE
  | CONFLICT_RESOLUTION_FAIL
  | CONFLICT_RESOLUTION_other int

text \<open>What is marshalled: a whole bundle, one namespace, or the index of an archive.\<close>

datatype document =
    DocAll AllBundle
  | DocNamespace NamespaceBundle
  | DocIndex time "string list"

text \<open>
  The encoders and decoders of \<^verbatim>\<open>encoding/json\<close> and \<^verbatim>\<open>yaml.v3\<close> for these types, and the files of a zip archive
  (name, whether it is a directory, content), in order.
\<close>

record bundleLib =
  bl_JSON :: "document \<Rightarrow> err + bytes"
  bl_YAML :: "document \<Rightarrow> err + bytes"
  bl_parseAllJSON :: "bytes \<Rightarrow> err + AllBundle"
  bl_parseAllYAML :: "bytes \<Rightarrow> err + AllBundle"
  bl_parseNamespaceJSON :: "bytes \<Rightarrow> err + NamespaceBundle"
  bl_parseNamespaceYAML :: "bytes \<Rightarrow> err + NamespaceBundle"
  bl_zip :: "(string \<times> bytes) list \<Rightarrow> err + bytes"
  bl_unzip :: "bytes \<Rightarrow> err + (string \<times> bool \<times> (err + bytes)) list"

section \<open>Archives\<close>

definition WrapInZip :: "bundleLib \<Rightarrow> string \<Rightarrow> bytes \<Rightarrow> err + bytes" where
  "WrapInZip B filename data = bl_zip B [(filename, data)]"

definition IsZIP :: "bytes \<Rightarrow> bool" where
  "IsZIP data \<longleftrightarrow> length data \<ge> 4 \<and> take 4 data = [char_of (0x50::nat), char_of (0x4B::nat), char_of (3::nat), char_of (4::nat)]"

fun firstFile :: "(string \<times> bool \<times> (err + bytes)) list \<Rightarrow> err + bytes" where
  "firstFile [] = Err (ErrExternal ''zip archive is empty'')"
| "firstFile ((name, isDir, content) # rest) = (if isDir then firstFile rest else content)"

definition UnzipIfNeeded :: "bundleLib \<Rightarrow> bytes \<Rightarrow> err + bytes" where
  "UnzipIfNeeded B data =
     (if \<not> IsZIP data then Ok data
      else case bl_unzip B data of Inl e \<Rightarrow> Err e | Inr files \<Rightarrow> firstFile files)"

section \<open>Texts\<close>

definition contentTypeJSON :: string where "contentTypeJSON = ''application/json''"
definition contentTypeYAML :: string where "contentTypeYAML = ''application/yaml''"
definition contentTypeZIP :: string where "contentTypeZIP = ''application/zip''"
definition extJSON :: string where "extJSON = ''.json''"
definition extYAML :: string where "extYAML = ''.yaml''"
definition extZIP :: string where "extZIP = ''.zip''"

definition marshalBundle :: "bundleLib \<Rightarrow> document \<Rightarrow> BundleEncoding \<Rightarrow> err + (bytes \<times> string)" where
  "marshalBundle B v enc =
     (if enc = BUNDLE_ENCODING_YAML
      then (case bl_YAML B v of Inl e \<Rightarrow> Err e | Inr data \<Rightarrow> Ok (data, contentTypeYAML))
      else (case bl_JSON B v of Inl e \<Rightarrow> Err e | Inr data \<Rightarrow> Ok (data, contentTypeJSON)))"

definition isYAML :: "bytes \<Rightarrow> bool" where
  "isYAML data =
     (case Emails.trimSpace data of
        [] \<Rightarrow> False
      | c # _ \<Rightarrow> c \<noteq> CHR ''{'' \<and> c \<noteq> CHR ''['')"

definition unmarshalAllBundle :: "bundleLib \<Rightarrow> bytes \<Rightarrow> err + AllBundle" where
  "unmarshalAllBundle B data =
     (case UnzipIfNeeded B data of
        Inl e \<Rightarrow> Err e
      | Inr d \<Rightarrow> if isYAML d then bl_parseAllYAML B d else bl_parseAllJSON B d)"

definition unmarshalNamespaceBundle :: "bundleLib \<Rightarrow> bytes \<Rightarrow> err + NamespaceBundle" where
  "unmarshalNamespaceBundle B data =
     (case UnzipIfNeeded B data of
        Inl e \<Rightarrow> Err e
      | Inr d \<Rightarrow> if isYAML d then bl_parseNamespaceYAML B d else bl_parseNamespaceJSON B d)"

definition bundleExtension :: "string \<Rightarrow> bool \<Rightarrow> string" where
  "bundleExtension ct asZip =
     (if asZip then extZIP else if ct = contentTypeYAML then extYAML else extJSON)"

section \<open>Export\<close>

definition exportFileName :: string where "exportFileName = ''elara-export-all''"

definition toBundleConfig :: "Config \<Rightarrow> BundleConfig" where
  "toBundleConfig cfg =
     \<lparr>bc_Path = cfg_Path cfg, bc_Content = cfg_Content cfg, bc_Format = cfg_Format cfg, bc_Metadata = cfg_Metadata cfg\<rparr>"

definition sortedConfigs :: "env \<Rightarrow> Config list \<Rightarrow> BundleConfig list" where
  "sortedConfigs E cfgs = sortSliceBy E (\<lambda>a b. bc_Path a < bc_Path b) (map toBundleConfig cfgs)"

definition buildNamespaceBundle ::
  "env \<Rightarrow> 'c ctx_scheme \<Rightarrow> Namespace \<Rightarrow> time \<Rightarrow> (NamespaceBundle, 'z world_scheme) op" where
  "buildNamespaceBundle E c ns exportedAt =
     bindT (ListAllByNamespace E c (ns_Name ns)) (\<lambda>configs.
     returnT \<lparr>nb_Namespace = ns_Name ns, nb_Description = ns_Description ns, nb_ExportedAt = exportedAt,
              nb_Configs = sortedConfigs E configs\<rparr>)"

fun buildBundles ::
  "env \<Rightarrow> 'm pdp \<Rightarrow> 'm \<Rightarrow> string \<Rightarrow> 'c ctx_scheme \<Rightarrow> time \<Rightarrow> Namespace list
     \<Rightarrow> (NamespaceBundle list, 'z world_scheme) op" where
  "buildBundles E p m userID c exportedAt [] = returnT []"
| "buildBundles E p m userID c exportedAt (ns # rest) =
     (if \<not> HasNamespace p m userID (ns_Name ns) ActionRead then buildBundles E p m userID c exportedAt rest
      else
        bindT (buildNamespaceBundle E c ns exportedAt) (\<lambda>nb.
        bindT (buildBundles E p m userID c exportedAt rest) (\<lambda>nbs. returnT (nb # nbs))))"

definition Namespace_ListAll :: "env \<Rightarrow> 'c ctx_scheme \<Rightarrow> (Namespace list, 'z world_scheme) op" where
  "Namespace_ListAll E c =
     bindT (Namespace_List E c \<lparr>nf_Names = [], nf_Wildcard = True, nf_Search = []\<rparr> 0 0 \<lparr>sort_Field = [], sort_Desc = False\<rparr>)
       (\<lambda>(out, _). returnT out)"

definition buildAllBundle ::
  "env \<Rightarrow> 'm pdp \<Rightarrow> 'm \<Rightarrow> AuthInfo option \<Rightarrow> 'c ctx_scheme \<Rightarrow> (AllBundle, 'z world_scheme) op" where
  "buildAllBundle E p m info c =
     (case info of
        None \<Rightarrow> failT ErrUnauthorized
      | Some actor \<Rightarrow>
          bindT (Namespace_ListAll E c) (\<lambda>nss.
          bindT (timeNow E) (\<lambda>exportedAt.
          bindT (buildBundles E p m (ai_UserID actor) c exportedAt nss) (\<lambda>nbs.
          returnT \<lparr>ab_ExportedAt = exportedAt,
                   ab_Namespaces = sortSliceBy E (\<lambda>a b. nb_Namespace a < nb_Namespace b) nbs\<rparr>))))"

definition writeZipNamespace :: "bundleLib \<Rightarrow> NamespaceBundle \<Rightarrow> BundleEncoding \<Rightarrow> err + (string \<times> bytes)" where
  "writeZipNamespace B ns enc =
     (case marshalBundle B (DocNamespace ns) enc of
        Inl e \<Rightarrow> Err e
      | Inr (payload, ct) \<Rightarrow>
          Ok (''namespaces/'' @ nb_Namespace ns @ (if ct = contentTypeYAML then extYAML else extJSON), payload))"

definition writeZipIndex :: "bundleLib \<Rightarrow> AllBundle \<Rightarrow> BundleEncoding \<Rightarrow> err + (string \<times> bytes)" where
  "writeZipIndex B bundle enc =
     (case marshalBundle B (DocIndex (ab_ExportedAt bundle) (map nb_Namespace (ab_Namespaces bundle))) enc of
        Inl e \<Rightarrow> Err e
      | Inr (payload, ct) \<Rightarrow> Ok (if ct = contentTypeYAML then ''index.yaml'' else ''index.json'', payload))"

fun writeZipNamespaces :: "bundleLib \<Rightarrow> BundleEncoding \<Rightarrow> NamespaceBundle list \<Rightarrow> err + (string \<times> bytes) list" where
  "writeZipNamespaces B enc [] = Ok []"
| "writeZipNamespaces B enc (ns # rest) =
     (case writeZipNamespace B ns enc of
        Inl e \<Rightarrow> Err e
      | Inr f \<Rightarrow> (case writeZipNamespaces B enc rest of Inl e \<Rightarrow> Err e | Inr fs \<Rightarrow> Ok (f # fs)))"

definition marshalPerNamespaceZip :: "bundleLib \<Rightarrow> AllBundle \<Rightarrow> BundleEncoding \<Rightarrow> err + bytes" where
  "marshalPerNamespaceZip B bundle enc =
     (case writeZipNamespaces B enc (ab_Namespaces bundle) of
        Inl e \<Rightarrow> Err e
      | Inr fs \<Rightarrow>
          (case writeZipIndex B bundle enc of
             Inl e \<Rightarrow> Err e
           | Inr idx \<Rightarrow> bl_zip B (fs @ [idx])))"

text \<open>The payload, its content type and the name of the file.\<close>

type_synonym download = "bytes \<times> string \<times> string"

definition packBundle :: "bundleLib \<Rightarrow> document \<Rightarrow> string \<Rightarrow> bool \<Rightarrow> BundleEncoding \<Rightarrow> err + download" where
  "packBundle B doc fileName asZip enc =
     (case marshalBundle B doc enc of
        Inl e \<Rightarrow> Err e
      | Inr (payload, ct) \<Rightarrow>
          if asZip then
            (case WrapInZip B (fileName @ bundleExtension ct False) payload of
               Inl e \<Rightarrow> Err e
             | Inr z \<Rightarrow> Ok (z, contentTypeZIP, fileName @ bundleExtension ct True))
          else Ok (payload, ct, fileName @ bundleExtension ct False))"

definition ExportAll ::
  "env \<Rightarrow> bundleLib \<Rightarrow> 'm pdp \<Rightarrow> 'm \<Rightarrow> AuthInfo option \<Rightarrow> 'c ctx_scheme \<Rightarrow> bool \<Rightarrow> BundleEncoding \<Rightarrow> ZipLayout
     \<Rightarrow> (download, 'z world_scheme) op" where
  "ExportAll E B p m info c asZip enc layout =
     bindT (buildAllBundle E p m info c) (\<lambda>allBundle.
     readT (\<lambda>_.
       if asZip \<and> layout = ZIP_LAYOUT_PER_NAMESPACE then
         (case marshalPerNamespaceZip B allBundle enc of
            Inl e \<Rightarrow> Err e
          | Inr payload \<Rightarrow> Ok (payload, contentTypeZIP, exportFileName @ ''.'' @ extZIP))
       else packBundle B (DocAll allBundle) exportFileName asZip enc))"

definition ExportNamespace ::
  "env \<Rightarrow> bundleLib \<Rightarrow> 'c ctx_scheme \<Rightarrow> string \<Rightarrow> bool \<Rightarrow> BundleEncoding \<Rightarrow> (download, 'z world_scheme) op" where
  "ExportNamespace E B c namespace asZip enc =
     bindT (readT (Namespace_Get namespace)) (\<lambda>ns.
     bindT (ListAllByNamespace E c namespace) (\<lambda>configs.
     bindT (timeNow E) (\<lambda>now.
     readT (\<lambda>_.
       packBundle B (DocNamespace \<lparr>nb_Namespace = namespace, nb_Description = ns_Description ns, nb_ExportedAt = now,
                                   nb_Configs = sortedConfigs E configs\<rparr>)
         (namespace @ ''-export'') asZip enc))))"

section \<open>Import\<close>

definition requireTransferWrite :: "'m pdp \<Rightarrow> 'm \<Rightarrow> AuthInfo option \<Rightarrow> string \<Rightarrow> err + unit" where
  "requireTransferWrite p m info namespace =
     (case info of
        None \<Rightarrow> Err ErrUnauthorized
      | Some actor \<Rightarrow> if HasNamespace p m (ai_UserID actor) namespace ActionWrite then Ok () else Err ErrForbidden)"

definition bundleConfigToDomain :: "env \<Rightarrow> BundleConfig \<Rightarrow> string \<Rightarrow> Config" where
  "bundleConfigToDomain E bc namespace =
     GenerateHash (sha256hex E)
       \<lparr>cfg_Path = bc_Path bc, cfg_Content = bc_Content bc, cfg_ContentHash = [], cfg_Format = bc_Format bc, cfg_Version = 0,
        cfg_Revision = 0, cfg_CreateRevision = 0, cfg_Namespace = namespace, cfg_Metadata = bc_Metadata bc,
        cfg_Locked = False, cfg_NamespaceLocked = False, cfg_CreatedAt = 0, cfg_UpdatedAt = 0\<rparr>"

definition ensureNamespace ::
  "env \<Rightarrow> 'c ctx_scheme \<Rightarrow> string \<Rightarrow> string \<Rightarrow> (unit, 'z world_scheme) op" where
  "ensureNamespace E c name description w =
     (case Namespace_Get name w of
        Inr _ \<Rightarrow> (Ok (), w)
      | Inl e \<Rightarrow>
          (case e of
             ErrResourceNotFound _ \<Rightarrow>
               Namespace_Create E (GetQuerier c)
                 \<lparr>ns_Name = name, ns_DisplayName = [], ns_Description = description, ns_ConfigCount = 0, ns_Locked = False,
                  ns_CreatedAt = 0, ns_UpdatedAt = 0, ns_CanRead = False, ns_CanWrite = False\<rparr> w
           | _ \<Rightarrow> (Err e, w)))"

definition handleConflict ::
  "env \<Rightarrow> 'c ctx_scheme \<Rightarrow> BundleConfig \<Rightarrow> Config \<Rightarrow> string \<Rightarrow> ConflictResolution \<Rightarrow> bool \<Rightarrow> ImportReport
     \<Rightarrow> (ImportReport, 'z world_scheme) op" where
  "handleConflict E c bc existing namespace onConflict dryRun report w =
     (case onConflict of
        CONFLICT_RESOLUTION_FAIL \<Rightarrow> (Ok (AddError (bc_Path bc) namespace (Inl ''config already exists'') report), w)
      | CONFLICT_RESOLUTION_OVERWRITE \<Rightarrow>
          if dryRun then (Ok (report\<lparr>rep_Updated := rep_Updated report + 1\<rparr>), w)
          else
            (case Update E c ((bundleConfigToDomain E bc namespace)\<lparr>cfg_Version := cfg_Version existing\<rparr>) w of
               (Inl e, w1) \<Rightarrow> (Ok (AddError (bc_Path bc) namespace (Inr e) report), w1)
             | (Inr _, w1) \<Rightarrow> (Ok (report\<lparr>rep_Updated := rep_Updated report + 1\<rparr>), w1))
      | CONFLICT_RESOLUTION_other _ \<Rightarrow> (Ok report, w)
      | _ \<Rightarrow> (Ok (report\<lparr>rep_Skipped := rep_Skipped report + 1\<rparr>), w))"

definition importConfig ::
  "env \<Rightarrow> 'c ctx_scheme \<Rightarrow> BundleConfig \<Rightarrow> string \<Rightarrow> ConflictResolution \<Rightarrow> bool \<Rightarrow> ImportReport
     \<Rightarrow> (ImportReport, 'z world_scheme) op" where
  "importConfig E c bc namespace onConflict dryRun report w =
     (case Get E c (bc_Path bc) namespace w of
        (Inr existing, w1) \<Rightarrow> handleConflict E c bc existing namespace onConflict dryRun report w1
      | (Inl e, w1) \<Rightarrow>
          if (case e of ErrResourceNotFound _ \<Rightarrow> True | ErrNotFound _ _ \<Rightarrow> True | _ \<Rightarrow> False) then
            if dryRun then (Ok (report\<lparr>rep_Created := rep_Created report + 1\<rparr>), w1)
            else
              (case Create E c (bundleConfigToDomain E bc namespace) w1 of
                 (Inl e2, w2) \<Rightarrow> (Ok (AddError (bc_Path bc) namespace (Inr e2) report), w2)
               | (Inr _, w2) \<Rightarrow> (Ok (report\<lparr>rep_Created := rep_Created report + 1\<rparr>), w2))
          else (Err e, w1))"

fun importConfigs ::
  "env \<Rightarrow> 'c ctx_scheme \<Rightarrow> BundleConfig list \<Rightarrow> string \<Rightarrow> ConflictResolution \<Rightarrow> bool \<Rightarrow> ImportReport
     \<Rightarrow> (ImportReport, 'z world_scheme) op" where
  "importConfigs E c [] namespace onConflict dryRun report = returnT report"
| "importConfigs E c (bc # bcs) namespace onConflict dryRun report =
     bindT (importConfig E c bc namespace onConflict dryRun report) (\<lambda>report.
     importConfigs E c bcs namespace onConflict dryRun report)"

definition importNamespaceBundle ::
  "env \<Rightarrow> 'c ctx_scheme \<Rightarrow> NamespaceBundle \<Rightarrow> ConflictResolution \<Rightarrow> bool \<Rightarrow> ImportReport
     \<Rightarrow> (ImportReport, 'z world_scheme) op" where
  "importNamespaceBundle E c bundle onConflict dryRun report =
     bindT (if \<not> dryRun then ensureNamespace E c (nb_Namespace bundle) (nb_Description bundle) else returnT ()) (\<lambda>_.
     importConfigs E c (nb_Configs bundle) (nb_Namespace bundle) onConflict dryRun report)"

fun importAllBundle ::
  "env \<Rightarrow> 'c ctx_scheme \<Rightarrow> NamespaceBundle list \<Rightarrow> ConflictResolution \<Rightarrow> bool \<Rightarrow> ImportReport
     \<Rightarrow> (ImportReport, 'z world_scheme) op" where
  "importAllBundle E c [] onConflict dryRun report = returnT report"
| "importAllBundle E c (nb # nbs) onConflict dryRun report =
     bindT (importNamespaceBundle E c nb onConflict dryRun report) (\<lambda>report.
     importAllBundle E c nbs onConflict dryRun report)"

definition newReport :: "bool \<Rightarrow> ImportReport" where
  "newReport dryRun =
     \<lparr>rep_Created = 0, rep_Updated = 0, rep_Skipped = 0, rep_Failed = 0, rep_Errors = [], rep_DryRun = dryRun\<rparr>"

definition parseError :: "err + 'a \<Rightarrow> err + 'a" where
  "parseError r = (case r of Inl e \<Rightarrow> Err (ErrValidation ''data'' ''parse bundle'') | Inr x \<Rightarrow> Ok x)"

definition importToTarget ::
  "env \<Rightarrow> bundleLib \<Rightarrow> 'c ctx_scheme \<Rightarrow> bytes \<Rightarrow> ConflictResolution \<Rightarrow> bool \<Rightarrow> string
     \<Rightarrow> (ImportReport, 'z world_scheme) op" where
  "importToTarget E B c data onConflict dryRun targetNamespace =
     bindT (readT (\<lambda>_. parseError (unmarshalNamespaceBundle B data))) (\<lambda>bundle.
     importNamespaceBundle E c (bundle\<lparr>nb_Namespace := targetNamespace\<rparr>) onConflict dryRun (newReport dryRun))"

definition importInferredScope ::
  "env \<Rightarrow> bundleLib \<Rightarrow> 'm pdp \<Rightarrow> 'm \<Rightarrow> AuthInfo option \<Rightarrow> 'c ctx_scheme \<Rightarrow> bytes \<Rightarrow> ConflictResolution \<Rightarrow> bool
     \<Rightarrow> (ImportReport, 'z world_scheme) op" where
  "importInferredScope E B p m info c data onConflict dryRun =
     bindT (readT (\<lambda>_. parseError (unmarshalAllBundle B data))) (\<lambda>allBundle.
     if length (ab_Namespaces allBundle) > 0 then
       bindT (readT (\<lambda>_. requireTransferWrite p m info DomainAll)) (\<lambda>_.
       importAllBundle E c (ab_Namespaces allBundle) onConflict dryRun (newReport dryRun))
     else
       bindT (readT (\<lambda>_. parseError (unmarshalNamespaceBundle B data))) (\<lambda>bundle.
       if nb_Namespace bundle = [] then failT (ErrValidation ''namespace'' ''bundle namespace is required'')
       else
         bindT (readT (\<lambda>_. requireTransferWrite p m info (nb_Namespace bundle))) (\<lambda>_.
         importNamespaceBundle E c bundle onConflict dryRun (newReport dryRun))))"

definition Import ::
  "env \<Rightarrow> bundleLib \<Rightarrow> 'm pdp \<Rightarrow> 'm \<Rightarrow> AuthInfo option \<Rightarrow> 'c ctx_scheme \<Rightarrow> bytes \<Rightarrow> ConflictResolution \<Rightarrow> bool \<Rightarrow> string
     \<Rightarrow> (ImportReport, 'z world_scheme) op" where
  "Import E B p m info c data onConflict dryRun targetNamespace =
     (let onConflict = (if onConflict = CONFLICT_RESOLUTION_UNSPECIFIED then CONFLICT_RESOLUTION_SKIP else onConflict) in
      if targetNamespace \<noteq> [] then importToTarget E B c data onConflict dryRun targetNamespace
      else importInferredScope E B p m info c data onConflict dryRun)"

end
