(* ===== verification/BundleProofs.thy ===== *)
theory BundleProofs
  imports Bundles ConfigListing RepoSpecs
begin

text \<open>
  What an export reads and an import writes: the view of a config that a bundle carries, the listing of a namespace as
  views, and the effect of importing configs that the target does not have.
\<close>

section \<open>Views\<close>

text \<open>The content, the format and the metadata of a config, as a read shows them.\<close>

type_synonym configData = "bytes \<times> Format \<times> metadata"

definition configView :: "database \<Rightarrow> string \<Rightarrow> string \<Rightarrow> configData option" where
  "configView d ns p =
     map_option (\<lambda>m. (contentAt d ns p, storedFormat (m_Format m), nonNilMetadata (m_Metadata m))) (metaAt d ns p)"

definition bundleData :: "BundleConfig \<Rightarrow> configData" where
  "bundleData bc = (bc_Content bc, bc_Format bc, bc_Metadata bc)"

lemma storedFormat_canonical [simp]: "storedFormat (storedFormat f) = storedFormat f"
  "storedFormat f \<in> {FormatJSON, FormatYAML, FormatOther}"
  by (auto simp: storedFormat_def ParseFormat_def FormatJSON_def FormatYAML_def FormatOther_def split: sum.splits)

lemma metaAt_nulFree: "repo_inv d \<Longrightarrow> nulFree ns \<Longrightarrow> metaAt d ns p = Some m \<Longrightarrow> nulFree p"
  using dget_meta [of d "configKey ns p"] by (fastforce simp: dget_metaAt configKey_inj elim!: meta_row_okE)

section \<open>Export\<close>

definition rowBundle :: "database \<Rightarrow> bytes \<times> val \<Rightarrow> BundleConfig" where
  "rowBundle d e =
     (case snd e of
        JConfigMeta m \<Rightarrow>
          \<lparr>bc_Path = snd (parseConfigKey (fst e)), bc_Content = rawBytes (dget d bucketContent (fst e)),
           bc_Format = storedFormat (m_Format m), bc_Metadata = nonNilMetadata (m_Metadata m)\<rparr>)"

lemma scan_rows:
  assumes inv: "repo_inv (buckets w)" and "ns \<noteq> []"
  shows "(\<forall>e \<in> set rows. dget (buckets w) bucketMeta (fst e) = Some (snd e)) \<Longrightarrow>
    \<exists>cfgs lc'. scanMetaLoop (Some pre) ns [] (collectRow (rowConfig w)) rows (out, lc) = Inr (out @ cfgs, lc') \<and>
      map toBundleConfig cfgs = map (rowBundle (buckets w)) (takeWhile (\<lambda>e. prefix pre (fst e)) rows)"
proof (induction rows arbitrary: out lc)
  case (Cons e rows)
  obtain k v where e: "e = (k, v)" by fastforce
  show ?case
  proof (cases "prefix pre k")
    case True
    from Cons.prems e obtain m where v: "v = JConfigMeta m" using dget_meta_JConfigMeta [OF inv] by fastforce
    obtain ns' p where key: "parseConfigKey k = (ns', p)" by fastforce
    obtain b lc1 where lock: "nsLockCache_get lc ns' w = Inr (b, lc1)"
      by (cases "lc ns'") (simp_all add: nsLockCache_get_def isNamespaceLocked_eq [OF inv])
    let ?cfg = "(ConfigMetaToDomain m (rawBytes (bucket_Get bucketContent k w)) p ns')\<lparr>cfg_NamespaceLocked := b\<rparr>"
    obtain cfgs lc' where rest:
      "scanMetaLoop (Some pre) ns [] (collectRow (rowConfig w)) rows (out @ [?cfg], lc1) = Inr ((out @ [?cfg]) @ cfgs, lc')"
      "map toBundleConfig cfgs = map (rowBundle (buckets w)) (takeWhile (\<lambda>e. prefix pre (fst e)) rows)"
      using Cons.IH Cons.prems by (metis list.set_intros(2))
    have "scanMetaLoop (Some pre) ns [] (collectRow (rowConfig w)) (e # rows) (out, lc) = Inr (out @ ?cfg # cfgs, lc')"
      using True rest(1) \<open>ns \<noteq> []\<close>
      by (simp add: e v shouldSkipByPath_def configMetaCodec_def collectRow_def rowConfig_def key lock)
    moreover have "toBundleConfig ?cfg = rowBundle (buckets w) e"
      by (simp add: e v toBundleConfig_def ConfigMetaToDomain_def rowBundle_def key bucket_Get_dget)
    ultimately show ?thesis using True rest(2) by (auto simp: e intro!: exI [of _ "?cfg # cfgs"])
  qed (simp add: e)
qed simp

lemma prefix_rows:
  assumes "ascending b"
  shows "takeWhile (\<lambda>e. prefix pre (fst e)) (seekFrom pre b) = filter (\<lambda>e. prefix pre (fst e)) b"
proof -
  have asc: "ascending (filter (\<lambda>e. pre \<le> fst e) b)" using assms by (rule ascending_filter)
  let ?R = "\<lambda>x y. pre \<le> fst x \<and> fst x \<le> fst y"
  have "sorted_wrt (\<lambda>x y. fst x < fst y) (filter (\<lambda>e. pre \<le> fst e) b)" using asc by (simp add: sorted_wrt_map)
  then have "sorted_wrt ?R (filter (\<lambda>e. pre \<le> fst e) b)" by (rule sorted_wrt_mono_rel [rotated]) auto
  then have "takeWhile (\<lambda>e. prefix pre (fst e)) (filter (\<lambda>e. pre \<le> fst e) b) =
      filter (\<lambda>e. prefix pre (fst e)) (filter (\<lambda>e. pre \<le> fst e) b)"
    by (rule takeWhile_downward) (auto intro: prefix_interval)
  then show ?thesis using assms by (auto simp: seekFrom_def dropWhile_ascending intro: filter_cong prefix_le)
qed

lemma ListAll_bundle:
  assumes "bolt_reliable E" "repo_inv (buckets w)" "ctx_tx c = None" "nulFree ns" "ns \<noteq> []"
  obtains cfgs where "ListAllByNamespace E c ns w = (Inr cfgs, w)"
    "distinct (map bc_Path (map toBundleConfig cfgs))"
    "\<And>bc. bc \<in> set (map toBundleConfig cfgs) \<longleftrightarrow> configView (buckets w) ns (bc_Path bc) = Some (bundleData bc)"
proof -
  let ?d = "buckets w" and ?pre = "ns @ [keySep] @ []"
  let ?rows = "filter (\<lambda>e. prefix ?pre (fst e)) (bkt ?d bucketMeta)"
  have asc: "ascending (bkt ?d bucketMeta)" using repo_invD(1) [OF assms(2)] by (auto intro: present_ascending)
  have row: "\<exists>p m. nulFree p \<and> fst e = configKey ns p \<and> snd e = JConfigMeta m \<and> metaAt ?d ns p = Some m" if "e \<in> set ?rows" for e
  proof -
    from that have "e \<in> set (bkt ?d bucketMeta)" by simp
    with asc have "dget ?d bucketMeta (fst e) = Some (snd e)" by (simp add: dget_def ascending_map_of)
    moreover from dget_meta [OF assms(2) this] obtain ns' p m where "nulFree ns'" "nulFree p" "fst e = configKey ns' p" "snd e = JConfigMeta m"
      by (auto elim!: meta_row_okE)
    ultimately show ?thesis using that configKeyPrefix_scan [OF assms(4), of ns' "[]" p] by (auto simp: metaAt_def)
  qed
  have "\<forall>e \<in> set (seekFrom ?pre (bkt ?d bucketMeta)). dget ?d bucketMeta (fst e) = Some (snd e)"
    using asc set_dropWhileD by (fastforce simp: seekFrom_def dget_def ascending_map_of)
  from scan_rows [OF assms(2,5) this, of ?pre "[]" Map.empty] obtain cfgs lc' where
    scan: "scanMetaLoop (Some ?pre) ns [] (collectRow (rowConfig w)) (seekFrom ?pre (bkt ?d bucketMeta)) ([], Map.empty) =
      Inr (cfgs, lc')" and cfgs: "map toBundleConfig cfgs = map (rowBundle ?d) ?rows"
    unfolding prefix_rows [OF asc] by auto
  show ?thesis
  proof (rule that)
    show "ListAllByNamespace E c ns w = (Inr cfgs, w)"
      unfolding ListAllByNamespace_def ListByPrefix_def WithReadTx_readT
      using scan assms(1,3,5) by (simp add: ListByPrefix_tx_def listRows_def scanMeta_def configKeyPrefix_def Let_def)
    have path: "bc_Path (rowBundle ?d e) = snd (parseConfigKey (fst e))" if "e \<in> set ?rows" for e
      using row [OF that] by (auto simp: rowBundle_def)
    have "inj_on (\<lambda>e. snd (parseConfigKey (fst e))) (set ?rows)"
    proof (rule inj_onI)
      fix x y assume xy: "x \<in> set ?rows" "y \<in> set ?rows" "snd (parseConfigKey (fst x)) = snd (parseConfigKey (fst y))"
      from row [OF xy(1)] row [OF xy(2)] xy(3) show "x = y"
        by (auto simp: parse_configKey [OF assms(4)] prod_eq_iff)
    qed
    moreover have "distinct ?rows" using ascending_distinct [OF asc] by (auto simp: distinct_map)
    ultimately show "distinct (map bc_Path (map toBundleConfig cfgs))"
      unfolding cfgs map_map by (auto simp: distinct_map path inj_on_def)
    fix bc
    show "bc \<in> set (map toBundleConfig cfgs) \<longleftrightarrow> configView ?d ns (bc_Path bc) = Some (bundleData bc)"
    proof
      assume "bc \<in> set (map toBundleConfig cfgs)"
      then obtain e where e: "e \<in> set ?rows" "bc = rowBundle ?d e" unfolding cfgs by auto
      from row [OF e(1)] e(2) show "configView ?d ns (bc_Path bc) = Some (bundleData bc)"
        by (auto simp: rowBundle_def configView_def bundleData_def parse_configKey [OF assms(4)] contentAt_def)
    next
      assume view: "configView ?d ns (bc_Path bc) = Some (bundleData bc)"
      then obtain m where m: "metaAt ?d ns (bc_Path bc) = Some m" by (auto simp: configView_def)
      let ?e = "(configKey ns (bc_Path bc), JConfigMeta m)"
      have "dget ?d bucketMeta (configKey ns (bc_Path bc)) = Some (JConfigMeta m)" using m by (simp add: dget_metaAt [OF assms(2)])
      then have "?e \<in> set ?rows" using asc by (auto simp: dget_def ascending_map_of configKey_def)
      moreover have "rowBundle ?d ?e = bc" using view m
        by (cases bc) (simp add: rowBundle_def configView_def bundleData_def parse_configKey [OF assms(4)] contentAt_def)
      ultimately show "bc \<in> set (map toBundleConfig cfgs)" unfolding cfgs by force
    qed
  qed
qed

section \<open>Import\<close>

text \<open>What an entry of a bundle becomes in the store.\<close>

definition importedData :: "BundleConfig \<Rightarrow> configData" where
  "importedData bc = (bc_Content bc, storedFormat (bc_Format bc), nonNilMetadata (bc_Metadata bc))"

lemma nonNil_stored: "nonNilMetadata (omitEmpty (cfg_Metadata (SetDefaults (GenerateHash h cfg)))) = nonNilMetadata (cfg_Metadata cfg)"
  by (auto simp: nonNilMetadata_def omitEmpty_def SetDefaults_def GenerateHash_def split: option.splits)

lemma Get_missing:
  assumes "bolt_reliable E" "repo_inv (buckets w)" "ctx_tx c = None" "metaAt (buckets w) ns p = None"
  shows "Get E c p ns w = (Inl (ErrResourceNotFound p), w)"
  unfolding Get_def WithReadTx_readT using assms by (simp add: Get_tx_def read_eqs [OF assms(2)])

lemma import_new:
  assumes "bolt_reliable E" "repo_inv (buckets w)" "ctx_tx c = None" "room (buckets w)" "nulFree ns" "nulFree (bc_Path bc)"
    and "\<not> nsLocked (buckets w) ns" "metaAt (buckets w) ns (bc_Path bc) = None"
  obtains w' where "importConfig E c bc ns oc False rep w = (Inr (rep\<lparr>rep_Created := rep_Created rep + 1\<rparr>), w')"
    "repo_inv (buckets w')" "revOf (buckets w') = revOf (buckets w) + 1" "\<And>n. nsLocked (buckets w') n = nsLocked (buckets w) n"
    "\<And>n p. nulFree n \<Longrightarrow> configView (buckets w') n p =
      (if n = ns \<and> p = bc_Path bc then Some (importedData bc) else configView (buckets w) n p)"
proof -
  let ?cfg = "bundleConfigToDomain E bc ns"
  have names: "cfg_Namespace ?cfg = ns" "cfg_Path ?cfg = bc_Path bc" "cfg_Content ?cfg = bc_Content bc"
    "cfg_Format ?cfg = bc_Format bc" "cfg_Metadata ?cfg = bc_Metadata bc"
    by (simp_all add: bundleConfigToDomain_def GenerateHash_def)
  obtain w' where tx: "createConfigTx E (TxQuerier True) ?cfg w =
      (Inr (createdConfig E (clock E (ticks w)) (revOf (buckets w) + 1) ?cfg), w')"
    using createConfigTx_ok [OF assms(1,2,4), of ?cfg] assms(5-8) names by metis
  let ?cfg' = "createdConfig E (clock E (ticks w)) (revOf (buckets w) + 1) ?cfg"
  from createConfigTx_Inr [OF tx assms(2,4)] names obtain row where
    d: "buckets w' = entryWritten ns (bc_Path bc) (normMeta (DomainToConfigMeta ?cfg')) (bc_Content bc) row (buckets w)" by auto
  show ?thesis
  proof (rule that)
    show "importConfig E c bc ns oc False rep w = (Inr (rep\<lparr>rep_Created := rep_Created rep + 1\<rparr>), w')"
      using tx assms(1,3) by (simp add: importConfig_def Get_missing [OF assms(1,2,3,8)] tx_eqs)
    show "repo_inv (buckets w')"
      using written_createdConfig_inv [OF assms(2,4), of ?cfg] assms(5,6) by (simp add: d names)
    show "revOf (buckets w') = revOf (buckets w) + 1"
      using room_next [OF assms(2,4)] by (simp add: d revOf_written DomainToConfigMeta_def)
    show "nsLocked (buckets w') n = nsLocked (buckets w) n" for n by (simp add: d nsLocked_def dget_written)
    have fmt: "m_Format (normMeta (DomainToConfigMeta ?cfg')) = bc_Format bc"
      by (simp add: normMeta_def DomainToConfigMeta_def createdConfig_def SetDefaults_def GenerateHash_def names split: option.splits)
    have md: "nonNilMetadata (m_Metadata (normMeta (DomainToConfigMeta ?cfg'))) = nonNilMetadata (bc_Metadata bc)"
      using nonNil_stored [of "sha256hex E" ?cfg] by (simp add: normMeta_def DomainToConfigMeta_def createdConfig_def names)
    show "configView (buckets w') n p = (if n = ns \<and> p = bc_Path bc then Some (importedData bc) else configView (buckets w) n p)"
      if "nulFree n" for n p
      using fmt md that assms(5) by (auto simp: d configView_def metaAt_written importedData_def)
  qed
qed

definition importedView :: "BundleConfig list \<Rightarrow> string \<Rightarrow> configData option" where
  "importedView bcs = map_of (map (\<lambda>bc. (bc_Path bc, importedData bc)) bcs)"

lemma view_None: "configView d ns p = None \<longleftrightarrow> metaAt d ns p = None"
  by (simp add: configView_def)

lemma import_all_new:
  assumes "bolt_reliable E" "ctx_tx c = None" "nulFree ns"
  shows "repo_inv (buckets w) \<Longrightarrow> revOf (buckets w) + int (length bcs) < 2 ^ 63 \<Longrightarrow> \<not> nsLocked (buckets w) ns \<Longrightarrow>
    distinct (map bc_Path bcs) \<Longrightarrow> \<forall>bc \<in> set bcs. nulFree (bc_Path bc) \<and> configView (buckets w) ns (bc_Path bc) = None \<Longrightarrow>
    \<exists>w'. importConfigs E c bcs ns oc False rep w = (Inr (rep\<lparr>rep_Created := rep_Created rep + length bcs\<rparr>), w') \<and>
      repo_inv (buckets w') \<and>
      (\<forall>n p. nulFree n \<longrightarrow> configView (buckets w') n p =
        (case (if n = ns then importedView bcs p else None) of Some v \<Rightarrow> Some v | None \<Rightarrow> configView (buckets w) n p))"
proof (induction bcs arbitrary: w rep)
  case Nil
  then show ?case by (auto simp: importedView_def returnT_def)
next
  case (Cons bc bcs)
  have room: "room (buckets w)" using Cons.prems(2) by (simp add: room_def)
  have bc: "nulFree (bc_Path bc)" "metaAt (buckets w) ns (bc_Path bc) = None" using Cons.prems(5) by (simp_all add: view_None)
  obtain w1 where w1: "importConfig E c bc ns oc False rep w = (Inr (rep\<lparr>rep_Created := rep_Created rep + 1\<rparr>), w1)"
    "repo_inv (buckets w1)" "revOf (buckets w1) = revOf (buckets w) + 1" "\<And>n. nsLocked (buckets w1) n = nsLocked (buckets w) n"
    and view: "\<And>n p. nulFree n \<Longrightarrow> configView (buckets w1) n p =
      (if n = ns \<and> p = bc_Path bc then Some (importedData bc) else configView (buckets w) n p)"
    using import_new [OF assms(1) Cons.prems(1) assms(2) room assms(3) bc(1) Cons.prems(3) bc(2)] by metis
  have "\<forall>b \<in> set bcs. nulFree (bc_Path b) \<and> configView (buckets w1) ns (bc_Path b) = None"
    using Cons.prems(4,5) by (auto simp: view [OF assms(3)] image_iff)
  then obtain w' where w': "importConfigs E c bcs ns oc False (rep\<lparr>rep_Created := rep_Created rep + 1\<rparr>) w1 =
      (Inr (rep\<lparr>rep_Created := rep_Created rep + 1 + length bcs\<rparr>), w')" "repo_inv (buckets w')"
    "\<forall>n p. nulFree n \<longrightarrow> configView (buckets w') n p =
        (case (if n = ns then importedView bcs p else None) of Some v \<Rightarrow> Some v | None \<Rightarrow> configView (buckets w1) n p)"
    using Cons.IH [OF w1(2), of "rep\<lparr>rep_Created := rep_Created rep + 1\<rparr>"] Cons.prems(2,3,4) w1(3,4) by auto
  have fresh: "importedView bcs (bc_Path bc) = None" using Cons.prems(4) by (auto simp: importedView_def map_of_eq_None_iff)
  show ?case
  proof (intro exI conjI allI impI)
    show "importConfigs E c (bc # bcs) ns oc False rep w = (Inr (rep\<lparr>rep_Created := rep_Created rep + length (bc # bcs)\<rparr>), w')"
      using w1(1) w'(1) by (simp add: bindT_def)
    show "configView (buckets w') n p =
        (case (if n = ns then importedView (bc # bcs) p else None) of Some v \<Rightarrow> Some v | None \<Rightarrow> configView (buckets w) n p)"
      if "nulFree n" for n p
      using w'(3) that fresh by (auto simp: view importedView_def split: option.splits)
  qed (rule w'(2))
qed

text \<open>A new row of the namespace bucket leaves the configs alone.\<close>

lemma namespace_row_written:
  assumes "repo_inv d"
  shows "repo_inv (dbput bucketNamespaces k (JNamespace m) d)" "revOf (dbput bucketNamespaces k (JNamespace m) d) = revOf d"
    "configView (dbput bucketNamespaces k (JNamespace m) d) ns p = configView d ns p"
proof -
  let ?d = "dbput bucketNamespaces k (JNamespace m) d"
  have same: "dget ?d bucketMeta = dget d bucketMeta" "dget ?d bucketContent = dget d bucketContent"
    "dget ?d bucketHistory = dget d bucketHistory" "dget ?d bucketChangelog = dget d bucketChangelog" "dget ?d bucketSys = dget d bucketSys"
    by (simp_all add: fun_eq_iff bucketNamespaces_def bucketMeta_def bucketContent_def bucketHistory_def bucketChangelog_def bucketSys_def)
  then show rev: "revOf ?d = revOf d" by (simp add: revOf_def)
  show "configView ?d ns p = configView d ns p" by (simp add: configView_def metaAt_def contentAt_def same)
  have "namespaces_ok ?d" using repo_invD(8) [OF assms] by (auto simp: namespaces_ok_def)
  then show "repo_inv ?d" using assms
    by (simp add: repo_inv_def counter_ok_def rows_ok_def meta_row_ok_def history_row_ok_def changelog_row_ok_def content_ok_def
        changelog_complete_def same rev)
qed

lemma ensureNamespace_ok:
  assumes "bolt_reliable E" "repo_inv (buckets w)" "ctx_tx c = None" "\<not> nsLocked (buckets w) ns"
  obtains w' where "ensureNamespace E c ns desc w = (Inr (), w')" "repo_inv (buckets w')" "revOf (buckets w') = revOf (buckets w)"
    "\<not> nsLocked (buckets w') ns" "\<And>n p. configView (buckets w') n p = configView (buckets w) n p"
proof (cases "dget (buckets w) bucketNamespaces ns")
  case None
  let ?m = "\<lparr>nm_Description = desc, nm_Locked = False, nm_CreatedAt = 0, nm_UpdatedAt = 0\<rparr>"
  let ?d = "dbput bucketNamespaces ns (JNamespace ?m) (buckets w)"
  have "buckets w bucketNamespaces = Some (bkt (buckets w) bucketNamespaces)"
    using repo_invD(1) [OF assms(2)] by (rule present_bucket) simp
  then have "ensureNamespace E c ns desc w = (Inr (), w\<lparr>buckets := ?d\<rparr>)"
    using None assms(1,3)
    by (simp add: ensureNamespace_def Namespace_Get_def Namespace_getMeta_def boltGet_def boltExists_def bucket_Get_dget
        Namespace_Create_def bindT_def readT_def boltPut_def bucket_Put_def bucketWrite_def GetQuerier_def
        namespaceCodec_def DomainToNamespaceMeta_def setBucket_dbput)
  moreover have "\<not> nsLocked ?d ns" by (simp add: nsLocked_def)
  ultimately show ?thesis using namespace_row_written [OF assms(2)] by (intro that [of "w\<lparr>buckets := ?d\<rparr>"]) simp_all
next
  case (Some v)
  then obtain m where "v = JNamespace m" using namespace_row assms(2) by blast
  with Some have "ensureNamespace E c ns desc w = (Inr (), w)"
    by (simp add: ensureNamespace_def Namespace_Get_def Namespace_getMeta_def boltGet_def bucket_Get_dget namespaceCodec_def)
  with that assms(2,4) show ?thesis by blast
qed

lemma importNamespace_new:
  assumes "bolt_reliable E" "ctx_tx c = None" "nulFree (nb_Namespace nb)" "repo_inv (buckets w)"
    and "revOf (buckets w) + int (length (nb_Configs nb)) < 2 ^ 63" "\<not> nsLocked (buckets w) (nb_Namespace nb)"
    and "distinct (map bc_Path (nb_Configs nb))"
    and "\<forall>bc \<in> set (nb_Configs nb). nulFree (bc_Path bc) \<and> configView (buckets w) (nb_Namespace nb) (bc_Path bc) = None"
  shows "\<exists>w'. importNamespaceBundle E c nb oc False rep w =
      (Inr (rep\<lparr>rep_Created := rep_Created rep + length (nb_Configs nb)\<rparr>), w') \<and> repo_inv (buckets w') \<and>
      (\<forall>n p. nulFree n \<longrightarrow> configView (buckets w') n p =
        (case (if n = nb_Namespace nb then importedView (nb_Configs nb) p else None) of
           Some v \<Rightarrow> Some v | None \<Rightarrow> configView (buckets w) n p))"
proof -
  obtain w1 where w1: "ensureNamespace E c (nb_Namespace nb) (nb_Description nb) w = (Inr (), w1)" "repo_inv (buckets w1)"
    "revOf (buckets w1) = revOf (buckets w)" "\<not> nsLocked (buckets w1) (nb_Namespace nb)"
    and same: "\<And>n p. configView (buckets w1) n p = configView (buckets w) n p"
    using ensureNamespace_ok [OF assms(1,4,2,6)] by metis
  have "importNamespaceBundle E c nb oc False rep w = importConfigs E c (nb_Configs nb) (nb_Namespace nb) oc False rep w1"
    by (simp add: importNamespaceBundle_def bindT_def w1(1))
  with import_all_new [OF assms(1-3) w1(2), of "nb_Configs nb" oc rep, unfolded same] assms(5,7,8) w1(3,4) show ?thesis
    by simp
qed

end
