(* ===== verification/BundleProps.thy ===== *)
theory BundleProps
  imports BundleProofs Samples
begin

text \<open>The round trip of a namespace through a bundle.\<close>

section \<open>What is relied on of the encodings\<close>

text \<open>Text of printable ASCII characters, tabs and line feeds, which both encodings keep as it is.\<close>

definition plain :: "string \<Rightarrow> bool" where
  "plain s \<longleftrightarrow> list_all (\<lambda>c. c = CHR 0x09 \<or> c = CHR 0x0A \<or> 32 \<le> (of_char c :: nat) \<and> (of_char c :: nat) < 127) s"

definition plainMetadata :: "metadata \<Rightarrow> bool" where
  "plainMetadata md \<longleftrightarrow> (case md of None \<Rightarrow> True | Some kvs \<Rightarrow> list_all (\<lambda>(k, v). plain k \<and> plain v) kvs)"

definition plainConfig :: "BundleConfig \<Rightarrow> bool" where
  "plainConfig bc \<longleftrightarrow> plain (bc_Path bc) \<and> plain (bc_Content bc) \<and> plain (bc_Format bc) \<and> plainMetadata (bc_Metadata bc)"

definition plainBundle :: "NamespaceBundle \<Rightarrow> bool" where
  "plainBundle nb \<longleftrightarrow> plain (nb_Namespace nb) \<and> plain (nb_Description nb) \<and> list_all plainConfig (nb_Configs nb)"

text \<open>A bundle as it is read back: empty metadata are omitted from the text.\<close>

definition omitted :: "NamespaceBundle \<Rightarrow> NamespaceBundle" where
  "omitted nb = nb\<lparr>nb_Configs := map (\<lambda>bc. bc\<lparr>bc_Metadata := omitEmpty (bc_Metadata bc)\<rparr>) (nb_Configs nb)\<rparr>"

text \<open>
  A JSON object starts with a brace, the YAML mapping of a bundle with its first key; each decoder reads what its encoder wrote.
  An archive with a file starts with the signature of a file header and gives its files back, directories being the names that end
  in a slash.
\<close>

definition bundle_documented :: "bundleLib \<Rightarrow> bool" where
  "bundle_documented B \<longleftrightarrow>
     (\<forall>nb data. plainBundle nb \<and> bl_JSON B (DocNamespace nb) = Inr data \<longrightarrow>
        (\<exists>rest. data = CHR ''{'' # rest) \<and> bl_parseNamespaceJSON B data = Inr (omitted nb)) \<and>
     (\<forall>nb data. plainBundle nb \<and> bl_YAML B (DocNamespace nb) = Inr data \<longrightarrow>
        (\<exists>rest. data = ''namespace:'' @ rest) \<and> bl_parseNamespaceYAML B data = Inr (omitted nb)) \<and>
     (\<forall>files z. files \<noteq> [] \<and> bl_zip B files = Inr z \<longrightarrow>
        IsZIP z \<and> bl_unzip B z = Inr (map (\<lambda>(name, data). (name, hasSuffix name ''/'', Inr data)) files))"

declare trimLeftSpace.simps [simp del] trimRightSpace.simps [simp del]

lemma trimLeft_head:
  assumes "\<forall>r \<in> set spaceRunes. r \<noteq> [] \<and> c \<notin> set r"
  shows "trimLeftSpace (c # rest) = c # rest"
proof -
  have "find (\<lambda>r. hasPrefix (c # rest) r) spaceRunes = None"
    using assms by (fastforce simp: find_None_iff hasPrefix_def prefix_Cons)
  then show ?thesis by (subst trimLeftSpace.simps) simp
qed

lemma trimRight_head:
  assumes "\<forall>r \<in> set spaceRunes. r \<noteq> [] \<and> c \<notin> set r"
  shows "\<exists>rest'. trimRightSpace (c # rest) = c # rest'"
proof (induction "length rest" arbitrary: rest rule: less_induct)
  case less
  show ?case
  proof (cases "find (\<lambda>r. hasSuffix (c # rest) r) spaceRunes")
    case None
    then show ?thesis by (subst trimRightSpace.simps) simp
  next
    case (Some r)
    have r: "r \<in> set spaceRunes" using Some by (auto simp: find_Some_iff)
    have "suffix r (c # rest)" using find_space [OF Some] by (simp only: hasSuffix_def suffix_to_prefix)
    then have "suffix r rest" using assms r by (auto simp: suffix_Cons)
    then have len: "0 < length r" "length r \<le> length rest" using r assms by (auto simp: suffix_length_le)
    then have "take (length (c # rest) - length r) (c # rest) = c # take (length rest - length r) rest"
      by (simp add: Suc_diff_le)
    moreover have "length (take (length rest - length r) rest) < length rest" using len by (simp del: length_greater_0_conv)
    ultimately show ?thesis using less Some by (subst trimRightSpace.simps) auto
  qed
qed

lemma isYAML_head:
  assumes "\<forall>r \<in> set spaceRunes. r \<noteq> [] \<and> c \<notin> set r"
  shows "isYAML (c # rest) \<longleftrightarrow> c \<noteq> CHR ''{'' \<and> c \<noteq> CHR ''[''"
  using trimRight_head [OF assms, of rest] by (auto simp: isYAML_def Emails.trimSpace_def trimLeft_head [OF assms])

lemma spaceRunes_letters: "\<forall>r \<in> set spaceRunes. r \<noteq> [] \<and> CHR ''{'' \<notin> set r" "\<forall>r \<in> set spaceRunes. r \<noteq> [] \<and> CHR ''n'' \<notin> set r"
  by code_simp+

lemma zip_letter: "char_of (80 :: nat) = CHR ''P''"
  by code_simp

text \<open>What an export packs, an import unpacks.\<close>

lemma unpack_packed:
  assumes "bundle_documented B" "plainBundle nb" "packBundle B (DocNamespace nb) name asZip enc = Inr (data, ct, file)"
  shows "unmarshalNamespaceBundle B data = Inr (omitted nb)"
proof -
  from assms(3) obtain body ct' where body: "marshalBundle B (DocNamespace nb) enc = Inr (body, ct')"
    by (auto simp: packBundle_def split: sum.splits)
  have read: "\<not> IsZIP body \<and> (if isYAML body then bl_parseNamespaceYAML B body else bl_parseNamespaceJSON B body) = Inr (omitted nb)"
  proof (cases "enc = BUNDLE_ENCODING_YAML")
    case True
    then have "bl_YAML B (DocNamespace nb) = Inr body" using body by (auto simp: marshalBundle_def split: sum.splits)
    then obtain rest where "body = ''namespace:'' @ rest" "bl_parseNamespaceYAML B body = Inr (omitted nb)"
      using assms(1,2) unfolding bundle_documented_def by blast
    then show ?thesis by (simp add: IsZIP_def zip_letter isYAML_head [OF spaceRunes_letters(2)])
  next
    case False
    then have "bl_JSON B (DocNamespace nb) = Inr body" using body by (auto simp: marshalBundle_def split: sum.splits)
    then obtain rest where "body = CHR ''{'' # rest" "bl_parseNamespaceJSON B body = Inr (omitted nb)"
      using assms(1,2) unfolding bundle_documented_def by blast
    then show ?thesis by (simp add: IsZIP_def zip_letter isYAML_head [OF spaceRunes_letters(1)])
  qed
  show ?thesis
  proof (cases asZip)
    case True
    let ?file = "(name @ bundleExtension ct' False, body)"
    from True assms(3) body have z: "bl_zip B [?file] = Inr data" by (auto simp: packBundle_def WrapInZip_def split: sum.splits)
    have "\<not> hasSuffix (name @ bundleExtension ct' False) ''/''"
      by (simp add: hasSuffix_def bundleExtension_def extJSON_def extYAML_def)
    moreover have "IsZIP data \<and> bl_unzip B data = Inr (map (\<lambda>(name, data). (name, hasSuffix name ''/'', Inr data)) [?file])"
      using z assms(1) unfolding bundle_documented_def by blast
    ultimately have "IsZIP data" "bl_unzip B data = Inr [(name @ bundleExtension ct' False, False, Inr body)]" by simp_all
    then show ?thesis using read by (simp add: unmarshalNamespaceBundle_def UnzipIfNeeded_def)
  next
    case False
    then have "data = body" using assms(3) body by (simp add: packBundle_def)
    then show ?thesis using read by (simp add: unmarshalNamespaceBundle_def UnzipIfNeeded_def)
  qed
qed

section \<open>The round trip\<close>

text \<open>The configs and the description of a namespace are plain text.\<close>

definition plainNamespace :: "'z world_scheme \<Rightarrow> string \<Rightarrow> bool" where
  "plainNamespace w ns \<longleftrightarrow> plain ns \<and> (\<forall>n. Namespace_Get ns w = Inr n \<longrightarrow> plain (ns_Description n)) \<and>
     (\<forall>p v f md. configView (buckets w) ns p = Some (v, f, md) \<longrightarrow> plain p \<and> plain v \<and> plainMetadata md)"

lemma configView_format: "configView d ns p = Some (v, f, md) \<Longrightarrow> storedFormat f = f \<and> plain f \<and> nonNilMetadata md = md"
proof -
  assume "configView d ns p = Some (v, f, md)"
  then obtain m where "metaAt d ns p = Some m" and m: "f = storedFormat (m_Format m)" "md = nonNilMetadata (m_Metadata m)"
    by (cases "metaAt d ns p") (auto simp: configView_def)
  have "plain FormatJSON \<and> plain FormatYAML \<and> plain FormatOther"
    by (simp add: plain_def FormatJSON_def FormatYAML_def FormatOther_def)
  then have "plain f" using storedFormat_canonical(2) [of "m_Format m"] m(1) by auto
  moreover have "nonNilMetadata md = md" by (simp add: m(2) nonNilMetadata_def split: option.split)
  ultimately show ?thesis using m(1) by simp
qed

text \<open>The bundle an export packs.\<close>

lemma exported_bundle:
  assumes "bolt_reliable E" "sort_documented E" "ctx_tx c = None" "repo_inv (buckets w)" "nulFree ns" "ns \<noteq> []" "plainNamespace w ns"
    and "ExportNamespace E B c ns asZip enc w = (Inr (data, ct, name), w1)"
  obtains nb where "packBundle B (DocNamespace nb) (ns @ ''-export'') asZip enc = Inr (data, ct, name)" "plainBundle nb"
    "distinct (map bc_Path (nb_Configs nb))"
    "\<And>bc. bc \<in> set (nb_Configs nb) \<longleftrightarrow> configView (buckets w) ns (bc_Path bc) = Some (bundleData bc)"
proof -
  obtain cfgs where cfgs: "ListAllByNamespace E c ns w = (Inr cfgs, w)" "distinct (map bc_Path (map toBundleConfig cfgs))"
    "\<And>bc. bc \<in> set (map toBundleConfig cfgs) \<longleftrightarrow> configView (buckets w) ns (bc_Path bc) = Some (bundleData bc)"
    using ListAll_bundle [OF assms(1,4,3,5,6)] by metis
  obtain n where n: "Namespace_Get ns w = Inr n"
    using assms(8) by (auto simp: ExportNamespace_def bindT_def readT_def split: sum.splits)
  let ?nb = "\<lparr>nb_Namespace = ns, nb_Description = ns_Description n, nb_ExportedAt = clock E (ticks w), nb_Configs = sortedConfigs E cfgs\<rparr>"
  have sorted: "mset (nb_Configs ?nb) = mset (map toBundleConfig cfgs)"
    by (simp add: sortedConfigs_def sortSliceBy_mset [OF assms(2)])
  have mem: "bc \<in> set (nb_Configs ?nb) \<longleftrightarrow> configView (buckets w) ns (bc_Path bc) = Some (bundleData bc)" for bc
    using cfgs(3) mset_eq_setD [OF sorted] by simp
  show ?thesis
  proof (rule that)
    show "packBundle B (DocNamespace ?nb) (ns @ ''-export'') asZip enc = Inr (data, ct, name)"
      using assms(8) by (simp add: ExportNamespace_def bindT_def readT_def n cfgs(1) timeNow_def)
    have "plainConfig bc" if "bc \<in> set (nb_Configs ?nb)" for bc
      using that assms(7) configView_format unfolding mem plainNamespace_def bundleData_def plainConfig_def by blast
    then show "plainBundle ?nb" using assms(7) n by (auto simp: plainBundle_def plainNamespace_def list_all_iff)
    show "distinct (map bc_Path (nb_Configs ?nb))"
      using cfgs(2) sorted by (metis mset_eq_imp_distinct_iff mset_map)
  qed (rule mem)
qed

lemma imported_views:
  assumes "distinct (map bc_Path bcs)" and "\<And>bc. bc \<in> set bcs \<longleftrightarrow> configView d ns (bc_Path bc) = Some (bundleData bc)"
  shows "importedView (map (\<lambda>bc. bc\<lparr>bc_Metadata := omitEmpty (bc_Metadata bc)\<rparr>) bcs) p = configView d ns p"
proof -
  have data: "importedData (bc\<lparr>bc_Metadata := omitEmpty (bc_Metadata bc)\<rparr>) = bundleData bc" if "bc \<in> set bcs" for bc
  proof -
    have "storedFormat (bc_Format bc) = bc_Format bc \<and> nonNilMetadata (bc_Metadata bc) = bc_Metadata bc"
      using that assms(2) configView_format unfolding bundleData_def by blast
    then show ?thesis
      by (auto simp: importedData_def bundleData_def omitEmpty_def nonNilMetadata_def split: option.splits)
  qed
  then have eq: "importedView (map (\<lambda>bc. bc\<lparr>bc_Metadata := omitEmpty (bc_Metadata bc)\<rparr>) bcs) =
      map_of (map (\<lambda>bc. (bc_Path bc, bundleData bc)) bcs)"
    by (simp add: importedView_def comp_def cong: map_cong)
  show ?thesis
  proof (cases "configView d ns p")
    case None
    then have "p \<notin> bc_Path ` set bcs" using assms(2) by auto
    then show ?thesis using None by (simp add: eq map_of_eq_None_iff image_image)
  next
    case (Some v)
    obtain content f md where v: "v = (content, f, md)" by (cases v) auto
    let ?bc = "\<lparr>bc_Path = p, bc_Content = content, bc_Format = f, bc_Metadata = md\<rparr>"
    have "?bc \<in> set bcs" using Some v by (simp add: assms(2) bundleData_def)
    moreover have "distinct (map fst (map (\<lambda>bc. (bc_Path bc, bundleData bc)) bcs))" using assms(1) by (simp add: comp_def)
    ultimately show ?thesis unfolding eq Some v by (intro map_of_is_SomeI) (force simp: bundleData_def)+
  qed
qed

lemma view_count:
  assumes "distinct (map bc_Path bcs)" and "\<And>bc. bc \<in> set bcs \<longleftrightarrow> configView d ns (bc_Path bc) = Some (bundleData bc)"
  shows "length bcs = card {p. configView d ns p \<noteq> None}"
proof -
  have "{p. configView d ns p \<noteq> None} = set (map bc_Path bcs)"
  proof (intro set_eqI iffI)
    fix p assume "p \<in> {p. configView d ns p \<noteq> None}"
    then obtain content f md where "configView d ns p = Some (content, f, md)" by auto
    then have "\<lparr>bc_Path = p, bc_Content = content, bc_Format = f, bc_Metadata = md\<rparr> \<in> set bcs" by (simp add: assms(2) bundleData_def)
    then show "p \<in> set (map bc_Path bcs)" by force
  qed (use assms(2) in \<open>auto simp: bundleData_def\<close>)
  then show ?thesis using distinct_card [OF assms(1)] by simp
qed


definition sampleBundle :: NamespaceBundle where
  "sampleBundle = \<lparr>nb_Namespace = ''prod'', nb_Description = ''d'', nb_ExportedAt = 0,
     nb_Configs = [\<lparr>bc_Path = ''/a.json'', bc_Content = ''v'', bc_Format = ''json'', bc_Metadata = Some []\<rparr>]\<rparr>"

text \<open>Encoders that know one text each, and no archives.\<close>

definition sampleLib :: bundleLib where
  "sampleLib =
     \<lparr>bl_JSON = (\<lambda>doc. if doc = DocNamespace sampleBundle then Ok ''{}'' else Err ErrDecode),
      bl_YAML = (\<lambda>doc. if doc = DocNamespace sampleBundle then Ok ''namespace: prod'' else Err ErrDecode),
      bl_parseAllJSON = (\<lambda>_. Err ErrDecode), bl_parseAllYAML = (\<lambda>_. Err ErrDecode),
      bl_parseNamespaceJSON = (\<lambda>_. Ok (omitted sampleBundle)), bl_parseNamespaceYAML = (\<lambda>_. Ok (omitted sampleBundle)),
      bl_zip = (\<lambda>_. Err ErrDecode), bl_unzip = (\<lambda>_. Err ErrDecode)\<rparr>"

lemma sampleLib_documented: "bundle_documented sampleLib"
  by (simp add: bundle_documented_def sampleLib_def)

definition sampleSource :: world where
  "sampleSource = \<lparr>buckets = dbput bucketNamespaces ''prod''
     (JNamespace \<lparr>nm_Description = ''d'', nm_Locked = False, nm_CreatedAt = 0, nm_UpdatedAt = 0\<rparr>) (sampleDB False), ticks = 0\<rparr>"

lemma insertPos_mset: "mset (insertPos lt x xs) = add_mset x (mset xs)"
  by (induction xs) auto

lemma insertPos_sorted:
  assumes "strict_weak n lt" "x < n" "set xs \<subseteq> {..<n}" "sorted_wrt (\<lambda>i j. \<not> lt j i) xs"
  shows "sorted_wrt (\<lambda>i j. \<not> lt j i) (insertPos lt x xs)"
  using assms(3,4)
proof (induction xs)
  case (Cons y ys)
  have y: "y < n" "set ys \<subseteq> {..<n}" using Cons.prems(1) by auto
  have mem: "set (insertPos lt x ys) = insert x (set ys)"
    using insertPos_mset [of lt x ys] by (metis set_mset_add_mset_insert set_mset_mset)
  show ?case
  proof (cases "lt y x")
    case True
    then have "\<not> lt x y" using assms(1,2) y(1) unfolding strict_weak_def by blast
    with True Cons y show ?thesis by (simp add: mem)
  next
    case False
    have "\<not> lt z x" if "z \<in> set ys" for z
    proof -
      have "z < n" "\<not> lt z y" using y(2) Cons.prems(2) that by auto
      with assms(1,2) y(1) False show ?thesis unfolding strict_weak_def by blast
    qed
    with False Cons.prems show ?thesis by simp
  qed
qed simp

lemma sampleEnv_sorts: "sort_documented sampleEnv"
  unfolding sort_documented_def
proof (intro allI conjI impI)
  fix n lt
  have perm: "mset (foldr (insertPos lt) xs []) = mset xs" for xs by (induction xs) (simp_all add: insertPos_mset)
  have order: "sortSlice sampleEnv n lt = foldr (insertPos lt) [0..<n] []" by (simp add: sampleEnv_def insertionOrder_def)
  show "distinct (sortSlice sampleEnv n lt)" unfolding order using perm mset_eq_imp_distinct_iff by (metis distinct_upt)
  show "set (sortSlice sampleEnv n lt) = {..<n}" unfolding order using perm by (metis atLeast_upt mset_eq_setD)
  assume weak: "strict_weak n lt"
  have "set xs \<subseteq> {..<n} \<Longrightarrow> sorted_wrt (\<lambda>i j. \<not> lt j i) (foldr (insertPos lt) xs [])" for xs
  proof (induction xs)
    case (Cons x xs)
    then show ?case using insertPos_sorted [OF weak, of x "foldr (insertPos lt) xs []"] mset_eq_setD [OF perm [of xs]] by simp
  qed simp
  then show "sorted_wrt (\<lambda>i j. \<not> lt j i) (sortSlice sampleEnv n lt)" unfolding order by (simp add: atLeast0LessThan)
qed

lemma sampleSource_view:
  "configView (buckets sampleSource) ''prod'' p = (if p = ''/a.json'' then Some (''v'', ''json'', Some []) else None)"
proof -
  have "configView (buckets sampleSource) ''prod'' p = configView (sampleDB False) ''prod'' p"
    by (simp add: sampleSource_def namespace_row_written(3))
  also have "\<dots> = (if p = ''/a.json'' then Some (''v'', ''json'', Some []) else None)"
    by (simp add: configView_def sampleDB_def metaAt_written sampleMeta_def storedFormat_def ParseFormat_def FormatJSON_def
        nonNilMetadata_def)
  finally show ?thesis .
qed

lemma sampleSource_facts:
  "repo_inv (buckets sampleSource)"
  "Namespace_Get ''prod'' sampleSource = Inr (NamespaceMetaToDomain
     \<lparr>nm_Description = ''d'', nm_Locked = False, nm_CreatedAt = 0, nm_UpdatedAt = 0\<rparr> ''prod'')"
  by (simp_all add: sampleSource_def namespace_row_written(1) Namespace_Get_def Namespace_getMeta_def boltGet_def bucket_Get_dget
      namespaceCodec_def)

lemma sampleSource_export:
  "ExportNamespace sampleEnv sampleLib noTx ''prod'' False BUNDLE_ENCODING_JSON sampleSource =
     (Inr (''{}'', contentTypeJSON, ''prod-export.json''), sampleSource\<lparr>ticks := 1\<rparr>)"
proof -
  obtain cfgs where cfgs: "ListAllByNamespace sampleEnv noTx ''prod'' sampleSource = (Inr cfgs, sampleSource)"
    "distinct (map bc_Path (map toBundleConfig cfgs))"
    "\<And>bc. bc \<in> set (map toBundleConfig cfgs) \<longleftrightarrow> configView (buckets sampleSource) ''prod'' (bc_Path bc) = Some (bundleData bc)"
    using ListAll_bundle [OF sampleEnv_reliable sampleSource_facts(1) noTx_simps, of "''prod''"] by auto
  have "set (map toBundleConfig cfgs) = set (nb_Configs sampleBundle)"
  proof (intro set_eqI)
    fix bc
    show "bc \<in> set (map toBundleConfig cfgs) \<longleftrightarrow> bc \<in> set (nb_Configs sampleBundle)"
      unfolding cfgs(3) sampleSource_view by (cases bc) (auto simp: sampleBundle_def bundleData_def)
  qed
  moreover have "distinct (map toBundleConfig cfgs)" using cfgs(2) by (simp only: distinct_map)
  moreover have "distinct (nb_Configs sampleBundle)" by (simp add: sampleBundle_def)
  ultimately have "mset (map toBundleConfig cfgs) = mset (nb_Configs sampleBundle)"
    by (simp only: set_eq_iff_mset_eq_distinct)
  then have one: "map toBundleConfig cfgs = nb_Configs sampleBundle" by (simp add: sampleBundle_def del: mset_map)
  have "sortedConfigs sampleEnv cfgs = nb_Configs sampleBundle"
    unfolding sortedConfigs_def one by (simp add: sampleBundle_def sortSliceBy_def sampleEnv_def insertionOrder_def)
  moreover have "ticks sampleSource = 0" by (simp add: sampleSource_def)
  ultimately show ?thesis
    by (simp add: ExportNamespace_def bindT_def readT_def sampleSource_facts(2) cfgs(1) timeNow_def NamespaceMetaToDomain_def
        packBundle_def marshalBundle_def sampleLib_def sampleBundle_def bundleExtension_def contentTypeJSON_def contentTypeYAML_def
        extJSON_def)
qed


end
