(* ===== verification/ApiProps.thy ===== *)
theory ApiProps
  imports ConfigApi BundleProps ServiceProps PolicyProps
begin

text \<open>
  The structured API: what its calls may change and what their answers may show. First, which rows an operation may write. The observation \<open>outside S\<close> is every row of the database but those of \<open>S\<close>; an operation
  that keeps it writes only rows of \<open>S\<close>. This is established for the storage operations with the rows of one namespace and
  the rows the namespaces share, and carried through transactions, use cases and handlers, whatever the engine fails.
\<close>

section \<open>Rows\<close>

definition rowsOutside :: "(string \<times> bytes) set \<Rightarrow> database \<Rightarrow> string \<Rightarrow> bytes \<Rightarrow> val option" where
  "rowsOutside S d n k = (if (n, k) \<in> S then None else dget d n k)"

definition outside :: "(string \<times> bytes) set \<Rightarrow> 'z world_scheme \<Rightarrow> string \<Rightarrow> bytes \<Rightarrow> val option" where
  "outside S w = rowsOutside S (buckets w)"

text \<open>
  The rows of a namespace are its own, the rows whose key its name and the separator start, and, shared by all, the counters
  and the two logs of changes.
\<close>

definition sharedRows :: "(string \<times> bytes) set" where
  "sharedRows = {(n, k). n = bucketSys \<or> n = bucketChangelog \<or> n = bucketLockChangelog}"

definition ownRows :: "string \<Rightarrow> (string \<times> bytes) set" where
  "ownRows ns = {(n, k). n = bucketNamespaces \<and> k = ns \<or>
     n \<in> {bucketContent, bucketMeta, bucketHistory, bucketLockHistory} \<and> prefix (ns @ [keySep]) k}"

definition nsRows :: "string \<Rightarrow> (string \<times> bytes) set" where
  "nsRows ns = ownRows ns \<union> sharedRows"

lemma rowsOutside_write [simp]:
  "(n, k) \<in> S \<Longrightarrow> rowsOutside S (dbput n k v d) = rowsOutside S d"
  "(n, k) \<in> S \<Longrightarrow> rowsOutside S (dbdel n k d) = rowsOutside S d"
  by (auto simp: rowsOutside_def fun_eq_iff)

lemma nsRows_keys [simp]:
  "(bucketNamespaces, ns) \<in> nsRows ns" "(bucketContent, configKey ns p) \<in> nsRows ns" "(bucketMeta, configKey ns p) \<in> nsRows ns"
  "(bucketHistory, historyKey ns p r) \<in> nsRows ns" "(bucketLockHistory, historyPrefix ns p @ b) \<in> nsRows ns"
  "(bucketSys, k) \<in> nsRows ns" "(bucketChangelog, k) \<in> nsRows ns" "(bucketLockChangelog, k) \<in> nsRows ns"
  by (simp_all add: nsRows_def ownRows_def sharedRows_def configKey_def historyKey_def historyPrefix_def)

section \<open>Storage\<close>

lemma outside_basic:
  "keeps (outside S) (timeNow E)" "keeps (outside S) (uuidNew U)"
  by (simp_all add: keeps_def timeNow_def uuidNew_def outside_def)

lemma outside_writes:
  assumes "(n, k) \<in> S"
  shows "keeps (outside S) (bucket_Put E q n k v)" "keeps (outside S) (bucket_Delete E q n k)"
    "keeps (outside S) (boltPut E cdc q n k x)" "keeps (outside S) (boltDelete E q n k)"
  using assms
  by (simp_all add: keeps_def boltPut_def boltDelete_def bucket_Put_def bucket_Delete_def bucketWrite_def
      setBucket_dbput setBucket_dbdel outside_def split: querier.split option.split)

lemma outside_runTx:
  assumes "keeps (outside S) (callback (c\<lparr>ctx_tx := Some wr\<rparr>))"
  shows "keeps (outside S) (runTx E c wr callback)"
proof -
  have "rowsOutside S (buckets (snd (callback (c\<lparr>ctx_tx := Some wr\<rparr>) w))) = rowsOutside S (buckets w)" for w
    using assms by (simp add: keeps_def outside_def)
  then show ?thesis
    by (simp add: keeps_def runTx_def outside_def split: prod.split sum.split option.split) (metis snd_conv)
qed

lemma outside_WithTx:
  assumes "\<And>c. keeps (outside S) (callback c)"
  shows "keeps (outside S) (WithTx E c callback)" "keeps (outside S) (WithReadTx E c callback)"
  using outside_runTx [of S callback, OF assms] assms
  by (auto simp: keeps_def WithTx_def WithReadTx_def split: option.splits)

lemma outside_bump:
  "outside (nsRows ns) (snd (bindT (bucket_Put E q bucketSys k v) (\<lambda>_. returnT x) w)) = outside (nsRows ns) w"
  by (rule keeps_bind [OF outside_writes(1) keeps_basic(1), unfolded keeps_def, rule_format]) simp

lemma outside_counters: "keeps (outside (nsRows ns)) (nextRevision E q)" "keeps (outside (nsRows ns)) (nextLockSeq E q)"
  by (simp_all add: keeps_def nextRevision_def nextLockSeq_def Let_def outside_bump)

lemmas outside_intros = keeps_intros outside_basic outside_writes outside_counters nsRows_keys

lemma outside_writers:
  "keeps (outside (nsRows ns)) (writeHistory E q ns path r v)"
  "keeps (outside (nsRows ns)) (writeChangelog E q r et path ns' ver)"
  "keeps (outside (nsRows ns)) (writeLockHistory E q ns path et)"
  unfolding writeHistory_def writeChangelog_def writeLockHistory_def by (intro outside_intros)+

lemma outside_writeConfigEntry:
  "cfg_Namespace cfg = ns \<Longrightarrow> keeps (outside (nsRows ns)) (writeConfigEntry E q (configKey ns path) cfg r et)"
  unfolding writeConfigEntry_def by (auto intro!: outside_intros outside_writers)

section \<open>Repository\<close>

lemma outside_repository:
  "keeps (outside (nsRows (cfg_Namespace cfg))) (createConfigTx E q cfg)"
  "keeps (outside (nsRows (cfg_Namespace cfg))) (updateConfigTx E q cfg)"
  "keeps (outside (nsRows ns)) (deleteConfigTx E q path ns)"
  "keeps (outside (nsRows ns)) (toggleConfigLockTx E q ns path locked)"
  unfolding createConfigTx_def updateConfigTx_def deleteConfigTx_def toggleConfigLockTx_def Let_def
  by (intro outside_intros outside_writers outside_writeConfigEntry; simp add: SetDefaults_def GenerateHash_def split: option.split)+

lemma outside_operations:
  "keeps (outside (nsRows (cfg_Namespace cfg))) (Create E c cfg)"
  "keeps (outside (nsRows (cfg_Namespace cfg))) (Update E c cfg)"
  "keeps (outside (nsRows ns)) (Delete E c path ns)"
  "keeps (outside (nsRows ns)) (LockConfig E c ns path)" "keeps (outside (nsRows ns)) (UnlockConfig E c ns path)"
  "keeps (outside (nsRows ns)) (Namespace_UpdateTimestamp E c ns)"
  unfolding Create_def Update_def Delete_def LockConfig_def UnlockConfig_def toggleConfigLock_def Namespace_UpdateTimestamp_def
  by (intro outside_WithTx outside_repository outside_intros)+

lemma outside_reads:
  "keeps (outside S) (Get E c path ns)" "keeps (outside S) (Schema_List E c ns)" "keeps (outside S) (GetAtRevision E c path ns r)"
  "keeps (outside S) (GetConfigHistory E c path ns n)" "keeps (outside S) (ListSummariesByPrefix E c path ns)"
  "keeps (outside S) (SearchByPath E c query ns)"
  unfolding Get_def Schema_List_def GetAtRevision_def GetConfigHistory_def ListSummariesByPrefix_def SearchByPath_def
  by (intro outside_WithTx keeps_basic)+

lemma outside_notifyNow: "keeps (outside S) (notifyNow E n)"
  by (simp add: keeps_def notifyNow_def runNote_def outside_def)

lemma outside_Validator: "keeps (outside S) (Validator_Validate E X c ns path v f)"
  unfolding Validator_Validate_def
  by (intro keeps_intros outside_reads) (simp add: keeps_def outside_def split: prod.split)

section \<open>Use cases\<close>

text \<open>A step after a write needs what the write returned: its config lies in the namespace of the request.\<close>

lemma keeps_bind_result:
  assumes "keeps obs m" "\<And>w x w'. m w = (Inr x, w') \<Longrightarrow> P x" "\<And>x. P x \<Longrightarrow> keeps obs (f x)"
  shows "keeps obs (bindT m f)"
  using assms by (auto simp: keeps_def bindT_def split: prod.splits sum.splits) (metis snd_conv)+

lemma namespace_kept [simp]:
  "cfg_Namespace (SetDefaults cfg) = cfg_Namespace cfg" "cfg_Namespace (GenerateHash h cfg) = cfg_Namespace cfg"
  by (simp_all add: SetDefaults_def GenerateHash_def split: option.split)

lemma WithTx_result:
  assumes "WithTx E c callback w = (Inr x, w')" "\<And>c w w'. callback c w = (Inr x, w') \<Longrightarrow> P"
  shows P
proof (cases "ctx_tx c = Some True")
  case True
  with assms show P by (simp add: WithTx_def)
next
  case False
  from assms(2) [OF WithTx_Inr [OF this assms(1)]] show P .
qed

lemma written_namespace:
  "Create E c cfg w = (Inr x, w') \<Longrightarrow> cfg_Namespace x = cfg_Namespace cfg"
  "Update E c cfg w = (Inr x, w') \<Longrightarrow> cfg_Namespace x = cfg_Namespace cfg"
  unfolding Create_def Update_def
  by (erule WithTx_result, auto simp: createConfigTx_def updateConfigTx_def Let_def bind_inversion returnT_def)+

lemma outside_create: "cfg_Namespace cfg = ns \<Longrightarrow> keeps (outside (nsRows ns)) (Create E c cfg)"
  using outside_operations(1) by blast

lemma outside_update: "cfg_Namespace cfg = ns \<Longrightarrow> keeps (outside (nsRows ns)) (Update E c cfg)"
  using outside_operations(2) by blast

lemma outside_stamped:
  assumes "keeps (outside (nsRows ns)) m" "\<And>w x w'. m w = (Inr x, w') \<Longrightarrow> cfg_Namespace x = ns"
  shows "keeps (outside (nsRows ns))
    (bindT (mapErrT h m) (\<lambda>cfg. bindT (ignoreT (Namespace_UpdateTimestamp E c (cfg_Namespace cfg))) (\<lambda>_. returnT cfg)))"
  by (rule keeps_bind_result [OF keeps_mapErr [OF assms(1)], where P = "\<lambda>x. cfg_Namespace x = ns"])
    (use assms(2) in \<open>auto simp: mapErrT_Inr intro!: keeps_intros outside_operations(6)\<close>)

lemma outside_checkNamespace: "keeps (outside S) (checkNamespace field ns)"
  unfolding checkNamespace_def by (intro keeps_intros)

lemmas outside_service_intros =
  keeps_intros outside_WithTx outside_reads outside_notifyNow outside_Validator outside_checkNamespace

lemma outside_Service_Create: "keeps (outside (nsRows (cfg_Namespace cfg))) (Service_Create E X c cfg)"
  unfolding Service_Create_def Let_def
  by (intro outside_service_intros outside_stamped outside_create; simp add: written_namespace)

lemma outside_Service_Update: "keeps (outside (nsRows (cfg_Namespace cfg))) (Service_Update E X c cfg)"
  unfolding Service_Update_def Let_def
  by (intro outside_service_intros outside_stamped outside_update; simp add: written_namespace)

lemma outside_Service_Copy: "keeps (outside (nsRows (ci_DestNamespace inp))) (Service_Copy E c inp)"
  unfolding Service_Copy_def
  by (intro outside_service_intros outside_create outside_operations(6)) (simp add: copyOf_def)

lemma outside_service:
  "keeps (outside (nsRows ns)) (Service_Lock E c ns path)" "keeps (outside (nsRows ns)) (Service_Unlock E c ns path)"
  "keeps (outside (nsRows ns)) (Service_Delete E c ns path)"
  unfolding Service_Lock_def Service_Unlock_def Service_Delete_def
  by (intro outside_service_intros outside_operations)+

lemma outside_service_reads:
  "keeps (outside S) (Service_Get E c ns path)" "keeps (outside S) (Service_GetAtRevision E c ns path r)"
  "keeps (outside S) (Service_History E c ns path n)" "keeps (outside S) (Service_List E iter c params)"
  "keeps (outside S) (Service_Search E p m info c sparams)" "keeps (outside S) (Service_Diff E X D c dinp)"
  unfolding Service_Get_def Service_GetAtRevision_def Service_History_def Service_List_def Service_Search_def Service_Diff_def Let_def
  by (auto split: option.split prod.split intro!: outside_service_intros)

lemma outside_Service_Validate: "keeps (outside S) (Service_Validate E X c content f ns path)"
  unfolding keeps_def
proof
  fix w
  let ?v = "ValidateAndNormalize X content f"
  obtain r w' where run: "Validator_Validate E X c ns path (vr_NormalizedContent ?v) (vr_DetectedFormat ?v) w = (r, w')"
    by (cases "Validator_Validate E X c ns path (vr_NormalizedContent ?v) (vr_DetectedFormat ?v) w") simp
  have "outside S w' = outside S w" using keepsD [OF outside_Validator run] .
  moreover have "snd (case e of ErrSchemaValidation violations \<Rightarrow> (Ok (y, violations), w') | _ \<Rightarrow> (Err e, w')) = w'"
    for e and y :: ValidationResult
    by (cases e) simp_all
  ultimately show "outside S (snd (Service_Validate E X c content f ns path w)) = outside S w"
    using run by (cases r) (simp_all add: Service_Validate_def Let_def)
qed

section \<open>Handlers\<close>

text \<open>
  What a call of an API may write: nothing unless its gate lets the caller through, and then what the call behind it writes.
\<close>

definition writesOnly :: "(string \<times> bytes) set \<Rightarrow> ('a, 'z world_scheme) api \<Rightarrow> bool" where
  "writesOnly S h \<longleftrightarrow> (\<forall>w. outside S (snd (h w)) = outside S w)"

lemma writesOnlyD: "writesOnly S h \<Longrightarrow> h w = (r, w') \<Longrightarrow> outside S w' = outside S w"
  by (metis writesOnly_def snd_conv)

lemma writesOnly_gated: "(check = Inr () \<Longrightarrow> writesOnly S h) \<Longrightarrow> writesOnly S (gated check h)"
  by (cases check) (simp_all add: writesOnly_def gated_def)

lemma writesOnly_respond: "keeps (outside S) call \<Longrightarrow> writesOnly S (respond f call)"
  by (auto simp: writesOnly_def keeps_def respond_def split: prod.split sum.split) (metis snd_conv)+

lemma writesOnly_answered: "writesOnly S h \<Longrightarrow> writesOnly S (answered f h)"
  by (auto simp: writesOnly_def answered_def split: prod.split sum.split) (metis snd_conv)+

lemma writesOnly_paged: "(\<And>x. writesOnly S (h x)) \<Longrightarrow> writesOnly S (paged check h)"
  by (simp add: writesOnly_def paged_def split: sum.split)

lemmas writesOnly_intros = writesOnly_answered writesOnly_gated writesOnly_paged writesOnly_respond

text \<open>The namespaces that the caller may write.\<close>

definition mayDo :: "'m pdp \<Rightarrow> 'm \<Rightarrow> 'c uctx_scheme \<Rightarrow> Action \<Rightarrow> string \<Rightarrow> bool" where
  "mayDo p m c action ns \<longleftrightarrow> (\<exists>i. AuthInfoFromContext c = Inr i \<and> HasNamespace p m (ai_UserID i) ns action)"

lemma gate_mayDo: "Authz_RequireNamespace p m (authInfo c) action ns = Inr () \<longleftrightarrow> mayDo p m c action ns"
  by (auto simp: Authz_RequireNamespace_def Authz_Require_def authInfo_def mayDo_def HasNamespace_def split: sum.splits)

definition writableRows :: "'m pdp \<Rightarrow> 'm \<Rightarrow> 'c uctx_scheme \<Rightarrow> (string \<times> bytes) set" where
  "writableRows p m c = (\<Union>ns \<in> {ns. mayDo p m c ActionWrite ns}. nsRows ns)"

lemma rowsOutside_mono: "S \<subseteq> S' \<Longrightarrow> rowsOutside S d' = rowsOutside S d \<Longrightarrow> rowsOutside S' d' = rowsOutside S' d"
  by (auto simp: rowsOutside_def fun_eq_iff) (metis subsetD)

lemma keeps_writable:
  "mayDo p m c ActionWrite ns \<Longrightarrow> keeps (outside (nsRows ns)) call \<Longrightarrow> keeps (outside (writableRows p m c)) call"
  unfolding keeps_def outside_def by (metis rowsOutside_mono writableRows_def UN_upper mem_Collect_eq)

section \<open>Writes\<close>

lemma writesOnly_reads:
  "writesOnly S (GetConfig E p m c req)" "writesOnly S (ListConfigs E iter p m c lreq)"
  "writesOnly S (GetConfigHistory_api E p m c req limit)" "writesOnly S (GetConfigAtRevision E p m c req r)"
  "writesOnly S (SearchConfigs E p m c sreq)" "writesOnly S (GetConfigDiff E X D p m c dreq)"
  "writesOnly S (ValidateConfig E X p m c vreq)"
  unfolding GetConfig_def ListConfigs_def GetConfigHistory_api_def GetConfigAtRevision_def SearchConfigs_def GetConfigDiff_def
    ValidateConfig_def
  by (auto intro!: writesOnly_intros outside_service_reads outside_Service_Validate split: prod.split)

lemma writesOnly_watch: "writesOnly S (WatchConfigs p m c req send inputs)"
  unfolding WatchConfigs_def
  by (rule writesOnly_gated) (simp add: writesOnly_def outside_def Service_Watch_def split: prod.split)

lemma requestConfig_Namespace [simp]: "cfg_Namespace (requestConfig req) = wcr_Namespace req"
  by (simp add: requestConfig_def)

lemma writesOnly_write_gate:
  assumes "keeps (outside (nsRows ns)) call"
  shows "writesOnly (writableRows p m c) (gated (Authz_RequireNamespace p m (authInfo c) ActionWrite ns) (respond f call))"
  unfolding gate_mayDo by (rule writesOnly_gated, rule writesOnly_respond) (simp add: gate_mayDo keeps_writable assms)

lemma outside_requests:
  "keeps (outside (nsRows (wcr_Namespace req))) (Service_Create E X c (requestConfig (req\<lparr>wcr_Version := 0\<rparr>)))"
  "keeps (outside (nsRows (wcr_Namespace req))) (Service_Update E X c (requestConfig req))"
  using outside_Service_Create [of "requestConfig (req\<lparr>wcr_Version := 0\<rparr>)" E X c]
    outside_Service_Update [of "requestConfig req" E X c]
  by simp_all

lemma writesOnly_writes:
  "writesOnly (writableRows p m c) (CreateConfig E X p m c wreq)" "writesOnly (writableRows p m c) (UpdateConfig E X p m c wreq)"
  "writesOnly (writableRows p m c) (DeleteConfig E p m c req)"
  "writesOnly (writableRows p m c) (LockConfig_api E p m c req)" "writesOnly (writableRows p m c) (UnlockConfig_api E p m c req)"
  "writesOnly (writableRows p m c) (CopyConfig E p m c creq)"
  unfolding CreateConfig_def UpdateConfig_def DeleteConfig_def CopyConfig_def LockConfig_api_def UnlockConfig_api_def
  by (rule writesOnly_write_gate outside_requests outside_service writesOnly_gated outside_Service_Copy)+

lemma writesOnly_serve: "writesOnly (writableRows p m c) (serveConfig E X D iter send inputs p m c call)"
  unfolding serveConfig_def
  by (cases call) (auto intro!: writesOnly_answered writesOnly_reads writesOnly_watch writesOnly_writes)

section \<open>Answers\<close>

lemma respond_Inr: "respond f call w = (Inr y, w') \<longleftrightarrow> (\<exists>x. call w = (Inr x, w') \<and> y = f x)"
  by (auto simp: respond_def split: prod.splits sum.splits)

lemma gated_Inr: "gated check h w = (Inr y, w') \<longleftrightarrow> check = Inr () \<and> h w = (Inr y, w')"
  by (cases check) (auto simp: gated_def)

lemma paged_Inr: "paged check h w = (Inr y, w') \<longleftrightarrow> (\<exists>x. check = Inr x \<and> h x w = (Inr y, w'))"
  by (cases check) (auto simp: paged_def)

lemma answered_Inr: "answered f h w = (Inr y, w') \<longleftrightarrow> (\<exists>x. h w = (Inr x, w') \<and> y = f x)"
  by (auto simp: answered_def split: prod.splits sum.splits)

lemmas api_Inr = respond_Inr gated_Inr paged_Inr answered_Inr

lemma stamped_namespace:
  assumes "WithTx E c (\<lambda>c. bindT (mapErrT h (m c)) (\<lambda>cfg.
      bindT (ignoreT (Namespace_UpdateTimestamp E c (cfg_Namespace cfg))) (\<lambda>_. returnT cfg))) w = (Inr x, w')"
    and "\<And>c w w'. m c w = (Inr x, w') \<Longrightarrow> cfg_Namespace x = ns"
  shows "cfg_Namespace x = ns"
  by (rule WithTx_result [OF assms(1)]) (use assms(2) in \<open>auto simp: bind_inversion mapErrT_Inr returnT_def\<close>)

lemma Service_Create_namespace:
  assumes "Service_Create E X c cfg w = (Inr x, w')"
  shows "cfg_Namespace x = cfg_Namespace cfg"
  using assms unfolding Service_Create_def Let_def
  by (auto simp: bind_inversion returnT_def dest!: stamped_namespace [where m = "\<lambda>c. Create E c _"] written_namespace(1))

lemma Service_Update_namespace:
  assumes "Service_Update E X c cfg w = (Inr x, w')"
  shows "cfg_Namespace x = cfg_Namespace cfg"
  using assms unfolding Service_Update_def Let_def
  by (auto simp: bind_inversion returnT_def dest!: stamped_namespace [where m = "\<lambda>c. Update E c _"] written_namespace(2))

lemma Service_Copy_namespace:
  "Service_Copy E c inp w = (Inr x, w') \<Longrightarrow> cfg_Namespace x = ci_DestNamespace inp"
  by (auto simp: Service_Copy_def bind_inversion returnT_def failT_def mapErrT_Inr copyOf_def dest!: written_namespace(1) split: if_splits)

lemma Service_Get_namespace:
  assumes "Service_Get E c ns path w = (Inr x, w')"
  shows "cfg_Namespace x = ns"
proof -
  have "WithReadTx E c (\<lambda>c. readT (Get_tx path ns (GetQuerier c))) w = (Inr x, w')"
    using assms by (auto simp: Service_Get_def Get_def mapErrT_Inr failT_def split: if_splits)
  then obtain q where "Get_tx path ns q w = Inr x"
    by (auto simp: WithReadTx_def runTx_def readT_def split: option.splits sum.splits if_splits)
  then show ?thesis
    by (auto simp: Get_tx_def Let_def ConfigMetaToDomain_def split: sum.splits)
qed

text \<open>The namespace that a call is about: all but the search have one.\<close>

fun callNamespace :: "ConfigCall \<Rightarrow> string option" where
  "callNamespace (CallCreateConfig req) = Some (wcr_Namespace req)"
| "callNamespace (CallGetConfig req) = Some (cpr_Namespace req)"
| "callNamespace (CallUpdateConfig req) = Some (wcr_Namespace req)"
| "callNamespace (CallDeleteConfig req) = Some (cpr_Namespace req)"
| "callNamespace (CallListConfigs req) = Some (lcr_Namespace req)"
| "callNamespace (CallGetConfigHistory req n) = Some (cpr_Namespace req)"
| "callNamespace (CallGetConfigAtRevision req r) = Some (cpr_Namespace req)"
| "callNamespace (CallSearchConfigs req) = None"
| "callNamespace (CallCopyConfig req) = Some (ci_DestNamespace req)"
| "callNamespace (CallValidateConfig req) = Some (vcr_Namespace req)"
| "callNamespace (CallWatchConfigs req) = Some (cpr_Namespace req)"
| "callNamespace (CallGetConfigDiff req) = Some (di_Namespace req)"
| "callNamespace (CallLockConfig req) = Some (cpr_Namespace req)"
| "callNamespace (CallUnlockConfig req) = Some (cpr_Namespace req)"

definition isWrite :: "ConfigCall \<Rightarrow> bool" where
  "isWrite call = (case call of
     CallCreateConfig _ \<Rightarrow> True | CallUpdateConfig _ \<Rightarrow> True | CallDeleteConfig _ \<Rightarrow> True | CallCopyConfig _ \<Rightarrow> True
   | CallLockConfig _ \<Rightarrow> True | CallUnlockConfig _ \<Rightarrow> True | _ \<Rightarrow> False)"

lemmas handler_defs =
  CreateConfig_def GetConfig_def UpdateConfig_def DeleteConfig_def ListConfigs_def GetConfigHistory_api_def
  GetConfigAtRevision_def SearchConfigs_def CopyConfig_def ValidateConfig_def GetConfigDiff_def WatchConfigs_def
  LockConfig_api_def UnlockConfig_api_def

lemma serve_allowed:
  assumes "serveConfig E X D iter send inputs p m c call w = (Inr a, w')" "callNamespace call = Some ns"
  shows "mayDo p m c (if isWrite call then ActionWrite else ActionRead) ns"
  using assms by (cases call) (auto simp: serveConfig_def handler_defs api_Inr gate_mayDo isWrite_def)

lemma serve_config_namespace:
  assumes "serveConfig E X D iter send inputs p m c call w = (Inr (AnswerConfig cfg), w')"
  shows "callNamespace call = Some (pc_Namespace cfg)"
  using assms
  by (cases call) (auto simp: serveConfig_def handler_defs api_Inr domainConfigToProto_def split: prod.splits
      dest: Service_Create_namespace Service_Update_namespace Service_Copy_namespace Service_Get_namespace)

lemma serve_summaries:
  assumes "sort_documented E" "serveConfig E X D iter send inputs p m c call w = (Inr (AnswerSummaries rs pg), w')" "s \<in> set rs"
  shows "\<exists>i. AuthInfoFromContext c = Inr i \<and>
    DomainSet_Contains (EffectiveNamespaces p m (ai_UserID i) ActionRead) (pcs_Namespace s)"
proof -
  obtain req x y n l ofs where run: "Service_Search E p m (authInfo c) c x w = (Inr (y, n, l, ofs), w')"
    and rs: "rs = map domainSummaryToProto y"
    using assms(2) by (cases call) (auto simp: serveConfig_def handler_defs api_Inr split: prod.splits)
  obtain i where i: "authInfo c = Some i" using run by (cases "authInfo c") (auto simp: Service_Search_def failT_def)
  then have "AuthInfoFromContext c = Inr i" by (auto simp: authInfo_def split: sum.splits)
  with Service_Search_scoped [OF assms(1) run [unfolded i]] assms(3) rs show ?thesis
    by (auto simp: domainSummaryToProto_def)
qed

lemma gated_anonymous:
  "gated (Authz_RequireNamespace p m None action ns) h w = (Inl (ToConnectError ErrUnauthorized), w)"
  by (simp add: gated_def Authz_RequireNamespace_def Authz_Require_def)

lemma serve_anonymous:
  assumes "AuthInfoFromContext c = Inl e" "serveConfig E X D iter send inputs p m c call w = (r, w')"
  shows "w' = w \<and> isl r"
proof -
  have none: "authInfo c = None" using assms(1) by (simp add: authInfo_def)
  show ?thesis
    using assms(2)
    by (cases call) (auto simp: serveConfig_def handler_defs gated_anonymous answered_def paged_def respond_def none
        Service_Search_def failT_def split: sum.splits prod.splits)
qed

text \<open>
  C13. The config service keeps to what its caller may do. Whatever call is made, and however it ends, each row it changed
  belongs to a namespace that the caller may write, or to the counters and logs of changes that every write uses, and then
  there is such a namespace; an answer about a namespace is given only to a caller who may write it, for a call that writes,
  or read it, for one that reads, and a config in an answer lies in that namespace; the results of a search lie in the
  namespaces the caller's scope for reading contains; and a caller without identity changes nothing and gets no answer.
\<close>

theorem config_service_confined:
  assumes "sort_documented E" "serveConfig E X D iter send inputs p m c call w = (r, w')"
  shows "(\<forall>n k. dget (buckets w') n k \<noteq> dget (buckets w) n k \<longrightarrow> (\<exists>ns. mayDo p m c ActionWrite ns \<and> (n, k) \<in> nsRows ns)) \<and>
    (\<forall>a ns. r = Inr a \<and> callNamespace call = Some ns \<longrightarrow>
       mayDo p m c (if isWrite call then ActionWrite else ActionRead) ns \<and> (\<forall>cfg. a = AnswerConfig cfg \<longrightarrow> pc_Namespace cfg = ns)) \<and>
    (\<forall>rs pg s. r = Inr (AnswerSummaries rs pg) \<and> s \<in> set rs \<longrightarrow>
       (\<exists>i. AuthInfoFromContext c = Inr i \<and> DomainSet_Contains (EffectiveNamespaces p m (ai_UserID i) ActionRead) (pcs_Namespace s))) \<and>
    (\<forall>e. AuthInfoFromContext c = Inl e \<longrightarrow> w' = w \<and> isl r)"
proof (intro conjI allI impI)
  fix n k
  assume "dget (buckets w') n k \<noteq> dget (buckets w) n k"
  moreover have "outside (writableRows p m c) w' = outside (writableRows p m c) w"
    by (rule writesOnlyD [OF writesOnly_serve assms(2)])
  ultimately have "(n, k) \<in> writableRows p m c" unfolding outside_def rowsOutside_def fun_eq_iff by metis
  then show "\<exists>ns. mayDo p m c ActionWrite ns \<and> (n, k) \<in> nsRows ns" by (simp add: writableRows_def)
qed (use assms serve_allowed serve_config_namespace serve_summaries serve_anonymous in \<open>fastforce+\<close>)

definition apiCtx :: "User option \<Rightarrow> uctx" where
  "apiCtx user = \<lparr>ctx_tx = None, ctx_pending = False, ctx_claims = None, ctx_session = None, ctx_user = user\<rparr>"

definition rootUser :: User where
  "rootUser = \<lparr>usr_ID = ''root'', usr_Email = ''r@x'', usr_DisplayName = [], usr_Picture = [], usr_Status = UserStatusActive,
     usr_Identities = [], usr_System = False, usr_CreatedAt = 0, usr_LastLoginAt = 0, usr_PasswordHash = [],
     usr_PasswordChangeRequired = False, usr_MembershipVersion = 0\<rparr>"

definition deleteAs :: "User option \<Rightarrow> (connectError + ConfigAnswer) \<times> sworld" where
  "deleteAs user = serveConfig sampleEnv sampleExt (\<lambda>_ _ _ _ _. Inr []) (\<lambda>ks. ks) (\<lambda>_. True) (\<lambda>_. []) samplePDP (cache polWorld)
     (apiCtx user) (CallDeleteConfig \<lparr>cpr_Path = ''/a.json'', cpr_Namespace = ''prod''\<rparr>) (svcWorld (sampleDB False))"

lemma root_writes: "mayDo samplePDP (cache polWorld) (apiCtx (Some rootUser)) ActionWrite ''prod''"
  by (simp add: mayDo_def AuthInfoFromContext_def UserFromContext_def apiCtx_def rootUser_def HasNamespace_def Has_def
      samplePDP_def sampleCasbin_def polWorld_def rootRule_def ruleGrants_def)

theorem config_service_confined_witness:
  "isl (fst (deleteAs None)) \<and> snd (deleteAs None) = svcWorld (sampleDB False) \<and>
   mayDo samplePDP (cache polWorld) (apiCtx (Some rootUser)) ActionWrite ''prod'' \<and>
   {(n, k). dget (buckets (snd (deleteAs (Some rootUser)))) n k \<noteq> dget (sampleDB False) n k} \<subseteq>
     {(n, k). \<exists>ns. mayDo samplePDP (cache polWorld) (apiCtx (Some rootUser)) ActionWrite ns \<and> (n, k) \<in> nsRows ns}"
proof -
  have run: "deleteAs user = (fst (deleteAs user), snd (deleteAs user))" for user by simp
  note confined = config_service_confined [OF sampleEnv_sorts run [unfolded deleteAs_def], folded deleteAs_def]
  have "AuthInfoFromContext (apiCtx None) = Inl ErrUnauthorized"
    by (simp add: AuthInfoFromContext_def UserFromContext_def ClaimsFromContext_def apiCtx_def)
  with confined [of None] confined [of "Some rootUser"] root_writes show ?thesis by (simp add: subset_iff)
qed

end
