(* ===== verification/Webhooks.thy ===== *)
theory Webhooks
  imports RingBuffer Tokens NamespaceRepo
begin

text \<open>
  Webhooks: the repository \<^verbatim>\<open>src/internal/storage/bbolt/webhook\<close>, the use case \<^verbatim>\<open>src/internal/usecase/webhook\<close>
  and the dispatcher \<^verbatim>\<open>src/internal/transport/webhook\<close>. The HTTP exchange is a parameter: the outcome of the n-th
  attempt to deliver to a webhook. The goroutines of one event are the sequence of its deliveries.
\<close>

section \<open>Repository\<close>

definition bucketWebhooks :: string where "bucketWebhooks = ''webhooks''"

definition Webhook_Create :: "env \<Rightarrow> querier \<Rightarrow> Webhook \<Rightarrow> (unit, 'z world_scheme) op" where
  "Webhook_Create E q wh =
     bindT (readT (\<lambda>w. if boltExists bucketWebhooks (wh_ID wh) w
                        then Err (ErrResourceAlreadyExists (wh_ID wh)) else Ok ())) (\<lambda>_.
     boltPut E webhookCodec q bucketWebhooks (wh_ID wh) (DomainToWebhookMeta wh))"

definition Webhook_Get :: "string \<Rightarrow> 'z world_scheme \<Rightarrow> err + Webhook" where
  "Webhook_Get wid w =
     (case boltGet webhookCodec bucketWebhooks wid w of
        Inl e \<Rightarrow> if e = ErrBboltNotFound then Err (ErrResourceNotFound wid) else Err e
      | Inr m \<Rightarrow> Ok (WebhookMetaToDomain m wid))"

definition Webhook_Update :: "env \<Rightarrow> querier \<Rightarrow> Webhook \<Rightarrow> (unit, 'z world_scheme) op" where
  "Webhook_Update E q wh =
     bindT (readT (\<lambda>w. if \<not> boltExists bucketWebhooks (wh_ID wh) w
                        then Err (ErrResourceNotFound (wh_ID wh)) else Ok ())) (\<lambda>_.
     boltPut E webhookCodec q bucketWebhooks (wh_ID wh) (DomainToWebhookMeta wh))"

definition Webhook_Delete :: "env \<Rightarrow> querier \<Rightarrow> string \<Rightarrow> (unit, 'z world_scheme) op" where
  "Webhook_Delete E q wid =
     bindT (readT (\<lambda>w. if \<not> boltExists bucketWebhooks wid w then Err (ErrResourceNotFound wid) else Ok ())) (\<lambda>_.
     boltDelete E q bucketWebhooks wid)"

fun webhookListLoop :: "bucket \<Rightarrow> err + Webhook list" where
  "webhookListLoop [] = Ok []"
| "webhookListLoop ((k, v) # rest) =
     (case Unmarshal webhookCodec v of
        None \<Rightarrow> Err ErrDecode
      | Some m \<Rightarrow>
          (case webhookListLoop rest of Inl e \<Rightarrow> Err e | Inr whs \<Rightarrow> Ok (WebhookMetaToDomain m k # whs)))"

definition Webhook_List :: "env \<Rightarrow> querier \<Rightarrow> 'z world_scheme \<Rightarrow> err + Webhook list" where
  "Webhook_List E q w =
     (case bucket_ForEach E q bucketWebhooks w of Inl e \<Rightarrow> Err e | Inr b \<Rightarrow> webhookListLoop b)"

section \<open>The dispatcher\<close>

definition deliveryHistorySize :: int where "deliveryHistorySize = 50"
definition successStatusMin :: int where "successStatusMin = 200"
definition successStatusMax :: int where "successStatusMax = 300"
definition jitterRange :: int where "jitterRange = 5"
definition jitterWindowFactor :: int where "jitterWindowFactor = 2"

text \<open>The state: the histories of deliveries, by webhook.\<close>

record dworld = rworld +
  history :: "string \<rightharpoonup> DeliveryAttempt Buffer"

definition zeroAttempt :: DeliveryAttempt where
  "zeroAttempt = \<lparr>da_AttemptNumber = 0, da_StatusCode = 0, da_LatencyMS = 0, da_Error = [], da_Success = False, da_Timestamp = 0\<rparr>"

definition getOrCreateBuffer :: "string \<Rightarrow> 'z dworld_scheme \<Rightarrow> DeliveryAttempt Buffer" where
  "getOrCreateBuffer wid w =
     (case history w wid of Some b \<Rightarrow> b | None \<Rightarrow> Buffer_New zeroAttempt deliveryHistorySize)"

definition pushAttempt :: "string \<Rightarrow> DeliveryAttempt \<Rightarrow> 'z dworld_scheme \<Rightarrow> 'z dworld_scheme" where
  "pushAttempt wid da w = w\<lparr>history := (history w)(wid \<mapsto> Buffer_Push da (getOrCreateBuffer wid w))\<rparr>"

definition GetDeliveryHistory :: "string \<Rightarrow> 'z dworld_scheme \<Rightarrow> DeliveryAttempt list" where
  "GetDeliveryHistory wid w = (case history w wid of None \<Rightarrow> [] | Some b \<Rightarrow> Buffer_Snapshot b)"

definition ClearHistory :: "string \<Rightarrow> 'z dworld_scheme \<Rightarrow> 'z dworld_scheme" where
  "ClearHistory wid w = w\<lparr>history := (history w)(wid := None)\<rparr>"

record webhookPayload =
  pl_Event :: string
  pl_Namespace :: string
  pl_Path :: string
  pl_Revision :: int64
  pl_Timestamp :: time
  pl_ContentHash :: string

definition buildPayload :: "WatchEvent \<Rightarrow> webhookPayload option" where
  "buildPayload ev =
     map_option (\<lambda>eventStr.
       \<lparr>pl_Event = eventStr, pl_Namespace = we_Namespace ev, pl_Path = we_Path ev, pl_Revision = we_Revision ev,
        pl_Timestamp = we_Timestamp ev,
        pl_ContentHash = (case we_Config ev of None \<Rightarrow> [] | Some cfg \<Rightarrow> cfg_ContentHash cfg)\<rparr>)
       (if we_Type ev = EventTypeCreated then Some ''created''
        else if we_Type ev = EventTypeUpdated then Some ''updated''
        else if we_Type ev = EventTypeDeleted then Some ''deleted''
        else None)"

text \<open>
  The outcome of a request: an error text, or a status code; and the latency. What leaves the process is the
  body and, with a secret, its signature, the parameter \<open>hmac\<close> of the environment of a delivery.
\<close>

record delivery =
  dl_body :: "webhookPayload \<Rightarrow> bytes option"
  dl_hmac :: "string \<Rightarrow> bytes \<Rightarrow> string"
  dl_exchange :: "string \<Rightarrow> bytes \<Rightarrow> string option \<Rightarrow> int \<Rightarrow> string + int"
  dl_latency :: "int \<Rightarrow> int64"
  dl_stopped :: "int \<Rightarrow> bool"

definition signature :: "delivery \<Rightarrow> Webhook \<Rightarrow> bytes \<Rightarrow> string option" where
  "signature L wh body = (if wh_Secret wh = [] then None else Some (''sha256='' @ dl_hmac L (wh_Secret wh) body))"

definition sendRequest :: "delivery \<Rightarrow> Webhook \<Rightarrow> bytes \<Rightarrow> int \<Rightarrow> time \<Rightarrow> DeliveryAttempt" where
  "sendRequest L wh body attempt now =
     (case dl_exchange L (wh_URL wh) body (signature L wh body) attempt of
        Inl msg \<Rightarrow>
          \<lparr>da_AttemptNumber = attempt, da_StatusCode = 0, da_LatencyMS = dl_latency L attempt, da_Error = msg,
           da_Success = False, da_Timestamp = now\<rparr>
      | Inr code \<Rightarrow>
          \<lparr>da_AttemptNumber = attempt, da_StatusCode = code, da_LatencyMS = dl_latency L attempt, da_Error = [],
           da_Success = (code \<ge> successStatusMin \<and> code < successStatusMax), da_Timestamp = now\<rparr>)"

definition retryDelays :: "int list" where
  "retryDelays = [0, 5 * second, 30 * second, 120 * second]"

text \<open>A wait ends with the context when \<open>dl_stopped\<close> says so; the first attempt waits for nothing.\<close>

fun deliverLoop ::
  "env \<Rightarrow> delivery \<Rightarrow> Webhook \<Rightarrow> bytes \<Rightarrow> int list \<Rightarrow> int \<Rightarrow> 'z dworld_scheme \<Rightarrow> 'z dworld_scheme" where
  "deliverLoop E L wh body [] attempt w = w"
| "deliverLoop E L wh body (delay # delays) attempt w =
     (if delay > 0 \<and> dl_stopped L attempt then w
      else
        let da = sendRequest L wh body attempt (clock E (ticks w));
            w1 = pushAttempt (wh_ID wh) da (w\<lparr>ticks := Suc (ticks w)\<rparr>)
        in if da_Success da then w1 else deliverLoop E L wh body delays (attempt + 1) w1)"

definition deliver :: "env \<Rightarrow> delivery \<Rightarrow> Webhook \<Rightarrow> WatchEvent \<Rightarrow> 'z dworld_scheme \<Rightarrow> 'z dworld_scheme" where
  "deliver E L wh ev w =
     (case buildPayload ev of
        None \<Rightarrow> w
      | Some payload \<Rightarrow>
          (case dl_body L payload of None \<Rightarrow> w | Some body \<Rightarrow> deliverLoop E L wh body retryDelays 1 w))"

definition dispatch :: "env \<Rightarrow> delivery \<Rightarrow> WatchEvent \<Rightarrow> 'z dworld_scheme \<Rightarrow> 'z dworld_scheme" where
  "dispatch E L ev w =
     (case Webhook_List E AutoQuerier w of
        Inl _ \<Rightarrow> w
      | Inr whs \<Rightarrow> fold (\<lambda>wh. deliver E L wh ev) (filter (\<lambda>wh. Webhook_MatchesEvent wh ev) whs) w)"

text \<open>\<^verbatim>\<open>cryptoJitter\<close>, with the number drawn below the window, if drawing succeeds.\<close>

definition cryptoJitter :: "(int \<Rightarrow> int option) \<Rightarrow> int \<Rightarrow> int" where
  "cryptoJitter randInt delay =
     (let window = delay div jitterRange * jitterWindowFactor in
      if window < 1 then delay
      else case randInt window of None \<Rightarrow> delay | Some n \<Rightarrow> delay * 4 div jitterRange + n)"

section \<open>Use case\<close>

definition WebhookService_Create ::
  "env \<Rightarrow> uriParser \<Rightarrow> uuids \<Rightarrow> 'c ctx_scheme \<Rightarrow> Webhook \<Rightarrow> (Webhook, 'z rworld_scheme) op" where
  "WebhookService_Create E P U c wh =
     bindT (whenErr (Webhook_Validate P wh)) (\<lambda>_.
     bindT (if wh_ID wh = [] then uuidNew U else returnT (wh_ID wh)) (\<lambda>wid.
     bindT (timeNow E) (\<lambda>now.
     let wh = wh\<lparr>wh_ID := wid, wh_CreatedAt := now, wh_UpdatedAt := now\<rparr> in
     bindT (mapErrT (\<lambda>e. case e of ErrResourceAlreadyExists n \<Rightarrow> ErrAlreadyExists ''webhook'' n | _ \<Rightarrow> e)
              (Webhook_Create E (GetQuerier c) wh)) (\<lambda>_.
     returnT wh))))"

definition webhookDomain :: "Webhook \<Rightarrow> string" where
  "webhookDomain wh = (if wh_NamespaceFilter wh = [] then DomainAll else wh_NamespaceFilter wh)"

definition mapWebhookErr :: "err \<Rightarrow> err" where
  "mapWebhookErr e = (case e of ErrResourceNotFound n \<Rightarrow> ErrNotFound ''webhook'' n | _ \<Rightarrow> e)"

definition loadWebhook ::
  "'m pdp \<Rightarrow> 'm \<Rightarrow> AuthInfo option \<Rightarrow> Action \<Rightarrow> string \<Rightarrow> 'z world_scheme \<Rightarrow> err + Webhook" where
  "loadWebhook p m info action wid w =
     (case info of
        None \<Rightarrow> Err ErrUnauthorized
      | Some i \<Rightarrow>
          (case Webhook_Get wid w of
             Inl e \<Rightarrow> Err (mapWebhookErr e)
           | Inr wh \<Rightarrow>
               if \<not> Has p m (ai_UserID i) \<lparr>per_Object = ObjectWebhook, per_Action = action, per_Domain = webhookDomain wh\<rparr>
               then Err ErrForbidden else Ok wh))"

definition WebhookService_Get ::
  "'m pdp \<Rightarrow> 'm \<Rightarrow> AuthInfo option \<Rightarrow> string \<Rightarrow> 'z world_scheme \<Rightarrow> err + Webhook" where
  "WebhookService_Get p m info wid w = loadWebhook p m info ActionRead wid w"

definition WebhookService_GetHistory ::
  "'m pdp \<Rightarrow> 'm \<Rightarrow> AuthInfo option \<Rightarrow> string \<Rightarrow> 'z dworld_scheme \<Rightarrow> err + DeliveryAttempt list" where
  "WebhookService_GetHistory p m info wid w =
     (case loadWebhook p m info ActionRead wid w of Inl e \<Rightarrow> Err e | Inr _ \<Rightarrow> Ok (GetDeliveryHistory wid w))"

definition WebhookService_List ::
  "env \<Rightarrow> 'm pdp \<Rightarrow> 'm \<Rightarrow> AuthInfo option \<Rightarrow> 'c ctx_scheme \<Rightarrow> 'z world_scheme \<Rightarrow> err + Webhook list" where
  "WebhookService_List E p m info c w =
     (case info of
        None \<Rightarrow> Err ErrUnauthorized
      | Some i \<Rightarrow>
          (case Webhook_List E (GetQuerier c) w of
             Inl e \<Rightarrow> Err e
           | Inr whs \<Rightarrow>
               (let scope = EffectiveDomains p m (ai_UserID i) ObjectWebhook ActionRead in
                if DomainSet_IsEmpty scope then Ok []
                else Ok (filter (\<lambda>wh. DomainSet_Contains scope (webhookDomain wh)) whs))))"

record WebhookUpdateParams =
  up_URL :: string
  up_NamespaceFilter :: string
  up_PathPrefix :: string
  up_Events :: "WebhookEventType list"
  up_Secret :: string
  up_Enabled :: bool

definition WebhookService_Update ::
  "env \<Rightarrow> uriParser \<Rightarrow> 'm pdp \<Rightarrow> 'm \<Rightarrow> AuthInfo option \<Rightarrow> 'c ctx_scheme \<Rightarrow> string \<Rightarrow> WebhookUpdateParams
     \<Rightarrow> (Webhook, 'z world_scheme) op" where
  "WebhookService_Update E P p m info c wid params =
     bindT (readT (loadWebhook p m info ActionWrite wid)) (\<lambda>existing.
     let existing = existing\<lparr>wh_URL := up_URL params, wh_NamespaceFilter := up_NamespaceFilter params,
                             wh_PathPrefix := up_PathPrefix params, wh_Enabled := up_Enabled params,
                             wh_Events := up_Events params,
                             wh_Secret := (if up_Secret params \<noteq> [] then up_Secret params else wh_Secret existing)\<rparr>
     in
     bindT (whenErr (Webhook_Validate P existing)) (\<lambda>_.
     bindT (timeNow E) (\<lambda>now.
     let existing = existing\<lparr>wh_UpdatedAt := now\<rparr> in
     bindT (mapErrT mapWebhookErr (Webhook_Update E (GetQuerier c) existing)) (\<lambda>_.
     returnT existing))))"

definition WebhookService_Delete ::
  "env \<Rightarrow> 'm pdp \<Rightarrow> 'm \<Rightarrow> AuthInfo option \<Rightarrow> 'c ctx_scheme \<Rightarrow> string \<Rightarrow> (unit, 'z dworld_scheme) op" where
  "WebhookService_Delete E p m info c wid =
     bindT (readT (loadWebhook p m info ActionWrite wid)) (\<lambda>_.
     bindT (mapErrT mapWebhookErr (Webhook_Delete E (GetQuerier c) wid)) (\<lambda>_.
     \<lambda>w. (Ok (), ClearHistory wid w)))"

section \<open>Deliveries\<close>

text \<open>A retry waits between 80 and 120 percent of its delay.\<close>

lemma cryptoJitter_bounds:
  assumes "\<And>n k. randInt n = Some k \<Longrightarrow> 0 \<le> k \<and> k < n" "0 \<le> delay"
  shows "delay * 4 div 5 \<le> cryptoJitter randInt delay \<and> cryptoJitter randInt delay \<le> delay * 6 div 5"
  using assms(1) [of "delay div 5 * 2"] assms(2)
  by (auto simp: cryptoJitter_def Let_def jitterRange_def jitterWindowFactor_def split: option.splits)

text \<open>
  A delivery records the attempts 1, 2, \dots in order, at most four, each but the last a failure, and
  touches no other history and no stored data.
\<close>

fun attemptsFrom :: "env \<Rightarrow> delivery \<Rightarrow> Webhook \<Rightarrow> bytes \<Rightarrow> int list \<Rightarrow> int \<Rightarrow> nat \<Rightarrow> DeliveryAttempt list" where
  "attemptsFrom E L wh body [] attempt t = []"
| "attemptsFrom E L wh body (delay # delays) attempt t =
     (if delay > 0 \<and> dl_stopped L attempt then []
      else
        let da = sendRequest L wh body attempt (clock E t) in
        da # (if da_Success da then [] else attemptsFrom E L wh body delays (attempt + 1) (Suc t)))"

lemma deliverLoop_attempts:
  "deliverLoop E L wh body delays attempt w =
     fold (\<lambda>da w. pushAttempt (wh_ID wh) da (w\<lparr>ticks := Suc (ticks w)\<rparr>)) (attemptsFrom E L wh body delays attempt (ticks w)) w"
  by (induction E L wh body delays attempt w rule: deliverLoop.induct) (auto simp: Let_def pushAttempt_def)

lemma attempt_numbers:
  "i < length (attemptsFrom E L wh body delays attempt t) \<Longrightarrow>
     da_AttemptNumber (attemptsFrom E L wh body delays attempt t ! i) = attempt + int i"
proof (induction delays arbitrary: attempt t i)
  case (Cons d delays)
  have num: "da_AttemptNumber (sendRequest L wh body attempt now) = attempt" for now
    by (simp add: sendRequest_def split: sum.splits)
  show ?case
  proof (cases i)
    case 0
    with Cons.prems show ?thesis by (auto simp: Let_def num split: if_splits)
  next
    case (Suc j)
    with Cons.prems have go: "\<not> (d > 0 \<and> dl_stopped L attempt)" "\<not> da_Success (sendRequest L wh body attempt (clock E t))"
      "j < length (attemptsFrom E L wh body delays (attempt + 1) (Suc t))"
      by (auto simp: Let_def split: if_splits)
    with Suc show ?thesis using Cons.IH [OF go(3)] by (auto simp: Let_def)
  qed
qed simp

lemma attempts_bounded: "length (attemptsFrom E L wh body delays attempt t) \<le> length delays"
  by (induction delays arbitrary: attempt t) (auto simp: Let_def)

lemma attempts_stop_at_success:
  "da \<in> set (butlast (attemptsFrom E L wh body delays attempt t)) \<Longrightarrow> \<not> da_Success da"
  by (induction delays arbitrary: attempt t) (auto simp: Let_def split: if_splits)

text \<open>The history of a webhook is its newest fifty attempts, and a delivery appends to it alone.\<close>

definition hist_inv :: "'z dworld_scheme \<Rightarrow> bool" where
  "hist_inv w \<longleftrightarrow> (\<forall>wid b. history w wid = Some b \<longrightarrow> buffer_inv b \<and> rb_capacity b = 50)"

lemma pushAttempt_history:
  assumes "hist_inv w"
  shows "hist_inv (pushAttempt wid da w)"
    "GetDeliveryHistory k (pushAttempt wid da w) =
       (if k = wid then newest 50 (GetDeliveryHistory wid w @ [da]) else GetDeliveryHistory k w)"
proof -
  have new: "buffer_inv (Buffer_New zeroAttempt deliveryHistorySize)" "rb_capacity (Buffer_New zeroAttempt deliveryHistorySize) = 50"
    "Buffer_Snapshot (Buffer_New zeroAttempt deliveryHistorySize) = []"
    by (simp_all add: buffer_inv_def Buffer_New_def deliveryHistorySize_def Buffer_Snapshot_def Let_def)
  have b: "buffer_inv (getOrCreateBuffer wid w)" "rb_capacity (getOrCreateBuffer wid w) = 50"
    "Buffer_Snapshot (getOrCreateBuffer wid w) = GetDeliveryHistory wid w"
    using assms new by (auto simp: getOrCreateBuffer_def hist_inv_def GetDeliveryHistory_def split: option.splits)
  from assms show "hist_inv (pushAttempt wid da w)"
    using ring.push_inv [OF b(1)] ring.push_size [OF b(1)] b(2) by (auto simp: hist_inv_def pushAttempt_def)
  show "GetDeliveryHistory k (pushAttempt wid da w) =
       (if k = wid then newest 50 (GetDeliveryHistory wid w @ [da]) else GetDeliveryHistory k w)"
    using ring.push_entries [OF b(1), of da] b by (simp add: GetDeliveryHistory_def pushAttempt_def)
qed

lemma deliverLoop_history:
  assumes "hist_inv w" "length (GetDeliveryHistory (wh_ID wh) w) \<le> 50"
  shows "GetDeliveryHistory k (deliverLoop E L wh body delays attempt w) =
    (if k = wh_ID wh then newest 50 (GetDeliveryHistory k w @ attemptsFrom E L wh body delays attempt (ticks w))
     else GetDeliveryHistory k w)"
proof -
  let ?step = "\<lambda>da w. pushAttempt (wh_ID wh) da (w\<lparr>ticks := Suc (ticks w)\<rparr>)"
  have tick: "hist_inv (w\<lparr>ticks := n\<rparr>) = hist_inv w" "GetDeliveryHistory j (w\<lparr>ticks := n\<rparr>) = GetDeliveryHistory j w" for w :: "'a dworld_scheme" and n j
    by (simp_all add: hist_inv_def GetDeliveryHistory_def)
  have "hist_inv (fold ?step das w) \<and> GetDeliveryHistory k (fold ?step das w) =
      (if k = wh_ID wh then newest 50 (GetDeliveryHistory k w @ das) else GetDeliveryHistory k w)" for das
  proof (induction das rule: rev_induct)
    case Nil
    with assms show ?case by (simp add: newest_def)
  next
    case (snoc da das)
    then show ?case
      using newest_append [of 50 "GetDeliveryHistory k w @ das" da] by (auto simp: pushAttempt_history tick)
  qed
  then show ?thesis by (simp add: deliverLoop_attempts)
qed

end
