(* ===== verification/ResourceApi.thy ===== *)
theory ResourceApi
  imports ConfigApi Webhooks Tokens Bundles
begin

text \<open>
  The handlers of namespaces, webhooks, tokens and bundles in the structured API: \<^verbatim>\<open>src/internal/handler/v2/namespace\<close>,
  \<^verbatim>\<open>webhook\<close>, \<^verbatim>\<open>token\<close> and \<^verbatim>\<open>transfer\<close>.
\<close>

section \<open>Namespaces\<close>

record pbNamespace =
  pn_Name :: string
  pn_Description :: string
  pn_CreatedAt :: time
  pn_UpdatedAt :: time
  pn_ConfigCount :: int
  pn_Locked :: bool

definition domainNamespaceToProto :: "Namespace \<Rightarrow> pbNamespace" where
  "domainNamespaceToProto ns =
     \<lparr>pn_Name = ns_Name ns, pn_Description = ns_Description ns, pn_CreatedAt = ns_CreatedAt ns, pn_UpdatedAt = ns_UpdatedAt ns,
      pn_ConfigCount = wrap32 (ns_ConfigCount ns), pn_Locked = ns_Locked ns\<rparr>"

record NamespaceRequest =
  nr_Name :: string
  nr_Description :: string

record ListNamespacesRequest =
  lnr_Sort :: "SortRequest option"
  lnr_Query :: string
  lnr_Pagination :: "PaginationRequest option"

definition requestNamespace :: "NamespaceRequest \<Rightarrow> Namespace" where
  "requestNamespace req =
     \<lparr>ns_Name = nr_Name req, ns_DisplayName = [], ns_Description = nr_Description req, ns_ConfigCount = 0, ns_Locked = False,
      ns_CreatedAt = 0, ns_UpdatedAt = 0, ns_CanRead = False, ns_CanWrite = False\<rparr>"

definition CreateNamespace ::
  "env \<Rightarrow> 'm pdp \<Rightarrow> 'm \<Rightarrow> 'c uctx_scheme \<Rightarrow> NamespaceRequest \<Rightarrow> (pbNamespace, 'z world_scheme) api" where
  "CreateNamespace E p m c req =
     gated (Authz_RequireNamespace p m (authInfo c) ActionCreate DomainAll)
       (respond domainNamespaceToProto (NamespaceService_Create E c (requestNamespace req)))"

definition GetNamespace ::
  "env \<Rightarrow> 'm pdp \<Rightarrow> 'm \<Rightarrow> 'c uctx_scheme \<Rightarrow> string \<Rightarrow> (pbNamespace, 'z world_scheme) api" where
  "GetNamespace E p m c name =
     gated (Authz_RequireNamespace p m (authInfo c) ActionRead name)
       (respond domainNamespaceToProto (NamespaceService_Get E c name))"

definition UpdateNamespace ::
  "env \<Rightarrow> 'm pdp \<Rightarrow> 'm \<Rightarrow> 'c uctx_scheme \<Rightarrow> NamespaceRequest \<Rightarrow> (pbNamespace, 'z world_scheme) api" where
  "UpdateNamespace E p m c req =
     gated (Authz_RequireNamespace p m (authInfo c) ActionWrite (nr_Name req))
       (respond domainNamespaceToProto (NamespaceService_Update E c (nr_Name req) (nr_Description req)))"

definition ListNamespaces ::
  "env \<Rightarrow> 'm pdp \<Rightarrow> 'm \<Rightarrow> (string set \<Rightarrow> string list) \<Rightarrow> 'c uctx_scheme \<Rightarrow> ListNamespacesRequest
     \<Rightarrow> (pbNamespace list \<times> PaginationResponse, 'z world_scheme) api" where
  "ListNamespaces E p m iter c req =
     paged (pageParams (lnr_Pagination req)) (\<lambda>(limit, offset).
       respond (\<lambda>(nss, n, limit, offset). (map domainNamespaceToProto nss, pageResponse n limit offset))
         (NamespaceService_List E p m iter (authInfo c) c
            \<lparr>nli_Limit = limit, nli_Offset = offset, nli_Sort = ProtoSortToDomain (lnr_Sort req), nli_Query = lnr_Query req\<rparr>))"

definition DeleteNamespace ::
  "env \<Rightarrow> 'm pdp \<Rightarrow> 'm \<Rightarrow> 'c uctx_scheme \<Rightarrow> string \<Rightarrow> (unit, 'z world_scheme) api" where
  "DeleteNamespace E p m c name =
     gated (Authz_RequireNamespace p m (authInfo c) ActionDelete name)
       (respond (\<lambda>_. ()) (NamespaceService_Delete E c name))"

definition LockNamespace_api ::
  "env \<Rightarrow> 'm pdp \<Rightarrow> 'm \<Rightarrow> 'c uctx_scheme \<Rightarrow> string \<Rightarrow> (unit, 'z sworld_scheme) api" where
  "LockNamespace_api E p m c name =
     gated (Authz_RequireNamespace p m (authInfo c) ActionWrite name)
       (respond (\<lambda>_. ()) (NamespaceService_Lock E c name))"

definition UnlockNamespace_api ::
  "env \<Rightarrow> 'm pdp \<Rightarrow> 'm \<Rightarrow> 'c uctx_scheme \<Rightarrow> string \<Rightarrow> (unit, 'z sworld_scheme) api" where
  "UnlockNamespace_api E p m c name =
     gated (Authz_RequireNamespace p m (authInfo c) ActionWrite name)
       (respond (\<lambda>_. ()) (NamespaceService_Unlock E c name))"

section \<open>Webhooks\<close>

datatype pbWebhookEvent =
  WEBHOOK_EVENT_UNSPECIFIED | WEBHOOK_EVENT_CREATED | WEBHOOK_EVENT_UPDATED | WEBHOOK_EVENT_DELETED | WEBHOOK_EVENT_unknown int

definition protoEventToDomain :: "pbWebhookEvent \<Rightarrow> WebhookEventType" where
  "protoEventToDomain e =
     (case e of
        WEBHOOK_EVENT_CREATED \<Rightarrow> WebhookEventCreated
      | WEBHOOK_EVENT_UPDATED \<Rightarrow> WebhookEventUpdated
      | WEBHOOK_EVENT_DELETED \<Rightarrow> WebhookEventDeleted
      | _ \<Rightarrow> [])"

definition protoEventsToDomain :: "pbWebhookEvent list \<Rightarrow> WebhookEventType list" where
  "protoEventsToDomain events = map protoEventToDomain events"

definition domainEventToProto :: "WebhookEventType \<Rightarrow> pbWebhookEvent" where
  "domainEventToProto e =
     (if e = WebhookEventCreated then WEBHOOK_EVENT_CREATED
      else if e = WebhookEventUpdated then WEBHOOK_EVENT_UPDATED
      else if e = WebhookEventDeleted then WEBHOOK_EVENT_DELETED
      else WEBHOOK_EVENT_UNSPECIFIED)"

text \<open>The secret of a webhook is in no answer.\<close>

record pbWebhook =
  pw_Id :: string
  pw_Url :: string
  pw_NamespaceFilter :: string
  pw_PathPrefix :: string
  pw_Events :: "pbWebhookEvent list"
  pw_Enabled :: bool
  pw_CreatedAt :: time
  pw_UpdatedAt :: time

definition domainWebhookToProto :: "Webhook \<Rightarrow> pbWebhook" where
  "domainWebhookToProto wh =
     \<lparr>pw_Id = wh_ID wh, pw_Url = wh_URL wh, pw_NamespaceFilter = wh_NamespaceFilter wh, pw_PathPrefix = wh_PathPrefix wh,
      pw_Events = map domainEventToProto (wh_Events wh), pw_Enabled = wh_Enabled wh, pw_CreatedAt = wh_CreatedAt wh,
      pw_UpdatedAt = wh_UpdatedAt wh\<rparr>"

record WebhookRequest =
  wr_Url :: string
  wr_NamespaceFilter :: string
  wr_PathPrefix :: string
  wr_Events :: "pbWebhookEvent list"
  wr_Secret :: string
  wr_Enabled :: bool

definition requestWebhook :: "WebhookRequest \<Rightarrow> Webhook" where
  "requestWebhook req =
     \<lparr>wh_ID = [], wh_URL = wr_Url req, wh_NamespaceFilter = wr_NamespaceFilter req, wh_PathPrefix = wr_PathPrefix req,
      wh_Events = protoEventsToDomain (wr_Events req), wh_Secret = wr_Secret req, wh_Enabled = wr_Enabled req,
      wh_CreatedAt = 0, wh_UpdatedAt = 0\<rparr>"

definition CreateWebhook ::
  "env \<Rightarrow> uriParser \<Rightarrow> uuids \<Rightarrow> 'm pdp \<Rightarrow> 'm \<Rightarrow> 'c uctx_scheme \<Rightarrow> WebhookRequest \<Rightarrow> (pbWebhook, 'z rworld_scheme) api" where
  "CreateWebhook E P U p m c req =
     (let ns = (if wr_NamespaceFilter req = [] then DomainAll else wr_NamespaceFilter req) in
      gated (Authz_Require p m (authInfo c) ObjectWebhook ActionCreate ns)
        (gated (Authz_RequireNamespace p m (authInfo c) ActionRead ns)
          (respond domainWebhookToProto (WebhookService_Create E P U c (requestWebhook req)))))"

definition GetWebhook :: "'m pdp \<Rightarrow> 'm \<Rightarrow> 'c uctx_scheme \<Rightarrow> string \<Rightarrow> (pbWebhook, 'z world_scheme) api" where
  "GetWebhook p m c wid = respond domainWebhookToProto (readT (WebhookService_Get p m (authInfo c) wid))"

definition UpdateWebhook ::
  "env \<Rightarrow> uriParser \<Rightarrow> 'm pdp \<Rightarrow> 'm \<Rightarrow> 'c uctx_scheme \<Rightarrow> string \<Rightarrow> WebhookRequest \<Rightarrow> (pbWebhook, 'z world_scheme) api" where
  "UpdateWebhook E P p m c wid req =
     respond domainWebhookToProto
       (WebhookService_Update E P p m (authInfo c) c wid
          \<lparr>up_URL = wr_Url req, up_NamespaceFilter = wr_NamespaceFilter req, up_PathPrefix = wr_PathPrefix req,
           up_Events = protoEventsToDomain (wr_Events req), up_Secret = wr_Secret req, up_Enabled = wr_Enabled req\<rparr>)"

definition DeleteWebhook ::
  "env \<Rightarrow> 'm pdp \<Rightarrow> 'm \<Rightarrow> 'c uctx_scheme \<Rightarrow> string \<Rightarrow> (unit, 'z dworld_scheme) api" where
  "DeleteWebhook E p m c wid = respond (\<lambda>_. ()) (WebhookService_Delete E p m (authInfo c) c wid)"

definition ListWebhooks ::
  "env \<Rightarrow> 'm pdp \<Rightarrow> 'm \<Rightarrow> 'c uctx_scheme \<Rightarrow> (pbWebhook list, 'z world_scheme) api" where
  "ListWebhooks E p m c =
     respond (map domainWebhookToProto) (readT (WebhookService_List E p m (authInfo c) c))"

definition attemptToProto :: "DeliveryAttempt \<Rightarrow> DeliveryAttempt" where
  "attemptToProto a = a\<lparr>da_AttemptNumber := wrap32 (da_AttemptNumber a), da_StatusCode := wrap32 (da_StatusCode a)\<rparr>"

definition GetDeliveryHistory_api ::
  "'m pdp \<Rightarrow> 'm \<Rightarrow> 'c uctx_scheme \<Rightarrow> string \<Rightarrow> (DeliveryAttempt list, 'z dworld_scheme) api" where
  "GetDeliveryHistory_api p m c wid =
     respond (map attemptToProto) (readT (WebhookService_GetHistory p m (authInfo c) wid))"

section \<open>Tokens\<close>

datatype PermissionAction =
    PERMISSION_ACTION_UNSPECIFIED
  | PERMISSION_ACTION_READ
  | PERMISSION_ACTION_WRITE
  | PERMISSION_ACTION_CREATE
  | PERMISSION_ACTION_DELETE
  | PERMISSION_ACTION_ALL
  | PERMISSION_ACTION_unknown int

definition permissionActionToRole :: "PermissionAction \<Rightarrow> err + Role" where
  "permissionActionToRole a =
     (case a of
        PERMISSION_ACTION_READ \<Rightarrow> Ok RoleReader
      | PERMISSION_ACTION_WRITE \<Rightarrow> Ok RoleWriter
      | PERMISSION_ACTION_UNSPECIFIED \<Rightarrow> Err (ErrValidation ''permission'' ''permission must be read or write'')
      | PERMISSION_ACTION_CREATE \<Rightarrow> Err (ErrValidation ''permission'' ''permission must be read or write'')
      | PERMISSION_ACTION_ALL \<Rightarrow> Err (ErrValidation ''permission'' ''permission must be read or write'')
      | _ \<Rightarrow> Err (ErrValidation ''permission'' ''unknown permission''))"

definition roleToPermissionAction :: "Role \<Rightarrow> PermissionAction" where
  "roleToPermissionAction r =
     (if r = RoleReader then PERMISSION_ACTION_READ
      else if r = RoleWriter then PERMISSION_ACTION_WRITE
      else if r = RoleAdmin then PERMISSION_ACTION_ALL
      else PERMISSION_ACTION_UNSPECIFIED)"

text \<open>The hash of a token is in no answer; its secret is only in the answer of its creation.\<close>

record pbToken =
  pt_Id :: string
  pt_Name :: string
  pt_IssuedBy :: string
  pt_Namespaces :: "string list"
  pt_Permission :: PermissionAction
  pt_ExpiresAt :: "time option"
  pt_LastUsedAt :: "time option"
  pt_LastUsedIp :: string
  pt_CreatedAt :: time

definition domainTokenToProto :: "Token \<Rightarrow> pbToken" where
  "domainTokenToProto t =
     \<lparr>pt_Id = tok_ID t, pt_Name = tok_Name t, pt_IssuedBy = tok_IssuedBy t, pt_Namespaces = tok_Namespaces t,
      pt_Permission = roleToPermissionAction (tok_Role t), pt_ExpiresAt = tok_ExpiresAt t, pt_LastUsedAt = tok_LastUsedAt t,
      pt_LastUsedIp = tok_LastUsedIP t, pt_CreatedAt = tok_CreatedAt t\<rparr>"

definition domainSortToProtoResponse :: "SortParams \<Rightarrow> SortRequest option" where
  "domainSortToProtoResponse s =
     (if sort_Field s = [] then None
      else Some \<lparr>sq_Field = sort_Field s, sq_Direction = (if sort_Desc s then SORT_DIRECTION_DESC else SORT_DIRECTION_ASC)\<rparr>)"

record CreateTokenRequest =
  ctr_Name :: string
  ctr_Namespaces :: "string list"
  ctr_Permission :: PermissionAction
  ctr_ExpiresAt :: "time option"

record TokenFilters =
  tfl_QueryParams :: "string list"
  tfl_IssuedBy :: "string list"
  tfl_Namespaces :: "string list"

record ListTokensRequest =
  ltr_Pagination :: "PaginationRequest option"
  ltr_Sorting :: "SortRequest option"
  ltr_Filters :: "TokenFilters option"

text \<open>A handler that needs the caller: the context's error is its answer when there is none.\<close>

definition withCaller :: "'c uctx_scheme \<Rightarrow> (AuthInfo \<Rightarrow> ('a, 'w) api) \<Rightarrow> ('a, 'w) api" where
  "withCaller c h w = (case AuthInfoFromContext c of Inl e \<Rightarrow> (Inl (ToConnectError e), w) | Inr user \<Rightarrow> h user w)"

text \<open>The first namespace that is refused ends the loop of the gate.\<close>

fun requireEach :: "'m pdp \<Rightarrow> 'm \<Rightarrow> AuthInfo option \<Rightarrow> string list \<Rightarrow> err + unit" where
  "requireEach p m info [] = Ok ()"
| "requireEach p m info (ns # nss) =
     (case Authz_Require p m info ObjectToken ActionCreate ns of Inl e \<Rightarrow> Inl e | Inr _ \<Rightarrow> requireEach p m info nss)"

definition CreateToken ::
  "env \<Rightarrow> randomness \<Rightarrow> uuids \<Rightarrow> 'm pdp \<Rightarrow> 'm \<Rightarrow> 'c uctx_scheme \<Rightarrow> CreateTokenRequest
     \<Rightarrow> (pbToken \<times> string, 'z rworld_scheme) api" where
  "CreateToken E R U p m c req =
     withCaller c (\<lambda>user.
       gated (requireEach p m (authInfo c) (ctr_Namespaces req)) (\<lambda>w.
         case permissionActionToRole (ctr_Permission req) of
           Inl e \<Rightarrow> (Inl (ToConnectError e), w)
         | Inr role \<Rightarrow>
             respond (\<lambda>(token, rawToken). (domainTokenToProto token, rawToken))
               (TokenService_Create E R U p m c user
                  \<lparr>ci_Name = ctr_Name req, ci_Namespaces = ctr_Namespaces req, ci_Role = role, ci_ExpiresAt = ctr_ExpiresAt req\<rparr>) w))"

definition ListTokens ::
  "env \<Rightarrow> 'm pdp \<Rightarrow> 'm \<Rightarrow> 'c uctx_scheme \<Rightarrow> ListTokensRequest
     \<Rightarrow> (pbToken list \<times> PaginationResponse \<times> SortRequest option, 'z world_scheme) api" where
  "ListTokens E p m c req =
     withCaller c (\<lambda>user.
       let sort' = ProtoSortToDomain (ltr_Sorting req) in
       paged (pageParams (ltr_Pagination req)) (\<lambda>(limit, offset).
         respond (\<lambda>(tokens, n, limit, offset).
              (map domainTokenToProto tokens, pageResponse n limit offset, domainSortToProtoResponse sort'))
           (readT (TokenService_List E p m c user
              \<lparr>tlp_Limit = limit, tlp_Offset = offset, tlp_Sort = sort',
               tlp_QueryParams = (case ltr_Filters req of None \<Rightarrow> [] | Some f \<Rightarrow> tfl_QueryParams f),
               tlp_IssuedBy = (case ltr_Filters req of None \<Rightarrow> [] | Some f \<Rightarrow> tfl_IssuedBy f),
               tlp_Namespaces = (case ltr_Filters req of None \<Rightarrow> [] | Some f \<Rightarrow> tfl_Namespaces f)\<rparr>))))"

definition GetToken :: "'m pdp \<Rightarrow> 'm \<Rightarrow> 'c uctx_scheme \<Rightarrow> string \<Rightarrow> (pbToken, 'z world_scheme) api" where
  "GetToken p m c tid = withCaller c (\<lambda>user. respond domainTokenToProto (readT (TokenService_Get p m user tid)))"

definition RevokeToken :: "env \<Rightarrow> 'm pdp \<Rightarrow> 'm \<Rightarrow> 'c uctx_scheme \<Rightarrow> string \<Rightarrow> (unit, 'z world_scheme) api" where
  "RevokeToken E p m c tid = withCaller c (\<lambda>user. respond (\<lambda>_. ()) (TokenService_Revoke E p m c user tid))"

section \<open>Bundles\<close>

definition ExportNamespace_api ::
  "env \<Rightarrow> bundleLib \<Rightarrow> 'm pdp \<Rightarrow> 'm \<Rightarrow> 'c uctx_scheme \<Rightarrow> string \<Rightarrow> bool \<Rightarrow> BundleEncoding \<Rightarrow> (download, 'z world_scheme) api" where
  "ExportNamespace_api E B p m c namespace asZip enc =
     gated (Authz_RequireNamespace p m (authInfo c) ActionRead namespace)
       (respond (\<lambda>d. d) (ExportNamespace E B c namespace asZip enc))"

definition ExportAll_api ::
  "env \<Rightarrow> bundleLib \<Rightarrow> 'm pdp \<Rightarrow> 'm \<Rightarrow> 'c uctx_scheme \<Rightarrow> bool \<Rightarrow> BundleEncoding \<Rightarrow> ZipLayout \<Rightarrow> (download, 'z world_scheme) api" where
  "ExportAll_api E B p m c asZip enc layout =
     respond (\<lambda>d. d) (ExportAll E B p m (authInfo c) c asZip enc layout)"

record ImportResponse =
  ir_Created :: int
  ir_Updated :: int
  ir_Skipped :: int
  ir_Failed :: int
  ir_Errors :: "BundleImportError list"
  ir_DryRun :: bool

definition reportToProto :: "ImportReport \<Rightarrow> ImportResponse" where
  "reportToProto r =
     \<lparr>ir_Created = wrap32 (int (rep_Created r)), ir_Updated = wrap32 (int (rep_Updated r)), ir_Skipped = wrap32 (int (rep_Skipped r)),
      ir_Failed = wrap32 (int (rep_Failed r)), ir_Errors = rep_Errors r, ir_DryRun = rep_DryRun r\<rparr>"

definition ImportNamespace ::
  "env \<Rightarrow> bundleLib \<Rightarrow> 'm pdp \<Rightarrow> 'm \<Rightarrow> 'c uctx_scheme \<Rightarrow> bytes \<Rightarrow> ConflictResolution \<Rightarrow> bool \<Rightarrow> string
     \<Rightarrow> (ImportResponse, 'z world_scheme) api" where
  "ImportNamespace E B p m c data onConflict dryRun namespace =
     gated (Authz_RequireNamespace p m (authInfo c) ActionWrite namespace)
       (respond reportToProto (Import E B p m (authInfo c) c data onConflict dryRun namespace))"

end
