(* ===== verification/AdminApi.thy ===== *)
theory AdminApi
  imports ResourceApi GroupService UserAdmin Login
begin

text \<open>
  The handlers of groups, users and profiles in the structured API, \<^verbatim>\<open>src/internal/handler/v2/group\<close>, \<^verbatim>\<open>user\<close> and
  \<^verbatim>\<open>profile\<close>, and the permissions of their messages, \<^verbatim>\<open>permission/mapping.go\<close>. The rules in memory are part of the state.
\<close>

section \<open>Permissions in messages\<close>

datatype PermissionObject =
    PERMISSION_OBJECT_UNSPECIFIED
  | PERMISSION_OBJECT_NAMESPACE
  | PERMISSION_OBJECT_CLIENT
  | PERMISSION_OBJECT_USER
  | PERMISSION_OBJECT_GROUP
  | PERMISSION_OBJECT_TOKEN
  | PERMISSION_OBJECT_WEBHOOK
  | PERMISSION_OBJECT_ALL
  | PERMISSION_OBJECT_unknown int

definition ObjectToProto :: "Object \<Rightarrow> PermissionObject" where
  "ObjectToProto ob =
     (if ob = ObjectNamespace then PERMISSION_OBJECT_NAMESPACE
      else if ob = ObjectClient then PERMISSION_OBJECT_CLIENT
      else if ob = ObjectUser then PERMISSION_OBJECT_USER
      else if ob = ObjectGroup then PERMISSION_OBJECT_GROUP
      else if ob = ObjectToken then PERMISSION_OBJECT_TOKEN
      else if ob = ObjectWebhook then PERMISSION_OBJECT_WEBHOOK
      else if ob = ObjectAll then PERMISSION_OBJECT_ALL
      else PERMISSION_OBJECT_UNSPECIFIED)"

definition ObjectToDomain :: "PermissionObject \<Rightarrow> Object" where
  "ObjectToDomain ob =
     (case ob of
        PERMISSION_OBJECT_NAMESPACE \<Rightarrow> ObjectNamespace
      | PERMISSION_OBJECT_CLIENT \<Rightarrow> ObjectClient
      | PERMISSION_OBJECT_USER \<Rightarrow> ObjectUser
      | PERMISSION_OBJECT_GROUP \<Rightarrow> ObjectGroup
      | PERMISSION_OBJECT_TOKEN \<Rightarrow> ObjectToken
      | PERMISSION_OBJECT_WEBHOOK \<Rightarrow> ObjectWebhook
      | PERMISSION_OBJECT_ALL \<Rightarrow> ObjectAll
      | _ \<Rightarrow> [])"

definition ActionToProto :: "Action \<Rightarrow> PermissionAction" where
  "ActionToProto a =
     (if a = ActionRead then PERMISSION_ACTION_READ
      else if a = ActionWrite then PERMISSION_ACTION_WRITE
      else if a = ActionCreate then PERMISSION_ACTION_CREATE
      else if a = ActionDelete then PERMISSION_ACTION_DELETE
      else if a = ActionAll then PERMISSION_ACTION_ALL
      else PERMISSION_ACTION_UNSPECIFIED)"

definition ActionToDomain :: "PermissionAction \<Rightarrow> Action" where
  "ActionToDomain a =
     (case a of
        PERMISSION_ACTION_READ \<Rightarrow> ActionRead
      | PERMISSION_ACTION_WRITE \<Rightarrow> ActionWrite
      | PERMISSION_ACTION_CREATE \<Rightarrow> ActionCreate
      | PERMISSION_ACTION_DELETE \<Rightarrow> ActionDelete
      | PERMISSION_ACTION_ALL \<Rightarrow> ActionAll
      | _ \<Rightarrow> [])"

record PermissionAssignment =
  pa_Object :: PermissionObject
  pa_Action :: PermissionAction
  pa_Domain :: string

definition AssignmentToProto :: "Permission \<Rightarrow> PermissionAssignment" where
  "AssignmentToProto perm =
     \<lparr>pa_Object = ObjectToProto (per_Object perm), pa_Action = ActionToProto (per_Action perm), pa_Domain = per_Domain perm\<rparr>"

text \<open>A missing assignment, or one with an unspecified object or action, is no permission.\<close>

definition AssignmentToDomain :: "PermissionAssignment option \<Rightarrow> Permission option" where
  "AssignmentToDomain inp =
     (case inp of
        None \<Rightarrow> None
      | Some a \<Rightarrow>
          (let ob = ObjectToDomain (pa_Object a); act = ActionToDomain (pa_Action a) in
           if ob = [] \<or> act = [] then None
           else Some \<lparr>per_Object = ob, per_Action = act, per_Domain = pa_Domain a\<rparr>))"

definition AssignmentsToDomain :: "PermissionAssignment option list \<Rightarrow> Permission list" where
  "AssignmentsToDomain inp = List.map_filter AssignmentToDomain inp"

definition AssignmentsToProto :: "Permission list \<Rightarrow> PermissionAssignment list" where
  "AssignmentsToProto inp = map AssignmentToProto inp"

text \<open>A permission of the catalogue survives the trip through a message.\<close>

lemma assignment_roundtrip:
  assumes "LookupCatalogEntry (per_Object perm) = Some e" "per_Action perm \<in> set (cat_Actions e)"
  shows "AssignmentToDomain (Some (AssignmentToProto perm)) = Some perm"
proof -
  have "list_all (\<lambda>e. list_all (\<lambda>a. ObjectToDomain (ObjectToProto (cat_Object e)) = cat_Object e \<and> cat_Object e \<noteq> [] \<and>
      ActionToDomain (ActionToProto a) = a \<and> a \<noteq> []) (cat_Actions e)) buildCatalog"
    by code_simp
  moreover have "e \<in> set buildCatalog" "cat_Object e = per_Object perm"
    using assms(1) by (auto simp: LookupCatalogEntry_def find_Some_iff)
  ultimately show ?thesis
    using assms(2) by (fastforce simp: list_all_iff AssignmentToDomain_def AssignmentToProto_def)
qed

section \<open>Groups\<close>

record pbGroup =
  pg_Name :: string
  pg_DisplayName :: string
  pg_Description :: string
  pg_IsSystem :: bool
  pg_CreatedAt :: time
  pg_UpdatedAt :: time
  pg_MetadataVersion :: int64
  pg_MembersVersion :: int64
  pg_PermissionsVersion :: int64

definition domainGroupToProto :: "Group \<Rightarrow> pbGroup" where
  "domainGroupToProto g =
     \<lparr>pg_Name = grp_Name g, pg_DisplayName = grp_DisplayName g, pg_Description = grp_Description g, pg_IsSystem = grp_System g,
      pg_CreatedAt = grp_CreatedAt g, pg_UpdatedAt = grp_UpdatedAt g, pg_MetadataVersion = grp_MetadataVersion g,
      pg_MembersVersion = grp_MembersVersion g, pg_PermissionsVersion = grp_PermissionsVersion g\<rparr>"

text \<open>The gate asks the rules in memory at the time of the call.\<close>

definition requireUser ::
  "'m pdp \<Rightarrow> AuthInfo \<Rightarrow> Action \<Rightarrow> string \<Rightarrow> ('a, ('m, 'z) pworld_scheme) api \<Rightarrow> ('a, ('m, 'z) pworld_scheme) api" where
  "requireUser p user action dm h w = gated (Authz_RequireUser p (cache w) user ObjectGroup action dm) h w"

record CreateGroupRequest =
  cgr_Name :: string
  cgr_Description :: string
  cgr_InitialMembers :: "string list"
  cgr_InitialPermissions :: "PermissionAssignment option list"
  cgr_InitialManagerGroupNames :: "string list"

record GroupAnswer =
  ga_Group :: pbGroup
  ga_VisibleMembers :: "string list"
  ga_Permissions :: "PermissionAssignment list"

definition CreateGroup ::
  "env \<Rightarrow> 'm pdp \<Rightarrow> jsonStrings \<Rightarrow> 'c uctx_scheme \<Rightarrow> CreateGroupRequest \<Rightarrow> (GroupAnswer, ('m, 'z) pworld_scheme) api" where
  "CreateGroup E p J c req =
     withCaller c (\<lambda>user.
       requireUser p user ActionCreate DomainAll
         (respond (\<lambda>r. \<lparr>ga_Group = domainGroupToProto (cr_Group r), ga_VisibleMembers = cr_VisibleMembers r,
                       ga_Permissions = AssignmentsToProto (cr_Permissions r)\<rparr>)
           (GroupService_Create E p J c user
              \<lparr>cd_Name = cgr_Name req, cd_Description = cgr_Description req, cd_InitialMembers = cgr_InitialMembers req,
               cd_InitialPermissions = AssignmentsToDomain (cgr_InitialPermissions req),
               cd_InitialManagerGroupNames = cgr_InitialManagerGroupNames req\<rparr>)))"

definition GetGroup ::
  "'m pdp \<Rightarrow> 'c uctx_scheme \<Rightarrow> string \<Rightarrow> (GroupAnswer, ('m, 'z) pworld_scheme) api" where
  "GetGroup p c name =
     withCaller c (\<lambda>user.
       requireUser p user ActionRead (GroupResource name)
         (respond (\<lambda>(g, members, perms). \<lparr>ga_Group = domainGroupToProto g, ga_VisibleMembers = members,
                       ga_Permissions = AssignmentsToProto perms\<rparr>)
           (readT (GroupService_Get p user name))))"

definition UpdateGroup ::
  "env \<Rightarrow> 'm pdp \<Rightarrow> jsonStrings \<Rightarrow> 'c uctx_scheme \<Rightarrow> UpdateData \<Rightarrow> (pbGroup, ('m, 'z) pworld_scheme) api" where
  "UpdateGroup E p J c req =
     withCaller c (\<lambda>user.
       requireUser p user ActionWrite (GroupResource (ud_Name req))
         (respond domainGroupToProto (GroupService_Update E p J c req)))"

definition UpdateGroupMembers ::
  "env \<Rightarrow> 'm pdp \<Rightarrow> jsonStrings \<Rightarrow> 'c uctx_scheme \<Rightarrow> UpdateMembersData \<Rightarrow> (pbGroup \<times> string list, ('m, 'z) pworld_scheme) api" where
  "UpdateGroupMembers E p J c req =
     withCaller c (\<lambda>user.
       requireUser p user ActionWrite (GroupResource (md_GroupName req))
         (respond (\<lambda>(g, members). (domainGroupToProto g, members)) (GroupService_UpdateMembers E p J c user req)))"

record UpdateGroupPermissionsRequest =
  gpr_GroupName :: string
  gpr_Add :: "PermissionAssignment option list"
  gpr_Remove :: "PermissionAssignment option list"
  gpr_ExpectedPermissionsVersion :: "int64 option"

definition UpdateGroupPermissions ::
  "env \<Rightarrow> 'm pdp \<Rightarrow> jsonStrings \<Rightarrow> 'c uctx_scheme \<Rightarrow> UpdateGroupPermissionsRequest
     \<Rightarrow> (pbGroup \<times> PermissionAssignment list, ('m, 'z) pworld_scheme) api" where
  "UpdateGroupPermissions E p J c req =
     withCaller c (\<lambda>user.
       requireUser p user ActionWrite (GroupResource (gpr_GroupName req))
         (respond (\<lambda>(g, perms). (domainGroupToProto g, AssignmentsToProto perms))
           (GroupService_UpdatePermissions E p J c user
              \<lparr>pd_GroupName = gpr_GroupName req, pd_Add = AssignmentsToDomain (gpr_Add req),
               pd_Remove = AssignmentsToDomain (gpr_Remove req),
               pd_ExpectedPermissionsVersion = gpr_ExpectedPermissionsVersion req\<rparr>)))"

definition DeleteGroup ::
  "env \<Rightarrow> 'm pdp \<Rightarrow> jsonStrings \<Rightarrow> 'c uctx_scheme \<Rightarrow> string \<Rightarrow> (unit, ('m, 'z) pworld_scheme) api" where
  "DeleteGroup E p J c name =
     withCaller c (\<lambda>user.
       requireUser p user ActionWrite (GroupResource name)
         (respond (\<lambda>_. ()) (GroupService_Delete E p J c name)))"

text \<open>
  The listings of groups and users pass the page parameters on as they are; an absent pagination has zeros.
\<close>

definition rawPage :: "PaginationRequest option \<Rightarrow> int64 \<times> int64" where
  "rawPage pg = (case pg of None \<Rightarrow> (0, 0) | Some q \<Rightarrow> (pq_Limit q, pq_Offset q))"

definition unsorted :: SortParams where
  "unsorted = \<lparr>sort_Field = [], sort_Desc = False\<rparr>"

definition ListGroups ::
  "env \<Rightarrow> 'm pdp \<Rightarrow> 'c uctx_scheme \<Rightarrow> PaginationRequest option \<Rightarrow> string
     \<Rightarrow> (pbGroup list \<times> PaginationResponse, ('m, 'z) pworld_scheme) api" where
  "ListGroups E p c pg search =
     withCaller c (\<lambda>user.
       respond (\<lambda>(gs, n, limit, offset). (map domainGroupToProto gs, pageResponse n limit offset))
         (readT (GroupService_List E p c user (fst (rawPage pg)) (snd (rawPage pg)) unsorted search)))"

section \<open>Users\<close>

type_synonym AuthType = string

definition AuthTypeOIDC :: AuthType where "AuthTypeOIDC = ''oidc''"
definition AuthTypeBasicAuth :: AuthType where "AuthTypeBasicAuth = ''basic-auth''"
definition AuthTypeNone :: AuthType where "AuthTypeNone = ''none''"

datatype pbUserStatus = USER_STATUS_UNSPECIFIED | USER_STATUS_ACTIVE | USER_STATUS_DEACTIVATED

definition domainStatusToProto :: "UserStatus \<Rightarrow> pbUserStatus" where
  "domainStatusToProto s =
     (if s = UserStatusActive then USER_STATUS_ACTIVE
      else if s = UserStatusDeactivated then USER_STATUS_DEACTIVATED
      else USER_STATUS_UNSPECIFIED)"

text \<open>The hash of a password is in no answer.\<close>

record pbUser =
  pu_Id :: string
  pu_Email :: string
  pu_DisplayName :: string
  pu_Picture :: string
  pu_Status :: pbUserStatus
  pu_Identities :: "(string \<times> string) list"
  pu_CreatedAt :: time
  pu_LastLoginAt :: time
  pu_IsSystem :: bool

definition domainUserToProto :: "User \<Rightarrow> pbUser" where
  "domainUserToProto u =
     \<lparr>pu_Id = usr_ID u, pu_Email = usr_Email u, pu_DisplayName = usr_DisplayName u, pu_Picture = usr_Picture u,
      pu_Status = domainStatusToProto (usr_Status u),
      pu_Identities = map (\<lambda>i. (idn_Provider i, idn_Subject i)) (usr_Identities u),
      pu_CreatedAt = usr_CreatedAt u, pu_LastLoginAt = usr_LastLoginAt u, pu_IsSystem = usr_System u\<rparr>"

text \<open>Sentinels that no caller distinguishes stand for their text.\<close>

definition ErrFeatureNotAvailable :: err where
  "ErrFeatureNotAvailable = ErrExternal ''feature not available''"

definition errOIDCWithPassword :: err where
  "errOIDCWithPassword = ErrExternal ''initial_password must not be set in OIDC mode''"

definition errBasicAuthWithNoPassword :: err where
  "errBasicAuthWithNoPassword = ErrExternal ''initial_password is required in basic-auth mode''"

definition unavailable :: connectError where
  "unavailable = NewError CodeInvalidArgument ErrFeatureNotAvailable"

definition parseUserID :: "authlib \<Rightarrow> string \<Rightarrow> connectError + uuid" where
  "parseUserID L raw =
     (case uuidParse L raw of
        None \<Rightarrow> Inl (NewError CodeInvalidArgument (ErrExternal ''invalid user_id''))
      | Some uid \<Rightarrow> Inr uid)"

definition requireBasicAuth :: "AuthType \<Rightarrow> connectError + unit" where
  "requireBasicAuth authType = (if authType = AuthTypeBasicAuth then Inr () else Inl unavailable)"

definition ListUsers ::
  "env \<Rightarrow> authlib \<Rightarrow> 'm pdp \<Rightarrow> 'c uctx_scheme \<Rightarrow> PaginationRequest option \<Rightarrow> string
     \<Rightarrow> (pbUser list \<times> PaginationResponse, ('m, 'z) pworld_scheme) api" where
  "ListUsers E L p c pg search =
     withCaller c (\<lambda>actor.
       respond (\<lambda>r. (map domainUserToProto (ulr_Users r), pageResponse (ulr_Total r) (ulr_Limit r) (ulr_Offset r)))
         (UserAdmin_List E L p c actor (fst (rawPage pg)) (snd (rawPage pg)) unsorted search))"

definition GetUser ::
  "authlib \<Rightarrow> 'm pdp \<Rightarrow> 'c uctx_scheme \<Rightarrow> string \<Rightarrow> (pbUser \<times> string list \<times> int64, ('m, 'z) pworld_scheme) api" where
  "GetUser L p c rawID =
     withCaller c (\<lambda>actor. paged (parseUserID L rawID) (\<lambda>userID.
       respond (\<lambda>r. (domainUserToProto (ugt_User r), ugt_VisibleGroupIDs r, ugt_MembershipVersion r))
         (UserAdmin_Get L p actor userID)))"

definition checkCreateUser :: "AuthType \<Rightarrow> UserCreateData \<Rightarrow> connectError + unit" where
  "checkCreateUser authType req =
     (if authType = AuthTypeNone then Inl unavailable
      else if authType = AuthTypeOIDC \<and> ucd_InitialPassword req \<noteq> []
      then Inl (NewError CodeInvalidArgument errOIDCWithPassword)
      else if authType = AuthTypeBasicAuth \<and> ucd_InitialPassword req = []
      then Inl (NewError CodeInvalidArgument errBasicAuthWithNoPassword)
      else Inr ())"

definition CreateUser ::
  "env \<Rightarrow> authlib \<Rightarrow> 'm pdp \<Rightarrow> jsonStrings \<Rightarrow> AuthType \<Rightarrow> 'c uctx_scheme \<Rightarrow> UserCreateData
     \<Rightarrow> (pbUser \<times> string list \<times> int64, ('m, 'z) pworld_scheme) api" where
  "CreateUser E L p J authType c req =
     withCaller c (\<lambda>actor. paged (checkCreateUser authType req) (\<lambda>_.
       respond (\<lambda>r. (domainUserToProto (ucr_User r), ucr_GroupIDs r, ucr_MembershipVersion r))
         (UserAdmin_Create E L p J c actor req)))"

definition ResetUserPassword ::
  "env \<Rightarrow> authlib \<Rightarrow> randomness \<Rightarrow> 'm pdp \<Rightarrow> jsonStrings \<Rightarrow> AuthType \<Rightarrow> 'c uctx_scheme \<Rightarrow> string \<Rightarrow> string
     \<Rightarrow> (unit, ('m, 'z) pworld_scheme) api" where
  "ResetUserPassword E L R p J authType c rawID newPassword =
     withCaller c (\<lambda>actor. paged (requireBasicAuth authType) (\<lambda>_. paged (parseUserID L rawID) (\<lambda>userID.
       respond (\<lambda>_. ()) (ResetPassword E L R p J c actor userID newPassword))))"

definition DeleteUser ::
  "env \<Rightarrow> authlib \<Rightarrow> randomness \<Rightarrow> 'm pdp \<Rightarrow> jsonStrings \<Rightarrow> AuthType \<Rightarrow> 'c uctx_scheme \<Rightarrow> string
     \<Rightarrow> (unit, ('m, 'z) pworld_scheme) api" where
  "DeleteUser E L R p J authType c rawID =
     withCaller c (\<lambda>actor. paged (requireBasicAuth authType) (\<lambda>_. paged (parseUserID L rawID) (\<lambda>userID.
       respond (\<lambda>_. ()) (UserAdmin_Delete E L R p J c actor userID))))"

record UpdateUserGroupsRequest =
  uug_UserId :: string
  uug_AddGroupIds :: "string list"
  uug_RemoveGroupIds :: "string list"
  uug_ExpectedVersion :: "int64 option"

definition UpdateUserGroups ::
  "env \<Rightarrow> authlib \<Rightarrow> 'm pdp \<Rightarrow> jsonStrings \<Rightarrow> 'c uctx_scheme \<Rightarrow> UpdateUserGroupsRequest
     \<Rightarrow> (pbUser \<times> string list \<times> int64, ('m, 'z) pworld_scheme) api" where
  "UpdateUserGroups E L p J c req =
     withCaller c (\<lambda>actor. paged (parseUserID L (uug_UserId req)) (\<lambda>userID.
       respond (\<lambda>r. (domainUserToProto (ugr_User r), ugr_VisibleGroupIDs r, ugr_MembershipVersion r))
         (UpdateGroups E L p J c actor
            \<lparr>ugd_UserID = userID, ugd_AddGroupIDs = uug_AddGroupIds req, ugd_RemoveGroupIDs = uug_RemoveGroupIds req,
             ugd_ExpectedMembershipVersion = uug_ExpectedVersion req\<rparr>)))"

definition DeactivateUser ::
  "env \<Rightarrow> authlib \<Rightarrow> randomness \<Rightarrow> 'm pdp \<Rightarrow> 'c uctx_scheme \<Rightarrow> string \<Rightarrow> (pbUser, ('m, 'z) pworld_scheme) api" where
  "DeactivateUser E L R p c rawID =
     withCaller c (\<lambda>actor. paged (parseUserID L rawID) (\<lambda>userID.
       respond domainUserToProto (UserAdmin_Deactivate E L R p c actor userID)))"

definition ReactivateUser ::
  "env \<Rightarrow> authlib \<Rightarrow> 'm pdp \<Rightarrow> 'c uctx_scheme \<Rightarrow> string \<Rightarrow> (pbUser, ('m, 'z) pworld_scheme) api" where
  "ReactivateUser E L p c rawID =
     withCaller c (\<lambda>actor. paged (parseUserID L rawID) (\<lambda>userID.
       respond domainUserToProto (UserAdmin_Reactivate E L p c actor userID)))"

section \<open>Cookies and headers\<close>

record clientHeader = header +
  hd_ForwardedFor :: string
  hd_UserAgent :: string

text \<open>A cookie of an answer; all are for every path, only for HTTP and lax. A deleted one has no expiry and a negative age.\<close>

record Cookie =
  ck_Name :: string
  ck_Value :: string
  ck_Secure :: bool
  ck_Expires :: "time option"
  ck_MaxAge :: int

definition SetSessionCookie :: "string \<Rightarrow> time \<Rightarrow> bool \<Rightarrow> Cookie" where
  "SetSessionCookie sessionID expiresAt secure =
     \<lparr>ck_Name = sessionCookieName, ck_Value = sessionID, ck_Secure = secure, ck_Expires = Some expiresAt, ck_MaxAge = 0\<rparr>"

definition ClearSessionCookie :: "bool \<Rightarrow> Cookie" where
  "ClearSessionCookie secure =
     \<lparr>ck_Name = sessionCookieName, ck_Value = [], ck_Secure = secure, ck_Expires = None, ck_MaxAge = - 1\<rparr>"

definition OAuthStateCookieName :: string where "OAuthStateCookieName = ''elara_oauth_state''"
definition OAuthNonceCookieName :: string where "OAuthNonceCookieName = ''elara_oauth_nonce''"

definition setOAuthCookie :: "string \<Rightarrow> string \<Rightarrow> bool \<Rightarrow> Cookie" where
  "setOAuthCookie name v secure = \<lparr>ck_Name = name, ck_Value = v, ck_Secure = secure, ck_Expires = None, ck_MaxAge = 0\<rparr>"

definition SetOAuthStateCookie :: "string \<Rightarrow> bool \<Rightarrow> Cookie" where
  "SetOAuthStateCookie v secure = setOAuthCookie OAuthStateCookieName v secure"

definition SetOAuthNonceCookie :: "string \<Rightarrow> bool \<Rightarrow> Cookie" where
  "SetOAuthNonceCookie v secure = setOAuthCookie OAuthNonceCookieName v secure"

definition clientInfo :: "'h clientHeader_scheme \<Rightarrow> string \<times> string" where
  "clientInfo h =
     (if hd_ForwardedFor h \<noteq> [] then Emails.trimSpace (takeWhile (\<lambda>ch. ch \<noteq> CHR '','') (hd_ForwardedFor h)) else [],
      hd_UserAgent h)"

definition extractCookieFromRequest :: "'h clientHeader_scheme \<Rightarrow> string \<Rightarrow> string option" where
  "extractCookieFromRequest h name = map_of (hd_Cookies h) name"

section \<open>Profiles\<close>

definition Me_api ::
  "env \<Rightarrow> 'm pdp \<Rightarrow> 'm \<Rightarrow> 'c uctx_scheme
     \<Rightarrow> (string \<times> string \<times> bool \<times> PermissionAssignment list, 'z world_scheme) api" where
  "Me_api E p m c =
     respond (\<lambda>r. (me_Email r, me_Name r,
                  case UserFromContext c of None \<Rightarrow> False | Some u \<Rightarrow> usr_PasswordChangeRequired u,
                  AssignmentsToProto (me_Permissions r)))
       (readT (\<lambda>_. Me E p m (UserFromContext c)))"

definition ChangePassword_api ::
  "env \<Rightarrow> authlib \<Rightarrow> randomness \<Rightarrow> AuthType \<Rightarrow> bool \<Rightarrow> 'c uctx_scheme \<Rightarrow> 'h clientHeader_scheme \<Rightarrow> string \<Rightarrow> string
     \<Rightarrow> (Cookie, 'z rworld_scheme) api" where
  "ChangePassword_api E L R authType secure c h currentPassword newPassword =
     paged (requireBasicAuth authType) (\<lambda>_.
       respond (\<lambda>sess. SetSessionCookie (ses_ID sess) (ses_ExpiresAt sess) secure)
         (ChangePassword E L R c (UserFromContext c)
            \<lparr>cpw_CurrentPassword = currentPassword, cpw_NewPassword = newPassword, cpw_IP = fst (clientInfo h),
             cpw_UserAgent = snd (clientInfo h)\<rparr>))"

text \<open>A logout always answers; the failure of the revocation is only logged.\<close>

definition Logout_api ::
  "env \<Rightarrow> randomness \<Rightarrow> bool \<Rightarrow> 'c uctx_scheme \<Rightarrow> (Cookie, 'z rworld_scheme) api" where
  "Logout_api E R secure c w =
     (case ctx_session c of
        None \<Rightarrow> (Inr (ClearSessionCookie secure), w)
      | Some sess \<Rightarrow>
          (case Logout E R c (ses_ID sess) (case UserFromContext c of None \<Rightarrow> [] | Some u \<Rightarrow> usr_Email u) w of
             (_, w') \<Rightarrow> (Inr (ClearSessionCookie secure), w')))"

section \<open>Logins\<close>

datatype pbAuthType = AUTH_TYPE_UNSPECIFIED | AUTH_TYPE_OIDC | AUTH_TYPE_BASIC | AUTH_TYPE_NONE

definition GetAuthInfo :: "AuthType \<Rightarrow> pbAuthType" where
  "GetAuthInfo authType =
     (if authType = AuthTypeOIDC then AUTH_TYPE_OIDC
      else if authType = AuthTypeBasicAuth then AUTH_TYPE_BASIC
      else if authType = AuthTypeNone then AUTH_TYPE_NONE
      else AUTH_TYPE_UNSPECIFIED)"

definition requireOIDC :: "AuthType \<Rightarrow> connectError + unit" where
  "requireOIDC authType = (if authType = AuthTypeOIDC then Inr () else Inl unavailable)"

definition OIDCLogin ::
  "randomness \<Rightarrow> (string \<Rightarrow> string \<Rightarrow> string) \<Rightarrow> AuthType \<Rightarrow> bool \<Rightarrow> (string \<times> Cookie list, 'z rworld_scheme) api" where
  "OIDCLogin R authURL authType secure =
     paged (requireOIDC authType) (\<lambda>_.
       respond (\<lambda>(url, state, nonce). (url, [SetOAuthStateCookie state secure, SetOAuthNonceCookie nonce secure]))
         (Auth_Login R authURL))"

text \<open>The text of an error, which only this mapping reads, is an argument.\<close>

definition errAccountNotProvisioned :: err where
  "errAccountNotProvisioned = ErrExternal ''Account not provisioned. Contact your administrator.''"

definition errAccountDeactivated :: err where
  "errAccountDeactivated = ErrExternal ''Account deactivated. Contact your administrator.''"

definition errAuthorizationExpired :: err where
  "errAuthorizationExpired = ErrExternal ''Authorization expired. Please log in again.''"

definition mapOIDCCallbackError :: "(err \<Rightarrow> string) \<Rightarrow> err \<Rightarrow> connectError" where
  "mapOIDCCallbackError errText e =
     (if e = ErrIdentityNotProvisioned then NewError CodePermissionDenied errAccountNotProvisioned
      else if e = ErrUserDeactivated then NewError CodePermissionDenied errAccountDeactivated
      else if containsStr (errText e) ''invalid_grant'' then NewError CodeFailedPrecondition errAuthorizationExpired
      else ToConnectError e)"

definition OIDCCallback ::
  "env \<Rightarrow> authlib \<Rightarrow> randomness \<Rightarrow> (err \<Rightarrow> string) \<Rightarrow> (string \<Rightarrow> string \<Rightarrow> err + ProviderIdentity) \<Rightarrow> AuthType \<Rightarrow> bool
     \<Rightarrow> 'c uctx_scheme \<Rightarrow> 'h clientHeader_scheme \<Rightarrow> string \<Rightarrow> string \<Rightarrow> (Cookie, 'z rworld_scheme) api" where
  "OIDCCallback E L R errText exchange authType secure c h state code =
     paged (requireOIDC authType) (\<lambda>_ w.
       let unauthorized = (Inl (NewError CodeUnauthenticated ErrUnauthorized), w) in
       if extractCookieFromRequest h OAuthStateCookieName \<noteq> Some state then unauthorized
       else
         case extractCookieFromRequest h OAuthNonceCookieName of
           None \<Rightarrow> unauthorized
         | Some nonce \<Rightarrow>
             (case Callback E L R exchange c
                     \<lparr>cbp_Code = code, cbp_Nonce = nonce, cbp_IP = fst (clientInfo h), cbp_UserAgent = snd (clientInfo h)\<rparr> w of
                (Inl e, w') \<Rightarrow> (Inl (mapOIDCCallbackError errText e), w')
              | (Inr (_, sess), w') \<Rightarrow> (Inr (SetSessionCookie (ses_ID sess) (ses_ExpiresAt sess) secure), w')))"

definition BasicLogin_api ::
  "env \<Rightarrow> authlib \<Rightarrow> randomness \<Rightarrow> AuthType \<Rightarrow> bool \<Rightarrow> 'c uctx_scheme \<Rightarrow> 'h clientHeader_scheme \<Rightarrow> string \<Rightarrow> string
     \<Rightarrow> (bool \<times> Cookie, 'z rworld_scheme) api" where
  "BasicLogin_api E L R authType secure c h email password =
     paged (requireBasicAuth authType) (\<lambda>_.
       respond (\<lambda>(user, sess). (usr_PasswordChangeRequired user, SetSessionCookie (ses_ID sess) (ses_ExpiresAt sess) secure))
         (BasicLogin E L R c
            \<lparr>lp_Email = email, lp_Password = password, lp_IP = fst (clientInfo h), lp_UserAgent = snd (clientInfo h)\<rparr>))"

definition GetCapabilities :: "bool \<Rightarrow> bool \<Rightarrow> bool \<Rightarrow> bool \<times> bool \<times> bool" where
  "GetCapabilities etcdTokenAuthEnabled userManagementEnabled demoMode =
     (etcdTokenAuthEnabled, userManagementEnabled, demoMode)"

end
