(* ===== verification/Overviews.thy ===== *)
theory Overviews
  imports ClientHistory Bundles Requests UserRepo
begin

text \<open>
  Reads across the components within the scope of the caller: the connected clients (\<^verbatim>\<open>src/internal/usecase/clients\<close>), the
  options of the filter selects (\<^verbatim>\<open>src/internal/usecase/filter\<close>) and the dashboard (\<^verbatim>\<open>src/internal/usecase/dashboard\<close>).
  The rules in memory are the argument \<open>m\<close>.
\<close>

section \<open>Clients\<close>

record scopeChecker =
  sc_admin :: bool
  sc_nsScope :: DomainSet

definition newScopeChecker :: "'m pdp \<Rightarrow> 'm \<Rightarrow> string \<Rightarrow> scopeChecker" where
  "newScopeChecker p m userID =
     (if Has p m userID \<lparr>per_Object = ObjectClient, per_Action = ActionRead, per_Domain = DomainAll\<rparr>
      then \<lparr>sc_admin = True, sc_nsScope = \<lparr>ds_Wildcard = False, ds_Explicit = {}\<rparr>\<rparr>
      else \<lparr>sc_admin = False, sc_nsScope = EffectiveNamespaces p m userID ActionRead\<rparr>)"

definition watchKeyNamespace :: "string \<Rightarrow> string" where
  "watchKeyNamespace key =
     (let trimmed = trimPrefix key ''/'' in
      case indexByte trimmed (CHR ''/'') of
        None \<Rightarrow> trimmed
      | Some i \<Rightarrow> if i > 0 then take i trimmed else trimmed)"

definition visible :: "scopeChecker \<Rightarrow> Client \<Rightarrow> bool" where
  "visible s c \<longleftrightarrow>
     sc_admin s \<or>
     list_ex (\<lambda>aw. let ns = watchKeyNamespace (aw_StartKey aw) in ns \<noteq> [] \<and> DomainSet_Contains (sc_nsScope s) ns)
       (cln_ActiveWatchList c)"

definition scope_filter :: "scopeChecker \<Rightarrow> Client list \<Rightarrow> Client list" where
  "scope_filter s clients = (if sc_admin s then clients else filter (visible s) clients)"

definition Clients_ListActive ::
  "env \<Rightarrow> goRange \<Rightarrow> 'm pdp \<Rightarrow> 'm \<Rightarrow> 'c uctx_scheme \<Rightarrow> Registry \<Rightarrow> err + Client list" where
  "Clients_ListActive E G p m c r =
     (case AuthInfoFromContext c of
        Inl _ \<Rightarrow> Err ErrUnauthorized
      | Inr info \<Rightarrow>
          Ok (scope_filter (newScopeChecker p m (ai_UserID info))
                (sortSliceBy E (\<lambda>a b. cln_ConnectedAt a < cln_ConnectedAt b) (ListActive G r))))"

definition Clients_ListHistorical ::
  "'m pdp \<Rightarrow> 'm \<Rightarrow> 'c uctx_scheme \<Rightarrow> int64 \<Rightarrow> 'z world_scheme \<Rightarrow> err + Client list" where
  "Clients_ListHistorical p m c limit0 w =
     (case AuthInfoFromContext c of
        Inl _ \<Rightarrow> Err ErrUnauthorized
      | Inr info \<Rightarrow>
          (let limit = (if limit0 \<le> 0 then 100 else limit0) in
           case HistoryStore_List c limit w of
             Inl e \<Rightarrow> Err e
           | Inr out \<Rightarrow> Ok (scope_filter (newScopeChecker p m (ai_UserID info)) out)))"

definition Clients_ListSessions ::
  "'m pdp \<Rightarrow> 'm \<Rightarrow> 'c uctx_scheme \<Rightarrow> string \<Rightarrow> string \<Rightarrow> string \<Rightarrow> int64 \<Rightarrow> 'z world_scheme \<Rightarrow> err + Client list" where
  "Clients_ListSessions p m c clientName k8sNamespace currentID limit0 w =
     (case AuthInfoFromContext c of
        Inl _ \<Rightarrow> Err ErrUnauthorized
      | Inr info \<Rightarrow>
          if clientName = [] then Ok []
          else
            let limit = (if limit0 \<le> 0 then 50 else limit0) in
            case HistoryStore_ListByClient c clientName k8sNamespace (wrap64 (limit + 1)) w of
              Inl e \<Rightarrow> Err e
            | Inr results \<Rightarrow>
                (let results = (if currentID \<noteq> [] then filter (\<lambda>x. cln_ID x \<noteq> currentID) results else results) in
                 Ok (scope_filter (newScopeChecker p m (ai_UserID info)) (take (nat limit) results))))"

definition historyScanLimit :: int64 where "historyScanLimit = 1000"

definition Clients_Get ::
  "goRange \<Rightarrow> 'm pdp \<Rightarrow> 'm \<Rightarrow> 'c uctx_scheme \<Rightarrow> Registry \<Rightarrow> string \<Rightarrow> 'z world_scheme
     \<Rightarrow> err + (Client \<times> ClientEvent list)" where
  "Clients_Get G p m c r cid w =
     (case AuthInfoFromContext c of
        Inl _ \<Rightarrow> Err ErrUnauthorized
      | Inr info \<Rightarrow>
          (let scope = newScopeChecker p m (ai_UserID info); missing = Err (ErrNotFound ''client'' cid) in
           case Registry_Get G r cid of
             Some x \<Rightarrow> if \<not> visible scope x then missing else Ok (x, RecentEvents r cid)
           | None \<Rightarrow>
               (case HistoryStore_List c historyScanLimit w of
                  Inl e \<Rightarrow> Err e
                | Inr hist \<Rightarrow>
                    (case find (\<lambda>x. cln_ID x = cid) hist of
                       None \<Rightarrow> missing
                     | Some x \<Rightarrow> if \<not> visible scope x then missing else Ok (x, [])))))"

text \<open>What a subscriber of the changes receives of the upstream's changes.\<close>

definition Clients_SubscribeChanges ::
  "'m pdp \<Rightarrow> 'm \<Rightarrow> 'c uctx_scheme \<Rightarrow> ClientChange list \<Rightarrow> err + ClientChange list" where
  "Clients_SubscribeChanges p m c upstream =
     (case AuthInfoFromContext c of
        Inl _ \<Rightarrow> Err ErrUnauthorized
      | Inr info \<Rightarrow>
          (let scope = newScopeChecker p m (ai_UserID info) in
           Ok (if sc_admin scope then upstream else filter (\<lambda>ch. visible scope (cch_Client ch)) upstream)))"

definition Clients_SubscribeClient ::
  "goRange \<Rightarrow> 'm pdp \<Rightarrow> 'm \<Rightarrow> 'c uctx_scheme \<Rightarrow> string \<Rightarrow> Registry \<Rightarrow> (err + int option) \<times> Registry" where
  "Clients_SubscribeClient G p m c connID r =
     (case AuthInfoFromContext c of
        Inl _ \<Rightarrow> (Err ErrUnauthorized, r)
      | Inr info \<Rightarrow>
          (let scope = newScopeChecker p m (ai_UserID info) in
           if \<not> sc_admin scope \<and> (case Registry_Get G r connID of None \<Rightarrow> True | Some x \<Rightarrow> \<not> visible scope x)
           then (Err (ErrNotFound ''client'' connID), r)
           else (case Registry_SubscribeClient connID r of (sid, r') \<Rightarrow> (Ok sid, r'))))"

section \<open>Filter options\<close>

record Item =
  itm_Key :: string
  itm_Value :: string
  itm_Actions :: "Action list"

record Query =
  qry_Actions :: "Action list"
  qry_Search :: string

type_synonym actionSet = "Action set"

text \<open>The actions granted on every resource of the object, and those granted on each domain.\<close>

fun scopedActions :: "Permission list \<Rightarrow> Object \<Rightarrow> actionSet \<times> (string \<times> actionSet) list" where
  "scopedActions [] obj = ({}, [])"
| "scopedActions (perm # rest) obj =
     (case scopedActions rest obj of
        (wildcard, explicit) \<Rightarrow>
          if \<not> ObjectGrants (per_Object perm) obj then (wildcard, explicit)
          else if per_Domain perm = DomainAll then (insert (per_Action perm) wildcard, explicit)
          else (wildcard, AList.update (per_Domain perm)
                  (insert (per_Action perm) (case map_of explicit (per_Domain perm) of None \<Rightarrow> {} | Some s \<Rightarrow> s)) explicit))"

definition grants :: "actionSet \<Rightarrow> Action list \<Rightarrow> bool" where
  "grants have requested \<longleftrightarrow>
     have \<noteq> {} \<and> (requested = [] \<or> list_ex (\<lambda>req. \<exists>held \<in> have. ActionGrants held req) requested)"

definition resolve :: "actionSet \<Rightarrow> Action list" where
  "resolve have =
     (if ActionAll \<in> have then [ActionAll]
      else filter (\<lambda>a. a \<in> have) [ActionRead, ActionWrite, ActionCreate, ActionDelete])"

definition heldActions :: "actionSet \<Rightarrow> (string \<times> actionSet) list \<Rightarrow> string \<Rightarrow> actionSet" where
  "heldActions wildcard explicit d = wildcard \<union> (case map_of explicit d of None \<Rightarrow> {} | Some s \<Rightarrow> s)"

definition Filter_Groups ::
  "env \<Rightarrow> 'm pdp \<Rightarrow> 'm \<Rightarrow> 'c ctx_scheme \<Rightarrow> AuthInfo \<Rightarrow> Query \<Rightarrow> 'z world_scheme \<Rightarrow> err + Item list" where
  "Filter_Groups E p m c actor query w =
     (case ListPermissions E p m (ai_UserID actor) of
        Inl e \<Rightarrow> Err e
      | Inr perms \<Rightarrow>
          (case scopedActions perms ObjectGroup of
             (wildcard, explicit) \<Rightarrow>
               if wildcard = {} \<and> explicit = [] then Ok []
               else
                 case Group_List E (GetQuerier c) \<lparr>gf_Names = {}, gf_Wildcard = True, gf_Search = qry_Search query\<rparr> 0 0
                        \<lparr>sort_Field = [], sort_Desc = False\<rparr> w of
                   Inl e \<Rightarrow> Err e
                 | Inr (groups, _) \<Rightarrow>
                     Ok (map (\<lambda>g. \<lparr>itm_Key = grp_Name g, itm_Value = grp_DisplayName g,
                                   itm_Actions = resolve (heldActions wildcard explicit (GroupResource (grp_Name g)))\<rparr>)
                          (filter (\<lambda>g. grants (heldActions wildcard explicit (GroupResource (grp_Name g))) (qry_Actions query)) groups))))"

text \<open>The names of the filter, in the order in which the map of the scope is ranged over.\<close>

definition Filter_Namespaces ::
  "env \<Rightarrow> (string set \<Rightarrow> string list) \<Rightarrow> 'm pdp \<Rightarrow> 'm \<Rightarrow> 'c ctx_scheme \<Rightarrow> AuthInfo \<Rightarrow> Query \<Rightarrow> (Item list, 'z world_scheme) op" where
  "Filter_Namespaces E order p m c actor query w =
     (case ListPermissions E p m (ai_UserID actor) of
        Inl e \<Rightarrow> (Err e, w)
      | Inr perms \<Rightarrow>
          (case scopedActions perms ObjectNamespace of
             (wildcard, explicit) \<Rightarrow>
               if wildcard = {} \<and> explicit = [] then (Ok [], w)
               else
                 bindT (Namespace_List E c
                   \<lparr>nf_Names = (if wildcard = {} then order ((\<lambda>d. trimPrefix d NamespaceResourcePrefix) ` set (map fst explicit)) else []),
                    nf_Wildcard = (wildcard \<noteq> {}), nf_Search = qry_Search query\<rparr> 0 0
                   \<lparr>sort_Field = [], sort_Desc = False\<rparr>) (\<lambda>(nss, _).
                 returnT (map (\<lambda>ns. \<lparr>itm_Key = ns_Name ns, itm_Value = ns_Name ns,
                                     itm_Actions = resolve (heldActions wildcard explicit (NamespaceResource (ns_Name ns)))\<rparr>)
                   (filter (\<lambda>ns. grants (heldActions wildcard explicit (NamespaceResource (ns_Name ns))) (qry_Actions query)) nss))) w))"

definition Filter_Users ::
  "env \<Rightarrow> authlib \<Rightarrow> 'm pdp \<Rightarrow> 'm \<Rightarrow> 'c ctx_scheme \<Rightarrow> AuthInfo \<Rightarrow> Query \<Rightarrow> (Item list, 'z world_scheme) op" where
  "Filter_Users E L p m c actor query w =
     (case ListPermissions E p m (ai_UserID actor) of
        Inl e \<Rightarrow> (Err e, w)
      | Inr perms \<Rightarrow>
          (let global = fst (scopedActions perms ObjectUser) in
           if \<not> grants global (qry_Actions query) then (Ok [], w)
           else
             bindT (User_List E L c \<lparr>uf_UserIDs = {}, uf_AnyUser = True, uf_Search = qry_Search query\<rparr> 0 0
               \<lparr>sort_Field = [], sort_Desc = False\<rparr>) (\<lambda>(users, _).
             returnT (map (\<lambda>u. \<lparr>itm_Key = usr_ID u,
                                itm_Value = (if usr_DisplayName u = [] then usr_Email u else usr_DisplayName u),
                                itm_Actions = resolve global\<rparr>) users)) w))"

section \<open>The dashboard\<close>

record StatsResult =
  sr_NamespaceCount :: int
  sr_ConfigCount :: int
  sr_ActiveClientCount :: int
  sr_GlobalRevision :: int64

fun countConfigs ::
  "env \<Rightarrow> 'm pdp \<Rightarrow> 'm \<Rightarrow> string \<Rightarrow> 'c ctx_scheme \<Rightarrow> Namespace list \<Rightarrow> int \<times> int \<Rightarrow> (int \<times> int, 'z world_scheme) op" where
  "countConfigs E p m userID c [] acc = returnT acc"
| "countConfigs E p m userID c (ns # rest) acc =
     (if \<not> HasNamespace p m userID (ns_Name ns) ActionRead then countConfigs E p m userID c rest acc
      else
        bindT (CountByNamespace E c (ns_Name ns)) (\<lambda>count.
        countConfigs E p m userID c rest (fst acc + 1, snd acc + count)))"

definition GetStats ::
  "env \<Rightarrow> goRange \<Rightarrow> 'm pdp \<Rightarrow> 'm \<Rightarrow> 'c uctx_scheme \<Rightarrow> Registry \<Rightarrow> (StatsResult, 'z world_scheme) op" where
  "GetStats E G p m c r =
     (case AuthInfoFromContext c of
        Inl _ \<Rightarrow> failT ErrUnauthorized
      | Inr info \<Rightarrow>
          bindT (Namespace_ListAll E c) (\<lambda>nss.
          bindT (countConfigs E p m (ai_UserID info) c nss (0, 0)) (\<lambda>(namespaces, configs).
          bindT (CurrentRevision E c) (\<lambda>revision.
          returnT \<lparr>sr_NamespaceCount = namespaces, sr_ConfigCount = configs,
                   sr_ActiveClientCount = int (length (ListActive G r)), sr_GlobalRevision = revision\<rparr>))))"

definition activityOverfetchMultiplier :: int where "activityOverfetchMultiplier = 5"

text \<open>The entries the caller may read, up to the limit, which is at least one.\<close>

definition ListActivity ::
  "env \<Rightarrow> 'm pdp \<Rightarrow> 'm \<Rightarrow> 'c uctx_scheme \<Rightarrow> int64 \<Rightarrow> (ChangelogEntry list, 'z world_scheme) op" where
  "ListActivity E p m c limit0 =
     (case AuthInfoFromContext c of
        Inl _ \<Rightarrow> failT ErrUnauthorized
      | Inr info \<Rightarrow>
          (let limit = (if limit0 \<le> 0 then 1 else limit0) in
           bindT (ListRecentChanges E c (wrap64 (limit * activityOverfetchMultiplier))) (\<lambda>entries.
           returnT (take (nat limit)
             (filter (\<lambda>e. HasNamespace p m (ai_UserID info) (cl_Namespace e) ActionRead) entries)))))"

end
