(* ===== verification/OverviewApi.thy ===== *)
theory OverviewApi
  imports AdminApi Overviews
begin

text \<open>
  The handlers of connected clients, filter options and the dashboard in the structured API,
  \<^verbatim>\<open>src/internal/handler/v2/clients\<close>, \<^verbatim>\<open>filter\<close> and \<^verbatim>\<open>dashboard\<close>. The registry of clients is an argument; a stream is a list
  of what its select meets, a tick with the registry of that moment.
\<close>

section \<open>Clients\<close>

record pbClient =
  pcl_Id :: string
  pcl_PeerAddress :: string
  pcl_UserAgent :: string
  pcl_ClientName :: string
  pcl_ClientVersion :: string
  pcl_K8sNamespace :: string
  pcl_K8sPod :: string
  pcl_K8sNode :: string
  pcl_InstanceId :: string
  pcl_ConnectedAt :: time
  pcl_LastActivityAt :: time
  pcl_DisconnectedAt :: "time option"
  pcl_ActiveWatches :: int
  pcl_RequestCounts :: "(string \<times> int64) list"
  pcl_ErrorCount :: int64
  pcl_ActiveWatchList :: "ActiveWatch list"

definition domainClientToProto :: "Client \<Rightarrow> pbClient" where
  "domainClientToProto c =
     \<lparr>pcl_Id = cln_ID c, pcl_PeerAddress = cln_PeerAddress c, pcl_UserAgent = cln_UserAgent c, pcl_ClientName = cln_ClientName c,
      pcl_ClientVersion = cln_ClientVersion c, pcl_K8sNamespace = cln_K8sNamespace c, pcl_K8sPod = cln_K8sPod c,
      pcl_K8sNode = cln_K8sNode c, pcl_InstanceId = cln_InstanceID c, pcl_ConnectedAt = cln_ConnectedAt c,
      pcl_LastActivityAt = cln_LastActivityAt c, pcl_DisconnectedAt = cln_DisconnectedAt c, pcl_ActiveWatches = cln_ActiveWatches c,
      pcl_RequestCounts = cln_RequestCounts c, pcl_ErrorCount = cln_ErrorCount c, pcl_ActiveWatchList = cln_ActiveWatchList c\<rparr>"

text \<open>The use case's error is wrapped as it is, so its status is unknown.\<close>

definition ListActiveClients ::
  "env \<Rightarrow> goRange \<Rightarrow> 'm pdp \<Rightarrow> 'm \<Rightarrow> 'c uctx_scheme \<Rightarrow> Registry \<Rightarrow> connectError + pbClient list" where
  "ListActiveClients E G p m c r =
     (case Clients_ListActive E G p m c r of
        Inl e \<Rightarrow> Inl (NewError CodeUnknown e)
      | Inr clients \<Rightarrow> Inr (map domainClientToProto clients))"

definition requireClients :: "'m pdp \<Rightarrow> 'm \<Rightarrow> 'c uctx_scheme \<Rightarrow> err + unit" where
  "requireClients p m c = Authz_Require p m (authInfo c) ObjectClient ActionRead DomainAll"

definition GetClient ::
  "goRange \<Rightarrow> 'm pdp \<Rightarrow> 'm \<Rightarrow> 'c uctx_scheme \<Rightarrow> Registry \<Rightarrow> string
     \<Rightarrow> (pbClient \<times> ClientEvent list, 'z world_scheme) api" where
  "GetClient G p m c r cid =
     gated (requireClients p m c)
       (respond (\<lambda>(client, recent). (domainClientToProto client, recent)) (readT (Clients_Get G p m c r cid)))"

definition ListHistoricalConnections ::
  "'m pdp \<Rightarrow> 'm \<Rightarrow> 'c uctx_scheme \<Rightarrow> int \<Rightarrow> (pbClient list, 'z world_scheme) api" where
  "ListHistoricalConnections p m c limit0 =
     paged (NormalizeLimit limit0) (\<lambda>limit.
       respond (map domainClientToProto) (readT (Clients_ListHistorical p m c limit)))"

definition ListClientSessions ::
  "'m pdp \<Rightarrow> 'm \<Rightarrow> 'c uctx_scheme \<Rightarrow> string \<Rightarrow> string \<Rightarrow> string \<Rightarrow> int \<Rightarrow> (pbClient list, 'z world_scheme) api" where
  "ListClientSessions p m c clientName k8sNamespace currentID limit0 =
     paged (NormalizeLimit limit0) (\<lambda>limit.
       respond (map domainClientToProto) (readT (Clients_ListSessions p m c clientName k8sNamespace currentID limit)))"

subsection \<open>The stream of all clients\<close>

datatype clientsFrame =
    FrameSnapshot "pbClient list"
  | FrameConnected pbClient
  | FrameDisconnected pbClient

datatype 'r clientsInput = ClientsTick 'r | ClientsChange ClientChange | ClientsClosed | ClientsDone

definition sendSnapshot ::
  "env \<Rightarrow> goRange \<Rightarrow> 'm pdp \<Rightarrow> 'm \<Rightarrow> 'c uctx_scheme \<Rightarrow> (clientsFrame \<Rightarrow> bool) \<Rightarrow> Registry
     \<Rightarrow> clientsFrame list \<Rightarrow> (connectError + unit) \<times> clientsFrame list" where
  "sendSnapshot E G p m c accepts r frames =
     (case Clients_ListActive E G p m c r of
        Inl e \<Rightarrow> (Inl (NewError CodeUnknown e), frames)
      | Inr clients \<Rightarrow>
          (let frame = FrameSnapshot (map domainClientToProto clients) in
           if accepts frame then (Inr (), frames @ [frame])
           else (Inl (NewError CodeUnknown (ErrExternal ''send clients snapshot'')), frames)))"

definition sendChange ::
  "(clientsFrame \<Rightarrow> bool) \<Rightarrow> ClientChange \<Rightarrow> clientsFrame list \<Rightarrow> (connectError + unit) \<times> clientsFrame list" where
  "sendChange accepts ev frames =
     (let emit = (\<lambda>frame. if accepts frame then (Inr (), frames @ [frame])
                          else (Inl (NewError CodeUnknown (ErrExternal ''send client change'')), frames))
      in case cch_Kind ev of
           ClientConnected \<Rightarrow> emit (FrameConnected (domainClientToProto (cch_Client ev)))
         | ClientDisconnected \<Rightarrow> emit (FrameDisconnected (domainClientToProto (cch_Client ev)))
         | _ \<Rightarrow> (Inr (), frames))"

fun clients_watchLoop ::
  "env \<Rightarrow> goRange \<Rightarrow> 'm pdp \<Rightarrow> 'm \<Rightarrow> 'c uctx_scheme \<Rightarrow> (clientsFrame \<Rightarrow> bool) \<Rightarrow> Registry clientsInput list
     \<Rightarrow> clientsFrame list \<Rightarrow> (connectError + unit) \<times> clientsFrame list" where
  "clients_watchLoop E G p m c accepts [] frames = (Inr (), frames)"
| "clients_watchLoop E G p m c accepts (ClientsDone # rest) frames = (Inr (), frames)"
| "clients_watchLoop E G p m c accepts (ClientsClosed # rest) frames = (Inr (), frames)"
| "clients_watchLoop E G p m c accepts (ClientsTick r # rest) frames =
     (case sendSnapshot E G p m c accepts r frames of
        (Inl e, frames') \<Rightarrow> (Inl e, frames')
      | (Inr _, frames') \<Rightarrow> clients_watchLoop E G p m c accepts rest frames')"
| "clients_watchLoop E G p m c accepts (ClientsChange ev # rest) frames =
     (case sendChange accepts ev frames of
        (Inl e, frames') \<Rightarrow> (Inl e, frames')
      | (Inr _, frames') \<Rightarrow> clients_watchLoop E G p m c accepts rest frames')"

text \<open>The changes that the loop meets are those that the subscription lets through.\<close>

fun subscribedInputs :: "(ClientChange \<Rightarrow> bool) \<Rightarrow> Registry clientsInput list \<Rightarrow> Registry clientsInput list" where
  "subscribedInputs keep [] = []"
| "subscribedInputs keep (ClientsChange ev # rest) =
     (if keep ev then ClientsChange ev # subscribedInputs keep rest else subscribedInputs keep rest)"
| "subscribedInputs keep (inp # rest) = inp # subscribedInputs keep rest"

definition runWatch ::
  "env \<Rightarrow> goRange \<Rightarrow> 'm pdp \<Rightarrow> 'm \<Rightarrow> 'c uctx_scheme \<Rightarrow> (clientsFrame \<Rightarrow> bool) \<Rightarrow> Registry \<Rightarrow> Registry clientsInput list
     \<Rightarrow> (connectError + unit) \<times> clientsFrame list" where
  "runWatch E G p m c accepts r inputs =
     (case AuthInfoFromContext c of
        Inl _ \<Rightarrow> (Inl (ToConnectError ErrUnauthorized), [])
      | Inr info \<Rightarrow>
          (case sendSnapshot E G p m c accepts r [] of
             (Inl e, frames) \<Rightarrow> (Inl e, frames)
           | (Inr _, frames) \<Rightarrow>
               clients_watchLoop E G p m c accepts
                 (subscribedInputs (\<lambda>ev. Clients_SubscribeChanges p m c [ev] = Inr [ev]) inputs) frames))"

definition WatchClients ::
  "env \<Rightarrow> goRange \<Rightarrow> 'm pdp \<Rightarrow> 'm \<Rightarrow> 'c uctx_scheme \<Rightarrow> (clientsFrame \<Rightarrow> bool) \<Rightarrow> Registry \<Rightarrow> Registry clientsInput list
     \<Rightarrow> (connectError + unit) \<times> clientsFrame list" where
  "WatchClients E G p m c accepts r inputs =
     (case requireClients p m c of
        Inl e \<Rightarrow> (Inl (ToConnectError e), [])
      | Inr _ \<Rightarrow> runWatch E G p m c accepts r inputs)"

subsection \<open>The stream of one client\<close>

datatype clientFrame =
    ClientSnapshot pbClient
  | ClientGone pbClient
  | ClientRequest pbClient ClientEvent

definition sendClientFrame ::
  "(clientFrame \<Rightarrow> bool) \<Rightarrow> clientFrame \<Rightarrow> clientFrame list \<Rightarrow> (connectError + unit) \<times> clientFrame list" where
  "sendClientFrame accepts frame frames =
     (if accepts frame then (Inr (), frames @ [frame]) else (Inl (NewError CodeUnknown (ErrExternal ''send client'')), frames))"

text \<open>Whether the loop should run: not for a client that is already gone.\<close>

definition initWatchClient ::
  "goRange \<Rightarrow> 'm pdp \<Rightarrow> 'm \<Rightarrow> 'c uctx_scheme \<Rightarrow> (clientFrame \<Rightarrow> bool) \<Rightarrow> Registry \<Rightarrow> string \<Rightarrow> 'z world_scheme
     \<Rightarrow> (connectError + bool) \<times> clientFrame list" where
  "initWatchClient G p m c accepts r cid w =
     (case Clients_Get G p m c r cid w of
        Inl e \<Rightarrow> (Inl (ToConnectError e), [])
      | Inr (x, _) \<Rightarrow>
          (let active = Client_IsActive x;
               frame = (if active then ClientSnapshot (domainClientToProto x) else ClientGone (domainClientToProto x))
           in case sendClientFrame accepts frame [] of
                (Inl e, frames) \<Rightarrow> (Inl e, frames)
              | (Inr _, frames) \<Rightarrow> (Inr active, frames)))"

text \<open>Whether the client has gone: then nothing is frames and the loop ends.\<close>

definition sendTickerSnapshot ::
  "goRange \<Rightarrow> 'm pdp \<Rightarrow> 'm \<Rightarrow> 'c uctx_scheme \<Rightarrow> (clientFrame \<Rightarrow> bool) \<Rightarrow> string \<Rightarrow> Registry \<times> 'z world_scheme
     \<Rightarrow> clientFrame list \<Rightarrow> (connectError + bool) \<times> clientFrame list" where
  "sendTickerSnapshot G p m c accepts cid now frames =
     (case Clients_Get G p m c (fst now) cid (snd now) of
        Inl e \<Rightarrow> (Inl (ToConnectError e), frames)
      | Inr (x, _) \<Rightarrow>
          if \<not> Client_IsActive x then (Inr True, frames)
          else
            (case sendClientFrame accepts (ClientSnapshot (domainClientToProto x)) frames of
               (Inl e, frames') \<Rightarrow> (Inl e, frames')
             | (Inr _, frames') \<Rightarrow> (Inr False, frames')))"

definition sendClientChange ::
  "(clientFrame \<Rightarrow> bool) \<Rightarrow> ClientChange \<Rightarrow> clientFrame list \<Rightarrow> (connectError + unit) \<times> clientFrame list" where
  "sendClientChange accepts ev frames =
     (case cch_Kind ev of
        ClientRequestRecorded \<Rightarrow>
          (case cch_Event ev of
             None \<Rightarrow> (Inr (), frames)
           | Some e \<Rightarrow> sendClientFrame accepts (ClientRequest (domainClientToProto (cch_Client ev)) e) frames)
      | ClientDisconnected \<Rightarrow> sendClientFrame accepts (ClientGone (domainClientToProto (cch_Client ev))) frames
      | _ \<Rightarrow> (Inr (), frames))"

fun watchClientLoop ::
  "goRange \<Rightarrow> 'm pdp \<Rightarrow> 'm \<Rightarrow> 'c uctx_scheme \<Rightarrow> (clientFrame \<Rightarrow> bool) \<Rightarrow> string
     \<Rightarrow> (Registry \<times> 'z world_scheme) clientsInput list \<Rightarrow> clientFrame list \<Rightarrow> (connectError + unit) \<times> clientFrame list" where
  "watchClientLoop G p m c accepts cid [] frames = (Inr (), frames)"
| "watchClientLoop G p m c accepts cid (ClientsDone # rest) frames = (Inr (), frames)"
| "watchClientLoop G p m c accepts cid (ClientsClosed # rest) frames = (Inr (), frames)"
| "watchClientLoop G p m c accepts cid (ClientsTick now # rest) frames =
     (case sendTickerSnapshot G p m c accepts cid now frames of
        (Inl e, frames') \<Rightarrow> (Inl e, frames')
      | (Inr gone, frames') \<Rightarrow>
          if gone then (Inr (), frames') else watchClientLoop G p m c accepts cid rest frames')"
| "watchClientLoop G p m c accepts cid (ClientsChange ev # rest) frames =
     (case sendClientChange accepts ev frames of
        (Inl e, frames') \<Rightarrow> (Inl e, frames')
      | (Inr _, frames') \<Rightarrow>
          if cch_Kind ev = ClientDisconnected then (Inr (), frames')
          else watchClientLoop G p m c accepts cid rest frames')"

text \<open>The registry after the subscription is returned; its cancellation is the registry's own operation.\<close>

definition runWatchClient ::
  "goRange \<Rightarrow> 'm pdp \<Rightarrow> 'm \<Rightarrow> 'c uctx_scheme \<Rightarrow> (clientFrame \<Rightarrow> bool) \<Rightarrow> string \<Rightarrow> Registry \<Rightarrow> 'z world_scheme
     \<Rightarrow> (Registry \<times> 'z world_scheme) clientsInput list \<Rightarrow> (connectError + unit) \<times> clientFrame list \<times> Registry" where
  "runWatchClient G p m c accepts cid r w inputs =
     (case initWatchClient G p m c accepts r cid w of
        (Inl e, frames) \<Rightarrow> (Inl e, frames, r)
      | (Inr goes, frames) \<Rightarrow>
          if \<not> goes then (Inr (), frames, r)
          else
            (case Clients_SubscribeClient G p m c cid r of
               (Inl e, r1) \<Rightarrow> (Inl (ToConnectError e), frames, r1)
             | (Inr _, r1) \<Rightarrow>
                 (case watchClientLoop G p m c accepts cid inputs frames of (res, frames') \<Rightarrow> (res, frames', r1))))"

definition WatchClient ::
  "goRange \<Rightarrow> 'm pdp \<Rightarrow> 'm \<Rightarrow> 'c uctx_scheme \<Rightarrow> (clientFrame \<Rightarrow> bool) \<Rightarrow> string \<Rightarrow> Registry \<Rightarrow> 'z world_scheme
     \<Rightarrow> (Registry \<times> 'z world_scheme) clientsInput list \<Rightarrow> (connectError + unit) \<times> clientFrame list \<times> Registry" where
  "WatchClient G p m c accepts cid r w inputs =
     (case requireClients p m c of
        Inl e \<Rightarrow> (Inl (ToConnectError e), [], r)
      | Inr _ \<Rightarrow> runWatchClient G p m c accepts cid r w inputs)"

text \<open>After a frame that says that the client has gone, its stream sends nothing more.\<close>

definition isGone :: "clientFrame \<Rightarrow> bool" where
  "isGone f = (case f of ClientGone _ \<Rightarrow> True | _ \<Rightarrow> False)"

definition noGone :: "clientFrame list \<Rightarrow> bool" where
  "noGone fs \<longleftrightarrow> list_all (\<lambda>f. \<not> isGone f) fs"

lemma noGone_simps [simp]: "noGone (fs @ [f]) \<longleftrightarrow> noGone fs \<and> \<not> isGone f" "\<not> isGone (ClientSnapshot x)" "\<not> isGone (ClientRequest x e)"
  by (simp_all add: noGone_def isGone_def)

lemma noGone_butlast: "noGone fs \<Longrightarrow> noGone (butlast fs)"
  by (auto simp: noGone_def list_all_iff dest: in_set_butlastD)

lemma sendClientFrame_cases:
  "sendClientFrame accepts frame frames = (r, frames') \<Longrightarrow> frames' = frames \<or> frames' = frames @ [frame]"
  by (auto simp: sendClientFrame_def split: if_splits)

lemma tick_noGone:
  assumes "sendTickerSnapshot G p m c accepts cid now frames = (r, frames')" "noGone frames"
  shows "noGone frames'"
proof (cases "Clients_Get G p m c (fst now) cid (snd now)")
  case (Inr y)
  then show ?thesis
    using assms
    by (auto simp: sendTickerSnapshot_def split: prod.splits sum.splits if_splits dest!: sendClientFrame_cases)
qed (use assms in \<open>simp add: sendTickerSnapshot_def\<close>)

lemma change_noGone:
  assumes "sendClientChange accepts ev frames = (r, frames')" "noGone frames"
  shows "noGone (butlast frames') \<and> (cch_Kind ev \<noteq> ClientDisconnected \<longrightarrow> noGone frames')"
  using assms noGone_butlast [of frames]
  by (auto simp: sendClientChange_def split: ClientChangeKind.splits option.splits dest!: sendClientFrame_cases intro: noGone_butlast)

lemma watchClientLoop_gone_last:
  "watchClientLoop G p m c accepts cid inputs frames = (r, frames') \<Longrightarrow> noGone frames \<Longrightarrow> noGone (butlast frames')"
proof (induction inputs arbitrary: frames)
  case (Cons i inputs)
  show ?case
  proof (cases i)
    case (ClientsTick now)
    obtain g f1 where t: "sendTickerSnapshot G p m c accepts cid now frames = (g, f1)" by fastforce
    with Cons ClientsTick tick_noGone [OF t] show ?thesis by (auto simp: noGone_butlast split: sum.splits if_splits)
  next
    case (ClientsChange ev)
    obtain g f1 where t: "sendClientChange accepts ev frames = (g, f1)" by fastforce
    with Cons ClientsChange change_noGone [OF t] show ?thesis by (auto split: sum.splits if_splits)
  qed (use Cons.prems in \<open>simp_all add: noGone_butlast\<close>)
qed (simp add: noGone_butlast)

section \<open>Filter options\<close>

definition actionsToDomain :: "PermissionAction list \<Rightarrow> Action list" where
  "actionsToDomain inp = filter (\<lambda>a. a \<noteq> []) (map ActionToDomain inp)"

definition actionsToProto :: "Action list \<Rightarrow> PermissionAction list" where
  "actionsToProto inp = map ActionToProto inp"

definition toQuery :: "string \<Rightarrow> PermissionAction list \<Rightarrow> Query" where
  "toQuery query actions = \<lparr>qry_Actions = actionsToDomain actions, qry_Search = query\<rparr>"

definition itemsToProto :: "Item list \<Rightarrow> (string \<times> string \<times> PermissionAction list) list" where
  "itemsToProto items = map (\<lambda>it. (itm_Key it, itm_Value it, actionsToProto (itm_Actions it))) items"

definition GetNamespaces ::
  "env \<Rightarrow> (string set \<Rightarrow> string list) \<Rightarrow> 'm pdp \<Rightarrow> 'm \<Rightarrow> 'c uctx_scheme \<Rightarrow> string \<Rightarrow> PermissionAction list
     \<Rightarrow> ((string \<times> string \<times> PermissionAction list) list, 'z world_scheme) api" where
  "GetNamespaces E order p m c query actions =
     withCaller c (\<lambda>actor. respond itemsToProto (Filter_Namespaces E order p m c actor (toQuery query actions)))"

definition GetGroups ::
  "env \<Rightarrow> 'm pdp \<Rightarrow> 'm \<Rightarrow> 'c uctx_scheme \<Rightarrow> string \<Rightarrow> PermissionAction list
     \<Rightarrow> ((string \<times> string \<times> PermissionAction list) list, 'z world_scheme) api" where
  "GetGroups E p m c query actions =
     withCaller c (\<lambda>actor. respond itemsToProto (readT (Filter_Groups E p m c actor (toQuery query actions))))"

definition GetUsers ::
  "env \<Rightarrow> authlib \<Rightarrow> 'm pdp \<Rightarrow> 'm \<Rightarrow> 'c uctx_scheme \<Rightarrow> string \<Rightarrow> PermissionAction list
     \<Rightarrow> ((string \<times> string \<times> PermissionAction list) list, 'z world_scheme) api" where
  "GetUsers E L p m c query actions =
     withCaller c (\<lambda>actor. respond itemsToProto (Filter_Users E L p m c actor (toQuery query actions)))"

datatype pbObjectScope = OBJECT_SCOPE_UNSPECIFIED | OBJECT_SCOPE_GLOBAL | OBJECT_SCOPE_NAMESPACE | OBJECT_SCOPE_GROUP

definition scopeToProto :: "ObjectScope \<Rightarrow> pbObjectScope" where
  "scopeToProto s =
     (case s of
        ScopeGlobal \<Rightarrow> OBJECT_SCOPE_GLOBAL
      | ScopeNamespace \<Rightarrow> OBJECT_SCOPE_NAMESPACE
      | ScopeGroup \<Rightarrow> OBJECT_SCOPE_GROUP
      | ScopeUnspecified \<Rightarrow> OBJECT_SCOPE_UNSPECIFIED)"

definition GetPermissionCatalog :: "(PermissionObject \<times> pbObjectScope \<times> PermissionAction list) list" where
  "GetPermissionCatalog =
     map (\<lambda>e. (ObjectToProto (cat_Object e), scopeToProto (cat_Scope e), actionsToProto (cat_Actions e))) buildCatalog"

section \<open>The dashboard\<close>

record pbStats =
  pst_NamespaceCount :: int
  pst_ConfigCount :: int
  pst_ActiveClientCount :: int
  pst_GlobalRevision :: int64

definition GetStats_api ::
  "env \<Rightarrow> goRange \<Rightarrow> 'm pdp \<Rightarrow> 'm \<Rightarrow> 'c uctx_scheme \<Rightarrow> Registry \<Rightarrow> (pbStats, 'z world_scheme) api" where
  "GetStats_api E G p m c r =
     respond (\<lambda>s. \<lparr>pst_NamespaceCount = wrap32 (sr_NamespaceCount s), pst_ConfigCount = wrap32 (sr_ConfigCount s),
                  pst_ActiveClientCount = wrap32 (sr_ActiveClientCount s), pst_GlobalRevision = sr_GlobalRevision s\<rparr>)
       (GetStats E G p m c r)"

record pbActivity =
  pac_Revision :: int64
  pac_Path :: string
  pac_Namespace :: string
  pac_Version :: int64
  pac_Timestamp :: time
  pac_EventType :: pbEventType

definition changelogEntryToActivityProto :: "ChangelogEntry \<Rightarrow> pbActivity" where
  "changelogEntryToActivityProto e =
     \<lparr>pac_Revision = cl_Revision e, pac_Path = cl_Path e, pac_Namespace = cl_Namespace e, pac_Version = cl_Version e,
      pac_Timestamp = cl_Timestamp e, pac_EventType = eventTypeToProto (cl_Type e)\<rparr>"

definition ListActivity_api ::
  "env \<Rightarrow> 'm pdp \<Rightarrow> 'm \<Rightarrow> 'c uctx_scheme \<Rightarrow> int \<Rightarrow> (pbActivity list, 'z world_scheme) api" where
  "ListActivity_api E p m c limit0 =
     paged (NormalizeLimit limit0) (\<lambda>limit.
       respond (map changelogEntryToActivityProto) (ListActivity E p m c limit))"

end
