(* ===== verification/Demo.thy ===== *)
theory Demo
  imports SchemaService ClientMonitor ConfigCrud
begin

text \<open>
  The demonstration data, \<^verbatim>\<open>src/internal/usecase/demo\<close>: three namespaces with their schemas and configs, written through the
  use cases when the instance has none of them yet, and simulated clients in the monitor at every start. Logging is left out.
\<close>

section \<open>The data\<close>

definition nsProduction :: string where "nsProduction = ''production''"
definition nsStaging :: string where "nsStaging = ''staging''"
definition nsDev :: string where "nsDev = ''dev''"

record demoNamespace =
  dns_name :: string
  dns_displayName :: string
  dns_description :: string

record demoSchema =
  dsc_namespace :: string
  dsc_pathPattern :: string
  dsc_jsonSchema :: string

record demoConfig =
  dcf_namespace :: string
  dcf_path :: string
  dcf_content :: string

definition demoNamespaces :: "demoNamespace list" where
  "demoNamespaces =
     [\<lparr>dns_name = nsProduction, dns_displayName = ''Production'',
       dns_description = ''Live production configuration served to customer-facing services.''\<rparr>,
      \<lparr>dns_name = nsStaging, dns_displayName = ''Staging'',
       dns_description = ''Pre-production configuration mirroring production for release validation.''\<rparr>,
      \<lparr>dns_name = nsDev, dns_displayName = ''Development'',
       dns_description = ''Local and shared development configuration; safe to experiment here.''\<rparr>]"

definition demoSchemas :: "demoSchema list" where
  \<open>demoSchemas =
     [\<lparr>dsc_namespace = nsProduction, dsc_pathPattern = ''/api/limits.json'',
       dsc_jsonSchema = ''{\<newline>  "type": "object",\<newline>  "required": ["rate_limit_rps", "burst", "enabled"],\<newline>  "additionalProperties": false,\<newline>  "properties": {\<newline>    "rate_limit_rps": {"type": "integer", "minimum": 1},\<newline>    "burst": {"type": "integer", "minimum": 0},\<newline>    "enabled": {"type": "boolean"}\<newline>  }\<newline>}''\<rparr>,
      \<lparr>dsc_namespace = nsProduction, dsc_pathPattern = ''/features/flags.json'',
       dsc_jsonSchema = ''{\<newline>  "type": "object",\<newline>  "additionalProperties": {"type": "boolean"}\<newline>}''\<rparr>]\<close>

definition demoConfigs :: "demoConfig list" where
  \<open>demoConfigs =
     [\<lparr>dcf_namespace = nsProduction, dcf_path = ''/api/limits.json'',
       dcf_content = ''{"rate_limit_rps": 1000, "burst": 200, "enabled": true}''\<rparr>,
      \<lparr>dcf_namespace = nsProduction, dcf_path = ''/api/timeouts.json'',
       dcf_content = ''{"connect_ms": 500, "read_ms": 2000, "write_ms": 2000}''\<rparr>,
      \<lparr>dcf_namespace = nsProduction, dcf_path = ''/features/flags.json'',
       dcf_content = ''{"new_dashboard": true, "beta_search": false, "dark_mode": true}''\<rparr>,
      \<lparr>dcf_namespace = nsProduction, dcf_path = ''/database/pool.yaml'',
       dcf_content = ''max_open_conns: 50\<newline>max_idle_conns: 10\<newline>conn_max_lifetime: 30m\<newline>''\<rparr>,
      \<lparr>dcf_namespace = nsStaging, dcf_path = ''/api/limits.json'',
       dcf_content = ''{"rate_limit_rps": 200, "burst": 50, "enabled": true}''\<rparr>,
      \<lparr>dcf_namespace = nsStaging, dcf_path = ''/features/flags.json'',
       dcf_content = ''{"new_dashboard": true, "beta_search": true, "dark_mode": true}''\<rparr>,
      \<lparr>dcf_namespace = nsStaging, dcf_path = ''/logging/config.yaml'',
       dcf_content = ''level: debug\<newline>format: json\<newline>sampling: false\<newline>''\<rparr>,
      \<lparr>dcf_namespace = nsDev, dcf_path = ''/api/limits.json'',
       dcf_content = ''{"rate_limit_rps": 100, "burst": 20, "enabled": false}''\<rparr>,
      \<lparr>dcf_namespace = nsDev, dcf_path = ''/features/flags.json'',
       dcf_content = ''{"new_dashboard": true, "beta_search": true, "dark_mode": false}''\<rparr>,
      \<lparr>dcf_namespace = nsDev, dcf_path = ''/debug/settings.json'',
       dcf_content = ''{"verbose": true, "pprof_enabled": true, "trace_sampling": 1.0}''\<rparr>]\<close>

definition methodRange :: string where "methodRange = ''Range''"
definition methodWatch :: string where "methodWatch = ''Watch''"

record demoClient =
  sc_info :: ConnectionInfo
  sc_watchKey :: string
  sc_watchRev :: int64
  sc_rangeCalls :: nat

definition demoClients :: "demoClient list" where
  "demoClients =
     [\<lparr>sc_info = \<lparr>ci_PeerAddress = ''10.42.1.13:52344'', ci_UserAgent = ''grpc-go/1.68.0'',
         ci_ClientName = ''checkout-service'', ci_ClientVersion = ''2.4.1'',
         ci_K8sNamespace = ''shop'', ci_K8sPod = ''checkout-service-7d9c8b6f5-x2kql'',
         ci_K8sNode = ''ip-10-42-1-13.ec2.internal'', ci_InstanceID = ''checkout-7d9c8b6f5-x2kql''\<rparr>,
       sc_watchKey = ''/production/api/limits.json'', sc_watchRev = 7, sc_rangeCalls = 12\<rparr>,
      \<lparr>sc_info = \<lparr>ci_PeerAddress = ''10.42.2.31:41022'', ci_UserAgent = ''grpc-go/1.68.0'',
         ci_ClientName = ''payment-service'', ci_ClientVersion = ''1.9.0'',
         ci_K8sNamespace = ''shop'', ci_K8sPod = ''payment-service-5f7b9c4d8-nq7rt'',
         ci_K8sNode = ''ip-10-42-2-31.ec2.internal'', ci_InstanceID = ''payment-5f7b9c4d8-nq7rt''\<rparr>,
       sc_watchKey = ''/production/api/timeouts.json'', sc_watchRev = 7, sc_rangeCalls = 8\<rparr>,
      \<lparr>sc_info = \<lparr>ci_PeerAddress = ''10.42.3.7:39880'', ci_UserAgent = ''grpc-node/1.10.0'',
         ci_ClientName = ''web-frontend'', ci_ClientVersion = ''3.1.2'',
         ci_K8sNamespace = ''web'', ci_K8sPod = ''web-frontend-6c4d7f9b8-hm5wp'',
         ci_K8sNode = ''ip-10-42-3-7.ec2.internal'', ci_InstanceID = ''web-frontend-6c4d7f9b8-hm5wp''\<rparr>,
       sc_watchKey = ''/staging/features/flags.json'', sc_watchRev = 4, sc_rangeCalls = 21\<rparr>,
      \<lparr>sc_info = \<lparr>ci_PeerAddress = ''10.42.4.19:57611'', ci_UserAgent = ''grpc-python/1.62.0'',
         ci_ClientName = ''batch-worker'', ci_ClientVersion = ''0.8.3'',
         ci_K8sNamespace = ''jobs'', ci_K8sPod = ''batch-worker-84fd6c7b9-zt4vs'',
         ci_K8sNode = ''ip-10-42-4-19.ec2.internal'', ci_InstanceID = ''batch-worker-84fd6c7b9-zt4vs''\<rparr>,
       sc_watchKey = ''/dev/features/flags.json'', sc_watchRev = 3, sc_rangeCalls = 5\<rparr>]"

section \<open>Seeding\<close>

text \<open>The state: the store with publisher and validator, the random numbers, and the registry of clients.\<close>

record demoWorld = sworld +
  dm_draws :: nat
  dm_registry :: Registry

definition onRandom :: "('a, rworld) op \<Rightarrow> ('a, demoWorld) op" where
  "onRandom f w =
     (case f \<lparr>buckets = buckets w, ticks = ticks w, draws = dm_draws w\<rparr> of
        (r, v) \<Rightarrow> (r, w\<lparr>buckets := buckets v, ticks := ticks v, dm_draws := draws v\<rparr>))"

definition alreadySeeded :: "env \<Rightarrow> 'c ctx_scheme \<Rightarrow> (bool, 'z world_scheme) op" where
  "alreadySeeded E c w =
     (case NamespaceService_Get E c nsProduction w of
        (Inr _, w1) \<Rightarrow> (Ok True, w1)
      | (Inl e, w1) \<Rightarrow> if isErrNotFound e then (Ok False, w1) else (Err e, w1))"

definition demoNamespaceOf :: "demoNamespace \<Rightarrow> Namespace" where
  "demoNamespaceOf ns =
     \<lparr>ns_Name = dns_name ns, ns_DisplayName = dns_displayName ns, ns_Description = dns_description ns, ns_ConfigCount = 0,
      ns_Locked = False, ns_CreatedAt = 0, ns_UpdatedAt = 0, ns_CanRead = False, ns_CanWrite = False\<rparr>"

fun seedNamespaces :: "env \<Rightarrow> 'c ctx_scheme \<Rightarrow> demoNamespace list \<Rightarrow> (unit, 'z world_scheme) op" where
  "seedNamespaces E c [] = returnT ()"
| "seedNamespaces E c (ns # nss) =
     bindT (NamespaceService_Create E c (demoNamespaceOf ns)) (\<lambda>_. seedNamespaces E c nss)"

fun seedSchemas :: "env \<Rightarrow> ext \<Rightarrow> uuids \<Rightarrow> 'c ctx_scheme \<Rightarrow> demoSchema list \<Rightarrow> (unit, 'z rworld_scheme) op" where
  "seedSchemas E X U c [] = returnT ()"
| "seedSchemas E X U c (s # ss) =
     bindT (SchemaService_Attach E X U c
       \<lparr>ai_Namespace = dsc_namespace s, ai_PathPattern = dsc_pathPattern s, ai_JSONSchema = dsc_jsonSchema s\<rparr>) (\<lambda>_.
     seedSchemas E X U c ss)"

definition demoConfigOf :: "demoConfig \<Rightarrow> Config" where
  "demoConfigOf d =
     \<lparr>cfg_Path = dcf_path d, cfg_Content = dcf_content d, cfg_ContentHash = [], cfg_Format = [], cfg_Version = 0,
      cfg_Revision = 0, cfg_CreateRevision = 0, cfg_Namespace = dcf_namespace d, cfg_Metadata = None, cfg_Locked = False,
      cfg_NamespaceLocked = False, cfg_CreatedAt = 0, cfg_UpdatedAt = 0\<rparr>"

fun seedConfigs :: "env \<Rightarrow> ext \<Rightarrow> 'c ctx_scheme \<Rightarrow> demoConfig list \<Rightarrow> (unit, 'z sworld_scheme) op" where
  "seedConfigs E X c [] = returnT ()"
| "seedConfigs E X c (d # ds) = bindT (Service_Create E X c (demoConfigOf d)) (\<lambda>_. seedConfigs E X c ds)"

definition millisecond :: int where "millisecond = 1000000"

text \<open>
  The simulated clients: each connects, watches its key and has made its reads. Every call of the registry reads the clock
  once, at the times \<open>now\<close> gives by their number.
\<close>

fun recordRanges :: "goRange \<Rightarrow> (nat \<Rightarrow> time) \<Rightarrow> string \<Rightarrow> demoClient \<Rightarrow> nat \<Rightarrow> nat \<times> Registry \<Rightarrow> nat \<times> Registry" where
  "recordRanges G now connID d 0 (t, r) = (t, r)"
| "recordRanges G now connID d (Suc n) (t, r) =
     recordRanges G now connID d n
       (Suc t, RecordRequest G connID methodRange (sc_watchKey d) (sc_watchRev d) (2 * millisecond) None (now t) r)"

fun seedClientsFrom :: "goRange \<Rightarrow> (nat \<Rightarrow> time) \<Rightarrow> time \<Rightarrow> int \<Rightarrow> demoClient list \<Rightarrow> nat \<times> Registry \<Rightarrow> nat \<times> Registry" where
  "seedClientsFrom G now start i [] tr = tr"
| "seedClientsFrom G now start i (d # ds) (t, r) =
     (let (connID, r1) = RegisterConnection G (sc_info d) (now t) r;
          r2 = Registry_RegisterWatch connID
                 \<lparr>aw_WatchID = i + 1, aw_StartKey = sc_watchKey d, aw_EndKey = [], aw_StartRevision = sc_watchRev d,
                  aw_CreatedAt = start, aw_PrevKv = False, aw_ProgressNotify = True\<rparr> r1;
          (t3, r3) = recordRanges G now connID d (sc_rangeCalls d) (Suc t, r2)
      in seedClientsFrom G now start (i + 1) ds
           (Suc t3, RecordRequest G connID methodWatch (sc_watchKey d) (sc_watchRev d) millisecond None (now t3) r3))"

definition seedClients :: "env \<Rightarrow> goRange \<Rightarrow> (unit, demoWorld) op" where
  "seedClients E G w =
     (case seedClientsFrom G (clock E) (clock E (ticks w)) 0 demoClients (Suc (ticks w), dm_registry w) of
        (t, r) \<Rightarrow> (Ok (), w\<lparr>ticks := t, dm_registry := r\<rparr>))"

definition Seed :: "env \<Rightarrow> ext \<Rightarrow> uuids \<Rightarrow> goRange \<Rightarrow> 'c ctx_scheme \<Rightarrow> (unit, demoWorld) op" where
  "Seed E X U G c =
     bindT (alreadySeeded E c) (\<lambda>seeded.
     bindT (if seeded then returnT ()
            else
              bindT (seedNamespaces E c demoNamespaces) (\<lambda>_.
              bindT (onRandom (seedSchemas E X U c demoSchemas)) (\<lambda>_.
              seedConfigs E X c demoConfigs))) (\<lambda>_.
     seedClients E G))"

section \<open>What the data promise\<close>

lemma demo_names_valid:
  "list_all (\<lambda>ns. is_ok (Namespace_Validate (demoNamespaceOf ns))) demoNamespaces"
  "list_all (\<lambda>d. is_ok (ValidatePath (dcf_path d))) demoConfigs"
  by code_simp+

text \<open>Every schema and every config lies in a seeded namespace, and every simulated client watches the etcd key of a seeded config.\<close>

lemma demo_data_closed:
  "list_all (\<lambda>s. List.member (map dns_name demoNamespaces) (dsc_namespace s)) demoSchemas"
  "list_all (\<lambda>d. List.member (map dns_name demoNamespaces) (dcf_namespace d)) demoConfigs"
  "list_all (\<lambda>k. List.member (map (\<lambda>d. JoinKey (dcf_namespace d) (dcf_path d)) demoConfigs) (sc_watchKey k)) demoClients"
  by code_simp+

lemma NamespaceService_Get_buckets:
  assumes "NamespaceService_Get E c name w = (r, w')"
  shows "buckets w' = buckets w"
  using assms
  by (auto simp: NamespaceService_Get_def populateConfigCount_def bindT_def mapErrT_def readT_def returnT_def WithTx_def runTx_def
      CountByNamespace_def split: prod.splits sum.splits if_splits option.splits)

text \<open>
  Seeding looks at nothing but the namespace \<^verbatim>\<open>production\<close>: where it exists, the seed succeeds, leaves the store and the publisher as
  they are and only adds the simulated clients. So a second seed changes no data, and a first seed that failed after its namespaces
  is never completed by a later one.
\<close>

theorem Seed_keeps_store:
  assumes "NamespaceService_Get E c nsProduction w = (Inr ns, w1)"
  shows "\<exists>w'. Seed E X U G c w = (Ok (), w') \<and> buckets w' = buckets w \<and> hub w' = hub w1 \<and>
    (\<exists>t. (t, dm_registry w') = seedClientsFrom G (clock E) (clock E (ticks w1)) 0 demoClients (Suc (ticks w1), dm_registry w1))"
proof -
  have "buckets w1 = buckets w" by (rule NamespaceService_Get_buckets [OF assms])
  then show ?thesis
    by (auto simp: Seed_def alreadySeeded_def assms bindT_def returnT_def seedClients_def split: prod.splits)
qed

end
