(* ===== verification/Dispatcher.thy ===== *)
theory Dispatcher
  imports Webhooks Samples
begin

text \<open>
  The goroutines of the webhook dispatcher \<^verbatim>\<open>src/internal/transport/webhook/dispatcher.go\<close>: \<^verbatim>\<open>Run\<close> with its select loop,
  a goroutine per event that lists the webhooks and fans the event out, a goroutine per delivery behind the
  semaphore, and \<^verbatim>\<open>Shutdown\<close>. A state holds the channels, the contexts, the counters and where each goroutine
  stands; a step is one atomic action of one of them or of the surroundings (publisher, store, signals). \<open>Webhooks\<close> has
  the same code as the sequence of one event; here every interleaving is a run.
\<close>

section \<open>State\<close>

definition maxConcurrentDeliveries :: nat where "maxConcurrentDeliveries = 100"

text \<open>
  Where a goroutine stands: before the list of webhooks; in the loop over them; at the start of a delivery; before an attempt,
  with the delays left and the number of the attempt; before the semaphore is given back; before the wait group is told.
\<close>

datatype (discs_sels) goroutine =
    Dispatching WatchEvent
  | FanningOut WatchEvent "Webhook list"
  | Starting Webhook WatchEvent
  | Delivering Webhook WatchEvent bytes "int list" int
  | Releasing
  | Finishing

datatype runLoop = NotRun | Looping | LoopReturned

datatype shutdownCall = NotCalled | Draining | ShutdownReturned "err + unit"

record dispatcher = dworld +
  dp_loop :: runLoop
  dp_events :: "WatchEvent list"
  dp_open :: bool
  dp_done :: bool
  dp_stopCh :: bool
  dp_deliverySem :: nat
  dp_inflight :: nat
  dp_tasks :: "goroutine list"
  dp_shutdown :: shutdownCall

definition NewDispatcher :: "dworld \<Rightarrow> dispatcher" where
  "NewDispatcher w =
     dworld.extend (w\<lparr>history := Map.empty\<rparr>)
       \<lparr>dp_loop = NotRun, dp_events = [], dp_open = False, dp_done = False, dp_stopCh = False, dp_deliverySem = 0,
        dp_inflight = 0, dp_tasks = [], dp_shutdown = NotCalled\<rparr>"

definition inflight_Add :: "dispatcher \<Rightarrow> dispatcher" where
  "inflight_Add d = d\<lparr>dp_inflight := Suc (dp_inflight d)\<rparr>"

definition inflight_Done :: "dispatcher \<Rightarrow> dispatcher" where
  "inflight_Done d = d\<lparr>dp_inflight := dp_inflight d - 1\<rparr>"

section \<open>Steps\<close>

text \<open>
  One step of a goroutine: the state and what becomes of it, no goroutine when it ends, and the one it starts. The
  marshaller of payloads is the parameter \<open>J\<close>; the outcome of a request is any.
\<close>

definition buildPayloadBody :: "(webhookPayload \<Rightarrow> bytes option) \<Rightarrow> WatchEvent \<Rightarrow> bytes option" where
  "buildPayloadBody J ev = (case buildPayload ev of None \<Rightarrow> None | Some payload \<Rightarrow> J payload)"

inductive goStep ::
  "env \<Rightarrow> (webhookPayload \<Rightarrow> bytes option) \<Rightarrow> goroutine \<Rightarrow> dispatcher \<Rightarrow> goroutine list \<Rightarrow> dispatcher \<Rightarrow> bool"
  for E :: env and J :: "webhookPayload \<Rightarrow> bytes option" where
  listed: "Webhook_List E AutoQuerier d = Inr whs \<Longrightarrow>
     goStep E J (Dispatching ev) d [FanningOut ev (filter (\<lambda>wh. Webhook_MatchesEvent wh ev) whs)] d"
| listFailed: "Webhook_List E AutoQuerier d = Inl e \<Longrightarrow> goStep E J (Dispatching ev) d [] (inflight_Done d)"
| acquire: "dp_deliverySem d < maxConcurrentDeliveries \<Longrightarrow>
     goStep E J (FanningOut ev (wh # whs)) d [FanningOut ev whs, Starting wh ev]
       (inflight_Add (d\<lparr>dp_deliverySem := Suc (dp_deliverySem d)\<rparr>))"
| fanCancelled: "dp_done d \<Longrightarrow> goStep E J (FanningOut ev (wh # whs)) d [] (inflight_Done d)"
| fannedOut: "goStep E J (FanningOut ev []) d [] (inflight_Done d)"
| body: "buildPayloadBody J ev = Some body \<Longrightarrow>
     goStep E J (Starting wh ev) d [Delivering wh ev body retryDelays 1] d"
| noBody: "buildPayloadBody J ev = None \<Longrightarrow> goStep E J (Starting wh ev) d [Releasing] d"
| attempt: "da = sendRequest L wh body n (clock E (ticks d)) \<Longrightarrow>
     goStep E J (Delivering wh ev body (delay # delays) n) d
       [if da_Success da then Releasing else Delivering wh ev body delays (n + 1)]
       (pushAttempt (wh_ID wh) da (d\<lparr>ticks := Suc (ticks d)\<rparr>))"
| waitCancelled: "delay > 0 \<Longrightarrow> dp_done d \<Longrightarrow> goStep E J (Delivering wh ev body (delay # delays) n) d [Releasing] d"
| gaveUp: "goStep E J (Delivering wh ev body [] n) d [Releasing] d"
| release: "goStep E J Releasing d [Finishing] (d\<lparr>dp_deliverySem := dp_deliverySem d - 1\<rparr>)"
| finish: "goStep E J Finishing d [] (inflight_Done d)"

inductive_simps goStep_simps:
  "goStep E J (Dispatching ev) d ts d'"
  "goStep E J (FanningOut ev whs) d ts d'"
  "goStep E J (Starting wh ev) d ts d'"
  "goStep E J (Delivering wh ev body delays n) d ts d'"
  "goStep E J Releasing d ts d'"
  "goStep E J Finishing d ts d'"

definition tasksStep :: "env \<Rightarrow> (webhookPayload \<Rightarrow> bytes option) \<Rightarrow> dispatcher \<Rightarrow> dispatcher \<Rightarrow> bool" where
  "tasksStep E J d d' \<longleftrightarrow>
     (\<exists>pre t post ts e. dp_tasks d = pre @ t # post \<and> goStep E J t d ts e \<and> d' = e\<lparr>dp_tasks := pre @ ts @ post\<rparr>)"

text \<open>
  \<^verbatim>\<open>Run\<close>: it subscribes, receives events while its context lives, and returns on a closed channel or a cancelled context, with
  the subscription released and the context cancelled; the goroutine beside it turns \<^verbatim>\<open>stopCh\<close> into the cancellation.
\<close>

inductive runStep :: "dispatcher \<Rightarrow> dispatcher \<Rightarrow> bool" where
  start: "dp_loop d = NotRun \<Longrightarrow> runStep d (d\<lparr>dp_loop := Looping, dp_open := True\<rparr>)"
| receive: "dp_loop d = Looping \<Longrightarrow> dp_events d = ev # evs \<Longrightarrow>
     runStep d (inflight_Add (d\<lparr>dp_events := evs, dp_tasks := dp_tasks d @ [Dispatching ev]\<rparr>))"
| closed: "dp_loop d = Looping \<Longrightarrow> dp_events d = [] \<Longrightarrow> \<not> dp_open d \<Longrightarrow>
     runStep d (d\<lparr>dp_loop := LoopReturned, dp_done := True\<rparr>)"
| cancelled: "dp_loop d = Looping \<Longrightarrow> dp_done d \<Longrightarrow> runStep d (d\<lparr>dp_loop := LoopReturned, dp_open := False\<rparr>)"
| stopSeen: "dp_loop d = Looping \<Longrightarrow> dp_stopCh d \<Longrightarrow> runStep d (d\<lparr>dp_done := True\<rparr>)"

text \<open>\<^verbatim>\<open>Shutdown\<close>: it closes \<^verbatim>\<open>stopCh\<close> once, and returns when the wait group is at zero or its own context ends.\<close>

inductive shutdownStep :: "dispatcher \<Rightarrow> dispatcher \<Rightarrow> bool" where
  call: "shutdownStep d (d\<lparr>dp_stopCh := True, dp_shutdown := Draining\<rparr>)"
| drained: "dp_shutdown d = Draining \<Longrightarrow> dp_inflight d = 0 \<Longrightarrow> shutdownStep d (d\<lparr>dp_shutdown := ShutdownReturned (Ok ())\<rparr>)"
| timeout: "dp_shutdown d = Draining \<Longrightarrow>
     shutdownStep d (d\<lparr>dp_shutdown := ShutdownReturned (Err (ErrExternal ''webhook dispatcher shutdown''))\<rparr>)"

text \<open>The surroundings: the publisher sends into the channel unless it is full, or closes it; a signal; writes of the store.\<close>

inductive outsideStep :: "dispatcher \<Rightarrow> dispatcher \<Rightarrow> bool" where
  notify: "dp_open d \<Longrightarrow> outsideStep d (if length (dp_events d) < defaultBufferSize then d\<lparr>dp_events := dp_events d @ [ev]\<rparr> else d)"
| closing: "outsideStep d (d\<lparr>dp_open := False\<rparr>)"
| signal: "outsideStep d (d\<lparr>dp_done := True\<rparr>)"
| store: "outsideStep d (d\<lparr>buckets := b, ticks := t, draws := n\<rparr>)"
| forget: "outsideStep d (ClearHistory wid d)"

definition dispatcherStep :: "env \<Rightarrow> (webhookPayload \<Rightarrow> bytes option) \<Rightarrow> dispatcher \<Rightarrow> dispatcher \<Rightarrow> bool" where
  "dispatcherStep E J d d' \<longleftrightarrow> tasksStep E J d d' \<or> runStep d d' \<or> shutdownStep d d' \<or> outsideStep d d'"

abbreviation dispatcherRun :: "env \<Rightarrow> (webhookPayload \<Rightarrow> bytes option) \<Rightarrow> dispatcher \<Rightarrow> dispatcher \<Rightarrow> bool" where
  "dispatcherRun E J \<equiv> (dispatcherStep E J)\<^sup>*\<^sup>*"

lemma dispatcherStepI:
  "tasksStep E J d d' \<Longrightarrow> dispatcherStep E J d d'" "runStep d d' \<Longrightarrow> dispatcherStep E J d d'"
  "shutdownStep d d' \<Longrightarrow> dispatcherStep E J d d'" "outsideStep d d' \<Longrightarrow> dispatcherStep E J d d'"
  by (simp_all add: dispatcherStep_def)

lemma dispatcherRunI:
  "tasksStep E J d d' \<Longrightarrow> dispatcherRun E J d' d'' \<Longrightarrow> dispatcherRun E J d d''"
  "runStep d d' \<Longrightarrow> dispatcherRun E J d' d'' \<Longrightarrow> dispatcherRun E J d d''"
  "shutdownStep d d' \<Longrightarrow> dispatcherRun E J d' d'' \<Longrightarrow> dispatcherRun E J d d''"
  "outsideStep d d' \<Longrightarrow> dispatcherRun E J d' d'' \<Longrightarrow> dispatcherRun E J d d''"
  by (meson dispatcherStepI converse_rtranclp_into_rtranclp)+

section \<open>The invariant\<close>

fun holdsSlot :: "goroutine \<Rightarrow> bool" where
  "holdsSlot (Starting wh ev) = True"
| "holdsSlot (Delivering wh ev body delays n) = True"
| "holdsSlot Releasing = True"
| "holdsSlot _ = False"

text \<open>A goroutine works for webhooks that match its event, and its attempt and the delays left belong together.\<close>

fun goOk :: "(webhookPayload \<Rightarrow> bytes option) \<Rightarrow> goroutine \<Rightarrow> bool" where
  "goOk J (FanningOut ev whs) = (\<forall>wh \<in> set whs. Webhook_MatchesEvent wh ev)"
| "goOk J (Starting wh ev) = Webhook_MatchesEvent wh ev"
| "goOk J (Delivering wh ev body delays n) =
     (Webhook_MatchesEvent wh ev \<and> buildPayloadBody J ev = Some body \<and> 1 \<le> n \<and> n + int (length delays) = 5)"
| "goOk J _ = True"

definition dispatcher_inv :: "(webhookPayload \<Rightarrow> bytes option) \<Rightarrow> dispatcher \<Rightarrow> bool" where
  "dispatcher_inv J d \<longleftrightarrow>
     hist_inv d \<and> dp_inflight d = length (dp_tasks d) \<and> dp_deliverySem d = length (filter holdsSlot (dp_tasks d)) \<and>
     dp_deliverySem d \<le> maxConcurrentDeliveries \<and> list_all (goOk J) (dp_tasks d) \<and>
     (dp_loop d = LoopReturned \<longrightarrow> dp_done d \<and> \<not> dp_open d) \<and> length (dp_events d) \<le> defaultBufferSize"

lemma hist_inv_same: "history w = history w' \<Longrightarrow> hist_inv w = hist_inv w'"
  by (simp add: hist_inv_def)

lemma hist_inv_updates [simp]:
  "hist_inv (d\<lparr>dp_tasks := ts\<rparr>) = hist_inv d" "hist_inv (d\<lparr>dp_inflight := n\<rparr>) = hist_inv d"
  "hist_inv (d\<lparr>dp_deliverySem := n\<rparr>) = hist_inv d" "hist_inv (d\<lparr>dp_events := evs\<rparr>) = hist_inv d"
  "hist_inv (d\<lparr>dp_loop := l\<rparr>) = hist_inv d" "hist_inv (d\<lparr>dp_open := b\<rparr>) = hist_inv d" "hist_inv (d\<lparr>dp_done := b\<rparr>) = hist_inv d"
  "hist_inv (d\<lparr>dp_stopCh := b\<rparr>) = hist_inv d" "hist_inv (d\<lparr>dp_shutdown := sd\<rparr>) = hist_inv d"
  "hist_inv (d\<lparr>ticks := n\<rparr>) = hist_inv d" "hist_inv (d\<lparr>buckets := bs\<rparr>) = hist_inv d" "hist_inv (d\<lparr>draws := n\<rparr>) = hist_inv d"
  by (rule hist_inv_same, simp)+

lemma hist_inv_ClearHistory: "hist_inv w \<Longrightarrow> hist_inv (ClearHistory wid w)"
  by (simp add: hist_inv_def ClearHistory_def)

text \<open>What a step of a goroutine leaves alone.\<close>

lemma goStep_frame:
  assumes "goStep E J t d ts d'"
  shows "dp_tasks d' = dp_tasks d" "dp_loop d' = dp_loop d" "dp_done d' = dp_done d" "dp_open d' = dp_open d"
    "dp_events d' = dp_events d" "dp_shutdown d' = dp_shutdown d" "dp_stopCh d' = dp_stopCh d" "buckets d' = buckets d"
  using assms by (induction rule: goStep.induct) (simp_all add: inflight_Done_def inflight_Add_def pushAttempt_def)

lemma goStep_history: "goStep E J t d ts d' \<Longrightarrow> hist_inv d \<Longrightarrow> hist_inv d'"
  by (induction rule: goStep.induct) (simp_all add: inflight_Done_def inflight_Add_def pushAttempt_history)

text \<open>A step keeps the books: the counters move with the goroutines.\<close>

lemma goStep_counts:
  assumes "goStep E J t d ts d'" "dp_inflight d = Suc n" "dp_deliverySem d = (if holdsSlot t then Suc k else k)"
    "dp_deliverySem d \<le> maxConcurrentDeliveries" "goOk J t"
  shows "dp_inflight d' = n + length ts" "dp_deliverySem d' = length (filter holdsSlot ts) + k"
    "dp_deliverySem d' \<le> maxConcurrentDeliveries" "list_all (goOk J) ts"
  using assms
  by (induction rule: goStep.induct) (auto simp: inflight_Done_def inflight_Add_def pushAttempt_def retryDelays_def)

lemma tasksStep_inv:
  assumes "tasksStep E J d d'" "dispatcher_inv J d"
  shows "dispatcher_inv J d'"
proof -
  from assms(1) obtain pre t post ts e where t: "dp_tasks d = pre @ t # post" "goStep E J t d ts e"
    "d' = e\<lparr>dp_tasks := pre @ ts @ post\<rparr>" by (auto simp: tasksStep_def)
  let ?n = "length pre + length post" and ?k = "length (filter holdsSlot pre) + length (filter holdsSlot post)"
  have "dp_inflight d = Suc ?n" "dp_deliverySem d = (if holdsSlot t then Suc ?k else ?k)" "goOk J t"
    "dp_deliverySem d \<le> maxConcurrentDeliveries" using assms(2) t(1) by (simp_all add: dispatcher_inv_def)
  note c = goStep_counts [OF t(2) this(1,2,4,3)]
  show ?thesis
    using assms(2) t c goStep_frame [OF t(2)] goStep_history [OF t(2)] by (simp add: dispatcher_inv_def)
qed

lemma runStep_inv: "runStep d d' \<Longrightarrow> dispatcher_inv J d \<Longrightarrow> dispatcher_inv J d'"
  by (induction rule: runStep.induct) (auto simp: dispatcher_inv_def inflight_Add_def)

lemma shutdownStep_inv: "shutdownStep d d' \<Longrightarrow> dispatcher_inv J d \<Longrightarrow> dispatcher_inv J d'"
  by (induction rule: shutdownStep.induct) (auto simp: dispatcher_inv_def)

lemma outsideStep_inv: "outsideStep d d' \<Longrightarrow> dispatcher_inv J d \<Longrightarrow> dispatcher_inv J d'"
  by (induction rule: outsideStep.induct) (auto simp: dispatcher_inv_def hist_inv_ClearHistory, auto simp: ClearHistory_def)

lemma dispatcherStep_inv: "dispatcherStep E J d d' \<Longrightarrow> dispatcher_inv J d \<Longrightarrow> dispatcher_inv J d'"
  unfolding dispatcherStep_def by (blast intro: tasksStep_inv runStep_inv shutdownStep_inv outsideStep_inv)

lemma dispatcherRun_inv: "dispatcherRun E J d d' \<Longrightarrow> dispatcher_inv J d \<Longrightarrow> dispatcher_inv J d'"
  by (induction rule: rtranclp_induct) (blast intro: dispatcherStep_inv)+

lemma dispatcher_inv_New: "dispatcher_inv J (NewDispatcher w)"
  by (simp add: dispatcher_inv_def NewDispatcher_def dworld.defs hist_inv_def)

section \<open>Quiescence\<close>

text \<open>Once \<^verbatim>\<open>Run\<close> has returned and no goroutine is left, nothing of the dispatcher moves any more.\<close>

definition quiet :: "dispatcher \<Rightarrow> bool" where
  "quiet d \<longleftrightarrow> dp_loop d = LoopReturned \<and> dp_tasks d = []"

lemma shutdownStep_quiet: "shutdownStep d d' \<Longrightarrow> quiet d \<Longrightarrow> quiet d' \<and> history d' = history d"
  by (induction rule: shutdownStep.induct) (simp_all add: quiet_def)

lemma outsideStep_quiet: "outsideStep d d' \<Longrightarrow> quiet d \<Longrightarrow> quiet d' \<and> history d' \<subseteq>\<^sub>m history d"
  by (induction rule: outsideStep.induct) (simp_all add: quiet_def ClearHistory_def map_le_def)

lemma quiet_step:
  assumes "dispatcherStep E J d d'" "quiet d"
  shows "quiet d' \<and> history d' \<subseteq>\<^sub>m history d"
proof -
  have "\<not> tasksStep E J d d'" using assms(2) by (simp add: tasksStep_def quiet_def)
  moreover have "\<not> runStep d d'" using assms(2) by (auto simp: quiet_def elim: runStep.cases)
  ultimately consider "shutdownStep d d'" | "outsideStep d d'" using assms(1) by (auto simp: dispatcherStep_def)
  then show ?thesis using shutdownStep_quiet outsideStep_quiet assms(2) by cases (force, blast)
qed

lemma quiet_run: "dispatcherRun E J d d' \<Longrightarrow> quiet d \<Longrightarrow> quiet d' \<and> history d' \<subseteq>\<^sub>m history d"
  by (induction rule: rtranclp_induct) (simp, blast dest: quiet_step intro: map_le_trans)

section \<open>Draining\<close>

text \<open>
  How many steps a goroutine that no longer waits for the list of webhooks can still make, with those it starts: a delivery
  makes at most four attempts.
\<close>

fun stepsLeft :: "goroutine \<Rightarrow> nat" where
  "stepsLeft (Dispatching ev) = 0"
| "stepsLeft (FanningOut ev whs) = 1 + 9 * length whs"
| "stepsLeft (Starting wh ev) = 8"
| "stepsLeft (Delivering wh ev body delays n) = 3 + length delays"
| "stepsLeft Releasing = 2"
| "stepsLeft Finishing = 1"

definition unlisted :: "dispatcher \<Rightarrow> nat" where
  "unlisted d = length (filter is_Dispatching (dp_tasks d))"

definition workLeft :: "dispatcher \<Rightarrow> nat" where
  "workLeft d = sum_list (map stepsLeft (dp_tasks d))"

lemma goStep_progress:
  assumes "goStep E J t d ts d'"
  shows "if is_Dispatching t then filter is_Dispatching ts = []
    else filter is_Dispatching ts = [] \<and> sum_list (map stepsLeft ts) < stepsLeft t"
  using assms by (induction rule: goStep.induct) (simp_all add: retryDelays_def)

lemma tasksStep_wf: "wf {(d', d). tasksStep E J d d'}"
proof (rule wf_subset [OF wf_measures [of "[unlisted, workLeft]"]], clarify)
  fix d' d assume "tasksStep E J d d'"
  then obtain pre t post ts e where t: "dp_tasks d = pre @ t # post" "goStep E J t d ts e"
    "d' = e\<lparr>dp_tasks := pre @ ts @ post\<rparr>" by (auto simp: tasksStep_def)
  then show "(d', d) \<in> measures [unlisted, workLeft]"
    using goStep_progress [OF t(2)] by (auto simp: unlisted_def workLeft_def split: if_splits)
qed

text \<open>No goroutine is stuck once the context is cancelled, however full the semaphore is.\<close>

lemma goStep_enabled: "dp_done d \<Longrightarrow> \<exists>ts d'. goStep E J t d ts d'"
proof (cases t)
  case (Dispatching ev)
  then show ?thesis by (cases "Webhook_List E AutoQuerier d") (auto simp: goStep_simps)
next
  case (FanningOut ev whs)
  then show "dp_done d \<Longrightarrow> ?thesis" by (cases whs) (auto simp: goStep_simps)
next
  case (Starting wh ev)
  then show ?thesis by (cases "buildPayloadBody J ev") (auto simp: goStep_simps)
next
  case (Delivering wh ev body delays n)
  then show ?thesis by (cases delays) (blast intro: goStep.intros)+
qed (auto simp: goStep_simps)

lemma tasksStep_enabled: "dp_done d \<Longrightarrow> dp_tasks d \<noteq> [] \<Longrightarrow> \<exists>d'. tasksStep E J d d'"
  unfolding tasksStep_def by (metis append_Nil goStep_enabled list.exhaust)

lemma tasksStep_frame: "tasksStep E J d d' \<Longrightarrow> dp_loop d' = dp_loop d \<and> dp_done d' = dp_done d \<and> dp_shutdown d' = dp_shutdown d"
  by (auto simp: tasksStep_def goStep_frame)

lemma tasksRun_done: "(tasksStep E J)\<^sup>*\<^sup>* d d' \<Longrightarrow> dp_done d' = dp_done d"
  by (induction rule: rtranclp_induct) (simp_all add: tasksStep_frame)

lemma tasks_drain:
  assumes "dp_done d"
  shows "\<exists>d'. (tasksStep E J)\<^sup>*\<^sup>* d d' \<and> dp_tasks d' = [] \<and> dp_loop d' = dp_loop d \<and> dp_shutdown d' = dp_shutdown d"
  using tasksStep_wf [of E J] assms
proof (induction d rule: wf_induct_rule)
  case (less d)
  show ?case
  proof (cases "dp_tasks d = []")
    case False
    with less.prems tasksStep_enabled obtain d1 where d1: "tasksStep E J d d1" by blast
    with less tasksStep_frame [OF d1] show ?thesis by (metis (mono_tags, lifting) case_prodI converse_rtranclp_into_rtranclp mem_Collect_eq)
  qed blast
qed

lemma dispatcherRun_tasks: "(tasksStep E J)\<^sup>*\<^sup>* d d' \<Longrightarrow> dispatcherRun E J d d'"
  by (rule rtranclp_mono [THEN predicate2D]) (auto simp: dispatcherStep_def)


section \<open>One delivery\<close>

text \<open>An event in the channel of an idle dispatcher comes to the first attempt to deliver it.\<close>

lemma tasksStepI: "dp_tasks d = pre @ t # post \<Longrightarrow> goStep E J t d ts e \<Longrightarrow> tasksStep E J d (e\<lparr>dp_tasks := pre @ ts @ post\<rparr>)"
  unfolding tasksStep_def by blast

lemma Webhook_List_same: "buckets w = buckets w' \<Longrightarrow> Webhook_List E q w = Webhook_List E q w'"
  by (auto simp: Webhook_List_def bucket_ForEach_def)

lemma delivery_run:
  assumes "dp_loop d = Looping" "dp_events d = ev # evs" "dp_tasks d = []" "dp_deliverySem d < maxConcurrentDeliveries"
    and "Webhook_List E AutoQuerier d = Inr whs" "filter (\<lambda>wh. Webhook_MatchesEvent wh ev) whs = wh # rest"
    and "buildPayloadBody J ev = Some body"
  obtains d' where "dispatcherRun E J d d'" "dp_tasks d' = [FanningOut ev rest, Delivering wh ev body retryDelays 1]"
    "history d' = history d" "dp_shutdown d' = dp_shutdown d"
proof -
  let ?r = "inflight_Add (d\<lparr>dp_events := evs, dp_tasks := dp_tasks d @ [Dispatching ev]\<rparr>)"
  let ?l = "?r\<lparr>dp_tasks := [FanningOut ev (wh # rest)]\<rparr>"
  let ?a = "(inflight_Add (?l\<lparr>dp_deliverySem := Suc (dp_deliverySem ?l)\<rparr>))\<lparr>dp_tasks := [FanningOut ev rest, Starting wh ev]\<rparr>"
  let ?b = "?a\<lparr>dp_tasks := [FanningOut ev rest, Delivering wh ev body retryDelays 1]\<rparr>"
  have listing: "Webhook_List E AutoQuerier ?r = Inr whs"
    using assms(5) Webhook_List_same [of ?r d] by (simp add: inflight_Add_def)
  have r: "runStep d ?r" by (rule receive [OF assms(1,2)])
  have l: "tasksStep E J ?r ?l"
    using tasksStepI [of ?r "[]" "Dispatching ev" "[]", OF _ listed [OF listing]] assms(3,6) by (simp add: inflight_Add_def)
  have a: "tasksStep E J ?l ?a"
    using tasksStepI [of ?l "[]" "FanningOut ev (wh # rest)" "[]", OF _ acquire] assms(4) by (simp add: inflight_Add_def)
  have b: "tasksStep E J ?a ?b"
    using tasksStepI [of ?a "[FanningOut ev rest]" "Starting wh ev" "[]", OF _ Dispatcher.body [OF assms(7)]] by simp
  have "dispatcherRun E J d ?b"
    using r l a b by (blast intro: dispatcherRunI)
  then show thesis by (rule that) (simp_all add: inflight_Add_def)
qed

text \<open>A client that answers every request with success.\<close>

definition answering :: delivery where
  "answering = \<lparr>dl_body = (\<lambda>_. None), dl_hmac = (\<lambda>_ _. []), dl_exchange = (\<lambda>_ _ _ _. Inr 200), dl_latency = (\<lambda>_. 0),
     dl_stopped = (\<lambda>_. False)\<rparr>"

text \<open>
  A shutdown can return too early: when \<^verbatim>\<open>Run\<close> has an event waiting and no goroutine is at work, the shutdown returns
  without an error although \<^verbatim>\<open>Run\<close> may still take the event, and the delivery is made and recorded afterwards.
\<close>

theorem shutdown_returns_early:
  assumes "dp_loop d = Looping" "dp_events d = ev # evs" "dp_tasks d = []" "dp_inflight d = 0"
    and "dp_deliverySem d < maxConcurrentDeliveries" "hist_inv d"
    and "Webhook_List E AutoQuerier d = Inr whs" "filter (\<lambda>wh. Webhook_MatchesEvent wh ev) whs = wh # rest"
    and "buildPayloadBody J ev = Some body"
  shows "\<exists>d1 d2 da. dispatcherRun E J d d1 \<and> dp_shutdown d1 = ShutdownReturned (Ok ()) \<and> dispatcherRun E J d1 d2
    \<and> da_Success da \<and> GetDeliveryHistory (wh_ID wh) d2 = newest 50 (GetDeliveryHistory (wh_ID wh) d1 @ [da])"
proof -
  let ?c = "d\<lparr>dp_stopCh := True, dp_shutdown := Draining\<rparr>"
  let ?d1 = "?c\<lparr>dp_shutdown := ShutdownReturned (Ok ())\<rparr>"
  have "shutdownStep d ?c" by (rule call)
  moreover have "shutdownStep ?c ?d1" by (rule drained) (simp_all add: assms(4))
  ultimately have run1: "dispatcherRun E J d ?d1" by (blast intro: dispatcherRunI)
  obtain d2 where d2: "dispatcherRun E J ?d1 d2" "dp_tasks d2 = [FanningOut ev rest, Delivering wh ev body retryDelays 1]"
    "history d2 = history ?d1"
    by (rule delivery_run [of ?d1 ev evs E whs wh rest J body]) (use assms Webhook_List_same [of ?d1 d] in simp_all)
  let ?da = "sendRequest answering wh body 1 (clock E (ticks d2))"
  let ?d3 = "(pushAttempt (wh_ID wh) ?da (d2\<lparr>ticks := Suc (ticks d2)\<rparr>))\<lparr>dp_tasks := [FanningOut ev rest, Releasing]\<rparr>"
  have ok: "da_Success ?da" by (simp add: sendRequest_def answering_def successStatusMin_def successStatusMax_def)
  have "goStep E J (Delivering wh ev body retryDelays 1) d2 [Releasing] (pushAttempt (wh_ID wh) ?da (d2\<lparr>ticks := Suc (ticks d2)\<rparr>))"
    using attempt [OF refl, of E J wh ev body 0 "tl retryDelays" 1 d2 answering] ok by (simp add: retryDelays_def)
  from tasksStepI [of d2 "[FanningOut ev rest]" _ "[]", OF _ this] d2(2) have "tasksStep E J d2 ?d3" by simp
  with d2(1) have run3: "dispatcherRun E J ?d1 ?d3" by (blast intro: rtranclp_trans dispatcherRunI)
  have h: "hist_inv (d2\<lparr>ticks := Suc (ticks d2)\<rparr>)" using assms(6) d2(3) hist_inv_same [of d2 d] by simp
  have "GetDeliveryHistory (wh_ID wh) (d2\<lparr>ticks := Suc (ticks d2)\<rparr>) = GetDeliveryHistory (wh_ID wh) ?d1"
    using d2(3) by (simp add: GetDeliveryHistory_def)
  with pushAttempt_history(2) [OF h, of "wh_ID wh" "wh_ID wh" ?da]
  have "GetDeliveryHistory (wh_ID wh) ?d3 = newest 50 (GetDeliveryHistory (wh_ID wh) ?d1 @ [?da])"
    by (simp add: GetDeliveryHistory_def)
  with run1 run3 ok show ?thesis by force
qed

section \<open>Samples\<close>

definition sampleHook :: Webhook where
  "sampleHook = \<lparr>wh_ID = ''w1'', wh_URL = ''https://x'', wh_NamespaceFilter = [], wh_PathPrefix = [],
     wh_Events = [WebhookEventCreated], wh_Secret = [], wh_Enabled = True, wh_CreatedAt = 0, wh_UpdatedAt = 0\<rparr>"

definition sampleEvent :: WatchEvent where
  "sampleEvent = \<lparr>we_Type = EventTypeCreated, we_Path = ''/a.json'', we_Namespace = ''prod'', we_Revision = 1,
     we_Config = None, we_Timestamp = 0\<rparr>"

definition hookWorld :: dworld where
  "hookWorld = \<lparr>buckets = [bucketWebhooks \<mapsto> [(''w1'', JWebhook (DomainToWebhookMeta sampleHook))]], ticks = 0, draws = 0,
     history = Map.empty\<rparr>"

abbreviation sampleBody :: "webhookPayload \<Rightarrow> bytes option" where
  "sampleBody \<equiv> \<lambda>_. Some ''body''"

lemma sample_match: "Webhook_MatchesEvent sampleHook sampleEvent" "buildPayloadBody sampleBody sampleEvent = Some ''body''"
  by (simp_all add: Webhook_MatchesEvent_def sampleHook_def sampleEvent_def webhookEventFromWatchEvent_def
      buildPayloadBody_def buildPayload_def)

definition loopingSample :: dispatcher where
  "loopingSample = (NewDispatcher hookWorld)\<lparr>dp_loop := Looping, dp_open := True, dp_events := [sampleEvent]\<rparr>"

lemma sample_looping: "dispatcherRun E J (NewDispatcher hookWorld) loopingSample"
proof -
  let ?d = "NewDispatcher hookWorld"
  have "runStep ?d (?d\<lparr>dp_loop := Looping, dp_open := True\<rparr>)"
    by (rule start) (simp add: NewDispatcher_def dworld.defs)
  moreover have "outsideStep (?d\<lparr>dp_loop := Looping, dp_open := True\<rparr>) loopingSample"
    using notify [of "?d\<lparr>dp_loop := Looping, dp_open := True\<rparr>" sampleEvent]
    by (simp add: loopingSample_def NewDispatcher_def dworld.defs defaultBufferSize_def)
  ultimately show ?thesis by (blast intro: dispatcherRunI)
qed

lemma sample_listing:
  "Webhook_List sampleEnv AutoQuerier loopingSample = Inr [sampleHook]"
  by (simp add: Webhook_List_def bucket_ForEach_def loopingSample_def NewDispatcher_def dworld.defs hookWorld_def sampleEnv_def
      webhookCodec_def WebhookMetaToDomain_def DomainToWebhookMeta_def sampleHook_def)

section \<open>Properties\<close>

text \<open>
  C6. The dispatcher keeps its books in every interleaving of its goroutines with events, writes, signals and shutdowns: at
  most a hundred deliveries run at a time, exactly as many as hold the semaphore; the wait group counts the goroutines; each
  delivery is for a webhook that matched the event when it was listed, with the body of this event, and is at attempt one to
  five of its four delays; the histories hold at most fifty attempts. When \<^verbatim>\<open>Run\<close> has returned and the wait group is at zero,
  no run from there sends or records anything.
\<close>

theorem dispatcher_accounts:
  assumes "dispatcherRun E J (NewDispatcher w) d"
  shows "dp_inflight d = length (dp_tasks d)
    \<and> dp_deliverySem d = length (filter holdsSlot (dp_tasks d)) \<and> dp_deliverySem d \<le> maxConcurrentDeliveries
    \<and> (\<forall>wh ev body delays n. Delivering wh ev body delays n \<in> set (dp_tasks d) \<longrightarrow>
         Webhook_MatchesEvent wh ev \<and> buildPayloadBody J ev = Some body \<and> 1 \<le> n \<and> n + int (length delays) = 5)
    \<and> (\<forall>wid. length (GetDeliveryHistory wid d) \<le> 50)
    \<and> (dp_loop d = LoopReturned \<and> dp_inflight d = 0 \<longrightarrow>
         (\<forall>d'. dispatcherRun E J d d' \<longrightarrow> dp_tasks d' = [] \<and> history d' \<subseteq>\<^sub>m history d))"
proof -
  have inv: "dispatcher_inv J d" by (rule dispatcherRun_inv [OF assms dispatcher_inv_New])
  then have "list_all (goOk J) (dp_tasks d)" by (simp add: dispatcher_inv_def)
  then have "goOk J t" if "t \<in> set (dp_tasks d)" for t using that by (simp add: list_all_iff)
  then have go: "Webhook_MatchesEvent wh ev \<and> buildPayloadBody J ev = Some body \<and> 1 \<le> n \<and> n + int (length delays) = 5"
    if "Delivering wh ev body delays n \<in> set (dp_tasks d)" for wh ev body delays n using that by (metis goOk.simps(3))
  have hist: "length (GetDeliveryHistory wid d) \<le> 50" for wid
    using inv by (auto simp: dispatcher_inv_def hist_inv_def GetDeliveryHistory_def buffer_inv_def Buffer_Snapshot_def Let_def split: option.splits)
  have "quiet d" if "dp_loop d = LoopReturned" "dp_inflight d = 0" using that inv by (simp add: quiet_def dispatcher_inv_def)
  then have "dp_tasks d' = [] \<and> history d' \<subseteq>\<^sub>m history d" if "dp_loop d = LoopReturned" "dp_inflight d = 0" "dispatcherRun E J d d'" for d'
    using that quiet_run [OF that(3)] by (simp add: quiet_def)
  with inv go hist show ?thesis unfolding dispatcher_inv_def by blast
qed

theorem dispatcher_accounts_witness:
  "\<exists>d. dispatcherRun sampleEnv sampleBody (NewDispatcher hookWorld) d \<and>
     dp_tasks d = [FanningOut sampleEvent [], Delivering sampleHook sampleEvent ''body'' retryDelays 1] \<and>
     dp_inflight d = 2 \<and> dp_deliverySem d = 1 \<and> length (GetDeliveryHistory ''w1'' d) \<le> 50"
proof -
  have s: "dp_loop loopingSample = Looping" "dp_events loopingSample = [sampleEvent]" "dp_tasks loopingSample = []"
    "dp_deliverySem loopingSample < maxConcurrentDeliveries"
    by (simp_all add: loopingSample_def NewDispatcher_def dworld.defs maxConcurrentDeliveries_def)
  obtain d where d: "dispatcherRun sampleEnv sampleBody loopingSample d"
    "dp_tasks d = [FanningOut sampleEvent [], Delivering sampleHook sampleEvent ''body'' retryDelays 1]"
    using delivery_run [OF s sample_listing _ sample_match(2)] sample_match(1) by auto
  have run: "dispatcherRun sampleEnv sampleBody (NewDispatcher hookWorld) d" using sample_looping d(1) by (rule rtranclp_trans)
  from dispatcher_accounts [OF run] run d(2) show ?thesis by auto
qed

text \<open>
  C10. A shutdown always ends: no run of the goroutines goes on forever, none of them is stuck when the context is cancelled,
  so from every state a dispatcher reaches with \<^verbatim>\<open>Run\<close> returned and a shutdown waiting, all goroutines can only finish, and when
  they have, the shutdown returns without an error.
\<close>

theorem shutdown_drains:
  assumes "dispatcherRun E J (NewDispatcher w) d" "dp_loop d = LoopReturned" "dp_shutdown d = Draining"
  shows "wf {(d', d). tasksStep E J d d'}
    \<and> (\<forall>d1. (tasksStep E J)\<^sup>*\<^sup>* d d1 \<and> (\<nexists>d2. tasksStep E J d1 d2) \<longrightarrow> dp_tasks d1 = [] \<and> dp_inflight d1 = 0)
    \<and> (\<exists>d'. dispatcherRun E J d d' \<and> dp_shutdown d' = ShutdownReturned (Ok ()) \<and> dp_tasks d' = [])"
proof (intro conjI allI impI)
  have inv: "dispatcher_inv J d" by (rule dispatcherRun_inv [OF assms(1) dispatcher_inv_New])
  then have cancelled: "dp_done d" using assms(2) by (simp add: dispatcher_inv_def)
  show "wf {(d', d). tasksStep E J d d'}" by (rule tasksStep_wf)
  fix d1 assume stuck: "(tasksStep E J)\<^sup>*\<^sup>* d d1 \<and> (\<nexists>d2. tasksStep E J d1 d2)"
  then have inv1: "dispatcher_inv J d1" by (blast intro: dispatcherRun_inv [OF dispatcherRun_tasks inv])
  have "dp_done d1 = dp_done d" by (rule tasksRun_done [OF stuck [THEN conjunct1]])
  with cancelled stuck tasksStep_enabled show "dp_tasks d1 = []" by blast
  with inv1 show "dp_inflight d1 = 0" by (simp add: dispatcher_inv_def)
next
  have inv: "dispatcher_inv J d" by (rule dispatcherRun_inv [OF assms(1) dispatcher_inv_New])
  then have "dp_done d" using assms(2) by (simp add: dispatcher_inv_def)
  then obtain d1 where d1: "(tasksStep E J)\<^sup>*\<^sup>* d d1" "dp_tasks d1 = []" "dp_shutdown d1 = Draining"
    using tasks_drain [of d E J] assms(3) by auto
  have "dispatcher_inv J d1" by (rule dispatcherRun_inv [OF dispatcherRun_tasks [OF d1(1)] inv])
  with d1 have "shutdownStep d1 (d1\<lparr>dp_shutdown := ShutdownReturned (Ok ())\<rparr>)" by (auto simp: dispatcher_inv_def intro: drained)
  then have "dispatcherRun E J d (d1\<lparr>dp_shutdown := ShutdownReturned (Ok ())\<rparr>)"
    using dispatcherRun_tasks [OF d1(1)] by (blast intro: rtranclp_trans dispatcherRunI)
  with d1(2) show "\<exists>d'. dispatcherRun E J d d' \<and> dp_shutdown d' = ShutdownReturned (Ok ()) \<and> dp_tasks d' = []" by force
qed

theorem shutdown_drains_witness:
  "\<exists>d d'. dispatcherRun sampleEnv sampleBody (NewDispatcher hookWorld) d \<and> dp_shutdown d = Draining \<and>
     dispatcherRun sampleEnv sampleBody d d' \<and> dp_shutdown d' = ShutdownReturned (Ok ())"
proof -
  let ?c = "loopingSample\<lparr>dp_stopCh := True, dp_shutdown := Draining\<rparr>"
  let ?s = "?c\<lparr>dp_done := True\<rparr>"
  let ?d = "?s\<lparr>dp_loop := LoopReturned, dp_open := False\<rparr>"
  have loop: "dp_loop loopingSample = Looping" by (simp add: loopingSample_def)
  have "shutdownStep loopingSample ?c" "runStep ?c ?s" "runStep ?s ?d"
    using loop stopSeen [of ?c] cancelled [of ?s] by (simp_all add: call)
  then have "dispatcherRun sampleEnv sampleBody loopingSample ?d"
    by (blast intro: dispatcherRunI)
  with sample_looping have run: "dispatcherRun sampleEnv sampleBody (NewDispatcher hookWorld) ?d" by (rule rtranclp_trans)
  have "dp_loop ?d = LoopReturned" "dp_shutdown ?d = Draining" by simp_all
  from shutdown_drains [OF run this] run show ?thesis by force
qed

end
