(* ===== verification/Server.thy ===== *)
theory Server
  imports AdminApi Demo Dispatcher PolicyProps
begin

text \<open>
  The process: its settings (\<^verbatim>\<open>src/internal/di/config\<close>), the start and the options of the servers (\<^verbatim>\<open>src/cmd/service/main.go\<close>), the
  construction and shutdown of the adapters (\<^verbatim>\<open>src/internal/di/service\<close>), the command line (\<^verbatim>\<open>src/internal/cli\<close>) and the files of the
  user interface (\<^verbatim>\<open>src/internal/handler/ui\<close>). The loader of settings is a parameter: the typed getters of the package
  \<^verbatim>\<open>core/di\<close>, by key.
\<close>

section \<open>Settings\<close>

record diConfig =
  di_bool :: "string \<Rightarrow> bool"
  di_string :: "string \<Rightarrow> string"
  di_int :: "string \<Rightarrow> int64"
  di_duration :: "string \<Rightarrow> int64"
  di_strings :: "string \<Rightarrow> string list"
  di_orDefault :: "string \<Rightarrow> string \<Rightarrow> string"

definition defaultHTTPPort :: string where "defaultHTTPPort = ''8080''"
definition defaultGRPCPort :: string where "defaultGRPCPort = ''2379''"
definition defaultLogLevel :: string where "defaultLogLevel = ''info''"
definition defaultLogFormat :: string where "defaultLogFormat = ''json''"
definition defaultClientHistoryMaxRecords :: int64 where "defaultClientHistoryMaxRecords = 1000"
definition defaultClientHistoryMaxAge :: int64 where "defaultClientHistoryMaxAge = 30 * 24 * 3600 * second"
definition defaultClientRecentEventsCap :: int64 where "defaultClientRecentEventsCap = 100"
definition defaultFrontendWriteTimeout :: int64 where "defaultFrontendWriteTimeout = 24 * 3600 * second"
definition defaultServiceName :: string where "defaultServiceName = ''elara''"

record BasicAuthConfig =
  bac_Username :: string
  bac_Password :: string

record OIDCSettings =
  osc_IssuerURL :: string
  osc_ClientID :: string
  osc_ClientSecret :: string
  osc_RedirectURL :: string
  osc_Scopes :: "string list"
  osc_AdminEmail :: string

record UIAuthConfig =
  uac_Enabled :: bool
  uac_Type :: AuthType
  uac_BasicAuth :: BasicAuthConfig
  uac_OIDC :: OIDCSettings
  uac_SecureCookie :: bool

record UISettings =
  ui_Port :: string
  ui_ReadTimeout :: int64
  ui_WriteTimeout :: int64
  ui_Auth :: UIAuthConfig

record ClientSettings =
  cs_EtcdPort :: string
  cs_AuthEnabled :: bool
  cs_HistoryMaxRecords :: int64
  cs_HistoryMaxAge :: int64
  cs_RecentEventsCapacity :: int64

record Settings =
  st_UI :: UISettings
  st_Client :: ClientSettings
  st_ServiceName :: string
  st_ServiceVersion :: string
  st_DataPath :: string
  st_MetricsEnabled :: bool
  st_TracingEnabled :: bool
  st_TracingOTLPEndpoint :: string
  st_LogLevel :: string
  st_LogFormat :: string
  st_LogNoSource :: bool
  st_DemoEnabled :: bool
  st_DangerouslySkipPermissions :: bool

definition intOrDefault :: "int64 \<Rightarrow> int64 \<Rightarrow> int64" where
  "intOrDefault v d = (if v \<le> 0 then d else v)"

definition durOrDefault :: "int64 \<Rightarrow> int64 \<Rightarrow> int64" where
  "durOrDefault v d = (if v \<le> 0 then d else v)"

definition stringsOrDefault :: "string list \<Rightarrow> string list \<Rightarrow> string list" where
  "stringsOrDefault v d = (if v = [] then d else v)"

text \<open>The errors of the settings are told apart by their texts, which are shortened here.\<close>

definition ErrUIAuthTypeUnrecognized :: "string \<Rightarrow> err" where
  "ErrUIAuthTypeUnrecognized raw = ErrExternal (''ui.auth.type: got '' @ raw)"
definition ErrBasicAuthUsernameRequired :: err where
  "ErrBasicAuthUsernameRequired = ErrExternal ''basic-auth requires ui.auth.basicAuth.username to be set''"
definition ErrBasicAuthPasswordRequired :: err where
  "ErrBasicAuthPasswordRequired = ErrExternal ''basic-auth requires ui.auth.basicAuth.password to be set''"
definition ErrOIDCAdminEmailRequired :: err where
  "ErrOIDCAdminEmailRequired = ErrExternal ''oidc requires ui.auth.oidc.adminEmail to be set''"
definition ErrDangerousSkipPermissionsWithRealAuth :: err where
  "ErrDangerousSkipPermissionsWithRealAuth = ErrExternal ''dangerously.skip.permissions=true cannot be combined''"

definition resolveAuthType :: "bool \<Rightarrow> string \<Rightarrow> err + AuthType" where
  "resolveAuthType enabled raw =
     (if \<not> enabled then Ok AuthTypeNone
      else if raw = [] \<or> raw = ''none'' then Ok AuthTypeNone
      else if raw = ''oidc'' then Ok AuthTypeOIDC
      else if raw = ''basic-auth'' then Ok AuthTypeBasicAuth
      else Err (ErrUIAuthTypeUnrecognized raw))"

definition getAuthType :: "diConfig \<Rightarrow> err + AuthType" where
  "getAuthType cfg = resolveAuthType (di_bool cfg ''ui.auth.enabled'') (di_string cfg ''ui.auth.type'')"

definition UIAuth_Validate :: "UIAuthConfig \<Rightarrow> err + unit" where
  "UIAuth_Validate c =
     (if \<not> uac_Enabled c then Ok ()
      else if uac_Type c = AuthTypeBasicAuth then
        (if bac_Username (uac_BasicAuth c) = [] then Err ErrBasicAuthUsernameRequired
         else if bac_Password (uac_BasicAuth c) = [] then Err ErrBasicAuthPasswordRequired
         else Ok ())
      else if uac_Type c = AuthTypeOIDC then
        (if osc_AdminEmail (uac_OIDC c) = [] then Err ErrOIDCAdminEmailRequired else Ok ())
      else Ok ())"

definition newUIConfig :: "diConfig \<Rightarrow> err + UISettings" where
  "newUIConfig cfg =
     (case getAuthType cfg of
        Inl e \<Rightarrow> Err e
      | Inr authType \<Rightarrow>
          (let ui = \<lparr>ui_Port = di_orDefault cfg ''ui.server.port'' defaultHTTPPort,
                     ui_ReadTimeout = di_duration cfg ''ui.server.readTimeout'',
                     ui_WriteTimeout = durOrDefault (di_duration cfg ''ui.server.writeTimeout'') defaultFrontendWriteTimeout,
                     ui_Auth =
                       \<lparr>uac_Enabled = di_bool cfg ''ui.auth.enabled'', uac_Type = authType,
                        uac_BasicAuth = \<lparr>bac_Username = di_string cfg ''ui.auth.basicAuth.username'',
                                         bac_Password = di_string cfg ''ui.auth.basicAuth.password''\<rparr>,
                        uac_OIDC = \<lparr>osc_IssuerURL = di_string cfg ''ui.auth.oidc.issuerUrl'',
                                    osc_ClientID = di_string cfg ''ui.auth.oidc.clientId'',
                                    osc_ClientSecret = di_string cfg ''ui.auth.oidc.clientSecret'',
                                    osc_RedirectURL = di_string cfg ''ui.auth.oidc.redirectUrl'',
                                    osc_Scopes = stringsOrDefault (di_strings cfg ''ui.auth.oidc.scopes'') [''openid'', ''email'', ''profile''],
                                    osc_AdminEmail = di_string cfg ''ui.auth.oidc.adminEmail''\<rparr>,
                        uac_SecureCookie = di_bool cfg ''ui.auth.session.secureCookie''\<rparr>\<rparr>
           in case UIAuth_Validate (ui_Auth ui) of Inl e \<Rightarrow> Err e | Inr _ \<Rightarrow> Ok ui))"

definition newClientConfig :: "diConfig \<Rightarrow> ClientSettings" where
  "newClientConfig cfg =
     \<lparr>cs_EtcdPort = di_orDefault cfg ''client.etcd.port'' defaultGRPCPort,
      cs_AuthEnabled = di_bool cfg ''client.auth.enabled'',
      cs_HistoryMaxRecords = intOrDefault (di_int cfg ''client.history.max_records'') defaultClientHistoryMaxRecords,
      cs_HistoryMaxAge = durOrDefault (di_duration cfg ''client.history.max_age'') defaultClientHistoryMaxAge,
      cs_RecentEventsCapacity = intOrDefault (di_int cfg ''client.recent_events.capacity'') defaultClientRecentEventsCap\<rparr>"

text \<open>
  The paths of a local installation. The home directory is a parameter, None when the system knows none; it is taken as
  clean, so that joining a name to it appends a slash and the name.
\<close>

definition ElaraHomeDir :: "string option \<Rightarrow> string" where
  "ElaraHomeDir userHome = (case userHome of None \<Rightarrow> [] | Some home \<Rightarrow> home @ ''/.elara'')"

definition defaultDataPath :: "string option \<Rightarrow> string" where
  "defaultDataPath userHome =
     (let home = ElaraHomeDir userHome in if home = [] then ''./data'' else home @ ''/data'')"

definition ShouldSkipPermissionsForUI :: "Settings \<Rightarrow> bool" where
  "ShouldSkipPermissionsForUI c \<longleftrightarrow> uac_Type (ui_Auth (st_UI c)) = AuthTypeNone \<or> st_DangerouslySkipPermissions c"

definition validateSkipPermissions :: "Settings \<Rightarrow> err + unit" where
  "validateSkipPermissions c =
     (if \<not> st_DangerouslySkipPermissions c then Ok ()
      else if uac_Enabled (ui_Auth (st_UI c)) \<or> cs_AuthEnabled (st_Client c) then Err ErrDangerousSkipPermissionsWithRealAuth
      else Ok ())"

definition NewConfig :: "string option \<Rightarrow> err + diConfig \<Rightarrow> err + Settings" where
  "NewConfig userHome loaded =
     (case loaded of
        Inl e \<Rightarrow> Err e
      | Inr cfg \<Rightarrow>
          (case newUIConfig cfg of
             Inl e \<Rightarrow> Err e
           | Inr ui \<Rightarrow>
               (let c = \<lparr>st_UI = ui, st_Client = newClientConfig cfg,
                         st_ServiceName = di_orDefault cfg ''service.name'' defaultServiceName,
                         st_ServiceVersion = di_string cfg ''service.version'',
                         st_DataPath = di_orDefault cfg ''config.data.path'' (defaultDataPath userHome),
                         st_MetricsEnabled = di_bool cfg ''metrics.enabled'',
                         st_TracingEnabled = di_bool cfg ''tracing.enabled'',
                         st_TracingOTLPEndpoint = di_string cfg ''tracing.otlp.endpoint'',
                         st_LogLevel = di_orDefault cfg ''log.level'' defaultLogLevel,
                         st_LogFormat = di_orDefault cfg ''log.format'' defaultLogFormat,
                         st_LogNoSource = di_bool cfg ''log.noSource'',
                         st_DemoEnabled = di_bool cfg ''demo.mode'',
                         st_DangerouslySkipPermissions = di_bool cfg ''dangerously.skip.permissions''\<rparr>
                in case validateSkipPermissions c of Inl e \<Rightarrow> Err e | Inr _ \<Rightarrow> Ok c)))"

section \<open>The start\<close>

definition localConfigFileName :: string where "localConfigFileName = ''config.yaml''"

text \<open>The value of \<^verbatim>\<open>APP_CONFIG_FILE_PATHS\<close> afterwards, from it, \<^verbatim>\<open>APP_CONFIG_FILE_PATH\<close>, the home and the files that exist.\<close>

definition useLocalConfigFileIfPresent :: "string \<Rightarrow> string \<Rightarrow> string option \<Rightarrow> (string \<Rightarrow> bool) \<Rightarrow> string" where
  "useLocalConfigFileIfPresent paths path userHome exists =
     (if paths \<noteq> [] \<or> path \<noteq> [] then paths
      else
        let home = ElaraHomeDir userHome in
        if home = [] then paths
        else if \<not> exists (home @ ''/'' @ localConfigFileName) then paths
        else home)"

definition withDefaultServiceVersion :: "string \<Rightarrow> Settings \<Rightarrow> Settings" where
  "withDefaultServiceVersion version cfg =
     (if st_ServiceVersion cfg = [] then cfg\<lparr>st_ServiceVersion := version\<rparr> else cfg)"

datatype logLevel = LevelDebug | LevelInfo | LevelWarn | LevelError

definition parseLogLevel :: "env \<Rightarrow> string \<Rightarrow> logLevel" where
  "parseLogLevel E s =
     (let l = toLower E s in
      if l = ''debug'' then LevelDebug
      else if l = ''warn'' then LevelWarn
      else if l = ''error'' then LevelError
      else LevelInfo)"

datatype logHandler = TextHandler bool logLevel | JSONHandler bool logLevel

definition setupLogger :: "env \<Rightarrow> Settings \<Rightarrow> logHandler" where
  "setupLogger E cfg =
     (let level = parseLogLevel E (st_LogLevel cfg) in
      if st_LogFormat cfg = ''text'' then TextHandler (\<not> st_LogNoSource cfg) level
      else JSONHandler (\<not> st_LogNoSource cfg) level)"

text \<open>The demonstration data are seeded by \<^const>\<open>Seed\<close>, an operation of the state of the process.\<close>

definition seedDemo :: "Settings \<Rightarrow> (unit, 'w) op \<Rightarrow> (unit, 'w) op" where
  "seedDemo cfg seed = (if \<not> st_DemoEnabled cfg then returnT () else seed)"

definition bootstrap ::
  "env \<Rightarrow> authlib \<Rightarrow> jsonStrings \<Rightarrow> 'c ctx_scheme \<Rightarrow> Settings \<Rightarrow> (unit, 'z rworld_scheme) op \<Rightarrow> (unit, 'z rworld_scheme) op" where
  "bootstrap E L J c cfg seed =
     bindT (let auth = ui_Auth (st_UI cfg) in
            if uac_Type auth = AuthTypeBasicAuth
            then BootstrapBasic E L J c (bac_Username (uac_BasicAuth auth)) (bac_Password (uac_BasicAuth auth))
            else if uac_Type auth = AuthTypeOIDC then BootstrapOIDC E L J c (osc_AdminEmail (uac_OIDC auth))
            else if uac_Type auth = AuthTypeNone then BootstrapPassthrough E L J c
            else returnT ()) (\<lambda>_.
     seedDemo cfg seed)"

text \<open>The part of \<^verbatim>\<open>run\<close> that writes: the bootstrap, and then the reload of the rules into the enforcer.\<close>

definition startup ::
  "env \<Rightarrow> authlib \<Rightarrow> 'm casbin \<Rightarrow> jsonStrings \<Rightarrow> 'c ctx_scheme \<Rightarrow> Settings \<Rightarrow> (unit, ('m, 'z) pworld_scheme) op
     \<Rightarrow> (unit, ('m, 'z) pworld_scheme) op" where
  "startup E L cb J c cfg seed = bindT (bootstrap E L J c cfg seed) (\<lambda>_. Enforcer_LoadPolicy E cb J)"

datatype resource = OtelProvider | PrometheusMetrics | AdaptersResource | EtcdServer | FrontendServer

text \<open>The resources and servers in the order of their registration; the application closes them in reverse.\<close>

definition registered :: "Settings \<Rightarrow> resource list" where
  "registered cfg =
     [OtelProvider] @ (if st_MetricsEnabled cfg then [PrometheusMetrics] else []) @ [AdaptersResource, EtcdServer, FrontendServer]"

section \<open>Options of the servers\<close>

datatype httpOption = HTTP_Recovery | HTTP_Healthcheck | HTTP_Otel | HTTP_Metrics

definition frontendServerOptions :: "Settings \<Rightarrow> bool \<Rightarrow> httpOption list" where
  "frontendServerOptions cfg promMetrics =
     [HTTP_Recovery, HTTP_Healthcheck] @ (if st_TracingEnabled cfg then [HTTP_Otel] else []) @
     (if promMetrics then [HTTP_Metrics] else [])"

text \<open>The token interceptor with what \<^verbatim>\<open>WithTokenSkipPermissions\<close> sets.\<close>

record TokenInterceptor =
  ti_skipPermissions :: bool

datatype grpcOption =
    GRPC_Recovery
  | GRPC_StatsHandler
  | GRPC_HealthService
  | GRPC_Otel
  | GRPC_UnaryInterceptor TokenInterceptor
  | GRPC_StreamInterceptor TokenInterceptor

definition etcdServerOptions :: "Settings \<Rightarrow> grpcOption list" where
  "etcdServerOptions cfg =
     [GRPC_Recovery, GRPC_StatsHandler, GRPC_HealthService] @ (if st_TracingEnabled cfg then [GRPC_Otel] else []) @
     (if cs_AuthEnabled (st_Client cfg) \<or> st_DangerouslySkipPermissions cfg
      then let tokenInterceptor = \<lparr>ti_skipPermissions = st_DangerouslySkipPermissions cfg\<rparr> in
           [GRPC_UnaryInterceptor tokenInterceptor, GRPC_StreamInterceptor tokenInterceptor]
      else [])"

definition setupMetrics :: "Settings \<Rightarrow> (string \<Rightarrow> string \<Rightarrow> err + 'p) \<Rightarrow> err + 'p option" where
  "setupMetrics cfg newPrometheusMetrics =
     (if \<not> st_MetricsEnabled cfg then Ok None
      else case newPrometheusMetrics (st_ServiceName cfg) (st_ServiceVersion cfg) of Inl e \<Rightarrow> Err e | Inr pm \<Rightarrow> Ok (Some pm))"

record otelConfig =
  otel_Disabled :: bool
  otel_OTelHost :: string
  otel_ServiceName :: string
  otel_ServiceVersion :: string
  otel_EnableTracer :: bool
  otel_EnableMetrics :: bool
  otel_EnableLogger :: bool

definition setupTracing :: "Settings \<Rightarrow> (otelConfig \<Rightarrow> err + 'p) \<Rightarrow> err + 'p" where
  "setupTracing cfg setup =
     setup \<lparr>otel_Disabled = (\<not> st_TracingEnabled cfg), otel_OTelHost = st_TracingOTLPEndpoint cfg,
            otel_ServiceName = st_ServiceName cfg, otel_ServiceVersion = st_ServiceVersion cfg,
            otel_EnableTracer = st_TracingEnabled cfg, otel_EnableMetrics = False, otel_EnableLogger = False\<rparr>"

section \<open>Wiring\<close>

text \<open>The decision point and the interceptor of sessions are given the same switch.\<close>

definition servicesPDP :: "Settings \<Rightarrow> 'm casbin \<Rightarrow> 'm pdp" where
  "servicesPDP cfg cb = \<lparr>pdp_lib = cb, pdp_skip = ShouldSkipPermissionsForUI cfg\<rparr>"

definition routesInterceptor :: "Settings \<Rightarrow> AuthInterceptor" where
  "routesInterceptor cfg = \<lparr>ic_skipPermissions = ShouldSkipPermissionsForUI cfg\<rparr>"

text \<open>The auth use case: None when logins are off, and with a provider for OIDC only.\<close>

definition configureAuthService :: "oidcLib \<Rightarrow> Settings \<Rightarrow> err + oidcProvider option option" where
  "configureAuthService lib cfg =
     (let auth = ui_Auth (st_UI cfg) in
      if \<not> uac_Enabled auth \<or> uac_Type auth = AuthTypeNone then Ok None
      else if uac_Type auth = AuthTypeOIDC then
        (case NewOIDCProvider lib
                \<lparr>oidc_IssuerURL = osc_IssuerURL (uac_OIDC auth), oidc_ClientID = osc_ClientID (uac_OIDC auth),
                 oidc_ClientSecret = osc_ClientSecret (uac_OIDC auth), oidc_RedirectURL = osc_RedirectURL (uac_OIDC auth),
                 oidc_Scopes = osc_Scopes (uac_OIDC auth)\<rparr> of
           Inl e \<Rightarrow> Err e
         | Inr provider \<Rightarrow> Ok (Some (Some provider)))
      else Ok (Some None))"

text \<open>
  The adapters: their shutdown runs once, whatever fails on the way, in the order of the dependencies, and later calls return its
  result. The outcomes of the five closings are parameters.
\<close>

datatype adapter = WebhookDispatcherA | ClientRegistryA | ClientHistoryA | WatchA | StoreA

record adapters =
  ad_shutdownOnce :: bool
  ad_shutdownErr :: "err option"
  ad_closed :: "adapter list"

definition closeUnless :: "(adapter \<Rightarrow> err option) \<Rightarrow> adapter \<Rightarrow> adapters \<Rightarrow> adapters" where
  "closeUnless outcome a s =
     (let s' = s\<lparr>ad_closed := ad_closed s @ [a]\<rparr> in
      case outcome a of
        None \<Rightarrow> s'
      | Some e \<Rightarrow> if ad_shutdownErr s = None then s'\<lparr>ad_shutdownErr := Some e\<rparr> else s')"

definition closeAlways :: "(adapter \<Rightarrow> err option) \<Rightarrow> adapter \<Rightarrow> adapters \<Rightarrow> adapters" where
  "closeAlways outcome a s =
     (let s' = s\<lparr>ad_closed := ad_closed s @ [a]\<rparr> in
      case outcome a of None \<Rightarrow> s' | Some e \<Rightarrow> s'\<lparr>ad_shutdownErr := Some e\<rparr>)"

definition Adapters_Shutdown :: "(adapter \<Rightarrow> err option) \<Rightarrow> adapters \<Rightarrow> (err + unit) \<times> adapters" where
  "Adapters_Shutdown outcome s =
     (let s' = (if ad_shutdownOnce s then s
                else closeAlways outcome StoreA
                  (closeUnless outcome WatchA
                  (closeUnless outcome ClientHistoryA
                  (closeUnless outcome ClientRegistryA
                  (closeAlways outcome WebhookDispatcherA (s\<lparr>ad_shutdownOnce := True\<rparr>))))))
      in (case ad_shutdownErr s' of None \<Rightarrow> Ok () | Some e \<Rightarrow> Err e, s'))"

definition newAdapters :: adapters where
  "newAdapters = \<lparr>ad_shutdownOnce = False, ad_shutdownErr = None, ad_closed = []\<rparr>"

text \<open>The construction: a failure after the adapters exist closes them again.\<close>

definition NewServiceManager ::
  "(adapter \<Rightarrow> err option) \<Rightarrow> err + unit \<Rightarrow> err + unit \<Rightarrow> err + unit \<Rightarrow> (err + adapters) \<times> adapters option" where
  "NewServiceManager outcome openStore newEnforcer newServices =
     (case openStore of
        Inl e \<Rightarrow> (Err e, None)
      | Inr _ \<Rightarrow>
          (case newEnforcer of
             Inl e \<Rightarrow> (Err e, Some (snd (Adapters_Shutdown outcome newAdapters)))
           | Inr _ \<Rightarrow>
               (case newServices of
                  Inl e \<Rightarrow> (Err e, Some (snd (Adapters_Shutdown outcome newAdapters)))
                | Inr _ \<Rightarrow> (Ok newAdapters, Some newAdapters))))"

section \<open>The command line\<close>

record VersionInfo =
  vi_Version :: string
  vi_Commit :: string
  vi_Date :: string
  vi_GoVersion :: string
  vi_OS :: string
  vi_Arch :: string

definition versionOutput :: "VersionInfo \<Rightarrow> string" where
  "versionOutput info =
     ''elara '' @ vi_Version info @ ''\<newline>  commit:     '' @ vi_Commit info @ ''\<newline>  built:      '' @ vi_Date info @
     ''\<newline>  go version: '' @ vi_GoVersion info @ ''\<newline>  platform:   '' @ vi_OS info @ ''/'' @ vi_Arch info @ ''\<newline>''"

datatype command = RunServe | PrintVersion string

text \<open>What the command tree runs without a subcommand, and its subcommands.\<close>

definition newServeCmd :: "string \<times> command" where
  "newServeCmd = (''serve'', RunServe)"

definition newVersionCmd :: "VersionInfo \<Rightarrow> string \<times> command" where
  "newVersionCmd info = (''version'', PrintVersion (versionOutput info))"

definition newRootCmd :: "VersionInfo \<Rightarrow> command \<times> (string \<times> command) list" where
  "newRootCmd info = (RunServe, [newServeCmd, newVersionCmd info])"

section \<open>The files of the user interface\<close>

text \<open>Go's \<^verbatim>\<open>path.Clean\<close>: empty and single-dot elements go, a double dot takes the element before it along.\<close>

fun pathSegments :: "string \<Rightarrow> string list" where
  "pathSegments [] = [[]]"
| "pathSegments (c # cs) =
     (if c = CHR ''/'' then [] # pathSegments cs
      else case pathSegments cs of [] \<Rightarrow> [[c]] | s # ss \<Rightarrow> (c # s) # ss)"

fun joinPath :: "string list \<Rightarrow> string" where
  "joinPath [] = []"
| "joinPath [s] = s"
| "joinPath (s # ss) = s @ ''/'' @ joinPath ss"

fun cleanSegments :: "bool \<Rightarrow> string list \<Rightarrow> string list \<Rightarrow> string list" where
  "cleanSegments rooted st [] = rev st"
| "cleanSegments rooted st (s # ss) =
     (if s = [] \<or> s = ''.'' then cleanSegments rooted st ss
      else if s = ''..'' then
        (case st of
           [] \<Rightarrow> if rooted then cleanSegments rooted [] ss else cleanSegments rooted [''..''] ss
         | t # ts \<Rightarrow> if t = ''..'' then cleanSegments rooted (''..'' # t # ts) ss else cleanSegments rooted ts ss)
      else cleanSegments rooted (s # st) ss)"

definition pathClean :: "string \<Rightarrow> string" where
  "pathClean p =
     (let rooted = hasPrefix p ''/''; segs = cleanSegments rooted [] (pathSegments p) in
      if rooted then ''/'' @ joinPath segs else if segs = [] then ''.'' else joinPath segs)"

definition pathExt :: "string \<Rightarrow> string" where
  "pathExt p =
     (let name = rev (takeWhile (\<lambda>c. c \<noteq> CHR ''/'') (rev p)) in
      if List.member name (CHR ''.'') then CHR ''.'' # rev (takeWhile (\<lambda>c. c \<noteq> CHR ''.'') (rev name)) else [])"

definition contentTypes :: "(string \<times> string) list" where
  "contentTypes =
     [(''.html'', ''text/html; charset=utf-8''), (''.css'', ''text/css; charset=utf-8''),
      (''.js'', ''application/javascript; charset=utf-8''), (''.mjs'', ''application/javascript; charset=utf-8''),
      (''.json'', ''application/json; charset=utf-8''), (''.png'', ''image/png''), (''.jpg'', ''image/jpeg''),
      (''.jpeg'', ''image/jpeg''), (''.gif'', ''image/gif''), (''.svg'', ''image/svg+xml; charset=utf-8''),
      (''.ico'', ''image/x-icon''), (''.woff'', ''font/woff''), (''.woff2'', ''font/woff2''), (''.ttf'', ''font/ttf'')]"

definition setContentType :: "env \<Rightarrow> string \<Rightarrow> string option" where
  "setContentType E filename = map_of contentTypes (toLower E (pathExt filename))"

text \<open>A file system maps the names of its files to their contents, and those of directories to None.\<close>

datatype staticAnswer = MethodNotAllowed | ServedFile string "string option" bytes | NothingServed

definition serveFile :: "env \<Rightarrow> (string \<rightharpoonup> bytes option) \<Rightarrow> string \<Rightarrow> staticAnswer option" where
  "serveFile E fileSystem name =
     (case fileSystem name of
        None \<Rightarrow> None
      | Some None \<Rightarrow> None
      | Some (Some content) \<Rightarrow> Some (ServedFile name (setContentType E name) content))"

definition ServeHTTP :: "env \<Rightarrow> (string \<rightharpoonup> bytes option) \<Rightarrow> string \<Rightarrow> string \<Rightarrow> staticAnswer" where
  "ServeHTTP E fileSystem httpMethod urlPath =
     (if httpMethod \<noteq> ''GET'' \<and> httpMethod \<noteq> ''HEAD'' then MethodNotAllowed
      else
        let index = (case serveFile E fileSystem ''index.html'' of None \<Rightarrow> NothingServed | Some a \<Rightarrow> a);
            reqPath = (let p = trimPrefix urlPath ''/'' in if p = [] then ''index.html'' else p);
            cleaned = pathClean reqPath
        in if cleaned = ''.'' \<or> hasPrefix cleaned ''..'' \<or> hasPrefix cleaned ''/'' then index
           else case serveFile E fileSystem cleaned of Some a \<Rightarrow> a | None \<Rightarrow> index)"

text \<open>No request leaves the tree of files: what is served is the index or a name whose elements are proper file names.\<close>

definition properSegment :: "string \<Rightarrow> bool" where
  "properSegment s \<longleftrightarrow> s \<noteq> [] \<and> s \<noteq> ''.'' \<and> s \<noteq> ''..'' \<and> CHR ''/'' \<notin> set s"

lemma pathSegments_slash: "s \<in> set (pathSegments p) \<Longrightarrow> CHR ''/'' \<notin> set s"
  by (induction p arbitrary: s rule: pathSegments.induct) (auto split: if_splits list.splits)

lemma cleanSegments_shape:
  assumes "\<forall>s \<in> set ss. CHR ''/'' \<notin> set s" "rev st = replicate k ''..'' @ ns" "list_all properSegment ns"
  shows "\<exists>k ns. cleanSegments False st ss = replicate k ''..'' @ ns \<and> list_all properSegment ns"
  using assms
proof (induction ss arbitrary: st k ns)
  case (Cons s ss)
  note IH = Cons.IH [OF _ _ Cons.prems(3)]
  have ss: "\<forall>s \<in> set ss. CHR ''/'' \<notin> set s" "CHR ''/'' \<notin> set s" using Cons.prems(1) by simp_all
  consider "s = [] \<or> s = ''.''" | "s = ''..''" "ns = []" | t ns' where "s = ''..''" "ns = ns' @ [t]" | "s \<notin> {[], ''.'', ''..''}"
    by (cases ns rule: rev_cases) auto
  then show ?case
  proof cases
    case 1
    with IH [OF ss(1) Cons.prems(2)] show ?thesis by simp
  next
    case 2
    with Cons.prems(2) have "st = replicate k ''..''" by (metis append_Nil2 rev_replicate rev_rev_ident)
    with 2 Cons.IH [of "replicate (Suc k) ''..''" "Suc k" "[]"] ss show ?thesis by (cases k) (simp_all add: replicate_append_same)
  next
    case (3 t ns')
    with Cons.prems(2) have "st = t # rev (replicate k ''..'' @ ns')" by (metis append_assoc rev_eq_Cons_iff rev_swap)
    moreover have "t \<noteq> ''..''" using 3 Cons.prems(3) by (simp add: properSegment_def)
    ultimately show ?thesis using 3 Cons.prems(3) Cons.IH [OF ss(1), of "rev (replicate k ''..'' @ ns')" k ns'] by simp
  next
    case 4
    with ss Cons.prems Cons.IH [OF ss(1), of "s # st" k "ns @ [s]"] show ?thesis by (simp add: properSegment_def)
  qed
qed auto

lemma joinPath_dots: "hasPrefix (joinPath (''..'' # ss)) ''..''"
  by (cases ss) (simp_all add: hasPrefix_def)

definition insideTree :: "string \<Rightarrow> bool" where
  "insideTree name \<longleftrightarrow> (\<exists>segs. name = joinPath segs \<and> segs \<noteq> [] \<and> list_all properSegment segs)"

lemma pathClean_proper:
  assumes "pathClean p \<noteq> ''.''" "\<not> hasPrefix (pathClean p) ''..''" "\<not> hasPrefix (pathClean p) ''/''"
  shows "insideTree (pathClean p)"
proof -
  have "\<not> hasPrefix p ''/''" using assms(3) by (auto simp: pathClean_def Let_def hasPrefix_def)
  then have segs: "pathClean p = joinPath (cleanSegments False [] (pathSegments p))" "cleanSegments False [] (pathSegments p) \<noteq> []"
    using assms(1) by (simp_all add: pathClean_def Let_def split: if_splits)
  from cleanSegments_shape [of "pathSegments p" "[]" 0 "[]"] pathSegments_slash obtain k ns where
    shape: "cleanSegments False [] (pathSegments p) = replicate k ''..'' @ ns" "list_all properSegment ns" by auto
  have "k = 0"
  proof (cases k)
    case (Suc j)
    with shape segs(1) joinPath_dots assms(2) show ?thesis by (metis append_Cons replicate_Suc)
  qed
  with shape segs show ?thesis by (auto simp: insideTree_def)
qed

lemma index_proper: "insideTree ''index.html''"
  unfolding insideTree_def by (rule exI [of _ "[''index.html'']"]) (simp add: properSegment_def)

theorem ui_serves_no_outside:
  assumes "ServeHTTP E fileSystem httpMethod urlPath = ServedFile name ct content"
  shows "fileSystem name = Some (Some content) \<and> insideTree name"
  using assms index_proper pathClean_proper
  by (auto simp: ServeHTTP_def serveFile_def Let_def split: if_splits option.splits)

section \<open>Closing down\<close>

text \<open>Every adapter is closed once, the store last, also when others fail; a second call closes nothing and repeats the result.\<close>

lemma close_simps [simp]:
  "ad_closed (closeUnless outcome a s) = ad_closed s @ [a]" "ad_closed (closeAlways outcome a s) = ad_closed s @ [a]"
  "ad_shutdownOnce (closeUnless outcome a s) = ad_shutdownOnce s" "ad_shutdownOnce (closeAlways outcome a s) = ad_shutdownOnce s"
  "ad_shutdownErr (closeUnless outcome a s) = None \<longleftrightarrow> ad_shutdownErr s = None \<and> outcome a = None"
  "ad_shutdownErr (closeAlways outcome a s) = None \<longleftrightarrow> ad_shutdownErr s = None \<and> outcome a = None"
  by (simp_all add: closeUnless_def closeAlways_def Let_def split: option.split)

lemma Adapters_Shutdown_once:
  assumes "Adapters_Shutdown outcome newAdapters = (r, s)"
  shows "ad_closed s = [WebhookDispatcherA, ClientRegistryA, ClientHistoryA, WatchA, StoreA]"
    "Adapters_Shutdown outcome' s = (r, s)" "isl r \<longleftrightarrow> (\<exists>a. outcome a \<noteq> None)"
proof -
  have any: "(\<exists>a. outcome a \<noteq> None) = (outcome WebhookDispatcherA \<noteq> None \<or> outcome ClientRegistryA \<noteq> None \<or>
      outcome ClientHistoryA \<noteq> None \<or> outcome WatchA \<noteq> None \<or> outcome StoreA \<noteq> None)" by (metis adapter.exhaust)
  let ?s = "closeAlways outcome StoreA (closeUnless outcome WatchA (closeUnless outcome ClientHistoryA
    (closeUnless outcome ClientRegistryA (closeAlways outcome WebhookDispatcherA (newAdapters\<lparr>ad_shutdownOnce := True\<rparr>)))))"
  have s: "s = ?s" "r = (case ad_shutdownErr ?s of None \<Rightarrow> Ok () | Some e \<Rightarrow> Err e)"
    using assms by (auto simp: Adapters_Shutdown_def newAdapters_def Let_def)
  show "ad_closed s = [WebhookDispatcherA, ClientRegistryA, ClientHistoryA, WatchA, StoreA]" by (simp add: s newAdapters_def)
  show "Adapters_Shutdown outcome' s = (r, s)" by (simp add: Adapters_Shutdown_def s Let_def)
  have "isl (case e of None \<Rightarrow> Ok () | Some x \<Rightarrow> Err x) \<longleftrightarrow> e \<noteq> None" for e :: "err option" by (cases e) simp_all
  then have "isl r \<longleftrightarrow> ad_shutdownErr ?s \<noteq> None" unfolding s(2) .
  then show "isl r \<longleftrightarrow> (\<exists>a. outcome a \<noteq> None)" unfolding any by (simp add: newAdapters_def)
qed

section \<open>The rules after the start\<close>

text \<open>What the library promises of a load: the empty model has no rule, a line adds its rule, and finishing keeps them.\<close>

definition casbin_loads :: "'m casbin \<Rightarrow> bool" where
  "casbin_loads cb \<longleftrightarrow>
     cacheRules cb (cb_NewModel cb) = ({}, {}) \<and>
     (\<forall>r m. length r = pRuleLen \<longrightarrow> (\<exists>m'. cb_LoadPolicyArray cb (''p'' # r) m = Inr m' \<and>
        cacheRules cb m' = (insert r (fst (cacheRules cb m)), snd (cacheRules cb m)))) \<and>
     (\<forall>r m. length r = gRuleNativeLen \<longrightarrow> (\<exists>m'. cb_LoadPolicyArray cb (''g'' # r) m = Inr m' \<and>
        cacheRules cb m' = (fst (cacheRules cb m), insert r (snd (cacheRules cb m))))) \<and>
     (\<forall>m m'. cb_Loaded cb m = Inr m' \<longrightarrow> cacheRules cb m' = cacheRules cb m)"

definition policyKey :: "jsonStrings \<Rightarrow> bytes \<Rightarrow> bool" where
  "policyKey J k \<longleftrightarrow>
     (\<exists>r. k = ruleKey J ''p'' ''p'' r \<and> length r = pRuleLen \<or> k = ruleKey J ''g'' ''g'' r \<and> length r = gRuleNativeLen)"

lemma loadRules_rules:
  assumes "json_ok J" "casbin_loads cb" "\<forall>k \<in> fst ` set b. policyKey J k"
  shows "cacheRules cb (loadRules cb J b m) =
    (fst (cacheRules cb m) \<union> {r. ruleKey J ''p'' ''p'' r \<in> fst ` set b}, snd (cacheRules cb m) \<union> {r. ruleKey J ''g'' ''g'' r \<in> fst ` set b})"
  using assms(3)
proof (induction b arbitrary: m)
  case (Cons kv b)
  obtain k v where kv: "kv = (k, v)" by fastforce
  with Cons.prems obtain r where r: "k = ruleKey J ''p'' ''p'' r \<and> length r = pRuleLen \<or> k = ruleKey J ''g'' ''g'' r \<and> length r = gRuleNativeLen"
    by (auto simp: policyKey_def)
  note L = assms(2) [unfolded casbin_loads_def]
  have "r \<noteq> []" using r by (auto simp: pRuleLen_def gRuleNativeLen_def)
  then have parts: "keyParts J (ruleKey J t t r) = Some (t # t # r)" for t
    using assms(1) by (cases r) (simp_all add: keyParts_def ruleKey_def json_ok_def minPartsLen_def)
  from r show ?case
  proof
    assume p: "k = ruleKey J ''p'' ''p'' r \<and> length r = pRuleLen"
    then obtain m' where "cb_LoadPolicyArray cb (''p'' # r) m = Inr m'"
      "cacheRules cb m' = (insert r (fst (cacheRules cb m)), snd (cacheRules cb m))" using L by meson
    with p parts Cons kv show ?thesis by (auto simp: ruleKey_eq [OF assms(1)])
  next
    assume g: "k = ruleKey J ''g'' ''g'' r \<and> length r = gRuleNativeLen"
    then obtain m' where "cb_LoadPolicyArray cb (''g'' # r) m = Inr m'"
      "cacheRules cb m' = (fst (cacheRules cb m), insert r (snd (cacheRules cb m)))" using L by meson
    with g parts Cons kv show ?thesis by (auto simp: ruleKey_eq [OF assms(1)])
  qed
qed simp

text \<open>
  After a successful start the rules in memory are the persisted ones, those the bootstrap has just written included. This is the
  agreement that group administration keeps.
\<close>

theorem startup_agrees:
  assumes "startup E L cb J c cfg seed w = (Inr (), w')" "json_ok J" "casbin_loads cb"
    and "\<forall>k. dget (buckets w') bucketPolicy k \<noteq> None \<longrightarrow> policyKey J k"
  shows "agree J cb w'"
proof -
  from assms(1) obtain w1 where "Enforcer_LoadPolicy E cb J w1 = (Inr (), w')"
    by (auto simp: startup_def bind_inversion)
  then obtain b m where b: "buckets w1 bucketPolicy = Some b" and m: "cb_Loaded cb (loadRules cb J b (cb_NewModel cb)) = Inr m"
    and w': "w' = w1\<lparr>cache := m\<rparr>"
    by (auto simp: Enforcer_LoadPolicy_def LoadPolicyCtx_def bucket_ForEach_def split: sum.splits if_splits option.splits)
  have keys: "dget (buckets w1) bucketPolicy k = None \<longleftrightarrow> k \<notin> fst ` set b" for k
    using b by (simp add: dget_def bkt_def map_of_eq_None_iff)
  with assms(4) have "\<forall>k \<in> fst ` set b. policyKey J k" by (simp add: w')
  note rules = loadRules_rules [OF assms(2,3) this, of "cb_NewModel cb"]
  have "cacheRules cb m = cacheRules cb (loadRules cb J b (cb_NewModel cb))" "cacheRules cb (cb_NewModel cb) = ({}, {})"
    using assms(3) m unfolding casbin_loads_def by blast+
  with rules show ?thesis by (simp add: agree_def w' diskRules_def pDisk_def gDisk_def keys)
qed

section \<open>Settings that are accepted\<close>

text \<open>A configured login is enforced: accepted settings never skip permissions then.\<close>

lemma login_enforced:
  assumes "NewConfig userHome loaded = Inr cfg" "uac_Type (ui_Auth (st_UI cfg)) \<noteq> AuthTypeNone"
  shows "\<not> ShouldSkipPermissionsForUI cfg"
  using assms
  by (auto simp: NewConfig_def newUIConfig_def getAuthType_def resolveAuthType_def validateSkipPermissions_def
      ShouldSkipPermissionsForUI_def Let_def split: sum.splits if_splits)

lemma tokens_enforced:
  assumes "NewConfig userHome loaded = Inr cfg" "cs_AuthEnabled (st_Client cfg)"
  shows "\<not> st_DangerouslySkipPermissions cfg"
  using assms by (auto simp: NewConfig_def validateSkipPermissions_def Let_def split: sum.splits if_splits)

text \<open>
  C22. The settings a process starts with are well formed: the kind of login is one of the three, and none where logins are off; a
  password login has a name and a password, a login by the provider has the administrator's email and scopes; limits and timeouts are
  positive. The switch that skips all permissions is never on together with a login or with tokens. The decision point and the
  session interceptor skip together; neither does when a login is configured; and when tokens are required, the etcd server
  has the interceptor for calls and for streams, and it does not skip.
\<close>

theorem settings_coherent:
  assumes "NewConfig userHome loaded = Inr cfg"
  shows "uac_Type (ui_Auth (st_UI cfg)) \<in> {AuthTypeNone, AuthTypeOIDC, AuthTypeBasicAuth}
    \<and> (\<not> uac_Enabled (ui_Auth (st_UI cfg)) \<longrightarrow> uac_Type (ui_Auth (st_UI cfg)) = AuthTypeNone)
    \<and> (uac_Type (ui_Auth (st_UI cfg)) = AuthTypeBasicAuth \<longrightarrow>
         bac_Username (uac_BasicAuth (ui_Auth (st_UI cfg))) \<noteq> [] \<and> bac_Password (uac_BasicAuth (ui_Auth (st_UI cfg))) \<noteq> [])
    \<and> (uac_Type (ui_Auth (st_UI cfg)) = AuthTypeOIDC \<longrightarrow>
         osc_AdminEmail (uac_OIDC (ui_Auth (st_UI cfg))) \<noteq> [] \<and> osc_Scopes (uac_OIDC (ui_Auth (st_UI cfg))) \<noteq> [])
    \<and> 0 < ui_WriteTimeout (st_UI cfg) \<and> 0 < cs_HistoryMaxRecords (st_Client cfg) \<and> 0 < cs_HistoryMaxAge (st_Client cfg)
    \<and> 0 < cs_RecentEventsCapacity (st_Client cfg)
    \<and> (st_DangerouslySkipPermissions cfg \<longrightarrow> \<not> uac_Enabled (ui_Auth (st_UI cfg)) \<and> \<not> cs_AuthEnabled (st_Client cfg))
    \<and> pdp_skip (servicesPDP cfg cb) = ic_skipPermissions (routesInterceptor cfg)
    \<and> (uac_Type (ui_Auth (st_UI cfg)) \<noteq> AuthTypeNone \<longrightarrow> \<not> pdp_skip (servicesPDP cfg cb))
    \<and> (cs_AuthEnabled (st_Client cfg) \<longrightarrow>
         {GRPC_UnaryInterceptor \<lparr>ti_skipPermissions = False\<rparr>, GRPC_StreamInterceptor \<lparr>ti_skipPermissions = False\<rparr>}
           \<subseteq> set (etcdServerOptions cfg))"
proof -
  from assms obtain di ui where di: "newUIConfig di = Inr ui" "st_UI cfg = ui" "st_Client cfg = newClientConfig di"
    "validateSkipPermissions cfg = Ok ()"
    by (auto simp: NewConfig_def Let_def split: sum.splits)
  from di(1) obtain ty where ty: "getAuthType di = Inr ty" "UIAuth_Validate (ui_Auth ui) = Ok ()" "uac_Type (ui_Auth ui) = ty"
    "uac_Enabled (ui_Auth ui) = di_bool di ''ui.auth.enabled''" "osc_Scopes (uac_OIDC (ui_Auth ui)) \<noteq> []" "0 < ui_WriteTimeout ui"
    by (auto simp: newUIConfig_def Let_def stringsOrDefault_def durOrDefault_def defaultFrontendWriteTimeout_def second_def split: sum.splits)
  have type: "ty \<in> {AuthTypeNone, AuthTypeOIDC, AuthTypeBasicAuth}" "\<not> uac_Enabled (ui_Auth ui) \<longrightarrow> ty = AuthTypeNone"
    using ty(1,4) by (auto simp: getAuthType_def resolveAuthType_def split: if_splits)
  have distinct: "AuthTypeNone \<noteq> AuthTypeBasicAuth" "AuthTypeNone \<noteq> AuthTypeOIDC" "AuthTypeOIDC \<noteq> AuthTypeBasicAuth"
    by (simp_all add: AuthTypeNone_def AuthTypeOIDC_def AuthTypeBasicAuth_def)
  have limits: "0 < cs_HistoryMaxRecords (newClientConfig di)" "0 < cs_HistoryMaxAge (newClientConfig di)"
    "0 < cs_RecentEventsCapacity (newClientConfig di)"
    by (simp_all add: newClientConfig_def intOrDefault_def durOrDefault_def defaultClientHistoryMaxRecords_def
        defaultClientHistoryMaxAge_def defaultClientRecentEventsCap_def second_def)
  have danger: "st_DangerouslySkipPermissions cfg \<longrightarrow> \<not> uac_Enabled (ui_Auth ui) \<and> \<not> cs_AuthEnabled (newClientConfig di)"
    using di by (auto simp: validateSkipPermissions_def split: if_splits)
  have skip: "ty \<noteq> AuthTypeNone \<longrightarrow> \<not> ShouldSkipPermissionsForUI cfg" using login_enforced [OF assms] di(2) ty(3) by auto
  show ?thesis
    using ty type distinct limits danger skip di(2,3)
    by (auto simp: UIAuth_Validate_def servicesPDP_def routesInterceptor_def etcdServerOptions_def Let_def split: if_splits)
qed

definition basicLoaded :: diConfig where
  "basicLoaded = \<lparr>di_bool = (\<lambda>k. k = ''ui.auth.enabled'' \<or> k = ''client.auth.enabled''),
     di_string = (\<lambda>k. if k = ''ui.auth.type'' then ''basic-auth'' else if k = ''ui.auth.basicAuth.username'' then ''root''
        else if k = ''ui.auth.basicAuth.password'' then ''pw'' else []),
     di_int = (\<lambda>_. 0), di_duration = (\<lambda>_. 0), di_strings = (\<lambda>_. []), di_orDefault = (\<lambda>_ d. d)\<rparr>"

lemma basicLoaded_accepted:
  obtains cfg where "NewConfig None (Inr basicLoaded) = Inr cfg" "uac_Type (ui_Auth (st_UI cfg)) = AuthTypeBasicAuth"
    "cs_AuthEnabled (st_Client cfg)" "cs_HistoryMaxRecords (st_Client cfg) = 1000"
  by (simp add: NewConfig_def newUIConfig_def getAuthType_def resolveAuthType_def basicLoaded_def UIAuth_Validate_def Let_def
      validateSkipPermissions_def newClientConfig_def intOrDefault_def defaultClientHistoryMaxRecords_def AuthTypeNone_def
      AuthTypeOIDC_def AuthTypeBasicAuth_def split: sum.splits)

theorem settings_coherent_witness:
  "\<exists>cfg. NewConfig None (Inr basicLoaded) = Inr cfg \<and> uac_Type (ui_Auth (st_UI cfg)) = AuthTypeBasicAuth \<and>
     \<not> pdp_skip (servicesPDP cfg sampleCasbin) \<and> \<not> ic_skipPermissions (routesInterceptor cfg) \<and>
     GRPC_UnaryInterceptor \<lparr>ti_skipPermissions = False\<rparr> \<in> set (etcdServerOptions cfg)"
proof -
  obtain cfg where cfg: "NewConfig None (Inr basicLoaded) = Inr cfg" "uac_Type (ui_Auth (st_UI cfg)) = AuthTypeBasicAuth"
    "cs_AuthEnabled (st_Client cfg)" by (rule basicLoaded_accepted)
  have "uac_Type (ui_Auth (st_UI cfg)) \<noteq> AuthTypeNone" using cfg(2) by (simp add: AuthTypeNone_def AuthTypeBasicAuth_def)
  with settings_coherent [OF cfg(1), of sampleCasbin] cfg show ?thesis by auto
qed

end
