(* ===== verification/Routes.thy ===== *)
theory Routes
  imports Server UserProps
begin

text \<open>
  The routes of the structured API (\<^verbatim>\<open>V2Routes\<close> of \<^verbatim>\<open>src/internal/di/service/handler.go\<close>): the services with their procedures as the
  generated code mounts them (\<^verbatim>\<open>src/internal/proto/elara\<close>), the interceptors around every method
  (\<^verbatim>\<open>src/internal/handler/v2/interceptor\<close>), and the interceptor of the etcd server. The methods of the services are parameters,
  the interfaces the generated code is written against, so that what is shown holds for any handlers. The validation of messages
  is a library and a parameter, and so is the choice of a mounted path by the HTTP server.
\<close>

section \<open>Calls\<close>

text \<open>A call with its headers and its message; a method returns an answer or an error, or it panics.\<close>

record 'q call =
  rq_Headers :: header
  rq_Message :: 'q

datatype 'a outcome = Returns "connectError + 'a" | Panics string

type_synonym ('q, 'a, 'z) rpcMethod = "uctx \<Rightarrow> 'q call \<Rightarrow> 'z rworld_scheme \<Rightarrow> 'a outcome \<times> 'z rworld_scheme"

datatype 'm rpc = Unary 'm | ServerStream 'm

fun rpcMethod :: "'m rpc \<Rightarrow> 'm" where
  "rpcMethod (Unary m) = m"
| "rpcMethod (ServerStream m) = m"

section \<open>Interceptors\<close>

text \<open>An interceptor wraps the method of a procedure, for single calls and for streams.\<close>

record ('q, 'a, 'z) interceptor =
  in_WrapUnary :: "string \<Rightarrow> ('q, 'a, 'z) rpcMethod \<Rightarrow> ('q, 'a, 'z) rpcMethod"
  in_WrapStreamingHandler :: "string \<Rightarrow> ('q, 'a, 'z) rpcMethod \<Rightarrow> ('q, 'a, 'z) rpcMethod"

definition errInternal :: err where "errInternal = ErrExternal ''internal error''"

definition Recovery_WrapUnary :: "('q, 'a, 'z) rpcMethod \<Rightarrow> ('q, 'a, 'z) rpcMethod" where
  "Recovery_WrapUnary nextMethod c req w =
     (case nextMethod c req w of
        (Panics r, w1) \<Rightarrow> (Returns (Inl (NewError CodeInternal errInternal)), w1)
      | (Returns a, w1) \<Rightarrow> (Returns a, w1))"

definition Recovery_WrapStreamingHandler :: "('q, 'a, 'z) rpcMethod \<Rightarrow> ('q, 'a, 'z) rpcMethod" where
  "Recovery_WrapStreamingHandler nextMethod c req w =
     (case nextMethod c req w of
        (Panics r, w1) \<Rightarrow> (Returns (Inl (NewError CodeInternal (ErrExternal (''panic: '' @ r)))), w1)
      | (Returns a, w1) \<Rightarrow> (Returns a, w1))"

definition NewRecoveryInterceptor :: "('q, 'a, 'z) interceptor" where
  "NewRecoveryInterceptor =
     \<lparr>in_WrapUnary = (\<lambda>_. Recovery_WrapUnary), in_WrapStreamingHandler = (\<lambda>_. Recovery_WrapStreamingHandler)\<rparr>"

text \<open>Logging reads the clock before and after; the lines themselves are no state. A panic passes it.\<close>

definition Logging_WrapUnary :: "('q, 'a, 'z) rpcMethod \<Rightarrow> ('q, 'a, 'z) rpcMethod" where
  "Logging_WrapUnary nextMethod c req w =
     (case nextMethod c req (w\<lparr>ticks := Suc (ticks w)\<rparr>) of
        (Panics r, w1) \<Rightarrow> (Panics r, w1)
      | (Returns a, w1) \<Rightarrow> (Returns a, w1\<lparr>ticks := Suc (ticks w1)\<rparr>))"

definition Logging_WrapStreamingHandler :: "('q, 'a, 'z) rpcMethod \<Rightarrow> ('q, 'a, 'z) rpcMethod" where
  "Logging_WrapStreamingHandler nextMethod c req w =
     (case nextMethod c req (w\<lparr>ticks := Suc (ticks w)\<rparr>) of
        (Panics r, w1) \<Rightarrow> (Panics r, w1)
      | (Returns a, w1) \<Rightarrow> (Returns a, w1\<lparr>ticks := Suc (ticks w1)\<rparr>))"

definition NewLoggingInterceptor :: "('q, 'a, 'z) interceptor" where
  "NewLoggingInterceptor =
     \<lparr>in_WrapUnary = (\<lambda>_. Logging_WrapUnary), in_WrapStreamingHandler = (\<lambda>_. Logging_WrapStreamingHandler)\<rparr>"

text \<open>The library that validates messages answers with an error, or lets the call pass.\<close>

definition validateInterceptor :: "('q \<Rightarrow> connectError option) \<Rightarrow> ('q, 'a, 'z) interceptor" where
  "validateInterceptor validate =
     (let wrap = (\<lambda>_ nextMethod c req w.
        case validate (rq_Message req) of Some e \<Rightarrow> (Returns (Inl e), w) | None \<Rightarrow> nextMethod c req w)
      in \<lparr>in_WrapUnary = wrap, in_WrapStreamingHandler = wrap\<rparr>)"

definition Auth_WrapUnary ::
  "env \<Rightarrow> authlib \<Rightarrow> randomness \<Rightarrow> AuthInterceptor \<Rightarrow> string \<Rightarrow> ('q, 'a, 'z) rpcMethod \<Rightarrow> ('q, 'a, 'z) rpcMethod" where
  "Auth_WrapUnary E L R i procedure nextMethod c req w =
     (case authenticateRequest E L R i c (rq_Headers req) w of
        (Inl e, w1) \<Rightarrow> (Returns (Inl e), w1)
      | (Inr c1, w1) \<Rightarrow>
          (case checkPasswordChangeRequired c1 procedure of
             Inl e \<Rightarrow> (Returns (Inl e), w1)
           | Inr _ \<Rightarrow> nextMethod c1 req w1))"

definition Auth_WrapStreamingHandler ::
  "env \<Rightarrow> authlib \<Rightarrow> randomness \<Rightarrow> AuthInterceptor \<Rightarrow> string \<Rightarrow> ('q, 'a, 'z) rpcMethod \<Rightarrow> ('q, 'a, 'z) rpcMethod" where
  "Auth_WrapStreamingHandler E L R i procedure nextMethod c req w =
     (case authenticateRequest E L R i c (rq_Headers req) w of
        (Inl e, w1) \<Rightarrow> (Returns (Inl e), w1)
      | (Inr c1, w1) \<Rightarrow>
          (case checkPasswordChangeRequired c1 procedure of
             Inl e \<Rightarrow> (Returns (Inl e), w1)
           | Inr _ \<Rightarrow> nextMethod c1 req w1))"

definition NewAuthInterceptor :: "env \<Rightarrow> authlib \<Rightarrow> randomness \<Rightarrow> AuthInterceptor \<Rightarrow> ('q, 'a, 'z) interceptor" where
  "NewAuthInterceptor E L R i =
     \<lparr>in_WrapUnary = Auth_WrapUnary E L R i, in_WrapStreamingHandler = Auth_WrapStreamingHandler E L R i\<rparr>"

text \<open>The first interceptor is the outermost.\<close>

definition NewHandler :: "('q, 'a, 'z) interceptor list \<Rightarrow> string \<Rightarrow> ('q, 'a, 'z) rpcMethod rpc \<Rightarrow> ('q, 'a, 'z) rpcMethod" where
  "NewHandler opts procedure r =
     (case r of
        Unary m \<Rightarrow> foldr (\<lambda>i. in_WrapUnary i procedure) opts m
      | ServerStream m \<Rightarrow> foldr (\<lambda>i. in_WrapStreamingHandler i procedure) opts m)"

section \<open>The services\<close>

text \<open>What the constructor of a service returns: the path to mount it on, and its methods by procedure.\<close>

record ('o, 'm) mounted =
  mt_path :: string
  mt_opts :: 'o
  mt_table :: "(string \<times> 'm rpc) list"

subsection \<open>\<^verbatim>\<open>elara.auth.v1.AuthService\<close>\<close>

definition AuthServiceName :: string where "AuthServiceName = ''elara.auth.v1.AuthService''"
definition AuthServiceGetAuthInfoProcedure :: string where "AuthServiceGetAuthInfoProcedure = ''/elara.auth.v1.AuthService/GetAuthInfo''"
definition AuthServiceOIDCLoginProcedure :: string where "AuthServiceOIDCLoginProcedure = ''/elara.auth.v1.AuthService/OIDCLogin''"
definition AuthServiceOIDCCallbackProcedure :: string where "AuthServiceOIDCCallbackProcedure = ''/elara.auth.v1.AuthService/OIDCCallback''"
definition AuthServiceBasicLoginProcedure :: string where "AuthServiceBasicLoginProcedure = ''/elara.auth.v1.AuthService/BasicLogin''"

record 'm AuthServiceHandler =
  AuthServiceHandler_GetAuthInfo :: 'm
  AuthServiceHandler_OIDCLogin :: 'm
  AuthServiceHandler_OIDCCallback :: 'm
  AuthServiceHandler_BasicLogin :: 'm

definition NewAuthServiceHandler :: "'m AuthServiceHandler \<Rightarrow> 'o \<Rightarrow> ('o, 'm) mounted" where
  "NewAuthServiceHandler svc opts =
     \<lparr>mt_path = ''/elara.auth.v1.AuthService/'', mt_opts = opts,
      mt_table =
        [(AuthServiceGetAuthInfoProcedure, Unary (AuthServiceHandler_GetAuthInfo svc)),
         (AuthServiceOIDCLoginProcedure, Unary (AuthServiceHandler_OIDCLogin svc)),
         (AuthServiceOIDCCallbackProcedure, Unary (AuthServiceHandler_OIDCCallback svc)),
         (AuthServiceBasicLoginProcedure, Unary (AuthServiceHandler_BasicLogin svc))]\<rparr>"

subsection \<open>\<^verbatim>\<open>elara.capabilities.v1.CapabilitiesService\<close>\<close>

definition CapabilitiesServiceName :: string where "CapabilitiesServiceName = ''elara.capabilities.v1.CapabilitiesService''"
definition CapabilitiesServiceGetCapabilitiesProcedure :: string where "CapabilitiesServiceGetCapabilitiesProcedure = ''/elara.capabilities.v1.CapabilitiesService/GetCapabilities''"

record 'm CapabilitiesServiceHandler =
  CapabilitiesServiceHandler_GetCapabilities :: 'm

definition NewCapabilitiesServiceHandler :: "'m CapabilitiesServiceHandler \<Rightarrow> 'o \<Rightarrow> ('o, 'm) mounted" where
  "NewCapabilitiesServiceHandler svc opts =
     \<lparr>mt_path = ''/elara.capabilities.v1.CapabilitiesService/'', mt_opts = opts,
      mt_table =
        [(CapabilitiesServiceGetCapabilitiesProcedure, Unary (CapabilitiesServiceHandler_GetCapabilities svc))]\<rparr>"

subsection \<open>\<^verbatim>\<open>elara.clients.v1.ClientsService\<close>\<close>

definition ClientsServiceName :: string where "ClientsServiceName = ''elara.clients.v1.ClientsService''"
definition ClientsServiceListActiveClientsProcedure :: string where "ClientsServiceListActiveClientsProcedure = ''/elara.clients.v1.ClientsService/ListActiveClients''"
definition ClientsServiceGetClientProcedure :: string where "ClientsServiceGetClientProcedure = ''/elara.clients.v1.ClientsService/GetClient''"
definition ClientsServiceListHistoricalConnectionsProcedure :: string where "ClientsServiceListHistoricalConnectionsProcedure = ''/elara.clients.v1.ClientsService/ListHistoricalConnections''"
definition ClientsServiceListClientSessionsProcedure :: string where "ClientsServiceListClientSessionsProcedure = ''/elara.clients.v1.ClientsService/ListClientSessions''"
definition ClientsServiceWatchClientsProcedure :: string where "ClientsServiceWatchClientsProcedure = ''/elara.clients.v1.ClientsService/WatchClients''"
definition ClientsServiceWatchClientProcedure :: string where "ClientsServiceWatchClientProcedure = ''/elara.clients.v1.ClientsService/WatchClient''"

record 'm ClientsServiceHandler =
  ClientsServiceHandler_ListActiveClients :: 'm
  ClientsServiceHandler_GetClient :: 'm
  ClientsServiceHandler_ListHistoricalConnections :: 'm
  ClientsServiceHandler_ListClientSessions :: 'm
  ClientsServiceHandler_WatchClients :: 'm
  ClientsServiceHandler_WatchClient :: 'm

definition NewClientsServiceHandler :: "'m ClientsServiceHandler \<Rightarrow> 'o \<Rightarrow> ('o, 'm) mounted" where
  "NewClientsServiceHandler svc opts =
     \<lparr>mt_path = ''/elara.clients.v1.ClientsService/'', mt_opts = opts,
      mt_table =
        [(ClientsServiceListActiveClientsProcedure, Unary (ClientsServiceHandler_ListActiveClients svc)),
         (ClientsServiceGetClientProcedure, Unary (ClientsServiceHandler_GetClient svc)),
         (ClientsServiceListHistoricalConnectionsProcedure, Unary (ClientsServiceHandler_ListHistoricalConnections svc)),
         (ClientsServiceListClientSessionsProcedure, Unary (ClientsServiceHandler_ListClientSessions svc)),
         (ClientsServiceWatchClientsProcedure, ServerStream (ClientsServiceHandler_WatchClients svc)),
         (ClientsServiceWatchClientProcedure, ServerStream (ClientsServiceHandler_WatchClient svc))]\<rparr>"

subsection \<open>\<^verbatim>\<open>elara.config.v1.ConfigService\<close>\<close>

definition ConfigServiceName :: string where "ConfigServiceName = ''elara.config.v1.ConfigService''"
definition ConfigServiceCreateConfigProcedure :: string where "ConfigServiceCreateConfigProcedure = ''/elara.config.v1.ConfigService/CreateConfig''"
definition ConfigServiceGetConfigProcedure :: string where "ConfigServiceGetConfigProcedure = ''/elara.config.v1.ConfigService/GetConfig''"
definition ConfigServiceUpdateConfigProcedure :: string where "ConfigServiceUpdateConfigProcedure = ''/elara.config.v1.ConfigService/UpdateConfig''"
definition ConfigServiceDeleteConfigProcedure :: string where "ConfigServiceDeleteConfigProcedure = ''/elara.config.v1.ConfigService/DeleteConfig''"
definition ConfigServiceListConfigsProcedure :: string where "ConfigServiceListConfigsProcedure = ''/elara.config.v1.ConfigService/ListConfigs''"
definition ConfigServiceGetConfigHistoryProcedure :: string where "ConfigServiceGetConfigHistoryProcedure = ''/elara.config.v1.ConfigService/GetConfigHistory''"
definition ConfigServiceGetConfigAtRevisionProcedure :: string where "ConfigServiceGetConfigAtRevisionProcedure = ''/elara.config.v1.ConfigService/GetConfigAtRevision''"
definition ConfigServiceSearchConfigsProcedure :: string where "ConfigServiceSearchConfigsProcedure = ''/elara.config.v1.ConfigService/SearchConfigs''"
definition ConfigServiceCopyConfigProcedure :: string where "ConfigServiceCopyConfigProcedure = ''/elara.config.v1.ConfigService/CopyConfig''"
definition ConfigServiceValidateConfigProcedure :: string where "ConfigServiceValidateConfigProcedure = ''/elara.config.v1.ConfigService/ValidateConfig''"
definition ConfigServiceWatchConfigsProcedure :: string where "ConfigServiceWatchConfigsProcedure = ''/elara.config.v1.ConfigService/WatchConfigs''"
definition ConfigServiceGetConfigDiffProcedure :: string where "ConfigServiceGetConfigDiffProcedure = ''/elara.config.v1.ConfigService/GetConfigDiff''"
definition ConfigServiceLockConfigProcedure :: string where "ConfigServiceLockConfigProcedure = ''/elara.config.v1.ConfigService/LockConfig''"
definition ConfigServiceUnlockConfigProcedure :: string where "ConfigServiceUnlockConfigProcedure = ''/elara.config.v1.ConfigService/UnlockConfig''"

record 'm ConfigServiceHandler =
  ConfigServiceHandler_CreateConfig :: 'm
  ConfigServiceHandler_GetConfig :: 'm
  ConfigServiceHandler_UpdateConfig :: 'm
  ConfigServiceHandler_DeleteConfig :: 'm
  ConfigServiceHandler_ListConfigs :: 'm
  ConfigServiceHandler_GetConfigHistory :: 'm
  ConfigServiceHandler_GetConfigAtRevision :: 'm
  ConfigServiceHandler_SearchConfigs :: 'm
  ConfigServiceHandler_CopyConfig :: 'm
  ConfigServiceHandler_ValidateConfig :: 'm
  ConfigServiceHandler_WatchConfigs :: 'm
  ConfigServiceHandler_GetConfigDiff :: 'm
  ConfigServiceHandler_LockConfig :: 'm
  ConfigServiceHandler_UnlockConfig :: 'm

definition NewConfigServiceHandler :: "'m ConfigServiceHandler \<Rightarrow> 'o \<Rightarrow> ('o, 'm) mounted" where
  "NewConfigServiceHandler svc opts =
     \<lparr>mt_path = ''/elara.config.v1.ConfigService/'', mt_opts = opts,
      mt_table =
        [(ConfigServiceCreateConfigProcedure, Unary (ConfigServiceHandler_CreateConfig svc)),
         (ConfigServiceGetConfigProcedure, Unary (ConfigServiceHandler_GetConfig svc)),
         (ConfigServiceUpdateConfigProcedure, Unary (ConfigServiceHandler_UpdateConfig svc)),
         (ConfigServiceDeleteConfigProcedure, Unary (ConfigServiceHandler_DeleteConfig svc)),
         (ConfigServiceListConfigsProcedure, Unary (ConfigServiceHandler_ListConfigs svc)),
         (ConfigServiceGetConfigHistoryProcedure, Unary (ConfigServiceHandler_GetConfigHistory svc)),
         (ConfigServiceGetConfigAtRevisionProcedure, Unary (ConfigServiceHandler_GetConfigAtRevision svc)),
         (ConfigServiceSearchConfigsProcedure, Unary (ConfigServiceHandler_SearchConfigs svc)),
         (ConfigServiceCopyConfigProcedure, Unary (ConfigServiceHandler_CopyConfig svc)),
         (ConfigServiceValidateConfigProcedure, Unary (ConfigServiceHandler_ValidateConfig svc)),
         (ConfigServiceWatchConfigsProcedure, ServerStream (ConfigServiceHandler_WatchConfigs svc)),
         (ConfigServiceGetConfigDiffProcedure, Unary (ConfigServiceHandler_GetConfigDiff svc)),
         (ConfigServiceLockConfigProcedure, Unary (ConfigServiceHandler_LockConfig svc)),
         (ConfigServiceUnlockConfigProcedure, Unary (ConfigServiceHandler_UnlockConfig svc))]\<rparr>"

subsection \<open>\<^verbatim>\<open>elara.config.v1.SchemaService\<close>\<close>

definition SchemaServiceName :: string where "SchemaServiceName = ''elara.config.v1.SchemaService''"
definition SchemaServiceAttachSchemaProcedure :: string where "SchemaServiceAttachSchemaProcedure = ''/elara.config.v1.SchemaService/AttachSchema''"
definition SchemaServiceDetachSchemaProcedure :: string where "SchemaServiceDetachSchemaProcedure = ''/elara.config.v1.SchemaService/DetachSchema''"
definition SchemaServiceGetSchemaProcedure :: string where "SchemaServiceGetSchemaProcedure = ''/elara.config.v1.SchemaService/GetSchema''"
definition SchemaServiceGetEffectiveSchemaProcedure :: string where "SchemaServiceGetEffectiveSchemaProcedure = ''/elara.config.v1.SchemaService/GetEffectiveSchema''"
definition SchemaServiceListSchemasProcedure :: string where "SchemaServiceListSchemasProcedure = ''/elara.config.v1.SchemaService/ListSchemas''"

record 'm SchemaServiceHandler =
  SchemaServiceHandler_AttachSchema :: 'm
  SchemaServiceHandler_DetachSchema :: 'm
  SchemaServiceHandler_GetSchema :: 'm
  SchemaServiceHandler_GetEffectiveSchema :: 'm
  SchemaServiceHandler_ListSchemas :: 'm

definition NewSchemaServiceHandler :: "'m SchemaServiceHandler \<Rightarrow> 'o \<Rightarrow> ('o, 'm) mounted" where
  "NewSchemaServiceHandler svc opts =
     \<lparr>mt_path = ''/elara.config.v1.SchemaService/'', mt_opts = opts,
      mt_table =
        [(SchemaServiceAttachSchemaProcedure, Unary (SchemaServiceHandler_AttachSchema svc)),
         (SchemaServiceDetachSchemaProcedure, Unary (SchemaServiceHandler_DetachSchema svc)),
         (SchemaServiceGetSchemaProcedure, Unary (SchemaServiceHandler_GetSchema svc)),
         (SchemaServiceGetEffectiveSchemaProcedure, Unary (SchemaServiceHandler_GetEffectiveSchema svc)),
         (SchemaServiceListSchemasProcedure, Unary (SchemaServiceHandler_ListSchemas svc))]\<rparr>"

subsection \<open>\<^verbatim>\<open>elara.dashboard.v1.DashboardService\<close>\<close>

definition DashboardServiceName :: string where "DashboardServiceName = ''elara.dashboard.v1.DashboardService''"
definition DashboardServiceGetStatsProcedure :: string where "DashboardServiceGetStatsProcedure = ''/elara.dashboard.v1.DashboardService/GetStats''"
definition DashboardServiceListActivityProcedure :: string where "DashboardServiceListActivityProcedure = ''/elara.dashboard.v1.DashboardService/ListActivity''"

record 'm DashboardServiceHandler =
  DashboardServiceHandler_GetStats :: 'm
  DashboardServiceHandler_ListActivity :: 'm

definition NewDashboardServiceHandler :: "'m DashboardServiceHandler \<Rightarrow> 'o \<Rightarrow> ('o, 'm) mounted" where
  "NewDashboardServiceHandler svc opts =
     \<lparr>mt_path = ''/elara.dashboard.v1.DashboardService/'', mt_opts = opts,
      mt_table =
        [(DashboardServiceGetStatsProcedure, Unary (DashboardServiceHandler_GetStats svc)),
         (DashboardServiceListActivityProcedure, Unary (DashboardServiceHandler_ListActivity svc))]\<rparr>"

subsection \<open>\<^verbatim>\<open>elara.filter.v1.FilterService\<close>\<close>

definition FilterServiceName :: string where "FilterServiceName = ''elara.filter.v1.FilterService''"
definition FilterServiceGetNamespacesProcedure :: string where "FilterServiceGetNamespacesProcedure = ''/elara.filter.v1.FilterService/GetNamespaces''"
definition FilterServiceGetGroupsProcedure :: string where "FilterServiceGetGroupsProcedure = ''/elara.filter.v1.FilterService/GetGroups''"
definition FilterServiceGetUsersProcedure :: string where "FilterServiceGetUsersProcedure = ''/elara.filter.v1.FilterService/GetUsers''"
definition FilterServiceGetPermissionCatalogProcedure :: string where "FilterServiceGetPermissionCatalogProcedure = ''/elara.filter.v1.FilterService/GetPermissionCatalog''"

record 'm FilterServiceHandler =
  FilterServiceHandler_GetNamespaces :: 'm
  FilterServiceHandler_GetGroups :: 'm
  FilterServiceHandler_GetUsers :: 'm
  FilterServiceHandler_GetPermissionCatalog :: 'm

definition NewFilterServiceHandler :: "'m FilterServiceHandler \<Rightarrow> 'o \<Rightarrow> ('o, 'm) mounted" where
  "NewFilterServiceHandler svc opts =
     \<lparr>mt_path = ''/elara.filter.v1.FilterService/'', mt_opts = opts,
      mt_table =
        [(FilterServiceGetNamespacesProcedure, Unary (FilterServiceHandler_GetNamespaces svc)),
         (FilterServiceGetGroupsProcedure, Unary (FilterServiceHandler_GetGroups svc)),
         (FilterServiceGetUsersProcedure, Unary (FilterServiceHandler_GetUsers svc)),
         (FilterServiceGetPermissionCatalogProcedure, Unary (FilterServiceHandler_GetPermissionCatalog svc))]\<rparr>"

subsection \<open>\<^verbatim>\<open>elara.group.v1.GroupService\<close>\<close>

definition GroupServiceName :: string where "GroupServiceName = ''elara.group.v1.GroupService''"
definition GroupServiceCreateGroupProcedure :: string where "GroupServiceCreateGroupProcedure = ''/elara.group.v1.GroupService/CreateGroup''"
definition GroupServiceGetGroupProcedure :: string where "GroupServiceGetGroupProcedure = ''/elara.group.v1.GroupService/GetGroup''"
definition GroupServiceUpdateGroupProcedure :: string where "GroupServiceUpdateGroupProcedure = ''/elara.group.v1.GroupService/UpdateGroup''"
definition GroupServiceUpdateGroupMembersProcedure :: string where "GroupServiceUpdateGroupMembersProcedure = ''/elara.group.v1.GroupService/UpdateGroupMembers''"
definition GroupServiceUpdateGroupPermissionsProcedure :: string where "GroupServiceUpdateGroupPermissionsProcedure = ''/elara.group.v1.GroupService/UpdateGroupPermissions''"
definition GroupServiceDeleteGroupProcedure :: string where "GroupServiceDeleteGroupProcedure = ''/elara.group.v1.GroupService/DeleteGroup''"
definition GroupServiceListGroupsProcedure :: string where "GroupServiceListGroupsProcedure = ''/elara.group.v1.GroupService/ListGroups''"

record 'm GroupServiceHandler =
  GroupServiceHandler_CreateGroup :: 'm
  GroupServiceHandler_GetGroup :: 'm
  GroupServiceHandler_UpdateGroup :: 'm
  GroupServiceHandler_UpdateGroupMembers :: 'm
  GroupServiceHandler_UpdateGroupPermissions :: 'm
  GroupServiceHandler_DeleteGroup :: 'm
  GroupServiceHandler_ListGroups :: 'm

definition NewGroupServiceHandler :: "'m GroupServiceHandler \<Rightarrow> 'o \<Rightarrow> ('o, 'm) mounted" where
  "NewGroupServiceHandler svc opts =
     \<lparr>mt_path = ''/elara.group.v1.GroupService/'', mt_opts = opts,
      mt_table =
        [(GroupServiceCreateGroupProcedure, Unary (GroupServiceHandler_CreateGroup svc)),
         (GroupServiceGetGroupProcedure, Unary (GroupServiceHandler_GetGroup svc)),
         (GroupServiceUpdateGroupProcedure, Unary (GroupServiceHandler_UpdateGroup svc)),
         (GroupServiceUpdateGroupMembersProcedure, Unary (GroupServiceHandler_UpdateGroupMembers svc)),
         (GroupServiceUpdateGroupPermissionsProcedure, Unary (GroupServiceHandler_UpdateGroupPermissions svc)),
         (GroupServiceDeleteGroupProcedure, Unary (GroupServiceHandler_DeleteGroup svc)),
         (GroupServiceListGroupsProcedure, Unary (GroupServiceHandler_ListGroups svc))]\<rparr>"

subsection \<open>\<^verbatim>\<open>elara.namespace.v1.NamespaceService\<close>\<close>

definition NamespaceServiceName :: string where "NamespaceServiceName = ''elara.namespace.v1.NamespaceService''"
definition NamespaceServiceCreateNamespaceProcedure :: string where "NamespaceServiceCreateNamespaceProcedure = ''/elara.namespace.v1.NamespaceService/CreateNamespace''"
definition NamespaceServiceGetNamespaceProcedure :: string where "NamespaceServiceGetNamespaceProcedure = ''/elara.namespace.v1.NamespaceService/GetNamespace''"
definition NamespaceServiceUpdateNamespaceProcedure :: string where "NamespaceServiceUpdateNamespaceProcedure = ''/elara.namespace.v1.NamespaceService/UpdateNamespace''"
definition NamespaceServiceListNamespacesProcedure :: string where "NamespaceServiceListNamespacesProcedure = ''/elara.namespace.v1.NamespaceService/ListNamespaces''"
definition NamespaceServiceDeleteNamespaceProcedure :: string where "NamespaceServiceDeleteNamespaceProcedure = ''/elara.namespace.v1.NamespaceService/DeleteNamespace''"
definition NamespaceServiceLockNamespaceProcedure :: string where "NamespaceServiceLockNamespaceProcedure = ''/elara.namespace.v1.NamespaceService/LockNamespace''"
definition NamespaceServiceUnlockNamespaceProcedure :: string where "NamespaceServiceUnlockNamespaceProcedure = ''/elara.namespace.v1.NamespaceService/UnlockNamespace''"

record 'm NamespaceServiceHandler =
  NamespaceServiceHandler_CreateNamespace :: 'm
  NamespaceServiceHandler_GetNamespace :: 'm
  NamespaceServiceHandler_UpdateNamespace :: 'm
  NamespaceServiceHandler_ListNamespaces :: 'm
  NamespaceServiceHandler_DeleteNamespace :: 'm
  NamespaceServiceHandler_LockNamespace :: 'm
  NamespaceServiceHandler_UnlockNamespace :: 'm

definition NewNamespaceServiceHandler :: "'m NamespaceServiceHandler \<Rightarrow> 'o \<Rightarrow> ('o, 'm) mounted" where
  "NewNamespaceServiceHandler svc opts =
     \<lparr>mt_path = ''/elara.namespace.v1.NamespaceService/'', mt_opts = opts,
      mt_table =
        [(NamespaceServiceCreateNamespaceProcedure, Unary (NamespaceServiceHandler_CreateNamespace svc)),
         (NamespaceServiceGetNamespaceProcedure, Unary (NamespaceServiceHandler_GetNamespace svc)),
         (NamespaceServiceUpdateNamespaceProcedure, Unary (NamespaceServiceHandler_UpdateNamespace svc)),
         (NamespaceServiceListNamespacesProcedure, Unary (NamespaceServiceHandler_ListNamespaces svc)),
         (NamespaceServiceDeleteNamespaceProcedure, Unary (NamespaceServiceHandler_DeleteNamespace svc)),
         (NamespaceServiceLockNamespaceProcedure, Unary (NamespaceServiceHandler_LockNamespace svc)),
         (NamespaceServiceUnlockNamespaceProcedure, Unary (NamespaceServiceHandler_UnlockNamespace svc))]\<rparr>"

subsection \<open>\<^verbatim>\<open>elara.profile.v1.ProfileService\<close>\<close>

definition ProfileServiceName :: string where "ProfileServiceName = ''elara.profile.v1.ProfileService''"
definition ProfileServiceMeProcedure :: string where "ProfileServiceMeProcedure = ''/elara.profile.v1.ProfileService/Me''"
definition ProfileServiceChangePasswordProcedure :: string where "ProfileServiceChangePasswordProcedure = ''/elara.profile.v1.ProfileService/ChangePassword''"
definition ProfileServiceLogoutProcedure :: string where "ProfileServiceLogoutProcedure = ''/elara.profile.v1.ProfileService/Logout''"

record 'm ProfileServiceHandler =
  ProfileServiceHandler_Me :: 'm
  ProfileServiceHandler_ChangePassword :: 'm
  ProfileServiceHandler_Logout :: 'm

definition NewProfileServiceHandler :: "'m ProfileServiceHandler \<Rightarrow> 'o \<Rightarrow> ('o, 'm) mounted" where
  "NewProfileServiceHandler svc opts =
     \<lparr>mt_path = ''/elara.profile.v1.ProfileService/'', mt_opts = opts,
      mt_table =
        [(ProfileServiceMeProcedure, Unary (ProfileServiceHandler_Me svc)),
         (ProfileServiceChangePasswordProcedure, Unary (ProfileServiceHandler_ChangePassword svc)),
         (ProfileServiceLogoutProcedure, Unary (ProfileServiceHandler_Logout svc))]\<rparr>"

subsection \<open>\<^verbatim>\<open>elara.token.v1.TokenService\<close>\<close>

definition TokenServiceName :: string where "TokenServiceName = ''elara.token.v1.TokenService''"
definition TokenServiceCreateTokenProcedure :: string where "TokenServiceCreateTokenProcedure = ''/elara.token.v1.TokenService/CreateToken''"
definition TokenServiceListTokensProcedure :: string where "TokenServiceListTokensProcedure = ''/elara.token.v1.TokenService/ListTokens''"
definition TokenServiceGetTokenProcedure :: string where "TokenServiceGetTokenProcedure = ''/elara.token.v1.TokenService/GetToken''"
definition TokenServiceRevokeTokenProcedure :: string where "TokenServiceRevokeTokenProcedure = ''/elara.token.v1.TokenService/RevokeToken''"

record 'm TokenServiceHandler =
  TokenServiceHandler_CreateToken :: 'm
  TokenServiceHandler_ListTokens :: 'm
  TokenServiceHandler_GetToken :: 'm
  TokenServiceHandler_RevokeToken :: 'm

definition NewTokenServiceHandler :: "'m TokenServiceHandler \<Rightarrow> 'o \<Rightarrow> ('o, 'm) mounted" where
  "NewTokenServiceHandler svc opts =
     \<lparr>mt_path = ''/elara.token.v1.TokenService/'', mt_opts = opts,
      mt_table =
        [(TokenServiceCreateTokenProcedure, Unary (TokenServiceHandler_CreateToken svc)),
         (TokenServiceListTokensProcedure, Unary (TokenServiceHandler_ListTokens svc)),
         (TokenServiceGetTokenProcedure, Unary (TokenServiceHandler_GetToken svc)),
         (TokenServiceRevokeTokenProcedure, Unary (TokenServiceHandler_RevokeToken svc))]\<rparr>"

subsection \<open>\<^verbatim>\<open>elara.transfer.v1.TransferService\<close>\<close>

definition TransferServiceName :: string where "TransferServiceName = ''elara.transfer.v1.TransferService''"
definition TransferServiceExportNamespaceProcedure :: string where "TransferServiceExportNamespaceProcedure = ''/elara.transfer.v1.TransferService/ExportNamespace''"
definition TransferServiceExportAllProcedure :: string where "TransferServiceExportAllProcedure = ''/elara.transfer.v1.TransferService/ExportAll''"
definition TransferServiceImportNamespaceProcedure :: string where "TransferServiceImportNamespaceProcedure = ''/elara.transfer.v1.TransferService/ImportNamespace''"

record 'm TransferServiceHandler =
  TransferServiceHandler_ExportNamespace :: 'm
  TransferServiceHandler_ExportAll :: 'm
  TransferServiceHandler_ImportNamespace :: 'm

definition NewTransferServiceHandler :: "'m TransferServiceHandler \<Rightarrow> 'o \<Rightarrow> ('o, 'm) mounted" where
  "NewTransferServiceHandler svc opts =
     \<lparr>mt_path = ''/elara.transfer.v1.TransferService/'', mt_opts = opts,
      mt_table =
        [(TransferServiceExportNamespaceProcedure, Unary (TransferServiceHandler_ExportNamespace svc)),
         (TransferServiceExportAllProcedure, Unary (TransferServiceHandler_ExportAll svc)),
         (TransferServiceImportNamespaceProcedure, Unary (TransferServiceHandler_ImportNamespace svc))]\<rparr>"

subsection \<open>\<^verbatim>\<open>elara.user.v1.UserService\<close>\<close>

definition UserServiceName :: string where "UserServiceName = ''elara.user.v1.UserService''"
definition UserServiceListUsersProcedure :: string where "UserServiceListUsersProcedure = ''/elara.user.v1.UserService/ListUsers''"
definition UserServiceGetUserProcedure :: string where "UserServiceGetUserProcedure = ''/elara.user.v1.UserService/GetUser''"
definition UserServiceCreateUserProcedure :: string where "UserServiceCreateUserProcedure = ''/elara.user.v1.UserService/CreateUser''"
definition UserServiceResetUserPasswordProcedure :: string where "UserServiceResetUserPasswordProcedure = ''/elara.user.v1.UserService/ResetUserPassword''"
definition UserServiceDeleteUserProcedure :: string where "UserServiceDeleteUserProcedure = ''/elara.user.v1.UserService/DeleteUser''"
definition UserServiceUpdateUserGroupsProcedure :: string where "UserServiceUpdateUserGroupsProcedure = ''/elara.user.v1.UserService/UpdateUserGroups''"
definition UserServiceDeactivateUserProcedure :: string where "UserServiceDeactivateUserProcedure = ''/elara.user.v1.UserService/DeactivateUser''"
definition UserServiceReactivateUserProcedure :: string where "UserServiceReactivateUserProcedure = ''/elara.user.v1.UserService/ReactivateUser''"

record 'm UserServiceHandler =
  UserServiceHandler_ListUsers :: 'm
  UserServiceHandler_GetUser :: 'm
  UserServiceHandler_CreateUser :: 'm
  UserServiceHandler_ResetUserPassword :: 'm
  UserServiceHandler_DeleteUser :: 'm
  UserServiceHandler_UpdateUserGroups :: 'm
  UserServiceHandler_DeactivateUser :: 'm
  UserServiceHandler_ReactivateUser :: 'm

definition NewUserServiceHandler :: "'m UserServiceHandler \<Rightarrow> 'o \<Rightarrow> ('o, 'm) mounted" where
  "NewUserServiceHandler svc opts =
     \<lparr>mt_path = ''/elara.user.v1.UserService/'', mt_opts = opts,
      mt_table =
        [(UserServiceListUsersProcedure, Unary (UserServiceHandler_ListUsers svc)),
         (UserServiceGetUserProcedure, Unary (UserServiceHandler_GetUser svc)),
         (UserServiceCreateUserProcedure, Unary (UserServiceHandler_CreateUser svc)),
         (UserServiceResetUserPasswordProcedure, Unary (UserServiceHandler_ResetUserPassword svc)),
         (UserServiceDeleteUserProcedure, Unary (UserServiceHandler_DeleteUser svc)),
         (UserServiceUpdateUserGroupsProcedure, Unary (UserServiceHandler_UpdateUserGroups svc)),
         (UserServiceDeactivateUserProcedure, Unary (UserServiceHandler_DeactivateUser svc)),
         (UserServiceReactivateUserProcedure, Unary (UserServiceHandler_ReactivateUser svc))]\<rparr>"

subsection \<open>\<^verbatim>\<open>elara.webhook.v1.WebhookService\<close>\<close>

definition WebhookServiceName :: string where "WebhookServiceName = ''elara.webhook.v1.WebhookService''"
definition WebhookServiceCreateWebhookProcedure :: string where "WebhookServiceCreateWebhookProcedure = ''/elara.webhook.v1.WebhookService/CreateWebhook''"
definition WebhookServiceGetWebhookProcedure :: string where "WebhookServiceGetWebhookProcedure = ''/elara.webhook.v1.WebhookService/GetWebhook''"
definition WebhookServiceUpdateWebhookProcedure :: string where "WebhookServiceUpdateWebhookProcedure = ''/elara.webhook.v1.WebhookService/UpdateWebhook''"
definition WebhookServiceDeleteWebhookProcedure :: string where "WebhookServiceDeleteWebhookProcedure = ''/elara.webhook.v1.WebhookService/DeleteWebhook''"
definition WebhookServiceListWebhooksProcedure :: string where "WebhookServiceListWebhooksProcedure = ''/elara.webhook.v1.WebhookService/ListWebhooks''"
definition WebhookServiceGetDeliveryHistoryProcedure :: string where "WebhookServiceGetDeliveryHistoryProcedure = ''/elara.webhook.v1.WebhookService/GetDeliveryHistory''"

record 'm WebhookServiceHandler =
  WebhookServiceHandler_CreateWebhook :: 'm
  WebhookServiceHandler_GetWebhook :: 'm
  WebhookServiceHandler_UpdateWebhook :: 'm
  WebhookServiceHandler_DeleteWebhook :: 'm
  WebhookServiceHandler_ListWebhooks :: 'm
  WebhookServiceHandler_GetDeliveryHistory :: 'm

definition NewWebhookServiceHandler :: "'m WebhookServiceHandler \<Rightarrow> 'o \<Rightarrow> ('o, 'm) mounted" where
  "NewWebhookServiceHandler svc opts =
     \<lparr>mt_path = ''/elara.webhook.v1.WebhookService/'', mt_opts = opts,
      mt_table =
        [(WebhookServiceCreateWebhookProcedure, Unary (WebhookServiceHandler_CreateWebhook svc)),
         (WebhookServiceGetWebhookProcedure, Unary (WebhookServiceHandler_GetWebhook svc)),
         (WebhookServiceUpdateWebhookProcedure, Unary (WebhookServiceHandler_UpdateWebhook svc)),
         (WebhookServiceDeleteWebhookProcedure, Unary (WebhookServiceHandler_DeleteWebhook svc)),
         (WebhookServiceListWebhooksProcedure, Unary (WebhookServiceHandler_ListWebhooks svc)),
         (WebhookServiceGetDeliveryHistoryProcedure, Unary (WebhookServiceHandler_GetDeliveryHistory svc))]\<rparr>"

section \<open>The handlers of a deployment\<close>

text \<open>The handlers by service: those for users, groups and tokens exist in deployments with logins and with tokens only.\<close>

record 'm V2Handlers =
  v2_Config :: "'m ConfigServiceHandler"
  v2_Schema :: "'m SchemaServiceHandler"
  v2_Namespace :: "'m NamespaceServiceHandler"
  v2_Clients :: "'m ClientsServiceHandler"
  v2_Dashboard :: "'m DashboardServiceHandler"
  v2_Transfer :: "'m TransferServiceHandler"
  v2_Webhook :: "'m WebhookServiceHandler"
  v2_Filter :: "'m FilterServiceHandler"
  v2_Auth :: "'m AuthServiceHandler"
  v2_Profile :: "'m ProfileServiceHandler"
  v2_Users :: "'m UserServiceHandler option"
  v2_Groups :: "'m GroupServiceHandler option"
  v2_Tokens :: "'m TokenServiceHandler option"
  v2_Capabilities :: "'m CapabilitiesServiceHandler"

text \<open>The constructors of the handlers, as a set of handlers for every service.\<close>

record 'm handlerSet =
  hs_Config :: "'m ConfigServiceHandler"
  hs_Schema :: "'m SchemaServiceHandler"
  hs_Namespace :: "'m NamespaceServiceHandler"
  hs_Clients :: "'m ClientsServiceHandler"
  hs_Dashboard :: "'m DashboardServiceHandler"
  hs_Transfer :: "'m TransferServiceHandler"
  hs_Webhook :: "'m WebhookServiceHandler"
  hs_Filter :: "'m FilterServiceHandler"
  hs_Auth :: "'m AuthServiceHandler"
  hs_Profile :: "'m ProfileServiceHandler"
  hs_Users :: "'m UserServiceHandler"
  hs_Groups :: "'m GroupServiceHandler"
  hs_Tokens :: "'m TokenServiceHandler"
  hs_Capabilities :: "'m CapabilitiesServiceHandler"

definition NewV2Handlers :: "Settings \<Rightarrow> 'm handlerSet \<Rightarrow> 'm V2Handlers" where
  "NewV2Handlers cfg hs =
     \<lparr>v2_Config = hs_Config hs, v2_Schema = hs_Schema hs, v2_Namespace = hs_Namespace hs, v2_Clients = hs_Clients hs,
      v2_Dashboard = hs_Dashboard hs, v2_Transfer = hs_Transfer hs, v2_Webhook = hs_Webhook hs, v2_Filter = hs_Filter hs,
      v2_Auth = hs_Auth hs, v2_Profile = hs_Profile hs,
      v2_Users = (if \<not> uac_Enabled (ui_Auth (st_UI cfg)) then None else Some (hs_Users hs)),
      v2_Groups = (if \<not> uac_Enabled (ui_Auth (st_UI cfg)) then None else Some (hs_Groups hs)),
      v2_Tokens = (if cs_AuthEnabled (st_Client cfg) then Some (hs_Tokens hs) else None),
      v2_Capabilities = hs_Capabilities hs\<rparr>"

text \<open>The routes, in the order of their mounting; the session service is always there in a process.\<close>

definition V2Routes ::
  "env \<Rightarrow> authlib \<Rightarrow> randomness \<Rightarrow> ('q \<Rightarrow> connectError option) \<Rightarrow> Settings \<Rightarrow> ('q, 'a, 'z) rpcMethod V2Handlers
     \<Rightarrow> (('q, 'a, 'z) interceptor list, ('q, 'a, 'z) rpcMethod) mounted list" where
  "V2Routes E L R validate cfg handlers =
     (let sharedInterceptors = [NewRecoveryInterceptor, NewLoggingInterceptor, validateInterceptor validate];
          publicOpts = sharedInterceptors;
          privateOpts = sharedInterceptors @ [NewAuthInterceptor E L R (routesInterceptor cfg)]
      in [NewAuthServiceHandler (v2_Auth handlers) publicOpts,
          NewConfigServiceHandler (v2_Config handlers) privateOpts,
          NewNamespaceServiceHandler (v2_Namespace handlers) privateOpts,
          NewClientsServiceHandler (v2_Clients handlers) privateOpts,
          NewDashboardServiceHandler (v2_Dashboard handlers) privateOpts,
          NewTransferServiceHandler (v2_Transfer handlers) privateOpts,
          NewSchemaServiceHandler (v2_Schema handlers) privateOpts,
          NewWebhookServiceHandler (v2_Webhook handlers) privateOpts,
          NewProfileServiceHandler (v2_Profile handlers) privateOpts,
          NewCapabilitiesServiceHandler (v2_Capabilities handlers) privateOpts,
          NewFilterServiceHandler (v2_Filter handlers) privateOpts] @
         (case v2_Users handlers of None \<Rightarrow> [] | Some h \<Rightarrow> [NewUserServiceHandler h privateOpts]) @
         (case v2_Groups handlers of None \<Rightarrow> [] | Some h \<Rightarrow> [NewGroupServiceHandler h privateOpts]) @
         (case v2_Tokens handlers of None \<Rightarrow> [] | Some h \<Rightarrow> [NewTokenServiceHandler h privateOpts]))"

text \<open>
  A request: the server picks one of the mounted paths, the service looks its procedure up, and the method runs inside its
  interceptors in an empty context; None is the answer that nothing was found.
\<close>

definition emptyContext :: uctx where
  "emptyContext = \<lparr>ctx_tx = None, ctx_pending = False, ctx_claims = None, ctx_session = None, ctx_user = None\<rparr>"

definition serveAPI ::
  "(string list \<Rightarrow> string \<Rightarrow> string option) \<Rightarrow> (('q, 'a, 'z) interceptor list, ('q, 'a, 'z) rpcMethod) mounted list
     \<Rightarrow> string \<Rightarrow> 'q call \<Rightarrow> 'z rworld_scheme \<Rightarrow> 'a outcome option \<times> 'z rworld_scheme" where
  "serveAPI pick routes urlPath req w =
     (case pick (map mt_path routes) urlPath of
        None \<Rightarrow> (None, w)
      | Some mountPath \<Rightarrow>
          (case find (\<lambda>m. mt_path m = mountPath) routes of
             None \<Rightarrow> (None, w)
           | Some m \<Rightarrow>
               (case map_of (mt_table m) urlPath of
                  None \<Rightarrow> (None, w)
                | Some r \<Rightarrow>
                    (case NewHandler (mt_opts m) urlPath r emptyContext req w of (a, w') \<Rightarrow> (Some a, w')))))"

section \<open>The etcd server\<close>

text \<open>The interceptor of tokens around a method of the etcd server: a rejected call never reaches it.\<close>

type_synonym ('q, 'r, 'w) etcdMethod = "hctx \<Rightarrow> 'q \<Rightarrow> 'w \<Rightarrow> (unauthenticated + 'r) \<times> 'w"

definition Token_Unary ::
  "env \<Rightarrow> TokenInterceptor \<Rightarrow> string list option \<Rightarrow> string \<Rightarrow> ('q, 'r, 'z world_scheme) etcdMethod
     \<Rightarrow> ('q, 'r, 'z world_scheme) etcdMethod" where
  "Token_Unary E i md peerIP handler c req w =
     (case authenticate E (ti_skipPermissions i) md peerIP w of
        Inl e \<Rightarrow> (Inl e, w)
      | Inr (claims, _) \<Rightarrow> handler (WithClaims c claims) req w)"

definition Token_Stream ::
  "env \<Rightarrow> TokenInterceptor \<Rightarrow> string list option \<Rightarrow> string \<Rightarrow> ('q, 'r, 'z world_scheme) etcdMethod
     \<Rightarrow> ('q, 'r, 'z world_scheme) etcdMethod" where
  "Token_Stream E i md peerIP handler c req w =
     (case authenticate E (ti_skipPermissions i) md peerIP w of
        Inl e \<Rightarrow> (Inl e, w)
      | Inr (claims, _) \<Rightarrow> handler (WithClaims c claims) req w)"

fun etcdInterceptors ::
  "env \<Rightarrow> string list option \<Rightarrow> string \<Rightarrow> grpcOption list \<Rightarrow> ('q, 'r, 'z world_scheme) etcdMethod rpc
     \<Rightarrow> ('q, 'r, 'z world_scheme) etcdMethod" where
  "etcdInterceptors E md peerIP [] r = rpcMethod r"
| "etcdInterceptors E md peerIP (GRPC_UnaryInterceptor i # opts) (Unary m) =
     Token_Unary E i md peerIP (etcdInterceptors E md peerIP opts (Unary m))"
| "etcdInterceptors E md peerIP (GRPC_StreamInterceptor i # opts) (ServerStream m) =
     Token_Stream E i md peerIP (etcdInterceptors E md peerIP opts (ServerStream m))"
| "etcdInterceptors E md peerIP (_ # opts) r = etcdInterceptors E md peerIP opts r"

section \<open>What the interceptors let through\<close>

abbreviation privateOpts ::
  "env \<Rightarrow> authlib \<Rightarrow> randomness \<Rightarrow> ('q \<Rightarrow> connectError option) \<Rightarrow> AuthInterceptor \<Rightarrow> ('q, 'a, 'z) interceptor list" where
  "privateOpts E L R validate i \<equiv>
     [NewRecoveryInterceptor, NewLoggingInterceptor, validateInterceptor validate, NewAuthInterceptor E L R i]"

lemmas interceptor_defs = NewRecoveryInterceptor_def Recovery_WrapUnary_def Recovery_WrapStreamingHandler_def
  NewLoggingInterceptor_def Logging_WrapUnary_def Logging_WrapStreamingHandler_def validateInterceptor_def
  NewAuthInterceptor_def Auth_WrapUnary_def Auth_WrapStreamingHandler_def

text \<open>A call is refused, whatever the method is, or it passes with an authenticated context.\<close>

lemma private_call:
  assumes "NewHandler (privateOpts E L R validate i) p r c req w = (a, w')"
  obtains (refused) e where "a = Returns (Inl e)" "\<And>r'. NewHandler (privateOpts E L R validate i) p r' c req w = (a, w')"
  | (passed) c1 w1 where "authenticateRequest E L R i c (rq_Headers req) (w\<lparr>ticks := Suc (ticks w)\<rparr>) = (Inr c1, w1)"
      "checkPasswordChangeRequired c1 p = Inr ()"
proof -
  let ?w = "w\<lparr>ticks := Suc (ticks w)\<rparr>"
  obtain x w1 where auth: "authenticateRequest E L R i c (rq_Headers req) ?w = (x, w1)" by fastforce
  consider e where "validate (rq_Message req) = Some e" | e where "validate (rq_Message req) = None" "x = Inl e"
    | c1 e where "validate (rq_Message req) = None" "x = Inr c1" "checkPasswordChangeRequired c1 p = Inl e"
    | c1 where "x = Inr c1" "checkPasswordChangeRequired c1 p = Inr ()"
    by (cases "validate (rq_Message req)"; cases x) (auto, metis old.unit.exhaust sum.exhaust)
  then show thesis
  proof cases
    case 4
    with auth show ?thesis by (auto intro: passed)
  qed (use assms auth in \<open>auto intro!: refused simp: NewHandler_def interceptor_defs Let_def split: rpc.splits\<close>)
qed

lemma no_panic: "NewHandler (NewRecoveryInterceptor # opts) p r c req w \<noteq> (Panics x, w')"
  by (auto simp: NewHandler_def NewRecoveryInterceptor_def Recovery_WrapUnary_def Recovery_WrapStreamingHandler_def
      split: rpc.splits prod.splits outcome.splits)

section \<open>The shape of the routes\<close>

text \<open>Paths, interceptors and procedures do not depend on the handlers.\<close>

definition skeleton :: "('o, 'm) mounted \<Rightarrow> string \<times> 'o \<times> string list" where
  "skeleton m = (mt_path m, mt_opts m, map fst (mt_table m))"

lemmas service_defs = NewAuthServiceHandler_def NewConfigServiceHandler_def NewNamespaceServiceHandler_def NewClientsServiceHandler_def
  NewDashboardServiceHandler_def NewTransferServiceHandler_def NewSchemaServiceHandler_def NewWebhookServiceHandler_def
  NewProfileServiceHandler_def NewCapabilitiesServiceHandler_def NewFilterServiceHandler_def NewUserServiceHandler_def
  NewGroupServiceHandler_def NewTokenServiceHandler_def

lemma service_skeleton:
  "skeleton (NewAuthServiceHandler h opts) = skeleton (NewAuthServiceHandler h' opts)"
  "skeleton (NewConfigServiceHandler h1 opts) = skeleton (NewConfigServiceHandler h1' opts)"
  "skeleton (NewNamespaceServiceHandler h2 opts) = skeleton (NewNamespaceServiceHandler h2' opts)"
  "skeleton (NewClientsServiceHandler h3 opts) = skeleton (NewClientsServiceHandler h3' opts)"
  "skeleton (NewDashboardServiceHandler h4 opts) = skeleton (NewDashboardServiceHandler h4' opts)"
  "skeleton (NewTransferServiceHandler h5 opts) = skeleton (NewTransferServiceHandler h5' opts)"
  "skeleton (NewSchemaServiceHandler h6 opts) = skeleton (NewSchemaServiceHandler h6' opts)"
  "skeleton (NewWebhookServiceHandler h7 opts) = skeleton (NewWebhookServiceHandler h7' opts)"
  "skeleton (NewProfileServiceHandler h8 opts) = skeleton (NewProfileServiceHandler h8' opts)"
  "skeleton (NewCapabilitiesServiceHandler h9 opts) = skeleton (NewCapabilitiesServiceHandler h9' opts)"
  "skeleton (NewFilterServiceHandler ha opts) = skeleton (NewFilterServiceHandler ha' opts)"
  "skeleton (NewUserServiceHandler hb opts) = skeleton (NewUserServiceHandler hb' opts)"
  "skeleton (NewGroupServiceHandler hc opts) = skeleton (NewGroupServiceHandler hc' opts)"
  "skeleton (NewTokenServiceHandler he opts) = skeleton (NewTokenServiceHandler he' opts)"
  by (simp_all add: skeleton_def service_defs)

lemma service_opts:
  "mt_opts (NewConfigServiceHandler h1 opts) = opts" "mt_opts (NewNamespaceServiceHandler h2 opts) = opts"
  "mt_opts (NewClientsServiceHandler h3 opts) = opts" "mt_opts (NewDashboardServiceHandler h4 opts) = opts"
  "mt_opts (NewTransferServiceHandler h5 opts) = opts" "mt_opts (NewSchemaServiceHandler h6 opts) = opts"
  "mt_opts (NewWebhookServiceHandler h7 opts) = opts" "mt_opts (NewProfileServiceHandler h8 opts) = opts"
  "mt_opts (NewCapabilitiesServiceHandler h9 opts) = opts" "mt_opts (NewFilterServiceHandler ha opts) = opts"
  "mt_opts (NewUserServiceHandler hb opts) = opts" "mt_opts (NewGroupServiceHandler hc opts) = opts"
  "mt_opts (NewTokenServiceHandler he opts) = opts"
  by (simp_all add: service_defs)

lemma routes_skeleton:
  "map skeleton (V2Routes E L R validate cfg (NewV2Handlers cfg hs)) = map skeleton (V2Routes E L R validate cfg (NewV2Handlers cfg hs'))"
  by (auto simp: V2Routes_def NewV2Handlers_def Let_def intro: service_skeleton)

lemma find_skeleton:
  "map skeleton rs = map skeleton rs' \<Longrightarrow> find (\<lambda>m. mt_path m = p) rs = Some m \<Longrightarrow>
     \<exists>m'. find (\<lambda>m. mt_path m = p) rs' = Some m' \<and> skeleton m' = skeleton m"
proof (induction rs arbitrary: rs')
  case (Cons x rs)
  from Cons.prems(1) obtain x' rs1 where "rs' = x' # rs1" "skeleton x' = skeleton x" "map skeleton rs = map skeleton rs1"
    by (cases rs') simp_all
  moreover then have "mt_path x' = mt_path x" by (simp add: skeleton_def)
  ultimately show ?case using Cons by (auto split: if_splits)
qed simp

lemma map_of_keys: "map fst xs = map fst ys \<Longrightarrow> map_of xs k = Some v \<Longrightarrow> \<exists>v'. map_of ys k = Some v'"
  by (metis map_of_eq_None_iff not_None_eq list.set_map)

lemma find_route: "find (\<lambda>m. mt_path m = p) rs = Some m \<Longrightarrow> m \<in> set rs"
  by (metis find_Some_iff nth_mem)

lemma route_opts:
  assumes "m \<in> set (V2Routes E L R validate cfg handlers)"
  shows "mt_opts m = privateOpts E L R validate (routesInterceptor cfg) \<or>
    m = NewAuthServiceHandler (v2_Auth handlers) [NewRecoveryInterceptor, NewLoggingInterceptor, validateInterceptor validate]"
  using assms unfolding V2Routes_def Let_def
  by (cases "v2_Users handlers"; cases "v2_Groups handlers"; cases "v2_Tokens handlers") (auto simp: service_opts)

definition authProcedures :: "string list" where
  "authProcedures = [AuthServiceGetAuthInfoProcedure, AuthServiceOIDCLoginProcedure, AuthServiceOIDCCallbackProcedure,
     AuthServiceBasicLoginProcedure]"

lemma auth_table: "map fst (mt_table (NewAuthServiceHandler h opts)) = authProcedures"
  by (simp add: NewAuthServiceHandler_def authProcedures_def)

text \<open>A request that is answered went through a route, and whichever handlers are mounted, they sit on the same one.\<close>

lemma serveAPI_found:
  assumes "serveAPI pick (V2Routes E L R validate cfg (NewV2Handlers cfg hs)) urlPath req w = (Some a, w')"
  obtains m r where "m \<in> set (V2Routes E L R validate cfg (NewV2Handlers cfg hs))" "map_of (mt_table m) urlPath = Some r"
    "NewHandler (mt_opts m) urlPath r emptyContext req w = (a, w')"
    "\<forall>hs'. \<exists>r'. serveAPI pick (V2Routes E L R validate cfg (NewV2Handlers cfg hs')) urlPath req w =
        (case NewHandler (mt_opts m) urlPath r' emptyContext req w of (a', w1) \<Rightarrow> (Some a', w1))"
proof -
  let ?rs = "\<lambda>hs. V2Routes E L R validate cfg (NewV2Handlers cfg hs)"
  from assms obtain p m r where m: "pick (map mt_path (?rs hs)) urlPath = Some p" "find (\<lambda>m. mt_path m = p) (?rs hs) = Some m"
    "map_of (mt_table m) urlPath = Some r" "NewHandler (mt_opts m) urlPath r emptyContext req w = (a, w')"
    by (auto simp: serveAPI_def split: option.splits prod.splits)
  have same: "\<exists>r'. serveAPI pick (?rs hs') urlPath req w =
      (case NewHandler (mt_opts m) urlPath r' emptyContext req w of (a', w1) \<Rightarrow> (Some a', w1))" for hs'
  proof -
    note sk = routes_skeleton [of E L R validate cfg hs hs']
    have paths: "map mt_path (?rs hs') = map mt_path (?rs hs)"
      using arg_cong [OF sk [symmetric], of "map fst"] unfolding map_map comp_def skeleton_def fst_conv .
    obtain m' where m': "find (\<lambda>m. mt_path m = p) (?rs hs') = Some m'" "skeleton m' = skeleton m"
      using find_skeleton [OF sk m(2)] by blast
    then have "mt_opts m' = mt_opts m" "map fst (mt_table m') = map fst (mt_table m)" by (simp_all add: skeleton_def)
    moreover then obtain r' where "map_of (mt_table m') urlPath = Some r'" using map_of_keys m(3) by metis
    ultimately show ?thesis using m m' paths by (auto simp: serveAPI_def)
  qed
  show thesis by (rule that [OF find_route [OF m(2)] m(3,4)]) (use same in blast)
qed

text \<open>
  C29. No call of the structured API passes without a session. With any settings a process accepts that configure a login, and
  with any handlers, a call of a procedure outside the service for logging in is refused in the same way and with the same effects
  whatever the handlers are, so that none of them has run; or its session is valid, and it is the session of an active user,
  who need not change the password first unless the procedure is one of the three allowed for that. A panic of a handler never
  leaves the server.
\<close>

theorem private_api_guarded:
  fixes w :: "'z rworld_scheme" and hs :: "('q, 'a, 'z) rpcMethod handlerSet"
  assumes "NewConfig userHome loaded = Inr cfg" "uac_Type (ui_Auth (st_UI cfg)) \<noteq> AuthTypeNone" "user_inv L (buckets w)"
    and "urlPath \<notin> set authProcedures"
    and "serveAPI pick (V2Routes E L R validate cfg (NewV2Handlers cfg hs)) urlPath req w = (Some a, w')"
  shows "(\<forall>x. a \<noteq> Panics x) \<and>
    ((\<exists>e. a = Returns (Inl e) \<and>
        (\<forall>hs'. serveAPI pick (V2Routes E L R validate cfg (NewV2Handlers cfg hs')) urlPath req w = (Some a, w'))) \<or>
     (\<exists>s k m. fst (Sessions_Validate E (extractSessionID (rq_Headers req)) (w\<lparr>ticks := Suc (ticks w)\<rparr>)) = Inr s \<and>
        uuidParse L (ses_UserID s) = Some k \<and> userRow (buckets w) k = Some m \<and> umt_Status m = UserStatusActive \<and>
        (umt_PasswordChangeRequired m \<longrightarrow> urlPath \<in> set passwordChangeAllowedProcedures)))"
proof -
  let ?i = "routesInterceptor cfg" and ?w = "w\<lparr>ticks := Suc (ticks w)\<rparr>"
  have enforced: "\<not> ic_skipPermissions ?i" using login_enforced [OF assms(1,2)] by (simp add: routesInterceptor_def)
  obtain m r where m: "m \<in> set (V2Routes E L R validate cfg (NewV2Handlers cfg hs))" "map_of (mt_table m) urlPath = Some r"
    "NewHandler (mt_opts m) urlPath r emptyContext req w = (a, w')"
    "\<forall>hs'. \<exists>r'. serveAPI pick (V2Routes E L R validate cfg (NewV2Handlers cfg hs')) urlPath req w =
        (case NewHandler (mt_opts m) urlPath r' emptyContext req w of (a', w1) \<Rightarrow> (Some a', w1))"
    using assms(5) by (rule serveAPI_found)
  have "urlPath \<in> set (map fst (mt_table m))" using m(2) by (force dest: map_of_SomeD)
  with route_opts [OF m(1)] auth_table assms(4) have opts: "mt_opts m = privateOpts E L R validate ?i" by metis
  have "\<forall>x. a \<noteq> Panics x" using m(3) no_panic unfolding opts by metis
  moreover from m(3) [unfolded opts] have "(\<exists>e. a = Returns (Inl e) \<and>
        (\<forall>hs'. serveAPI pick (V2Routes E L R validate cfg (NewV2Handlers cfg hs')) urlPath req w = (Some a, w'))) \<or>
     (\<exists>s k m. fst (Sessions_Validate E (extractSessionID (rq_Headers req)) ?w) = Inr s \<and>
        uuidParse L (ses_UserID s) = Some k \<and> userRow (buckets w) k = Some m \<and> umt_Status m = UserStatusActive \<and>
        (umt_PasswordChangeRequired m \<longrightarrow> urlPath \<in> set passwordChangeAllowedProcedures))"
  proof (cases rule: private_call)
    case (refused e)
    with m(4) show ?thesis unfolding opts by (metis (mono_tags, lifting) case_prod_conv)
  next
    case (passed c1 w1)
    have inv: "user_inv L (buckets ?w)" using assms(3) by simp
    from passed(1) enforced inv obtain k u s where "userRow (buckets ?w) k = Some u" "umt_Status u = UserStatusActive"
      "c1 = WithSession emptyContext s (userOf L u)" "fst (Sessions_Validate E (extractSessionID (rq_Headers req)) ?w) = Inr s"
      "uuidParse L (ses_UserID s) = Some k" by (rule authenticateRequest_user)
    with passed(2) show ?thesis
      by (auto simp: checkPasswordChangeRequired_def UserFromContext_def WithSession_def AuthUserMetaToDomain_def split: if_splits)
  qed
  ultimately show ?thesis by blast
qed

text \<open>A route for the path of the configs' procedures, as the library picks it: the mounted path the request starts with.\<close>

definition mountedPrefix :: "string list \<Rightarrow> string \<Rightarrow> string option" where
  "mountedPrefix paths u = find (\<lambda>p. take (length p) u = p) paths"

definition anonymousCall :: "unit call" where
  "anonymousCall = \<lparr>rq_Headers = \<lparr>hd_Authorization = [], hd_Cookies = []\<rparr>, rq_Message = ()\<rparr>"

lemma config_call_served:
  "\<exists>a w'. serveAPI mountedPrefix (V2Routes E L R validate cfg handlers) ConfigServiceGetConfigProcedure req w = (Some a, w')"
  by (simp add: serveAPI_def V2Routes_def Let_def mountedPrefix_def NewAuthServiceHandler_def NewConfigServiceHandler_def
      ConfigServiceGetConfigProcedure_def ConfigServiceCreateConfigProcedure_def split: prod.splits)

lemma anonymous_no_session:
  "fst (Sessions_Validate sampleEnv (extractSessionID (rq_Headers anonymousCall)) ((userWorld False ''hpw'')\<lparr>ticks := n\<rparr>)) \<noteq> Inr s"
  by (simp add: Sessions_Validate_def Session_Get_def bindT_def readT_def extractSessionID_def anonymousCall_def boltGet_def
      bucket_Get_def userWorld_def userDB_def sessionWorld_def session_buckets user_buckets bucketGroups_def bucketPolicy_def
      hasPrefix_def split: sum.splits)

theorem private_api_guarded_witness:
  "\<exists>cfg. NewConfig None (Inr basicLoaded) = Inr cfg \<and>
     (\<forall>hs :: (uctx \<Rightarrow> unit call \<Rightarrow> (string list list \<times> string list list) pworld
                \<Rightarrow> unit outcome \<times> (string list list \<times> string list list) pworld) handlerSet. \<exists>e w'.
        serveAPI mountedPrefix (V2Routes sampleEnv sampleAuth sampleRand (\<lambda>_. None) cfg (NewV2Handlers cfg hs))
          ConfigServiceGetConfigProcedure anonymousCall (userWorld False ''hpw'') = (Some (Returns (Inl e)), w'))"
proof -
  let ?w = "userWorld False ''hpw''" and ?p = ConfigServiceGetConfigProcedure
  obtain cfg where cfg: "NewConfig None (Inr basicLoaded) = Inr cfg" "uac_Type (ui_Auth (st_UI cfg)) = AuthTypeBasicAuth"
    by (rule basicLoaded_accepted)
  have type: "uac_Type (ui_Auth (st_UI cfg)) \<noteq> AuthTypeNone" using cfg(2) by (simp add: AuthTypeNone_def AuthTypeBasicAuth_def)
  have inv: "user_inv sampleAuth (buckets ?w)" by (simp add: userWorld_def userDB_inv)
  have guarded: "?p \<notin> set authProcedures"
    by (simp add: authProcedures_def ConfigServiceGetConfigProcedure_def AuthServiceGetAuthInfoProcedure_def
        AuthServiceOIDCLoginProcedure_def AuthServiceOIDCCallbackProcedure_def AuthServiceBasicLoginProcedure_def)
  have "\<exists>e w'. serveAPI mountedPrefix (V2Routes sampleEnv sampleAuth sampleRand (\<lambda>_. None) cfg (NewV2Handlers cfg hs)) ?p
      anonymousCall ?w = (Some (Returns (Inl e)), w')"
    for hs :: "(uctx \<Rightarrow> unit call \<Rightarrow> (string list list \<times> string list list) pworld
                \<Rightarrow> unit outcome \<times> (string list list \<times> string list list) pworld) handlerSet"
  proof -
    obtain a w' where a: "serveAPI mountedPrefix (V2Routes sampleEnv sampleAuth sampleRand (\<lambda>_. None) cfg (NewV2Handlers cfg hs)) ?p
        anonymousCall ?w = (Some a, w')" using config_call_served by blast
    show ?thesis using private_api_guarded [OF cfg(1) type inv guarded a] anonymous_no_session a by blast
  qed
  with cfg(1) show ?thesis by blast
qed

text \<open>
  The same for the etcd server: with tokens configured, a call is refused whatever the method is, or it runs with the claims of a
  token that is stored and not expired.
\<close>

theorem etcd_api_guarded:
  fixes m :: "('q, 'r, 'z world_scheme) etcdMethod rpc"
  assumes "NewConfig userHome loaded = Inr cfg" "cs_AuthEnabled (st_Client cfg)"
  shows "(\<exists>e. \<forall>m. etcdInterceptors E md peerIP (etcdServerOptions cfg) m c req w = (Inl e, w)) \<or>
     (\<exists>raw token. extractBearerToken md = Inr raw \<and> Token_GetByHash (sha256hex E raw) w = Inr token \<and>
        \<not> Token_IsExpired token (clock E (ticks w)) \<and>
        etcdInterceptors E md peerIP (etcdServerOptions cfg) m c req w = rpcMethod m (WithClaims c (tokenClaims token)) req w)"
proof -
  let ?i = "\<lparr>ti_skipPermissions = False\<rparr>"
  have opts: "etcdInterceptors E md peerIP (etcdServerOptions cfg) m =
      Token_Unary E ?i md peerIP (rpcMethod m)" for m
    using tokens_enforced [OF assms] assms(2)
    by (cases m) (simp_all add: etcdServerOptions_def Let_def Token_Unary_def Token_Stream_def fun_eq_iff)
  show ?thesis
    unfolding opts Token_Unary_def
    by (auto simp: authenticate_def rejectOrBypass_def Let_def split: sum.splits unauthenticated.splits if_splits)
qed

end
