(* ===== verification/Spec2Isabelle.thy ===== *)
theory Spec2Isabelle
  imports WatchProps ServiceProps TokenProps UserProps ConfigListing SchemaService MonitorProps ApiProps OverviewApi Routes
begin

text \<open>
  A verification of Elara, a configuration server that keeps versioned configs in namespaces, in a
  bbolt file, and serves them over a structured API and over the etcd v3 API with watches.

  \<^bold>\<open>The program and the theories.\<close>

  \<^item> Shared vocabulary: \<open>Prelude\<close> (byte strings, 64-bit wrap-around, results, ordered association
    lists), \<open>Domain\<close> (\<^verbatim>\<open>internal/domain\<close>), \<open>Records\<close> (\<^verbatim>\<open>internal/storage/internal\<close> and the codecs of
    \<^verbatim>\<open>pkg/bbolt/codec.go\<close>).
  \<^item> The transaction layer: \<open>Bolt\<close> (\<^verbatim>\<open>pkg/bbolt\<close>). The state is a map from bucket names to ordered
    key-value lists and a clock; every engine call may fail, as the environment decides; \<open>WithTx\<close>
    restores the buckets on an error.
  \<^item> The config repository: \<open>Keys\<close>, \<open>ConfigRepo\<close>, \<open>ConfigReads\<close>, \<open>ConfigKV\<close> and \<open>Store\<close>
    (\<^verbatim>\<open>internal/storage/bbolt/config\<close> and \<^verbatim>\<open>store.go\<close>). One definition per Go function.
  \<^item> Proofs about it: \<open>RepoInv\<close> (the invariant \<open>repo_inv\<close>), \<open>RepoOps\<close> (the effects of the writes, the
    abstract multi-version store \<open>mvcc\<close> and the abstraction \<open>absOf\<close>), \<open>RepoRange\<close>, \<open>RepoReads\<close>, \<open>RepoLocks\<close>,
    \<open>RepoSpecs\<close> (full contracts), \<open>RepoSteps\<close> (runs of operations as a step relation), \<open>RepoViews\<close>,
    \<open>Samples\<close>, and the properties C1, C4, C5, C7 to C9, C11, C12 and C14 in \<open>RepoProps\<close>.
  \<^item> Validation: \<open>Schemas\<close> (\<^verbatim>\<open>service/content\<close>, \<^verbatim>\<open>service/schemavalidator\<close>, the schema repository); the
    parsers and the JSON-Schema compiler are parameters (\<open>ext\<close>). Facts in \<open>SchemaProps\<close>.
  \<^item> Events and namespaces: \<open>WatchHub\<close> (\<^verbatim>\<open>transport/watch/publisher.go\<close>), \<open>NamespaceRepo\<close> (the
    namespace repository and use case).
  \<^item> The config use case: \<open>ConfigService\<close> (\<^verbatim>\<open>kv_events.go\<close>, \<^verbatim>\<open>service_kv.go\<close>, \<^verbatim>\<open>service_txn.go\<close>) and
    \<open>ConfigCrud\<close> (create, update, delete, copy, history, validation). \<open>ServiceFrame\<close> is the interface between
    storage and service: a locale of observations of the state that storage keeps, interpreted for
    the publisher, the collector and the caches. \<open>TxnSpec\<close> and \<open>TxnCas\<close> prove the
    refinement of transactions. \<open>ConfigListing\<close> has the listings, the search and the diff, with the search
    confined to the caller's scope and the listing accounting for every config; \<open>SchemaService\<close> is
    \<^verbatim>\<open>usecase/schema\<close>, whose choice of a schema is shown to be the validator's; properties C17 to C19 and C21 in \<open>ServiceProps\<close>.
  \<^item> The etcd API: \<open>EtcdKeys\<close> (\<^verbatim>\<open>keyencoding.go\<close>, \<^verbatim>\<open>access.go\<close>), \<open>EtcdKV\<close> (\<^verbatim>\<open>kv_server.go\<close>, \<^verbatim>\<open>kv_txn.go\<close>, \<^verbatim>\<open>cluster_server.go\<close>, \<^verbatim>\<open>maintenance_server.go\<close>),
    \<open>EtcdWatch\<close> (\<^verbatim>\<open>watch_server.go\<close>). Proofs in \<open>EtcdProofs\<close>, \<open>WatchProofs\<close> (with the locale of strict weak
    orders behind the sort of responses) and \<open>WatchStream\<close>; properties C24 to C26 in \<open>EtcdProps\<close> and C30 to
    C34 in \<open>WatchProps\<close>.
  \<^item> Identity: \<open>AuthDomain\<close> (sessions, tokens, groups, permissions, users and webhooks of \<^verbatim>\<open>internal/domain\<close>), \<open>Listing\<close> (sorting
    and pagination that the repositories share), \<open>Sessions\<close> (\<^verbatim>\<open>storage/bbolt/session\<close> and
    \<^verbatim>\<open>service/auth/sessions\<close>; the random source is a parameter that may fail). \<open>SessionProofs\<close> has the
    invariant of the rows and the step relation of the service; properties C35 and C36 in \<open>SessionProps\<close>.
  \<^item> Authorisation: \<open>GroupRepo\<close> (\<^verbatim>\<open>storage/bbolt/group\<close>, \<^verbatim>\<open>util/sliceutil\<close>), \<open>Policies\<close> (the rule store
    \<^verbatim>\<open>storage/bbolt/policy\<close>, the enforcer of \<^verbatim>\<open>service/auth/casbin\<close> with its rules in memory and the record
    of a transaction, and the decision and administration points of \<^verbatim>\<open>service/authz\<close>) and \<open>GroupService\<close>
    (\<^verbatim>\<open>usecase/group\<close> and the permission catalogue). The casbin library and the JSON text of a list of strings
    are records of functions; \<open>PolicyProofs\<close> states what is relied on (\<open>casbin_documented\<close>, \<open>json_ok\<close>) and shows
    that the administration operations record what they store; properties C38 to C40 in \<open>PolicyProps\<close>.
  \<^item> Tokens: \<open>Tokens\<close> (\<^verbatim>\<open>storage/bbolt/token\<close>, \<^verbatim>\<open>usecase/token\<close>, and the interceptor of the etcd API,
    \<^verbatim>\<open>handler/etcdv3/interceptor\<close>). The invariant of the two buckets and properties C3 and C23 are in
    \<open>TokenProps\<close>.
  \<^item> Users: \<open>AuthDomain\<close> and \<open>Emails\<close> (\<^verbatim>\<open>domain/user.go\<close>, \<^verbatim>\<open>identity.go\<close>, \<^verbatim>\<open>email.go\<close>), \<open>UserRepo\<close>
    (\<^verbatim>\<open>storage/bbolt/user\<close>), \<open>Login\<close> (\<^verbatim>\<open>service/auth/users.go\<close>, the client of the identity provider \<^verbatim>\<open>oidc.go\<close>, \<^verbatim>\<open>usecase/auth\<close>, \<^verbatim>\<open>usecase/profile\<close>),
    \<open>Bootstrap\<close> (\<^verbatim>\<open>service/auth/bootstrap.go\<close>) and \<open>UserAdmin\<close> (\<^verbatim>\<open>usecase/user\<close>). Unicode normalisation, UUIDs,
    bcrypt and the order of Go's map ranges are the record \<open>authlib\<close>, with what is documented of them in
    \<open>authlib_documented\<close>; the OpenID Connect and OAuth2 libraries are the record \<open>oidcLib\<close>. \<open>UserProofs\<close> has the invariant \<open>user_inv\<close> of the
    rows and the two indexes and the effect of each write, \<open>UserSteps\<close> the runs of all operations, \<open>LoginProofs\<close> the
    effects of logins; properties C16, C20, C27 and C37 in \<open>UserProps\<close>.
  \<^item> Webhooks: \<open>AuthDomain\<close> (\<^verbatim>\<open>domain/webhook.go\<close>: validation and the match of an event) and \<open>Webhooks\<close>
    (\<^verbatim>\<open>storage/bbolt/webhook\<close>, \<^verbatim>\<open>usecase/webhook\<close>, and deliveries with retries and histories of
    \<^verbatim>\<open>transport/webhook/dispatcher.go\<close>). The URI parser, the JSON body, the signature and the HTTP exchange are
    parameters. \<open>Dispatcher\<close> has the goroutines of the dispatcher as a step relation: the loop of \<^verbatim>\<open>Run\<close>, one goroutine per
    event and one per delivery, the semaphore, the wait group and \<^verbatim>\<open>Shutdown\<close>, with every interleaving; properties C6 and C10.
  \<^item> Requests: \<open>Requests\<close> (the context \<^verbatim>\<open>authctx/context.go\<close>, the session interceptor, status codes and page parameters of
    \<^verbatim>\<open>handler/v2\<close>).
  \<^item> The structured API: \<open>ConfigApi\<close> (\<^verbatim>\<open>handler/v2/config\<close>, and the switch over the procedures of the config service), \<open>ResourceApi\<close>
    (\<^verbatim>\<open>namespace\<close>, \<^verbatim>\<open>webhook\<close>, \<^verbatim>\<open>token\<close>, \<^verbatim>\<open>transfer\<close>), \<open>AdminApi\<close> (\<^verbatim>\<open>permission\<close>, \<^verbatim>\<open>group\<close>, \<^verbatim>\<open>user\<close>, \<^verbatim>\<open>profile\<close>, \<^verbatim>\<open>auth\<close>, \<^verbatim>\<open>sessions\<close>,
    \<^verbatim>\<open>capabilities\<close>) and \<open>OverviewApi\<close> (\<^verbatim>\<open>clients\<close>, \<^verbatim>\<open>filter\<close>, \<^verbatim>\<open>dashboard\<close>): the gate, the message, the use case and the answer of
    each call. \<open>ApiProps\<close> follows which rows an operation may write through storage, use cases and handlers, and has property C13.
  \<^item> The monitor: \<open>ClientMonitor\<close> (\<^verbatim>\<open>service/monitor\<close>: publisher and registry of connections, and the gRPC statistics of
    \<^verbatim>\<open>transport/grpc\<close>) and \<open>ClientHistory\<close> (\<^verbatim>\<open>storage/bbolt/client_history\<close>, \<^verbatim>\<open>monitor/history.go\<close>). \<open>MonitorProps\<close> states what the
    clients did as a specification state (\<open>monitorSpec\<close>) and has the simulation and the properties C2 and C15.
  \<^item> Bundles: \<open>Bundles\<close> (\<^verbatim>\<open>usecase/transfer\<close>, \<^verbatim>\<open>domain/bundle.go\<close>, \<^verbatim>\<open>util/archive\<close>). The encoders and the zip format are the record
    \<open>bundleLib\<close>, with what is relied on in \<open>bundle_documented\<close>. \<open>BundleProofs\<close> has the listing of a namespace and the effect of an
    import; property C28 in \<open>BundleProps\<close>.
  \<^item> Overviews: \<open>Overviews\<close> (\<^verbatim>\<open>usecase/clients\<close>, \<^verbatim>\<open>usecase/filter\<close>, \<^verbatim>\<open>usecase/dashboard\<close>).
  \<^item> The process: \<open>Demo\<close> (\<^verbatim>\<open>usecase/demo\<close>), \<open>Server\<close> (\<^verbatim>\<open>di/config\<close>, \<^verbatim>\<open>cmd/service\<close>, \<^verbatim>\<open>di/service\<close>, \<^verbatim>\<open>internal/cli\<close> and the static files of \<^verbatim>\<open>handler/ui\<close>), with
    property C22, and \<open>Routes\<close> (the services of the generated code with their procedures, the interceptors for panics, logs and sessions,
    and the routes of \<^verbatim>\<open>di/service/handler.go\<close>), with property C29 for any handlers.
  \<^item> Utilities: \<open>RingBuffer\<close> (\<^verbatim>\<open>util/ringbuffer\<close>), with the locale of a log that keeps its newest entries and the
    interpretation of the circular array in it.

  \<^bold>\<open>What the theorems show.\<close> Transactions of the manager are atomic under any engine failure (C1).
  Opening a file establishes the invariant or keeps it. Each repository operation is described on
  every branch and refines the multi-version store (C4, C5, C7 to C9). In every reachable state
  the invariant holds, past reads are stable, the revision advances, and locked configs are frozen
  (C11, C12, C14). A call of the config service changes rows of namespaces that its caller may write and of no other (C13). The service's transactions are atomic, refine the abstract store and publish what they
  wrote, and give compare-and-swap (C17 to C19). Cached validation is fresh validation (C21),
  with the best matching schema. The etcd keys round-trip, tokens without the writer role change
  nothing, transactions are authorised exactly (C24 to C26). A watch is
  filtered without loss, replays completely, delivers in order, and leaves no subscription behind
  (C30 to C32). The dispatcher of webhooks keeps its books in every interleaving (C6) and its shutdown ends (C10), though it may
  return before an event that is still waiting. The settings of a process are coherent (C22), and with a login no
  call of the structured API passes without a session (C29). C33 and C34 prove two defects: events of one revision are dropped, and an unbounded
  deletion escapes the scope of its token. Revoked sessions stay revoked, and sessions end within thirty days
  of their creation (C35, C36). The user directory and its indexes agree after any run (C16), a login by the identity
  provider takes over no account (C20), and deactivation ends every access of the user (C37); the bootstrap for
  passwords can lock the administrator out (C27). Group
  administration keeps the rules in memory equal to the stored ones and grants nothing the actor does not
  hold (C38, C39); deleting a group leaves its permissions in the store (C40).
  The monitor's counts are what the clients did (C2), but the history of clients is neither shown nor bounded (C15). A namespace
  that is exported and imported is the same namespace (C28).
  An issued token authenticates within the rights of its issuer (C23); a token revoked while a request records
  its use can return (C3).

  \<^bold>\<open>Bounds and fuel.\<close> Revisions and versions are 64-bit with wrap-around written out (\<open>wrap64\<close>);
  theorems that need it assume \<open>room\<close>, that the revision counter is not at its end. Only the replay loop
  has fuel, one unit per batch; C31 shows that one more unit than there are changes suffices. All other
  loops are structural.

  \<^bold>\<open>Not modelled.\<close> Outside the dispatcher, goroutines are sequences: a stream is the list of its requests, a subscription's
  delivery the list of its events. A time is the same value in a message as in the domain, and the
  constraints that the message schema puts on requests are a parameter of the routes and not used otherwise. Lines of logs, the exporters of telemetry,
  the handling of signals, the constructors that only pass references along and the accessors, descriptors and clients of the generated code
  are not modelled: they keep no state of the program. The sample programs and the front end are not part of the server.
  Error texts are kept only where a caller inspects them.
\<close>

end
